(* ===== verification/Xcnf_Prelude.thy ===== *)
theory Xcnf_Prelude
  imports Main "HOL-Library.Word" "HOL-Library.Monad_Syntax" "HOL-Library.Sublist"
begin

text \<open>
  Shared vocabulary of the development: the machine integer types of the C and Go
  sources, little- and big-endian byte codecs on them, loads and stores in a byte
  buffer, queues that may refuse, and the collections \<open>bytes_simps\<close> and \<open>wire_defs\<close> that the component proofs
  pass to the simplifier.
\<close>

unbundle bit_operations_syntax

type_synonym u8 = "8 word"
type_synonym u16 = "16 word"
type_synonym u32 = "32 word"
type_synonym u64 = "64 word"
type_synonym bytes = "u8 list"

named_theorems bytes_simps \<open>evaluation of byte codecs, loads and stores\<close>
named_theorems wire_defs \<open>definitions of offsets, sizes and protocol constants\<close>

section \<open>Byte codecs\<close>

fun le_word :: "bytes \<Rightarrow> 'a::len word" where
  "le_word [] = 0"
| "le_word (b # bs) = ucast b OR push_bit 8 (le_word bs)"

fun le_bytes :: "nat \<Rightarrow> 'a::len word \<Rightarrow> bytes" where
  "le_bytes 0 w = []"
| "le_bytes (Suc n) w = ucast w # le_bytes n (drop_bit 8 w)"

definition be_word :: "bytes \<Rightarrow> 'a::len word" where
  "be_word bs = le_word (rev bs)"

definition be_bytes :: "nat \<Rightarrow> 'a::len word \<Rightarrow> bytes" where
  "be_bytes n w = rev (le_bytes n w)"

lemma length_le_bytes [simp]: "length (le_bytes n w) = n"
  by (induction n arbitrary: w) auto

lemma length_be_bytes [simp]: "length (be_bytes n w) = n"
  by (simp add: be_bytes_def)

lemma bit_le_word:
  "bit (le_word bs :: 'a::len word) i \<longleftrightarrow>
     i < LENGTH('a) \<and> i div 8 < length bs \<and> bit (bs ! (i div 8)) (i mod 8)"
proof (induction bs arbitrary: i)
  case Nil
  then show ?case by simp
next
  case (Cons b bs)
  show ?case
  proof (cases "i < 8")
    case True
    then show ?thesis by (auto simp: bit_simps)
  next
    case False
    then have i: "i div 8 = Suc ((i - 8) div 8)" "i mod 8 = (i - 8) mod 8"
      by (simp_all add: le_div_geq le_mod_geq)
    have "\<not> bit b i" using False bit_imp_le_length [of b i] by auto
    with False i show ?thesis
      by (auto simp: bit_simps Cons.IH)
  qed
qed

lemma nth_le_bytes:
  "i < n \<Longrightarrow> le_bytes n w ! i = (ucast (drop_bit (8 * i) w) :: u8)"
proof (induction n arbitrary: w i)
  case 0
  then show ?case by simp
next
  case (Suc n)
  then show ?case by (cases i) (auto simp: algebra_simps)
qed

theorem le_word_le_bytes:
  fixes w :: "'a::len word"
  assumes "LENGTH('a) \<le> 8 * n"
  shows "le_word (le_bytes n w) = w"
proof (rule bit_word_eqI)
  fix i assume "i < LENGTH('a)"
  with assms have "i div 8 < n" by auto
  with \<open>i < LENGTH('a)\<close> show "bit (le_word (le_bytes n w) :: 'a word) i = bit w i"
    by (simp add: bit_le_word nth_le_bytes bit_simps)
qed

theorem le_bytes_le_word:
  assumes "length bs = n" and "8 * n \<le> LENGTH('a::len)"
  shows "le_bytes n (le_word bs :: 'a word) = bs"
proof (rule nth_equalityI)
  show "length (le_bytes n (le_word bs :: 'a word)) = length bs"
    using assms by simp
next
  fix i assume "i < length (le_bytes n (le_word bs :: 'a word))"
  then have i: "i < n" by simp
  show "le_bytes n (le_word bs :: 'a word) ! i = bs ! i"
  proof (rule bit_word_eqI)
    fix j assume j: "j < LENGTH(8)"
    have "8 * i + j < LENGTH('a)" using i j assms(2) by simp
    then show "bit (le_bytes n (le_word bs :: 'a word) ! i) j = bit (bs ! i) j"
      using i j assms(1) by (simp add: nth_le_bytes bit_simps bit_le_word)
  qed
qed

lemma be_word_be_bytes: "LENGTH('a) \<le> 8 * n \<Longrightarrow> be_word (be_bytes n w) = (w :: 'a::len word)"
  by (simp add: be_word_def be_bytes_def le_word_le_bytes)

lemma be_bytes_be_word:
  "length bs = n \<Longrightarrow> 8 * n \<le> LENGTH('a::len) \<Longrightarrow> be_bytes n (be_word bs :: 'a word) = bs"
  by (simp add: be_word_def be_bytes_def le_bytes_le_word)

lemmas le_word_round [bytes_simps] =
  le_word_le_bytes [where 'a = 16 and n = 2, simplified]
  le_word_le_bytes [where 'a = 32 and n = 4, simplified]
  le_word_le_bytes [where 'a = 64 and n = 8, simplified]
  be_word_be_bytes [where 'a = 16 and n = 2, simplified]

section \<open>Byte buffers: slices, loads and stores\<close>

definition slice :: "nat \<Rightarrow> nat \<Rightarrow> 'a list \<Rightarrow> 'a list" where
  "slice off n xs = take n (drop off xs)"

lemma length_slice [simp]: "off + n \<le> length xs \<Longrightarrow> length (slice off n xs) = n"
  by (simp add: slice_def)

lemma nth_slice: "off + n \<le> length xs \<Longrightarrow> i < n \<Longrightarrow> slice off n xs ! i = xs ! (off + i)"
  by (simp add: slice_def)

lemma slice_nth_conv:
  "off + n \<le> length xs \<Longrightarrow> slice off n xs = map (\<lambda>i. xs ! (off + i)) [0..<n]"
  by (rule nth_equalityI) (simp_all add: nth_slice)

text \<open>
  A store overwrites \<open>length v\<close> bytes of the object at an offset; a store that leaves the
  object has no result.
\<close>

definition store :: "nat \<Rightarrow> bytes \<Rightarrow> bytes \<Rightarrow> bytes option" where
  "store off v buf =
     (if off + length v \<le> length buf
      then Some (take off buf @ v @ drop (off + length v) buf) else None)"

definition load :: "nat \<Rightarrow> nat \<Rightarrow> bytes \<Rightarrow> bytes option" where
  "load off n buf = (if off + n \<le> length buf then Some (slice off n buf) else None)"

lemma store_Some_iff:
  "store off v buf = Some buf' \<longleftrightarrow>
     off + length v \<le> length buf \<and> buf' = take off buf @ v @ drop (off + length v) buf"
  by (auto simp: store_def)

lemma length_store: "store off v buf = Some buf' \<Longrightarrow> length buf' = length buf"
  by (auto simp: store_def split: if_splits)

lemma store_same: "store off v buf = Some buf' \<Longrightarrow> slice off (length v) buf' = v"
  by (auto simp: store_def slice_def split: if_splits)

lemma nth_store:
  assumes "store off v buf = Some buf'" and "i < length buf"
  shows "buf' ! i = (if off \<le> i \<and> i < off + length v then v ! (i - off) else buf ! i)"
  using assms by (auto simp: store_Some_iff nth_append min_def)

lemma store_other:
  assumes "store off v buf = Some buf'" and "i + n \<le> length buf"
    and "i + n \<le> off \<or> off + length v \<le> i"
  shows "slice i n buf' = slice i n buf"
proof (rule nth_equalityI)
  show "length (slice i n buf') = length (slice i n buf)"
    using assms length_store [OF assms(1)] by simp
next
  fix j assume "j < length (slice i n buf')"
  then have "j < n" using assms length_store [OF assms(1)] by simp
  then show "slice i n buf' ! j = slice i n buf ! j"
    using assms length_store [OF assms(1)] by (auto simp: nth_slice nth_store [OF assms(1)])
qed

section \<open>Queues that may refuse\<close>

text \<open>What may come out of a queue: all of what went in, or a part of it when it can be full.\<close>

definition carried :: "bool \<Rightarrow> 'a list \<Rightarrow> 'a list \<Rightarrow> bool" where
  "carried lossless xs ys \<longleftrightarrow> (if lossless then xs = ys else subseq xs ys)"

lemma carried_Nil: "carried b [] []"
  by (simp add: carried_def)

lemma carried_True [simp]: "carried True xs ys \<longleftrightarrow> xs = ys"
  by (simp add: carried_def)

lemma carried_accept: "carried b xs ys \<Longrightarrow> carried b (xs @ [x]) (ys @ [x])"
  by (auto simp: carried_def intro: list_emb_append_mono)

lemma carried_refuse: "carried b xs ys \<Longrightarrow> \<not> b \<Longrightarrow> carried b xs (ys @ [y])"
  by (auto simp: carried_def intro: list_emb_append2)

lemma carried_set: "carried b xs ys \<Longrightarrow> set xs \<subseteq> set ys"
  by (auto simp: carried_def dest: list_emb_set split: if_splits)

end
