(* ===== verification/Bpf.thy ===== *)
theory Bpf
  imports Xcnf_Prelude
begin

text \<open>
  What every eBPF program of the repository runs against: the context of a packet hook
  with its packet memory, byte loads from it, the verdict constants, and the contract
  \<open>bpf_hook\<close> that all five programs meet (they never fault and always let the traffic
  pass).
\<close>

section \<open>Verdicts and protocol numbers\<close>

definition TC_ACT_OK :: u32 where "TC_ACT_OK = 0"
definition NETKIT_PASS :: u32 where "NETKIT_PASS = 0"
definition XDP_PASS :: u32 where "XDP_PASS = 2"
definition PACKET_BROADCAST :: u32 where "PACKET_BROADCAST = 1"
definition PACKET_MULTICAST :: u32 where "PACKET_MULTICAST = 2"
definition ETH_P_IP :: u16 where "ETH_P_IP = 0x0800"
definition ETH_P_IPV6 :: u16 where "ETH_P_IPV6 = 0x86DD"
definition IPPROTO_TCP :: u8 where "IPPROTO_TCP = 6"
definition IPPROTO_UDP :: u8 where "IPPROTO_UDP = 17"

lemmas proto_defs [wire_defs] =
  TC_ACT_OK_def NETKIT_PASS_def XDP_PASS_def PACKET_BROADCAST_def PACKET_MULTICAST_def
  ETH_P_IP_def ETH_P_IPV6_def IPPROTO_TCP_def IPPROTO_UDP_def

text \<open>
  The byte order macros of a little-endian target: a 16-bit value read from the wire is
  byte-swapped.
\<close>

definition bpf_ntohs :: "u16 \<Rightarrow> u16" where
  "bpf_ntohs w = push_bit 8 w OR drop_bit 8 w"

definition bpf_htons :: "u16 \<Rightarrow> u16" where
  "bpf_htons w = push_bit 8 w OR drop_bit 8 w"

lemma bpf_ntohs_htons: "bpf_ntohs (bpf_htons w) = w"
  by (rule bit_word_eqI) (auto simp: bpf_ntohs_def bpf_htons_def bit_simps)

lemma bpf_htons_ntohs: "bpf_htons (bpf_ntohs w) = w"
  using bpf_ntohs_htons by (simp add: bpf_ntohs_def bpf_htons_def)

lemma eq_bpf_htons_iff: "w = bpf_htons v \<longleftrightarrow> bpf_ntohs w = v"
  using bpf_ntohs_htons bpf_htons_ntohs by metis

lemma bpf_ntohs_le_word: "length bs = 2 \<Longrightarrow> bpf_ntohs (le_word bs) = be_word bs"
proof -
  assume "length bs = 2"
  then obtain a b where "bs = [a, b]"
    by (auto simp: length_Suc_conv numeral_2_eq_2)
  moreover have "n < 8" if "bit x n" for x :: u8 and n
    using bit_imp_le_length [OF that] by simp
  ultimately show ?thesis
    by (intro bit_word_eqI) (fastforce simp: be_word_def bpf_ntohs_def bit_simps)
qed

section \<open>Packet memory\<close>

record skb =
  pkt_type :: u32
  data :: u32
  data_end :: u32
  mem :: "u64 \<Rightarrow> u8"

definition head :: "skb \<Rightarrow> u64" where
  "head s = ucast (data s)"

definition tail :: "skb \<Rightarrow> u64" where
  "tail s = ucast (data_end s)"

text \<open>A read of \<open>n\<close> bytes at an address faults outside \<open>[data, data_end)\<close>.\<close>

definition load_pkt :: "skb \<Rightarrow> u64 \<Rightarrow> nat \<Rightarrow> bytes option" where
  "load_pkt s a n =
     (if unat (data s) \<le> unat a \<and> unat a + n \<le> unat (data_end s)
      then Some (map (\<lambda>i. mem s (a + of_nat i)) [0..<n]) else None)"

text \<open>The frame a context describes, as the list of its bytes.\<close>

definition frame :: "skb \<Rightarrow> bytes" where
  "frame s = map (\<lambda>i. mem s (head s + of_nat i)) [0..<unat (data_end s) - unat (data s)]"

lemma length_frame: "length (frame s) = unat (data_end s) - unat (data s)"
  by (simp add: frame_def)

lemma unat_u32_lt: "unat (w :: u32) < 4294967296"
  using unsigned_less [of w, where ?'a = nat] by simp

lemma unat_u32_u64: "unat (ucast (w :: u32) :: u64) = unat w"
  using unat_u32_lt [of w] by (simp add: unsigned_ucast_eq take_bit_nat_eq_self)

lemma unat_head [simp]: "unat (head s) = unat (data s)"
  by (simp add: head_def unat_u32_u64)

lemma unat_tail [simp]: "unat (tail s) = unat (data_end s)"
  by (simp add: tail_def unat_u32_u64)

lemma unat_head_plus:
  assumes "off < 2 ^ 32"
  shows "unat (head s + of_nat off) = unat (data s) + off"
proof -
  have "unat (head s) + unat (of_nat off :: u64) < 2 ^ 64"
    using assms unat_u32_lt [of "data s"] by (simp add: unat_of_nat)
  then show ?thesis
    using assms by (subst unat_add_lem [THEN iffD1]) (simp_all add: unat_of_nat)
qed

text \<open>
  The two facts every bounds check of the C sources rests on: comparing a moved pointer
  with \<open>tail\<close> is comparing an offset with the frame's length, and a read below that
  offset is a slice of the frame.
\<close>

lemma bounds_check:
  assumes "0 < off" and "off < 2 ^ 32"
  shows "head s + of_nat off > tail s \<longleftrightarrow> length (frame s) < off"
  using assms by (auto simp: word_less_nat_alt unat_head_plus length_frame)

lemma load_pkt_frame:
  assumes "0 < n" and "off < 2 ^ 32"
  shows "load_pkt s (head s + of_nat off) n =
    (if off + n \<le> length (frame s) then Some (slice off n (frame s)) else None)"
proof (cases "off + n \<le> length (frame s)")
  case True
  have "map (\<lambda>i. mem s (head s + of_nat off + of_nat i)) [0..<n] = slice off n (frame s)"
    using True by (simp add: slice_nth_conv) (simp add: frame_def add.assoc)
  then show ?thesis
    using True assms by (simp add: load_pkt_def unat_head_plus) (simp add: length_frame)
next
  case False
  then show ?thesis
    using assms by (auto simp: load_pkt_def unat_head_plus length_frame)
qed

section \<open>The contract of the hooks\<close>

text \<open>
  A program is a function of its context and of the kernel state its helpers read and
  write; \<open>None\<close> is an invalid memory access. Every program of the repository observes
  traffic and lets it through.
\<close>

primrec run_hook ::
  "('c \<Rightarrow> 'k \<Rightarrow> (u32 \<times> 'k) option) \<Rightarrow> 'c list \<Rightarrow> 'k \<Rightarrow> (u32 list \<times> 'k) option" where
  "run_hook prog [] k = Some ([], k)"
| "run_hook prog (c # cs) k =
     do { (v, k1) \<leftarrow> prog c k;
          (vs, k2) \<leftarrow> run_hook prog cs k1;
          Some (v # vs, k2) }"

locale bpf_hook =
  fixes prog :: "'c \<Rightarrow> 'k \<Rightarrow> (u32 \<times> 'k) option"
    and pass :: u32
  assumes passes: "\<exists>k'. prog c k = Some (pass, k')"
begin

definition effect :: "'c \<Rightarrow> 'k \<Rightarrow> 'k" where
  "effect c k = snd (the (prog c k))"

lemma prog_eq: "prog c k = Some (pass, effect c k)"
  using passes [of c k] by (auto simp: effect_def)

lemma run_eq: "run_hook prog cs k = Some (replicate (length cs) pass, fold effect cs k)"
  by (induction cs arbitrary: k) (simp_all add: prog_eq)

lemma run_never_faults: "run_hook prog cs k \<noteq> None"
  by (simp add: run_eq)

lemma run_transparent: "run_hook prog cs k = Some (vs, k') \<Longrightarrow> length vs = length cs \<and> set vs \<subseteq> {pass}"
  by (auto simp: run_eq)

end

end
