(* ===== verification/Flat.thy ===== *)
theory Flat
  imports Bpf
begin

text \<open>
  The traffic-control classifier of \<^verbatim>\<open>examples/flow/bytecode/flat.c\<close>: it parses a frame,
  fills a \<^verbatim>\<open>struct packet_t\<close> on its stack byte by byte and sends it to the ring buffer.
  The struct is kept as its 48 bytes of memory, because the code writes outside the
  bounds of one member into its neighbours.
\<close>

section \<open>Layout of the structures the program touches\<close>

definition sizeof_ethhdr :: nat where "sizeof_ethhdr = 14"
definition sizeof_iphdr :: nat where "sizeof_iphdr = 20"
definition sizeof_ipv6hdr :: nat where "sizeof_ipv6hdr = 40"
definition sizeof_tcphdr :: nat where "sizeof_tcphdr = 20"
definition sizeof_udphdr :: nat where "sizeof_udphdr = 8"

lemmas sizeof_defs [wire_defs] =
  sizeof_ethhdr_def sizeof_iphdr_def sizeof_ipv6hdr_def sizeof_tcphdr_def sizeof_udphdr_def

definition off_src_ip :: nat where "off_src_ip = 0"
definition off_dst_ip :: nat where "off_dst_ip = 16"
definition off_src_port :: nat where "off_src_port = 32"
definition off_dst_port :: nat where "off_dst_port = 34"
definition off_protocol :: nat where "off_protocol = 36"
definition off_ttl :: nat where "off_ttl = 37"
definition off_syn :: nat where "off_syn = 38"
definition off_ack :: nat where "off_ack = 39"
definition off_ts :: nat where "off_ts = 40"
definition sizeof_packet_t :: nat where "sizeof_packet_t = 48"

lemmas packet_t_defs [wire_defs] =
  off_src_ip_def off_dst_ip_def off_src_port_def off_dst_port_def off_protocol_def
  off_ttl_def off_syn_def off_ack_def off_ts_def sizeof_packet_t_def

text \<open>
  The struct as a value, and its memory image on a little-endian target: ports keep the
  network byte order of the wire, the timestamp is in host order.
\<close>

record packet_t =
  src_ip :: bytes
  dst_ip :: bytes
  src_port :: u16
  dst_port :: u16
  protocol :: u8
  ttl :: u8
  syn :: bool
  ack :: bool
  ts :: u64

definition packet_t_ok :: "packet_t \<Rightarrow> bool" where
  "packet_t_ok p \<longleftrightarrow> length (src_ip p) = 16 \<and> length (dst_ip p) = 16"

definition encode_packet_t :: "packet_t \<Rightarrow> bytes" where
  "encode_packet_t p =
     src_ip p @ dst_ip p @ be_bytes 2 (src_port p) @ be_bytes 2 (dst_port p) @
     [protocol p, ttl p, of_bool (syn p), of_bool (ack p)] @ le_bytes 8 (ts p)"

lemma length_encode_packet_t:
  "packet_t_ok p \<Longrightarrow> length (encode_packet_t p) = sizeof_packet_t"
  by (simp add: packet_t_ok_def encode_packet_t_def sizeof_packet_t_def)

section \<open>The program\<close>

text \<open>
  The kernel helpers the program calls, as functions of the kernel state \<open>'k\<close>; they are
  not part of the repository, so the program is a function of them.
\<close>

record 'k flat_helpers =
  bpf_printk :: "string \<Rightarrow> 'k \<Rightarrow> 'k"
  bpf_skb_pull_data :: "skb \<Rightarrow> u32 \<Rightarrow> 'k \<Rightarrow> u64 \<times> skb \<times> 'k"
  bpf_ktime_get_ns :: "'k \<Rightarrow> u64 \<times> 'k"
  bpf_ringbuf_output :: "bytes \<Rightarrow> u64 \<Rightarrow> 'k \<Rightarrow> u64 \<times> 'k"

datatype 'a ctl = Return u32 | Continue 'a

text \<open>Bit fields of the second 16-bit word of the TCP header, little-endian layout.\<close>

definition tcp_syn :: "u16 \<Rightarrow> bool" where "tcp_syn w = bit w 9"
definition tcp_ack :: "u16 \<Rightarrow> bool" where "tcp_ack w = bit w 12"

text \<open>\<open>case ETH_P_IP\<close> of the first switch.\<close>

definition flat_ipv4 :: "skb \<Rightarrow> bytes \<Rightarrow> (bytes \<times> nat) ctl option" where
  "flat_ipv4 skb pkt =
     (let offset = sizeof_ethhdr + sizeof_iphdr in
      if head skb + of_nat offset > tail skb then Some (Return TC_ACT_OK)
      else
        let ip = sizeof_ethhdr in
        do { proto \<leftarrow> load_pkt skb (head skb + of_nat (ip + 9)) 1;
             if hd proto \<noteq> IPPROTO_TCP \<and> hd proto \<noteq> IPPROTO_UDP then Some (Return TC_ACT_OK)
             else do {
               saddr \<leftarrow> load_pkt skb (head skb + of_nat (ip + 12)) 4;
               pkt \<leftarrow> store (off_src_ip + 4 * 3) saddr pkt;
               daddr \<leftarrow> load_pkt skb (head skb + of_nat (ip + 16)) 4;
               pkt \<leftarrow> store (off_dst_ip + 4 * 3) daddr pkt;
               pkt \<leftarrow> store (off_src_ip + 4 * 5) (le_bytes 4 (0xffff :: u32)) pkt;
               pkt \<leftarrow> store (off_dst_ip + 4 * 5) (le_bytes 4 (0xffff :: u32)) pkt;
               pkt \<leftarrow> store off_protocol proto pkt;
               ttl \<leftarrow> load_pkt skb (head skb + of_nat (ip + 8)) 1;
               pkt \<leftarrow> store off_ttl ttl pkt;
               Some (Continue (pkt, offset)) } })"

text \<open>\<open>case ETH_P_IPV6\<close>: the guard joins its two tests with \<open>||\<close>, as the source does.\<close>

definition flat_ipv6 :: "skb \<Rightarrow> bytes \<Rightarrow> (bytes \<times> nat) ctl option" where
  "flat_ipv6 skb pkt =
     (let offset = sizeof_ethhdr + sizeof_ipv6hdr in
      if head skb + of_nat offset > tail skb then Some (Return TC_ACT_OK)
      else
        let ipv6 = sizeof_ethhdr in
        do { nexthdr \<leftarrow> load_pkt skb (head skb + of_nat (ipv6 + 6)) 1;
             if hd nexthdr \<noteq> IPPROTO_TCP \<or> hd nexthdr \<noteq> IPPROTO_UDP then Some (Return TC_ACT_OK)
             else do {
               saddr \<leftarrow> load_pkt skb (head skb + of_nat (ipv6 + 8)) 16;
               pkt \<leftarrow> store off_src_ip saddr pkt;
               daddr \<leftarrow> load_pkt skb (head skb + of_nat (ipv6 + 24)) 16;
               pkt \<leftarrow> store off_dst_ip daddr pkt;
               pkt \<leftarrow> store off_protocol nexthdr pkt;
               hop_limit \<leftarrow> load_pkt skb (head skb + of_nat (ipv6 + 7)) 1;
               pkt \<leftarrow> store off_ttl hop_limit pkt;
               Some (Continue (pkt, offset)) } })"

definition flat_l3 :: "skb \<Rightarrow> bytes \<Rightarrow> (bytes \<times> nat) ctl option" where
  "flat_l3 skb pkt =
     do { h_proto \<leftarrow> load_pkt skb (head skb + of_nat 12) 2;
          let proto = bpf_ntohs (le_word h_proto);
          if proto = ETH_P_IP then flat_ipv4 skb pkt
          else if proto = ETH_P_IPV6 then flat_ipv6 skb pkt
          else Some (Return TC_ACT_OK) }"

text \<open>Stamp the record, send it; a full ring buffer is an early return.\<close>

definition flat_send :: "'k flat_helpers \<Rightarrow> bytes \<Rightarrow> 'k \<Rightarrow> (u32 \<times> 'k) option" where
  "flat_send H pkt k =
     (let (now, k) = bpf_ktime_get_ns H k in
      do { pkt \<leftarrow> store off_ts (le_bytes 8 now) pkt;
           let (r, k) = bpf_ringbuf_output H pkt 0 k;
           if sint r < 0 then Some (TC_ACT_OK, k) else Some (0, k) })"

definition flat_tcp :: "'k flat_helpers \<Rightarrow> skb \<Rightarrow> nat \<Rightarrow> bytes \<Rightarrow> 'k \<Rightarrow> (u32 \<times> 'k) option" where
  "flat_tcp H skb offset pkt k =
     do { flags \<leftarrow> load_pkt skb (head skb + of_nat (offset + 12)) 2;
          let flags = le_word flags;
          if tcp_syn flags then do {
            source \<leftarrow> load_pkt skb (head skb + of_nat offset) 2;
            pkt \<leftarrow> store off_src_port source pkt;
            dest \<leftarrow> load_pkt skb (head skb + of_nat (offset + 2)) 2;
            pkt \<leftarrow> store off_dst_port dest pkt;
            pkt \<leftarrow> store off_syn [of_bool (tcp_syn flags)] pkt;
            pkt \<leftarrow> store off_ack [of_bool (tcp_ack flags)] pkt;
            flat_send H pkt k }
          else Some (0, k) }"

definition flat_udp :: "'k flat_helpers \<Rightarrow> skb \<Rightarrow> nat \<Rightarrow> bytes \<Rightarrow> 'k \<Rightarrow> (u32 \<times> 'k) option" where
  "flat_udp H skb offset pkt k =
     do { source \<leftarrow> load_pkt skb (head skb + of_nat offset) 2;
          pkt \<leftarrow> store off_src_port source pkt;
          dest \<leftarrow> load_pkt skb (head skb + of_nat (offset + 2)) 2;
          pkt \<leftarrow> store off_dst_port dest pkt;
          flat_send H pkt k }"

definition flat_l4 :: "'k flat_helpers \<Rightarrow> skb \<Rightarrow> nat \<Rightarrow> bytes \<Rightarrow> 'k \<Rightarrow> (u32 \<times> 'k) option" where
  "flat_l4 H skb offset pkt k =
     (if head skb + of_nat (offset + sizeof_tcphdr) > tail skb \<or>
         head skb + of_nat (offset + sizeof_udphdr) > tail skb
      then Some (TC_ACT_OK, k)
      else do {
        proto \<leftarrow> load off_protocol 1 pkt;
        if hd proto = IPPROTO_TCP then flat_tcp H skb offset pkt k
        else if hd proto = IPPROTO_UDP then flat_udp H skb offset pkt k
        else Some (TC_ACT_OK, k) })"

definition flat :: "'k flat_helpers \<Rightarrow> skb \<Rightarrow> 'k \<Rightarrow> (u32 \<times> 'k) option" where
  "flat H skb k =
     (let k = bpf_printk H ''Got a Packet!\<newline>'' k;
          (r, skb, k) = bpf_skb_pull_data H skb 0 k in
      if sint r < 0 then Some (TC_ACT_OK, k)
      else if pkt_type skb = PACKET_BROADCAST \<or> pkt_type skb = PACKET_MULTICAST
      then Some (TC_ACT_OK, k)
      else if head skb + of_nat sizeof_ethhdr > tail skb then Some (TC_ACT_OK, k)
      else do {
        c \<leftarrow> flat_l3 skb (replicate sizeof_packet_t 0);
        (case c of
           Return v \<Rightarrow> Some (v, k)
         | Continue (pkt, offset) \<Rightarrow> flat_l4 H skb offset pkt k) })"

end
