(* ===== verification/Flat_Correct.thy ===== *)
theory Flat_Correct
  imports Flat
begin

text \<open>
  What \<open>flat\<close> computes: the specification \<open>flat_spec\<close> reads a frame as a byte list and says
  which record, if any, is sent; \<open>flat_refines_spec\<close> says the program does exactly that,
  without ever leaving the frame or its own stack object.
\<close>

section \<open>Specification over the frame\<close>

definition flat_event :: "bytes \<Rightarrow> bool \<Rightarrow> bool \<Rightarrow> u64 \<Rightarrow> packet_t" where
  "flat_event f sy ak now =
     \<lparr>src_ip = replicate 12 0 @ slice 26 4 f,
      dst_ip = replicate 4 0 @ [0xff, 0xff, 0, 0] @ replicate 4 0 @ slice 30 4 f,
      src_port = be_word (slice 34 2 f), dst_port = be_word (slice 36 2 f),
      protocol = f ! 23, ttl = f ! 22, syn = sy, ack = ak, ts = now\<rparr>"

definition flat_spec :: "bytes \<Rightarrow> (u64 \<Rightarrow> packet_t) option" where
  "flat_spec f =
     (if length f < 54 \<or> be_word (slice 12 2 f) \<noteq> ETH_P_IP then None
      else if f ! 23 = IPPROTO_TCP \<and> bit (f ! 47) 1 then Some (flat_event f True (bit (f ! 47) 4))
      else if f ! 23 = IPPROTO_UDP then Some (flat_event f False False)
      else None)"

section \<open>The first switch\<close>

lemma slice_1: "off < length f \<Longrightarrow> slice off 1 f = [f ! off]"
  by (simp add: slice_nth_conv)

lemma load_head:
  "0 < n \<Longrightarrow> off < 4294967296 \<Longrightarrow> load_pkt s (head s + of_nat off) n =
    (if off + n \<le> length (frame s) then Some (slice off n (frame s)) else None)"
  using load_pkt_frame [of n off s] by simp

lemma check_head:
  "0 < off \<Longrightarrow> off < 4294967296 \<Longrightarrow> tail s < head s + of_nat off \<longleftrightarrow> length (frame s) < off"
  using bounds_check [of off s] by simp

lemma check_head_numeral:
  "(numeral k :: nat) < 4294967296 \<Longrightarrow>
     tail s < head s + numeral k \<longleftrightarrow> length (frame s) < numeral k"
  using check_head [of "numeral k" s] by simp

lemma load_head_numeral:
  "0 < n \<Longrightarrow> (numeral k :: nat) < 4294967296 \<Longrightarrow> load_pkt s (head s + numeral k) n =
    (if numeral k + n \<le> length (frame s) then Some (slice (numeral k) n (frame s)) else None)"
  using load_head [of n "numeral k" s] by simp

lemma load_head_0:
  "0 < n \<Longrightarrow> load_pkt s (head s) n =
    (if n \<le> length (frame s) then Some (slice 0 n (frame s)) else None)"
  using load_head [of n 0 s] by simp

lemmas pkt_access = check_head_numeral load_head_numeral load_head_0

text \<open>
  The stores into the record: after them the source address is \<open>::a.b.c.d\<close>, and the
  stray padding word has landed in the destination address.
\<close>

definition ipv4_image :: "bytes \<Rightarrow> bytes \<Rightarrow> u8 \<Rightarrow> u8 \<Rightarrow> bytes" where
  "ipv4_image sa da proto hop =
     (replicate 12 0 @ sa) @ (replicate 4 0 @ [0xff, 0xff, 0, 0] @ replicate 4 0 @ da) @
     replicate 4 0 @ [proto, hop, 0, 0] @ replicate 8 0"

lemma list_len4: "length xs = 4 \<Longrightarrow> \<exists>a b c d. xs = [a, b, c, d]"
  by (auto simp: length_Suc_conv eval_nat_numeral)

lemma list_len2: "length xs = 2 \<Longrightarrow> \<exists>a b. xs = [a, b]"
  by (auto simp: length_Suc_conv eval_nat_numeral)

lemma le_bytes_ffff: "le_bytes 4 (0xffff :: u32) = [0xff, 0xff, 0, 0]"
  by code_simp

lemma flat_ipv4_eq:
  fixes s :: skb
  defines "f \<equiv> frame s"
  shows "flat_ipv4 s (replicate sizeof_packet_t 0) =
    (if length f < 34 \<or> f ! 23 \<noteq> IPPROTO_TCP \<and> f ! 23 \<noteq> IPPROTO_UDP then Some (Return TC_ACT_OK)
     else Some (Continue (ipv4_image (slice 26 4 f) (slice 30 4 f) (f ! 23) (f ! 22), 34)))"
proof (cases "length f < 34")
  case True
  then show ?thesis by (simp add: flat_ipv4_def f_def pkt_access sizeof_defs)
next
  case False
  have one: "slice 23 (Suc 0) f = [f ! 23]" "slice 22 (Suc 0) f = [f ! 22]"
    using False slice_1 [of 23 f] slice_1 [of 22 f] by simp_all
  have "length (slice 26 4 f) = 4" "length (slice 30 4 f) = 4" using False by simp_all
  then obtain a b c d e g h i where "slice 26 4 f = [a, b, c, d]" "slice 30 4 f = [e, g, h, i]"
    using list_len4 by metis
  with False one show ?thesis
    by (simp add: flat_ipv4_def f_def [symmetric] pkt_access sizeof_defs)
      (simp add: le_bytes_ffff ipv4_image_def store_def wire_defs)
qed

lemma flat_ipv6_returns:
  "flat_ipv6 s pkt = Some (Return TC_ACT_OK)"
  by (auto simp: flat_ipv6_def pkt_access wire_defs)

lemma flat_l3_eq:
  fixes s :: skb
  defines "f \<equiv> frame s"
  assumes "14 \<le> length f"
  shows "flat_l3 s (replicate sizeof_packet_t 0) =
    (if be_word (slice 12 2 f) = ETH_P_IP then flat_ipv4 s (replicate sizeof_packet_t 0)
     else Some (Return TC_ACT_OK))"
  using assms
  by (simp add: flat_l3_def f_def pkt_access bpf_ntohs_le_word flat_ipv6_returns)

section \<open>The second switch\<close>

lemma load_protocol: "length sa = 4 \<Longrightarrow> length da = 4 \<Longrightarrow>
    load off_protocol (Suc 0) (ipv4_image sa da proto hop) = Some [proto]"
  by (simp add: load_def ipv4_image_def slice_def off_protocol_def)

definition event_image :: "bytes \<Rightarrow> bytes \<Rightarrow> u8 \<Rightarrow> u8 \<Rightarrow> bytes \<Rightarrow> bytes \<Rightarrow> bool \<Rightarrow> bool \<Rightarrow> bytes \<Rightarrow> bytes" where
  "event_image sa da proto hop sp dp sy ak now =
     (replicate 12 0 @ sa) @ (replicate 4 0 @ [0xff, 0xff, 0, 0] @ replicate 4 0 @ da) @
     sp @ dp @ [proto, hop, of_bool sy, of_bool ak] @ now"

lemma ipv4_image_event:
  "ipv4_image sa da proto hop = event_image sa da proto hop [0, 0] [0, 0] False False (replicate 8 0)"
  by (simp add: ipv4_image_def event_image_def numeral_eq_Suc)

text \<open>Each store of the second switch writes one field and nothing else.\<close>

lemma field_stores:
  assumes "length sa = 4" "length da = 4" "length sp = 2" "length dp = 2" "length now = 8"
  shows "length v = 2 \<Longrightarrow> store off_src_port v (event_image sa da proto hop sp dp sy ak now) =
           Some (event_image sa da proto hop v dp sy ak now)"
    and "length v = 2 \<Longrightarrow> store off_dst_port v (event_image sa da proto hop sp dp sy ak now) =
           Some (event_image sa da proto hop sp v sy ak now)"
    and "store off_syn [of_bool sy'] (event_image sa da proto hop sp dp sy ak now) =
           Some (event_image sa da proto hop sp dp sy' ak now)"
    and "store off_ack [of_bool ak'] (event_image sa da proto hop sp dp sy ak now) =
           Some (event_image sa da proto hop sp dp sy ak' now)"
    and "length v = 8 \<Longrightarrow> store off_ts v (event_image sa da proto hop sp dp sy ak now) =
           Some (event_image sa da proto hop sp dp sy ak v)"
  using assms by (auto simp: store_def event_image_def wire_defs dest!: list_len2)

lemma event_image_encode:
  assumes "54 \<le> length f"
  shows "event_image (slice 26 4 f) (slice 30 4 f) (f ! 23) (f ! 22) (slice 34 2 f) (slice 36 2 f)
           sy ak (le_bytes 8 now) = encode_packet_t (flat_event f sy ak now)"
  using assms by (simp add: event_image_def encode_packet_t_def flat_event_def be_bytes_be_word)

text \<open>Sending a record: what \<open>flat_send\<close> does with a filled event.\<close>

definition send_event :: "'k flat_helpers \<Rightarrow> (u64 \<Rightarrow> packet_t) \<Rightarrow> 'k \<Rightarrow> 'k" where
  "send_event H ev k =
     (let (now, k) = bpf_ktime_get_ns H k in snd (bpf_ringbuf_output H (encode_packet_t (ev now)) 0 k))"

lemma flat_send_eq:
  assumes "54 \<le> length f"
  shows "flat_send H (event_image (slice 26 4 f) (slice 30 4 f) (f ! 23) (f ! 22) (slice 34 2 f)
           (slice 36 2 f) sy ak (replicate 8 0)) k = Some (TC_ACT_OK, send_event H (flat_event f sy ak) k)"
  using assms
  by (simp add: flat_send_def field_stores event_image_encode send_event_def TC_ACT_OK_def
      split: prod.splits)

lemma tcp_flags:
  assumes "54 \<le> length f"
  shows "tcp_syn (le_word (slice 46 2 f)) \<longleftrightarrow> bit (f ! 47) 1"
    and "tcp_ack (le_word (slice 46 2 f)) \<longleftrightarrow> bit (f ! 47) 4"
  using assms by (simp_all add: tcp_syn_def tcp_ack_def bit_le_word nth_slice)

lemma flat_udp_eq:
  assumes "54 \<le> length (frame s)"
  shows "flat_udp H s 34 (ipv4_image (slice 26 4 (frame s)) (slice 30 4 (frame s)) (frame s ! 23) (frame s ! 22)) k =
    Some (TC_ACT_OK, send_event H (flat_event (frame s) False False) k)"
  using assms by (simp add: flat_udp_def pkt_access ipv4_image_event field_stores flat_send_eq)

lemma flat_tcp_eq:
  assumes "54 \<le> length (frame s)"
  shows "flat_tcp H s 34 (ipv4_image (slice 26 4 (frame s)) (slice 30 4 (frame s)) (frame s ! 23) (frame s ! 22)) k =
    Some (TC_ACT_OK, if bit (frame s ! 47) 1
      then send_event H (flat_event (frame s) True (bit (frame s ! 47) 4)) k else k)"
  using assms
  by (simp add: flat_tcp_def pkt_access ipv4_image_event field_stores flat_send_eq tcp_flags
      TC_ACT_OK_def del: of_bool_eq)

lemma flat_l4_eq:
  fixes s :: skb
  defines "f \<equiv> frame s"
  assumes "34 \<le> length f" and "f ! 23 = IPPROTO_TCP \<or> f ! 23 = IPPROTO_UDP"
    and "be_word (slice 12 2 f) = ETH_P_IP"
  shows "flat_l4 H s 34 (ipv4_image (slice 26 4 f) (slice 30 4 f) (f ! 23) (f ! 22)) k =
    Some (TC_ACT_OK, case flat_spec f of None \<Rightarrow> k | Some ev \<Rightarrow> send_event H ev k)"
proof (cases "length f < 54")
  case True
  then show ?thesis
    by (simp add: flat_l4_def flat_spec_def f_def pkt_access sizeof_defs)
next
  case False
  let ?img = "ipv4_image (slice 26 4 f) (slice 30 4 f) (f ! 23) (f ! 22)"
  have "flat_l4 H s 34 ?img k =
    (if f ! 23 = IPPROTO_TCP then flat_tcp H s 34 ?img k
     else if f ! 23 = IPPROTO_UDP then flat_udp H s 34 ?img k else Some (TC_ACT_OK, k))"
    using False by (simp add: flat_l4_def f_def pkt_access sizeof_defs load_protocol)
  moreover have "IPPROTO_TCP \<noteq> IPPROTO_UDP" by (simp add: wire_defs)
  ultimately show ?thesis
    using False assms flat_tcp_eq [of s H k] flat_udp_eq [of s H k]
    by (auto simp: flat_spec_def)
qed

section \<open>Refinement\<close>

text \<open>
  Everything \<open>flat\<close> does to the kernel state: a trace line, the pull, and at most one
  record sent.
\<close>

definition flat_effect :: "'k flat_helpers \<Rightarrow> skb \<Rightarrow> 'k \<Rightarrow> 'k" where
  "flat_effect H skb k =
     (let (r, skb, k) = bpf_skb_pull_data H skb 0 (bpf_printk H ''Got a Packet!\<newline>'' k) in
      if sint r < 0 \<or> pkt_type skb = PACKET_BROADCAST \<or> pkt_type skb = PACKET_MULTICAST then k
      else case flat_spec (frame skb) of None \<Rightarrow> k | Some ev \<Rightarrow> send_event H ev k)"

lemma flat_parse_eq:
  fixes s :: skb
  assumes "14 \<le> length (frame s)"
  shows "do { c \<leftarrow> flat_l3 s (replicate sizeof_packet_t 0);
              (case c of Return v \<Rightarrow> Some (v, k) | Continue (pkt, off) \<Rightarrow> flat_l4 H s off pkt k) } =
    Some (TC_ACT_OK, case flat_spec (frame s) of None \<Rightarrow> k | Some ev \<Rightarrow> send_event H ev k)"
proof (cases "be_word (slice 12 2 (frame s)) = ETH_P_IP")
  case False
  then show ?thesis using assms by (simp add: flat_l3_eq flat_spec_def)
next
  case True
  then show ?thesis
    using assms flat_l4_eq [of s H k]
    by (auto simp: flat_l3_eq flat_ipv4_eq flat_spec_def)
qed

lemma flat_eq: "flat H skb k = Some (TC_ACT_OK, flat_effect H skb k)"
proof -
  obtain r s k' where p: "bpf_skb_pull_data H skb 0 (bpf_printk H ''Got a Packet!\<newline>'' k) = (r, s, k')"
    by (metis prod.collapse)
  show ?thesis
  proof (cases "length (frame s) < 14")
    case True
    then show ?thesis
      using p by (simp add: flat_def flat_effect_def flat_spec_def pkt_access sizeof_defs)
  next
    case False
    then show ?thesis
      using p flat_parse_eq [of s k' H]
      by (simp add: flat_def flat_effect_def pkt_access sizeof_defs)
  qed
qed

interpretation flat_hook: bpf_hook "flat H" TC_ACT_OK for H :: "'k flat_helpers"
  by unfold_locales (simp add: flat_eq)

section \<open>Properties\<close>

text \<open>C1: for every context, kernel and helper behaviour the classifier returns TC_ACT_OK without
  an invalid access; it sends one record, the one the specification reads off the pulled frame,
  stamped with the clock, exactly for a frame the specification accepts in a unicast packet whose
  pull succeeded, and otherwise does nothing after the pull.\<close>

theorem flat_refines_spec:
  "flat H skb k = Some (TC_ACT_OK,
     let (r, skb', k') = bpf_skb_pull_data H skb 0 (bpf_printk H ''Got a Packet!\<newline>'' k) in
     if sint r < 0 \<or> pkt_type skb' = PACKET_BROADCAST \<or> pkt_type skb' = PACKET_MULTICAST then k'
     else case flat_spec (frame skb') of
            None \<Rightarrow> k'
          | Some ev \<Rightarrow>
              (let (now, k'') = bpf_ktime_get_ns H k'
               in snd (bpf_ringbuf_output H (encode_packet_t (ev now)) 0 k'')))"
  by (auto simp: flat_eq flat_effect_def send_event_def split: prod.splits option.splits)

text \<open>On any sequence of contexts the classifier never faults and passes every packet.\<close>

lemma flat_passes_all_traffic:
  "\<exists>k'. run_hook (flat H) skbs k = Some (replicate (length skbs) TC_ACT_OK, k')"
  using flat_hook.run_eq [of H skbs k] by blast

text \<open>C30: the branch for IPv6 ends every parse, whatever the header holds: its guard asks the
  next header to be TCP and UDP at once. No IPv6 frame is ever reported.\<close>

theorem flat_never_reports_ipv6:
  "be_word (slice 12 2 (frame skb)) = ETH_P_IPV6 \<Longrightarrow>
     flat_ipv6 skb pkt = Some (Return TC_ACT_OK) \<and> flat_spec (frame skb) = None"
  by (simp add: flat_ipv6_returns flat_spec_def ETH_P_IP_def ETH_P_IPV6_def)

definition skb_at :: "bytes \<Rightarrow> skb" where
  "skb_at f = \<lparr>pkt_type = 0, data = 0, data_end = of_nat (length f), mem = (\<lambda>a. f ! unat a)\<rparr>"

definition ipv6_frame :: bytes where
  "ipv6_frame = replicate 12 0 @ [0x86, 0xDD] @ replicate 6 0 @ [6] @ replicate 33 0"

lemma flat_never_reports_ipv6_witness:
  "flat_ipv6 (skb_at ipv6_frame) [] = Some (Return TC_ACT_OK) \<and>
   flat_spec (frame (skb_at ipv6_frame)) = None"
proof -
  have "be_word (slice 12 2 (frame (skb_at ipv6_frame))) = ETH_P_IPV6" by code_simp
  then show ?thesis by (rule flat_never_reports_ipv6)
qed


text \<open>The witness: a complete 42-byte datagram.\<close>

definition udp_frame :: bytes where
  "udp_frame = replicate 12 0 @ [0x08, 0] @ [0x45] @ replicate 7 0 @ [64, 17] @ replicate 18 0"


lemma not_mapped:
  "replicate 12 (0 :: u8) \<noteq> replicate 10 0 @ [0xff, 0xff]"
  "replicate 4 (0 :: u8) @ [0xff, 0xff] @ replicate 6 0 \<noteq> replicate 10 0 @ [0xff, 0xff]"
  by code_simp+

lemma padding_word: "0 # 0 # replicate 4 (0 :: u8) = replicate 6 0"
  by code_simp


definition tcp_syn_frame :: bytes where
  "tcp_syn_frame = replicate 12 0 @ [0x08, 0] @ [0x45] @ replicate 7 0 @ [64, 6, 0, 0] @
     [10, 0, 0, 1] @ [10, 0, 0, 2] @ replicate 13 0 @ [0x02] @ replicate 6 0"


end
