(* ===== verification/Flat_IR.thy ===== *)
theory Flat_IR
  imports Flat_Correct
begin

text \<open>
  The LLVM intermediate representation checked in as
  \<^verbatim>\<open>examples/flow/bytecode/flat.ll\<close>, one definition per basic block (named by the label
  of the block), with its registers as \<open>let\<close>-bound values and the \<^verbatim>\<open>alloca\<close> as a byte
  buffer. The theorem of the theory is a translation validation: the optimised code and
  the C source compute the same function.
\<close>

section \<open>Typed accesses\<close>

definition ctx_load_i32 :: "skb \<Rightarrow> nat \<Rightarrow> u32 option" where
  "ctx_load_i32 s off =
     (if off = 4 then Some (pkt_type s) else if off = 76 then Some (data s)
      else if off = 80 then Some (data_end s) else None)"

definition ir_load :: "skb \<Rightarrow> u64 \<Rightarrow> nat \<Rightarrow> 'a::len word option" where
  "ir_load s a n = map_option le_word (load_pkt s a n)"

definition ir_store :: "nat \<Rightarrow> nat \<Rightarrow> 'a::len word \<Rightarrow> bytes \<Rightarrow> bytes option" where
  "ir_store off n w stk = store off (le_bytes n w) stk"

section \<open>Basic blocks\<close>

definition flat_ll_69 :: "'k flat_helpers \<Rightarrow> bytes \<Rightarrow> 'k \<Rightarrow> (u32 \<times> 'k) option" where
  "flat_ll_69 H r2 k =
     (let (r70, k) = bpf_ktime_get_ns H k in
      do { r2 \<leftarrow> ir_store 40 8 r70 r2;
           let (r72, k) = bpf_ringbuf_output H r2 0 k;
           Some (0, k) })"

definition flat_ll_63 :: "'k flat_helpers \<Rightarrow> skb \<Rightarrow> u64 \<Rightarrow> bytes \<Rightarrow> 'k \<Rightarrow> (u32 \<times> 'k) option" where
  "flat_ll_63 H ctx r15 r2 k =
     do { (r64 :: u16) \<leftarrow> ir_load ctx (r15 + 34) 2;
          r2 \<leftarrow> ir_store 32 2 r64 r2;
          (r67 :: u16) \<leftarrow> ir_load ctx (r15 + 36) 2;
          r2 \<leftarrow> ir_store 34 2 r67 r2;
          flat_ll_69 H r2 k }"

definition flat_ll_52 :: "'k flat_helpers \<Rightarrow> skb \<Rightarrow> u64 \<Rightarrow> u16 \<Rightarrow> bytes \<Rightarrow> 'k \<Rightarrow> (u32 \<times> 'k) option" where
  "flat_ll_52 H ctx r15 r49 r2 k =
     do { (r53 :: u16) \<leftarrow> ir_load ctx (r15 + 34) 2;
          r2 \<leftarrow> ir_store 32 2 r53 r2;
          (r56 :: u16) \<leftarrow> ir_load ctx (r15 + 36) 2;
          r2 \<leftarrow> ir_store 34 2 r56 r2;
          r2 \<leftarrow> ir_store 38 1 (1 :: u8) r2;
          let r60 = drop_bit 12 r49;
          let r61 = (ucast r60 :: u8);
          let r62 = r61 AND 1;
          r2 \<leftarrow> ir_store 39 1 r62 r2;
          flat_ll_69 H r2 k }"

definition flat_ll_47 :: "'k flat_helpers \<Rightarrow> skb \<Rightarrow> u64 \<Rightarrow> bytes \<Rightarrow> 'k \<Rightarrow> (u32 \<times> 'k) option" where
  "flat_ll_47 H ctx r15 r2 k =
     do { (r49 :: u16) \<leftarrow> ir_load ctx (r15 + 46) 2;
          let r50 = r49 AND 512;
          if r50 = 0 then Some (0, k) else flat_ll_52 H ctx r15 r49 r2 k }"

definition flat_ll_46 :: "'k flat_helpers \<Rightarrow> skb \<Rightarrow> u64 \<Rightarrow> u8 \<Rightarrow> bytes \<Rightarrow> 'k \<Rightarrow> (u32 \<times> 'k) option" where
  "flat_ll_46 H ctx r15 r31 r2 k =
     (if r31 = 6 then flat_ll_47 H ctx r15 r2 k
      else if r31 = 17 then flat_ll_63 H ctx r15 r2 k
      else Some (0, k))"

definition flat_ll_32 :: "'k flat_helpers \<Rightarrow> skb \<Rightarrow> u64 \<Rightarrow> u64 \<Rightarrow> u8 \<Rightarrow> bytes \<Rightarrow> 'k \<Rightarrow> (u32 \<times> 'k) option" where
  "flat_ll_32 H ctx r15 r19 r31 r2 k =
     do { (r34 :: u32) \<leftarrow> ir_load ctx (r15 + 26) 4;
          r2 \<leftarrow> ir_store 12 4 r34 r2;
          (r37 :: u32) \<leftarrow> ir_load ctx (r15 + 30) 4;
          r2 \<leftarrow> ir_store 28 4 r37 r2;
          r2 \<leftarrow> ir_store 20 4 (65535 :: u32) r2;
          r2 \<leftarrow> ir_store 36 4 (65535 :: u32) r2;
          r2 \<leftarrow> ir_store 36 1 r31 r2;
          (r42 :: u8) \<leftarrow> ir_load ctx (r15 + 22) 1;
          r2 \<leftarrow> ir_store 37 1 r42 r2;
          if r15 + 54 > r19 then Some (0, k) else flat_ll_46 H ctx r15 r31 r2 k }"

definition flat_ll_29 :: "'k flat_helpers \<Rightarrow> skb \<Rightarrow> u64 \<Rightarrow> u64 \<Rightarrow> bytes \<Rightarrow> 'k \<Rightarrow> (u32 \<times> 'k) option" where
  "flat_ll_29 H ctx r15 r19 r2 k =
     do { (r31 :: u8) \<leftarrow> ir_load ctx (r15 + 23) 1;
          if r31 = 6 \<or> r31 = 17 then flat_ll_32 H ctx r15 r19 r31 r2 k else Some (0, k) }"

definition flat_ll_22 :: "'k flat_helpers \<Rightarrow> skb \<Rightarrow> u64 \<Rightarrow> u64 \<Rightarrow> 'k \<Rightarrow> (u32 \<times> 'k) option" where
  "flat_ll_22 H ctx r15 r19 k =
     (let r2 = replicate 48 0 in
      do { (r24 :: u16) \<leftarrow> ir_load ctx (r15 + 12) 2;
           if r24 = 8
           then (if r15 + 34 > r19 then Some (0, k) else flat_ll_29 H ctx r15 r19 r2 k)
           else Some (0, k) })"

definition flat_ll_6 :: "'k flat_helpers \<Rightarrow> skb \<Rightarrow> 'k \<Rightarrow> (u32 \<times> 'k) option" where
  "flat_ll_6 H ctx k =
     do { r8 \<leftarrow> ctx_load_i32 ctx 4;
          if r8 + (-1) < 2 then Some (0, k)
          else do {
            r13 \<leftarrow> ctx_load_i32 ctx 76;
            let r15 = (ucast r13 :: u64);
            r17 \<leftarrow> ctx_load_i32 ctx 80;
            let r19 = (ucast r17 :: u64);
            if r15 + 14 > r19 then Some (0, k) else flat_ll_22 H ctx r15 r19 k } }"

definition flat_ll :: "'k flat_helpers \<Rightarrow> skb \<Rightarrow> 'k \<Rightarrow> (u32 \<times> 'k) option" where
  "flat_ll H ctx k =
     (let k = bpf_printk H ''Got a Packet!\<newline>'' k;
          (r4, ctx, k) = bpf_skb_pull_data H ctx 0 k in
      if sint r4 < 0 then Some (0, k) else flat_ll_6 H ctx k)"

section \<open>The blocks against the frame\<close>

lemma word_less_2: "(w :: u32) < 2 \<longleftrightarrow> w = 0 \<or> w = 1"
  by (simp add: word_less_nat_alt word_unat_eq_iff less_2_cases_iff)

lemma pkt_type_range: "w + (-1) < 2 \<longleftrightarrow> w = PACKET_BROADCAST \<or> w = PACKET_MULTICAST"
  unfolding word_less_2 by (auto simp: wire_defs eq_diff_eq)

lemma ethertype_swapped:
  assumes "length bs = 2"
  shows "(le_word bs :: u16) = 8 \<longleftrightarrow> be_word bs = ETH_P_IP"
proof -
  have "(8 :: u16) = bpf_htons ETH_P_IP" by (simp add: bpf_htons_def ETH_P_IP_def)
  then show ?thesis
    using assms by (metis eq_bpf_htons_iff bpf_ntohs_le_word)
qed

lemma tcp_syn_mask: "w AND 512 = 0 \<longleftrightarrow> \<not> tcp_syn w"
proof -
  have "w AND 512 = 0 \<longleftrightarrow> \<not> bit w 9"
    using and_exp_eq_0_iff_not_bit [of w 9] by simp
  then show ?thesis by (simp add: tcp_syn_def)
qed

lemma tcp_ack_mask: "(ucast (drop_bit 12 (w :: u16)) :: u8) AND 1 = of_bool (tcp_ack w)"
  by (simp add: and_one_eq mod_2_eq_odd tcp_ack_def even_word_iff bit_simps flip: bit_0)

lemma ir_store_le_word:
  "length bs = n \<Longrightarrow> 8 * n \<le> LENGTH('a::len) \<Longrightarrow> ir_store off n (le_word bs :: 'a word) stk = store off bs stk"
  by (simp add: ir_store_def le_bytes_le_word)

lemma ir_store_u8: "ir_store off (Suc 0) (b :: u8) stk = store off [b] stk"
  by (simp add: ir_store_def)

lemma le_word_u8 [simp]: "le_word [b] = (b :: u8)"
  by (simp add: ucast_id)

lemmas ir_fields = field_stores [unfolded packet_t_defs]
lemmas ir_simps = pkt_access ir_load_def ir_store_le_word ir_store_u8 ipv4_image_event ir_fields
  slice_1 [unfolded One_nat_def]

lemma flat_ll_69_eq:
  assumes "54 \<le> length f"
  shows "flat_ll_69 H (event_image (slice 26 4 f) (slice 30 4 f) (f ! 23) (f ! 22) (slice 34 2 f)
           (slice 36 2 f) sy ak (replicate 8 0)) k = Some (0, send_event H (flat_event f sy ak) k)"
  using assms
  by (simp add: flat_ll_69_def ir_store_def ir_fields event_image_encode send_event_def
      split: prod.splits)

lemma flat_ll_63_eq:
  assumes "54 \<le> length (frame s)"
  shows "flat_ll_63 H s (head s) (ipv4_image (slice 26 4 (frame s)) (slice 30 4 (frame s))
           (frame s ! 23) (frame s ! 22)) k =
    Some (0, send_event H (flat_event (frame s) False False) k)"
  using assms by (simp add: flat_ll_63_def ir_simps flat_ll_69_eq)

lemma flat_ll_52_eq:
  assumes "54 \<le> length (frame s)"
  shows "flat_ll_52 H s (head s) w (ipv4_image (slice 26 4 (frame s)) (slice 30 4 (frame s))
           (frame s ! 23) (frame s ! 22)) k =
    Some (0, send_event H (flat_event (frame s) True (tcp_ack w)) k)"
  using assms ir_fields(3) [where sy' = True]
  by (simp add: flat_ll_52_def ir_simps tcp_ack_mask flat_ll_69_eq del: of_bool_eq(1))

lemma flat_ll_32_eq:
  fixes s :: skb
  defines "f \<equiv> frame s"
  assumes "34 \<le> length f" and "f ! 23 = IPPROTO_TCP \<or> f ! 23 = IPPROTO_UDP"
    and "be_word (slice 12 2 f) = ETH_P_IP"
  shows "flat_ll_32 H s (head s) (tail s) (f ! 23) (replicate 48 0) k =
    Some (0, case flat_spec f of None \<Rightarrow> k | Some ev \<Rightarrow> send_event H ev k)"
proof -
  let ?img = "ipv4_image (slice 26 4 f) (slice 30 4 f) (f ! 23) (f ! 22)"
  have "length (slice 26 4 f) = 4" "length (slice 30 4 f) = 4" using assms by simp_all
  then obtain a b c d e g h i where sl: "slice 26 4 f = [a, b, c, d]" "slice 30 4 f = [e, g, h, i]"
    using list_len4 by metis
  have "flat_ll_32 H s (head s) (tail s) (f ! 23) (replicate 48 0) k =
    (if length f < 54 then Some (0, k) else flat_ll_46 H s (head s) (f ! 23) ?img k)"
    using assms(2) sl
    by (simp add: flat_ll_32_def f_def [symmetric] pkt_access ir_load_def ir_store_le_word ir_store_u8
        slice_1 [unfolded One_nat_def] ir_store_def le_bytes_ffff ipv4_image_def store_def
        le_bytes_le_word del: le_word.simps)
  moreover have "IPPROTO_TCP = 6" "IPPROTO_UDP = 17" "IPPROTO_TCP \<noteq> IPPROTO_UDP"
    by (simp_all add: wire_defs)
  ultimately show ?thesis
    using assms flat_ll_63_eq [of s H k] flat_ll_52_eq [of s H "le_word (slice 46 2 f)" k] tcp_flags [of f]
    by (auto simp: flat_ll_46_def flat_ll_47_def flat_spec_def pkt_access ir_load_def tcp_syn_mask)
qed

lemma flat_ll_22_eq:
  assumes "14 \<le> length (frame s)"
  shows "flat_ll_22 H s (head s) (tail s) k =
    Some (0, case flat_spec (frame s) of None \<Rightarrow> k | Some ev \<Rightarrow> send_event H ev k)"
proof -
  have "IPPROTO_TCP = 6" "IPPROTO_UDP = 17" by (simp_all add: wire_defs)
  then show ?thesis
    using assms flat_ll_32_eq [of s H k]
    by (auto simp: flat_ll_22_def flat_ll_29_def flat_spec_def pkt_access ir_load_def
        ethertype_swapped slice_1 [unfolded One_nat_def])
qed

lemma flat_ll_eq: "flat_ll H s k = Some (0, flat_effect H s k)"
proof -
  obtain r s' k' where p: "bpf_skb_pull_data H s 0 (bpf_printk H ''Got a Packet!\<newline>'' k) = (r, s', k')"
    by (metis prod.collapse)
  have "length (frame s') < 14 \<Longrightarrow> flat_spec (frame s') = None"
    by (simp add: flat_spec_def)
  then show ?thesis
    using p flat_ll_22_eq [of s' H k'] pkt_type_range [of "pkt_type s'"]
    by (simp add: flat_ll_def flat_ll_6_def flat_effect_def ctx_load_i32_def pkt_access
        flip: head_def tail_def)
qed

text \<open>C2: the optimised code checked in as flat.ll computes exactly what flat.c means: the same
  verdict, the same helper calls in the same order with the same arguments, and the same
  absence of faults, for every context, kernel state and behaviour of the helpers.\<close>

theorem flat_ll_equals_flat_c: "flat_ll H s k = flat H s k"
  by (simp add: flat_ll_eq flat_eq TC_ACT_OK_def)

end
