(* ===== verification/Resources.thy ===== *)
theory Resources
  imports Xcnf_Prelude
begin

text \<open>
  Acquiring and releasing kernel resources. A program's run leaves a log of actions; the
  log is well nested when every release gives back the resource acquired last, and
  \<open>nest\<close> computes what is still held at its end. The locale \<open>resource_program\<close> is the
  contract of a function that says in its result what its caller now owns.
\<close>

datatype ('r, 'c) action = Acquire 'r | Release 'r | Do 'c

fun nest :: "'r list \<Rightarrow> ('r, 'c) action list \<Rightarrow> 'r list option" where
  "nest st [] = Some st"
| "nest st (Acquire r # as) = nest (r # st) as"
| "nest st (Do c # as) = nest st as"
| "nest (s # st) (Release r # as) = (if s = r then nest st as else None)"
| "nest [] (Release r # as) = None"

lemma nest_append: "nest st (as @ bs) = Option.bind (nest st as) (\<lambda>st. nest st bs)"
  by (induction st as rule: nest.induct) auto

text \<open>A deferred release runs after everything the body does, on every path out of it.\<close>

definition with_defer :: "('r, 'c) action list \<Rightarrow> 'res \<times> ('r, 'c) action list \<Rightarrow> 'res \<times> ('r, 'c) action list" where
  "with_defer cleanup body = (fst body, snd body @ cleanup)"

definition after :: "('r, 'c) action list \<Rightarrow> 'res \<times> ('r, 'c) action list \<Rightarrow> 'res \<times> ('r, 'c) action list" where
  "after log body = (fst body, log @ snd body)"

lemma with_defer_simps [simp]:
  "fst (with_defer c b) = fst b" "snd (with_defer c b) = snd b @ c"
  by (simp_all add: with_defer_def)

lemma after_simps [simp]:
  "fst (after l b) = fst b" "snd (after l b) = l @ snd b"
  by (simp_all add: after_def)

definition acquired :: "('r, 'c) action list \<Rightarrow> 'r list" where
  "acquired as = concat (map (\<lambda>a. case a of Acquire r \<Rightarrow> [r] | _ \<Rightarrow> []) as)"

definition released :: "('r, 'c) action list \<Rightarrow> 'r list" where
  "released as = concat (map (\<lambda>a. case a of Release r \<Rightarrow> [r] | _ \<Rightarrow> []) as)"

lemma acquired_simps [simp]:
  "acquired [] = []" "acquired (Acquire r # as) = r # acquired as"
  "acquired (Release r # as) = acquired as" "acquired (Do c # as) = acquired as"
  "acquired (as @ bs) = acquired as @ acquired bs"
  by (simp_all add: acquired_def)

lemma released_simps [simp]:
  "released [] = []" "released (Acquire r # as) = released as"
  "released (Release r # as) = r # released as" "released (Do c # as) = released as"
  "released (as @ bs) = released as @ released bs"
  by (simp_all add: released_def)

lemma nest_count:
  "nest st as = Some st' \<Longrightarrow>
     count_list st r + count_list (acquired as) r = count_list (released as) r + count_list st' r"
  by (induction st as rule: nest.induct) (auto split: if_splits)

lemma nest_prefix: "nest st (as @ bs) \<noteq> None \<Longrightarrow> nest st as \<noteq> None"
  by (cases "nest st as") (simp_all add: nest_append)

section \<open>Interrupted programs\<close>

text \<open>Everything held at some point of a log, for a process that may be killed at any of them.\<close>

fun stacks :: "'r list \<Rightarrow> ('r, 'c) action list \<Rightarrow> 'r list set" where
  "stacks st [] = {st}"
| "stacks st (Acquire r # as) = insert st (stacks (r # st) as)"
| "stacks st (Do c # as) = insert st (stacks st as)"
| "stacks st (Release r # as) = insert st (stacks (tl st) as)"

lemma stacks_self [simp]: "st \<in> stacks st as"
  by (induction st as rule: stacks.induct) auto

lemma stacks_append:
  "nest st as = Some st' \<Longrightarrow> stacks st (as @ bs) = stacks st as \<union> stacks st' bs"
  by (induction st as rule: nest.induct) (auto split: if_splits)

lemma stacks_prefix: "nest st as = Some st' \<Longrightarrow> st' \<in> stacks st (as @ bs)"
  by (simp add: stacks_append)

lemma stacks_calls: "acquired as = [] \<Longrightarrow> released as = [] \<Longrightarrow> stacks st as = {st}"
proof (induction as)
  case (Cons a as)
  then show ?case by (cases a) auto
qed simp

lemma nest_calls: "acquired as = [] \<Longrightarrow> released as = [] \<Longrightarrow> nest st as = Some st"
proof (induction as)
  case (Cons a as)
  then show ?case by (cases a) auto
qed simp

locale resource_program =
  fixes run :: "'env \<Rightarrow> 'res \<times> ('r, 'c) action list"
    and held :: "'res \<Rightarrow> 'r list"
  assumes nested: "nest [] (snd (run e)) = Some (held (fst (run e)))"
begin

lemma no_leak:
  "count_list (acquired (snd (run e))) r =
     count_list (released (snd (run e))) r + count_list (held (fst (run e))) r"
  using nest_count [OF nested [of e], of r] by simp

lemma released_only_if_acquired:
  "snd (run e) = as @ bs \<Longrightarrow> count_list (released as) r \<le> count_list (acquired as) r"
proof -
  assume "snd (run e) = as @ bs"
  then have "nest [] (as @ bs) \<noteq> None" using nested [of e] by simp
  then obtain st where "nest [] as = Some st" using nest_prefix by blast
  then show ?thesis using nest_count [of "[]" as st r] by simp
qed

text \<open>A caller that runs the program and then gives back what it was handed holds nothing.\<close>

lemma release_held: "nest [] (snd (run e) @ map Release (held (fst (run e)))) = Some []"
proof -
  have "nest st (map Release st) = Some []" for st :: "'r list"
    by (induction st) auto
  then show ?thesis by (simp add: nest_append nested)
qed

end

locale closed_resource_program = resource_program +
  assumes nothing_held: "held res = []"
begin

lemma all_released: "count_list (acquired (snd (run e))) r = count_list (released (snd (run e))) r"
  by (simp add: no_leak nothing_held)

end

end
