(* ===== verification/Go_Runtime.thy ===== *)
theory Go_Runtime
  imports Xcnf_Prelude
begin

text \<open>
  What the Go sources use of the language and its standard library: byte slices with a
  length and a capacity, whose index and slice expressions panic (\<open>None\<close>) out of range,
  \<^verbatim>\<open>encoding/binary\<close>, and the interface \<open>wire_format\<close> between the writer of a ring buffer
  record and its reader.
\<close>

section \<open>Byte slices\<close>

text \<open>\<open>backing\<close> holds the bytes up to the capacity, \<open>len\<close> of which belong to the slice.\<close>

record go_slice =
  backing :: bytes
  len :: nat

definition go_slice_ok :: "go_slice \<Rightarrow> bool" where
  "go_slice_ok s \<longleftrightarrow> len s \<le> length (backing s)"

definition contents :: "go_slice \<Rightarrow> bytes" where
  "contents s = take (len s) (backing s)"

definition slice_of :: "bytes \<Rightarrow> go_slice" where
  "slice_of bs = \<lparr>backing = bs, len = length bs\<rparr>"

definition go_index :: "go_slice \<Rightarrow> nat \<Rightarrow> u8 option" where
  "go_index s i = (if i < len s then Some (backing s ! i) else None)"

text \<open>\<^verbatim>\<open>s[i:j]\<close> is bounded by the capacity of \<open>s\<close>, not by its length.\<close>

definition go_subslice :: "go_slice \<Rightarrow> nat \<Rightarrow> nat \<Rightarrow> go_slice option" where
  "go_subslice s i j =
     (if i \<le> j \<and> j \<le> length (backing s) then Some \<lparr>backing = drop i (backing s), len = j - i\<rparr>
      else None)"

definition uint16_be :: "go_slice \<Rightarrow> u16 option" where
  "uint16_be s = (if len s < 2 then None else Some (be_word (take 2 (backing s))))"

definition uint16_le :: "go_slice \<Rightarrow> u16 option" where
  "uint16_le s = (if len s < 2 then None else Some (le_word (take 2 (backing s))))"

definition uint64_le :: "go_slice \<Rightarrow> u64 option" where
  "uint64_le s = (if len s < 8 then None else Some (le_word (take 8 (backing s))))"

lemma slice_of_simps [simp]:
  "backing (slice_of bs) = bs" "len (slice_of bs) = length bs" "go_slice_ok (slice_of bs)"
  "contents (slice_of bs) = bs"
  by (simp_all add: slice_of_def go_slice_ok_def contents_def)

lemma go_subslice_contents:
  "go_subslice s i j = Some t \<Longrightarrow> contents t = slice i (j - i) (backing s)"
  by (auto simp: go_subslice_def contents_def slice_def split: if_splits)

lemmas go_slice_defs = go_index_def go_subslice_def uint16_be_def uint16_le_def uint64_le_def

section \<open>Records on the wire\<close>

text \<open>
  A record type is written by one program and read by another. The contract: every
  well-formed record has the format's size, and reading its bytes gives back what the
  reader is meant to see of it.
\<close>

locale wire_format =
  fixes ok :: "'a \<Rightarrow> bool"
    and enc :: "'a \<Rightarrow> bytes"
    and size :: nat
    and dec :: "bytes \<Rightarrow> 'b option"
    and view :: "'a \<Rightarrow> 'b"
  assumes size_enc: "ok x \<Longrightarrow> length (enc x) = size"
    and dec_enc: "ok x \<Longrightarrow> dec (enc x) = Some (view x)"
begin

lemma dec_stream: "list_all ok xs \<Longrightarrow> map dec (map enc xs) = map (Some \<circ> view) xs"
  by (induction xs) (simp_all add: dec_enc)

lemma enc_view: "ok x \<Longrightarrow> ok y \<Longrightarrow> enc x = enc y \<Longrightarrow> view x = view y"
  using dec_enc [of x] dec_enc [of y] by simp

lemma total_size: "list_all ok xs \<Longrightarrow> length (concat (map enc xs)) = size * length xs"
  by (induction xs) (simp_all add: size_enc)

end

locale faithful_wire_format = wire_format +
  assumes view_inj: "ok x \<Longrightarrow> ok y \<Longrightarrow> view x = view y \<Longrightarrow> x = y"
begin

lemma enc_inj: "ok x \<Longrightarrow> ok y \<Longrightarrow> enc x = enc y \<longleftrightarrow> x = y"
  using enc_view [of x y] view_inj [of x y] by auto

lemma enc_stream_inj:
  "list_all ok xs \<Longrightarrow> list_all ok ys \<Longrightarrow> map enc xs = map enc ys \<Longrightarrow> xs = ys"
proof (induction xs arbitrary: ys)
  case Nil
  then show ?case by simp
next
  case (Cons x xs)
  from Cons.prems obtain y zs where "ys = y # zs" "enc x = enc y" "map enc xs = map enc zs"
    by (cases ys) auto
  then show ?case
    using Cons.prems Cons.IH [of zs] enc_inj [of x y] by auto
qed

end

end
