(* ===== verification/Packet.thy ===== *)
theory Packet
  imports Flat_Correct Go_Runtime
begin

text \<open>
  The user-space view of a record, \<^verbatim>\<open>examples/flow/packet/packet.go\<close>: \<open>UnmarshalBinary\<close>
  and the five-tuple hash, with the parts of \<^verbatim>\<open>net/netip\<close> and \<^verbatim>\<open>hash/fnv\<close> they use.
\<close>

section \<open>netip.Addr\<close>

datatype ip_addr = NoAddr | Addr4 bytes | Addr6 bytes

definition addr_from_slice :: "go_slice \<Rightarrow> ip_addr \<times> bool" where
  "addr_from_slice s =
     (if len s = 4 then (Addr4 (contents s), True)
      else if len s = 16 then (Addr6 (contents s), True)
      else (NoAddr, False))"

fun as_slice :: "ip_addr \<Rightarrow> bytes" where
  "as_slice NoAddr = []"
| "as_slice (Addr4 bs) = bs"
| "as_slice (Addr6 bs) = bs"

fun is4in6 :: "ip_addr \<Rightarrow> bool" where
  "is4in6 (Addr6 bs) = (take 12 bs = replicate 10 0 @ [0xff, 0xff])"
| "is4in6 a = False"

definition unmap :: "ip_addr \<Rightarrow> ip_addr" where
  "unmap a = (if is4in6 a then Addr4 (drop 12 (as_slice a)) else a)"

section \<open>Packet\<close>

record packet =
  SrcIP :: ip_addr
  DstIP :: ip_addr
  SrcPort :: u16
  DstPort :: u16
  Protocol :: u8
  TTL :: u8
  Syn :: bool
  Ack :: bool
  Timestamp :: u64

definition zero_packet :: packet where
  "zero_packet = \<lparr>SrcIP = NoAddr, DstIP = NoAddr, SrcPort = 0, DstPort = 0, Protocol = 0,
     TTL = 0, Syn = False, Ack = False, Timestamp = 0\<rparr>"

definition unmarshal_binary :: "go_slice \<Rightarrow> (packet \<times> bool) option" where
  "unmarshal_binary i =
     do { s \<leftarrow> go_subslice i 0 16;
          let (srcIP, ok) = addr_from_slice s;
          if \<not> ok then Some (zero_packet, ok)
          else do {
            d \<leftarrow> go_subslice i 16 32;
            let (dstIP, ok) = addr_from_slice d;
            if \<not> ok then Some (zero_packet, ok)
            else do {
              sp \<leftarrow> go_subslice i 32 34;
              srcPort \<leftarrow> uint16_be sp;
              dp \<leftarrow> go_subslice i 34 36;
              dstPort \<leftarrow> uint16_be dp;
              proto \<leftarrow> go_index i 36;
              hop \<leftarrow> go_index i 37;
              sy \<leftarrow> go_index i 38;
              ak \<leftarrow> go_index i 39;
              t \<leftarrow> go_subslice i 40 48;
              now \<leftarrow> uint64_le t;
              Some (\<lparr>SrcIP = srcIP, DstIP = dstIP, SrcPort = srcPort, DstPort = dstPort,
                Protocol = proto, TTL = hop, Syn = sy = 1, Ack = ak = 1, Timestamp = now\<rparr>, ok) } } }"

text \<open>FNV-1a with the 64-bit offset basis and prime.\<close>

fun fnv1a :: "u64 \<Rightarrow> bytes \<Rightarrow> u64" where
  "fnv1a h [] = h"
| "fnv1a h (b # bs) = fnv1a ((h XOR ucast b) * 1099511628211) bs"

definition hash :: "bytes \<Rightarrow> u64" where
  "hash value = fnv1a 14695981039346656037 value"

definition packet_hash :: "packet \<Rightarrow> u64" where
  "packet_hash pkt =
     (let src = as_slice (SrcIP pkt) @ be_bytes 2 (SrcPort pkt);
          dst = as_slice (DstIP pkt) @ be_bytes 2 (DstPort pkt);
          proto = be_bytes 2 (ucast (Protocol pkt) :: u16)
      in hash src + hash dst + hash proto)"

section \<open>Decoding what the program encodes\<close>

definition view_packet :: "packet_t \<Rightarrow> packet" where
  "view_packet p = \<lparr>SrcIP = Addr6 (src_ip p), DstIP = Addr6 (dst_ip p), SrcPort = src_port p,
     DstPort = dst_port p, Protocol = protocol p, TTL = ttl p, Syn = syn p, Ack = ack p,
     Timestamp = ts p\<rparr>"

lemma unmarshal_encode:
  assumes "packet_t_ok p"
  shows "unmarshal_binary (slice_of (encode_packet_t p)) = Some (view_packet p, True)"
  using assms
  by (simp add: unmarshal_binary_def go_slice_defs packet_t_ok_def encode_packet_t_def view_packet_def
      addr_from_slice_def contents_def nth_append le_word_round)

lemma unmarshal_panics_iff:
  assumes "go_slice_ok s"
  shows "unmarshal_binary s = None \<longleftrightarrow> length (backing s) < 48 \<or> len s < 40"
  using assms
  by (auto simp: unmarshal_binary_def go_slice_defs go_slice_ok_def addr_from_slice_def Let_def)

definition unmarshal_sample :: "bytes \<Rightarrow> packet option" where
  "unmarshal_sample bs =
     (case unmarshal_binary (slice_of bs) of Some (p, True) \<Rightarrow> Some p | _ \<Rightarrow> None)"

interpretation packet_wire: faithful_wire_format packet_t_ok encode_packet_t sizeof_packet_t
  unmarshal_sample view_packet
  by unfold_locales
    (simp_all add: length_encode_packet_t unmarshal_sample_def unmarshal_encode view_packet_def)

lemma flat_event_ok: "54 \<le> length f \<Longrightarrow> packet_t_ok (flat_event f sy ak now)"
  by (simp add: packet_t_ok_def flat_event_def)

lemma flat_spec_cases:
  assumes "flat_spec f = Some ev"
  obtains sy ak where "ev = flat_event f sy ak" and "54 \<le> length f"
  using assms by (auto simp: flat_spec_def split: if_splits)

section \<open>Direction independence of the hash\<close>

definition reply :: "packet \<Rightarrow> packet" where
  "reply p = p\<lparr>SrcIP := DstIP p, DstIP := SrcIP p, SrcPort := DstPort p, DstPort := SrcPort p\<rparr>"

lemma packet_hash_reply: "packet_hash (reply p) = packet_hash p"
  by (simp add: packet_hash_def reply_def Let_def add.commute)

section \<open>Properties\<close>

text \<open>C23: what the classifier writes is what user space reads: decoding the memory image of a
  well-formed record never panics and returns its fields, ports in host order, and two records
  with the same image are the same record.\<close>

theorem packet_roundtrip:
  assumes "packet_t_ok p"
  shows "unmarshal_binary (slice_of (encode_packet_t p)) = Some (view_packet p, True) \<and>
    {q. packet_t_ok q \<and> encode_packet_t q = encode_packet_t p} = {p}"
  using assms packet_wire.enc_inj [of _ p] by (auto simp: unmarshal_encode)

definition sample_packet_t :: packet_t where
  "sample_packet_t = \<lparr>src_ip = replicate 15 0 @ [1], dst_ip = replicate 15 0 @ [2], src_port = 0x1234,
     dst_port = 80, protocol = 6, ttl = 64, syn = True, ack = False, ts = 77\<rparr>"

lemma packet_roundtrip_witness:
  "unmarshal_binary (slice_of (encode_packet_t sample_packet_t)) = Some (view_packet sample_packet_t, True) \<and>
   slice 32 4 (encode_packet_t sample_packet_t) = [0x12, 0x34, 0, 80]"
proof -
  have "packet_t_ok sample_packet_t" by code_simp
  moreover have "slice 32 4 (encode_packet_t sample_packet_t) = [0x12, 0x34, 0, 80]" by code_simp
  ultimately show ?thesis using packet_roundtrip [of sample_packet_t] by simp
qed

text \<open>Decoding a sample panics exactly when its capacity is below the 48 bytes of the record
  or its length below 40; the length test the code has after each address never fails.\<close>

lemma unmarshal_panics:
  assumes "go_slice_ok s"
  shows "(unmarshal_binary s = None \<longleftrightarrow> length (backing s) < sizeof_packet_t \<or> len s < off_ts) \<and>
    (\<forall>p. unmarshal_binary s \<noteq> Some (p, False))"
proof -
  have "unmarshal_binary s \<noteq> Some (p, False)" for p
    by (auto simp: unmarshal_binary_def go_slice_defs addr_from_slice_def Let_def)
  then show ?thesis using unmarshal_panics_iff [OF assms] by (simp add: wire_defs)
qed

lemma unmarshal_panics_witness:
  "unmarshal_binary (slice_of (replicate 47 0)) = None \<and> unmarshal_binary (slice_of (replicate 48 0)) \<noteq> None"
  using unmarshal_panics [of "slice_of (replicate 47 0)"] unmarshal_panics [of "slice_of (replicate 48 0)"]
  by (simp add: wire_defs)

text \<open>The hash of a packet is that of the packet with its endpoints exchanged, so both
  directions of a flow share one table entry; it depends on nothing but the five-tuple.\<close>

lemma packet_hash_direction:
  "packet_hash \<lparr>SrcIP = d, DstIP = s, SrcPort = dp, DstPort = sp, Protocol = pr, TTL = t,
     Syn = sy, Ack = ak, Timestamp = now\<rparr> =
   packet_hash \<lparr>SrcIP = s, DstIP = d, SrcPort = sp, DstPort = dp, Protocol = pr, TTL = t',
     Syn = sy', Ack = ak', Timestamp = now'\<rparr>"
  by (simp add: packet_hash_def Let_def add.commute)

end
