(* ===== verification/Flow_Table.thy ===== *)
theory Flow_Table
  imports Xcnf_Prelude
begin

text \<open>
  The flow table of \<^verbatim>\<open>examples/flow/flowtable/flowtable.go\<close>, a \<^verbatim>\<open>sync.Map\<close> from flow
  hashes to timestamps with a ticker, and the clock of \<^verbatim>\<open>examples/flow/timer/timer.go\<close>.
  The locale \<open>flow_store\<close> is what the latency code relies on.
\<close>

section \<open>The clock\<close>

text \<open>
  \<open>GetNanosecSeinceBoot\<close>: the result of \<^verbatim>\<open>clock_gettime\<close> is a parameter, seconds and
  nanoseconds are 64-bit integers whose arithmetic wraps.
\<close>

definition get_nanosec_since_boot :: "('err + u64 \<times> u64) \<Rightarrow> u64" where
  "get_nanosec_since_boot clock =
     (case clock of Inl err \<Rightarrow> 0 | Inr (sec, nsec) \<Rightarrow> nsec + sec * 1000000000)"

section \<open>The table\<close>

record flow_table =
  ticker_period :: nat
  ticker_stopped :: bool
  entries :: "u64 \<rightharpoonup> u64"

datatype table_log = NotInTable u64 | PruningStale u64

definition new_flow_table :: flow_table where
  "new_flow_table = \<lparr>ticker_period = 1000000000 * 10, ticker_stopped = False, entries = Map.empty\<rparr>"

definition ft_insert :: "flow_table \<Rightarrow> u64 \<Rightarrow> u64 \<Rightarrow> flow_table" where
  "ft_insert table h timestamp = table\<lparr>entries := (entries table)(h \<mapsto> timestamp)\<rparr>"

definition ft_get :: "flow_table \<Rightarrow> u64 \<Rightarrow> u64 \<times> bool" where
  "ft_get table h = (case entries table h of None \<Rightarrow> (0, False) | Some v \<Rightarrow> (v, True))"

definition ft_delete :: "flow_table \<Rightarrow> u64 \<Rightarrow> flow_table" where
  "ft_delete table h = table\<lparr>entries := (entries table)(h := None)\<rparr>"

definition ft_remove :: "flow_table \<Rightarrow> u64 \<Rightarrow> flow_table \<times> table_log list" where
  "ft_remove table h =
     (case entries table h of
        Some _ \<Rightarrow> (ft_delete table h, [])
      | None \<Rightarrow> (table, [NotInTable h]))"

text \<open>
  \<^verbatim>\<open>Range\<close> visits the keys in an order of its own choosing, the list \<open>order\<close>; it reads
  each key's value when it reaches it and stops when the callback returns false.
\<close>

definition prune_entry :: "u64 \<Rightarrow> u64 \<Rightarrow> u64 \<Rightarrow> flow_table \<Rightarrow> bool \<times> flow_table \<times> table_log list" where
  "prune_entry now h timestamp table =
     (if (now - timestamp) div 1000000 > 10000
      then (True, ft_delete table h, [PruningStale h])
      else (False, table, []))"

fun ft_range ::
  "(u64 \<Rightarrow> u64 \<Rightarrow> flow_table \<Rightarrow> bool \<times> flow_table \<times> 'l list) \<Rightarrow> u64 list \<Rightarrow> flow_table
     \<Rightarrow> flow_table \<times> 'l list" where
  "ft_range f [] table = (table, [])"
| "ft_range f (h # order) table =
     (case entries table h of
        None \<Rightarrow> ft_range f order table
      | Some v \<Rightarrow>
          (case f h v table of
             (True, table, ls) \<Rightarrow> (let (table, ls') = ft_range f order table in (table, ls @ ls'))
           | (False, table, ls) \<Rightarrow> (table, ls)))"

definition ft_prune :: "('err + u64 \<times> u64) \<Rightarrow> u64 list \<Rightarrow> flow_table \<Rightarrow> flow_table \<times> table_log list" where
  "ft_prune clock order table =
     (let now = get_nanosec_since_boot clock in ft_range (prune_entry now) order table)"

section \<open>The interface to the latency code\<close>

record 't table_ops =
  op_get :: "'t \<Rightarrow> u64 \<Rightarrow> u64 \<times> bool"
  op_insert :: "'t \<Rightarrow> u64 \<Rightarrow> u64 \<Rightarrow> 't"
  op_remove :: "'t \<Rightarrow> u64 \<Rightarrow> 't"

definition flow_table_ops :: "flow_table table_ops" where
  "flow_table_ops = \<lparr>op_get = ft_get, op_insert = ft_insert, op_remove = (\<lambda>t h. fst (ft_remove t h))\<rparr>"

text \<open>The table as a finite-lookup abstraction: a partial function from hashes to timestamps.\<close>

locale flow_store =
  fixes ops :: "'t table_ops"
    and abs :: "'t \<Rightarrow> u64 \<rightharpoonup> u64"
  assumes get_abs: "op_get ops t h = (case abs t h of None \<Rightarrow> (0, False) | Some v \<Rightarrow> (v, True))"
    and insert_abs: "abs (op_insert ops t h v) = (abs t)(h \<mapsto> v)"
    and remove_abs: "abs (op_remove ops t h) = (abs t)(h := None)"
begin

lemma get_after_insert: "op_get ops (op_insert ops t h v) h = (v, True)"
  by (simp add: get_abs insert_abs)

lemma get_after_remove: "op_get ops (op_remove ops t h) h = (0, False)"
  by (simp add: get_abs remove_abs)

lemma get_other:
  "h \<noteq> h' \<Longrightarrow> op_get ops (op_insert ops t h v) h' = op_get ops t h'"
  "h \<noteq> h' \<Longrightarrow> op_get ops (op_remove ops t h) h' = op_get ops t h'"
  by (simp_all add: get_abs insert_abs remove_abs)

end

interpretation ft: flow_store flow_table_ops entries
  by unfold_locales
    (auto simp: flow_table_ops_def ft_get_def ft_insert_def ft_remove_def ft_delete_def fun_upd_idem
      split: option.splits)

section \<open>Pruning\<close>

definition stale :: "u64 \<Rightarrow> u64 \<Rightarrow> bool" where
  "stale now timestamp \<longleftrightarrow> (now - timestamp) div 1000000 > 10000"

definition enumerates :: "u64 list \<Rightarrow> flow_table \<Rightarrow> bool" where
  "enumerates order t \<longleftrightarrow> distinct order \<and> set order = dom (entries t)"

lemma restrict_map_UNIV [simp]: "m |` UNIV = m"
  by (simp add: restrict_map_def)

lemma prune_entry_stale:
  "stale now v \<Longrightarrow> prune_entry now h v t = (True, ft_delete t h, [PruningStale h])"
  "\<not> stale now v \<Longrightarrow> prune_entry now h v t = (False, t, [])"
  by (simp_all add: prune_entry_def stale_def)

lemma ft_range_prune:
  assumes "distinct order" and "set order \<subseteq> dom (entries t)"
  shows "ft_range (prune_entry now) order t =
    (let gone = takeWhile (\<lambda>h. stale now (the (entries t h))) order
     in (t\<lparr>entries := entries t |` (- set gone)\<rparr>, map PruningStale gone))"
  using assms
proof (induction order arbitrary: t)
  case Nil
  then show ?case by simp
next
  case (Cons h hs)
  then obtain v where v: "entries t h = Some v" by auto
  show ?case
  proof (cases "stale now v")
    case False
    then show ?thesis using v by (simp add: prune_entry_stale)
  next
    case True
    let ?t = "ft_delete t h"
    have same: "takeWhile (\<lambda>x. stale now (the (entries ?t x))) hs =
        takeWhile (\<lambda>x. stale now (the (entries t x))) hs"
      using Cons.prems by (intro takeWhile_cong) (auto simp: ft_delete_def)
    have "distinct hs" "set hs \<subseteq> dom (entries ?t)"
      using Cons.prems by (auto simp: ft_delete_def)
    then have "ft_range (prune_entry now) hs ?t =
      (let gone = takeWhile (\<lambda>x. stale now (the (entries t x))) hs
       in (?t\<lparr>entries := entries ?t |` (- set gone)\<rparr>, map PruningStale gone))"
      using Cons.IH [of ?t] same by simp
    then show ?thesis
      using True v
      by (auto simp: prune_entry_stale ft_delete_def Let_def restrict_map_def fun_eq_iff)
  qed
qed

lemma ft_prune_eq:
  assumes "enumerates order t"
  shows "entries (fst (ft_prune clock order t)) =
    entries t |` (- set (takeWhile (\<lambda>h. stale (get_nanosec_since_boot clock) (the (entries t h))) order))"
  using assms by (simp add: ft_prune_def enumerates_def ft_range_prune Let_def)

text \<open>An age that wraps around is stale: a timestamp later than the clock sample looks old.\<close>

lemma stale_future:
  assumes "now < timestamp" and "unat timestamp - unat now < 2 ^ 63"
  shows "stale now timestamp"
proof -
  have "unat (now - timestamp) = 2 ^ 64 + unat now - unat timestamp"
    using assms(1) by (simp add: unat_sub_if' word_less_nat_alt word_le_nat_alt)
  then have "2 ^ 63 < unat (now - timestamp)"
    using assms by (simp add: word_less_nat_alt)
  then have "10000 < unat (now - timestamp) div 1000000" by simp
  then show ?thesis by (simp add: stale_def word_less_nat_alt unat_div)
qed

lemma stale_past_iff:
  assumes "timestamp \<le> now"
  shows "stale now timestamp \<longleftrightarrow> 10001 * 1000000 \<le> unat now - unat timestamp"
proof -
  have "unat (now - timestamp) = unat now - unat timestamp"
    using assms by (simp add: unat_sub_if' word_le_nat_alt)
  then show ?thesis by (auto simp: stale_def word_less_nat_alt unat_div)
qed

section \<open>Properties\<close>

text \<open>C22: a pass of Prune, visiting the keys in any order, removes exactly the stale entries it
  meets before the first fresh one, logs each of them once in that order, and touches neither the
  other entries nor the ticker.\<close>

theorem prune_effect:
  assumes "enumerates order t"
  shows "ft_prune clock order t =
    (let gone = takeWhile (\<lambda>h. stale (get_nanosec_since_boot clock) (the (entries t h))) order
     in (t\<lparr>entries := entries t |` (- set gone)\<rparr>, map PruningStale gone))"
  using assms by (simp add: ft_prune_def enumerates_def ft_range_prune)

definition two_flows :: flow_table where
  "two_flows = ft_insert (ft_insert new_flow_table 1 0) 2 60000000000"

definition at_minute :: "unit + u64 \<times> u64" where "at_minute = Inr (60, 0)"

lemma two_flows_enumerates: "enumerates [1, 2] two_flows" "enumerates [2, 1] two_flows"
  by (auto simp: enumerates_def two_flows_def ft_insert_def new_flow_table_def)

lemma prune_effect_witness:
  "entries (fst (ft_prune at_minute [1, 2] two_flows)) = [2 \<mapsto> 60000000000] \<and>
   snd (ft_prune at_minute [1, 2] two_flows) = [PruningStale 1]"
proof -
  have s: "stale 60000000000 0" "\<not> stale 60000000000 60000000000"
    by (simp_all add: stale_def)
  show ?thesis
    using prune_effect [OF two_flows_enumerates(1), of at_minute] s
    by (simp add: at_minute_def get_nanosec_since_boot_def two_flows_def ft_insert_def
        new_flow_table_def restrict_map_insert)
qed

text \<open>One pass need not remove every entry older than ten seconds: a fresh entry met first
  ends it, and a stale entry behind it stays, whatever its age.\<close>

lemma prune_stops_at_fresh:
  assumes "enumerates (h # order) t" and "entries t h = Some v"
    and "\<not> stale (get_nanosec_since_boot clock) v"
  shows "ft_prune clock (h # order) t = (t, [])"
  using assms by (simp add: ft_prune_def prune_entry_stale)

lemma prune_stops_at_fresh_witness:
  "ft_prune at_minute [2, 1] two_flows = (two_flows, []) \<and>
   entries two_flows 1 = Some 0 \<and> stale 60000000000 0"
  using prune_stops_at_fresh [OF two_flows_enumerates(2), of 60000000000 at_minute]
  by (simp add: at_minute_def get_nanosec_since_boot_def stale_def)
    (simp add: two_flows_def ft_insert_def)



text \<open>The table is a map: a lookup gives the last timestamp inserted for its hash, zero and
  false after a removal or before any insertion, and removing an absent hash only logs it.\<close>

lemma flow_table_lookup:
  "ft_get (ft_insert t h v) h' = (if h' = h then (v, True) else ft_get t h') \<and>
   ft_get (fst (ft_remove t h)) h' = (if h' = h then (0, False) else ft_get t h') \<and>
   snd (ft_remove t h) = (if snd (ft_get t h) then [] else [NotInTable h]) \<and>
   fst (ft_remove t h) = (if snd (ft_get t h) then ft_delete t h else t)"
  using ft.get_abs [of "ft_insert t h v" h'] ft.insert_abs [of t h v] ft.get_abs [of t h']
    ft.remove_abs [of t h] ft.get_abs [of "fst (ft_remove t h)" h']
  by (auto simp: flow_table_ops_def ft_remove_def ft_get_def ft_delete_def ft_insert_def
      split: option.splits)

end
