(* ===== verification/Flow_Latency.thy ===== *)
theory Flow_Latency
  imports Packet Flow_Table
begin

text \<open>
  \<open>CalcLatency\<close> of \<^verbatim>\<open>examples/flow/packet/packet.go\<close> over the table interface, and what a
  stream of packets makes of it. A report is the tuple of values printed for a finished
  exchange; its latency is kept as the two timestamps whose difference the code converts
  to floating-point milliseconds, which \<open>Flow_Text\<close> computes and prints.
\<close>

datatype print_color = Cyan | LightYellow

record report =
  rp_color :: print_color
  rp_proto :: string
  rp_src :: ip_addr
  rp_src_port :: u16
  rp_dst :: ip_addr
  rp_dst_port :: u16
  rp_ttl :: u8
  rp_end :: u64
  rp_start :: u64

definition ipProtoNums :: "u8 \<Rightarrow> string option" where
  "ipProtoNums n = (if n = 6 then Some ''TCP'' else if n = 17 then Some ''UDP'' else None)"

definition make_report :: "print_color \<Rightarrow> string \<Rightarrow> packet \<Rightarrow> u64 \<Rightarrow> report" where
  "make_report c proto pkt start =
     \<lparr>rp_color = c, rp_proto = proto, rp_src = unmap (DstIP pkt), rp_src_port = DstPort pkt,
      rp_dst = unmap (SrcIP pkt), rp_dst_port = SrcPort pkt, rp_ttl = TTL pkt,
      rp_end = Timestamp pkt, rp_start = start\<rparr>"

definition calc_latency :: "'t table_ops \<Rightarrow> packet \<Rightarrow> 't \<Rightarrow> report option \<times> 't" where
  "calc_latency ops pkt table =
     (case ipProtoNums (Protocol pkt) of
        None \<Rightarrow> (None, table)
      | Some proto \<Rightarrow>
          let pktHash = packet_hash pkt;
              (start, ok) = op_get ops table pktHash
          in if \<not> ok \<and> Syn pkt then (None, op_insert ops table pktHash (Timestamp pkt))
             else if \<not> ok \<and> proto = ''UDP'' then (None, op_insert ops table pktHash (Timestamp pkt))
             else if \<not> ok then (None, table)
             else if Ack pkt then
               (Some (make_report Cyan proto pkt start), op_remove ops table pktHash)
             else if proto = ''UDP'' then
               (Some (make_report LightYellow proto pkt start), op_remove ops table pktHash)
             else (None, table))"

text \<open>The packets of a stream handled one after the other.\<close>

fun calc_stream :: "'t table_ops \<Rightarrow> packet list \<Rightarrow> 't \<Rightarrow> report option list \<times> 't" where
  "calc_stream ops [] table = ([], table)"
| "calc_stream ops (p # ps) table =
     (let (r, table) = calc_latency ops p table;
          (rs, table) = calc_stream ops ps table
      in (r # rs, table))"

section \<open>Roles of a packet\<close>

definition known :: "packet \<Rightarrow> bool" where
  "known p \<longleftrightarrow> Protocol p = 6 \<or> Protocol p = 17"

definition opens :: "packet \<Rightarrow> bool" where
  "opens p \<longleftrightarrow> known p \<and> (Syn p \<or> Protocol p = 17)"

definition closes :: "packet \<Rightarrow> bool" where
  "closes p \<longleftrightarrow> known p \<and> (Ack p \<or> Protocol p = 17)"

text \<open>Where a report comes from: the packet that opened the exchange, unreported in between.\<close>

definition opened_by :: "packet list \<Rightarrow> report option list \<Rightarrow> nat \<Rightarrow> report \<Rightarrow> nat \<Rightarrow> bool" where
  "opened_by ps rs j r i \<longleftrightarrow> i < j \<and> packet_hash (ps ! i) = packet_hash (ps ! j) \<and>
     Timestamp (ps ! i) = rp_start r \<and> opens (ps ! i) \<and>
     (\<forall>m. i \<le> m \<and> m < j \<and> packet_hash (ps ! m) = packet_hash (ps ! j) \<longrightarrow> rs ! m = None)"

context flow_store
begin

lemma calc_table:
  "abs (snd (calc_latency ops p t)) =
     (case abs t (packet_hash p) of
        None \<Rightarrow> if opens p then (abs t)(packet_hash p \<mapsto> Timestamp p) else abs t
      | Some start \<Rightarrow> if closes p then (abs t)(packet_hash p := None) else abs t)"
  by (auto simp: calc_latency_def ipProtoNums_def known_def opens_def closes_def get_abs insert_abs
      remove_abs Let_def split: option.splits)

lemma calc_report:
  "fst (calc_latency ops p t) =
     (case abs t (packet_hash p) of
        None \<Rightarrow> None
      | Some start \<Rightarrow> if closes p
          then Some (make_report (if Ack p then Cyan else LightYellow)
            (if Protocol p = 6 then ''TCP'' else ''UDP'') p start)
          else None)"
  by (auto simp: calc_latency_def ipProtoNums_def known_def closes_def get_abs Let_def
      split: option.splits)

lemma calc_report_Some_iff:
  "fst (calc_latency ops p t) \<noteq> None \<longleftrightarrow> abs t (packet_hash p) \<noteq> None \<and> closes p"
  by (auto simp: calc_report split: option.splits)

lemma exchange:
  assumes "abs t (packet_hash p) = None" and "opens p" and "closes q"
    and "packet_hash q = packet_hash p"
  shows "\<exists>r. calc_stream ops [p, q] t = ([None, Some r], snd (calc_latency ops q (snd (calc_latency ops p t)))) \<and>
      rp_start r = Timestamp p \<and> rp_end r = Timestamp q \<and>
      abs (snd (calc_stream ops [p, q] t)) = abs t"
proof -
  obtain t1 where t1: "calc_latency ops p t = (None, t1)" "abs t1 = (abs t)(packet_hash p \<mapsto> Timestamp p)"
    using assms calc_report [of p t] calc_table [of p t]
    by (cases "calc_latency ops p t") auto
  obtain r t2 where t2: "calc_latency ops q t1 = (Some r, t2)" "rp_start r = Timestamp p"
      "rp_end r = Timestamp q" "abs t2 = abs t"
    using assms t1 calc_report [of q t1] calc_table [of q t1]
    by (cases "calc_latency ops q t1") (auto simp: make_report_def fun_upd_idem)
  show ?thesis using t1 t2 by simp
qed

text \<open>
  The invariant of a stream: every entry of the table was made by an opening packet of
  its hash that has not been reported since.
\<close>

definition traced :: "'t \<Rightarrow> packet list \<Rightarrow> report option list \<Rightarrow> bool" where
  "traced t ps rs \<longleftrightarrow> length rs = length ps \<and>
     (\<forall>h v. abs t h = Some v \<longrightarrow>
        (\<exists>i<length ps. packet_hash (ps ! i) = h \<and> Timestamp (ps ! i) = v \<and> opens (ps ! i) \<and>
           (\<forall>m. i \<le> m \<and> m < length ps \<and> packet_hash (ps ! m) = h \<longrightarrow> rs ! m = None)))"

lemma tracedD:
  "traced t ps rs \<Longrightarrow> abs t h = Some v \<Longrightarrow>
     \<exists>i<length ps. packet_hash (ps ! i) = h \<and> Timestamp (ps ! i) = v \<and> opens (ps ! i) \<and>
       (\<forall>m. i \<le> m \<and> m < length ps \<and> packet_hash (ps ! m) = h \<longrightarrow> rs ! m = None)"
  by (simp add: traced_def)

lemma traced_step:
  assumes "traced t ps rs" and "calc_latency ops p t = (r, t')"
  shows "traced t' (ps @ [p]) (rs @ [r])"
  unfolding traced_def
proof (intro conjI allI impI)
  have len: "length rs = length ps" using assms(1) by (simp add: traced_def)
  then show "length (rs @ [r]) = length (ps @ [p])" by simp
  fix h v assume h: "abs t' h = Some v"
  show "\<exists>i<length (ps @ [p]). packet_hash ((ps @ [p]) ! i) = h \<and> Timestamp ((ps @ [p]) ! i) = v \<and>
      opens ((ps @ [p]) ! i) \<and>
      (\<forall>m. i \<le> m \<and> m < length (ps @ [p]) \<and> packet_hash ((ps @ [p]) ! m) = h \<longrightarrow> (rs @ [r]) ! m = None)"
  proof (cases "abs t h = Some v")
    case True
    then obtain i where i: "i < length ps" "packet_hash (ps ! i) = h" "Timestamp (ps ! i) = v"
        "opens (ps ! i)" "\<forall>m. i \<le> m \<and> m < length ps \<and> packet_hash (ps ! m) = h \<longrightarrow> rs ! m = None"
      using tracedD [OF assms(1) True] by blast
    have "packet_hash p = h \<longrightarrow> r = None"
      using assms(2) True h calc_report [of p t] calc_table [of p t]
      by (auto split: option.splits if_splits)
    then show ?thesis
      using i len by (intro exI [of _ i]) (auto simp: nth_append less_Suc_eq)
  next
    case False
    then have "abs t (packet_hash p) = None" "opens p" "packet_hash p = h" "Timestamp p = v"
      using assms(2) h calc_table [of p t] by (auto split: option.splits if_splits)
    moreover have "r = None"
      using assms(2) calculation(1) calc_report [of p t] by simp
    ultimately show ?thesis
      using len by (intro exI [of _ "length ps"]) (auto simp: nth_append)
  qed
qed

lemma calc_stream_snoc:
  "calc_stream ops (ps @ [p]) t =
     (let (rs, t1) = calc_stream ops ps t; (r, t2) = calc_latency ops p t1 in (rs @ [r], t2))"
  by (induction ps arbitrary: t) (simp_all add: split_beta Let_def)

lemma traced_stream:
  "abs t = Map.empty \<Longrightarrow> calc_stream ops ps t = (rs, t') \<Longrightarrow> traced t' ps rs"
proof (induction ps arbitrary: rs t' rule: rev_induct)
  case Nil
  then show ?case by (simp add: traced_def)
next
  case (snoc p ps)
  then show ?case
    by (auto simp: calc_stream_snoc split: prod.splits intro: traced_step)
qed

lemma report_opened:
  "abs t = Map.empty \<Longrightarrow> calc_stream ops ps t = (rs, t') \<Longrightarrow> j < length ps \<Longrightarrow> rs ! j = Some r \<Longrightarrow>
     closes (ps ! j) \<and> rp_end r = Timestamp (ps ! j) \<and> (\<exists>i. opened_by ps rs j r i)"
proof (induction ps arbitrary: rs t' rule: rev_induct)
  case Nil
  then show ?case by simp
next
  case (snoc p ps)
  obtain rs1 t1 r1 where s: "calc_stream ops ps t = (rs1, t1)" "calc_latency ops p t1 = (r1, t')"
      "rs = rs1 @ [r1]"
    using snoc.prems(2) by (auto simp: calc_stream_snoc split: prod.splits)
  have tr: "traced t1 ps rs1" using traced_stream snoc.prems(1) s(1) by blast
  then have len: "length rs1 = length ps" by (simp add: traced_def)
  show ?case
  proof (cases "j < length ps")
    case True
    then show ?thesis
      using snoc.IH [OF snoc.prems(1) s(1) True] snoc.prems(4) s(3) len
      by (auto simp: nth_append opened_by_def)
  next
    case False
    then have j: "j = length ps" using snoc.prems(3) by simp
    then have "r1 = Some r" using snoc.prems(4) s(3) len by (simp add: nth_append)
    then obtain v where v: "abs t1 (packet_hash p) = Some v" "closes p" "rp_start r = v"
        "rp_end r = Timestamp p"
      using s(2) calc_report [of p t1] by (auto simp: make_report_def split: option.splits if_splits)
    then obtain i where "i < length ps" "packet_hash (ps ! i) = packet_hash p"
        "Timestamp (ps ! i) = v" "opens (ps ! i)"
        "\<forall>m. i \<le> m \<and> m < length ps \<and> packet_hash (ps ! m) = packet_hash p \<longrightarrow> rs1 ! m = None"
      using tracedD [OF tr v(1)] by blast
    then have "opened_by (ps @ [p]) rs j r i"
      using j s(3) len v by (auto simp: opened_by_def nth_append)
    then show ?thesis using v j by auto
  qed
qed

end

section \<open>Properties\<close>

text \<open>No report is invented: started on an empty table, every report of a stream ends at a
  packet that closes exchanges, starts at the timestamp of an earlier opening packet of the same
  hash, and no packet of that hash was reported from that one on.\<close>

lemma every_report_has_an_opening:
  assumes "entries t = Map.empty" and "calc_stream flow_table_ops ps t = (rs, t')"
    and "j < length ps" and "rs ! j = Some r"
  shows "closes (ps ! j) \<and> rp_end r = Timestamp (ps ! j) \<and> (\<exists>i. opened_by ps rs j r i)"
  using assms by (rule ft.report_opened)

definition udp_packet :: "u64 \<Rightarrow> packet" where
  "udp_packet now = \<lparr>SrcIP = Addr4 [10, 0, 0, 1], DstIP = Addr4 [10, 0, 0, 2], SrcPort = 5000,
     DstPort = 53, Protocol = 17, TTL = 64, Syn = False, Ack = False, Timestamp = now\<rparr>"

lemma udp_packet_hash: "packet_hash (udp_packet a) = packet_hash (udp_packet b)"
  by (simp add: packet_hash_def udp_packet_def)

lemma udp_packet_roles: "opens (udp_packet a)" "closes (udp_packet a)"
  by (simp_all add: opens_def closes_def known_def udp_packet_def)

lemma every_report_has_an_opening_witness:
  "\<exists>rs r t' i. calc_stream flow_table_ops [udp_packet 3, udp_packet 8] new_flow_table = (rs, t') \<and>
     rs ! 1 = Some r \<and> opened_by [udp_packet 3, udp_packet 8] rs 1 r i"
proof -
  have e: "entries new_flow_table = Map.empty" by (simp add: new_flow_table_def)
  obtain r t' where r: "calc_stream flow_table_ops [udp_packet 3, udp_packet 8] new_flow_table = ([None, Some r], t')"
    using ft.exchange [of new_flow_table "udp_packet 3" "udp_packet 8"] e udp_packet_roles udp_packet_hash
    by fastforce
  show ?thesis using every_report_has_an_opening [OF e r, of 1 r] r by auto
qed

text \<open>An opening packet of a hash the table does not hold, followed by a closing packet of the
  same hash, yields exactly one report, with the timestamps of the two, and leaves the table's
  entries as they were.\<close>

lemma exchange_reported:
  assumes "entries t (packet_hash p) = None" and "opens p" and "closes q"
    and "packet_hash q = packet_hash p"
  shows "\<exists>r t'. calc_stream flow_table_ops [p, q] t = ([None, Some r], t') \<and>
    rp_start r = Timestamp p \<and> rp_end r = Timestamp q \<and> entries t' = entries t"
  using ft.exchange [OF assms] by fastforce

lemma exchange_reported_witness:
  "\<exists>r t'. calc_stream flow_table_ops [udp_packet 3, udp_packet 8] new_flow_table = ([None, Some r], t') \<and>
     rp_start r = 3 \<and> rp_end r = 8 \<and> entries t' = Map.empty"
proof -
  have "entries new_flow_table = Map.empty" by (simp add: new_flow_table_def)
  then show ?thesis
    using exchange_reported [OF _ udp_packet_roles udp_packet_hash, of new_flow_table 3 8]
    by (fastforce simp: udp_packet_def)
qed

text \<open>A packet that neither opens nor closes, or whose hash is held and which does not close,
  or which finds nothing and does not open, changes no entry; in particular a retransmitted SYN
  keeps the timestamp of the first.\<close>

lemma calc_latency_frame:
  "entries (snd (calc_latency flow_table_ops p t)) =
     (case entries t (packet_hash p) of
        None \<Rightarrow> if opens p then (entries t)(packet_hash p \<mapsto> Timestamp p) else entries t
      | Some start \<Rightarrow> if closes p then (entries t)(packet_hash p := None) else entries t)"
  by (rule ft.calc_table)

end
