(* ===== verification/Probe.thy ===== *)
theory Probe
  imports Resources Flow_Latency
begin

text \<open>
  The probe of \<^verbatim>\<open>examples/flow/kprobe/kprobe.go\<close> with the queueing discipline of
  \<^verbatim>\<open>examples/flow/clsact/clsact.go\<close>: setting the classifier up, the loop that turns ring
  buffer samples into latency reports, and what is left behind at the end. The netlink,
  ebpf and unix packages are a parameter.
\<close>

section \<open>The queueing discipline and the filters\<close>

datatype nl_parent = HANDLE_CLSACT | HANDLE_MIN_INGRESS | HANDLE_MIN_EGRESS

record qdisc_attrs =
  q_link_index :: int
  q_handle :: "nat \<times> nat"
  q_parent :: nl_parent

record clsact =
  attrs :: qdisc_attrs

definition NewClsAct :: "qdisc_attrs \<Rightarrow> clsact" where
  "NewClsAct a = \<lparr>attrs = a\<rparr>"

definition clsact_Attrs :: "clsact \<Rightarrow> qdisc_attrs" where
  "clsact_Attrs qdisc = attrs qdisc"

definition clsact_Type :: "clsact \<Rightarrow> string" where
  "clsact_Type qdisc = ''clsact''"

record filter_attrs =
  f_link_index :: int
  f_handle :: "nat \<times> nat"
  f_parent :: nl_parent
  f_protocol :: u16

record bpf_filter =
  filter_attrs :: filter_attrs
  f_fd :: int
  f_direct_action :: bool

section \<open>The environment\<close>

record 'e probe_env =
  Setrlimit :: "nat \<Rightarrow> nat \<Rightarrow> 'e option"
  LinkIndexByName :: "string \<Rightarrow> 'e + int"
  NewHandle :: "'e option"
  LoadProbeObjects :: "'e + int"
  QdiscAdd :: "clsact \<Rightarrow> 'e option"
  QdiscReplace :: "clsact \<Rightarrow> 'e option"
  QdiscDel :: "'e option"
  FilterAdd :: "bpf_filter \<Rightarrow> 'e option"
  FilterReplace :: "bpf_filter \<Rightarrow> 'e option"
  NewRingbufReader :: "'e option"
  ObjectsClose :: "'e option"

datatype probe_resource = Handle | ProbeObjects | Qdisc clsact | Filter bpf_filter | Ticker | RingReader

datatype probe_call = CallQdiscAdd clsact | CallQdiscReplace clsact | CallFilterAdd bpf_filter
  | CallFilterReplace bpf_filter

type_synonym probe_log = "(probe_resource, probe_call) action list"

record probe =
  iface :: int
  qdisc :: "clsact option"
  flat_fd :: int
  filters :: "bpf_filter list"

section \<open>Setting up\<close>

definition tenMB :: nat where "tenMB = 1024 * 1024 * 10"
definition twentyMB :: nat where "twentyMB = tenMB * 2"
definition fortyMB :: nat where "fortyMB = tenMB * 4"

definition setRlimit :: "'e probe_env \<Rightarrow> 'e option" where
  "setRlimit env = Setrlimit env twentyMB fortyMB"

definition createQdisc :: "'e probe_env \<Rightarrow> probe \<Rightarrow> 'e option \<times> probe \<times> probe_log" where
  "createQdisc env p =
     (let q = NewClsAct \<lparr>q_link_index = iface p, q_handle = (0xffff, 0), q_parent = HANDLE_CLSACT\<rparr>;
          p = p\<lparr>qdisc := Some q\<rparr>
      in case QdiscAdd env q of
           None \<Rightarrow> (None, p, [Do (CallQdiscAdd q), Acquire (Qdisc q)])
         | Some _ \<Rightarrow>
             (case QdiscReplace env q of
                None \<Rightarrow> (None, p, [Do (CallQdiscAdd q), Do (CallQdiscReplace q), Acquire (Qdisc q)])
              | Some err \<Rightarrow> (Some err, p, [Do (CallQdiscAdd q), Do (CallQdiscReplace q)])))"

definition addFilter :: "filter_attrs \<Rightarrow> probe \<Rightarrow> probe" where
  "addFilter a p =
     p\<lparr>filters := filters p @ [\<lparr>filter_attrs = a, f_fd = flat_fd p, f_direct_action = True\<rparr>]\<rparr>"

fun install_filters :: "'e probe_env \<Rightarrow> bpf_filter list \<Rightarrow> 'e option \<times> probe_log" where
  "install_filters env [] = (None, [])"
| "install_filters env (f # fs) =
     (case FilterAdd env f of
        None \<Rightarrow> after [Do (CallFilterAdd f), Acquire (Filter f)] (install_filters env fs)
      | Some _ \<Rightarrow>
          (case FilterReplace env f of
             None \<Rightarrow> after [Do (CallFilterAdd f), Do (CallFilterReplace f), Acquire (Filter f)]
                       (install_filters env fs)
           | Some err \<Rightarrow> (Some err, [Do (CallFilterAdd f), Do (CallFilterReplace f)])))"

definition four_filters :: "probe \<Rightarrow> probe" where
  "four_filters p =
     (let at = (\<lambda>parent proto. \<lparr>f_link_index = iface p, f_handle = (0xffff, 0), f_parent = parent,
                  f_protocol = proto\<rparr>);
          p = addFilter (at HANDLE_MIN_INGRESS ETH_P_IP) p;
          p = addFilter (at HANDLE_MIN_EGRESS ETH_P_IP) p;
          p = addFilter (at HANDLE_MIN_INGRESS ETH_P_IPV6) p
      in addFilter (at HANDLE_MIN_EGRESS ETH_P_IPV6) p)"

definition createFilters :: "'e probe_env \<Rightarrow> probe \<Rightarrow> 'e option \<times> probe \<times> probe_log" where
  "createFilters env p =
     (let p = four_filters p; (err, log) = install_filters env (filters p) in (err, p, log))"

definition newProbe :: "'e probe_env \<Rightarrow> int \<Rightarrow> ('e + probe) \<times> probe_log" where
  "newProbe env ifc =
     (case NewHandle env of
        Some err \<Rightarrow> (Inl err, [])
      | None \<Rightarrow> after [Acquire Handle]
          (case LoadProbeObjects env of
             Inl err \<Rightarrow> (Inl err, [])
           | Inr fd \<Rightarrow> after [Acquire ProbeObjects]
               (let hook = \<lparr>iface = ifc, qdisc = None, flat_fd = fd, filters = []\<rparr> in
                case createQdisc env hook of
                  (Some err, _, log) \<Rightarrow> (Inl err, log)
                | (None, hook, log) \<Rightarrow> after log
                    (case createFilters env hook of
                       (Some err, _, log) \<Rightarrow> (Inl err, log)
                     | (None, hook, log) \<Rightarrow> (Inr hook, log)))))"

text \<open>\<open>Close\<close>, which removes everything in order, stops at the first error.\<close>

definition probe_Close :: "'e probe_env \<Rightarrow> probe \<Rightarrow> 'e option \<times> probe_log" where
  "probe_Close env p =
     (case QdiscDel env of
        Some err \<Rightarrow> (Some err, [])
      | None \<Rightarrow> after ((case qdisc p of None \<Rightarrow> [] | Some q \<Rightarrow> [Release (Qdisc q)]) @ [Release Handle])
          (case ObjectsClose env of
             Some err \<Rightarrow> (Some err, [])
           | None \<Rightarrow> (None, [Release ProbeObjects])))"

section \<open>Running\<close>

text \<open>
  What happens while \<open>Run\<close> waits: the context is cancelled, a sample arrives on the channel,
  or the ticker goroutine prunes the table with a clock reading and a visiting order.
\<close>

datatype probe_event = CtxDone | Sample go_slice | PruneTick "unit + u64 \<times> u64" "u64 list"

datatype 'e probe_result = Panicked | Returned "'e option" | Waiting

fun probe_loop :: "'e probe_env \<Rightarrow> probe_event list \<Rightarrow> flow_table
    \<Rightarrow> 'e probe_result \<times> report list \<times> flow_table" where
  "probe_loop env [] table = (Waiting, [], table)"
| "probe_loop env (CtxDone # es) table =
     (Returned (ObjectsClose env), [], table\<lparr>ticker_stopped := True\<rparr>)"
| "probe_loop env (PruneTick clock order # es) table =
     probe_loop env es (fst (ft_prune clock order table))"
| "probe_loop env (Sample pkt # es) table =
     (case unmarshal_binary pkt of
        None \<Rightarrow> (Panicked, [], table)
      | Some (packetAttrs, ok) \<Rightarrow>
          if \<not> ok then probe_loop env es table
          else
            let (r, table) = calc_latency flow_table_ops packetAttrs table;
                (res, rs, table) = probe_loop env es table
            in (res, (case r of None \<Rightarrow> rs | Some x \<Rightarrow> x # rs), table))"

text \<open>
  \<open>Run\<close>: its interface parameter is overwritten by a lookup of eth0, and the error of
  \<open>newProbe\<close> is not looked at before \<open>hook\<close> is dereferenced.
\<close>

definition probe_Run :: "'e probe_env \<Rightarrow> int \<Rightarrow> probe_event list
    \<Rightarrow> ('e probe_result \<times> report list) \<times> probe_log" where
  "probe_Run env ifc events =
     (case setRlimit env of
        Some err \<Rightarrow> ((Returned (Some err), []), [])
      | None \<Rightarrow> after [Acquire Ticker]
          (case LinkIndexByName env ''eth0'' of
             Inl err \<Rightarrow> ((Returned (Some err), []), [])
           | Inr ifc \<Rightarrow>
               (case newProbe env ifc of
                  (Inl _, log) \<Rightarrow> ((Panicked, []), log)
                | (Inr hook, log) \<Rightarrow> after log
                    (case NewRingbufReader env of
                       Some err \<Rightarrow> ((Returned (Some err), []), [])
                     | None \<Rightarrow> after [Acquire RingReader]
                         (let (res, rs, table) = probe_loop env events new_flow_table
                          in ((res, rs),
                              case res of Returned _ \<Rightarrow> [Release Ticker, Release ProbeObjects] | _ \<Rightarrow> []))))))"

section \<open>Setting up: what is installed, what is given back\<close>

lemma install_filters_ok:
  "fst (install_filters env fs) = None \<Longrightarrow> acquired (snd (install_filters env fs)) = map Filter fs"
  by (induction fs) (auto split: option.splits)

lemma install_filters_fails_iff:
  "fst (install_filters env fs) \<noteq> None \<longleftrightarrow> (\<exists>f \<in> set fs. FilterAdd env f \<noteq> None \<and> FilterReplace env f \<noteq> None)"
  by (induction fs) (auto split: option.splits)

lemma install_filters_released: "released (snd (install_filters env fs)) = []"
  by (induction fs) (auto split: option.splits)

lemma createQdisc_released: "createQdisc env p = (r, p', log) \<Longrightarrow> released log = []"
  by (auto simp: createQdisc_def Let_def split: option.splits)

lemma createFilters_released: "createFilters env p = (r, p', log) \<Longrightarrow> released log = []"
  using install_filters_released [of env "filters (four_filters p)"]
  by (auto simp: createFilters_def Let_def split: prod.splits)

lemma newProbe_released: "released (snd (newProbe env ifc)) = []"
  by (auto simp: newProbe_def Let_def dest: createQdisc_released createFilters_released
      split: option.split sum.split prod.split)

lemma createQdisc_ok:
  "createQdisc env p = (None, p', log) \<Longrightarrow>
     \<exists>q. p' = p\<lparr>qdisc := Some q\<rparr> \<and> acquired log = [Qdisc q] \<and> q_parent (attrs q) = HANDLE_CLSACT \<and>
       q_link_index (attrs q) = iface p"
  by (auto simp: createQdisc_def Let_def NewClsAct_def split: option.splits)

lemma createFilters_ok:
  "createFilters env p = (None, p', log) \<Longrightarrow>
     p' = four_filters p \<and> acquired log = map Filter (filters (four_filters p))"
  using install_filters_ok [of env "filters (four_filters p)"]
  by (auto simp: createFilters_def Let_def split: prod.splits)

definition probe_filter :: "int \<Rightarrow> int \<Rightarrow> nl_parent \<Rightarrow> u16 \<Rightarrow> bpf_filter" where
  "probe_filter ifc fd parent proto =
     \<lparr>filter_attrs = \<lparr>f_link_index = ifc, f_handle = (0xffff, 0), f_parent = parent, f_protocol = proto\<rparr>,
      f_fd = fd, f_direct_action = True\<rparr>"

lemma filters_four:
  "filters (four_filters p) = filters p @
     [probe_filter (iface p) (flat_fd p) HANDLE_MIN_INGRESS ETH_P_IP,
      probe_filter (iface p) (flat_fd p) HANDLE_MIN_EGRESS ETH_P_IP,
      probe_filter (iface p) (flat_fd p) HANDLE_MIN_INGRESS ETH_P_IPV6,
      probe_filter (iface p) (flat_fd p) HANDLE_MIN_EGRESS ETH_P_IPV6]"
  by (simp add: four_filters_def addFilter_def probe_filter_def Let_def)

lemma newProbe_ok:
  assumes "newProbe env ifc = (Inr hook, log)"
  shows "\<exists>q fd. acquired log = [Handle, ProbeObjects, Qdisc q] @
      map (\<lambda>(a, b). Filter (probe_filter ifc fd a b))
        [(HANDLE_MIN_INGRESS, ETH_P_IP), (HANDLE_MIN_EGRESS, ETH_P_IP),
         (HANDLE_MIN_INGRESS, ETH_P_IPV6), (HANDLE_MIN_EGRESS, ETH_P_IPV6)] \<and>
      LoadProbeObjects env = Inr fd \<and> q_link_index (attrs q) = ifc \<and> q_parent (attrs q) = HANDLE_CLSACT"
proof -
  obtain fd where fd: "NewHandle env = None" "LoadProbeObjects env = Inr fd"
    using assms by (auto simp: newProbe_def after_def split: option.splits sum.splits)
  let ?hook = "\<lparr>iface = ifc, qdisc = None, flat_fd = fd, filters = []\<rparr>"
  obtain p1 l1 where q: "createQdisc env ?hook = (None, p1, l1)"
    using assms fd
    by (cases "createQdisc env ?hook") (auto simp: newProbe_def after_def split: option.splits)
  obtain p2 l2 where f: "createFilters env p1 = (None, p2, l2)"
    using assms fd q
    by (cases "createFilters env p1") (auto simp: newProbe_def after_def split: option.splits)
  have log: "log = [Acquire Handle, Acquire ProbeObjects] @ l1 @ l2"
    using assms fd q f by (auto simp: newProbe_def after_def)
  show ?thesis
    using createQdisc_ok [OF q] createFilters_ok [OF f] log fd
    by (auto simp: filters_four)
qed

section \<open>The loop\<close>

lemma probe_loop_samples:
  assumes "list_all packet_t_ok ps"
  shows "probe_loop env (map (\<lambda>p. Sample (slice_of (encode_packet_t p))) ps @ es) table =
    (let (rs, table) = calc_stream flow_table_ops (map view_packet ps) table;
         (res, rs', table) = probe_loop env es table
     in (res, List.map_filter id rs @ rs', table))"
  using assms
proof (induction ps arbitrary: table)
  case Nil
  then show ?case by (simp add: map_filter_simps)
next
  case (Cons p ps)
  then show ?case
    by (simp add: unmarshal_encode split_beta Let_def map_filter_simps split: option.split)
qed

lemma probe_loop_no_panic:
  "\<forall>s. Sample s \<in> set es \<longrightarrow> go_slice_ok s \<and> 48 \<le> len s \<Longrightarrow>
     fst (probe_loop env es table) \<noteq> Panicked"
proof (induction es arbitrary: table)
  case Nil
  then show ?case by simp
next
  case (Cons e es)
  show ?case
  proof (cases e)
    case (Sample pkt)
    then have "unmarshal_binary pkt \<noteq> None"
      using Cons.prems unmarshal_panics_iff [of pkt] by (auto simp: go_slice_ok_def)
    then obtain a b where "unmarshal_binary pkt = Some (a, b)" by auto
    then show ?thesis
      using Cons.IH Cons.prems Sample by (simp add: split_beta Let_def)
  qed (use Cons in simp_all)
qed

lemma probe_Run_released: "set (released (snd (probe_Run env ifc es))) \<subseteq> {Ticker, ProbeObjects}"
  using newProbe_released [of env]
  by (auto simp: probe_Run_def split_beta Let_def split: option.split sum.split probe_result.split prod.split)

section \<open>Properties\<close>

text \<open>A system on which every call succeeds, and one on which the objects cannot be loaded.\<close>

definition working_probe_env :: "unit probe_env" where
  "working_probe_env = \<lparr>Setrlimit = (\<lambda>_ _. None), LinkIndexByName = (\<lambda>_. Inr 2), NewHandle = None,
     LoadProbeObjects = Inr 9, QdiscAdd = (\<lambda>_. None), QdiscReplace = (\<lambda>_. None), QdiscDel = None,
     FilterAdd = (\<lambda>_. None), FilterReplace = (\<lambda>_. None), NewRingbufReader = None, ObjectsClose = None\<rparr>"

definition failing_probe_env :: "unit probe_env" where
  "failing_probe_env = working_probe_env\<lparr>LoadProbeObjects := Inl ()\<rparr>"

lemma newProbe_working:
  "\<exists>hook log. newProbe working_probe_env 2 = (Inr hook, log)"
  by (simp add: newProbe_def working_probe_env_def after_def createQdisc_def createFilters_def
      four_filters_def addFilter_def Let_def)

text \<open>A probe that is set up has a handle, the loaded objects and a clsact queueing discipline
  on its interface, and the classifier of those objects attached to it four times: for IPv4 and
  for IPv6, each at ingress and at egress.\<close>

lemma probe_installs_four_filters:
  assumes "newProbe env ifc = (Inr hook, log)"
  shows "\<exists>q fd. acquired log = [Handle, ProbeObjects, Qdisc q,
        Filter (probe_filter ifc fd HANDLE_MIN_INGRESS ETH_P_IP),
        Filter (probe_filter ifc fd HANDLE_MIN_EGRESS ETH_P_IP),
        Filter (probe_filter ifc fd HANDLE_MIN_INGRESS ETH_P_IPV6),
        Filter (probe_filter ifc fd HANDLE_MIN_EGRESS ETH_P_IPV6)] \<and>
      LoadProbeObjects env = Inr fd \<and> q_link_index (attrs q) = ifc \<and> q_parent (attrs q) = HANDLE_CLSACT"
  using newProbe_ok [OF assms] by simp

lemma probe_installs_four_filters_witness:
  "\<exists>hook log. newProbe working_probe_env 2 = (Inr hook, log) \<and> length (acquired log) = 7"
proof -
  obtain hook log where "newProbe working_probe_env 2 = (Inr hook, log)" using newProbe_working by blast
  moreover from probe_installs_four_filters [OF this] have "length (acquired log) = 7" by auto
  ultimately show ?thesis by blast
qed

text \<open>The interface Run is asked to observe makes no difference: it always observes eth0.\<close>

lemma run_ignores_interface: "probe_Run env ifc es = probe_Run env ifc' es"
  by (simp add: probe_Run_def)



text \<open>C36: Run never gives back more than the ticker and the objects: however it ends, the queueing
  discipline, its filters, the netlink handle and the reader it acquired are still there.\<close>

theorem run_leaves_qdisc_behind:
  "set (released (snd (probe_Run env ifc es))) \<subseteq> {Ticker, ProbeObjects}"
  by (rule probe_Run_released)

text \<open>Samples of at least 48 bytes, as the classifier sends them, never make the loop panic, in
  whatever order they, the pruning ticks and the cancellation come.\<close>

lemma probe_loop_never_panics:
  assumes "\<forall>s. Sample s \<in> set es \<longrightarrow> go_slice_ok s \<and> sizeof_packet_t \<le> len s"
  shows "fst (probe_loop env es table) \<noteq> Panicked"
  using assms probe_loop_no_panic by (simp add: wire_defs)

lemma probe_loop_never_panics_witness:
  "fst (probe_loop working_probe_env [Sample (slice_of (replicate 48 0)), CtxDone] new_flow_table) \<noteq> Panicked"
  by (rule probe_loop_never_panics) (simp add: wire_defs)

text \<open>Close removes the queueing discipline and the handle before the objects; a discipline that
  cannot be removed leaves everything in place, and an error of the objects leaves them open.\<close>

lemma probe_close_order:
  "probe_Close env (p\<lparr>qdisc := Some q\<rparr>) =
     (case QdiscDel env of
        Some err \<Rightarrow> (Some err, [])
      | None \<Rightarrow> (ObjectsClose env,
          [Release (Qdisc q), Release Handle] @ (if ObjectsClose env = None then [Release ProbeObjects] else [])))"
  by (auto simp: probe_Close_def after_def split: option.split)

end
