(* ===== verification/Flow_Pipeline.thy ===== *)
theory Flow_Pipeline
  imports Flat_IR Probe
begin

text \<open>
  The flow example from the wire to the report: frames go through the classifier, its
  records through the probe's loop. The kernel side is instantiated with helpers that keep
  a clock and an unbounded list of the records sent.
\<close>

section \<open>A concrete kernel\<close>

record ring_state =
  clock :: u64
  ring :: "bytes list"

definition sample_helpers :: "ring_state flat_helpers" where
  "sample_helpers =
     \<lparr>bpf_printk = (\<lambda>_ k. k),
      bpf_skb_pull_data = (\<lambda>s _ k. (0, s, k)),
      bpf_ktime_get_ns = (\<lambda>k. (clock k, k\<lparr>clock := clock k + 1000\<rparr>)),
      bpf_ringbuf_output = (\<lambda>bs _ k. (0, k\<lparr>ring := ring k @ [bs]\<rparr>))\<rparr>"

text \<open>A received unicast frame placed at address 4096.\<close>

definition skb_of :: "bytes \<Rightarrow> skb" where
  "skb_of f = \<lparr>pkt_type = 0, data = 4096, data_end = 4096 + of_nat (length f),
     mem = (\<lambda>a. f ! (unat a - 4096))\<rparr>"

lemma frame_skb_of:
  assumes "length f < 65536"
  shows "frame (skb_of f) = f"
proof (rule nth_equalityI)
  have l: "unat (4096 + of_nat (length f) :: u32) = 4096 + length f"
    using assms by (simp add: unat_word_ariths unat_of_nat)
  then show len: "length (frame (skb_of f)) = length f"
    by (simp add: length_frame skb_of_def)
  fix i assume "i < length (frame (skb_of f))"
  then have i: "i < length f" using len by simp
  then have "unat (4096 + of_nat i :: u64) = 4096 + i"
    using assms by (simp add: unat_word_ariths unat_of_nat)
  then show "frame (skb_of f) ! i = f ! i"
    using i l by (simp add: frame_def head_def skb_of_def)
qed

text \<open>The records a sequence of frames puts into the ring, each stamped in turn.\<close>

fun ring_records :: "u64 \<Rightarrow> bytes list \<Rightarrow> packet_t list" where
  "ring_records now [] = []"
| "ring_records now (f # fs) =
     (case flat_spec f of
        None \<Rightarrow> ring_records now fs
      | Some ev \<Rightarrow> ev now # ring_records (now + 1000) fs)"

lemma ring_records_ok: "list_all packet_t_ok (ring_records now fs)"
  by (induction now fs rule: ring_records.induct)
    (auto split: option.split elim!: flat_spec_cases intro: flat_event_ok)

lemma flat_effect_sample:
  assumes "length f < 65536"
  shows "flat_effect sample_helpers (skb_of f) k =
    (case flat_spec f of None \<Rightarrow> k
     | Some ev \<Rightarrow> k\<lparr>clock := clock k + 1000, ring := ring k @ [encode_packet_t (ev (clock k))]\<rparr>)"
  using frame_skb_of [OF assms]
  by (simp add: flat_effect_def sample_helpers_def send_event_def PACKET_BROADCAST_def
      PACKET_MULTICAST_def split: option.split) (simp add: skb_of_def)

lemma ring_run:
  assumes "\<forall>f \<in> set fs. length f < 65536"
  shows "ring (fold (flat_effect sample_helpers) (map skb_of fs) k) =
    ring k @ map encode_packet_t (ring_records (clock k) fs)"
  using assms
  by (induction fs arbitrary: k) (auto simp: flat_effect_sample split: option.split)

lemma flat_hook_effect: "flat_hook.effect H = flat_effect H"
  by (simp add: fun_eq_iff flat_hook.effect_def flat_eq)

lemma flat_run:
  assumes "\<forall>f \<in> set fs. length f < 65536"
  shows "\<exists>k'. run_hook (flat sample_helpers) (map skb_of fs) k = Some (replicate (length fs) TC_ACT_OK, k') \<and>
      ring k' = ring k @ map encode_packet_t (ring_records (clock k) fs)"
  using ring_run [OF assms, of k] flat_hook.run_eq [of sample_helpers "map skb_of fs" k]
  by (simp add: flat_hook_effect)

section \<open>From the wire to the reports\<close>

definition flow_pipeline :: "'e probe_env \<Rightarrow> u64 \<Rightarrow> bytes list \<Rightarrow> report list option" where
  "flow_pipeline env now fs =
     do { (vs, k) \<leftarrow> run_hook (flat sample_helpers) (map skb_of fs) \<lparr>clock = now, ring = []\<rparr>;
          let (res, reports, table) = probe_loop env (map (\<lambda>bs. Sample (slice_of bs)) (ring k)) new_flow_table;
          Some reports }"

lemma flow_pipeline_eq:
  assumes "\<forall>f \<in> set fs. length f < 65536"
  shows "flow_pipeline env now fs =
    Some (List.map_filter id (fst (calc_stream flow_table_ops (map view_packet (ring_records now fs)) new_flow_table)))"
proof -
  obtain k' where k: "run_hook (flat sample_helpers) (map skb_of fs) \<lparr>clock = now, ring = []\<rparr> =
      Some (replicate (length fs) TC_ACT_OK, k')"
      "ring k' = map encode_packet_t (ring_records now fs)"
    using flat_run [OF assms, of "\<lparr>clock = now, ring = []\<rparr>"] by auto
  have "probe_loop env (map (\<lambda>bs. Sample (slice_of bs)) (ring k')) new_flow_table =
    (let (rs, table) = calc_stream flow_table_ops (map view_packet (ring_records now fs)) new_flow_table
     in (Waiting, List.map_filter id rs, table))"
    using probe_loop_samples [OF ring_records_ok [of now fs], of env "[]" new_flow_table] k(2)
    by (simp add: comp_def split_beta Let_def)
  then show ?thesis
    using k(1) by (simp add: flow_pipeline_def split_beta Let_def)
qed

section \<open>A handshake\<close>

text \<open>A 54-byte Ethernet frame with an IPv4 header without options and a TCP header.\<close>

definition tcp_frame :: "bytes \<Rightarrow> bytes \<Rightarrow> u16 \<Rightarrow> u16 \<Rightarrow> u8 \<Rightarrow> bytes" where
  "tcp_frame sa da sp dp flags =
     replicate 12 0 @ [0x08, 0x00] @ [0x45] @ replicate 7 0 @ [64, 6, 0, 0] @ sa @ da @
     be_bytes 2 sp @ be_bytes 2 dp @ replicate 9 0 @ [flags] @ replicate 6 0"

definition syn_out :: bytes where
  "syn_out = tcp_frame [10, 0, 0, 1] [10, 0, 0, 2] 1000 80 0x02"

definition synack_back :: bytes where
  "synack_back = tcp_frame [10, 0, 0, 2] [10, 0, 0, 1] 80 1000 0x12"

lemma handshake_records:
  "ring_records 0 [syn_out, synack_back] =
     [flat_event syn_out True False 0, flat_event synack_back True True 1000]"
  by code_simp

lemma handshake_hashes:
  "packet_hash (view_packet (flat_event syn_out True False 0)) \<noteq>
   packet_hash (view_packet (flat_event synack_back True True 1000))"
  by code_simp

lemma length_handshake: "length syn_out = 54" "length synack_back = 54"
  by (simp_all add: syn_out_def synack_back_def tcp_frame_def)

lemma handshake_short: "\<forall>f \<in> set [syn_out, synack_back]. length f < 65536"
  by (simp add: length_handshake)

lemma handshake_fields:
  "be_word (slice 12 2 syn_out) = ETH_P_IP" "syn_out ! 23 = IPPROTO_TCP" "syn_out ! 47 = 0x02"
  "be_word (slice 12 2 synack_back) = ETH_P_IP" "synack_back ! 23 = IPPROTO_TCP" "synack_back ! 47 = 0x12"
  by code_simp+

lemma handshake_specs:
  "flat_spec syn_out = Some (flat_event syn_out True False)"
  "flat_spec synack_back = Some (flat_event synack_back True True)"
  by (simp_all add: flat_spec_def length_handshake handshake_fields)

lemma zeros_not_padded: "replicate 12 (0 :: u8) @ x \<noteq> replicate 4 0 @ 255 # y"
  by (auto simp: nth_append dest!: arg_cong [where f = "\<lambda>bs. bs ! 4"])

section \<open>Properties\<close>

text \<open>C5: end to end, the reports are those of the latency calculation on the records the frames
  specify, in order: no frame is lost, duplicated or damaged between the wire and the table.\<close>

theorem flow_pipeline_correct:
  assumes "\<forall>f \<in> set fs. length f < 65536"
  shows "flow_pipeline env now fs =
    Some (List.map_filter id (fst (calc_stream flow_table_ops
      (map view_packet (ring_records now fs)) new_flow_table)))"
  using assms by (rule flow_pipeline_eq)

lemma flow_pipeline_correct_witness:
  "flow_pipeline working_probe_env 0 [syn_out, synack_back] =
    Some (List.map_filter id (fst (calc_stream flow_table_ops
      [view_packet (flat_event syn_out True False 0), view_packet (flat_event synack_back True True 1000)]
      new_flow_table)))"
  using flow_pipeline_correct [OF handshake_short, of working_probe_env 0] unfolding handshake_records
  by (simp del: calc_stream.simps)


text \<open>The cause, for all frames: a record's source address is never the destination address of
  a record, so a record is never the mirror image of another, whatever the two frames are.\<close>

lemma records_never_mirrored:
  assumes "flat_spec f = Some ev" and "flat_spec g = Some ev'"
  shows "SrcIP (view_packet (ev now)) \<noteq> DstIP (view_packet (ev' now')) \<and>
    view_packet (ev' now') \<noteq> reply (view_packet (ev now))"
proof -
  obtain sy ak where "ev = flat_event f sy ak" using assms(1) by (rule flat_spec_cases)
  moreover obtain sy' ak' where "ev' = flat_event g sy' ak'" using assms(2) by (rule flat_spec_cases)
  ultimately have "SrcIP (view_packet (ev now)) \<noteq> DstIP (view_packet (ev' now'))"
    by (simp add: view_packet_def flat_event_def zeros_not_padded)
  then show ?thesis by (auto simp: reply_def)
qed

lemma records_never_mirrored_witness:
  "\<exists>ev ev'. flat_spec syn_out = Some ev \<and> flat_spec synack_back = Some ev' \<and>
     view_packet (ev' 1000) \<noteq> reply (view_packet (ev 0))"
  using records_never_mirrored [OF handshake_specs, of 0 1000] handshake_specs by blast

text \<open>No report shows an IPv4 address: both addresses of every report the probe makes of the
  classifier's records are printed in their 16-byte form.\<close>

lemma reports_show_no_ipv4:
  assumes "flat_spec f = Some ev" and "view_packet (ev now) = p"
  shows "unmap (SrcIP p) = Addr6 (replicate 12 0 @ slice 26 4 f) \<and>
    unmap (DstIP p) = Addr6 (replicate 4 0 @ [0xff, 0xff] @ replicate 6 0 @ slice 30 4 f)"
proof -
  obtain sy ak where "ev = flat_event f sy ak" using assms(1) by (rule flat_spec_cases)
  then have "p = view_packet (flat_event f sy ak now)" using assms(2) by simp
  then show ?thesis
    by (simp add: view_packet_def flat_event_def unmap_def not_mapped [simplified] padding_word)
qed

text \<open>C32: a datagram counts as its own answer: the same UDP frame seen twice, both times in the
  same direction, is reported as a finished exchange between the two sightings.\<close>

theorem udp_repeat_reported:
  assumes "flat_spec f = Some ev" and "protocol (ev now) = 17" and "length f < 65536"
  shows "\<exists>r. flow_pipeline env now [f, f] = Some [r] \<and> rp_start r = now \<and> rp_end r = now + 1000"
proof -
  obtain sy ak where ev: "ev = flat_event f sy ak" using assms(1) by (rule flat_spec_cases)
  let ?p = "view_packet (ev now)" and ?q = "view_packet (ev (now + 1000))"
  have "packet_hash ?q = packet_hash ?p" "opens ?p" "closes ?q"
    using assms(2) by (simp_all add: ev flat_event_def view_packet_def packet_hash_def Let_def
        opens_def closes_def known_def)
  moreover have "entries new_flow_table (packet_hash ?p) = None" by (simp add: new_flow_table_def)
  ultimately obtain r t' where "calc_stream flow_table_ops [?p, ?q] new_flow_table = ([None, Some r], t')"
      "rp_start r = Timestamp ?p" "rp_end r = Timestamp ?q"
    using ft.exchange [of new_flow_table ?p ?q] by metis
  then show ?thesis
    using assms flow_pipeline_eq [of "[f, f]" env now]
    by (simp add: map_filter_simps ev view_packet_def flat_event_def del: calc_stream.simps)
qed

definition udp_query :: bytes where
  "udp_query = replicate 12 0 @ [0x08, 0] @ [0x45] @ replicate 7 0 @ [64, 17] @ replicate 30 0"

lemma udp_repeat_reported_witness:
  "\<exists>r. flow_pipeline working_probe_env 5 [udp_query, udp_query] = Some [r] \<and> rp_start r = 5 \<and> rp_end r = 1005"
proof -
  have "length udp_query = 54" by (simp add: udp_query_def)
  moreover have "be_word (slice 12 2 udp_query) = ETH_P_IP" "udp_query ! 23 = IPPROTO_UDP"
    by code_simp+
  ultimately have "flat_spec udp_query = Some (flat_event udp_query False False)"
    by (simp add: flat_spec_def IPPROTO_UDP_def IPPROTO_TCP_def)
  then show ?thesis
    using udp_repeat_reported [of udp_query "flat_event udp_query False False" 5 working_probe_env]
      \<open>length udp_query = 54\<close> \<open>udp_query ! 23 = IPPROTO_UDP\<close>
    by (simp add: flat_event_def IPPROTO_UDP_def)
qed

end
