(* ===== verification/Steps.thy ===== *)
theory Steps
  imports Xcnf_Prelude
begin

text \<open>
  Transition systems whose steps are a partial function of the state and an event: runs of
  a list of events, reachable states, and the locale \<open>step_invariant\<close> of what every step
  keeps.
\<close>

fun run_steps :: "('s \<Rightarrow> 'e \<Rightarrow> 's option) \<Rightarrow> 's \<Rightarrow> 'e list \<Rightarrow> 's option" where
  "run_steps step s [] = Some s"
| "run_steps step s (e # es) = Option.bind (step s e) (\<lambda>t. run_steps step t es)"

inductive reachable :: "('s \<Rightarrow> 'e \<Rightarrow> 's option) \<Rightarrow> 's \<Rightarrow> 's \<Rightarrow> bool" for step init where
  start: "reachable step init init"
| step: "reachable step init s \<Longrightarrow> step s e = Some t \<Longrightarrow> reachable step init t"

lemma run_steps_append:
  "run_steps step s (es @ es') = Option.bind (run_steps step s es) (\<lambda>t. run_steps step t es')"
  by (induction es arbitrary: s) (auto split: bind_splits)

lemma run_steps_reachable:
  "reachable step init s \<Longrightarrow> run_steps step s es = Some t \<Longrightarrow> reachable step init t"
  by (induction es arbitrary: s) (auto intro: reachable.step split: bind_splits)

lemma reachable_iff: "reachable step init s \<longleftrightarrow> (\<exists>es. run_steps step init es = Some s)"
proof
  show "reachable step init s \<Longrightarrow> \<exists>es. run_steps step init es = Some s"
  proof (induction rule: reachable.induct)
    case start
    then show ?case by (intro exI [of _ "[]"]) simp
  next
    case (step s e t)
    then obtain es where "run_steps step init es = Some s" by blast
    then show ?case
      using step.hyps(2) by (intro exI [of _ "es @ [e]"]) (simp add: run_steps_append)
  qed
  show "\<exists>es. run_steps step init es = Some s \<Longrightarrow> reachable step init s"
    using run_steps_reachable reachable.start by metis
qed

text \<open>What holds at first and is kept by every step holds in every reachable state.\<close>

locale step_invariant =
  fixes step :: "'s \<Rightarrow> 'e \<Rightarrow> 's option"
    and init :: 's
    and inv :: "'s \<Rightarrow> bool"
  assumes inv_init: "inv init"
    and inv_step: "inv s \<Longrightarrow> step s e = Some t \<Longrightarrow> inv t"
begin

lemma reach: "reachable step init s \<Longrightarrow> inv s"
  by (induction rule: reachable.induct) (auto intro: inv_init inv_step)

lemma run: "run_steps step init es = Some s \<Longrightarrow> inv s"
  by (rule reach) (auto simp: reachable_iff)

end

end
