(* ===== verification/Flow_System.thy ===== *)
theory Flow_System
  imports Flow_Pipeline Steps
begin

text \<open>
  The running flow example as one transition system: the classifier in the kernel filling
  the ring buffer, and the three goroutines of \<open>Run\<close> in \<^verbatim>\<open>kprobe.go\<close>, which share the flow
  table: the reader that moves records from the ring to a channel, the loop that computes
  latencies, and the pruner behind the ticker. Calls on the table are steps of their own,
  so that a pruning pass can come between the lookup and the update of a packet.
\<close>

section \<open>State\<close>

text \<open>
  A full ring buffer refuses a record with \<^verbatim>\<open>-EAGAIN\<close>; when it is full is left to a
  predicate \<open>fits\<close> on the unread records and the new one.
\<close>

definition bounded_helpers :: "(bytes list \<Rightarrow> bytes \<Rightarrow> bool) \<Rightarrow> ring_state flat_helpers" where
  "bounded_helpers fits =
     \<lparr>bpf_printk = (\<lambda>_ k. k),
      bpf_skb_pull_data = (\<lambda>s _ k. (0, s, k)),
      bpf_ktime_get_ns = (\<lambda>k. (clock k, k)),
      bpf_ringbuf_output = (\<lambda>bs _ k.
        if fits (ring k) bs then (0, k\<lparr>ring := ring k @ [bs]\<rparr>) else (- 11, k))\<rparr>"

text \<open>The reader goroutine: in \<^verbatim>\<open>Read\<close>, blocked on the channel with a record, or ended.\<close>

datatype reader_pc = Reading | Holding bytes | ReaderEnded

text \<open>
  The loop: in its select, or at a call on the table in \<open>CalcLatency\<close>: before \<^verbatim>\<open>Get\<close>, after
  it with the result, and in \<^verbatim>\<open>Remove\<close> before the lookup and before the deletion.
\<close>

datatype loop_pc =
    Selecting
  | Decoded packet string
  | Looked packet string u64 bool
  | Removing u64
  | Deleting u64
  | Cancelled
  | Crashed

text \<open>The pruner: waiting for a tick, visiting keys, or about to delete a key it found stale.\<close>

datatype prune_pc = Ticking | Visiting u64 "u64 list" | Stale u64 u64 "u64 list"

text \<open>
  The last three components are history: the frames with the time they were seen at, the
  packets the loop has dealt with, and the report made for each.
\<close>

record flow_sys =
  kernel :: ring_state
  reader :: reader_pc
  loop :: loop_pc
  flows :: flow_table
  pruner :: prune_pc
  wire :: "(u64 \<times> bytes) list"
  handled :: "packet list"
  outcome :: "report option list"

definition flow_start :: "u64 \<Rightarrow> flow_sys" where
  "flow_start now = \<lparr>kernel = \<lparr>clock = now, ring = []\<rparr>, reader = Reading, loop = Selecting,
     flows = new_flow_table, pruner = Ticking, wire = [], handled = [], outcome = []\<rparr>"

section \<open>Steps\<close>

text \<open>\<open>CalcLatency\<close> after its lookup: the report it makes, the table, and where it goes on.\<close>

definition decide :: "packet \<Rightarrow> string \<Rightarrow> u64 \<Rightarrow> bool \<Rightarrow> flow_table \<Rightarrow> report option \<times> flow_table \<times> loop_pc" where
  "decide pkt proto start ok table =
     (let pktHash = packet_hash pkt in
      if \<not> ok \<and> Syn pkt then (None, ft_insert table pktHash (Timestamp pkt), Selecting)
      else if \<not> ok \<and> proto = ''UDP'' then (None, ft_insert table pktHash (Timestamp pkt), Selecting)
      else if \<not> ok then (None, table, Selecting)
      else if Ack pkt then (Some (make_report Cyan proto pkt start), table, Removing pktHash)
      else if proto = ''UDP'' then (Some (make_report LightYellow proto pkt start), table, Removing pktHash)
      else (None, table, Selecting))"

definition receive :: "bytes \<Rightarrow> loop_pc" where
  "receive bs =
     (case unmarshal_binary (slice_of bs) of
        None \<Rightarrow> Crashed
      | Some (p, ok) \<Rightarrow>
          if \<not> ok then Selecting
          else (case ipProtoNums (Protocol p) of None \<Rightarrow> Selecting | Some proto \<Rightarrow> Decoded p proto))"

fun loop_step :: "flow_sys \<Rightarrow> loop_pc \<Rightarrow> flow_sys option" where
  "loop_step s (Decoded p proto) =
     (let (start, ok) = ft_get (flows s) (packet_hash p) in Some (s\<lparr>loop := Looked p proto start ok\<rparr>))"
| "loop_step s (Looked p proto start ok) =
     (let (r, table, pc) = decide p proto start ok (flows s)
      in Some (s\<lparr>flows := table, loop := pc, handled := handled s @ [p], outcome := outcome s @ [r]\<rparr>))"
| "loop_step s (Removing h) =
     (case entries (flows s) h of
        Some _ \<Rightarrow> Some (s\<lparr>loop := Deleting h\<rparr>)
      | None \<Rightarrow> Some (s\<lparr>loop := Selecting\<rparr>))"
| "loop_step s (Deleting h) = Some (s\<lparr>flows := ft_delete (flows s) h, loop := Selecting\<rparr>)"
| "loop_step s pc = None"

fun prune_step :: "flow_sys \<Rightarrow> prune_pc \<Rightarrow> flow_sys option" where
  "prune_step s Ticking = None"
| "prune_step s (Visiting now []) = Some (s\<lparr>pruner := Ticking\<rparr>)"
| "prune_step s (Visiting now (h # hs)) =
     (case entries (flows s) h of
        None \<Rightarrow> Some (s\<lparr>pruner := Visiting now hs\<rparr>)
      | Some timestamp \<Rightarrow>
          if (now - timestamp) div 1000000 > 10000 then Some (s\<lparr>pruner := Stale now h hs\<rparr>)
          else Some (s\<lparr>pruner := Ticking\<rparr>))"
| "prune_step s (Stale now h hs) =
     Some (s\<lparr>flows := ft_delete (flows s) h, pruner := Visiting now hs\<rparr>)"

text \<open>
  One step: time passes, a frame passes the hook, the reader reads or gives up, the loop
  receives, goes on or is cancelled, the ticker starts a pass (with the clock reading and
  the visiting order of its own) and the pass goes on. Steps that are not enabled give
  \<open>None\<close>.
\<close>

datatype flow_event = Pass u64 | Frame bytes | Read | ReadFails | Receive | Continue_Loop | Cancel
  | PruneStart "unit + u64 \<times> u64" "u64 list" | Prune

fun flow_step :: "(bytes list \<Rightarrow> bytes \<Rightarrow> bool) \<Rightarrow> flow_sys \<Rightarrow> flow_event \<Rightarrow> flow_sys option" where
  "flow_step fits s (Pass d) = Some (s\<lparr>kernel := (kernel s)\<lparr>clock := clock (kernel s) + d\<rparr>\<rparr>)"
| "flow_step fits s (Frame f) =
     (if length f < 65536
      then map_option (\<lambda>(v, k). s\<lparr>kernel := k, wire := wire s @ [(clock (kernel s), f)]\<rparr>)
        (flat (bounded_helpers fits) (skb_of f) (kernel s))
      else None)"
| "flow_step fits s Read =
     (case (reader s, ring (kernel s)) of
        (Reading, bs # rest) \<Rightarrow> Some (s\<lparr>kernel := (kernel s)\<lparr>ring := rest\<rparr>, reader := Holding bs\<rparr>)
      | _ \<Rightarrow> None)"
| "flow_step fits s ReadFails = (if reader s = Reading then Some (s\<lparr>reader := ReaderEnded\<rparr>) else None)"
| "flow_step fits s Receive =
     (case (loop s, reader s) of
        (Selecting, Holding bs) \<Rightarrow> Some (s\<lparr>reader := Reading, loop := receive bs\<rparr>)
      | _ \<Rightarrow> None)"
| "flow_step fits s Continue_Loop = loop_step s (loop s)"
| "flow_step fits s Cancel =
     (if loop s = Selecting
      then Some (s\<lparr>loop := Cancelled, flows := (flows s)\<lparr>ticker_stopped := True\<rparr>\<rparr>) else None)"
| "flow_step fits s (PruneStart now order) =
     (if pruner s = Ticking then Some (s\<lparr>pruner := Visiting (get_nanosec_since_boot now) order\<rparr>) else None)"
| "flow_step fits s Prune = prune_step s (pruner s)"

abbreviation flow_reach :: "(bytes list \<Rightarrow> bytes \<Rightarrow> bool) \<Rightarrow> u64 \<Rightarrow> flow_sys \<Rightarrow> bool" where
  "flow_reach fits now \<equiv> reachable (flow_step fits) (flow_start now)"

abbreviation flow_run :: "(bytes list \<Rightarrow> bytes \<Rightarrow> bool) \<Rightarrow> flow_sys \<Rightarrow> flow_event list \<Rightarrow> flow_sys option" where
  "flow_run fits \<equiv> run_steps (flow_step fits)"

end
