(* ===== verification/Flow_System_Correct.thy ===== *)
theory Flow_System_Correct
  imports Flow_System
begin

text \<open>
  What every interleaving of the running flow example keeps: records arrive in order and at
  most once, no decoding panics, and every report has an opening packet, also when pruning
  passes come in between; and one thing no lock prevents, the deletion of a fresh entry.
\<close>

section \<open>The ring buffer is a queue that may refuse\<close>

definition specified :: "(u64 \<times> bytes) list \<Rightarrow> packet_t list" where
  "specified fs = List.map_filter (\<lambda>(now, f). map_option (\<lambda>ev. ev now) (flat_spec f)) fs"

lemma specified_snoc:
  "specified (fs @ [(now, f)]) =
     specified fs @ (case flat_spec f of None \<Rightarrow> [] | Some ev \<Rightarrow> [ev now])"
  by (simp add: specified_def map_filter_def split: option.split)

definition never_full :: "bytes list \<Rightarrow> bytes \<Rightarrow> bool" where
  "never_full q bs = True"

lemma flat_bounded:
  assumes "length f < 65536"
  shows "flat (bounded_helpers fits) (skb_of f) k = Some (TC_ACT_OK,
    case flat_spec f of
      None \<Rightarrow> k
    | Some ev \<Rightarrow>
        if fits (ring k) (encode_packet_t (ev (clock k)))
        then k\<lparr>ring := ring k @ [encode_packet_t (ev (clock k))]\<rparr> else k)"
  using frame_skb_of [OF assms]
  by (simp add: flat_eq flat_effect_def bounded_helpers_def send_event_def PACKET_BROADCAST_def
      PACKET_MULTICAST_def split: option.split) (simp add: skb_of_def)

text \<open>What the classifier sends is well formed and of a protocol the probe knows.\<close>

definition sendable :: "packet_t \<Rightarrow> bool" where
  "sendable p \<longleftrightarrow> packet_t_ok p \<and> (protocol p = 6 \<or> protocol p = 17)"

lemma flat_spec_sendable: "flat_spec f = Some ev \<Longrightarrow> sendable (ev now)"
  by (auto simp: flat_spec_def sendable_def flat_event_ok flat_event_def [of f] wire_defs
      packet_t_ok_def split: if_splits)

lemma specified_sendable: "p \<in> set (specified fs) \<Longrightarrow> sendable p"
  by (induction fs) (auto simp: specified_def map_filter_def dest: flat_spec_sendable split: if_splits)

lemma receive_sent:
  "sendable p \<Longrightarrow> \<exists>proto. receive (encode_packet_t p) = Decoded (view_packet p) proto \<and>
     ipProtoNums (Protocol (view_packet p)) = Some proto"
  by (auto simp: sendable_def receive_def unmarshal_encode ipProtoNums_def view_packet_def)

section \<open>Order\<close>

fun in_loop :: "loop_pc \<Rightarrow> packet list" where
  "in_loop (Decoded p proto) = [p]"
| "in_loop (Looked p proto start ok) = [p]"
| "in_loop pc = []"

fun in_reader :: "reader_pc \<Rightarrow> bytes list" where
  "in_reader (Holding bs) = [bs]"
| "in_reader r = []"

text \<open>
  The records sent so far are those the loop has dealt with, then the one it is at, then the
  one the reader holds, then the unread ones.
\<close>

definition queue_inv :: "(bytes list \<Rightarrow> bytes \<Rightarrow> bool) \<Rightarrow> flow_sys \<Rightarrow> packet_t list \<Rightarrow> packet_t list \<Rightarrow> bool" where
  "queue_inv fits s don rest \<longleftrightarrow> loop s \<noteq> Crashed \<and> carried (fits = never_full) (don @ rest) (specified (wire s)) \<and>
     map view_packet don = handled s @ in_loop (loop s) \<and>
     map encode_packet_t rest = in_reader (reader s) @ ring (kernel s)"

lemma decide_pc: "decide p proto start ok t = (r, t', pc) \<Longrightarrow> pc = Selecting \<or> pc = Removing (packet_hash p)"
  by (auto simp: decide_def Let_def split: if_splits)

lemma loop_step_queue:
  assumes "loop_step s (loop s) = Some t" and "queue_inv fits s don rest"
  shows "queue_inv fits t don rest"
  using assms
  by (cases "loop s")
    (auto simp: queue_inv_def split: prod.splits option.splits dest!: decide_pc)

lemma prune_step_queue:
  assumes "prune_step s pc = Some t"
  shows "queue_inv fits t = queue_inv fits s"
  using assms
  by (induction s pc rule: prune_step.induct)
    (auto simp: queue_inv_def fun_eq_iff split: option.splits if_splits)

lemma queue_inv_frame:
  assumes "queue_inv fits s don rest" and "flow_step fits s (Frame f) = Some t"
  shows "\<exists>rest'. queue_inv fits t don rest'"
proof (cases "flat_spec f")
  case None
  then show ?thesis
    using assms by (auto simp: queue_inv_def flat_bounded specified_snoc split: if_splits)
next
  case (Some ev)
  let ?p = "ev (clock (kernel s))"
  show ?thesis
  proof (cases "fits (ring (kernel s)) (encode_packet_t ?p)")
    case True
    then have "queue_inv fits t don (rest @ [?p])"
      using assms Some carried_accept [of "fits = never_full" "don @ rest" "specified (wire s)" ?p]
      by (auto simp: queue_inv_def flat_bounded specified_snoc split: if_splits)
    then show ?thesis ..
  next
    case False
    then have "fits \<noteq> never_full" by (auto simp: never_full_def)
    with False have "queue_inv fits t don rest"
      using assms Some carried_refuse [of "fits = never_full" "don @ rest" "specified (wire s)" ?p]
      by (auto simp: queue_inv_def flat_bounded specified_snoc split: if_splits)
    then show ?thesis ..
  qed
qed

lemma queue_inv_receive:
  assumes "queue_inv fits s don rest" and "flow_step fits s Receive = Some t"
  shows "\<exists>don' rest'. queue_inv fits t don' rest'"
proof -
  obtain bs where s: "loop s = Selecting" "reader s = Holding bs"
    and t: "t = s\<lparr>reader := Reading, loop := receive bs\<rparr>"
    using assms(2) by (auto split: loop_pc.splits reader_pc.splits)
  then obtain p rest' where p: "rest = p # rest'" "bs = encode_packet_t p"
    using assms(1) by (cases rest) (auto simp: queue_inv_def)
  then have "sendable p"
    using assms(1) carried_set [of "fits = never_full" "don @ rest" "specified (wire s)"] specified_sendable
    by (auto simp: queue_inv_def)
  then obtain proto where "receive bs = Decoded (view_packet p) proto"
    using receive_sent p(2) by blast
  then have "queue_inv fits t (don @ [p]) rest'"
    using assms(1) s t p by (simp add: queue_inv_def)
  then show ?thesis by blast
qed

lemma queue_inv_step:
  assumes "queue_inv fits s don rest" and "flow_step fits s e = Some t"
  shows "\<exists>don' rest'. queue_inv fits t don' rest'"
proof -
  have plain: "queue_inv fits t don rest"
    if "e = Pass d \<or> e = ReadFails \<or> e = Cancel \<or> e = PruneStart c order" for d c order
    using assms that by (auto simp: queue_inv_def split: if_splits)
  show ?thesis
  proof (cases e)
    case (Frame f)
    then show ?thesis using assms queue_inv_frame [of fits s don rest f t] by blast
  next
    case Receive
    then show ?thesis using assms queue_inv_receive by blast
  next
    case Continue_Loop
    then show ?thesis using assms loop_step_queue [of s t fits don rest] by auto
  next
    case Prune
    then show ?thesis using assms prune_step_queue [of s "pruner s" t fits] by auto
  next
    case Read
    then have "queue_inv fits t don rest"
      using assms by (auto simp: queue_inv_def split: reader_pc.splits list.splits)
    then show ?thesis by blast
  qed (use plain in blast)+
qed

interpretation queue: step_invariant "flow_step fits" "flow_start now" "\<lambda>s. \<exists>don rest. queue_inv fits s don rest"
  for fits now
proof
  show "\<exists>don rest. queue_inv fits (flow_start now) don rest"
    by (intro exI [of _ "[]"]) (simp add: queue_inv_def flow_start_def specified_def map_filter_simps carried_Nil)
qed (use queue_inv_step in blast)

section \<open>One datagram through the system\<close>

definition idle :: "flow_sys \<Rightarrow> bool" where
  "idle s \<longleftrightarrow> ring (kernel s) = [] \<and> reader s = Reading \<and> loop s = Selecting"

text \<open>What a frame turns into when it is delivered at once.\<close>

definition delivered :: "bytes \<Rightarrow> (u64 \<Rightarrow> packet_t) \<Rightarrow> flow_sys \<Rightarrow> packet" where
  "delivered f ev s = view_packet (ev (clock (kernel s)))"

lemma deliver:
  assumes "idle s" and "flat_spec f = Some ev" and "length f < 65536"
    and "ipProtoNums (Protocol (delivered f ev s)) = Some proto"
  shows "flow_run never_full s [Frame f, Read, Receive] =
    Some (s\<lparr>wire := wire s @ [(clock (kernel s), f)], loop := Decoded (delivered f ev s) proto\<rparr>)"
proof -
  obtain proto' where "receive (encode_packet_t (ev (clock (kernel s)))) = Decoded (delivered f ev s) proto'"
      "ipProtoNums (Protocol (delivered f ev s)) = Some proto'"
    using receive_sent [OF flat_spec_sendable [OF assms(2)]] by (auto simp: delivered_def)
  then have "receive (encode_packet_t (ev (clock (kernel s)))) = Decoded (delivered f ev s) proto"
    using assms(4) by simp
  then show ?thesis
    using assms by (cases s; cases "kernel s") (simp add: idle_def flat_bounded never_full_def)
qed

lemma loop_inserts:
  assumes "loop s = Decoded p ''UDP''" and "entries (flows s) (packet_hash p) = None"
  shows "flow_run fits s [Continue_Loop, Continue_Loop] =
    Some (s\<lparr>flows := ft_insert (flows s) (packet_hash p) (Timestamp p), loop := Selecting,
      handled := handled s @ [p], outcome := outcome s @ [None]\<rparr>)"
  using assms by (simp add: ft_get_def decide_def Let_def)

lemma first_sighting:
  assumes "idle s" and "flat_spec f = Some ev" and "length f < 65536"
    and "Protocol (delivered f ev s) = 17" and "entries (flows s) (packet_hash (delivered f ev s)) = None"
  shows "flow_run never_full s [Frame f, Read, Receive, Continue_Loop, Continue_Loop] =
    Some (s\<lparr>wire := wire s @ [(clock (kernel s), f)],
      flows := ft_insert (flows s) (packet_hash (delivered f ev s)) (Timestamp (delivered f ev s)),
      handled := handled s @ [delivered f ev s], outcome := outcome s @ [None]\<rparr>)"
proof -
  have "ipProtoNums (Protocol (delivered f ev s)) = Some ''UDP''" using assms(4) by (simp add: ipProtoNums_def)
  note run = deliver [OF assms(1-3) this]
  show ?thesis
    using run run_steps_append [of "flow_step never_full" s "[Frame f, Read, Receive]" "[Continue_Loop, Continue_Loop]"]
      loop_inserts [of _ "delivered f ev s" never_full] assms(1,5)
    by (simp add: idle_def del: run_steps.simps flow_step.simps)
qed

lemma loop_reports:
  assumes "loop s = Decoded p ''UDP''" and "entries (flows s) (packet_hash p) = Some v"
  shows "flow_run fits s [Continue_Loop, Continue_Loop, Continue_Loop, Continue_Loop] =
    Some (s\<lparr>flows := ft_delete (flows s) (packet_hash p), loop := Selecting, handled := handled s @ [p],
      outcome := outcome s @ [Some (make_report (if Ack p then Cyan else LightYellow) ''UDP'' p v)]\<rparr>)"
  using assms by (simp add: ft_get_def decide_def Let_def)

lemma second_sighting:
  assumes "idle s" and "flat_spec f = Some ev" and "length f < 65536"
    and "Protocol (delivered f ev s) = 17" and "entries (flows s) (packet_hash (delivered f ev s)) = Some v"
  shows "flow_run never_full s
      [Frame f, Read, Receive, Continue_Loop, Continue_Loop, Continue_Loop, Continue_Loop] =
    Some (s\<lparr>wire := wire s @ [(clock (kernel s), f)],
      flows := ft_delete (flows s) (packet_hash (delivered f ev s)),
      handled := handled s @ [delivered f ev s], outcome := outcome s @
        [Some (make_report (if Ack (delivered f ev s) then Cyan else LightYellow) ''UDP'' (delivered f ev s) v)]\<rparr>)"
proof -
  have "ipProtoNums (Protocol (delivered f ev s)) = Some ''UDP''" using assms(4) by (simp add: ipProtoNums_def)
  note run = deliver [OF assms(1-3) this]
  show ?thesis
    using run run_steps_append [of "flow_step never_full" s "[Frame f, Read, Receive]"
        "[Continue_Loop, Continue_Loop, Continue_Loop, Continue_Loop]"]
      loop_reports [of _ "delivered f ev s" v never_full] assms(1,5)
    by (simp add: idle_def del: run_steps.simps flow_step.simps)
qed

text \<open>A system that has just seen one datagram.\<close>

lemma udp_query_spec: "flat_spec udp_query = Some (flat_event udp_query False False)" "length udp_query < 65536"
  "protocol (flat_event udp_query False False now) = 17"
proof -
  have "length udp_query = 54" by (simp add: udp_query_def)
  moreover have "be_word (slice 12 2 udp_query) = ETH_P_IP" "udp_query ! 23 = IPPROTO_UDP"
    by code_simp+
  ultimately show "flat_spec udp_query = Some (flat_event udp_query False False)" "length udp_query < 65536"
      "protocol (flat_event udp_query False False now) = 17"
    by (simp_all add: flat_spec_def flat_event_def IPPROTO_UDP_def IPPROTO_TCP_def)
qed

definition query_packet :: "u64 \<Rightarrow> packet" where
  "query_packet now = view_packet (flat_event udp_query False False now)"

lemma query_packet_fields: "Protocol (query_packet now) = 17" "Timestamp (query_packet now) = now"
  "packet_hash (query_packet now) = packet_hash (query_packet 0)"
  using udp_query_spec(3)
  by (simp_all add: query_packet_def view_packet_def flat_event_def packet_hash_def Let_def)

definition query_seen :: flow_sys where
  "query_seen = (flow_start 0)\<lparr>wire := [(0, udp_query)],
     flows := ft_insert new_flow_table (packet_hash (query_packet 0)) 0,
     handled := [query_packet 0], outcome := [None]\<rparr>"

lemma query_seen_fields: "kernel query_seen = \<lparr>clock = 0, ring = []\<rparr>" "reader query_seen = Reading"
  "loop query_seen = Selecting" "wire query_seen = [(0, udp_query)]" "handled query_seen = [query_packet 0]"
  by (simp_all add: query_seen_def flow_start_def)

lemma query_seen_reach: "flow_reach never_full 0 query_seen"
proof -
  have "flow_run never_full (flow_start 0) [Frame udp_query, Read, Receive, Continue_Loop, Continue_Loop] =
      Some query_seen"
    using first_sighting [of "flow_start 0", OF _ udp_query_spec(1-2)] query_packet_fields [of 0]
    by (simp add: query_seen_def idle_def flow_start_def new_flow_table_def delivered_def query_packet_def
        del: run_steps.simps)
  then show ?thesis by (rule run_steps_reachable [OF reachable.start])
qed

section \<open>Properties\<close>

text \<open>C3: whatever the interleaving of kernel, reader, loop and pruner, no record makes the loop
  panic, and the packets the loop has dealt with, the one it is at, the record the reader holds
  and the unread ones are together, in order, records the frames specify: all of them if the
  ring buffer never refuses one, else a subsequence.\<close>

theorem records_in_order:
  assumes "flow_reach fits now s"
  shows "loop s \<noteq> Crashed \<and>
    (\<exists>sent. carried (fits = never_full) sent (specified (wire s)) \<and>
       (\<exists>n \<le> length sent. map view_packet (take n sent) = handled s @ in_loop (loop s) \<and>
          map encode_packet_t (drop n sent) = in_reader (reader s) @ ring (kernel s)))"
proof -
  obtain don rest where "queue_inv fits s don rest" using queue.reach [OF assms] by blast
  then show ?thesis
    by (intro conjI exI [of _ "don @ rest"] exI [of _ "length don"]) (auto simp: queue_inv_def)
qed

lemma records_in_order_witness:
  "\<exists>sent. sent = specified [(0, udp_query)] \<and> map view_packet sent = [query_packet 0]"
proof -
  obtain sent n where s: "carried True sent (specified [(0, udp_query)])" "n \<le> length sent"
      "map view_packet (take n sent) = [query_packet 0]" "map encode_packet_t (drop n sent) = []"
    using records_in_order [OF query_seen_reach] by (auto simp: query_seen_def flow_start_def)
  then have "drop n sent = []" by simp
  then have "take n sent = sent" using s(2) by simp
  then show ?thesis using s by (simp add: carried_def)
qed

end
