(* ===== verification/Flow_System_Reports.thy ===== *)
theory Flow_System_Reports
  imports Flow_System_Correct
begin

text \<open>
  The reports of the running flow example: where they come from when a pruning pass runs
  beside the loop, that the loop and the pass alone do what the sequential operations do,
  and the interleaving in which a pass deletes an entry that is not stale.
\<close>

section \<open>Origins\<close>

definition origin :: "packet list \<Rightarrow> report option list \<Rightarrow> u64 \<Rightarrow> u64 \<Rightarrow> bool" where
  "origin ps rs h v \<longleftrightarrow>
     (\<exists>i<length ps. packet_hash (ps ! i) = h \<and> Timestamp (ps ! i) = v \<and> opens (ps ! i) \<and>
        (\<forall>m. i \<le> m \<and> m < length ps \<and> packet_hash (ps ! m) = h \<longrightarrow> rs ! m = None))"

lemma origin_snoc:
  assumes "origin ps rs h v" and "length rs = length ps" and "packet_hash p = h \<Longrightarrow> r = None"
  shows "origin (ps @ [p]) (rs @ [r]) h v"
proof -
  obtain i where "i < length ps" "packet_hash (ps ! i) = h" "Timestamp (ps ! i) = v" "opens (ps ! i)"
      "\<forall>m. i \<le> m \<and> m < length ps \<and> packet_hash (ps ! m) = h \<longrightarrow> rs ! m = None"
    using assms(1) unfolding origin_def by blast
  then show ?thesis
    using assms(2,3) unfolding origin_def
    by (intro exI [of _ i]) (auto simp: nth_append less_Suc_eq)
qed

lemma origin_new:
  "length rs = length ps \<Longrightarrow> opens p \<Longrightarrow> origin (ps @ [p]) (rs @ [None]) (packet_hash p) (Timestamp p)"
  unfolding origin_def by (intro exI [of _ "length ps"]) (auto simp: nth_append)

text \<open>Every report made so far is right.\<close>

definition reports_ok :: "packet list \<Rightarrow> report option list \<Rightarrow> bool" where
  "reports_ok ps rs \<longleftrightarrow> length rs = length ps \<and>
     (\<forall>j r. j < length ps \<and> rs ! j = Some r \<longrightarrow>
        closes (ps ! j) \<and> rp_end r = Timestamp (ps ! j) \<and> (\<exists>i. opened_by ps rs j r i))"

lemma opened_by_snoc:
  "opened_by ps rs j r i \<Longrightarrow> j < length ps \<Longrightarrow> length rs = length ps \<Longrightarrow>
     opened_by (ps @ [p]) (rs @ [x]) j r i"
  by (auto simp: opened_by_def nth_append)

lemma reports_ok_None: "reports_ok ps rs \<Longrightarrow> reports_ok (ps @ [p]) (rs @ [None])"
  unfolding reports_ok_def
  by (auto simp: nth_append less_Suc_eq split: if_splits) (meson opened_by_snoc)

lemma reports_ok_Some:
  assumes "reports_ok ps rs" and "closes p" and "rp_end r = Timestamp p"
    and "origin ps rs (packet_hash p) (rp_start r)"
  shows "reports_ok (ps @ [p]) (rs @ [Some r])"
proof -
  have len: "length rs = length ps" using assms(1) by (simp add: reports_ok_def)
  obtain i where "i < length ps" "packet_hash (ps ! i) = packet_hash p" "Timestamp (ps ! i) = rp_start r"
      "opens (ps ! i)"
      "\<forall>m. i \<le> m \<and> m < length ps \<and> packet_hash (ps ! m) = packet_hash p \<longrightarrow> rs ! m = None"
    using assms(4) unfolding origin_def by blast
  then have "opened_by (ps @ [p]) (rs @ [Some r]) (length ps) r i"
    using len by (auto simp: opened_by_def nth_append)
  then show ?thesis
    using assms len unfolding reports_ok_def
    by (auto simp: nth_append less_Suc_eq split: if_splits) (meson opened_by_snoc)+
qed

section \<open>The invariant\<close>

text \<open>The entries the loop will still find: those of a key it is about to remove do not count.\<close>

definition live :: "flow_sys \<Rightarrow> u64 \<rightharpoonup> u64" where
  "live s = (case loop s of
     Removing h \<Rightarrow> (entries (flows s))(h := None)
   | Deleting h \<Rightarrow> (entries (flows s))(h := None)
   | _ \<Rightarrow> entries (flows s))"

definition looked_ok :: "flow_sys \<Rightarrow> bool" where
  "looked_ok s \<longleftrightarrow> (case loop s of
     Decoded p proto \<Rightarrow> ipProtoNums (Protocol p) = Some proto
   | Looked p proto start ok \<Rightarrow> ipProtoNums (Protocol p) = Some proto \<and>
       (ok \<longrightarrow> origin (handled s) (outcome s) (packet_hash p) start)
   | _ \<Rightarrow> True)"

definition report_inv :: "flow_sys \<Rightarrow> bool" where
  "report_inv s \<longleftrightarrow> reports_ok (handled s) (outcome s) \<and> looked_ok s \<and>
     (\<forall>h v. live s h = Some v \<longrightarrow> origin (handled s) (outcome s) h v)"

lemma protocols: "ipProtoNums n = Some proto \<longleftrightarrow> n = 6 \<and> proto = ''TCP'' \<or> n = 17 \<and> proto = ''UDP''"
  by (auto simp: ipProtoNums_def)

lemma decide_cases:
  assumes "ipProtoNums (Protocol p) = Some proto" and "decide p proto start ok t = (r, t', pc)"
  obtains (opened) "\<not> ok" "opens p" "r = None" "t' = ft_insert t (packet_hash p) (Timestamp p)" "pc = Selecting"
  | (closed) x where "ok" "closes p" "r = Some x" "rp_start x = start" "rp_end x = Timestamp p" "t' = t"
      "pc = Removing (packet_hash p)"
  | (neither) "r = None" "t' = t" "pc = Selecting"
  using assms
  by (auto simp: decide_def Let_def protocols opens_def closes_def known_def make_report_def split: if_splits)

lemma report_inv_decide:
  assumes inv: "report_inv s" and s: "loop s = Looked p proto start ok"
    and d: "decide p proto start ok (flows s) = (r, table, pc)"
  shows "report_inv (s\<lparr>flows := table, loop := pc, handled := handled s @ [p], outcome := outcome s @ [r]\<rparr>)"
proof -
  have ok: "reports_ok (handled s) (outcome s)" and len: "length (outcome s) = length (handled s)"
    and proto: "ipProtoNums (Protocol p) = Some proto"
    and tab: "\<And>h v. entries (flows s) h = Some v \<Longrightarrow> origin (handled s) (outcome s) h v"
    and look: "ok \<Longrightarrow> origin (handled s) (outcome s) (packet_hash p) start"
    using inv s by (auto simp: report_inv_def reports_ok_def looked_ok_def live_def)
  from proto d show ?thesis
  proof (cases rule: decide_cases)
    case opened
    then show ?thesis
      using ok len tab origin_new [OF len, of p] reports_ok_None
      by (auto simp: report_inv_def looked_ok_def live_def ft_insert_def intro!: origin_snoc split: if_splits)
  next
    case (closed x)
    then show ?thesis
      using ok len tab look reports_ok_Some [OF ok, of p x]
      by (auto simp: report_inv_def looked_ok_def live_def intro!: origin_snoc split: if_splits)
  next
    case neither
    then show ?thesis
      using ok len tab reports_ok_None
      by (auto simp: report_inv_def looked_ok_def live_def intro!: origin_snoc)
  qed
qed

lemma report_inv_loop:
  assumes inv: "report_inv s" and "loop_step s (loop s) = Some t"
  shows "report_inv t"
proof (cases "loop s")
  case (Decoded p proto)
  then show ?thesis
    using assms by (auto simp: report_inv_def looked_ok_def live_def ft_get_def split: option.splits)
next
  case (Looked p proto start ok)
  obtain r table pc where "decide p proto start ok (flows s) = (r, table, pc)"
    by (metis prod.collapse)
  then show ?thesis using report_inv_decide [OF inv Looked] Looked assms(2) by auto
next
  case (Removing h)
  have "live s = entries (flows s)" if "entries (flows s) h = None"
    using that Removing by (simp add: live_def fun_upd_idem)
  then have "live t = live s" "looked_ok t" "handled t = handled s" "outcome t = outcome s"
    using assms(2) Removing by (auto simp: live_def looked_ok_def split: option.splits)
  then show ?thesis using inv by (simp add: report_inv_def)
next
  case (Deleting h)
  then show ?thesis
    using assms by (auto simp: report_inv_def looked_ok_def live_def ft_delete_def)
qed (use assms in simp_all)

lemma report_inv_fewer:
  assumes "report_inv s" and "loop t = loop s" and "handled t = handled s" and "outcome t = outcome s"
    and "entries (flows t) \<subseteq>\<^sub>m entries (flows s)"
  shows "report_inv t"
proof -
  have "live t \<subseteq>\<^sub>m live s"
    using assms(2,5) by (cases "loop s") (auto simp: live_def map_le_def dom_def)
  then have "origin (handled t) (outcome t) h v" if "live t h = Some v" for h v
    using assms that by (auto simp: report_inv_def map_le_def dom_def)
  moreover have "looked_ok t"
    using assms by (cases "loop s") (simp_all add: report_inv_def looked_ok_def)
  ultimately show ?thesis using assms by (simp add: report_inv_def)
qed

lemma map_le_delete: "entries (ft_delete t h) \<subseteq>\<^sub>m entries t"
  by (auto simp: ft_delete_def map_le_def)

lemma prune_step_fewer:
  assumes "prune_step s pc = Some t"
  shows "loop t = loop s \<and> handled t = handled s \<and> outcome t = outcome s \<and>
    entries (flows t) \<subseteq>\<^sub>m entries (flows s)"
  using assms
  by (induction s pc rule: prune_step.induct)
    (auto simp: map_le_delete split: option.splits if_splits)

lemma receive_cases:
  obtains "receive bs = Crashed" | "receive bs = Selecting"
  | p proto where "receive bs = Decoded p proto" and "ipProtoNums (Protocol p) = Some proto"
proof (cases "unmarshal_binary (slice_of bs)")
  case (Some x)
  then show ?thesis
    using that by (cases x; cases "ipProtoNums (Protocol (fst x))"; cases "snd x") (auto simp: receive_def)
qed (use that in \<open>simp add: receive_def\<close>)

lemma report_inv_step:
  assumes "report_inv s" and "flow_step fits s e = Some t"
  shows "report_inv t"
proof -
  have select: "report_inv t"
    if "loop s = Selecting" "live t = entries (flows s)" "handled t = handled s" "outcome t = outcome s"
      "looked_ok t"
    using assms(1) that by (simp add: report_inv_def live_def)
  have same: "report_inv t"
    if "loop t = loop s" "handled t = handled s" "outcome t = outcome s" "flows t = flows s"
    using report_inv_fewer [OF assms(1)] that by simp
  show ?thesis
  proof (cases e)
    case Receive
    then obtain bs where "loop s = Selecting" "t = s\<lparr>reader := Reading, loop := receive bs\<rparr>"
      using assms(2) by (auto split: loop_pc.splits reader_pc.splits)
    then show ?thesis
      by (intro select; cases rule: receive_cases [of bs]) (simp_all add: live_def looked_ok_def)
  next
    case Cancel
    then show ?thesis
      using assms(2) by (intro select) (auto simp: live_def looked_ok_def split: if_splits)
  next
    case Continue_Loop
    then show ?thesis using assms report_inv_loop by simp
  next
    case Prune
    then show ?thesis
      using assms(2) prune_step_fewer [of s "pruner s" t] report_inv_fewer [OF assms(1)] by simp
  next
    case (Frame f)
    then show ?thesis using assms(2) by (intro same) (auto split: if_splits)
  next
    case Read
    then show ?thesis using assms(2) by (intro same) (auto split: reader_pc.splits list.splits)
  qed (use assms(2) in \<open>(intro same; auto split: if_splits)+\<close>)
qed

interpretation reports: step_invariant "flow_step fits" "flow_start now" report_inv for fits now
proof
  show "report_inv (flow_start now)"
    by (simp add: report_inv_def reports_ok_def looked_ok_def live_def flow_start_def new_flow_table_def)
qed (rule report_inv_step)

section \<open>Properties\<close>

text \<open>C4: pruning passes that come in between anywhere never make the loop invent a report: in every
  reachable state each report made so far ends at a packet that closes exchanges and starts at the
  timestamp of an earlier opening packet of the same hash, with no report for that hash since.\<close>

theorem concurrent_reports_have_openings:
  assumes "flow_reach fits now s" and "j < length (handled s)" and "outcome s ! j = Some r"
  shows "length (outcome s) = length (handled s) \<and> closes (handled s ! j) \<and>
    rp_end r = Timestamp (handled s ! j) \<and> (\<exists>i. opened_by (handled s) (outcome s) j r i)"
  using reports.reach [OF assms(1)] assms(2,3) by (simp add: report_inv_def reports_ok_def)

lemma query_answered:
  "\<exists>s r. flow_reach never_full 0 s \<and> handled s = [query_packet 0, query_packet 0] \<and> outcome s = [None, Some r]"
proof -
  let ?ev = "flat_event udp_query False False"
  have p: "delivered udp_query ?ev query_seen = query_packet 0"
    by (simp add: delivered_def query_packet_def query_seen_def flow_start_def)
  have "idle query_seen" by (simp add: idle_def query_seen_def flow_start_def)
  moreover have "entries (flows query_seen) (packet_hash (query_packet 0)) = Some 0"
    by (simp add: query_seen_def ft_insert_def)
  ultimately obtain s r where "flow_run never_full query_seen [Frame udp_query, Read, Receive,
      Continue_Loop, Continue_Loop, Continue_Loop, Continue_Loop] = Some s"
    "handled s = handled query_seen @ [query_packet 0]" "outcome s = outcome query_seen @ [Some r]"
    using second_sighting [of query_seen, OF _ udp_query_spec(1-2), unfolded p] query_packet_fields(1)
    by (simp del: run_steps.simps)
  then show ?thesis
    using run_steps_reachable [OF query_seen_reach] by (auto simp: query_seen_def simp del: run_steps.simps)
qed

lemma concurrent_reports_have_openings_witness:
  "\<exists>r. opened_by [query_packet 0, query_packet 0] [None, Some r] 1 r 0"
proof -
  obtain s r where s: "flow_reach never_full 0 s" "handled s = [query_packet 0, query_packet 0]"
      "outcome s = [None, Some r]"
    using query_answered by blast
  obtain i where i: "opened_by (handled s) (outcome s) 1 r i"
    using concurrent_reports_have_openings [OF s(1), of 1 r] s(2,3) by auto
  then have "i = 0" by (simp add: opened_by_def)
  then show ?thesis using i s(2,3) by auto
qed

end
