(* ===== verification/Flow_System_Runs.thy ===== *)
theory Flow_System_Runs
  imports Flow_System_Reports
begin

text \<open>
  Particular runs of the running flow example: runs in which no pruning pass starts do what
  the sequential calculation does, a pruning pass on its own does what \<open>Prune\<close> does, the
  goroutines drain the ring buffer, and one interleaving in which a pass deletes an entry
  that is not stale.
\<close>

section \<open>Runs without pruning\<close>

definition sequential :: "flow_sys \<Rightarrow> bool" where
  "sequential s \<longleftrightarrow> pruner s = Ticking \<and>
     (\<exists>t. calc_stream flow_table_ops (handled s) new_flow_table = (outcome s, t) \<and> entries t = live s) \<and>
     (case loop s of
        Decoded p proto \<Rightarrow> ipProtoNums (Protocol p) = Some proto
      | Looked p proto start ok \<Rightarrow> ipProtoNums (Protocol p) = Some proto \<and>
          (start, ok) = ft_get (flows s) (packet_hash p)
      | _ \<Rightarrow> True)"

lemma live_cong: "loop s = loop t \<Longrightarrow> flows s = flows t \<Longrightarrow> live s = live t"
  by (cases "loop t") (simp_all add: live_def)

lemma sequential_same:
  assumes "sequential s" and "loop t = loop s" and "flows t = flows s" and "pruner t = pruner s"
    and "handled t = handled s" and "outcome t = outcome s"
  shows "sequential t"
  using assms(1) live_cong [OF assms(2,3)] unfolding sequential_def assms(2-6) by simp

lemma decide_calc:
  assumes "ipProtoNums (Protocol p) = Some proto" and "(start, ok) = ft_get (flows s) (packet_hash p)"
    and "decide p proto start ok (flows s) = (r, table, pc)" and "entries t = entries (flows s)"
  shows "fst (calc_latency flow_table_ops p t) = r \<and>
    entries (snd (calc_latency flow_table_ops p t)) = live (s\<lparr>flows := table, loop := pc\<rparr>)"
  using assms unfolding ft.calc_report ft.calc_table
  by (auto simp: decide_def ft_get_def ft_insert_def protocols opens_def closes_def known_def live_def
      Let_def split: option.splits if_splits)

lemma sequential_Looked:
  assumes inv: "sequential s" and l: "loop s = Looked p proto start ok" and "loop_step s (loop s) = Some t"
  shows "sequential t"
proof -
  obtain u where u: "calc_stream flow_table_ops (handled s) new_flow_table = (outcome s, u)"
      "entries u = entries (flows s)"
    and ok: "ipProtoNums (Protocol p) = Some proto" "(start, ok) = ft_get (flows s) (packet_hash p)"
    using inv l by (auto simp: sequential_def live_def)
  obtain r table pc where d: "decide p proto start ok (flows s) = (r, table, pc)"
    by (metis prod.collapse)
  then have t: "t = s\<lparr>flows := table, loop := pc, handled := handled s @ [p], outcome := outcome s @ [r]\<rparr>"
    using assms(3) l by simp
  have "calc_stream flow_table_ops (handled t) new_flow_table =
      (outcome t, snd (calc_latency flow_table_ops p u))"
    using decide_calc [OF ok d u(2)] u(1) t by (simp add: ft.calc_stream_snoc split_beta Let_def)
  moreover have "entries (snd (calc_latency flow_table_ops p u)) = live t"
    using decide_calc [OF ok d u(2)] t live_cong [of t "s\<lparr>flows := table, loop := pc\<rparr>"] by simp
  moreover have "pc = Selecting \<or> pc = Removing (packet_hash p)" using d by (rule decide_pc)
  ultimately show ?thesis using inv t by (auto simp: sequential_def)
qed

lemma sequential_loop:
  assumes "sequential s" and "loop_step s (loop s) = Some t"
  shows "sequential t"
proof (cases "loop s")
  case (Looked p proto start ok)
  then show ?thesis using assms sequential_Looked by blast
next
  case (Removing h)
  have "live s = entries (flows s)" if "entries (flows s) h = None"
    using that Removing by (simp add: live_def fun_upd_idem)
  then have "live t = live s"
    using assms(2) Removing by (auto simp: live_def split: option.splits)
  then show ?thesis
    using assms Removing by (auto simp: sequential_def split: option.splits)
qed (use assms in \<open>auto simp: sequential_def live_def ft_get_def ft_delete_def split: option.splits\<close>)

lemma sequential_step:
  assumes "sequential s" and "flow_step fits s e = Some t" and "\<And>c order. e \<noteq> PruneStart c order"
  shows "sequential t"
proof (cases e)
  case Receive
  then obtain bs where "loop s = Selecting" "t = s\<lparr>reader := Reading, loop := receive bs\<rparr>"
    using assms(2) by (auto split: loop_pc.splits reader_pc.splits)
  then show ?thesis
    using assms(1) by (cases rule: receive_cases [of bs]) (simp_all add: sequential_def live_def)
next
  case Continue_Loop
  then show ?thesis using assms sequential_loop by simp
next
  case Prune
  then show ?thesis using assms by (simp add: sequential_def)
next
  case Cancel
  then show ?thesis
    using assms by (auto simp: sequential_def live_def split: if_splits)
next
  case (PruneStart c order)
  then show ?thesis using assms(3) by simp
qed (use assms(2) in \<open>(intro sequential_same [OF assms(1)];
  auto split: if_splits reader_pc.splits list.splits)+\<close>)

lemma sequential_run:
  assumes "sequential s" and "flow_run fits s es = Some t" and "\<And>c order. PruneStart c order \<notin> set es"
  shows "sequential t"
  using assms
proof (induction es arbitrary: s)
  case (Cons e es)
  then obtain u where u: "flow_step fits s e = Some u" "flow_run fits u es = Some t"
    by (auto split: bind_splits)
  have "e \<noteq> PruneStart c order" "PruneStart c order \<notin> set es" for c order
    using Cons.prems(3) [of c order] by auto
  then show ?case using Cons.IH [OF sequential_step [OF Cons.prems(1) u(1)] u(2)] by blast
qed simp

section \<open>A pass on its own\<close>

lemma prune_pass:
  "pruner s = Visiting now order \<Longrightarrow>
     \<exists>k. flow_run fits s (replicate k Prune) =
       Some (s\<lparr>flows := fst (ft_range (prune_entry now) order (flows s)), pruner := Ticking\<rparr>)"
proof (induction order arbitrary: s)
  case Nil
  then show ?case by (intro exI [of _ 1]) simp
next
  case (Cons h hs)
  have more: "\<exists>k. flow_run fits s (replicate k Prune) = Some (s\<lparr>flows := t, pruner := Ticking\<rparr>)"
    if "flow_run fits s (replicate j Prune) = Some u"
      and "flow_run fits u (replicate k Prune) = Some (s\<lparr>flows := t, pruner := Ticking\<rparr>)" for j k u t
    using that run_steps_append [of "flow_step fits" s "replicate j Prune" "replicate k Prune"]
    by (intro exI [of _ "j + k"]) (simp add: replicate_add)
  consider "entries (flows s) h = None" | v where "entries (flows s) h = Some v" "stale now v"
    | v where "entries (flows s) h = Some v" "\<not> stale now v"
    by (cases "entries (flows s) h") auto
  then show ?case
  proof cases
    case 1
    let ?u = "s\<lparr>pruner := Visiting now hs\<rparr>"
    obtain k where "flow_run fits ?u (replicate k Prune) =
        Some (?u\<lparr>flows := fst (ft_range (prune_entry now) hs (flows ?u)), pruner := Ticking\<rparr>)"
      using Cons.IH [of ?u] by auto
    then show ?thesis using 1 Cons.prems by (intro more [of 1 ?u k]) simp_all
  next
    case (2 v)
    let ?u = "s\<lparr>flows := ft_delete (flows s) h, pruner := Visiting now hs\<rparr>"
    obtain k where "flow_run fits ?u (replicate k Prune) =
        Some (?u\<lparr>flows := fst (ft_range (prune_entry now) hs (flows ?u)), pruner := Ticking\<rparr>)"
      using Cons.IH [of ?u] by auto
    then show ?thesis
      using 2 Cons.prems
      by (intro more [of 2 ?u k]) (simp_all add: prune_entry_stale numeral_2_eq_2 split_beta stale_def [symmetric])
  next
    case (3 v)
    then show ?thesis
      using Cons.prems by (intro exI [of _ 1]) (simp add: prune_entry_stale stale_def [symmetric])
  qed
qed

section \<open>Draining\<close>

text \<open>The steps by which the reader and the loop move records on, and how many are left.\<close>

definition moving :: "flow_event set" where
  "moving = {Read, Receive, Continue_Loop}"

fun loop_work :: "loop_pc \<Rightarrow> nat" where
  "loop_work (Decoded p proto) = 4"
| "loop_work (Looked p proto start ok) = 3"
| "loop_work (Removing h) = 2"
| "loop_work (Deleting h) = 1"
| "loop_work pc = 0"

definition steps_left :: "flow_sys \<Rightarrow> nat" where
  "steps_left s = 6 * length (ring (kernel s)) + 5 * length (in_reader (reader s)) + loop_work (loop s)"

lemma loop_step_left: "loop_step s pc = Some t \<Longrightarrow>
   loop_work (loop t) < loop_work pc \<and> kernel t = kernel s \<and> reader t = reader s \<and> wire t = wire s \<and>
   loop t \<noteq> Cancelled"
  by (induction s pc rule: loop_step.induct)
    (auto split: option.splits prod.splits dest!: decide_pc)

lemma receive_work: "loop_work (receive bs) < 5" "receive bs \<noteq> Cancelled"
  by (cases rule: receive_cases [of bs]; simp)+

lemma moving_step:
  assumes "flow_step fits s e = Some t" and "e \<in> moving" and "loop s \<noteq> Cancelled" and "reader s \<noteq> ReaderEnded"
  shows "steps_left t < steps_left s \<and> wire t = wire s \<and> loop t \<noteq> Cancelled \<and> reader t \<noteq> ReaderEnded"
  using assms receive_work loop_step_left [of s "loop s" t]
  by (auto simp: moving_def steps_left_def le_imp_less_Suc split: reader_pc.splits list.splits loop_pc.splits)

lemma moving_run:
  assumes "flow_run fits s es = Some t" and "set es \<subseteq> moving" and "loop s \<noteq> Cancelled" and "reader s \<noteq> ReaderEnded"
  shows "length es + steps_left t \<le> steps_left s \<and> wire t = wire s \<and> loop t \<noteq> Cancelled \<and>
    reader t \<noteq> ReaderEnded"
  using assms
proof (induction es arbitrary: s)
  case (Cons e es)
  then obtain u where u: "flow_step fits s e = Some u" "flow_run fits u es = Some t"
    by (auto split: bind_splits)
  then have "steps_left u < steps_left s \<and> wire u = wire s \<and> loop u \<noteq> Cancelled \<and> reader u \<noteq> ReaderEnded"
    using Cons.prems by (intro moving_step) auto
  then show ?case using Cons.IH [OF u(2)] Cons.prems(2) by simp
qed simp

lemma loop_step_enabled: "loop_work pc > 0 \<Longrightarrow> loop_step s pc \<noteq> None"
  by (cases pc) (auto split: prod.splits option.splits)

lemma moving_enabled:
  assumes "steps_left s > 0" and "loop s \<noteq> Cancelled" and "loop s \<noteq> Crashed" and "reader s \<noteq> ReaderEnded"
  shows "\<exists>e \<in> moving. flow_step fits s e \<noteq> None"
proof -
  consider "loop_work (loop s) > 0" | bs where "loop s = Selecting" "reader s = Holding bs"
    | "loop s = Selecting" "reader s = Reading"
    using assms(2-) by (cases "loop s"; cases "reader s") auto
  then show ?thesis
  proof cases
    case 1
    then show ?thesis using loop_step_enabled [of "loop s" s] by (auto simp: moving_def)
  next
    case 3
    then have "ring (kernel s) \<noteq> []" using assms(1) by (auto simp: steps_left_def)
    then show ?thesis using 3 by (auto simp: moving_def neq_Nil_conv)
  qed (auto simp: moving_def)
qed

lemma steps_left_0: "steps_left s = 0 \<Longrightarrow> loop s \<noteq> Cancelled \<Longrightarrow> loop s \<noteq> Crashed \<Longrightarrow>
    reader s \<noteq> ReaderEnded \<Longrightarrow> idle s"
  by (cases "loop s"; cases "reader s") (auto simp: steps_left_def idle_def)

section \<open>Properties\<close>

text \<open>C7: with the pruner idle, the goroutines compute what the sequential calculation computes on
  the packets dealt with: the same reports, and a table with the same entries, those of a key
  whose removal is under way left out.\<close>

theorem unpruned_run_is_sequential:
  assumes "flow_run fits (flow_start now) es = Some s" and "\<And>c order. PruneStart c order \<notin> set es"
  shows "\<exists>t. calc_stream flow_table_ops (handled s) new_flow_table = (outcome s, t) \<and> entries t = live s"
proof -
  have "sequential (flow_start now)"
    by (simp add: sequential_def flow_start_def live_def new_flow_table_def)
  then have "sequential s" using assms by (rule sequential_run)
  then show ?thesis by (simp add: sequential_def)
qed

lemma query_seen_run:
  "flow_run never_full (flow_start 0) [Frame udp_query, Read, Receive, Continue_Loop, Continue_Loop] = Some query_seen"
  using first_sighting [of "flow_start 0", OF _ udp_query_spec(1-2)] query_packet_fields [of 0]
  by (simp add: query_seen_def idle_def flow_start_def new_flow_table_def delivered_def query_packet_def
      del: run_steps.simps)

lemma unpruned_run_is_sequential_witness:
  "\<exists>t. calc_stream flow_table_ops [query_packet 0] new_flow_table = ([None], t) \<and>
     entries t = [packet_hash (query_packet 0) \<mapsto> 0]"
  using unpruned_run_is_sequential [OF query_seen_run]
  by (simp add: query_seen_def flow_start_def live_def ft_insert_def new_flow_table_def del: calc_stream.simps)

text \<open>A pruning pass that nothing comes in between of does what Prune does: after finitely
  many steps the table is the one Prune gives for the same clock sample and visiting order, and
  nothing else has changed.\<close>

lemma pass_alone_is_Prune:
  assumes "pruner s = Ticking"
  shows "\<exists>k. flow_run fits s (PruneStart c order # replicate k Prune) =
    Some (s\<lparr>flows := fst (ft_prune c order (flows s))\<rparr>)"
proof -
  let ?now = "get_nanosec_since_boot c"
  have same: "s\<lparr>flows := t, pruner := Ticking\<rparr> = s\<lparr>flows := t\<rparr>" for t
    using assms by (cases s) simp
  obtain k where "flow_run fits (s\<lparr>pruner := Visiting ?now order\<rparr>) (replicate k Prune) =
      Some (s\<lparr>flows := fst (ft_range (prune_entry ?now) order (flows s)), pruner := Ticking\<rparr>)"
    using prune_pass [of "s\<lparr>pruner := Visiting ?now order\<rparr>" ?now order fits] by auto
  then have "flow_run fits s (PruneStart c order # replicate k Prune) =
      Some (s\<lparr>flows := fst (ft_range (prune_entry ?now) order (flows s)), pruner := Ticking\<rparr>)"
    using assms by simp
  then show ?thesis unfolding same ft_prune_def Let_def by blast
qed

lemma pass_alone_is_Prune_witness:
  "\<exists>k. flow_run never_full ((flow_start 0)\<lparr>flows := two_flows\<rparr>)
      (PruneStart at_minute [1, 2] # replicate k Prune) =
    Some ((flow_start 0)\<lparr>flows := fst (ft_prune at_minute [1, 2] two_flows)\<rparr>)"
  using pass_alone_is_Prune [of "(flow_start 0)\<lparr>flows := two_flows\<rparr>" never_full at_minute "[1, 2]"]
  by (simp add: flow_start_def del: run_steps.simps)

text \<open>C8: no record is left lying: from any reachable state in which the loop is not cancelled and
  the reader has not ended, the two can only move on so many steps, and when neither can move
  any more, the ring buffer is empty and every record sent has been dealt with, in order.\<close>

theorem everything_sent_is_handled:
  assumes "flow_reach fits now s" and "loop s \<noteq> Cancelled" and "reader s \<noteq> ReaderEnded"
    and "flow_run fits s es = Some t" and "set es \<subseteq> moving"
  shows "length es \<le> steps_left s \<and>
    ((\<forall>e \<in> moving. flow_step fits t e = None) \<longrightarrow>
       idle t \<and> (\<exists>sent. carried (fits = never_full) sent (specified (wire s)) \<and> handled t = map view_packet sent))"
proof (intro conjI impI)
  have t: "length es + steps_left t \<le> steps_left s" "wire t = wire s" "loop t \<noteq> Cancelled"
      "reader t \<noteq> ReaderEnded"
    using moving_run [OF assms(4,5,2,3)] by auto
  then show "length es \<le> steps_left s" by simp
  obtain don rest where q: "queue_inv fits t don rest"
    using queue.reach [OF run_steps_reachable [OF assms(1,4)]] by blast
  assume stuck: "\<forall>e \<in> moving. flow_step fits t e = None"
  have "loop t \<noteq> Crashed" using q by (simp add: queue_inv_def)
  then have "steps_left t = 0" using t stuck moving_enabled [of t fits] by (auto intro: ccontr)
  then have idle: "idle t" using t \<open>loop t \<noteq> Crashed\<close> by (intro steps_left_0)
  then show "idle t" .
  show "\<exists>sent. carried (fits = never_full) sent (specified (wire s)) \<and> handled t = map view_packet sent"
    using q idle t(2) by (intro exI [of _ don]) (auto simp: queue_inv_def idle_def)
qed

lemma everything_sent_is_handled_witness:
  "idle query_seen \<and> steps_left query_seen = 0 \<and>
   (\<exists>sent. sent = specified [(0, udp_query)] \<and> [query_packet 0] = map view_packet sent)"
proof -
  have "flow_run never_full query_seen [] = Some query_seen" "set [] \<subseteq> moving" by simp_all
  moreover have "\<forall>e \<in> moving. flow_step never_full query_seen e = None"
    by (simp add: moving_def query_seen_fields)
  ultimately show ?thesis
    using everything_sent_is_handled [OF query_seen_reach, of "[]" query_seen]
    by (simp add: query_seen_fields steps_left_def del: flow_step.simps run_steps.simps)
qed

text \<open>C20: pruning and measuring are not synchronised: a pass that has found an old entry can delete
  the entry a later packet has put in its place, though that is not stale.\<close>

theorem fresh_entry_deleted:
  "\<exists>s t h v. flow_reach never_full 0 s \<and> pruner s = Stale 60000000000 h [] \<and>
     entries (flows s) h = Some v \<and> \<not> stale 60000000000 v \<and>
     flow_step never_full s Prune = Some t \<and> entries (flows t) h = None"
proof -
  let ?h = "packet_hash (query_packet 0)" and ?ev = "flat_event udp_query False False"
  define s1 where "s1 = query_seen\<lparr>kernel := \<lparr>clock = 60000000000, ring = []\<rparr>, pruner := Stale 60000000000 ?h []\<rparr>"
  have "flow_run never_full query_seen [Pass 60000000000, PruneStart (Inr (60, 0)) [?h], Prune] = Some s1"
    by (simp add: s1_def query_seen_def flow_start_def get_nanosec_since_boot_def ft_insert_def)
  then have r1: "flow_reach never_full 0 s1" by (rule run_steps_reachable [OF query_seen_reach])
  have idle: "idle s1" by (simp add: idle_def s1_def query_seen_def flow_start_def)
  have p1: "delivered udp_query ?ev s = query_packet (clock (kernel s))" for s
    by (simp add: delivered_def query_packet_def)
  have "entries (flows s1) ?h = Some 0" by (simp add: s1_def query_seen_def ft_insert_def)
  then obtain s2 where s2: "flow_run never_full s1 [Frame udp_query, Read, Receive, Continue_Loop,
      Continue_Loop, Continue_Loop, Continue_Loop] = Some s2"
    "idle s2" "clock (kernel s2) = 60000000000" "pruner s2 = pruner s1" "entries (flows s2) ?h = None"
    using second_sighting [OF idle udp_query_spec(1-2), of 0] query_packet_fields [of "clock (kernel s1)"] idle
    by (simp add: p1 idle_def ft_delete_def s1_def del: run_steps.simps)
  then have r2: "flow_reach never_full 0 s2" by (intro run_steps_reachable [OF r1])
  obtain s3 where s3: "flow_run never_full s2 [Frame udp_query, Read, Receive, Continue_Loop,
      Continue_Loop] = Some s3"
    "pruner s3 = pruner s1" "entries (flows s3) ?h = Some 60000000000"
    using first_sighting [OF s2(2) udp_query_spec(1-2)] query_packet_fields [of "clock (kernel s2)"] s2(3-5)
    by (simp add: p1 ft_insert_def del: run_steps.simps)
  then have "flow_reach never_full 0 s3" by (intro run_steps_reachable [OF r2])
  moreover have "\<not> stale 60000000000 60000000000" by (simp add: stale_def)
  moreover have "flow_step never_full s3 Prune =
      Some (s3\<lparr>flows := ft_delete (flows s3) ?h, pruner := Visiting 60000000000 []\<rparr>)"
    using s3(2) by (simp add: s1_def)
  ultimately show ?thesis
    using s3(2,3) by (intro exI [of _ s3] exI) (auto simp: s1_def ft_delete_def)
qed

end
