(* ===== verification/Go_Text.thy ===== *)
theory Go_Text
  imports Xcnf_Prelude
begin

text \<open>
  How the Go programs turn values into text: numbers in a base (\<^verbatim>\<open>strconv\<close>, the verbs
  \<^verbatim>\<open>%d\<close> and \<^verbatim>\<open>%x\<close>), padded columns, and IP addresses (\<^verbatim>\<open>net.IP.String\<close>, \<^verbatim>\<open>netip.Addr.String\<close>).
  Every printer comes with a reader, and reading back what was printed gives the value.
\<close>

section \<open>Joining and splitting\<close>

fun join :: "'a \<Rightarrow> 'a list list \<Rightarrow> 'a list" where
  "join sep [] = []"
| "join sep [x] = x"
| "join sep (x # y # xs) = x @ sep # join sep (y # xs)"

fun split_at :: "'a \<Rightarrow> 'a list \<Rightarrow> 'a list list" where
  "split_at sep [] = [[]]"
| "split_at sep (c # cs) =
     (if c = sep then [] # split_at sep cs
      else case split_at sep cs of [] \<Rightarrow> [[c]] | x # xs \<Rightarrow> (c # x) # xs)"

lemma split_at_not_Nil [simp]: "split_at sep s \<noteq> []"
  by (cases s) (auto split: list.split)

lemma split_at_word: "sep \<notin> set x \<Longrightarrow> split_at sep x = [x]"
  by (induction x) auto

lemma split_at_append: "sep \<notin> set x \<Longrightarrow> split_at sep (x @ sep # rest) = x # split_at sep rest"
  by (induction x) auto

lemma split_join:
  "xs \<noteq> [] \<Longrightarrow> \<forall>x \<in> set xs. sep \<notin> set x \<Longrightarrow> split_at sep (join sep xs) = xs"
  by (induction sep xs rule: join.induct) (auto simp: split_at_word split_at_append)

lemma set_join: "set (join sep xs) \<subseteq> insert sep (\<Union> (set ` set xs))"
  by (induction sep xs rule: join.induct) auto

section \<open>Numbers\<close>

definition digit_chars :: string where
  "digit_chars = ''0123456789abcdef''"

definition digit_char :: "nat \<Rightarrow> char" where
  "digit_char d = digit_chars ! d"

definition char_digit :: "char \<Rightarrow> nat" where
  "char_digit c = length (takeWhile (\<lambda>x. x \<noteq> c) digit_chars)"

function numeral_text :: "nat \<Rightarrow> nat \<Rightarrow> string" where
  "numeral_text b n =
     (if b < 2 \<or> n < b then [digit_char n] else numeral_text b (n div b) @ [digit_char (n mod b)])"
  by pat_completeness auto
termination
  by (relation "measure snd") auto

declare numeral_text.simps [simp del]

definition read_numeral :: "nat \<Rightarrow> string \<Rightarrow> nat" where
  "read_numeral b s = foldl (\<lambda>n c. n * b + char_digit c) 0 s"

lemma char_digit_char: "d < 16 \<Longrightarrow> char_digit (digit_char d) = d"
proof -
  have "list_all (\<lambda>d. char_digit (digit_char d) = d) [0..<16]" by code_simp
  then show "d < 16 \<Longrightarrow> char_digit (digit_char d) = d" by (simp add: list_all_iff)
qed

lemma digit_char_in: "d < 16 \<Longrightarrow> digit_char d \<in> set digit_chars"
  unfolding digit_char_def by (rule nth_mem) (simp add: digit_chars_def)

lemma read_numeral_snoc: "read_numeral b (s @ [c]) = read_numeral b s * b + char_digit c"
  by (simp add: read_numeral_def)

lemma read_numeral_text: "1 < b \<Longrightarrow> b \<le> 16 \<Longrightarrow> read_numeral b (numeral_text b n) = n"
proof (induction b n rule: numeral_text.induct)
  case (1 b n)
  have "n mod b < 16" using 1(2,3) by (meson less_le_trans mod_less_divisor not_less_zero less_trans zero_less_one)
  then show ?case
    using 1 by (subst numeral_text.simps) (auto simp: read_numeral_snoc char_digit_char read_numeral_def)
qed

lemma numeral_text_chars: "1 < b \<Longrightarrow> b \<le> 16 \<Longrightarrow> set (numeral_text b n) \<subseteq> set digit_chars"
proof (induction b n rule: numeral_text.induct)
  case (1 b n)
  have "n mod b < 16" using 1(2,3) by (meson less_le_trans mod_less_divisor not_less_zero less_trans zero_less_one)
  then show ?case
    using 1 by (subst numeral_text.simps) (auto simp: digit_char_in)
qed

lemma numeral_text_not_Nil [simp]: "numeral_text b n \<noteq> []"
  by (subst numeral_text.simps) simp

lemma numeral_text_avoids: "1 < b \<Longrightarrow> b \<le> 16 \<Longrightarrow> c \<notin> set digit_chars \<Longrightarrow> c \<notin> set (numeral_text b n)"
  using numeral_text_chars by blast

abbreviation decimal :: "nat \<Rightarrow> string" where "decimal \<equiv> numeral_text 10"
abbreviation hexadecimal :: "nat \<Rightarrow> string" where "hexadecimal \<equiv> numeral_text 16"

definition newline :: char where "newline = CHR 0x0A"

definition tab :: char where "tab = CHR 0x09"

text \<open>The verbs with a negative width: blanks on the right up to the width.\<close>

definition pad_right :: "nat \<Rightarrow> string \<Rightarrow> string" where
  "pad_right w s = s @ replicate (w - length s) CHR '' ''"

section \<open>IP addresses\<close>

definition ipv4_text :: "bytes \<Rightarrow> string" where
  "ipv4_text a = join CHR ''.'' (map (decimal \<circ> unat) a)"

text \<open>The eight 16-bit groups of an address.\<close>

definition groups :: "bytes \<Rightarrow> nat list" where
  "groups a = map (\<lambda>i. unat (a ! (2 * i)) * 256 + unat (a ! (2 * i + 1))) [0..<8]"

definition ungroup :: "nat list \<Rightarrow> bytes" where
  "ungroup gs = concat (map (\<lambda>g. [of_nat (g div 256), of_nat (g mod 256)]) gs)"

text \<open>
  The longest run of two or more zero groups, the first of several: where it starts, and its
  length, zero if there is none.
\<close>

definition zero_run :: "nat list \<Rightarrow> nat \<times> nat" where
  "zero_run gs = foldl (\<lambda>(s, l) i.
     let n = length (takeWhile (\<lambda>g. g = 0) (drop i gs))
     in if 2 \<le> n \<and> l < n then (i, n) else (s, l)) (0, 0) [0..<length gs]"

definition groups_text :: "nat list \<Rightarrow> string" where
  "groups_text gs =
     (case zero_run gs of
        (s, l) \<Rightarrow>
          if l = 0 then join CHR '':'' (map hexadecimal gs)
          else join CHR '':'' (map hexadecimal (take s gs)) @ ''::'' @
            join CHR '':'' (map hexadecimal (drop (s + l) gs)))"

text \<open>
  Both \<^verbatim>\<open>String\<close> methods print an IPv4-mapped address, after the conversions in the sources,
  as the IPv4 address.
\<close>

definition mapped_prefix :: bytes where
  "mapped_prefix = replicate 10 0 @ [0xff, 0xff]"

definition ip_text :: "bytes \<Rightarrow> string" where
  "ip_text a = (if take 12 a = mapped_prefix then ipv4_text (drop 12 a) else groups_text (groups a))"

text \<open>Readers.\<close>

definition read_ipv4 :: "string \<Rightarrow> bytes" where
  "read_ipv4 s = map (of_nat \<circ> read_numeral 10) (split_at CHR ''.'' s)"

definition read_groups :: "string \<Rightarrow> nat list" where
  "read_groups s =
     (let parts = split_at CHR '':'' s;
          front = takeWhile (\<lambda>p. p \<noteq> []) parts;
          back = rev (takeWhile (\<lambda>p. p \<noteq> []) (rev parts))
      in if [] \<notin> set parts then map (read_numeral 16) parts
         else map (read_numeral 16) front @ replicate (8 - length front - length back) 0 @
           map (read_numeral 16) back)"

definition read_ip :: "string \<Rightarrow> bytes" where
  "read_ip s = (if CHR ''.'' \<in> set s then mapped_prefix @ read_ipv4 s else ungroup (read_groups s))"

lemma read_ipv4_text: "a \<noteq> [] \<Longrightarrow> read_ipv4 (ipv4_text a) = a"
proof -
  assume "a \<noteq> []"
  moreover have "CHR ''.'' \<notin> set (decimal n)" for n
    by (rule numeral_text_avoids) (simp_all add: digit_chars_def)
  ultimately have "split_at CHR ''.'' (ipv4_text a) = map (decimal \<circ> unat) a"
    unfolding ipv4_text_def by (intro split_join) auto
  then show ?thesis by (simp add: read_ipv4_def comp_def read_numeral_text map_idI)
qed

lemma list8: "length gs = 8 \<Longrightarrow> \<exists>a b c d e f g h. gs = [a, b, c, d, e, f, g, h]"
  by (auto simp: eval_nat_numeral length_Suc_conv)

lemma list16: "length xs = 16 \<Longrightarrow> xs = map (\<lambda>i. xs ! i) [0..<16]"
  using map_nth [of xs] by simp

lemma ungroup_groups: "length a = 16 \<Longrightarrow> ungroup (groups a) = a"
proof -
  assume len: "length a = 16"
  have "[of_nat ((unat x * 256 + unat y) div 256), of_nat ((unat x * 256 + unat y) mod 256)] = [x, y]" for x y :: u8
    using unsigned_less [of y, where ?'a = nat] by simp
  then have "ungroup (groups a) = concat (map (\<lambda>i. [a ! (2 * i), a ! (2 * i + 1)]) [0..<8])"
    by (simp add: ungroup_def groups_def comp_def)
  also have "\<dots> = map (\<lambda>i. a ! i) [0..<16]"
    by (simp add: upt_rec, simp add: eval_nat_numeral)
  finally show ?thesis using list16 [OF len] by simp
qed

lemma zero_run_spec:
  assumes "zero_run gs = (s, l)"
  shows "take l (drop s gs) = replicate l 0 \<and> s + l \<le> length gs"
proof -
  let ?f = "\<lambda>(s, l) i. let n = length (takeWhile (\<lambda>g. g = 0) (drop i gs))
     in if 2 \<le> n \<and> l < n then (i, n) else (s, l)"
  let ?ok = "\<lambda>(s, l). take l (drop s gs) = replicate l 0 \<and> s + l \<le> length gs"
  have run: "take (length (takeWhile (\<lambda>g. g = 0) xs)) xs = replicate (length (takeWhile (\<lambda>g. g = 0) xs)) 0"
    for xs :: "nat list"
    by (induction xs) auto
  have len: "i + length (takeWhile (\<lambda>g. g = 0) (drop i gs)) \<le> length gs" if "i < length gs" for i
    using that length_takeWhile_le [of "\<lambda>g. g = 0" "drop i gs"] by simp
  have "?ok (foldl ?f (0, 0) is)" if "set is \<subseteq> {..<length gs}" for "is"
    using that run len by (induction "is" rule: rev_induct) (auto simp: Let_def split: prod.splits)
  from this [of "[0..<length gs]"] show ?thesis using assms by (simp add: zero_run_def lessThan_atLeast0)
qed

text \<open>The text of a compressed address, as parts between colons.\<close>

definition parts :: "string list \<Rightarrow> string list" where
  "parts xs = (if xs = [] then [[]] else xs)"

lemma join_gap:
  "join c xs @ [c, c] @ join c ys = join c (parts xs @ [] # parts ys)"
proof -
  have "[c] @ join c ys = join c ([] # parts ys)" by (cases ys) (simp_all add: parts_def)
  moreover have "join c xs @ c # join c (z # zs) = join c (parts xs @ z # zs)" for z zs
    by (induction c xs rule: join.induct) (auto simp: parts_def)
  ultimately show ?thesis by simp
qed

lemma hex_part: "hexadecimal g \<noteq> []" "CHR '':'' \<notin> set (hexadecimal g)" "CHR ''.'' \<notin> set (hexadecimal g)"
  by simp (rule numeral_text_avoids; simp add: digit_chars_def)+

lemma read_hex: "read_numeral 16 (hexadecimal g) = g"
  by (simp add: read_numeral_text)

lemma front_parts: "takeWhile (\<lambda>p. p \<noteq> []) (parts (map hexadecimal gs) @ [] # rest) = map hexadecimal gs"
proof -
  have "takeWhile (\<lambda>p. p \<noteq> []) (map hexadecimal gs @ [] # rest) = map hexadecimal gs" for rest
    by (induction gs) (simp_all add: hex_part)
  then show ?thesis by (cases gs) (simp_all add: parts_def)
qed

lemma rev_parts: "rev (parts xs) = parts (rev xs)"
  by (simp add: parts_def)

lemma read_groups_text:
  assumes "length gs = 8"
  shows "read_groups (groups_text gs) = gs"
proof -
  obtain s l where z: "zero_run gs = (s, l)" by fastforce
  have part: "\<forall>x \<in> set (map hexadecimal xs). CHR '':'' \<notin> set x" for xs by (simp add: hex_part)
  show ?thesis
  proof (cases "l = 0")
    case True
    have "gs \<noteq> []" using assms by auto
    then have "split_at CHR '':'' (groups_text gs) = map hexadecimal gs"
      using z True part split_join [of "map hexadecimal gs" "CHR '':''"] by (auto simp: groups_text_def)
    moreover have "[] \<notin> set (map hexadecimal gs)" by (simp add: hex_part(1) [symmetric] image_iff)
    ultimately show ?thesis by (simp add: read_groups_def comp_def read_hex)
  next
    case False
    let ?F = "take s gs" and ?B = "drop (s + l) gs"
    let ?ps = "parts (map hexadecimal ?F) @ [] # parts (map hexadecimal ?B)"
    have "groups_text gs = join CHR '':'' ?ps"
      using z False join_gap [of "CHR '':''" "map hexadecimal ?F" "map hexadecimal ?B"]
      by (simp add: groups_text_def)
    moreover have "\<forall>x \<in> set ?ps. CHR '':'' \<notin> set x" using part by (auto simp: parts_def)
    ultimately have ps: "split_at CHR '':'' (groups_text gs) = ?ps" by (simp add: split_join)
    have tail: "takeWhile (\<lambda>p. p \<noteq> []) (rev ?ps) = rev (map hexadecimal ?B)"
      using front_parts [of "rev ?B"] by (simp add: rev_parts rev_map)
    have zs: "take l (drop s gs) = replicate l 0" "s + l \<le> 8"
      using zero_run_spec [OF z] assms by auto
    have "gs = ?F @ take l (drop s gs) @ ?B"
      by (metis append_take_drop_id drop_drop add.commute)
    moreover have "l = 8 - length ?F - length ?B" using zs(2) assms by simp
    ultimately have "gs = ?F @ replicate (8 - length ?F - length ?B) 0 @ ?B" using zs(1) by simp
    moreover have "read_groups (groups_text gs) = ?F @ replicate (8 - length ?F - length ?B) 0 @ ?B"
      unfolding read_groups_def ps Let_def front_parts tail
      by (simp add: comp_def read_hex rev_map [symmetric])
    ultimately show ?thesis by simp
  qed
qed

lemma set_groups_text: "set (groups_text gs) \<subseteq> insert CHR '':'' (set digit_chars)"
proof -
  have "set (join CHR '':'' (map hexadecimal xs)) \<subseteq> insert CHR '':'' (set digit_chars)" for xs
    using set_join [of "CHR '':''" "map hexadecimal xs"] numeral_text_chars [of 16] by fastforce
  then show ?thesis by (auto simp: groups_text_def split: prod.split)
qed

lemma set_ipv4_text: "set (ipv4_text a) \<subseteq> insert CHR ''.'' (set digit_chars)"
  using set_join [of "CHR ''.''" "map (decimal \<circ> unat) a"] numeral_text_chars [of 10]
  by (fastforce simp: ipv4_text_def)

lemma set_ip_text: "set (ip_text a) \<subseteq> {CHR ''.'', CHR '':''} \<union> set digit_chars"
  using set_groups_text [of "groups a"] set_ipv4_text [of "drop 12 a"] by (auto simp: ip_text_def)

lemma read_ip_text:
  assumes "length a = 16"
  shows "read_ip (ip_text a) = a"
proof (cases "take 12 a = mapped_prefix")
  case True
  have "length (drop 12 a) = Suc (Suc 2)" using assms by simp
  then obtain x y zs where "drop 12 a = x # y # zs" unfolding length_Suc_conv by blast
  then have "CHR ''.'' \<in> set (ipv4_text (drop 12 a))" "drop 12 a \<noteq> []"
    by (simp_all add: ipv4_text_def)
  then have "read_ip (ip_text a) = mapped_prefix @ drop 12 a"
    using True by (simp add: read_ip_def ip_text_def read_ipv4_text)
  then show ?thesis using True append_take_drop_id [of 12 a] by simp
next
  case False
  have "CHR ''.'' \<notin> set (groups_text (groups a))"
    using set_groups_text [of "groups a"] by (auto simp: digit_chars_def)
  moreover have "length (groups a) = 8" by (simp add: groups_def)
  ultimately show ?thesis
    using False assms by (simp add: read_ip_def ip_text_def read_groups_text ungroup_groups)
qed

text \<open>Some addresses of RFC 5952 and their texts.\<close>

lemma rfc5952_texts:
  "groups_text [0, 0, 0, 0, 0, 0, 0, 1] = ''::1''"
  "groups_text [0xfe80, 0, 0, 0, 0, 0, 0, 0] = ''fe80::''"
  "groups_text [0x2001, 0xdb8, 0, 0, 1, 0, 0, 1] = ''2001:db8::1:0:0:1''"
  "groups_text [0x2001, 0, 0, 1, 0, 0, 0, 1] = ''2001:0:0:1::1''"
  by (simp_all add: groups_text_def zero_run_def upt_rec numeral_text.simps digit_char_def digit_chars_def)

end
