(* ===== verification/Go_Float.thy ===== *)
theory Go_Float
  imports Go_Text Complex_Main "HOL-Library.Log_Nat"
begin

text \<open>
  The \<^verbatim>\<open>float64\<close> arithmetic of the latency calculation over the rationals: every operation is
  exact and then rounded to 53 significant bits, ties to even. The values of the program
  stay far inside the exponent range, so there are no infinities and no subnormal numbers.
  \<^verbatim>\<open>%.3f\<close> rounds to thousandths, ties to even.
\<close>

section \<open>Rounding\<close>

definition round_even :: "rat \<Rightarrow> int" where
  "round_even x =
     (let f = \<lfloor>x\<rfloor>; r = x - of_int f
      in if r < 1 / 2 then f else if 1 / 2 < r then f + 1 else if even f then f else f + 1)"

text \<open>The exponent of the last bit kept.\<close>

definition last_bit :: "rat \<Rightarrow> int" where
  "last_bit x =
     (let (a, b) = quotient_of \<bar>x\<bar>;
          e = bitlen a - bitlen b - 53
      in if \<bar>x\<bar> < 2 powi (e + 53) then e else e + 1)"

definition to_float :: "rat \<Rightarrow> rat" where
  "to_float x = (if x = 0 then 0
     else of_int (round_even (x / 2 powi last_bit x)) * 2 powi last_bit x)"

lemma round_even_error: "\<bar>of_int (round_even x) - x\<bar> \<le> 1 / 2"
proof -
  define f :: rat where "f = of_int \<lfloor>x\<rfloor>"
  have "f \<le> x" "x < f + 1" unfolding f_def by linarith+
  then show ?thesis by (auto simp: round_even_def Let_def f_def [symmetric] abs_if)
qed

lemma round_even_int: "round_even (of_int n) = n"
  by (simp add: round_even_def)

lemma last_bit_lower:
  assumes "x \<noteq> 0"
  shows "2 powi (last_bit x + 52) \<le> \<bar>x\<bar>"
proof -
  obtain a b where q: "quotient_of \<bar>x\<bar> = (a, b)" by fastforce
  have x: "\<bar>x\<bar> = of_int a / of_int b" and b: "b > 0" using q by (simp_all add: quotient_of_div quotient_of_denom_pos)
  then have a: "a > 0" using assms by (metis of_int_0_less_iff zero_less_abs_iff zero_less_divide_iff not_less_iff_gr_or_eq)
  let ?e = "bitlen a - bitlen b - 53"
  have "2 ^ nat (bitlen a - 1) \<le> a" "b < 2 ^ nat (bitlen b)"
    using bitlen_bounds a b by auto
  then have "(2 :: rat) ^ nat (bitlen a - 1) \<le> of_int a" "of_int b < (2 :: rat) ^ nat (bitlen b)"
    by (metis of_int_le_iff of_int_numeral of_int_power) (metis \<open>b < 2 ^ nat (bitlen b)\<close> of_int_less_iff of_int_numeral of_int_power)
  moreover have "bitlen a \<ge> 1" "bitlen b \<ge> 1"
    using a b bitlen_nonneg [of a] bitlen_nonneg [of b] bitlen_eq_zero_iff [of a] bitlen_eq_zero_iff [of b]
    by linarith+
  ultimately have "2 powi (bitlen a - 1) \<le> (of_int a :: rat)" "(of_int b :: rat) < 2 powi bitlen b"
    by (simp_all add: power_int_def)
  then have "2 powi (bitlen a - 1) / 2 powi (bitlen b) \<le> (of_int a / of_int b :: rat)"
    using a b by (intro frac_le) auto
  then have low: "2 powi (?e + 52) \<le> \<bar>x\<bar>"
    by (simp add: x power_int_diff [symmetric] algebra_simps)
  show ?thesis
    using low by (auto simp: last_bit_def q Let_def add.commute add.left_commute not_less)
qed

lemma to_float_error: "\<bar>to_float x - x\<bar> \<le> \<bar>x\<bar> / 2 ^ 53"
proof (cases "x = 0")
  case False
  let ?u = "2 powi last_bit x :: rat"
  have u: "?u > 0" by simp
  have "to_float x - x = (of_int (round_even (x / ?u)) - x / ?u) * ?u"
    using False by (simp add: to_float_def algebra_simps)
  then have "\<bar>to_float x - x\<bar> = \<bar>of_int (round_even (x / ?u)) - x / ?u\<bar> * ?u"
    using u by (simp add: abs_mult)
  also have "\<dots> \<le> 1 / 2 * ?u"
    using round_even_error u by (intro mult_right_mono) auto
  also have "\<dots> = 2 powi (last_bit x + 52) / 2 ^ 53"
    by (simp add: power_int_add)
  also have "\<dots> \<le> \<bar>x\<bar> / 2 ^ 53"
    using last_bit_lower [OF False] by (intro divide_right_mono) auto
  finally show ?thesis .
next
  case True
  then show ?thesis by (simp add: to_float_def)
qed

lemma to_float_int:
  assumes "\<bar>n\<bar> < 2 ^ 53"
  shows "to_float (of_int n) = of_int n"
proof (cases "n = 0")
  case False
  let ?x = "of_int n :: rat"
  have q: "quotient_of \<bar>?x\<bar> = (\<bar>n\<bar>, 1)"
    by (simp flip: of_int_abs)
  have "bitlen \<bar>n\<bar> \<le> 53" using assms bitlen_le_iff_power [of "\<bar>n\<bar>" 53] by simp
  moreover have "last_bit ?x \<le> bitlen \<bar>n\<bar> - bitlen 1 - 52"
    unfolding last_bit_def q by (simp add: Let_def)
  moreover have "bitlen 1 \<ge> 1"
    using bitlen_nonneg [of 1] bitlen_eq_zero_iff [of 1] by linarith
  ultimately have e: "last_bit ?x \<le> 0" by linarith
  then have "?x / 2 powi last_bit ?x = of_int (n * 2 ^ nat (- last_bit ?x))"
    by (simp add: power_int_def field_simps)
  then have "to_float ?x = of_int (n * 2 ^ nat (- last_bit ?x)) * 2 powi last_bit ?x"
    using False by (simp only: to_float_def round_even_int of_int_eq_0_iff if_False)
  then show ?thesis using e by (simp add: power_int_def field_simps)
next
  case True
  then show ?thesis by (simp add: to_float_def)
qed

lemma to_float_nat: "n < 2 ^ 53 \<Longrightarrow> to_float (of_nat n) = of_nat n"
  using to_float_int [of "int n"] by simp

lemma to_float_nonneg: "0 \<le> x \<Longrightarrow> 0 \<le> to_float x"
proof -
  assume "0 \<le> x"
  moreover have "x / 2 ^ 53 \<le> x" if "0 \<le> x" using that by (simp add: divide_le_eq)
  ultimately show ?thesis using to_float_error [of x] by linarith
qed

section \<open>The operations\<close>

definition float64 :: "u64 \<Rightarrow> rat" where
  "float64 w = to_float (of_nat (unat w))"

definition float_sub :: "rat \<Rightarrow> rat \<Rightarrow> rat" where
  "float_sub x y = to_float (x - y)"

definition float_div :: "rat \<Rightarrow> rat \<Rightarrow> rat" where
  "float_div x y = to_float (x / y)"

text \<open>\<^verbatim>\<open>%.3f\<close>: the nearest number of thousandths, then the digits.\<close>

definition thousandths :: "rat \<Rightarrow> nat" where
  "thousandths x = nat (round_even (\<bar>x\<bar> * 1000))"

definition fixed3 :: "rat \<Rightarrow> string" where
  "fixed3 x =
     (let n = thousandths x; m = n mod 1000
      in (if x < 0 then ''-'' else []) @ decimal (n div 1000) @
         [CHR ''.'', digit_char (m div 100), digit_char (m div 10 mod 10), digit_char (m mod 10)])"

definition read_fixed3 :: "string \<Rightarrow> int" where
  "read_fixed3 s =
     (if s \<noteq> [] \<and> hd s = CHR ''-'' then - int (read_numeral 10 (filter (\<lambda>c. c \<noteq> CHR ''.'') (tl s)))
      else int (read_numeral 10 (filter (\<lambda>c. c \<noteq> CHR ''.'') s)))"

lemma plain_digits: "CHR ''.'' \<notin> set (decimal n)" "CHR ''-'' \<notin> set (decimal n)"
  by (rule numeral_text_avoids; simp add: digit_chars_def)+

lemma digit_char_plain: "d < 16 \<Longrightarrow> digit_char d \<noteq> CHR ''.''"
  using digit_char_in [of d] by (auto simp: digit_chars_def)

lemma set_fixed3: "set (fixed3 x) \<subseteq> {CHR ''.'', CHR ''-''} \<union> set digit_chars"
proof -
  let ?m = "thousandths x mod 1000"
  have "?m div 100 < 16" "?m div 10 mod 10 < 16" "?m mod 10 < 16" by simp_all
  then have "{digit_char (?m div 100), digit_char (?m div 10 mod 10), digit_char (?m mod 10)} \<subseteq> set digit_chars"
    using digit_char_in by blast
  then show ?thesis
    using numeral_text_chars [of 10 "thousandths x div 1000"] by (auto simp: fixed3_def Let_def)
qed

lemma three_digits:
  "((n div 1000 * 10 + n mod 1000 div 100) * 10 + n mod 1000 div 10 mod 10) * 10 + n mod 1000 mod 10 = (n :: nat)"
proof -
  have "m div 100 * 100 + (m div 10 mod 10) * 10 + m mod 10 = m" for m :: nat
  proof -
    have "m div 100 = m div 10 div 10" by (simp add: div_mult2_eq [symmetric])
    moreover have "m div 10 div 10 * 10 + m div 10 mod 10 = m div 10" "m div 10 * 10 + m mod 10 = m"
      by (simp_all only: div_mult_mod_eq)
    ultimately show ?thesis by linarith
  qed
  moreover have "((a * 10 + b) * 10 + c) * 10 + d = k"
    if "b * 100 + c * 10 + d = m" "a * 1000 + m = k" for a b c d m k :: nat
    using that by simp
  ultimately show ?thesis using div_mult_mod_eq [of n 1000] by blast
qed

lemma read_fixed3:
  "read_fixed3 (fixed3 x) = (if x < 0 then - int (thousandths x) else int (thousandths x))"
proof -
  let ?n = "thousandths x" and ?m = "thousandths x mod 1000"
  let ?s = "decimal (?n div 1000) @
    [CHR ''.'', digit_char (?m div 100), digit_char (?m div 10 mod 10), digit_char (?m mod 10)]"
  have "filter (\<lambda>c. c \<noteq> CHR ''.'') ?s =
      ((decimal (?n div 1000) @ [digit_char (?m div 100)]) @ [digit_char (?m div 10 mod 10)]) @ [digit_char (?m mod 10)]"
    using plain_digits(1) by (auto simp: digit_char_plain filter_id_conv)
  moreover have "?m div 100 < 16" "?m div 10 mod 10 < 16" "?m mod 10 < 16" by simp_all
  ultimately have "read_numeral 10 (filter (\<lambda>c. c \<noteq> CHR ''.'') ?s) = ?n"
    using three_digits [of ?n]
    by (simp only: read_numeral_snoc char_digit_char read_numeral_text)
  moreover have "hd ?s \<noteq> CHR ''-''"
    using plain_digits(2) [of "?n div 1000"] hd_in_set [OF numeral_text_not_Nil, of 10 "?n div 1000"]
    by (auto simp only: hd_append numeral_text_not_Nil if_False)
  ultimately show ?thesis by (simp add: fixed3_def read_fixed3_def Let_def)
qed

section \<open>Milliseconds\<close>

text \<open>The latency of \<open>CalcLatency\<close>: \<^verbatim>\<open>(float64(end) - float64(start)) / 1_000_000\<close>.\<close>

definition latency_ms :: "u64 \<Rightarrow> u64 \<Rightarrow> rat" where
  "latency_ms end start = float_div (float_sub (float64 end) (float64 start)) 1000000"

lemma latency_exact:
  assumes "start \<le> end" and "unat end < 2 ^ 53"
  shows "latency_ms end start = to_float (of_nat (unat end - unat start) / 1000000)"
proof -
  have le: "unat start \<le> unat end" using assms(1) by (simp add: word_le_nat_alt)
  then have "float64 end = of_nat (unat end)" "float64 start = of_nat (unat start)"
    using assms(2) by (simp_all only: float64_def to_float_nat order.strict_trans1)
  then have "float_sub (float64 end) (float64 start) = to_float (of_nat (unat end - unat start))"
    using le by (simp only: float_sub_def of_nat_diff)
  moreover have "unat end - unat start < 2 ^ 53" using assms(2) by (rule less_imp_diff_less)
  ultimately show ?thesis by (simp only: latency_ms_def float_div_def to_float_nat)
qed

text \<open>Up to 104 days after boot, where nanoseconds need at most 53 bits, rounding twice is as good as
  rounding once: the number printed is a nearest number of microseconds.\<close>

lemma thousandths_nearest:
  assumes "d < 2 ^ 53"
  shows "\<bar>1000 * int (thousandths (to_float (of_nat d / 1000000))) - int d\<bar> \<le> 500"
proof -
  let ?q = "of_nat d / 1000000 :: rat"
  define x where "x = to_float ?q"
  have err: "\<bar>x - ?q\<bar> \<le> ?q / 2 ^ 53" using to_float_error [of ?q] by (simp add: x_def)
  have small: "of_nat d / 2 ^ 53 < (1 :: rat)"
    using assms by (simp add: divide_less_eq)
  have x: "0 \<le> x" by (simp add: x_def to_float_nonneg)
  define t where "t = round_even (\<bar>x\<bar> * 1000)"
  have t: "\<bar>of_int t - x * 1000\<bar> \<le> 1 / 2"
    using round_even_error [of "\<bar>x\<bar> * 1000"] x by (simp add: t_def)
  have "of_int (1000 * t - int d) = 1000 * (of_int t - x * 1000) + 1000000 * (x - ?q)" by simp
  then have "\<bar>of_int (1000 * t - int d) :: rat\<bar> \<le> \<bar>1000 * (of_int t - x * 1000)\<bar> + \<bar>1000000 * (x - ?q)\<bar>"
    by (simp only: abs_triangle_ineq)
  also have "\<dots> = 1000 * \<bar>of_int t - x * 1000\<bar> + 1000000 * \<bar>x - ?q\<bar>"
    by (simp only: abs_mult abs_numeral)
  also have "\<dots> \<le> 500 + of_nat d / 2 ^ 53" using t err by simp
  also have "\<dots> < of_int 501" using small by simp
  finally have "\<bar>1000 * t - int d\<bar> < 501" by (simp only: of_int_abs [symmetric] of_int_less_iff)
  moreover from this have "0 \<le> t" by linarith
  ultimately show ?thesis by (simp add: thousandths_def t_def [symmetric] x_def [symmetric])
qed

end
