(* ===== verification/Flow_Text.thy ===== *)
theory Flow_Text
  imports Flow_Latency Go_Float
begin

text \<open>
  The line \<open>CalcLatency\<close> of \<^verbatim>\<open>examples/flow/packet/packet.go\<close> prints for a report: its format
  string, the addresses, and the floating-point latency, with a reader of the latency column.
  The colour functions of the library print the line in a colour and change nothing else.
\<close>

section \<open>The line\<close>

fun addr_text :: "ip_addr \<Rightarrow> string" where
  "addr_text NoAddr = ''invalid IP''"
| "addr_text (Addr4 a) = ipv4_text a"
| "addr_text (Addr6 a) =
     (if is4in6 (Addr6 a) then ''::ffff:'' @ ipv4_text (drop 12 a) else groups_text (groups a))"

definition report_text :: "report \<Rightarrow> string" where
  "report_text r =
     ''('' @ rp_proto r @ '') | src: '' @ addr_text (rp_src r) @ '':'' @
     pad_right 7 (decimal (unat (rp_src_port r))) @ [tab] @
     ''dst: '' @ addr_text (rp_dst r) @ '':'' @ pad_right 9 (decimal (unat (rp_dst_port r))) @
     '']tTTL: '' @ pad_right 4 (decimal (unat (rp_ttl r))) @ [tab] @
     ''latency: '' @ fixed3 (latency_ms (rp_end r) (rp_start r)) @ '' ms'' @ [newline]"

definition read_latency :: "string \<Rightarrow> int option" where
  "read_latency s =
     (case split_at tab s of
        [src, dst, lat] \<Rightarrow> Some (read_fixed3 (takeWhile (\<lambda>c. c \<noteq> CHR '' '') (drop 9 lat)))
      | _ \<Rightarrow> None)"

lemma tab_free:
  "tab \<notin> set digit_chars" "tab \<notin> set (decimal n)" "tab \<notin> set (ipv4_text a)" "tab \<notin> set (groups_text gs)"
  "tab \<notin> set (addr_text x)" "tab \<notin> set (pad_right w s) \<longleftrightarrow> tab \<notin> set s" "tab \<notin> set (fixed3 y)"
proof -
  show t: "tab \<notin> set digit_chars" by (simp add: tab_def digit_chars_def)
  show d: "tab \<notin> set (decimal n)" for n by (rule numeral_text_avoids) (simp_all add: t)
  show i: "tab \<notin> set (ipv4_text a)" for a using set_ipv4_text [of a] t by (auto simp: tab_def)
  show g: "tab \<notin> set (groups_text gs)" for gs using set_groups_text [of gs] t by (auto simp: tab_def)
  show "tab \<notin> set (addr_text x)" using i g by (cases x) (auto simp: tab_def)
  show "tab \<notin> set (pad_right w s) \<longleftrightarrow> tab \<notin> set s" by (auto simp: pad_right_def tab_def)
  show "tab \<notin> set (fixed3 y)" using set_fixed3 [of y] t by (auto simp: tab_def)
qed

lemma report_columns_eq:
  assumes "tab \<notin> set (rp_proto r)"
  shows "split_at tab (report_text r) =
    [''('' @ rp_proto r @ '') | src: '' @ addr_text (rp_src r) @ '':'' @ pad_right 7 (decimal (unat (rp_src_port r))),
     ''dst: '' @ addr_text (rp_dst r) @ '':'' @ pad_right 9 (decimal (unat (rp_dst_port r))) @
       '']tTTL: '' @ pad_right 4 (decimal (unat (rp_ttl r))),
     ''latency: '' @ fixed3 (latency_ms (rp_end r) (rp_start r)) @ '' ms'' @ [newline]]"
    (is "_ = [?a, ?b, ?c]")
proof -
  have "report_text r = join tab [?a, ?b, ?c]" by (simp add: report_text_def)
  moreover have "\<forall>x \<in> set [?a, ?b, ?c]. tab \<notin> set x"
    using assms by (auto simp: tab_free) (auto simp: tab_def newline_def)
  then have "split_at tab (join tab [?a, ?b, ?c]) = [?a, ?b, ?c]"
    by (rule split_join [rotated]) (rule list.distinct(2))
  ultimately show ?thesis by (simp only:)
qed

lemma fixed3_no_blank: "CHR '' '' \<notin> set (fixed3 x)"
  using set_fixed3 [of x] by (auto simp: digit_chars_def)

lemma read_latency_eq:
  assumes "tab \<notin> set (rp_proto r)"
  shows "read_latency (report_text r) = Some (read_fixed3 (fixed3 (latency_ms (rp_end r) (rp_start r))))"
proof -
  have "takeWhile (\<lambda>c. c \<noteq> CHR '' '') (x @ '' ms'' @ [newline]) = x" if "CHR '' '' \<notin> set x" for x
    using that by (induction x) auto
  then show ?thesis
    using report_columns_eq [OF assms] fixed3_no_blank by (simp add: read_latency_def)
qed

lemma reported_proto:
  "fst (calc_latency flow_table_ops p t) = Some r \<Longrightarrow> rp_proto r \<in> {''TCP'', ''UDP''}"
  by (auto simp: ft.calc_report make_report_def split: option.splits if_splits)

lemma tab_not_in_proto: "s \<in> {''TCP'', ''UDP''} \<Longrightarrow> tab \<notin> set s"
  by (auto simp: tab_def)

section \<open>Properties\<close>

text \<open>C6: what is printed for an exchange is its duration to the nearest microsecond: up to 104 days
  after boot, in spite of two conversions and two rounded operations, the latency column reads
  as a number of microseconds that is at most half a microsecond from the difference of the two
  timestamps.\<close>

theorem printed_latency_nearest:
  assumes "fst (calc_latency flow_table_ops p t) = Some r" and "entries t (packet_hash p) = Some start"
    and "start \<le> Timestamp p" and "unat (Timestamp p) < 2 ^ 53"
  shows "\<exists>us. read_latency (report_text r) = Some us \<and>
    \<bar>1000 * us - (int (unat (Timestamp p)) - int (unat start))\<bar> \<le> 500"
proof -
  have r: "rp_end r = Timestamp p" "rp_start r = start"
    using assms(1,2) by (auto simp: ft.calc_report make_report_def split: if_splits)
  let ?x = "latency_ms (Timestamp p) start" and ?d = "unat (Timestamp p) - unat start"
  have x: "?x = to_float (of_nat ?d / 1000000)" using assms(3,4) by (rule latency_exact)
  have d: "?d < 2 ^ 53" using assms(4) by (rule less_imp_diff_less)
  have "read_latency (report_text r) = Some (int (thousandths ?x))"
    using read_latency_eq [OF tab_not_in_proto [OF reported_proto [OF assms(1)]]] to_float_nonneg [of "of_nat ?d / 1000000"]
    by (simp add: r read_fixed3 x)
  moreover have "int ?d = int (unat (Timestamp p)) - int (unat start)"
    using assms(3) by (simp add: word_le_nat_alt of_nat_diff)
  ultimately show ?thesis using thousandths_nearest [OF d] x by metis
qed

lemma printed_latency_nearest_witness:
  "\<exists>r us. fst (calc_latency flow_table_ops (udp_packet 2500000) (ft_insert new_flow_table (packet_hash (udp_packet 2500000)) 1000000)) = Some r \<and>
     read_latency (report_text r) = Some us \<and> \<bar>1000 * us - 1500000\<bar> \<le> 500"
proof -
  let ?p = "udp_packet 2500000"
  let ?t = "ft_insert new_flow_table (packet_hash ?p) 1000000"
  have e: "entries ?t (packet_hash ?p) = Some 1000000" by (simp add: ft_insert_def)
  then obtain r where r: "fst (calc_latency flow_table_ops ?p ?t) = Some r"
    using udp_packet_roles by (auto simp: ft.calc_report)
  show ?thesis using printed_latency_nearest [OF r e] r by (auto simp: udp_packet_def)
qed


text \<open>C34: the line has three columns where its format means four: the destination and the TTL are
  printed without a tab between them, with a closing bracket and a t in its place.\<close>

theorem report_columns:
  assumes "fst (calc_latency flow_table_ops p t) = Some r"
  shows "split_at tab (report_text r) =
    [''('' @ rp_proto r @ '') | src: '' @ addr_text (rp_src r) @ '':'' @ pad_right 7 (decimal (unat (rp_src_port r))),
     ''dst: '' @ addr_text (rp_dst r) @ '':'' @ pad_right 9 (decimal (unat (rp_dst_port r))) @
       '']tTTL: '' @ pad_right 4 (decimal (unat (rp_ttl r))),
     ''latency: '' @ fixed3 (latency_ms (rp_end r) (rp_start r)) @ '' ms'' @ [newline]]"
  using report_columns_eq [OF tab_not_in_proto [OF reported_proto [OF assms]]] .

lemma report_columns_witness:
  "\<exists>r. length (split_at tab (report_text r)) = 3 \<and> rp_proto r = ''UDP''"
proof -
  let ?p = "udp_packet 2500000"
  let ?t = "ft_insert new_flow_table (packet_hash ?p) 1000000"
  have "entries ?t (packet_hash ?p) = Some 1000000" by (simp add: ft_insert_def)
  then obtain r where r: "fst (calc_latency flow_table_ops ?p ?t) = Some r" "rp_proto r = ''UDP''"
    using udp_packet_roles by (auto simp: ft.calc_report make_report_def udp_packet_def)
  show ?thesis using report_columns [OF r(1)] r(2) by (intro exI [of _ r]) simp
qed

end
