(* ===== verification/Netkit_Device.thy ===== *)
theory Netkit_Device
  imports Resources "HOL-Library.Sublist"
begin

text \<open>
  The netkit package of \<^verbatim>\<open>examples/netkit-ipv6/netkit\<close>: functional options
  (\<^verbatim>\<open>options.go\<close>), the device pair (\<^verbatim>\<open>netkit.go\<close>) and its link-local addresses
  (\<^verbatim>\<open>ipv6.go\<close>). The netlink library is a parameter: a record of what each call returns.
\<close>

section \<open>Options\<close>

datatype netkit_mode = NETKIT_MODE_L2 | NETKIT_MODE_L3
datatype netkit_scrub = NETKIT_SCRUB_NONE | NETKIT_SCRUB_DEFAULT

record config =
  mode :: netkit_mode
  scrubPrimary :: netkit_scrub
  scrubPeer :: netkit_scrub

type_synonym nk_option = "config \<Rightarrow> config"

definition defaultConfig :: config where
  "defaultConfig = \<lparr>mode = NETKIT_MODE_L3, scrubPrimary = NETKIT_SCRUB_NONE,
     scrubPeer = NETKIT_SCRUB_NONE\<rparr>"

definition WithL2Mode :: nk_option where
  "WithL2Mode c = c\<lparr>mode := NETKIT_MODE_L2\<rparr>"

definition WithL3Mode :: nk_option where
  "WithL3Mode c = c\<lparr>mode := NETKIT_MODE_L3\<rparr>"

definition WithNoScrub :: nk_option where
  "WithNoScrub c = c\<lparr>scrubPrimary := NETKIT_SCRUB_NONE, scrubPeer := NETKIT_SCRUB_NONE\<rparr>"

definition apply_options :: "nk_option list \<Rightarrow> config" where
  "apply_options opts = fold (\<lambda>opt cfg. opt cfg) opts defaultConfig"

section \<open>Links and the netlink library\<close>

datatype errno = ENODEV | Errno string

text \<open>The error values the package builds, by the text of their format string.\<close>

datatype nk_error =
  EmptyName
  | CreateFailed string errno
  | PeerNotFound string errno
  | PrimaryUp errno
  | PeerUp errno
  | DeleteFailed errno
  | RandFailed errno
  | AddAddress errno
  | OnPrimary nk_error
  | OnPeer nk_error

record link =
  link_name :: string
  link_index :: int

record netkit_link = link +
  peer_name :: string
  link_mode :: netkit_mode
  link_scrub :: netkit_scrub
  link_peer_scrub :: netkit_scrub

text \<open>
  \<open>LinkAdd\<close> fills in the index of the new device; \<open>rand_read\<close> fills the buffer it is given.
\<close>

record netlink_env =
  LinkAdd :: "netkit_link \<Rightarrow> errno + int"
  LinkByName :: "string \<Rightarrow> errno + link"
  LinkSetUp :: "string \<Rightarrow> errno option"
  LinkDel :: "string \<Rightarrow> errno option"
  AddrAdd :: "string \<Rightarrow> bytes \<Rightarrow> nat \<Rightarrow> errno option"
  rand_read :: "string \<Rightarrow> errno + (nat \<Rightarrow> u8)"

datatype nk_call = CallLinkByName string | CallLinkSetUp string | CallAddrAdd string bytes nat
  | CallAttach string int | CallLoad | CallMemlock | CallReader

datatype nk_resource = Device string | Objects | AttachedPrimary | AttachedPeer | Reader | SignalCtx
  | EbpfObject | EbpfLink

type_synonym nk_log = "(nk_resource, nk_call) action list"

section \<open>CreatePair\<close>

record pair =
  Primary :: netkit_link
  Peer :: link
  PrimaryIdx :: int
  PeerIdx :: int

text \<open>
  The deferred cleanup deletes the primary on every path on which \<open>cleanupPrimary\<close> is
  still set, that is on every error after \<open>LinkAdd\<close>; the error of \<open>LinkDel\<close> is dropped.
\<close>

definition CreatePair ::
  "netlink_env \<Rightarrow> string \<Rightarrow> nk_option list \<Rightarrow> (nk_error + pair) \<times> nk_log" where
  "CreatePair env name opts =
     (if name = [] then (Inl EmptyName, [])
      else
        let cfg = apply_options opts;
            peerName = name @ ''p'';
            primary = \<lparr>link_name = name, link_index = 0, peer_name = peerName,
              link_mode = mode cfg, link_scrub = scrubPrimary cfg, link_peer_scrub = scrubPeer cfg\<rparr>
        in case LinkAdd env primary of
             Inl err \<Rightarrow> (Inl (CreateFailed name err), [])
           | Inr idx \<Rightarrow>
               let primary = primary\<lparr>link_index := idx\<rparr>;
                   cleanup = [Release (Device name)]
               in after [Acquire (Device name)]
                 (case LinkByName env peerName of
                    Inl err \<Rightarrow> with_defer cleanup
                      (Inl (PeerNotFound peerName err), [Do (CallLinkByName peerName)])
                  | Inr peer \<Rightarrow> after [Do (CallLinkByName peerName)]
                      (case LinkSetUp env (link_name primary) of
                         Some err \<Rightarrow> with_defer cleanup
                           (Inl (PrimaryUp err), [Do (CallLinkSetUp (link_name primary))])
                       | None \<Rightarrow> after [Do (CallLinkSetUp (link_name primary))]
                           (case LinkSetUp env (link_name peer) of
                              Some err \<Rightarrow> with_defer cleanup
                                (Inl (PeerUp err), [Do (CallLinkSetUp (link_name peer))])
                            | None \<Rightarrow>
                                (Inr \<lparr>Primary = primary, Peer = peer, PrimaryIdx = link_index primary,
                                   PeerIdx = link_index peer\<rparr>,
                                 [Do (CallLinkSetUp (link_name peer))])))))"

fun pair_held :: "nk_error + pair \<Rightarrow> nk_resource list" where
  "pair_held (Inl _) = []"
| "pair_held (Inr p) = [Device (link_name (Primary p))]"

interpretation create_pair: resource_program "\<lambda>(env, name, opts). CreatePair env name opts" pair_held
  by unfold_locales
    (auto simp: CreatePair_def Let_def split: sum.splits option.splits)

text \<open>\<open>Delete\<close>: a nil pair, a pair without primary, and a device already gone are no error.\<close>

definition Delete :: "netlink_env \<Rightarrow> pair option \<Rightarrow> nk_error option \<times> nk_log" where
  "Delete env p =
     (case p of
        None \<Rightarrow> (None, [])
      | Some pr \<Rightarrow>
          (case LinkDel env (link_name (Primary pr)) of
             Some err \<Rightarrow>
               if err = ENODEV then (None, [Release (Device (link_name (Primary pr)))])
               else (Some (DeleteFailed err), [Release (Device (link_name (Primary pr)))])
           | None \<Rightarrow> (None, [Release (Device (link_name (Primary pr)))])))"

section \<open>Link-local addresses\<close>

definition generateLinkLocalAddr :: "(errno + (nat \<Rightarrow> u8)) \<Rightarrow> nk_error + bytes" where
  "generateLinkLocalAddr rnd =
     (let addr = replicate 16 0;
          addr = addr[0 := 0xfe];
          addr = addr[1 := 0x80]
      in case rnd of
           Inl err \<Rightarrow> Inl (RandFailed err)
         | Inr g \<Rightarrow> (let iid = map g [0..<8] in Inr (take 8 addr @ iid)))"

definition assignLinkLocal :: "netlink_env \<Rightarrow> string \<Rightarrow> nk_error option \<times> nk_log" where
  "assignLinkLocal env name =
     (case generateLinkLocalAddr (rand_read env name) of
        Inl err \<Rightarrow> (Some err, [])
      | Inr addr \<Rightarrow>
          (case AddrAdd env name addr 64 of
             Some err \<Rightarrow> (Some (AddAddress err), [Do (CallAddrAdd name addr 64)])
           | None \<Rightarrow> (None, [Do (CallAddrAdd name addr 64)])))"

definition ConfigureIPv6LinkLocal :: "netlink_env \<Rightarrow> pair \<Rightarrow> nk_error option \<times> nk_log" where
  "ConfigureIPv6LinkLocal env p =
     (case assignLinkLocal env (link_name (Primary p)) of
        (Some err, log) \<Rightarrow> (Some (OnPrimary err), log)
      | (None, log) \<Rightarrow> after log
          (case assignLinkLocal env (link_name (Peer p)) of
             (Some err, log) \<Rightarrow> (Some (OnPeer err), log)
           | (None, log) \<Rightarrow> (None, log)))"

section \<open>Properties\<close>


text \<open>The last mode option wins, giving no option is the same as asking for layer 3, and asking
  for no scrubbing changes nothing, since it is already the default.\<close>

lemma options_last_mode_wins:
  "mode (apply_options (opts @ [WithL2Mode])) = NETKIT_MODE_L2 \<and>
   mode (apply_options (opts @ [WithL3Mode])) = NETKIT_MODE_L3 \<and>
   apply_options [] = apply_options [WithL3Mode] \<and>
   apply_options [] = apply_options [WithNoScrub] \<and>
   mode (apply_options (opts @ [WithNoScrub])) = mode (apply_options opts)"
  by (simp add: apply_options_def WithL2Mode_def WithL3Mode_def WithNoScrub_def defaultConfig_def)

text \<open>Delete attempts one removal, of the primary, and reports an error only for a failure that
  is not the device being gone already; without a pair it does nothing.\<close>

lemma delete_idempotent:
  "fst (Delete env (Some p)) =
     (case LinkDel env (link_name (Primary p)) of
        Some err \<Rightarrow> if err = ENODEV then None else Some (DeleteFailed err)
      | None \<Rightarrow> None) \<and>
   released (snd (Delete env (Some p))) = [Device (link_name (Primary p))] \<and>
   Delete env None = (None, [])"
  by (simp add: Delete_def split: option.split)

definition link_local_ok :: "netlink_env \<Rightarrow> string \<times> bytes \<Rightarrow> bool" where
  "link_local_ok env x \<longleftrightarrow> length (snd x) = 16 \<and> take 8 (snd x) = [0xfe, 0x80, 0, 0, 0, 0, 0, 0] \<and>
     (\<exists>g. rand_read env (fst x) = Inr g \<and> drop 8 (snd x) = map g [0..<8])"

lemma assign_link_local_cases:
  obtains err where "assignLinkLocal env nm = (Some err, [])"
  | res a where "assignLinkLocal env nm = (res, [Do (CallAddrAdd nm a 64)])" and "link_local_ok env (nm, a)"
proof (cases "rand_read env nm")
  case (Inl err)
  then show ?thesis using that(1) by (simp add: assignLinkLocal_def generateLinkLocalAddr_def)
next
  case (Inr g)
  define a where "a = [0xfe, 0x80, 0, 0, 0, 0, 0, 0] @ map g [0..<8]"
  have "generateLinkLocalAddr (rand_read env nm) = Inr a"
    using Inr by (simp add: generateLinkLocalAddr_def a_def eval_nat_numeral)
  moreover have "link_local_ok env (nm, a)" by (simp add: link_local_ok_def a_def Inr)
  ultimately show ?thesis
    using that(2) by (cases "AddrAdd env nm a 64") (simp_all add: assignLinkLocal_def)
qed

text \<open>Every address ConfigureIPv6LinkLocal assigns is 16 bytes long, lies in fe80::/64, carries
  a 64-bit mask and ends in the random identifier read for it; the primary comes first and the
  peer gets one only after the primary. Without an error both have got one.\<close>

lemma link_local_assignments:
  "\<exists>assigned. snd (ConfigureIPv6LinkLocal env p) = map (\<lambda>(nm, a). Do (CallAddrAdd nm a 64)) assigned \<and>
     prefix (map fst assigned) [link_name (Primary p), link_name (Peer p)] \<and>
     list_all (link_local_ok env) assigned \<and>
     (case fst (ConfigureIPv6LinkLocal env p) of
        None \<Rightarrow> length assigned = 2 | Some err \<Rightarrow> length assigned \<le> 2)"
proof (cases rule: assign_link_local_cases [of env "link_name (Primary p)"])
  case (1 err)
  then show ?thesis by (intro exI [of _ "[]"]) (simp add: ConfigureIPv6LinkLocal_def)
next
  case primary: (2 res a)
  show ?thesis
  proof (cases res)
    case (Some err)
    then show ?thesis using primary
      by (intro exI [of _ "[(link_name (Primary p), a)]"]) (simp add: ConfigureIPv6LinkLocal_def)
  next
    case None
    show ?thesis
    proof (cases rule: assign_link_local_cases [of env "link_name (Peer p)"])
      case (1 err)
      then show ?thesis using primary None
        by (intro exI [of _ "[(link_name (Primary p), a)]"]) (simp add: ConfigureIPv6LinkLocal_def)
    next
      case (2 res' b)
      then show ?thesis using primary None
        by (intro exI [of _ "[(link_name (Primary p), a), (link_name (Peer p), b)]"])
          (auto simp: ConfigureIPv6LinkLocal_def split: option.split)
    qed
  qed
qed

end
