(* ===== verification/Netkit_Bpf.thy ===== *)
theory Netkit_Bpf
  imports Flat_Correct
begin

text \<open>
  The netkit classifier of \<^verbatim>\<open>examples/netkit-ipv6/bytecode/netkit_ipv6.c\<close>:
  \<open>process_ipv6\<close> reserves a ring buffer record, fills the packed \<^verbatim>\<open>struct ipv6_event\<close> in
  place and submits it; the two attach points differ in the direction byte only.
\<close>

section \<open>The event\<close>

record ipv6_event =
  src_addr :: bytes
  dst_addr :: bytes
  next_header :: u8
  payload_len :: u16
  hop_limit :: u8
  direction :: u8

definition ipv6_event_ok :: "ipv6_event \<Rightarrow> bool" where
  "ipv6_event_ok e \<longleftrightarrow> length (src_addr e) = 16 \<and> length (dst_addr e) = 16"

definition sizeof_ipv6_event :: nat where "sizeof_ipv6_event = 37"

text \<open>The packed memory image on a little-endian target.\<close>

definition encode_ipv6_event :: "ipv6_event \<Rightarrow> bytes" where
  "encode_ipv6_event e =
     src_addr e @ dst_addr e @ [next_header e] @ le_bytes 2 (payload_len e) @
     [hop_limit e, direction e]"

lemma length_encode_ipv6_event:
  "ipv6_event_ok e \<Longrightarrow> length (encode_ipv6_event e) = sizeof_ipv6_event"
  by (simp add: ipv6_event_ok_def encode_ipv6_event_def sizeof_ipv6_event_def)

section \<open>The program\<close>

text \<open>
  The helpers are a parameter. A successful reservation hands out a record of the
  requested size whose initial bytes are arbitrary (\<open>nat \<Rightarrow> u8\<close>, read at the indices below
  the size); \<open>core_read\<close> is the probe read behind \<^verbatim>\<open>BPF_CORE_READ\<close>.
\<close>

record 'k netkit_helpers =
  bpf_ringbuf_reserve :: "nat \<Rightarrow> u64 \<Rightarrow> 'k \<Rightarrow> (nat \<Rightarrow> u8) option \<times> 'k"
  bpf_ringbuf_submit :: "bytes \<Rightarrow> u64 \<Rightarrow> 'k \<Rightarrow> 'k"
  bpf_core_read :: "skb \<Rightarrow> u64 \<Rightarrow> nat \<Rightarrow> nat \<Rightarrow> u8"

definition core_read :: "'k netkit_helpers \<Rightarrow> skb \<Rightarrow> u64 \<Rightarrow> nat \<Rightarrow> bytes" where
  "core_read H s a n = map (bpf_core_read H s a n) [0..<n]"

text \<open>The documented behaviour of the probe read: inside the packet it returns its bytes.\<close>

definition core_read_ok :: "'k netkit_helpers \<Rightarrow> bool" where
  "core_read_ok H \<longleftrightarrow> (\<forall>s a n bs. load_pkt s a n = Some bs \<longrightarrow> core_read H s a n = bs)"

text \<open>Filling the reserved record, field by field in source order.\<close>

definition fill_event :: "'k netkit_helpers \<Rightarrow> skb \<Rightarrow> u64 \<Rightarrow> u8 \<Rightarrow> bytes \<Rightarrow> bytes option" where
  "fill_event H skb ip6 dir event =
     do { saddr \<leftarrow> load_pkt skb (ip6 + 8) 16;
          event \<leftarrow> store 0 saddr event;
          daddr \<leftarrow> load_pkt skb (ip6 + 24) 16;
          event \<leftarrow> store 16 daddr event;
          event \<leftarrow> store 32 (core_read H skb (ip6 + 6) 1) event;
          event \<leftarrow> store 33 (le_bytes 2 (bpf_ntohs (le_word (core_read H skb (ip6 + 4) 2)))) event;
          event \<leftarrow> store 35 (core_read H skb (ip6 + 7) 1) event;
          store 36 [dir] event }"

definition process_ipv6 :: "'k netkit_helpers \<Rightarrow> u8 \<Rightarrow> skb \<Rightarrow> 'k \<Rightarrow> (u32 \<times> 'k) option" where
  "process_ipv6 H dir skb k =
     (let eth = head skb in
      if eth + of_nat sizeof_ethhdr > tail skb then Some (NETKIT_PASS, k)
      else do {
        h_proto \<leftarrow> load_pkt skb (eth + 12) 2;
        if le_word h_proto \<noteq> bpf_htons ETH_P_IPV6 then Some (NETKIT_PASS, k)
        else
          let ip6 = eth + of_nat sizeof_ethhdr in
          if ip6 + of_nat sizeof_ipv6hdr > tail skb then Some (NETKIT_PASS, k)
          else case bpf_ringbuf_reserve H sizeof_ipv6_event 0 k of
              (None, k) \<Rightarrow> Some (NETKIT_PASS, k)
            | (Some g, k) \<Rightarrow>
                do { event \<leftarrow> fill_event H skb ip6 dir (map g [0..<sizeof_ipv6_event]);
                     Some (NETKIT_PASS, bpf_ringbuf_submit H event 0 k) } })"

definition netkit_primary :: "'k netkit_helpers \<Rightarrow> skb \<Rightarrow> 'k \<Rightarrow> (u32 \<times> 'k) option" where
  "netkit_primary H skb k = process_ipv6 H 0 skb k"

definition netkit_peer :: "'k netkit_helpers \<Rightarrow> skb \<Rightarrow> 'k \<Rightarrow> (u32 \<times> 'k) option" where
  "netkit_peer H skb k = process_ipv6 H 1 skb k"

section \<open>Specification over the frame\<close>

definition ipv6_spec :: "u8 \<Rightarrow> bytes \<Rightarrow> ipv6_event option" where
  "ipv6_spec dir f =
     (if length f < 54 \<or> be_word (slice 12 2 f) \<noteq> ETH_P_IPV6 then None
      else Some \<lparr>src_addr = slice 22 16 f, dst_addr = slice 38 16 f, next_header = f ! 20,
                 payload_len = be_word (slice 18 2 f), hop_limit = f ! 21, direction = dir\<rparr>)"

definition process_effect :: "'k netkit_helpers \<Rightarrow> bytes \<Rightarrow> 'k \<Rightarrow> 'k" where
  "process_effect H ev k =
     (case bpf_ringbuf_reserve H sizeof_ipv6_event 0 k of
        (None, k) \<Rightarrow> k | (Some _, k) \<Rightarrow> bpf_ringbuf_submit H ev 0 k)"

lemma length_core_read [simp]: "length (core_read H s a n) = n"
  by (simp add: core_read_def)

text \<open>
  Overwriting a whole record field by field forgets what it held: six adjacent stores
  from offset 0 to the end leave the concatenation of the stored fields.
\<close>

lemma store_append:
  "off = length pre \<Longrightarrow> length v \<le> length rest \<Longrightarrow>
     store off v (pre @ rest) = Some ((pre @ v) @ drop (length v) rest)"
  by (simp add: store_def)

lemma store_first:
  "length v \<le> length rest \<Longrightarrow> store 0 v rest = Some (v @ drop (length v) rest)"
  by (simp add: store_def)

lemma fill_event_stores:
  assumes "length event = 37" "length sa = 16" "length da = 16" "length nh = 1" "length pl = 2"
    and "length hl = 1"
  shows "do { event \<leftarrow> store 0 sa event; event \<leftarrow> store 16 da event; event \<leftarrow> store 32 nh event;
              event \<leftarrow> store 33 pl event; event \<leftarrow> store 35 hl event; store 36 [dir] event } =
         Some (sa @ da @ nh @ pl @ hl @ [dir])"
  using assms by (simp add: store_def)

lemma fill_event_total:
  assumes "54 \<le> length (frame s)" and "length event = 37"
  shows "fill_event H s (head s + 14) dir event =
    Some (slice 22 16 (frame s) @ slice 38 16 (frame s) @ core_read H s (head s + 20) 1 @
      le_bytes 2 (bpf_ntohs (le_word (core_read H s (head s + 18) 2))) @
      core_read H s (head s + 21) 1 @ [dir])"
  using assms fill_event_stores [of event "slice 22 16 (frame s)" "slice 38 16 (frame s)"
      "core_read H s (head s + 20) 1" "le_bytes 2 (bpf_ntohs (le_word (core_read H s (head s + 18) 2)))"
      "core_read H s (head s + 21) 1" dir]
  by (simp add: fill_event_def pkt_access add.assoc)

text \<open>What one invocation does, with no assumption on the probe read.\<close>

definition ipv6_raw :: "'k netkit_helpers \<Rightarrow> u8 \<Rightarrow> skb \<Rightarrow> bytes" where
  "ipv6_raw H dir s = slice 22 16 (frame s) @ slice 38 16 (frame s) @ core_read H s (head s + 20) 1 @
      le_bytes 2 (bpf_ntohs (le_word (core_read H s (head s + 18) 2))) @
      core_read H s (head s + 21) 1 @ [dir]"

lemma process_ipv6_raw:
  "process_ipv6 H dir s k = Some (NETKIT_PASS,
     if length (frame s) < 54 \<or> be_word (slice 12 2 (frame s)) \<noteq> ETH_P_IPV6 then k
     else process_effect H (ipv6_raw H dir s) k)"
proof (cases "length (frame s) < 14")
  case True
  then show ?thesis by (simp add: process_ipv6_def Let_def pkt_access sizeof_defs)
next
  case False
  then have "(le_word (slice 12 2 (frame s)) = bpf_htons ETH_P_IPV6) =
      (be_word (slice 12 2 (frame s)) = ETH_P_IPV6)"
    by (simp add: eq_bpf_htons_iff bpf_ntohs_le_word)
  with False show ?thesis
    by (simp add: process_ipv6_def Let_def pkt_access sizeof_defs add.assoc sizeof_ipv6_event_def
        process_effect_def fill_event_total ipv6_raw_def split: prod.splits option.splits)
qed

lemma ipv6_raw_encode:
  assumes "core_read_ok H" and "ipv6_spec dir (frame s) = Some e"
  shows "ipv6_raw H dir s = encode_ipv6_event e"
proof -
  have len: "54 \<le> length (frame s)" using assms(2) by (simp add: ipv6_spec_def split: if_splits)
  have rd: "core_read H s a n = bs" if "load_pkt s a n = Some bs" for a n bs
    using assms(1) that by (simp add: core_read_ok_def)
  have "core_read H s (head s + 20) 1 = [frame s ! 20]" "core_read H s (head s + 21) 1 = [frame s ! 21]"
    "core_read H s (head s + 18) 2 = slice 18 2 (frame s)"
    using len by (auto intro!: rd simp: pkt_access slice_1 [unfolded One_nat_def])
  then show ?thesis
    using assms(2) len
    by (auto simp: ipv6_raw_def ipv6_spec_def encode_ipv6_event_def bpf_ntohs_le_word split: if_splits)
qed

interpretation netkit_hook: bpf_hook "process_ipv6 H dir" NETKIT_PASS for H :: "'k netkit_helpers" and dir
  by unfold_locales (simp add: process_ipv6_raw)

lemma process_ipv6_eq:
  assumes "core_read_ok H"
  shows "process_ipv6 H dir s k = Some (NETKIT_PASS,
    case ipv6_spec dir (frame s) of None \<Rightarrow> k
    | Some e \<Rightarrow> process_effect H (encode_ipv6_event e) k)"
  using ipv6_raw_encode [OF assms, of dir s]
  by (simp add: process_ipv6_raw ipv6_spec_def)

section \<open>Properties\<close>

text \<open>C12: given a probe read that returns the packet's bytes, each netkit hook passes every packet
  and submits the record of the specification, field by field read off the frame, exactly for the
  IPv6 frames of at least 54 bytes for which a reservation succeeds.\<close>

theorem process_ipv6_refines_spec:
  assumes "core_read_ok H"
  shows "process_ipv6 H dir s k = Some (NETKIT_PASS,
    case ipv6_spec dir (frame s) of
      None \<Rightarrow> k
    | Some e \<Rightarrow>
        (case bpf_ringbuf_reserve H sizeof_ipv6_event 0 k of
           (None, k') \<Rightarrow> k'
         | (Some g, k') \<Rightarrow> bpf_ringbuf_submit H (encode_ipv6_event e) 0 k'))"
  using process_ipv6_eq [OF assms, of dir s k]
  by (auto simp: process_effect_def split: option.splits prod.splits)

text \<open>A kernel whose ring is a list of the submitted records, and whose probe read returns the
  bytes of memory.\<close>

definition list_helpers :: "(nat \<Rightarrow> u8) \<Rightarrow> bytes list netkit_helpers" where
  "list_helpers garbage =
     \<lparr>bpf_ringbuf_reserve = (\<lambda>n fl k. (Some garbage, k)),
      bpf_ringbuf_submit = (\<lambda>bs fl k. k @ [bs]),
      bpf_core_read = (\<lambda>s a n i. mem s (a + of_nat i))\<rparr>"

lemma core_read_list_helpers: "core_read_ok (list_helpers g)"
  by (auto simp: core_read_ok_def core_read_def list_helpers_def load_pkt_def split: if_splits)

lemma process_ipv6_list_helpers:
  "process_ipv6 (list_helpers g) dir s k = Some (NETKIT_PASS,
     k @ (case ipv6_spec dir (frame s) of None \<Rightarrow> [] | Some e \<Rightarrow> [encode_ipv6_event e]))"
  using process_ipv6_eq [OF core_read_list_helpers, of g dir s k]
  by (simp add: process_effect_def list_helpers_def split: option.splits)

definition icmp6_frame :: bytes where
  "icmp6_frame = replicate 12 0 @ [0x86, 0xDD] @ [0x60, 0, 0, 0, 0, 8, 58, 255] @
     ([0xfe, 0x80] @ replicate 13 0 @ [1]) @ ([0xff, 0x02] @ replicate 13 0 @ [2])"

lemma process_ipv6_refines_spec_witness:
  "process_ipv6 (list_helpers (\<lambda>_. 0xAA)) 1 (skb_at icmp6_frame) [] =
    Some (NETKIT_PASS, [slice 22 32 icmp6_frame @ [58, 8, 0, 255, 1]])"
proof -
  have "map_option encode_ipv6_event (ipv6_spec 1 (frame (skb_at icmp6_frame))) =
      Some (slice 22 32 icmp6_frame @ [58, 8, 0, 255, 1])"
    by code_simp
  then show ?thesis
    using process_ipv6_refines_spec [OF core_read_list_helpers, of "\<lambda>_. 0xAA" 1 "skb_at icmp6_frame" "[]"]
    by (auto simp: list_helpers_def)
qed

text \<open>No byte the reservation left uninitialised reaches user space: replacing what the
  reserved record held by anything else does not change what the hook does.\<close>

lemma no_uninitialised_bytes:
  "process_ipv6 (H\<lparr>bpf_ringbuf_reserve := \<lambda>n fl k.
      (case bpf_ringbuf_reserve H n fl k of (None, k') \<Rightarrow> (None, k') | (Some _, k') \<Rightarrow> (Some g, k'))\<rparr>) dir s k =
   process_ipv6 H dir s k"
  by (simp add: process_ipv6_raw process_effect_def ipv6_raw_def core_read_def
      split: prod.splits option.splits)

text \<open>Both hooks pass all traffic, whatever the frames, the state of the ring buffer and the
  behaviour of the helpers.\<close>

lemma netkit_hooks_pass_all_traffic:
  "(\<exists>k'. run_hook (netkit_primary H) skbs k = Some (replicate (length skbs) NETKIT_PASS, k')) \<and>
   (\<exists>k'. run_hook (netkit_peer H) skbs k = Some (replicate (length skbs) NETKIT_PASS, k'))"
proof -
  have "netkit_primary H = process_ipv6 H 0" "netkit_peer H = process_ipv6 H 1"
    by (simp_all add: fun_eq_iff netkit_primary_def netkit_peer_def)
  then show ?thesis by (simp add: netkit_hook.run_eq)
qed

end
