(* ===== verification/Netkit_Event.thy ===== *)
theory Netkit_Event
  imports Netkit_Bpf Go_Runtime
begin

text \<open>
  The reader of the netkit events, \<^verbatim>\<open>printEvent\<close> and the polling goroutine of
  \<^verbatim>\<open>examples/netkit-ipv6/main.go\<close>, and the end-to-end path from a frame on the wire to the
  line printed for it. A printed line is here the tuple of values handed to \<^verbatim>\<open>fmt.Printf\<close>;
  its text is in \<open>Netkit_Text\<close>.
\<close>

record ipv6_line =
  line_dir :: string
  line_src :: bytes
  line_dst :: bytes
  line_next :: u8
  line_len :: u16
  line_ttl :: u8

text \<open>\<open>None\<close> is a panic, \<open>Some None\<close> a record too short to print.\<close>

definition print_event :: "go_slice \<Rightarrow> ipv6_line option option" where
  "print_event sample =
     (if len sample < 37 then Some None
      else do {
        s \<leftarrow> go_subslice sample 0 16;
        d \<leftarrow> go_subslice sample 16 32;
        nextHeader \<leftarrow> go_index sample 32;
        p \<leftarrow> go_subslice sample 33 35;
        payloadLen \<leftarrow> uint16_le p;
        hopLimit \<leftarrow> go_index sample 35;
        dir \<leftarrow> go_index sample 36;
        let dirStr = (if dir = 1 then ''peer'' else ''primary'');
        Some (Some \<lparr>line_dir = dirStr, line_src = contents s, line_dst = contents d,
          line_next = nextHeader, line_len = payloadLen, line_ttl = hopLimit\<rparr>) })"

text \<open>The polling goroutine: it prints every record until a read fails.\<close>

fun poll_ringbuf :: "('err + go_slice) list \<Rightarrow> ipv6_line list option" where
  "poll_ringbuf [] = Some []"
| "poll_ringbuf (Inl err # rs) = Some []"
| "poll_ringbuf (Inr sample # rs) =
     do { l \<leftarrow> print_event sample;
          ls \<leftarrow> poll_ringbuf rs;
          Some (case l of None \<Rightarrow> ls | Some x \<Rightarrow> x # ls) }"

definition event_line :: "ipv6_event \<Rightarrow> ipv6_line" where
  "event_line e = \<lparr>line_dir = (if direction e = 1 then ''peer'' else ''primary''),
     line_src = src_addr e, line_dst = dst_addr e, line_next = next_header e,
     line_len = payload_len e, line_ttl = hop_limit e\<rparr>"

lemma print_event_total: "go_slice_ok s \<Longrightarrow> print_event s \<noteq> None"
  by (simp add: print_event_def go_slice_defs go_slice_ok_def)

lemma print_event_encode:
  assumes "ipv6_event_ok e"
  shows "print_event (slice_of (encode_ipv6_event e)) = Some (Some (event_line e))"
  using assms
  by (simp add: print_event_def go_slice_defs ipv6_event_ok_def encode_ipv6_event_def event_line_def
      contents_def nth_append le_word_round)

text \<open>A line shows all of an event whose direction byte is one of the two the programs write.\<close>

definition ipv6_event_wf :: "ipv6_event \<Rightarrow> bool" where
  "ipv6_event_wf e \<longleftrightarrow> ipv6_event_ok e \<and> direction e \<in> {0, 1}"

interpretation ipv6_wire: faithful_wire_format ipv6_event_wf encode_ipv6_event sizeof_ipv6_event
  "\<lambda>bs. Option.bind (print_event (slice_of bs)) id" event_line
  by unfold_locales
    (auto simp: ipv6_event_wf_def length_encode_ipv6_event print_event_encode event_line_def
      split: if_splits)

lemma ipv6_spec_wf: "ipv6_spec dir f = Some e \<Longrightarrow> dir \<in> {0, 1} \<Longrightarrow> ipv6_event_wf e"
  by (auto simp: ipv6_spec_def ipv6_event_wf_def ipv6_event_ok_def split: if_splits)

lemma poll_ringbuf_stream:
  "list_all ipv6_event_ok es \<Longrightarrow>
     poll_ringbuf (map (Inr \<circ> slice_of \<circ> encode_ipv6_event) es) = Some (map event_line es)"
  by (induction es) (simp_all add: print_event_encode)

section \<open>From the wire to the terminal\<close>

text \<open>Frames seen by the primary (False) and the peer (True) end, in the order they are seen.\<close>

fun netkit_capture :: "(nat \<Rightarrow> u8) \<Rightarrow> (bool \<times> skb) list \<Rightarrow> bytes list \<Rightarrow> bytes list option" where
  "netkit_capture g [] ring = Some ring"
| "netkit_capture g ((peer, s) # fs) ring =
     do { (v, ring) \<leftarrow> (if peer then netkit_peer (list_helpers g) s ring
                        else netkit_primary (list_helpers g) s ring);
          netkit_capture g fs ring }"

definition captured :: "(bool \<times> skb) list \<Rightarrow> ipv6_event list" where
  "captured fs = List.map_filter (\<lambda>(peer, s). ipv6_spec (of_bool peer) (frame s)) fs"

lemma netkit_capture_eq:
  "netkit_capture g fs ring = Some (ring @ map encode_ipv6_event (captured fs))"
proof (induction fs arbitrary: ring)
  case Nil
  then show ?case by (simp add: captured_def map_filter_simps)
next
  case (Cons x fs)
  show ?case
    using Cons by (cases x; cases "fst x")
      (auto simp: netkit_peer_def netkit_primary_def process_ipv6_list_helpers captured_def
        map_filter_simps split: option.split)
qed

lemma captured_wf: "list_all ipv6_event_wf (captured fs)"
  by (induction fs)
    (auto simp: captured_def map_filter_simps split: option.split intro: ipv6_spec_wf)

lemma captured_ok: "list_all ipv6_event_ok (captured fs)"
  using captured_wf [of fs] by (auto simp: list_all_iff ipv6_event_wf_def)

section \<open>Properties\<close>

text \<open>C17: for every sequence of frames on the two ends of the pair, and whatever the ring buffer
  memory held before, the program prints one line per IPv6 frame of at least 54 bytes, in order,
  with the addresses, next header, payload length, hop limit and end of that frame.\<close>

theorem netkit_prints_the_traffic:
  "do { ring \<leftarrow> netkit_capture g fs [];
        poll_ringbuf (map (Inr \<circ> slice_of) ring) } =
   Some (List.map_filter (\<lambda>(peer, s).
     let f = frame s in
     if 54 \<le> length f \<and> be_word (slice 12 2 f) = ETH_P_IPV6
     then Some \<lparr>line_dir = (if peer then ''peer'' else ''primary''), line_src = slice 22 16 f,
       line_dst = slice 38 16 f, line_next = f ! 20, line_len = be_word (slice 18 2 f),
       line_ttl = f ! 21\<rparr>
     else None) fs)"
proof -
  have "map event_line (captured fs) = List.map_filter (\<lambda>(peer, s).
     let f = frame s in
     if 54 \<le> length f \<and> be_word (slice 12 2 f) = ETH_P_IPV6
     then Some \<lparr>line_dir = (if peer then ''peer'' else ''primary''), line_src = slice 22 16 f,
       line_dst = slice 38 16 f, line_next = f ! 20, line_len = be_word (slice 18 2 f),
       line_ttl = f ! 21\<rparr>
     else None) fs"
    by (induction fs) (auto simp: captured_def map_filter_simps ipv6_spec_def event_line_def Let_def)
  then show ?thesis
    using poll_ringbuf_stream [OF captured_ok [of fs]] by (simp add: netkit_capture_eq comp_assoc)
qed

text \<open>Printing a record never panics, whatever its bytes: a record shorter than 37 bytes is
  skipped and every other one is printed.\<close>

lemma print_event_never_panics:
  assumes "go_slice_ok sample"
  shows "\<exists>line. print_event sample = Some line \<and> (line = None \<longleftrightarrow> len sample < sizeof_ipv6_event)"
  using assms by (auto simp: print_event_def go_slice_defs go_slice_ok_def sizeof_ipv6_event_def)

text \<open>The 37-byte packed record loses nothing: two well-formed events have the same bytes only
  if they are equal, and printing shows each of their fields.\<close>

lemma ipv6_event_roundtrip:
  assumes "ipv6_event_wf e"
  shows "print_event (slice_of (encode_ipv6_event e)) = Some (Some (event_line e)) \<and>
    {e'. ipv6_event_wf e' \<and> encode_ipv6_event e' = encode_ipv6_event e} = {e}"
  using assms ipv6_wire.enc_inj [of _ e] print_event_encode [of e]
  by (auto simp: ipv6_event_wf_def)

end
