(* ===== verification/Netkit_Main.thy ===== *)
theory Netkit_Main
  imports Netkit_Device Netkit_Event
begin

text \<open>
  \<^verbatim>\<open>run\<close> of \<^verbatim>\<open>examples/netkit-ipv6/main.go\<close>: seven resources acquired one after the other,
  each released by a deferred call on every later path out of the function. The ebpf
  library is a parameter; the log records what is acquired, released and called.
\<close>

datatype run_error =
  RemovingMemlock errno
  | CreatingPair nk_error
  | ConfiguringIPv6 nk_error
  | LoadingObjects errno
  | AttachingPrimary errno
  | AttachingPeer errno
  | OpeningRingbuf errno

record main_env =
  netlink :: netlink_env
  RemoveMemlock :: "errno option"
  LoadNetkitObjects :: "errno option"
  AttachNetkit :: "string \<Rightarrow> int \<Rightarrow> errno option"
  NewReader :: "errno option"

text \<open>From the ring buffer reader to the signal that ends the program.\<close>

definition run_monitor :: "main_env \<Rightarrow> run_error option \<times> nk_log" where
  "run_monitor env =
     (case NewReader env of
        Some err \<Rightarrow> (Some (OpeningRingbuf err), [Do CallReader])
      | None \<Rightarrow> after [Do CallReader, Acquire Reader] (with_defer [Release Reader]
          (after [Acquire SignalCtx] (with_defer [Release SignalCtx] (None, [])))))"

definition run_attach :: "main_env \<Rightarrow> pair \<Rightarrow> run_error option \<times> nk_log" where
  "run_attach env p =
     (case AttachNetkit env ''primary'' (PrimaryIdx p) of
        Some err \<Rightarrow> (Some (AttachingPrimary err), [Do (CallAttach ''primary'' (PrimaryIdx p))])
      | None \<Rightarrow> after [Do (CallAttach ''primary'' (PrimaryIdx p)), Acquire AttachedPrimary]
          (with_defer [Release AttachedPrimary]
            (case AttachNetkit env ''peer'' (PrimaryIdx p) of
               Some err \<Rightarrow> (Some (AttachingPeer err), [Do (CallAttach ''peer'' (PrimaryIdx p))])
             | None \<Rightarrow> after [Do (CallAttach ''peer'' (PrimaryIdx p)), Acquire AttachedPeer]
                 (with_defer [Release AttachedPeer] (run_monitor env)))))"

definition run_pair :: "main_env \<Rightarrow> pair \<Rightarrow> run_error option \<times> nk_log" where
  "run_pair env p =
     (case ConfigureIPv6LinkLocal (netlink env) p of
        (Some err, log) \<Rightarrow> (Some (ConfiguringIPv6 err), log)
      | (None, log) \<Rightarrow> after log
          (case LoadNetkitObjects env of
             Some err \<Rightarrow> (Some (LoadingObjects err), [Do CallLoad])
           | None \<Rightarrow> after [Do CallLoad, Acquire Objects]
               (with_defer [Release Objects] (run_attach env p))))"

definition run :: "main_env \<Rightarrow> string \<Rightarrow> run_error option \<times> nk_log" where
  "run env deviceName =
     (case RemoveMemlock env of
        Some err \<Rightarrow> (Some (RemovingMemlock err), [Do CallMemlock])
      | None \<Rightarrow> after [Do CallMemlock]
          (case CreatePair (netlink env) deviceName [WithL3Mode] of
             (Inl err, log) \<Rightarrow> (Some (CreatingPair err), log)
           | (Inr p, log) \<Rightarrow> after log
               (with_defer (snd (Delete (netlink env) (Some p))) (run_pair env p))))"

section \<open>Every path is well nested\<close>

lemma nest_monitor: "nest st (snd (run_monitor env)) = Some st"
  by (simp add: run_monitor_def split: option.split)

lemma nest_attach: "nest st (snd (run_attach env p)) = Some st"
  by (simp add: run_attach_def nest_append nest_monitor split: option.split)

lemma nest_assign: "nest st (snd (assignLinkLocal env name)) = Some st"
  by (simp add: assignLinkLocal_def split: sum.split option.split)

lemma nest_configure: "nest st (snd (ConfigureIPv6LinkLocal env p)) = Some st"
  using nest_assign [of st env "link_name (Primary p)"] nest_assign [of st env "link_name (Peer p)"]
  by (auto simp: ConfigureIPv6LinkLocal_def nest_append split: prod.split option.split)

lemma nest_pair: "nest st (snd (run_pair env p)) = Some st"
  using nest_configure [of st "netlink env" p]
  by (auto simp: run_pair_def nest_append nest_attach split: prod.split option.split)

lemma nest_delete: "nest (Device (link_name (Primary p)) # st) (snd (Delete env (Some p))) = Some st"
  by (simp add: Delete_def split: option.split)

lemma nest_run: "nest [] (snd (run env name)) = Some []"
proof (cases "CreatePair (netlink env) name [WithL3Mode]")
  case (Pair res log)
  then have "nest [] log = Some (pair_held res)"
    using create_pair.nested [of "(netlink env, name, [WithL3Mode])"] by simp
  then show ?thesis
    using Pair
    by (auto simp: run_def nest_append nest_pair nest_delete split: option.split sum.split)
qed

interpretation netkit_run: closed_resource_program "\<lambda>(env, name). run env name"
  "\<lambda>_. [] :: nk_resource list"
  by unfold_locales (auto simp: nest_run)

section \<open>Properties\<close>


lemma configure_log:
  "acquired (snd (ConfigureIPv6LinkLocal env p)) = []" "released (snd (ConfigureIPv6LinkLocal env p)) = []"
proof -
  have "acquired (snd (assignLinkLocal env nm)) = [] \<and> released (snd (assignLinkLocal env nm)) = []" for nm
    by (cases rule: assign_link_local_cases [of env nm]) simp_all
  from this [of "link_name (Primary p)"] this [of "link_name (Peer p)"]
  show "acquired (snd (ConfigureIPv6LinkLocal env p)) = []" "released (snd (ConfigureIPv6LinkLocal env p)) = []"
    by (auto simp: ConfigureIPv6LinkLocal_def split: prod.split option.split)
qed

lemma run_pair_ok:
  assumes "fst (run_pair env p) = None"
  shows "acquired (snd (run_pair env p)) = [Objects, AttachedPrimary, AttachedPeer, Reader, SignalCtx]"
    and "released (snd (run_pair env p)) = [SignalCtx, Reader, AttachedPeer, AttachedPrimary, Objects]"
  using assms configure_log [of "netlink env" p]
  by (auto simp: run_pair_def run_attach_def run_monitor_def split: prod.splits option.splits)

lemma create_pair_log:
  assumes "CreatePair env name opts = (Inr p, log)"
  shows "acquired log = [Device name]" and "released log = []" and "link_name (Primary p) = name"
  using assms
  by (auto simp: CreatePair_def Let_def after_def with_defer_def split: if_splits sum.splits option.splits)

text \<open>A run that ends without an error has held the device, the objects, both attachments, the
  reader and the signal context, acquired in this order and released in the opposite one.\<close>

lemma run_success_order:
  assumes "fst (run env name) = None"
  shows "acquired (snd (run env name)) =
      [Device name, Objects, AttachedPrimary, AttachedPeer, Reader, SignalCtx] \<and>
    released (snd (run env name)) = rev (acquired (snd (run env name)))"
proof -
  obtain p log where p: "CreatePair (netlink env) name [WithL3Mode] = (Inr p, log)"
    and ok: "RemoveMemlock env = None" "fst (run_pair env p) = None"
    using assms by (auto simp: run_def split: option.splits prod.splits sum.splits)
  have "acquired (snd (Delete (netlink env) (Some p))) = []"
    "released (snd (Delete (netlink env) (Some p))) = [Device name]"
    using create_pair_log [OF p] by (simp_all add: Delete_def split: option.split)
  then show ?thesis
    using p ok create_pair_log [OF p] run_pair_ok [OF ok(2)] by (simp add: run_def)
qed

definition working_env :: main_env where
  "working_env = \<lparr>
     netlink = \<lparr>LinkAdd = (\<lambda>_. Inr 7), LinkByName = (\<lambda>nm. Inr \<lparr>link_name = nm, link_index = 8\<rparr>),
       LinkSetUp = (\<lambda>_. None), LinkDel = (\<lambda>_. None), AddrAdd = (\<lambda>_ _ _. None),
       rand_read = (\<lambda>_. Inr (\<lambda>_. 3))\<rparr>,
     RemoveMemlock = None, LoadNetkitObjects = None, AttachNetkit = (\<lambda>_ _. None), NewReader = None\<rparr>"

lemma working_run: "fst (run working_env ''nk0'') = None"
  by (simp add: run_def working_env_def CreatePair_def Let_def run_pair_def ConfigureIPv6LinkLocal_def
      assignLinkLocal_def generateLinkLocalAddr_def run_attach_def run_monitor_def after_def with_defer_def)

lemma run_success_order_witness:
  "released (snd (run working_env ''nk0'')) =
     [SignalCtx, Reader, AttachedPeer, AttachedPrimary, Objects, Device ''nk0'']"
  using run_success_order [OF working_run] by simp

end
