(* ===== verification/Netkit_System.thy ===== *)
theory Netkit_System
  imports Netkit_Main Steps
begin

text \<open>
  The netkit program while it monitors: the two hooks filling the ring buffer on several
  processors, the polling goroutine that prints, and \<^verbatim>\<open>run\<close> waiting for a signal and then
  running its deferred calls. A record takes its place in the ring when it is reserved and
  can be read once it and all before it have been submitted.
\<close>

section \<open>State\<close>

datatype poller_pc = Polling | Printing bytes | PollerEnded | PollerCrashed

text \<open>
  \<open>slots\<close> are the records of the ring with a flag for those submitted, \<open>deferred\<close> what the
  deferred calls of \<^verbatim>\<open>run\<close> have yet to release, next one first. \<open>passing\<close> is history: the
  packets that went through an attached hook.
\<close>

record nk_sys =
  slots :: "(bytes \<times> bool) list"
  poller :: poller_pc
  printed :: "ipv6_line list"
  interrupted :: bool
  killed :: bool
  deferred :: "nk_resource list"
  passing :: "(bool \<times> skb) list"

definition nk_start :: "string \<Rightarrow> nk_sys" where
  "nk_start name = \<lparr>slots = [], poller = Polling, printed = [], interrupted = False, killed = False,
     deferred = [SignalCtx, Reader, AttachedPeer, AttachedPrimary, Objects, Device name], passing = []\<rparr>"

section \<open>Steps\<close>

text \<open>
  A hook that reserves: the ring may refuse; otherwise the record is in its place, to be
  submitted later. The bytes are those the program fills in between.
\<close>

definition slot_helpers :: "((bytes \<times> bool) list \<Rightarrow> bool) \<Rightarrow> (nat \<Rightarrow> u8) \<Rightarrow> (bytes \<times> bool) list netkit_helpers" where
  "slot_helpers room garbage =
     \<lparr>bpf_ringbuf_reserve = (\<lambda>n fl k. (if room k then Some garbage else None, k)),
      bpf_ringbuf_submit = (\<lambda>bs fl k. k @ [(bs, False)]),
      bpf_core_read = (\<lambda>s a n i. mem s (a + of_nat i))\<rparr>"

datatype nk_event = Packet bool skb | Submit nat | Poll | PollFails | Print | Signal | Unwind

definition nk_running :: "nk_sys \<Rightarrow> bool" where
  "nk_running s \<longleftrightarrow> \<not> killed s \<and> deferred s \<noteq> []"

definition attached :: "nk_sys \<Rightarrow> bool \<Rightarrow> bool" where
  "attached s peer \<longleftrightarrow> (if peer then AttachedPeer else AttachedPrimary) \<in> set (deferred s)"

fun nk_live_step :: "((bytes \<times> bool) list \<Rightarrow> bool) \<Rightarrow> (nat \<Rightarrow> u8) \<Rightarrow> nk_sys \<Rightarrow> nk_event \<Rightarrow> nk_sys option" where
  "nk_live_step room g s (Packet peer skb) =
     (if attached s peer
      then map_option (\<lambda>(v, q). s\<lparr>slots := q, passing := passing s @ [(peer, skb)]\<rparr>)
        (if peer then netkit_peer (slot_helpers room g) skb (slots s)
         else netkit_primary (slot_helpers room g) skb (slots s))
      else None)"
| "nk_live_step room g s (Submit i) =
     (if i < length (slots s) then Some (s\<lparr>slots := (slots s)[i := (fst (slots s ! i), True)]\<rparr>) else None)"
| "nk_live_step room g s Poll =
     (case (poller s, slots s) of
        (Polling, (bs, True) # rest) \<Rightarrow>
          if Reader \<in> set (deferred s) then Some (s\<lparr>slots := rest, poller := Printing bs\<rparr>) else None
      | _ \<Rightarrow> None)"
| "nk_live_step room g s PollFails = (if poller s = Polling then Some (s\<lparr>poller := PollerEnded\<rparr>) else None)"
| "nk_live_step room g s Print =
     (case poller s of
        Printing bs \<Rightarrow>
          (case print_event (slice_of bs) of
             None \<Rightarrow> Some (s\<lparr>poller := PollerCrashed\<rparr>)
           | Some None \<Rightarrow> Some (s\<lparr>poller := Polling\<rparr>)
           | Some (Some l) \<Rightarrow> Some (s\<lparr>poller := Polling, printed := printed s @ [l]\<rparr>))
      | _ \<Rightarrow> None)"
| "nk_live_step room g s Signal =
     (if SignalCtx \<in> set (deferred s) then Some (s\<lparr>interrupted := True\<rparr>) else Some (s\<lparr>killed := True\<rparr>))"
| "nk_live_step room g s Unwind =
     (if interrupted s then Some (s\<lparr>deferred := tl (deferred s)\<rparr>) else None)"

text \<open>The process has ended once a signal has killed it or \<^verbatim>\<open>run\<close> has returned.\<close>

definition nk_step :: "((bytes \<times> bool) list \<Rightarrow> bool) \<Rightarrow> (nat \<Rightarrow> u8) \<Rightarrow> nk_sys \<Rightarrow> nk_event \<Rightarrow> nk_sys option" where
  "nk_step room g s e = (if nk_running s then nk_live_step room g s e else None)"

abbreviation nk_reach :: "((bytes \<times> bool) list \<Rightarrow> bool) \<Rightarrow> (nat \<Rightarrow> u8) \<Rightarrow> string \<Rightarrow> nk_sys \<Rightarrow> bool" where
  "nk_reach room g name \<equiv> reachable (nk_step room g) (nk_start name)"

abbreviation nk_run ::
  "((bytes \<times> bool) list \<Rightarrow> bool) \<Rightarrow> (nat \<Rightarrow> u8) \<Rightarrow> nk_sys \<Rightarrow> nk_event list \<Rightarrow> nk_sys option" where
  "nk_run room g \<equiv> run_steps (nk_step room g)"

section \<open>Order\<close>

definition always_room :: "(bytes \<times> bool) list \<Rightarrow> bool" where
  "always_room q = True"

lemma slot_core_read: "core_read_ok (slot_helpers room g)"
  by (auto simp: core_read_ok_def core_read_def slot_helpers_def load_pkt_def split: if_splits)

text \<open>What a packet at a hook should be recorded as.\<close>

definition hook_event :: "bool \<times> skb \<Rightarrow> ipv6_event option" where
  "hook_event x = ipv6_spec (of_bool (fst x)) (frame (snd x))"

lemma captured_snoc: "captured (fs @ [x]) = captured fs @ (case hook_event x of None \<Rightarrow> [] | Some e \<Rightarrow> [e])"
  by (simp add: captured_def hook_event_def map_filter_def split_beta split: option.split)

lemma hook_slots:
  "(if peer then netkit_peer (slot_helpers room g) skb q else netkit_primary (slot_helpers room g) skb q) =
     Some (NETKIT_PASS, case hook_event (peer, skb) of None \<Rightarrow> q
       | Some e \<Rightarrow> if room q then q @ [(encode_ipv6_event e, False)] else q)"
  using process_ipv6_eq [OF slot_core_read, of room g "of_bool peer" skb q]
  by (auto simp: netkit_peer_def netkit_primary_def hook_event_def process_effect_def
      slot_helpers_def split: option.split)

fun in_poller :: "poller_pc \<Rightarrow> bytes list" where
  "in_poller (Printing bs) = [bs]"
| "in_poller pc = []"

text \<open>The events with a place in the ring so far: those printed, then those still to be.\<close>

definition in_order :: "((bytes \<times> bool) list \<Rightarrow> bool) \<Rightarrow> nk_sys \<Rightarrow> ipv6_event list \<Rightarrow> ipv6_event list \<Rightarrow> bool" where
  "in_order room s don rest \<longleftrightarrow> poller s \<noteq> PollerCrashed \<and>
     carried (room = always_room) (don @ rest) (captured (passing s)) \<and>
     map event_line don = printed s \<and>
     map encode_ipv6_event rest = in_poller (poller s) @ map fst (slots s)"

lemma in_order_packet:
  assumes "in_order room s don rest" and "nk_live_step room g s (Packet peer skb) = Some t"
  shows "\<exists>rest'. in_order room t don rest'"
proof -
  let ?q = "case hook_event (peer, skb) of None \<Rightarrow> slots s
    | Some e \<Rightarrow> if room (slots s) then slots s @ [(encode_ipv6_event e, False)] else slots s"
  have t: "t = s\<lparr>slots := ?q, passing := passing s @ [(peer, skb)]\<rparr>"
    using assms(2) by (simp add: hook_slots split: if_splits)
  consider "hook_event (peer, skb) = None" | e where "hook_event (peer, skb) = Some e" "room (slots s)"
    | e where "hook_event (peer, skb) = Some e" "\<not> room (slots s)"
    by (cases "hook_event (peer, skb)") auto
  then show ?thesis
  proof cases
    case (2 e)
    then have "in_order room t don (rest @ [e])"
      using assms(1) t carried_accept [of _ "don @ rest"] by (simp add: in_order_def captured_snoc)
    then show ?thesis ..
  next
    case (3 e)
    then have "room \<noteq> always_room" by (auto simp: always_room_def)
    then show ?thesis
      using assms(1) t 3 carried_refuse [of _ "don @ rest"] by (auto simp: in_order_def captured_snoc)
  qed (use assms(1) t in \<open>auto simp: in_order_def captured_snoc\<close>)
qed

lemma in_order_wf: "in_order room s don rest \<Longrightarrow> e \<in> set (don @ rest) \<Longrightarrow> ipv6_event_ok e"
  using carried_set captured_ok [of "passing s"] by (fastforce simp: in_order_def list_all_iff)

lemma in_order_print:
  assumes "in_order room s don rest" and "nk_live_step room g s Print = Some t"
  shows "\<exists>don' rest'. in_order room t don' rest'"
proof -
  obtain bs where bs: "poller s = Printing bs" using assms(2) by (auto split: poller_pc.splits)
  then obtain e rest' where e: "rest = e # rest'" "bs = encode_ipv6_event e"
    using assms(1) by (cases rest) (auto simp: in_order_def)
  then have "print_event (slice_of bs) = Some (Some (event_line e))"
    using in_order_wf [OF assms(1), of e] print_event_encode by simp
  then have "in_order room t (don @ [e]) rest'"
    using assms bs e by (auto simp: in_order_def)
  then show ?thesis by blast
qed

lemma map_fst_submit: "map fst (xs[i := (fst (xs ! i), b)]) = map fst xs"
  by (cases "i < length xs") (simp_all add: map_update list_update_same_conv list_update_beyond not_less)

lemma in_order_step:
  assumes "in_order room s don rest" and "nk_step room g s e = Some t"
  shows "\<exists>don' rest'. in_order room t don' rest'"
proof -
  have live: "nk_live_step room g s e = Some t" using assms(2) by (simp add: nk_step_def split: if_splits)
  have plain: "in_order room t don rest" if "e \<noteq> Print" "\<And>peer skb. e \<noteq> Packet peer skb"
    using assms(1) live that
    by (cases e) (auto simp: in_order_def map_fst_submit split: if_splits poller_pc.splits list.splits bool.splits)
  show ?thesis
  proof (cases e)
    case (Packet peer skb)
    then show ?thesis using in_order_packet [OF assms(1)] live by blast
  next
    case Print
    then show ?thesis using in_order_print [OF assms(1)] live by blast
  qed (use plain in blast)+
qed

interpretation order: step_invariant "nk_step room g" "nk_start name" "\<lambda>s. \<exists>don rest. in_order room s don rest"
  for room g name
proof
  show "\<exists>don rest. in_order room (nk_start name) don rest"
    by (intro exI [of _ "[]"]) (simp add: in_order_def nk_start_def captured_def map_filter_simps carried_Nil)
qed (use in_order_step in blast)

section \<open>Shutdown\<close>

lemma deferred_step:
  assumes "nk_step room g s e = Some t"
  shows "deferred t = (if e = Unwind then tl (deferred s) else deferred s)"
    and "interrupted s \<Longrightarrow> interrupted t"
    and "killed t \<longleftrightarrow> e = Signal \<and> SignalCtx \<notin> set (deferred s)"
  using assms
  by (cases e; auto simp: nk_step_def nk_running_def split: if_splits poller_pc.splits list.splits
      prod.splits bool.splits option.splits)+

interpretation unwinding: step_invariant "nk_step room g" "nk_start name"
  "\<lambda>s. (\<exists>k. deferred s = drop k (deferred (nk_start name))) \<and>
     (deferred s = deferred (nk_start name) \<or> interrupted s) \<and>
     (killed s \<longrightarrow> deferred s \<noteq> [] \<and> SignalCtx \<notin> set (deferred s))"
  for room g name
proof
  show "(\<exists>k. deferred (nk_start name) = drop k (deferred (nk_start name))) \<and>
      (deferred (nk_start name) = deferred (nk_start name) \<or> interrupted (nk_start name)) \<and>
      (killed (nk_start name) \<longrightarrow> deferred (nk_start name) \<noteq> [] \<and> SignalCtx \<notin> set (deferred (nk_start name)))"
    by (auto simp: nk_start_def intro: exI [of _ 0])
next
  fix s e t
  assume s: "(\<exists>k. deferred s = drop k (deferred (nk_start name))) \<and>
     (deferred s = deferred (nk_start name) \<or> interrupted s) \<and>
     (killed s \<longrightarrow> deferred s \<noteq> [] \<and> SignalCtx \<notin> set (deferred s))"
    and step: "nk_step room g s e = Some t"
  then obtain k where "deferred s = drop k (deferred (nk_start name))" by blast
  then have "deferred t = drop (if e = Unwind then Suc k else k) (deferred (nk_start name))"
    using deferred_step(1) [OF step] by (auto simp: drop_Suc tl_drop)
  moreover have "(deferred t = deferred (nk_start name) \<or> interrupted t) \<and>
     (killed t \<longrightarrow> deferred t \<noteq> [] \<and> SignalCtx \<notin> set (deferred t))"
    using s step deferred_step [OF step] by (cases e) (auto simp: nk_step_def nk_running_def split: if_splits)
  ultimately show "(\<exists>k. deferred t = drop k (deferred (nk_start name))) \<and>
     (deferred t = deferred (nk_start name) \<or> interrupted t) \<and>
     (killed t \<longrightarrow> deferred t \<noteq> [] \<and> SignalCtx \<notin> set (deferred t))"
    by blast
qed

lemma unwound:
  assumes "nk_run room g s es = Some t" and "Signal \<notin> set es" and "interrupted s" and "\<not> killed s"
  shows "interrupted t \<and> \<not> killed t \<and> deferred t = drop (count_list es Unwind) (deferred s)"
  using assms
proof (induction es arbitrary: s)
  case (Cons e es)
  then obtain u where u: "nk_step room g s e = Some u" "nk_run room g u es = Some t"
    by (auto split: bind_splits)
  then have "interrupted u \<and> \<not> killed u \<and> deferred u = (if e = Unwind then tl (deferred s) else deferred s)"
    using deferred_step [OF u(1)] Cons.prems(2,3) by auto
  then show ?case using Cons.IH [OF u(2)] Cons.prems(2) by (auto simp: drop_Suc)
qed simp

text \<open>The deferred calls pending while the program monitors are the releases of \<open>run\<close>.\<close>

lemma start_deferred:
  "fst (run env name) = None \<Longrightarrow> released (snd (run env name)) = deferred (nk_start name)"
  using run_success_order [of env name] by (simp add: nk_start_def)

section \<open>Properties\<close>

text \<open>C9: with packets on both hooks and several processors, records reserved before earlier ones are
  submitted, and the printing goroutine anywhere in between, the printer never panics, and the
  lines printed, the record at the printer and those in the ring are, in the order of their
  reservation, events of the packets that passed: all of them if the ring never refuses one.\<close>

theorem netkit_lines_in_order:
  assumes "nk_reach room g name s"
  shows "poller s \<noteq> PollerCrashed \<and>
    (\<exists>evs. carried (room = always_room) evs (captured (passing s)) \<and>
       (\<exists>n \<le> length evs. printed s = map event_line (take n evs) \<and>
          map encode_ipv6_event (drop n evs) = in_poller (poller s) @ map fst (slots s)))"
proof -
  obtain don rest where "in_order room s don rest" using order.reach [OF assms] by blast
  then show ?thesis
    by (intro conjI exI [of _ "don @ rest"] exI [of _ "length don"]) (auto simp: in_order_def)
qed

definition neighbour :: skb where "neighbour = skb_at icmp6_frame"

lemma neighbour_event: "\<exists>e. hook_event (True, neighbour) = Some e \<and> ipv6_event_ok e"
proof -
  have "hook_event (True, neighbour) \<noteq> None" unfolding neighbour_def by code_simp
  then show ?thesis using ipv6_spec_wf by (auto simp: hook_event_def ipv6_event_wf_def)
qed

lemma neighbour_printed:
  "\<exists>s. nk_reach always_room (\<lambda>_. 0) ''nk0'' s \<and> passing s = [(True, neighbour)] \<and>
     length (printed s) = 1 \<and> poller s = Polling \<and> slots s = []"
proof -
  obtain e where e: "hook_event (True, neighbour) = Some e" "ipv6_event_ok e"
    using neighbour_event by blast
  let ?s = "(nk_start ''nk0'')\<lparr>printed := [event_line e], passing := [(True, neighbour)]\<rparr>"
  have "netkit_peer (slot_helpers always_room (\<lambda>_. 0)) neighbour [] =
      Some (NETKIT_PASS, [(encode_ipv6_event e, False)])"
    using hook_slots [of True always_room "\<lambda>_. 0" neighbour "[]"] e(1) by (simp add: always_room_def)
  then have "nk_run always_room (\<lambda>_. 0) (nk_start ''nk0'') [Packet True neighbour, Submit 0, Poll, Print] = Some ?s"
    using print_event_encode [OF e(2)] by (simp add: nk_step_def nk_running_def attached_def nk_start_def)
  from run_steps_reachable [OF reachable.start this] show ?thesis
    by (intro exI [of _ ?s]) (simp add: nk_start_def)
qed

lemma netkit_lines_in_order_witness:
  "\<exists>lines. length lines = 1 \<and> lines = map event_line (captured [(True, neighbour)])"
proof -
  obtain s where s: "nk_reach always_room (\<lambda>_. 0) ''nk0'' s" "passing s = [(True, neighbour)]"
      "length (printed s) = 1" "poller s = Polling" "slots s = []"
    using neighbour_printed by blast
  then obtain evs n where "evs = captured [(True, neighbour)]" "n \<le> length evs"
      "printed s = map event_line (take n evs)" "drop n evs = []"
    using netkit_lines_in_order [OF s(1)] by auto
  then show ?thesis using s(3) by (intro exI [of _ "printed s"]) simp
qed

text \<open>C16: once interrupted, the program winds up whatever the hooks and the printer do in the
  meantime: every resource still held is the rest of what run releases, in its order, the next
  release is always possible, and after at most six of them the process has ended. A second
  signal is excluded.\<close>

theorem netkit_shutdown:
  assumes "nk_reach room g name s" and "interrupted s" and "\<not> killed s" and "fst (run env name) = None"
    and "nk_run room g s es = Some t" and "Signal \<notin> set es"
  shows "(\<exists>gone. released (snd (run env name)) = gone @ deferred t) \<and>
    deferred t = drop (count_list es Unwind) (deferred s) \<and> length (deferred s) \<le> 6 \<and>
    (if deferred t = [] then \<forall>e. nk_step room g t e = None
     else nk_step room g t Unwind = Some (t\<lparr>deferred := tl (deferred t)\<rparr>))"
proof -
  have t: "interrupted t" "\<not> killed t" "deferred t = drop (count_list es Unwind) (deferred s)"
    using unwound [OF assms(5,6,2,3)] by auto
  obtain k j where k: "deferred t = drop k (deferred (nk_start name))" "deferred s = drop j (deferred (nk_start name))"
    using unwinding.reach [OF assms(1)] unwinding.reach [OF run_steps_reachable [OF assms(1,5)]] by blast
  have "\<exists>gone. released (snd (run env name)) = gone @ deferred t"
    using start_deferred [OF assms(4)] k(1)
    by (intro exI [of _ "take k (deferred (nk_start name))"]) simp
  moreover have "length (deferred s) \<le> 6" using k(2) by (simp add: nk_start_def)
  ultimately show ?thesis using t by (auto simp: nk_step_def nk_running_def)
qed

lemma netkit_shutdown_witness:
  "\<exists>t. nk_run always_room (\<lambda>_. 0) (nk_start ''nk0'') (Signal # replicate 6 Unwind) = Some t \<and>
     nk_step always_room (\<lambda>_. 0) t Signal = None"
proof -
  let ?s = "(nk_start ''nk0'')\<lparr>interrupted := True\<rparr>"
  have s: "nk_run always_room (\<lambda>_. 0) (nk_start ''nk0'') [Signal] = Some ?s"
    by (simp add: nk_step_def nk_running_def nk_start_def)
  have t: "nk_run always_room (\<lambda>_. 0) ?s (replicate 6 Unwind) = Some (?s\<lparr>deferred := []\<rparr>)"
    by (simp add: nk_step_def nk_running_def nk_start_def eval_nat_numeral)
  have "\<forall>e. nk_step always_room (\<lambda>_. 0) (?s\<lparr>deferred := []\<rparr>) e = None"
    using netkit_shutdown [OF run_steps_reachable [OF reachable.start s] _ _ working_run t]
    by (simp add: nk_start_def)
  then show ?thesis using s t by (simp add: nk_step_def nk_running_def)
qed

text \<open>C27: a signal that arrives while the deferred calls run kills the program, since the first of
  them gives signals their default effect back; whenever that happens the netkit device has not
  been deleted.\<close>

theorem second_signal_leaves_device:
  assumes "nk_reach room g name s" and "killed s"
  shows "deferred s \<noteq> [] \<and> last (deferred s) = Device name \<and> interrupted s"
  using unwinding.reach [OF assms(1)] assms(2) by (auto simp: nk_start_def last_drop)

lemma second_signal_leaves_device_witness:
  "\<exists>s. nk_run always_room (\<lambda>_. 0) (nk_start ''nk0'') [Signal, Unwind, Signal] = Some s \<and> killed s \<and>
     last (deferred s) = Device ''nk0''"
proof -
  let ?s = "(nk_start ''nk0'')\<lparr>interrupted := True, deferred := tl (deferred (nk_start ''nk0'')), killed := True\<rparr>"
  have run: "nk_run always_room (\<lambda>_. 0) (nk_start ''nk0'') [Signal, Unwind, Signal] = Some ?s"
    by (simp add: nk_step_def nk_running_def nk_start_def)
  show ?thesis
    using second_signal_leaves_device [OF run_steps_reachable [OF reachable.start run]] run by simp
qed

end
