(* ===== verification/Netkit_Text.thy ===== *)
theory Netkit_Text
  imports Netkit_Event Netkit_Device Go_Text
begin

text \<open>
  What the netkit program writes to the terminal, character by character: the format string
  of \<open>printEvent\<close> in \<^verbatim>\<open>examples/netkit-ipv6/main.go\<close>, and a reader that recovers every event
  from the output.
\<close>

section \<open>A line\<close>

definition line_text :: "ipv6_line \<Rightarrow> string" where
  "line_text l =
     ''['' @ line_dir l @ ''] IPv6: '' @ ip_text (line_src l) @ '' -> '' @ ip_text (line_dst l) @
     '' | next='' @ decimal (unat (line_next l)) @ '' len='' @ decimal (unat (line_len l)) @
     '' ttl='' @ decimal (unat (line_ttl l)) @ [newline]"

definition line_words :: "ipv6_line \<Rightarrow> string list" where
  "line_words l = [''['' @ line_dir l @ '']'', ''IPv6:'', ip_text (line_src l), ''->'',
     ip_text (line_dst l), ''|'', ''next='' @ decimal (unat (line_next l)),
     ''len='' @ decimal (unat (line_len l)), ''ttl='' @ decimal (unat (line_ttl l))]"

definition read_line :: "string \<Rightarrow> ipv6_line option" where
  "read_line s =
     (case split_at CHR '' '' s of
        [d, w1, src, w3, dst, w5, nxt, ln, hl] \<Rightarrow>
          Some \<lparr>line_dir = butlast (tl d), line_src = read_ip src, line_dst = read_ip dst,
            line_next = of_nat (read_numeral 10 (drop 5 nxt)),
            line_len = of_nat (read_numeral 10 (drop 4 ln)),
            line_ttl = of_nat (read_numeral 10 (drop 4 hl))\<rparr>
      | _ \<Rightarrow> None)"

definition read_output :: "string \<Rightarrow> ipv6_line option list" where
  "read_output s = map read_line (butlast (split_at newline s))"

definition line_ok :: "ipv6_line \<Rightarrow> bool" where
  "line_ok l \<longleftrightarrow> line_dir l \<in> {''primary'', ''peer''} \<and> length (line_src l) = 16 \<and> length (line_dst l) = 16"

lemma line_text_words: "line_text l = join CHR '' '' (line_words l) @ [newline]"
  by (simp add: line_text_def line_words_def)

lemma plain_chars: "CHR '' '' \<notin> set digit_chars" "newline \<notin> set digit_chars"
  by (simp_all add: digit_chars_def newline_def)

lemma plain_texts:
  "CHR '' '' \<notin> set (ip_text a)" "newline \<notin> set (ip_text a)"
  "CHR '' '' \<notin> set (decimal n)" "newline \<notin> set (decimal n)"
  using set_ip_text [of a] plain_chars
  by (auto simp: newline_def intro: numeral_text_avoids [THEN notE, rotated -1])

lemma line_words_plain:
  assumes "line_ok l"
  shows "\<forall>w \<in> set (line_words l). CHR '' '' \<notin> set w \<and> newline \<notin> set w"
  using assms plain_texts by (auto simp: line_words_def line_ok_def newline_def)

lemma read_line_words:
  assumes "line_ok l"
  shows "read_line (join CHR '' '' (line_words l)) = Some l"
proof -
  have "split_at CHR '' '' (join CHR '' '' (line_words l)) = line_words l"
    using line_words_plain [OF assms] by (intro split_join) (auto simp: line_words_def)
  then show ?thesis
    using assms by (simp add: read_line_def line_words_def line_ok_def read_ip_text read_numeral_text)
qed

lemma read_output_lines:
  "list_all line_ok ls \<Longrightarrow> read_output (concat (map line_text ls)) = map Some ls"
proof (induction ls)
  case Nil
  then show ?case by (simp add: read_output_def)
next
  case (Cons l ls)
  have "newline \<notin> set (join CHR '' '' (line_words l))"
    using Cons.prems line_words_plain [of l] set_join [of "CHR '' ''" "line_words l"]
    by (auto simp: newline_def)
  then show ?case
    using Cons by (simp add: read_output_def line_text_words split_at_append read_line_words)
qed

section \<open>The output of the program\<close>

definition netkit_stdout :: "(nat \<Rightarrow> u8) \<Rightarrow> (bool \<times> skb) list \<Rightarrow> string option" where
  "netkit_stdout g fs =
     do { ring \<leftarrow> netkit_capture g fs [];
          ls \<leftarrow> poll_ringbuf (map (\<lambda>bs. Inr (slice_of bs) :: errno + go_slice) ring);
          Some (concat (map line_text ls)) }"

lemma event_line_ok: "ipv6_event_wf e \<Longrightarrow> line_ok (event_line e)"
  by (auto simp: ipv6_event_wf_def ipv6_event_ok_def line_ok_def event_line_def)

section \<open>Properties\<close>

text \<open>C18: the output loses nothing and is never ambiguous: whatever frames pass the two ends of the
  pair, the program's output exists, and cutting it at line ends and blanks and reading addresses
  and numbers back gives exactly the events of the frames, in order.\<close>

theorem netkit_output_readable:
  "\<exists>out. netkit_stdout g fs = Some out \<and>
     read_output out = map (\<lambda>e. Some \<lparr>line_dir = (if direction e = 1 then ''peer'' else ''primary''),
       line_src = src_addr e, line_dst = dst_addr e, line_next = next_header e,
       line_len = payload_len e, line_ttl = hop_limit e\<rparr>) (captured fs)"
proof -
  have "list_all line_ok (map event_line (captured fs))"
    using captured_wf [of fs] event_line_ok by (auto simp: list_all_iff)
  then have "read_output (concat (map line_text (map event_line (captured fs)))) =
      map Some (map event_line (captured fs))"
    by (rule read_output_lines)
  moreover have "netkit_stdout g fs = Some (concat (map line_text (map event_line (captured fs))))"
    using poll_ringbuf_stream [OF captured_ok [of fs], where ?'a = errno]
    by (simp add: netkit_stdout_def netkit_capture_eq comp_def)
  ultimately show ?thesis by (simp add: event_line_def comp_def)
qed

end
