(* ===== verification/Netkit_Killed.thy ===== *)
theory Netkit_Killed
  imports Netkit_Main
begin

text \<open>
  \<^verbatim>\<open>run\<close> of \<^verbatim>\<open>examples/netkit-ipv6/main.go\<close> killed at an arbitrary point, by a signal before it
  has set up its handling or by one that cannot be handled. The kernel closes what a dead
  process had open; the netkit device is not such a thing.
\<close>

definition all_held :: "string \<Rightarrow> nk_resource list" where
  "all_held name = [SignalCtx, Reader, AttachedPeer, AttachedPrimary, Objects, Device name]"

lemma stacks_monitor:
  "stacks st (snd (run_monitor env)) \<subseteq> {st, Reader # st, SignalCtx # Reader # st}"
  by (auto simp: run_monitor_def split: option.split)

lemma stacks_attach:
  "stacks st (snd (run_attach env p)) \<subseteq> {st, AttachedPrimary # st, AttachedPeer # AttachedPrimary # st,
     Reader # AttachedPeer # AttachedPrimary # st, SignalCtx # Reader # AttachedPeer # AttachedPrimary # st}"
  using stacks_monitor [of "AttachedPeer # AttachedPrimary # st" env] nest_monitor [of "AttachedPeer # AttachedPrimary # st" env]
  by (auto simp: run_attach_def stacks_append split: option.split)

lemma suffixes:
  "{st. suffix st (all_held name)} = {[], [Device name], [Objects, Device name],
     [AttachedPrimary, Objects, Device name], [AttachedPeer, AttachedPrimary, Objects, Device name],
     [Reader, AttachedPeer, AttachedPrimary, Objects, Device name], all_held name}"
  by (auto simp: all_held_def suffix_Cons)

lemma stacks_pair:
  "stacks [Device name] (snd (run_pair env p)) \<subseteq> {st. suffix st (all_held name)}"
  using stacks_attach [of "[Objects, Device name]" env p] configure_log [of "netlink env" p]
    nest_attach [of "[Objects, Device name]" env p] unfolding suffixes
  by (auto simp: run_pair_def stacks_append stacks_calls nest_calls all_held_def
      split: prod.splits option.splits)

lemma stacks_create:
  "stacks [] (snd (CreatePair env name opts)) \<subseteq> {[], [Device name]}"
  by (auto simp: CreatePair_def Let_def split: sum.split option.split)

lemma stacks_run: "stacks [] (snd (run env name)) \<subseteq> {st. suffix st (all_held name)}"
proof (cases "CreatePair (netlink env) name [WithL3Mode]")
  case (Pair res log)
  have log: "stacks [] log \<subseteq> {[], [Device name]}"
    using stacks_create [of "netlink env" name "[WithL3Mode]"] Pair by simp
  have small: "suffix [] (all_held name)" "suffix [Device name] (all_held name)"
    by (simp_all add: all_held_def suffix_def)
  show ?thesis
  proof (cases res)
    case (Inl err)
    then show ?thesis using Pair log small by (auto simp: run_def split: option.split)
  next
    case (Inr p)
    have nest: "nest [] log = Some [Device name]" and name: "link_name (Primary p) = name"
      using create_pair.nested [of "(netlink env, name, [WithL3Mode])"] create_pair_log(3) Pair Inr by auto
    have "stacks [Device name] (snd (Delete (netlink env) (Some p))) \<subseteq> {[], [Device name]}"
      by (auto simp: Delete_def name split: option.split)
    then show ?thesis
      using Pair Inr log small nest stacks_pair [of name env p] nest_pair [of "[Device name]" env p]
      by (auto simp: run_def stacks_append split: option.split)
  qed
qed

section \<open>Properties\<close>

text \<open>C15: wherever the netkit program is killed, what it holds then is the device and, above it, a
  first part of what it acquires later, never one without those before it; so once anything has
  been acquired and not all released, the device is there and the death of the process leaves it
  behind.\<close>

theorem killed_run_leaves_device:
  assumes "snd (run env name) = as @ bs"
  shows "\<exists>st. nest [] as = Some st \<and> suffix st (all_held name) \<and> (Device name \<in> set st \<longleftrightarrow> st \<noteq> [])"
proof -
  have "nest [] (as @ bs) \<noteq> None" using nest_run [of env name] assms by simp
  then obtain st where st: "nest [] as = Some st" using nest_prefix by blast
  then have "suffix st (all_held name)"
    using stacks_prefix [OF st, of bs] stacks_run [of env name] assms by auto
  moreover from this have "Device name \<in> set st \<longleftrightarrow> st \<noteq> []"
    by (auto simp: all_held_def suffix_Cons)
  ultimately show ?thesis using st by blast
qed

lemma killed_run_leaves_device_witness:
  "\<exists>as bs st. snd (run working_env ''nk0'') = as @ bs \<and> nest [] as = Some st \<and> length st = 6 \<and>
     Device ''nk0'' \<in> set st"
proof -
  let ?l = "snd (run working_env ''nk0'')"
  let ?as = "takeWhile (\<lambda>a. a \<noteq> Release SignalCtx) ?l"
  have l: "?l = ?as @ dropWhile (\<lambda>a. a \<noteq> Release SignalCtx) ?l" by simp
  have n: "nest [] ?as = Some (all_held ''nk0'')"
    by (simp add: run_def working_env_def CreatePair_def Let_def run_pair_def ConfigureIPv6LinkLocal_def
        assignLinkLocal_def generateLinkLocalAddr_def run_attach_def run_monitor_def after_def
        with_defer_def all_held_def Delete_def)
  obtain st where "nest [] ?as = Some st" "Device ''nk0'' \<in> set st \<longleftrightarrow> st \<noteq> []"
    using killed_run_leaves_device [OF l] by blast
  then have "nest [] ?as = Some st \<and> length st = 6 \<and> Device ''nk0'' \<in> set st"
    using n by (auto simp: all_held_def)
  then show ?thesis using l by blast
qed

end
