(* ===== verification/Netkit_Messages.thy ===== *)
theory Netkit_Messages
  imports Netkit_Main Go_Text
begin

text \<open>
  The messages of the netkit example's errors: the wrapped errors of
  \<^verbatim>\<open>examples/netkit-ipv6/netkit\<close> and of \<^verbatim>\<open>run\<close> as the text \<^verbatim>\<open>log.Fatal\<close> prints, and a reader that
  tells from the text which step failed. The specification is a list of the steps in order, each
  with what the libraries answer to it.
\<close>

section \<open>Texts\<close>

text \<open>
  The text of a system error number, and \<^verbatim>\<open>strconv.Quote\<close> on ASCII: quotation marks and
  backslashes are escaped, the control characters written by their short escape or in hexadecimal.
\<close>

fun errno_text :: "errno \<Rightarrow> string" where
  "errno_text ENODEV = ''no such device''"
| "errno_text (Errno s) = s"

definition short_escapes :: "(nat \<times> char) list" where
  "short_escapes = [(7, CHR ''a''), (8, CHR ''b''), (12, CHR ''f''), (10, CHR ''n''), (13, CHR ''r''),
     (9, CHR ''t''), (11, CHR ''v''), (34, CHR 0x22), (92, CHR 0x5C)]"

definition quote_char :: "char \<Rightarrow> string" where
  "quote_char c =
     (case map_of short_escapes (of_char c) of
        Some e \<Rightarrow> [CHR 0x5C, e]
      | None \<Rightarrow>
          if 32 \<le> (of_char c :: nat) \<and> (of_char c :: nat) < 127 then [c]
          else [CHR 0x5C, CHR ''x'', digit_char (of_char c div 16), digit_char (of_char c mod 16)])"

definition quote :: "string \<Rightarrow> string" where
  "quote s = [CHR 0x22] @ concat (map quote_char s) @ [CHR 0x22]"

fun nk_error_text :: "nk_error \<Rightarrow> string" where
  "nk_error_text EmptyName = ''netkit: device name cannot be empty''"
| "nk_error_text (CreateFailed name err) =
     ''netkit: failed to create primary '' @ quote name @ '': '' @ errno_text err"
| "nk_error_text (PeerNotFound peerName err) =
     ''netkit: failed to find peer '' @ quote peerName @ '': '' @ errno_text err"
| "nk_error_text (PrimaryUp err) = ''netkit: failed to bring up primary: '' @ errno_text err"
| "nk_error_text (PeerUp err) = ''netkit: failed to bring up peer: '' @ errno_text err"
| "nk_error_text (DeleteFailed err) = ''netkit: failed to delete: '' @ errno_text err"
| "nk_error_text (RandFailed err) = ''failed to generate random IID: '' @ errno_text err"
| "nk_error_text (AddAddress err) = ''failed to add address: '' @ errno_text err"
| "nk_error_text (OnPrimary e) = ''primary: '' @ nk_error_text e"
| "nk_error_text (OnPeer e) = ''peer: '' @ nk_error_text e"

fun run_error_text :: "run_error \<Rightarrow> string" where
  "run_error_text (RemovingMemlock err) = ''removing memlock: '' @ errno_text err"
| "run_error_text (CreatingPair e) = ''creating netkit pair: '' @ nk_error_text e"
| "run_error_text (ConfiguringIPv6 e) = ''configuring IPv6: '' @ nk_error_text e"
| "run_error_text (LoadingObjects err) = ''loading eBPF objects: '' @ errno_text err"
| "run_error_text (AttachingPrimary err) = ''attaching primary: '' @ errno_text err"
| "run_error_text (AttachingPeer err) = ''attaching peer: '' @ errno_text err"
| "run_error_text (OpeningRingbuf err) = ''opening ringbuf: '' @ errno_text err"

section \<open>The steps\<close>

datatype run_step = Memlock | CheckName | AddLink | FindPeer | PrimaryLinkUp | PeerLinkUp
  | PrimaryRandom | PrimaryAddress | PeerRandom | PeerAddress | LoadObjs | PrimaryAttach
  | PeerAttach | OpenReader

definition run_steps :: "run_step list" where
  "run_steps = [Memlock, CheckName, AddLink, FindPeer, PrimaryLinkUp, PeerLinkUp, PrimaryRandom,
     PrimaryAddress, PeerRandom, PeerAddress, LoadObjs, PrimaryAttach, PeerAttach, OpenReader]"

text \<open>The arguments of the later calls are results of earlier ones.\<close>

definition requested_link :: "string \<Rightarrow> netkit_link" where
  "requested_link name = \<lparr>link_name = name, link_index = 0, peer_name = name @ ''p'',
     link_mode = NETKIT_MODE_L3, link_scrub = NETKIT_SCRUB_NONE, link_peer_scrub = NETKIT_SCRUB_NONE\<rparr>"

definition failure :: "errno + 'a \<Rightarrow> errno option" where
  "failure r = (case r of Inl err \<Rightarrow> Some err | Inr _ \<Rightarrow> None)"

definition given_index :: "main_env \<Rightarrow> string \<Rightarrow> int" where
  "given_index env name = (case LinkAdd (netlink env) (requested_link name) of Inl _ \<Rightarrow> 0 | Inr i \<Rightarrow> i)"

definition found_peer :: "main_env \<Rightarrow> string \<Rightarrow> string" where
  "found_peer env name = (case LinkByName (netlink env) (name @ ''p'') of Inl _ \<Rightarrow> '''' | Inr l \<Rightarrow> link_name l)"

definition drawn_address :: "main_env \<Rightarrow> string \<Rightarrow> bytes" where
  "drawn_address env nm =
     (case rand_read (netlink env) nm of
        Inl _ \<Rightarrow> [] | Inr g \<Rightarrow> [0xfe, 0x80, 0, 0, 0, 0, 0, 0] @ map g [0..<8])"

fun outcome :: "main_env \<Rightarrow> string \<Rightarrow> run_step \<Rightarrow> string option" where
  "outcome env name Memlock = map_option errno_text (RemoveMemlock env)"
| "outcome env name CheckName = (if name = '''' then Some ''device name cannot be empty'' else None)"
| "outcome env name AddLink = map_option errno_text (failure (LinkAdd (netlink env) (requested_link name)))"
| "outcome env name FindPeer = map_option errno_text (failure (LinkByName (netlink env) (name @ ''p'')))"
| "outcome env name PrimaryLinkUp = map_option errno_text (LinkSetUp (netlink env) name)"
| "outcome env name PeerLinkUp = map_option errno_text (LinkSetUp (netlink env) (found_peer env name))"
| "outcome env name PrimaryRandom = map_option errno_text (failure (rand_read (netlink env) name))"
| "outcome env name PrimaryAddress =
     map_option errno_text (AddrAdd (netlink env) name (drawn_address env name) 64)"
| "outcome env name PeerRandom =
     map_option errno_text (failure (rand_read (netlink env) (found_peer env name)))"
| "outcome env name PeerAddress =
     map_option errno_text (AddrAdd (netlink env) (found_peer env name) (drawn_address env (found_peer env name)) 64)"
| "outcome env name LoadObjs = map_option errno_text (LoadNetkitObjects env)"
| "outcome env name PrimaryAttach = map_option errno_text (AttachNetkit env ''primary'' (given_index env name))"
| "outcome env name PeerAttach = map_option errno_text (AttachNetkit env ''peer'' (given_index env name))"
| "outcome env name OpenReader = map_option errno_text (NewReader env)"

text \<open>The first step that fails, with its message.\<close>

fun first_failure :: "(run_step \<Rightarrow> string option) \<Rightarrow> run_step list \<Rightarrow> (run_step \<times> string) option" where
  "first_failure out [] = None"
| "first_failure out (s # ss) = (case out s of Some msg \<Rightarrow> Some (s, msg) | None \<Rightarrow> first_failure out ss)"

section \<open>Reading a message\<close>

definition openings :: "(string \<times> run_step) list" where
  "openings = [
     (''removing memlock: '', Memlock),
     (''creating netkit pair: netkit: device name '', CheckName),
     (''creating netkit pair: netkit: failed to create primary '', AddLink),
     (''creating netkit pair: netkit: failed to find peer '', FindPeer),
     (''creating netkit pair: netkit: failed to bring up primary: '', PrimaryLinkUp),
     (''creating netkit pair: netkit: failed to bring up peer: '', PeerLinkUp),
     (''configuring IPv6: primary: failed to generate '', PrimaryRandom),
     (''configuring IPv6: primary: failed to add '', PrimaryAddress),
     (''configuring IPv6: peer: failed to generate '', PeerRandom),
     (''configuring IPv6: peer: failed to add '', PeerAddress),
     (''loading eBPF objects: '', LoadObjs),
     (''attaching primary: '', PrimaryAttach),
     (''attaching peer: '', PeerAttach),
     (''opening ringbuf: '', OpenReader)]"

definition read_failure :: "string \<Rightarrow> run_step option" where
  "read_failure s = map_option snd (find (\<lambda>(p, step). prefix p s) openings)"

section \<open>What run returns\<close>

text \<open>The step an error belongs to, with the message at its root.\<close>

fun error_step :: "run_error \<Rightarrow> (run_step \<times> string) option" where
  "error_step (RemovingMemlock err) = Some (Memlock, errno_text err)"
| "error_step (CreatingPair EmptyName) = Some (CheckName, ''device name cannot be empty'')"
| "error_step (CreatingPair (CreateFailed nm err)) = Some (AddLink, errno_text err)"
| "error_step (CreatingPair (PeerNotFound nm err)) = Some (FindPeer, errno_text err)"
| "error_step (CreatingPair (PrimaryUp err)) = Some (PrimaryLinkUp, errno_text err)"
| "error_step (CreatingPair (PeerUp err)) = Some (PeerLinkUp, errno_text err)"
| "error_step (ConfiguringIPv6 (OnPrimary (RandFailed err))) = Some (PrimaryRandom, errno_text err)"
| "error_step (ConfiguringIPv6 (OnPrimary (AddAddress err))) = Some (PrimaryAddress, errno_text err)"
| "error_step (ConfiguringIPv6 (OnPeer (RandFailed err))) = Some (PeerRandom, errno_text err)"
| "error_step (ConfiguringIPv6 (OnPeer (AddAddress err))) = Some (PeerAddress, errno_text err)"
| "error_step (LoadingObjects err) = Some (LoadObjs, errno_text err)"
| "error_step (AttachingPrimary err) = Some (PrimaryAttach, errno_text err)"
| "error_step (AttachingPeer err) = Some (PeerAttach, errno_text err)"
| "error_step (OpeningRingbuf err) = Some (OpenReader, errno_text err)"
| "error_step _ = None"

lemma error_step_text:
  assumes "error_step e = Some (s, msg)"
  shows "read_failure (run_error_text e) = Some s" and "suffix msg (run_error_text e)"
proof -
  show "read_failure (run_error_text e) = Some s"
    using assms by (induction e rule: error_step.induct) (auto simp: read_failure_def openings_def)
  show "suffix msg (run_error_text e)"
  proof (cases "e = CreatingPair EmptyName")
    case True
    then show ?thesis using assms by (auto simp: suffix_ConsI)
  next
    case False
    then show ?thesis
      using assms by (induction e rule: error_step.induct) (auto intro!: suffix_ConsI suffix_appendI)
  qed
qed

lemma first_failure_append:
  "first_failure out (ss @ rest) = (case first_failure out ss of None \<Rightarrow> first_failure out rest | Some r \<Rightarrow> Some r)"
  by (induction ss) (auto split: option.split)

lemma created_links:
  "CreatePair (netlink env) name [WithL3Mode] = (Inr p, log) \<Longrightarrow>
     link_name (Primary p) = name \<and> link_name (Peer p) = found_peer env name \<and> PrimaryIdx p = given_index env name"
  by (auto simp: CreatePair_def Let_def found_peer_def given_index_def requested_link_def apply_options_def
      WithL3Mode_def defaultConfig_def after_def with_defer_def split: if_splits sum.splits option.splits)

lemma create_failure:
  "(case fst (CreatePair (netlink env) name [WithL3Mode]) of
      Inl e \<Rightarrow> Some (error_step (CreatingPair e)) | Inr p \<Rightarrow> None) =
    map_option Some (first_failure (outcome env name) [CheckName, AddLink, FindPeer, PrimaryLinkUp, PeerLinkUp])"
  by (auto simp: CreatePair_def Let_def found_peer_def failure_def requested_link_def apply_options_def
      WithL3Mode_def defaultConfig_def split: sum.split option.split)

lemma drawn: "generateLinkLocalAddr (rand_read (netlink env) nm) =
    (case rand_read (netlink env) nm of Inl err \<Rightarrow> Inl (RandFailed err) | Inr g \<Rightarrow> Inr (drawn_address env nm))"
  by (simp add: generateLinkLocalAddr_def drawn_address_def eval_nat_numeral split: sum.split)

lemma configure_failure:
  assumes "link_name (Primary p) = name" and "link_name (Peer p) = found_peer env name"
  shows "map_option (error_step \<circ> ConfiguringIPv6) (fst (ConfigureIPv6LinkLocal (netlink env) p)) =
    map_option Some (first_failure (outcome env name) [PrimaryRandom, PrimaryAddress, PeerRandom, PeerAddress])"
  using assms
  by (auto simp: ConfigureIPv6LinkLocal_def assignLinkLocal_def drawn failure_def split: sum.split option.split)

lemma attach_failure:
  assumes "PrimaryIdx p = given_index env name"
  shows "map_option error_step (fst (run_attach env p)) =
    map_option Some (first_failure (outcome env name) [PrimaryAttach, PeerAttach, OpenReader])"
  using assms by (auto simp: run_attach_def run_monitor_def split: option.split)

lemma run_pair_failure:
  assumes "link_name (Primary p) = name" and "link_name (Peer p) = found_peer env name"
    and "PrimaryIdx p = given_index env name"
  shows "map_option error_step (fst (run_pair env p)) =
    map_option Some (first_failure (outcome env name) [PrimaryRandom, PrimaryAddress, PeerRandom, PeerAddress, LoadObjs,
      PrimaryAttach, PeerAttach, OpenReader])"
proof -
  let ?xs = "[PrimaryRandom, PrimaryAddress, PeerRandom, PeerAddress]" and ?ys = "[LoadObjs, PrimaryAttach, PeerAttach, OpenReader]"
  have l: "map_option error_step (fst (case LoadNetkitObjects env of
      Some err \<Rightarrow> (Some (LoadingObjects err), [Do CallLoad])
    | None \<Rightarrow> after [Do CallLoad, Acquire Objects] (with_defer [Release Objects] (run_attach env p)))) =
    map_option Some (first_failure (outcome env name) ?ys)"
    using attach_failure [OF assms(3)] by (simp split: option.split)
  have "map_option error_step (fst (run_pair env p)) = map_option Some (first_failure (outcome env name) (?xs @ ?ys))"
    using configure_failure [OF assms(1,2)] l
    unfolding first_failure_append run_pair_def
    by (auto simp del: first_failure.simps split: option.splits prod.split)
  then show ?thesis by simp
qed

lemma run_failure:
  "map_option error_step (fst (run env name)) = map_option Some (first_failure (outcome env name) run_steps)"
proof -
  let ?xs = "[CheckName, AddLink, FindPeer, PrimaryLinkUp, PeerLinkUp]"
  let ?ys = "[PrimaryRandom, PrimaryAddress, PeerRandom, PeerAddress, LoadObjs, PrimaryAttach, PeerAttach, OpenReader]"
  have "map_option error_step (fst (case CreatePair (netlink env) name [WithL3Mode] of
             (Inl err, log) \<Rightarrow> (Some (CreatingPair err), log)
           | (Inr p, log) \<Rightarrow> after log
               (with_defer (snd (Delete (netlink env) (Some p))) (run_pair env p)))) =
    map_option Some (first_failure (outcome env name) (?xs @ ?ys))"
    using create_failure [of env name] created_links [of env name] run_pair_failure [of _ name env]
    unfolding first_failure_append
    by (auto simp del: first_failure.simps split: option.splits prod.split sum.splits)
  then show ?thesis by (simp add: run_def run_steps_def split: option.split)
qed

section \<open>Properties\<close>

text \<open>C14: the message the netkit program dies with names the step that failed: run fails exactly when
  one of its fourteen steps does, the text printed starts with words that no other step uses, the
  step they name is the first in order that failed, and the text ends with what the kernel or
  the library said about it.\<close>

theorem fatal_message_names_first_failure:
  "case first_failure (outcome env name) run_steps of
     None \<Rightarrow> fst (run env name) = None
   | Some (s, msg) \<Rightarrow> \<exists>e. fst (run env name) = Some e \<and> read_failure (run_error_text e) = Some s \<and>
       suffix msg (run_error_text e)"
  using run_failure [of env name] error_step_text
  by (auto simp: map_option_case split: option.splits)

end
