(* ===== verification/Commands.thy ===== *)
theory Commands
  imports Netkit_Main
begin

text \<open>
  The \<^verbatim>\<open>main\<close> functions around the examples: \<^verbatim>\<open>examples/netkit-ipv6/main.go\<close>,
  \<^verbatim>\<open>examples/flow/main.go\<close> and, up to the call of its signal handler,
  \<^verbatim>\<open>examples/flow/cmd/flat.go\<close>. A run of a command is its exit status, \<open>None\<close> while it
  goes on, and what it writes.
\<close>

section \<open>Flags\<close>

text \<open>A string flag has the value given for it on the command line, or its default.\<close>

definition string_flag :: "string \<Rightarrow> string option \<Rightarrow> string" where
  "string_flag initial given = (case given of None \<Rightarrow> initial | Some v \<Rightarrow> v)"

section \<open>netkit-ipv6\<close>

definition netkit_main :: "main_env \<Rightarrow> string option \<Rightarrow> nat \<times> nk_log" where
  "netkit_main env name =
     (case run env (string_flag ''nk0'' name) of
        (Some err, log) \<Rightarrow> (1, log)
      | (None, log) \<Rightarrow> (0, log))"

section \<open>The flow example's loader\<close>

text \<open>The generated loader is a parameter: an error, or the objects.\<close>

definition loadObjects :: "errno + 'objs \<Rightarrow> errno + 'objs" where
  "loadObjects LoadProbeObjects = (case LoadProbeObjects of Inl err \<Rightarrow> Inl err | Inr objs \<Rightarrow> Inr objs)"

definition flow_main :: "errno + 'objs \<Rightarrow> nat \<times> errno list" where
  "flow_main LoadProbeObjects =
     (case loadObjects LoadProbeObjects of
        Inl err \<Rightarrow> (1, [err])
      | Inr _ \<Rightarrow> (0, []))"

section \<open>The flow example's command\<close>

datatype flat_output =
  CouldNotFind string errno
  | FailedFetching
  | InterfaceLine nat string

fun number_interfaces :: "nat \<Rightarrow> string list \<Rightarrow> flat_output list" where
  "number_interfaces i [] = []"
| "number_interfaces i (name # names) = InterfaceLine i name # number_interfaces (Suc i) names"

text \<open>\<open>Inl\<close> is the exit status of \<^verbatim>\<open>log.Fatal\<close>, after which nothing runs.\<close>

definition displayInterfaces :: "errno + string list \<Rightarrow> (nat + unit) \<times> flat_output list" where
  "displayInterfaces Interfaces =
     (case Interfaces of
        Inl err \<Rightarrow> (Inl 1, [FailedFetching])
      | Inr names \<Rightarrow> (Inr (), number_interfaces 0 names))"

definition flat_main ::
  "(string \<Rightarrow> errno + link) \<Rightarrow> errno + string list \<Rightarrow> string option \<Rightarrow> (nat + link) \<times> flat_output list" where
  "flat_main link_by_name Interfaces i =
     (let name = string_flag ''etho'' i
      in case link_by_name name of
           Inl err \<Rightarrow>
             (case displayInterfaces Interfaces of
                (Inl status, out) \<Rightarrow> (Inl status, CouldNotFind name err # out)
              | (Inr _, out) \<Rightarrow> (Inl 1, CouldNotFind name err # out))
         | Inr iface \<Rightarrow> (Inr iface, []))"

lemma number_interfaces_eq:
  "number_interfaces i names = map (\<lambda>(j, name). InterfaceLine j name) (enumerate i names)"
  by (induction names arbitrary: i) simp_all

section \<open>Properties\<close>

text \<open>The commands report failure by their exit status, and the netkit program has released
  everything by then: its status is 0 exactly when run returned no error. The flow command
  reaches its signal handler exactly when the interface exists, and otherwise ends with status 1
  after naming the interface it looked for, etho unless told otherwise, and numbering those
  there are.\<close>

lemma commands_exit:
  "nest [] (snd (netkit_main env name)) = Some [] \<and>
   fst (netkit_main env name) = (if fst (run env (string_flag ''nk0'' name)) = None then 0 else 1) \<and>
   fst (flow_main loaded) = (case loaded of Inl err \<Rightarrow> 1 | Inr objs \<Rightarrow> 0) \<and>
   flat_main lookup ifs i =
     (case lookup (string_flag ''etho'' i) of
        Inr iface \<Rightarrow> (Inr iface, [])
      | Inl err \<Rightarrow> (Inl 1, CouldNotFind (string_flag ''etho'' i) err #
          (case ifs of Inl e \<Rightarrow> [FailedFetching]
           | Inr names \<Rightarrow> map (\<lambda>(j, n). InterfaceLine j n) (enumerate 0 names))))"
proof -
  have "nest [] (snd (netkit_main env name)) = Some []"
    using nest_run [of env "string_flag ''nk0'' name"]
    by (auto simp: netkit_main_def split: prod.split option.split)
  then show ?thesis
    by (auto simp: netkit_main_def flow_main_def loadObjects_def flat_main_def displayInterfaces_def
        Let_def number_interfaces_eq split: prod.split option.split sum.split)
qed

end
