(* ===== verification/Counter.thy ===== *)
theory Counter
  imports Bpf Resources
begin

text \<open>
  The packet counter: the XDP program of \<^verbatim>\<open>examples/ip-counter/bytecode/counter.c\<close>, its
  executions interleaved on several processors, and the polling program of
  \<^verbatim>\<open>examples/ip-counter/main.go\<close>.
\<close>

section \<open>The XDP program\<close>

text \<open>
  The array map is a parameter: \<open>lookup\<close> gives the address of the value of a key, if the
  key is in range; \<open>cells\<close> is the memory of the values.
\<close>

definition count_packets :: "(u32 \<Rightarrow> 'a option) \<Rightarrow> unit \<Rightarrow> ('a \<Rightarrow> u64) \<Rightarrow> (u32 \<times> ('a \<Rightarrow> u64)) option" where
  "count_packets lookup ctx cells =
     (let key = 0 in
      case lookup key of
        None \<Rightarrow> Some (XDP_PASS, cells)
      | Some count \<Rightarrow> Some (XDP_PASS, cells(count := cells count + 1)))"

interpretation count_hook: bpf_hook "count_packets lookup" XDP_PASS for lookup :: "u32 \<Rightarrow> 'a option"
  by unfold_locales (simp add: count_packets_def Let_def split: option.split)

lemma count_effect:
  "lookup 0 = Some c \<Longrightarrow> count_hook.effect lookup () cells = cells(c := cells c + 1)"
  by (simp add: count_hook.effect_def count_packets_def Let_def)

lemma count_run:
  "lookup 0 = Some c \<Longrightarrow>
     fold (count_hook.effect lookup) us cells c = cells c + of_nat (length us)"
  by (induction us arbitrary: cells) (simp_all add: count_effect algebra_simps)

section \<open>Interleaved executions\<close>

text \<open>
  An invocation looks the counter up, then adds to it in one atomic step
  (\<^verbatim>\<open>__sync_fetch_and_add\<close>), then returns. Invocations \<open>0, \<dots>, n - 1\<close> run concurrently with a
  user-space reader that records the values it sees, newest first.
\<close>

datatype 'a xdp_pc = Entry | Found 'a | Returned

record 'a xdp_state =
  pcs :: "nat \<Rightarrow> 'a xdp_pc"
  cells :: "'a \<Rightarrow> u64"
  seen :: "u64 list"

inductive count_step :: "(u32 \<Rightarrow> 'a option) \<Rightarrow> nat \<Rightarrow> 'a xdp_state \<Rightarrow> 'a xdp_state \<Rightarrow> bool"
  for lookup :: "u32 \<Rightarrow> 'a option" and n :: nat where
  found: "i < n \<Longrightarrow> pcs s i = Entry \<Longrightarrow> lookup 0 = Some c \<Longrightarrow>
     count_step lookup n s (s\<lparr>pcs := (pcs s)(i := Found c)\<rparr>)"
| missing: "i < n \<Longrightarrow> pcs s i = Entry \<Longrightarrow> lookup 0 = None \<Longrightarrow>
     count_step lookup n s (s\<lparr>pcs := (pcs s)(i := Returned)\<rparr>)"
| fetch_and_add: "i < n \<Longrightarrow> pcs s i = Found c \<Longrightarrow>
     count_step lookup n s (s\<lparr>pcs := (pcs s)(i := Returned), cells := (cells s)(c := cells s c + 1)\<rparr>)"
| poll: "lookup 0 = Some c \<Longrightarrow>
     count_step lookup n s (s\<lparr>seen := cells s c # seen s\<rparr>)"

inductive_cases count_stepE: "count_step lookup n s t"

definition count_init :: "('a \<Rightarrow> u64) \<Rightarrow> 'a xdp_state" where
  "count_init m = \<lparr>pcs = (\<lambda>_. Entry), cells = m, seen = []\<rparr>"

inductive count_reach :: "(u32 \<Rightarrow> 'a option) \<Rightarrow> nat \<Rightarrow> ('a \<Rightarrow> u64) \<Rightarrow> 'a xdp_state \<Rightarrow> bool"
  for lookup n m where
  start: "count_reach lookup n m (count_init m)"
| step: "count_reach lookup n m s \<Longrightarrow> count_step lookup n s t \<Longrightarrow> count_reach lookup n m t"

definition returned :: "nat \<Rightarrow> (nat \<Rightarrow> 'a xdp_pc) \<Rightarrow> nat" where
  "returned n ps = card {i. i < n \<and> ps i = Returned}"

lemma returned_update [simp]:
  assumes "i < n" and "ps i \<noteq> Returned"
  shows "returned n (ps(i := Returned)) = Suc (returned n ps)"
proof -
  have "{j. j < n \<and> (ps(i := Returned)) j = Returned} = insert i {j. j < n \<and> ps j = Returned}"
    using assms(1) by auto
  then show ?thesis using assms(2) by (simp add: returned_def)
qed

lemma returned_keep [simp]:
  assumes "ps i \<noteq> Returned" and "p \<noteq> Returned"
  shows "returned n (ps(i := p)) = returned n ps"
proof -
  have "{j. j < n \<and> (ps(i := p)) j = Returned} = {j. j < n \<and> ps j = Returned}"
    using assms by auto
  then show ?thesis by (simp add: returned_def)
qed

text \<open>
  The invariant, for a counter that exists: pending invocations hold its address, the
  cell is ahead of its first value by the number of invocations that have returned, and
  what the reader saw is between the first value and the present one, in order.
\<close>

definition count_inv :: "'a \<Rightarrow> nat \<Rightarrow> ('a \<Rightarrow> u64) \<Rightarrow> 'a xdp_state \<Rightarrow> bool" where
  "count_inv c n m s \<longleftrightarrow>
     (\<forall>i. pcs s i \<in> {Entry, Found c, Returned}) \<and> cells s c = m c + of_nat (returned n (pcs s)) \<and>
     (\<forall>c'. c' \<noteq> c \<longrightarrow> cells s c' = m c')"

lemma returned_le: "returned n ps \<le> n"
proof -
  have "returned n ps \<le> card {i. i < n}"
    unfolding returned_def by (rule card_mono) auto
  then show ?thesis by simp
qed

lemma count_inv_init: "count_inv c n m (count_init m)"
  by (simp add: count_inv_def count_init_def returned_def)

lemma count_inv_step:
  assumes "count_step lookup n s t" and "lookup 0 = Some c" and "count_inv c n m s"
  shows "count_inv c n m t"
  using assms(1)
proof cases
  case (found i c')
  then show ?thesis
    using assms(2,3) by (auto simp: count_inv_def)
next
  case (missing i)
  then show ?thesis using assms(2) by simp
next
  case (fetch_and_add i c')
  have "pcs s i \<in> {Entry, Found c, Returned}"
    using assms(3) by (simp add: count_inv_def)
  with fetch_and_add(3) have "c' = c" by simp
  then show ?thesis
    using fetch_and_add assms(3) by (simp add: count_inv_def algebra_simps)
next
  case (poll c')
  then show ?thesis using assms(3) by (auto simp: count_inv_def)
qed

lemma count_reach_inv:
  "count_reach lookup n m s \<Longrightarrow> lookup 0 = Some c \<Longrightarrow> count_inv c n m s"
  by (induction rule: count_reach.induct) (auto intro: count_inv_init count_inv_step)

text \<open>What the reader saw, as long as the counter does not wrap around.\<close>

definition seen_inv :: "'a \<Rightarrow> nat \<Rightarrow> ('a \<Rightarrow> u64) \<Rightarrow> 'a xdp_state \<Rightarrow> bool" where
  "seen_inv c n m s \<longleftrightarrow> sorted_wrt (\<lambda>x y. unat y \<le> unat x) (cells s c # seen s) \<and>
     (\<forall>x \<in> set (seen s). unat (m c) \<le> unat x)"

lemma unat_cells:
  assumes "count_inv c n m s" and "unat (m c) + n < 2 ^ 64"
  shows "unat (cells s c) = unat (m c) + returned n (pcs s)"
proof -
  have "returned n (pcs s) \<le> n" by (rule returned_le)
  then have "unat (m c + of_nat (returned n (pcs s))) = unat (m c) + returned n (pcs s)"
    using assms(2) by (simp add: unat_of_nat unat_word_ariths)
  then show ?thesis using assms(1) by (simp add: count_inv_def)
qed

lemma returned_mono: "count_step lookup n s t \<Longrightarrow> returned n (pcs s) \<le> returned n (pcs t)"
  by (erule count_stepE) simp_all

lemma seen_inv_step:
  assumes "count_step lookup n s t" and "lookup 0 = Some c" and "count_inv c n m s"
    and "unat (m c) + n < 2 ^ 64" and "seen_inv c n m s"
  shows "seen_inv c n m t"
proof -
  have "unat (cells s c) \<le> unat (cells t c)"
    using unat_cells [OF assms(3,4)] unat_cells [OF count_inv_step [OF assms(1,2,3)] assms(4)]
      returned_mono [OF assms(1)] by simp
  moreover have "seen t = seen s \<or> seen t = cells s c # seen s"
    using assms(1,2) by (auto elim!: count_stepE)
  moreover have "unat (m c) \<le> unat (cells s c)"
    using unat_cells [OF assms(3,4)] by simp
  ultimately show ?thesis
    using assms(5) by (auto simp: seen_inv_def intro: le_trans)
qed

lemma count_reach_seen:
  "count_reach lookup n m s \<Longrightarrow> lookup 0 = Some c \<Longrightarrow> unat (m c) + n < 2 ^ 64 \<Longrightarrow> seen_inv c n m s"
proof (induction rule: count_reach.induct)
  case start
  then show ?case by (simp add: seen_inv_def count_init_def)
next
  case (step s t)
  then show ?case
    using seen_inv_step [OF step.hyps(2)] count_reach_inv [OF step.hyps(1)] by simp
qed

section \<open>Properties\<close>

text \<open>Run one after the other, n invocations pass n packets and add n to the counter.\<close>

lemma counter_sequential:
  assumes "lookup 0 = Some c"
  shows "\<exists>m'. run_hook (count_packets lookup) (replicate n ()) m = Some (replicate n XDP_PASS, m') \<and>
    m' c = m c + of_nat n"
  using count_hook.run_eq [of lookup "replicate n ()" m] count_run [of lookup c "replicate n ()" m] assms
  by simp

definition one_cell :: "u32 \<Rightarrow> unit option" where
  "one_cell key = (if key = 0 then Some () else None)"

text \<open>C10: no interleaving of n concurrent invocations loses a count: in every reachable state the
  counter is its first value plus the number of invocations that have returned, modulo 2^64, and
  no other cell of the map has changed.\<close>

theorem counter_concurrent:
  assumes "count_reach lookup n m s" and "lookup 0 = Some c"
  shows "cells s c = m c + of_nat (returned n (pcs s)) \<and> {c'. cells s c' \<noteq> m c'} \<subseteq> {c}"
  using count_reach_inv [OF assms] by (auto simp: count_inv_def)

text \<open>Two invocations look the counter up before either adds to it.\<close>

definition raced :: "unit xdp_state" where
  "raced = \<lparr>pcs = (\<lambda>_. Entry)(0 := Returned, 1 := Returned), cells = (\<lambda>_. 2), seen = []\<rparr>"

lemma raced_reachable: "count_reach one_cell 2 (\<lambda>_. 0) raced"
proof -
  let ?s0 = "count_init (\<lambda>_ :: unit. 0)"
  let ?s1 = "?s0\<lparr>pcs := (pcs ?s0)(0 := Found ())\<rparr>"
  let ?s2 = "?s1\<lparr>pcs := (pcs ?s1)(1 := Found ())\<rparr>"
  let ?s3 = "?s2\<lparr>pcs := (pcs ?s2)(0 := Returned), cells := (cells ?s2)(() := cells ?s2 () + 1)\<rparr>"
  let ?s4 = "?s3\<lparr>pcs := (pcs ?s3)(1 := Returned), cells := (cells ?s3)(() := cells ?s3 () + 1)\<rparr>"
  have "count_step one_cell 2 ?s0 ?s1" "count_step one_cell 2 ?s1 ?s2"
    by (rule count_step.found; simp add: one_cell_def count_init_def)+
  note s2 = count_reach.step [OF count_reach.step [OF count_reach.start this(1)] this(2)]
  have "count_step one_cell 2 ?s2 ?s3" "count_step one_cell 2 ?s3 ?s4"
    by (rule count_step.fetch_and_add; simp add: count_init_def)+
  note s4 = count_reach.step [OF count_reach.step [OF s2 this(1)] this(2)]
  have "?s4 = raced"
    by (simp add: raced_def count_init_def fun_eq_iff)
  then show ?thesis using s4 by (rule subst)
qed

lemma counter_concurrent_witness:
  "count_reach one_cell 2 (\<lambda>_. 0) raced \<and> cells raced () = 0 + of_nat (returned 2 (pcs raced))"
  using counter_concurrent [OF raced_reachable, of "()"] raced_reachable by (simp add: one_cell_def)

text \<open>As long as the counter cannot wrap around, a reader that polls it while packets are
  counted sees a sequence that never decreases, never falls below the first value, and never
  exceeds the number of invocations started.\<close>

lemma counter_readings_monotone:
  assumes "count_reach lookup n m s" and "lookup 0 = Some c" and "unat (m c) + n < 2 ^ 64"
  shows "sorted (map unat (rev (seen s))) \<and>
    set (map unat (seen s)) \<subseteq> {unat (m c) .. unat (m c) + n}"
proof -
  have "seen_inv c n m s" by (rule count_reach_seen [OF assms])
  moreover have "unat (cells s c) \<le> unat (m c) + n"
    using unat_cells [OF count_reach_inv [OF assms(1,2)] assms(3)] returned_le [of n "pcs s"] by simp
  ultimately have "sorted_wrt (\<lambda>x y. unat y \<le> unat x) (seen s)"
    and "\<forall>x \<in> set (seen s). unat (m c) \<le> unat x \<and> unat x \<le> unat (m c) + n"
    by (auto simp: seen_inv_def)
  then show ?thesis by (auto simp: sorted_wrt_map sorted_wrt_rev)
qed

lemma raced_read: "count_reach one_cell 2 (\<lambda>_. 0) (raced\<lparr>seen := [2, 2]\<rparr>)"
proof -
  have s: "count_step one_cell 2 raced (raced\<lparr>seen := [2]\<rparr>)"
    using count_step.poll [of one_cell "()" 2 raced] by (simp add: one_cell_def raced_def)
  have "count_step one_cell 2 (raced\<lparr>seen := [2]\<rparr>) (raced\<lparr>seen := [2, 2]\<rparr>)"
    using count_step.poll [of one_cell "()" 2 "raced\<lparr>seen := [2]\<rparr>"] by (simp add: one_cell_def raced_def)
  then show ?thesis by (rule count_reach.step [OF count_reach.step [OF raced_reachable s]])
qed

lemma counter_readings_monotone_witness:
  "sorted (map unat (rev (seen (raced\<lparr>seen := [2, 2]\<rparr>)))) \<and>
   set (map unat (seen (raced\<lparr>seen := [2, 2]\<rparr>))) \<subseteq> {0..2}"
  using counter_readings_monotone [OF raced_read, of "()"] by (simp add: one_cell_def)

section \<open>Every invocation returns\<close>

text \<open>
  Runs as lists of states, and the work that is left: two steps of an invocation that has
  not started, one of an invocation that holds the address of the counter. A poll does not
  change the work, every other step does one unit of it.
\<close>

fun count_path :: "(u32 \<Rightarrow> 'a option) \<Rightarrow> nat \<Rightarrow> 'a xdp_state \<Rightarrow> 'a xdp_state list \<Rightarrow> bool" where
  "count_path lookup n s [] = True"
| "count_path lookup n s (t # ts) = (count_step lookup n s t \<and> count_path lookup n t ts)"

fun pc_work :: "'a xdp_pc \<Rightarrow> nat" where
  "pc_work Entry = 2"
| "pc_work (Found c) = 1"
| "pc_work Returned = 0"

definition work :: "nat \<Rightarrow> 'a xdp_state \<Rightarrow> nat" where
  "work n s = (\<Sum>i<n. pc_work (pcs s i))"

lemma work_0_iff: "work n s = 0 \<longleftrightarrow> returned n (pcs s) = n"
proof -
  have "pc_work p = 0 \<longleftrightarrow> p = Returned" for p :: "'a xdp_pc" by (cases p) simp_all
  then have "work n s = 0 \<longleftrightarrow> {i. i < n \<and> pcs s i = Returned} = {..<n}"
    by (auto simp: work_def)
  also have "\<dots> \<longleftrightarrow> card {i. i < n \<and> pcs s i = Returned} = card {..<n}"
  proof
    assume "card {i. i < n \<and> pcs s i = Returned} = card {..<n}"
    then show "{i. i < n \<and> pcs s i = Returned} = {..<n}"
      by (intro card_subset_eq) auto
  qed (rule arg_cong [where f = card])
  finally show ?thesis by (simp add: returned_def)
qed

lemma sum_pc_work_update:
  fixes ps :: "nat \<Rightarrow> 'a xdp_pc"
  assumes "i < n"
  shows "(\<Sum>j<n. pc_work ((ps(i := p)) j)) + pc_work (ps i) = (\<Sum>j<n. pc_work (ps j)) + pc_work p"
proof -
  have "(\<Sum>j<n. pc_work (f j)) = pc_work (f i) + (\<Sum>j\<in>{..<n} - {i}. pc_work (f j))"
    for f :: "nat \<Rightarrow> 'a xdp_pc"
    using assms by (subst sum.remove [of _ i]) auto
  note this [of ps] this [of "ps(i := p)"]
  moreover have "(\<Sum>j\<in>{..<n} - {i}. pc_work ((ps(i := p)) j)) = (\<Sum>j\<in>{..<n} - {i}. pc_work (ps j))"
    by (rule sum.cong) auto
  ultimately show ?thesis by simp
qed

lemma work_step:
  assumes "count_step lookup n s t"
  shows "work n t < work n s \<or> pcs t = pcs s"
  using assms
proof cases
  case (found i c)
  then show ?thesis using sum_pc_work_update [of i n "pcs s" "Found c"] by (simp add: work_def)
next
  case (missing i)
  then show ?thesis using sum_pc_work_update [of i n "pcs s" Returned] by (simp add: work_def)
next
  case (fetch_and_add i c)
  then show ?thesis using sum_pc_work_update [of i n "pcs s" Returned] by (simp add: work_def)
qed simp

lemma work_enabled:
  assumes "work n s \<noteq> 0"
  obtains t where "count_step lookup n s t" and "work n t < work n s"
proof -
  obtain i where i: "i < n" "pcs s i \<noteq> Returned"
    using assms that unfolding work_def by (metis lessThan_iff pc_work.simps(3) sum.neutral)
  obtain t where t: "count_step lookup n s t" "pcs t \<noteq> pcs s"
  proof (cases "pcs s i")
    case Entry
    then show ?thesis
      using that count_step.found [of i n s lookup] count_step.missing [of i n s lookup] i
      by (cases "lookup 0") (force simp: fun_eq_iff)+
  next
    case (Found c)
    have "count_step lookup n s (s\<lparr>pcs := (pcs s)(i := Returned), cells := (cells s)(c := cells s c + 1)\<rparr>)"
      using count_step.fetch_and_add [of i n s c lookup] i Found by simp
    then show ?thesis by (rule that) (use i Found in \<open>auto simp: fun_eq_iff\<close>)
  qed (use i in simp)
  then show ?thesis using that work_step by blast
qed

text \<open>No invocation waits for another: from every state a schedule lets all invocations
  return, within at most two steps for each that has not, whatever the reader does in between;
  and no schedule can put off the work, since every step other than a poll does some of it.\<close>

lemma counter_all_return:
  "(\<exists>ts. count_path lookup n s ts \<and> length ts \<le> work n s \<and> returned n (pcs (last (s # ts))) = n) \<and>
   {t. count_step lookup n s t \<and> work n t \<ge> work n s} \<subseteq> {t. pcs t = pcs s} \<and> work n s \<le> 2 * n"
proof (intro conjI)
  show "\<exists>ts. count_path lookup n s ts \<and> length ts \<le> work n s \<and> returned n (pcs (last (s # ts))) = n"
  proof (induction "work n s" arbitrary: s rule: less_induct)
    case less
    show ?case
    proof (cases "work n s = 0")
      case True
      then show ?thesis using work_0_iff [of n s] by (intro exI [of _ "[]"]) simp
    next
      case False
      then obtain t where t: "count_step lookup n s t" "work n t < work n s" by (rule work_enabled)
      from less [OF t(2)] obtain ts where "count_path lookup n t ts" "length ts \<le> work n t"
          "returned n (pcs (last (t # ts))) = n" by blast
      then show ?thesis using t by (intro exI [of _ "t # ts"]) simp
    qed
  qed
  show "{t. count_step lookup n s t \<and> work n t \<ge> work n s} \<subseteq> {t. pcs t = pcs s}"
    using work_step by (auto simp: not_less [symmetric])
  have "pc_work p \<le> 2" for p :: "'a xdp_pc" by (cases p) simp_all
  then show "work n s \<le> 2 * n"
    using sum_bounded_above [of "{..<n}" "\<lambda>i. pc_work (pcs s i)" 2] by (simp add: work_def)
qed

end
