(* ===== verification/Counter_Main.thy ===== *)
theory Counter_Main
  imports Counter
begin

text \<open>
  The user-space half of the packet counter, \<^verbatim>\<open>examples/ip-counter/main.go\<close>. An error ends
  the process by \<^verbatim>\<open>log.Fatal\<close>, which does not run deferred calls; only a signal returns
  from \<^verbatim>\<open>main\<close>.
\<close>

datatype cm_resource = CounterObjects | XdpLink
datatype cm_call = Counting string | Received u64 | Fatal string | Signalled

type_synonym cm_log = "(cm_resource, cm_call) action list"

record counter_env =
  memlock_fails :: bool
  load_fails :: bool
  interface :: "string \<Rightarrow> int option"
  attach_fails :: "int \<Rightarrow> bool"

text \<open>
  What the select statement receives: a tick, with what the map lookup then returns, or an
  interrupt. The log lines are the counts read.
\<close>

datatype cm_event = Tick "u64 option" | Interrupt

datatype cm_exit = Exited | Died | Polling

fun poll_loop :: "cm_event list \<Rightarrow> cm_exit \<times> cm_log" where
  "poll_loop [] = (Polling, [])"
| "poll_loop (Tick None # es) = (Died, [Do (Fatal ''Map lookup:'')])"
| "poll_loop (Tick (Some count) # es) = after [Do (Received count)] (poll_loop es)"
| "poll_loop (Interrupt # es) = (Exited, [Do Signalled])"

text \<open>A deferred call runs only when the function returns.\<close>

definition on_return :: "cm_log \<Rightarrow> cm_exit \<times> cm_log \<Rightarrow> cm_exit \<times> cm_log" where
  "on_return cleanup body = (if fst body = Exited then with_defer cleanup body else body)"

definition counter_main :: "counter_env \<Rightarrow> cm_event list \<Rightarrow> cm_exit \<times> cm_log" where
  "counter_main env events =
     (if memlock_fails env then (Died, [Do (Fatal ''Removing memlock:'')])
      else if load_fails env then (Died, [Do (Fatal ''Loading eBPF objects:'')])
      else after [Acquire CounterObjects] (on_return [Release CounterObjects]
        (case interface env ''eth0'' of
           None \<Rightarrow> (Died, [Do (Fatal ''Getting interface eth0: '')])
         | Some idx \<Rightarrow>
             if attach_fails env idx then (Died, [Do (Fatal ''Attaching XDP:'')])
             else after [Acquire XdpLink] (on_return [Release XdpLink]
               (after [Do (Counting ''eth0'')] (poll_loop events))))))"

fun received :: "cm_log \<Rightarrow> u64 list" where
  "received [] = []"
| "received (Do (Received n) # as) = n # received as"
| "received (a # as) = received as"

lemma on_return_simps [simp]:
  "fst (on_return c b) = fst b"
  "snd (on_return c b) = snd b @ (if fst b = Exited then c else [])"
  by (auto simp: on_return_def)

lemma nest_poll: "nest st (snd (poll_loop es)) = Some st"
  by (induction es rule: poll_loop.induct) auto

text \<open>What the process holds when it ends, or at the point it has reached.\<close>

definition counter_held :: "cm_exit \<times> cm_resource list \<Rightarrow> cm_resource list" where
  "counter_held r = (if fst r = Exited then [] else snd r)"

definition counter_run :: "counter_env \<times> cm_event list \<Rightarrow> (cm_exit \<times> cm_resource list) \<times> cm_log" where
  "counter_run e =
     (let r = counter_main (fst e) (snd e) in ((fst r, rev (acquired (snd r))), snd r))"

lemma acquired_poll: "acquired (snd (poll_loop es)) = []"
  by (induction es rule: poll_loop.induct) auto

interpretation counter_prog: resource_program counter_run counter_held
  by unfold_locales
    (auto simp: counter_run_def counter_held_def counter_main_def nest_append nest_poll acquired_poll
      split: prod.split option.split)

lemma counter_main_exits_iff:
  "fst (counter_main env es) = Exited \<longleftrightarrow>
     \<not> memlock_fails env \<and> \<not> load_fails env \<and>
     (\<exists>idx. interface env ''eth0'' = Some idx \<and> \<not> attach_fails env idx) \<and>
     fst (poll_loop es) = Exited"
  by (auto simp: counter_main_def split: option.split)

lemma poll_loop_exited:
  "fst (poll_loop es) = Exited \<longleftrightarrow>
     (\<exists>ns rest. es = map (\<lambda>n. Tick (Some n)) ns @ Interrupt # rest)"
proof (induction es rule: poll_loop.induct)
  case (3 count es)
  show ?case
  proof
    assume "fst (poll_loop (Tick (Some count) # es)) = Exited"
    then obtain ns rest where "es = map (\<lambda>n. Tick (Some n)) ns @ Interrupt # rest" using 3 by auto
    then have "Tick (Some count) # es = map (\<lambda>n. Tick (Some n)) (count # ns) @ Interrupt # rest" by simp
    then show "\<exists>ns rest. Tick (Some count) # es = map (\<lambda>n. Tick (Some n)) ns @ Interrupt # rest" by blast
  next
    assume "\<exists>ns rest. Tick (Some count) # es = map (\<lambda>n. Tick (Some n)) ns @ Interrupt # rest"
    then obtain ns rest where "Tick (Some count) # es = map (\<lambda>n. Tick (Some n)) ns @ Interrupt # rest" by blast
    then show "fst (poll_loop (Tick (Some count) # es)) = Exited" using 3 by (cases ns) auto
  qed
qed (auto simp: Cons_eq_append_conv Cons_eq_map_conv intro: exI [of _ "[]"])

section \<open>Properties\<close>

lemma poll_log:
  "released (snd (poll_loop es)) = []"
  "fst (poll_loop es) = Exited \<Longrightarrow>
     \<exists>ns rest. es = map (\<lambda>n. Tick (Some n)) ns @ Interrupt # rest \<and> received (snd (poll_loop es)) = ns"
proof (induction es rule: poll_loop.induct)
  case (3 count es)
  {
    case 1
    then show ?case using 3 by simp
  next
    case 2
    then obtain ns rest where "es = map (\<lambda>n. Tick (Some n)) ns @ Interrupt # rest"
        "received (snd (poll_loop es)) = ns"
      using 3 by auto
    then show ?case by (intro exI [of _ "count # ns"]) auto
  }
qed (auto intro: exI [of _ "[]"])

lemma received_snoc: "received (as @ [Release r]) = received as"
  by (induction as rule: received.induct) auto

text \<open>C37: an interrupt ends the program with its readings printed, the link detached and the
  objects closed, in this order; whenever a call fails instead, the program dies by a fatal log
  and nothing it acquired is released.\<close>

theorem counter_main_cleanup:
  "let (exit, log) = counter_main env es in
   if exit = Exited
   then (\<exists>ns rest. es = map (\<lambda>n. Tick (Some n)) ns @ Interrupt # rest \<and> received log = ns) \<and>
     acquired log = [CounterObjects, XdpLink] \<and> released log = [XdpLink, CounterObjects]
   else released log = []"
proof -
  have "received (snd (poll_loop es) @ [Release XdpLink, Release CounterObjects]) = received (snd (poll_loop es))"
    using received_snoc [of "snd (poll_loop es) @ [Release XdpLink]" CounterObjects]
      received_snoc [of "snd (poll_loop es)" XdpLink] by simp
  then show ?thesis
    using poll_log [of es]
    by (auto simp: counter_main_def split_beta Let_def acquired_poll split: option.split)
qed

text \<open>The program leaves its loop only through an interrupt that follows nothing but successful
  readings, with every step of its set-up successful.\<close>

lemma counter_main_exits:
  "fst (counter_main env es) = Exited \<longleftrightarrow>
     \<not> memlock_fails env \<and> \<not> load_fails env \<and>
     (\<exists>idx. interface env ''eth0'' = Some idx \<and> \<not> attach_fails env idx) \<and>
     (\<exists>ns rest. es = map (\<lambda>n. Tick (Some n)) ns @ Interrupt # rest)"
  by (simp add: counter_main_exits_iff poll_loop_exited)

end
