(* ===== verification/Counter_Text.thy ===== *)
theory Counter_Text
  imports Counter_Main Go_Text
begin

text \<open>
  The log lines of \<^verbatim>\<open>examples/ip-counter/main.go\<close>, without the date the logger puts before each,
  and what a reader of the terminal can tell from them about the packets.
\<close>

section \<open>Lines\<close>

text \<open>What the library says of the failing call follows the words of a fatal message.\<close>

fun message_text :: "(string \<Rightarrow> string) \<Rightarrow> cm_call \<Rightarrow> string" where
  "message_text err (Counting ifname) = ''Counting incoming packets on '' @ ifname @ ''..''"
| "message_text err (Received count) = ''Received '' @ decimal (unat count) @ '' packets''"
| "message_text err (Fatal words) = words @ err words"
| "message_text err Signalled = ''Received signal, exiting..''"

fun messages :: "cm_log \<Rightarrow> cm_call list" where
  "messages [] = []"
| "messages (Do m # as) = m # messages as"
| "messages (a # as) = messages as"

definition read_count :: "string \<Rightarrow> u64 option" where
  "read_count s =
     (case split_at CHR '' '' s of
        [w, n, p] \<Rightarrow> if w = ''Received'' \<and> p = ''packets'' then Some (of_nat (read_numeral 10 n)) else None
      | _ \<Rightarrow> None)"

lemma messages_append [simp]: "messages (as @ bs) = messages as @ messages bs"
  by (induction as rule: messages.induct) auto

lemma blank_free: "CHR '' '' \<notin> set (decimal n)"
  by (rule numeral_text_avoids) (simp_all add: digit_chars_def)

lemma read_count_text:
  "read_count (message_text err (Received n)) = Some n"
  "read_count (message_text err Signalled) = None"
  "read_count (message_text err (Counting ''eth0'')) = None"
proof -
  have "split_at CHR '' '' (''Received'' @ CHR '' '' # (decimal (unat n) @ CHR '' '' # ''packets'')) =
      [''Received'', decimal (unat n), ''packets'']"
    by (subst split_at_append, simp, subst split_at_append) (simp_all add: blank_free split_at_word)
  then show "read_count (message_text err (Received n)) = Some n"
    by (simp add: read_count_def read_numeral_text)
qed (simp_all add: read_count_def)

lemma poll_messages:
  "messages (snd (poll_loop (map (Tick \<circ> Some) ns @ [Interrupt]))) = map Received ns @ [Signalled]"
  by (induction ns) simp_all

lemma poll_exits: "fst (poll_loop (map (Tick \<circ> Some) ns @ [Interrupt])) = Exited"
  by (induction ns) simp_all

text \<open>The text of a whole run.\<close>

definition counter_output :: "(string \<Rightarrow> string) \<Rightarrow> counter_env \<Rightarrow> cm_event list \<Rightarrow> string list" where
  "counter_output err env es = map (message_text err) (messages (snd (counter_main env es)))"

definition set_up_ok :: "counter_env \<Rightarrow> bool" where
  "set_up_ok env \<longleftrightarrow> \<not> memlock_fails env \<and> \<not> load_fails env \<and>
     (case interface env ''eth0'' of None \<Rightarrow> False | Some idx \<Rightarrow> \<not> attach_fails env idx)"

lemma counter_output_eq:
  assumes "set_up_ok env"
  shows "counter_output err env (map (Tick \<circ> Some) ns @ [Interrupt]) =
    map (message_text err) (Counting ''eth0'' # map Received ns @ [Signalled])"
  using assms poll_messages [of ns] poll_exits [of ns]
  by (auto simp: counter_output_def counter_main_def set_up_ok_def split: option.splits)

lemma counts_in_output:
  "List.map_filter read_count (map (message_text err) (Counting ''eth0'' # map Received ns @ [Signalled])) = ns"
proof -
  have "List.map_filter read_count (map (message_text err) (map Received ns @ [Signalled])) = ns"
    by (induction ns) (simp_all add: map_filter_simps read_count_text del: message_text.simps)
  then show ?thesis by (simp add: map_filter_simps read_count_text del: message_text.simps)
qed

section \<open>Properties\<close>

text \<open>C11: whatever the interleaving of packets on several processors with the polling program, the
  numbers it prints are exactly what it read, never decrease, and lie between the count at its
  start and that count plus the packets there were, as long as the counter does not wrap around.\<close>

theorem counter_output_monotone:
  assumes "count_reach lookup n m s" and "lookup 0 = Some c" and "unat (m c) + n < 2 ^ 64"
    and "set_up_ok env"
  shows "let counts = List.map_filter read_count (counter_output err env (map (Tick \<circ> Some) (rev (seen s)) @ [Interrupt]))
    in counts = rev (seen s) \<and> sorted (map unat counts) \<and> set (map unat counts) \<subseteq> {unat (m c) .. unat (m c) + n}"
  unfolding counter_output_eq [OF assms(4)] counts_in_output Let_def
  using counter_readings_monotone [OF assms(1-3)] by simp

text \<open>The witness: two packets at once, and two readings after them.\<close>

definition quiet_env :: counter_env where
  "quiet_env = \<lparr>memlock_fails = False, load_fails = False, interface = (\<lambda>_. Some 2), attach_fails = (\<lambda>_. False)\<rparr>"

lemma counter_output_monotone_witness:
  "List.map_filter read_count (counter_output (\<lambda>_. []) quiet_env
     (map (Tick \<circ> Some) (rev (seen (raced\<lparr>seen := [2, 2]\<rparr>))) @ [Interrupt])) = [2, 2]"
  using counter_output_monotone [OF raced_read, of "()" quiet_env "\<lambda>_. []"]
  by (simp add: one_cell_def quiet_env_def set_up_ok_def Let_def)

end
