(* ===== verification/Loader.thy ===== *)
theory Loader
  imports Resources
begin

text \<open>
  The user-space loader of \<^verbatim>\<open>examples/trace-kills/loader.c\<close>: open, find, load, attach,
  then sleep for ever, with a cleanup block reached by \<^verbatim>\<open>goto\<close>.
\<close>

datatype loader_resource = BpfObject | BpfLink
datatype loader_call = OpenFile string | FindProgram string | LoadObject | AttachProgram | Stderr string

type_synonym loader_log = "(loader_resource, loader_call) action list"

text \<open>What the libbpf calls return: error codes (0 is success) and whether the program is found.\<close>

record libbpf_env =
  open_error :: int
  find_program :: "string \<Rightarrow> bool"
  load_error :: int
  attach_error :: int

text \<open>\<^verbatim>\<open>while (1) sleep(1)\<close>: no exit, so no value.\<close>

partial_function (option) sleep_forever :: "nat \<Rightarrow> int option" where
  "sleep_forever n = sleep_forever (n + 1)"

text \<open>The label \<^verbatim>\<open>cleanup\<close>; destroying a null link does nothing.\<close>

definition cleanup :: "bool \<Rightarrow> loader_log" where
  "cleanup has_link = (if has_link then [Release BpfLink] else []) @ [Release BpfObject]"

definition loader_main :: "libbpf_env \<Rightarrow> int option \<times> loader_log" where
  "loader_main env =
     (let path = ''bytecode/kill.o''; err = -1 in
      if open_error env \<noteq> 0
      then (Some err, [Do (OpenFile path), Do (Stderr ''ERROR: opening BPF object file failed'')])
      else after [Do (OpenFile path), Acquire BpfObject, Do (FindProgram ''kill_example'')]
        (if \<not> find_program env ''kill_example''
         then with_defer (cleanup False)
           (Some err, [Do (Stderr ''ERROR: finding a program with name 'kill_example' failed'')])
         else after [Do LoadObject]
           (if load_error env \<noteq> 0
            then with_defer (cleanup False) (Some err, [Do (Stderr ''ERROR: loading BPF object failed'')])
            else after [Do AttachProgram]
              (if attach_error env \<noteq> 0
               then with_defer (cleanup False)
                 (Some err, [Do (Stderr ''ERROR: attaching BPF program failed'')])
               else after [Acquire BpfLink]
                 (case sleep_forever 0 of
                    None \<Rightarrow> (None, [])
                  | Some _ \<Rightarrow> with_defer (cleanup True) (Some 0, []))))))"

lemma sleep_forever_diverges: "sleep_forever n = None"
proof -
  have "\<And>y. sleep_forever n = Some y \<Longrightarrow> False"
    by (rule sleep_forever.raw_induct [where P = "\<lambda>_ _. False"]) auto
  then show ?thesis by (cases "sleep_forever n") auto
qed

text \<open>A process that never returns keeps its object and its link.\<close>

fun loader_held :: "int option \<Rightarrow> loader_resource list" where
  "loader_held None = [BpfLink, BpfObject]"
| "loader_held (Some rc) = []"

interpretation loader: resource_program loader_main loader_held
  by unfold_locales (simp add: loader_main_def Let_def cleanup_def sleep_forever_diverges)

lemma loader_main_result:
  "fst (loader_main env) =
     (if open_error env = 0 \<and> find_program env ''kill_example'' \<and> load_error env = 0 \<and> attach_error env = 0
      then None else Some (-1))"
  by (simp add: loader_main_def Let_def sleep_forever_diverges)

section \<open>Properties\<close>

text \<open>The loader returns, with -1, exactly when one of its four steps fails; when all succeed
  it never returns, so that its success exit and the cleanup after it are not reached.\<close>

lemma loader_returns_iff:
  "fst (loader_main env) =
     (if open_error env \<noteq> 0 \<or> \<not> find_program env ''kill_example'' \<or> load_error env \<noteq> 0 \<or> attach_error env \<noteq> 0
      then Some (-1) else None)"
  by (simp add: loader_main_result)

text \<open>C38: on every path, what the loader acquired and did not give back is the link and the object
  of a loader that is still attached, and nothing once it has returned.\<close>

theorem loader_no_leak:
  "nest [] (snd (loader_main env)) =
     Some (if fst (loader_main env) = None then [BpfLink, BpfObject] else [])"
  using loader.nested [of env] by (cases "fst (loader_main env)") simp_all

end
