(* ===== verification/C_Layout.thy ===== *)
theory C_Layout
  imports Xcnf_Prelude
begin

text \<open>
  Declarations of C types and the layout the C ABI gives them on the 64-bit little-endian
  targets of the repository: sizes, alignments and the bit position of every member, with
  bit fields, packed structures, unions and anonymous members. The type declarations of
  \<^verbatim>\<open>vmlinux.h\<close> are values of \<open>ctype\<close>.
\<close>

section \<open>Declarations\<close>

datatype comp_kind = Struct | Union

text \<open>
  A pointer keeps the text of its target, an enumeration its constants and whether it is
  declared one byte wide; an anonymous member has the empty name.
\<close>

datatype ctype =
    Scalar string nat
  | Ptr string
  | Array nat ctype
  | Enum bool "(string \<times> int) list"
  | Comp comp_kind bool "cmember list"
and cmember = Member string ctype | BitField string ctype nat

definition c_char :: ctype where "c_char = Scalar ''char'' 1"
definition c_signed_char :: ctype where "c_signed_char = Scalar ''signed char'' 1"
definition c_unsigned_char :: ctype where "c_unsigned_char = Scalar ''unsigned char'' 1"
definition c_bool :: ctype where "c_bool = Scalar ''_Bool'' 1"
definition c_short :: ctype where "c_short = Scalar ''short'' 2"
definition c_unsigned_short :: ctype where "c_unsigned_short = Scalar ''unsigned short'' 2"
definition c_int :: ctype where "c_int = Scalar ''int'' 4"
definition c_unsigned_int :: ctype where "c_unsigned_int = Scalar ''unsigned int'' 4"
definition c_long :: ctype where "c_long = Scalar ''long'' 8"
definition c_unsigned_long :: ctype where "c_unsigned_long = Scalar ''unsigned long'' 8"
definition c_long_long :: ctype where "c_long_long = Scalar ''long long'' 8"
definition c_unsigned_long_long :: ctype where "c_unsigned_long_long = Scalar ''unsigned long long'' 8"
definition c_int128 :: ctype where "c_int128 = Scalar ''__int128'' 16"
definition c_unsigned_int128 :: ctype where "c_unsigned_int128 = Scalar ''unsigned __int128'' 16"

lemmas c_base = c_char_def c_signed_char_def c_unsigned_char_def c_bool_def c_short_def
  c_unsigned_short_def c_int_def c_unsigned_int_def c_long_def c_unsigned_long_def
  c_long_long_def c_unsigned_long_long_def c_int128_def c_unsigned_int128_def

section \<open>Layout\<close>

definition round_up :: "nat \<Rightarrow> nat \<Rightarrow> nat" where
  "round_up n a = (n + (a - 1)) div a * a"

text \<open>What placing a member needs to know of it: size and alignment in bytes, bit width.\<close>

datatype shape = Whole nat nat | Bits bool nat nat nat

fun shape_align :: "bool \<Rightarrow> shape \<Rightarrow> nat" where
  "shape_align packed (Whole s a) = (if packed then 1 else a)"
| "shape_align packed (Bits named s a w) = (if packed \<or> \<not> named then 1 else a)"

fun shape_width :: "shape \<Rightarrow> nat" where
  "shape_width (Whole s a) = 8 * s"
| "shape_width (Bits named s a w) = w"

text \<open>
  The bit position of the next member after position \<open>pos\<close>: a whole member is aligned, a
  bit field is moved to the next unit of its type when it would straddle one, and a bit
  field of width zero closes the current unit.
\<close>

fun place :: "bool \<Rightarrow> nat \<Rightarrow> shape \<Rightarrow> nat" where
  "place packed pos (Whole s a) = round_up pos (8 * (if packed then 1 else a))"
| "place packed pos (Bits named s a w) =
     (if w = 0 then round_up pos (8 * s)
      else if packed \<or> pos div (8 * s) = (pos + w - 1) div (8 * s) then pos
      else round_up pos (8 * s))"

fun place_all :: "bool \<Rightarrow> nat \<Rightarrow> shape list \<Rightarrow> nat list" where
  "place_all packed pos [] = []"
| "place_all packed pos (s # ss) =
     place packed pos s # place_all packed (place packed pos s + shape_width s) ss"

fun end_of :: "bool \<Rightarrow> nat \<Rightarrow> shape list \<Rightarrow> nat" where
  "end_of packed pos [] = pos"
| "end_of packed pos (s # ss) = end_of packed (place packed pos s + shape_width s) ss"

definition comp_align :: "bool \<Rightarrow> shape list \<Rightarrow> nat" where
  "comp_align packed ss = fold max (map (shape_align packed) ss) 1"

definition comp_bits :: "comp_kind \<Rightarrow> bool \<Rightarrow> shape list \<Rightarrow> nat" where
  "comp_bits k packed ss =
     (case k of Struct \<Rightarrow> end_of packed 0 ss | Union \<Rightarrow> fold max (map shape_width ss) 0)"

definition comp_layout :: "comp_kind \<Rightarrow> bool \<Rightarrow> shape list \<Rightarrow> nat \<times> nat" where
  "comp_layout k packed ss =
     (round_up (comp_bits k packed ss) (8 * comp_align packed ss) div 8, comp_align packed ss)"

definition enum_size :: "bool \<Rightarrow> (string \<times> int) list \<Rightarrow> nat" where
  "enum_size byte es =
     (if byte then 1
      else if list_all (\<lambda>e. - 2147483648 \<le> snd e \<and> snd e < 4294967296) es then 4 else 8)"

fun size_align :: "ctype \<Rightarrow> nat \<times> nat" and member_shape :: "cmember \<Rightarrow> shape" where
  "size_align (Scalar nm s) = (s, s)"
| "size_align (Ptr target) = (8, 8)"
| "size_align (Array n t) = (let (s, a) = size_align t in (n * s, a))"
| "size_align (Enum byte es) = (enum_size byte es, enum_size byte es)"
| "size_align (Comp k packed ms) = comp_layout k packed (map member_shape ms)"
| "member_shape (Member nm t) = (let (s, a) = size_align t in Whole s a)"
| "member_shape (BitField nm t w) = (let (s, a) = size_align t in Bits (nm \<noteq> []) s a w)"

definition csizeof :: "ctype \<Rightarrow> nat" where "csizeof t = fst (size_align t)"
definition calignof :: "ctype \<Rightarrow> nat" where "calignof t = snd (size_align t)"

definition positions :: "comp_kind \<Rightarrow> bool \<Rightarrow> cmember list \<Rightarrow> nat list" where
  "positions k packed ms =
     (case k of
        Struct \<Rightarrow> place_all packed 0 (map member_shape ms)
      | Union \<Rightarrow> replicate (length ms) 0)"

fun member_name :: "cmember \<Rightarrow> string" where
  "member_name (Member nm t) = nm"
| "member_name (BitField nm t w) = nm"

text \<open>
  Looking a member up by name, as \<^verbatim>\<open>offsetof\<close> and a CO-RE relocation do: its bit position
  and width, found through anonymous structures and unions.
\<close>

fun find_member :: "ctype \<Rightarrow> string \<Rightarrow> (nat \<times> nat) option"
  and find_in :: "nat list \<Rightarrow> cmember list \<Rightarrow> string \<Rightarrow> (nat \<times> nat) option"
  and find_one :: "nat \<Rightarrow> cmember \<Rightarrow> string \<Rightarrow> (nat \<times> nat) option" where
  "find_member (Comp k packed ms) nm = find_in (positions k packed ms) ms nm"
| "find_member (Scalar n s) nm = None"
| "find_member (Ptr target) nm = None"
| "find_member (Array n t) nm = None"
| "find_member (Enum byte es) nm = None"
| "find_in ps [] nm = None"
| "find_in [] (m # ms) nm = None"
| "find_in (p # ps) (m # ms) nm =
     (case find_one p m nm of Some r \<Rightarrow> Some r | None \<Rightarrow> find_in ps ms nm)"
| "find_one p (Member mn t) nm =
     (if mn = nm then Some (p, 8 * csizeof t)
      else if mn = [] then map_option (\<lambda>(q, w). (p + q, w)) (find_member t nm) else None)"
| "find_one p (BitField mn t w) nm = (if mn = nm then Some (p, w) else None)"

text \<open>The bytes of a whole member in the memory image of a value of the type.\<close>

definition member_bytes :: "ctype \<Rightarrow> string \<Rightarrow> bytes \<Rightarrow> bytes option" where
  "member_bytes t nm bs =
     (case find_member t nm of
        None \<Rightarrow> None
      | Some (p, w) \<Rightarrow> if 8 dvd p \<and> 8 dvd w then load (p div 8) (w div 8) bs else None)"

definition member_bit :: "ctype \<Rightarrow> string \<Rightarrow> bytes \<Rightarrow> bool option" where
  "member_bit t nm bs =
     (case find_member t nm of
        None \<Rightarrow> None
      | Some (p, w) \<Rightarrow> if w = 1 \<and> p div 8 < length bs then Some (bit (bs ! (p div 8)) (p mod 8)) else None)"

lemmas layout_eval = round_up_def comp_align_def comp_bits_def comp_layout_def positions_def
  csizeof_def calignof_def c_base

section \<open>Well-formed declarations\<close>

fun shape_ok :: "shape \<Rightarrow> bool" where
  "shape_ok (Whole s a) = (0 < a)"
| "shape_ok (Bits named s a w) = (0 < s \<and> 0 < a)"

fun ctype_ok :: "ctype \<Rightarrow> bool" and cmember_ok :: "cmember \<Rightarrow> bool" where
  "ctype_ok (Scalar nm s) = (0 < s)"
| "ctype_ok (Ptr target) = True"
| "ctype_ok (Array n t) = ctype_ok t"
| "ctype_ok (Enum byte es) = True"
| "ctype_ok (Comp k packed ms) = list_all cmember_ok ms"
| "cmember_ok (Member nm t) = ctype_ok t"
| "cmember_ok (BitField nm t w) = (ctype_ok t \<and> 0 < csizeof t)"

lemma enum_size_pos [simp]: "0 < enum_size byte es"
  by (simp add: enum_size_def)

lemma list_all_replicate_iff [simp]: "list_all P (replicate n x) \<longleftrightarrow> n = 0 \<or> P x"
  by (induction n) auto

lemma le_round_up: "0 < a \<Longrightarrow> n \<le> round_up n a"
proof -
  assume a: "0 < a"
  have "n + (a - 1) = (n + (a - 1)) div a * a + (n + (a - 1)) mod a" by simp
  moreover have "(n + (a - 1)) mod a \<le> a - 1" using a by (simp add: less_eq_Suc_le [symmetric] Suc_pred flip: less_Suc_eq_le)
  ultimately show ?thesis unfolding round_up_def by linarith
qed

lemma dvd_round_up: "a dvd round_up n a"
  by (simp add: round_up_def)

lemma le_place: "shape_ok s \<Longrightarrow> pos \<le> place packed pos s"
  by (cases s) (auto intro: le_round_up)

lemma place_aligned: "shape_ok (Whole s a) \<Longrightarrow> \<not> packed \<Longrightarrow> 8 * a dvd place packed pos (Whole s a)"
  by (simp add: dvd_round_up)

lemma length_place_all [simp]: "length (place_all packed pos ss) = length ss"
  by (induction ss arbitrary: pos) auto

lemma place_all_ge:
  "list_all shape_ok ss \<Longrightarrow> i < length ss \<Longrightarrow> pos \<le> place_all packed pos ss ! i"
proof (induction ss arbitrary: pos i)
  case (Cons s ss)
  have "pos \<le> place packed pos s" using Cons.prems le_place by simp
  then show ?case
    using Cons.prems Cons.IH [of "i - 1" "place packed pos s + shape_width s"]
    by (cases i) auto
qed simp

lemma place_all_disjoint:
  "list_all shape_ok ss \<Longrightarrow> i < j \<Longrightarrow> j < length ss \<Longrightarrow>
     place_all packed pos ss ! i + shape_width (ss ! i) \<le> place_all packed pos ss ! j"
proof (induction ss arbitrary: pos i j)
  case (Cons s ss)
  then obtain j' where j: "j = Suc j'" by (cases j) auto
  then show ?case
    using Cons.prems Cons.IH [of "i - 1" j' "place packed pos s + shape_width s"]
      place_all_ge [of ss j' "place packed pos s + shape_width s" packed]
    by (cases i) auto
qed simp

lemma place_all_end:
  "list_all shape_ok ss \<Longrightarrow> i < length ss \<Longrightarrow>
     place_all packed pos ss ! i + shape_width (ss ! i) \<le> end_of packed pos ss"
proof (induction ss arbitrary: pos i)
  case (Cons s ss)
  have "pos \<le> end_of packed pos ss" if "list_all shape_ok ss" for pos
    using that
  proof (induction ss arbitrary: pos)
    case (Cons t ts)
    have "pos \<le> place packed pos t" using Cons.prems le_place by simp
    then show ?case using Cons.prems Cons.IH [of "place packed pos t + shape_width t"] by simp
  qed simp
  then show ?case
    using Cons.prems Cons.IH [of "i - 1" "place packed pos s + shape_width s"]
    by (cases i) auto
qed simp

lemma comp_align_pos: "0 < comp_align packed ss"
proof -
  have "0 < n \<Longrightarrow> 0 < fold max ns n" for n :: nat and ns
    by (induction ns arbitrary: n) auto
  then show ?thesis by (simp add: comp_align_def)
qed

lemma size_align_pos:
  "ctype_ok t \<Longrightarrow> 0 < snd (size_align t)"
  "cmember_ok m \<Longrightarrow> shape_ok (member_shape m)"
  by (induction t and m)
    (auto simp: comp_layout_def comp_align_pos enum_size_def csizeof_def split: prod.splits)

text \<open>
  In a structure, members later in the declaration lie behind the earlier ones, the last
  lies within the size, and the size is a multiple of the alignment.
\<close>

lemma struct_members:
  assumes "ctype_ok (Comp Struct packed ms)" and "i < length ms"
  shows "i < j \<Longrightarrow> j < length ms \<Longrightarrow>
      positions Struct packed ms ! i + shape_width (member_shape (ms ! i)) \<le> positions Struct packed ms ! j"
    and "positions Struct packed ms ! i + shape_width (member_shape (ms ! i)) \<le> 8 * csizeof (Comp Struct packed ms)"
proof -
  let ?ss = "map member_shape ms"
  have ok: "list_all shape_ok ?ss"
    using assms(1) size_align_pos(2) by (auto simp: list_all_iff)
  show "positions Struct packed ms ! i + shape_width (member_shape (ms ! i)) \<le> positions Struct packed ms ! j"
    if "i < j" "j < length ms"
    using place_all_disjoint [OF ok that(1), of packed 0] that assms(2) by (simp add: positions_def)
  have "end_of packed 0 ?ss \<le> round_up (end_of packed 0 ?ss) (8 * comp_align packed ?ss)"
    using le_round_up comp_align_pos by simp
  moreover have "8 dvd round_up (end_of packed 0 ?ss) (8 * comp_align packed ?ss)"
    using dvd_round_up dvd_mult_left by blast
  ultimately show "positions Struct packed ms ! i + shape_width (member_shape (ms ! i)) \<le> 8 * csizeof (Comp Struct packed ms)"
    using place_all_end [OF ok, of i packed 0] assms(2)
    by (simp add: positions_def csizeof_def comp_layout_def comp_bits_def dvd_mult_div_cancel)
qed

end
