(* ===== verification/Vmlinux_Uapi.thy ===== *)
theory Vmlinux_Uapi
  imports C_Layout
begin

text \<open>
  The declarations of \<^verbatim>\<open>vmlinux.h\<close> that make up the kernel's interface to the programs and
  their loaders: helper and command numbers, map, program and attachment types, protocol headers,
  program contexts and the argument of the bpf system call, with the types they contain.
\<close>

definition enum_bpf_func_id :: ctype where
  "enum_bpf_func_id = Enum False [
    (''BPF_FUNC_unspec'', 0), (''BPF_FUNC_map_lookup_elem'', 1),
    (''BPF_FUNC_map_update_elem'', 2), (''BPF_FUNC_map_delete_elem'', 3),
    (''BPF_FUNC_probe_read'', 4), (''BPF_FUNC_ktime_get_ns'', 5), (''BPF_FUNC_trace_printk'', 6),
    (''BPF_FUNC_get_prandom_u32'', 7), (''BPF_FUNC_get_smp_processor_id'', 8),
    (''BPF_FUNC_skb_store_bytes'', 9), (''BPF_FUNC_l3_csum_replace'', 10),
    (''BPF_FUNC_l4_csum_replace'', 11), (''BPF_FUNC_tail_call'', 12),
    (''BPF_FUNC_clone_redirect'', 13), (''BPF_FUNC_get_current_pid_tgid'', 14),
    (''BPF_FUNC_get_current_uid_gid'', 15), (''BPF_FUNC_get_current_comm'', 16),
    (''BPF_FUNC_get_cgroup_classid'', 17), (''BPF_FUNC_skb_vlan_push'', 18),
    (''BPF_FUNC_skb_vlan_pop'', 19), (''BPF_FUNC_skb_get_tunnel_key'', 20),
    (''BPF_FUNC_skb_set_tunnel_key'', 21), (''BPF_FUNC_perf_event_read'', 22),
    (''BPF_FUNC_redirect'', 23), (''BPF_FUNC_get_route_realm'', 24),
    (''BPF_FUNC_perf_event_output'', 25), (''BPF_FUNC_skb_load_bytes'', 26),
    (''BPF_FUNC_get_stackid'', 27), (''BPF_FUNC_csum_diff'', 28),
    (''BPF_FUNC_skb_get_tunnel_opt'', 29), (''BPF_FUNC_skb_set_tunnel_opt'', 30),
    (''BPF_FUNC_skb_change_proto'', 31), (''BPF_FUNC_skb_change_type'', 32),
    (''BPF_FUNC_skb_under_cgroup'', 33), (''BPF_FUNC_get_hash_recalc'', 34),
    (''BPF_FUNC_get_current_task'', 35), (''BPF_FUNC_probe_write_user'', 36),
    (''BPF_FUNC_current_task_under_cgroup'', 37), (''BPF_FUNC_skb_change_tail'', 38),
    (''BPF_FUNC_skb_pull_data'', 39), (''BPF_FUNC_csum_update'', 40),
    (''BPF_FUNC_set_hash_invalid'', 41), (''BPF_FUNC_get_numa_node_id'', 42),
    (''BPF_FUNC_skb_change_head'', 43), (''BPF_FUNC_xdp_adjust_head'', 44),
    (''BPF_FUNC_probe_read_str'', 45), (''BPF_FUNC_get_socket_cookie'', 46),
    (''BPF_FUNC_get_socket_uid'', 47), (''BPF_FUNC_set_hash'', 48), (''BPF_FUNC_setsockopt'', 49),
    (''BPF_FUNC_skb_adjust_room'', 50), (''BPF_FUNC_redirect_map'', 51),
    (''BPF_FUNC_sk_redirect_map'', 52), (''BPF_FUNC_sock_map_update'', 53),
    (''BPF_FUNC_xdp_adjust_meta'', 54), (''BPF_FUNC_perf_event_read_value'', 55),
    (''BPF_FUNC_perf_prog_read_value'', 56), (''BPF_FUNC_getsockopt'', 57),
    (''BPF_FUNC_override_return'', 58), (''BPF_FUNC_sock_ops_cb_flags_set'', 59),
    (''BPF_FUNC_msg_redirect_map'', 60), (''BPF_FUNC_msg_apply_bytes'', 61),
    (''BPF_FUNC_msg_cork_bytes'', 62), (''BPF_FUNC_msg_pull_data'', 63), (''BPF_FUNC_bind'', 64),
    (''BPF_FUNC_xdp_adjust_tail'', 65), (''BPF_FUNC_skb_get_xfrm_state'', 66),
    (''BPF_FUNC_get_stack'', 67), (''BPF_FUNC_skb_load_bytes_relative'', 68),
    (''BPF_FUNC_fib_lookup'', 69), (''BPF_FUNC_sock_hash_update'', 70),
    (''BPF_FUNC_msg_redirect_hash'', 71), (''BPF_FUNC_sk_redirect_hash'', 72),
    (''BPF_FUNC_lwt_push_encap'', 73), (''BPF_FUNC_lwt_seg6_store_bytes'', 74),
    (''BPF_FUNC_lwt_seg6_adjust_srh'', 75), (''BPF_FUNC_lwt_seg6_action'', 76),
    (''BPF_FUNC_rc_repeat'', 77), (''BPF_FUNC_rc_keydown'', 78), (''BPF_FUNC_skb_cgroup_id'', 79),
    (''BPF_FUNC_get_current_cgroup_id'', 80), (''BPF_FUNC_get_local_storage'', 81),
    (''BPF_FUNC_sk_select_reuseport'', 82), (''BPF_FUNC_skb_ancestor_cgroup_id'', 83),
    (''BPF_FUNC_sk_lookup_tcp'', 84), (''BPF_FUNC_sk_lookup_udp'', 85),
    (''BPF_FUNC_sk_release'', 86), (''BPF_FUNC_map_push_elem'', 87),
    (''BPF_FUNC_map_pop_elem'', 88), (''BPF_FUNC_map_peek_elem'', 89),
    (''BPF_FUNC_msg_push_data'', 90), (''BPF_FUNC_msg_pop_data'', 91),
    (''BPF_FUNC_rc_pointer_rel'', 92), (''BPF_FUNC_spin_lock'', 93),
    (''BPF_FUNC_spin_unlock'', 94), (''BPF_FUNC_sk_fullsock'', 95), (''BPF_FUNC_tcp_sock'', 96),
    (''BPF_FUNC_skb_ecn_set_ce'', 97), (''BPF_FUNC_get_listener_sock'', 98),
    (''BPF_FUNC_skc_lookup_tcp'', 99), (''BPF_FUNC_tcp_check_syncookie'', 100),
    (''BPF_FUNC_sysctl_get_name'', 101), (''BPF_FUNC_sysctl_get_current_value'', 102),
    (''BPF_FUNC_sysctl_get_new_value'', 103), (''BPF_FUNC_sysctl_set_new_value'', 104),
    (''BPF_FUNC_strtol'', 105), (''BPF_FUNC_strtoul'', 106), (''BPF_FUNC_sk_storage_get'', 107),
    (''BPF_FUNC_sk_storage_delete'', 108), (''BPF_FUNC_send_signal'', 109),
    (''BPF_FUNC_tcp_gen_syncookie'', 110), (''BPF_FUNC_skb_output'', 111),
    (''BPF_FUNC_probe_read_user'', 112), (''BPF_FUNC_probe_read_kernel'', 113),
    (''BPF_FUNC_probe_read_user_str'', 114), (''BPF_FUNC_probe_read_kernel_str'', 115),
    (''BPF_FUNC_tcp_send_ack'', 116), (''BPF_FUNC_send_signal_thread'', 117),
    (''BPF_FUNC_jiffies64'', 118), (''BPF_FUNC_read_branch_records'', 119),
    (''BPF_FUNC_get_ns_current_pid_tgid'', 120), (''BPF_FUNC_xdp_output'', 121),
    (''BPF_FUNC_get_netns_cookie'', 122), (''BPF_FUNC_get_current_ancestor_cgroup_id'', 123),
    (''BPF_FUNC_sk_assign'', 124), (''BPF_FUNC_ktime_get_boot_ns'', 125),
    (''BPF_FUNC_seq_printf'', 126), (''BPF_FUNC_seq_write'', 127),
    (''BPF_FUNC_sk_cgroup_id'', 128), (''BPF_FUNC_sk_ancestor_cgroup_id'', 129),
    (''BPF_FUNC_ringbuf_output'', 130), (''BPF_FUNC_ringbuf_reserve'', 131),
    (''BPF_FUNC_ringbuf_submit'', 132), (''BPF_FUNC_ringbuf_discard'', 133),
    (''BPF_FUNC_ringbuf_query'', 134), (''BPF_FUNC_csum_level'', 135),
    (''BPF_FUNC_skc_to_tcp6_sock'', 136), (''BPF_FUNC_skc_to_tcp_sock'', 137),
    (''BPF_FUNC_skc_to_tcp_timewait_sock'', 138), (''BPF_FUNC_skc_to_tcp_request_sock'', 139),
    (''BPF_FUNC_skc_to_udp6_sock'', 140), (''BPF_FUNC_get_task_stack'', 141),
    (''BPF_FUNC_load_hdr_opt'', 142), (''BPF_FUNC_store_hdr_opt'', 143),
    (''BPF_FUNC_reserve_hdr_opt'', 144), (''BPF_FUNC_inode_storage_get'', 145),
    (''BPF_FUNC_inode_storage_delete'', 146), (''BPF_FUNC_d_path'', 147),
    (''BPF_FUNC_copy_from_user'', 148), (''BPF_FUNC_snprintf_btf'', 149),
    (''BPF_FUNC_seq_printf_btf'', 150), (''BPF_FUNC_skb_cgroup_classid'', 151),
    (''BPF_FUNC_redirect_neigh'', 152), (''BPF_FUNC_per_cpu_ptr'', 153),
    (''BPF_FUNC_this_cpu_ptr'', 154), (''BPF_FUNC_redirect_peer'', 155),
    (''BPF_FUNC_task_storage_get'', 156), (''BPF_FUNC_task_storage_delete'', 157),
    (''BPF_FUNC_get_current_task_btf'', 158), (''BPF_FUNC_bprm_opts_set'', 159),
    (''BPF_FUNC_ktime_get_coarse_ns'', 160), (''BPF_FUNC_ima_inode_hash'', 161),
    (''BPF_FUNC_sock_from_file'', 162), (''BPF_FUNC_check_mtu'', 163),
    (''BPF_FUNC_for_each_map_elem'', 164), (''BPF_FUNC_snprintf'', 165),
    (''BPF_FUNC_sys_bpf'', 166), (''BPF_FUNC_btf_find_by_name_kind'', 167),
    (''BPF_FUNC_sys_close'', 168), (''BPF_FUNC_timer_init'', 169),
    (''BPF_FUNC_timer_set_callback'', 170), (''BPF_FUNC_timer_start'', 171),
    (''BPF_FUNC_timer_cancel'', 172), (''BPF_FUNC_get_func_ip'', 173),
    (''BPF_FUNC_get_attach_cookie'', 174), (''BPF_FUNC_task_pt_regs'', 175),
    (''BPF_FUNC_get_branch_snapshot'', 176), (''BPF_FUNC_trace_vprintk'', 177),
    (''BPF_FUNC_skc_to_unix_sock'', 178), (''BPF_FUNC_kallsyms_lookup_name'', 179),
    (''BPF_FUNC_find_vma'', 180), (''BPF_FUNC_loop'', 181), (''BPF_FUNC_strncmp'', 182),
    (''BPF_FUNC_get_func_arg'', 183), (''BPF_FUNC_get_func_ret'', 184),
    (''BPF_FUNC_get_func_arg_cnt'', 185), (''BPF_FUNC_get_retval'', 186),
    (''BPF_FUNC_set_retval'', 187), (''BPF_FUNC_xdp_get_buff_len'', 188),
    (''BPF_FUNC_xdp_load_bytes'', 189), (''BPF_FUNC_xdp_store_bytes'', 190),
    (''BPF_FUNC_copy_from_user_task'', 191), (''BPF_FUNC_skb_set_tstamp'', 192),
    (''BPF_FUNC_ima_file_hash'', 193), (''BPF_FUNC_kptr_xchg'', 194),
    (''BPF_FUNC_map_lookup_percpu_elem'', 195), (''BPF_FUNC_skc_to_mptcp_sock'', 196),
    (''BPF_FUNC_dynptr_from_mem'', 197), (''BPF_FUNC_ringbuf_reserve_dynptr'', 198),
    (''BPF_FUNC_ringbuf_submit_dynptr'', 199), (''BPF_FUNC_ringbuf_discard_dynptr'', 200),
    (''BPF_FUNC_dynptr_read'', 201), (''BPF_FUNC_dynptr_write'', 202),
    (''BPF_FUNC_dynptr_data'', 203), (''BPF_FUNC_tcp_raw_gen_syncookie_ipv4'', 204),
    (''BPF_FUNC_tcp_raw_gen_syncookie_ipv6'', 205),
    (''BPF_FUNC_tcp_raw_check_syncookie_ipv4'', 206),
    (''BPF_FUNC_tcp_raw_check_syncookie_ipv6'', 207), (''BPF_FUNC_ktime_get_tai_ns'', 208),
    (''BPF_FUNC_user_ringbuf_drain'', 209), (''BPF_FUNC_cgrp_storage_get'', 210),
    (''BPF_FUNC_cgrp_storage_delete'', 211), (''__BPF_FUNC_MAX_ID'', 212)]"

definition enum_bpf_cmd :: ctype where
  "enum_bpf_cmd = Enum False [
    (''BPF_MAP_CREATE'', 0), (''BPF_MAP_LOOKUP_ELEM'', 1), (''BPF_MAP_UPDATE_ELEM'', 2),
    (''BPF_MAP_DELETE_ELEM'', 3), (''BPF_MAP_GET_NEXT_KEY'', 4), (''BPF_PROG_LOAD'', 5),
    (''BPF_OBJ_PIN'', 6), (''BPF_OBJ_GET'', 7), (''BPF_PROG_ATTACH'', 8),
    (''BPF_PROG_DETACH'', 9), (''BPF_PROG_TEST_RUN'', 10), (''BPF_PROG_RUN'', 10),
    (''BPF_PROG_GET_NEXT_ID'', 11), (''BPF_MAP_GET_NEXT_ID'', 12),
    (''BPF_PROG_GET_FD_BY_ID'', 13), (''BPF_MAP_GET_FD_BY_ID'', 14),
    (''BPF_OBJ_GET_INFO_BY_FD'', 15), (''BPF_PROG_QUERY'', 16), (''BPF_RAW_TRACEPOINT_OPEN'', 17),
    (''BPF_BTF_LOAD'', 18), (''BPF_BTF_GET_FD_BY_ID'', 19), (''BPF_TASK_FD_QUERY'', 20),
    (''BPF_MAP_LOOKUP_AND_DELETE_ELEM'', 21), (''BPF_MAP_FREEZE'', 22),
    (''BPF_BTF_GET_NEXT_ID'', 23), (''BPF_MAP_LOOKUP_BATCH'', 24),
    (''BPF_MAP_LOOKUP_AND_DELETE_BATCH'', 25), (''BPF_MAP_UPDATE_BATCH'', 26),
    (''BPF_MAP_DELETE_BATCH'', 27), (''BPF_LINK_CREATE'', 28), (''BPF_LINK_UPDATE'', 29),
    (''BPF_LINK_GET_FD_BY_ID'', 30), (''BPF_LINK_GET_NEXT_ID'', 31), (''BPF_ENABLE_STATS'', 32),
    (''BPF_ITER_CREATE'', 33), (''BPF_LINK_DETACH'', 34), (''BPF_PROG_BIND_MAP'', 35),
    (''BPF_TOKEN_CREATE'', 36), (''BPF_PROG_STREAM_READ_BY_FD'', 37), (''__MAX_BPF_CMD'', 38)]"

definition enum_bpf_map_type :: ctype where
  "enum_bpf_map_type = Enum False [
    (''BPF_MAP_TYPE_UNSPEC'', 0), (''BPF_MAP_TYPE_HASH'', 1), (''BPF_MAP_TYPE_ARRAY'', 2),
    (''BPF_MAP_TYPE_PROG_ARRAY'', 3), (''BPF_MAP_TYPE_PERF_EVENT_ARRAY'', 4),
    (''BPF_MAP_TYPE_PERCPU_HASH'', 5), (''BPF_MAP_TYPE_PERCPU_ARRAY'', 6),
    (''BPF_MAP_TYPE_STACK_TRACE'', 7), (''BPF_MAP_TYPE_CGROUP_ARRAY'', 8),
    (''BPF_MAP_TYPE_LRU_HASH'', 9), (''BPF_MAP_TYPE_LRU_PERCPU_HASH'', 10),
    (''BPF_MAP_TYPE_LPM_TRIE'', 11), (''BPF_MAP_TYPE_ARRAY_OF_MAPS'', 12),
    (''BPF_MAP_TYPE_HASH_OF_MAPS'', 13), (''BPF_MAP_TYPE_DEVMAP'', 14),
    (''BPF_MAP_TYPE_SOCKMAP'', 15), (''BPF_MAP_TYPE_CPUMAP'', 16), (''BPF_MAP_TYPE_XSKMAP'', 17),
    (''BPF_MAP_TYPE_SOCKHASH'', 18), (''BPF_MAP_TYPE_CGROUP_STORAGE_DEPRECATED'', 19),
    (''BPF_MAP_TYPE_CGROUP_STORAGE'', 19), (''BPF_MAP_TYPE_REUSEPORT_SOCKARRAY'', 20),
    (''BPF_MAP_TYPE_PERCPU_CGROUP_STORAGE_DEPRECATED'', 21),
    (''BPF_MAP_TYPE_PERCPU_CGROUP_STORAGE'', 21), (''BPF_MAP_TYPE_QUEUE'', 22),
    (''BPF_MAP_TYPE_STACK'', 23), (''BPF_MAP_TYPE_SK_STORAGE'', 24),
    (''BPF_MAP_TYPE_DEVMAP_HASH'', 25), (''BPF_MAP_TYPE_STRUCT_OPS'', 26),
    (''BPF_MAP_TYPE_RINGBUF'', 27), (''BPF_MAP_TYPE_INODE_STORAGE'', 28),
    (''BPF_MAP_TYPE_TASK_STORAGE'', 29), (''BPF_MAP_TYPE_BLOOM_FILTER'', 30),
    (''BPF_MAP_TYPE_USER_RINGBUF'', 31), (''BPF_MAP_TYPE_CGRP_STORAGE'', 32),
    (''BPF_MAP_TYPE_ARENA'', 33), (''__MAX_BPF_MAP_TYPE'', 34)]"

definition enum_bpf_prog_type :: ctype where
  "enum_bpf_prog_type = Enum False [
    (''BPF_PROG_TYPE_UNSPEC'', 0), (''BPF_PROG_TYPE_SOCKET_FILTER'', 1),
    (''BPF_PROG_TYPE_KPROBE'', 2), (''BPF_PROG_TYPE_SCHED_CLS'', 3),
    (''BPF_PROG_TYPE_SCHED_ACT'', 4), (''BPF_PROG_TYPE_TRACEPOINT'', 5),
    (''BPF_PROG_TYPE_XDP'', 6), (''BPF_PROG_TYPE_PERF_EVENT'', 7),
    (''BPF_PROG_TYPE_CGROUP_SKB'', 8), (''BPF_PROG_TYPE_CGROUP_SOCK'', 9),
    (''BPF_PROG_TYPE_LWT_IN'', 10), (''BPF_PROG_TYPE_LWT_OUT'', 11),
    (''BPF_PROG_TYPE_LWT_XMIT'', 12), (''BPF_PROG_TYPE_SOCK_OPS'', 13),
    (''BPF_PROG_TYPE_SK_SKB'', 14), (''BPF_PROG_TYPE_CGROUP_DEVICE'', 15),
    (''BPF_PROG_TYPE_SK_MSG'', 16), (''BPF_PROG_TYPE_RAW_TRACEPOINT'', 17),
    (''BPF_PROG_TYPE_CGROUP_SOCK_ADDR'', 18), (''BPF_PROG_TYPE_LWT_SEG6LOCAL'', 19),
    (''BPF_PROG_TYPE_LIRC_MODE2'', 20), (''BPF_PROG_TYPE_SK_REUSEPORT'', 21),
    (''BPF_PROG_TYPE_FLOW_DISSECTOR'', 22), (''BPF_PROG_TYPE_CGROUP_SYSCTL'', 23),
    (''BPF_PROG_TYPE_RAW_TRACEPOINT_WRITABLE'', 24), (''BPF_PROG_TYPE_CGROUP_SOCKOPT'', 25),
    (''BPF_PROG_TYPE_TRACING'', 26), (''BPF_PROG_TYPE_STRUCT_OPS'', 27),
    (''BPF_PROG_TYPE_EXT'', 28), (''BPF_PROG_TYPE_LSM'', 29), (''BPF_PROG_TYPE_SK_LOOKUP'', 30),
    (''BPF_PROG_TYPE_SYSCALL'', 31), (''BPF_PROG_TYPE_NETFILTER'', 32),
    (''__MAX_BPF_PROG_TYPE'', 33)]"

definition enum_bpf_attach_type :: ctype where
  "enum_bpf_attach_type = Enum False [
    (''BPF_CGROUP_INET_INGRESS'', 0), (''BPF_CGROUP_INET_EGRESS'', 1),
    (''BPF_CGROUP_INET_SOCK_CREATE'', 2), (''BPF_CGROUP_SOCK_OPS'', 3),
    (''BPF_SK_SKB_STREAM_PARSER'', 4), (''BPF_SK_SKB_STREAM_VERDICT'', 5),
    (''BPF_CGROUP_DEVICE'', 6), (''BPF_SK_MSG_VERDICT'', 7), (''BPF_CGROUP_INET4_BIND'', 8),
    (''BPF_CGROUP_INET6_BIND'', 9), (''BPF_CGROUP_INET4_CONNECT'', 10),
    (''BPF_CGROUP_INET6_CONNECT'', 11), (''BPF_CGROUP_INET4_POST_BIND'', 12),
    (''BPF_CGROUP_INET6_POST_BIND'', 13), (''BPF_CGROUP_UDP4_SENDMSG'', 14),
    (''BPF_CGROUP_UDP6_SENDMSG'', 15), (''BPF_LIRC_MODE2'', 16), (''BPF_FLOW_DISSECTOR'', 17),
    (''BPF_CGROUP_SYSCTL'', 18), (''BPF_CGROUP_UDP4_RECVMSG'', 19),
    (''BPF_CGROUP_UDP6_RECVMSG'', 20), (''BPF_CGROUP_GETSOCKOPT'', 21),
    (''BPF_CGROUP_SETSOCKOPT'', 22), (''BPF_TRACE_RAW_TP'', 23), (''BPF_TRACE_FENTRY'', 24),
    (''BPF_TRACE_FEXIT'', 25), (''BPF_MODIFY_RETURN'', 26), (''BPF_LSM_MAC'', 27),
    (''BPF_TRACE_ITER'', 28), (''BPF_CGROUP_INET4_GETPEERNAME'', 29),
    (''BPF_CGROUP_INET6_GETPEERNAME'', 30), (''BPF_CGROUP_INET4_GETSOCKNAME'', 31),
    (''BPF_CGROUP_INET6_GETSOCKNAME'', 32), (''BPF_XDP_DEVMAP'', 33),
    (''BPF_CGROUP_INET_SOCK_RELEASE'', 34), (''BPF_XDP_CPUMAP'', 35), (''BPF_SK_LOOKUP'', 36),
    (''BPF_XDP'', 37), (''BPF_SK_SKB_VERDICT'', 38), (''BPF_SK_REUSEPORT_SELECT'', 39),
    (''BPF_SK_REUSEPORT_SELECT_OR_MIGRATE'', 40), (''BPF_PERF_EVENT'', 41),
    (''BPF_TRACE_KPROBE_MULTI'', 42), (''BPF_LSM_CGROUP'', 43), (''BPF_STRUCT_OPS'', 44),
    (''BPF_NETFILTER'', 45), (''BPF_TCX_INGRESS'', 46), (''BPF_TCX_EGRESS'', 47),
    (''BPF_TRACE_UPROBE_MULTI'', 48), (''BPF_CGROUP_UNIX_CONNECT'', 49),
    (''BPF_CGROUP_UNIX_SENDMSG'', 50), (''BPF_CGROUP_UNIX_RECVMSG'', 51),
    (''BPF_CGROUP_UNIX_GETPEERNAME'', 52), (''BPF_CGROUP_UNIX_GETSOCKNAME'', 53),
    (''BPF_NETKIT_PRIMARY'', 54), (''BPF_NETKIT_PEER'', 55), (''BPF_TRACE_KPROBE_SESSION'', 56),
    (''BPF_TRACE_UPROBE_SESSION'', 57), (''__MAX_BPF_ATTACH_TYPE'', 58)]"

definition enum_bpf_link_type :: ctype where
  "enum_bpf_link_type = Enum False [
    (''BPF_LINK_TYPE_UNSPEC'', 0), (''BPF_LINK_TYPE_RAW_TRACEPOINT'', 1),
    (''BPF_LINK_TYPE_TRACING'', 2), (''BPF_LINK_TYPE_CGROUP'', 3), (''BPF_LINK_TYPE_ITER'', 4),
    (''BPF_LINK_TYPE_NETNS'', 5), (''BPF_LINK_TYPE_XDP'', 6), (''BPF_LINK_TYPE_PERF_EVENT'', 7),
    (''BPF_LINK_TYPE_KPROBE_MULTI'', 8), (''BPF_LINK_TYPE_STRUCT_OPS'', 9),
    (''BPF_LINK_TYPE_NETFILTER'', 10), (''BPF_LINK_TYPE_TCX'', 11),
    (''BPF_LINK_TYPE_UPROBE_MULTI'', 12), (''BPF_LINK_TYPE_NETKIT'', 13),
    (''BPF_LINK_TYPE_SOCKMAP'', 14), (''__MAX_BPF_LINK_TYPE'', 15)]"

definition enum_netkit_action :: ctype where
  "enum_netkit_action = Enum False [
    (''NETKIT_NEXT'', - 1), (''NETKIT_PASS'', 0), (''NETKIT_DROP'', 2), (''NETKIT_REDIRECT'', 7)]"

definition enum_netkit_mode :: ctype where
  "enum_netkit_mode = Enum False [
    (''NETKIT_L2'', 0), (''NETKIT_L3'', 1)]"

definition enum_netkit_scrub :: ctype where
  "enum_netkit_scrub = Enum False [
    (''NETKIT_SCRUB_NONE'', 0), (''NETKIT_SCRUB_DEFAULT'', 1)]"

definition enum_xdp_action :: ctype where
  "enum_xdp_action = Enum False [
    (''XDP_ABORTED'', 0), (''XDP_DROP'', 1), (''XDP_PASS'', 2), (''XDP_TX'', 3),
    (''XDP_REDIRECT'', 4)]"

definition enum_skb_drop_reason :: ctype where
  "enum_skb_drop_reason = Enum False [
    (''SKB_NOT_DROPPED_YET'', 0), (''SKB_CONSUMED'', 1), (''SKB_DROP_REASON_NOT_SPECIFIED'', 2),
    (''SKB_DROP_REASON_NO_SOCKET'', 3), (''SKB_DROP_REASON_SOCKET_CLOSE'', 4),
    (''SKB_DROP_REASON_SOCKET_FILTER'', 5), (''SKB_DROP_REASON_SOCKET_RCVBUFF'', 6),
    (''SKB_DROP_REASON_UNIX_DISCONNECT'', 7), (''SKB_DROP_REASON_UNIX_SKIP_OOB'', 8),
    (''SKB_DROP_REASON_PKT_TOO_SMALL'', 9), (''SKB_DROP_REASON_TCP_CSUM'', 10),
    (''SKB_DROP_REASON_UDP_CSUM'', 11), (''SKB_DROP_REASON_NETFILTER_DROP'', 12),
    (''SKB_DROP_REASON_OTHERHOST'', 13), (''SKB_DROP_REASON_IP_CSUM'', 14),
    (''SKB_DROP_REASON_IP_INHDR'', 15), (''SKB_DROP_REASON_IP_RPFILTER'', 16),
    (''SKB_DROP_REASON_UNICAST_IN_L2_MULTICAST'', 17), (''SKB_DROP_REASON_XFRM_POLICY'', 18),
    (''SKB_DROP_REASON_IP_NOPROTO'', 19), (''SKB_DROP_REASON_PROTO_MEM'', 20),
    (''SKB_DROP_REASON_TCP_AUTH_HDR'', 21), (''SKB_DROP_REASON_TCP_MD5NOTFOUND'', 22),
    (''SKB_DROP_REASON_TCP_MD5UNEXPECTED'', 23), (''SKB_DROP_REASON_TCP_MD5FAILURE'', 24),
    (''SKB_DROP_REASON_TCP_AONOTFOUND'', 25), (''SKB_DROP_REASON_TCP_AOUNEXPECTED'', 26),
    (''SKB_DROP_REASON_TCP_AOKEYNOTFOUND'', 27), (''SKB_DROP_REASON_TCP_AOFAILURE'', 28),
    (''SKB_DROP_REASON_SOCKET_BACKLOG'', 29), (''SKB_DROP_REASON_TCP_FLAGS'', 30),
    (''SKB_DROP_REASON_TCP_ABORT_ON_DATA'', 31), (''SKB_DROP_REASON_TCP_ZEROWINDOW'', 32),
    (''SKB_DROP_REASON_TCP_OLD_DATA'', 33), (''SKB_DROP_REASON_TCP_OVERWINDOW'', 34),
    (''SKB_DROP_REASON_TCP_OFOMERGE'', 35), (''SKB_DROP_REASON_TCP_RFC7323_PAWS'', 36),
    (''SKB_DROP_REASON_TCP_RFC7323_PAWS_ACK'', 37), (''SKB_DROP_REASON_TCP_RFC7323_TW_PAWS'', 38),
    (''SKB_DROP_REASON_TCP_RFC7323_TSECR'', 39), (''SKB_DROP_REASON_TCP_LISTEN_OVERFLOW'', 40),
    (''SKB_DROP_REASON_TCP_OLD_SEQUENCE'', 41), (''SKB_DROP_REASON_TCP_INVALID_SEQUENCE'', 42),
    (''SKB_DROP_REASON_TCP_INVALID_END_SEQUENCE'', 43),
    (''SKB_DROP_REASON_TCP_INVALID_ACK_SEQUENCE'', 44), (''SKB_DROP_REASON_TCP_RESET'', 45),
    (''SKB_DROP_REASON_TCP_INVALID_SYN'', 46), (''SKB_DROP_REASON_TCP_CLOSE'', 47),
    (''SKB_DROP_REASON_TCP_FASTOPEN'', 48), (''SKB_DROP_REASON_TCP_OLD_ACK'', 49),
    (''SKB_DROP_REASON_TCP_TOO_OLD_ACK'', 50), (''SKB_DROP_REASON_TCP_ACK_UNSENT_DATA'', 51),
    (''SKB_DROP_REASON_TCP_OFO_QUEUE_PRUNE'', 52), (''SKB_DROP_REASON_TCP_OFO_DROP'', 53),
    (''SKB_DROP_REASON_IP_OUTNOROUTES'', 54), (''SKB_DROP_REASON_BPF_CGROUP_EGRESS'', 55),
    (''SKB_DROP_REASON_IPV6DISABLED'', 56), (''SKB_DROP_REASON_NEIGH_CREATEFAIL'', 57),
    (''SKB_DROP_REASON_NEIGH_FAILED'', 58), (''SKB_DROP_REASON_NEIGH_QUEUEFULL'', 59),
    (''SKB_DROP_REASON_NEIGH_DEAD'', 60), (''SKB_DROP_REASON_NEIGH_HH_FILLFAIL'', 61),
    (''SKB_DROP_REASON_TC_EGRESS'', 62), (''SKB_DROP_REASON_SECURITY_HOOK'', 63),
    (''SKB_DROP_REASON_QDISC_DROP'', 64), (''SKB_DROP_REASON_QDISC_OVERLIMIT'', 65),
    (''SKB_DROP_REASON_QDISC_CONGESTED'', 66), (''SKB_DROP_REASON_CAKE_FLOOD'', 67),
    (''SKB_DROP_REASON_FQ_BAND_LIMIT'', 68), (''SKB_DROP_REASON_FQ_HORIZON_LIMIT'', 69),
    (''SKB_DROP_REASON_FQ_FLOW_LIMIT'', 70), (''SKB_DROP_REASON_CPU_BACKLOG'', 71),
    (''SKB_DROP_REASON_XDP'', 72), (''SKB_DROP_REASON_TC_INGRESS'', 73),
    (''SKB_DROP_REASON_UNHANDLED_PROTO'', 74), (''SKB_DROP_REASON_SKB_CSUM'', 75),
    (''SKB_DROP_REASON_SKB_GSO_SEG'', 76), (''SKB_DROP_REASON_SKB_UCOPY_FAULT'', 77),
    (''SKB_DROP_REASON_DEV_HDR'', 78), (''SKB_DROP_REASON_DEV_READY'', 79),
    (''SKB_DROP_REASON_FULL_RING'', 80), (''SKB_DROP_REASON_NOMEM'', 81),
    (''SKB_DROP_REASON_HDR_TRUNC'', 82), (''SKB_DROP_REASON_TAP_FILTER'', 83),
    (''SKB_DROP_REASON_TAP_TXFILTER'', 84), (''SKB_DROP_REASON_ICMP_CSUM'', 85),
    (''SKB_DROP_REASON_INVALID_PROTO'', 86), (''SKB_DROP_REASON_IP_INADDRERRORS'', 87),
    (''SKB_DROP_REASON_IP_INNOROUTES'', 88), (''SKB_DROP_REASON_IP_LOCAL_SOURCE'', 89),
    (''SKB_DROP_REASON_IP_INVALID_SOURCE'', 90), (''SKB_DROP_REASON_IP_LOCALNET'', 91),
    (''SKB_DROP_REASON_IP_INVALID_DEST'', 92), (''SKB_DROP_REASON_PKT_TOO_BIG'', 93),
    (''SKB_DROP_REASON_DUP_FRAG'', 94), (''SKB_DROP_REASON_FRAG_REASM_TIMEOUT'', 95),
    (''SKB_DROP_REASON_FRAG_TOO_FAR'', 96), (''SKB_DROP_REASON_TCP_MINTTL'', 97),
    (''SKB_DROP_REASON_IPV6_BAD_EXTHDR'', 98), (''SKB_DROP_REASON_IPV6_NDISC_FRAG'', 99),
    (''SKB_DROP_REASON_IPV6_NDISC_HOP_LIMIT'', 100),
    (''SKB_DROP_REASON_IPV6_NDISC_BAD_CODE'', 101),
    (''SKB_DROP_REASON_IPV6_NDISC_BAD_OPTIONS'', 102),
    (''SKB_DROP_REASON_IPV6_NDISC_NS_OTHERHOST'', 103), (''SKB_DROP_REASON_QUEUE_PURGE'', 104),
    (''SKB_DROP_REASON_TC_COOKIE_ERROR'', 105), (''SKB_DROP_REASON_PACKET_SOCK_ERROR'', 106),
    (''SKB_DROP_REASON_TC_CHAIN_NOTFOUND'', 107), (''SKB_DROP_REASON_TC_RECLASSIFY_LOOP'', 108),
    (''SKB_DROP_REASON_VXLAN_INVALID_HDR'', 109), (''SKB_DROP_REASON_VXLAN_VNI_NOT_FOUND'', 110),
    (''SKB_DROP_REASON_MAC_INVALID_SOURCE'', 111), (''SKB_DROP_REASON_VXLAN_ENTRY_EXISTS'', 112),
    (''SKB_DROP_REASON_NO_TX_TARGET'', 113), (''SKB_DROP_REASON_IP_TUNNEL_ECN'', 114),
    (''SKB_DROP_REASON_TUNNEL_TXINFO'', 115), (''SKB_DROP_REASON_LOCAL_MAC'', 116),
    (''SKB_DROP_REASON_ARP_PVLAN_DISABLE'', 117), (''SKB_DROP_REASON_MAC_IEEE_MAC_CONTROL'', 118),
    (''SKB_DROP_REASON_BRIDGE_INGRESS_STP_STATE'', 119),
    (''SKB_DROP_REASON_CAN_RX_INVALID_FRAME'', 120),
    (''SKB_DROP_REASON_CANFD_RX_INVALID_FRAME'', 121),
    (''SKB_DROP_REASON_CANXL_RX_INVALID_FRAME'', 122), (''SKB_DROP_REASON_PFMEMALLOC'', 123),
    (''SKB_DROP_REASON_DUALPI2_STEP_DROP'', 124), (''SKB_DROP_REASON_MAX'', 125),
    (''SKB_DROP_REASON_SUBSYS_MASK'', 4294901760)]"

definition t___u32 :: ctype where
  "t___u32 = c_unsigned_int"

definition t___u64 :: ctype where
  "t___u64 = c_unsigned_long_long"

definition t___u8 :: ctype where
  "t___u8 = c_unsigned_char"

definition struct___sk_buff :: ctype where
  "struct___sk_buff = Comp Struct False [
    Member ''len'' t___u32,
    Member ''pkt_type'' t___u32,
    Member ''mark'' t___u32,
    Member ''queue_mapping'' t___u32,
    Member ''protocol'' t___u32,
    Member ''vlan_present'' t___u32,
    Member ''vlan_tci'' t___u32,
    Member ''vlan_proto'' t___u32,
    Member ''priority'' t___u32,
    Member ''ingress_ifindex'' t___u32,
    Member ''ifindex'' t___u32,
    Member ''tc_index'' t___u32,
    Member ''cb'' (Array 5 t___u32),
    Member ''hash'' t___u32,
    Member ''tc_classid'' t___u32,
    Member ''data'' t___u32,
    Member ''data_end'' t___u32,
    Member ''napi_id'' t___u32,
    Member ''family'' t___u32,
    Member ''remote_ip4'' t___u32,
    Member ''local_ip4'' t___u32,
    Member ''remote_ip6'' (Array 4 t___u32),
    Member ''local_ip6'' (Array 4 t___u32),
    Member ''remote_port'' t___u32,
    Member ''local_port'' t___u32,
    Member ''data_meta'' t___u32,
    Member '''' (Comp Union False [
      Member ''flow_keys'' (Ptr ''struct bpf_flow_keys *'')]),
    Member ''tstamp'' t___u64,
    Member ''wire_len'' t___u32,
    Member ''gso_segs'' t___u32,
    Member '''' (Comp Union False [
      Member ''sk'' (Ptr ''struct bpf_sock *'')]),
    Member ''gso_size'' t___u32,
    Member ''tstamp_type'' t___u8,
    Member ''hwtstamp'' t___u64]"

definition t___u16 :: ctype where
  "t___u16 = c_unsigned_short"

definition t___be16 :: ctype where
  "t___be16 = t___u16"

definition struct_ethhdr :: ctype where
  "struct_ethhdr = Comp Struct False [
    Member ''h_dest'' (Array 6 c_unsigned_char),
    Member ''h_source'' (Array 6 c_unsigned_char),
    Member ''h_proto'' t___be16]"

definition t___be32 :: ctype where
  "t___be32 = t___u32"

definition struct_in6_addr :: ctype where
  "struct_in6_addr = Comp Struct False [
    Member ''in6_u'' (Comp Union False [
      Member ''u6_addr8'' (Array 16 t___u8),
      Member ''u6_addr16'' (Array 8 t___be16),
      Member ''u6_addr32'' (Array 4 t___be32)])]"

definition struct_ipv6hdr :: ctype where
  "struct_ipv6hdr = Comp Struct False [
    BitField ''priority'' t___u8 4,
    BitField ''version'' t___u8 4,
    Member ''flow_lbl'' (Array 3 t___u8),
    Member ''payload_len'' t___be16,
    Member ''nexthdr'' t___u8,
    Member ''hop_limit'' t___u8,
    Member '''' (Comp Union False [
      Member '''' (Comp Struct False [
        Member ''saddr'' struct_in6_addr,
        Member ''daddr'' struct_in6_addr]),
      Member ''addrs'' (Comp Struct False [
        Member ''saddr'' struct_in6_addr,
        Member ''daddr'' struct_in6_addr])])]"

definition t___sum16 :: ctype where
  "t___sum16 = t___u16"

definition struct_iphdr :: ctype where
  "struct_iphdr = Comp Struct False [
    BitField ''ihl'' t___u8 4,
    BitField ''version'' t___u8 4,
    Member ''tos'' t___u8,
    Member ''tot_len'' t___be16,
    Member ''id'' t___be16,
    Member ''frag_off'' t___be16,
    Member ''ttl'' t___u8,
    Member ''protocol'' t___u8,
    Member ''check'' t___sum16,
    Member '''' (Comp Union False [
      Member '''' (Comp Struct False [
        Member ''saddr'' t___be32,
        Member ''daddr'' t___be32]),
      Member ''addrs'' (Comp Struct False [
        Member ''saddr'' t___be32,
        Member ''daddr'' t___be32])])]"

definition struct_tcphdr :: ctype where
  "struct_tcphdr = Comp Struct False [
    Member ''source'' t___be16,
    Member ''dest'' t___be16,
    Member ''seq'' t___be32,
    Member ''ack_seq'' t___be32,
    BitField ''ae'' t___u16 1,
    BitField ''res1'' t___u16 3,
    BitField ''doff'' t___u16 4,
    BitField ''fin'' t___u16 1,
    BitField ''syn'' t___u16 1,
    BitField ''rst'' t___u16 1,
    BitField ''psh'' t___u16 1,
    BitField ''ack'' t___u16 1,
    BitField ''urg'' t___u16 1,
    BitField ''ece'' t___u16 1,
    BitField ''cwr'' t___u16 1,
    Member ''window'' t___be16,
    Member ''check'' t___sum16,
    Member ''urg_ptr'' t___be16]"

definition struct_udphdr :: ctype where
  "struct_udphdr = Comp Struct False [
    Member ''source'' t___be16,
    Member ''dest'' t___be16,
    Member ''len'' t___be16,
    Member ''check'' t___sum16]"

definition struct_xdp_md :: ctype where
  "struct_xdp_md = Comp Struct False [
    Member ''data'' t___u32,
    Member ''data_end'' t___u32,
    Member ''data_meta'' t___u32,
    Member ''ingress_ifindex'' t___u32,
    Member ''rx_queue_index'' t___u32,
    Member ''egress_ifindex'' t___u32]"

definition struct_trace_entry :: ctype where
  "struct_trace_entry = Comp Struct False [
    Member ''type'' c_unsigned_short,
    Member ''flags'' c_unsigned_char,
    Member ''preempt_count'' c_unsigned_char,
    Member ''pid'' c_int]"

definition struct_trace_event_raw_sys_enter :: ctype where
  "struct_trace_event_raw_sys_enter = Comp Struct False [
    Member ''ent'' struct_trace_entry,
    Member ''id'' c_long,
    Member ''args'' (Array 6 c_unsigned_long),
    Member ''__data'' (Array 0 c_char)]"

definition t___s32 :: ctype where
  "t___s32 = c_int"

definition union_bpf_attr :: ctype where
  "union_bpf_attr = Comp Union False [
    Member '''' (Comp Struct False [
      Member ''map_type'' t___u32,
      Member ''key_size'' t___u32,
      Member ''value_size'' t___u32,
      Member ''max_entries'' t___u32,
      Member ''map_flags'' t___u32,
      Member ''inner_map_fd'' t___u32,
      Member ''numa_node'' t___u32,
      Member ''map_name'' (Array 16 c_char),
      Member ''map_ifindex'' t___u32,
      Member ''btf_fd'' t___u32,
      Member ''btf_key_type_id'' t___u32,
      Member ''btf_value_type_id'' t___u32,
      Member ''btf_vmlinux_value_type_id'' t___u32,
      Member ''map_extra'' t___u64,
      Member ''value_type_btf_obj_fd'' t___s32,
      Member ''map_token_fd'' t___s32]),
    Member '''' (Comp Struct False [
      Member ''map_fd'' t___u32,
      Member ''key'' t___u64,
      Member '''' (Comp Union False [
        Member ''value'' t___u64,
        Member ''next_key'' t___u64]),
      Member ''flags'' t___u64]),
    Member ''batch'' (Comp Struct False [
      Member ''in_batch'' t___u64,
      Member ''out_batch'' t___u64,
      Member ''keys'' t___u64,
      Member ''values'' t___u64,
      Member ''count'' t___u32,
      Member ''map_fd'' t___u32,
      Member ''elem_flags'' t___u64,
      Member ''flags'' t___u64]),
    Member '''' (Comp Struct False [
      Member ''prog_type'' t___u32,
      Member ''insn_cnt'' t___u32,
      Member ''insns'' t___u64,
      Member ''license'' t___u64,
      Member ''log_level'' t___u32,
      Member ''log_size'' t___u32,
      Member ''log_buf'' t___u64,
      Member ''kern_version'' t___u32,
      Member ''prog_flags'' t___u32,
      Member ''prog_name'' (Array 16 c_char),
      Member ''prog_ifindex'' t___u32,
      Member ''expected_attach_type'' t___u32,
      Member ''prog_btf_fd'' t___u32,
      Member ''func_info_rec_size'' t___u32,
      Member ''func_info'' t___u64,
      Member ''func_info_cnt'' t___u32,
      Member ''line_info_rec_size'' t___u32,
      Member ''line_info'' t___u64,
      Member ''line_info_cnt'' t___u32,
      Member ''attach_btf_id'' t___u32,
      Member '''' (Comp Union False [
        Member ''attach_prog_fd'' t___u32,
        Member ''attach_btf_obj_fd'' t___u32]),
      Member ''core_relo_cnt'' t___u32,
      Member ''fd_array'' t___u64,
      Member ''core_relos'' t___u64,
      Member ''core_relo_rec_size'' t___u32,
      Member ''log_true_size'' t___u32,
      Member ''prog_token_fd'' t___s32,
      Member ''fd_array_cnt'' t___u32]),
    Member '''' (Comp Struct False [
      Member ''pathname'' t___u64,
      Member ''bpf_fd'' t___u32,
      Member ''file_flags'' t___u32,
      Member ''path_fd'' t___s32]),
    Member '''' (Comp Struct False [
      Member '''' (Comp Union False [
        Member ''target_fd'' t___u32,
        Member ''target_ifindex'' t___u32]),
      Member ''attach_bpf_fd'' t___u32,
      Member ''attach_type'' t___u32,
      Member ''attach_flags'' t___u32,
      Member ''replace_bpf_fd'' t___u32,
      Member '''' (Comp Union False [
        Member ''relative_fd'' t___u32,
        Member ''relative_id'' t___u32]),
      Member ''expected_revision'' t___u64]),
    Member ''test'' (Comp Struct False [
      Member ''prog_fd'' t___u32,
      Member ''retval'' t___u32,
      Member ''data_size_in'' t___u32,
      Member ''data_size_out'' t___u32,
      Member ''data_in'' t___u64,
      Member ''data_out'' t___u64,
      Member ''repeat'' t___u32,
      Member ''duration'' t___u32,
      Member ''ctx_size_in'' t___u32,
      Member ''ctx_size_out'' t___u32,
      Member ''ctx_in'' t___u64,
      Member ''ctx_out'' t___u64,
      Member ''flags'' t___u32,
      Member ''cpu'' t___u32,
      Member ''batch_size'' t___u32]),
    Member '''' (Comp Struct False [
      Member '''' (Comp Union False [
        Member ''start_id'' t___u32,
        Member ''prog_id'' t___u32,
        Member ''map_id'' t___u32,
        Member ''btf_id'' t___u32,
        Member ''link_id'' t___u32]),
      Member ''next_id'' t___u32,
      Member ''open_flags'' t___u32,
      Member ''fd_by_id_token_fd'' t___s32]),
    Member ''info'' (Comp Struct False [
      Member ''bpf_fd'' t___u32,
      Member ''info_len'' t___u32,
      Member ''info'' t___u64]),
    Member ''query'' (Comp Struct False [
      Member '''' (Comp Union False [
        Member ''target_fd'' t___u32,
        Member ''target_ifindex'' t___u32]),
      Member ''attach_type'' t___u32,
      Member ''query_flags'' t___u32,
      Member ''attach_flags'' t___u32,
      Member ''prog_ids'' t___u64,
      Member '''' (Comp Union False [
        Member ''prog_cnt'' t___u32,
        Member ''count'' t___u32]),
      Member ''prog_attach_flags'' t___u64,
      Member ''link_ids'' t___u64,
      Member ''link_attach_flags'' t___u64,
      Member ''revision'' t___u64]),
    Member ''raw_tracepoint'' (Comp Struct False [
      Member ''name'' t___u64,
      Member ''prog_fd'' t___u32,
      Member ''cookie'' t___u64]),
    Member '''' (Comp Struct False [
      Member ''btf'' t___u64,
      Member ''btf_log_buf'' t___u64,
      Member ''btf_size'' t___u32,
      Member ''btf_log_size'' t___u32,
      Member ''btf_log_level'' t___u32,
      Member ''btf_log_true_size'' t___u32,
      Member ''btf_flags'' t___u32,
      Member ''btf_token_fd'' t___s32]),
    Member ''task_fd_query'' (Comp Struct False [
      Member ''pid'' t___u32,
      Member ''fd'' t___u32,
      Member ''flags'' t___u32,
      Member ''buf_len'' t___u32,
      Member ''buf'' t___u64,
      Member ''prog_id'' t___u32,
      Member ''fd_type'' t___u32,
      Member ''probe_offset'' t___u64,
      Member ''probe_addr'' t___u64]),
    Member ''link_create'' (Comp Struct False [
      Member '''' (Comp Union False [
        Member ''prog_fd'' t___u32,
        Member ''map_fd'' t___u32]),
      Member '''' (Comp Union False [
        Member ''target_fd'' t___u32,
        Member ''target_ifindex'' t___u32]),
      Member ''attach_type'' t___u32,
      Member ''flags'' t___u32,
      Member '''' (Comp Union False [
        Member ''target_btf_id'' t___u32,
        Member '''' (Comp Struct False [
          Member ''iter_info'' t___u64,
          Member ''iter_info_len'' t___u32]),
        Member ''perf_event'' (Comp Struct False [
          Member ''bpf_cookie'' t___u64]),
        Member ''kprobe_multi'' (Comp Struct False [
          Member ''flags'' t___u32,
          Member ''cnt'' t___u32,
          Member ''syms'' t___u64,
          Member ''addrs'' t___u64,
          Member ''cookies'' t___u64]),
        Member ''tracing'' (Comp Struct False [
          Member ''target_btf_id'' t___u32,
          Member ''cookie'' t___u64]),
        Member ''netfilter'' (Comp Struct False [
          Member ''pf'' t___u32,
          Member ''hooknum'' t___u32,
          Member ''priority'' t___s32,
          Member ''flags'' t___u32]),
        Member ''tcx'' (Comp Struct False [
          Member '''' (Comp Union False [
            Member ''relative_fd'' t___u32,
            Member ''relative_id'' t___u32]),
          Member ''expected_revision'' t___u64]),
        Member ''uprobe_multi'' (Comp Struct False [
          Member ''path'' t___u64,
          Member ''offsets'' t___u64,
          Member ''ref_ctr_offsets'' t___u64,
          Member ''cookies'' t___u64,
          Member ''cnt'' t___u32,
          Member ''flags'' t___u32,
          Member ''pid'' t___u32]),
        Member ''netkit'' (Comp Struct False [
          Member '''' (Comp Union False [
            Member ''relative_fd'' t___u32,
            Member ''relative_id'' t___u32]),
          Member ''expected_revision'' t___u64]),
        Member ''cgroup'' (Comp Struct False [
          Member '''' (Comp Union False [
            Member ''relative_fd'' t___u32,
            Member ''relative_id'' t___u32]),
          Member ''expected_revision'' t___u64])])]),
    Member ''link_update'' (Comp Struct False [
      Member ''link_fd'' t___u32,
      Member '''' (Comp Union False [
        Member ''new_prog_fd'' t___u32,
        Member ''new_map_fd'' t___u32]),
      Member ''flags'' t___u32,
      Member '''' (Comp Union False [
        Member ''old_prog_fd'' t___u32,
        Member ''old_map_fd'' t___u32])]),
    Member ''link_detach'' (Comp Struct False [
      Member ''link_fd'' t___u32]),
    Member ''enable_stats'' (Comp Struct False [
      Member ''type'' t___u32]),
    Member ''iter_create'' (Comp Struct False [
      Member ''link_fd'' t___u32,
      Member ''flags'' t___u32]),
    Member ''prog_bind_map'' (Comp Struct False [
      Member ''prog_fd'' t___u32,
      Member ''map_fd'' t___u32,
      Member ''flags'' t___u32]),
    Member ''token_create'' (Comp Struct False [
      Member ''flags'' t___u32,
      Member ''bpffs_fd'' t___u32]),
    Member ''prog_stream_read'' (Comp Struct False [
      Member ''stream_buf'' t___u64,
      Member ''stream_buf_len'' t___u32,
      Member ''stream_id'' t___u32,
      Member ''prog_fd'' t___u32])]"

definition struct_bpf_link_info :: ctype where
  "struct_bpf_link_info = Comp Struct False [
    Member ''type'' t___u32,
    Member ''id'' t___u32,
    Member ''prog_id'' t___u32,
    Member '''' (Comp Union False [
      Member ''raw_tracepoint'' (Comp Struct False [
        Member ''tp_name'' t___u64,
        Member ''tp_name_len'' t___u32,
        Member ''cookie'' t___u64]),
      Member ''tracing'' (Comp Struct False [
        Member ''attach_type'' t___u32,
        Member ''target_obj_id'' t___u32,
        Member ''target_btf_id'' t___u32,
        Member ''cookie'' t___u64]),
      Member ''cgroup'' (Comp Struct False [
        Member ''cgroup_id'' t___u64,
        Member ''attach_type'' t___u32]),
      Member ''iter'' (Comp Struct False [
        Member ''target_name'' t___u64,
        Member ''target_name_len'' t___u32,
        Member '''' (Comp Union False [
          Member ''map'' (Comp Struct False [
            Member ''map_id'' t___u32])]),
        Member '''' (Comp Union False [
          Member ''cgroup'' (Comp Struct False [
            Member ''cgroup_id'' t___u64,
            Member ''order'' t___u32]),
          Member ''task'' (Comp Struct False [
            Member ''tid'' t___u32,
            Member ''pid'' t___u32])])]),
      Member ''netns'' (Comp Struct False [
        Member ''netns_ino'' t___u32,
        Member ''attach_type'' t___u32]),
      Member ''xdp'' (Comp Struct False [
        Member ''ifindex'' t___u32]),
      Member ''struct_ops'' (Comp Struct False [
        Member ''map_id'' t___u32]),
      Member ''netfilter'' (Comp Struct False [
        Member ''pf'' t___u32,
        Member ''hooknum'' t___u32,
        Member ''priority'' t___s32,
        Member ''flags'' t___u32]),
      Member ''kprobe_multi'' (Comp Struct False [
        Member ''addrs'' t___u64,
        Member ''count'' t___u32,
        Member ''flags'' t___u32,
        Member ''missed'' t___u64,
        Member ''cookies'' t___u64]),
      Member ''uprobe_multi'' (Comp Struct False [
        Member ''path'' t___u64,
        Member ''offsets'' t___u64,
        Member ''ref_ctr_offsets'' t___u64,
        Member ''cookies'' t___u64,
        Member ''path_size'' t___u32,
        Member ''count'' t___u32,
        Member ''flags'' t___u32,
        Member ''pid'' t___u32]),
      Member ''perf_event'' (Comp Struct False [
        Member ''type'' t___u32,
        Member '''' (Comp Union False [
          Member ''uprobe'' (Comp Struct False [
            Member ''file_name'' t___u64,
            Member ''name_len'' t___u32,
            Member ''offset'' t___u32,
            Member ''cookie'' t___u64,
            Member ''ref_ctr_offset'' t___u64]),
          Member ''kprobe'' (Comp Struct False [
            Member ''func_name'' t___u64,
            Member ''name_len'' t___u32,
            Member ''offset'' t___u32,
            Member ''addr'' t___u64,
            Member ''missed'' t___u64,
            Member ''cookie'' t___u64]),
          Member ''tracepoint'' (Comp Struct False [
            Member ''tp_name'' t___u64,
            Member ''name_len'' t___u32,
            Member ''cookie'' t___u64]),
          Member ''event'' (Comp Struct False [
            Member ''config'' t___u64,
            Member ''type'' t___u32,
            Member ''cookie'' t___u64])])]),
      Member ''tcx'' (Comp Struct False [
        Member ''ifindex'' t___u32,
        Member ''attach_type'' t___u32]),
      Member ''netkit'' (Comp Struct False [
        Member ''ifindex'' t___u32,
        Member ''attach_type'' t___u32]),
      Member ''sockmap'' (Comp Struct False [
        Member ''map_id'' t___u32,
        Member ''attach_type'' t___u32])])]"

definition struct_bpf_prog_info :: ctype where
  "struct_bpf_prog_info = Comp Struct False [
    Member ''type'' t___u32,
    Member ''id'' t___u32,
    Member ''tag'' (Array 8 t___u8),
    Member ''jited_prog_len'' t___u32,
    Member ''xlated_prog_len'' t___u32,
    Member ''jited_prog_insns'' t___u64,
    Member ''xlated_prog_insns'' t___u64,
    Member ''load_time'' t___u64,
    Member ''created_by_uid'' t___u32,
    Member ''nr_map_ids'' t___u32,
    Member ''map_ids'' t___u64,
    Member ''name'' (Array 16 c_char),
    Member ''ifindex'' t___u32,
    BitField ''gpl_compatible'' t___u32 1,
    Member ''netns_dev'' t___u64,
    Member ''netns_ino'' t___u64,
    Member ''nr_jited_ksyms'' t___u32,
    Member ''nr_jited_func_lens'' t___u32,
    Member ''jited_ksyms'' t___u64,
    Member ''jited_func_lens'' t___u64,
    Member ''btf_id'' t___u32,
    Member ''func_info_rec_size'' t___u32,
    Member ''func_info'' t___u64,
    Member ''nr_func_info'' t___u32,
    Member ''nr_line_info'' t___u32,
    Member ''line_info'' t___u64,
    Member ''jited_line_info'' t___u64,
    Member ''nr_jited_line_info'' t___u32,
    Member ''line_info_rec_size'' t___u32,
    Member ''jited_line_info_rec_size'' t___u32,
    Member ''nr_prog_tags'' t___u32,
    Member ''prog_tags'' t___u64,
    Member ''run_time_ns'' t___u64,
    Member ''run_cnt'' t___u64,
    Member ''recursion_misses'' t___u64,
    Member ''verified_insns'' t___u32,
    Member ''attach_btf_obj_id'' t___u32,
    Member ''attach_btf_id'' t___u32]"

definition struct_bpf_map_info :: ctype where
  "struct_bpf_map_info = Comp Struct False [
    Member ''type'' t___u32,
    Member ''id'' t___u32,
    Member ''key_size'' t___u32,
    Member ''value_size'' t___u32,
    Member ''max_entries'' t___u32,
    Member ''map_flags'' t___u32,
    Member ''name'' (Array 16 c_char),
    Member ''ifindex'' t___u32,
    Member ''btf_vmlinux_value_type_id'' t___u32,
    Member ''netns_dev'' t___u64,
    Member ''netns_ino'' t___u64,
    Member ''btf_id'' t___u32,
    Member ''btf_key_type_id'' t___u32,
    Member ''btf_value_type_id'' t___u32,
    Member ''btf_vmlinux_id'' t___u32,
    Member ''map_extra'' t___u64]"

definition struct_bpf_sock_ops :: ctype where
  "struct_bpf_sock_ops = Comp Struct False [
    Member ''op'' t___u32,
    Member '''' (Comp Union False [
      Member ''args'' (Array 4 t___u32),
      Member ''reply'' t___u32,
      Member ''replylong'' (Array 4 t___u32)]),
    Member ''family'' t___u32,
    Member ''remote_ip4'' t___u32,
    Member ''local_ip4'' t___u32,
    Member ''remote_ip6'' (Array 4 t___u32),
    Member ''local_ip6'' (Array 4 t___u32),
    Member ''remote_port'' t___u32,
    Member ''local_port'' t___u32,
    Member ''is_fullsock'' t___u32,
    Member ''snd_cwnd'' t___u32,
    Member ''srtt_us'' t___u32,
    Member ''bpf_sock_ops_cb_flags'' t___u32,
    Member ''state'' t___u32,
    Member ''rtt_min'' t___u32,
    Member ''snd_ssthresh'' t___u32,
    Member ''rcv_nxt'' t___u32,
    Member ''snd_nxt'' t___u32,
    Member ''snd_una'' t___u32,
    Member ''mss_cache'' t___u32,
    Member ''ecn_flags'' t___u32,
    Member ''rate_delivered'' t___u32,
    Member ''rate_interval_us'' t___u32,
    Member ''packets_out'' t___u32,
    Member ''retrans_out'' t___u32,
    Member ''total_retrans'' t___u32,
    Member ''segs_in'' t___u32,
    Member ''data_segs_in'' t___u32,
    Member ''segs_out'' t___u32,
    Member ''data_segs_out'' t___u32,
    Member ''lost_out'' t___u32,
    Member ''sacked_out'' t___u32,
    Member ''sk_txhash'' t___u32,
    Member ''bytes_received'' t___u64,
    Member ''bytes_acked'' t___u64,
    Member '''' (Comp Union False [
      Member ''sk'' (Ptr ''struct bpf_sock *'')]),
    Member '''' (Comp Union False [
      Member ''skb_data'' (Ptr ''void *'')]),
    Member '''' (Comp Union False [
      Member ''skb_data_end'' (Ptr ''void *'')]),
    Member ''skb_len'' t___u32,
    Member ''skb_tcp_flags'' t___u32,
    Member ''skb_hwtstamp'' t___u64]"

definition struct_tcp_info :: ctype where
  "struct_tcp_info = Comp Struct False [
    Member ''tcpi_state'' t___u8,
    Member ''tcpi_ca_state'' t___u8,
    Member ''tcpi_retransmits'' t___u8,
    Member ''tcpi_probes'' t___u8,
    Member ''tcpi_backoff'' t___u8,
    Member ''tcpi_options'' t___u8,
    BitField ''tcpi_snd_wscale'' t___u8 4,
    BitField ''tcpi_rcv_wscale'' t___u8 4,
    BitField ''tcpi_delivery_rate_app_limited'' t___u8 1,
    BitField ''tcpi_fastopen_client_fail'' t___u8 2,
    Member ''tcpi_rto'' t___u32,
    Member ''tcpi_ato'' t___u32,
    Member ''tcpi_snd_mss'' t___u32,
    Member ''tcpi_rcv_mss'' t___u32,
    Member ''tcpi_unacked'' t___u32,
    Member ''tcpi_sacked'' t___u32,
    Member ''tcpi_lost'' t___u32,
    Member ''tcpi_retrans'' t___u32,
    Member ''tcpi_fackets'' t___u32,
    Member ''tcpi_last_data_sent'' t___u32,
    Member ''tcpi_last_ack_sent'' t___u32,
    Member ''tcpi_last_data_recv'' t___u32,
    Member ''tcpi_last_ack_recv'' t___u32,
    Member ''tcpi_pmtu'' t___u32,
    Member ''tcpi_rcv_ssthresh'' t___u32,
    Member ''tcpi_rtt'' t___u32,
    Member ''tcpi_rttvar'' t___u32,
    Member ''tcpi_snd_ssthresh'' t___u32,
    Member ''tcpi_snd_cwnd'' t___u32,
    Member ''tcpi_advmss'' t___u32,
    Member ''tcpi_reordering'' t___u32,
    Member ''tcpi_rcv_rtt'' t___u32,
    Member ''tcpi_rcv_space'' t___u32,
    Member ''tcpi_total_retrans'' t___u32,
    Member ''tcpi_pacing_rate'' t___u64,
    Member ''tcpi_max_pacing_rate'' t___u64,
    Member ''tcpi_bytes_acked'' t___u64,
    Member ''tcpi_bytes_received'' t___u64,
    Member ''tcpi_segs_out'' t___u32,
    Member ''tcpi_segs_in'' t___u32,
    Member ''tcpi_notsent_bytes'' t___u32,
    Member ''tcpi_min_rtt'' t___u32,
    Member ''tcpi_data_segs_in'' t___u32,
    Member ''tcpi_data_segs_out'' t___u32,
    Member ''tcpi_delivery_rate'' t___u64,
    Member ''tcpi_busy_time'' t___u64,
    Member ''tcpi_rwnd_limited'' t___u64,
    Member ''tcpi_sndbuf_limited'' t___u64,
    Member ''tcpi_delivered'' t___u32,
    Member ''tcpi_delivered_ce'' t___u32,
    Member ''tcpi_bytes_sent'' t___u64,
    Member ''tcpi_bytes_retrans'' t___u64,
    Member ''tcpi_dsack_dups'' t___u32,
    Member ''tcpi_reord_seen'' t___u32,
    Member ''tcpi_rcv_ooopack'' t___u32,
    Member ''tcpi_snd_wnd'' t___u32,
    Member ''tcpi_rcv_wnd'' t___u32,
    Member ''tcpi_rehash'' t___u32,
    Member ''tcpi_total_rto'' t___u16,
    Member ''tcpi_total_rto_recoveries'' t___u16,
    Member ''tcpi_total_rto_time'' t___u32]"

definition struct_perf_event_attr :: ctype where
  "struct_perf_event_attr = Comp Struct False [
    Member ''type'' t___u32,
    Member ''size'' t___u32,
    Member ''config'' t___u64,
    Member '''' (Comp Union False [
      Member ''sample_period'' t___u64,
      Member ''sample_freq'' t___u64]),
    Member ''sample_type'' t___u64,
    Member ''read_format'' t___u64,
    BitField ''disabled'' t___u64 1,
    BitField ''inherit'' t___u64 1,
    BitField ''pinned'' t___u64 1,
    BitField ''exclusive'' t___u64 1,
    BitField ''exclude_user'' t___u64 1,
    BitField ''exclude_kernel'' t___u64 1,
    BitField ''exclude_hv'' t___u64 1,
    BitField ''exclude_idle'' t___u64 1,
    BitField ''mmap'' t___u64 1,
    BitField ''comm'' t___u64 1,
    BitField ''freq'' t___u64 1,
    BitField ''inherit_stat'' t___u64 1,
    BitField ''enable_on_exec'' t___u64 1,
    BitField ''task'' t___u64 1,
    BitField ''watermark'' t___u64 1,
    BitField ''precise_ip'' t___u64 2,
    BitField ''mmap_data'' t___u64 1,
    BitField ''sample_id_all'' t___u64 1,
    BitField ''exclude_host'' t___u64 1,
    BitField ''exclude_guest'' t___u64 1,
    BitField ''exclude_callchain_kernel'' t___u64 1,
    BitField ''exclude_callchain_user'' t___u64 1,
    BitField ''mmap2'' t___u64 1,
    BitField ''comm_exec'' t___u64 1,
    BitField ''use_clockid'' t___u64 1,
    BitField ''context_switch'' t___u64 1,
    BitField ''write_backward'' t___u64 1,
    BitField ''namespaces'' t___u64 1,
    BitField ''ksymbol'' t___u64 1,
    BitField ''bpf_event'' t___u64 1,
    BitField ''aux_output'' t___u64 1,
    BitField ''cgroup'' t___u64 1,
    BitField ''text_poke'' t___u64 1,
    BitField ''build_id'' t___u64 1,
    BitField ''inherit_thread'' t___u64 1,
    BitField ''remove_on_exec'' t___u64 1,
    BitField ''sigtrap'' t___u64 1,
    BitField ''__reserved_1'' t___u64 26,
    Member '''' (Comp Union False [
      Member ''wakeup_events'' t___u32,
      Member ''wakeup_watermark'' t___u32]),
    Member ''bp_type'' t___u32,
    Member '''' (Comp Union False [
      Member ''bp_addr'' t___u64,
      Member ''kprobe_func'' t___u64,
      Member ''uprobe_path'' t___u64,
      Member ''config1'' t___u64]),
    Member '''' (Comp Union False [
      Member ''bp_len'' t___u64,
      Member ''kprobe_addr'' t___u64,
      Member ''probe_offset'' t___u64,
      Member ''config2'' t___u64]),
    Member ''branch_sample_type'' t___u64,
    Member ''sample_regs_user'' t___u64,
    Member ''sample_stack_user'' t___u32,
    Member ''clockid'' t___s32,
    Member ''sample_regs_intr'' t___u64,
    Member ''aux_watermark'' t___u32,
    Member ''sample_max_stack'' t___u16,
    Member ''__reserved_2'' t___u16,
    Member ''aux_sample_size'' t___u32,
    Member '''' (Comp Union False [
      Member ''aux_action'' t___u32,
      Member '''' (Comp Struct False [
        BitField ''aux_start_paused'' t___u32 1,
        BitField ''aux_pause'' t___u32 1,
        BitField ''aux_resume'' t___u32 1,
        BitField ''__reserved_3'' t___u32 29])]),
    Member ''sig_data'' t___u64,
    Member ''config3'' t___u64]"

definition enum_LINUX_MIB_NUM :: ctype where
  "enum_LINUX_MIB_NUM = Enum False [
    (''LINUX_MIB_NUM'', 0), (''LINUX_MIB_SYNCOOKIESSENT'', 1), (''LINUX_MIB_SYNCOOKIESRECV'', 2),
    (''LINUX_MIB_SYNCOOKIESFAILED'', 3), (''LINUX_MIB_EMBRYONICRSTS'', 4),
    (''LINUX_MIB_PRUNECALLED'', 5), (''LINUX_MIB_RCVPRUNED'', 6), (''LINUX_MIB_OFOPRUNED'', 7),
    (''LINUX_MIB_OUTOFWINDOWICMPS'', 8), (''LINUX_MIB_LOCKDROPPEDICMPS'', 9),
    (''LINUX_MIB_ARPFILTER'', 10), (''LINUX_MIB_TIMEWAITED'', 11),
    (''LINUX_MIB_TIMEWAITRECYCLED'', 12), (''LINUX_MIB_TIMEWAITKILLED'', 13),
    (''LINUX_MIB_PAWSACTIVEREJECTED'', 14), (''LINUX_MIB_PAWSESTABREJECTED'', 15),
    (''LINUX_MIB_BEYOND_WINDOW'', 16), (''LINUX_MIB_TSECRREJECTED'', 17),
    (''LINUX_MIB_PAWS_OLD_ACK'', 18), (''LINUX_MIB_PAWS_TW_REJECTED'', 19),
    (''LINUX_MIB_DELAYEDACKS'', 20), (''LINUX_MIB_DELAYEDACKLOCKED'', 21),
    (''LINUX_MIB_DELAYEDACKLOST'', 22), (''LINUX_MIB_LISTENOVERFLOWS'', 23),
    (''LINUX_MIB_LISTENDROPS'', 24), (''LINUX_MIB_TCPHPHITS'', 25),
    (''LINUX_MIB_TCPPUREACKS'', 26), (''LINUX_MIB_TCPHPACKS'', 27),
    (''LINUX_MIB_TCPRENORECOVERY'', 28), (''LINUX_MIB_TCPSACKRECOVERY'', 29),
    (''LINUX_MIB_TCPSACKRENEGING'', 30), (''LINUX_MIB_TCPSACKREORDER'', 31),
    (''LINUX_MIB_TCPRENOREORDER'', 32), (''LINUX_MIB_TCPTSREORDER'', 33),
    (''LINUX_MIB_TCPFULLUNDO'', 34), (''LINUX_MIB_TCPPARTIALUNDO'', 35),
    (''LINUX_MIB_TCPDSACKUNDO'', 36), (''LINUX_MIB_TCPLOSSUNDO'', 37),
    (''LINUX_MIB_TCPLOSTRETRANSMIT'', 38), (''LINUX_MIB_TCPRENOFAILURES'', 39),
    (''LINUX_MIB_TCPSACKFAILURES'', 40), (''LINUX_MIB_TCPLOSSFAILURES'', 41),
    (''LINUX_MIB_TCPFASTRETRANS'', 42), (''LINUX_MIB_TCPSLOWSTARTRETRANS'', 43),
    (''LINUX_MIB_TCPTIMEOUTS'', 44), (''LINUX_MIB_TCPLOSSPROBES'', 45),
    (''LINUX_MIB_TCPLOSSPROBERECOVERY'', 46), (''LINUX_MIB_TCPRENORECOVERYFAIL'', 47),
    (''LINUX_MIB_TCPSACKRECOVERYFAIL'', 48), (''LINUX_MIB_TCPRCVCOLLAPSED'', 49),
    (''LINUX_MIB_TCPDSACKOLDSENT'', 50), (''LINUX_MIB_TCPDSACKOFOSENT'', 51),
    (''LINUX_MIB_TCPDSACKRECV'', 52), (''LINUX_MIB_TCPDSACKOFORECV'', 53),
    (''LINUX_MIB_TCPABORTONDATA'', 54), (''LINUX_MIB_TCPABORTONCLOSE'', 55),
    (''LINUX_MIB_TCPABORTONMEMORY'', 56), (''LINUX_MIB_TCPABORTONTIMEOUT'', 57),
    (''LINUX_MIB_TCPABORTONLINGER'', 58), (''LINUX_MIB_TCPABORTFAILED'', 59),
    (''LINUX_MIB_TCPMEMORYPRESSURES'', 60), (''LINUX_MIB_TCPMEMORYPRESSURESCHRONO'', 61),
    (''LINUX_MIB_TCPSACKDISCARD'', 62), (''LINUX_MIB_TCPDSACKIGNOREDOLD'', 63),
    (''LINUX_MIB_TCPDSACKIGNOREDNOUNDO'', 64), (''LINUX_MIB_TCPSPURIOUSRTOS'', 65),
    (''LINUX_MIB_TCPMD5NOTFOUND'', 66), (''LINUX_MIB_TCPMD5UNEXPECTED'', 67),
    (''LINUX_MIB_TCPMD5FAILURE'', 68), (''LINUX_MIB_SACKSHIFTED'', 69),
    (''LINUX_MIB_SACKMERGED'', 70), (''LINUX_MIB_SACKSHIFTFALLBACK'', 71),
    (''LINUX_MIB_TCPBACKLOGDROP'', 72), (''LINUX_MIB_PFMEMALLOCDROP'', 73),
    (''LINUX_MIB_TCPMINTTLDROP'', 74), (''LINUX_MIB_TCPDEFERACCEPTDROP'', 75),
    (''LINUX_MIB_IPRPFILTER'', 76), (''LINUX_MIB_TCPTIMEWAITOVERFLOW'', 77),
    (''LINUX_MIB_TCPREQQFULLDOCOOKIES'', 78), (''LINUX_MIB_TCPREQQFULLDROP'', 79),
    (''LINUX_MIB_TCPRETRANSFAIL'', 80), (''LINUX_MIB_TCPRCVCOALESCE'', 81),
    (''LINUX_MIB_TCPBACKLOGCOALESCE'', 82), (''LINUX_MIB_TCPOFOQUEUE'', 83),
    (''LINUX_MIB_TCPOFODROP'', 84), (''LINUX_MIB_TCPOFOMERGE'', 85),
    (''LINUX_MIB_TCPCHALLENGEACK'', 86), (''LINUX_MIB_TCPSYNCHALLENGE'', 87),
    (''LINUX_MIB_TCPFASTOPENACTIVE'', 88), (''LINUX_MIB_TCPFASTOPENACTIVEFAIL'', 89),
    (''LINUX_MIB_TCPFASTOPENPASSIVE'', 90), (''LINUX_MIB_TCPFASTOPENPASSIVEFAIL'', 91),
    (''LINUX_MIB_TCPFASTOPENLISTENOVERFLOW'', 92), (''LINUX_MIB_TCPFASTOPENCOOKIEREQD'', 93),
    (''LINUX_MIB_TCPFASTOPENBLACKHOLE'', 94), (''LINUX_MIB_TCPSPURIOUS_RTX_HOSTQUEUES'', 95),
    (''LINUX_MIB_BUSYPOLLRXPACKETS'', 96), (''LINUX_MIB_TCPAUTOCORKING'', 97),
    (''LINUX_MIB_TCPFROMZEROWINDOWADV'', 98), (''LINUX_MIB_TCPTOZEROWINDOWADV'', 99),
    (''LINUX_MIB_TCPWANTZEROWINDOWADV'', 100), (''LINUX_MIB_TCPSYNRETRANS'', 101),
    (''LINUX_MIB_TCPORIGDATASENT'', 102), (''LINUX_MIB_TCPHYSTARTTRAINDETECT'', 103),
    (''LINUX_MIB_TCPHYSTARTTRAINCWND'', 104), (''LINUX_MIB_TCPHYSTARTDELAYDETECT'', 105),
    (''LINUX_MIB_TCPHYSTARTDELAYCWND'', 106), (''LINUX_MIB_TCPACKSKIPPEDSYNRECV'', 107),
    (''LINUX_MIB_TCPACKSKIPPEDPAWS'', 108), (''LINUX_MIB_TCPACKSKIPPEDSEQ'', 109),
    (''LINUX_MIB_TCPACKSKIPPEDFINWAIT2'', 110), (''LINUX_MIB_TCPACKSKIPPEDTIMEWAIT'', 111),
    (''LINUX_MIB_TCPACKSKIPPEDCHALLENGE'', 112), (''LINUX_MIB_TCPWINPROBE'', 113),
    (''LINUX_MIB_TCPKEEPALIVE'', 114), (''LINUX_MIB_TCPMTUPFAIL'', 115),
    (''LINUX_MIB_TCPMTUPSUCCESS'', 116), (''LINUX_MIB_TCPDELIVERED'', 117),
    (''LINUX_MIB_TCPDELIVEREDCE'', 118), (''LINUX_MIB_TCPACKCOMPRESSED'', 119),
    (''LINUX_MIB_TCPZEROWINDOWDROP'', 120), (''LINUX_MIB_TCPRCVQDROP'', 121),
    (''LINUX_MIB_TCPWQUEUETOOBIG'', 122), (''LINUX_MIB_TCPFASTOPENPASSIVEALTKEY'', 123),
    (''LINUX_MIB_TCPTIMEOUTREHASH'', 124), (''LINUX_MIB_TCPDUPLICATEDATAREHASH'', 125),
    (''LINUX_MIB_TCPDSACKRECVSEGS'', 126), (''LINUX_MIB_TCPDSACKIGNOREDDUBIOUS'', 127),
    (''LINUX_MIB_TCPMIGRATEREQSUCCESS'', 128), (''LINUX_MIB_TCPMIGRATEREQFAILURE'', 129),
    (''LINUX_MIB_TCPPLBREHASH'', 130), (''LINUX_MIB_TCPAOREQUIRED'', 131),
    (''LINUX_MIB_TCPAOBAD'', 132), (''LINUX_MIB_TCPAOKEYNOTFOUND'', 133),
    (''LINUX_MIB_TCPAOGOOD'', 134), (''LINUX_MIB_TCPAODROPPEDICMPS'', 135),
    (''__LINUX_MIB_MAX'', 136)]"

definition enum_IFLA_UNSPEC :: ctype where
  "enum_IFLA_UNSPEC = Enum False [
    (''IFLA_UNSPEC'', 0), (''IFLA_ADDRESS'', 1), (''IFLA_BROADCAST'', 2), (''IFLA_IFNAME'', 3),
    (''IFLA_MTU'', 4), (''IFLA_LINK'', 5), (''IFLA_QDISC'', 6), (''IFLA_STATS'', 7),
    (''IFLA_COST'', 8), (''IFLA_PRIORITY'', 9), (''IFLA_MASTER'', 10), (''IFLA_WIRELESS'', 11),
    (''IFLA_PROTINFO'', 12), (''IFLA_TXQLEN'', 13), (''IFLA_MAP'', 14), (''IFLA_WEIGHT'', 15),
    (''IFLA_OPERSTATE'', 16), (''IFLA_LINKMODE'', 17), (''IFLA_LINKINFO'', 18),
    (''IFLA_NET_NS_PID'', 19), (''IFLA_IFALIAS'', 20), (''IFLA_NUM_VF'', 21),
    (''IFLA_VFINFO_LIST'', 22), (''IFLA_STATS64'', 23), (''IFLA_VF_PORTS'', 24),
    (''IFLA_PORT_SELF'', 25), (''IFLA_AF_SPEC'', 26), (''IFLA_GROUP'', 27),
    (''IFLA_NET_NS_FD'', 28), (''IFLA_EXT_MASK'', 29), (''IFLA_PROMISCUITY'', 30),
    (''IFLA_NUM_TX_QUEUES'', 31), (''IFLA_NUM_RX_QUEUES'', 32), (''IFLA_CARRIER'', 33),
    (''IFLA_PHYS_PORT_ID'', 34), (''IFLA_CARRIER_CHANGES'', 35), (''IFLA_PHYS_SWITCH_ID'', 36),
    (''IFLA_LINK_NETNSID'', 37), (''IFLA_PHYS_PORT_NAME'', 38), (''IFLA_PROTO_DOWN'', 39),
    (''IFLA_GSO_MAX_SEGS'', 40), (''IFLA_GSO_MAX_SIZE'', 41), (''IFLA_PAD'', 42),
    (''IFLA_XDP'', 43), (''IFLA_EVENT'', 44), (''IFLA_NEW_NETNSID'', 45),
    (''IFLA_IF_NETNSID'', 46), (''IFLA_TARGET_NETNSID'', 46), (''IFLA_CARRIER_UP_COUNT'', 47),
    (''IFLA_CARRIER_DOWN_COUNT'', 48), (''IFLA_NEW_IFINDEX'', 49), (''IFLA_MIN_MTU'', 50),
    (''IFLA_MAX_MTU'', 51), (''IFLA_PROP_LIST'', 52), (''IFLA_ALT_IFNAME'', 53),
    (''IFLA_PERM_ADDRESS'', 54), (''IFLA_PROTO_DOWN_REASON'', 55), (''IFLA_PARENT_DEV_NAME'', 56),
    (''IFLA_PARENT_DEV_BUS_NAME'', 57), (''IFLA_GRO_MAX_SIZE'', 58), (''IFLA_TSO_MAX_SIZE'', 59),
    (''IFLA_TSO_MAX_SEGS'', 60), (''IFLA_ALLMULTI'', 61), (''IFLA_DEVLINK_PORT'', 62),
    (''IFLA_GSO_IPV4_MAX_SIZE'', 63), (''IFLA_GRO_IPV4_MAX_SIZE'', 64), (''IFLA_DPLL_PIN'', 65),
    (''IFLA_MAX_PACING_OFFLOAD_HORIZON'', 66), (''IFLA_NETNS_IMMUTABLE'', 67),
    (''__IFLA_MAX'', 68)]"

definition enum_IFLA_NETKIT_UNSPEC :: ctype where
  "enum_IFLA_NETKIT_UNSPEC = Enum False [
    (''IFLA_NETKIT_UNSPEC'', 0), (''IFLA_NETKIT_PEER_INFO'', 1), (''IFLA_NETKIT_PRIMARY'', 2),
    (''IFLA_NETKIT_POLICY'', 3), (''IFLA_NETKIT_PEER_POLICY'', 4), (''IFLA_NETKIT_MODE'', 5),
    (''IFLA_NETKIT_SCRUB'', 6), (''IFLA_NETKIT_PEER_SCRUB'', 7), (''IFLA_NETKIT_HEADROOM'', 8),
    (''IFLA_NETKIT_TAILROOM'', 9), (''__IFLA_NETKIT_MAX'', 10)]"

end
