(* ===== verification/Vmlinux_Bpf.thy ===== *)
theory Vmlinux_Bpf
  imports Vmlinux_Uapi
begin

text \<open>
  The declarations of \<^verbatim>\<open>vmlinux.h\<close> for the kernel side of the bpf subsystem: maps, the ring
  buffer, programs and the verifier environment, with the types they contain.
\<close>

definition t_atomic_t :: ctype where
  "t_atomic_t = Comp Struct False [
    Member ''counter'' c_int]"

definition t_u8 :: ctype where
  "t_u8 = t___u8"

definition t_u16 :: ctype where
  "t_u16 = t___u16"

definition struct_qspinlock :: ctype where
  "struct_qspinlock = Comp Struct False [
    Member '''' (Comp Union False [
      Member ''val'' t_atomic_t,
      Member '''' (Comp Struct False [
        Member ''locked'' t_u8,
        Member ''pending'' t_u8]),
      Member '''' (Comp Struct False [
        Member ''locked_pending'' t_u16,
        Member ''tail'' t_u16])])]"

definition t_arch_spinlock_t :: ctype where
  "t_arch_spinlock_t = struct_qspinlock"

definition struct_raw_spinlock :: ctype where
  "struct_raw_spinlock = Comp Struct False [
    Member ''raw_lock'' t_arch_spinlock_t]"

definition struct_spinlock :: ctype where
  "struct_spinlock = Comp Struct False [
    Member '''' (Comp Union False [
      Member ''rlock'' struct_raw_spinlock])]"

definition t_spinlock_t :: ctype where
  "t_spinlock_t = struct_spinlock"

definition struct_list_head :: ctype where
  "struct_list_head = Comp Struct False [
    Member ''next'' (Ptr ''struct list_head *''),
    Member ''prev'' (Ptr ''struct list_head *'')]"

definition struct_wait_queue_head :: ctype where
  "struct_wait_queue_head = Comp Struct False [
    Member ''lock'' t_spinlock_t,
    Member ''head'' struct_list_head]"

definition t_wait_queue_head_t :: ctype where
  "t_wait_queue_head_t = struct_wait_queue_head"

definition struct_llist_node :: ctype where
  "struct_llist_node = Comp Struct False [
    Member ''next'' (Ptr ''struct llist_node *'')]"

definition struct___call_single_node :: ctype where
  "struct___call_single_node = Comp Struct False [
    Member ''llist'' struct_llist_node,
    Member '''' (Comp Union False [
      Member ''u_flags'' c_unsigned_int,
      Member ''a_flags'' t_atomic_t]),
    Member ''src'' t_u16,
    Member ''dst'' t_u16]"

definition struct_rcuwait :: ctype where
  "struct_rcuwait = Comp Struct False [
    Member ''task'' (Ptr ''struct task_struct *'')]"

definition struct_irq_work :: ctype where
  "struct_irq_work = Comp Struct False [
    Member ''node'' struct___call_single_node,
    Member ''func'' (Ptr ''void (*)(struct irq_work *)''),
    Member ''irqwait'' struct_rcuwait]"

definition t_u64 :: ctype where
  "t_u64 = t___u64"

definition t_rqspinlock_t :: ctype where
  "t_rqspinlock_t = struct_qspinlock"

definition struct_bpf_ringbuf :: ctype where
  "struct_bpf_ringbuf = Comp Struct False ([
    Member ''waitq'' t_wait_queue_head_t,
    Member ''work'' struct_irq_work,
    Member ''mask'' t_u64,
    Member ''pages'' (Ptr ''struct page **''),
    Member ''nr_pages'' c_int,
    BitField '''' c_long 64,
    BitField '''' c_long 64,
    BitField '''' c_long 64,
    BitField '''' c_long 64,
    BitField '''' c_long 64,
    BitField '''' c_long 64,
    Member ''spinlock'' t_rqspinlock_t] @ replicate 15 (BitField '''' c_long 64) @ [
    Member ''busy'' t_atomic_t] @ replicate 479 (BitField '''' c_long 64) @ [
    Member ''consumer_pos'' c_unsigned_long] @ replicate 511 (BitField '''' c_long 64) @ [
    Member ''producer_pos'' c_unsigned_long,
    Member ''pending_pos'' c_unsigned_long] @ replicate 510 (BitField '''' c_long 64) @ [
    Member ''data'' (Array 0 c_char)])"

definition t_u32 :: ctype where
  "t_u32 = t___u32"

definition t___s64 :: ctype where
  "t___s64 = c_long_long"

definition t_s64 :: ctype where
  "t_s64 = t___s64"

definition t_atomic64_t :: ctype where
  "t_atomic64_t = Comp Struct False [
    Member ''counter'' t_s64]"

definition t_atomic_long_t :: ctype where
  "t_atomic_long_t = t_atomic64_t"

definition t_raw_spinlock_t :: ctype where
  "t_raw_spinlock_t = struct_raw_spinlock"

definition struct_optimistic_spin_queue :: ctype where
  "struct_optimistic_spin_queue = Comp Struct False [
    Member ''tail'' t_atomic_t]"

definition struct_mutex :: ctype where
  "struct_mutex = Comp Struct False [
    Member ''owner'' t_atomic_long_t,
    Member ''wait_lock'' t_raw_spinlock_t,
    Member ''osq'' struct_optimistic_spin_queue,
    Member ''wait_list'' struct_list_head]"

definition t_work_func_t :: ctype where
  "t_work_func_t = Ptr ''void (*)(struct work_struct *)''"

definition struct_work_struct :: ctype where
  "struct_work_struct = Comp Struct False [
    Member ''data'' t_atomic_long_t,
    Member ''entry'' struct_list_head,
    Member ''func'' t_work_func_t]"

definition struct_callback_head :: ctype where
  "struct_callback_head = Comp Struct False [
    Member ''next'' (Ptr ''struct callback_head *''),
    Member ''func'' (Ptr ''void (*)(struct callback_head *)'')]"

definition t_bool :: ctype where
  "t_bool = c_bool"

definition struct_bpf_map :: ctype where
  "struct_bpf_map = Comp Struct False [
    Member ''ops'' (Ptr ''struct bpf_map_ops *''),
    Member ''inner_map_meta'' (Ptr ''struct bpf_map *''),
    Member ''security'' (Ptr ''void *''),
    Member ''map_type'' enum_bpf_map_type,
    Member ''key_size'' t_u32,
    Member ''value_size'' t_u32,
    Member ''max_entries'' t_u32,
    Member ''map_extra'' t_u64,
    Member ''map_flags'' t_u32,
    Member ''id'' t_u32,
    Member ''record'' (Ptr ''struct btf_record *''),
    Member ''numa_node'' c_int,
    Member ''btf_key_type_id'' t_u32,
    Member ''btf_value_type_id'' t_u32,
    Member ''btf_vmlinux_value_type_id'' t_u32,
    Member ''btf'' (Ptr ''struct btf *''),
    Member ''objcg'' (Ptr ''struct obj_cgroup *''),
    Member ''name'' (Array 16 c_char),
    Member ''freeze_mutex'' struct_mutex,
    Member ''refcnt'' t_atomic64_t,
    Member ''usercnt'' t_atomic64_t,
    Member '''' (Comp Union False [
      Member ''work'' struct_work_struct,
      Member ''rcu'' struct_callback_head]),
    Member ''writecnt'' t_atomic64_t,
    Member ''owner_lock'' t_spinlock_t,
    Member ''owner'' (Ptr ''struct bpf_map_owner *''),
    Member ''bypass_spec_v1'' t_bool,
    Member ''frozen'' t_bool,
    Member ''free_after_mult_rcu_gp'' t_bool,
    Member ''free_after_rcu_gp'' t_bool,
    Member ''sleepable_refcnt'' t_atomic64_t,
    Member ''elem_count'' (Ptr ''s64 *''),
    Member ''cookie'' t_u64]"

definition struct_bpf_ringbuf_map :: ctype where
  "struct_bpf_ringbuf_map = Comp Struct False [
    Member ''map'' struct_bpf_map,
    Member ''rb'' (Ptr ''struct bpf_ringbuf *'')]"

definition struct_bpf_array :: ctype where
  "struct_bpf_array = Comp Struct False [
    Member ''map'' struct_bpf_map,
    Member ''elem_size'' t_u32,
    Member ''index_mask'' t_u32,
    Member ''aux'' (Ptr ''struct bpf_array_aux *''),
    Member '''' (Comp Union False [
      Member '''' (Comp Struct False [
        Member ''__empty_value'' (Comp Struct False []),
        Member ''value'' (Array 0 c_char)]),
      Member '''' (Comp Struct False [
        Member ''__empty_ptrs'' (Comp Struct False []),
        Member ''ptrs'' (Array 0 (Ptr ''void *''))]),
      Member '''' (Comp Struct False [
        Member ''__empty_pptrs'' (Comp Struct False []),
        Member ''pptrs'' (Array 0 (Ptr ''void *''))])])]"

definition struct_bpf_map_ops :: ctype where
  "struct_bpf_map_ops = Comp Struct False [
    Member ''map_alloc_check'' (Ptr ''int (*)(union bpf_attr *)''),
    Member ''map_alloc'' (Ptr ''struct bpf_map * (*)(union bpf_attr *)''),
    Member ''map_release'' (Ptr ''void (*)(struct bpf_map *, struct file *)''),
    Member ''map_free'' (Ptr ''void (*)(struct bpf_map *)''),
    Member ''map_get_next_key'' (Ptr ''int (*)(struct bpf_map *, void *, void *)''),
    Member ''map_release_uref'' (Ptr ''void (*)(struct bpf_map *)''),
    Member ''map_lookup_elem_sys_only'' (Ptr ''void * (*)(struct bpf_map *, void *)''),
    Member ''map_lookup_batch'' (Ptr ''int (*)(struct bpf_map *, const union bpf_attr *, union bpf_attr *)''),
    Member ''map_lookup_and_delete_elem'' (Ptr ''int (*)(struct bpf_map *, void *, void *, u64)''),
    Member ''map_lookup_and_delete_batch'' (Ptr ''int (*)(struct bpf_map *, const union bpf_attr *, union bpf_attr *)''),
    Member ''map_update_batch'' (Ptr ''int (*)(struct bpf_map *, struct file *, const union bpf_attr *, union bpf_attr *)''),
    Member ''map_delete_batch'' (Ptr ''int (*)(struct bpf_map *, const union bpf_attr *, union bpf_attr *)''),
    Member ''map_lookup_elem'' (Ptr ''void * (*)(struct bpf_map *, void *)''),
    Member ''map_update_elem'' (Ptr ''long (*)(struct bpf_map *, void *, void *, u64)''),
    Member ''map_delete_elem'' (Ptr ''long (*)(struct bpf_map *, void *)''),
    Member ''map_push_elem'' (Ptr ''long (*)(struct bpf_map *, void *, u64)''),
    Member ''map_pop_elem'' (Ptr ''long (*)(struct bpf_map *, void *)''),
    Member ''map_peek_elem'' (Ptr ''long (*)(struct bpf_map *, void *)''),
    Member ''map_lookup_percpu_elem'' (Ptr ''void * (*)(struct bpf_map *, void *, u32)''),
    Member ''map_fd_get_ptr'' (Ptr ''void * (*)(struct bpf_map *, struct file *, int)''),
    Member ''map_fd_put_ptr'' (Ptr ''void (*)(struct bpf_map *, void *, bool)''),
    Member ''map_gen_lookup'' (Ptr ''int (*)(struct bpf_map *, struct bpf_insn *)''),
    Member ''map_fd_sys_lookup_elem'' (Ptr ''u32 (*)(void *)''),
    Member ''map_seq_show_elem'' (Ptr ''void (*)(struct bpf_map *, void *, struct seq_file *)''),
    Member ''map_check_btf'' (Ptr ''int (*)(const struct bpf_map *, const struct btf *, const struct btf_type *, const struct btf_type *)''),
    Member ''map_poke_track'' (Ptr ''int (*)(struct bpf_map *, struct bpf_prog_aux *)''),
    Member ''map_poke_untrack'' (Ptr ''void (*)(struct bpf_map *, struct bpf_prog_aux *)''),
    Member ''map_poke_run'' (Ptr ''void (*)(struct bpf_map *, u32, struct bpf_prog *, struct bpf_prog *)''),
    Member ''map_direct_value_addr'' (Ptr ''int (*)(const struct bpf_map *, u64 *, u32)''),
    Member ''map_direct_value_meta'' (Ptr ''int (*)(const struct bpf_map *, u64, u32 *)''),
    Member ''map_mmap'' (Ptr ''int (*)(struct bpf_map *, struct vm_area_struct *)''),
    Member ''map_poll'' (Ptr ''__poll_t (*)(struct bpf_map *, struct file *, struct poll_table_struct *)''),
    Member ''map_get_unmapped_area'' (Ptr ''unsigned long (*)(struct file *, unsigned long, unsigned long, unsigned long, unsigned long)''),
    Member ''map_local_storage_charge'' (Ptr ''int (*)(struct bpf_local_storage_map *, void *, u32)''),
    Member ''map_local_storage_uncharge'' (Ptr ''void (*)(struct bpf_local_storage_map *, void *, u32)''),
    Member ''map_owner_storage_ptr'' (Ptr ''struct bpf_local_storage ** (*)(void *)''),
    Member ''map_redirect'' (Ptr ''long (*)(struct bpf_map *, u64, u64)''),
    Member ''map_meta_equal'' (Ptr ''bool (*)(const struct bpf_map *, const struct bpf_map *)''),
    Member ''map_set_for_each_callback_args'' (Ptr ''int (*)(struct bpf_verifier_env *, struct bpf_func_state *, struct bpf_func_state *)''),
    Member ''map_for_each_callback'' (Ptr ''long (*)(struct bpf_map *, bpf_callback_t, void *, u64)''),
    Member ''map_mem_usage'' (Ptr ''u64 (*)(const struct bpf_map *)''),
    Member ''map_btf_id'' (Ptr ''int *''),
    Member ''iter_seq_info'' (Ptr ''struct bpf_iter_seq_info *'')]"

definition struct_sock_filter :: ctype where
  "struct_sock_filter = Comp Struct False [
    Member ''code'' t___u16,
    Member ''jt'' t___u8,
    Member ''jf'' t___u8,
    Member ''k'' t___u32]"

definition t___s16 :: ctype where
  "t___s16 = c_short"

definition struct_bpf_insn :: ctype where
  "struct_bpf_insn = Comp Struct False [
    Member ''code'' t___u8,
    BitField ''dst_reg'' t___u8 4,
    BitField ''src_reg'' t___u8 4,
    Member ''off'' t___s16,
    Member ''imm'' t___s32]"

definition struct_bpf_prog :: ctype where
  "struct_bpf_prog = Comp Struct False [
    Member ''pages'' t_u16,
    BitField ''jited'' t_u16 1,
    BitField ''jit_requested'' t_u16 1,
    BitField ''gpl_compatible'' t_u16 1,
    BitField ''cb_access'' t_u16 1,
    BitField ''dst_needed'' t_u16 1,
    BitField ''blinding_requested'' t_u16 1,
    BitField ''blinded'' t_u16 1,
    BitField ''is_func'' t_u16 1,
    BitField ''kprobe_override'' t_u16 1,
    BitField ''has_callchain_buf'' t_u16 1,
    BitField ''enforce_expected_attach_type'' t_u16 1,
    BitField ''call_get_stack'' t_u16 1,
    BitField ''call_get_func_ip'' t_u16 1,
    BitField ''tstamp_type_access'' t_u16 1,
    BitField ''sleepable'' t_u16 1,
    Member ''type'' enum_bpf_prog_type,
    Member ''expected_attach_type'' enum_bpf_attach_type,
    Member ''len'' t_u32,
    Member ''jited_len'' t_u32,
    Member ''tag'' (Array 8 t_u8),
    Member ''stats'' (Ptr ''struct bpf_prog_stats *''),
    Member ''active'' (Ptr ''int *''),
    Member ''bpf_func'' (Ptr ''unsigned int (*)(const void *, const struct bpf_insn *)''),
    Member ''aux'' (Ptr ''struct bpf_prog_aux *''),
    Member ''orig_prog'' (Ptr ''struct sock_fprog_kern *''),
    Member '''' (Comp Union False [
      Member '''' (Comp Struct False [
        Member ''__empty_insns'' (Comp Struct False []),
        Member ''insns'' (Array 0 struct_sock_filter)]),
      Member '''' (Comp Struct False [
        Member ''__empty_insnsi'' (Comp Struct False []),
        Member ''insnsi'' (Array 0 struct_bpf_insn)])])]"

definition struct_rb_node :: ctype where
  "struct_rb_node = Comp Struct False [
    Member ''__rb_parent_color'' c_unsigned_long,
    Member ''rb_right'' (Ptr ''struct rb_node *''),
    Member ''rb_left'' (Ptr ''struct rb_node *'')]"

definition struct_latch_tree_node :: ctype where
  "struct_latch_tree_node = Comp Struct False [
    Member ''node'' (Array 2 struct_rb_node)]"

definition struct_bpf_ksym :: ctype where
  "struct_bpf_ksym = Comp Struct False [
    Member ''start'' c_unsigned_long,
    Member ''end'' c_unsigned_long,
    Member ''name'' (Array 512 c_char),
    Member ''lnode'' struct_list_head,
    Member ''tnode'' struct_latch_tree_node,
    Member ''prog'' t_bool]"

definition struct_llist_head :: ctype where
  "struct_llist_head = Comp Struct False [
    Member ''first'' (Ptr ''struct llist_node *'')]"

definition struct_bpf_stream :: ctype where
  "struct_bpf_stream = Comp Struct False [
    Member ''capacity'' t_atomic_t,
    Member ''log'' struct_llist_head,
    Member ''lock'' struct_mutex,
    Member ''backlog_head'' (Ptr ''struct llist_node *''),
    Member ''backlog_tail'' (Ptr ''struct llist_node *'')]"

definition struct_bpf_prog_aux :: ctype where
  "struct_bpf_prog_aux = Comp Struct False [
    Member ''refcnt'' t_atomic64_t,
    Member ''used_map_cnt'' t_u32,
    Member ''used_btf_cnt'' t_u32,
    Member ''max_ctx_offset'' t_u32,
    Member ''max_pkt_offset'' t_u32,
    Member ''max_tp_access'' t_u32,
    Member ''stack_depth'' t_u32,
    Member ''id'' t_u32,
    Member ''func_cnt'' t_u32,
    Member ''real_func_cnt'' t_u32,
    Member ''func_idx'' t_u32,
    Member ''attach_btf_id'' t_u32,
    Member ''attach_st_ops_member_off'' t_u32,
    Member ''ctx_arg_info_size'' t_u32,
    Member ''max_rdonly_access'' t_u32,
    Member ''max_rdwr_access'' t_u32,
    Member ''attach_btf'' (Ptr ''struct btf *''),
    Member ''ctx_arg_info'' (Ptr ''struct bpf_ctx_arg_aux *''),
    Member ''priv_stack_ptr'' (Ptr ''void *''),
    Member ''dst_mutex'' struct_mutex,
    Member ''dst_prog'' (Ptr ''struct bpf_prog *''),
    Member ''dst_trampoline'' (Ptr ''struct bpf_trampoline *''),
    Member ''saved_dst_prog_type'' enum_bpf_prog_type,
    Member ''saved_dst_attach_type'' enum_bpf_attach_type,
    Member ''verifier_zext'' t_bool,
    Member ''dev_bound'' t_bool,
    Member ''offload_requested'' t_bool,
    Member ''attach_btf_trace'' t_bool,
    Member ''attach_tracing_prog'' t_bool,
    Member ''func_proto_unreliable'' t_bool,
    Member ''tail_call_reachable'' t_bool,
    Member ''xdp_has_frags'' t_bool,
    Member ''exception_cb'' t_bool,
    Member ''exception_boundary'' t_bool,
    Member ''is_extended'' t_bool,
    Member ''jits_use_priv_stack'' t_bool,
    Member ''priv_stack_requested'' t_bool,
    Member ''changes_pkt_data'' t_bool,
    Member ''might_sleep'' t_bool,
    Member ''prog_array_member_cnt'' t_u64,
    Member ''ext_mutex'' struct_mutex,
    Member ''arena'' (Ptr ''struct bpf_arena *''),
    Member ''recursion_detected'' (Ptr ''void (*)(struct bpf_prog *)''),
    Member ''attach_func_proto'' (Ptr ''struct btf_type *''),
    Member ''attach_func_name'' (Ptr ''char *''),
    Member ''func'' (Ptr ''struct bpf_prog **''),
    Member ''jit_data'' (Ptr ''void *''),
    Member ''poke_tab'' (Ptr ''struct bpf_jit_poke_descriptor *''),
    Member ''kfunc_tab'' (Ptr ''struct bpf_kfunc_desc_tab *''),
    Member ''kfunc_btf_tab'' (Ptr ''struct bpf_kfunc_btf_tab *''),
    Member ''size_poke_tab'' t_u32,
    Member ''ksym'' struct_bpf_ksym,
    Member ''ops'' (Ptr ''struct bpf_prog_ops *''),
    Member ''st_ops'' (Ptr ''struct bpf_struct_ops *''),
    Member ''used_maps'' (Ptr ''struct bpf_map **''),
    Member ''used_maps_mutex'' struct_mutex,
    Member ''used_btfs'' (Ptr ''struct btf_mod_pair *''),
    Member ''prog'' (Ptr ''struct bpf_prog *''),
    Member ''user'' (Ptr ''struct user_struct *''),
    Member ''load_time'' t_u64,
    Member ''verified_insns'' t_u32,
    Member ''cgroup_atype'' c_int,
    Member ''cgroup_storage'' (Array 2 (Ptr ''struct bpf_map *'')),
    Member ''name'' (Array 16 c_char),
    Member ''bpf_exception_cb'' (Ptr ''u64 (*)(u64, u64, u64, u64, u64)''),
    Member ''security'' (Ptr ''void *''),
    Member ''token'' (Ptr ''struct bpf_token *''),
    Member ''offload'' (Ptr ''struct bpf_prog_offload *''),
    Member ''btf'' (Ptr ''struct btf *''),
    Member ''func_info'' (Ptr ''struct bpf_func_info *''),
    Member ''func_info_aux'' (Ptr ''struct bpf_func_info_aux *''),
    Member ''linfo'' (Ptr ''struct bpf_line_info *''),
    Member ''jited_linfo'' (Ptr ''void **''),
    Member ''func_info_cnt'' t_u32,
    Member ''nr_linfo'' t_u32,
    Member ''linfo_idx'' t_u32,
    Member ''mod'' (Ptr ''struct module *''),
    Member ''num_exentries'' t_u32,
    Member ''extable'' (Ptr ''struct exception_table_entry *''),
    Member '''' (Comp Union False [
      Member ''work'' struct_work_struct,
      Member ''rcu'' struct_callback_head]),
    Member ''stream'' (Array 2 struct_bpf_stream)]"

definition struct_btf_mod_pair :: ctype where
  "struct_btf_mod_pair = Comp Struct False [
    Member ''btf'' (Ptr ''struct btf *''),
    Member ''module'' (Ptr ''struct module *'')]"

definition struct_bpf_verifier_log :: ctype where
  "struct_bpf_verifier_log = Comp Struct False [
    Member ''start_pos'' t_u64,
    Member ''end_pos'' t_u64,
    Member ''ubuf'' (Ptr ''char *''),
    Member ''level'' t_u32,
    Member ''len_total'' t_u32,
    Member ''len_max'' t_u32,
    Member ''kbuf'' (Array 1024 c_char)]"

definition t_s16 :: ctype where
  "t_s16 = t___s16"

definition enum_priv_stack_mode :: ctype where
  "enum_priv_stack_mode = Enum False [
    (''PRIV_STACK_UNKNOWN'', 0), (''NO_PRIV_STACK'', 1), (''PRIV_STACK_ADAPTIVE'', 2)]"

definition enum_bpf_arg_type :: ctype where
  "enum_bpf_arg_type = Enum False [
    (''ARG_DONTCARE'', 0), (''ARG_CONST_MAP_PTR'', 1), (''ARG_PTR_TO_MAP_KEY'', 2),
    (''ARG_PTR_TO_MAP_VALUE'', 3), (''ARG_PTR_TO_MEM'', 4), (''ARG_PTR_TO_ARENA'', 5),
    (''ARG_CONST_SIZE'', 6), (''ARG_CONST_SIZE_OR_ZERO'', 7), (''ARG_PTR_TO_CTX'', 8),
    (''ARG_ANYTHING'', 9), (''ARG_PTR_TO_SPIN_LOCK'', 10), (''ARG_PTR_TO_SOCK_COMMON'', 11),
    (''ARG_PTR_TO_SOCKET'', 12), (''ARG_PTR_TO_BTF_ID'', 13), (''ARG_PTR_TO_RINGBUF_MEM'', 14),
    (''ARG_CONST_ALLOC_SIZE_OR_ZERO'', 15), (''ARG_PTR_TO_BTF_ID_SOCK_COMMON'', 16),
    (''ARG_PTR_TO_PERCPU_BTF_ID'', 17), (''ARG_PTR_TO_FUNC'', 18), (''ARG_PTR_TO_STACK'', 19),
    (''ARG_PTR_TO_CONST_STR'', 20), (''ARG_PTR_TO_TIMER'', 21), (''ARG_KPTR_XCHG_DEST'', 22),
    (''ARG_PTR_TO_DYNPTR'', 23), (''__BPF_ARG_TYPE_MAX'', 24),
    (''ARG_PTR_TO_MAP_VALUE_OR_NULL'', 259), (''ARG_PTR_TO_MEM_OR_NULL'', 260),
    (''ARG_PTR_TO_CTX_OR_NULL'', 264), (''ARG_PTR_TO_SOCKET_OR_NULL'', 268),
    (''ARG_PTR_TO_STACK_OR_NULL'', 275), (''ARG_PTR_TO_BTF_ID_OR_NULL'', 269),
    (''ARG_PTR_TO_UNINIT_MEM'', 67141636), (''ARG_PTR_TO_FIXED_SIZE_MEM'', 262148),
    (''__BPF_ARG_TYPE_LIMIT'', 134217727)]"

definition struct_bpf_subprog_arg_info :: ctype where
  "struct_bpf_subprog_arg_info = Comp Struct False [
    Member ''arg_type'' enum_bpf_arg_type,
    Member '''' (Comp Union False [
      Member ''mem_size'' t_u32,
      Member ''btf_id'' t_u32])]"

definition struct_bpf_subprog_info :: ctype where
  "struct_bpf_subprog_info = Comp Struct False [
    Member ''start'' t_u32,
    Member ''linfo_idx'' t_u32,
    Member ''stack_depth'' t_u16,
    Member ''stack_extra'' t_u16,
    Member ''fastcall_stack_off'' t_s16,
    BitField ''has_tail_call'' t_bool 1,
    BitField ''tail_call_reachable'' t_bool 1,
    BitField ''has_ld_abs'' t_bool 1,
    BitField ''is_cb'' t_bool 1,
    BitField ''is_async_cb'' t_bool 1,
    BitField ''is_exception_cb'' t_bool 1,
    BitField ''args_cached'' t_bool 1,
    BitField ''keep_fastcall_stack'' t_bool 1,
    BitField ''changes_pkt_data'' t_bool 1,
    BitField ''might_sleep'' t_bool 1,
    Member ''priv_stack_mode'' enum_priv_stack_mode,
    Member ''arg_cnt'' t_u8,
    Member ''args'' (Array 5 struct_bpf_subprog_arg_info)]"

definition struct_bpf_id_pair :: ctype where
  "struct_bpf_id_pair = Comp Struct False [
    Member ''old'' t_u32,
    Member ''cur'' t_u32]"

definition struct_bpf_idmap :: ctype where
  "struct_bpf_idmap = Comp Struct False [
    Member ''tmp_id_gen'' t_u32,
    Member ''map'' (Array 600 struct_bpf_id_pair)]"

definition struct_bpf_idset :: ctype where
  "struct_bpf_idset = Comp Struct False [
    Member ''count'' t_u32,
    Member ''ids'' (Array 600 t_u32)]"

definition struct_backtrack_state :: ctype where
  "struct_backtrack_state = Comp Struct False [
    Member ''env'' (Ptr ''struct bpf_verifier_env *''),
    Member ''frame'' t_u32,
    Member ''reg_masks'' (Array 8 t_u32),
    Member ''stack_masks'' (Array 8 t_u64)]"

definition t_sockptr_t :: ctype where
  "t_sockptr_t = Comp Struct False [
    Member '''' (Comp Union False [
      Member ''kernel'' (Ptr ''void *''),
      Member ''user'' (Ptr ''void *'')]),
    BitField ''is_kernel'' t_bool 1]"

definition t_bpfptr_t :: ctype where
  "t_bpfptr_t = t_sockptr_t"

definition enum_bpf_reg_type :: ctype where
  "enum_bpf_reg_type = Enum False [
    (''NOT_INIT'', 0), (''SCALAR_VALUE'', 1), (''PTR_TO_CTX'', 2), (''CONST_PTR_TO_MAP'', 3),
    (''PTR_TO_MAP_VALUE'', 4), (''PTR_TO_MAP_KEY'', 5), (''PTR_TO_STACK'', 6),
    (''PTR_TO_PACKET_META'', 7), (''PTR_TO_PACKET'', 8), (''PTR_TO_PACKET_END'', 9),
    (''PTR_TO_FLOW_KEYS'', 10), (''PTR_TO_SOCKET'', 11), (''PTR_TO_SOCK_COMMON'', 12),
    (''PTR_TO_TCP_SOCK'', 13), (''PTR_TO_TP_BUFFER'', 14), (''PTR_TO_XDP_SOCK'', 15),
    (''PTR_TO_BTF_ID'', 16), (''PTR_TO_MEM'', 17), (''PTR_TO_ARENA'', 18), (''PTR_TO_BUF'', 19),
    (''PTR_TO_FUNC'', 20), (''CONST_PTR_TO_DYNPTR'', 21), (''__BPF_REG_TYPE_MAX'', 22),
    (''PTR_TO_MAP_VALUE_OR_NULL'', 260), (''PTR_TO_SOCKET_OR_NULL'', 267),
    (''PTR_TO_SOCK_COMMON_OR_NULL'', 268), (''PTR_TO_TCP_SOCK_OR_NULL'', 269),
    (''PTR_TO_BTF_ID_OR_NULL'', 272), (''__BPF_REG_TYPE_LIMIT'', 134217727)]"

definition t_s32 :: ctype where
  "t_s32 = t___s32"

definition enum_bpf_dynptr_type :: ctype where
  "enum_bpf_dynptr_type = Enum False [
    (''BPF_DYNPTR_TYPE_INVALID'', 0), (''BPF_DYNPTR_TYPE_LOCAL'', 1),
    (''BPF_DYNPTR_TYPE_RINGBUF'', 2), (''BPF_DYNPTR_TYPE_SKB'', 3), (''BPF_DYNPTR_TYPE_XDP'', 4)]"

definition enum_bpf_iter_state :: ctype where
  "enum_bpf_iter_state = Enum False [
    (''BPF_ITER_STATE_INVALID'', 0), (''BPF_ITER_STATE_ACTIVE'', 1),
    (''BPF_ITER_STATE_DRAINED'', 2)]"

definition struct_tnum :: ctype where
  "struct_tnum = Comp Struct False [
    Member ''value'' t_u64,
    Member ''mask'' t_u64]"

definition enum_bpf_reg_liveness :: ctype where
  "enum_bpf_reg_liveness = Enum False [
    (''REG_LIVE_NONE'', 0), (''REG_LIVE_READ32'', 1), (''REG_LIVE_READ64'', 2),
    (''REG_LIVE_READ'', 3), (''REG_LIVE_WRITTEN'', 4), (''REG_LIVE_DONE'', 8)]"

definition struct_bpf_reg_state :: ctype where
  "struct_bpf_reg_state = Comp Struct False [
    Member ''type'' enum_bpf_reg_type,
    Member ''off'' t_s32,
    Member '''' (Comp Union False [
      Member ''range'' c_int,
      Member '''' (Comp Struct False [
        Member ''map_ptr'' (Ptr ''struct bpf_map *''),
        Member ''map_uid'' t_u32]),
      Member '''' (Comp Struct False [
        Member ''btf'' (Ptr ''struct btf *''),
        Member ''btf_id'' t_u32]),
      Member '''' (Comp Struct False [
        Member ''mem_size'' t_u32,
        Member ''dynptr_id'' t_u32]),
      Member ''dynptr'' (Comp Struct False [
        Member ''type'' enum_bpf_dynptr_type,
        Member ''first_slot'' t_bool]),
      Member ''iter'' (Comp Struct False [
        Member ''btf'' (Ptr ''struct btf *''),
        Member ''btf_id'' t_u32,
        BitField ''state'' enum_bpf_iter_state 2,
        BitField ''depth'' c_int 30]),
      Member ''irq'' (Comp Struct False [
        Member ''kfunc_class'' (Enum False [
          (''IRQ_NATIVE_KFUNC'', 0), (''IRQ_LOCK_KFUNC'', 1)])]),
      Member ''raw'' (Comp Struct False [
        Member ''raw1'' c_unsigned_long,
        Member ''raw2'' c_unsigned_long]),
      Member ''subprogno'' t_u32]),
    Member ''var_off'' struct_tnum,
    Member ''smin_value'' t_s64,
    Member ''smax_value'' t_s64,
    Member ''umin_value'' t_u64,
    Member ''umax_value'' t_u64,
    Member ''s32_min_value'' t_s32,
    Member ''s32_max_value'' t_s32,
    Member ''u32_min_value'' t_u32,
    Member ''u32_max_value'' t_u32,
    Member ''id'' t_u32,
    Member ''ref_obj_id'' t_u32,
    Member ''parent'' (Ptr ''struct bpf_reg_state *''),
    Member ''frameno'' t_u32,
    Member ''subreg_def'' t_s32,
    Member ''live'' enum_bpf_reg_liveness,
    Member ''precise'' t_bool]"

definition struct_bpf_scc_callchain :: ctype where
  "struct_bpf_scc_callchain = Comp Struct False [
    Member ''callsites'' (Array 7 t_u32),
    Member ''scc'' t_u32]"

definition struct_bpf_verifier_env :: ctype where
  "struct_bpf_verifier_env = Comp Struct False [
    Member ''insn_idx'' t_u32,
    Member ''prev_insn_idx'' t_u32,
    Member ''prog'' (Ptr ''struct bpf_prog *''),
    Member ''ops'' (Ptr ''struct bpf_verifier_ops *''),
    Member ''attach_btf_mod'' (Ptr ''struct module *''),
    Member ''head'' (Ptr ''struct bpf_verifier_stack_elem *''),
    Member ''stack_size'' c_int,
    Member ''strict_alignment'' t_bool,
    Member ''test_state_freq'' t_bool,
    Member ''test_reg_invariants'' t_bool,
    Member ''cur_state'' (Ptr ''struct bpf_verifier_state *''),
    Member ''explored_states'' (Ptr ''struct list_head *''),
    Member ''free_list'' struct_list_head,
    Member ''used_maps'' (Array 64 (Ptr ''struct bpf_map *'')),
    Member ''used_btfs'' (Array 64 struct_btf_mod_pair),
    Member ''used_map_cnt'' t_u32,
    Member ''used_btf_cnt'' t_u32,
    Member ''id_gen'' t_u32,
    Member ''hidden_subprog_cnt'' t_u32,
    Member ''exception_callback_subprog'' c_int,
    Member ''explore_alu_limits'' t_bool,
    Member ''allow_ptr_leaks'' t_bool,
    Member ''allow_uninit_stack'' t_bool,
    Member ''bpf_capable'' t_bool,
    Member ''bypass_spec_v1'' t_bool,
    Member ''bypass_spec_v4'' t_bool,
    Member ''seen_direct_write'' t_bool,
    Member ''seen_exception'' t_bool,
    Member ''insn_aux_data'' (Ptr ''struct bpf_insn_aux_data *''),
    Member ''prev_linfo'' (Ptr ''struct bpf_line_info *''),
    Member ''log'' struct_bpf_verifier_log,
    Member ''subprog_info'' (Array 258 struct_bpf_subprog_info),
    Member '''' (Comp Union False [
      Member ''idmap_scratch'' struct_bpf_idmap,
      Member ''idset_scratch'' struct_bpf_idset]),
    Member ''cfg'' (Comp Struct False [
      Member ''insn_state'' (Ptr ''int *''),
      Member ''insn_stack'' (Ptr ''int *''),
      Member ''insn_postorder'' (Ptr ''int *''),
      Member ''cur_stack'' c_int,
      Member ''cur_postorder'' c_int]),
    Member ''bt'' struct_backtrack_state,
    Member ''cur_hist_ent'' (Ptr ''struct bpf_jmp_history_entry *''),
    Member ''pass_cnt'' t_u32,
    Member ''subprog_cnt'' t_u32,
    Member ''prev_insn_processed'' t_u32,
    Member ''insn_processed'' t_u32,
    Member ''prev_jmps_processed'' t_u32,
    Member ''jmps_processed'' t_u32,
    Member ''verification_time'' t_u64,
    Member ''max_states_per_insn'' t_u32,
    Member ''total_states'' t_u32,
    Member ''peak_states'' t_u32,
    Member ''longest_mark_read_walk'' t_u32,
    Member ''free_list_size'' t_u32,
    Member ''explored_states_size'' t_u32,
    Member ''num_backedges'' t_u32,
    Member ''fd_array'' t_bpfptr_t,
    Member ''scratched_regs'' t_u32,
    Member ''scratched_stack_slots'' t_u64,
    Member ''prev_log_pos'' t_u64,
    Member ''prev_insn_print_pos'' t_u64,
    Member ''fake_reg'' (Array 2 struct_bpf_reg_state),
    Member ''tmp_str_buf'' (Array 320 c_char),
    Member ''insn_buf'' (Array 32 struct_bpf_insn),
    Member ''epilogue_buf'' (Array 32 struct_bpf_insn),
    Member ''callchain_buf'' struct_bpf_scc_callchain,
    Member ''scc_info'' (Ptr ''struct bpf_scc_info **''),
    Member ''scc_cnt'' t_u32]"

end
