(* ===== verification/Vmlinux_Net.thy ===== *)
theory Vmlinux_Net
  imports Vmlinux_Bpf
begin

text \<open>
  The declarations of \<^verbatim>\<open>vmlinux.h\<close> for packets and devices: socket buffers, network devices and
  their operations, the netkit device, with the types they contain.
\<close>

definition t_ktime_t :: ctype where
  "t_ktime_t = t_s64"

definition t___wsum :: ctype where
  "t___wsum = t___u32"

definition t_sk_buff_data_t :: ctype where
  "t_sk_buff_data_t = c_unsigned_int"

definition struct_refcount_struct :: ctype where
  "struct_refcount_struct = Comp Struct False [
    Member ''refs'' t_atomic_t]"

definition t_refcount_t :: ctype where
  "t_refcount_t = struct_refcount_struct"

definition struct_sk_buff :: ctype where
  "struct_sk_buff = Comp Struct False [
    Member '''' (Comp Union False [
      Member '''' (Comp Struct False [
        Member ''next'' (Ptr ''struct sk_buff *''),
        Member ''prev'' (Ptr ''struct sk_buff *''),
        Member '''' (Comp Union False [
          Member ''dev'' (Ptr ''struct net_device *''),
          Member ''dev_scratch'' c_unsigned_long])]),
      Member ''rbnode'' struct_rb_node,
      Member ''list'' struct_list_head,
      Member ''ll_node'' struct_llist_node]),
    Member ''sk'' (Ptr ''struct sock *''),
    Member '''' (Comp Union False [
      Member ''tstamp'' t_ktime_t,
      Member ''skb_mstamp_ns'' t_u64]),
    Member ''cb'' (Array 48 c_char),
    Member '''' (Comp Union False [
      Member '''' (Comp Struct False [
        Member ''_skb_refdst'' c_unsigned_long,
        Member ''destructor'' (Ptr ''void (*)(struct sk_buff *)'')]),
      Member ''tcp_tsorted_anchor'' struct_list_head,
      Member ''_sk_redir'' c_unsigned_long]),
    Member ''_nfct'' c_unsigned_long,
    Member ''len'' c_unsigned_int,
    Member ''data_len'' c_unsigned_int,
    Member ''mac_len'' t___u16,
    Member ''hdr_len'' t___u16,
    Member ''queue_mapping'' t___u16,
    Member ''__cloned_offset'' (Array 0 t___u8),
    BitField ''cloned'' t___u8 1,
    BitField ''nohdr'' t___u8 1,
    BitField ''fclone'' t___u8 2,
    BitField ''peeked'' t___u8 1,
    BitField ''head_frag'' t___u8 1,
    BitField ''pfmemalloc'' t___u8 1,
    BitField ''pp_recycle'' t___u8 1,
    Member ''active_extensions'' t___u8,
    Member '''' (Comp Union False [
      Member '''' (Comp Struct False [
        Member ''__pkt_type_offset'' (Array 0 t___u8),
        BitField ''pkt_type'' t___u8 3,
        BitField ''ignore_df'' t___u8 1,
        BitField ''dst_pending_confirm'' t___u8 1,
        BitField ''ip_summed'' t___u8 2,
        BitField ''ooo_okay'' t___u8 1,
        Member ''__mono_tc_offset'' (Array 0 t___u8),
        BitField ''tstamp_type'' t___u8 2,
        BitField ''tc_at_ingress'' t___u8 1,
        BitField ''tc_skip_classify'' t___u8 1,
        BitField ''remcsum_offload'' t___u8 1,
        BitField ''csum_complete_sw'' t___u8 1,
        BitField ''csum_level'' t___u8 2,
        BitField ''inner_protocol_type'' t___u8 1,
        BitField ''l4_hash'' t___u8 1,
        BitField ''sw_hash'' t___u8 1,
        BitField ''wifi_acked_valid'' t___u8 1,
        BitField ''wifi_acked'' t___u8 1,
        BitField ''no_fcs'' t___u8 1,
        BitField ''encapsulation'' t___u8 1,
        BitField ''encap_hdr_csum'' t___u8 1,
        BitField ''csum_valid'' t___u8 1,
        BitField ''ndisc_nodetype'' t___u8 2,
        BitField ''ipvs_property'' t___u8 1,
        BitField ''nf_trace'' t___u8 1,
        BitField ''offload_fwd_mark'' t___u8 1,
        BitField ''offload_l3_fwd_mark'' t___u8 1,
        BitField ''redirected'' t___u8 1,
        BitField ''from_ingress'' t___u8 1,
        BitField ''nf_skip_egress'' t___u8 1,
        BitField ''slow_gro'' t___u8 1,
        BitField ''csum_not_inet'' t___u8 1,
        BitField ''unreadable'' t___u8 1,
        Member ''tc_index'' t___u16,
        Member ''alloc_cpu'' t_u16,
        Member '''' (Comp Union False [
          Member ''csum'' t___wsum,
          Member '''' (Comp Struct False [
            Member ''csum_start'' t___u16,
            Member ''csum_offset'' t___u16])]),
        Member ''priority'' t___u32,
        Member ''skb_iif'' c_int,
        Member ''hash'' t___u32,
        Member '''' (Comp Union False [
          Member ''vlan_all'' t_u32,
          Member '''' (Comp Struct False [
            Member ''vlan_proto'' t___be16,
            Member ''vlan_tci'' t___u16])]),
        Member '''' (Comp Union False [
          Member ''napi_id'' c_unsigned_int,
          Member ''sender_cpu'' c_unsigned_int]),
        Member ''secmark'' t___u32,
        Member '''' (Comp Union False [
          Member ''mark'' t___u32,
          Member ''reserved_tailroom'' t___u32]),
        Member '''' (Comp Union False [
          Member ''inner_protocol'' t___be16,
          Member ''inner_ipproto'' t___u8]),
        Member ''inner_transport_header'' t___u16,
        Member ''inner_network_header'' t___u16,
        Member ''inner_mac_header'' t___u16,
        Member ''protocol'' t___be16,
        Member ''transport_header'' t___u16,
        Member ''network_header'' t___u16,
        Member ''mac_header'' t___u16]),
      Member ''headers'' (Comp Struct False [
        Member ''__pkt_type_offset'' (Array 0 t___u8),
        BitField ''pkt_type'' t___u8 3,
        BitField ''ignore_df'' t___u8 1,
        BitField ''dst_pending_confirm'' t___u8 1,
        BitField ''ip_summed'' t___u8 2,
        BitField ''ooo_okay'' t___u8 1,
        Member ''__mono_tc_offset'' (Array 0 t___u8),
        BitField ''tstamp_type'' t___u8 2,
        BitField ''tc_at_ingress'' t___u8 1,
        BitField ''tc_skip_classify'' t___u8 1,
        BitField ''remcsum_offload'' t___u8 1,
        BitField ''csum_complete_sw'' t___u8 1,
        BitField ''csum_level'' t___u8 2,
        BitField ''inner_protocol_type'' t___u8 1,
        BitField ''l4_hash'' t___u8 1,
        BitField ''sw_hash'' t___u8 1,
        BitField ''wifi_acked_valid'' t___u8 1,
        BitField ''wifi_acked'' t___u8 1,
        BitField ''no_fcs'' t___u8 1,
        BitField ''encapsulation'' t___u8 1,
        BitField ''encap_hdr_csum'' t___u8 1,
        BitField ''csum_valid'' t___u8 1,
        BitField ''ndisc_nodetype'' t___u8 2,
        BitField ''ipvs_property'' t___u8 1,
        BitField ''nf_trace'' t___u8 1,
        BitField ''offload_fwd_mark'' t___u8 1,
        BitField ''offload_l3_fwd_mark'' t___u8 1,
        BitField ''redirected'' t___u8 1,
        BitField ''from_ingress'' t___u8 1,
        BitField ''nf_skip_egress'' t___u8 1,
        BitField ''slow_gro'' t___u8 1,
        BitField ''csum_not_inet'' t___u8 1,
        BitField ''unreadable'' t___u8 1,
        Member ''tc_index'' t___u16,
        Member ''alloc_cpu'' t_u16,
        Member '''' (Comp Union False [
          Member ''csum'' t___wsum,
          Member '''' (Comp Struct False [
            Member ''csum_start'' t___u16,
            Member ''csum_offset'' t___u16])]),
        Member ''priority'' t___u32,
        Member ''skb_iif'' c_int,
        Member ''hash'' t___u32,
        Member '''' (Comp Union False [
          Member ''vlan_all'' t_u32,
          Member '''' (Comp Struct False [
            Member ''vlan_proto'' t___be16,
            Member ''vlan_tci'' t___u16])]),
        Member '''' (Comp Union False [
          Member ''napi_id'' c_unsigned_int,
          Member ''sender_cpu'' c_unsigned_int]),
        Member ''secmark'' t___u32,
        Member '''' (Comp Union False [
          Member ''mark'' t___u32,
          Member ''reserved_tailroom'' t___u32]),
        Member '''' (Comp Union False [
          Member ''inner_protocol'' t___be16,
          Member ''inner_ipproto'' t___u8]),
        Member ''inner_transport_header'' t___u16,
        Member ''inner_network_header'' t___u16,
        Member ''inner_mac_header'' t___u16,
        Member ''protocol'' t___be16,
        Member ''transport_header'' t___u16,
        Member ''network_header'' t___u16,
        Member ''mac_header'' t___u16])]),
    Member ''tail'' t_sk_buff_data_t,
    Member ''end'' t_sk_buff_data_t,
    Member ''head'' (Ptr ''unsigned char *''),
    Member ''data'' (Ptr ''unsigned char *''),
    Member ''truesize'' c_unsigned_int,
    Member ''users'' t_refcount_t,
    Member ''extensions'' (Ptr ''struct skb_ext *'')]"

definition struct_skb_shared_hwtstamps :: ctype where
  "struct_skb_shared_hwtstamps = Comp Struct False [
    Member '''' (Comp Union False [
      Member ''hwtstamp'' t_ktime_t,
      Member ''netdev_data'' (Ptr ''void *'')])]"

definition struct_xsk_tx_metadata_compl :: ctype where
  "struct_xsk_tx_metadata_compl = Comp Struct False [
    Member ''tx_timestamp'' (Ptr ''__u64 *'')]"

definition t_netmem_ref :: ctype where
  "t_netmem_ref = c_unsigned_long"

definition struct_skb_frag :: ctype where
  "struct_skb_frag = Comp Struct False [
    Member ''netmem'' t_netmem_ref,
    Member ''len'' c_unsigned_int,
    Member ''offset'' c_unsigned_int]"

definition t_skb_frag_t :: ctype where
  "t_skb_frag_t = struct_skb_frag"

definition struct_skb_shared_info :: ctype where
  "struct_skb_shared_info = Comp Struct False [
    Member ''flags'' t___u8,
    Member ''meta_len'' t___u8,
    Member ''nr_frags'' t___u8,
    Member ''tx_flags'' t___u8,
    Member ''gso_size'' c_unsigned_short,
    Member ''gso_segs'' c_unsigned_short,
    Member ''frag_list'' (Ptr ''struct sk_buff *''),
    Member '''' (Comp Union False [
      Member ''hwtstamps'' struct_skb_shared_hwtstamps,
      Member ''xsk_meta'' struct_xsk_tx_metadata_compl]),
    Member ''gso_type'' c_unsigned_int,
    Member ''tskey'' t_u32,
    Member ''dataref'' t_atomic_t,
    Member '''' (Comp Union False [
      Member '''' (Comp Struct False [
        Member ''xdp_frags_size'' t_u32,
        Member ''xdp_frags_truesize'' t_u32]),
      Member ''destructor_arg'' (Ptr ''void *'')]),
    Member ''frags'' (Array 17 t_skb_frag_t)]"

definition t_netdev_features_t :: ctype where
  "t_netdev_features_t = t_u64"

definition struct_netdev_tc_txq :: ctype where
  "struct_netdev_tc_txq = Comp Struct False [
    Member ''count'' t_u16,
    Member ''offset'' t_u16]"

definition t_possible_net_t :: ctype where
  "t_possible_net_t = Comp Struct False [
    Member ''net'' (Ptr ''struct net *'')]"

definition t_xdp_features_t :: ctype where
  "t_xdp_features_t = t_u32"

definition struct_net_device_stats :: ctype where
  "struct_net_device_stats = Comp Struct False [
    Member '''' (Comp Union False [
      Member ''rx_packets'' c_unsigned_long,
      Member ''__rx_packets'' t_atomic_long_t]),
    Member '''' (Comp Union False [
      Member ''tx_packets'' c_unsigned_long,
      Member ''__tx_packets'' t_atomic_long_t]),
    Member '''' (Comp Union False [
      Member ''rx_bytes'' c_unsigned_long,
      Member ''__rx_bytes'' t_atomic_long_t]),
    Member '''' (Comp Union False [
      Member ''tx_bytes'' c_unsigned_long,
      Member ''__tx_bytes'' t_atomic_long_t]),
    Member '''' (Comp Union False [
      Member ''rx_errors'' c_unsigned_long,
      Member ''__rx_errors'' t_atomic_long_t]),
    Member '''' (Comp Union False [
      Member ''tx_errors'' c_unsigned_long,
      Member ''__tx_errors'' t_atomic_long_t]),
    Member '''' (Comp Union False [
      Member ''rx_dropped'' c_unsigned_long,
      Member ''__rx_dropped'' t_atomic_long_t]),
    Member '''' (Comp Union False [
      Member ''tx_dropped'' c_unsigned_long,
      Member ''__tx_dropped'' t_atomic_long_t]),
    Member '''' (Comp Union False [
      Member ''multicast'' c_unsigned_long,
      Member ''__multicast'' t_atomic_long_t]),
    Member '''' (Comp Union False [
      Member ''collisions'' c_unsigned_long,
      Member ''__collisions'' t_atomic_long_t]),
    Member '''' (Comp Union False [
      Member ''rx_length_errors'' c_unsigned_long,
      Member ''__rx_length_errors'' t_atomic_long_t]),
    Member '''' (Comp Union False [
      Member ''rx_over_errors'' c_unsigned_long,
      Member ''__rx_over_errors'' t_atomic_long_t]),
    Member '''' (Comp Union False [
      Member ''rx_crc_errors'' c_unsigned_long,
      Member ''__rx_crc_errors'' t_atomic_long_t]),
    Member '''' (Comp Union False [
      Member ''rx_frame_errors'' c_unsigned_long,
      Member ''__rx_frame_errors'' t_atomic_long_t]),
    Member '''' (Comp Union False [
      Member ''rx_fifo_errors'' c_unsigned_long,
      Member ''__rx_fifo_errors'' t_atomic_long_t]),
    Member '''' (Comp Union False [
      Member ''rx_missed_errors'' c_unsigned_long,
      Member ''__rx_missed_errors'' t_atomic_long_t]),
    Member '''' (Comp Union False [
      Member ''tx_aborted_errors'' c_unsigned_long,
      Member ''__tx_aborted_errors'' t_atomic_long_t]),
    Member '''' (Comp Union False [
      Member ''tx_carrier_errors'' c_unsigned_long,
      Member ''__tx_carrier_errors'' t_atomic_long_t]),
    Member '''' (Comp Union False [
      Member ''tx_fifo_errors'' c_unsigned_long,
      Member ''__tx_fifo_errors'' t_atomic_long_t]),
    Member '''' (Comp Union False [
      Member ''tx_heartbeat_errors'' c_unsigned_long,
      Member ''__tx_heartbeat_errors'' t_atomic_long_t]),
    Member '''' (Comp Union False [
      Member ''tx_window_errors'' c_unsigned_long,
      Member ''__tx_window_errors'' t_atomic_long_t]),
    Member '''' (Comp Union False [
      Member ''rx_compressed'' c_unsigned_long,
      Member ''__rx_compressed'' t_atomic_long_t]),
    Member '''' (Comp Union False [
      Member ''tx_compressed'' c_unsigned_long,
      Member ''__tx_compressed'' t_atomic_long_t])]"

definition struct_rb_root :: ctype where
  "struct_rb_root = Comp Struct False [
    Member ''rb_node'' (Ptr ''struct rb_node *'')]"

definition struct_netdev_hw_addr_list :: ctype where
  "struct_netdev_hw_addr_list = Comp Struct False [
    Member ''list'' struct_list_head,
    Member ''count'' c_int,
    Member ''tree'' struct_rb_root]"

definition struct_hlist_head :: ctype where
  "struct_hlist_head = Comp Struct False [
    Member ''first'' (Ptr ''struct hlist_node *'')]"

definition struct_hlist_node :: ctype where
  "struct_hlist_node = Comp Struct False [
    Member ''next'' (Ptr ''struct hlist_node *''),
    Member ''pprev'' (Ptr ''struct hlist_node **'')]"

definition struct_timer_list :: ctype where
  "struct_timer_list = Comp Struct False [
    Member ''entry'' struct_hlist_node,
    Member ''expires'' c_unsigned_long,
    Member ''function'' (Ptr ''void (*)(struct timer_list *)''),
    Member ''flags'' t_u32]"

definition struct_ref_tracker_dir :: ctype where
  "struct_ref_tracker_dir = Comp Struct False []"

definition enum_netdev_ml_priv_type :: ctype where
  "enum_netdev_ml_priv_type = Enum False [
    (''ML_PRIV_NONE'', 0), (''ML_PRIV_CAN'', 1)]"

definition enum_netdev_stat_type :: ctype where
  "enum_netdev_stat_type = Enum False [
    (''NETDEV_PCPU_STAT_NONE'', 0), (''NETDEV_PCPU_STAT_LSTATS'', 1),
    (''NETDEV_PCPU_STAT_TSTATS'', 2), (''NETDEV_PCPU_STAT_DSTATS'', 3)]"

definition struct_kref :: ctype where
  "struct_kref = Comp Struct False [
    Member ''refcount'' t_refcount_t]"

definition struct_kobject :: ctype where
  "struct_kobject = Comp Struct False [
    Member ''name'' (Ptr ''char *''),
    Member ''entry'' struct_list_head,
    Member ''parent'' (Ptr ''struct kobject *''),
    Member ''kset'' (Ptr ''struct kset *''),
    Member ''ktype'' (Ptr ''struct kobj_type *''),
    Member ''sd'' (Ptr ''struct kernfs_node *''),
    Member ''kref'' struct_kref,
    BitField ''state_initialized'' c_unsigned_int 1,
    BitField ''state_in_sysfs'' c_unsigned_int 1,
    BitField ''state_add_uevent_sent'' c_unsigned_int 1,
    BitField ''state_remove_uevent_sent'' c_unsigned_int 1,
    BitField ''uevent_suppress'' c_unsigned_int 1]"

definition enum_dl_dev_state :: ctype where
  "enum_dl_dev_state = Enum False [
    (''DL_DEV_NO_DRIVER'', 0), (''DL_DEV_PROBING'', 1), (''DL_DEV_DRIVER_BOUND'', 2),
    (''DL_DEV_UNBINDING'', 3)]"

definition struct_dev_links_info :: ctype where
  "struct_dev_links_info = Comp Struct False [
    Member ''suppliers'' struct_list_head,
    Member ''consumers'' struct_list_head,
    Member ''defer_sync'' struct_list_head,
    Member ''status'' enum_dl_dev_state]"

definition struct_pm_message :: ctype where
  "struct_pm_message = Comp Struct False [
    Member ''event'' c_int]"

definition t_pm_message_t :: ctype where
  "t_pm_message_t = struct_pm_message"

definition struct_dev_pm_info :: ctype where
  "struct_dev_pm_info = Comp Struct False [
    Member ''power_state'' t_pm_message_t,
    BitField ''can_wakeup'' t_bool 1,
    BitField ''async_suspend'' t_bool 1,
    BitField ''in_dpm_list'' t_bool 1,
    BitField ''is_prepared'' t_bool 1,
    BitField ''is_suspended'' t_bool 1,
    BitField ''is_noirq_suspended'' t_bool 1,
    BitField ''is_late_suspended'' t_bool 1,
    BitField ''no_pm'' t_bool 1,
    BitField ''early_init'' t_bool 1,
    BitField ''direct_complete'' t_bool 1,
    Member ''driver_flags'' t_u32,
    Member ''lock'' t_spinlock_t,
    BitField ''should_wakeup'' t_bool 1,
    Member ''subsys_data'' (Ptr ''struct pm_subsys_data *''),
    Member ''set_latency_tolerance'' (Ptr ''void (*)(struct device *, s32)''),
    Member ''qos'' (Ptr ''struct dev_pm_qos *''),
    BitField ''detach_power_off'' t_bool 1]"

definition struct_dev_msi_info :: ctype where
  "struct_dev_msi_info = Comp Struct False [
    Member ''domain'' (Ptr ''struct irq_domain *''),
    Member ''data'' (Ptr ''struct msi_device_data *'')]"

definition struct_dev_archdata :: ctype where
  "struct_dev_archdata = Comp Struct False []"

definition t___kernel_dev_t :: ctype where
  "t___kernel_dev_t = t_u32"

definition t_dev_t :: ctype where
  "t_dev_t = t___kernel_dev_t"

definition enum_device_removable :: ctype where
  "enum_device_removable = Enum False [
    (''DEVICE_REMOVABLE_NOT_SUPPORTED'', 0), (''DEVICE_REMOVABLE_UNKNOWN'', 1),
    (''DEVICE_FIXED'', 2), (''DEVICE_REMOVABLE'', 3)]"

definition struct_device :: ctype where
  "struct_device = Comp Struct False [
    Member ''kobj'' struct_kobject,
    Member ''parent'' (Ptr ''struct device *''),
    Member ''p'' (Ptr ''struct device_private *''),
    Member ''init_name'' (Ptr ''char *''),
    Member ''type'' (Ptr ''struct device_type *''),
    Member ''bus'' (Ptr ''struct bus_type *''),
    Member ''driver'' (Ptr ''struct device_driver *''),
    Member ''platform_data'' (Ptr ''void *''),
    Member ''driver_data'' (Ptr ''void *''),
    Member ''mutex'' struct_mutex,
    Member ''links'' struct_dev_links_info,
    Member ''power'' struct_dev_pm_info,
    Member ''pm_domain'' (Ptr ''struct dev_pm_domain *''),
    Member ''msi'' struct_dev_msi_info,
    Member ''dma_mask'' (Ptr ''u64 *''),
    Member ''coherent_dma_mask'' t_u64,
    Member ''bus_dma_limit'' t_u64,
    Member ''dma_range_map'' (Ptr ''struct bus_dma_region *''),
    Member ''dma_parms'' (Ptr ''struct device_dma_parameters *''),
    Member ''dma_pools'' struct_list_head,
    Member ''dma_mem'' (Ptr ''struct dma_coherent_mem *''),
    Member ''dma_io_tlb_mem'' (Ptr ''struct io_tlb_mem *''),
    Member ''archdata'' struct_dev_archdata,
    Member ''of_node'' (Ptr ''struct device_node *''),
    Member ''fwnode'' (Ptr ''struct fwnode_handle *''),
    Member ''devt'' t_dev_t,
    Member ''id'' t_u32,
    Member ''devres_lock'' t_spinlock_t,
    Member ''devres_head'' struct_list_head,
    Member ''class'' (Ptr ''struct class *''),
    Member ''groups'' (Ptr ''struct attribute_group **''),
    Member ''release'' (Ptr ''void (*)(struct device *)''),
    Member ''iommu_group'' (Ptr ''struct iommu_group *''),
    Member ''iommu'' (Ptr ''struct dev_iommu *''),
    Member ''physical_location'' (Ptr ''struct device_physical_location *''),
    Member ''removable'' enum_device_removable,
    BitField ''offline_disabled'' t_bool 1,
    BitField ''offline'' t_bool 1,
    BitField ''of_node_reused'' t_bool 1,
    BitField ''state_synced'' t_bool 1,
    BitField ''can_match'' t_bool 1,
    BitField ''dma_coherent'' t_bool 1,
    BitField ''dma_skip_sync'' t_bool 1]"

definition struct_bpf_xdp_entity :: ctype where
  "struct_bpf_xdp_entity = Comp Struct False [
    Member ''prog'' (Ptr ''struct bpf_prog *''),
    Member ''link'' (Ptr ''struct bpf_xdp_link *'')]"

definition t_netdevice_tracker :: ctype where
  "t_netdevice_tracker = Comp Struct False []"

definition struct_net_device :: ctype where
  "struct_net_device = Comp Struct False [
    Member ''__cacheline_group_begin__net_device_read_tx'' (Array 0 t___u8),
    Member '''' (Comp Union False [
      Member '''' (Comp Struct False [
        BitField ''priv_flags'' c_unsigned_long 32,
        BitField ''lltx'' c_unsigned_long 1,
        BitField ''netmem_tx'' c_unsigned_long 1]),
      Member ''priv_flags_fast'' (Comp Struct False [
        BitField ''priv_flags'' c_unsigned_long 32,
        BitField ''lltx'' c_unsigned_long 1,
        BitField ''netmem_tx'' c_unsigned_long 1])]),
    Member ''netdev_ops'' (Ptr ''struct net_device_ops *''),
    Member ''header_ops'' (Ptr ''struct header_ops *''),
    Member ''_tx'' (Ptr ''struct netdev_queue *''),
    Member ''gso_partial_features'' t_netdev_features_t,
    Member ''real_num_tx_queues'' c_unsigned_int,
    Member ''gso_max_size'' c_unsigned_int,
    Member ''gso_ipv4_max_size'' c_unsigned_int,
    Member ''gso_max_segs'' t_u16,
    Member ''num_tc'' t_s16,
    Member ''mtu'' c_unsigned_int,
    Member ''needed_headroom'' c_unsigned_short,
    Member ''tc_to_txq'' (Array 16 struct_netdev_tc_txq),
    Member ''xps_maps'' (Array 2 (Ptr ''struct xps_dev_maps *'')),
    Member ''nf_hooks_egress'' (Ptr ''struct nf_hook_entries *''),
    Member ''tcx_egress'' (Ptr ''struct bpf_mprog_entry *''),
    Member ''__cacheline_group_end__net_device_read_tx'' (Array 0 t___u8),
    Member ''__cacheline_group_begin__net_device_read_txrx'' (Array 0 t___u8),
    Member '''' (Comp Union False [
      Member ''lstats'' (Ptr ''struct pcpu_lstats *''),
      Member ''tstats'' (Ptr ''struct pcpu_sw_netstats *''),
      Member ''dstats'' (Ptr ''struct pcpu_dstats *'')]),
    Member ''state'' c_unsigned_long,
    Member ''flags'' c_unsigned_int,
    Member ''hard_header_len'' c_unsigned_short,
    Member ''features'' t_netdev_features_t,
    Member ''ip6_ptr'' (Ptr ''struct inet6_dev *''),
    Member ''__cacheline_group_end__net_device_read_txrx'' (Array 0 t___u8),
    Member ''__cacheline_group_begin__net_device_read_rx'' (Array 0 t___u8),
    Member ''xdp_prog'' (Ptr ''struct bpf_prog *''),
    Member ''ptype_specific'' struct_list_head,
    Member ''ifindex'' c_int,
    Member ''real_num_rx_queues'' c_unsigned_int,
    Member ''_rx'' (Ptr ''struct netdev_rx_queue *''),
    Member ''gro_max_size'' c_unsigned_int,
    Member ''gro_ipv4_max_size'' c_unsigned_int,
    Member ''rx_handler'' (Ptr ''rx_handler_func_t *''),
    Member ''rx_handler_data'' (Ptr ''void *''),
    Member ''nd_net'' t_possible_net_t,
    Member ''tcx_ingress'' (Ptr ''struct bpf_mprog_entry *''),
    Member ''__cacheline_group_end__net_device_read_rx'' (Array 0 t___u8),
    Member ''name'' (Array 16 c_char),
    Member ''name_node'' (Ptr ''struct netdev_name_node *''),
    Member ''ifalias'' (Ptr ''struct dev_ifalias *''),
    Member ''mem_end'' c_unsigned_long,
    Member ''mem_start'' c_unsigned_long,
    Member ''base_addr'' c_unsigned_long,
    Member ''dev_list'' struct_list_head,
    Member ''napi_list'' struct_list_head,
    Member ''unreg_list'' struct_list_head,
    Member ''close_list'' struct_list_head,
    Member ''ptype_all'' struct_list_head,
    Member ''adj_list'' (Comp Struct False [
      Member ''upper'' struct_list_head,
      Member ''lower'' struct_list_head]),
    Member ''xdp_features'' t_xdp_features_t,
    Member ''xdp_metadata_ops'' (Ptr ''struct xdp_metadata_ops *''),
    Member ''xsk_tx_metadata_ops'' (Ptr ''struct xsk_tx_metadata_ops *''),
    Member ''gflags'' c_unsigned_short,
    Member ''needed_tailroom'' c_unsigned_short,
    Member ''hw_features'' t_netdev_features_t,
    Member ''wanted_features'' t_netdev_features_t,
    Member ''vlan_features'' t_netdev_features_t,
    Member ''hw_enc_features'' t_netdev_features_t,
    Member ''mpls_features'' t_netdev_features_t,
    Member ''min_mtu'' c_unsigned_int,
    Member ''max_mtu'' c_unsigned_int,
    Member ''type'' c_unsigned_short,
    Member ''min_header_len'' c_unsigned_char,
    Member ''name_assign_type'' c_unsigned_char,
    Member ''group'' c_int,
    Member ''stats'' struct_net_device_stats,
    Member ''core_stats'' (Ptr ''struct net_device_core_stats *''),
    Member ''carrier_up_count'' t_atomic_t,
    Member ''carrier_down_count'' t_atomic_t,
    Member ''ethtool_ops'' (Ptr ''struct ethtool_ops *''),
    Member ''l3mdev_ops'' (Ptr ''struct l3mdev_ops *''),
    Member ''ndisc_ops'' (Ptr ''struct ndisc_ops *''),
    Member ''operstate'' c_unsigned_int,
    Member ''link_mode'' c_unsigned_char,
    Member ''if_port'' c_unsigned_char,
    Member ''dma'' c_unsigned_char,
    Member ''perm_addr'' (Array 32 c_unsigned_char),
    Member ''addr_assign_type'' c_unsigned_char,
    Member ''addr_len'' c_unsigned_char,
    Member ''upper_level'' c_unsigned_char,
    Member ''lower_level'' c_unsigned_char,
    Member ''threaded'' t_u8,
    Member ''neigh_priv_len'' c_unsigned_short,
    Member ''dev_id'' c_unsigned_short,
    Member ''dev_port'' c_unsigned_short,
    Member ''irq'' c_int,
    Member ''priv_len'' t_u32,
    Member ''addr_list_lock'' t_spinlock_t,
    Member ''uc'' struct_netdev_hw_addr_list,
    Member ''mc'' struct_netdev_hw_addr_list,
    Member ''dev_addrs'' struct_netdev_hw_addr_list,
    Member ''queues_kset'' (Ptr ''struct kset *''),
    Member ''promiscuity'' c_unsigned_int,
    Member ''allmulti'' c_unsigned_int,
    Member ''uc_promisc'' t_bool,
    Member ''ip_ptr'' (Ptr ''struct in_device *''),
    Member ''fib_nh_head'' struct_hlist_head,
    Member ''vlan_info'' (Ptr ''struct vlan_info *''),
    Member ''tipc_ptr'' (Ptr ''struct tipc_bearer *''),
    Member ''ieee80211_ptr'' (Ptr ''struct wireless_dev *''),
    Member ''mpls_ptr'' (Ptr ''struct mpls_dev *''),
    Member ''dev_addr'' (Ptr ''unsigned char *''),
    Member ''num_rx_queues'' c_unsigned_int,
    Member ''xdp_zc_max_segs'' c_unsigned_int,
    Member ''ingress_queue'' (Ptr ''struct netdev_queue *''),
    Member ''nf_hooks_ingress'' (Ptr ''struct nf_hook_entries *''),
    Member ''broadcast'' (Array 32 c_unsigned_char),
    Member ''rx_cpu_rmap'' (Ptr ''struct cpu_rmap *''),
    Member ''index_hlist'' struct_hlist_node,
    Member ''num_tx_queues'' c_unsigned_int,
    Member ''qdisc'' (Ptr ''struct Qdisc *''),
    Member ''tx_queue_len'' c_unsigned_int,
    Member ''tx_global_lock'' t_spinlock_t,
    Member ''xdp_bulkq'' (Ptr ''struct xdp_dev_bulk_queue *''),
    Member ''qdisc_hash'' (Array 16 struct_hlist_head),
    Member ''watchdog_timer'' struct_timer_list,
    Member ''watchdog_timeo'' c_int,
    Member ''proto_down_reason'' t_u32,
    Member ''todo_list'' struct_list_head,
    Member ''pcpu_refcnt'' (Ptr ''int *''),
    Member ''refcnt_tracker'' struct_ref_tracker_dir,
    Member ''link_watch_list'' struct_list_head,
    Member ''reg_state'' t_u8,
    Member ''dismantle'' t_bool,
    Member ''moving_ns'' t_bool,
    Member ''rtnl_link_initializing'' t_bool,
    Member ''needs_free_netdev'' t_bool,
    Member ''priv_destructor'' (Ptr ''void (*)(struct net_device *)''),
    Member ''ml_priv'' (Ptr ''void *''),
    Member ''ml_priv_type'' enum_netdev_ml_priv_type,
    BitField ''pcpu_stat_type'' enum_netdev_stat_type 8,
    Member ''garp_port'' (Ptr ''struct garp_port *''),
    Member ''mrp_port'' (Ptr ''struct mrp_port *''),
    Member ''dev'' struct_device,
    Member ''sysfs_groups'' (Array 5 (Ptr ''struct attribute_group *'')),
    Member ''sysfs_rx_queue_group'' (Ptr ''struct attribute_group *''),
    Member ''rtnl_link_ops'' (Ptr ''struct rtnl_link_ops *''),
    Member ''stat_ops'' (Ptr ''struct netdev_stat_ops *''),
    Member ''queue_mgmt_ops'' (Ptr ''struct netdev_queue_mgmt_ops *''),
    Member ''tso_max_size'' c_unsigned_int,
    Member ''tso_max_segs'' t_u16,
    Member ''prio_tc_map'' (Array 16 t_u8),
    Member ''priomap'' (Ptr ''struct netprio_map *''),
    Member ''link_topo'' (Ptr ''struct phy_link_topology *''),
    Member ''phydev'' (Ptr ''struct phy_device *''),
    Member ''sfp_bus'' (Ptr ''struct sfp_bus *''),
    Member ''qdisc_tx_busylock'' (Ptr ''struct lock_class_key *''),
    Member ''proto_down'' t_bool,
    Member ''irq_affinity_auto'' t_bool,
    Member ''rx_cpu_rmap_auto'' t_bool,
    BitField ''see_all_hwtstamp_requests'' c_unsigned_long 1,
    BitField ''change_proto_down'' c_unsigned_long 1,
    BitField ''netns_immutable'' c_unsigned_long 1,
    BitField ''fcoe_mtu'' c_unsigned_long 1,
    Member ''net_notifier_list'' struct_list_head,
    Member ''udp_tunnel_nic_info'' (Ptr ''struct udp_tunnel_nic_info *''),
    Member ''udp_tunnel_nic'' (Ptr ''struct udp_tunnel_nic *''),
    Member ''cfg'' (Ptr ''struct netdev_config *''),
    Member ''cfg_pending'' (Ptr ''struct netdev_config *''),
    Member ''ethtool'' (Ptr ''struct ethtool_netdev_state *''),
    Member ''xdp_state'' (Array 3 struct_bpf_xdp_entity),
    Member ''dev_addr_shadow'' (Array 32 t_u8),
    Member ''linkwatch_dev_tracker'' t_netdevice_tracker,
    Member ''watchdog_dev_tracker'' t_netdevice_tracker,
    Member ''dev_registered_tracker'' t_netdevice_tracker,
    Member ''offload_xstats_l3'' (Ptr ''struct rtnl_hw_stats64 *''),
    Member ''devlink_port'' (Ptr ''struct devlink_port *''),
    Member ''page_pools'' struct_hlist_head,
    Member ''irq_moder'' (Ptr ''struct dim_irq_moder *''),
    Member ''max_pacing_offload_horizon'' t_u64,
    Member ''napi_config'' (Ptr ''struct napi_config *''),
    Member ''num_napi_configs'' t_u32,
    Member ''napi_defer_hard_irqs'' t_u32,
    Member ''gro_flush_timeout'' c_unsigned_long,
    Member ''up'' t_bool,
    Member ''request_ops_lock'' t_bool,
    Member ''lock'' struct_mutex,
    Member ''neighbours'' (Array 2 struct_hlist_head),
    Member ''hwprov'' (Ptr ''struct hwtstamp_provider *''),
    BitField '''' c_long 64,
    BitField '''' c_long 64,
    BitField '''' c_long 64,
    BitField '''' c_long 64,
    BitField '''' c_long 64,
    BitField '''' c_long 64,
    Member ''priv'' (Array 0 t_u8)]"

definition struct_net_device_ops :: ctype where
  "struct_net_device_ops = Comp Struct False [
    Member ''ndo_init'' (Ptr ''int (*)(struct net_device *)''),
    Member ''ndo_uninit'' (Ptr ''void (*)(struct net_device *)''),
    Member ''ndo_open'' (Ptr ''int (*)(struct net_device *)''),
    Member ''ndo_stop'' (Ptr ''int (*)(struct net_device *)''),
    Member ''ndo_start_xmit'' (Ptr ''netdev_tx_t (*)(struct sk_buff *, struct net_device *)''),
    Member ''ndo_features_check'' (Ptr ''netdev_features_t (*)(struct sk_buff *, struct net_device *, netdev_features_t)''),
    Member ''ndo_select_queue'' (Ptr ''u16 (*)(struct net_device *, struct sk_buff *, struct net_device *)''),
    Member ''ndo_change_rx_flags'' (Ptr ''void (*)(struct net_device *, int)''),
    Member ''ndo_set_rx_mode'' (Ptr ''void (*)(struct net_device *)''),
    Member ''ndo_set_mac_address'' (Ptr ''int (*)(struct net_device *, void *)''),
    Member ''ndo_validate_addr'' (Ptr ''int (*)(struct net_device *)''),
    Member ''ndo_do_ioctl'' (Ptr ''int (*)(struct net_device *, struct ifreq *, int)''),
    Member ''ndo_eth_ioctl'' (Ptr ''int (*)(struct net_device *, struct ifreq *, int)''),
    Member ''ndo_siocbond'' (Ptr ''int (*)(struct net_device *, struct ifreq *, int)''),
    Member ''ndo_siocwandev'' (Ptr ''int (*)(struct net_device *, struct if_settings *)''),
    Member ''ndo_siocdevprivate'' (Ptr ''int (*)(struct net_device *, struct ifreq *, void *, int)''),
    Member ''ndo_set_config'' (Ptr ''int (*)(struct net_device *, struct ifmap *)''),
    Member ''ndo_change_mtu'' (Ptr ''int (*)(struct net_device *, int)''),
    Member ''ndo_neigh_setup'' (Ptr ''int (*)(struct net_device *, struct neigh_parms *)''),
    Member ''ndo_tx_timeout'' (Ptr ''void (*)(struct net_device *, unsigned int)''),
    Member ''ndo_get_stats64'' (Ptr ''void (*)(struct net_device *, struct rtnl_link_stats64 *)''),
    Member ''ndo_has_offload_stats'' (Ptr ''bool (*)(const struct net_device *, int)''),
    Member ''ndo_get_offload_stats'' (Ptr ''int (*)(int, const struct net_device *, void *)''),
    Member ''ndo_get_stats'' (Ptr ''struct net_device_stats * (*)(struct net_device *)''),
    Member ''ndo_vlan_rx_add_vid'' (Ptr ''int (*)(struct net_device *, __be16, u16)''),
    Member ''ndo_vlan_rx_kill_vid'' (Ptr ''int (*)(struct net_device *, __be16, u16)''),
    Member ''ndo_set_vf_mac'' (Ptr ''int (*)(struct net_device *, int, u8 *)''),
    Member ''ndo_set_vf_vlan'' (Ptr ''int (*)(struct net_device *, int, u16, u8, __be16)''),
    Member ''ndo_set_vf_rate'' (Ptr ''int (*)(struct net_device *, int, int, int)''),
    Member ''ndo_set_vf_spoofchk'' (Ptr ''int (*)(struct net_device *, int, bool)''),
    Member ''ndo_set_vf_trust'' (Ptr ''int (*)(struct net_device *, int, bool)''),
    Member ''ndo_get_vf_config'' (Ptr ''int (*)(struct net_device *, int, struct ifla_vf_info *)''),
    Member ''ndo_set_vf_link_state'' (Ptr ''int (*)(struct net_device *, int, int)''),
    Member ''ndo_get_vf_stats'' (Ptr ''int (*)(struct net_device *, int, struct ifla_vf_stats *)''),
    Member ''ndo_set_vf_port'' (Ptr ''int (*)(struct net_device *, int, struct nlattr **)''),
    Member ''ndo_get_vf_port'' (Ptr ''int (*)(struct net_device *, int, struct sk_buff *)''),
    Member ''ndo_get_vf_guid'' (Ptr ''int (*)(struct net_device *, int, struct ifla_vf_guid *, struct ifla_vf_guid *)''),
    Member ''ndo_set_vf_guid'' (Ptr ''int (*)(struct net_device *, int, u64, int)''),
    Member ''ndo_set_vf_rss_query_en'' (Ptr ''int (*)(struct net_device *, int, bool)''),
    Member ''ndo_setup_tc'' (Ptr ''int (*)(struct net_device *, enum tc_setup_type, void *)''),
    Member ''ndo_rx_flow_steer'' (Ptr ''int (*)(struct net_device *, const struct sk_buff *, u16, u32)''),
    Member ''ndo_add_slave'' (Ptr ''int (*)(struct net_device *, struct net_device *, struct netlink_ext_ack *)''),
    Member ''ndo_del_slave'' (Ptr ''int (*)(struct net_device *, struct net_device *)''),
    Member ''ndo_get_xmit_slave'' (Ptr ''struct net_device * (*)(struct net_device *, struct sk_buff *, bool)''),
    Member ''ndo_sk_get_lower_dev'' (Ptr ''struct net_device * (*)(struct net_device *, struct sock *)''),
    Member ''ndo_fix_features'' (Ptr ''netdev_features_t (*)(struct net_device *, netdev_features_t)''),
    Member ''ndo_set_features'' (Ptr ''int (*)(struct net_device *, netdev_features_t)''),
    Member ''ndo_neigh_construct'' (Ptr ''int (*)(struct net_device *, struct neighbour *)''),
    Member ''ndo_neigh_destroy'' (Ptr ''void (*)(struct net_device *, struct neighbour *)''),
    Member ''ndo_fdb_add'' (Ptr ''int (*)(struct ndmsg *, struct nlattr **, struct net_device *, const unsigned char *, u16, u16, bool *, struct netlink_ext_ack *)''),
    Member ''ndo_fdb_del'' (Ptr ''int (*)(struct ndmsg *, struct nlattr **, struct net_device *, const unsigned char *, u16, bool *, struct netlink_ext_ack *)''),
    Member ''ndo_fdb_del_bulk'' (Ptr ''int (*)(struct nlmsghdr *, struct net_device *, struct netlink_ext_ack *)''),
    Member ''ndo_fdb_dump'' (Ptr ''int (*)(struct sk_buff *, struct netlink_callback *, struct net_device *, struct net_device *, int *)''),
    Member ''ndo_fdb_get'' (Ptr ''int (*)(struct sk_buff *, struct nlattr **, struct net_device *, const unsigned char *, u16, u32, u32, struct netlink_ext_ack *)''),
    Member ''ndo_mdb_add'' (Ptr ''int (*)(struct net_device *, struct nlattr **, u16, struct netlink_ext_ack *)''),
    Member ''ndo_mdb_del'' (Ptr ''int (*)(struct net_device *, struct nlattr **, struct netlink_ext_ack *)''),
    Member ''ndo_mdb_del_bulk'' (Ptr ''int (*)(struct net_device *, struct nlattr **, struct netlink_ext_ack *)''),
    Member ''ndo_mdb_dump'' (Ptr ''int (*)(struct net_device *, struct sk_buff *, struct netlink_callback *)''),
    Member ''ndo_mdb_get'' (Ptr ''int (*)(struct net_device *, struct nlattr **, u32, u32, struct netlink_ext_ack *)''),
    Member ''ndo_bridge_setlink'' (Ptr ''int (*)(struct net_device *, struct nlmsghdr *, u16, struct netlink_ext_ack *)''),
    Member ''ndo_bridge_getlink'' (Ptr ''int (*)(struct sk_buff *, u32, u32, struct net_device *, u32, int)''),
    Member ''ndo_bridge_dellink'' (Ptr ''int (*)(struct net_device *, struct nlmsghdr *, u16)''),
    Member ''ndo_change_carrier'' (Ptr ''int (*)(struct net_device *, bool)''),
    Member ''ndo_get_phys_port_id'' (Ptr ''int (*)(struct net_device *, struct netdev_phys_item_id *)''),
    Member ''ndo_get_port_parent_id'' (Ptr ''int (*)(struct net_device *, struct netdev_phys_item_id *)''),
    Member ''ndo_get_phys_port_name'' (Ptr ''int (*)(struct net_device *, char *, size_t)''),
    Member ''ndo_dfwd_add_station'' (Ptr ''void * (*)(struct net_device *, struct net_device *)''),
    Member ''ndo_dfwd_del_station'' (Ptr ''void (*)(struct net_device *, void *)''),
    Member ''ndo_set_tx_maxrate'' (Ptr ''int (*)(struct net_device *, int, u32)''),
    Member ''ndo_get_iflink'' (Ptr ''int (*)(const struct net_device *)''),
    Member ''ndo_fill_metadata_dst'' (Ptr ''int (*)(struct net_device *, struct sk_buff *)''),
    Member ''ndo_set_rx_headroom'' (Ptr ''void (*)(struct net_device *, int)''),
    Member ''ndo_bpf'' (Ptr ''int (*)(struct net_device *, struct netdev_bpf *)''),
    Member ''ndo_xdp_xmit'' (Ptr ''int (*)(struct net_device *, int, struct xdp_frame **, u32)''),
    Member ''ndo_xdp_get_xmit_slave'' (Ptr ''struct net_device * (*)(struct net_device *, struct xdp_buff *)''),
    Member ''ndo_xsk_wakeup'' (Ptr ''int (*)(struct net_device *, u32, u32)''),
    Member ''ndo_tunnel_ctl'' (Ptr ''int (*)(struct net_device *, struct ip_tunnel_parm_kern *, int)''),
    Member ''ndo_get_peer_dev'' (Ptr ''struct net_device * (*)(struct net_device *)''),
    Member ''ndo_fill_forward_path'' (Ptr ''int (*)(struct net_device_path_ctx *, struct net_device_path *)''),
    Member ''ndo_get_tstamp'' (Ptr ''ktime_t (*)(struct net_device *, const struct skb_shared_hwtstamps *, bool)''),
    Member ''ndo_hwtstamp_get'' (Ptr ''int (*)(struct net_device *, struct kernel_hwtstamp_config *)''),
    Member ''ndo_hwtstamp_set'' (Ptr ''int (*)(struct net_device *, struct kernel_hwtstamp_config *, struct netlink_ext_ack *)'')]"

definition struct_ethtool_ops :: ctype where
  "struct_ethtool_ops = Comp Struct False [
    BitField ''supported_input_xfrm'' t_u32 8,
    BitField ''cap_link_lanes_supported'' t_u32 1,
    BitField ''rxfh_per_ctx_fields'' t_u32 1,
    BitField ''rxfh_per_ctx_key'' t_u32 1,
    BitField ''cap_rss_rxnfc_adds'' t_u32 1,
    Member ''rxfh_indir_space'' t_u32,
    Member ''rxfh_key_space'' t_u16,
    Member ''rxfh_priv_size'' t_u16,
    Member ''rxfh_max_num_contexts'' t_u32,
    Member ''supported_coalesce_params'' t_u32,
    Member ''supported_ring_params'' t_u32,
    Member ''supported_hwtstamp_qualifiers'' t_u32,
    Member ''get_drvinfo'' (Ptr ''void (*)(struct net_device *, struct ethtool_drvinfo *)''),
    Member ''get_regs_len'' (Ptr ''int (*)(struct net_device *)''),
    Member ''get_regs'' (Ptr ''void (*)(struct net_device *, struct ethtool_regs *, void *)''),
    Member ''get_wol'' (Ptr ''void (*)(struct net_device *, struct ethtool_wolinfo *)''),
    Member ''set_wol'' (Ptr ''int (*)(struct net_device *, struct ethtool_wolinfo *)''),
    Member ''get_msglevel'' (Ptr ''u32 (*)(struct net_device *)''),
    Member ''set_msglevel'' (Ptr ''void (*)(struct net_device *, u32)''),
    Member ''nway_reset'' (Ptr ''int (*)(struct net_device *)''),
    Member ''get_link'' (Ptr ''u32 (*)(struct net_device *)''),
    Member ''get_link_ext_state'' (Ptr ''int (*)(struct net_device *, struct ethtool_link_ext_state_info *)''),
    Member ''get_link_ext_stats'' (Ptr ''void (*)(struct net_device *, struct ethtool_link_ext_stats *)''),
    Member ''get_eeprom_len'' (Ptr ''int (*)(struct net_device *)''),
    Member ''get_eeprom'' (Ptr ''int (*)(struct net_device *, struct ethtool_eeprom *, u8 *)''),
    Member ''set_eeprom'' (Ptr ''int (*)(struct net_device *, struct ethtool_eeprom *, u8 *)''),
    Member ''get_coalesce'' (Ptr ''int (*)(struct net_device *, struct ethtool_coalesce *, struct kernel_ethtool_coalesce *, struct netlink_ext_ack *)''),
    Member ''set_coalesce'' (Ptr ''int (*)(struct net_device *, struct ethtool_coalesce *, struct kernel_ethtool_coalesce *, struct netlink_ext_ack *)''),
    Member ''get_ringparam'' (Ptr ''void (*)(struct net_device *, struct ethtool_ringparam *, struct kernel_ethtool_ringparam *, struct netlink_ext_ack *)''),
    Member ''set_ringparam'' (Ptr ''int (*)(struct net_device *, struct ethtool_ringparam *, struct kernel_ethtool_ringparam *, struct netlink_ext_ack *)''),
    Member ''get_pause_stats'' (Ptr ''void (*)(struct net_device *, struct ethtool_pause_stats *)''),
    Member ''get_pauseparam'' (Ptr ''void (*)(struct net_device *, struct ethtool_pauseparam *)''),
    Member ''set_pauseparam'' (Ptr ''int (*)(struct net_device *, struct ethtool_pauseparam *)''),
    Member ''self_test'' (Ptr ''void (*)(struct net_device *, struct ethtool_test *, u64 *)''),
    Member ''get_strings'' (Ptr ''void (*)(struct net_device *, u32, u8 *)''),
    Member ''set_phys_id'' (Ptr ''int (*)(struct net_device *, enum ethtool_phys_id_state)''),
    Member ''get_ethtool_stats'' (Ptr ''void (*)(struct net_device *, struct ethtool_stats *, u64 *)''),
    Member ''begin'' (Ptr ''int (*)(struct net_device *)''),
    Member ''complete'' (Ptr ''void (*)(struct net_device *)''),
    Member ''get_priv_flags'' (Ptr ''u32 (*)(struct net_device *)''),
    Member ''set_priv_flags'' (Ptr ''int (*)(struct net_device *, u32)''),
    Member ''get_sset_count'' (Ptr ''int (*)(struct net_device *, int)''),
    Member ''get_rxnfc'' (Ptr ''int (*)(struct net_device *, struct ethtool_rxnfc *, u32 *)''),
    Member ''set_rxnfc'' (Ptr ''int (*)(struct net_device *, struct ethtool_rxnfc *)''),
    Member ''flash_device'' (Ptr ''int (*)(struct net_device *, struct ethtool_flash *)''),
    Member ''reset'' (Ptr ''int (*)(struct net_device *, u32 *)''),
    Member ''get_rxfh_key_size'' (Ptr ''u32 (*)(struct net_device *)''),
    Member ''get_rxfh_indir_size'' (Ptr ''u32 (*)(struct net_device *)''),
    Member ''get_rxfh'' (Ptr ''int (*)(struct net_device *, struct ethtool_rxfh_param *)''),
    Member ''set_rxfh'' (Ptr ''int (*)(struct net_device *, struct ethtool_rxfh_param *, struct netlink_ext_ack *)''),
    Member ''get_rxfh_fields'' (Ptr ''int (*)(struct net_device *, struct ethtool_rxfh_fields *)''),
    Member ''set_rxfh_fields'' (Ptr ''int (*)(struct net_device *, const struct ethtool_rxfh_fields *, struct netlink_ext_ack *)''),
    Member ''create_rxfh_context'' (Ptr ''int (*)(struct net_device *, struct ethtool_rxfh_context *, const struct ethtool_rxfh_param *, struct netlink_ext_ack *)''),
    Member ''modify_rxfh_context'' (Ptr ''int (*)(struct net_device *, struct ethtool_rxfh_context *, const struct ethtool_rxfh_param *, struct netlink_ext_ack *)''),
    Member ''remove_rxfh_context'' (Ptr ''int (*)(struct net_device *, struct ethtool_rxfh_context *, u32, struct netlink_ext_ack *)''),
    Member ''get_channels'' (Ptr ''void (*)(struct net_device *, struct ethtool_channels *)''),
    Member ''set_channels'' (Ptr ''int (*)(struct net_device *, struct ethtool_channels *)''),
    Member ''get_dump_flag'' (Ptr ''int (*)(struct net_device *, struct ethtool_dump *)''),
    Member ''get_dump_data'' (Ptr ''int (*)(struct net_device *, struct ethtool_dump *, void *)''),
    Member ''set_dump'' (Ptr ''int (*)(struct net_device *, struct ethtool_dump *)''),
    Member ''get_ts_info'' (Ptr ''int (*)(struct net_device *, struct kernel_ethtool_ts_info *)''),
    Member ''get_ts_stats'' (Ptr ''void (*)(struct net_device *, struct ethtool_ts_stats *)''),
    Member ''get_module_info'' (Ptr ''int (*)(struct net_device *, struct ethtool_modinfo *)''),
    Member ''get_module_eeprom'' (Ptr ''int (*)(struct net_device *, struct ethtool_eeprom *, u8 *)''),
    Member ''get_eee'' (Ptr ''int (*)(struct net_device *, struct ethtool_keee *)''),
    Member ''set_eee'' (Ptr ''int (*)(struct net_device *, struct ethtool_keee *)''),
    Member ''get_tunable'' (Ptr ''int (*)(struct net_device *, const struct ethtool_tunable *, void *)''),
    Member ''set_tunable'' (Ptr ''int (*)(struct net_device *, const struct ethtool_tunable *, const void *)''),
    Member ''get_per_queue_coalesce'' (Ptr ''int (*)(struct net_device *, u32, struct ethtool_coalesce *)''),
    Member ''set_per_queue_coalesce'' (Ptr ''int (*)(struct net_device *, u32, struct ethtool_coalesce *)''),
    Member ''get_link_ksettings'' (Ptr ''int (*)(struct net_device *, struct ethtool_link_ksettings *)''),
    Member ''set_link_ksettings'' (Ptr ''int (*)(struct net_device *, const struct ethtool_link_ksettings *)''),
    Member ''get_fec_stats'' (Ptr ''void (*)(struct net_device *, struct ethtool_fec_stats *)''),
    Member ''get_fecparam'' (Ptr ''int (*)(struct net_device *, struct ethtool_fecparam *)''),
    Member ''set_fecparam'' (Ptr ''int (*)(struct net_device *, struct ethtool_fecparam *)''),
    Member ''get_ethtool_phy_stats'' (Ptr ''void (*)(struct net_device *, struct ethtool_stats *, u64 *)''),
    Member ''get_phy_tunable'' (Ptr ''int (*)(struct net_device *, const struct ethtool_tunable *, void *)''),
    Member ''set_phy_tunable'' (Ptr ''int (*)(struct net_device *, const struct ethtool_tunable *, const void *)''),
    Member ''get_module_eeprom_by_page'' (Ptr ''int (*)(struct net_device *, const struct ethtool_module_eeprom *, struct netlink_ext_ack *)''),
    Member ''set_module_eeprom_by_page'' (Ptr ''int (*)(struct net_device *, const struct ethtool_module_eeprom *, struct netlink_ext_ack *)''),
    Member ''get_eth_phy_stats'' (Ptr ''void (*)(struct net_device *, struct ethtool_eth_phy_stats *)''),
    Member ''get_eth_mac_stats'' (Ptr ''void (*)(struct net_device *, struct ethtool_eth_mac_stats *)''),
    Member ''get_eth_ctrl_stats'' (Ptr ''void (*)(struct net_device *, struct ethtool_eth_ctrl_stats *)''),
    Member ''get_rmon_stats'' (Ptr ''void (*)(struct net_device *, struct ethtool_rmon_stats *, const struct ethtool_rmon_hist_range **)''),
    Member ''get_module_power_mode'' (Ptr ''int (*)(struct net_device *, struct ethtool_module_power_mode_params *, struct netlink_ext_ack *)''),
    Member ''set_module_power_mode'' (Ptr ''int (*)(struct net_device *, const struct ethtool_module_power_mode_params *, struct netlink_ext_ack *)''),
    Member ''get_mm'' (Ptr ''int (*)(struct net_device *, struct ethtool_mm_state *)''),
    Member ''set_mm'' (Ptr ''int (*)(struct net_device *, struct ethtool_mm_cfg *, struct netlink_ext_ack *)''),
    Member ''get_mm_stats'' (Ptr ''void (*)(struct net_device *, struct ethtool_mm_stats *)'')]"

definition struct_bpf_mprog_fp :: ctype where
  "struct_bpf_mprog_fp = Comp Struct False [
    Member ''prog'' (Ptr ''struct bpf_prog *'')]"

definition struct_bpf_mprog_entry :: ctype where
  "struct_bpf_mprog_entry = Comp Struct False [
    Member ''fp_items'' (Array 64 struct_bpf_mprog_fp),
    Member ''parent'' (Ptr ''struct bpf_mprog_bundle *'')]"

definition struct_bpf_mprog_cp :: ctype where
  "struct_bpf_mprog_cp = Comp Struct False [
    Member ''link'' (Ptr ''struct bpf_link *'')]"

definition struct_bpf_mprog_bundle :: ctype where
  "struct_bpf_mprog_bundle = Comp Struct False [
    Member ''a'' struct_bpf_mprog_entry,
    Member ''b'' struct_bpf_mprog_entry,
    Member ''cp_items'' (Array 64 struct_bpf_mprog_cp),
    Member ''ref'' (Ptr ''struct bpf_prog *''),
    Member ''revision'' t_atomic64_t,
    Member ''count'' t_u32]"

definition struct_netkit :: ctype where
  "struct_netkit = Comp Struct False [
    Member ''peer'' (Ptr ''struct net_device *''),
    Member ''active'' (Ptr ''struct bpf_mprog_entry *''),
    Member ''policy'' enum_netkit_action,
    Member ''scrub'' enum_netkit_scrub,
    Member ''bundle'' struct_bpf_mprog_bundle,
    Member ''mode'' enum_netkit_mode,
    Member ''primary'' t_bool,
    Member ''headroom'' t_u32]"

definition struct_bpf_link :: ctype where
  "struct_bpf_link = Comp Struct False [
    Member ''refcnt'' t_atomic64_t,
    Member ''id'' t_u32,
    Member ''type'' enum_bpf_link_type,
    Member ''ops'' (Ptr ''struct bpf_link_ops *''),
    Member ''prog'' (Ptr ''struct bpf_prog *''),
    Member ''flags'' t_u32,
    Member ''attach_type'' enum_bpf_attach_type,
    Member '''' (Comp Union False [
      Member ''rcu'' struct_callback_head,
      Member ''work'' struct_work_struct]),
    Member ''sleepable'' t_bool]"

definition struct_netkit_link :: ctype where
  "struct_netkit_link = Comp Struct False [
    Member ''link'' struct_bpf_link,
    Member ''dev'' (Ptr ''struct net_device *'')]"

definition struct_delayed_work :: ctype where
  "struct_delayed_work = Comp Struct False [
    Member ''work'' struct_work_struct,
    Member ''timer'' struct_timer_list,
    Member ''wq'' (Ptr ''struct workqueue_struct *''),
    Member ''cpu'' c_int]"

definition struct_sk_buff_list :: ctype where
  "struct_sk_buff_list = Comp Struct False [
    Member ''next'' (Ptr ''struct sk_buff *''),
    Member ''prev'' (Ptr ''struct sk_buff *'')]"

definition struct_sk_buff_head :: ctype where
  "struct_sk_buff_head = Comp Struct False [
    Member '''' (Comp Union False [
      Member '''' (Comp Struct False [
        Member ''next'' (Ptr ''struct sk_buff *''),
        Member ''prev'' (Ptr ''struct sk_buff *'')]),
      Member ''list'' struct_sk_buff_list]),
    Member ''qlen'' t___u32,
    Member ''lock'' t_spinlock_t]"

definition struct_qrwlock :: ctype where
  "struct_qrwlock = Comp Struct False [
    Member '''' (Comp Union False [
      Member ''cnts'' t_atomic_t,
      Member '''' (Comp Struct False [
        Member ''wlocked'' t_u8,
        Member ''__lstate'' (Array 3 t_u8)])]),
    Member ''wait_lock'' t_arch_spinlock_t]"

definition t_arch_rwlock_t :: ctype where
  "t_arch_rwlock_t = struct_qrwlock"

definition t_rwlock_t :: ctype where
  "t_rwlock_t = Comp Struct False [
    Member ''raw_lock'' t_arch_rwlock_t]"

definition struct_ipv6_stable_secret :: ctype where
  "struct_ipv6_stable_secret = Comp Struct False [
    Member ''initialized'' t_bool,
    Member ''secret'' struct_in6_addr]"

definition struct_ipv6_devconf :: ctype where
  "struct_ipv6_devconf = Comp Struct False [
    Member ''__cacheline_group_begin__ipv6_devconf_read_txrx'' (Array 0 t___u8),
    Member ''disable_ipv6'' t___s32,
    Member ''hop_limit'' t___s32,
    Member ''mtu6'' t___s32,
    Member ''forwarding'' t___s32,
    Member ''force_forwarding'' t___s32,
    Member ''disable_policy'' t___s32,
    Member ''proxy_ndp'' t___s32,
    Member ''__cacheline_group_end__ipv6_devconf_read_txrx'' (Array 0 t___u8),
    Member ''accept_ra'' t___s32,
    Member ''accept_redirects'' t___s32,
    Member ''autoconf'' t___s32,
    Member ''dad_transmits'' t___s32,
    Member ''rtr_solicits'' t___s32,
    Member ''rtr_solicit_interval'' t___s32,
    Member ''rtr_solicit_max_interval'' t___s32,
    Member ''rtr_solicit_delay'' t___s32,
    Member ''force_mld_version'' t___s32,
    Member ''mldv1_unsolicited_report_interval'' t___s32,
    Member ''mldv2_unsolicited_report_interval'' t___s32,
    Member ''use_tempaddr'' t___s32,
    Member ''temp_valid_lft'' t___s32,
    Member ''temp_prefered_lft'' t___s32,
    Member ''regen_min_advance'' t___s32,
    Member ''regen_max_retry'' t___s32,
    Member ''max_desync_factor'' t___s32,
    Member ''max_addresses'' t___s32,
    Member ''accept_ra_defrtr'' t___s32,
    Member ''ra_defrtr_metric'' t___u32,
    Member ''accept_ra_min_hop_limit'' t___s32,
    Member ''accept_ra_min_lft'' t___s32,
    Member ''accept_ra_pinfo'' t___s32,
    Member ''ignore_routes_with_linkdown'' t___s32,
    Member ''accept_source_route'' t___s32,
    Member ''accept_ra_from_local'' t___s32,
    Member ''optimistic_dad'' t___s32,
    Member ''use_optimistic'' t___s32,
    Member ''drop_unicast_in_l2_multicast'' t___s32,
    Member ''accept_dad'' t___s32,
    Member ''force_tllao'' t___s32,
    Member ''ndisc_notify'' t___s32,
    Member ''suppress_frag_ndisc'' t___s32,
    Member ''accept_ra_mtu'' t___s32,
    Member ''drop_unsolicited_na'' t___s32,
    Member ''accept_untracked_na'' t___s32,
    Member ''stable_secret'' struct_ipv6_stable_secret,
    Member ''use_oif_addrs_only'' t___s32,
    Member ''keep_addr_on_down'' t___s32,
    Member ''seg6_enabled'' t___s32,
    Member ''seg6_require_hmac'' t___s32,
    Member ''enhanced_dad'' t___u32,
    Member ''addr_gen_mode'' t___u32,
    Member ''ndisc_tclass'' t___s32,
    Member ''rpl_seg_enabled'' t___s32,
    Member ''ioam6_id'' t___u32,
    Member ''ioam6_id_wide'' t___u32,
    Member ''ioam6_enabled'' t___u8,
    Member ''ndisc_evict_nocarrier'' t___u8,
    Member ''ra_honor_pio_life'' t___u8,
    Member ''ra_honor_pio_pflag'' t___u8,
    Member ''sysctl_header'' (Ptr ''struct ctl_table_header *'')]"

definition struct_ipv6_devstat :: ctype where
  "struct_ipv6_devstat = Comp Struct False [
    Member ''proc_dir_entry'' (Ptr ''struct proc_dir_entry *''),
    Member ''ipv6'' (Ptr ''struct ipstats_mib *''),
    Member ''icmpv6dev'' (Ptr ''struct icmpv6_mib_device *''),
    Member ''icmpv6msgdev'' (Ptr ''struct icmpv6msg_mib_device *'')]"

definition struct_inet6_dev :: ctype where
  "struct_inet6_dev = Comp Struct False [
    Member ''dev'' (Ptr ''struct net_device *''),
    Member ''dev_tracker'' t_netdevice_tracker,
    Member ''addr_list'' struct_list_head,
    Member ''mc_list'' (Ptr ''struct ifmcaddr6 *''),
    Member ''mc_tomb'' (Ptr ''struct ifmcaddr6 *''),
    Member ''mc_qrv'' c_unsigned_char,
    Member ''mc_gq_running'' c_unsigned_char,
    Member ''mc_ifc_count'' c_unsigned_char,
    Member ''mc_dad_count'' c_unsigned_char,
    Member ''mc_v1_seen'' c_unsigned_long,
    Member ''mc_qi'' c_unsigned_long,
    Member ''mc_qri'' c_unsigned_long,
    Member ''mc_maxdelay'' c_unsigned_long,
    Member ''mc_gq_work'' struct_delayed_work,
    Member ''mc_ifc_work'' struct_delayed_work,
    Member ''mc_dad_work'' struct_delayed_work,
    Member ''mc_query_work'' struct_delayed_work,
    Member ''mc_report_work'' struct_delayed_work,
    Member ''mc_query_queue'' struct_sk_buff_head,
    Member ''mc_report_queue'' struct_sk_buff_head,
    Member ''mc_query_lock'' t_spinlock_t,
    Member ''mc_report_lock'' t_spinlock_t,
    Member ''mc_lock'' struct_mutex,
    Member ''ac_list'' (Ptr ''struct ifacaddr6 *''),
    Member ''lock'' t_rwlock_t,
    Member ''refcnt'' t_refcount_t,
    Member ''if_flags'' t___u32,
    Member ''dead'' c_int,
    Member ''desync_factor'' t_u32,
    Member ''tempaddr_list'' struct_list_head,
    Member ''token'' struct_in6_addr,
    Member ''nd_parms'' (Ptr ''struct neigh_parms *''),
    Member ''cnf'' struct_ipv6_devconf,
    Member ''stats'' struct_ipv6_devstat,
    Member ''rs_timer'' struct_timer_list,
    Member ''rs_interval'' t___s32,
    Member ''rs_probes'' t___u8,
    Member ''tstamp'' c_unsigned_long,
    Member ''rcu'' struct_callback_head,
    Member ''ra_mtu'' c_unsigned_int]"

end
