(* ===== verification/Vmlinux_Sock.thy ===== *)
theory Vmlinux_Sock
  imports Vmlinux_Net
begin

text \<open>
  The declarations of \<^verbatim>\<open>vmlinux.h\<close> for sockets, TCP state and network namespaces, with the types
  they contain.
\<close>

definition t___addrpair :: ctype where
  "t___addrpair = t___u64"

definition t___portpair :: ctype where
  "t___portpair = t___u32"

definition struct_hlist_nulls_node :: ctype where
  "struct_hlist_nulls_node = Comp Struct False [
    Member ''next'' (Ptr ''struct hlist_nulls_node *''),
    Member ''pprev'' (Ptr ''struct hlist_nulls_node **'')]"

definition struct_sock_common :: ctype where
  "struct_sock_common = Comp Struct False [
    Member '''' (Comp Union False [
      Member ''skc_addrpair'' t___addrpair,
      Member '''' (Comp Struct False [
        Member ''skc_daddr'' t___be32,
        Member ''skc_rcv_saddr'' t___be32])]),
    Member '''' (Comp Union False [
      Member ''skc_hash'' c_unsigned_int,
      Member ''skc_u16hashes'' (Array 2 t___u16)]),
    Member '''' (Comp Union False [
      Member ''skc_portpair'' t___portpair,
      Member '''' (Comp Struct False [
        Member ''skc_dport'' t___be16,
        Member ''skc_num'' t___u16])]),
    Member ''skc_family'' c_unsigned_short,
    Member ''skc_state'' c_unsigned_char,
    BitField ''skc_reuse'' c_unsigned_char 4,
    BitField ''skc_reuseport'' c_unsigned_char 1,
    BitField ''skc_ipv6only'' c_unsigned_char 1,
    BitField ''skc_net_refcnt'' c_unsigned_char 1,
    Member ''skc_bound_dev_if'' c_int,
    Member '''' (Comp Union False [
      Member ''skc_bind_node'' struct_hlist_node,
      Member ''skc_portaddr_node'' struct_hlist_node]),
    Member ''skc_prot'' (Ptr ''struct proto *''),
    Member ''skc_net'' t_possible_net_t,
    Member ''skc_v6_daddr'' struct_in6_addr,
    Member ''skc_v6_rcv_saddr'' struct_in6_addr,
    Member ''skc_cookie'' t_atomic64_t,
    Member '''' (Comp Union False [
      Member ''skc_flags'' c_unsigned_long,
      Member ''skc_listener'' (Ptr ''struct sock *''),
      Member ''skc_tw_dr'' (Ptr ''struct inet_timewait_death_row *'')]),
    Member ''skc_dontcopy_begin'' (Array 0 c_int),
    Member '''' (Comp Union False [
      Member ''skc_node'' struct_hlist_node,
      Member ''skc_nulls_node'' struct_hlist_nulls_node]),
    Member ''skc_tx_queue_mapping'' c_unsigned_short,
    Member ''skc_rx_queue_mapping'' c_unsigned_short,
    Member '''' (Comp Union False [
      Member ''skc_incoming_cpu'' c_int,
      Member ''skc_rcv_wnd'' t_u32,
      Member ''skc_tw_rcv_nxt'' t_u32]),
    Member ''skc_refcnt'' t_refcount_t,
    Member ''skc_dontcopy_end'' (Array 0 c_int),
    Member '''' (Comp Union False [
      Member ''skc_rxhash'' t_u32,
      Member ''skc_window_clamp'' t_u32,
      Member ''skc_tw_snd_nxt'' t_u32])]"

definition t_socket_lock_t :: ctype where
  "t_socket_lock_t = Comp Struct False [
    Member ''slock'' t_spinlock_t,
    Member ''owned'' c_int,
    Member ''wq'' t_wait_queue_head_t]"

definition struct_page_frag :: ctype where
  "struct_page_frag = Comp Struct False [
    Member ''page'' (Ptr ''struct page *''),
    Member ''offset'' t___u32,
    Member ''size'' t___u32]"

definition t_gfp_t :: ctype where
  "t_gfp_t = c_unsigned_int"

definition t___kernel_uid32_t :: ctype where
  "t___kernel_uid32_t = c_unsigned_int"

definition t_uid_t :: ctype where
  "t_uid_t = t___kernel_uid32_t"

definition t_kuid_t :: ctype where
  "t_kuid_t = Comp Struct False [
    Member ''val'' t_uid_t]"

definition struct_sock_cgroup_data :: ctype where
  "struct_sock_cgroup_data = Comp Struct False [
    Member ''cgroup'' (Ptr ''struct cgroup *''),
    Member ''classid'' t_u32,
    Member ''prioidx'' t_u16]"

definition t_netns_tracker :: ctype where
  "t_netns_tracker = Comp Struct False []"

definition struct_xarray :: ctype where
  "struct_xarray = Comp Struct False [
    Member ''xa_lock'' t_spinlock_t,
    Member ''xa_flags'' t_gfp_t,
    Member ''xa_head'' (Ptr ''void *'')]"

definition struct_sock :: ctype where
  "struct_sock = Comp Struct False [
    Member ''__sk_common'' struct_sock_common,
    Member ''__cacheline_group_begin__sock_write_rx'' (Array 0 t___u8),
    Member ''sk_drops'' t_atomic_t,
    Member ''sk_peek_off'' t___s32,
    Member ''sk_error_queue'' struct_sk_buff_head,
    Member ''sk_receive_queue'' struct_sk_buff_head,
    Member ''sk_backlog'' (Comp Struct False [
      Member ''rmem_alloc'' t_atomic_t,
      Member ''len'' c_int,
      Member ''head'' (Ptr ''struct sk_buff *''),
      Member ''tail'' (Ptr ''struct sk_buff *'')]),
    Member ''__cacheline_group_end__sock_write_rx'' (Array 0 t___u8),
    Member ''__cacheline_group_begin__sock_read_rx'' (Array 0 t___u8),
    Member ''sk_rx_dst'' (Ptr ''struct dst_entry *''),
    Member ''sk_rx_dst_ifindex'' c_int,
    Member ''sk_rx_dst_cookie'' t_u32,
    Member ''sk_ll_usec'' c_unsigned_int,
    Member ''sk_napi_id'' c_unsigned_int,
    Member ''sk_busy_poll_budget'' t_u16,
    Member ''sk_prefer_busy_poll'' t_u8,
    Member ''sk_userlocks'' t_u8,
    Member ''sk_rcvbuf'' c_int,
    Member ''sk_filter'' (Ptr ''struct sk_filter *''),
    Member '''' (Comp Union False [
      Member ''sk_wq'' (Ptr ''struct socket_wq *''),
      Member ''sk_wq_raw'' (Ptr ''struct socket_wq *'')]),
    Member ''sk_data_ready'' (Ptr ''void (*)(struct sock *)''),
    Member ''sk_rcvtimeo'' c_long,
    Member ''sk_rcvlowat'' c_int,
    Member ''__cacheline_group_end__sock_read_rx'' (Array 0 t___u8),
    Member ''__cacheline_group_begin__sock_read_rxtx'' (Array 0 t___u8),
    Member ''sk_err'' c_int,
    Member ''sk_socket'' (Ptr ''struct socket *''),
    Member ''sk_memcg'' (Ptr ''struct mem_cgroup *''),
    Member ''sk_policy'' (Array 2 (Ptr ''struct xfrm_policy *'')),
    Member ''__cacheline_group_end__sock_read_rxtx'' (Array 0 t___u8),
    Member ''__cacheline_group_begin__sock_write_rxtx'' (Array 0 t___u8),
    Member ''sk_lock'' t_socket_lock_t,
    Member ''sk_reserved_mem'' t_u32,
    Member ''sk_forward_alloc'' c_int,
    Member ''sk_tsflags'' t_u32,
    Member ''__cacheline_group_end__sock_write_rxtx'' (Array 0 t___u8),
    Member ''__cacheline_group_begin__sock_write_tx'' (Array 0 t___u8),
    Member ''sk_write_pending'' c_int,
    Member ''sk_omem_alloc'' t_atomic_t,
    Member ''sk_sndbuf'' c_int,
    Member ''sk_wmem_queued'' c_int,
    Member ''sk_wmem_alloc'' t_refcount_t,
    Member ''sk_tsq_flags'' c_unsigned_long,
    Member '''' (Comp Union False [
      Member ''sk_send_head'' (Ptr ''struct sk_buff *''),
      Member ''tcp_rtx_queue'' struct_rb_root]),
    Member ''sk_write_queue'' struct_sk_buff_head,
    Member ''sk_dst_pending_confirm'' t_u32,
    Member ''sk_pacing_status'' t_u32,
    Member ''sk_frag'' struct_page_frag,
    Member ''sk_timer'' struct_timer_list,
    Member ''sk_pacing_rate'' c_unsigned_long,
    Member ''sk_zckey'' t_atomic_t,
    Member ''sk_tskey'' t_atomic_t,
    Member ''__cacheline_group_end__sock_write_tx'' (Array 0 t___u8),
    Member ''__cacheline_group_begin__sock_read_tx'' (Array 0 t___u8),
    Member ''sk_max_pacing_rate'' c_unsigned_long,
    Member ''sk_sndtimeo'' c_long,
    Member ''sk_priority'' t_u32,
    Member ''sk_mark'' t_u32,
    Member ''sk_dst_cache'' (Ptr ''struct dst_entry *''),
    Member ''sk_route_caps'' t_netdev_features_t,
    Member ''sk_gso_type'' t_u16,
    Member ''sk_gso_max_segs'' t_u16,
    Member ''sk_gso_max_size'' c_unsigned_int,
    Member ''sk_allocation'' t_gfp_t,
    Member ''sk_txhash'' t_u32,
    Member ''sk_pacing_shift'' t_u8,
    Member ''sk_use_task_frag'' t_bool,
    Member ''__cacheline_group_end__sock_read_tx'' (Array 0 t___u8),
    BitField ''sk_gso_disabled'' t_u8 1,
    BitField ''sk_kern_sock'' t_u8 1,
    BitField ''sk_no_check_tx'' t_u8 1,
    BitField ''sk_no_check_rx'' t_u8 1,
    Member ''sk_shutdown'' t_u8,
    Member ''sk_type'' t_u16,
    Member ''sk_protocol'' t_u16,
    Member ''sk_lingertime'' c_unsigned_long,
    Member ''sk_prot_creator'' (Ptr ''struct proto *''),
    Member ''sk_callback_lock'' t_rwlock_t,
    Member ''sk_err_soft'' c_int,
    Member ''sk_ack_backlog'' t_u32,
    Member ''sk_max_ack_backlog'' t_u32,
    Member ''sk_uid'' t_kuid_t,
    Member ''sk_ino'' c_unsigned_long,
    Member ''sk_peer_lock'' t_spinlock_t,
    Member ''sk_bind_phc'' c_int,
    Member ''sk_peer_pid'' (Ptr ''struct pid *''),
    Member ''sk_peer_cred'' (Ptr ''struct cred *''),
    Member ''sk_stamp'' t_ktime_t,
    Member ''sk_disconnects'' c_int,
    Member '''' (Comp Union False [
      Member ''sk_txrehash'' t_u8,
      Member ''sk_scm_recv_flags'' t_u8,
      Member '''' (Comp Struct False [
        BitField ''sk_scm_credentials'' t_u8 1,
        BitField ''sk_scm_security'' t_u8 1,
        BitField ''sk_scm_pidfd'' t_u8 1,
        BitField ''sk_scm_rights'' t_u8 1,
        BitField ''sk_scm_unused'' t_u8 4])]),
    Member ''sk_clockid'' t_u8,
    BitField ''sk_txtime_deadline_mode'' t_u8 1,
    BitField ''sk_txtime_report_errors'' t_u8 1,
    BitField ''sk_txtime_unused'' t_u8 6,
    Member ''sk_bpf_cb_flags'' t_u8,
    Member ''sk_user_data'' (Ptr ''void *''),
    Member ''sk_security'' (Ptr ''void *''),
    Member ''sk_cgrp_data'' struct_sock_cgroup_data,
    Member ''sk_state_change'' (Ptr ''void (*)(struct sock *)''),
    Member ''sk_write_space'' (Ptr ''void (*)(struct sock *)''),
    Member ''sk_error_report'' (Ptr ''void (*)(struct sock *)''),
    Member ''sk_backlog_rcv'' (Ptr ''int (*)(struct sock *, struct sk_buff *)''),
    Member ''sk_destruct'' (Ptr ''void (*)(struct sock *)''),
    Member ''sk_reuseport_cb'' (Ptr ''struct sock_reuseport *''),
    Member ''sk_bpf_storage'' (Ptr ''struct bpf_local_storage *''),
    Member ''sk_rcu'' struct_callback_head,
    Member ''ns_tracker'' t_netns_tracker,
    Member ''sk_user_frags'' struct_xarray]"

definition struct_inet_cork :: ctype where
  "struct_inet_cork = Comp Struct False [
    Member ''flags'' c_unsigned_int,
    Member ''addr'' t___be32,
    Member ''opt'' (Ptr ''struct ip_options *''),
    Member ''fragsize'' c_unsigned_int,
    Member ''length'' c_int,
    Member ''dst'' (Ptr ''struct dst_entry *''),
    Member ''tx_flags'' t_u8,
    Member ''ttl'' t___u8,
    Member ''tos'' t___s16,
    Member ''priority'' t_u32,
    Member ''gso_size'' t___u16,
    Member ''ts_opt_id'' t_u32,
    Member ''transmit_time'' t_u64,
    Member ''mark'' t_u32]"

definition t___be64 :: ctype where
  "t___be64 = t___u64"

definition struct_flowi_tunnel :: ctype where
  "struct_flowi_tunnel = Comp Struct False [
    Member ''tun_id'' t___be64]"

definition struct_flowi_common :: ctype where
  "struct_flowi_common = Comp Struct False [
    Member ''flowic_oif'' c_int,
    Member ''flowic_iif'' c_int,
    Member ''flowic_l3mdev'' c_int,
    Member ''flowic_mark'' t___u32,
    Member ''flowic_tos'' t___u8,
    Member ''flowic_scope'' t___u8,
    Member ''flowic_proto'' t___u8,
    Member ''flowic_flags'' t___u8,
    Member ''flowic_secid'' t___u32,
    Member ''flowic_uid'' t_kuid_t,
    Member ''flowic_multipath_hash'' t___u32,
    Member ''flowic_tun_key'' struct_flowi_tunnel]"

definition union_flowi_uli :: ctype where
  "union_flowi_uli = Comp Union False [
    Member ''ports'' (Comp Struct False [
      Member ''dport'' t___be16,
      Member ''sport'' t___be16]),
    Member ''icmpt'' (Comp Struct False [
      Member ''type'' t___u8,
      Member ''code'' t___u8]),
    Member ''gre_key'' t___be32,
    Member ''mht'' (Comp Struct False [
      Member ''type'' t___u8])]"

definition struct_flowi4 :: ctype where
  "struct_flowi4 = Comp Struct False [
    Member ''__fl_common'' struct_flowi_common,
    Member ''saddr'' t___be32,
    Member ''daddr'' t___be32,
    Member ''uli'' union_flowi_uli]"

definition struct_flowi6 :: ctype where
  "struct_flowi6 = Comp Struct False [
    Member ''__fl_common'' struct_flowi_common,
    Member ''daddr'' struct_in6_addr,
    Member ''saddr'' struct_in6_addr,
    Member ''flowlabel'' t___be32,
    Member ''uli'' union_flowi_uli,
    Member ''mp_hash'' t___u32]"

definition struct_flowi :: ctype where
  "struct_flowi = Comp Struct False [
    Member ''u'' (Comp Union False [
      Member ''__fl_common'' struct_flowi_common,
      Member ''ip4'' struct_flowi4,
      Member ''ip6'' struct_flowi6])]"

definition struct_inet_cork_full :: ctype where
  "struct_inet_cork_full = Comp Struct False [
    Member ''base'' struct_inet_cork,
    Member ''fl'' struct_flowi]"

definition struct_inet_sock :: ctype where
  "struct_inet_sock = Comp Struct False [
    Member ''sk'' struct_sock,
    Member ''pinet6'' (Ptr ''struct ipv6_pinfo *''),
    Member ''inet_flags'' c_unsigned_long,
    Member ''inet_saddr'' t___be32,
    Member ''uc_ttl'' t___s16,
    Member ''inet_sport'' t___be16,
    Member ''inet_opt'' (Ptr ''struct ip_options_rcu *''),
    Member ''inet_id'' t_atomic_t,
    Member ''tos'' t___u8,
    Member ''min_ttl'' t___u8,
    Member ''mc_ttl'' t___u8,
    Member ''pmtudisc'' t___u8,
    Member ''rcv_tos'' t___u8,
    Member ''convert_csum'' t___u8,
    Member ''uc_index'' c_int,
    Member ''mc_index'' c_int,
    Member ''mc_addr'' t___be32,
    Member ''local_port_range'' t_u32,
    Member ''mc_list'' (Ptr ''struct ip_mc_socklist *''),
    Member ''cork'' struct_inet_cork_full]"

definition struct_fastopen_queue :: ctype where
  "struct_fastopen_queue = Comp Struct False [
    Member ''rskq_rst_head'' (Ptr ''struct request_sock *''),
    Member ''rskq_rst_tail'' (Ptr ''struct request_sock *''),
    Member ''lock'' t_spinlock_t,
    Member ''qlen'' c_int,
    Member ''max_qlen'' c_int,
    Member ''ctx'' (Ptr ''struct tcp_fastopen_context *'')]"

definition struct_request_sock_queue :: ctype where
  "struct_request_sock_queue = Comp Struct False [
    Member ''rskq_lock'' t_spinlock_t,
    Member ''rskq_defer_accept'' t_u8,
    Member ''synflood_warned'' t_u32,
    Member ''qlen'' t_atomic_t,
    Member ''young'' t_atomic_t,
    Member ''rskq_accept_head'' (Ptr ''struct request_sock *''),
    Member ''rskq_accept_tail'' (Ptr ''struct request_sock *''),
    Member ''fastopenq'' struct_fastopen_queue]"

definition struct_inet_connection_sock :: ctype where
  "struct_inet_connection_sock = Comp Struct False [
    Member ''icsk_inet'' struct_inet_sock,
    Member ''icsk_accept_queue'' struct_request_sock_queue,
    Member ''icsk_bind_hash'' (Ptr ''struct inet_bind_bucket *''),
    Member ''icsk_bind2_hash'' (Ptr ''struct inet_bind2_bucket *''),
    Member ''icsk_retransmit_timer'' struct_timer_list,
    Member ''icsk_delack_timer'' struct_timer_list,
    Member ''icsk_rto'' t___u32,
    Member ''icsk_rto_min'' t___u32,
    Member ''icsk_rto_max'' t_u32,
    Member ''icsk_delack_max'' t___u32,
    Member ''icsk_pmtu_cookie'' t___u32,
    Member ''icsk_ca_ops'' (Ptr ''struct tcp_congestion_ops *''),
    Member ''icsk_af_ops'' (Ptr ''struct inet_connection_sock_af_ops *''),
    Member ''icsk_ulp_ops'' (Ptr ''struct tcp_ulp_ops *''),
    Member ''icsk_ulp_data'' (Ptr ''void *''),
    Member ''icsk_sync_mss'' (Ptr ''unsigned int (*)(struct sock *, u32)''),
    BitField ''icsk_ca_state'' t___u8 5,
    BitField ''icsk_ca_initialized'' t___u8 1,
    BitField ''icsk_ca_setsockopt'' t___u8 1,
    BitField ''icsk_ca_dst_locked'' t___u8 1,
    Member ''icsk_retransmits'' t___u8,
    Member ''icsk_pending'' t___u8,
    Member ''icsk_backoff'' t___u8,
    Member ''icsk_syn_retries'' t___u8,
    Member ''icsk_probes_out'' t___u8,
    Member ''icsk_ext_hdr_len'' t___u16,
    Member ''icsk_ack'' (Comp Struct False [
      Member ''pending'' t___u8,
      Member ''quick'' t___u8,
      Member ''pingpong'' t___u8,
      Member ''retry'' t___u8,
      BitField ''ato'' t___u32 8,
      BitField ''lrcv_flowlabel'' t___u32 20,
      BitField ''dst_quick_ack'' t___u32 1,
      BitField ''unused'' t___u32 3,
      Member ''lrcvtime'' t___u32,
      Member ''last_seg_size'' t___u16,
      Member ''rcv_mss'' t___u16]),
    Member ''icsk_mtup'' (Comp Struct False [
      Member ''search_high'' c_int,
      Member ''search_low'' c_int,
      BitField ''probe_size'' t_u32 31,
      BitField ''enabled'' t_u32 1,
      Member ''probe_timestamp'' t_u32]),
    Member ''icsk_probes_tstamp'' t_u32,
    Member ''icsk_user_timeout'' t_u32,
    Member ''icsk_ca_priv'' (Array 13 t_u64)]"

definition struct_minmax_sample :: ctype where
  "struct_minmax_sample = Comp Struct False [
    Member ''t'' t_u32,
    Member ''v'' t_u32]"

definition struct_minmax :: ctype where
  "struct_minmax = Comp Struct False [
    Member ''s'' (Array 3 struct_minmax_sample)]"

definition struct_tcp_options_received :: ctype where
  "struct_tcp_options_received = Comp Struct False [
    Member ''ts_recent_stamp'' c_int,
    Member ''ts_recent'' t_u32,
    Member ''rcv_tsval'' t_u32,
    Member ''rcv_tsecr'' t_u32,
    BitField ''saw_tstamp'' t_u16 1,
    BitField ''tstamp_ok'' t_u16 1,
    BitField ''dsack'' t_u16 1,
    BitField ''wscale_ok'' t_u16 1,
    BitField ''sack_ok'' t_u16 3,
    BitField ''smc_ok'' t_u16 1,
    BitField ''snd_wscale'' t_u16 4,
    BitField ''rcv_wscale'' t_u16 4,
    BitField ''saw_unknown'' t_u8 1,
    BitField ''unused'' t_u8 7,
    Member ''num_sacks'' t_u8,
    Member ''user_mss'' t_u16,
    Member ''mss_clamp'' t_u16]"

definition struct_tcp_rack :: ctype where
  "struct_tcp_rack = Comp Struct False [
    Member ''mstamp'' t_u64,
    Member ''rtt_us'' t_u32,
    Member ''end_seq'' t_u32,
    Member ''last_delivered'' t_u32,
    Member ''reo_wnd_steps'' t_u8,
    BitField ''reo_wnd_persist'' t_u8 5,
    BitField ''dsack_seen'' t_u8 1,
    BitField ''advanced'' t_u8 1]"

definition struct_timerqueue_node :: ctype where
  "struct_timerqueue_node = Comp Struct False [
    Member ''node'' struct_rb_node,
    Member ''expires'' t_ktime_t]"

definition struct_hrtimer :: ctype where
  "struct_hrtimer = Comp Struct False [
    Member ''node'' struct_timerqueue_node,
    Member ''_softexpires'' t_ktime_t,
    Member ''function'' (Ptr ''enum hrtimer_restart (*)(struct hrtimer *)''),
    Member ''base'' (Ptr ''struct hrtimer_clock_base *''),
    Member ''state'' t_u8,
    Member ''is_rel'' t_u8,
    Member ''is_soft'' t_u8,
    Member ''is_hard'' t_u8]"

definition struct_tcp_sack_block :: ctype where
  "struct_tcp_sack_block = Comp Struct False [
    Member ''start_seq'' t_u32,
    Member ''end_seq'' t_u32]"

definition struct_tcp_sock :: ctype where
  "struct_tcp_sock = Comp Struct False ([
    Member ''inet_conn'' struct_inet_connection_sock,
    Member ''__cacheline_group_begin__tcp_sock_read_tx'' (Array 0 t___u8),
    Member ''max_window'' t_u32,
    Member ''rcv_ssthresh'' t_u32,
    Member ''reordering'' t_u32,
    Member ''notsent_lowat'' t_u32,
    Member ''gso_segs'' t_u16,
    Member ''retransmit_skb_hint'' (Ptr ''struct sk_buff *''),
    Member ''__cacheline_group_end__tcp_sock_read_tx'' (Array 0 t___u8),
    Member ''__cacheline_group_begin__tcp_sock_read_txrx'' (Array 0 t___u8),
    Member ''tsoffset'' t_u32,
    Member ''snd_wnd'' t_u32,
    Member ''mss_cache'' t_u32,
    Member ''snd_cwnd'' t_u32,
    Member ''prr_out'' t_u32,
    Member ''lost_out'' t_u32,
    Member ''sacked_out'' t_u32,
    Member ''tcp_header_len'' t_u16,
    Member ''scaling_ratio'' t_u8,
    BitField ''chrono_type'' t_u8 2,
    BitField ''repair'' t_u8 1,
    BitField ''tcp_usec_ts'' t_u8 1,
    BitField ''is_sack_reneg'' t_u8 1,
    BitField ''is_cwnd_limited'' t_u8 1,
    Member ''__cacheline_group_end__tcp_sock_read_txrx'' (Array 0 t___u8),
    Member ''__cacheline_group_begin__tcp_sock_read_rx'' (Array 0 t___u8),
    Member ''copied_seq'' t_u32,
    Member ''rcv_tstamp'' t_u32,
    Member ''snd_wl1'' t_u32,
    Member ''tlp_high_seq'' t_u32,
    Member ''rttvar_us'' t_u32,
    Member ''retrans_out'' t_u32,
    Member ''advmss'' t_u16,
    Member ''urg_data'' t_u16,
    Member ''lost'' t_u32,
    Member ''rtt_min'' struct_minmax,
    Member ''out_of_order_queue'' struct_rb_root,
    Member ''snd_ssthresh'' t_u32,
    BitField ''recvmsg_inq'' t_u8 1,
    Member ''__cacheline_group_end__tcp_sock_read_rx'' (Array 0 t___u8),
    BitField '''' c_long 64,
    Member ''__cacheline_group_begin__tcp_sock_write_tx'' (Array 0 t___u8),
    Member ''segs_out'' t_u32,
    Member ''data_segs_out'' t_u32,
    Member ''bytes_sent'' t_u64,
    Member ''snd_sml'' t_u32,
    Member ''chrono_start'' t_u32,
    Member ''chrono_stat'' (Array 3 t_u32),
    Member ''write_seq'' t_u32,
    Member ''pushed_seq'' t_u32,
    Member ''lsndtime'' t_u32,
    Member ''mdev_us'' t_u32,
    Member ''rtt_seq'' t_u32,
    Member ''tcp_wstamp_ns'' t_u64,
    Member ''tsorted_sent_queue'' struct_list_head,
    Member ''highest_sack'' (Ptr ''struct sk_buff *''),
    Member ''ecn_flags'' t_u8,
    Member ''__cacheline_group_end__tcp_sock_write_tx'' (Array 0 t___u8),
    Member ''__cacheline_group_begin__tcp_sock_write_txrx'' (Array 0 t___u8),
    Member ''pred_flags'' t___be32,
    Member ''tcp_clock_cache'' t_u64,
    Member ''tcp_mstamp'' t_u64,
    Member ''rcv_nxt'' t_u32,
    Member ''snd_nxt'' t_u32,
    Member ''snd_una'' t_u32,
    Member ''window_clamp'' t_u32,
    Member ''srtt_us'' t_u32,
    Member ''packets_out'' t_u32,
    Member ''snd_up'' t_u32,
    Member ''delivered'' t_u32,
    Member ''delivered_ce'' t_u32,
    Member ''app_limited'' t_u32,
    Member ''rcv_wnd'' t_u32,
    Member ''rx_opt'' struct_tcp_options_received,
    BitField ''nonagle'' t_u8 4,
    BitField ''rate_app_limited'' t_u8 1,
    Member ''__cacheline_group_end__tcp_sock_write_txrx'' (Array 0 t___u8),
    BitField '''' c_long 0,
    Member ''__cacheline_group_begin__tcp_sock_write_rx'' (Array 0 t___u8),
    Member ''bytes_received'' t_u64,
    Member ''segs_in'' t_u32,
    Member ''data_segs_in'' t_u32,
    Member ''rcv_wup'' t_u32,
    Member ''max_packets_out'' t_u32,
    Member ''cwnd_usage_seq'' t_u32,
    Member ''rate_delivered'' t_u32,
    Member ''rate_interval_us'' t_u32,
    Member ''rcv_rtt_last_tsecr'' t_u32,
    Member ''first_tx_mstamp'' t_u64,
    Member ''delivered_mstamp'' t_u64,
    Member ''bytes_acked'' t_u64,
    Member ''rcv_rtt_est'' (Comp Struct False [
      Member ''rtt_us'' t_u32,
      Member ''seq'' t_u32,
      Member ''time'' t_u64]),
    Member ''rcvq_space'' (Comp Struct False [
      Member ''space'' c_int,
      Member ''seq'' t_u32,
      Member ''time'' t_u64]),
    Member ''__cacheline_group_end__tcp_sock_write_rx'' (Array 0 t___u8),
    Member ''dsack_dups'' t_u32,
    Member ''compressed_ack_rcv_nxt'' t_u32,
    Member ''tsq_node'' struct_list_head,
    Member ''rack'' struct_tcp_rack,
    Member ''compressed_ack'' t_u8,
    BitField ''dup_ack_counter'' t_u8 2,
    BitField ''tlp_retrans'' t_u8 1,
    BitField ''unused'' t_u8 5,
    BitField ''thin_lto'' t_u8 1,
    BitField ''fastopen_connect'' t_u8 1,
    BitField ''fastopen_no_cookie'' t_u8 1,
    BitField ''fastopen_client_fail'' t_u8 2,
    BitField ''frto'' t_u8 1,
    Member ''repair_queue'' t_u8,
    BitField ''save_syn'' t_u8 2,
    BitField ''syn_data'' t_u8 1,
    BitField ''syn_fastopen'' t_u8 1,
    BitField ''syn_fastopen_exp'' t_u8 1,
    BitField ''syn_fastopen_ch'' t_u8 1,
    BitField ''syn_data_acked'' t_u8 1,
    BitField ''syn_fastopen_child'' t_u8 1,
    Member ''keepalive_probes'' t_u8,
    Member ''tcp_tx_delay'' t_u32,
    Member ''mdev_max_us'' t_u32,
    Member ''reord_seen'' t_u32,
    Member ''snd_cwnd_cnt'' t_u32,
    Member ''snd_cwnd_clamp'' t_u32,
    Member ''snd_cwnd_used'' t_u32,
    Member ''snd_cwnd_stamp'' t_u32,
    Member ''prior_cwnd'' t_u32,
    Member ''prr_delivered'' t_u32,
    Member ''last_oow_ack_time'' t_u32,
    Member ''pacing_timer'' struct_hrtimer,
    Member ''compressed_ack_timer'' struct_hrtimer,
    Member ''ooo_last_skb'' (Ptr ''struct sk_buff *''),
    Member ''duplicate_sack'' (Array 1 struct_tcp_sack_block),
    Member ''selective_acks'' (Array 4 struct_tcp_sack_block),
    Member ''recv_sack_cache'' (Array 4 struct_tcp_sack_block),
    Member ''prior_ssthresh'' t_u32,
    Member ''high_seq'' t_u32,
    Member ''retrans_stamp'' t_u32,
    Member ''undo_marker'' t_u32,
    Member ''undo_retrans'' c_int,
    Member ''bytes_retrans'' t_u64,
    Member ''total_retrans'' t_u32,
    Member ''rto_stamp'' t_u32,
    Member ''total_rto'' t_u16,
    Member ''total_rto_recoveries'' t_u16,
    Member ''total_rto_time'' t_u32,
    Member ''urg_seq'' t_u32,
    Member ''keepalive_time'' c_unsigned_int,
    Member ''keepalive_intvl'' c_unsigned_int,
    Member ''linger2'' c_int,
    Member ''bpf_sock_ops_cb_flags'' t_u8,
    BitField ''bpf_chg_cc_inprogress'' t_u8 1,
    Member ''timeout_rehash'' t_u16,
    Member ''rcv_ooopack'' t_u32,
    Member ''mtu_probe'' (Comp Struct False [
      Member ''probe_seq_start'' t_u32,
      Member ''probe_seq_end'' t_u32]),
    Member ''plb_rehash'' t_u32,
    Member ''mtu_info'' t_u32,
    Member ''fastopen_req'' (Ptr ''struct tcp_fastopen_request *''),
    Member ''fastopen_rsk'' (Ptr ''struct request_sock *''),
    Member ''saved_syn'' (Ptr ''struct saved_syn *'')] @ replicate 9 (BitField '''' c_long 64))"

definition struct_idr :: ctype where
  "struct_idr = Comp Struct False [
    Member ''idr_rt'' struct_xarray,
    Member ''idr_base'' c_unsigned_int,
    Member ''idr_next'' c_unsigned_int]"

definition struct_ns_common :: ctype where
  "struct_ns_common = Comp Struct False [
    Member ''stashed'' (Ptr ''struct dentry *''),
    Member ''ops'' (Ptr ''struct proc_ns_operations *''),
    Member ''inum'' c_unsigned_int,
    Member ''count'' t_refcount_t]"

definition struct_ctl_table_header :: ctype where
  "struct_ctl_table_header = Comp Struct False [
    Member '''' (Comp Union False [
      Member '''' (Comp Struct False [
        Member ''ctl_table'' (Ptr ''struct ctl_table *''),
        Member ''ctl_table_size'' c_int,
        Member ''used'' c_int,
        Member ''count'' c_int,
        Member ''nreg'' c_int]),
      Member ''rcu'' struct_callback_head]),
    Member ''unregistering'' (Ptr ''struct completion *''),
    Member ''ctl_table_arg'' (Ptr ''struct ctl_table *''),
    Member ''root'' (Ptr ''struct ctl_table_root *''),
    Member ''set'' (Ptr ''struct ctl_table_set *''),
    Member ''parent'' (Ptr ''struct ctl_dir *''),
    Member ''node'' (Ptr ''struct ctl_node *''),
    Member ''inodes'' struct_hlist_head,
    Member ''type'' (Enum False [
      (''SYSCTL_TABLE_TYPE_DEFAULT'', 0), (''SYSCTL_TABLE_TYPE_PERMANENTLY_EMPTY'', 1)])]"

definition struct_ctl_dir :: ctype where
  "struct_ctl_dir = Comp Struct False [
    Member ''header'' struct_ctl_table_header,
    Member ''root'' struct_rb_root]"

definition struct_ctl_table_set :: ctype where
  "struct_ctl_table_set = Comp Struct False [
    Member ''is_seen'' (Ptr ''int (*)(struct ctl_table_set *)''),
    Member ''dir'' struct_ctl_dir]"

definition struct_raw_notifier_head :: ctype where
  "struct_raw_notifier_head = Comp Struct False [
    Member ''head'' (Ptr ''struct notifier_block *'')]"

definition struct_netns_core :: ctype where
  "struct_netns_core = Comp Struct False [
    Member ''sysctl_hdr'' (Ptr ''struct ctl_table_header *''),
    Member ''sysctl_somaxconn'' c_int,
    Member ''sysctl_optmem_max'' c_int,
    Member ''sysctl_txrehash'' t_u8,
    Member ''sysctl_tstamp_allow_data'' t_u8,
    Member ''sysctl_wmem_max'' t_u32,
    Member ''sysctl_rmem_max'' t_u32,
    Member ''sysctl_wmem_default'' t_u32,
    Member ''sysctl_rmem_default'' t_u32,
    Member ''prot_inuse'' (Ptr ''struct prot_inuse *''),
    Member ''rps_default_mask'' (Ptr ''struct cpumask *'')]"

definition struct_netns_mib :: ctype where
  "struct_netns_mib = Comp Struct False [
    Member ''ip_statistics'' (Ptr ''struct ipstats_mib *''),
    Member ''ipv6_statistics'' (Ptr ''struct ipstats_mib *''),
    Member ''tcp_statistics'' (Ptr ''struct tcp_mib *''),
    Member ''net_statistics'' (Ptr ''struct linux_mib *''),
    Member ''udp_statistics'' (Ptr ''struct udp_mib *''),
    Member ''udp_stats_in6'' (Ptr ''struct udp_mib *''),
    Member ''xfrm_statistics'' (Ptr ''struct linux_xfrm_mib *''),
    Member ''tls_statistics'' (Ptr ''struct linux_tls_mib *''),
    Member ''udplite_statistics'' (Ptr ''struct udp_mib *''),
    Member ''udplite_stats_in6'' (Ptr ''struct udp_mib *''),
    Member ''icmp_statistics'' (Ptr ''struct icmp_mib *''),
    Member ''icmpmsg_statistics'' (Ptr ''struct icmpmsg_mib *''),
    Member ''icmpv6_statistics'' (Ptr ''struct icmpv6_mib *''),
    Member ''icmpv6msg_statistics'' (Ptr ''struct icmpv6msg_mib *''),
    Member ''proc_net_devsnmp6'' (Ptr ''struct proc_dir_entry *'')]"

definition struct_netns_packet :: ctype where
  "struct_netns_packet = Comp Struct False [
    Member ''sklist_lock'' struct_mutex,
    Member ''sklist'' struct_hlist_head]"

definition struct_unix_table :: ctype where
  "struct_unix_table = Comp Struct False [
    Member ''locks'' (Ptr ''spinlock_t *''),
    Member ''buckets'' (Ptr ''struct hlist_head *'')]"

definition struct_netns_unix :: ctype where
  "struct_netns_unix = Comp Struct False [
    Member ''table'' struct_unix_table,
    Member ''sysctl_max_dgram_qlen'' c_int,
    Member ''ctl'' (Ptr ''struct ctl_table_header *'')]"

definition struct_rw_semaphore :: ctype where
  "struct_rw_semaphore = Comp Struct False [
    Member ''count'' t_atomic_long_t,
    Member ''owner'' t_atomic_long_t,
    Member ''osq'' struct_optimistic_spin_queue,
    Member ''wait_lock'' t_raw_spinlock_t,
    Member ''wait_list'' struct_list_head]"

definition struct_blocking_notifier_head :: ctype where
  "struct_blocking_notifier_head = Comp Struct False [
    Member ''rwsem'' struct_rw_semaphore,
    Member ''head'' (Ptr ''struct notifier_block *'')]"

definition struct_netns_nexthop :: ctype where
  "struct_netns_nexthop = Comp Struct False [
    Member ''rb_root'' struct_rb_root,
    Member ''devhash'' (Ptr ''struct hlist_head *''),
    Member ''seq'' c_unsigned_int,
    Member ''last_id_allocated'' t_u32,
    Member ''notifier_chain'' struct_blocking_notifier_head]"

definition struct_inet_timewait_death_row :: ctype where
  "struct_inet_timewait_death_row = Comp Struct False ([
    Member ''tw_refcount'' t_refcount_t] @ replicate 15 (BitField '''' c_long 64) @ [
    Member ''hashinfo'' (Ptr ''struct inet_hashinfo *''),
    Member ''sysctl_max_tw_buckets'' c_int] @ replicate 14 (BitField '''' c_long 64))"

definition struct_udp_tunnel_gro :: ctype where
  "struct_udp_tunnel_gro = Comp Struct False [
    Member ''sk'' (Ptr ''struct sock *''),
    Member ''list'' struct_hlist_head]"

definition struct_local_ports :: ctype where
  "struct_local_ports = Comp Struct False [
    Member ''range'' t_u32,
    Member ''warned'' t_bool]"

definition struct_seqcount :: ctype where
  "struct_seqcount = Comp Struct False [
    Member ''sequence'' c_unsigned_int]"

definition t_seqcount_t :: ctype where
  "t_seqcount_t = struct_seqcount"

definition struct_seqcount_spinlock :: ctype where
  "struct_seqcount_spinlock = Comp Struct False [
    Member ''seqcount'' t_seqcount_t]"

definition t_seqcount_spinlock_t :: ctype where
  "t_seqcount_spinlock_t = struct_seqcount_spinlock"

definition t_seqlock_t :: ctype where
  "t_seqlock_t = Comp Struct False [
    Member ''seqcount'' t_seqcount_spinlock_t,
    Member ''lock'' t_spinlock_t]"

definition t___kernel_gid32_t :: ctype where
  "t___kernel_gid32_t = c_unsigned_int"

definition t_gid_t :: ctype where
  "t_gid_t = t___kernel_gid32_t"

definition t_kgid_t :: ctype where
  "t_kgid_t = Comp Struct False [
    Member ''val'' t_gid_t]"

definition struct_ping_group_range :: ctype where
  "struct_ping_group_range = Comp Struct False [
    Member ''lock'' t_seqlock_t,
    Member ''range'' (Array 2 t_kgid_t)]"

definition struct_sysctl_fib_multipath_hash_seed :: ctype where
  "struct_sysctl_fib_multipath_hash_seed = Comp Struct False [
    Member ''user_seed'' t_u32,
    Member ''mp_seed'' t_u32]"

definition t_siphash_key_t :: ctype where
  "t_siphash_key_t = Comp Struct False [
    Member ''key'' (Array 2 t_u64)]"

definition struct_netns_ipv4 :: ctype where
  "struct_netns_ipv4 = Comp Struct False ([
    Member ''__cacheline_group_begin__netns_ipv4_read_tx'' (Array 0 t___u8),
    Member ''sysctl_tcp_early_retrans'' t_u8,
    Member ''sysctl_tcp_tso_win_divisor'' t_u8,
    Member ''sysctl_tcp_tso_rtt_log'' t_u8,
    Member ''sysctl_tcp_autocorking'' t_u8,
    Member ''sysctl_tcp_min_snd_mss'' c_int,
    Member ''sysctl_tcp_notsent_lowat'' c_unsigned_int,
    Member ''sysctl_tcp_limit_output_bytes'' c_int,
    Member ''sysctl_tcp_min_rtt_wlen'' c_int,
    Member ''sysctl_tcp_wmem'' (Array 3 c_int),
    Member ''sysctl_ip_fwd_use_pmtu'' t_u8,
    Member ''__cacheline_group_end__netns_ipv4_read_tx'' (Array 0 t___u8),
    Member ''__cacheline_group_begin__netns_ipv4_read_txrx'' (Array 0 t___u8),
    Member ''sysctl_tcp_moderate_rcvbuf'' t_u8,
    Member ''__cacheline_group_end__netns_ipv4_read_txrx'' (Array 0 t___u8),
    Member ''__cacheline_group_begin__netns_ipv4_read_rx'' (Array 0 t___u8),
    Member ''sysctl_ip_early_demux'' t_u8,
    Member ''sysctl_tcp_early_demux'' t_u8,
    Member ''sysctl_tcp_l3mdev_accept'' t_u8,
    Member ''sysctl_tcp_reordering'' c_int,
    Member ''sysctl_tcp_rmem'' (Array 3 c_int),
    Member ''__cacheline_group_end__netns_ipv4_read_rx'' (Array 0 t___u8)] @ replicate 9 (BitField '''' c_long 64) @ [
    Member ''tcp_death_row'' struct_inet_timewait_death_row,
    Member ''udp_table'' (Ptr ''struct udp_table *''),
    Member ''udp_tunnel_gro'' (Array 2 struct_udp_tunnel_gro),
    Member ''forw_hdr'' (Ptr ''struct ctl_table_header *''),
    Member ''frags_hdr'' (Ptr ''struct ctl_table_header *''),
    Member ''ipv4_hdr'' (Ptr ''struct ctl_table_header *''),
    Member ''route_hdr'' (Ptr ''struct ctl_table_header *''),
    Member ''xfrm4_hdr'' (Ptr ''struct ctl_table_header *''),
    Member ''devconf_all'' (Ptr ''struct ipv4_devconf *''),
    Member ''devconf_dflt'' (Ptr ''struct ipv4_devconf *''),
    Member ''ra_chain'' (Ptr ''struct ip_ra_chain *''),
    Member ''ra_mutex'' struct_mutex,
    Member ''rules_ops'' (Ptr ''struct fib_rules_ops *''),
    Member ''fib_main'' (Ptr ''struct fib_table *''),
    Member ''fib_default'' (Ptr ''struct fib_table *''),
    Member ''fib_rules_require_fldissect'' c_unsigned_int,
    Member ''fib_has_custom_rules'' t_bool,
    Member ''fib_has_custom_local_routes'' t_bool,
    Member ''fib_offload_disabled'' t_bool,
    Member ''sysctl_tcp_shrink_window'' t_u8,
    Member ''fib_num_tclassid_users'' t_atomic_t,
    Member ''fib_table_hash'' (Ptr ''struct hlist_head *''),
    Member ''fibnl'' (Ptr ''struct sock *''),
    Member ''fib_info_hash'' (Ptr ''struct hlist_head *''),
    Member ''fib_info_hash_bits'' c_unsigned_int,
    Member ''fib_info_cnt'' c_unsigned_int,
    Member ''mc_autojoin_sk'' (Ptr ''struct sock *''),
    Member ''peers'' (Ptr ''struct inet_peer_base *''),
    Member ''fqdir'' (Ptr ''struct fqdir *''),
    Member ''sysctl_icmp_echo_ignore_all'' t_u8,
    Member ''sysctl_icmp_echo_enable_probe'' t_u8,
    Member ''sysctl_icmp_echo_ignore_broadcasts'' t_u8,
    Member ''sysctl_icmp_ignore_bogus_error_responses'' t_u8,
    Member ''sysctl_icmp_errors_use_inbound_ifaddr'' t_u8,
    Member ''sysctl_icmp_ratelimit'' c_int,
    Member ''sysctl_icmp_ratemask'' c_int,
    Member ''sysctl_icmp_msgs_per_sec'' c_int,
    Member ''sysctl_icmp_msgs_burst'' c_int,
    Member ''icmp_global_credit'' t_atomic_t,
    Member ''icmp_global_stamp'' t_u32,
    Member ''ip_rt_min_pmtu'' t_u32,
    Member ''ip_rt_mtu_expires'' c_int,
    Member ''ip_rt_min_advmss'' c_int,
    Member ''ip_local_ports'' struct_local_ports,
    Member ''sysctl_tcp_ecn'' t_u8,
    Member ''sysctl_tcp_ecn_fallback'' t_u8,
    Member ''sysctl_ip_default_ttl'' t_u8,
    Member ''sysctl_ip_no_pmtu_disc'' t_u8,
    Member ''sysctl_ip_fwd_update_priority'' t_u8,
    Member ''sysctl_ip_nonlocal_bind'' t_u8,
    Member ''sysctl_ip_autobind_reuse'' t_u8,
    Member ''sysctl_ip_dynaddr'' t_u8,
    Member ''sysctl_raw_l3mdev_accept'' t_u8,
    Member ''sysctl_udp_early_demux'' t_u8,
    Member ''sysctl_nexthop_compat_mode'' t_u8,
    Member ''sysctl_fwmark_reflect'' t_u8,
    Member ''sysctl_tcp_fwmark_accept'' t_u8,
    Member ''sysctl_tcp_mtu_probing'' t_u8,
    Member ''sysctl_tcp_mtu_probe_floor'' c_int,
    Member ''sysctl_tcp_base_mss'' c_int,
    Member ''sysctl_tcp_probe_threshold'' c_int,
    Member ''sysctl_tcp_probe_interval'' t_u32,
    Member ''sysctl_tcp_keepalive_time'' c_int,
    Member ''sysctl_tcp_keepalive_intvl'' c_int,
    Member ''sysctl_tcp_keepalive_probes'' t_u8,
    Member ''sysctl_tcp_syn_retries'' t_u8,
    Member ''sysctl_tcp_synack_retries'' t_u8,
    Member ''sysctl_tcp_syncookies'' t_u8,
    Member ''sysctl_tcp_migrate_req'' t_u8,
    Member ''sysctl_tcp_comp_sack_nr'' t_u8,
    Member ''sysctl_tcp_backlog_ack_defer'' t_u8,
    Member ''sysctl_tcp_pingpong_thresh'' t_u8,
    Member ''sysctl_tcp_retries1'' t_u8,
    Member ''sysctl_tcp_retries2'' t_u8,
    Member ''sysctl_tcp_orphan_retries'' t_u8,
    Member ''sysctl_tcp_tw_reuse'' t_u8,
    Member ''sysctl_tcp_tw_reuse_delay'' c_unsigned_int,
    Member ''sysctl_tcp_fin_timeout'' c_int,
    Member ''sysctl_tcp_sack'' t_u8,
    Member ''sysctl_tcp_window_scaling'' t_u8,
    Member ''sysctl_tcp_timestamps'' t_u8,
    Member ''sysctl_tcp_rto_min_us'' c_int,
    Member ''sysctl_tcp_rto_max_ms'' c_int,
    Member ''sysctl_tcp_recovery'' t_u8,
    Member ''sysctl_tcp_thin_linear_timeouts'' t_u8,
    Member ''sysctl_tcp_slow_start_after_idle'' t_u8,
    Member ''sysctl_tcp_retrans_collapse'' t_u8,
    Member ''sysctl_tcp_stdurg'' t_u8,
    Member ''sysctl_tcp_rfc1337'' t_u8,
    Member ''sysctl_tcp_abort_on_overflow'' t_u8,
    Member ''sysctl_tcp_fack'' t_u8,
    Member ''sysctl_tcp_max_reordering'' c_int,
    Member ''sysctl_tcp_adv_win_scale'' c_int,
    Member ''sysctl_tcp_dsack'' t_u8,
    Member ''sysctl_tcp_app_win'' t_u8,
    Member ''sysctl_tcp_frto'' t_u8,
    Member ''sysctl_tcp_nometrics_save'' t_u8,
    Member ''sysctl_tcp_no_ssthresh_metrics_save'' t_u8,
    Member ''sysctl_tcp_workaround_signed_windows'' t_u8,
    Member ''sysctl_tcp_challenge_ack_limit'' c_int,
    Member ''sysctl_tcp_min_tso_segs'' t_u8,
    Member ''sysctl_tcp_reflect_tos'' t_u8,
    Member ''sysctl_tcp_invalid_ratelimit'' c_int,
    Member ''sysctl_tcp_pacing_ss_ratio'' c_int,
    Member ''sysctl_tcp_pacing_ca_ratio'' c_int,
    Member ''sysctl_tcp_child_ehash_entries'' c_unsigned_int,
    Member ''sysctl_tcp_comp_sack_delay_ns'' c_unsigned_long,
    Member ''sysctl_tcp_comp_sack_slack_ns'' c_unsigned_long,
    Member ''sysctl_max_syn_backlog'' c_int,
    Member ''sysctl_tcp_fastopen'' c_int,
    Member ''tcp_congestion_control'' (Ptr ''struct tcp_congestion_ops *''),
    Member ''tcp_fastopen_ctx'' (Ptr ''struct tcp_fastopen_context *''),
    Member ''sysctl_tcp_fastopen_blackhole_timeout'' c_unsigned_int,
    Member ''tfo_active_disable_times'' t_atomic_t,
    Member ''tfo_active_disable_stamp'' c_unsigned_long,
    Member ''tcp_challenge_timestamp'' t_u32,
    Member ''tcp_challenge_count'' t_u32,
    Member ''sysctl_tcp_plb_enabled'' t_u8,
    Member ''sysctl_tcp_plb_idle_rehash_rounds'' t_u8,
    Member ''sysctl_tcp_plb_rehash_rounds'' t_u8,
    Member ''sysctl_tcp_plb_suspend_rto_sec'' t_u8,
    Member ''sysctl_tcp_plb_cong_thresh'' c_int,
    Member ''sysctl_udp_wmem_min'' c_int,
    Member ''sysctl_udp_rmem_min'' c_int,
    Member ''sysctl_fib_notify_on_flag_change'' t_u8,
    Member ''sysctl_tcp_syn_linear_timeouts'' t_u8,
    Member ''sysctl_udp_l3mdev_accept'' t_u8,
    Member ''sysctl_igmp_llm_reports'' t_u8,
    Member ''sysctl_igmp_max_memberships'' c_int,
    Member ''sysctl_igmp_max_msf'' c_int,
    Member ''sysctl_igmp_qrv'' c_int,
    Member ''ping_group_range'' struct_ping_group_range,
    Member ''dev_addr_genid'' t_atomic_t,
    Member ''sysctl_udp_child_hash_entries'' c_unsigned_int,
    Member ''sysctl_local_reserved_ports'' (Ptr ''unsigned long *''),
    Member ''sysctl_ip_prot_sock'' c_int,
    Member ''sysctl_fib_multipath_hash_seed'' struct_sysctl_fib_multipath_hash_seed,
    Member ''sysctl_fib_multipath_hash_fields'' t_u32,
    Member ''sysctl_fib_multipath_use_neigh'' t_u8,
    Member ''sysctl_fib_multipath_hash_policy'' t_u8,
    Member ''notifier_ops'' (Ptr ''struct fib_notifier_ops *''),
    Member ''fib_seq'' c_unsigned_int,
    Member ''ipmr_notifier_ops'' (Ptr ''struct fib_notifier_ops *''),
    Member ''ipmr_seq'' c_unsigned_int,
    Member ''rt_genid'' t_atomic_t,
    Member ''ip_id_key'' t_siphash_key_t,
    Member ''inet_addr_lst'' (Ptr ''struct hlist_head *''),
    Member ''addr_chk_work'' struct_delayed_work] @ replicate 8 (BitField '''' c_long 64))"

definition struct_percpu_counter :: ctype where
  "struct_percpu_counter = Comp Struct False [
    Member ''lock'' t_raw_spinlock_t,
    Member ''count'' t_s64,
    Member ''counters'' (Ptr ''s32 *'')]"

definition struct_dst_ops :: ctype where
  "struct_dst_ops = Comp Struct False ([
    Member ''family'' c_unsigned_short,
    Member ''gc_thresh'' c_unsigned_int,
    Member ''gc'' (Ptr ''void (*)(struct dst_ops *)''),
    Member ''check'' (Ptr ''struct dst_entry * (*)(struct dst_entry *, __u32)''),
    Member ''default_advmss'' (Ptr ''unsigned int (*)(const struct dst_entry *)''),
    Member ''mtu'' (Ptr ''unsigned int (*)(const struct dst_entry *)''),
    Member ''cow_metrics'' (Ptr ''u32 * (*)(struct dst_entry *, unsigned long)''),
    Member ''destroy'' (Ptr ''void (*)(struct dst_entry *)''),
    Member ''ifdown'' (Ptr ''void (*)(struct dst_entry *, struct net_device *)''),
    Member ''negative_advice'' (Ptr ''void (*)(struct sock *, struct dst_entry *)''),
    Member ''link_failure'' (Ptr ''void (*)(struct sk_buff *)''),
    Member ''update_pmtu'' (Ptr ''void (*)(struct dst_entry *, struct sock *, struct sk_buff *, u32, bool)''),
    Member ''redirect'' (Ptr ''void (*)(struct dst_entry *, struct sock *, struct sk_buff *)''),
    Member ''local_out'' (Ptr ''int (*)(struct net *, struct sock *, struct sk_buff *)''),
    Member ''neigh_lookup'' (Ptr ''struct neighbour * (*)(const struct dst_entry *, struct sk_buff *, const void *)''),
    Member ''confirm_neigh'' (Ptr ''void (*)(const struct dst_entry *, const void *)''),
    Member ''kmem_cachep'' (Ptr ''struct kmem_cache *''),
    Member ''pcpuc_entries'' struct_percpu_counter] @ replicate 13 (BitField '''' c_long 64))"

definition struct_netns_sysctl_ipv6 :: ctype where
  "struct_netns_sysctl_ipv6 = Comp Struct False [
    Member ''hdr'' (Ptr ''struct ctl_table_header *''),
    Member ''route_hdr'' (Ptr ''struct ctl_table_header *''),
    Member ''icmp_hdr'' (Ptr ''struct ctl_table_header *''),
    Member ''frags_hdr'' (Ptr ''struct ctl_table_header *''),
    Member ''xfrm6_hdr'' (Ptr ''struct ctl_table_header *''),
    Member ''flush_delay'' c_int,
    Member ''ip6_rt_max_size'' c_int,
    Member ''ip6_rt_gc_min_interval'' c_int,
    Member ''ip6_rt_gc_timeout'' c_int,
    Member ''ip6_rt_gc_interval'' c_int,
    Member ''ip6_rt_gc_elasticity'' c_int,
    Member ''ip6_rt_mtu_expires'' c_int,
    Member ''ip6_rt_min_advmss'' c_int,
    Member ''multipath_hash_fields'' t_u32,
    Member ''multipath_hash_policy'' t_u8,
    Member ''bindv6only'' t_u8,
    Member ''flowlabel_consistency'' t_u8,
    Member ''auto_flowlabels'' t_u8,
    Member ''icmpv6_time'' c_int,
    Member ''icmpv6_echo_ignore_all'' t_u8,
    Member ''icmpv6_echo_ignore_multicast'' t_u8,
    Member ''icmpv6_echo_ignore_anycast'' t_u8,
    Member ''icmpv6_ratemask'' (Array 4 c_unsigned_long),
    Member ''icmpv6_ratemask_ptr'' (Ptr ''unsigned long *''),
    Member ''anycast_src_echo_reply'' t_u8,
    Member ''ip_nonlocal_bind'' t_u8,
    Member ''fwmark_reflect'' t_u8,
    Member ''flowlabel_state_ranges'' t_u8,
    Member ''idgen_retries'' c_int,
    Member ''idgen_delay'' c_int,
    Member ''flowlabel_reflect'' c_int,
    Member ''max_dst_opts_cnt'' c_int,
    Member ''max_hbh_opts_cnt'' c_int,
    Member ''max_dst_opts_len'' c_int,
    Member ''max_hbh_opts_len'' c_int,
    Member ''seg6_flowlabel'' c_int,
    Member ''ioam6_id'' t_u32,
    Member ''ioam6_id_wide'' t_u64,
    Member ''skip_notify_on_dev_down'' t_u8,
    Member ''fib_notify_on_flag_change'' t_u8,
    Member ''icmpv6_error_anycast_as_unicast'' t_u8]"

definition struct_netns_ipv6 :: ctype where
  "struct_netns_ipv6 = Comp Struct False [
    Member ''ip6_dst_ops'' struct_dst_ops,
    Member ''sysctl'' struct_netns_sysctl_ipv6,
    Member ''devconf_all'' (Ptr ''struct ipv6_devconf *''),
    Member ''devconf_dflt'' (Ptr ''struct ipv6_devconf *''),
    Member ''peers'' (Ptr ''struct inet_peer_base *''),
    Member ''fqdir'' (Ptr ''struct fqdir *''),
    Member ''fib6_null_entry'' (Ptr ''struct fib6_info *''),
    Member ''ip6_null_entry'' (Ptr ''struct rt6_info *''),
    Member ''rt6_stats'' (Ptr ''struct rt6_statistics *''),
    Member ''ip6_fib_timer'' struct_timer_list,
    Member ''fib_table_hash'' (Ptr ''struct hlist_head *''),
    Member ''fib_table_hash_lock'' t_spinlock_t,
    Member ''fib6_main_tbl'' (Ptr ''struct fib6_table *''),
    Member ''fib6_walkers'' struct_list_head,
    Member ''fib6_walker_lock'' t_rwlock_t,
    Member ''fib6_gc_lock'' t_spinlock_t,
    Member ''ip6_rt_gc_expire'' t_atomic_t,
    Member ''ip6_rt_last_gc'' c_unsigned_long,
    Member ''flowlabel_has_excl'' c_unsigned_char,
    Member ''fib6_has_custom_rules'' t_bool,
    Member ''fib6_rules_require_fldissect'' c_unsigned_int,
    Member ''ip6_prohibit_entry'' (Ptr ''struct rt6_info *''),
    Member ''ip6_blk_hole_entry'' (Ptr ''struct rt6_info *''),
    Member ''fib6_local_tbl'' (Ptr ''struct fib6_table *''),
    Member ''fib6_rules_ops'' (Ptr ''struct fib_rules_ops *''),
    Member ''ndisc_sk'' (Ptr ''struct sock *''),
    Member ''tcp_sk'' (Ptr ''struct sock *''),
    Member ''igmp_sk'' (Ptr ''struct sock *''),
    Member ''mc_autojoin_sk'' (Ptr ''struct sock *''),
    Member ''inet6_addr_lst'' (Ptr ''struct hlist_head *''),
    Member ''addrconf_hash_lock'' t_spinlock_t,
    Member ''addr_chk_work'' struct_delayed_work,
    Member ''dev_addr_genid'' t_atomic_t,
    Member ''fib6_sernum'' t_atomic_t,
    Member ''seg6_data'' (Ptr ''struct seg6_pernet_data *''),
    Member ''notifier_ops'' (Ptr ''struct fib_notifier_ops *''),
    Member ''ip6mr_notifier_ops'' (Ptr ''struct fib_notifier_ops *''),
    Member ''ipmr_seq'' c_unsigned_int,
    Member ''ip6addrlbl_table'' (Comp Struct False [
      Member ''head'' struct_hlist_head,
      Member ''lock'' t_spinlock_t,
      Member ''seq'' t_u32]),
    Member ''ioam6_data'' (Ptr ''struct ioam6_pernet_data *''),
    BitField '''' c_long 64,
    BitField '''' c_long 64,
    BitField '''' c_long 64,
    BitField '''' c_long 64,
    BitField '''' c_long 64,
    BitField '''' c_long 64,
    BitField '''' c_long 64]"

definition struct_netns_sctp :: ctype where
  "struct_netns_sctp = Comp Struct False [
    Member ''sctp_statistics'' (Ptr ''struct sctp_mib *''),
    Member ''proc_net_sctp'' (Ptr ''struct proc_dir_entry *''),
    Member ''sysctl_header'' (Ptr ''struct ctl_table_header *''),
    Member ''ctl_sock'' (Ptr ''struct sock *''),
    Member ''udp4_sock'' (Ptr ''struct sock *''),
    Member ''udp6_sock'' (Ptr ''struct sock *''),
    Member ''udp_port'' c_int,
    Member ''encap_port'' c_int,
    Member ''local_addr_list'' struct_list_head,
    Member ''addr_waitq'' struct_list_head,
    Member ''addr_wq_timer'' struct_timer_list,
    Member ''auto_asconf_splist'' struct_list_head,
    Member ''addr_wq_lock'' t_spinlock_t,
    Member ''local_addr_lock'' t_spinlock_t,
    Member ''rto_initial'' c_unsigned_int,
    Member ''rto_min'' c_unsigned_int,
    Member ''rto_max'' c_unsigned_int,
    Member ''rto_alpha'' c_int,
    Member ''rto_beta'' c_int,
    Member ''max_burst'' c_int,
    Member ''cookie_preserve_enable'' c_int,
    Member ''sctp_hmac_alg'' (Ptr ''char *''),
    Member ''valid_cookie_life'' c_unsigned_int,
    Member ''sack_timeout'' c_unsigned_int,
    Member ''hb_interval'' c_unsigned_int,
    Member ''probe_interval'' c_unsigned_int,
    Member ''max_retrans_association'' c_int,
    Member ''max_retrans_path'' c_int,
    Member ''max_retrans_init'' c_int,
    Member ''pf_retrans'' c_int,
    Member ''ps_retrans'' c_int,
    Member ''pf_enable'' c_int,
    Member ''pf_expose'' c_int,
    Member ''sndbuf_policy'' c_int,
    Member ''rcvbuf_policy'' c_int,
    Member ''default_auto_asconf'' c_int,
    Member ''addip_enable'' c_int,
    Member ''addip_noauth'' c_int,
    Member ''prsctp_enable'' c_int,
    Member ''reconf_enable'' c_int,
    Member ''auth_enable'' c_int,
    Member ''intl_enable'' c_int,
    Member ''ecn_enable'' c_int,
    Member ''scope_policy'' c_int,
    Member ''rwnd_upd_shift'' c_int,
    Member ''max_autoclose'' c_unsigned_long,
    Member ''l3mdev_accept'' c_int]"

definition struct_netns_nf :: ctype where
  "struct_netns_nf = Comp Struct False [
    Member ''proc_netfilter'' (Ptr ''struct proc_dir_entry *''),
    Member ''nf_loggers'' (Array 11 (Ptr ''struct nf_logger *'')),
    Member ''nf_log_dir_header'' (Ptr ''struct ctl_table_header *''),
    Member ''nf_lwtnl_dir_header'' (Ptr ''struct ctl_table_header *''),
    Member ''hooks_ipv4'' (Array 5 (Ptr ''struct nf_hook_entries *'')),
    Member ''hooks_ipv6'' (Array 5 (Ptr ''struct nf_hook_entries *'')),
    Member ''hooks_arp'' (Array 3 (Ptr ''struct nf_hook_entries *'')),
    Member ''hooks_bridge'' (Array 5 (Ptr ''struct nf_hook_entries *'')),
    Member ''defrag_ipv4_users'' c_unsigned_int,
    Member ''defrag_ipv6_users'' c_unsigned_int]"

definition struct_nf_generic_net :: ctype where
  "struct_nf_generic_net = Comp Struct False [
    Member ''timeout'' c_unsigned_int]"

definition struct_nf_tcp_net :: ctype where
  "struct_nf_tcp_net = Comp Struct False [
    Member ''timeouts'' (Array 14 c_unsigned_int),
    Member ''tcp_loose'' t_u8,
    Member ''tcp_be_liberal'' t_u8,
    Member ''tcp_max_retrans'' t_u8,
    Member ''tcp_ignore_invalid_rst'' t_u8,
    Member ''offload_timeout'' c_unsigned_int]"

definition struct_nf_udp_net :: ctype where
  "struct_nf_udp_net = Comp Struct False [
    Member ''timeouts'' (Array 2 c_unsigned_int),
    Member ''offload_timeout'' c_unsigned_int]"

definition struct_nf_icmp_net :: ctype where
  "struct_nf_icmp_net = Comp Struct False [
    Member ''timeout'' c_unsigned_int]"

definition struct_nf_sctp_net :: ctype where
  "struct_nf_sctp_net = Comp Struct False [
    Member ''timeouts'' (Array 10 c_unsigned_int)]"

definition struct_nf_gre_net :: ctype where
  "struct_nf_gre_net = Comp Struct False [
    Member ''keymap_list'' struct_list_head,
    Member ''timeouts'' (Array 2 c_unsigned_int)]"

definition struct_nf_ip_net :: ctype where
  "struct_nf_ip_net = Comp Struct False [
    Member ''generic'' struct_nf_generic_net,
    Member ''tcp'' struct_nf_tcp_net,
    Member ''udp'' struct_nf_udp_net,
    Member ''icmp'' struct_nf_icmp_net,
    Member ''icmpv6'' struct_nf_icmp_net,
    Member ''sctp'' struct_nf_sctp_net,
    Member ''gre'' struct_nf_gre_net]"

definition struct_netns_ct :: ctype where
  "struct_netns_ct = Comp Struct False [
    Member ''ecache_dwork_pending'' t_bool,
    Member ''sysctl_log_invalid'' t_u8,
    Member ''sysctl_events'' t_u8,
    Member ''sysctl_acct'' t_u8,
    Member ''sysctl_tstamp'' t_u8,
    Member ''sysctl_checksum'' t_u8,
    Member ''stat'' (Ptr ''struct ip_conntrack_stat *''),
    Member ''nf_conntrack_event_cb'' (Ptr ''struct nf_ct_event_notifier *''),
    Member ''nf_ct_proto'' struct_nf_ip_net,
    Member ''labels_used'' t_atomic_t]"

definition struct_netns_nftables :: ctype where
  "struct_netns_nftables = Comp Struct False [
    Member ''base_seq'' c_unsigned_int,
    Member ''gencursor'' t_u8]"

definition struct_netns_ft :: ctype where
  "struct_netns_ft = Comp Struct False [
    Member ''stat'' (Ptr ''struct nf_flow_table_stat *'')]"

definition struct_netns_bpf :: ctype where
  "struct_netns_bpf = Comp Struct False [
    Member ''run_array'' (Array 2 (Ptr ''struct bpf_prog_array *'')),
    Member ''progs'' (Array 2 (Ptr ''struct bpf_prog *'')),
    Member ''links'' (Array 2 struct_list_head)]"

definition struct_xfrm_policy_hash :: ctype where
  "struct_xfrm_policy_hash = Comp Struct False [
    Member ''table'' (Ptr ''struct hlist_head *''),
    Member ''hmask'' c_unsigned_int,
    Member ''dbits4'' t_u8,
    Member ''sbits4'' t_u8,
    Member ''dbits6'' t_u8,
    Member ''sbits6'' t_u8]"

definition struct_xfrm_policy_hthresh :: ctype where
  "struct_xfrm_policy_hthresh = Comp Struct False [
    Member ''work'' struct_work_struct,
    Member ''lock'' t_seqlock_t,
    Member ''lbits4'' t_u8,
    Member ''rbits4'' t_u8,
    Member ''lbits6'' t_u8,
    Member ''rbits6'' t_u8]"

definition struct_netns_xfrm :: ctype where
  "struct_netns_xfrm = Comp Struct False ([
    Member ''state_all'' struct_list_head,
    Member ''state_bydst'' (Ptr ''struct hlist_head *''),
    Member ''state_bysrc'' (Ptr ''struct hlist_head *''),
    Member ''state_byspi'' (Ptr ''struct hlist_head *''),
    Member ''state_byseq'' (Ptr ''struct hlist_head *''),
    Member ''state_cache_input'' (Ptr ''struct hlist_head *''),
    Member ''state_hmask'' c_unsigned_int,
    Member ''state_num'' c_unsigned_int,
    Member ''state_hash_work'' struct_work_struct,
    Member ''policy_all'' struct_list_head,
    Member ''policy_byidx'' (Ptr ''struct hlist_head *''),
    Member ''policy_idx_hmask'' c_unsigned_int,
    Member ''idx_generator'' c_unsigned_int,
    Member ''policy_bydst'' (Array 3 struct_xfrm_policy_hash),
    Member ''policy_count'' (Array 6 c_unsigned_int),
    Member ''policy_hash_work'' struct_work_struct,
    Member ''policy_hthresh'' struct_xfrm_policy_hthresh,
    Member ''inexact_bins'' struct_list_head,
    Member ''nlsk'' (Ptr ''struct sock *''),
    Member ''nlsk_stash'' (Ptr ''struct sock *''),
    Member ''sysctl_aevent_etime'' t_u32,
    Member ''sysctl_aevent_rseqth'' t_u32,
    Member ''sysctl_larval_drop'' c_int,
    Member ''sysctl_acq_expires'' t_u32,
    Member ''policy_default'' (Array 3 t_u8),
    Member ''sysctl_hdr'' (Ptr ''struct ctl_table_header *''),
    BitField '''' c_long 64,
    BitField '''' c_long 64,
    BitField '''' c_long 64,
    BitField '''' c_long 64,
    BitField '''' c_long 64,
    Member ''xfrm4_dst_ops'' struct_dst_ops,
    Member ''xfrm6_dst_ops'' struct_dst_ops,
    Member ''xfrm_state_lock'' t_spinlock_t,
    Member ''xfrm_state_hash_generation'' t_seqcount_spinlock_t,
    Member ''xfrm_policy_hash_generation'' t_seqcount_spinlock_t,
    Member ''xfrm_policy_lock'' t_spinlock_t,
    Member ''xfrm_cfg_mutex'' struct_mutex,
    Member ''nat_keepalive_work'' struct_delayed_work] @ replicate 15 (BitField '''' c_long 64))"

definition t___kernel_ulong_t :: ctype where
  "t___kernel_ulong_t = c_unsigned_long"

definition t___kernel_size_t :: ctype where
  "t___kernel_size_t = t___kernel_ulong_t"

definition t_size_t :: ctype where
  "t_size_t = t___kernel_size_t"

definition struct_netns_mpls :: ctype where
  "struct_netns_mpls = Comp Struct False [
    Member ''ip_ttl_propagate'' c_int,
    Member ''default_ttl'' c_int,
    Member ''platform_labels'' t_size_t,
    Member ''platform_label'' (Ptr ''struct mpls_route **''),
    Member ''ctl'' (Ptr ''struct ctl_table_header *'')]"

definition struct_netns_can :: ctype where
  "struct_netns_can = Comp Struct False [
    Member ''proc_dir'' (Ptr ''struct proc_dir_entry *''),
    Member ''pde_stats'' (Ptr ''struct proc_dir_entry *''),
    Member ''pde_reset_stats'' (Ptr ''struct proc_dir_entry *''),
    Member ''pde_rcvlist_all'' (Ptr ''struct proc_dir_entry *''),
    Member ''pde_rcvlist_fil'' (Ptr ''struct proc_dir_entry *''),
    Member ''pde_rcvlist_inv'' (Ptr ''struct proc_dir_entry *''),
    Member ''pde_rcvlist_sff'' (Ptr ''struct proc_dir_entry *''),
    Member ''pde_rcvlist_eff'' (Ptr ''struct proc_dir_entry *''),
    Member ''pde_rcvlist_err'' (Ptr ''struct proc_dir_entry *''),
    Member ''bcmproc_dir'' (Ptr ''struct proc_dir_entry *''),
    Member ''rx_alldev_list'' (Ptr ''struct can_dev_rcv_lists *''),
    Member ''rcvlists_lock'' t_spinlock_t,
    Member ''stattimer'' struct_timer_list,
    Member ''pkg_stats'' (Ptr ''struct can_pkg_stats *''),
    Member ''rcv_lists_stats'' (Ptr ''struct can_rcv_lists_stats *''),
    Member ''cgw_list'' struct_hlist_head]"

definition struct_netns_xdp :: ctype where
  "struct_netns_xdp = Comp Struct False [
    Member ''lock'' struct_mutex,
    Member ''list'' struct_hlist_head]"

definition struct_net :: ctype where
  "struct_net = Comp Struct False [
    Member ''passive'' t_refcount_t,
    Member ''rules_mod_lock'' t_spinlock_t,
    Member ''dev_base_seq'' c_unsigned_int,
    Member ''ifindex'' t_u32,
    Member ''nsid_lock'' t_spinlock_t,
    Member ''fnhe_genid'' t_atomic_t,
    Member ''list'' struct_list_head,
    Member ''exit_list'' struct_list_head,
    Member ''defer_free_list'' struct_llist_node,
    Member ''cleanup_list'' struct_llist_node,
    Member ''ptype_all'' struct_list_head,
    Member ''ptype_specific'' struct_list_head,
    Member ''key_domain'' (Ptr ''struct key_tag *''),
    Member ''user_ns'' (Ptr ''struct user_namespace *''),
    Member ''ucounts'' (Ptr ''struct ucounts *''),
    Member ''netns_ids'' struct_idr,
    Member ''ns'' struct_ns_common,
    Member ''refcnt_tracker'' struct_ref_tracker_dir,
    Member ''notrefcnt_tracker'' struct_ref_tracker_dir,
    Member ''dev_base_head'' struct_list_head,
    Member ''proc_net'' (Ptr ''struct proc_dir_entry *''),
    Member ''proc_net_stat'' (Ptr ''struct proc_dir_entry *''),
    Member ''sysctls'' struct_ctl_table_set,
    Member ''rtnl'' (Ptr ''struct sock *''),
    Member ''genl_sock'' (Ptr ''struct sock *''),
    Member ''uevent_sock'' (Ptr ''struct uevent_sock *''),
    Member ''dev_name_head'' (Ptr ''struct hlist_head *''),
    Member ''dev_index_head'' (Ptr ''struct hlist_head *''),
    Member ''dev_by_index'' struct_xarray,
    Member ''netdev_chain'' struct_raw_notifier_head,
    Member ''hash_mix'' t_u32,
    Member ''loopback_dev'' (Ptr ''struct net_device *''),
    Member ''rules_ops'' struct_list_head,
    Member ''core'' struct_netns_core,
    Member ''mib'' struct_netns_mib,
    Member ''packet'' struct_netns_packet,
    Member ''unx'' struct_netns_unix,
    Member ''nexthop'' struct_netns_nexthop,
    BitField '''' c_long 64,
    BitField '''' c_long 64,
    BitField '''' c_long 64,
    BitField '''' c_long 64,
    BitField '''' c_long 64,
    Member ''ipv4'' struct_netns_ipv4,
    Member ''ipv6'' struct_netns_ipv6,
    Member ''sctp'' struct_netns_sctp,
    Member ''nf'' struct_netns_nf,
    Member ''ct'' struct_netns_ct,
    Member ''nft'' struct_netns_nftables,
    Member ''ft'' struct_netns_ft,
    Member ''gen'' (Ptr ''struct net_generic *''),
    Member ''bpf'' struct_netns_bpf,
    BitField '''' c_long 64,
    BitField '''' c_long 64,
    BitField '''' c_long 64,
    BitField '''' c_long 64,
    BitField '''' c_long 64,
    BitField '''' c_long 64,
    BitField '''' c_long 64,
    Member ''xfrm'' struct_netns_xfrm,
    Member ''net_cookie'' t_u64,
    Member ''ipvs'' (Ptr ''struct netns_ipvs *''),
    Member ''mpls'' struct_netns_mpls,
    Member ''can'' struct_netns_can,
    Member ''xdp'' struct_netns_xdp,
    Member ''diag_nlsk'' (Ptr ''struct sock *'')]"

end
