(* ===== verification/Kill.thy ===== *)
theory Kill
  imports Bpf
begin

text \<open>
  The tracepoint program of \<^verbatim>\<open>examples/trace-kills/bytecode/kill.c\<close>, and the LLVM code
  checked in for it (\<^verbatim>\<open>kill.ll\<close>), which reads its context by offset.
\<close>

section \<open>The context of the tracepoint\<close>

record syscalls_enter_kill_args =
  pad :: u64
  syscall_nr :: u64
  pid :: u64
  sig :: u64

definition encode_kill_args :: "syscalls_enter_kill_args \<Rightarrow> bytes" where
  "encode_kill_args c = le_bytes 8 (pad c) @ le_bytes 8 (syscall_nr c) @ le_bytes 8 (pid c) @ le_bytes 8 (sig c)"

lemma length_encode_kill_args: "length (encode_kill_args c) = 32"
  by (simp add: encode_kill_args_def)

section \<open>The program\<close>

text \<open>\<^verbatim>\<open>bpf_trace_printk(fmt, size, arg1, arg2)\<close>: the format is passed with its terminating zero.\<close>

record 'k kill_helpers =
  bpf_trace_printk :: "bytes \<Rightarrow> u32 \<Rightarrow> u64 \<Rightarrow> u64 \<Rightarrow> 'k \<Rightarrow> 'k"

definition ascii :: "string \<Rightarrow> bytes" where
  "ascii s = map (\<lambda>c. of_nat (of_char c)) s"

definition kill_fmt :: bytes where
  "kill_fmt = ascii ''PID %u is being killed!\<newline>'' @ [0]"

definition kill_example :: "'k kill_helpers \<Rightarrow> syscalls_enter_kill_args \<Rightarrow> 'k \<Rightarrow> (u32 \<times> 'k) option" where
  "kill_example H ctx k =
     (if sig ctx \<noteq> 9 then Some (0, k)
      else let fmt = kill_fmt;
               k = bpf_trace_printk H fmt (of_nat (length fmt)) (pid ctx) 8 k
           in Some (0, k))"

interpretation kill_hook: bpf_hook "kill_example H" 0 for H :: "'k kill_helpers"
  by unfold_locales (simp add: kill_example_def Let_def)

section \<open>The checked-in LLVM code\<close>

definition kill_ll_load_i64 :: "bytes \<Rightarrow> nat \<Rightarrow> u64 option" where
  "kill_ll_load_i64 ctx field = map_option le_word (load (8 * field) 8 ctx)"

text \<open>The constant \<^verbatim>\<open>@__const.kill_example.fmt\<close>, 25 bytes copied to the stack.\<close>

definition kill_ll_fmt :: bytes where
  "kill_ll_fmt =
     [0x50, 0x49, 0x44, 0x20, 0x25, 0x75, 0x20, 0x69, 0x73, 0x20, 0x62, 0x65, 0x69, 0x6E, 0x67, 0x20,
      0x6B, 0x69, 0x6C, 0x6C, 0x65, 0x64, 0x21, 0x0A, 0x00]"

definition kill_ll :: "'k kill_helpers \<Rightarrow> bytes \<Rightarrow> 'k \<Rightarrow> (u32 \<times> 'k) option" where
  "kill_ll H ctx k =
     do { r4 \<leftarrow> kill_ll_load_i64 ctx 3;
          if r4 = 9 then do {
            r2 \<leftarrow> store 0 kill_ll_fmt (replicate 25 0);
            r8 \<leftarrow> kill_ll_load_i64 ctx 2;
            let k = bpf_trace_printk H r2 25 r8 8 k;
            Some (0, k) }
          else Some (0, k) }"

lemma kill_ll_fmt_eq: "kill_ll_fmt = kill_fmt"
  by code_simp

lemma kill_ll_load_args:
  "kill_ll_load_i64 (encode_kill_args c) 2 = Some (pid c)"
  "kill_ll_load_i64 (encode_kill_args c) 3 = Some (sig c)"
  by (simp_all add: kill_ll_load_i64_def load_def slice_def encode_kill_args_def le_word_round)

lemma length_kill_fmt: "length kill_fmt = 25"
  by code_simp

text \<open>C26: on the memory image of its context, the code checked in as kill.ll does what kill.c
  means: it reads pid and sig at their offsets, and traces exactly the SIGKILL events.\<close>

theorem kill_ll_equals_kill_c: "kill_ll H (encode_kill_args c) k = kill_example H c k"
  by (simp add: kill_ll_def kill_example_def kill_ll_load_args kill_ll_fmt_eq length_kill_fmt
      store_def Let_def)

section \<open>Properties\<close>

text \<open>On any sequence of kill calls the program returns 0 for each and traces, in order, the
  process id of every call whose signal is 9, and nothing for the others.\<close>

lemma kill_traces_sigkill_only:
  "run_hook (kill_example H) cs k = Some (replicate (length cs) 0,
     fold (\<lambda>c. bpf_trace_printk H kill_fmt 25 (pid c) 8) (filter (\<lambda>c. sig c = 9) cs) k)"
  by (induction cs arbitrary: k) (simp_all add: kill_example_def length_kill_fmt Let_def)

end
