(* ===== verification/Layouts.thy ===== *)
theory Layouts
  imports Vmlinux_Sock Flat_IR Netkit_Event Kill Packet
begin

text \<open>
  The structures the programs exchange with the kernel and with user space, as C
  declarations: that the byte images and the offsets the program models use are the ones
  the declarations of the sources and of \<^verbatim>\<open>vmlinux.h\<close> prescribe.
\<close>

section \<open>Declarations of the programs\<close>

definition struct_packet_t :: ctype where
  "struct_packet_t = Comp Struct False [
    Member ''src_ip'' struct_in6_addr,
    Member ''dst_ip'' struct_in6_addr,
    Member ''src_port'' t___be16,
    Member ''dst_port'' t___be16,
    Member ''protocol'' t___u8,
    Member ''ttl'' t___u8,
    Member ''syn'' c_bool,
    Member ''ack'' c_bool,
    Member ''ts'' c_unsigned_long]"

definition struct_ipv6_event :: ctype where
  "struct_ipv6_event = Comp Struct True [
    Member ''src_addr'' (Array 16 t___u8),
    Member ''dst_addr'' (Array 16 t___u8),
    Member ''next_header'' t___u8,
    Member ''payload_len'' t___u16,
    Member ''hop_limit'' t___u8,
    Member ''direction'' t___u8]"

definition struct_syscalls_enter_kill_args :: ctype where
  "struct_syscalls_enter_kill_args = Comp Struct False [
    Member ''pad'' c_long_long,
    Member ''syscall_nr'' c_long,
    Member ''pid'' c_long,
    Member ''sig'' c_long]"

lemmas uapi_scalars = t___be16_def t___be32_def t___u8_def t___u16_def t___u32_def t___u64_def
  t___sum16_def

section \<open>Positions\<close>

lemma sizes:
  "csizeof struct_in6_addr = 16" "csizeof struct_packet_t = sizeof_packet_t"
  "csizeof struct_ipv6_event = sizeof_ipv6_event" "csizeof struct_syscalls_enter_kill_args = 32"
  "csizeof struct_ethhdr = sizeof_ethhdr" "csizeof struct_iphdr = sizeof_iphdr"
  "csizeof struct_ipv6hdr = sizeof_ipv6hdr" "csizeof struct_tcphdr = sizeof_tcphdr"
  "csizeof struct_udphdr = sizeof_udphdr"
  by (simp_all add: struct_in6_addr_def struct_packet_t_def struct_ipv6_event_def
      struct_syscalls_enter_kill_args_def struct_ethhdr_def struct_iphdr_def struct_ipv6hdr_def
      struct_tcphdr_def struct_udphdr_def uapi_scalars layout_eval wire_defs sizeof_ipv6_event_def)

lemma packet_t_positions:
  "find_member struct_packet_t ''src_ip'' = Some (0, 128)"
  "find_member struct_packet_t ''dst_ip'' = Some (128, 128)"
  "find_member struct_packet_t ''src_port'' = Some (256, 16)"
  "find_member struct_packet_t ''dst_port'' = Some (272, 16)"
  "find_member struct_packet_t ''protocol'' = Some (288, 8)"
  "find_member struct_packet_t ''ttl'' = Some (296, 8)"
  "find_member struct_packet_t ''syn'' = Some (304, 8)"
  "find_member struct_packet_t ''ack'' = Some (312, 8)"
  "find_member struct_packet_t ''ts'' = Some (320, 64)"
  by (simp_all add: struct_packet_t_def struct_in6_addr_def uapi_scalars layout_eval)

lemma ipv6_event_positions:
  "find_member struct_ipv6_event ''src_addr'' = Some (0, 128)"
  "find_member struct_ipv6_event ''dst_addr'' = Some (128, 128)"
  "find_member struct_ipv6_event ''next_header'' = Some (256, 8)"
  "find_member struct_ipv6_event ''payload_len'' = Some (264, 16)"
  "find_member struct_ipv6_event ''hop_limit'' = Some (280, 8)"
  "find_member struct_ipv6_event ''direction'' = Some (288, 8)"
  by (simp_all add: struct_ipv6_event_def uapi_scalars layout_eval)

lemma header_positions:
  "find_member struct_ethhdr ''h_proto'' = Some (96, 16)"
  "find_member struct_iphdr ''ttl'' = Some (64, 8)"
  "find_member struct_iphdr ''protocol'' = Some (72, 8)"
  "find_member struct_iphdr ''saddr'' = Some (96, 32)"
  "find_member struct_iphdr ''daddr'' = Some (128, 32)"
  "find_member struct_ipv6hdr ''payload_len'' = Some (32, 16)"
  "find_member struct_ipv6hdr ''nexthdr'' = Some (48, 8)"
  "find_member struct_ipv6hdr ''hop_limit'' = Some (56, 8)"
  "find_member struct_ipv6hdr ''saddr'' = Some (64, 128)"
  "find_member struct_ipv6hdr ''daddr'' = Some (192, 128)"
  "find_member struct_tcphdr ''source'' = Some (0, 16)"
  "find_member struct_tcphdr ''dest'' = Some (16, 16)"
  "find_member struct_tcphdr ''syn'' = Some (105, 1)"
  "find_member struct_tcphdr ''ack'' = Some (108, 1)"
  "find_member struct_udphdr ''source'' = Some (0, 16)"
  "find_member struct_udphdr ''dest'' = Some (16, 16)"
  by (simp_all add: struct_ethhdr_def struct_iphdr_def struct_ipv6hdr_def struct_tcphdr_def
      struct_udphdr_def struct_in6_addr_def uapi_scalars layout_eval)

lemmas member_eval = member_bytes_def member_bit_def load_def packet_t_positions
  ipv6_event_positions header_positions

definition enum_value :: "ctype \<Rightarrow> string \<Rightarrow> int option" where
  "enum_value t nm = (case t of Enum byte es \<Rightarrow> map_of es nm | _ \<Rightarrow> None)"

fun members_of :: "ctype \<Rightarrow> cmember list" where
  "members_of (Comp k packed ms) = ms"
| "members_of t = []"

section \<open>Properties\<close>

text \<open>The 48 bytes the classifier sends are the C object: at the position the declaration gives
  each member of struct packet_t, the image holds that field, ports in network and the timestamp
  in host byte order, and the nine members make up the image without padding.\<close>

lemma packet_t_image:
  assumes "packet_t_ok p"
  shows "length (encode_packet_t p) = csizeof struct_packet_t \<and>
    member_bytes struct_packet_t ''src_ip'' (encode_packet_t p) = Some (src_ip p) \<and>
    member_bytes struct_packet_t ''dst_ip'' (encode_packet_t p) = Some (dst_ip p) \<and>
    member_bytes struct_packet_t ''src_port'' (encode_packet_t p) = Some (be_bytes 2 (src_port p)) \<and>
    member_bytes struct_packet_t ''dst_port'' (encode_packet_t p) = Some (be_bytes 2 (dst_port p)) \<and>
    member_bytes struct_packet_t ''protocol'' (encode_packet_t p) = Some [protocol p] \<and>
    member_bytes struct_packet_t ''ttl'' (encode_packet_t p) = Some [ttl p] \<and>
    member_bytes struct_packet_t ''syn'' (encode_packet_t p) = Some [of_bool (syn p)] \<and>
    member_bytes struct_packet_t ''ack'' (encode_packet_t p) = Some [of_bool (ack p)] \<and>
    member_bytes struct_packet_t ''ts'' (encode_packet_t p) = Some (le_bytes 8 (ts p))"
  using assms
  by (simp add: member_eval sizes length_encode_packet_t wire_defs)
    (simp add: packet_t_ok_def encode_packet_t_def slice_def)

lemma packet_t_image_witness:
  "member_bytes struct_packet_t ''src_port'' (encode_packet_t sample_packet_t) = Some [0x12, 0x34]"
proof -
  have "packet_t_ok sample_packet_t" "be_bytes 2 (src_port sample_packet_t) = [0x12, 0x34]" by code_simp+
  then show ?thesis using packet_t_image [of sample_packet_t] by simp
qed



lemma ipv6_event_image:
  assumes "ipv6_event_ok e"
  shows "member_bytes struct_ipv6_event ''src_addr'' (encode_ipv6_event e) = Some (src_addr e)"
    and "member_bytes struct_ipv6_event ''dst_addr'' (encode_ipv6_event e) = Some (dst_addr e)"
    and "member_bytes struct_ipv6_event ''next_header'' (encode_ipv6_event e) = Some [next_header e]"
    and "member_bytes struct_ipv6_event ''payload_len'' (encode_ipv6_event e) = Some (le_bytes 2 (payload_len e))"
    and "member_bytes struct_ipv6_event ''hop_limit'' (encode_ipv6_event e) = Some [hop_limit e]"
    and "member_bytes struct_ipv6_event ''direction'' (encode_ipv6_event e) = Some [direction e]"
  using assms
  by (simp_all add: member_eval length_encode_ipv6_event sizeof_ipv6_event_def)
    (simp_all add: ipv6_event_ok_def encode_ipv6_event_def slice_def)

text \<open>A netkit event carries, at the positions of the packed struct ipv6_event, the addresses,
  next header and hop limit of the frame's IPv6 header byte for byte, and its payload length
  turned from network into host order.\<close>

lemma netkit_event_members:
  assumes "ipv6_spec dir f = Some e"
  shows "length (encode_ipv6_event e) = csizeof struct_ipv6_event \<and>
    member_bytes struct_ipv6_event ''src_addr'' (encode_ipv6_event e) = member_bytes struct_ipv6hdr ''saddr'' (drop sizeof_ethhdr f) \<and>
    member_bytes struct_ipv6_event ''dst_addr'' (encode_ipv6_event e) = member_bytes struct_ipv6hdr ''daddr'' (drop sizeof_ethhdr f) \<and>
    member_bytes struct_ipv6_event ''next_header'' (encode_ipv6_event e) = member_bytes struct_ipv6hdr ''nexthdr'' (drop sizeof_ethhdr f) \<and>
    member_bytes struct_ipv6_event ''hop_limit'' (encode_ipv6_event e) = member_bytes struct_ipv6hdr ''hop_limit'' (drop sizeof_ethhdr f) \<and>
    member_bytes struct_ipv6_event ''payload_len'' (encode_ipv6_event e) =
      map_option rev (member_bytes struct_ipv6hdr ''payload_len'' (drop sizeof_ethhdr f)) \<and>
    member_bytes struct_ipv6_event ''direction'' (encode_ipv6_event e) = Some [dir]"
proof -
  have len: "54 \<le> length f" using assms by (simp add: ipv6_spec_def split: if_splits)
  have drop: "slice i n (drop m f) = slice (m + i) n f" for i n m :: nat
    by (simp add: slice_def add.commute)
  have ok: "ipv6_event_ok e"
    using assms len by (auto simp: ipv6_spec_def ipv6_event_ok_def split: if_splits)
  have "rev (le_bytes 2 (be_word (slice 18 2 f) :: u16)) = slice 18 2 f"
    using be_bytes_be_word [of "slice 18 2 f" 2, where 'a = 16] len by (simp add: be_bytes_def)
  then have "rev (slice 18 2 f) = le_bytes 2 (be_word (slice 18 2 f) :: u16)"
    by (metis rev_rev_ident)
  then show ?thesis
    using assms len
    by (auto simp: ipv6_event_image [OF ok] sizes length_encode_ipv6_event [OF ok] ipv6_spec_def split: if_splits)
      (simp_all add: member_eval wire_defs drop slice_1 [unfolded One_nat_def])
qed

lemma netkit_event_members_witness:
  "\<exists>e. ipv6_spec 1 icmp6_frame = Some e \<and>
     member_bytes struct_ipv6_event ''next_header'' (encode_ipv6_event e) = Some [58]"
proof -
  have len: "length icmp6_frame = 54" by (simp add: icmp6_frame_def)
  moreover have "be_word (slice 12 2 icmp6_frame) = ETH_P_IPV6" "slice 20 1 icmp6_frame = [58]" by code_simp+
  ultimately obtain e where e: "ipv6_spec 1 icmp6_frame = Some e" by (simp add: ipv6_spec_def)
  have "member_bytes struct_ipv6hdr ''nexthdr'' (drop sizeof_ethhdr icmp6_frame) = Some [58]"
    using len \<open>slice 20 1 icmp6_frame = [58]\<close> by (simp add: member_eval wire_defs slice_def)
  then show ?thesis using netkit_event_members [OF e] e by simp
qed

text \<open>The three loads of flat.ll from its context, at offsets 4, 76 and 80, are the members
  pkt_type, data and data_end of the kernel's struct __sk_buff, each 32 bits wide; no other offset
  is read.\<close>

lemma flat_ll_context_loads:
  "map_option (\<lambda>(p, w). (ctx_load_i32 s (p div 8), w)) (find_member struct___sk_buff ''pkt_type'') = Some (Some (pkt_type s), 32) \<and>
   map_option (\<lambda>(p, w). (ctx_load_i32 s (p div 8), w)) (find_member struct___sk_buff ''data'') = Some (Some (data s), 32) \<and>
   map_option (\<lambda>(p, w). (ctx_load_i32 s (p div 8), w)) (find_member struct___sk_buff ''data_end'') = Some (Some (data_end s), 32)"
  by (simp add: struct___sk_buff_def uapi_scalars layout_eval ctx_load_i32_def)

text \<open>The context kill.c declares for itself is the one the kernel passes: its pid and sig are
  the first two system call arguments of struct trace_event_raw_sys_enter, and its image holds them
  at the declared positions.\<close>

lemma kill_context_layout:
  "find_member struct_syscalls_enter_kill_args ''syscall_nr'' = find_member struct_trace_event_raw_sys_enter ''id'' \<and>
   find_member struct_trace_event_raw_sys_enter ''args'' = Some (128, 6 * 64) \<and>
   find_member struct_syscalls_enter_kill_args ''pid'' = Some (128 + 0 * 64, 64) \<and>
   find_member struct_syscalls_enter_kill_args ''sig'' = Some (128 + 1 * 64, 64) \<and>
   member_bytes struct_syscalls_enter_kill_args ''pid'' (encode_kill_args c) = Some (le_bytes 8 (pid c)) \<and>
   member_bytes struct_syscalls_enter_kill_args ''sig'' (encode_kill_args c) = Some (le_bytes 8 (sig c)) \<and>
   length (encode_kill_args c) = csizeof struct_syscalls_enter_kill_args"
proof -
  have k: "find_member struct_syscalls_enter_kill_args ''syscall_nr'' = Some (64, 64)"
    "find_member struct_syscalls_enter_kill_args ''pid'' = Some (128, 64)"
    "find_member struct_syscalls_enter_kill_args ''sig'' = Some (192, 64)"
    by (simp_all add: struct_syscalls_enter_kill_args_def layout_eval)
  have "find_member struct_trace_event_raw_sys_enter ''id'' = Some (64, 64)"
    "find_member struct_trace_event_raw_sys_enter ''args'' = Some (128, 384)"
    by (simp_all add: struct_trace_event_raw_sys_enter_def struct_trace_entry_def layout_eval)
  then show ?thesis
    by (simp add: k sizes length_encode_kill_args member_bytes_def load_def)
      (simp add: encode_kill_args_def slice_def)
qed

text \<open>The verdicts of the programs are the kernel's: NETKIT_PASS and XDP_PASS have the values of
  enum netkit_action and enum xdp_action, and XDP_PASS is not XDP_DROP.\<close>

lemma verdicts_of_the_kernel:
  "enum_value enum_netkit_action ''NETKIT_PASS'' = Some (uint NETKIT_PASS) \<and>
   enum_value enum_xdp_action ''XDP_PASS'' = Some (uint XDP_PASS) \<and>
   enum_value enum_xdp_action ''XDP_PASS'' \<noteq> enum_value enum_xdp_action ''XDP_DROP''"
  by (simp add: enum_value_def enum_netkit_action_def enum_xdp_action_def wire_defs)

text \<open>A write within one member of struct packet_t changes no byte of another member; what the
  classifier's padding words destroy is destroyed by indexing past the end of an address.\<close>

lemma packet_t_write_is_local:
  assumes "i < 9" and "j < 9" and "i \<noteq> j" and "length buf = csizeof struct_packet_t"
    and "8 * length v = shape_width (member_shape (members_of struct_packet_t ! i))"
    and "8 * n = shape_width (member_shape (members_of struct_packet_t ! j))"
    and "8 * p = positions Struct False (members_of struct_packet_t) ! i"
    and "8 * q = positions Struct False (members_of struct_packet_t) ! j"
    and "store p v buf = Some buf'"
  shows "slice q n buf' = slice q n buf"
proof (rule store_other)
  let ?ms = "members_of struct_packet_t"
  have t: "struct_packet_t = Comp Struct False ?ms" by (simp add: struct_packet_t_def)
  have ok: "ctype_ok (Comp Struct False ?ms)" and n9: "length ?ms = 9"
    by (simp_all add: struct_packet_t_def struct_in6_addr_def uapi_scalars c_base)
  show "store p v buf = Some buf'" by fact
  have "8 * (q + n) \<le> 8 * csizeof struct_packet_t"
    using struct_members(2) [OF ok, of j] assms n9 t by simp
  then show "q + n \<le> length buf" using assms(4) by simp
  have "8 * (q + n) \<le> 8 * p \<or> 8 * (p + length v) \<le> 8 * q"
    using struct_members(1) [OF ok, of i j] struct_members(1) [OF ok, of j i] assms n9
    by (cases "i < j") simp_all
  then show "q + n \<le> p \<or> p + length v \<le> q" by presburger
qed

lemma packet_t_write_is_local_witness:
  "\<exists>buf'. store 38 [1] (replicate 48 0) = Some buf' \<and> slice 16 16 buf' = replicate 16 0"
proof -
  have "store 38 [1] (replicate 48 0) = Some (replicate 38 0 @ [1] @ replicate 9 0)"
    by (simp add: store_def)
  moreover have "slice 16 16 (replicate 48 (0 :: u8)) = replicate 16 0" by (simp add: slice_def)
  moreover have "slice 16 16 (replicate 38 0 @ [1] @ replicate 9 (0 :: u8)) = slice 16 16 (replicate 48 0)"
    by (rule packet_t_write_is_local [of 6 1 "replicate 48 0" "[1]" 16 38 16])
      (simp_all add: sizes wire_defs struct_packet_t_def struct_in6_addr_def uapi_scalars layout_eval store_def)
  ultimately show ?thesis by auto
qed

end
