(* ===== verification/Maps.thy ===== *)
theory Maps
  imports Layouts Counter
begin

text \<open>
  What the object files declare besides their programs: the maps, the sections the programs
  are attached by, the licences, and the constants and types of the checked-in LLVM code.
\<close>

section \<open>Map definitions\<close>

text \<open>
  A definition in section \<^verbatim>\<open>.maps\<close>: the type by the name of its constant, and the sizes of
  key and value where the definition has them.
\<close>

record bpf_map_def =
  map_type :: string
  key_type :: "ctype option"
  value_type :: "ctype option"
  max_entries :: nat

definition pipe :: bpf_map_def where
  "pipe = \<lparr>map_type = ''BPF_MAP_TYPE_RINGBUF'', key_type = None, value_type = None,
     max_entries = 512 * 1024\<rparr>"

definition ipv6_events :: bpf_map_def where
  "ipv6_events = \<lparr>map_type = ''BPF_MAP_TYPE_RINGBUF'', key_type = None, value_type = None,
     max_entries = 256 * 1024\<rparr>"

definition pkt_count :: bpf_map_def where
  "pkt_count = \<lparr>map_type = ''BPF_MAP_TYPE_ARRAY'', key_type = Some t___u32,
     value_type = Some t___u64, max_entries = 1\<rparr>"

text \<open>The kernel's documented rules for the two types the programs use.\<close>

definition ring_map_ok :: "bpf_map_def \<Rightarrow> bool" where
  "ring_map_ok m \<longleftrightarrow> map_type m = ''BPF_MAP_TYPE_RINGBUF'' \<and> key_type m = None \<and> value_type m = None \<and>
     4096 dvd max_entries m \<and> (\<exists>k \<le> 32. max_entries m = 2 ^ k)"

definition array_map_ok :: "bpf_map_def \<Rightarrow> bool" where
  "array_map_ok m \<longleftrightarrow> map_type m = ''BPF_MAP_TYPE_ARRAY'' \<and> map_option csizeof (key_type m) = Some 4 \<and>
     value_type m \<noteq> None \<and> 0 < max_entries m"

text \<open>
  An array map has a value for every key below its size and for no other; a value's address is
  its key. It is the parameter of the packet counter.
\<close>

definition array_lookup :: "bpf_map_def \<Rightarrow> u32 \<Rightarrow> u32 option" where
  "array_lookup m key = (if unat key < max_entries m then Some key else None)"

section \<open>Sections and licences\<close>

definition flat_section :: string where "flat_section = ''tc''"
definition netkit_primary_section :: string where "netkit_primary_section = ''netkit/primary''"
definition netkit_peer_section :: string where "netkit_peer_section = ''netkit/peer''"
definition kill_section :: string where "kill_section = ''tracepoint/syscalls/sys_enter_kill''"
definition count_section :: string where "count_section = ''xdp''"

definition flat_license :: string where "flat_license = ''Dual MIT/GPL''"
definition netkit_license :: string where "netkit_license = ''GPL''"
definition kill_license :: string where "kill_license = ''GPL''"
definition count_license :: string where "count_license = ''Dual MIT/GPL''"

section \<open>Data of the checked-in LLVM code\<close>

text \<open>Globals are byte strings with their terminating zero.\<close>

definition flat_ll_license :: bytes where
  "flat_ll_license = [0x44, 0x75, 0x61, 0x6C, 0x20, 0x4D, 0x49, 0x54, 0x2F, 0x47, 0x50, 0x4C, 0x00]"

definition flat_ll_fmt :: bytes where
  "flat_ll_fmt = [0x47, 0x6F, 0x74, 0x20, 0x61, 0x20, 0x50, 0x61, 0x63, 0x6B, 0x65, 0x74, 0x21, 0x0A, 0x00]"

definition kill_ll_license :: bytes where
  "kill_ll_license = [0x47, 0x50, 0x4C, 0x00]"

text \<open>The named types, with the members LLVM numbers instead of naming.\<close>

definition ll_in6_addr :: ctype where
  "ll_in6_addr = Comp Struct False [Member ''0'' (Comp Struct False [Member ''0'' (Array 4 (Scalar ''i32'' 4))])]"

definition ll_packet_t :: ctype where
  "ll_packet_t = Comp Struct False [
    Member ''0'' ll_in6_addr,
    Member ''1'' ll_in6_addr,
    Member ''2'' (Scalar ''i16'' 2),
    Member ''3'' (Scalar ''i16'' 2),
    Member ''4'' (Scalar ''i8'' 1),
    Member ''5'' (Scalar ''i8'' 1),
    Member ''6'' (Scalar ''i8'' 1),
    Member ''7'' (Scalar ''i8'' 1),
    Member ''8'' (Scalar ''i64'' 8)]"

definition ll_kill_args :: ctype where
  "ll_kill_args = Comp Struct False [
    Member ''0'' (Scalar ''i64'' 8),
    Member ''1'' (Scalar ''i64'' 8),
    Member ''2'' (Scalar ''i64'' 8),
    Member ''3'' (Scalar ''i64'' 8)]"

text \<open>The array bounds by which the debug information of flat.ll records the map's definition.\<close>

definition flat_ll_pipe_type :: int where "flat_ll_pipe_type = 27"
definition flat_ll_pipe_entries :: nat where "flat_ll_pipe_entries = 524288"

section \<open>Properties\<close>


text \<open>The data of the checked-in LLVM code is that of the sources: licence and format strings
  with their terminators, and types whose members lie where the C structures have them.\<close>

lemma llvm_data_matches:
  "flat_ll_license = ascii flat_license @ [0] \<and>
   flat_ll_fmt = ascii ''Got a Packet!\<newline>'' @ [0] \<and>
   kill_ll_license = ascii kill_license @ [0] \<and>
   csizeof ll_packet_t = csizeof struct_packet_t \<and>
   positions Struct False (members_of ll_packet_t) = positions Struct False (members_of struct_packet_t) \<and>
   csizeof ll_kill_args = csizeof struct_syscalls_enter_kill_args \<and>
   positions Struct False (members_of ll_kill_args) =
     positions Struct False (members_of struct_syscalls_enter_kill_args)"
proof -
  have "flat_ll_license = ascii flat_license @ [0]" "flat_ll_fmt = ascii ''Got a Packet!\<newline>'' @ [0]"
    "kill_ll_license = ascii kill_license @ [0]"
    by code_simp+
  moreover have "csizeof ll_packet_t = csizeof struct_packet_t"
    "positions Struct False (members_of ll_packet_t) = positions Struct False (members_of struct_packet_t)"
    "csizeof ll_kill_args = csizeof struct_syscalls_enter_kill_args"
    "positions Struct False (members_of ll_kill_args) =
       positions Struct False (members_of struct_syscalls_enter_kill_args)"
    by (simp_all add: ll_packet_t_def ll_in6_addr_def ll_kill_args_def struct_packet_t_def
        struct_in6_addr_def struct_syscalls_enter_kill_args_def uapi_scalars layout_eval)
  ultimately show ?thesis by blast
qed

text \<open>On the map the object file declares, one invocation of the counter adds one to the value
  of key 0 and changes nothing else, so a reader of key 0 sees every packet.\<close>

lemma count_packets_on_its_map:
  "count_packets (array_lookup pkt_count) () m = Some (XDP_PASS, m(0 := m 0 + 1))"
  by (simp add: count_packets_def array_lookup_def pkt_count_def)

end
