(* ===== verification/Go_Bindings.thy ===== *)
theory Go_Bindings
  imports Maps
begin

text \<open>
  The Go files bpf2go has written beside the object files: the names by which the structures
  of loaded objects bind programs and maps, the loading function, and the functions that
  close what was loaded. The three pairs of files differ in names and build tags only. The
  embedded object files themselves are not text; what they contain is what the C sources
  declare.
\<close>

section \<open>Names\<close>

text \<open>Programs and maps as a C source declares them.\<close>

record bpf_source =
  programs :: "string list"
  maps :: "(string \<times> bpf_map_def) list"

definition flat_source :: bpf_source where
  "flat_source = \<lparr>programs = [''flat''], maps = [(''pipe'', pipe)]\<rparr>"

definition netkit_source :: bpf_source where
  "netkit_source = \<lparr>programs = [''netkit_primary'', ''netkit_peer''], maps = [(''ipv6_events'', ipv6_events)]\<rparr>"

definition counter_source :: bpf_source where
  "counter_source = \<lparr>programs = [''count_packets''], maps = [(''pkt_count'', pkt_count)]\<rparr>"

text \<open>The fields of a generated structure with the tags that name what is bound to them.\<close>

type_synonym go_fields = "(string \<times> string) list"

record bindings =
  program_fields :: go_fields
  map_fields :: go_fields

definition ProbeObjects :: bindings where
  "ProbeObjects = \<lparr>program_fields = [(''Flat'', ''flat'')], map_fields = []\<rparr>"

definition NetkitObjects :: bindings where
  "NetkitObjects = \<lparr>program_fields = [(''NetkitPeer'', ''netkit_peer''), (''NetkitPrimary'', ''netkit_primary'')],
     map_fields = [(''Ipv6Events'', ''ipv6_events'')]\<rparr>"

definition CounterObjects :: bindings where
  "CounterObjects = \<lparr>program_fields = [(''CountPackets'', ''count_packets'')],
     map_fields = [(''PktCount'', ''pkt_count'')]\<rparr>"

text \<open>The fields the hand-written programs select.\<close>

definition probe_uses :: "string list \<times> string list" where
  "probe_uses = ([''Flat''], [''Pipe''])"

definition netkit_uses :: "string list \<times> string list" where
  "netkit_uses = ([''NetkitPrimary'', ''NetkitPeer''], [''Ipv6Events''])"

definition counter_uses :: "string list \<times> string list" where
  "counter_uses = ([''CountPackets''], [''PktCount''])"

text \<open>
  Loading finds every tag in the object file; using finds every field. A Go program that
  selects a field its structure does not have is not compiled.
\<close>

definition tags_known :: "bindings \<Rightarrow> bpf_source \<Rightarrow> bool" where
  "tags_known b src \<longleftrightarrow>
     set (map snd (program_fields b)) \<subseteq> set (programs src) \<and> set (map snd (map_fields b)) \<subseteq> set (map fst (maps src))"

definition fields_known :: "string list \<times> string list \<Rightarrow> bindings \<Rightarrow> bool" where
  "fields_known uses b \<longleftrightarrow>
     set (fst uses) \<subseteq> set (map fst (program_fields b)) \<and> set (snd uses) \<subseteq> set (map fst (map_fields b))"

definition all_bound :: "bindings \<Rightarrow> bpf_source \<Rightarrow> bool" where
  "all_bound b src \<longleftrightarrow>
     set (programs src) \<subseteq> set (map snd (program_fields b)) \<and> set (map fst (maps src)) \<subseteq> set (map snd (map_fields b))"

section \<open>Loading and closing\<close>

text \<open>
  Reading the embedded object file and \<^verbatim>\<open>LoadAndAssign\<close> are parameters: what one gives is
  handed to the other.
\<close>

definition LoadObjects :: "'err + 'spec \<Rightarrow> ('spec \<Rightarrow> 'err option) \<Rightarrow> 'err option" where
  "LoadObjects spec LoadAndAssign = (case spec of Inl err \<Rightarrow> Some err | Inr s \<Rightarrow> LoadAndAssign s)"

text \<open>
  A closer gives an error or none, and the list of what it has tried to close; \<open>bpf2go_close\<close>
  is \<^verbatim>\<open>_NetkitClose\<close>, \<^verbatim>\<open>_ProbeClose\<close> and \<^verbatim>\<open>_CounterClose\<close>.
\<close>

fun bpf2go_close :: "('err option \<times> string list) list \<Rightarrow> 'err option \<times> string list" where
  "bpf2go_close [] = (None, [])"
| "bpf2go_close ((Some err, tried) # closers) = (Some err, tried)"
| "bpf2go_close ((None, tried) # closers) =
     (let (err, tried') = bpf2go_close closers in (err, tried @ tried'))"

definition close_one :: "(string \<Rightarrow> 'err option) \<Rightarrow> string \<Rightarrow> 'err option \<times> string list" where
  "close_one Close field = (Close field, [field])"

definition Programs_Close :: "bindings \<Rightarrow> (string \<Rightarrow> 'err option) \<Rightarrow> 'err option \<times> string list" where
  "Programs_Close b Close = bpf2go_close (map (close_one Close \<circ> fst) (program_fields b))"

definition Maps_Close :: "bindings \<Rightarrow> (string \<Rightarrow> 'err option) \<Rightarrow> 'err option \<times> string list" where
  "Maps_Close b Close = bpf2go_close (map (close_one Close \<circ> fst) (map_fields b))"

definition Objects_Close :: "bindings \<Rightarrow> (string \<Rightarrow> 'err option) \<Rightarrow> 'err option \<times> string list" where
  "Objects_Close b Close = bpf2go_close [Programs_Close b Close, Maps_Close b Close]"

definition fields :: "bindings \<Rightarrow> string list" where
  "fields b = map fst (program_fields b) @ map fst (map_fields b)"

lemma bpf2go_close_append:
  "bpf2go_close (xs @ ys) =
     (case bpf2go_close xs of
        (Some err, tried) \<Rightarrow> (Some err, tried)
      | (None, tried) \<Rightarrow> (let (err, tried') = bpf2go_close ys in (err, tried @ tried')))"
  by (induction xs rule: bpf2go_close.induct) (auto simp: Let_def split: prod.splits option.splits)

lemma bpf2go_close_single [simp]: "bpf2go_close [x] = x"
  by (cases x; cases "fst x") auto

lemma Objects_Close_eq: "Objects_Close b Close = bpf2go_close (map (close_one Close) (fields b))"
  by (simp add: Objects_Close_def Programs_Close_def Maps_Close_def fields_def bpf2go_close_append
      split: prod.splits option.splits)

lemma close_fields:
  "bpf2go_close (map (close_one Close) fs) =
     (case dropWhile (\<lambda>f. Close f = None) fs of
        [] \<Rightarrow> (None, fs)
      | f # rest \<Rightarrow> (Close f, takeWhile (\<lambda>f. Close f = None) fs @ [f]))"
proof (induction fs)
  case (Cons f fs)
  then show ?case
    by (cases "Close f"; cases "dropWhile (\<lambda>f. Close f = None) fs")
      (simp_all add: close_one_def del: dropWhile_eq_Nil_conv)
qed simp

section \<open>Properties\<close>


text \<open>Closing loaded objects tries programs before maps, in the order of their fields, and stops
  at the first error, which it returns: without one everything has been closed, with one nothing
  behind the field it came from has been tried.\<close>

lemma objects_close:
  "Objects_Close b Close =
     (case dropWhile (\<lambda>f. Close f = None) (fields b) of
        [] \<Rightarrow> (None, fields b)
      | f # rest \<Rightarrow> (Close f, takeWhile (\<lambda>f. Close f = None) (fields b) @ [f]))"
  by (simp only: Objects_Close_eq close_fields)

end
