(* ===== verification/Tests.thy ===== *)
theory Tests
  imports Netkit_Main
begin

text \<open>
  The repository's Go tests of the modelled code, as checks on the model:
  \<^verbatim>\<open>netkit/options_test.go\<close>, \<^verbatim>\<open>netkit/netkit_test.go\<close>, \<^verbatim>\<open>netkit/ipv6_test.go\<close>, the workflow test
  \<^verbatim>\<open>main_test.go\<close>, and the packet tests
  of \<^verbatim>\<open>flow/main_test.go\<close> and \<^verbatim>\<open>flow/kprobe/kprobe_test.go\<close>. They need root privileges, without which
  they are skipped, and a kernel that grants what they ask for; \<open>netlink_works\<close> says what that means.
\<close>

section \<open>options_test.go\<close>

definition TestFunctionalOptions :: "(string \<times> nk_option list \<times> (config \<Rightarrow> bool)) list" where
  "TestFunctionalOptions = [
     (''default config'', [], \<lambda>cfg. mode cfg = NETKIT_MODE_L3 \<and> scrubPrimary cfg = NETKIT_SCRUB_NONE \<and>
        scrubPeer cfg = NETKIT_SCRUB_NONE),
     (''with L2 mode'', [WithL2Mode], \<lambda>cfg. mode cfg = NETKIT_MODE_L2),
     (''with L3 mode explicit'', [WithL3Mode], \<lambda>cfg. mode cfg = NETKIT_MODE_L3),
     (''disable scrubbing'', [WithNoScrub], \<lambda>cfg. scrubPrimary cfg = NETKIT_SCRUB_NONE \<and>
        scrubPeer cfg = NETKIT_SCRUB_NONE),
     (''combined options'', [WithL3Mode, WithNoScrub], \<lambda>cfg. mode cfg = NETKIT_MODE_L3 \<and>
        scrubPrimary cfg = NETKIT_SCRUB_NONE \<and> scrubPeer cfg = NETKIT_SCRUB_NONE)]"

definition check_options :: "string \<times> nk_option list \<times> (config \<Rightarrow> bool) \<Rightarrow> bool" where
  "check_options tt = (case tt of (name, opts, validate) \<Rightarrow> validate (fold (\<lambda>opt cfg. opt cfg) opts defaultConfig))"

section \<open>netkit_test.go\<close>

definition TestCreatePair :: "(string \<times> string \<times> nk_option list \<times> bool) list" where
  "TestCreatePair = [
     (''create L3 pair'', ''test0'', [WithL3Mode], False),
     (''create with no scrub'', ''test1'', [WithL3Mode, WithNoScrub], False),
     (''empty name fails'', '''', [], True)]"

definition check_pair :: "netlink_env \<Rightarrow> string \<times> string \<times> nk_option list \<times> bool \<Rightarrow> bool" where
  "check_pair env tt =
     (case tt of (name, devName, opts, wantErr) \<Rightarrow>
        (case fst (CreatePair env devName opts) of
           Inl err \<Rightarrow> wantErr
         | Inr p \<Rightarrow> \<not> wantErr \<and> 0 < PrimaryIdx p \<and> 0 < PeerIdx p \<and>
             link_name (Primary p) = devName \<and> link_name (Peer p) = devName @ ''p''))"

text \<open>The kernel before and after the first deletion answers differently, hence two of them.\<close>

definition TestDelete :: "netlink_env \<Rightarrow> netlink_env \<Rightarrow> bool" where
  "TestDelete env env' =
     (case fst (CreatePair env ''test_del'' [WithL3Mode]) of
        Inl err \<Rightarrow> False
      | Inr p \<Rightarrow> fst (Delete env (Some p)) = None \<and> fst (Delete env' (Some p)) = None)"

section \<open>ipv6_test.go\<close>

text \<open>The addresses a log has given to an interface, and \<^verbatim>\<open>IsLinkLocalUnicast\<close>.\<close>

fun addr_list :: "nk_log \<Rightarrow> string \<Rightarrow> bytes list" where
  "addr_list [] name = []"
| "addr_list (Do (CallAddrAdd nm a n) # log) name = (if nm = name then a # addr_list log name else addr_list log name)"
| "addr_list (x # log) name = addr_list log name"

definition is_link_local :: "bytes \<Rightarrow> bool" where
  "is_link_local a \<longleftrightarrow> length a = 16 \<and> a ! 0 = 0xfe \<and> (a ! 1) AND 0xc0 = 0x80"

definition TestConfigureIPv6LinkLocal :: "netlink_env \<Rightarrow> bool" where
  "TestConfigureIPv6LinkLocal env =
     (case fst (CreatePair env ''test_ipv6'' [WithL3Mode]) of
        Inl err \<Rightarrow> False
      | Inr p \<Rightarrow>
          (case ConfigureIPv6LinkLocal env p of
             (Some err, log) \<Rightarrow> False
           | (None, log) \<Rightarrow>
               (case filter is_link_local (addr_list log (link_name (Primary p))) of
                  [] \<Rightarrow> False
                | a # _ \<Rightarrow> a ! 0 = 0xfe \<and> a ! 1 = 0x80) \<and>
               filter is_link_local (addr_list log (link_name (Peer p))) \<noteq> []))"

section \<open>The packet tests\<close>

definition TestPacket :: "'k flat_helpers \<Rightarrow> 'k \<Rightarrow> bool" where
  "TestPacket H k =
     (case flat H (skb_at [1, 2, 3, 4, 5, 6, 7, 8, 9, 0, 1, 2, 3, 4, 5]) k of
        None \<Rightarrow> False
      | Some (ret, k) \<Rightarrow> ret = 0)"

section \<open>netkit-ipv6/main_test.go\<close>

text \<open>
  \<open>True\<close> is a test that passes; a failing requirement ends the test like a return, with the
  deferred calls. The context is one with a time limit here, whose \<^verbatim>\<open>cancel\<close> is deferred as that of
  the signal context is in \<open>run\<close>; when the time is over the test goes on and logs only.
\<close>

definition TestFullWorkflow :: "main_env \<Rightarrow> bool \<times> nk_log" where
  "TestFullWorkflow env =
     (case RemoveMemlock env of
        Some err \<Rightarrow> (False, [Do CallMemlock])
      | None \<Rightarrow> after [Do CallMemlock]
     (case CreatePair (netlink env) ''test_full'' [WithL3Mode] of
        (Inl err, log) \<Rightarrow> (False, log)
      | (Inr p, log) \<Rightarrow> after log (with_defer (snd (Delete (netlink env) (Some p)))
     (case ConfigureIPv6LinkLocal (netlink env) p of
        (Some err, log) \<Rightarrow> (False, log)
      | (None, log) \<Rightarrow> after log
     (case LoadNetkitObjects env of
        Some err \<Rightarrow> (False, [Do CallLoad])
      | None \<Rightarrow> after [Do CallLoad, Acquire Objects] (with_defer [Release Objects]
     (case AttachNetkit env ''primary'' (PrimaryIdx p) of
        Some err \<Rightarrow> (False, [Do (CallAttach ''primary'' (PrimaryIdx p))])
      | None \<Rightarrow> after [Do (CallAttach ''primary'' (PrimaryIdx p)), Acquire AttachedPrimary]
          (with_defer [Release AttachedPrimary]
     (case AttachNetkit env ''peer'' (PrimaryIdx p) of
        Some err \<Rightarrow> (False, [Do (CallAttach ''peer'' (PrimaryIdx p))])
      | None \<Rightarrow> after [Do (CallAttach ''peer'' (PrimaryIdx p)), Acquire AttachedPeer]
          (with_defer [Release AttachedPeer]
     (case NewReader env of
        Some err \<Rightarrow> (False, [Do CallReader])
      | None \<Rightarrow> after [Do CallReader, Acquire Reader] (with_defer [Release Reader]
          (after [Acquire SignalCtx] (with_defer [Release SignalCtx] (True, [])))))))))))))))"

text \<open>The polling goroutine, on what the reader returns until the time is over.\<close>

fun event_received :: "(errno + go_slice) list \<Rightarrow> bool" where
  "event_received [] = False"
| "event_received (Inl err # reads) = event_received reads"
| "event_received (Inr sample # reads) = (if 37 \<le> len sample then True else event_received reads)"

lemma event_received_iff: "event_received reads \<longleftrightarrow> (\<exists>s. Inr s \<in> set reads \<and> 37 \<le> len s)"
  by (induction reads rule: event_received.induct) auto

section \<open>A kernel that works\<close>

definition netlink_works :: "netlink_env \<Rightarrow> bool" where
  "netlink_works env \<longleftrightarrow>
     (\<forall>l. \<exists>i > 0. LinkAdd env l = Inr i) \<and>
     (\<forall>nm. \<exists>l. LinkByName env nm = Inr l \<and> link_name l = nm \<and> 0 < link_index l) \<and>
     (\<forall>nm. LinkSetUp env nm = None) \<and> (\<forall>nm. LinkDel env nm = None) \<and>
     (\<forall>nm a n. AddrAdd env nm a n = None) \<and> (\<forall>nm. \<exists>g. rand_read env nm = Inr g)"

lemma netlink_worksD:
  assumes "netlink_works env"
  shows "\<exists>i. 0 < i \<and> LinkAdd env l = Inr i"
    and "\<exists>l. LinkByName env nm = Inr l \<and> link_name l = nm \<and> 0 < link_index l"
    and "LinkSetUp env nm = None" and "LinkDel env nm = None" and "AddrAdd env nm a n = None"
    and "\<exists>g. rand_read env nm = Inr g"
  using assms unfolding netlink_works_def by blast+

lemma create_works:
  assumes "netlink_works env" and "name \<noteq> []"
  shows "\<exists>p log. CreatePair env name opts = (Inr p, log) \<and> 0 < PrimaryIdx p \<and> 0 < PeerIdx p \<and>
    link_name (Primary p) = name \<and> link_name (Peer p) = name @ ''p''"
proof -
  let ?cfg = "apply_options opts"
  let ?l = "\<lparr>link_name = name, link_index = 0, peer_name = name @ ''p'', link_mode = mode ?cfg,
    link_scrub = scrubPrimary ?cfg, link_peer_scrub = scrubPeer ?cfg\<rparr> :: netkit_link"
  obtain i where "0 < i" "LinkAdd env ?l = Inr i" using netlink_worksD(1) [OF assms(1), of ?l] by blast
  moreover obtain peer where "LinkByName env (name @ ''p'') = Inr peer" "link_name peer = name @ ''p''" "0 < link_index peer"
    using netlink_worksD(2) [OF assms(1)] by blast
  moreover note netlink_worksD(3) [OF assms(1)]
  ultimately show ?thesis using assms(2) by (simp add: CreatePair_def Let_def after_def)
qed

lemma assign_works:
  assumes "netlink_works env"
  shows "\<exists>a. assignLinkLocal env nm = (None, [Do (CallAddrAdd nm a 64)]) \<and> is_link_local a \<and> a ! 1 = 0x80"
proof -
  obtain g where "rand_read env nm = Inr g" using netlink_worksD(6) [OF assms] by blast
  moreover note netlink_worksD(5) [OF assms]
  ultimately show ?thesis
    by (simp add: assignLinkLocal_def generateLinkLocalAddr_def is_link_local_def eval_nat_numeral)
qed

lemma configure_works:
  assumes "netlink_works env"
  shows "\<exists>a b. ConfigureIPv6LinkLocal env p =
      (None, [Do (CallAddrAdd (link_name (Primary p)) a 64), Do (CallAddrAdd (link_name (Peer p)) b 64)]) \<and>
    is_link_local a \<and> a ! 1 = 0x80 \<and> is_link_local b"
  using assign_works [OF assms, of "link_name (Primary p)"] assign_works [OF assms, of "link_name (Peer p)"]
  by (auto simp: ConfigureIPv6LinkLocal_def after_def)

section \<open>Properties\<close>

text \<open>The model passes the repository's tests: every option test, and, on a kernel that grants
  what is asked for and then reports a deleted device as gone, the pair, deletion and address
  tests; the packet tests whatever the helpers do.\<close>

lemma repository_tests_pass:
  assumes "netlink_works env" and "\<And>nm. LinkDel env' nm = Some ENODEV"
  shows "list_all check_options TestFunctionalOptions \<and> list_all (check_pair env) TestCreatePair \<and>
    TestDelete env env' \<and> TestConfigureIPv6LinkLocal env \<and> TestPacket H k"
proof -
  have "list_all check_options TestFunctionalOptions"
    by (simp add: TestFunctionalOptions_def check_options_def defaultConfig_def WithL2Mode_def
        WithL3Mode_def WithNoScrub_def)
  moreover have "check_pair env (t, name, opts, False)" if "name \<noteq> []" for t name opts
    using create_works [OF assms(1) that, of opts] by (auto simp: check_pair_def)
  then have "list_all (check_pair env) TestCreatePair"
    by (simp add: TestCreatePair_def) (simp add: check_pair_def CreatePair_def)
  moreover have "TestDelete env env'"
  proof -
    obtain p log where "CreatePair env ''test_del'' [WithL3Mode] = (Inr p, log)"
      using create_works [OF assms(1), of "''test_del''"] by blast
    moreover note netlink_worksD(4) [OF assms(1)]
    ultimately show ?thesis using assms(2) by (simp add: TestDelete_def Delete_def)
  qed
  moreover have "TestConfigureIPv6LinkLocal env"
  proof -
    obtain p log where p: "CreatePair env ''test_ipv6'' [WithL3Mode] = (Inr p, log)"
        "link_name (Primary p) = ''test_ipv6''" "link_name (Peer p) = ''test_ipv6p''"
      using create_works [OF assms(1), of "''test_ipv6''" "[WithL3Mode]"] by auto
    obtain a b where c: "ConfigureIPv6LinkLocal env p =
        (None, [Do (CallAddrAdd ''test_ipv6'' a 64), Do (CallAddrAdd ''test_ipv6p'' b 64)])"
      "is_link_local a" "a ! 1 = 0x80" "is_link_local b"
      using configure_works [OF assms(1), of p] p(2,3) by auto
    then have "a ! 0 = 0xfe" by (simp add: is_link_local_def)
    then show ?thesis using p c by (simp add: TestConfigureIPv6LinkLocal_def)
  qed
  moreover have "TestPacket H k"
    by (simp add: TestPacket_def flat_eq TC_ACT_OK_def)
  ultimately show ?thesis by blast
qed

lemma repository_tests_pass_witness:
  "TestDelete (netlink working_env) ((netlink working_env)\<lparr>LinkDel := \<lambda>_. Some ENODEV\<rparr>) \<and>
   TestConfigureIPv6LinkLocal (netlink working_env)"
proof -
  have w: "netlink_works (netlink working_env)" by (simp add: netlink_works_def working_env_def)
  have g: "LinkDel ((netlink working_env)\<lparr>LinkDel := \<lambda>_. Some ENODEV\<rparr>) nm = Some ENODEV" for nm by simp
  fix H :: "unit flat_helpers"
  show ?thesis using repository_tests_pass [OF w g, of H "()"] by blast
qed


end
