(* ===== verification/Vmlinux_Hooks.thy ===== *)
theory Vmlinux_Hooks
  imports Vmlinux_Sock
begin

text \<open>
  The declarations of \<^verbatim>\<open>vmlinux.h\<close> for the places programs are attached to: XDP buffers, traffic
  control with its bpf classifier, tracepoints and perf events, and for the netlink messages and
  addresses that configure devices, with the types they contain.
\<close>

definition struct_xdp_buff :: ctype where
  "struct_xdp_buff = Comp Struct False [
    Member ''data'' (Ptr ''void *''),
    Member ''data_end'' (Ptr ''void *''),
    Member ''data_meta'' (Ptr ''void *''),
    Member ''data_hard_start'' (Ptr ''void *''),
    Member ''rxq'' (Ptr ''struct xdp_rxq_info *''),
    Member ''txq'' (Ptr ''struct xdp_txq_info *''),
    Member ''frame_sz'' t_u32,
    Member ''flags'' t_u32]"

definition enum_xdp_mem_type :: ctype where
  "enum_xdp_mem_type = Enum False [
    (''MEM_TYPE_PAGE_SHARED'', 0), (''MEM_TYPE_PAGE_ORDER0'', 1), (''MEM_TYPE_PAGE_POOL'', 2),
    (''MEM_TYPE_XSK_BUFF_POOL'', 3), (''MEM_TYPE_MAX'', 4)]"

definition struct_xdp_frame :: ctype where
  "struct_xdp_frame = Comp Struct False [
    Member ''data'' (Ptr ''void *''),
    Member ''len'' t_u32,
    Member ''headroom'' t_u32,
    Member ''metasize'' t_u32,
    BitField ''mem_type'' enum_xdp_mem_type 32,
    Member ''dev_rx'' (Ptr ''struct net_device *''),
    Member ''frame_sz'' t_u32,
    Member ''flags'' t_u32]"

definition struct_xdp_mem_info :: ctype where
  "struct_xdp_mem_info = Comp Struct False [
    Member ''type'' t_u32,
    Member ''id'' t_u32]"

definition struct_xdp_rxq_info :: ctype where
  "struct_xdp_rxq_info = Comp Struct False ([
    Member ''dev'' (Ptr ''struct net_device *''),
    Member ''queue_index'' t_u32,
    Member ''reg_state'' t_u32,
    Member ''mem'' struct_xdp_mem_info,
    Member ''frag_size'' t_u32] @ replicate 12 (BitField '''' c_long 64))"

definition struct_qdisc_skb_head :: ctype where
  "struct_qdisc_skb_head = Comp Struct False [
    Member ''head'' (Ptr ''struct sk_buff *''),
    Member ''tail'' (Ptr ''struct sk_buff *''),
    Member ''qlen'' t___u32,
    Member ''lock'' t_spinlock_t]"

definition t_local_t :: ctype where
  "t_local_t = Comp Struct False [
    Member ''a'' t_atomic_long_t]"

definition t_local64_t :: ctype where
  "t_local64_t = Comp Struct False [
    Member ''a'' t_local_t]"

definition t_u64_stats_t :: ctype where
  "t_u64_stats_t = Comp Struct False [
    Member ''v'' t_local64_t]"

definition struct_u64_stats_sync :: ctype where
  "struct_u64_stats_sync = Comp Struct False []"

definition struct_gnet_stats_basic_sync :: ctype where
  "struct_gnet_stats_basic_sync = Comp Struct False [
    Member ''bytes'' t_u64_stats_t,
    Member ''packets'' t_u64_stats_t,
    Member ''syncp'' struct_u64_stats_sync]"

definition struct_gnet_stats_queue :: ctype where
  "struct_gnet_stats_queue = Comp Struct False [
    Member ''qlen'' t___u32,
    Member ''backlog'' t___u32,
    Member ''drops'' t___u32,
    Member ''requeues'' t___u32,
    Member ''overlimits'' t___u32]"

definition struct_lock_class_key :: ctype where
  "struct_lock_class_key = Comp Struct False []"

definition struct_Qdisc :: ctype where
  "struct_Qdisc = Comp Struct False ([
    Member ''enqueue'' (Ptr ''int (*)(struct sk_buff *, struct Qdisc *, struct sk_buff **)''),
    Member ''dequeue'' (Ptr ''struct sk_buff * (*)(struct Qdisc *)''),
    Member ''flags'' c_unsigned_int,
    Member ''limit'' t_u32,
    Member ''ops'' (Ptr ''struct Qdisc_ops *''),
    Member ''stab'' (Ptr ''struct qdisc_size_table *''),
    Member ''hash'' struct_hlist_node,
    Member ''handle'' t_u32,
    Member ''parent'' t_u32,
    Member ''dev_queue'' (Ptr ''struct netdev_queue *''),
    Member ''rate_est'' (Ptr ''struct net_rate_estimator *''),
    Member ''cpu_bstats'' (Ptr ''struct gnet_stats_basic_sync *''),
    Member ''cpu_qstats'' (Ptr ''struct gnet_stats_queue *''),
    Member ''pad'' c_int,
    Member ''refcnt'' t_refcount_t,
    BitField '''' c_long 64,
    BitField '''' c_long 64,
    BitField '''' c_long 64,
    Member ''gso_skb'' struct_sk_buff_head,
    Member ''q'' struct_qdisc_skb_head,
    Member ''bstats'' struct_gnet_stats_basic_sync,
    Member ''qstats'' struct_gnet_stats_queue,
    Member ''owner'' c_int,
    Member ''state'' c_unsigned_long,
    Member ''state2'' c_unsigned_long,
    Member ''next_sched'' (Ptr ''struct Qdisc *''),
    Member ''skb_bad_txq'' struct_sk_buff_head] @ replicate 15 (BitField '''' c_long 64) @ [
    Member ''busylock'' t_spinlock_t,
    Member ''seqlock'' t_spinlock_t,
    Member ''rcu'' struct_callback_head,
    Member ''dev_tracker'' t_netdevice_tracker,
    Member ''root_lock_key'' struct_lock_class_key] @ replicate 13 (BitField '''' c_long 64) @ [
    Member ''privdata'' (Array 0 c_long)])"

definition struct_Qdisc_ops :: ctype where
  "struct_Qdisc_ops = Comp Struct False [
    Member ''next'' (Ptr ''struct Qdisc_ops *''),
    Member ''cl_ops'' (Ptr ''struct Qdisc_class_ops *''),
    Member ''id'' (Array 16 c_char),
    Member ''priv_size'' c_int,
    Member ''static_flags'' c_unsigned_int,
    Member ''enqueue'' (Ptr ''int (*)(struct sk_buff *, struct Qdisc *, struct sk_buff **)''),
    Member ''dequeue'' (Ptr ''struct sk_buff * (*)(struct Qdisc *)''),
    Member ''peek'' (Ptr ''struct sk_buff * (*)(struct Qdisc *)''),
    Member ''init'' (Ptr ''int (*)(struct Qdisc *, struct nlattr *, struct netlink_ext_ack *)''),
    Member ''reset'' (Ptr ''void (*)(struct Qdisc *)''),
    Member ''destroy'' (Ptr ''void (*)(struct Qdisc *)''),
    Member ''change'' (Ptr ''int (*)(struct Qdisc *, struct nlattr *, struct netlink_ext_ack *)''),
    Member ''attach'' (Ptr ''void (*)(struct Qdisc *)''),
    Member ''change_tx_queue_len'' (Ptr ''int (*)(struct Qdisc *, unsigned int)''),
    Member ''change_real_num_tx'' (Ptr ''void (*)(struct Qdisc *, unsigned int)''),
    Member ''dump'' (Ptr ''int (*)(struct Qdisc *, struct sk_buff *)''),
    Member ''dump_stats'' (Ptr ''int (*)(struct Qdisc *, struct gnet_dump *)''),
    Member ''ingress_block_set'' (Ptr ''void (*)(struct Qdisc *, u32)''),
    Member ''egress_block_set'' (Ptr ''void (*)(struct Qdisc *, u32)''),
    Member ''ingress_block_get'' (Ptr ''u32 (*)(struct Qdisc *)''),
    Member ''egress_block_get'' (Ptr ''u32 (*)(struct Qdisc *)''),
    Member ''owner'' (Ptr ''struct module *'')]"

definition struct_tcf_proto :: ctype where
  "struct_tcf_proto = Comp Struct False [
    Member ''next'' (Ptr ''struct tcf_proto *''),
    Member ''root'' (Ptr ''void *''),
    Member ''classify'' (Ptr ''int (*)(struct sk_buff *, const struct tcf_proto *, struct tcf_result *)''),
    Member ''protocol'' t___be16,
    Member ''prio'' t_u32,
    Member ''data'' (Ptr ''void *''),
    Member ''ops'' (Ptr ''struct tcf_proto_ops *''),
    Member ''chain'' (Ptr ''struct tcf_chain *''),
    Member ''lock'' t_spinlock_t,
    Member ''deleting'' t_bool,
    Member ''counted'' t_bool,
    Member ''usesw'' t_bool,
    Member ''refcnt'' t_refcount_t,
    Member ''rcu'' struct_callback_head,
    Member ''destroy_ht_node'' struct_hlist_node]"

definition struct_tcf_proto_ops :: ctype where
  "struct_tcf_proto_ops = Comp Struct False [
    Member ''head'' struct_list_head,
    Member ''kind'' (Array 16 c_char),
    Member ''classify'' (Ptr ''int (*)(struct sk_buff *, const struct tcf_proto *, struct tcf_result *)''),
    Member ''init'' (Ptr ''int (*)(struct tcf_proto *)''),
    Member ''destroy'' (Ptr ''void (*)(struct tcf_proto *, bool, struct netlink_ext_ack *)''),
    Member ''get'' (Ptr ''void * (*)(struct tcf_proto *, u32)''),
    Member ''put'' (Ptr ''void (*)(struct tcf_proto *, void *)''),
    Member ''change'' (Ptr ''int (*)(struct net *, struct sk_buff *, struct tcf_proto *, unsigned long, u32, struct nlattr **, void **, u32, struct netlink_ext_ack *)''),
    Member ''delete'' (Ptr ''int (*)(struct tcf_proto *, void *, bool *, bool, struct netlink_ext_ack *)''),
    Member ''delete_empty'' (Ptr ''bool (*)(struct tcf_proto *)''),
    Member ''walk'' (Ptr ''void (*)(struct tcf_proto *, struct tcf_walker *, bool)''),
    Member ''reoffload'' (Ptr ''int (*)(struct tcf_proto *, bool, flow_setup_cb_t *, void *, struct netlink_ext_ack *)''),
    Member ''hw_add'' (Ptr ''void (*)(struct tcf_proto *, void *)''),
    Member ''hw_del'' (Ptr ''void (*)(struct tcf_proto *, void *)''),
    Member ''bind_class'' (Ptr ''void (*)(void *, u32, unsigned long, void *, unsigned long)''),
    Member ''tmplt_create'' (Ptr ''void * (*)(struct net *, struct tcf_chain *, struct nlattr **, struct netlink_ext_ack *)''),
    Member ''tmplt_destroy'' (Ptr ''void (*)(void *)''),
    Member ''tmplt_reoffload'' (Ptr ''void (*)(struct tcf_chain *, bool, flow_setup_cb_t *, void *)''),
    Member ''get_exts'' (Ptr ''struct tcf_exts * (*)(const struct tcf_proto *, u32)''),
    Member ''dump'' (Ptr ''int (*)(struct net *, struct tcf_proto *, void *, struct sk_buff *, struct tcmsg *, bool)''),
    Member ''terse_dump'' (Ptr ''int (*)(struct net *, struct tcf_proto *, void *, struct sk_buff *, struct tcmsg *, bool)''),
    Member ''tmplt_dump'' (Ptr ''int (*)(struct sk_buff *, struct net *, void *)''),
    Member ''owner'' (Ptr ''struct module *''),
    Member ''flags'' c_int]"

definition struct_flow_block :: ctype where
  "struct_flow_block = Comp Struct False [
    Member ''cb_list'' struct_list_head]"

definition struct_tcf_block :: ctype where
  "struct_tcf_block = Comp Struct False [
    Member ''ports'' struct_xarray,
    Member ''lock'' struct_mutex,
    Member ''chain_list'' struct_list_head,
    Member ''index'' t_u32,
    Member ''classid'' t_u32,
    Member ''refcnt'' t_refcount_t,
    Member ''net'' (Ptr ''struct net *''),
    Member ''q'' (Ptr ''struct Qdisc *''),
    Member ''cb_lock'' struct_rw_semaphore,
    Member ''flow_block'' struct_flow_block,
    Member ''owner_list'' struct_list_head,
    Member ''keep_dst'' t_bool,
    Member ''useswcnt'' t_atomic_t,
    Member ''offloadcnt'' t_atomic_t,
    Member ''nooffloaddevcnt'' c_unsigned_int,
    Member ''lockeddevcnt'' c_unsigned_int,
    Member ''chain0'' (Comp Struct False [
      Member ''chain'' (Ptr ''struct tcf_chain *''),
      Member ''filter_chain_list'' struct_list_head]),
    Member ''rcu'' struct_callback_head,
    Member ''proto_destroy_ht'' (Array 128 struct_hlist_head),
    Member ''proto_destroy_lock'' struct_mutex]"

definition struct_tcf_result :: ctype where
  "struct_tcf_result = Comp Struct False [
    Member '''' (Comp Union False [
      Member '''' (Comp Struct False [
        Member ''class'' c_unsigned_long,
        Member ''classid'' t_u32]),
      Member ''goto_tp'' (Ptr ''struct tcf_proto *'')])]"

definition struct_tcf_exts :: ctype where
  "struct_tcf_exts = Comp Struct False [
    Member ''type'' t___u32,
    Member ''nr_actions'' c_int,
    Member ''actions'' (Ptr ''struct tc_action **''),
    Member ''net'' (Ptr ''struct net *''),
    Member ''ns_tracker'' t_netns_tracker,
    Member ''miss_cookie_node'' (Ptr ''struct tcf_exts_miss_cookie_node *''),
    Member ''action'' c_int,
    Member ''police'' c_int]"

definition struct_rcu_work :: ctype where
  "struct_rcu_work = Comp Struct False [
    Member ''work'' struct_work_struct,
    Member ''rcu'' struct_callback_head,
    Member ''wq'' (Ptr ''struct workqueue_struct *'')]"

definition struct_cls_bpf_prog :: ctype where
  "struct_cls_bpf_prog = Comp Struct False [
    Member ''filter'' (Ptr ''struct bpf_prog *''),
    Member ''link'' struct_list_head,
    Member ''res'' struct_tcf_result,
    Member ''exts_integrated'' t_bool,
    Member ''gen_flags'' t_u32,
    Member ''in_hw_count'' c_unsigned_int,
    Member ''exts'' struct_tcf_exts,
    Member ''handle'' t_u32,
    Member ''bpf_num_ops'' t_u16,
    Member ''bpf_ops'' (Ptr ''struct sock_filter *''),
    Member ''bpf_name'' (Ptr ''char *''),
    Member ''tp'' (Ptr ''struct tcf_proto *''),
    Member ''rwork'' struct_rcu_work]"

definition struct_cls_bpf_head :: ctype where
  "struct_cls_bpf_head = Comp Struct False [
    Member ''plist'' struct_list_head,
    Member ''handle_idr'' struct_idr,
    Member ''rcu'' struct_callback_head]"

definition struct_tcx_link :: ctype where
  "struct_tcx_link = Comp Struct False [
    Member ''link'' struct_bpf_link,
    Member ''dev'' (Ptr ''struct net_device *'')]"

definition struct_tcx_entry :: ctype where
  "struct_tcx_entry = Comp Struct False [
    Member ''miniq'' (Ptr ''struct mini_Qdisc *''),
    Member ''bundle'' struct_bpf_mprog_bundle,
    Member ''miniq_active'' t_u32,
    Member ''rcu'' struct_callback_head]"

definition struct_static_key :: ctype where
  "struct_static_key = Comp Struct False [
    Member ''enabled'' t_atomic_t,
    Member '''' (Comp Union False [
      Member ''type'' c_unsigned_long,
      Member ''entries'' (Ptr ''struct jump_entry *''),
      Member ''next'' (Ptr ''struct static_key_mod *'')])]"

definition struct_static_key_false :: ctype where
  "struct_static_key_false = Comp Struct False [
    Member ''key'' struct_static_key]"

definition struct_tracepoint :: ctype where
  "struct_tracepoint = Comp Struct False [
    Member ''name'' (Ptr ''char *''),
    Member ''key'' struct_static_key_false,
    Member ''static_call_key'' (Ptr ''struct static_call_key *''),
    Member ''static_call_tramp'' (Ptr ''void *''),
    Member ''iterator'' (Ptr ''void *''),
    Member ''probestub'' (Ptr ''void *''),
    Member ''funcs'' (Ptr ''struct tracepoint_func *''),
    Member ''ext'' (Ptr ''struct tracepoint_ext *'')]"

definition struct_trace_event :: ctype where
  "struct_trace_event = Comp Struct False [
    Member ''node'' struct_hlist_node,
    Member ''type'' c_int,
    Member ''funcs'' (Ptr ''struct trace_event_functions *'')]"

definition struct_trace_event_call :: ctype where
  "struct_trace_event_call = Comp Struct False [
    Member ''list'' struct_list_head,
    Member ''class'' (Ptr ''struct trace_event_class *''),
    Member '''' (Comp Union False [
      Member ''name'' (Ptr ''char *''),
      Member ''tp'' (Ptr ''struct tracepoint *'')]),
    Member ''event'' struct_trace_event,
    Member ''print_fmt'' (Ptr ''char *''),
    Member '''' (Comp Union False [
      Member ''module'' (Ptr ''void *''),
      Member ''refcnt'' t_atomic_t]),
    Member ''data'' (Ptr ''void *''),
    Member ''flags'' c_int,
    Member ''perf_refcount'' c_int,
    Member ''perf_events'' (Ptr ''struct hlist_head *''),
    Member ''prog_array'' (Ptr ''struct bpf_prog_array *''),
    Member ''perf_perm'' (Ptr ''int (*)(struct trace_event_call *, struct perf_event *)'')]"

definition struct_trace_event_class :: ctype where
  "struct_trace_event_class = Comp Struct False [
    Member ''system'' (Ptr ''char *''),
    Member ''probe'' (Ptr ''void *''),
    Member ''perf_probe'' (Ptr ''void *''),
    Member ''reg'' (Ptr ''int (*)(struct trace_event_call *, enum trace_reg, void *)''),
    Member ''fields_array'' (Ptr ''struct trace_event_fields *''),
    Member ''get_fields'' (Ptr ''struct list_head * (*)(struct trace_event_call *)''),
    Member ''fields'' struct_list_head,
    Member ''raw_init'' (Ptr ''int (*)(struct trace_event_call *)'')]"

definition struct_trace_event_file :: ctype where
  "struct_trace_event_file = Comp Struct False [
    Member ''list'' struct_list_head,
    Member ''event_call'' (Ptr ''struct trace_event_call *''),
    Member ''filter'' (Ptr ''struct event_filter *''),
    Member ''ei'' (Ptr ''struct eventfs_inode *''),
    Member ''tr'' (Ptr ''struct trace_array *''),
    Member ''system'' (Ptr ''struct trace_subsystem_dir *''),
    Member ''triggers'' struct_list_head,
    Member ''flags'' c_unsigned_long,
    Member ''ref'' t_refcount_t,
    Member ''sm_ref'' t_atomic_t,
    Member ''tm_ref'' t_atomic_t]"

definition struct_syscall_metadata :: ctype where
  "struct_syscall_metadata = Comp Struct False [
    Member ''name'' (Ptr ''char *''),
    Member ''syscall_nr'' c_int,
    Member ''nb_args'' c_int,
    Member ''types'' (Ptr ''char **''),
    Member ''args'' (Ptr ''char **''),
    Member ''enter_fields'' struct_list_head,
    Member ''enter_event'' (Ptr ''struct trace_event_call *''),
    Member ''exit_event'' (Ptr ''struct trace_event_call *'')]"

definition enum_perf_event_state :: ctype where
  "enum_perf_event_state = Enum False [
    (''PERF_EVENT_STATE_DEAD'', - 5), (''PERF_EVENT_STATE_REVOKED'', - 4),
    (''PERF_EVENT_STATE_EXIT'', - 3), (''PERF_EVENT_STATE_ERROR'', - 2),
    (''PERF_EVENT_STATE_OFF'', - 1), (''PERF_EVENT_STATE_INACTIVE'', 0),
    (''PERF_EVENT_STATE_ACTIVE'', 1)]"

definition struct_hw_perf_event_extra :: ctype where
  "struct_hw_perf_event_extra = Comp Struct False [
    Member ''config'' t_u64,
    Member ''reg'' c_unsigned_int,
    Member ''alloc'' c_int,
    Member ''idx'' c_int]"

definition struct_arch_hw_breakpoint_ctrl :: ctype where
  "struct_arch_hw_breakpoint_ctrl = Comp Struct False [
    BitField ''__reserved'' t_u32 19,
    BitField ''len'' t_u32 8,
    BitField ''type'' t_u32 2,
    BitField ''privilege'' t_u32 2,
    BitField ''enabled'' t_u32 1]"

definition struct_arch_hw_breakpoint :: ctype where
  "struct_arch_hw_breakpoint = Comp Struct False [
    Member ''address'' t_u64,
    Member ''trigger'' t_u64,
    Member ''ctrl'' struct_arch_hw_breakpoint_ctrl]"

definition struct_rhash_head :: ctype where
  "struct_rhash_head = Comp Struct False [
    Member ''next'' (Ptr ''struct rhash_head *'')]"

definition struct_rhlist_head :: ctype where
  "struct_rhlist_head = Comp Struct False [
    Member ''rhead'' struct_rhash_head,
    Member ''next'' (Ptr ''struct rhlist_head *'')]"

definition struct_hw_perf_event :: ctype where
  "struct_hw_perf_event = Comp Struct False [
    Member '''' (Comp Union False [
      Member '''' (Comp Struct False [
        Member ''config'' t_u64,
        Member ''config1'' t_u64,
        Member ''last_tag'' t_u64,
        Member ''dyn_constraint'' t_u64,
        Member ''config_base'' c_unsigned_long,
        Member ''event_base'' c_unsigned_long,
        Member ''event_base_rdpmc'' c_int,
        Member ''idx'' c_int,
        Member ''last_cpu'' c_int,
        Member ''flags'' c_int,
        Member ''extra_reg'' struct_hw_perf_event_extra,
        Member ''branch_reg'' struct_hw_perf_event_extra]),
      Member '''' (Comp Struct False [
        Member ''aux_config'' t_u64,
        Member ''aux_paused'' c_unsigned_int]),
      Member '''' (Comp Struct False [
        Member ''hrtimer'' struct_hrtimer]),
      Member '''' (Comp Struct False [
        Member ''tp_list'' struct_list_head]),
      Member '''' (Comp Struct False [
        Member ''pwr_acc'' t_u64,
        Member ''ptsc'' t_u64]),
      Member '''' (Comp Struct False [
        Member ''info'' struct_arch_hw_breakpoint,
        Member ''bp_list'' struct_rhlist_head]),
      Member '''' (Comp Struct False [
        Member ''iommu_bank'' t_u8,
        Member ''iommu_cntr'' t_u8,
        Member ''padding'' t_u16,
        Member ''conf'' t_u64,
        Member ''conf1'' t_u64])]),
    Member ''target'' (Ptr ''struct task_struct *''),
    Member ''addr_filters'' (Ptr ''void *''),
    Member ''addr_filters_gen'' c_unsigned_long,
    Member ''state'' c_int,
    Member ''prev_count'' t_local64_t,
    Member ''sample_period'' t_u64,
    Member '''' (Comp Union False [
      Member '''' (Comp Struct False [
        Member ''last_period'' t_u64,
        Member ''period_left'' t_local64_t]),
      Member '''' (Comp Struct False [
        Member ''saved_metric'' t_u64,
        Member ''saved_slots'' t_u64])]),
    Member ''interrupts_seq'' t_u64,
    Member ''interrupts'' t_u64,
    Member ''freq_time_stamp'' t_u64,
    Member ''freq_count_stamp'' t_u64]"

definition struct_perf_addr_filters_head :: ctype where
  "struct_perf_addr_filters_head = Comp Struct False [
    Member ''list'' struct_list_head,
    Member ''lock'' t_raw_spinlock_t,
    Member ''nr_file_filters'' c_unsigned_int]"

definition t_perf_overflow_handler_t :: ctype where
  "t_perf_overflow_handler_t = Ptr ''void (*)(struct perf_event *, struct perf_sample_data *, struct pt_regs *)''"

definition t_ftrace_func_t :: ctype where
  "t_ftrace_func_t = Ptr ''void (*)(unsigned long, unsigned long, struct ftrace_ops *, struct ftrace_regs *)''"

definition struct_ftrace_ops_hash :: ctype where
  "struct_ftrace_ops_hash = Comp Struct False [
    Member ''notrace_hash'' (Ptr ''struct ftrace_hash *''),
    Member ''filter_hash'' (Ptr ''struct ftrace_hash *''),
    Member ''regex_lock'' struct_mutex]"

definition t_ftrace_ops_func_t :: ctype where
  "t_ftrace_ops_func_t = Ptr ''int (*)(struct ftrace_ops *, enum ftrace_ops_cmd)''"

definition struct_ftrace_ops :: ctype where
  "struct_ftrace_ops = Comp Struct False [
    Member ''func'' t_ftrace_func_t,
    Member ''next'' (Ptr ''struct ftrace_ops *''),
    Member ''flags'' c_unsigned_long,
    Member ''private'' (Ptr ''void *''),
    Member ''saved_func'' t_ftrace_func_t,
    Member ''local_hash'' struct_ftrace_ops_hash,
    Member ''func_hash'' (Ptr ''struct ftrace_ops_hash *''),
    Member ''old_hash'' struct_ftrace_ops_hash,
    Member ''trampoline'' c_unsigned_long,
    Member ''trampoline_size'' c_unsigned_long,
    Member ''list'' struct_list_head,
    Member ''subop_list'' struct_list_head,
    Member ''ops_func'' t_ftrace_ops_func_t,
    Member ''managed'' (Ptr ''struct ftrace_ops *''),
    Member ''direct_call'' c_unsigned_long]"

definition struct_perf_event :: ctype where
  "struct_perf_event = Comp Struct False [
    Member ''event_entry'' struct_list_head,
    Member ''sibling_list'' struct_list_head,
    Member ''active_list'' struct_list_head,
    Member ''group_node'' struct_rb_node,
    Member ''group_index'' t_u64,
    Member ''migrate_entry'' struct_list_head,
    Member ''hlist_entry'' struct_hlist_node,
    Member ''active_entry'' struct_list_head,
    Member ''nr_siblings'' c_int,
    Member ''event_caps'' c_int,
    Member ''group_caps'' c_int,
    Member ''group_generation'' c_unsigned_int,
    Member ''group_leader'' (Ptr ''struct perf_event *''),
    Member ''pmu'' (Ptr ''struct pmu *''),
    Member ''pmu_private'' (Ptr ''void *''),
    Member ''state'' enum_perf_event_state,
    Member ''attach_state'' c_unsigned_int,
    Member ''count'' t_local64_t,
    Member ''child_count'' t_atomic64_t,
    Member ''total_time_enabled'' t_u64,
    Member ''total_time_running'' t_u64,
    Member ''tstamp'' t_u64,
    Member ''attr'' struct_perf_event_attr,
    Member ''header_size'' t_u16,
    Member ''id_header_size'' t_u16,
    Member ''read_size'' t_u16,
    Member ''hw'' struct_hw_perf_event,
    Member ''ctx'' (Ptr ''struct perf_event_context *''),
    Member ''pmu_ctx'' (Ptr ''struct perf_event_pmu_context *''),
    Member ''refcount'' t_atomic_long_t,
    Member ''child_total_time_enabled'' t_atomic64_t,
    Member ''child_total_time_running'' t_atomic64_t,
    Member ''child_mutex'' struct_mutex,
    Member ''child_list'' struct_list_head,
    Member ''parent'' (Ptr ''struct perf_event *''),
    Member ''oncpu'' c_int,
    Member ''cpu'' c_int,
    Member ''owner_entry'' struct_list_head,
    Member ''owner'' (Ptr ''struct task_struct *''),
    Member ''mmap_mutex'' struct_mutex,
    Member ''mmap_count'' t_atomic_t,
    Member ''rb'' (Ptr ''struct perf_buffer *''),
    Member ''rb_entry'' struct_list_head,
    Member ''rcu_batches'' c_unsigned_long,
    Member ''rcu_pending'' c_int,
    Member ''waitq'' t_wait_queue_head_t,
    Member ''fasync'' (Ptr ''struct fasync_struct *''),
    Member ''pending_wakeup'' c_unsigned_int,
    Member ''pending_kill'' c_unsigned_int,
    Member ''pending_disable'' c_unsigned_int,
    Member ''pending_addr'' c_unsigned_long,
    Member ''pending_irq'' struct_irq_work,
    Member ''pending_disable_irq'' struct_irq_work,
    Member ''pending_task'' struct_callback_head,
    Member ''pending_work'' c_unsigned_int,
    Member ''event_limit'' t_atomic_t,
    Member ''addr_filters'' struct_perf_addr_filters_head,
    Member ''addr_filter_ranges'' (Ptr ''struct perf_addr_filter_range *''),
    Member ''addr_filters_gen'' c_unsigned_long,
    Member ''aux_event'' (Ptr ''struct perf_event *''),
    Member ''destroy'' (Ptr ''void (*)(struct perf_event *)''),
    Member ''callback_head'' struct_callback_head,
    Member ''ns'' (Ptr ''struct pid_namespace *''),
    Member ''id'' t_u64,
    Member ''lost_samples'' t_atomic64_t,
    Member ''clock'' (Ptr ''u64 (*)(void)''),
    Member ''overflow_handler'' t_perf_overflow_handler_t,
    Member ''overflow_handler_context'' (Ptr ''void *''),
    Member ''prog'' (Ptr ''struct bpf_prog *''),
    Member ''bpf_cookie'' t_u64,
    Member ''tp_event'' (Ptr ''struct trace_event_call *''),
    Member ''filter'' (Ptr ''struct event_filter *''),
    Member ''ftrace_ops'' struct_ftrace_ops,
    Member ''cgrp'' (Ptr ''struct perf_cgroup *''),
    Member ''security'' (Ptr ''void *''),
    Member ''sb_list'' struct_list_head,
    Member ''pmu_list'' struct_list_head,
    Member ''orig_type'' t_u32]"

definition struct_bpf_tramp_link :: ctype where
  "struct_bpf_tramp_link = Comp Struct False [
    Member ''link'' struct_bpf_link,
    Member ''tramp_hlist'' struct_hlist_node,
    Member ''cookie'' t_u64]"

definition struct_bpf_tracing_link :: ctype where
  "struct_bpf_tracing_link = Comp Struct False [
    Member ''link'' struct_bpf_tramp_link,
    Member ''trampoline'' (Ptr ''struct bpf_trampoline *''),
    Member ''tgt_prog'' (Ptr ''struct bpf_prog *'')]"

definition struct_bpf_perf_link :: ctype where
  "struct_bpf_perf_link = Comp Struct False [
    Member ''link'' struct_bpf_link,
    Member ''perf_file'' (Ptr ''struct file *'')]"

definition struct_bpf_xdp_link :: ctype where
  "struct_bpf_xdp_link = Comp Struct False [
    Member ''link'' struct_bpf_link,
    Member ''dev'' (Ptr ''struct net_device *''),
    Member ''flags'' c_int]"

definition struct_bpf_run_ctx :: ctype where
  "struct_bpf_run_ctx = Comp Struct False []"

definition struct_bpf_trace_run_ctx :: ctype where
  "struct_bpf_trace_run_ctx = Comp Struct False [
    Member ''run_ctx'' struct_bpf_run_ctx,
    Member ''bpf_cookie'' t_u64,
    Member ''is_uprobe'' t_bool]"

definition struct_user_pt_regs :: ctype where
  "struct_user_pt_regs = Comp Struct False [
    Member ''regs'' (Array 31 t___u64),
    Member ''sp'' t___u64,
    Member ''pc'' t___u64,
    Member ''pstate'' t___u64]"

definition struct_frame_record :: ctype where
  "struct_frame_record = Comp Struct False [
    Member ''fp'' t_u64,
    Member ''lr'' t_u64]"

definition struct_frame_record_meta :: ctype where
  "struct_frame_record_meta = Comp Struct False [
    Member ''record'' struct_frame_record,
    Member ''type'' t_u64]"

definition struct_pt_regs :: ctype where
  "struct_pt_regs = Comp Struct False [
    Member '''' (Comp Union False [
      Member ''user_regs'' struct_user_pt_regs,
      Member '''' (Comp Struct False [
        Member ''regs'' (Array 31 t_u64),
        Member ''sp'' t_u64,
        Member ''pc'' t_u64,
        Member ''pstate'' t_u64])]),
    Member ''orig_x0'' t_u64,
    Member ''syscallno'' t_s32,
    Member ''pmr'' t_u32,
    Member ''sdei_ttbr1'' t_u64,
    Member ''stackframe'' struct_frame_record_meta,
    Member ''lockdep_hardirqs'' t_u64,
    Member ''exit_rcu'' t_u64]"

definition struct_lockdep_map :: ctype where
  "struct_lockdep_map = Comp Struct False []"

definition struct_srcu_struct :: ctype where
  "struct_srcu_struct = Comp Struct False [
    Member ''srcu_ctrp'' (Ptr ''struct srcu_ctr *''),
    Member ''sda'' (Ptr ''struct srcu_data *''),
    Member ''dep_map'' struct_lockdep_map,
    Member ''srcu_sup'' (Ptr ''struct srcu_usage *'')]"

definition struct_rtnl_link_ops :: ctype where
  "struct_rtnl_link_ops = Comp Struct False [
    Member ''list'' struct_list_head,
    Member ''srcu'' struct_srcu_struct,
    Member ''kind'' (Ptr ''char *''),
    Member ''priv_size'' t_size_t,
    Member ''alloc'' (Ptr ''struct net_device * (*)(struct nlattr **, const char *, unsigned char, unsigned int, unsigned int)''),
    Member ''setup'' (Ptr ''void (*)(struct net_device *)''),
    Member ''netns_refund'' t_bool,
    Member ''peer_type'' t_u16,
    Member ''maxtype'' c_unsigned_int,
    Member ''policy'' (Ptr ''struct nla_policy *''),
    Member ''validate'' (Ptr ''int (*)(struct nlattr **, struct nlattr **, struct netlink_ext_ack *)''),
    Member ''newlink'' (Ptr ''int (*)(struct net_device *, struct rtnl_newlink_params *, struct netlink_ext_ack *)''),
    Member ''changelink'' (Ptr ''int (*)(struct net_device *, struct nlattr **, struct nlattr **, struct netlink_ext_ack *)''),
    Member ''dellink'' (Ptr ''void (*)(struct net_device *, struct list_head *)''),
    Member ''get_size'' (Ptr ''size_t (*)(const struct net_device *)''),
    Member ''fill_info'' (Ptr ''int (*)(struct sk_buff *, const struct net_device *)''),
    Member ''get_xstats_size'' (Ptr ''size_t (*)(const struct net_device *)''),
    Member ''fill_xstats'' (Ptr ''int (*)(struct sk_buff *, const struct net_device *)''),
    Member ''get_num_tx_queues'' (Ptr ''unsigned int (*)(void)''),
    Member ''get_num_rx_queues'' (Ptr ''unsigned int (*)(void)''),
    Member ''slave_maxtype'' c_unsigned_int,
    Member ''slave_policy'' (Ptr ''struct nla_policy *''),
    Member ''slave_changelink'' (Ptr ''int (*)(struct net_device *, struct net_device *, struct nlattr **, struct nlattr **, struct netlink_ext_ack *)''),
    Member ''get_slave_size'' (Ptr ''size_t (*)(const struct net_device *, const struct net_device *)''),
    Member ''fill_slave_info'' (Ptr ''int (*)(struct sk_buff *, const struct net_device *, const struct net_device *)''),
    Member ''get_link_net'' (Ptr ''struct net * (*)(const struct net_device *)''),
    Member ''get_linkxstats_size'' (Ptr ''size_t (*)(const struct net_device *, int)''),
    Member ''fill_linkxstats'' (Ptr ''int (*)(struct sk_buff *, const struct net_device *, int *, int)'')]"

definition t_rtnl_doit_func :: ctype where
  "t_rtnl_doit_func = Ptr ''int (*)(struct sk_buff *, struct nlmsghdr *, struct netlink_ext_ack *)''"

definition t_rtnl_dumpit_func :: ctype where
  "t_rtnl_dumpit_func = Ptr ''int (*)(struct sk_buff *, struct netlink_callback *)''"

definition struct_rtnl_link :: ctype where
  "struct_rtnl_link = Comp Struct False [
    Member ''doit'' t_rtnl_doit_func,
    Member ''dumpit'' t_rtnl_dumpit_func,
    Member ''owner'' (Ptr ''struct module *''),
    Member ''flags'' c_unsigned_int,
    Member ''rcu'' struct_callback_head]"

definition struct_nlmsghdr :: ctype where
  "struct_nlmsghdr = Comp Struct False [
    Member ''nlmsg_len'' t___u32,
    Member ''nlmsg_type'' t___u16,
    Member ''nlmsg_flags'' t___u16,
    Member ''nlmsg_seq'' t___u32,
    Member ''nlmsg_pid'' t___u32]"

definition struct_nlattr :: ctype where
  "struct_nlattr = Comp Struct False [
    Member ''nla_len'' t___u16,
    Member ''nla_type'' t___u16]"

definition struct_netlink_ext_ack :: ctype where
  "struct_netlink_ext_ack = Comp Struct False [
    Member ''_msg'' (Ptr ''char *''),
    Member ''bad_attr'' (Ptr ''struct nlattr *''),
    Member ''policy'' (Ptr ''struct nla_policy *''),
    Member ''miss_nest'' (Ptr ''struct nlattr *''),
    Member ''miss_type'' t_u16,
    Member ''cookie'' (Array 8 t_u8),
    Member ''cookie_len'' t_u8,
    Member ''_msg_buf'' (Array 80 c_char)]"

definition struct_in_ifaddr :: ctype where
  "struct_in_ifaddr = Comp Struct False [
    Member ''addr_lst'' struct_hlist_node,
    Member ''ifa_next'' (Ptr ''struct in_ifaddr *''),
    Member ''ifa_dev'' (Ptr ''struct in_device *''),
    Member ''callback_head'' struct_callback_head,
    Member ''ifa_local'' t___be32,
    Member ''ifa_address'' t___be32,
    Member ''ifa_mask'' t___be32,
    Member ''ifa_rt_priority'' t___u32,
    Member ''ifa_broadcast'' t___be32,
    Member ''ifa_scope'' c_unsigned_char,
    Member ''ifa_prefixlen'' c_unsigned_char,
    Member ''ifa_proto'' c_unsigned_char,
    Member ''ifa_flags'' t___u32,
    Member ''ifa_label'' (Array 16 c_char),
    Member ''ifa_valid_lft'' t___u32,
    Member ''ifa_preferred_lft'' t___u32,
    Member ''ifa_cstamp'' c_unsigned_long,
    Member ''ifa_tstamp'' c_unsigned_long]"

definition struct_inet6_ifaddr :: ctype where
  "struct_inet6_ifaddr = Comp Struct False [
    Member ''addr'' struct_in6_addr,
    Member ''prefix_len'' t___u32,
    Member ''rt_priority'' t___u32,
    Member ''valid_lft'' t___u32,
    Member ''prefered_lft'' t___u32,
    Member ''refcnt'' t_refcount_t,
    Member ''lock'' t_spinlock_t,
    Member ''state'' c_int,
    Member ''flags'' t___u32,
    Member ''dad_probes'' t___u8,
    Member ''stable_privacy_retry'' t___u8,
    Member ''scope'' t___u16,
    Member ''dad_nonce'' t___u64,
    Member ''cstamp'' c_unsigned_long,
    Member ''tstamp'' c_unsigned_long,
    Member ''dad_work'' struct_delayed_work,
    Member ''idev'' (Ptr ''struct inet6_dev *''),
    Member ''rt'' (Ptr ''struct fib6_info *''),
    Member ''addr_lst'' struct_hlist_node,
    Member ''if_list'' struct_list_head,
    Member ''if_list_aux'' struct_list_head,
    Member ''tmp_list'' struct_list_head,
    Member ''ifpub'' (Ptr ''struct inet6_ifaddr *''),
    Member ''regen_count'' c_int,
    Member ''tokenized'' t_bool,
    Member ''ifa_proto'' t_u8,
    Member ''rcu'' struct_callback_head,
    Member ''peer_addr'' struct_in6_addr]"

definition struct_hh_cache :: ctype where
  "struct_hh_cache = Comp Struct False [
    Member ''hh_len'' c_unsigned_int,
    Member ''hh_lock'' t_seqlock_t,
    Member ''hh_data'' (Array 12 c_unsigned_long)]"

definition struct_neighbour :: ctype where
  "struct_neighbour = Comp Struct False [
    Member ''hash'' struct_hlist_node,
    Member ''dev_list'' struct_hlist_node,
    Member ''tbl'' (Ptr ''struct neigh_table *''),
    Member ''parms'' (Ptr ''struct neigh_parms *''),
    Member ''confirmed'' c_unsigned_long,
    Member ''updated'' c_unsigned_long,
    Member ''lock'' t_rwlock_t,
    Member ''refcnt'' t_refcount_t,
    Member ''arp_queue_len_bytes'' c_unsigned_int,
    Member ''arp_queue'' struct_sk_buff_head,
    Member ''timer'' struct_timer_list,
    Member ''used'' c_unsigned_long,
    Member ''probes'' t_atomic_t,
    Member ''nud_state'' t_u8,
    Member ''type'' t_u8,
    Member ''dead'' t_u8,
    Member ''protocol'' t_u8,
    Member ''flags'' t_u32,
    Member ''ha_lock'' t_seqlock_t,
    BitField '''' c_long 0,
    Member ''ha'' (Array 32 c_unsigned_char),
    Member ''hh'' struct_hh_cache,
    Member ''output'' (Ptr ''int (*)(struct neighbour *, struct sk_buff *)''),
    Member ''ops'' (Ptr ''struct neigh_ops *''),
    Member ''gc_list'' struct_list_head,
    Member ''managed_list'' struct_list_head,
    Member ''rcu'' struct_callback_head,
    Member ''dev'' (Ptr ''struct net_device *''),
    Member ''dev_tracker'' t_netdevice_tracker,
    Member ''primary_key'' (Array 0 t_u8)]"

definition struct_btf_header :: ctype where
  "struct_btf_header = Comp Struct False [
    Member ''magic'' t___u16,
    Member ''version'' t___u8,
    Member ''flags'' t___u8,
    Member ''hdr_len'' t___u32,
    Member ''type_off'' t___u32,
    Member ''type_len'' t___u32,
    Member ''str_off'' t___u32,
    Member ''str_len'' t___u32]"

definition struct_btf :: ctype where
  "struct_btf = Comp Struct False [
    Member ''data'' (Ptr ''void *''),
    Member ''types'' (Ptr ''struct btf_type **''),
    Member ''resolved_ids'' (Ptr ''u32 *''),
    Member ''resolved_sizes'' (Ptr ''u32 *''),
    Member ''strings'' (Ptr ''char *''),
    Member ''nohdr_data'' (Ptr ''void *''),
    Member ''hdr'' struct_btf_header,
    Member ''nr_types'' t_u32,
    Member ''types_size'' t_u32,
    Member ''data_size'' t_u32,
    Member ''refcnt'' t_refcount_t,
    Member ''id'' t_u32,
    Member ''rcu'' struct_callback_head,
    Member ''kfunc_set_tab'' (Ptr ''struct btf_kfunc_set_tab *''),
    Member ''dtor_kfunc_tab'' (Ptr ''struct btf_id_dtor_kfunc_tab *''),
    Member ''struct_meta_tab'' (Ptr ''struct btf_struct_metas *''),
    Member ''struct_ops_tab'' (Ptr ''struct btf_struct_ops_tab *''),
    Member ''base_btf'' (Ptr ''struct btf *''),
    Member ''start_id'' t_u32,
    Member ''start_str_off'' t_u32,
    Member ''name'' (Array 56 c_char),
    Member ''kernel_btf'' t_bool,
    Member ''base_id_map'' (Ptr ''__u32 *'')]"

definition enum_module_state :: ctype where
  "enum_module_state = Enum False [
    (''MODULE_STATE_LIVE'', 0), (''MODULE_STATE_COMING'', 1), (''MODULE_STATE_GOING'', 2),
    (''MODULE_STATE_UNFORMED'', 3)]"

definition struct_module_kobject :: ctype where
  "struct_module_kobject = Comp Struct False [
    Member ''kobj'' struct_kobject,
    Member ''mod'' (Ptr ''struct module *''),
    Member ''drivers_dir'' (Ptr ''struct kobject *''),
    Member ''mp'' (Ptr ''struct module_param_attrs *''),
    Member ''kobj_completion'' (Ptr ''struct completion *'')]"

definition struct_mod_tree_node :: ctype where
  "struct_mod_tree_node = Comp Struct False [
    Member ''mod'' (Ptr ''struct module *''),
    Member ''node'' struct_latch_tree_node]"

definition struct_module_memory :: ctype where
  "struct_module_memory = Comp Struct False [
    Member ''base'' (Ptr ''void *''),
    Member ''is_rox'' t_bool,
    Member ''size'' c_unsigned_int,
    Member ''mtn'' struct_mod_tree_node]"

definition struct_mod_plt_sec :: ctype where
  "struct_mod_plt_sec = Comp Struct False [
    Member ''plt_shndx'' c_int,
    Member ''plt_num_entries'' c_int,
    Member ''plt_max_entries'' c_int]"

definition struct_mod_arch_specific :: ctype where
  "struct_mod_arch_specific = Comp Struct False [
    Member ''core'' struct_mod_plt_sec,
    Member ''init'' struct_mod_plt_sec,
    Member ''ftrace_trampolines'' (Ptr ''struct plt_entry *''),
    Member ''init_ftrace_trampolines'' (Ptr ''struct plt_entry *'')]"

definition struct_mod_kallsyms :: ctype where
  "struct_mod_kallsyms = Comp Struct False [
    Member ''symtab'' (Ptr ''Elf64_Sym *''),
    Member ''num_symtab'' c_unsigned_int,
    Member ''strtab'' (Ptr ''char *''),
    Member ''typetab'' (Ptr ''char *'')]"

definition struct_module :: ctype where
  "struct_module = Comp Struct False ([
    Member ''state'' enum_module_state,
    Member ''list'' struct_list_head,
    Member ''name'' (Array 56 c_char),
    Member ''mkobj'' struct_module_kobject,
    Member ''modinfo_attrs'' (Ptr ''struct module_attribute *''),
    Member ''version'' (Ptr ''char *''),
    Member ''srcversion'' (Ptr ''char *''),
    Member ''holders_dir'' (Ptr ''struct kobject *''),
    Member ''syms'' (Ptr ''struct kernel_symbol *''),
    Member ''crcs'' (Ptr ''u32 *''),
    Member ''num_syms'' c_unsigned_int,
    Member ''param_lock'' struct_mutex,
    Member ''kp'' (Ptr ''struct kernel_param *''),
    Member ''num_kp'' c_unsigned_int,
    Member ''num_gpl_syms'' c_unsigned_int,
    Member ''gpl_syms'' (Ptr ''struct kernel_symbol *''),
    Member ''gpl_crcs'' (Ptr ''u32 *''),
    Member ''using_gplonly_symbols'' t_bool,
    Member ''async_probe_requested'' t_bool,
    Member ''num_exentries'' c_unsigned_int,
    Member ''extable'' (Ptr ''struct exception_table_entry *''),
    Member ''init'' (Ptr ''int (*)(void)'')] @ replicate 8 (BitField '''' c_long 64) @ [
    Member ''mem'' (Array 7 struct_module_memory),
    Member ''arch'' struct_mod_arch_specific,
    Member ''taints'' c_unsigned_long,
    Member ''num_bugs'' c_unsigned_int,
    Member ''bug_list'' struct_list_head,
    Member ''bug_table'' (Ptr ''struct bug_entry *''),
    Member ''kallsyms'' (Ptr ''struct mod_kallsyms *''),
    Member ''core_kallsyms'' struct_mod_kallsyms,
    Member ''sect_attrs'' (Ptr ''struct module_sect_attrs *''),
    Member ''notes_attrs'' (Ptr ''struct module_notes_attrs *''),
    Member ''args'' (Ptr ''char *''),
    Member ''percpu'' (Ptr ''void *''),
    Member ''percpu_size'' c_unsigned_int,
    Member ''noinstr_text_start'' (Ptr ''void *''),
    Member ''noinstr_text_size'' c_unsigned_int,
    Member ''num_tracepoints'' c_unsigned_int,
    Member ''tracepoints_ptrs'' (Ptr ''tracepoint_ptr_t *''),
    Member ''num_srcu_structs'' c_unsigned_int,
    Member ''srcu_struct_ptrs'' (Ptr ''struct srcu_struct **''),
    Member ''num_bpf_raw_events'' c_unsigned_int,
    Member ''bpf_raw_events'' (Ptr ''struct bpf_raw_event_map *''),
    Member ''btf_data_size'' c_unsigned_int,
    Member ''btf_base_data_size'' c_unsigned_int,
    Member ''btf_data'' (Ptr ''void *''),
    Member ''btf_base_data'' (Ptr ''void *''),
    Member ''jump_entries'' (Ptr ''struct jump_entry *''),
    Member ''num_jump_entries'' c_unsigned_int,
    Member ''num_trace_bprintk_fmt'' c_unsigned_int,
    Member ''trace_bprintk_fmt_start'' (Ptr ''char **''),
    Member ''trace_events'' (Ptr ''struct trace_event_call **''),
    Member ''num_trace_events'' c_unsigned_int,
    Member ''trace_evals'' (Ptr ''struct trace_eval_map **''),
    Member ''num_trace_evals'' c_unsigned_int,
    Member ''num_ftrace_callsites'' c_unsigned_int,
    Member ''ftrace_callsites'' (Ptr ''unsigned long *''),
    Member ''kprobes_text_start'' (Ptr ''void *''),
    Member ''kprobes_text_size'' c_unsigned_int,
    Member ''kprobe_blacklist'' (Ptr ''unsigned long *''),
    Member ''num_kprobe_blacklist'' c_unsigned_int,
    Member ''source_list'' struct_list_head,
    Member ''target_list'' struct_list_head,
    Member ''exit'' (Ptr ''void (*)(void)''),
    Member ''refcnt'' t_atomic_t,
    BitField '''' c_long 64])"

end
