(* ===== verification/Vmlinux_Task.thy ===== *)
theory Vmlinux_Task
  imports Vmlinux_Hooks
begin

text \<open>
  The declarations of \<^verbatim>\<open>vmlinux.h\<close> for the task a tracepoint program interrupts: the task
  structure, memory, files and control groups, with the types they contain.
\<close>

definition struct_thread_info :: ctype where
  "struct_thread_info = Comp Struct False [
    Member ''flags'' c_unsigned_long,
    Member '''' (Comp Union False [
      Member ''preempt_count'' t_u64,
      Member ''preempt'' (Comp Struct False [
        Member ''count'' t_u32,
        Member ''need_resched'' t_u32])]),
    Member ''cpu'' t_u32]"

definition struct_load_weight :: ctype where
  "struct_load_weight = Comp Struct False [
    Member ''weight'' c_unsigned_long,
    Member ''inv_weight'' t_u32]"

definition struct_sched_avg :: ctype where
  "struct_sched_avg = Comp Struct False ([
    Member ''last_update_time'' t_u64,
    Member ''load_sum'' t_u64,
    Member ''runnable_sum'' t_u64,
    Member ''util_sum'' t_u32,
    Member ''period_contrib'' t_u32,
    Member ''load_avg'' c_unsigned_long,
    Member ''runnable_avg'' c_unsigned_long,
    Member ''util_avg'' c_unsigned_long,
    Member ''util_est'' c_unsigned_int] @ replicate 8 (BitField '''' c_long 64))"

definition struct_sched_entity :: ctype where
  "struct_sched_entity = Comp Struct False ([
    Member ''load'' struct_load_weight,
    Member ''run_node'' struct_rb_node,
    Member ''deadline'' t_u64,
    Member ''min_vruntime'' t_u64,
    Member ''min_slice'' t_u64,
    Member ''group_node'' struct_list_head,
    Member ''on_rq'' c_unsigned_char,
    Member ''sched_delayed'' c_unsigned_char,
    Member ''rel_deadline'' c_unsigned_char,
    Member ''custom_slice'' c_unsigned_char,
    Member ''exec_start'' t_u64,
    Member ''sum_exec_runtime'' t_u64,
    Member ''prev_sum_exec_runtime'' t_u64,
    Member ''vruntime'' t_u64,
    Member '''' (Comp Union False [
      Member ''vlag'' t_s64,
      Member ''vprot'' t_u64]),
    Member ''slice'' t_u64,
    Member ''nr_migrations'' t_u64,
    Member ''depth'' c_int,
    Member ''parent'' (Ptr ''struct sched_entity *''),
    Member ''cfs_rq'' (Ptr ''struct cfs_rq *''),
    Member ''my_q'' (Ptr ''struct cfs_rq *''),
    Member ''runnable_weight'' c_unsigned_long] @ replicate 9 (BitField '''' c_long 64) @ [
    Member ''avg'' struct_sched_avg])"

definition struct_sched_rt_entity :: ctype where
  "struct_sched_rt_entity = Comp Struct False [
    Member ''run_list'' struct_list_head,
    Member ''timeout'' c_unsigned_long,
    Member ''watchdog_stamp'' c_unsigned_long,
    Member ''time_slice'' c_unsigned_int,
    Member ''on_rq'' c_unsigned_short,
    Member ''on_list'' c_unsigned_short,
    Member ''back'' (Ptr ''struct sched_rt_entity *'')]"

definition t_dl_server_pick_f :: ctype where
  "t_dl_server_pick_f = Ptr ''struct task_struct * (*)(struct sched_dl_entity *)''"

definition struct_sched_dl_entity :: ctype where
  "struct_sched_dl_entity = Comp Struct False [
    Member ''rb_node'' struct_rb_node,
    Member ''dl_runtime'' t_u64,
    Member ''dl_deadline'' t_u64,
    Member ''dl_period'' t_u64,
    Member ''dl_bw'' t_u64,
    Member ''dl_density'' t_u64,
    Member ''runtime'' t_s64,
    Member ''deadline'' t_u64,
    Member ''flags'' c_unsigned_int,
    BitField ''dl_throttled'' c_unsigned_int 1,
    BitField ''dl_yielded'' c_unsigned_int 1,
    BitField ''dl_non_contending'' c_unsigned_int 1,
    BitField ''dl_overrun'' c_unsigned_int 1,
    BitField ''dl_server'' c_unsigned_int 1,
    BitField ''dl_server_active'' c_unsigned_int 1,
    BitField ''dl_defer'' c_unsigned_int 1,
    BitField ''dl_defer_armed'' c_unsigned_int 1,
    BitField ''dl_defer_running'' c_unsigned_int 1,
    Member ''dl_timer'' struct_hrtimer,
    Member ''inactive_timer'' struct_hrtimer,
    Member ''rq'' (Ptr ''struct rq *''),
    Member ''server_pick_task'' t_dl_server_pick_f,
    Member ''pi_se'' (Ptr ''struct sched_dl_entity *'')]"

definition struct_sched_statistics :: ctype where
  "struct_sched_statistics = Comp Struct False []"

definition struct_cpumask :: ctype where
  "struct_cpumask = Comp Struct False [
    Member ''bits'' (Array 1 c_unsigned_long)]"

definition t_cpumask_t :: ctype where
  "t_cpumask_t = struct_cpumask"

definition union_rcu_special :: ctype where
  "union_rcu_special = Comp Union False [
    Member ''b'' (Comp Struct False [
      Member ''blocked'' t_u8,
      Member ''need_qs'' t_u8,
      Member ''exp_hint'' t_u8,
      Member ''need_mb'' t_u8]),
    Member ''s'' t_u32]"

definition struct_sched_info :: ctype where
  "struct_sched_info = Comp Struct False [
    Member ''pcount'' c_unsigned_long,
    Member ''run_delay'' c_unsigned_long_long,
    Member ''max_run_delay'' c_unsigned_long_long,
    Member ''min_run_delay'' c_unsigned_long_long,
    Member ''last_arrival'' c_unsigned_long_long,
    Member ''last_queued'' c_unsigned_long_long]"

definition struct_plist_node :: ctype where
  "struct_plist_node = Comp Struct False [
    Member ''prio'' c_int,
    Member ''prio_list'' struct_list_head,
    Member ''node_list'' struct_list_head]"

definition t___kernel_clockid_t :: ctype where
  "t___kernel_clockid_t = c_int"

definition t_clockid_t :: ctype where
  "t_clockid_t = t___kernel_clockid_t"

definition enum_timespec_type :: ctype where
  "enum_timespec_type = Enum False [
    (''TT_NONE'', 0), (''TT_NATIVE'', 1), (''TT_COMPAT'', 2)]"

definition struct_restart_block :: ctype where
  "struct_restart_block = Comp Struct False [
    Member ''arch_data'' c_unsigned_long,
    Member ''fn'' (Ptr ''long (*)(struct restart_block *)''),
    Member '''' (Comp Union False [
      Member ''futex'' (Comp Struct False [
        Member ''uaddr'' (Ptr ''u32 *''),
        Member ''val'' t_u32,
        Member ''flags'' t_u32,
        Member ''bitset'' t_u32,
        Member ''time'' t_u64,
        Member ''uaddr2'' (Ptr ''u32 *'')]),
      Member ''nanosleep'' (Comp Struct False [
        Member ''clockid'' t_clockid_t,
        Member ''type'' enum_timespec_type,
        Member '''' (Comp Union False [
          Member ''rmtp'' (Ptr ''struct __kernel_timespec *''),
          Member ''compat_rmtp'' (Ptr ''struct old_timespec32 *'')]),
        Member ''expires'' t_u64]),
      Member ''poll'' (Comp Struct False [
        Member ''ufds'' (Ptr ''struct pollfd *''),
        Member ''nfds'' c_int,
        Member ''has_timeout'' c_int,
        Member ''tv_sec'' c_unsigned_long,
        Member ''tv_nsec'' c_unsigned_long])])]"

definition t___kernel_pid_t :: ctype where
  "t___kernel_pid_t = c_int"

definition t_pid_t :: ctype where
  "t_pid_t = t___kernel_pid_t"

definition struct_prev_cputime :: ctype where
  "struct_prev_cputime = Comp Struct False [
    Member ''utime'' t_u64,
    Member ''stime'' t_u64,
    Member ''lock'' t_raw_spinlock_t]"

definition struct_rb_root_cached :: ctype where
  "struct_rb_root_cached = Comp Struct False [
    Member ''rb_root'' struct_rb_root,
    Member ''rb_leftmost'' (Ptr ''struct rb_node *'')]"

definition struct_timerqueue_head :: ctype where
  "struct_timerqueue_head = Comp Struct False [
    Member ''rb_root'' struct_rb_root_cached]"

definition struct_posix_cputimer_base :: ctype where
  "struct_posix_cputimer_base = Comp Struct False [
    Member ''nextevt'' t_u64,
    Member ''tqhead'' struct_timerqueue_head]"

definition struct_posix_cputimers :: ctype where
  "struct_posix_cputimers = Comp Struct False [
    Member ''bases'' (Array 3 struct_posix_cputimer_base),
    Member ''timers_active'' c_unsigned_int,
    Member ''expiry_active'' c_unsigned_int]"

definition struct_posix_cputimers_work :: ctype where
  "struct_posix_cputimers_work = Comp Struct False [
    Member ''work'' struct_callback_head,
    Member ''mutex'' struct_mutex,
    Member ''scheduled'' c_unsigned_int]"

definition struct_sysv_sem :: ctype where
  "struct_sysv_sem = Comp Struct False [
    Member ''undo_list'' (Ptr ''struct sem_undo_list *'')]"

definition struct_sysv_shm :: ctype where
  "struct_sysv_shm = Comp Struct False [
    Member ''shm_clist'' struct_list_head]"

definition t_sigset_t :: ctype where
  "t_sigset_t = Comp Struct False [
    Member ''sig'' (Array 1 c_unsigned_long)]"

definition struct_sigpending :: ctype where
  "struct_sigpending = Comp Struct False [
    Member ''list'' struct_list_head,
    Member ''signal'' t_sigset_t]"

definition struct_seccomp :: ctype where
  "struct_seccomp = Comp Struct False [
    Member ''mode'' c_int,
    Member ''filter_count'' t_atomic_t,
    Member ''filter'' (Ptr ''struct seccomp_filter *'')]"

definition struct_syscall_user_dispatch :: ctype where
  "struct_syscall_user_dispatch = Comp Struct False []"

definition struct_wake_q_node :: ctype where
  "struct_wake_q_node = Comp Struct False [
    Member ''next'' (Ptr ''struct wake_q_node *'')]"

definition struct_task_io_accounting :: ctype where
  "struct_task_io_accounting = Comp Struct False [
    Member ''rchar'' t_u64,
    Member ''wchar'' t_u64,
    Member ''syscr'' t_u64,
    Member ''syscw'' t_u64,
    Member ''read_bytes'' t_u64,
    Member ''write_bytes'' t_u64,
    Member ''cancelled_write_bytes'' t_u64]"

definition t_nodemask_t :: ctype where
  "t_nodemask_t = Comp Struct False [
    Member ''bits'' (Array 1 c_unsigned_long)]"

definition struct_arch_tlbflush_unmap_batch :: ctype where
  "struct_arch_tlbflush_unmap_batch = Comp Struct False []"

definition struct_tlbflush_unmap_batch :: ctype where
  "struct_tlbflush_unmap_batch = Comp Struct False [
    Member ''arch'' struct_arch_tlbflush_unmap_batch,
    Member ''flush_required'' t_bool,
    Member ''writable'' t_bool]"

definition struct_kmap_ctrl :: ctype where
  "struct_kmap_ctrl = Comp Struct False []"

definition struct_cpu_context :: ctype where
  "struct_cpu_context = Comp Struct False [
    Member ''x19'' c_unsigned_long,
    Member ''x20'' c_unsigned_long,
    Member ''x21'' c_unsigned_long,
    Member ''x22'' c_unsigned_long,
    Member ''x23'' c_unsigned_long,
    Member ''x24'' c_unsigned_long,
    Member ''x25'' c_unsigned_long,
    Member ''x26'' c_unsigned_long,
    Member ''x27'' c_unsigned_long,
    Member ''x28'' c_unsigned_long,
    Member ''fp'' c_unsigned_long,
    Member ''sp'' c_unsigned_long,
    Member ''pc'' c_unsigned_long]"

definition t___uint128_t :: ctype where
  "t___uint128_t = c_unsigned_int128"

definition struct_user_fpsimd_state :: ctype where
  "struct_user_fpsimd_state = Comp Struct False [
    Member ''vregs'' (Array 32 t___uint128_t),
    Member ''fpsr'' t___u32,
    Member ''fpcr'' t___u32,
    Member ''__reserved'' (Array 2 t___u32)]"

definition enum_fp_type :: ctype where
  "enum_fp_type = Enum False [
    (''FP_STATE_CURRENT'', 0), (''FP_STATE_FPSIMD'', 1), (''FP_STATE_SVE'', 2)]"

definition struct_debug_info :: ctype where
  "struct_debug_info = Comp Struct False [
    Member ''suspended_step'' c_int,
    Member ''bps_disabled'' c_int,
    Member ''wps_disabled'' c_int,
    Member ''hbp_break'' (Array 16 (Ptr ''struct perf_event *'')),
    Member ''hbp_watch'' (Array 16 (Ptr ''struct perf_event *''))]"

definition struct_thread_struct :: ctype where
  "struct_thread_struct = Comp Struct False [
    Member ''cpu_context'' struct_cpu_context,
    BitField '''' c_long 64,
    Member ''uw'' (Comp Struct False [
      Member ''tp_value'' c_unsigned_long,
      Member ''tp2_value'' c_unsigned_long,
      Member ''fpmr'' t_u64,
      Member ''pad'' c_unsigned_long,
      Member ''fpsimd_state'' struct_user_fpsimd_state]),
    Member ''fp_type'' enum_fp_type,
    Member ''fpsimd_cpu'' c_unsigned_int,
    Member ''sve_state'' (Ptr ''void *''),
    Member ''sme_state'' (Ptr ''void *''),
    Member ''vl'' (Array 2 c_unsigned_int),
    Member ''vl_onexec'' (Array 2 c_unsigned_int),
    Member ''fault_address'' c_unsigned_long,
    Member ''fault_code'' c_unsigned_long,
    Member ''debug'' struct_debug_info,
    BitField '''' c_long 64,
    Member ''kernel_fpsimd_state'' struct_user_fpsimd_state,
    Member ''kernel_fpsimd_cpu'' c_unsigned_int,
    Member ''sctlr_user'' t_u64,
    Member ''svcr'' t_u64,
    Member ''tpidr2_el0'' t_u64,
    Member ''por_el0'' t_u64,
    Member ''actlr'' t_u64]"

definition struct_task_struct :: ctype where
  "struct_task_struct = Comp Struct False ([
    Member ''thread_info'' struct_thread_info,
    Member ''__state'' c_unsigned_int,
    Member ''saved_state'' c_unsigned_int,
    Member ''stack'' (Ptr ''void *''),
    Member ''usage'' t_refcount_t,
    Member ''flags'' c_unsigned_int,
    Member ''ptrace'' c_unsigned_int,
    Member ''on_cpu'' c_int,
    Member ''wake_entry'' struct___call_single_node,
    Member ''wakee_flips'' c_unsigned_int,
    Member ''wakee_flip_decay_ts'' c_unsigned_long,
    Member ''last_wakee'' (Ptr ''struct task_struct *''),
    Member ''recent_used_cpu'' c_int,
    Member ''wake_cpu'' c_int,
    Member ''on_rq'' c_int,
    Member ''prio'' c_int,
    Member ''static_prio'' c_int,
    Member ''normal_prio'' c_int,
    Member ''rt_priority'' c_unsigned_int,
    Member ''se'' struct_sched_entity,
    Member ''rt'' struct_sched_rt_entity,
    Member ''dl'' struct_sched_dl_entity,
    Member ''dl_server'' (Ptr ''struct sched_dl_entity *''),
    Member ''sched_class'' (Ptr ''struct sched_class *''),
    Member ''sched_task_group'' (Ptr ''struct task_group *'')] @ replicate 9 (BitField '''' c_long 64) @ [
    Member ''stats'' struct_sched_statistics,
    Member ''policy'' c_unsigned_int,
    Member ''max_allowed_capacity'' c_unsigned_long,
    Member ''nr_cpus_allowed'' c_int,
    Member ''cpus_ptr'' (Ptr ''cpumask_t *''),
    Member ''user_cpus_ptr'' (Ptr ''cpumask_t *''),
    Member ''cpus_mask'' t_cpumask_t,
    Member ''migration_pending'' (Ptr ''void *''),
    Member ''migration_disabled'' c_unsigned_short,
    Member ''migration_flags'' c_unsigned_short,
    Member ''rcu_tasks_nvcsw'' c_unsigned_long,
    Member ''rcu_tasks_holdout'' t_u8,
    Member ''rcu_tasks_idx'' t_u8,
    Member ''rcu_tasks_idle_cpu'' c_int,
    Member ''rcu_tasks_holdout_list'' struct_list_head,
    Member ''rcu_tasks_exit_cpu'' c_int,
    Member ''rcu_tasks_exit_list'' struct_list_head,
    Member ''trc_reader_nesting'' c_int,
    Member ''trc_ipi_to_cpu'' c_int,
    Member ''trc_reader_special'' union_rcu_special,
    Member ''trc_holdout_list'' struct_list_head,
    Member ''trc_blkd_node'' struct_list_head,
    Member ''trc_blkd_cpu'' c_int,
    Member ''sched_info'' struct_sched_info,
    Member ''tasks'' struct_list_head,
    Member ''pushable_tasks'' struct_plist_node,
    Member ''pushable_dl_tasks'' struct_rb_node,
    Member ''mm'' (Ptr ''struct mm_struct *''),
    Member ''active_mm'' (Ptr ''struct mm_struct *''),
    Member ''faults_disabled_mapping'' (Ptr ''struct address_space *''),
    Member ''exit_state'' c_int,
    Member ''exit_code'' c_int,
    Member ''exit_signal'' c_int,
    Member ''pdeath_signal'' c_int,
    Member ''jobctl'' c_unsigned_long,
    Member ''personality'' c_unsigned_int,
    BitField ''sched_reset_on_fork'' c_unsigned_int 1,
    BitField ''sched_contributes_to_load'' c_unsigned_int 1,
    BitField ''sched_migrated'' c_unsigned_int 1,
    BitField ''sched_task_hot'' c_unsigned_int 1,
    BitField '''' c_long 28,
    BitField ''sched_remote_wakeup'' c_unsigned_int 1,
    BitField ''sched_rt_mutex'' c_unsigned_int 1,
    BitField ''in_execve'' c_unsigned_int 1,
    BitField ''in_iowait'' c_unsigned_int 1,
    BitField ''in_lru_fault'' c_unsigned_int 1,
    BitField ''no_cgroup_migration'' c_unsigned_int 1,
    BitField ''frozen'' c_unsigned_int 1,
    BitField ''use_memdelay'' c_unsigned_int 1,
    BitField ''in_eventfd'' c_unsigned_int 1,
    BitField ''in_thrashing'' c_unsigned_int 1,
    BitField ''in_nf_duplicate'' c_unsigned_int 1,
    Member ''atomic_flags'' c_unsigned_long,
    Member ''restart_block'' struct_restart_block,
    Member ''pid'' t_pid_t,
    Member ''tgid'' t_pid_t,
    Member ''stack_canary'' c_unsigned_long,
    Member ''real_parent'' (Ptr ''struct task_struct *''),
    Member ''parent'' (Ptr ''struct task_struct *''),
    Member ''children'' struct_list_head,
    Member ''sibling'' struct_list_head,
    Member ''group_leader'' (Ptr ''struct task_struct *''),
    Member ''ptraced'' struct_list_head,
    Member ''ptrace_entry'' struct_list_head,
    Member ''thread_pid'' (Ptr ''struct pid *''),
    Member ''pid_links'' (Array 4 struct_hlist_node),
    Member ''thread_node'' struct_list_head,
    Member ''vfork_done'' (Ptr ''struct completion *''),
    Member ''set_child_tid'' (Ptr ''int *''),
    Member ''clear_child_tid'' (Ptr ''int *''),
    Member ''worker_private'' (Ptr ''void *''),
    Member ''utime'' t_u64,
    Member ''stime'' t_u64,
    Member ''gtime'' t_u64,
    Member ''prev_cputime'' struct_prev_cputime,
    Member ''nvcsw'' c_unsigned_long,
    Member ''nivcsw'' c_unsigned_long,
    Member ''start_time'' t_u64,
    Member ''start_boottime'' t_u64,
    Member ''min_flt'' c_unsigned_long,
    Member ''maj_flt'' c_unsigned_long,
    Member ''posix_cputimers'' struct_posix_cputimers,
    Member ''posix_cputimers_work'' struct_posix_cputimers_work,
    Member ''ptracer_cred'' (Ptr ''struct cred *''),
    Member ''real_cred'' (Ptr ''struct cred *''),
    Member ''cred'' (Ptr ''struct cred *''),
    Member ''cached_requested_key'' (Ptr ''struct key *''),
    Member ''comm'' (Array 16 c_char),
    Member ''nameidata'' (Ptr ''struct nameidata *''),
    Member ''sysvsem'' struct_sysv_sem,
    Member ''sysvshm'' struct_sysv_shm,
    Member ''fs'' (Ptr ''struct fs_struct *''),
    Member ''files'' (Ptr ''struct files_struct *''),
    Member ''io_uring'' (Ptr ''struct io_uring_task *''),
    Member ''nsproxy'' (Ptr ''struct nsproxy *''),
    Member ''signal'' (Ptr ''struct signal_struct *''),
    Member ''sighand'' (Ptr ''struct sighand_struct *''),
    Member ''blocked'' t_sigset_t,
    Member ''real_blocked'' t_sigset_t,
    Member ''saved_sigmask'' t_sigset_t,
    Member ''pending'' struct_sigpending,
    Member ''sas_ss_sp'' c_unsigned_long,
    Member ''sas_ss_size'' t_size_t,
    Member ''sas_ss_flags'' c_unsigned_int,
    Member ''task_works'' (Ptr ''struct callback_head *''),
    Member ''seccomp'' struct_seccomp,
    Member ''syscall_dispatch'' struct_syscall_user_dispatch,
    Member ''parent_exec_id'' t_u64,
    Member ''self_exec_id'' t_u64,
    Member ''alloc_lock'' t_spinlock_t,
    Member ''pi_lock'' t_raw_spinlock_t,
    Member ''wake_q'' struct_wake_q_node,
    Member ''pi_waiters'' struct_rb_root_cached,
    Member ''pi_top_task'' (Ptr ''struct task_struct *''),
    Member ''pi_blocked_on'' (Ptr ''struct rt_mutex_waiter *''),
    Member ''blocked_on'' (Ptr ''struct mutex *''),
    Member ''journal_info'' (Ptr ''void *''),
    Member ''bio_list'' (Ptr ''struct bio_list *''),
    Member ''plug'' (Ptr ''struct blk_plug *''),
    Member ''reclaim_state'' (Ptr ''struct reclaim_state *''),
    Member ''io_context'' (Ptr ''struct io_context *''),
    Member ''capture_control'' (Ptr ''struct capture_control *''),
    Member ''ptrace_message'' c_unsigned_long,
    Member ''last_siginfo'' (Ptr ''kernel_siginfo_t *''),
    Member ''ioac'' struct_task_io_accounting,
    Member ''acct_rss_mem1'' t_u64,
    Member ''acct_vm_mem1'' t_u64,
    Member ''acct_timexpd'' t_u64,
    Member ''mems_allowed'' t_nodemask_t,
    Member ''mems_allowed_seq'' t_seqcount_spinlock_t,
    Member ''cpuset_mem_spread_rotor'' c_int,
    Member ''cgroups'' (Ptr ''struct css_set *''),
    Member ''cg_list'' struct_list_head,
    Member ''robust_list'' (Ptr ''struct robust_list_head *''),
    Member ''pi_state_list'' struct_list_head,
    Member ''pi_state_cache'' (Ptr ''struct futex_pi_state *''),
    Member ''futex_exit_mutex'' struct_mutex,
    Member ''futex_state'' c_unsigned_int,
    Member ''perf_recursion'' (Array 4 t_u8),
    Member ''perf_event_ctxp'' (Ptr ''struct perf_event_context *''),
    Member ''perf_event_mutex'' struct_mutex,
    Member ''perf_event_list'' struct_list_head,
    Member ''perf_ctx_data'' (Ptr ''struct perf_ctx_data *''),
    Member ''rseq'' (Ptr ''struct rseq *''),
    Member ''rseq_len'' t_u32,
    Member ''rseq_sig'' t_u32,
    Member ''rseq_event_mask'' c_unsigned_long,
    Member ''mm_cid'' c_int,
    Member ''last_mm_cid'' c_int,
    Member ''migrate_from_cpu'' c_int,
    Member ''mm_cid_active'' c_int,
    Member ''cid_work'' struct_callback_head,
    Member ''tlb_ubc'' struct_tlbflush_unmap_batch,
    Member ''splice_pipe'' (Ptr ''struct pipe_inode_info *''),
    Member ''task_frag'' struct_page_frag,
    Member ''delays'' (Ptr ''struct task_delay_info *''),
    Member ''nr_dirtied'' c_int,
    Member ''nr_dirtied_pause'' c_int,
    Member ''dirty_paused_when'' c_unsigned_long,
    Member ''timer_slack_ns'' t_u64,
    Member ''default_timer_slack_ns'' t_u64,
    Member ''curr_ret_stack'' c_int,
    Member ''curr_ret_depth'' c_int,
    Member ''ret_stack'' (Ptr ''unsigned long *''),
    Member ''ftrace_timestamp'' c_unsigned_long_long,
    Member ''ftrace_sleeptime'' c_unsigned_long_long,
    Member ''trace_overrun'' t_atomic_t,
    Member ''tracing_graph_pause'' t_atomic_t,
    Member ''trace_recursion'' c_unsigned_long,
    Member ''memcg_nr_pages_over_high'' c_unsigned_int,
    Member ''active_memcg'' (Ptr ''struct mem_cgroup *''),
    Member ''objcg'' (Ptr ''struct obj_cgroup *''),
    Member ''throttle_disk'' (Ptr ''struct gendisk *''),
    Member ''utask'' (Ptr ''struct uprobe_task *''),
    Member ''kmap_ctrl'' struct_kmap_ctrl,
    Member ''rcu'' struct_callback_head,
    Member ''rcu_users'' t_refcount_t,
    Member ''pagefault_disabled'' c_int,
    Member ''oom_reaper_list'' (Ptr ''struct task_struct *''),
    Member ''oom_reaper_timer'' struct_timer_list,
    Member ''stack_refcount'' t_refcount_t,
    Member ''security'' (Ptr ''void *''),
    Member ''bpf_storage'' (Ptr ''struct bpf_local_storage *''),
    Member ''bpf_ctx'' (Ptr ''struct bpf_run_ctx *''),
    Member ''bpf_net_context'' (Ptr ''struct bpf_net_context *''),
    Member ''kretprobe_instances'' struct_llist_head,
    Member ''thread'' struct_thread_struct,
    BitField '''' c_long 64,
    BitField '''' c_long 64,
    BitField '''' c_long 64,
    BitField '''' c_long 64])"

definition t_lockdep_map_p :: ctype where
  "t_lockdep_map_p = Comp Struct False []"

definition struct_maple_tree :: ctype where
  "struct_maple_tree = Comp Struct False [
    Member '''' (Comp Union False [
      Member ''ma_lock'' t_spinlock_t,
      Member ''ma_external_lock'' t_lockdep_map_p]),
    Member ''ma_flags'' c_unsigned_int,
    Member ''ma_root'' (Ptr ''void *'')]"

definition t_vm_flags_t :: ctype where
  "t_vm_flags_t = c_unsigned_long"

definition t_mm_context_t :: ctype where
  "t_mm_context_t = Comp Struct False [
    Member ''id'' t_atomic64_t,
    Member ''pinned'' t_refcount_t,
    Member ''vdso'' (Ptr ''void *''),
    Member ''flags'' c_unsigned_long,
    Member ''pkey_allocation_map'' t_u8]"

definition struct_uprobes_state :: ctype where
  "struct_uprobes_state = Comp Struct False [
    Member ''xol_area'' (Ptr ''struct xol_area *'')]"

definition t_mm_id_t :: ctype where
  "t_mm_id_t = c_unsigned_int"

definition struct_mm_struct :: ctype where
  "struct_mm_struct = Comp Struct False [
    Member '''' (Comp Struct False [
      Member '''' (Comp Struct False ([
        Member ''mm_count'' t_atomic_t] @ replicate 15 (BitField '''' c_long 64))),
      Member ''mm_mt'' struct_maple_tree,
      Member ''mmap_base'' c_unsigned_long,
      Member ''mmap_legacy_base'' c_unsigned_long,
      Member ''task_size'' c_unsigned_long,
      Member ''pgd'' (Ptr ''pgd_t *''),
      Member ''membarrier_state'' t_atomic_t,
      Member ''mm_users'' t_atomic_t,
      Member ''pcpu_cid'' (Ptr ''struct mm_cid *''),
      Member ''mm_cid_next_scan'' c_unsigned_long,
      Member ''nr_cpus_allowed'' c_unsigned_int,
      Member ''max_nr_cid'' t_atomic_t,
      Member ''cpus_allowed_lock'' t_raw_spinlock_t,
      Member ''pgtables_bytes'' t_atomic_long_t,
      Member ''map_count'' c_int,
      Member ''page_table_lock'' t_spinlock_t,
      Member ''mmap_lock'' struct_rw_semaphore,
      Member ''mmlist'' struct_list_head,
      Member ''vma_writer_wait'' struct_rcuwait,
      Member ''mm_lock_seq'' t_seqcount_t,
      Member ''futex_hash_lock'' struct_mutex,
      Member ''futex_phash'' (Ptr ''struct futex_private_hash *''),
      Member ''futex_phash_new'' (Ptr ''struct futex_private_hash *''),
      Member ''futex_batches'' c_unsigned_long,
      Member ''futex_rcu'' struct_callback_head,
      Member ''futex_atomic'' t_atomic_long_t,
      Member ''futex_ref'' (Ptr ''unsigned int *''),
      Member ''hiwater_rss'' c_unsigned_long,
      Member ''hiwater_vm'' c_unsigned_long,
      Member ''total_vm'' c_unsigned_long,
      Member ''locked_vm'' c_unsigned_long,
      Member ''pinned_vm'' t_atomic64_t,
      Member ''data_vm'' c_unsigned_long,
      Member ''exec_vm'' c_unsigned_long,
      Member ''stack_vm'' c_unsigned_long,
      Member ''def_flags'' t_vm_flags_t,
      Member ''write_protect_seq'' t_seqcount_t,
      Member ''arg_lock'' t_spinlock_t,
      Member ''start_code'' c_unsigned_long,
      Member ''end_code'' c_unsigned_long,
      Member ''start_data'' c_unsigned_long,
      Member ''end_data'' c_unsigned_long,
      Member ''start_brk'' c_unsigned_long,
      Member ''brk'' c_unsigned_long,
      Member ''start_stack'' c_unsigned_long,
      Member ''arg_start'' c_unsigned_long,
      Member ''arg_end'' c_unsigned_long,
      Member ''env_start'' c_unsigned_long,
      Member ''env_end'' c_unsigned_long,
      Member ''saved_auxv'' (Array 50 c_unsigned_long),
      Member ''rss_stat'' (Array 4 struct_percpu_counter),
      Member ''binfmt'' (Ptr ''struct linux_binfmt *''),
      Member ''context'' t_mm_context_t,
      Member ''flags'' c_unsigned_long,
      Member ''ioctx_lock'' t_spinlock_t,
      Member ''ioctx_table'' (Ptr ''struct kioctx_table *''),
      Member ''owner'' (Ptr ''struct task_struct *''),
      Member ''user_ns'' (Ptr ''struct user_namespace *''),
      Member ''exe_file'' (Ptr ''struct file *''),
      Member ''notifier_subscriptions'' (Ptr ''struct mmu_notifier_subscriptions *''),
      Member ''tlb_flush_pending'' t_atomic_t,
      Member ''tlb_flush_batched'' t_atomic_t,
      Member ''uprobes_state'' struct_uprobes_state,
      Member ''async_put_work'' struct_work_struct,
      Member ''lru_gen'' (Comp Struct False [
        Member ''list'' struct_list_head,
        Member ''bitmap'' c_unsigned_long,
        Member ''memcg'' (Ptr ''struct mem_cgroup *'')]),
      Member ''mm_id'' t_mm_id_t,
      BitField '''' c_long 64,
      BitField '''' c_long 64,
      BitField '''' c_long 64,
      BitField '''' c_long 64]),
    Member ''cpu_bitmap'' (Array 0 c_unsigned_long)]"

definition struct_page :: ctype where
  "struct_page = Comp Struct False [
    Member ''flags'' c_unsigned_long,
    Member '''' (Comp Union False [
      Member '''' (Comp Struct False [
        Member '''' (Comp Union False [
          Member ''lru'' struct_list_head,
          Member '''' (Comp Struct False [
            Member ''__filler'' (Ptr ''void *''),
            Member ''mlock_count'' c_unsigned_int]),
          Member ''buddy_list'' struct_list_head,
          Member ''pcp_list'' struct_list_head,
          Member '''' (Comp Struct False [
            Member ''pcp_llist'' struct_llist_node,
            Member ''order'' c_unsigned_int])]),
        Member ''mapping'' (Ptr ''struct address_space *''),
        Member '''' (Comp Union False [
          Member ''__folio_index'' c_unsigned_long,
          Member ''share'' c_unsigned_long]),
        Member ''private'' c_unsigned_long]),
      Member '''' (Comp Struct False [
        Member ''pp_magic'' c_unsigned_long,
        Member ''pp'' (Ptr ''struct page_pool *''),
        Member ''_pp_mapping_pad'' c_unsigned_long,
        Member ''dma_addr'' c_unsigned_long,
        Member ''pp_ref_count'' t_atomic_long_t]),
      Member '''' (Comp Struct False [
        Member ''compound_head'' c_unsigned_long]),
      Member '''' (Comp Struct False [
        Member ''_unused_pgmap_compound_head'' (Ptr ''void *''),
        Member ''zone_device_data'' (Ptr ''void *'')]),
      Member ''callback_head'' struct_callback_head]),
    Member '''' (Comp Union False [
      Member ''page_type'' c_unsigned_int,
      Member ''_mapcount'' t_atomic_t]),
    Member ''_refcount'' t_atomic_t,
    Member ''memcg_data'' c_unsigned_long]"

definition t_kernel_cap_t :: ctype where
  "t_kernel_cap_t = Comp Struct False [
    Member ''val'' t_u64]"

definition struct_cred :: ctype where
  "struct_cred = Comp Struct False [
    Member ''usage'' t_atomic_long_t,
    Member ''uid'' t_kuid_t,
    Member ''gid'' t_kgid_t,
    Member ''suid'' t_kuid_t,
    Member ''sgid'' t_kgid_t,
    Member ''euid'' t_kuid_t,
    Member ''egid'' t_kgid_t,
    Member ''fsuid'' t_kuid_t,
    Member ''fsgid'' t_kgid_t,
    Member ''securebits'' c_unsigned_int,
    Member ''cap_inheritable'' t_kernel_cap_t,
    Member ''cap_permitted'' t_kernel_cap_t,
    Member ''cap_effective'' t_kernel_cap_t,
    Member ''cap_bset'' t_kernel_cap_t,
    Member ''cap_ambient'' t_kernel_cap_t,
    Member ''jit_keyring'' c_unsigned_char,
    Member ''session_keyring'' (Ptr ''struct key *''),
    Member ''process_keyring'' (Ptr ''struct key *''),
    Member ''thread_keyring'' (Ptr ''struct key *''),
    Member ''request_key_auth'' (Ptr ''struct key *''),
    Member ''security'' (Ptr ''void *''),
    Member ''user'' (Ptr ''struct user_struct *''),
    Member ''user_ns'' (Ptr ''struct user_namespace *''),
    Member ''ucounts'' (Ptr ''struct ucounts *''),
    Member ''group_info'' (Ptr ''struct group_info *''),
    Member '''' (Comp Union False [
      Member ''non_rcu'' c_int,
      Member ''rcu'' struct_callback_head])]"

definition t_fmode_t :: ctype where
  "t_fmode_t = c_unsigned_int"

definition struct_path :: ctype where
  "struct_path = Comp Struct False [
    Member ''mnt'' (Ptr ''struct vfsmount *''),
    Member ''dentry'' (Ptr ''struct dentry *'')]"

definition t___kernel_loff_t :: ctype where
  "t___kernel_loff_t = c_long_long"

definition t_loff_t :: ctype where
  "t_loff_t = t___kernel_loff_t"

definition t_errseq_t :: ctype where
  "t_errseq_t = t_u32"

definition struct_file_ra_state :: ctype where
  "struct_file_ra_state = Comp Struct False [
    Member ''start'' c_unsigned_long,
    Member ''size'' c_unsigned_int,
    Member ''async_size'' c_unsigned_int,
    Member ''ra_pages'' c_unsigned_int,
    Member ''order'' c_unsigned_short,
    Member ''mmap_miss'' c_unsigned_short,
    Member ''prev_pos'' t_loff_t]"

definition t_freeptr_t :: ctype where
  "t_freeptr_t = Comp Struct False [
    Member ''v'' c_unsigned_long]"

definition t_file_ref_t :: ctype where
  "t_file_ref_t = Comp Struct False [
    Member ''refcnt'' t_atomic64_t]"

definition struct_file :: ctype where
  "struct_file = Comp Struct False [
    Member ''f_lock'' t_spinlock_t,
    Member ''f_mode'' t_fmode_t,
    Member ''f_op'' (Ptr ''struct file_operations *''),
    Member ''f_mapping'' (Ptr ''struct address_space *''),
    Member ''private_data'' (Ptr ''void *''),
    Member ''f_inode'' (Ptr ''struct inode *''),
    Member ''f_flags'' c_unsigned_int,
    Member ''f_iocb_flags'' c_unsigned_int,
    Member ''f_cred'' (Ptr ''struct cred *''),
    Member ''f_owner'' (Ptr ''struct fown_struct *''),
    Member ''f_path'' struct_path,
    Member '''' (Comp Union False [
      Member ''f_pos_lock'' struct_mutex,
      Member ''f_pipe'' t_u64]),
    Member ''f_pos'' t_loff_t,
    Member ''f_security'' (Ptr ''void *''),
    Member ''f_wb_err'' t_errseq_t,
    Member ''f_sb_err'' t_errseq_t,
    Member ''f_ep'' (Ptr ''struct hlist_head *''),
    Member '''' (Comp Union False [
      Member ''f_task_work'' struct_callback_head,
      Member ''f_llist'' struct_llist_node,
      Member ''f_ra'' struct_file_ra_state,
      Member ''f_freeptr'' t_freeptr_t]),
    Member ''f_ref'' t_file_ref_t]"

definition t_umode_t :: ctype where
  "t_umode_t = c_unsigned_short"

definition t_time64_t :: ctype where
  "t_time64_t = t___s64"

definition enum_rw_hint :: ctype where
  "enum_rw_hint = Enum True [
    (''WRITE_LIFE_NOT_SET'', 0), (''WRITE_LIFE_NONE'', 1), (''WRITE_LIFE_SHORT'', 2),
    (''WRITE_LIFE_MEDIUM'', 3), (''WRITE_LIFE_LONG'', 4), (''WRITE_LIFE_EXTREME'', 5)]"

definition t_blkcnt_t :: ctype where
  "t_blkcnt_t = t_u64"

definition struct_address_space :: ctype where
  "struct_address_space = Comp Struct False [
    Member ''host'' (Ptr ''struct inode *''),
    Member ''i_pages'' struct_xarray,
    Member ''invalidate_lock'' struct_rw_semaphore,
    Member ''gfp_mask'' t_gfp_t,
    Member ''i_mmap_writable'' t_atomic_t,
    Member ''i_mmap'' struct_rb_root_cached,
    Member ''nrpages'' c_unsigned_long,
    Member ''writeback_index'' c_unsigned_long,
    Member ''a_ops'' (Ptr ''struct address_space_operations *''),
    Member ''flags'' c_unsigned_long,
    Member ''wb_err'' t_errseq_t,
    Member ''i_private_lock'' t_spinlock_t,
    Member ''i_private_list'' struct_list_head,
    Member ''i_mmap_rwsem'' struct_rw_semaphore,
    Member ''i_private_data'' (Ptr ''void *'')]"

definition struct_inode :: ctype where
  "struct_inode = Comp Struct False [
    Member ''i_mode'' t_umode_t,
    Member ''i_opflags'' c_unsigned_short,
    Member ''i_uid'' t_kuid_t,
    Member ''i_gid'' t_kgid_t,
    Member ''i_flags'' c_unsigned_int,
    Member ''i_acl'' (Ptr ''struct posix_acl *''),
    Member ''i_default_acl'' (Ptr ''struct posix_acl *''),
    Member ''i_op'' (Ptr ''struct inode_operations *''),
    Member ''i_sb'' (Ptr ''struct super_block *''),
    Member ''i_mapping'' (Ptr ''struct address_space *''),
    Member ''i_security'' (Ptr ''void *''),
    Member ''i_ino'' c_unsigned_long,
    Member '''' (Comp Union False [
      Member ''i_nlink'' c_unsigned_int,
      Member ''__i_nlink'' c_unsigned_int]),
    Member ''i_rdev'' t_dev_t,
    Member ''i_size'' t_loff_t,
    Member ''i_atime_sec'' t_time64_t,
    Member ''i_mtime_sec'' t_time64_t,
    Member ''i_ctime_sec'' t_time64_t,
    Member ''i_atime_nsec'' t_u32,
    Member ''i_mtime_nsec'' t_u32,
    Member ''i_ctime_nsec'' t_u32,
    Member ''i_generation'' t_u32,
    Member ''i_lock'' t_spinlock_t,
    Member ''i_bytes'' c_unsigned_short,
    Member ''i_blkbits'' t_u8,
    Member ''i_write_hint'' enum_rw_hint,
    Member ''i_blocks'' t_blkcnt_t,
    Member ''i_state'' t_u32,
    Member ''i_rwsem'' struct_rw_semaphore,
    Member ''dirtied_when'' c_unsigned_long,
    Member ''dirtied_time_when'' c_unsigned_long,
    Member ''i_hash'' struct_hlist_node,
    Member ''i_io_list'' struct_list_head,
    Member ''i_wb'' (Ptr ''struct bdi_writeback *''),
    Member ''i_wb_frn_winner'' c_int,
    Member ''i_wb_frn_avg_time'' t_u16,
    Member ''i_wb_frn_history'' t_u16,
    Member ''i_lru'' struct_list_head,
    Member ''i_sb_list'' struct_list_head,
    Member ''i_wb_list'' struct_list_head,
    Member '''' (Comp Union False [
      Member ''i_dentry'' struct_hlist_head,
      Member ''i_rcu'' struct_callback_head]),
    Member ''i_version'' t_atomic64_t,
    Member ''i_sequence'' t_atomic64_t,
    Member ''i_count'' t_atomic_t,
    Member ''i_dio_count'' t_atomic_t,
    Member ''i_writecount'' t_atomic_t,
    Member ''i_readcount'' t_atomic_t,
    Member '''' (Comp Union False [
      Member ''i_fop'' (Ptr ''struct file_operations *''),
      Member ''free_inode'' (Ptr ''void (*)(struct inode *)'')]),
    Member ''i_flctx'' (Ptr ''struct file_lock_context *''),
    Member ''i_data'' struct_address_space,
    Member '''' (Comp Union False [
      Member ''i_devices'' struct_list_head,
      Member ''i_linklen'' c_int]),
    Member '''' (Comp Union False [
      Member ''i_pipe'' (Ptr ''struct pipe_inode_info *''),
      Member ''i_cdev'' (Ptr ''struct cdev *''),
      Member ''i_link'' (Ptr ''char *''),
      Member ''i_dir_seq'' c_unsigned_int]),
    Member ''i_fsnotify_mask'' t___u32,
    Member ''i_fsnotify_marks'' (Ptr ''struct fsnotify_mark_connector *''),
    Member ''i_private'' (Ptr ''void *'')]"

definition struct_hlist_bl_node :: ctype where
  "struct_hlist_bl_node = Comp Struct False [
    Member ''next'' (Ptr ''struct hlist_bl_node *''),
    Member ''pprev'' (Ptr ''struct hlist_bl_node **'')]"

definition struct_qstr :: ctype where
  "struct_qstr = Comp Struct False [
    Member '''' (Comp Union False [
      Member '''' (Comp Struct False [
        Member ''hash'' t_u32,
        Member ''len'' t_u32]),
      Member ''hash_len'' t_u64]),
    Member ''name'' (Ptr ''unsigned char *'')]"

definition union_shortname_store :: ctype where
  "union_shortname_store = Comp Union False [
    Member ''string'' (Array 40 c_unsigned_char),
    Member ''words'' (Array 5 c_unsigned_long)]"

definition struct_lockref :: ctype where
  "struct_lockref = Comp Struct False [
    Member '''' (Comp Union False [
      Member ''lock_count'' t___u64,
      Member '''' (Comp Struct False [
        Member ''lock'' t_spinlock_t,
        Member ''count'' c_int])])]"

definition struct_dentry :: ctype where
  "struct_dentry = Comp Struct False [
    Member ''d_flags'' c_unsigned_int,
    Member ''d_seq'' t_seqcount_spinlock_t,
    Member ''d_hash'' struct_hlist_bl_node,
    Member ''d_parent'' (Ptr ''struct dentry *''),
    Member ''d_name'' struct_qstr,
    Member ''d_inode'' (Ptr ''struct inode *''),
    Member ''d_shortname'' union_shortname_store,
    Member ''d_op'' (Ptr ''struct dentry_operations *''),
    Member ''d_sb'' (Ptr ''struct super_block *''),
    Member ''d_time'' c_unsigned_long,
    Member ''d_fsdata'' (Ptr ''void *''),
    Member ''d_lockref'' struct_lockref,
    Member '''' (Comp Union False [
      Member ''d_lru'' struct_list_head,
      Member ''d_wait'' (Ptr ''wait_queue_head_t *'')]),
    Member ''d_sib'' struct_hlist_node,
    Member ''d_children'' struct_hlist_head,
    Member ''d_u'' (Comp Union False [
      Member ''d_alias'' struct_hlist_node,
      Member ''d_in_lookup_hash'' struct_hlist_bl_node,
      Member ''d_rcu'' struct_callback_head])]"

definition struct_hlist_bl_head :: ctype where
  "struct_hlist_bl_head = Comp Struct False [
    Member ''first'' (Ptr ''struct hlist_bl_node *'')]"

definition t_qsize_t :: ctype where
  "t_qsize_t = c_long_long"

definition struct_mem_dqinfo :: ctype where
  "struct_mem_dqinfo = Comp Struct False [
    Member ''dqi_format'' (Ptr ''struct quota_format_type *''),
    Member ''dqi_fmt_id'' c_int,
    Member ''dqi_dirty_list'' struct_list_head,
    Member ''dqi_flags'' c_unsigned_long,
    Member ''dqi_bgrace'' c_unsigned_int,
    Member ''dqi_igrace'' c_unsigned_int,
    Member ''dqi_max_spc_limit'' t_qsize_t,
    Member ''dqi_max_ino_limit'' t_qsize_t,
    Member ''dqi_priv'' (Ptr ''void *'')]"

definition struct_quota_info :: ctype where
  "struct_quota_info = Comp Struct False [
    Member ''flags'' c_unsigned_int,
    Member ''dqio_sem'' struct_rw_semaphore,
    Member ''files'' (Array 3 (Ptr ''struct inode *'')),
    Member ''info'' (Array 3 struct_mem_dqinfo),
    Member ''ops'' (Array 3 (Ptr ''struct quota_format_ops *''))]"

definition struct_rcu_sync :: ctype where
  "struct_rcu_sync = Comp Struct False [
    Member ''gp_state'' c_int,
    Member ''gp_count'' c_int,
    Member ''gp_wait'' t_wait_queue_head_t,
    Member ''cb_head'' struct_callback_head]"

definition struct_percpu_rw_semaphore :: ctype where
  "struct_percpu_rw_semaphore = Comp Struct False [
    Member ''rss'' struct_rcu_sync,
    Member ''read_count'' (Ptr ''unsigned int *''),
    Member ''writer'' struct_rcuwait,
    Member ''waiters'' t_wait_queue_head_t,
    Member ''block'' t_atomic_t]"

definition struct_sb_writers :: ctype where
  "struct_sb_writers = Comp Struct False [
    Member ''frozen'' c_unsigned_short,
    Member ''freeze_kcount'' c_int,
    Member ''freeze_ucount'' c_int,
    Member ''freeze_owner'' (Ptr ''void *''),
    Member ''rw_sem'' (Array 3 struct_percpu_rw_semaphore)]"

definition t_uuid_t :: ctype where
  "t_uuid_t = Comp Struct False [
    Member ''b'' (Array 16 t___u8)]"

definition struct_list_lru :: ctype where
  "struct_list_lru = Comp Struct False [
    Member ''node'' (Ptr ''struct list_lru_node *''),
    Member ''list'' struct_list_head,
    Member ''shrinker_id'' c_int,
    Member ''memcg_aware'' t_bool,
    Member ''xa'' struct_xarray]"

definition struct_super_block :: ctype where
  "struct_super_block = Comp Struct False ([
    Member ''s_list'' struct_list_head,
    Member ''s_dev'' t_dev_t,
    Member ''s_blocksize_bits'' c_unsigned_char,
    Member ''s_blocksize'' c_unsigned_long,
    Member ''s_maxbytes'' t_loff_t,
    Member ''s_type'' (Ptr ''struct file_system_type *''),
    Member ''s_op'' (Ptr ''struct super_operations *''),
    Member ''dq_op'' (Ptr ''struct dquot_operations *''),
    Member ''s_qcop'' (Ptr ''struct quotactl_ops *''),
    Member ''s_export_op'' (Ptr ''struct export_operations *''),
    Member ''s_flags'' c_unsigned_long,
    Member ''s_iflags'' c_unsigned_long,
    Member ''s_magic'' c_unsigned_long,
    Member ''s_root'' (Ptr ''struct dentry *''),
    Member ''s_umount'' struct_rw_semaphore,
    Member ''s_count'' c_int,
    Member ''s_active'' t_atomic_t,
    Member ''s_security'' (Ptr ''void *''),
    Member ''s_xattr'' (Ptr ''struct xattr_handler * const*''),
    Member ''s_roots'' struct_hlist_bl_head,
    Member ''s_mounts'' struct_list_head,
    Member ''s_bdev'' (Ptr ''struct block_device *''),
    Member ''s_bdev_file'' (Ptr ''struct file *''),
    Member ''s_bdi'' (Ptr ''struct backing_dev_info *''),
    Member ''s_mtd'' (Ptr ''struct mtd_info *''),
    Member ''s_instances'' struct_hlist_node,
    Member ''s_quota_types'' c_unsigned_int,
    Member ''s_dquot'' struct_quota_info,
    Member ''s_writers'' struct_sb_writers,
    Member ''s_fs_info'' (Ptr ''void *''),
    Member ''s_time_gran'' t_u32,
    Member ''s_time_min'' t_time64_t,
    Member ''s_time_max'' t_time64_t,
    Member ''s_fsnotify_mask'' t_u32,
    Member ''s_fsnotify_info'' (Ptr ''struct fsnotify_sb_info *''),
    Member ''s_id'' (Array 32 c_char),
    Member ''s_uuid'' t_uuid_t,
    Member ''s_uuid_len'' t_u8,
    Member ''s_sysfs_name'' (Array 37 c_char),
    Member ''s_max_links'' c_unsigned_int,
    Member ''s_d_flags'' c_unsigned_int,
    Member ''s_vfs_rename_mutex'' struct_mutex,
    Member ''s_subtype'' (Ptr ''char *''),
    Member ''__s_d_op'' (Ptr ''struct dentry_operations *''),
    Member ''s_shrink'' (Ptr ''struct shrinker *''),
    Member ''s_remove_count'' t_atomic_long_t,
    Member ''s_readonly_remount'' c_int,
    Member ''s_wb_err'' t_errseq_t,
    Member ''s_dio_done_wq'' (Ptr ''struct workqueue_struct *''),
    Member ''s_pins'' struct_hlist_head,
    Member ''s_user_ns'' (Ptr ''struct user_namespace *''),
    Member ''s_dentry_lru'' struct_list_lru,
    Member ''s_inode_lru'' struct_list_lru,
    Member ''rcu'' struct_callback_head,
    Member ''destroy_work'' struct_work_struct,
    Member ''s_sync_lock'' struct_mutex,
    Member ''s_stack_depth'' c_int] @ replicate 13 (BitField '''' c_long 64) @ [
    Member ''s_inode_list_lock'' t_spinlock_t,
    Member ''s_inodes'' struct_list_head,
    Member ''s_inode_wblist_lock'' t_spinlock_t,
    Member ''s_inodes_wb'' struct_list_head] @ replicate 10 (BitField '''' c_long 64))"

definition struct_percpu_ref :: ctype where
  "struct_percpu_ref = Comp Struct False [
    Member ''percpu_count_ptr'' c_unsigned_long,
    Member ''data'' (Ptr ''struct percpu_ref_data *'')]"

definition struct_cgroup_subsys_state :: ctype where
  "struct_cgroup_subsys_state = Comp Struct False [
    Member ''cgroup'' (Ptr ''struct cgroup *''),
    Member ''ss'' (Ptr ''struct cgroup_subsys *''),
    Member ''refcnt'' struct_percpu_ref,
    Member ''rstat_cpu'' (Ptr ''struct css_rstat_cpu *''),
    Member ''sibling'' struct_list_head,
    Member ''children'' struct_list_head,
    Member ''id'' c_int,
    Member ''flags'' c_unsigned_int,
    Member ''serial_nr'' t_u64,
    Member ''online_cnt'' t_atomic_t,
    Member ''destroy_work'' struct_work_struct,
    Member ''destroy_rwork'' struct_rcu_work,
    Member ''parent'' (Ptr ''struct cgroup_subsys_state *''),
    Member ''nr_descendants'' c_int,
    Member ''rstat_flush_next'' (Ptr ''struct cgroup_subsys_state *'')]"

definition struct_cgroup_file :: ctype where
  "struct_cgroup_file = Comp Struct False [
    Member ''kn'' (Ptr ''struct kernfs_node *''),
    Member ''notified_at'' c_unsigned_long,
    Member ''notify_timer'' struct_timer_list]"

definition struct_cacheline_padding :: ctype where
  "struct_cacheline_padding = Comp Struct False [
    Member ''x'' (Array 0 c_char)]"

definition struct_task_cputime :: ctype where
  "struct_task_cputime = Comp Struct False [
    Member ''stime'' t_u64,
    Member ''utime'' t_u64,
    Member ''sum_exec_runtime'' c_unsigned_long_long]"

definition struct_cgroup_base_stat :: ctype where
  "struct_cgroup_base_stat = Comp Struct False [
    Member ''cputime'' struct_task_cputime,
    Member ''ntime'' t_u64]"

definition struct_cgroup_bpf :: ctype where
  "struct_cgroup_bpf = Comp Struct False [
    Member ''effective'' (Array 38 (Ptr ''struct bpf_prog_array *'')),
    Member ''progs'' (Array 38 struct_hlist_head),
    Member ''flags'' (Array 38 t_u8),
    Member ''revisions'' (Array 38 t_u64),
    Member ''storages'' struct_list_head,
    Member ''inactive'' (Ptr ''struct bpf_prog_array *''),
    Member ''refcnt'' struct_percpu_ref,
    Member ''release_work'' struct_work_struct]"

definition struct_cgroup_freezer_state :: ctype where
  "struct_cgroup_freezer_state = Comp Struct False [
    Member ''freeze'' t_bool,
    Member ''e_freeze'' t_bool,
    Member ''nr_frozen_descendants'' c_int,
    Member ''nr_frozen_tasks'' c_int]"

definition struct_cgroup :: ctype where
  "struct_cgroup = Comp Struct False [
    Member ''self'' struct_cgroup_subsys_state,
    Member ''flags'' c_unsigned_long,
    Member ''level'' c_int,
    Member ''max_depth'' c_int,
    Member ''nr_descendants'' c_int,
    Member ''nr_dying_descendants'' c_int,
    Member ''max_descendants'' c_int,
    Member ''nr_populated_csets'' c_int,
    Member ''nr_populated_domain_children'' c_int,
    Member ''nr_populated_threaded_children'' c_int,
    Member ''nr_threaded_children'' c_int,
    Member ''kill_seq'' c_unsigned_int,
    Member ''kn'' (Ptr ''struct kernfs_node *''),
    Member ''procs_file'' struct_cgroup_file,
    Member ''events_file'' struct_cgroup_file,
    Member ''psi_files'' (Array 0 struct_cgroup_file),
    Member ''subtree_control'' t_u16,
    Member ''subtree_ss_mask'' t_u16,
    Member ''old_subtree_control'' t_u16,
    Member ''old_subtree_ss_mask'' t_u16,
    Member ''subsys'' (Array 11 (Ptr ''struct cgroup_subsys_state *'')),
    Member ''nr_dying_subsys'' (Array 11 c_int),
    Member ''root'' (Ptr ''struct cgroup_root *''),
    Member ''cset_links'' struct_list_head,
    Member ''e_csets'' (Array 11 struct_list_head),
    Member ''dom_cgrp'' (Ptr ''struct cgroup *''),
    Member ''old_dom_cgrp'' (Ptr ''struct cgroup *''),
    Member ''rstat_base_cpu'' (Ptr ''struct cgroup_rstat_base_cpu *''),
    BitField '''' c_long 64,
    BitField '''' c_long 64,
    BitField '''' c_long 64,
    Member ''_pad_'' struct_cacheline_padding,
    Member ''last_bstat'' struct_cgroup_base_stat,
    Member ''bstat'' struct_cgroup_base_stat,
    Member ''prev_cputime'' struct_prev_cputime,
    Member ''pidlists'' struct_list_head,
    Member ''pidlist_mutex'' struct_mutex,
    Member ''offline_waitq'' t_wait_queue_head_t,
    Member ''release_agent_work'' struct_work_struct,
    Member ''psi'' (Ptr ''struct psi_group *''),
    Member ''bpf'' struct_cgroup_bpf,
    Member ''freezer'' struct_cgroup_freezer_state,
    Member ''bpf_cgrp_storage'' (Ptr ''struct bpf_local_storage *''),
    Member ''ancestors'' (Array 0 (Ptr ''struct cgroup *'')),
    BitField '''' c_long 64,
    BitField '''' c_long 64,
    BitField '''' c_long 64,
    BitField '''' c_long 64]"

end
