(* ===== verification/Vmlinux_Types.thy ===== *)
theory Vmlinux_Types
  imports Vmlinux_Task
begin

text \<open>
  The structures and unions of the first \<^verbatim>\<open>Vmlinux\<close> theories as lists, and that the layout of each
  is well formed.
\<close>

lemmas vmlinux_typedefs =
  t___u32_def t___u64_def t___u8_def t___u16_def t___be16_def t___be32_def t___sum16_def
  t___s32_def t_atomic_t_def t_u8_def t_u16_def t_arch_spinlock_t_def t_spinlock_t_def
  t_wait_queue_head_t_def t_u64_def t_rqspinlock_t_def t_u32_def t___s64_def t_s64_def
  t_atomic64_t_def t_atomic_long_t_def t_raw_spinlock_t_def t_work_func_t_def t_bool_def
  t___s16_def t_s16_def t_sockptr_t_def t_bpfptr_t_def t_s32_def t_ktime_t_def t___wsum_def
  t_sk_buff_data_t_def t_refcount_t_def t_netmem_ref_def t_skb_frag_t_def
  t_netdev_features_t_def t_possible_net_t_def t_xdp_features_t_def t_pm_message_t_def
  t___kernel_dev_t_def t_dev_t_def t_netdevice_tracker_def t_arch_rwlock_t_def t_rwlock_t_def
  t___addrpair_def t___portpair_def t_socket_lock_t_def t_gfp_t_def t___kernel_uid32_t_def
  t_uid_t_def t_kuid_t_def t_netns_tracker_def t___be64_def t_seqcount_t_def
  t_seqcount_spinlock_t_def t_seqlock_t_def t___kernel_gid32_t_def t_gid_t_def t_kgid_t_def
  t_siphash_key_t_def t___kernel_ulong_t_def t___kernel_size_t_def t_size_t_def

lemmas vmlinux_enums =
  enum_bpf_func_id_def enum_bpf_cmd_def enum_bpf_map_type_def enum_bpf_prog_type_def
  enum_bpf_attach_type_def enum_bpf_link_type_def enum_netkit_action_def enum_netkit_mode_def
  enum_netkit_scrub_def enum_xdp_action_def enum_skb_drop_reason_def enum_LINUX_MIB_NUM_def
  enum_IFLA_UNSPEC_def enum_IFLA_NETKIT_UNSPEC_def enum_priv_stack_mode_def
  enum_bpf_arg_type_def enum_bpf_reg_type_def enum_bpf_dynptr_type_def enum_bpf_iter_state_def
  enum_bpf_reg_liveness_def enum_netdev_ml_priv_type_def enum_netdev_stat_type_def
  enum_dl_dev_state_def enum_device_removable_def

lemmas vmlinux_comps =
  struct___sk_buff_def struct_ethhdr_def struct_in6_addr_def struct_ipv6hdr_def struct_iphdr_def
  struct_tcphdr_def struct_udphdr_def struct_xdp_md_def struct_trace_entry_def
  struct_trace_event_raw_sys_enter_def union_bpf_attr_def struct_bpf_link_info_def
  struct_bpf_prog_info_def struct_bpf_map_info_def struct_bpf_sock_ops_def struct_tcp_info_def
  struct_perf_event_attr_def struct_qspinlock_def struct_raw_spinlock_def struct_spinlock_def
  struct_list_head_def struct_wait_queue_head_def struct_llist_node_def
  struct___call_single_node_def struct_rcuwait_def struct_irq_work_def struct_bpf_ringbuf_def
  struct_optimistic_spin_queue_def struct_mutex_def struct_work_struct_def
  struct_callback_head_def struct_bpf_map_def struct_bpf_ringbuf_map_def struct_bpf_array_def
  struct_bpf_map_ops_def struct_sock_filter_def struct_bpf_insn_def struct_bpf_prog_def
  struct_rb_node_def struct_latch_tree_node_def struct_bpf_ksym_def struct_llist_head_def
  struct_bpf_stream_def struct_bpf_prog_aux_def struct_btf_mod_pair_def
  struct_bpf_verifier_log_def struct_bpf_subprog_arg_info_def struct_bpf_subprog_info_def
  struct_bpf_id_pair_def struct_bpf_idmap_def struct_bpf_idset_def struct_backtrack_state_def
  struct_tnum_def struct_bpf_reg_state_def struct_bpf_scc_callchain_def
  struct_bpf_verifier_env_def struct_refcount_struct_def struct_sk_buff_def
  struct_skb_shared_hwtstamps_def struct_xsk_tx_metadata_compl_def struct_skb_frag_def
  struct_skb_shared_info_def struct_netdev_tc_txq_def struct_net_device_stats_def
  struct_rb_root_def struct_netdev_hw_addr_list_def struct_hlist_head_def struct_hlist_node_def
  struct_timer_list_def struct_ref_tracker_dir_def struct_kref_def struct_kobject_def
  struct_dev_links_info_def struct_pm_message_def struct_dev_pm_info_def struct_dev_msi_info_def
  struct_dev_archdata_def struct_device_def struct_bpf_xdp_entity_def struct_net_device_def
  struct_net_device_ops_def struct_ethtool_ops_def struct_bpf_mprog_fp_def
  struct_bpf_mprog_entry_def struct_bpf_mprog_cp_def struct_bpf_mprog_bundle_def
  struct_netkit_def struct_bpf_link_def struct_netkit_link_def struct_delayed_work_def
  struct_sk_buff_list_def struct_sk_buff_head_def struct_qrwlock_def
  struct_ipv6_stable_secret_def struct_ipv6_devconf_def struct_ipv6_devstat_def
  struct_inet6_dev_def struct_hlist_nulls_node_def struct_sock_common_def struct_page_frag_def
  struct_sock_cgroup_data_def struct_xarray_def struct_sock_def struct_inet_cork_def
  struct_flowi_tunnel_def struct_flowi_common_def union_flowi_uli_def struct_flowi4_def
  struct_flowi6_def struct_flowi_def struct_inet_cork_full_def struct_inet_sock_def
  struct_fastopen_queue_def struct_request_sock_queue_def struct_inet_connection_sock_def
  struct_minmax_sample_def struct_minmax_def struct_tcp_options_received_def struct_tcp_rack_def
  struct_timerqueue_node_def struct_hrtimer_def struct_tcp_sack_block_def struct_tcp_sock_def
  struct_idr_def struct_ns_common_def struct_ctl_table_header_def struct_ctl_dir_def
  struct_ctl_table_set_def struct_raw_notifier_head_def struct_netns_core_def
  struct_netns_mib_def struct_netns_packet_def struct_unix_table_def struct_netns_unix_def
  struct_rw_semaphore_def struct_blocking_notifier_head_def struct_netns_nexthop_def
  struct_inet_timewait_death_row_def struct_udp_tunnel_gro_def struct_local_ports_def
  struct_seqcount_def struct_seqcount_spinlock_def struct_ping_group_range_def
  struct_sysctl_fib_multipath_hash_seed_def struct_netns_ipv4_def struct_percpu_counter_def
  struct_dst_ops_def struct_netns_sysctl_ipv6_def struct_netns_ipv6_def struct_netns_sctp_def
  struct_netns_nf_def struct_nf_generic_net_def struct_nf_tcp_net_def struct_nf_udp_net_def
  struct_nf_icmp_net_def struct_nf_sctp_net_def struct_nf_gre_net_def struct_nf_ip_net_def
  struct_netns_ct_def struct_netns_nftables_def struct_netns_ft_def struct_netns_bpf_def
  struct_xfrm_policy_hash_def struct_xfrm_policy_hthresh_def struct_netns_xfrm_def
  struct_netns_mpls_def struct_netns_can_def struct_netns_xdp_def struct_net_def

definition base_types :: "ctype list" where
  "base_types = [
    struct___sk_buff, struct_ethhdr, struct_in6_addr, struct_ipv6hdr, struct_iphdr,
    struct_tcphdr, struct_udphdr, struct_xdp_md, struct_trace_entry,
    struct_trace_event_raw_sys_enter, union_bpf_attr, struct_bpf_link_info,
    struct_bpf_prog_info, struct_bpf_map_info, struct_bpf_sock_ops, struct_tcp_info,
    struct_perf_event_attr, struct_qspinlock, struct_raw_spinlock, struct_spinlock,
    struct_list_head, struct_wait_queue_head, struct_llist_node, struct___call_single_node,
    struct_rcuwait, struct_irq_work, struct_bpf_ringbuf, struct_optimistic_spin_queue,
    struct_mutex, struct_work_struct, struct_callback_head, struct_bpf_map,
    struct_bpf_ringbuf_map, struct_bpf_array, struct_bpf_map_ops, struct_sock_filter,
    struct_bpf_insn, struct_bpf_prog, struct_rb_node, struct_latch_tree_node, struct_bpf_ksym,
    struct_llist_head, struct_bpf_stream, struct_bpf_prog_aux, struct_btf_mod_pair,
    struct_bpf_verifier_log, struct_bpf_subprog_arg_info, struct_bpf_subprog_info,
    struct_bpf_id_pair, struct_bpf_idmap, struct_bpf_idset, struct_backtrack_state, struct_tnum,
    struct_bpf_reg_state, struct_bpf_scc_callchain, struct_bpf_verifier_env,
    struct_refcount_struct, struct_sk_buff, struct_skb_shared_hwtstamps,
    struct_xsk_tx_metadata_compl, struct_skb_frag, struct_skb_shared_info, struct_netdev_tc_txq,
    struct_net_device_stats, struct_rb_root, struct_netdev_hw_addr_list, struct_hlist_head,
    struct_hlist_node, struct_timer_list, struct_ref_tracker_dir, struct_kref, struct_kobject,
    struct_dev_links_info, struct_pm_message, struct_dev_pm_info, struct_dev_msi_info,
    struct_dev_archdata, struct_device, struct_bpf_xdp_entity, struct_net_device,
    struct_net_device_ops, struct_ethtool_ops, struct_bpf_mprog_fp, struct_bpf_mprog_entry,
    struct_bpf_mprog_cp, struct_bpf_mprog_bundle, struct_netkit, struct_bpf_link,
    struct_netkit_link, struct_delayed_work, struct_sk_buff_list, struct_sk_buff_head,
    struct_qrwlock, struct_ipv6_stable_secret, struct_ipv6_devconf, struct_ipv6_devstat,
    struct_inet6_dev, struct_hlist_nulls_node, struct_sock_common, struct_page_frag,
    struct_sock_cgroup_data, struct_xarray, struct_sock, struct_inet_cork, struct_flowi_tunnel,
    struct_flowi_common, union_flowi_uli, struct_flowi4, struct_flowi6, struct_flowi,
    struct_inet_cork_full, struct_inet_sock, struct_fastopen_queue, struct_request_sock_queue,
    struct_inet_connection_sock, struct_minmax_sample, struct_minmax,
    struct_tcp_options_received, struct_tcp_rack, struct_timerqueue_node, struct_hrtimer,
    struct_tcp_sack_block, struct_tcp_sock, struct_idr, struct_ns_common,
    struct_ctl_table_header, struct_ctl_dir, struct_ctl_table_set, struct_raw_notifier_head,
    struct_netns_core, struct_netns_mib, struct_netns_packet, struct_unix_table,
    struct_netns_unix, struct_rw_semaphore, struct_blocking_notifier_head, struct_netns_nexthop,
    struct_inet_timewait_death_row, struct_udp_tunnel_gro, struct_local_ports, struct_seqcount,
    struct_seqcount_spinlock, struct_ping_group_range, struct_sysctl_fib_multipath_hash_seed,
    struct_netns_ipv4, struct_percpu_counter, struct_dst_ops, struct_netns_sysctl_ipv6,
    struct_netns_ipv6, struct_netns_sctp, struct_netns_nf, struct_nf_generic_net,
    struct_nf_tcp_net, struct_nf_udp_net, struct_nf_icmp_net, struct_nf_sctp_net,
    struct_nf_gre_net, struct_nf_ip_net, struct_netns_ct, struct_netns_nftables,
    struct_netns_ft, struct_netns_bpf, struct_xfrm_policy_hash, struct_xfrm_policy_hthresh,
    struct_netns_xfrm, struct_netns_mpls, struct_netns_can, struct_netns_xdp, struct_net]"

lemma base_types_ok: "list_all ctype_ok base_types"
  by (simp add: base_types_def vmlinux_comps vmlinux_typedefs vmlinux_enums layout_eval)

lemmas hook_typedefs =
  t_local_t_def t_local64_t_def t_u64_stats_t_def t_perf_overflow_handler_t_def
  t_ftrace_func_t_def t_ftrace_ops_func_t_def t_rtnl_doit_func_def t_rtnl_dumpit_func_def
  enum_xdp_mem_type_def enum_perf_event_state_def enum_module_state_def

lemmas hook_comps =
  struct_xdp_buff_def struct_xdp_frame_def struct_xdp_mem_info_def struct_xdp_rxq_info_def
  struct_qdisc_skb_head_def struct_u64_stats_sync_def struct_gnet_stats_basic_sync_def
  struct_gnet_stats_queue_def struct_lock_class_key_def struct_Qdisc_def struct_Qdisc_ops_def
  struct_tcf_proto_def struct_tcf_proto_ops_def struct_flow_block_def struct_tcf_block_def
  struct_tcf_result_def struct_tcf_exts_def struct_rcu_work_def struct_cls_bpf_prog_def
  struct_cls_bpf_head_def struct_tcx_link_def struct_tcx_entry_def struct_static_key_def
  struct_static_key_false_def struct_tracepoint_def struct_trace_event_def
  struct_trace_event_call_def struct_trace_event_class_def struct_trace_event_file_def
  struct_syscall_metadata_def struct_hw_perf_event_extra_def struct_arch_hw_breakpoint_ctrl_def
  struct_arch_hw_breakpoint_def struct_rhash_head_def struct_rhlist_head_def
  struct_hw_perf_event_def struct_perf_addr_filters_head_def struct_ftrace_ops_hash_def
  struct_ftrace_ops_def struct_perf_event_def struct_bpf_tramp_link_def
  struct_bpf_tracing_link_def struct_bpf_perf_link_def struct_bpf_xdp_link_def
  struct_bpf_run_ctx_def struct_bpf_trace_run_ctx_def struct_user_pt_regs_def
  struct_frame_record_def struct_frame_record_meta_def struct_pt_regs_def
  struct_lockdep_map_def struct_srcu_struct_def struct_rtnl_link_ops_def struct_rtnl_link_def
  struct_nlmsghdr_def struct_nlattr_def struct_netlink_ext_ack_def struct_in_ifaddr_def
  struct_inet6_ifaddr_def struct_hh_cache_def struct_neighbour_def struct_btf_header_def
  struct_btf_def struct_module_kobject_def struct_mod_tree_node_def struct_module_memory_def
  struct_mod_plt_sec_def struct_mod_arch_specific_def struct_mod_kallsyms_def struct_module_def

definition hook_types :: "ctype list" where
  "hook_types = [
    struct_xdp_buff, struct_xdp_frame, struct_xdp_mem_info, struct_xdp_rxq_info,
    struct_qdisc_skb_head, struct_u64_stats_sync, struct_gnet_stats_basic_sync,
    struct_gnet_stats_queue, struct_lock_class_key, struct_Qdisc, struct_Qdisc_ops,
    struct_tcf_proto, struct_tcf_proto_ops, struct_flow_block, struct_tcf_block,
    struct_tcf_result, struct_tcf_exts, struct_rcu_work, struct_cls_bpf_prog, struct_cls_bpf_head,
    struct_tcx_link, struct_tcx_entry, struct_static_key, struct_static_key_false,
    struct_tracepoint, struct_trace_event, struct_trace_event_call, struct_trace_event_class,
    struct_trace_event_file, struct_syscall_metadata, struct_hw_perf_event_extra,
    struct_arch_hw_breakpoint_ctrl, struct_arch_hw_breakpoint, struct_rhash_head,
    struct_rhlist_head, struct_hw_perf_event, struct_perf_addr_filters_head,
    struct_ftrace_ops_hash, struct_ftrace_ops, struct_perf_event, struct_bpf_tramp_link,
    struct_bpf_tracing_link, struct_bpf_perf_link, struct_bpf_xdp_link, struct_bpf_run_ctx,
    struct_bpf_trace_run_ctx, struct_user_pt_regs, struct_frame_record, struct_frame_record_meta,
    struct_pt_regs, struct_lockdep_map, struct_srcu_struct, struct_rtnl_link_ops,
    struct_rtnl_link, struct_nlmsghdr, struct_nlattr, struct_netlink_ext_ack, struct_in_ifaddr,
    struct_inet6_ifaddr, struct_hh_cache, struct_neighbour, struct_btf_header, struct_btf,
    struct_module_kobject, struct_mod_tree_node, struct_module_memory, struct_mod_plt_sec,
    struct_mod_arch_specific, struct_mod_kallsyms, struct_module]"

lemma hook_types_ok: "list_all ctype_ok hook_types"
  by (simp add: hook_types_def hook_comps hook_typedefs vmlinux_comps vmlinux_typedefs
      vmlinux_enums layout_eval)

lemmas task_typedefs =
  t_dl_server_pick_f_def t_cpumask_t_def t___kernel_clockid_t_def t_clockid_t_def
  t___kernel_pid_t_def t_pid_t_def t_sigset_t_def t_nodemask_t_def t___uint128_t_def
  t_lockdep_map_p_def t_vm_flags_t_def t_mm_context_t_def t_mm_id_t_def t_kernel_cap_t_def
  t_fmode_t_def t___kernel_loff_t_def t_loff_t_def t_errseq_t_def t_freeptr_t_def
  t_file_ref_t_def t_umode_t_def t_time64_t_def t_blkcnt_t_def t_qsize_t_def t_uuid_t_def
  enum_timespec_type_def enum_fp_type_def enum_rw_hint_def

lemmas task_comps =
  struct_thread_info_def struct_load_weight_def struct_sched_avg_def struct_sched_entity_def
  struct_sched_rt_entity_def struct_sched_dl_entity_def struct_sched_statistics_def
  struct_cpumask_def union_rcu_special_def struct_sched_info_def struct_plist_node_def
  struct_restart_block_def struct_prev_cputime_def struct_rb_root_cached_def
  struct_timerqueue_head_def struct_posix_cputimer_base_def struct_posix_cputimers_def
  struct_posix_cputimers_work_def struct_sysv_sem_def struct_sysv_shm_def
  struct_sigpending_def struct_seccomp_def struct_syscall_user_dispatch_def
  struct_wake_q_node_def struct_task_io_accounting_def struct_arch_tlbflush_unmap_batch_def
  struct_tlbflush_unmap_batch_def struct_kmap_ctrl_def struct_cpu_context_def
  struct_user_fpsimd_state_def struct_debug_info_def struct_thread_struct_def
  struct_task_struct_def struct_maple_tree_def struct_uprobes_state_def struct_mm_struct_def
  struct_page_def struct_cred_def struct_path_def struct_file_ra_state_def struct_file_def
  struct_address_space_def struct_inode_def struct_hlist_bl_node_def struct_qstr_def
  union_shortname_store_def struct_lockref_def struct_dentry_def struct_hlist_bl_head_def
  struct_mem_dqinfo_def struct_quota_info_def struct_rcu_sync_def
  struct_percpu_rw_semaphore_def struct_sb_writers_def struct_list_lru_def
  struct_super_block_def struct_percpu_ref_def struct_cgroup_subsys_state_def
  struct_cgroup_file_def struct_cacheline_padding_def struct_task_cputime_def
  struct_cgroup_base_stat_def struct_cgroup_bpf_def struct_cgroup_freezer_state_def
  struct_cgroup_def

definition task_types :: "ctype list" where
  "task_types = [
    struct_thread_info, struct_load_weight, struct_sched_avg, struct_sched_entity,
    struct_sched_rt_entity, struct_sched_dl_entity, struct_sched_statistics, struct_cpumask,
    union_rcu_special, struct_sched_info, struct_plist_node, struct_restart_block,
    struct_prev_cputime, struct_rb_root_cached, struct_timerqueue_head,
    struct_posix_cputimer_base, struct_posix_cputimers, struct_posix_cputimers_work,
    struct_sysv_sem, struct_sysv_shm, struct_sigpending, struct_seccomp,
    struct_syscall_user_dispatch, struct_wake_q_node, struct_task_io_accounting,
    struct_arch_tlbflush_unmap_batch, struct_tlbflush_unmap_batch, struct_kmap_ctrl,
    struct_cpu_context, struct_user_fpsimd_state, struct_debug_info, struct_thread_struct,
    struct_task_struct, struct_maple_tree, struct_uprobes_state, struct_mm_struct, struct_page,
    struct_cred, struct_path, struct_file_ra_state, struct_file, struct_address_space,
    struct_inode, struct_hlist_bl_node, struct_qstr, union_shortname_store, struct_lockref,
    struct_dentry, struct_hlist_bl_head, struct_mem_dqinfo, struct_quota_info, struct_rcu_sync,
    struct_percpu_rw_semaphore, struct_sb_writers, struct_list_lru, struct_super_block,
    struct_percpu_ref, struct_cgroup_subsys_state, struct_cgroup_file, struct_cacheline_padding,
    struct_task_cputime, struct_cgroup_base_stat, struct_cgroup_bpf, struct_cgroup_freezer_state,
    struct_cgroup]"

lemma task_types_ok: "list_all ctype_ok task_types"
  by (simp add: task_types_def hook_comps hook_typedefs task_comps task_typedefs vmlinux_comps vmlinux_typedefs
      vmlinux_enums layout_eval)

end
