(* ===== verification/Vmlinux_Bpf_More.thy ===== *)
theory Vmlinux_Bpf_More
  imports Vmlinux_Task
begin

text \<open>
  The remaining declarations of \<^verbatim>\<open>vmlinux.h\<close> whose names begin with bpf: maps of every type,
  iterators, links, program arguments and the state of the verifier, with the types they contain.
\<close>

definition enum_bpf_access_src :: ctype where
  "enum_bpf_access_src = Enum False [
    (''ACCESS_DIRECT'', 1), (''ACCESS_HELPER'', 2)]"

definition enum_bpf_access_type :: ctype where
  "enum_bpf_access_type = Enum False [
    (''BPF_READ'', 1), (''BPF_WRITE'', 2)]"

definition enum_bpf_addr_space_cast :: ctype where
  "enum_bpf_addr_space_cast = Enum False [
    (''BPF_ADDR_SPACE_CAST'', 1)]"

definition enum_bpf_adj_room_mode :: ctype where
  "enum_bpf_adj_room_mode = Enum False [
    (''BPF_ADJ_ROOM_NET'', 0), (''BPF_ADJ_ROOM_MAC'', 1)]"

definition enum_bpf_async_type :: ctype where
  "enum_bpf_async_type = Enum False [
    (''BPF_ASYNC_TYPE_TIMER'', 0), (''BPF_ASYNC_TYPE_WQ'', 1)]"

definition enum_bpf_audit :: ctype where
  "enum_bpf_audit = Enum False [
    (''BPF_AUDIT_LOAD'', 0), (''BPF_AUDIT_UNLOAD'', 1), (''BPF_AUDIT_MAX'', 2)]"

definition enum_bpf_cgroup_iter_order :: ctype where
  "enum_bpf_cgroup_iter_order = Enum False [
    (''BPF_CGROUP_ITER_ORDER_UNSPEC'', 0), (''BPF_CGROUP_ITER_SELF_ONLY'', 1),
    (''BPF_CGROUP_ITER_DESCENDANTS_PRE'', 2), (''BPF_CGROUP_ITER_DESCENDANTS_POST'', 3),
    (''BPF_CGROUP_ITER_ANCESTORS_UP'', 4)]"

definition enum_bpf_cgroup_storage_type :: ctype where
  "enum_bpf_cgroup_storage_type = Enum False [
    (''BPF_CGROUP_STORAGE_SHARED'', 0), (''BPF_CGROUP_STORAGE_PERCPU'', 1),
    (''__BPF_CGROUP_STORAGE_MAX'', 2)]"

definition enum_bpf_check_mtu_flags :: ctype where
  "enum_bpf_check_mtu_flags = Enum False [
    (''BPF_MTU_CHK_SEGS'', 1)]"

definition enum_bpf_check_mtu_ret :: ctype where
  "enum_bpf_check_mtu_ret = Enum False [
    (''BPF_MTU_CHK_RET_SUCCESS'', 0), (''BPF_MTU_CHK_RET_FRAG_NEEDED'', 1),
    (''BPF_MTU_CHK_RET_SEGS_TOOBIG'', 2)]"

definition enum_bpf_cond_pseudo_jmp :: ctype where
  "enum_bpf_cond_pseudo_jmp = Enum False [
    (''BPF_MAY_GOTO'', 0)]"

definition enum_bpf_core_relo_kind :: ctype where
  "enum_bpf_core_relo_kind = Enum False [
    (''BPF_CORE_FIELD_BYTE_OFFSET'', 0), (''BPF_CORE_FIELD_BYTE_SIZE'', 1),
    (''BPF_CORE_FIELD_EXISTS'', 2), (''BPF_CORE_FIELD_SIGNED'', 3),
    (''BPF_CORE_FIELD_LSHIFT_U64'', 4), (''BPF_CORE_FIELD_RSHIFT_U64'', 5),
    (''BPF_CORE_TYPE_ID_LOCAL'', 6), (''BPF_CORE_TYPE_ID_TARGET'', 7),
    (''BPF_CORE_TYPE_EXISTS'', 8), (''BPF_CORE_TYPE_SIZE'', 9), (''BPF_CORE_ENUMVAL_EXISTS'', 10),
    (''BPF_CORE_ENUMVAL_VALUE'', 11), (''BPF_CORE_TYPE_MATCHES'', 12)]"

definition enum_bpf_features :: ctype where
  "enum_bpf_features = Enum False [
    (''BPF_FEAT_RDONLY_CAST_TO_VOID'', 0), (''BPF_FEAT_STREAMS'', 1), (''__MAX_BPF_FEAT'', 2)]"

definition enum_bpf_fou_encap_type :: ctype where
  "enum_bpf_fou_encap_type = Enum False [
    (''FOU_BPF_ENCAP_FOU'', 0), (''FOU_BPF_ENCAP_GUE'', 1)]"

definition enum_bpf_hdr_start_off :: ctype where
  "enum_bpf_hdr_start_off = Enum False [
    (''BPF_HDR_START_MAC'', 0), (''BPF_HDR_START_NET'', 1)]"

definition enum_bpf_iter_feature :: ctype where
  "enum_bpf_iter_feature = Enum False [
    (''BPF_ITER_RESCHED'', 1)]"

definition enum_bpf_iter_task_type :: ctype where
  "enum_bpf_iter_task_type = Enum False [
    (''BPF_TASK_ITER_ALL'', 0), (''BPF_TASK_ITER_TID'', 1), (''BPF_TASK_ITER_TGID'', 2)]"

definition enum_bpf_jit_poke_reason :: ctype where
  "enum_bpf_jit_poke_reason = Enum False [
    (''BPF_POKE_REASON_TAIL_CALL'', 0)]"

definition enum_bpf_kfunc_flags :: ctype where
  "enum_bpf_kfunc_flags = Enum False [
    (''BPF_F_PAD_ZEROS'', 1)]"

definition enum_bpf_lru_list_type :: ctype where
  "enum_bpf_lru_list_type = Enum False [
    (''BPF_LRU_LIST_T_ACTIVE'', 0), (''BPF_LRU_LIST_T_INACTIVE'', 1),
    (''BPF_LRU_LIST_T_FREE'', 2), (''BPF_LRU_LOCAL_LIST_T_FREE'', 3),
    (''BPF_LRU_LOCAL_LIST_T_PENDING'', 4)]"

definition enum_bpf_lwt_encap_mode :: ctype where
  "enum_bpf_lwt_encap_mode = Enum False [
    (''BPF_LWT_ENCAP_SEG6'', 0), (''BPF_LWT_ENCAP_SEG6_INLINE'', 1), (''BPF_LWT_ENCAP_IP'', 2)]"

definition enum_bpf_netdev_command :: ctype where
  "enum_bpf_netdev_command = Enum False [
    (''XDP_SETUP_PROG'', 0), (''XDP_SETUP_PROG_HW'', 1), (''BPF_OFFLOAD_MAP_ALLOC'', 2),
    (''BPF_OFFLOAD_MAP_FREE'', 3), (''XDP_SETUP_XSK_POOL'', 4)]"

definition enum_bpf_perf_event_type :: ctype where
  "enum_bpf_perf_event_type = Enum False [
    (''BPF_PERF_EVENT_UNSPEC'', 0), (''BPF_PERF_EVENT_UPROBE'', 1),
    (''BPF_PERF_EVENT_URETPROBE'', 2), (''BPF_PERF_EVENT_KPROBE'', 3),
    (''BPF_PERF_EVENT_KRETPROBE'', 4), (''BPF_PERF_EVENT_TRACEPOINT'', 5),
    (''BPF_PERF_EVENT_EVENT'', 6)]"

definition enum_bpf_ret_code :: ctype where
  "enum_bpf_ret_code = Enum False [
    (''BPF_OK'', 0), (''BPF_DROP'', 2), (''BPF_REDIRECT'', 7), (''BPF_LWT_REROUTE'', 128),
    (''BPF_FLOW_DISSECTOR_CONTINUE'', 129)]"

definition enum_bpf_return_type :: ctype where
  "enum_bpf_return_type = Enum False [
    (''RET_INTEGER'', 0), (''RET_VOID'', 1), (''RET_PTR_TO_MAP_VALUE'', 2),
    (''RET_PTR_TO_SOCKET'', 3), (''RET_PTR_TO_TCP_SOCK'', 4), (''RET_PTR_TO_SOCK_COMMON'', 5),
    (''RET_PTR_TO_MEM'', 6), (''RET_PTR_TO_MEM_OR_BTF_ID'', 7), (''RET_PTR_TO_BTF_ID'', 8),
    (''__BPF_RET_TYPE_MAX'', 9), (''RET_PTR_TO_MAP_VALUE_OR_NULL'', 258),
    (''RET_PTR_TO_SOCKET_OR_NULL'', 259), (''RET_PTR_TO_TCP_SOCK_OR_NULL'', 260),
    (''RET_PTR_TO_SOCK_COMMON_OR_NULL'', 261), (''RET_PTR_TO_RINGBUF_MEM_OR_NULL'', 1286),
    (''RET_PTR_TO_DYNPTR_MEM_OR_NULL'', 262), (''RET_PTR_TO_BTF_ID_OR_NULL'', 264),
    (''RET_PTR_TO_BTF_ID_TRUSTED'', 1048584), (''__BPF_RET_TYPE_LIMIT'', 134217727)]"

definition enum_bpf_stack_build_id_status :: ctype where
  "enum_bpf_stack_build_id_status = Enum False [
    (''BPF_STACK_BUILD_ID_EMPTY'', 0), (''BPF_STACK_BUILD_ID_VALID'', 1),
    (''BPF_STACK_BUILD_ID_IP'', 2)]"

definition enum_bpf_stack_slot_type :: ctype where
  "enum_bpf_stack_slot_type = Enum False [
    (''STACK_INVALID'', 0), (''STACK_SPILL'', 1), (''STACK_MISC'', 2), (''STACK_ZERO'', 3),
    (''STACK_DYNPTR'', 4), (''STACK_ITER'', 5), (''STACK_IRQ_FLAG'', 6)]"

definition enum_bpf_stats_type :: ctype where
  "enum_bpf_stats_type = Enum False [
    (''BPF_STATS_RUN_TIME'', 0)]"

definition enum_bpf_stream_id :: ctype where
  "enum_bpf_stream_id = Enum False [
    (''BPF_STDOUT'', 1), (''BPF_STDERR'', 2)]"

definition enum_bpf_struct_ops_state :: ctype where
  "enum_bpf_struct_ops_state = Enum False [
    (''BPF_STRUCT_OPS_STATE_INIT'', 0), (''BPF_STRUCT_OPS_STATE_INUSE'', 1),
    (''BPF_STRUCT_OPS_STATE_TOBEFREE'', 2), (''BPF_STRUCT_OPS_STATE_READY'', 3)]"

definition enum_bpf_struct_walk_result :: ctype where
  "enum_bpf_struct_walk_result = Enum False [
    (''WALK_SCALAR'', 0), (''WALK_PTR'', 1), (''WALK_PTR_UNTRUSTED'', 2), (''WALK_STRUCT'', 3)]"

definition enum_bpf_task_fd_type :: ctype where
  "enum_bpf_task_fd_type = Enum False [
    (''BPF_FD_TYPE_RAW_TRACEPOINT'', 0), (''BPF_FD_TYPE_TRACEPOINT'', 1),
    (''BPF_FD_TYPE_KPROBE'', 2), (''BPF_FD_TYPE_KRETPROBE'', 3), (''BPF_FD_TYPE_UPROBE'', 4),
    (''BPF_FD_TYPE_URETPROBE'', 5)]"

definition enum_bpf_task_vma_iter_find_op :: ctype where
  "enum_bpf_task_vma_iter_find_op = Enum False [
    (''task_vma_iter_first_vma'', 0), (''task_vma_iter_next_vma'', 1),
    (''task_vma_iter_find_vma'', 2)]"

definition enum_bpf_text_poke_type :: ctype where
  "enum_bpf_text_poke_type = Enum False [
    (''BPF_MOD_CALL'', 0), (''BPF_MOD_JUMP'', 1)]"

definition enum_bpf_tramp_prog_type :: ctype where
  "enum_bpf_tramp_prog_type = Enum False [
    (''BPF_TRAMP_FENTRY'', 0), (''BPF_TRAMP_FEXIT'', 1), (''BPF_TRAMP_MODIFY_RETURN'', 2),
    (''BPF_TRAMP_MAX'', 3), (''BPF_TRAMP_REPLACE'', 4)]"

definition enum_bpf_type :: ctype where
  "enum_bpf_type = Enum False [
    (''BPF_TYPE_UNSPEC'', 0), (''BPF_TYPE_PROG'', 1), (''BPF_TYPE_MAP'', 2),
    (''BPF_TYPE_LINK'', 3)]"

definition enum_bpf_type_flag :: ctype where
  "enum_bpf_type_flag = Enum False [
    (''PTR_MAYBE_NULL'', 256), (''MEM_RDONLY'', 512), (''MEM_RINGBUF'', 1024),
    (''MEM_USER'', 2048), (''MEM_PERCPU'', 4096), (''OBJ_RELEASE'', 8192),
    (''PTR_UNTRUSTED'', 16384), (''MEM_UNINIT'', 32768), (''DYNPTR_TYPE_LOCAL'', 65536),
    (''DYNPTR_TYPE_RINGBUF'', 131072), (''MEM_FIXED_SIZE'', 262144), (''MEM_ALLOC'', 524288),
    (''PTR_TRUSTED'', 1048576), (''MEM_RCU'', 2097152), (''NON_OWN_REF'', 4194304),
    (''DYNPTR_TYPE_SKB'', 8388608), (''DYNPTR_TYPE_XDP'', 16777216), (''MEM_ALIGNED'', 33554432),
    (''MEM_WRITE'', 67108864), (''__BPF_TYPE_FLAG_MAX'', 67108865),
    (''__BPF_TYPE_LAST_FLAG'', 67108864)]"

definition enum_bpf_xdp_mode :: ctype where
  "enum_bpf_xdp_mode = Enum False [
    (''XDP_MODE_SKB'', 0), (''XDP_MODE_DRV'', 1), (''XDP_MODE_HW'', 2), (''__MAX_XDP_MODE'', 3)]"

definition struct_range_tree :: ctype where
  "struct_range_tree = Comp Struct False [
    Member ''it_root'' struct_rb_root_cached,
    Member ''range_size_root'' struct_rb_root_cached]"

definition struct_bpf_arena :: ctype where
  "struct_bpf_arena = Comp Struct False [
    Member ''map'' struct_bpf_map,
    Member ''user_vm_start'' t_u64,
    Member ''user_vm_end'' t_u64,
    Member ''kern_vm'' (Ptr ''struct vm_struct *''),
    Member ''rt'' struct_range_tree,
    Member ''vma_list'' struct_list_head,
    Member ''lock'' struct_mutex]"

definition struct_bpf_array_aux :: ctype where
  "struct_bpf_array_aux = Comp Struct False [
    Member ''poke_progs'' struct_list_head,
    Member ''map'' (Ptr ''struct bpf_map *''),
    Member ''poke_mutex'' struct_mutex,
    Member ''work'' struct_work_struct]"

definition struct_bpf_async_cb :: ctype where
  "struct_bpf_async_cb = Comp Struct False [
    Member ''map'' (Ptr ''struct bpf_map *''),
    Member ''prog'' (Ptr ''struct bpf_prog *''),
    Member ''callback_fn'' (Ptr ''void *''),
    Member ''value'' (Ptr ''void *''),
    Member '''' (Comp Union False [
      Member ''rcu'' struct_callback_head,
      Member ''delete_work'' struct_work_struct]),
    Member ''flags'' t_u64]"

definition struct_bpf_spin_lock :: ctype where
  "struct_bpf_spin_lock = Comp Struct False [
    Member ''val'' t___u32]"

definition struct_bpf_async_kern :: ctype where
  "struct_bpf_async_kern = Comp Struct False [
    Member '''' (Comp Union False [
      Member ''cb'' (Ptr ''struct bpf_async_cb *''),
      Member ''timer'' (Ptr ''struct bpf_hrtimer *''),
      Member ''work'' (Ptr ''struct bpf_work *'')]),
    Member ''lock'' struct_bpf_spin_lock]"

definition struct_btf_func_model :: ctype where
  "struct_btf_func_model = Comp Struct False [
    Member ''ret_size'' t_u8,
    Member ''ret_flags'' t_u8,
    Member ''nr_args'' t_u8,
    Member ''arg_size'' (Array 12 t_u8),
    Member ''arg_flags'' (Array 12 t_u8)]"

definition struct_bpf_attach_target_info :: ctype where
  "struct_bpf_attach_target_info = Comp Struct False [
    Member ''fmodel'' struct_btf_func_model,
    Member ''tgt_addr'' c_long,
    Member ''tgt_mod'' (Ptr ''struct module *''),
    Member ''tgt_name'' (Ptr ''char *''),
    Member ''tgt_type'' (Ptr ''struct btf_type *'')]"

definition struct_bpf_binary_header :: ctype where
  "struct_bpf_binary_header = Comp Struct False [
    Member ''size'' t_u32,
    BitField '''' c_long 0,
    Member ''image'' (Array 0 t_u8)]"

definition struct_bpf_bloom_filter :: ctype where
  "struct_bpf_bloom_filter = Comp Struct False [
    Member ''map'' struct_bpf_map,
    Member ''bitset_mask'' t_u32,
    Member ''hash_seed'' t_u32,
    Member ''nr_hash_funcs'' t_u32,
    Member ''bitset'' (Array 0 c_unsigned_long)]"

definition struct_bpf_bprintf_buffers :: ctype where
  "struct_bpf_bprintf_buffers = Comp Struct False [
    Member ''bin_args'' (Array 512 c_char),
    Member ''buf'' (Array 1024 c_char)]"

definition struct_bpf_bprintf_data :: ctype where
  "struct_bpf_bprintf_data = Comp Struct False [
    Member ''bin_args'' (Ptr ''u32 *''),
    Member ''buf'' (Ptr ''char *''),
    Member ''get_bin_args'' t_bool,
    Member ''get_buf'' t_bool]"

definition struct_bpf_btf_info :: ctype where
  "struct_bpf_btf_info = Comp Struct False [
    Member ''btf'' t___u64,
    Member ''btf_size'' t___u32,
    Member ''id'' t___u32,
    Member ''name'' t___u64,
    Member ''name_len'' t___u32,
    Member ''kernel_btf'' t___u32]"

definition struct_bpf_call_arg_meta :: ctype where
  "struct_bpf_call_arg_meta = Comp Struct False [
    Member ''map_ptr'' (Ptr ''struct bpf_map *''),
    Member ''raw_mode'' t_bool,
    Member ''pkt_access'' t_bool,
    Member ''release_regno'' t_u8,
    Member ''regno'' c_int,
    Member ''access_size'' c_int,
    Member ''mem_size'' c_int,
    Member ''msize_max_value'' t_u64,
    Member ''ref_obj_id'' c_int,
    Member ''dynptr_id'' c_int,
    Member ''map_uid'' c_int,
    Member ''func_id'' c_int,
    Member ''btf'' (Ptr ''struct btf *''),
    Member ''btf_id'' t_u32,
    Member ''ret_btf'' (Ptr ''struct btf *''),
    Member ''ret_btf_id'' t_u32,
    Member ''subprogno'' t_u32,
    Member ''kptr_field'' (Ptr ''struct btf_field *''),
    Member ''const_map_key'' t_s64]"

definition struct_bpf_cand_cache :: ctype where
  "struct_bpf_cand_cache = Comp Struct False [
    Member ''name'' (Ptr ''char *''),
    Member ''name_len'' t_u32,
    Member ''kind'' t_u16,
    Member ''cnt'' t_u16,
    Member ''cands'' (Array 0 (Comp Struct False [
      Member ''btf'' (Ptr ''struct btf *''),
      Member ''id'' t_u32]))]"

definition struct_bpf_cg_run_ctx :: ctype where
  "struct_bpf_cg_run_ctx = Comp Struct False [
    Member ''run_ctx'' struct_bpf_run_ctx,
    Member ''prog_item'' (Ptr ''struct bpf_prog_array_item *''),
    Member ''retval'' c_int]"

definition struct_bpf_cgroup_dev_ctx :: ctype where
  "struct_bpf_cgroup_dev_ctx = Comp Struct False [
    Member ''access_type'' t___u32,
    Member ''major'' t___u32,
    Member ''minor'' t___u32]"

definition struct_bpf_cgroup_link :: ctype where
  "struct_bpf_cgroup_link = Comp Struct False [
    Member ''link'' struct_bpf_link,
    Member ''cgroup'' (Ptr ''struct cgroup *'')]"

definition struct_bpf_cgroup_storage_key :: ctype where
  "struct_bpf_cgroup_storage_key = Comp Struct False [
    Member ''cgroup_inode_id'' t___u64,
    Member ''attach_type'' t___u32]"

definition struct_bpf_cgroup_storage :: ctype where
  "struct_bpf_cgroup_storage = Comp Struct False [
    Member '''' (Comp Union False [
      Member ''buf'' (Ptr ''struct bpf_storage_buffer *''),
      Member ''percpu_buf'' (Ptr ''void *'')]),
    Member ''map'' (Ptr ''struct bpf_cgroup_storage_map *''),
    Member ''key'' struct_bpf_cgroup_storage_key,
    Member ''list_map'' struct_list_head,
    Member ''list_cg'' struct_list_head,
    Member ''node'' struct_rb_node,
    Member ''rcu'' struct_callback_head]"

definition struct_bpf_cgroup_storage_map :: ctype where
  "struct_bpf_cgroup_storage_map = Comp Struct False [
    Member ''map'' struct_bpf_map,
    Member ''lock'' t_spinlock_t,
    Member ''root'' struct_rb_root,
    Member ''list'' struct_list_head]"

definition struct_bpf_lru_list :: ctype where
  "struct_bpf_lru_list = Comp Struct False ([
    Member ''lists'' (Array 3 struct_list_head),
    Member ''counts'' (Array 2 c_unsigned_int),
    Member ''next_inactive_rotation'' (Ptr ''struct list_head *'')] @ replicate 8 (BitField '''' c_long 64) @ [
    Member ''lock'' t_raw_spinlock_t] @ replicate 15 (BitField '''' c_long 64))"

definition struct_bpf_common_lru :: ctype where
  "struct_bpf_common_lru = Comp Struct False ([
    Member ''lru_list'' struct_bpf_lru_list,
    Member ''local_list'' (Ptr ''struct bpf_lru_locallist *'')] @ replicate 15 (BitField '''' c_long 64))"

definition struct_bpf_core_accessor :: ctype where
  "struct_bpf_core_accessor = Comp Struct False [
    Member ''type_id'' t___u32,
    Member ''idx'' t___u32,
    Member ''name'' (Ptr ''char *'')]"

definition struct_bpf_core_cand :: ctype where
  "struct_bpf_core_cand = Comp Struct False [
    Member ''btf'' (Ptr ''struct btf *''),
    Member ''id'' t___u32]"

definition struct_bpf_core_cand_list :: ctype where
  "struct_bpf_core_cand_list = Comp Struct False [
    Member ''cands'' (Ptr ''struct bpf_core_cand *''),
    Member ''len'' c_int]"

definition struct_bpf_core_ctx :: ctype where
  "struct_bpf_core_ctx = Comp Struct False [
    Member ''log'' (Ptr ''struct bpf_verifier_log *''),
    Member ''btf'' (Ptr ''struct btf *'')]"

definition struct_bpf_core_relo :: ctype where
  "struct_bpf_core_relo = Comp Struct False [
    Member ''insn_off'' t___u32,
    Member ''type_id'' t___u32,
    Member ''access_str_off'' t___u32,
    Member ''kind'' enum_bpf_core_relo_kind]"

definition struct_bpf_core_relo_res :: ctype where
  "struct_bpf_core_relo_res = Comp Struct False [
    Member ''orig_val'' t___u64,
    Member ''new_val'' t___u64,
    Member ''poison'' t_bool,
    Member ''validate'' t_bool,
    Member ''fail_memsz_adjust'' t_bool,
    Member ''orig_sz'' t___u32,
    Member ''orig_type_id'' t___u32,
    Member ''new_sz'' t___u32,
    Member ''new_type_id'' t___u32]"

definition struct_bpf_core_spec :: ctype where
  "struct_bpf_core_spec = Comp Struct False [
    Member ''btf'' (Ptr ''struct btf *''),
    Member ''spec'' (Array 64 struct_bpf_core_accessor),
    Member ''root_type_id'' t___u32,
    Member ''relo_kind'' enum_bpf_core_relo_kind,
    Member ''len'' c_int,
    Member ''raw_spec'' (Array 64 c_int),
    Member ''raw_len'' c_int,
    Member ''bit_offset'' t___u32]"

definition struct_bpf_cpu_map :: ctype where
  "struct_bpf_cpu_map = Comp Struct False [
    Member ''map'' struct_bpf_map,
    Member ''cpu_map'' (Ptr ''struct bpf_cpu_map_entry **'')]"

definition struct_bpf_cpumap_val :: ctype where
  "struct_bpf_cpumap_val = Comp Struct False [
    Member ''qsize'' t___u32,
    Member ''bpf_prog'' (Comp Union False [
      Member ''fd'' c_int,
      Member ''id'' t___u32])]"

definition struct_gro_list :: ctype where
  "struct_gro_list = Comp Struct False [
    Member ''list'' struct_list_head,
    Member ''count'' c_int]"

definition struct_gro_node :: ctype where
  "struct_gro_node = Comp Struct False [
    Member ''bitmask'' c_unsigned_long,
    Member ''hash'' (Array 8 struct_gro_list),
    Member ''rx_list'' struct_list_head,
    Member ''rx_count'' t_u32,
    Member ''cached_napi_id'' t_u32]"

definition struct_swait_queue_head :: ctype where
  "struct_swait_queue_head = Comp Struct False [
    Member ''lock'' t_raw_spinlock_t,
    Member ''task_list'' struct_list_head]"

definition struct_completion :: ctype where
  "struct_completion = Comp Struct False [
    Member ''done'' c_unsigned_int,
    Member ''wait'' struct_swait_queue_head]"

definition struct_bpf_cpu_map_entry :: ctype where
  "struct_bpf_cpu_map_entry = Comp Struct False [
    Member ''cpu'' t_u32,
    Member ''map_id'' c_int,
    Member ''bulkq'' (Ptr ''struct xdp_bulk_queue *''),
    Member ''queue'' (Ptr ''struct ptr_ring *''),
    Member ''kthread'' (Ptr ''struct task_struct *''),
    Member ''value'' struct_bpf_cpumap_val,
    Member ''prog'' (Ptr ''struct bpf_prog *''),
    Member ''gro'' struct_gro_node,
    Member ''kthread_running'' struct_completion,
    Member ''free_work'' struct_rcu_work]"

definition struct_bpf_cpumask :: ctype where
  "struct_bpf_cpumask = Comp Struct False [
    Member ''cpumask'' t_cpumask_t,
    Member ''usage'' t_refcount_t]"

definition struct_bpf_crypto_ctx :: ctype where
  "struct_bpf_crypto_ctx = Comp Struct False [
    Member ''type'' (Ptr ''struct bpf_crypto_type *''),
    Member ''tfm'' (Ptr ''void *''),
    Member ''siv_len'' t_u32,
    Member ''rcu'' struct_callback_head,
    Member ''usage'' t_refcount_t]"

definition struct_bpf_crypto_params :: ctype where
  "struct_bpf_crypto_params = Comp Struct False [
    Member ''type'' (Array 14 c_char),
    Member ''reserved'' (Array 2 t_u8),
    Member ''algo'' (Array 128 c_char),
    Member ''key'' (Array 256 t_u8),
    Member ''key_len'' t_u32,
    Member ''authsize'' t_u32]"

definition struct_bpf_crypto_type :: ctype where
  "struct_bpf_crypto_type = Comp Struct False [
    Member ''alloc_tfm'' (Ptr ''void * (*)(const char *)''),
    Member ''free_tfm'' (Ptr ''void (*)(void *)''),
    Member ''has_algo'' (Ptr ''int (*)(const char *)''),
    Member ''setkey'' (Ptr ''int (*)(void *, const u8 *, unsigned int)''),
    Member ''setauthsize'' (Ptr ''int (*)(void *, unsigned int)''),
    Member ''encrypt'' (Ptr ''int (*)(void *, const u8 *, u8 *, unsigned int, u8 *)''),
    Member ''decrypt'' (Ptr ''int (*)(void *, const u8 *, u8 *, unsigned int, u8 *)''),
    Member ''ivsize'' (Ptr ''unsigned int (*)(void *)''),
    Member ''statesize'' (Ptr ''unsigned int (*)(void *)''),
    Member ''get_flags'' (Ptr ''u32 (*)(void *)''),
    Member ''owner'' (Ptr ''struct module *''),
    Member ''name'' (Array 14 c_char)]"

definition struct_bpf_crypto_type_list :: ctype where
  "struct_bpf_crypto_type_list = Comp Struct False [
    Member ''type'' (Ptr ''struct bpf_crypto_type *''),
    Member ''list'' struct_list_head]"

definition struct_bpf_ct_opts :: ctype where
  "struct_bpf_ct_opts = Comp Struct False [
    Member ''netns_id'' t_s32,
    Member ''error'' t_s32,
    Member ''l4proto'' t_u8,
    Member ''dir'' t_u8,
    Member ''ct_zone_id'' t_u16,
    Member ''ct_zone_dir'' t_u8,
    Member ''reserved'' (Array 3 t_u8)]"

definition struct_bpf_ctx_arg_aux :: ctype where
  "struct_bpf_ctx_arg_aux = Comp Struct False [
    Member ''offset'' t_u32,
    Member ''reg_type'' enum_bpf_reg_type,
    Member ''btf'' (Ptr ''struct btf *''),
    Member ''btf_id'' t_u32,
    Member ''ref_obj_id'' t_u32,
    Member ''refcounted'' t_bool]"

definition struct_bpf_sock :: ctype where
  "struct_bpf_sock = Comp Struct False [
    Member ''bound_dev_if'' t___u32,
    Member ''family'' t___u32,
    Member ''type'' t___u32,
    Member ''protocol'' t___u32,
    Member ''mark'' t___u32,
    Member ''priority'' t___u32,
    Member ''src_ip4'' t___u32,
    Member ''src_ip6'' (Array 4 t___u32),
    Member ''src_port'' t___u32,
    Member ''dst_port'' t___be16,
    Member ''dst_ip4'' t___u32,
    Member ''dst_ip6'' (Array 4 t___u32),
    Member ''state'' t___u32,
    Member ''rx_queue_mapping'' t___s32]"

definition struct_bpf_sock_addr :: ctype where
  "struct_bpf_sock_addr = Comp Struct False [
    Member ''user_family'' t___u32,
    Member ''user_ip4'' t___u32,
    Member ''user_ip6'' (Array 4 t___u32),
    Member ''user_port'' t___u32,
    Member ''family'' t___u32,
    Member ''type'' t___u32,
    Member ''protocol'' t___u32,
    Member ''msg_src_ip4'' t___u32,
    Member ''msg_src_ip6'' (Array 4 t___u32),
    Member '''' (Comp Union False [
      Member ''sk'' (Ptr ''struct bpf_sock *'')])]"

definition struct_bpf_sock_addr_kern :: ctype where
  "struct_bpf_sock_addr_kern = Comp Struct False [
    Member ''sk'' (Ptr ''struct sock *''),
    Member ''uaddr'' (Ptr ''struct sockaddr *''),
    Member ''tmp_reg'' t_u64,
    Member ''t_ctx'' (Ptr ''void *''),
    Member ''uaddrlen'' t_u32]"

definition struct_bpf_sock_ops_kern :: ctype where
  "struct_bpf_sock_ops_kern = Comp Struct False [
    Member ''sk'' (Ptr ''struct sock *''),
    Member '''' (Comp Union False [
      Member ''args'' (Array 4 t_u32),
      Member ''reply'' t_u32,
      Member ''replylong'' (Array 4 t_u32)]),
    Member ''syn_skb'' (Ptr ''struct sk_buff *''),
    Member ''skb'' (Ptr ''struct sk_buff *''),
    Member ''skb_data_end'' (Ptr ''void *''),
    Member ''op'' t_u8,
    Member ''is_fullsock'' t_u8,
    Member ''is_locked_tcp_sock'' t_u8,
    Member ''remaining_opt_len'' t_u8,
    Member ''temp'' t_u64]"

definition struct_bpf_flow_dissector :: ctype where
  "struct_bpf_flow_dissector = Comp Struct False [
    Member ''flow_keys'' (Ptr ''struct bpf_flow_keys *''),
    Member ''skb'' (Ptr ''struct sk_buff *''),
    Member ''data'' (Ptr ''void *''),
    Member ''data_end'' (Ptr ''void *'')]"

definition t_bpf_user_pt_regs_t :: ctype where
  "t_bpf_user_pt_regs_t = struct_user_pt_regs"

definition struct_bpf_perf_event_data :: ctype where
  "struct_bpf_perf_event_data = Comp Struct False [
    Member ''regs'' t_bpf_user_pt_regs_t,
    Member ''sample_period'' t___u64,
    Member ''addr'' t___u64]"

definition struct_bpf_perf_event_data_kern :: ctype where
  "struct_bpf_perf_event_data_kern = Comp Struct False [
    Member ''regs'' (Ptr ''bpf_user_pt_regs_t *''),
    Member ''data'' (Ptr ''struct perf_sample_data *''),
    Member ''event'' (Ptr ''struct perf_event *'')]"

definition struct_bpf_raw_tracepoint_args :: ctype where
  "struct_bpf_raw_tracepoint_args = Comp Struct False [
    Member ''args'' (Array 0 t___u64)]"

definition struct_bpf_sysctl :: ctype where
  "struct_bpf_sysctl = Comp Struct False [
    Member ''write'' t___u32,
    Member ''file_pos'' t___u32]"

definition struct_bpf_sysctl_kern :: ctype where
  "struct_bpf_sysctl_kern = Comp Struct False [
    Member ''head'' (Ptr ''struct ctl_table_header *''),
    Member ''table'' (Ptr ''struct ctl_table *''),
    Member ''cur_val'' (Ptr ''void *''),
    Member ''cur_len'' t_size_t,
    Member ''new_val'' (Ptr ''void *''),
    Member ''new_len'' t_size_t,
    Member ''new_updated'' c_int,
    Member ''write'' c_int,
    Member ''ppos'' (Ptr ''loff_t *''),
    Member ''tmp_reg'' t_u64]"

definition struct_bpf_sockopt :: ctype where
  "struct_bpf_sockopt = Comp Struct False [
    Member '''' (Comp Union False [
      Member ''sk'' (Ptr ''struct bpf_sock *'')]),
    Member '''' (Comp Union False [
      Member ''optval'' (Ptr ''void *'')]),
    Member '''' (Comp Union False [
      Member ''optval_end'' (Ptr ''void *'')]),
    Member ''level'' t___s32,
    Member ''optname'' t___s32,
    Member ''optlen'' t___s32,
    Member ''retval'' t___s32]"

definition struct_bpf_sockopt_kern :: ctype where
  "struct_bpf_sockopt_kern = Comp Struct False [
    Member ''sk'' (Ptr ''struct sock *''),
    Member ''optval'' (Ptr ''u8 *''),
    Member ''optval_end'' (Ptr ''u8 *''),
    Member ''level'' t_s32,
    Member ''optname'' t_s32,
    Member ''optlen'' t_s32,
    Member ''current_task'' (Ptr ''struct task_struct *''),
    Member ''tmp_reg'' t_u64]"

definition struct_bpf_sk_lookup :: ctype where
  "struct_bpf_sk_lookup = Comp Struct False [
    Member '''' (Comp Union False [
      Member '''' (Comp Union False [
        Member ''sk'' (Ptr ''struct bpf_sock *'')]),
      Member ''cookie'' t___u64]),
    Member ''family'' t___u32,
    Member ''protocol'' t___u32,
    Member ''remote_ip4'' t___u32,
    Member ''remote_ip6'' (Array 4 t___u32),
    Member ''remote_port'' t___be16,
    Member ''local_ip4'' t___u32,
    Member ''local_ip6'' (Array 4 t___u32),
    Member ''local_port'' t___u32,
    Member ''ingress_ifindex'' t___u32]"

definition struct_bpf_sk_lookup_kern :: ctype where
  "struct_bpf_sk_lookup_kern = Comp Struct False [
    Member ''family'' t_u16,
    Member ''protocol'' t_u16,
    Member ''sport'' t___be16,
    Member ''dport'' t_u16,
    Member ''v4'' (Comp Struct False [
      Member ''saddr'' t___be32,
      Member ''daddr'' t___be32]),
    Member ''v6'' (Comp Struct False [
      Member ''saddr'' (Ptr ''struct in6_addr *''),
      Member ''daddr'' (Ptr ''struct in6_addr *'')]),
    Member ''selected_sk'' (Ptr ''struct sock *''),
    Member ''ingress_ifindex'' t_u32,
    Member ''no_reuseport'' t_bool,
    Member ''net'' (Ptr ''struct net *'')]"

definition struct_bpf_nf_ctx :: ctype where
  "struct_bpf_nf_ctx = Comp Struct False [
    Member ''state'' (Ptr ''struct nf_hook_state *''),
    Member ''skb'' (Ptr ''struct sk_buff *'')]"

definition struct_sk_msg_md :: ctype where
  "struct_sk_msg_md = Comp Struct False [
    Member '''' (Comp Union False [
      Member ''data'' (Ptr ''void *'')]),
    Member '''' (Comp Union False [
      Member ''data_end'' (Ptr ''void *'')]),
    Member ''family'' t___u32,
    Member ''remote_ip4'' t___u32,
    Member ''local_ip4'' t___u32,
    Member ''remote_ip6'' (Array 4 t___u32),
    Member ''local_ip6'' (Array 4 t___u32),
    Member ''remote_port'' t___u32,
    Member ''local_port'' t___u32,
    Member ''size'' t___u32,
    Member '''' (Comp Union False [
      Member ''sk'' (Ptr ''struct bpf_sock *'')])]"

definition t_dma_addr_t :: ctype where
  "t_dma_addr_t = t_u64"

definition struct_scatterlist :: ctype where
  "struct_scatterlist = Comp Struct False [
    Member ''page_link'' c_unsigned_long,
    Member ''offset'' c_unsigned_int,
    Member ''length'' c_unsigned_int,
    Member ''dma_address'' t_dma_addr_t,
    Member ''dma_length'' c_unsigned_int]"

definition struct_sk_msg_sg :: ctype where
  "struct_sk_msg_sg = Comp Struct False [
    Member ''start'' t_u32,
    Member ''curr'' t_u32,
    Member ''end'' t_u32,
    Member ''size'' t_u32,
    Member ''copybreak'' t_u32,
    Member ''copy'' (Array 1 c_unsigned_long),
    Member ''data'' (Array 19 struct_scatterlist)]"

definition struct_sk_msg :: ctype where
  "struct_sk_msg = Comp Struct False [
    Member ''sg'' struct_sk_msg_sg,
    Member ''data'' (Ptr ''void *''),
    Member ''data_end'' (Ptr ''void *''),
    Member ''apply_bytes'' t_u32,
    Member ''cork_bytes'' t_u32,
    Member ''flags'' t_u32,
    Member ''skb'' (Ptr ''struct sk_buff *''),
    Member ''sk_redir'' (Ptr ''struct sock *''),
    Member ''sk'' (Ptr ''struct sock *''),
    Member ''list'' struct_list_head]"

definition struct_sk_reuseport_md :: ctype where
  "struct_sk_reuseport_md = Comp Struct False [
    Member '''' (Comp Union False [
      Member ''data'' (Ptr ''void *'')]),
    Member '''' (Comp Union False [
      Member ''data_end'' (Ptr ''void *'')]),
    Member ''len'' t___u32,
    Member ''eth_protocol'' t___u32,
    Member ''ip_protocol'' t___u32,
    Member ''bind_inany'' t___u32,
    Member ''hash'' t___u32,
    Member '''' (Comp Union False [
      Member ''sk'' (Ptr ''struct bpf_sock *'')]),
    Member '''' (Comp Union False [
      Member ''migrating_sk'' (Ptr ''struct bpf_sock *'')])]"

definition struct_sk_reuseport_kern :: ctype where
  "struct_sk_reuseport_kern = Comp Struct False [
    Member ''skb'' (Ptr ''struct sk_buff *''),
    Member ''sk'' (Ptr ''struct sock *''),
    Member ''selected_sk'' (Ptr ''struct sock *''),
    Member ''migrating_sk'' (Ptr ''struct sock *''),
    Member ''data_end'' (Ptr ''void *''),
    Member ''hash'' t_u32,
    Member ''reuseport_id'' t_u32,
    Member ''bind_inany'' t_bool]"

definition struct_bpf_ctx_convert :: ctype where
  "struct_bpf_ctx_convert = Comp Struct False [
    Member ''BPF_PROG_TYPE_SOCKET_FILTER_prog'' struct___sk_buff,
    Member ''BPF_PROG_TYPE_SOCKET_FILTER_kern'' struct_sk_buff,
    Member ''BPF_PROG_TYPE_SCHED_CLS_prog'' struct___sk_buff,
    Member ''BPF_PROG_TYPE_SCHED_CLS_kern'' struct_sk_buff,
    Member ''BPF_PROG_TYPE_SCHED_ACT_prog'' struct___sk_buff,
    Member ''BPF_PROG_TYPE_SCHED_ACT_kern'' struct_sk_buff,
    Member ''BPF_PROG_TYPE_XDP_prog'' struct_xdp_md,
    Member ''BPF_PROG_TYPE_XDP_kern'' struct_xdp_buff,
    Member ''BPF_PROG_TYPE_CGROUP_SKB_prog'' struct___sk_buff,
    Member ''BPF_PROG_TYPE_CGROUP_SKB_kern'' struct_sk_buff,
    Member ''BPF_PROG_TYPE_CGROUP_SOCK_prog'' struct_bpf_sock,
    Member ''BPF_PROG_TYPE_CGROUP_SOCK_kern'' struct_sock,
    Member ''BPF_PROG_TYPE_CGROUP_SOCK_ADDR_prog'' struct_bpf_sock_addr,
    Member ''BPF_PROG_TYPE_CGROUP_SOCK_ADDR_kern'' struct_bpf_sock_addr_kern,
    Member ''BPF_PROG_TYPE_LWT_IN_prog'' struct___sk_buff,
    Member ''BPF_PROG_TYPE_LWT_IN_kern'' struct_sk_buff,
    Member ''BPF_PROG_TYPE_LWT_OUT_prog'' struct___sk_buff,
    Member ''BPF_PROG_TYPE_LWT_OUT_kern'' struct_sk_buff,
    Member ''BPF_PROG_TYPE_LWT_XMIT_prog'' struct___sk_buff,
    Member ''BPF_PROG_TYPE_LWT_XMIT_kern'' struct_sk_buff,
    Member ''BPF_PROG_TYPE_LWT_SEG6LOCAL_prog'' struct___sk_buff,
    Member ''BPF_PROG_TYPE_LWT_SEG6LOCAL_kern'' struct_sk_buff,
    Member ''BPF_PROG_TYPE_SOCK_OPS_prog'' struct_bpf_sock_ops,
    Member ''BPF_PROG_TYPE_SOCK_OPS_kern'' struct_bpf_sock_ops_kern,
    Member ''BPF_PROG_TYPE_SK_SKB_prog'' struct___sk_buff,
    Member ''BPF_PROG_TYPE_SK_SKB_kern'' struct_sk_buff,
    Member ''BPF_PROG_TYPE_SK_MSG_prog'' struct_sk_msg_md,
    Member ''BPF_PROG_TYPE_SK_MSG_kern'' struct_sk_msg,
    Member ''BPF_PROG_TYPE_FLOW_DISSECTOR_prog'' struct___sk_buff,
    Member ''BPF_PROG_TYPE_FLOW_DISSECTOR_kern'' struct_bpf_flow_dissector,
    Member ''BPF_PROG_TYPE_KPROBE_prog'' t_bpf_user_pt_regs_t,
    Member ''BPF_PROG_TYPE_KPROBE_kern'' struct_pt_regs,
    Member ''BPF_PROG_TYPE_TRACEPOINT_prog'' t___u64,
    Member ''BPF_PROG_TYPE_TRACEPOINT_kern'' t_u64,
    Member ''BPF_PROG_TYPE_PERF_EVENT_prog'' struct_bpf_perf_event_data,
    Member ''BPF_PROG_TYPE_PERF_EVENT_kern'' struct_bpf_perf_event_data_kern,
    Member ''BPF_PROG_TYPE_RAW_TRACEPOINT_prog'' struct_bpf_raw_tracepoint_args,
    Member ''BPF_PROG_TYPE_RAW_TRACEPOINT_kern'' t_u64,
    Member ''BPF_PROG_TYPE_RAW_TRACEPOINT_WRITABLE_prog'' struct_bpf_raw_tracepoint_args,
    Member ''BPF_PROG_TYPE_RAW_TRACEPOINT_WRITABLE_kern'' t_u64,
    Member ''BPF_PROG_TYPE_TRACING_prog'' (Ptr ''void *''),
    Member ''BPF_PROG_TYPE_TRACING_kern'' (Ptr ''void *''),
    Member ''BPF_PROG_TYPE_CGROUP_DEVICE_prog'' struct_bpf_cgroup_dev_ctx,
    Member ''BPF_PROG_TYPE_CGROUP_DEVICE_kern'' struct_bpf_cgroup_dev_ctx,
    Member ''BPF_PROG_TYPE_CGROUP_SYSCTL_prog'' struct_bpf_sysctl,
    Member ''BPF_PROG_TYPE_CGROUP_SYSCTL_kern'' struct_bpf_sysctl_kern,
    Member ''BPF_PROG_TYPE_CGROUP_SOCKOPT_prog'' struct_bpf_sockopt,
    Member ''BPF_PROG_TYPE_CGROUP_SOCKOPT_kern'' struct_bpf_sockopt_kern,
    Member ''BPF_PROG_TYPE_SK_REUSEPORT_prog'' struct_sk_reuseport_md,
    Member ''BPF_PROG_TYPE_SK_REUSEPORT_kern'' struct_sk_reuseport_kern,
    Member ''BPF_PROG_TYPE_SK_LOOKUP_prog'' struct_bpf_sk_lookup,
    Member ''BPF_PROG_TYPE_SK_LOOKUP_kern'' struct_bpf_sk_lookup_kern,
    Member ''BPF_PROG_TYPE_STRUCT_OPS_prog'' (Ptr ''void *''),
    Member ''BPF_PROG_TYPE_STRUCT_OPS_kern'' (Ptr ''void *''),
    Member ''BPF_PROG_TYPE_EXT_prog'' (Ptr ''void *''),
    Member ''BPF_PROG_TYPE_EXT_kern'' (Ptr ''void *''),
    Member ''BPF_PROG_TYPE_LSM_prog'' (Ptr ''void *''),
    Member ''BPF_PROG_TYPE_LSM_kern'' (Ptr ''void *''),
    Member ''BPF_PROG_TYPE_SYSCALL_prog'' (Ptr ''void *''),
    Member ''BPF_PROG_TYPE_SYSCALL_kern'' (Ptr ''void *''),
    Member ''BPF_PROG_TYPE_NETFILTER_prog'' struct_bpf_nf_ctx,
    Member ''BPF_PROG_TYPE_NETFILTER_kern'' struct_bpf_nf_ctx]"

definition struct_bpf_devmap_val :: ctype where
  "struct_bpf_devmap_val = Comp Struct False [
    Member ''ifindex'' t___u32,
    Member ''bpf_prog'' (Comp Union False [
      Member ''fd'' c_int,
      Member ''id'' t___u32])]"

definition struct_bpf_dispatcher_prog :: ctype where
  "struct_bpf_dispatcher_prog = Comp Struct False [
    Member ''prog'' (Ptr ''struct bpf_prog *''),
    Member ''users'' t_refcount_t]"

definition struct_bpf_dispatcher :: ctype where
  "struct_bpf_dispatcher = Comp Struct False [
    Member ''mutex'' struct_mutex,
    Member ''func'' (Ptr ''void *''),
    Member ''progs'' (Array 48 struct_bpf_dispatcher_prog),
    Member ''num_progs'' c_int,
    Member ''image'' (Ptr ''void *''),
    Member ''rw_image'' (Ptr ''void *''),
    Member ''image_off'' t_u32,
    Member ''ksym'' struct_bpf_ksym]"

definition struct_bpf_dtab :: ctype where
  "struct_bpf_dtab = Comp Struct False [
    Member ''map'' struct_bpf_map,
    Member ''netdev_map'' (Ptr ''struct bpf_dtab_netdev **''),
    Member ''list'' struct_list_head,
    Member ''dev_index_head'' (Ptr ''struct hlist_head *''),
    Member ''index_lock'' t_spinlock_t,
    Member ''items'' c_unsigned_int,
    Member ''n_buckets'' t_u32]"

definition struct_bpf_dtab_netdev :: ctype where
  "struct_bpf_dtab_netdev = Comp Struct False [
    Member ''dev'' (Ptr ''struct net_device *''),
    Member ''index_hlist'' struct_hlist_node,
    Member ''xdp_prog'' (Ptr ''struct bpf_prog *''),
    Member ''rcu'' struct_callback_head,
    Member ''idx'' c_unsigned_int,
    Member ''val'' struct_bpf_devmap_val]"

definition struct_bpf_dummy_ops :: ctype where
  "struct_bpf_dummy_ops = Comp Struct False [
    Member ''test_1'' (Ptr ''int (*)(struct bpf_dummy_ops_state *)''),
    Member ''test_2'' (Ptr ''int (*)(struct bpf_dummy_ops_state *, int, unsigned short, char, unsigned long)''),
    Member ''test_sleepable'' (Ptr ''int (*)(struct bpf_dummy_ops_state *)'')]"

definition struct_bpf_dummy_ops_state :: ctype where
  "struct_bpf_dummy_ops_state = Comp Struct False [
    Member ''val'' c_int]"

definition struct_bpf_dummy_ops_test_args :: ctype where
  "struct_bpf_dummy_ops_test_args = Comp Struct False [
    Member ''args'' (Array 12 t_u64),
    Member ''state'' struct_bpf_dummy_ops_state]"

definition struct_bpf_dynptr :: ctype where
  "struct_bpf_dynptr = Comp Struct False [
    Member ''__opaque'' (Array 2 t___u64)]"

definition struct_bpf_dynptr_kern :: ctype where
  "struct_bpf_dynptr_kern = Comp Struct False [
    Member ''data'' (Ptr ''void *''),
    Member ''size'' t_u32,
    Member ''offset'' t_u32]"

definition struct_bpf_prog_array_item :: ctype where
  "struct_bpf_prog_array_item = Comp Struct False [
    Member ''prog'' (Ptr ''struct bpf_prog *''),
    Member '''' (Comp Union False [
      Member ''cgroup_storage'' (Array 2 (Ptr ''struct bpf_cgroup_storage *'')),
      Member ''bpf_cookie'' t_u64])]"

definition struct_bpf_prog_array :: ctype where
  "struct_bpf_prog_array = Comp Struct False [
    Member ''rcu'' struct_callback_head,
    Member ''items'' (Array 0 struct_bpf_prog_array_item)]"

definition struct_bpf_empty_prog_array :: ctype where
  "struct_bpf_empty_prog_array = Comp Struct False [
    Member ''hdr'' struct_bpf_prog_array,
    Member ''null_prog'' (Ptr ''struct bpf_prog *'')]"

definition struct_bpf_event_entry :: ctype where
  "struct_bpf_event_entry = Comp Struct False [
    Member ''event'' (Ptr ''struct perf_event *''),
    Member ''perf_file'' (Ptr ''struct file *''),
    Member ''map_file'' (Ptr ''struct file *''),
    Member ''rcu'' struct_callback_head]"

definition struct_bpf_fentry_test_t :: ctype where
  "struct_bpf_fentry_test_t = Comp Struct False [
    Member ''a'' (Ptr ''struct bpf_fentry_test_t *'')]"

definition struct_bpf_fib_lookup :: ctype where
  "struct_bpf_fib_lookup = Comp Struct False [
    Member ''family'' t___u8,
    Member ''l4_protocol'' t___u8,
    Member ''sport'' t___be16,
    Member ''dport'' t___be16,
    Member '''' (Comp Union False [
      Member ''tot_len'' t___u16,
      Member ''mtu_result'' t___u16]),
    Member ''ifindex'' t___u32,
    Member '''' (Comp Union False [
      Member ''tos'' t___u8,
      Member ''flowinfo'' t___be32,
      Member ''rt_metric'' t___u32]),
    Member '''' (Comp Union False [
      Member ''ipv4_src'' t___be32,
      Member ''ipv6_src'' (Array 4 t___u32)]),
    Member '''' (Comp Union False [
      Member ''ipv4_dst'' t___be32,
      Member ''ipv6_dst'' (Array 4 t___u32)]),
    Member '''' (Comp Union False [
      Member '''' (Comp Struct False [
        Member ''h_vlan_proto'' t___be16,
        Member ''h_vlan_TCI'' t___be16]),
      Member ''tbid'' t___u32]),
    Member '''' (Comp Union False [
      Member '''' (Comp Struct False [
        Member ''mark'' t___u32]),
      Member '''' (Comp Struct False [
        Member ''smac'' (Array 6 t___u8),
        Member ''dmac'' (Array 6 t___u8)])])]"

definition struct_bpf_flow_keys :: ctype where
  "struct_bpf_flow_keys = Comp Struct False [
    Member ''nhoff'' t___u16,
    Member ''thoff'' t___u16,
    Member ''addr_proto'' t___u16,
    Member ''is_frag'' t___u8,
    Member ''is_first_frag'' t___u8,
    Member ''is_encap'' t___u8,
    Member ''ip_proto'' t___u8,
    Member ''n_proto'' t___be16,
    Member ''sport'' t___be16,
    Member ''dport'' t___be16,
    Member '''' (Comp Union False [
      Member '''' (Comp Struct False [
        Member ''ipv4_src'' t___be32,
        Member ''ipv4_dst'' t___be32]),
      Member '''' (Comp Struct False [
        Member ''ipv6_src'' (Array 4 t___u32),
        Member ''ipv6_dst'' (Array 4 t___u32)])]),
    Member ''flags'' t___u32,
    Member ''flow_label'' t___be32]"

definition struct_bpf_flowtable_opts :: ctype where
  "struct_bpf_flowtable_opts = Comp Struct False [
    Member ''error'' t_s32]"

definition struct_bpf_fou_encap :: ctype where
  "struct_bpf_fou_encap = Comp Struct False [
    Member ''sport'' t___be16,
    Member ''dport'' t___be16]"

definition struct_bpf_func_info :: ctype where
  "struct_bpf_func_info = Comp Struct False [
    Member ''insn_off'' t___u32,
    Member ''type_id'' t___u32]"

definition struct_bpf_func_info_aux :: ctype where
  "struct_bpf_func_info_aux = Comp Struct False [
    Member ''linkage'' t_u16,
    Member ''unreliable'' t_bool,
    BitField ''called'' t_bool 1,
    BitField ''verified'' t_bool 1]"

definition struct_bpf_func_proto :: ctype where
  "struct_bpf_func_proto = Comp Struct False [
    Member ''func'' (Ptr ''u64 (*)(u64, u64, u64, u64, u64)''),
    Member ''gpl_only'' t_bool,
    Member ''pkt_access'' t_bool,
    Member ''might_sleep'' t_bool,
    Member ''allow_fastcall'' t_bool,
    Member ''ret_type'' enum_bpf_return_type,
    Member '''' (Comp Union False [
      Member '''' (Comp Struct False [
        Member ''arg1_type'' enum_bpf_arg_type,
        Member ''arg2_type'' enum_bpf_arg_type,
        Member ''arg3_type'' enum_bpf_arg_type,
        Member ''arg4_type'' enum_bpf_arg_type,
        Member ''arg5_type'' enum_bpf_arg_type]),
      Member ''arg_type'' (Array 5 enum_bpf_arg_type)]),
    Member '''' (Comp Union False [
      Member '''' (Comp Struct False [
        Member ''arg1_btf_id'' (Ptr ''u32 *''),
        Member ''arg2_btf_id'' (Ptr ''u32 *''),
        Member ''arg3_btf_id'' (Ptr ''u32 *''),
        Member ''arg4_btf_id'' (Ptr ''u32 *''),
        Member ''arg5_btf_id'' (Ptr ''u32 *'')]),
      Member ''arg_btf_id'' (Array 5 (Ptr ''u32 *'')),
      Member '''' (Comp Struct False [
        Member ''arg1_size'' t_size_t,
        Member ''arg2_size'' t_size_t,
        Member ''arg3_size'' t_size_t,
        Member ''arg4_size'' t_size_t,
        Member ''arg5_size'' t_size_t]),
      Member ''arg_size'' (Array 5 t_size_t)]),
    Member ''ret_btf_id'' (Ptr ''int *''),
    Member ''allowed'' (Ptr ''bool (*)(const struct bpf_prog *)'')]"

definition struct_bpf_retval_range :: ctype where
  "struct_bpf_retval_range = Comp Struct False [
    Member ''minval'' t_s32,
    Member ''maxval'' t_s32]"

definition struct_bpf_func_state :: ctype where
  "struct_bpf_func_state = Comp Struct False [
    Member ''regs'' (Array 11 struct_bpf_reg_state),
    Member ''callsite'' c_int,
    Member ''frameno'' t_u32,
    Member ''subprogno'' t_u32,
    Member ''async_entry_cnt'' t_u32,
    Member ''callback_ret_range'' struct_bpf_retval_range,
    Member ''in_callback_fn'' t_bool,
    Member ''in_async_callback_fn'' t_bool,
    Member ''in_exception_callback_fn'' t_bool,
    Member ''callback_depth'' t_u32,
    Member ''stack'' (Ptr ''struct bpf_stack_state *''),
    Member ''allocated_stack'' c_int]"

definition struct_bpf_hrtimer :: ctype where
  "struct_bpf_hrtimer = Comp Struct False [
    Member ''cb'' struct_bpf_async_cb,
    Member ''timer'' struct_hrtimer,
    Member ''cancelling'' t_atomic_t]"

definition struct_bpf_mem_alloc :: ctype where
  "struct_bpf_mem_alloc = Comp Struct False [
    Member ''caches'' (Ptr ''struct bpf_mem_caches *''),
    Member ''cache'' (Ptr ''struct bpf_mem_cache *''),
    Member ''objcg'' (Ptr ''struct obj_cgroup *''),
    Member ''percpu'' t_bool,
    Member ''work'' struct_work_struct]"

definition t_del_from_htab_func :: ctype where
  "t_del_from_htab_func = Ptr ''bool (*)(void *, struct bpf_lru_node *)''"

definition struct_bpf_lru :: ctype where
  "struct_bpf_lru = Comp Struct False ([
    Member '''' (Comp Union False [
      Member ''common_lru'' struct_bpf_common_lru,
      Member ''percpu_lru'' (Ptr ''struct bpf_lru_list *'')]),
    Member ''del_from_htab'' t_del_from_htab_func,
    Member ''del_arg'' (Ptr ''void *''),
    Member ''hash_offset'' c_unsigned_int,
    Member ''target_free'' c_unsigned_int,
    Member ''nr_scans'' c_unsigned_int,
    Member ''percpu'' t_bool] @ replicate 12 (BitField '''' c_long 64))"

definition struct_pcpu_freelist :: ctype where
  "struct_pcpu_freelist = Comp Struct False [
    Member ''freelist'' (Ptr ''struct pcpu_freelist_head *'')]"

definition struct_bpf_htab :: ctype where
  "struct_bpf_htab = Comp Struct False ([
    Member ''map'' struct_bpf_map,
    Member ''ma'' struct_bpf_mem_alloc,
    Member ''pcpu_ma'' struct_bpf_mem_alloc,
    Member ''buckets'' (Ptr ''struct bucket___2 *''),
    Member ''elems'' (Ptr ''void *'')] @ replicate 15 (BitField '''' c_long 64) @ [
    Member '''' (Comp Union False [
      Member ''freelist'' struct_pcpu_freelist,
      Member ''lru'' struct_bpf_lru]),
    Member ''extra_elems'' (Ptr ''struct htab_elem **''),
    Member ''pcount'' struct_percpu_counter,
    Member ''count'' t_atomic_t,
    Member ''use_percpu_counter'' t_bool,
    Member ''n_buckets'' t_u32,
    Member ''elem_size'' t_u32,
    Member ''hashrnd'' t_u32] @ replicate 9 (BitField '''' c_long 64))"

definition struct_bpf_insn_access_aux :: ctype where
  "struct_bpf_insn_access_aux = Comp Struct False [
    Member ''reg_type'' enum_bpf_reg_type,
    Member ''is_ldsx'' t_bool,
    Member '''' (Comp Union False [
      Member ''ctx_field_size'' c_int,
      Member '''' (Comp Struct False [
        Member ''btf'' (Ptr ''struct btf *''),
        Member ''btf_id'' t_u32,
        Member ''ref_obj_id'' t_u32])]),
    Member ''log'' (Ptr ''struct bpf_verifier_log *''),
    Member ''is_retval'' t_bool]"

definition struct_bpf_map_ptr_state :: ctype where
  "struct_bpf_map_ptr_state = Comp Struct False [
    Member ''map_ptr'' (Ptr ''struct bpf_map *''),
    Member ''poison'' t_bool,
    Member ''unpriv'' t_bool]"

definition struct_bpf_loop_inline_state :: ctype where
  "struct_bpf_loop_inline_state = Comp Struct False [
    BitField ''initialized'' c_unsigned_int 1,
    BitField ''fit_for_inline'' c_unsigned_int 1,
    Member ''callback_subprogno'' t_u32]"

definition struct_bpf_insn_aux_data :: ctype where
  "struct_bpf_insn_aux_data = Comp Struct False [
    Member '''' (Comp Union False [
      Member ''ptr_type'' enum_bpf_reg_type,
      Member ''map_ptr_state'' struct_bpf_map_ptr_state,
      Member ''call_imm'' t_s32,
      Member ''alu_limit'' t_u32,
      Member '''' (Comp Struct False [
        Member ''map_index'' t_u32,
        Member ''map_off'' t_u32]),
      Member ''btf_var'' (Comp Struct False [
        Member ''reg_type'' enum_bpf_reg_type,
        Member '''' (Comp Union False [
          Member '''' (Comp Struct False [
            Member ''btf'' (Ptr ''struct btf *''),
            Member ''btf_id'' t_u32]),
          Member ''mem_size'' t_u32])]),
      Member ''loop_inline_state'' struct_bpf_loop_inline_state]),
    Member '''' (Comp Union False [
      Member ''obj_new_size'' t_u64,
      Member ''insert_off'' t_u64]),
    Member ''kptr_struct_meta'' (Ptr ''struct btf_struct_meta *''),
    Member ''map_key_state'' t_u64,
    Member ''ctx_field_size'' c_int,
    Member ''seen'' t_u32,
    Member ''nospec'' t_bool,
    Member ''nospec_result'' t_bool,
    Member ''zext_dst'' t_bool,
    Member ''needs_zext'' t_bool,
    Member ''storage_get_func_atomic'' t_bool,
    Member ''is_iter_next'' t_bool,
    Member ''call_with_percpu_alloc_ptr'' t_bool,
    Member ''alu_state'' t_u8,
    BitField ''fastcall_pattern'' t_u8 1,
    BitField ''fastcall_spills_num'' t_u8 3,
    BitField ''arg_prog'' t_u8 4,
    Member ''orig_idx'' c_unsigned_int,
    Member ''jmp_point'' t_bool,
    Member ''prune_point'' t_bool,
    Member ''force_checkpoint'' t_bool,
    Member ''calls_callback'' t_bool,
    Member ''scc'' t_u32,
    Member ''live_regs_before'' t_u16]"

definition t_bpf_insn_print_t :: ctype where
  "t_bpf_insn_print_t = Ptr ''void (*)(void *, const char *, ...)''"

definition t_bpf_insn_revmap_call_t :: ctype where
  "t_bpf_insn_revmap_call_t = Ptr ''char * (*)(void *, const struct bpf_insn *)''"

definition t_bpf_insn_print_imm_t :: ctype where
  "t_bpf_insn_print_imm_t = Ptr ''char * (*)(void *, const struct bpf_insn *, __u64)''"

definition struct_bpf_insn_cbs :: ctype where
  "struct_bpf_insn_cbs = Comp Struct False [
    Member ''cb_print'' t_bpf_insn_print_t,
    Member ''cb_call'' t_bpf_insn_revmap_call_t,
    Member ''cb_imm'' t_bpf_insn_print_imm_t,
    Member ''private_data'' (Ptr ''void *'')]"

definition struct_bpf_iter__bpf_link :: ctype where
  "struct_bpf_iter__bpf_link = Comp Struct False [
    Member '''' (Comp Union False [
      Member ''meta'' (Ptr ''struct bpf_iter_meta *'')]),
    Member '''' (Comp Union False [
      Member ''link'' (Ptr ''struct bpf_link *'')])]"

definition struct_bpf_iter__bpf_map :: ctype where
  "struct_bpf_iter__bpf_map = Comp Struct False [
    Member '''' (Comp Union False [
      Member ''meta'' (Ptr ''struct bpf_iter_meta *'')]),
    Member '''' (Comp Union False [
      Member ''map'' (Ptr ''struct bpf_map *'')])]"

definition struct_bpf_iter__bpf_map_elem :: ctype where
  "struct_bpf_iter__bpf_map_elem = Comp Struct False [
    Member '''' (Comp Union False [
      Member ''meta'' (Ptr ''struct bpf_iter_meta *'')]),
    Member '''' (Comp Union False [
      Member ''map'' (Ptr ''struct bpf_map *'')]),
    Member '''' (Comp Union False [
      Member ''key'' (Ptr ''void *'')]),
    Member '''' (Comp Union False [
      Member ''value'' (Ptr ''void *'')])]"

definition struct_bpf_iter__bpf_prog :: ctype where
  "struct_bpf_iter__bpf_prog = Comp Struct False [
    Member '''' (Comp Union False [
      Member ''meta'' (Ptr ''struct bpf_iter_meta *'')]),
    Member '''' (Comp Union False [
      Member ''prog'' (Ptr ''struct bpf_prog *'')])]"

definition struct_bpf_iter__bpf_sk_storage_map :: ctype where
  "struct_bpf_iter__bpf_sk_storage_map = Comp Struct False [
    Member '''' (Comp Union False [
      Member ''meta'' (Ptr ''struct bpf_iter_meta *'')]),
    Member '''' (Comp Union False [
      Member ''map'' (Ptr ''struct bpf_map *'')]),
    Member '''' (Comp Union False [
      Member ''sk'' (Ptr ''struct sock *'')]),
    Member '''' (Comp Union False [
      Member ''value'' (Ptr ''void *'')])]"

definition struct_bpf_iter__cgroup :: ctype where
  "struct_bpf_iter__cgroup = Comp Struct False [
    Member '''' (Comp Union False [
      Member ''meta'' (Ptr ''struct bpf_iter_meta *'')]),
    Member '''' (Comp Union False [
      Member ''cgroup'' (Ptr ''struct cgroup *'')])]"

definition struct_bpf_iter__dmabuf :: ctype where
  "struct_bpf_iter__dmabuf = Comp Struct False [
    Member '''' (Comp Union False [
      Member ''meta'' (Ptr ''struct bpf_iter_meta *'')]),
    Member '''' (Comp Union False [
      Member ''dmabuf'' (Ptr ''struct dma_buf *'')])]"

definition struct_bpf_iter__ipv6_route :: ctype where
  "struct_bpf_iter__ipv6_route = Comp Struct False [
    Member '''' (Comp Union False [
      Member ''meta'' (Ptr ''struct bpf_iter_meta *'')]),
    Member '''' (Comp Union False [
      Member ''rt'' (Ptr ''struct fib6_info *'')])]"

definition struct_bpf_iter__kmem_cache :: ctype where
  "struct_bpf_iter__kmem_cache = Comp Struct False [
    Member '''' (Comp Union False [
      Member ''meta'' (Ptr ''struct bpf_iter_meta *'')]),
    Member '''' (Comp Union False [
      Member ''s'' (Ptr ''struct kmem_cache *'')])]"

definition struct_bpf_iter__ksym :: ctype where
  "struct_bpf_iter__ksym = Comp Struct False [
    Member '''' (Comp Union False [
      Member ''meta'' (Ptr ''struct bpf_iter_meta *'')]),
    Member '''' (Comp Union False [
      Member ''ksym'' (Ptr ''struct kallsym_iter *'')])]"

definition struct_bpf_iter__netlink :: ctype where
  "struct_bpf_iter__netlink = Comp Struct False [
    Member '''' (Comp Union False [
      Member ''meta'' (Ptr ''struct bpf_iter_meta *'')]),
    Member '''' (Comp Union False [
      Member ''sk'' (Ptr ''struct netlink_sock *'')])]"

definition struct_bpf_iter__sockmap :: ctype where
  "struct_bpf_iter__sockmap = Comp Struct False [
    Member '''' (Comp Union False [
      Member ''meta'' (Ptr ''struct bpf_iter_meta *'')]),
    Member '''' (Comp Union False [
      Member ''map'' (Ptr ''struct bpf_map *'')]),
    Member '''' (Comp Union False [
      Member ''key'' (Ptr ''void *'')]),
    Member '''' (Comp Union False [
      Member ''sk'' (Ptr ''struct sock *'')])]"

definition struct_bpf_iter__task :: ctype where
  "struct_bpf_iter__task = Comp Struct False [
    Member '''' (Comp Union False [
      Member ''meta'' (Ptr ''struct bpf_iter_meta *'')]),
    Member '''' (Comp Union False [
      Member ''task'' (Ptr ''struct task_struct *'')])]"

definition struct_bpf_iter__task__safe_trusted :: ctype where
  "struct_bpf_iter__task__safe_trusted = Comp Struct False [
    Member ''meta'' (Ptr ''struct bpf_iter_meta *''),
    Member ''task'' (Ptr ''struct task_struct *'')]"

definition struct_bpf_iter__task_file :: ctype where
  "struct_bpf_iter__task_file = Comp Struct False [
    Member '''' (Comp Union False [
      Member ''meta'' (Ptr ''struct bpf_iter_meta *'')]),
    Member '''' (Comp Union False [
      Member ''task'' (Ptr ''struct task_struct *'')]),
    Member ''fd'' t_u32,
    Member '''' (Comp Union False [
      Member ''file'' (Ptr ''struct file *'')])]"

definition struct_bpf_iter__task_vma :: ctype where
  "struct_bpf_iter__task_vma = Comp Struct False [
    Member '''' (Comp Union False [
      Member ''meta'' (Ptr ''struct bpf_iter_meta *'')]),
    Member '''' (Comp Union False [
      Member ''task'' (Ptr ''struct task_struct *'')]),
    Member '''' (Comp Union False [
      Member ''vma'' (Ptr ''struct vm_area_struct *'')])]"

definition struct_bpf_iter__tcp :: ctype where
  "struct_bpf_iter__tcp = Comp Struct False [
    Member '''' (Comp Union False [
      Member ''meta'' (Ptr ''struct bpf_iter_meta *'')]),
    Member '''' (Comp Union False [
      Member ''sk_common'' (Ptr ''struct sock_common *'')]),
    Member ''uid'' t_uid_t]"

definition struct_bpf_iter__udp :: ctype where
  "struct_bpf_iter__udp = Comp Struct False [
    Member '''' (Comp Union False [
      Member ''meta'' (Ptr ''struct bpf_iter_meta *'')]),
    Member '''' (Comp Union False [
      Member ''udp_sk'' (Ptr ''struct udp_sock *'')]),
    Member ''uid'' t_uid_t,
    BitField '''' c_long 0,
    Member ''bucket'' c_int]"

definition struct_bpf_iter__unix :: ctype where
  "struct_bpf_iter__unix = Comp Struct False [
    Member '''' (Comp Union False [
      Member ''meta'' (Ptr ''struct bpf_iter_meta *'')]),
    Member '''' (Comp Union False [
      Member ''unix_sk'' (Ptr ''struct unix_sock *'')]),
    Member ''uid'' t_uid_t]"

definition struct_bpf_iter_aux_info :: ctype where
  "struct_bpf_iter_aux_info = Comp Struct False [
    Member ''map'' (Ptr ''struct bpf_map *''),
    Member ''cgroup'' (Comp Struct False [
      Member ''start'' (Ptr ''struct cgroup *''),
      Member ''order'' enum_bpf_cgroup_iter_order]),
    Member ''task'' (Comp Struct False [
      Member ''type'' enum_bpf_iter_task_type,
      Member ''pid'' t_u32])]"

definition struct_bpf_iter_bits :: ctype where
  "struct_bpf_iter_bits = Comp Struct False [
    Member ''__opaque'' (Array 2 t___u64)]"

definition struct_bpf_iter_bits_kern :: ctype where
  "struct_bpf_iter_bits_kern = Comp Struct False [
    Member '''' (Comp Union False [
      Member ''bits'' (Ptr ''__u64 *''),
      Member ''bits_copy'' t___u64]),
    Member ''nr_bits'' c_int,
    Member ''bit'' c_int]"

definition struct_bpf_iter_css :: ctype where
  "struct_bpf_iter_css = Comp Struct False [
    Member ''__opaque'' (Array 3 t___u64)]"

definition struct_bpf_iter_css_kern :: ctype where
  "struct_bpf_iter_css_kern = Comp Struct False [
    Member ''start'' (Ptr ''struct cgroup_subsys_state *''),
    Member ''pos'' (Ptr ''struct cgroup_subsys_state *''),
    Member ''flags'' c_unsigned_int]"

definition struct_bpf_iter_css_task :: ctype where
  "struct_bpf_iter_css_task = Comp Struct False [
    Member ''__opaque'' (Array 1 t___u64)]"

definition struct_bpf_iter_css_task_kern :: ctype where
  "struct_bpf_iter_css_task_kern = Comp Struct False [
    Member ''css_it'' (Ptr ''struct css_task_iter *'')]"

definition struct_bpf_iter_dmabuf :: ctype where
  "struct_bpf_iter_dmabuf = Comp Struct False [
    Member ''__opaque'' (Array 1 t___u64)]"

definition struct_bpf_iter_dmabuf_kern :: ctype where
  "struct_bpf_iter_dmabuf_kern = Comp Struct False [
    Member ''dmabuf'' (Ptr ''struct dma_buf *'')]"

definition struct_bpf_iter_kmem_cache :: ctype where
  "struct_bpf_iter_kmem_cache = Comp Struct False [
    Member ''__opaque'' (Array 1 t___u64)]"

definition struct_bpf_iter_kmem_cache_kern :: ctype where
  "struct_bpf_iter_kmem_cache_kern = Comp Struct False [
    Member ''pos'' (Ptr ''struct kmem_cache *'')]"

definition struct_bpf_iter_link :: ctype where
  "struct_bpf_iter_link = Comp Struct False [
    Member ''link'' struct_bpf_link,
    Member ''aux'' struct_bpf_iter_aux_info,
    Member ''tinfo'' (Ptr ''struct bpf_iter_target_info *'')]"

definition union_bpf_iter_link_info :: ctype where
  "union_bpf_iter_link_info = Comp Union False [
    Member ''map'' (Comp Struct False [
      Member ''map_fd'' t___u32]),
    Member ''cgroup'' (Comp Struct False [
      Member ''order'' enum_bpf_cgroup_iter_order,
      Member ''cgroup_fd'' t___u32,
      Member ''cgroup_id'' t___u64]),
    Member ''task'' (Comp Struct False [
      Member ''tid'' t___u32,
      Member ''pid'' t___u32,
      Member ''pid_fd'' t___u32])]"

definition struct_bpf_iter_meta :: ctype where
  "struct_bpf_iter_meta = Comp Struct False [
    Member '''' (Comp Union False [
      Member ''seq'' (Ptr ''struct seq_file *'')]),
    Member ''session_id'' t_u64,
    Member ''seq_num'' t_u64]"

definition struct_bpf_iter_meta__safe_trusted :: ctype where
  "struct_bpf_iter_meta__safe_trusted = Comp Struct False [
    Member ''seq'' (Ptr ''struct seq_file *'')]"

definition struct_bpf_iter_num :: ctype where
  "struct_bpf_iter_num = Comp Struct False [
    Member ''__opaque'' (Array 1 t___u64)]"

definition struct_bpf_iter_num_kern :: ctype where
  "struct_bpf_iter_num_kern = Comp Struct False [
    Member ''cur'' c_int,
    Member ''end'' c_int]"

definition struct_bpf_iter_priv_data :: ctype where
  "struct_bpf_iter_priv_data = Comp Struct False [
    Member ''tinfo'' (Ptr ''struct bpf_iter_target_info *''),
    Member ''seq_info'' (Ptr ''struct bpf_iter_seq_info *''),
    Member ''prog'' (Ptr ''struct bpf_prog *''),
    Member ''session_id'' t_u64,
    Member ''seq_num'' t_u64,
    Member ''done_stop'' t_bool,
    BitField '''' c_long 0,
    Member ''target_private'' (Array 0 t_u8)]"

definition t_bpf_iter_attach_target_t :: ctype where
  "t_bpf_iter_attach_target_t = Ptr ''int (*)(struct bpf_prog *, union bpf_iter_link_info *, struct bpf_iter_aux_info *)''"

definition t_bpf_iter_detach_target_t :: ctype where
  "t_bpf_iter_detach_target_t = Ptr ''void (*)(struct bpf_iter_aux_info *)''"

definition t_bpf_iter_show_fdinfo_t :: ctype where
  "t_bpf_iter_show_fdinfo_t = Ptr ''void (*)(const struct bpf_iter_aux_info *, struct seq_file *)''"

definition t_bpf_iter_fill_link_info_t :: ctype where
  "t_bpf_iter_fill_link_info_t = Ptr ''int (*)(const struct bpf_iter_aux_info *, struct bpf_link_info *)''"

definition t_bpf_iter_get_func_proto_t :: ctype where
  "t_bpf_iter_get_func_proto_t = Ptr ''struct bpf_func_proto * (*)(enum bpf_func_id, const struct bpf_prog *)''"

definition struct_bpf_iter_reg :: ctype where
  "struct_bpf_iter_reg = Comp Struct False [
    Member ''target'' (Ptr ''char *''),
    Member ''attach_target'' t_bpf_iter_attach_target_t,
    Member ''detach_target'' t_bpf_iter_detach_target_t,
    Member ''show_fdinfo'' t_bpf_iter_show_fdinfo_t,
    Member ''fill_link_info'' t_bpf_iter_fill_link_info_t,
    Member ''get_func_proto'' t_bpf_iter_get_func_proto_t,
    Member ''ctx_arg_info_size'' t_u32,
    Member ''feature'' t_u32,
    Member ''ctx_arg_info'' (Array 2 struct_bpf_ctx_arg_aux),
    Member ''seq_info'' (Ptr ''struct bpf_iter_seq_info *'')]"

definition struct_bpf_iter_seq_array_map_info :: ctype where
  "struct_bpf_iter_seq_array_map_info = Comp Struct False [
    Member ''map'' (Ptr ''struct bpf_map *''),
    Member ''percpu_value_buf'' (Ptr ''void *''),
    Member ''index'' t_u32]"

definition struct_bpf_iter_seq_hash_map_info :: ctype where
  "struct_bpf_iter_seq_hash_map_info = Comp Struct False [
    Member ''map'' (Ptr ''struct bpf_map *''),
    Member ''htab'' (Ptr ''struct bpf_htab *''),
    Member ''percpu_value_buf'' (Ptr ''void *''),
    Member ''bucket_id'' t_u32,
    Member ''skip_elems'' t_u32]"

definition t_bpf_iter_init_seq_priv_t :: ctype where
  "t_bpf_iter_init_seq_priv_t = Ptr ''int (*)(void *, struct bpf_iter_aux_info *)''"

definition t_bpf_iter_fini_seq_priv_t :: ctype where
  "t_bpf_iter_fini_seq_priv_t = Ptr ''void (*)(void *)''"

definition struct_bpf_iter_seq_info :: ctype where
  "struct_bpf_iter_seq_info = Comp Struct False [
    Member ''seq_ops'' (Ptr ''struct seq_operations *''),
    Member ''init_seq_private'' t_bpf_iter_init_seq_priv_t,
    Member ''fini_seq_private'' t_bpf_iter_fini_seq_priv_t,
    Member ''seq_priv_size'' t_u32]"

definition struct_bpf_iter_seq_link_info :: ctype where
  "struct_bpf_iter_seq_link_info = Comp Struct False [
    Member ''link_id'' t_u32]"

definition struct_bpf_iter_seq_map_info :: ctype where
  "struct_bpf_iter_seq_map_info = Comp Struct False [
    Member ''map_id'' t_u32]"

definition struct_bpf_iter_seq_prog_info :: ctype where
  "struct_bpf_iter_seq_prog_info = Comp Struct False [
    Member ''prog_id'' t_u32]"

definition struct_bpf_iter_seq_sk_storage_map_info :: ctype where
  "struct_bpf_iter_seq_sk_storage_map_info = Comp Struct False [
    Member ''map'' (Ptr ''struct bpf_map *''),
    Member ''bucket_id'' c_unsigned_int,
    Member ''skip_elems'' c_unsigned_int]"

definition struct_bpf_iter_seq_task_common :: ctype where
  "struct_bpf_iter_seq_task_common = Comp Struct False [
    Member ''ns'' (Ptr ''struct pid_namespace *''),
    Member ''type'' enum_bpf_iter_task_type,
    Member ''pid'' t_u32,
    Member ''pid_visiting'' t_u32]"

definition struct_bpf_iter_seq_task_file_info :: ctype where
  "struct_bpf_iter_seq_task_file_info = Comp Struct False [
    Member ''common'' struct_bpf_iter_seq_task_common,
    Member ''task'' (Ptr ''struct task_struct *''),
    Member ''tid'' t_u32,
    Member ''fd'' t_u32]"

definition struct_bpf_iter_seq_task_info :: ctype where
  "struct_bpf_iter_seq_task_info = Comp Struct False [
    Member ''common'' struct_bpf_iter_seq_task_common,
    Member ''tid'' t_u32]"

definition struct_bpf_iter_seq_task_vma_info :: ctype where
  "struct_bpf_iter_seq_task_vma_info = Comp Struct False [
    Member ''common'' struct_bpf_iter_seq_task_common,
    Member ''task'' (Ptr ''struct task_struct *''),
    Member ''mm'' (Ptr ''struct mm_struct *''),
    Member ''vma'' (Ptr ''struct vm_area_struct *''),
    Member ''tid'' t_u32,
    Member ''prev_vm_start'' c_unsigned_long,
    Member ''prev_vm_end'' c_unsigned_long]"

definition struct_bpf_iter_target_info :: ctype where
  "struct_bpf_iter_target_info = Comp Struct False [
    Member ''list'' struct_list_head,
    Member ''reg_info'' (Ptr ''struct bpf_iter_reg *''),
    Member ''btf_id'' t_u32]"

definition struct_bpf_iter_task :: ctype where
  "struct_bpf_iter_task = Comp Struct False [
    Member ''__opaque'' (Array 3 t___u64)]"

definition struct_bpf_iter_task_kern :: ctype where
  "struct_bpf_iter_task_kern = Comp Struct False [
    Member ''task'' (Ptr ''struct task_struct *''),
    Member ''pos'' (Ptr ''struct task_struct *''),
    Member ''flags'' c_unsigned_int]"

definition struct_bpf_iter_task_vma :: ctype where
  "struct_bpf_iter_task_vma = Comp Struct False [
    Member ''__opaque'' (Array 1 t___u64)]"

definition struct_bpf_iter_task_vma_kern :: ctype where
  "struct_bpf_iter_task_vma_kern = Comp Struct False [
    Member ''data'' (Ptr ''struct bpf_iter_task_vma_kern_data *'')]"

definition enum_maple_status :: ctype where
  "enum_maple_status = Enum False [
    (''ma_active'', 0), (''ma_start'', 1), (''ma_root'', 2), (''ma_none'', 3), (''ma_pause'', 4),
    (''ma_overflow'', 5), (''ma_underflow'', 6), (''ma_error'', 7)]"

definition enum_store_type :: ctype where
  "enum_store_type = Enum False [
    (''wr_invalid'', 0), (''wr_new_root'', 1), (''wr_store_root'', 2), (''wr_exact_fit'', 3),
    (''wr_spanning_store'', 4), (''wr_split_store'', 5), (''wr_rebalance'', 6),
    (''wr_append'', 7), (''wr_node_store'', 8), (''wr_slot_store'', 9)]"

definition struct_ma_state :: ctype where
  "struct_ma_state = Comp Struct False [
    Member ''tree'' (Ptr ''struct maple_tree *''),
    Member ''index'' c_unsigned_long,
    Member ''last'' c_unsigned_long,
    Member ''node'' (Ptr ''struct maple_enode *''),
    Member ''min'' c_unsigned_long,
    Member ''max'' c_unsigned_long,
    Member ''alloc'' (Ptr ''struct maple_alloc *''),
    Member ''status'' enum_maple_status,
    Member ''depth'' c_unsigned_char,
    Member ''offset'' c_unsigned_char,
    Member ''mas_flags'' c_unsigned_char,
    Member ''end'' c_unsigned_char,
    Member ''store_type'' enum_store_type]"

definition struct_vma_iterator :: ctype where
  "struct_vma_iterator = Comp Struct False [
    Member ''mas'' struct_ma_state]"

definition struct_bpf_iter_task_vma_kern_data :: ctype where
  "struct_bpf_iter_task_vma_kern_data = Comp Struct False [
    Member ''task'' (Ptr ''struct task_struct *''),
    Member ''mm'' (Ptr ''struct mm_struct *''),
    Member ''work'' (Ptr ''struct mmap_unlock_irq_work *''),
    Member ''vmi'' struct_vma_iterator]"

definition struct_bpf_jit_poke_descriptor :: ctype where
  "struct_bpf_jit_poke_descriptor = Comp Struct False [
    Member ''tailcall_target'' (Ptr ''void *''),
    Member ''tailcall_bypass'' (Ptr ''void *''),
    Member ''bypass_addr'' (Ptr ''void *''),
    Member ''aux'' (Ptr ''void *''),
    Member '''' (Comp Union False [
      Member ''tail_call'' (Comp Struct False [
        Member ''map'' (Ptr ''struct bpf_map *''),
        Member ''key'' t_u32])]),
    Member ''tailcall_target_stable'' t_bool,
    Member ''adj_off'' t_u8,
    Member ''reason'' t_u16,
    Member ''insn_idx'' t_u32]"

definition struct_bpf_jmp_history_entry :: ctype where
  "struct_bpf_jmp_history_entry = Comp Struct False [
    Member ''idx'' t_u32,
    BitField ''prev_idx'' t_u32 20,
    BitField ''flags'' t_u32 12,
    Member ''linked_regs'' t_u64]"

definition struct_bpf_key :: ctype where
  "struct_bpf_key = Comp Struct False [
    Member ''key'' (Ptr ''struct key *''),
    Member ''has_ref'' t_bool]"

definition struct_bpf_kfunc_btf :: ctype where
  "struct_bpf_kfunc_btf = Comp Struct False [
    Member ''btf'' (Ptr ''struct btf *''),
    Member ''module'' (Ptr ''struct module *''),
    Member ''offset'' t_u16]"

definition struct_bpf_kfunc_btf_tab :: ctype where
  "struct_bpf_kfunc_btf_tab = Comp Struct False [
    Member ''descs'' (Array 256 struct_bpf_kfunc_btf),
    Member ''nr_descs'' t_u32]"

definition struct_bpf_kfunc_call_arg_meta :: ctype where
  "struct_bpf_kfunc_call_arg_meta = Comp Struct False [
    Member ''btf'' (Ptr ''struct btf *''),
    Member ''func_id'' t_u32,
    Member ''kfunc_flags'' t_u32,
    Member ''func_proto'' (Ptr ''struct btf_type *''),
    Member ''func_name'' (Ptr ''char *''),
    Member ''ref_obj_id'' t_u32,
    Member ''release_regno'' t_u8,
    Member ''r0_rdonly'' t_bool,
    Member ''ret_btf_id'' t_u32,
    Member ''r0_size'' t_u64,
    Member ''subprogno'' t_u32,
    Member ''arg_constant'' (Comp Struct False [
      Member ''value'' t_u64,
      Member ''found'' t_bool]),
    Member ''arg_btf'' (Ptr ''struct btf *''),
    Member ''arg_btf_id'' t_u32,
    Member ''arg_owning_ref'' t_bool,
    Member ''arg_prog'' t_bool,
    Member ''arg_list_head'' (Comp Struct False [
      Member ''field'' (Ptr ''struct btf_field *'')]),
    Member ''arg_rbtree_root'' (Comp Struct False [
      Member ''field'' (Ptr ''struct btf_field *'')]),
    Member ''initialized_dynptr'' (Comp Struct False [
      Member ''type'' enum_bpf_dynptr_type,
      Member ''id'' t_u32,
      Member ''ref_obj_id'' t_u32]),
    Member ''iter'' (Comp Struct False [
      Member ''spi'' t_u8,
      Member ''frameno'' t_u8]),
    Member ''map'' (Comp Struct False [
      Member ''ptr'' (Ptr ''struct bpf_map *''),
      Member ''uid'' c_int]),
    Member ''mem_size'' t_u64]"

definition struct_bpf_kfunc_desc :: ctype where
  "struct_bpf_kfunc_desc = Comp Struct False [
    Member ''func_model'' struct_btf_func_model,
    Member ''func_id'' t_u32,
    Member ''imm'' t_s32,
    Member ''offset'' t_u16,
    Member ''addr'' c_unsigned_long]"

definition struct_bpf_kfunc_desc_tab :: ctype where
  "struct_bpf_kfunc_desc_tab = Comp Struct False [
    Member ''descs'' (Array 256 struct_bpf_kfunc_desc),
    Member ''nr_descs'' t_u32]"

definition t_fprobe_entry_cb :: ctype where
  "t_fprobe_entry_cb = Ptr ''int (*)(struct fprobe *, unsigned long, unsigned long, struct ftrace_regs *, void *)''"

definition t_fprobe_exit_cb :: ctype where
  "t_fprobe_exit_cb = Ptr ''void (*)(struct fprobe *, unsigned long, unsigned long, struct ftrace_regs *, void *)''"

definition struct_fprobe :: ctype where
  "struct_fprobe = Comp Struct False [
    Member ''nmissed'' c_unsigned_long,
    Member ''flags'' c_unsigned_int,
    Member ''entry_data_size'' t_size_t,
    Member ''entry_handler'' t_fprobe_entry_cb,
    Member ''exit_handler'' t_fprobe_exit_cb,
    Member ''hlist_array'' (Ptr ''struct fprobe_hlist *'')]"

definition struct_bpf_kprobe_multi_link :: ctype where
  "struct_bpf_kprobe_multi_link = Comp Struct False [
    Member ''link'' struct_bpf_link,
    Member ''fp'' struct_fprobe,
    Member ''addrs'' (Ptr ''unsigned long *''),
    Member ''cookies'' (Ptr ''u64 *''),
    Member ''cnt'' t_u32,
    Member ''mods_cnt'' t_u32,
    Member ''mods'' (Ptr ''struct module **'')]"

definition struct_bpf_session_run_ctx :: ctype where
  "struct_bpf_session_run_ctx = Comp Struct False [
    Member ''run_ctx'' struct_bpf_run_ctx,
    Member ''is_return'' t_bool,
    Member ''data'' (Ptr ''void *'')]"

definition struct_bpf_kprobe_multi_run_ctx :: ctype where
  "struct_bpf_kprobe_multi_run_ctx = Comp Struct False [
    Member ''session_ctx'' struct_bpf_session_run_ctx,
    Member ''link'' (Ptr ''struct bpf_kprobe_multi_link *''),
    Member ''entry_ip'' c_unsigned_long]"

definition struct_bpf_line_info :: ctype where
  "struct_bpf_line_info = Comp Struct False [
    Member ''insn_off'' t___u32,
    Member ''file_name_off'' t___u32,
    Member ''line_off'' t___u32,
    Member ''line_col'' t___u32]"

definition struct_bpf_link_ops :: ctype where
  "struct_bpf_link_ops = Comp Struct False [
    Member ''release'' (Ptr ''void (*)(struct bpf_link *)''),
    Member ''dealloc'' (Ptr ''void (*)(struct bpf_link *)''),
    Member ''dealloc_deferred'' (Ptr ''void (*)(struct bpf_link *)''),
    Member ''detach'' (Ptr ''int (*)(struct bpf_link *)''),
    Member ''update_prog'' (Ptr ''int (*)(struct bpf_link *, struct bpf_prog *, struct bpf_prog *)''),
    Member ''show_fdinfo'' (Ptr ''void (*)(const struct bpf_link *, struct seq_file *)''),
    Member ''fill_link_info'' (Ptr ''int (*)(const struct bpf_link *, struct bpf_link_info *)''),
    Member ''update_map'' (Ptr ''int (*)(struct bpf_link *, struct bpf_map *, struct bpf_map *)''),
    Member ''poll'' (Ptr ''__poll_t (*)(struct file *, struct poll_table_struct *)'')]"

definition struct_bpf_link_primer :: ctype where
  "struct_bpf_link_primer = Comp Struct False [
    Member ''link'' (Ptr ''struct bpf_link *''),
    Member ''file'' (Ptr ''struct file *''),
    Member ''fd'' c_int,
    Member ''id'' t_u32]"

definition struct_bpf_list_head :: ctype where
  "struct_bpf_list_head = Comp Struct False [
    Member ''__opaque'' (Array 2 t___u64)]"

definition struct_bpf_list_node :: ctype where
  "struct_bpf_list_node = Comp Struct False [
    Member ''__opaque'' (Array 3 t___u64)]"

definition struct_bpf_list_node_kern :: ctype where
  "struct_bpf_list_node_kern = Comp Struct False [
    Member ''list_head'' struct_list_head,
    Member ''owner'' (Ptr ''void *'')]"

definition struct_bpf_local_storage :: ctype where
  "struct_bpf_local_storage = Comp Struct False [
    Member ''cache'' (Array 16 (Ptr ''struct bpf_local_storage_data *'')),
    Member ''smap'' (Ptr ''struct bpf_local_storage_map *''),
    Member ''list'' struct_hlist_head,
    Member ''owner'' (Ptr ''void *''),
    Member ''rcu'' struct_callback_head,
    Member ''lock'' t_raw_spinlock_t]"

definition struct_bpf_local_storage_cache :: ctype where
  "struct_bpf_local_storage_cache = Comp Struct False [
    Member ''idx_lock'' t_spinlock_t,
    Member ''idx_usage_counts'' (Array 16 t_u64)]"

definition struct_bpf_local_storage_data :: ctype where
  "struct_bpf_local_storage_data = Comp Struct False [
    Member ''smap'' (Ptr ''struct bpf_local_storage_map *''),
    Member ''data'' (Array 0 t_u8)]"

definition struct_bpf_local_storage_elem :: ctype where
  "struct_bpf_local_storage_elem = Comp Struct False ([
    Member ''map_node'' struct_hlist_node,
    Member ''snode'' struct_hlist_node,
    Member ''local_storage'' (Ptr ''struct bpf_local_storage *''),
    Member '''' (Comp Union False [
      Member ''rcu'' struct_callback_head,
      Member ''free_node'' struct_hlist_node])] @ replicate 9 (BitField '''' c_long 64) @ [
    Member ''sdata'' struct_bpf_local_storage_data] @ replicate 15 (BitField '''' c_long 64))"

definition struct_bpf_local_storage_map :: ctype where
  "struct_bpf_local_storage_map = Comp Struct False [
    Member ''map'' struct_bpf_map,
    Member ''buckets'' (Ptr ''struct bpf_local_storage_map_bucket *''),
    Member ''bucket_log'' t_u32,
    Member ''elem_size'' t_u16,
    Member ''cache_idx'' t_u16,
    Member ''selem_ma'' struct_bpf_mem_alloc,
    Member ''storage_ma'' struct_bpf_mem_alloc,
    Member ''bpf_ma'' t_bool]"

definition struct_bpf_local_storage_map_bucket :: ctype where
  "struct_bpf_local_storage_map_bucket = Comp Struct False [
    Member ''list'' struct_hlist_head,
    Member ''lock'' t_raw_spinlock_t]"

definition struct_bpf_lpm_trie_key_hdr :: ctype where
  "struct_bpf_lpm_trie_key_hdr = Comp Struct False [
    Member ''prefixlen'' t___u32]"

definition struct_bpf_lpm_trie_key_u8 :: ctype where
  "struct_bpf_lpm_trie_key_u8 = Comp Struct False [
    Member '''' (Comp Union False [
      Member ''hdr'' struct_bpf_lpm_trie_key_hdr,
      Member ''prefixlen'' t___u32]),
    Member ''data'' (Array 0 t___u8)]"

definition struct_bpf_lru_locallist :: ctype where
  "struct_bpf_lru_locallist = Comp Struct False [
    Member ''lists'' (Array 2 struct_list_head),
    Member ''next_steal'' t_u16,
    Member ''lock'' t_raw_spinlock_t]"

definition struct_bpf_lru_node :: ctype where
  "struct_bpf_lru_node = Comp Struct False [
    Member ''list'' struct_list_head,
    Member ''cpu'' t_u16,
    Member ''type'' t_u8,
    Member ''ref'' t_u8]"

definition struct_bpf_lwt_prog :: ctype where
  "struct_bpf_lwt_prog = Comp Struct False [
    Member ''prog'' (Ptr ''struct bpf_prog *''),
    Member ''name'' (Ptr ''char *'')]"

definition struct_bpf_lwt :: ctype where
  "struct_bpf_lwt = Comp Struct False [
    Member ''in'' struct_bpf_lwt_prog,
    Member ''out'' struct_bpf_lwt_prog,
    Member ''xmit'' struct_bpf_lwt_prog,
    Member ''family'' c_int]"

definition struct_bpf_map_dev_ops :: ctype where
  "struct_bpf_map_dev_ops = Comp Struct False [
    Member ''map_get_next_key'' (Ptr ''int (*)(struct bpf_offloaded_map *, void *, void *)''),
    Member ''map_lookup_elem'' (Ptr ''int (*)(struct bpf_offloaded_map *, void *, void *)''),
    Member ''map_update_elem'' (Ptr ''int (*)(struct bpf_offloaded_map *, void *, void *, u64)''),
    Member ''map_delete_elem'' (Ptr ''int (*)(struct bpf_offloaded_map *, void *)'')]"

definition struct_bpf_map_owner :: ctype where
  "struct_bpf_map_owner = Comp Struct False [
    Member ''type'' enum_bpf_prog_type,
    Member ''jited'' t_bool,
    Member ''xdp_has_frags'' t_bool,
    Member ''storage_cookie'' (Array 2 t_u64),
    Member ''attach_func_proto'' (Ptr ''struct btf_type *''),
    Member ''expected_attach_type'' enum_bpf_attach_type]"

definition struct_bpf_mem_cache :: ctype where
  "struct_bpf_mem_cache = Comp Struct False [
    Member ''free_llist'' struct_llist_head,
    Member ''active'' t_local_t,
    Member ''free_llist_extra'' struct_llist_head,
    Member ''refill_work'' struct_irq_work,
    Member ''objcg'' (Ptr ''struct obj_cgroup *''),
    Member ''unit_size'' c_int,
    Member ''free_cnt'' c_int,
    Member ''low_watermark'' c_int,
    Member ''high_watermark'' c_int,
    Member ''batch'' c_int,
    Member ''percpu_size'' c_int,
    Member ''draining'' t_bool,
    Member ''tgt'' (Ptr ''struct bpf_mem_cache *''),
    Member ''free_by_rcu'' struct_llist_head,
    Member ''free_by_rcu_tail'' (Ptr ''struct llist_node *''),
    Member ''waiting_for_gp'' struct_llist_head,
    Member ''waiting_for_gp_tail'' (Ptr ''struct llist_node *''),
    Member ''rcu'' struct_callback_head,
    Member ''call_rcu_in_progress'' t_atomic_t,
    Member ''free_llist_extra_rcu'' struct_llist_head,
    Member ''free_by_rcu_ttrace'' struct_llist_head,
    Member ''waiting_for_gp_ttrace'' struct_llist_head,
    Member ''rcu_ttrace'' struct_callback_head,
    Member ''call_rcu_ttrace_in_progress'' t_atomic_t]"

definition struct_bpf_mem_caches :: ctype where
  "struct_bpf_mem_caches = Comp Struct False [
    Member ''cache'' (Array 11 struct_bpf_mem_cache)]"

definition struct_bpf_mount_opts :: ctype where
  "struct_bpf_mount_opts = Comp Struct False [
    Member ''uid'' t_kuid_t,
    Member ''gid'' t_kgid_t,
    Member ''mode'' t_umode_t,
    Member ''delegate_cmds'' t_u64,
    Member ''delegate_maps'' t_u64,
    Member ''delegate_progs'' t_u64,
    Member ''delegate_attachs'' t_u64]"

definition struct_bpf_nested_pt_regs :: ctype where
  "struct_bpf_nested_pt_regs = Comp Struct False [
    Member ''regs'' (Array 3 struct_pt_regs)]"

definition struct_bpf_nh_params :: ctype where
  "struct_bpf_nh_params = Comp Struct False [
    Member ''nh_family'' t_u32,
    Member '''' (Comp Union False [
      Member ''ipv4_nh'' t_u32,
      Member ''ipv6_nh'' struct_in6_addr])]"

definition struct_bpf_redirect_info :: ctype where
  "struct_bpf_redirect_info = Comp Struct False [
    Member ''tgt_index'' t_u64,
    Member ''tgt_value'' (Ptr ''void *''),
    Member ''map'' (Ptr ''struct bpf_map *''),
    Member ''flags'' t_u32,
    Member ''map_id'' t_u32,
    Member ''map_type'' enum_bpf_map_type,
    Member ''nh'' struct_bpf_nh_params,
    Member ''kern_flags'' t_u32]"

definition struct_bpf_net_context :: ctype where
  "struct_bpf_net_context = Comp Struct False [
    Member ''ri'' struct_bpf_redirect_info,
    Member ''cpu_map_flush_list'' struct_list_head,
    Member ''dev_map_flush_list'' struct_list_head,
    Member ''xskmap_map_flush_list'' struct_list_head]"

definition enum_netns_bpf_attach_type :: ctype where
  "enum_netns_bpf_attach_type = Enum False [
    (''NETNS_BPF_INVALID'', - 1), (''NETNS_BPF_FLOW_DISSECTOR'', 0), (''NETNS_BPF_SK_LOOKUP'', 1),
    (''MAX_NETNS_BPF_ATTACH_TYPE'', 2)]"

definition struct_bpf_netns_link :: ctype where
  "struct_bpf_netns_link = Comp Struct False [
    Member ''link'' struct_bpf_link,
    Member ''net'' (Ptr ''struct net *''),
    Member ''node'' struct_list_head,
    Member ''netns_type'' enum_netns_bpf_attach_type]"

definition enum_nf_hook_ops_type :: ctype where
  "enum_nf_hook_ops_type = Enum False [
    (''NF_HOOK_OP_UNDEFINED'', 0), (''NF_HOOK_OP_NF_TABLES'', 1), (''NF_HOOK_OP_BPF'', 2),
    (''NF_HOOK_OP_NFT_FT'', 3)]"

definition struct_nf_hook_ops :: ctype where
  "struct_nf_hook_ops = Comp Struct False [
    Member ''list'' struct_list_head,
    Member ''rcu'' struct_callback_head,
    Member ''hook'' (Ptr ''nf_hookfn *''),
    Member ''dev'' (Ptr ''struct net_device *''),
    Member ''priv'' (Ptr ''void *''),
    Member ''pf'' t_u8,
    BitField ''hook_ops_type'' enum_nf_hook_ops_type 8,
    Member ''hooknum'' c_unsigned_int,
    Member ''priority'' c_int]"

definition struct_bpf_nf_link :: ctype where
  "struct_bpf_nf_link = Comp Struct False [
    Member ''link'' struct_bpf_link,
    Member ''hook_ops'' struct_nf_hook_ops,
    Member ''ns_tracker'' t_netns_tracker,
    Member ''net'' (Ptr ''struct net *''),
    Member ''dead'' t_u32,
    Member ''defrag_hook'' (Ptr ''struct nf_defrag_hook *'')]"

definition struct_bpf_offload_dev :: ctype where
  "struct_bpf_offload_dev = Comp Struct False [
    Member ''ops'' (Ptr ''struct bpf_prog_offload_ops *''),
    Member ''netdevs'' struct_list_head,
    Member ''priv'' (Ptr ''void *'')]"

definition struct_bpf_offload_netdev :: ctype where
  "struct_bpf_offload_netdev = Comp Struct False [
    Member ''l'' struct_rhash_head,
    Member ''netdev'' (Ptr ''struct net_device *''),
    Member ''offdev'' (Ptr ''struct bpf_offload_dev *''),
    Member ''progs'' struct_list_head,
    Member ''maps'' struct_list_head,
    Member ''offdev_netdevs'' struct_list_head]"

definition struct_bpf_offloaded_map :: ctype where
  "struct_bpf_offloaded_map = Comp Struct False [
    Member ''map'' struct_bpf_map,
    Member ''netdev'' (Ptr ''struct net_device *''),
    Member ''dev_ops'' (Ptr ''struct bpf_map_dev_ops *''),
    Member ''dev_priv'' (Ptr ''void *''),
    Member ''offloads'' struct_list_head]"

definition struct_bpf_perf_event_value :: ctype where
  "struct_bpf_perf_event_value = Comp Struct False [
    Member ''counter'' t___u64,
    Member ''enabled'' t___u64,
    Member ''running'' t___u64]"

definition struct_bpf_pidns_info :: ctype where
  "struct_bpf_pidns_info = Comp Struct False [
    Member ''pid'' t___u32,
    Member ''tgid'' t___u32]"

definition struct_bpf_plt :: ctype where
  "struct_bpf_plt = Comp Struct False [
    Member ''insn_ldr'' t_u32,
    Member ''insn_br'' t_u32,
    Member ''target'' t_u64]"

definition struct_bpf_preload_info :: ctype where
  "struct_bpf_preload_info = Comp Struct False [
    Member ''link_name'' (Array 16 c_char),
    Member ''link'' (Ptr ''struct bpf_link *'')]"

definition struct_bpf_preload_ops :: ctype where
  "struct_bpf_preload_ops = Comp Struct False [
    Member ''preload'' (Ptr ''int (*)(struct bpf_preload_info *)''),
    Member ''owner'' (Ptr ''struct module *'')]"

definition struct_bpf_prog_dummy :: ctype where
  "struct_bpf_prog_dummy = Comp Struct False [
    Member ''prog'' struct_bpf_prog]"

definition struct_bpf_prog_kstats :: ctype where
  "struct_bpf_prog_kstats = Comp Struct False [
    Member ''nsecs'' t_u64,
    Member ''cnt'' t_u64,
    Member ''misses'' t_u64]"

definition struct_bpf_prog_list :: ctype where
  "struct_bpf_prog_list = Comp Struct False [
    Member ''node'' struct_hlist_node,
    Member ''prog'' (Ptr ''struct bpf_prog *''),
    Member ''link'' (Ptr ''struct bpf_cgroup_link *''),
    Member ''storage'' (Array 2 (Ptr ''struct bpf_cgroup_storage *'')),
    Member ''flags'' t_u32]"

definition struct_bpf_prog_offload :: ctype where
  "struct_bpf_prog_offload = Comp Struct False [
    Member ''prog'' (Ptr ''struct bpf_prog *''),
    Member ''netdev'' (Ptr ''struct net_device *''),
    Member ''offdev'' (Ptr ''struct bpf_offload_dev *''),
    Member ''dev_priv'' (Ptr ''void *''),
    Member ''offloads'' struct_list_head,
    Member ''dev_state'' t_bool,
    Member ''opt_failed'' t_bool,
    Member ''jited_image'' (Ptr ''void *''),
    Member ''jited_len'' t_u32]"

definition struct_bpf_prog_offload_ops :: ctype where
  "struct_bpf_prog_offload_ops = Comp Struct False [
    Member ''insn_hook'' (Ptr ''int (*)(struct bpf_verifier_env *, int, int)''),
    Member ''finalize'' (Ptr ''int (*)(struct bpf_verifier_env *)''),
    Member ''replace_insn'' (Ptr ''int (*)(struct bpf_verifier_env *, u32, struct bpf_insn *)''),
    Member ''remove_insns'' (Ptr ''int (*)(struct bpf_verifier_env *, u32, u32)''),
    Member ''prepare'' (Ptr ''int (*)(struct bpf_prog *)''),
    Member ''translate'' (Ptr ''int (*)(struct bpf_prog *)''),
    Member ''destroy'' (Ptr ''void (*)(struct bpf_prog *)'')]"

definition struct_bpf_prog_ops :: ctype where
  "struct_bpf_prog_ops = Comp Struct False [
    Member ''test_run'' (Ptr ''int (*)(struct bpf_prog *, const union bpf_attr *, union bpf_attr *)'')]"

definition struct_bpf_prog_pack :: ctype where
  "struct_bpf_prog_pack = Comp Struct False [
    Member ''list'' struct_list_head,
    Member ''ptr'' (Ptr ''void *''),
    Member ''bitmap'' (Array 0 c_unsigned_long)]"

definition struct_bpf_prog_stats :: ctype where
  "struct_bpf_prog_stats = Comp Struct False [
    Member ''cnt'' t_u64_stats_t,
    Member ''nsecs'' t_u64_stats_t,
    Member ''misses'' t_u64_stats_t,
    Member ''syncp'' struct_u64_stats_sync,
    BitField '''' c_long 64]"

definition struct_bpf_queue_stack :: ctype where
  "struct_bpf_queue_stack = Comp Struct False [
    Member ''map'' struct_bpf_map,
    Member ''lock'' t_rqspinlock_t,
    Member ''head'' t_u32,
    Member ''tail'' t_u32,
    Member ''size'' t_u32,
    Member ''elements'' (Array 0 c_char)]"

definition struct_bpf_raw_event_map :: ctype where
  "struct_bpf_raw_event_map = Comp Struct False [
    Member ''tp'' (Ptr ''struct tracepoint *''),
    Member ''bpf_func'' (Ptr ''void *''),
    Member ''num_args'' t_u32,
    Member ''writable_size'' t_u32,
    BitField '''' c_long 64]"

definition struct_bpf_raw_tp_link :: ctype where
  "struct_bpf_raw_tp_link = Comp Struct False [
    Member ''link'' struct_bpf_link,
    Member ''btp'' (Ptr ''struct bpf_raw_event_map *''),
    Member ''cookie'' t_u64]"

definition struct_bpf_raw_tp_null_args :: ctype where
  "struct_bpf_raw_tp_null_args = Comp Struct False [
    Member ''func'' (Ptr ''char *''),
    Member ''mask'' t_u64]"

definition struct_bpf_raw_tp_regs :: ctype where
  "struct_bpf_raw_tp_regs = Comp Struct False [
    Member ''regs'' (Array 3 struct_pt_regs)]"

definition struct_bpf_raw_tp_test_run_info :: ctype where
  "struct_bpf_raw_tp_test_run_info = Comp Struct False [
    Member ''prog'' (Ptr ''struct bpf_prog *''),
    Member ''ctx'' (Ptr ''void *''),
    Member ''retval'' t_u32]"

definition struct_bpf_rb_node :: ctype where
  "struct_bpf_rb_node = Comp Struct False [
    Member ''__opaque'' (Array 4 t___u64)]"

definition struct_bpf_rb_node_kern :: ctype where
  "struct_bpf_rb_node_kern = Comp Struct False [
    Member ''rb_node'' struct_rb_node,
    Member ''owner'' (Ptr ''void *'')]"

definition struct_bpf_rb_root :: ctype where
  "struct_bpf_rb_root = Comp Struct False [
    Member ''__opaque'' (Array 2 t___u64)]"

definition struct_bpf_redir_neigh :: ctype where
  "struct_bpf_redir_neigh = Comp Struct False [
    Member ''nh_family'' t___u32,
    Member '''' (Comp Union False [
      Member ''ipv4_nh'' t___be32,
      Member ''ipv6_nh'' (Array 4 t___u32)])]"

definition struct_bpf_refcount :: ctype where
  "struct_bpf_refcount = Comp Struct False [
    Member ''__opaque'' (Array 1 t___u32)]"

definition enum_ref_state_type :: ctype where
  "enum_ref_state_type = Enum False [
    (''REF_TYPE_PTR'', 2), (''REF_TYPE_IRQ'', 4), (''REF_TYPE_LOCK'', 8),
    (''REF_TYPE_RES_LOCK'', 16), (''REF_TYPE_RES_LOCK_IRQ'', 32), (''REF_TYPE_LOCK_MASK'', 56)]"

definition struct_bpf_reference_state :: ctype where
  "struct_bpf_reference_state = Comp Struct False [
    Member ''type'' enum_ref_state_type,
    Member ''id'' c_int,
    Member ''insn_idx'' c_int,
    Member ''ptr'' (Ptr ''void *'')]"

definition struct_bpf_reg_types :: ctype where
  "struct_bpf_reg_types = Comp Struct False [
    Member ''types'' (Array 10 enum_bpf_reg_type),
    Member ''btf_id'' (Ptr ''u32 *'')]"

definition struct_bpf_res_spin_lock :: ctype where
  "struct_bpf_res_spin_lock = Comp Struct False [
    Member ''val'' t_u32]"

definition struct_bpf_ringbuf_hdr :: ctype where
  "struct_bpf_ringbuf_hdr = Comp Struct False [
    Member ''len'' t_u32,
    Member ''pg_off'' t_u32]"

definition struct_bpf_sanitize_info :: ctype where
  "struct_bpf_sanitize_info = Comp Struct False [
    Member ''aux'' struct_bpf_insn_aux_data,
    Member ''mask_to_left'' t_bool]"

definition struct_bpf_verifier_state :: ctype where
  "struct_bpf_verifier_state = Comp Struct False [
    Member ''frame'' (Array 8 (Ptr ''struct bpf_func_state *'')),
    Member ''parent'' (Ptr ''struct bpf_verifier_state *''),
    Member ''refs'' (Ptr ''struct bpf_reference_state *''),
    Member ''branches'' t_u32,
    Member ''insn_idx'' t_u32,
    Member ''curframe'' t_u32,
    Member ''acquired_refs'' t_u32,
    Member ''active_locks'' t_u32,
    Member ''active_preempt_locks'' t_u32,
    Member ''active_irq_id'' t_u32,
    Member ''active_lock_id'' t_u32,
    Member ''active_lock_ptr'' (Ptr ''void *''),
    Member ''active_rcu_lock'' t_bool,
    Member ''speculative'' t_bool,
    Member ''in_sleepable'' t_bool,
    Member ''first_insn_idx'' t_u32,
    Member ''last_insn_idx'' t_u32,
    Member ''equal_state'' (Ptr ''struct bpf_verifier_state *''),
    Member ''jmp_history'' (Ptr ''struct bpf_jmp_history_entry *''),
    Member ''jmp_history_cnt'' t_u32,
    Member ''dfs_depth'' t_u32,
    Member ''callback_unroll_depth'' t_u32,
    Member ''may_goto_depth'' t_u32]"

definition struct_bpf_scc_backedge :: ctype where
  "struct_bpf_scc_backedge = Comp Struct False [
    Member ''next'' (Ptr ''struct bpf_scc_backedge *''),
    Member ''state'' struct_bpf_verifier_state]"

definition struct_bpf_scc_visit :: ctype where
  "struct_bpf_scc_visit = Comp Struct False [
    Member ''callchain'' struct_bpf_scc_callchain,
    Member ''entry_state'' (Ptr ''struct bpf_verifier_state *''),
    Member ''backedges'' (Ptr ''struct bpf_scc_backedge *''),
    Member ''num_backedges'' t_u32]"

definition struct_bpf_scc_info :: ctype where
  "struct_bpf_scc_info = Comp Struct False [
    Member ''num_visits'' t_u32,
    Member ''visits'' (Array 0 struct_bpf_scc_visit)]"

definition struct_qdisc_watchdog :: ctype where
  "struct_qdisc_watchdog = Comp Struct False [
    Member ''timer'' struct_hrtimer,
    Member ''qdisc'' (Ptr ''struct Qdisc *'')]"

definition struct_bpf_sched_data :: ctype where
  "struct_bpf_sched_data = Comp Struct False [
    Member ''watchdog'' struct_qdisc_watchdog]"

definition struct_bpf_shim_tramp_link :: ctype where
  "struct_bpf_shim_tramp_link = Comp Struct False [
    Member ''link'' struct_bpf_tramp_link,
    Member ''trampoline'' (Ptr ''struct bpf_trampoline *'')]"

definition struct_sk_psock_progs :: ctype where
  "struct_sk_psock_progs = Comp Struct False [
    Member ''msg_parser'' (Ptr ''struct bpf_prog *''),
    Member ''stream_parser'' (Ptr ''struct bpf_prog *''),
    Member ''stream_verdict'' (Ptr ''struct bpf_prog *''),
    Member ''skb_verdict'' (Ptr ''struct bpf_prog *''),
    Member ''msg_parser_link'' (Ptr ''struct bpf_link *''),
    Member ''stream_parser_link'' (Ptr ''struct bpf_link *''),
    Member ''stream_verdict_link'' (Ptr ''struct bpf_link *''),
    Member ''skb_verdict_link'' (Ptr ''struct bpf_link *'')]"

definition struct_bpf_shtab :: ctype where
  "struct_bpf_shtab = Comp Struct False [
    Member ''map'' struct_bpf_map,
    Member ''buckets'' (Ptr ''struct bpf_shtab_bucket *''),
    Member ''buckets_num'' t_u32,
    Member ''elem_size'' t_u32,
    Member ''progs'' struct_sk_psock_progs,
    Member ''count'' t_atomic_t]"

definition struct_bpf_shtab_bucket :: ctype where
  "struct_bpf_shtab_bucket = Comp Struct False [
    Member ''head'' struct_hlist_head,
    Member ''lock'' t_spinlock_t]"

definition struct_bpf_shtab_elem :: ctype where
  "struct_bpf_shtab_elem = Comp Struct False [
    Member ''rcu'' struct_callback_head,
    Member ''hash'' t_u32,
    Member ''sk'' (Ptr ''struct sock *''),
    Member ''node'' struct_hlist_node,
    Member ''key'' (Array 0 t_u8)]"

definition struct_bpf_sk_buff_ptr :: ctype where
  "struct_bpf_sk_buff_ptr = Comp Struct False [
    Member ''skb'' (Ptr ''struct sk_buff *'')]"

definition struct_bpf_sk_storage_diag :: ctype where
  "struct_bpf_sk_storage_diag = Comp Struct False [
    Member ''nr_maps'' t_u32,
    Member ''maps'' (Array 0 (Ptr ''struct bpf_map *''))]"

definition struct_qdisc_skb_cb :: ctype where
  "struct_qdisc_skb_cb = Comp Struct False [
    Member '''' (Comp Struct False [
      Member ''pkt_len'' c_unsigned_int,
      Member ''slave_dev_queue_mapping'' t_u16,
      Member ''tc_classid'' t_u16]),
    Member ''data'' (Array 20 c_unsigned_char)]"

definition struct_bpf_skb_data_end :: ctype where
  "struct_bpf_skb_data_end = Comp Struct False [
    Member ''qdisc_cb'' struct_qdisc_skb_cb,
    Member ''data_meta'' (Ptr ''void *''),
    Member ''data_end'' (Ptr ''void *'')]"

definition struct_bpf_sock_tuple :: ctype where
  "struct_bpf_sock_tuple = Comp Struct False [
    Member '''' (Comp Union False [
      Member ''ipv4'' (Comp Struct False [
        Member ''saddr'' t___be32,
        Member ''daddr'' t___be32,
        Member ''sport'' t___be16,
        Member ''dport'' t___be16]),
      Member ''ipv6'' (Comp Struct False [
        Member ''saddr'' (Array 4 t___be32),
        Member ''daddr'' (Array 4 t___be32),
        Member ''sport'' t___be16,
        Member ''dport'' t___be16])])]"

definition struct_bpf_sockopt_buf :: ctype where
  "struct_bpf_sockopt_buf = Comp Struct False [
    Member ''data'' (Array 32 t_u8)]"

definition struct_bpf_stab :: ctype where
  "struct_bpf_stab = Comp Struct False [
    Member ''map'' struct_bpf_map,
    Member ''sks'' (Ptr ''struct sock **''),
    Member ''progs'' struct_sk_psock_progs,
    Member ''lock'' t_spinlock_t]"

definition struct_bpf_stack_build_id :: ctype where
  "struct_bpf_stack_build_id = Comp Struct False [
    Member ''status'' t___s32,
    Member ''build_id'' (Array 20 c_unsigned_char),
    Member '''' (Comp Union False [
      Member ''offset'' t___u64,
      Member ''ip'' t___u64])]"

definition struct_bpf_stack_map :: ctype where
  "struct_bpf_stack_map = Comp Struct False [
    Member ''map'' struct_bpf_map,
    Member ''elems'' (Ptr ''void *''),
    Member ''freelist'' struct_pcpu_freelist,
    Member ''n_buckets'' t_u32,
    Member ''buckets'' (Array 0 (Ptr ''struct stack_map_bucket *''))]"

definition struct_bpf_stack_state :: ctype where
  "struct_bpf_stack_state = Comp Struct False [
    Member ''spilled_ptr'' struct_bpf_reg_state,
    Member ''slot_type'' (Array 8 t_u8)]"

definition struct_bpf_storage_blob :: ctype where
  "struct_bpf_storage_blob = Comp Struct False [
    Member ''storage'' (Ptr ''struct bpf_local_storage *'')]"

definition struct_bpf_storage_buffer :: ctype where
  "struct_bpf_storage_buffer = Comp Struct False [
    Member ''rcu'' struct_callback_head,
    Member ''data'' (Array 0 c_char)]"

definition struct_bpf_stream_elem :: ctype where
  "struct_bpf_stream_elem = Comp Struct False [
    Member ''node'' struct_llist_node,
    Member ''total_len'' c_int,
    Member ''consumed_len'' c_int,
    Member ''str'' (Array 0 c_char)]"

definition struct_bpf_stream_page :: ctype where
  "struct_bpf_stream_page = Comp Struct False [
    Member ''ref'' t_refcount_t,
    Member ''consumed'' t_u32,
    Member ''buf'' (Array 0 c_char)]"

definition struct_bpf_stream_stage :: ctype where
  "struct_bpf_stream_stage = Comp Struct False [
    Member ''log'' struct_llist_head,
    Member ''len'' c_int]"

definition struct_bpf_struct_ops :: ctype where
  "struct_bpf_struct_ops = Comp Struct False [
    Member ''verifier_ops'' (Ptr ''struct bpf_verifier_ops *''),
    Member ''init'' (Ptr ''int (*)(struct btf *)''),
    Member ''check_member'' (Ptr ''int (*)(const struct btf_type *, const struct btf_member *, const struct bpf_prog *)''),
    Member ''init_member'' (Ptr ''int (*)(const struct btf_type *, const struct btf_member *, void *, const void *)''),
    Member ''reg'' (Ptr ''int (*)(void *, struct bpf_link *)''),
    Member ''unreg'' (Ptr ''void (*)(void *, struct bpf_link *)''),
    Member ''update'' (Ptr ''int (*)(void *, void *, struct bpf_link *)''),
    Member ''validate'' (Ptr ''int (*)(void *)''),
    Member ''cfi_stubs'' (Ptr ''void *''),
    Member ''owner'' (Ptr ''struct module *''),
    Member ''name'' (Ptr ''char *''),
    Member ''func_models'' (Array 64 struct_btf_func_model)]"

definition struct_bpf_struct_ops_common_value :: ctype where
  "struct_bpf_struct_ops_common_value = Comp Struct False [
    Member ''refcnt'' t_refcount_t,
    Member ''state'' enum_bpf_struct_ops_state]"

definition struct_bpf_struct_ops_Qdisc_ops :: ctype where
  "struct_bpf_struct_ops_Qdisc_ops = Comp Struct False ([
    Member ''common'' struct_bpf_struct_ops_common_value] @ replicate 15 (BitField '''' c_long 64) @ [
    Member ''data'' struct_Qdisc_ops] @ replicate 10 (BitField '''' c_long 64))"

definition struct_bpf_struct_ops_arg_info :: ctype where
  "struct_bpf_struct_ops_arg_info = Comp Struct False [
    Member ''info'' (Ptr ''struct bpf_ctx_arg_aux *''),
    Member ''cnt'' t_u32]"

definition struct_bpf_struct_ops_bpf_dummy_ops :: ctype where
  "struct_bpf_struct_ops_bpf_dummy_ops = Comp Struct False ([
    Member ''common'' struct_bpf_struct_ops_common_value] @ replicate 15 (BitField '''' c_long 64) @ [
    Member ''data'' struct_bpf_dummy_ops] @ replicate 13 (BitField '''' c_long 64))"

definition struct_bpf_struct_ops_desc :: ctype where
  "struct_bpf_struct_ops_desc = Comp Struct False [
    Member ''st_ops'' (Ptr ''struct bpf_struct_ops *''),
    Member ''type'' (Ptr ''struct btf_type *''),
    Member ''value_type'' (Ptr ''struct btf_type *''),
    Member ''type_id'' t_u32,
    Member ''value_id'' t_u32,
    Member ''arg_info'' (Ptr ''struct bpf_struct_ops_arg_info *'')]"

definition struct_bpf_struct_ops_link :: ctype where
  "struct_bpf_struct_ops_link = Comp Struct False [
    Member ''link'' struct_bpf_link,
    Member ''map'' (Ptr ''struct bpf_map *''),
    Member ''wait_hup'' t_wait_queue_head_t]"

definition struct_bpf_struct_ops_value :: ctype where
  "struct_bpf_struct_ops_value = Comp Struct False ([
    Member ''common'' struct_bpf_struct_ops_common_value] @ replicate 15 (BitField '''' c_long 64) @ [
    Member ''data'' (Array 0 c_char)])"

definition struct_bpf_struct_ops_map :: ctype where
  "struct_bpf_struct_ops_map = Comp Struct False ([
    Member ''map'' struct_bpf_map,
    Member ''st_ops_desc'' (Ptr ''struct bpf_struct_ops_desc *''),
    Member ''lock'' struct_mutex,
    Member ''links'' (Ptr ''struct bpf_link **''),
    Member ''ksyms'' (Ptr ''struct bpf_ksym **''),
    Member ''funcs_cnt'' t_u32,
    Member ''image_pages_cnt'' t_u32,
    Member ''image_pages'' (Array 8 (Ptr ''void *'')),
    Member ''btf'' (Ptr ''struct btf *''),
    Member ''uvalue'' (Ptr ''struct bpf_struct_ops_value *'')] @ replicate 15 (BitField '''' c_long 64) @ [
    Member ''kvalue'' struct_bpf_struct_ops_value])"

definition struct_tcp_congestion_ops :: ctype where
  "struct_tcp_congestion_ops = Comp Struct False ([
    Member ''ssthresh'' (Ptr ''u32 (*)(struct sock *)''),
    Member ''cong_avoid'' (Ptr ''void (*)(struct sock *, u32, u32)''),
    Member ''set_state'' (Ptr ''void (*)(struct sock *, u8)''),
    Member ''cwnd_event'' (Ptr ''void (*)(struct sock *, enum tcp_ca_event)''),
    Member ''in_ack_event'' (Ptr ''void (*)(struct sock *, u32)''),
    Member ''pkts_acked'' (Ptr ''void (*)(struct sock *, const struct ack_sample *)''),
    Member ''min_tso_segs'' (Ptr ''u32 (*)(struct sock *)''),
    Member ''cong_control'' (Ptr ''void (*)(struct sock *, u32, int, const struct rate_sample *)''),
    Member ''undo_cwnd'' (Ptr ''u32 (*)(struct sock *)''),
    Member ''sndbuf_expand'' (Ptr ''u32 (*)(struct sock *)''),
    Member ''get_info'' (Ptr ''size_t (*)(struct sock *, u32, int *, union tcp_cc_info *)''),
    Member ''name'' (Array 16 c_char),
    Member ''owner'' (Ptr ''struct module *''),
    Member ''list'' struct_list_head,
    Member ''key'' t_u32,
    Member ''flags'' t_u32,
    Member ''init'' (Ptr ''void (*)(struct sock *)''),
    Member ''release'' (Ptr ''void (*)(struct sock *)'')] @ replicate 13 (BitField '''' c_long 64))"

definition struct_bpf_struct_ops_tcp_congestion_ops :: ctype where
  "struct_bpf_struct_ops_tcp_congestion_ops = Comp Struct False ([
    Member ''common'' struct_bpf_struct_ops_common_value] @ replicate 15 (BitField '''' c_long 64) @ [
    Member ''data'' struct_tcp_congestion_ops])"

definition union_bpf_tcp_iter_batch_item :: ctype where
  "union_bpf_tcp_iter_batch_item = Comp Union False [
    Member ''sk'' (Ptr ''struct sock *''),
    Member ''cookie'' t___u64]"

definition struct_seq_net_private :: ctype where
  "struct_seq_net_private = Comp Struct False [
    Member ''net'' (Ptr ''struct net *''),
    Member ''ns_tracker'' t_netns_tracker]"

definition enum_tcp_seq_states :: ctype where
  "enum_tcp_seq_states = Enum False [
    (''TCP_SEQ_STATE_LISTENING'', 0), (''TCP_SEQ_STATE_ESTABLISHED'', 1)]"

definition struct_tcp_iter_state :: ctype where
  "struct_tcp_iter_state = Comp Struct False [
    Member ''p'' struct_seq_net_private,
    Member ''state'' enum_tcp_seq_states,
    Member ''syn_wait_sk'' (Ptr ''struct sock *''),
    Member ''bucket'' c_int,
    Member ''offset'' c_int,
    Member ''sbucket'' c_int,
    Member ''num'' c_int,
    Member ''last_pos'' t_loff_t]"

definition struct_bpf_tcp_iter_state :: ctype where
  "struct_bpf_tcp_iter_state = Comp Struct False [
    Member ''state'' struct_tcp_iter_state,
    Member ''cur_sk'' c_unsigned_int,
    Member ''end_sk'' c_unsigned_int,
    Member ''max_sk'' c_unsigned_int,
    Member ''batch'' (Ptr ''union bpf_tcp_iter_batch_item *'')]"

definition struct_bpf_tcp_req_attrs :: ctype where
  "struct_bpf_tcp_req_attrs = Comp Struct False [
    Member ''rcv_tsval'' t_u32,
    Member ''rcv_tsecr'' t_u32,
    Member ''mss'' t_u16,
    Member ''rcv_wscale'' t_u8,
    Member ''snd_wscale'' t_u8,
    Member ''ecn_ok'' t_u8,
    Member ''wscale_ok'' t_u8,
    Member ''sack_ok'' t_u8,
    Member ''tstamp_ok'' t_u8,
    Member ''usec_ts_ok'' t_u8,
    Member ''reserved'' (Array 3 t_u8)]"

definition struct_bpf_tcp_sock :: ctype where
  "struct_bpf_tcp_sock = Comp Struct False [
    Member ''snd_cwnd'' t___u32,
    Member ''srtt_us'' t___u32,
    Member ''rtt_min'' t___u32,
    Member ''snd_ssthresh'' t___u32,
    Member ''rcv_nxt'' t___u32,
    Member ''snd_nxt'' t___u32,
    Member ''snd_una'' t___u32,
    Member ''mss_cache'' t___u32,
    Member ''ecn_flags'' t___u32,
    Member ''rate_delivered'' t___u32,
    Member ''rate_interval_us'' t___u32,
    Member ''packets_out'' t___u32,
    Member ''retrans_out'' t___u32,
    Member ''total_retrans'' t___u32,
    Member ''segs_in'' t___u32,
    Member ''data_segs_in'' t___u32,
    Member ''segs_out'' t___u32,
    Member ''data_segs_out'' t___u32,
    Member ''lost_out'' t___u32,
    Member ''sacked_out'' t___u32,
    Member ''bytes_received'' t___u64,
    Member ''bytes_acked'' t___u64,
    Member ''dsack_dups'' t___u32,
    Member ''delivered'' t___u32,
    Member ''delivered_ce'' t___u32,
    Member ''icsk_retransmits'' t___u32]"

definition struct_bpf_test_timer :: ctype where
  "struct_bpf_test_timer = Comp Struct False [
    Member ''mode'' (Enum False [
      (''NO_PREEMPT'', 0), (''NO_MIGRATE'', 1)]),
    Member ''i'' t_u32,
    Member ''time_start'' t_u64,
    Member ''time_spent'' t_u64]"

definition struct_bpf_throw_ctx :: ctype where
  "struct_bpf_throw_ctx = Comp Struct False [
    Member ''aux'' (Ptr ''struct bpf_prog_aux *''),
    Member ''sp'' t_u64,
    Member ''bp'' t_u64,
    Member ''cnt'' c_int]"

definition struct_bpf_timed_may_goto :: ctype where
  "struct_bpf_timed_may_goto = Comp Struct False [
    Member ''count'' t_u64,
    Member ''timestamp'' t_u64]"

definition struct_bpf_timer :: ctype where
  "struct_bpf_timer = Comp Struct False [
    Member ''__opaque'' (Array 2 t___u64)]"

definition struct_bpf_token :: ctype where
  "struct_bpf_token = Comp Struct False [
    Member ''work'' struct_work_struct,
    Member ''refcnt'' t_atomic64_t,
    Member ''userns'' (Ptr ''struct user_namespace *''),
    Member ''allowed_cmds'' t_u64,
    Member ''allowed_maps'' t_u64,
    Member ''allowed_progs'' t_u64,
    Member ''allowed_attachs'' t_u64,
    Member ''security'' (Ptr ''void *'')]"

definition struct_bpf_token_info :: ctype where
  "struct_bpf_token_info = Comp Struct False [
    Member ''allowed_cmds'' t___u64,
    Member ''allowed_maps'' t___u64,
    Member ''allowed_progs'' t___u64,
    Member ''allowed_attachs'' t___u64]"

definition struct_bpf_trace_module :: ctype where
  "struct_bpf_trace_module = Comp Struct False [
    Member ''module'' (Ptr ''struct module *''),
    Member ''list'' struct_list_head]"

definition union_perf_sample_weight :: ctype where
  "union_perf_sample_weight = Comp Union False [
    Member ''full'' t___u64,
    Member '''' (Comp Struct False [
      Member ''var1_dw'' t___u32,
      Member ''var2_w'' t___u16,
      Member ''var3_w'' t___u16])]"

definition union_perf_mem_data_src :: ctype where
  "union_perf_mem_data_src = Comp Union False [
    Member ''val'' t___u64,
    Member '''' (Comp Struct False [
      BitField ''mem_op'' t___u64 5,
      BitField ''mem_lvl'' t___u64 14,
      BitField ''mem_snoop'' t___u64 5,
      BitField ''mem_lock'' t___u64 2,
      BitField ''mem_dtlb'' t___u64 7,
      BitField ''mem_lvl_num'' t___u64 4,
      BitField ''mem_remote'' t___u64 1,
      BitField ''mem_snoopx'' t___u64 2,
      BitField ''mem_blk'' t___u64 3,
      BitField ''mem_hops'' t___u64 3,
      BitField ''mem_rsvd'' t___u64 18])]"

definition struct_perf_regs :: ctype where
  "struct_perf_regs = Comp Struct False [
    Member ''abi'' t___u64,
    Member ''regs'' (Ptr ''struct pt_regs *'')]"

definition struct_perf_sample_data :: ctype where
  "struct_perf_sample_data = Comp Struct False [
    Member ''sample_flags'' t_u64,
    Member ''period'' t_u64,
    Member ''dyn_size'' t_u64,
    Member ''type'' t_u64,
    Member ''tid_entry'' (Comp Struct False [
      Member ''pid'' t_u32,
      Member ''tid'' t_u32]),
    Member ''time'' t_u64,
    Member ''id'' t_u64,
    Member ''cpu_entry'' (Comp Struct False [
      Member ''cpu'' t_u32,
      Member ''reserved'' t_u32]),
    Member ''ip'' t_u64,
    Member ''callchain'' (Ptr ''struct perf_callchain_entry *''),
    Member ''raw'' (Ptr ''struct perf_raw_record *''),
    Member ''br_stack'' (Ptr ''struct perf_branch_stack *''),
    Member ''br_stack_cntr'' (Ptr ''u64 *''),
    Member ''weight'' union_perf_sample_weight,
    Member ''data_src'' union_perf_mem_data_src,
    Member ''txn'' t_u64,
    Member ''regs_user'' struct_perf_regs,
    Member ''regs_intr'' struct_perf_regs,
    Member ''stack_user_size'' t_u64,
    Member ''stream_id'' t_u64,
    Member ''cgroup'' t_u64,
    Member ''addr'' t_u64,
    Member ''phys_addr'' t_u64,
    Member ''data_page_size'' t_u64,
    Member ''code_page_size'' t_u64,
    Member ''aux_size'' t_u64,
    BitField '''' c_long 64,
    BitField '''' c_long 64,
    BitField '''' c_long 64,
    BitField '''' c_long 64]"

definition struct_bpf_trace_sample_data :: ctype where
  "struct_bpf_trace_sample_data = Comp Struct False [
    Member ''sds'' (Array 3 struct_perf_sample_data)]"

definition struct_bpf_tramp_image :: ctype where
  "struct_bpf_tramp_image = Comp Struct False [
    Member ''image'' (Ptr ''void *''),
    Member ''size'' c_int,
    Member ''ksym'' struct_bpf_ksym,
    Member ''pcref'' struct_percpu_ref,
    Member ''ip_after_call'' (Ptr ''void *''),
    Member ''ip_epilogue'' (Ptr ''void *''),
    Member '''' (Comp Union False [
      Member ''rcu'' struct_callback_head,
      Member ''work'' struct_work_struct])]"

definition struct_bpf_tramp_links :: ctype where
  "struct_bpf_tramp_links = Comp Struct False [
    Member ''links'' (Array 38 (Ptr ''struct bpf_tramp_link *'')),
    Member ''nr_links'' c_int]"

definition struct_bpf_tramp_run_ctx :: ctype where
  "struct_bpf_tramp_run_ctx = Comp Struct False [
    Member ''run_ctx'' struct_bpf_run_ctx,
    Member ''bpf_cookie'' t_u64,
    Member ''saved_run_ctx'' (Ptr ''struct bpf_run_ctx *'')]"

definition struct_bpf_trampoline :: ctype where
  "struct_bpf_trampoline = Comp Struct False [
    Member ''hlist'' struct_hlist_node,
    Member ''fops'' (Ptr ''struct ftrace_ops *''),
    Member ''mutex'' struct_mutex,
    Member ''refcnt'' t_refcount_t,
    Member ''flags'' t_u32,
    Member ''key'' t_u64,
    Member ''func'' (Comp Struct False [
      Member ''model'' struct_btf_func_model,
      Member ''addr'' (Ptr ''void *''),
      Member ''ftrace_managed'' t_bool]),
    Member ''extension_prog'' (Ptr ''struct bpf_prog *''),
    Member ''progs_hlist'' (Array 3 struct_hlist_head),
    Member ''progs_cnt'' (Array 3 c_int),
    Member ''cur_image'' (Ptr ''struct bpf_tramp_image *'')]"

definition struct_bpf_tunnel_key :: ctype where
  "struct_bpf_tunnel_key = Comp Struct False [
    Member ''tunnel_id'' t___u32,
    Member '''' (Comp Union False [
      Member ''remote_ipv4'' t___u32,
      Member ''remote_ipv6'' (Array 4 t___u32)]),
    Member ''tunnel_tos'' t___u8,
    Member ''tunnel_ttl'' t___u8,
    Member '''' (Comp Union False [
      Member ''tunnel_ext'' t___u16,
      Member ''tunnel_flags'' t___be16]),
    Member ''tunnel_label'' t___u32,
    Member '''' (Comp Union False [
      Member ''local_ipv4'' t___u32,
      Member ''local_ipv6'' (Array 4 t___u32)])]"

definition struct_bpf_tuple :: ctype where
  "struct_bpf_tuple = Comp Struct False [
    Member ''prog'' (Ptr ''struct bpf_prog *''),
    Member ''link'' (Ptr ''struct bpf_link *'')]"

definition union_bpf_udp_iter_batch_item :: ctype where
  "union_bpf_udp_iter_batch_item = Comp Union False [
    Member ''sk'' (Ptr ''struct sock *''),
    Member ''cookie'' t___u64]"

definition struct_udp_iter_state :: ctype where
  "struct_udp_iter_state = Comp Struct False [
    Member ''p'' struct_seq_net_private,
    Member ''bucket'' c_int]"

definition struct_bpf_udp_iter_state :: ctype where
  "struct_bpf_udp_iter_state = Comp Struct False [
    Member ''state'' struct_udp_iter_state,
    Member ''cur_sk'' c_unsigned_int,
    Member ''end_sk'' c_unsigned_int,
    Member ''max_sk'' c_unsigned_int,
    Member ''batch'' (Ptr ''union bpf_udp_iter_batch_item *'')]"

definition struct_bpf_unix_iter_state :: ctype where
  "struct_bpf_unix_iter_state = Comp Struct False [
    Member ''p'' struct_seq_net_private,
    Member ''cur_sk'' c_unsigned_int,
    Member ''end_sk'' c_unsigned_int,
    Member ''max_sk'' c_unsigned_int,
    Member ''batch'' (Ptr ''struct sock **''),
    Member ''st_bucket_done'' t_bool]"

definition struct_bpf_unwind_consume_entry_data :: ctype where
  "struct_bpf_unwind_consume_entry_data = Comp Struct False [
    Member ''consume_entry'' (Ptr ''bool (*)(void *, u64, u64, u64)''),
    Member ''cookie'' (Ptr ''void *'')]"

definition struct_uprobe_consumer :: ctype where
  "struct_uprobe_consumer = Comp Struct False [
    Member ''handler'' (Ptr ''int (*)(struct uprobe_consumer *, struct pt_regs *, __u64 *)''),
    Member ''ret_handler'' (Ptr ''int (*)(struct uprobe_consumer *, unsigned long, struct pt_regs *, __u64 *)''),
    Member ''filter'' (Ptr ''bool (*)(struct uprobe_consumer *, struct mm_struct *)''),
    Member ''cons_node'' struct_list_head,
    Member ''id'' t___u64]"

definition struct_bpf_uprobe :: ctype where
  "struct_bpf_uprobe = Comp Struct False [
    Member ''link'' (Ptr ''struct bpf_uprobe_multi_link *''),
    Member ''offset'' t_loff_t,
    Member ''ref_ctr_offset'' c_unsigned_long,
    Member ''cookie'' t_u64,
    Member ''uprobe'' (Ptr ''struct uprobe *''),
    Member ''consumer'' struct_uprobe_consumer,
    Member ''session'' t_bool]"

definition struct_bpf_uprobe_multi_link :: ctype where
  "struct_bpf_uprobe_multi_link = Comp Struct False [
    Member ''path'' struct_path,
    Member ''link'' struct_bpf_link,
    Member ''cnt'' t_u32,
    Member ''uprobes'' (Ptr ''struct bpf_uprobe *''),
    Member ''task'' (Ptr ''struct task_struct *'')]"

definition struct_bpf_uprobe_multi_run_ctx :: ctype where
  "struct_bpf_uprobe_multi_run_ctx = Comp Struct False [
    Member ''session_ctx'' struct_bpf_session_run_ctx,
    Member ''entry_ip'' c_unsigned_long,
    Member ''uprobe'' (Ptr ''struct bpf_uprobe *'')]"

definition struct_bpf_verifier_ops :: ctype where
  "struct_bpf_verifier_ops = Comp Struct False [
    Member ''get_func_proto'' (Ptr ''struct bpf_func_proto * (*)(enum bpf_func_id, const struct bpf_prog *)''),
    Member ''is_valid_access'' (Ptr ''bool (*)(int, int, enum bpf_access_type, const struct bpf_prog *, struct bpf_insn_access_aux *)''),
    Member ''gen_prologue'' (Ptr ''int (*)(struct bpf_insn *, bool, const struct bpf_prog *)''),
    Member ''gen_epilogue'' (Ptr ''int (*)(struct bpf_insn *, const struct bpf_prog *, s16)''),
    Member ''gen_ld_abs'' (Ptr ''int (*)(const struct bpf_insn *, struct bpf_insn *)''),
    Member ''convert_ctx_access'' (Ptr ''u32 (*)(enum bpf_access_type, const struct bpf_insn *, struct bpf_insn *, struct bpf_prog *, u32 *)''),
    Member ''btf_struct_access'' (Ptr ''int (*)(struct bpf_verifier_log *, const struct bpf_reg_state *, int, int)'')]"

definition struct_bpf_verifier_stack_elem :: ctype where
  "struct_bpf_verifier_stack_elem = Comp Struct False [
    Member ''st'' struct_bpf_verifier_state,
    Member ''insn_idx'' c_int,
    Member ''prev_insn_idx'' c_int,
    Member ''next'' (Ptr ''struct bpf_verifier_stack_elem *''),
    Member ''log_pos'' t_u32]"

definition struct_bpf_verifier_state_list :: ctype where
  "struct_bpf_verifier_state_list = Comp Struct False [
    Member ''state'' struct_bpf_verifier_state,
    Member ''node'' struct_list_head,
    Member ''miss_cnt'' t_u32,
    BitField ''hit_cnt'' t_u32 31,
    BitField ''in_free_list'' t_u32 1]"

definition struct_bpf_work :: ctype where
  "struct_bpf_work = Comp Struct False [
    Member ''cb'' struct_bpf_async_cb,
    Member ''work'' struct_work_struct,
    Member ''delete_work'' struct_work_struct]"

definition struct_bpf_wq :: ctype where
  "struct_bpf_wq = Comp Struct False [
    Member ''__opaque'' (Array 2 t___u64)]"

definition struct_bpf_xfrm_state :: ctype where
  "struct_bpf_xfrm_state = Comp Struct False [
    Member ''reqid'' t___u32,
    Member ''spi'' t___u32,
    Member ''family'' t___u16,
    Member ''ext'' t___u16,
    Member '''' (Comp Union False [
      Member ''remote_ipv4'' t___u32,
      Member ''remote_ipv6'' (Array 4 t___u32)])]"

definition t_xfrm_address_t :: ctype where
  "t_xfrm_address_t = Comp Union False [
    Member ''a4'' t___be32,
    Member ''a6'' (Array 4 t___be32),
    Member ''in6'' struct_in6_addr]"

definition struct_bpf_xfrm_state_opts :: ctype where
  "struct_bpf_xfrm_state_opts = Comp Struct False [
    Member ''error'' t_s32,
    Member ''netns_id'' t_s32,
    Member ''mark'' t_u32,
    Member ''daddr'' t_xfrm_address_t,
    Member ''spi'' t___be32,
    Member ''proto'' t_u8,
    Member ''family'' t_u16]"

end
