(* ===== verification/Vmlinux_Trace.thy ===== *)
theory Vmlinux_Trace
  imports Vmlinux_Bpf_More
begin

text \<open>
  The declarations of \<^verbatim>\<open>vmlinux.h\<close> for the contexts of tracepoints, as a program on the
  tracepoint sees them: signals, scheduling, packets, sockets, memory, timers, with the types
  they contain.
\<close>

definition struct_trace_event_raw_bpf_test_finish :: ctype where
  "struct_trace_event_raw_bpf_test_finish = Comp Struct False [
    Member ''ent'' struct_trace_entry,
    Member ''err'' c_int,
    Member ''__data'' (Array 0 c_char)]"

definition struct_trace_event_raw_bpf_trace_printk :: ctype where
  "struct_trace_event_raw_bpf_trace_printk = Comp Struct False [
    Member ''ent'' struct_trace_entry,
    Member ''__data_loc_bpf_string'' t_u32,
    Member ''__data'' (Array 0 c_char)]"

definition struct_trace_event_raw_bpf_trigger_tp :: ctype where
  "struct_trace_event_raw_bpf_trigger_tp = Comp Struct False [
    Member ''ent'' struct_trace_entry,
    Member ''nonce'' c_int,
    Member ''__data'' (Array 0 c_char)]"

definition struct_trace_event_raw_bpf_xdp_link_attach_failed :: ctype where
  "struct_trace_event_raw_bpf_xdp_link_attach_failed = Comp Struct False [
    Member ''ent'' struct_trace_entry,
    Member ''__data_loc_msg'' t_u32,
    Member ''__data'' (Array 0 c_char)]"

definition struct_trace_event_raw_cgroup :: ctype where
  "struct_trace_event_raw_cgroup = Comp Struct False [
    Member ''ent'' struct_trace_entry,
    Member ''root'' c_int,
    Member ''level'' c_int,
    Member ''id'' t_u64,
    Member ''__data_loc_path'' t_u32,
    Member ''__data'' (Array 0 c_char)]"

definition struct_trace_event_raw_cgroup_event :: ctype where
  "struct_trace_event_raw_cgroup_event = Comp Struct False [
    Member ''ent'' struct_trace_entry,
    Member ''root'' c_int,
    Member ''level'' c_int,
    Member ''id'' t_u64,
    Member ''__data_loc_path'' t_u32,
    Member ''val'' c_int,
    Member ''__data'' (Array 0 c_char)]"

definition struct_trace_event_raw_cgroup_migrate :: ctype where
  "struct_trace_event_raw_cgroup_migrate = Comp Struct False [
    Member ''ent'' struct_trace_entry,
    Member ''dst_root'' c_int,
    Member ''dst_level'' c_int,
    Member ''dst_id'' t_u64,
    Member ''pid'' c_int,
    Member ''__data_loc_dst_path'' t_u32,
    Member ''__data_loc_comm'' t_u32,
    Member ''__data'' (Array 0 c_char)]"

definition struct_trace_event_raw_cgroup_root :: ctype where
  "struct_trace_event_raw_cgroup_root = Comp Struct False [
    Member ''ent'' struct_trace_entry,
    Member ''root'' c_int,
    Member ''ss_mask'' t_u16,
    Member ''__data_loc_name'' t_u32,
    Member ''__data'' (Array 0 c_char)]"

definition struct_trace_event_raw_cgroup_rstat :: ctype where
  "struct_trace_event_raw_cgroup_rstat = Comp Struct False [
    Member ''ent'' struct_trace_entry,
    Member ''root'' c_int,
    Member ''level'' c_int,
    Member ''id'' t_u64,
    Member ''cpu'' c_int,
    Member ''contended'' t_bool,
    Member ''__data'' (Array 0 c_char)]"

definition struct_trace_event_raw_consume_skb :: ctype where
  "struct_trace_event_raw_consume_skb = Comp Struct False [
    Member ''ent'' struct_trace_entry,
    Member ''skbaddr'' (Ptr ''void *''),
    Member ''location'' (Ptr ''void *''),
    Member ''__data'' (Array 0 c_char)]"

definition struct_trace_event_raw_contention_begin :: ctype where
  "struct_trace_event_raw_contention_begin = Comp Struct False [
    Member ''ent'' struct_trace_entry,
    Member ''lock_addr'' (Ptr ''void *''),
    Member ''flags'' c_unsigned_int,
    Member ''__data'' (Array 0 c_char)]"

definition struct_trace_event_raw_contention_end :: ctype where
  "struct_trace_event_raw_contention_end = Comp Struct False [
    Member ''ent'' struct_trace_entry,
    Member ''lock_addr'' (Ptr ''void *''),
    Member ''ret'' c_int,
    Member ''__data'' (Array 0 c_char)]"

definition struct_trace_event_raw_cpu :: ctype where
  "struct_trace_event_raw_cpu = Comp Struct False [
    Member ''ent'' struct_trace_entry,
    Member ''state'' t_u32,
    Member ''cpu_id'' t_u32,
    Member ''__data'' (Array 0 c_char)]"

definition struct_trace_event_raw_cpu_frequency_limits :: ctype where
  "struct_trace_event_raw_cpu_frequency_limits = Comp Struct False [
    Member ''ent'' struct_trace_entry,
    Member ''min_freq'' t_u32,
    Member ''max_freq'' t_u32,
    Member ''cpu_id'' t_u32,
    Member ''__data'' (Array 0 c_char)]"

definition struct_trace_event_raw_cpu_idle_miss :: ctype where
  "struct_trace_event_raw_cpu_idle_miss = Comp Struct False [
    Member ''ent'' struct_trace_entry,
    Member ''cpu_id'' t_u32,
    Member ''state'' t_u32,
    Member ''below'' t_bool,
    Member ''__data'' (Array 0 c_char)]"

definition struct_trace_event_raw_cpu_latency_qos_request :: ctype where
  "struct_trace_event_raw_cpu_latency_qos_request = Comp Struct False [
    Member ''ent'' struct_trace_entry,
    Member ''value'' t_s32,
    Member ''__data'' (Array 0 c_char)]"

definition struct_trace_event_raw_cpuhp_enter :: ctype where
  "struct_trace_event_raw_cpuhp_enter = Comp Struct False [
    Member ''ent'' struct_trace_entry,
    Member ''cpu'' c_unsigned_int,
    Member ''target'' c_int,
    Member ''idx'' c_int,
    Member ''fun'' (Ptr ''void *''),
    Member ''__data'' (Array 0 c_char)]"

definition struct_trace_event_raw_cpuhp_exit :: ctype where
  "struct_trace_event_raw_cpuhp_exit = Comp Struct False [
    Member ''ent'' struct_trace_entry,
    Member ''cpu'' c_unsigned_int,
    Member ''state'' c_int,
    Member ''idx'' c_int,
    Member ''ret'' c_int,
    Member ''__data'' (Array 0 c_char)]"

definition struct_trace_event_raw_cpuhp_multi_enter :: ctype where
  "struct_trace_event_raw_cpuhp_multi_enter = Comp Struct False [
    Member ''ent'' struct_trace_entry,
    Member ''cpu'' c_unsigned_int,
    Member ''target'' c_int,
    Member ''idx'' c_int,
    Member ''fun'' (Ptr ''void *''),
    Member ''__data'' (Array 0 c_char)]"

definition struct_trace_event_raw_csd_function :: ctype where
  "struct_trace_event_raw_csd_function = Comp Struct False [
    Member ''ent'' struct_trace_entry,
    Member ''func'' (Ptr ''void *''),
    Member ''csd'' (Ptr ''void *''),
    Member ''__data'' (Array 0 c_char)]"

definition struct_trace_event_raw_csd_queue_cpu :: ctype where
  "struct_trace_event_raw_csd_queue_cpu = Comp Struct False [
    Member ''ent'' struct_trace_entry,
    Member ''cpu'' c_unsigned_int,
    Member ''callsite'' (Ptr ''void *''),
    Member ''func'' (Ptr ''void *''),
    Member ''csd'' (Ptr ''void *''),
    Member ''__data'' (Array 0 c_char)]"

definition struct_trace_event_raw_fib6_table_lookup :: ctype where
  "struct_trace_event_raw_fib6_table_lookup = Comp Struct False [
    Member ''ent'' struct_trace_entry,
    Member ''tb_id'' t_u32,
    Member ''err'' c_int,
    Member ''oif'' c_int,
    Member ''iif'' c_int,
    Member ''flowlabel'' t_u32,
    Member ''tos'' t___u8,
    Member ''scope'' t___u8,
    Member ''flags'' t___u8,
    Member ''src'' (Array 16 t___u8),
    Member ''dst'' (Array 16 t___u8),
    Member ''sport'' t_u16,
    Member ''dport'' t_u16,
    Member ''proto'' t_u8,
    Member ''rt_type'' t_u8,
    Member ''name'' (Array 16 c_char),
    Member ''gw'' (Array 16 t___u8),
    Member ''__data'' (Array 0 c_char)]"

definition struct_trace_event_raw_fib_table_lookup :: ctype where
  "struct_trace_event_raw_fib_table_lookup = Comp Struct False [
    Member ''ent'' struct_trace_entry,
    Member ''tb_id'' t_u32,
    Member ''err'' c_int,
    Member ''oif'' c_int,
    Member ''iif'' c_int,
    Member ''proto'' t_u8,
    Member ''tos'' t___u8,
    Member ''scope'' t___u8,
    Member ''flags'' t___u8,
    Member ''src'' (Array 4 t___u8),
    Member ''dst'' (Array 4 t___u8),
    Member ''gw4'' (Array 4 t___u8),
    Member ''gw6'' (Array 16 t___u8),
    Member ''sport'' t_u16,
    Member ''dport'' t_u16,
    Member ''name'' (Array 16 c_char),
    Member ''__data'' (Array 0 c_char)]"

definition struct_trace_event_raw_hrtimer_class :: ctype where
  "struct_trace_event_raw_hrtimer_class = Comp Struct False [
    Member ''ent'' struct_trace_entry,
    Member ''hrtimer'' (Ptr ''void *''),
    Member ''__data'' (Array 0 c_char)]"

definition struct_trace_event_raw_hrtimer_expire_entry :: ctype where
  "struct_trace_event_raw_hrtimer_expire_entry = Comp Struct False [
    Member ''ent'' struct_trace_entry,
    Member ''hrtimer'' (Ptr ''void *''),
    Member ''now'' t_s64,
    Member ''function'' (Ptr ''void *''),
    Member ''__data'' (Array 0 c_char)]"

definition enum_hrtimer_mode :: ctype where
  "enum_hrtimer_mode = Enum False [
    (''HRTIMER_MODE_ABS'', 0), (''HRTIMER_MODE_REL'', 1), (''HRTIMER_MODE_PINNED'', 2),
    (''HRTIMER_MODE_SOFT'', 4), (''HRTIMER_MODE_HARD'', 8), (''HRTIMER_MODE_ABS_PINNED'', 2),
    (''HRTIMER_MODE_REL_PINNED'', 3), (''HRTIMER_MODE_ABS_SOFT'', 4),
    (''HRTIMER_MODE_REL_SOFT'', 5), (''HRTIMER_MODE_ABS_PINNED_SOFT'', 6),
    (''HRTIMER_MODE_REL_PINNED_SOFT'', 7), (''HRTIMER_MODE_ABS_HARD'', 8),
    (''HRTIMER_MODE_REL_HARD'', 9), (''HRTIMER_MODE_ABS_PINNED_HARD'', 10),
    (''HRTIMER_MODE_REL_PINNED_HARD'', 11)]"

definition struct_trace_event_raw_hrtimer_setup :: ctype where
  "struct_trace_event_raw_hrtimer_setup = Comp Struct False [
    Member ''ent'' struct_trace_entry,
    Member ''hrtimer'' (Ptr ''void *''),
    Member ''clockid'' t_clockid_t,
    Member ''mode'' enum_hrtimer_mode,
    Member ''__data'' (Array 0 c_char)]"

definition struct_trace_event_raw_hrtimer_start :: ctype where
  "struct_trace_event_raw_hrtimer_start = Comp Struct False [
    Member ''ent'' struct_trace_entry,
    Member ''hrtimer'' (Ptr ''void *''),
    Member ''function'' (Ptr ''void *''),
    Member ''expires'' t_s64,
    Member ''softexpires'' t_s64,
    Member ''mode'' enum_hrtimer_mode,
    Member ''__data'' (Array 0 c_char)]"

definition struct_trace_event_raw_inet_sk_error_report :: ctype where
  "struct_trace_event_raw_inet_sk_error_report = Comp Struct False [
    Member ''ent'' struct_trace_entry,
    Member ''error'' c_int,
    Member ''sport'' t___u16,
    Member ''dport'' t___u16,
    Member ''family'' t___u16,
    Member ''protocol'' t___u16,
    Member ''saddr'' (Array 4 t___u8),
    Member ''daddr'' (Array 4 t___u8),
    Member ''saddr_v6'' (Array 16 t___u8),
    Member ''daddr_v6'' (Array 16 t___u8),
    Member ''__data'' (Array 0 c_char)]"

definition struct_trace_event_raw_inet_sock_set_state :: ctype where
  "struct_trace_event_raw_inet_sock_set_state = Comp Struct False [
    Member ''ent'' struct_trace_entry,
    Member ''skaddr'' (Ptr ''void *''),
    Member ''oldstate'' c_int,
    Member ''newstate'' c_int,
    Member ''sport'' t___u16,
    Member ''dport'' t___u16,
    Member ''family'' t___u16,
    Member ''protocol'' t___u16,
    Member ''saddr'' (Array 4 t___u8),
    Member ''daddr'' (Array 4 t___u8),
    Member ''saddr_v6'' (Array 16 t___u8),
    Member ''daddr_v6'' (Array 16 t___u8),
    Member ''__data'' (Array 0 c_char)]"

definition struct_trace_event_raw_ipi_handler :: ctype where
  "struct_trace_event_raw_ipi_handler = Comp Struct False [
    Member ''ent'' struct_trace_entry,
    Member ''reason'' (Ptr ''char *''),
    Member ''__data'' (Array 0 c_char)]"

definition struct_trace_event_raw_ipi_raise :: ctype where
  "struct_trace_event_raw_ipi_raise = Comp Struct False [
    Member ''ent'' struct_trace_entry,
    Member ''__data_loc_target_cpus'' t_u32,
    Member ''reason'' (Ptr ''char *''),
    Member ''__data'' (Array 0 c_char)]"

definition struct_trace_event_raw_ipi_send_cpu :: ctype where
  "struct_trace_event_raw_ipi_send_cpu = Comp Struct False [
    Member ''ent'' struct_trace_entry,
    Member ''cpu'' c_unsigned_int,
    Member ''callsite'' (Ptr ''void *''),
    Member ''callback'' (Ptr ''void *''),
    Member ''__data'' (Array 0 c_char)]"

definition struct_trace_event_raw_ipi_send_cpumask :: ctype where
  "struct_trace_event_raw_ipi_send_cpumask = Comp Struct False [
    Member ''ent'' struct_trace_entry,
    Member ''__data_loc_cpumask'' t_u32,
    Member ''callsite'' (Ptr ''void *''),
    Member ''callback'' (Ptr ''void *''),
    Member ''__data'' (Array 0 c_char)]"

definition struct_trace_event_raw_irq_handler_entry :: ctype where
  "struct_trace_event_raw_irq_handler_entry = Comp Struct False [
    Member ''ent'' struct_trace_entry,
    Member ''irq'' c_int,
    Member ''__data_loc_name'' t_u32,
    Member ''__data'' (Array 0 c_char)]"

definition struct_trace_event_raw_irq_handler_exit :: ctype where
  "struct_trace_event_raw_irq_handler_exit = Comp Struct False [
    Member ''ent'' struct_trace_entry,
    Member ''irq'' c_int,
    Member ''ret'' c_int,
    Member ''__data'' (Array 0 c_char)]"

definition struct_trace_event_raw_itimer_expire :: ctype where
  "struct_trace_event_raw_itimer_expire = Comp Struct False [
    Member ''ent'' struct_trace_entry,
    Member ''which'' c_int,
    Member ''pid'' t_pid_t,
    Member ''now'' c_unsigned_long_long,
    Member ''__data'' (Array 0 c_char)]"

definition struct_trace_event_raw_itimer_state :: ctype where
  "struct_trace_event_raw_itimer_state = Comp Struct False [
    Member ''ent'' struct_trace_entry,
    Member ''which'' c_int,
    Member ''expires'' c_unsigned_long_long,
    Member ''value_sec'' c_long,
    Member ''value_nsec'' c_long,
    Member ''interval_sec'' c_long,
    Member ''interval_nsec'' c_long,
    Member ''__data'' (Array 0 c_char)]"

definition struct_trace_event_raw_kfree :: ctype where
  "struct_trace_event_raw_kfree = Comp Struct False [
    Member ''ent'' struct_trace_entry,
    Member ''call_site'' c_unsigned_long,
    Member ''ptr'' (Ptr ''void *''),
    Member ''__data'' (Array 0 c_char)]"

definition struct_trace_event_raw_kfree_skb :: ctype where
  "struct_trace_event_raw_kfree_skb = Comp Struct False [
    Member ''ent'' struct_trace_entry,
    Member ''skbaddr'' (Ptr ''void *''),
    Member ''location'' (Ptr ''void *''),
    Member ''rx_sk'' (Ptr ''void *''),
    Member ''protocol'' c_unsigned_short,
    Member ''reason'' enum_skb_drop_reason,
    Member ''__data'' (Array 0 c_char)]"

definition struct_trace_event_raw_kmalloc :: ctype where
  "struct_trace_event_raw_kmalloc = Comp Struct False [
    Member ''ent'' struct_trace_entry,
    Member ''call_site'' c_unsigned_long,
    Member ''ptr'' (Ptr ''void *''),
    Member ''bytes_req'' t_size_t,
    Member ''bytes_alloc'' t_size_t,
    Member ''gfp_flags'' c_unsigned_long,
    Member ''node'' c_int,
    Member ''__data'' (Array 0 c_char)]"

definition struct_trace_event_raw_kmem_cache_alloc :: ctype where
  "struct_trace_event_raw_kmem_cache_alloc = Comp Struct False [
    Member ''ent'' struct_trace_entry,
    Member ''call_site'' c_unsigned_long,
    Member ''ptr'' (Ptr ''void *''),
    Member ''bytes_req'' t_size_t,
    Member ''bytes_alloc'' t_size_t,
    Member ''gfp_flags'' c_unsigned_long,
    Member ''node'' c_int,
    Member ''accounted'' t_bool,
    Member ''__data'' (Array 0 c_char)]"

definition struct_trace_event_raw_kmem_cache_free :: ctype where
  "struct_trace_event_raw_kmem_cache_free = Comp Struct False [
    Member ''ent'' struct_trace_entry,
    Member ''call_site'' c_unsigned_long,
    Member ''ptr'' (Ptr ''void *''),
    Member ''__data_loc_name'' t_u32,
    Member ''__data'' (Array 0 c_char)]"

definition struct_trace_event_raw_locks_get_lock_context :: ctype where
  "struct_trace_event_raw_locks_get_lock_context = Comp Struct False [
    Member ''ent'' struct_trace_entry,
    Member ''i_ino'' c_unsigned_long,
    Member ''s_dev'' t_dev_t,
    Member ''type'' c_unsigned_char,
    Member ''ctx'' (Ptr ''struct file_lock_context *''),
    Member ''__data'' (Array 0 c_char)]"

definition struct_trace_event_raw_mem_connect :: ctype where
  "struct_trace_event_raw_mem_connect = Comp Struct False [
    Member ''ent'' struct_trace_entry,
    Member ''xa'' (Ptr ''struct xdp_mem_allocator *''),
    Member ''mem_id'' t_u32,
    Member ''mem_type'' t_u32,
    Member ''allocator'' (Ptr ''void *''),
    Member ''rxq'' (Ptr ''struct xdp_rxq_info *''),
    Member ''ifindex'' c_int,
    Member ''__data'' (Array 0 c_char)]"

definition struct_trace_event_raw_mem_disconnect :: ctype where
  "struct_trace_event_raw_mem_disconnect = Comp Struct False [
    Member ''ent'' struct_trace_entry,
    Member ''xa'' (Ptr ''struct xdp_mem_allocator *''),
    Member ''mem_id'' t_u32,
    Member ''mem_type'' t_u32,
    Member ''allocator'' (Ptr ''void *''),
    Member ''__data'' (Array 0 c_char)]"

definition struct_trace_event_raw_memcg_flush_stats :: ctype where
  "struct_trace_event_raw_memcg_flush_stats = Comp Struct False [
    Member ''ent'' struct_trace_entry,
    Member ''id'' t_u64,
    Member ''stats_updates'' t_s64,
    Member ''force'' t_bool,
    Member ''needs_flush'' t_bool,
    Member ''__data'' (Array 0 c_char)]"

definition struct_trace_event_raw_memcg_rstat_events :: ctype where
  "struct_trace_event_raw_memcg_rstat_events = Comp Struct False [
    Member ''ent'' struct_trace_entry,
    Member ''id'' t_u64,
    Member ''item'' c_int,
    Member ''val'' c_unsigned_long,
    Member ''__data'' (Array 0 c_char)]"

definition struct_trace_event_raw_memcg_rstat_stats :: ctype where
  "struct_trace_event_raw_memcg_rstat_stats = Comp Struct False [
    Member ''ent'' struct_trace_entry,
    Member ''id'' t_u64,
    Member ''item'' c_int,
    Member ''val'' c_int,
    Member ''__data'' (Array 0 c_char)]"

definition struct_trace_event_raw_mm_calculate_totalreserve_pages :: ctype where
  "struct_trace_event_raw_mm_calculate_totalreserve_pages = Comp Struct False [
    Member ''ent'' struct_trace_entry,
    Member ''totalreserve_pages'' c_unsigned_long,
    Member ''__data'' (Array 0 c_char)]"

definition struct_trace_event_raw_mm_collapse_huge_page :: ctype where
  "struct_trace_event_raw_mm_collapse_huge_page = Comp Struct False [
    Member ''ent'' struct_trace_entry,
    Member ''mm'' (Ptr ''struct mm_struct *''),
    Member ''isolated'' c_int,
    Member ''status'' c_int,
    Member ''__data'' (Array 0 c_char)]"

definition struct_trace_event_raw_mm_collapse_huge_page_isolate :: ctype where
  "struct_trace_event_raw_mm_collapse_huge_page_isolate = Comp Struct False [
    Member ''ent'' struct_trace_entry,
    Member ''pfn'' c_unsigned_long,
    Member ''none_or_zero'' c_int,
    Member ''referenced'' c_int,
    Member ''writable'' t_bool,
    Member ''status'' c_int,
    Member ''__data'' (Array 0 c_char)]"

definition struct_trace_event_raw_mm_collapse_huge_page_swapin :: ctype where
  "struct_trace_event_raw_mm_collapse_huge_page_swapin = Comp Struct False [
    Member ''ent'' struct_trace_entry,
    Member ''mm'' (Ptr ''struct mm_struct *''),
    Member ''swapped_in'' c_int,
    Member ''referenced'' c_int,
    Member ''ret'' c_int,
    Member ''__data'' (Array 0 c_char)]"

definition struct_trace_event_raw_mm_compaction_begin :: ctype where
  "struct_trace_event_raw_mm_compaction_begin = Comp Struct False [
    Member ''ent'' struct_trace_entry,
    Member ''zone_start'' c_unsigned_long,
    Member ''migrate_pfn'' c_unsigned_long,
    Member ''free_pfn'' c_unsigned_long,
    Member ''zone_end'' c_unsigned_long,
    Member ''sync'' t_bool,
    Member ''__data'' (Array 0 c_char)]"

definition enum_zone_type :: ctype where
  "enum_zone_type = Enum False [
    (''ZONE_DMA'', 0), (''ZONE_DMA32'', 1), (''ZONE_NORMAL'', 2), (''ZONE_MOVABLE'', 3),
    (''__MAX_NR_ZONES'', 4)]"

definition struct_trace_event_raw_mm_compaction_defer_template :: ctype where
  "struct_trace_event_raw_mm_compaction_defer_template = Comp Struct False [
    Member ''ent'' struct_trace_entry,
    Member ''nid'' c_int,
    Member ''idx'' enum_zone_type,
    Member ''order'' c_int,
    Member ''considered'' c_unsigned_int,
    Member ''defer_shift'' c_unsigned_int,
    Member ''order_failed'' c_int,
    Member ''__data'' (Array 0 c_char)]"

definition struct_trace_event_raw_mm_compaction_end :: ctype where
  "struct_trace_event_raw_mm_compaction_end = Comp Struct False [
    Member ''ent'' struct_trace_entry,
    Member ''zone_start'' c_unsigned_long,
    Member ''migrate_pfn'' c_unsigned_long,
    Member ''free_pfn'' c_unsigned_long,
    Member ''zone_end'' c_unsigned_long,
    Member ''sync'' t_bool,
    Member ''status'' c_int,
    Member ''__data'' (Array 0 c_char)]"

definition struct_trace_event_raw_mm_compaction_isolate_template :: ctype where
  "struct_trace_event_raw_mm_compaction_isolate_template = Comp Struct False [
    Member ''ent'' struct_trace_entry,
    Member ''start_pfn'' c_unsigned_long,
    Member ''end_pfn'' c_unsigned_long,
    Member ''nr_scanned'' c_unsigned_long,
    Member ''nr_taken'' c_unsigned_long,
    Member ''__data'' (Array 0 c_char)]"

definition struct_trace_event_raw_mm_compaction_kcompactd_sleep :: ctype where
  "struct_trace_event_raw_mm_compaction_kcompactd_sleep = Comp Struct False [
    Member ''ent'' struct_trace_entry,
    Member ''nid'' c_int,
    Member ''__data'' (Array 0 c_char)]"

definition struct_trace_event_raw_mm_compaction_migratepages :: ctype where
  "struct_trace_event_raw_mm_compaction_migratepages = Comp Struct False [
    Member ''ent'' struct_trace_entry,
    Member ''nr_migrated'' c_unsigned_long,
    Member ''nr_failed'' c_unsigned_long,
    Member ''__data'' (Array 0 c_char)]"

definition struct_trace_event_raw_mm_compaction_suitable_template :: ctype where
  "struct_trace_event_raw_mm_compaction_suitable_template = Comp Struct False [
    Member ''ent'' struct_trace_entry,
    Member ''nid'' c_int,
    Member ''idx'' enum_zone_type,
    Member ''order'' c_int,
    Member ''ret'' c_int,
    Member ''__data'' (Array 0 c_char)]"

definition struct_trace_event_raw_mm_compaction_try_to_compact_pages :: ctype where
  "struct_trace_event_raw_mm_compaction_try_to_compact_pages = Comp Struct False [
    Member ''ent'' struct_trace_entry,
    Member ''order'' c_int,
    Member ''gfp_mask'' c_unsigned_long,
    Member ''prio'' c_int,
    Member ''__data'' (Array 0 c_char)]"

definition struct_trace_event_raw_mm_filemap_fault :: ctype where
  "struct_trace_event_raw_mm_filemap_fault = Comp Struct False [
    Member ''ent'' struct_trace_entry,
    Member ''i_ino'' c_unsigned_long,
    Member ''s_dev'' t_dev_t,
    Member ''index'' c_unsigned_long,
    Member ''__data'' (Array 0 c_char)]"

definition struct_trace_event_raw_mm_filemap_op_page_cache :: ctype where
  "struct_trace_event_raw_mm_filemap_op_page_cache = Comp Struct False [
    Member ''ent'' struct_trace_entry,
    Member ''pfn'' c_unsigned_long,
    Member ''i_ino'' c_unsigned_long,
    Member ''index'' c_unsigned_long,
    Member ''s_dev'' t_dev_t,
    Member ''order'' c_unsigned_char,
    Member ''__data'' (Array 0 c_char)]"

definition struct_trace_event_raw_mm_filemap_op_page_cache_range :: ctype where
  "struct_trace_event_raw_mm_filemap_op_page_cache_range = Comp Struct False [
    Member ''ent'' struct_trace_entry,
    Member ''i_ino'' c_unsigned_long,
    Member ''s_dev'' t_dev_t,
    Member ''index'' c_unsigned_long,
    Member ''last_index'' c_unsigned_long,
    Member ''__data'' (Array 0 c_char)]"

definition struct_trace_event_raw_mm_khugepaged_collapse_file :: ctype where
  "struct_trace_event_raw_mm_khugepaged_collapse_file = Comp Struct False [
    Member ''ent'' struct_trace_entry,
    Member ''mm'' (Ptr ''struct mm_struct *''),
    Member ''hpfn'' c_unsigned_long,
    Member ''index'' c_unsigned_long,
    Member ''addr'' c_unsigned_long,
    Member ''is_shmem'' t_bool,
    Member ''__data_loc_filename'' t_u32,
    Member ''nr'' c_int,
    Member ''result'' c_int,
    Member ''__data'' (Array 0 c_char)]"

definition struct_trace_event_raw_mm_khugepaged_scan_file :: ctype where
  "struct_trace_event_raw_mm_khugepaged_scan_file = Comp Struct False [
    Member ''ent'' struct_trace_entry,
    Member ''mm'' (Ptr ''struct mm_struct *''),
    Member ''pfn'' c_unsigned_long,
    Member ''__data_loc_filename'' t_u32,
    Member ''present'' c_int,
    Member ''swap'' c_int,
    Member ''result'' c_int,
    Member ''__data'' (Array 0 c_char)]"

definition struct_trace_event_raw_mm_khugepaged_scan_pmd :: ctype where
  "struct_trace_event_raw_mm_khugepaged_scan_pmd = Comp Struct False [
    Member ''ent'' struct_trace_entry,
    Member ''mm'' (Ptr ''struct mm_struct *''),
    Member ''pfn'' c_unsigned_long,
    Member ''writable'' t_bool,
    Member ''referenced'' c_int,
    Member ''none_or_zero'' c_int,
    Member ''status'' c_int,
    Member ''unmapped'' c_int,
    Member ''__data'' (Array 0 c_char)]"

definition struct_trace_event_raw_mm_lru_activate :: ctype where
  "struct_trace_event_raw_mm_lru_activate = Comp Struct False [
    Member ''ent'' struct_trace_entry,
    Member ''folio'' (Ptr ''struct folio *''),
    Member ''pfn'' c_unsigned_long,
    Member ''__data'' (Array 0 c_char)]"

definition enum_lru_list :: ctype where
  "enum_lru_list = Enum False [
    (''LRU_INACTIVE_ANON'', 0), (''LRU_ACTIVE_ANON'', 1), (''LRU_INACTIVE_FILE'', 2),
    (''LRU_ACTIVE_FILE'', 3), (''LRU_UNEVICTABLE'', 4), (''NR_LRU_LISTS'', 5)]"

definition struct_trace_event_raw_mm_lru_insertion :: ctype where
  "struct_trace_event_raw_mm_lru_insertion = Comp Struct False [
    Member ''ent'' struct_trace_entry,
    Member ''folio'' (Ptr ''struct folio *''),
    Member ''pfn'' c_unsigned_long,
    Member ''lru'' enum_lru_list,
    Member ''flags'' c_unsigned_long,
    Member ''__data'' (Array 0 c_char)]"

definition enum_migrate_mode :: ctype where
  "enum_migrate_mode = Enum False [
    (''MIGRATE_ASYNC'', 0), (''MIGRATE_SYNC_LIGHT'', 1), (''MIGRATE_SYNC'', 2)]"

definition struct_trace_event_raw_mm_migrate_pages :: ctype where
  "struct_trace_event_raw_mm_migrate_pages = Comp Struct False [
    Member ''ent'' struct_trace_entry,
    Member ''succeeded'' c_unsigned_long,
    Member ''failed'' c_unsigned_long,
    Member ''thp_succeeded'' c_unsigned_long,
    Member ''thp_failed'' c_unsigned_long,
    Member ''thp_split'' c_unsigned_long,
    Member ''large_folio_split'' c_unsigned_long,
    Member ''mode'' enum_migrate_mode,
    Member ''reason'' c_int,
    Member ''__data'' (Array 0 c_char)]"

definition struct_trace_event_raw_mm_migrate_pages_start :: ctype where
  "struct_trace_event_raw_mm_migrate_pages_start = Comp Struct False [
    Member ''ent'' struct_trace_entry,
    Member ''mode'' enum_migrate_mode,
    Member ''reason'' c_int,
    Member ''__data'' (Array 0 c_char)]"

definition struct_trace_event_raw_mm_page :: ctype where
  "struct_trace_event_raw_mm_page = Comp Struct False [
    Member ''ent'' struct_trace_entry,
    Member ''pfn'' c_unsigned_long,
    Member ''order'' c_unsigned_int,
    Member ''migratetype'' c_int,
    Member ''percpu_refill'' c_int,
    Member ''__data'' (Array 0 c_char)]"

definition struct_trace_event_raw_mm_page_alloc :: ctype where
  "struct_trace_event_raw_mm_page_alloc = Comp Struct False [
    Member ''ent'' struct_trace_entry,
    Member ''pfn'' c_unsigned_long,
    Member ''order'' c_unsigned_int,
    Member ''gfp_flags'' c_unsigned_long,
    Member ''migratetype'' c_int,
    Member ''__data'' (Array 0 c_char)]"

definition struct_trace_event_raw_mm_page_alloc_extfrag :: ctype where
  "struct_trace_event_raw_mm_page_alloc_extfrag = Comp Struct False [
    Member ''ent'' struct_trace_entry,
    Member ''pfn'' c_unsigned_long,
    Member ''alloc_order'' c_int,
    Member ''fallback_order'' c_int,
    Member ''alloc_migratetype'' c_int,
    Member ''fallback_migratetype'' c_int,
    Member ''change_ownership'' c_int,
    Member ''__data'' (Array 0 c_char)]"

definition struct_trace_event_raw_mm_page_free :: ctype where
  "struct_trace_event_raw_mm_page_free = Comp Struct False [
    Member ''ent'' struct_trace_entry,
    Member ''pfn'' c_unsigned_long,
    Member ''order'' c_unsigned_int,
    Member ''__data'' (Array 0 c_char)]"

definition struct_trace_event_raw_mm_page_free_batched :: ctype where
  "struct_trace_event_raw_mm_page_free_batched = Comp Struct False [
    Member ''ent'' struct_trace_entry,
    Member ''pfn'' c_unsigned_long,
    Member ''__data'' (Array 0 c_char)]"

definition struct_trace_event_raw_mm_page_pcpu_drain :: ctype where
  "struct_trace_event_raw_mm_page_pcpu_drain = Comp Struct False [
    Member ''ent'' struct_trace_entry,
    Member ''pfn'' c_unsigned_long,
    Member ''order'' c_unsigned_int,
    Member ''migratetype'' c_int,
    Member ''__data'' (Array 0 c_char)]"

definition struct_trace_event_raw_mm_setup_per_zone_lowmem_reserve :: ctype where
  "struct_trace_event_raw_mm_setup_per_zone_lowmem_reserve = Comp Struct False [
    Member ''ent'' struct_trace_entry,
    Member ''node_id'' c_int,
    Member ''__data_loc_name'' t_u32,
    Member ''__data_loc_upper_name'' t_u32,
    Member ''lowmem_reserve'' c_long,
    Member ''__data'' (Array 0 c_char)]"

definition struct_trace_event_raw_mm_setup_per_zone_wmarks :: ctype where
  "struct_trace_event_raw_mm_setup_per_zone_wmarks = Comp Struct False [
    Member ''ent'' struct_trace_entry,
    Member ''node_id'' c_int,
    Member ''__data_loc_name'' t_u32,
    Member ''watermark_min'' c_unsigned_long,
    Member ''watermark_low'' c_unsigned_long,
    Member ''watermark_high'' c_unsigned_long,
    Member ''watermark_promo'' c_unsigned_long,
    Member ''__data'' (Array 0 c_char)]"

definition struct_trace_event_raw_mm_shrink_slab_end :: ctype where
  "struct_trace_event_raw_mm_shrink_slab_end = Comp Struct False [
    Member ''ent'' struct_trace_entry,
    Member ''shr'' (Ptr ''struct shrinker *''),
    Member ''nid'' c_int,
    Member ''shrink'' (Ptr ''void *''),
    Member ''unused_scan'' c_long,
    Member ''new_scan'' c_long,
    Member ''retval'' c_int,
    Member ''total_scan'' c_long,
    Member ''__data'' (Array 0 c_char)]"

definition struct_trace_event_raw_mm_shrink_slab_start :: ctype where
  "struct_trace_event_raw_mm_shrink_slab_start = Comp Struct False [
    Member ''ent'' struct_trace_entry,
    Member ''shr'' (Ptr ''struct shrinker *''),
    Member ''shrink'' (Ptr ''void *''),
    Member ''nid'' c_int,
    Member ''nr_objects_to_shrink'' c_long,
    Member ''gfp_flags'' c_unsigned_long,
    Member ''cache_items'' c_unsigned_long,
    Member ''delta'' c_unsigned_long_long,
    Member ''total_scan'' c_unsigned_long,
    Member ''priority'' c_int,
    Member ''__data'' (Array 0 c_char)]"

definition struct_trace_event_raw_mm_vmscan_direct_reclaim_begin_template :: ctype where
  "struct_trace_event_raw_mm_vmscan_direct_reclaim_begin_template = Comp Struct False [
    Member ''ent'' struct_trace_entry,
    Member ''order'' c_int,
    Member ''gfp_flags'' c_unsigned_long,
    Member ''__data'' (Array 0 c_char)]"

definition struct_trace_event_raw_mm_vmscan_direct_reclaim_end_template :: ctype where
  "struct_trace_event_raw_mm_vmscan_direct_reclaim_end_template = Comp Struct False [
    Member ''ent'' struct_trace_entry,
    Member ''nr_reclaimed'' c_unsigned_long,
    Member ''__data'' (Array 0 c_char)]"

definition struct_trace_event_raw_mm_vmscan_kswapd_sleep :: ctype where
  "struct_trace_event_raw_mm_vmscan_kswapd_sleep = Comp Struct False [
    Member ''ent'' struct_trace_entry,
    Member ''nid'' c_int,
    Member ''__data'' (Array 0 c_char)]"

definition struct_trace_event_raw_mm_vmscan_kswapd_wake :: ctype where
  "struct_trace_event_raw_mm_vmscan_kswapd_wake = Comp Struct False [
    Member ''ent'' struct_trace_entry,
    Member ''nid'' c_int,
    Member ''zid'' c_int,
    Member ''order'' c_int,
    Member ''__data'' (Array 0 c_char)]"

definition struct_trace_event_raw_mm_vmscan_lru_isolate :: ctype where
  "struct_trace_event_raw_mm_vmscan_lru_isolate = Comp Struct False [
    Member ''ent'' struct_trace_entry,
    Member ''highest_zoneidx'' c_int,
    Member ''order'' c_int,
    Member ''nr_requested'' c_unsigned_long,
    Member ''nr_scanned'' c_unsigned_long,
    Member ''nr_skipped'' c_unsigned_long,
    Member ''nr_taken'' c_unsigned_long,
    Member ''lru'' c_int,
    Member ''__data'' (Array 0 c_char)]"

definition struct_trace_event_raw_mm_vmscan_lru_shrink_active :: ctype where
  "struct_trace_event_raw_mm_vmscan_lru_shrink_active = Comp Struct False [
    Member ''ent'' struct_trace_entry,
    Member ''nid'' c_int,
    Member ''nr_taken'' c_unsigned_long,
    Member ''nr_active'' c_unsigned_long,
    Member ''nr_deactivated'' c_unsigned_long,
    Member ''nr_referenced'' c_unsigned_long,
    Member ''priority'' c_int,
    Member ''reclaim_flags'' c_int,
    Member ''__data'' (Array 0 c_char)]"

definition struct_trace_event_raw_mm_vmscan_lru_shrink_inactive :: ctype where
  "struct_trace_event_raw_mm_vmscan_lru_shrink_inactive = Comp Struct False [
    Member ''ent'' struct_trace_entry,
    Member ''nid'' c_int,
    Member ''nr_scanned'' c_unsigned_long,
    Member ''nr_reclaimed'' c_unsigned_long,
    Member ''nr_dirty'' c_unsigned_long,
    Member ''nr_writeback'' c_unsigned_long,
    Member ''nr_congested'' c_unsigned_long,
    Member ''nr_immediate'' c_unsigned_long,
    Member ''nr_activate0'' c_unsigned_int,
    Member ''nr_activate1'' c_unsigned_int,
    Member ''nr_ref_keep'' c_unsigned_long,
    Member ''nr_unmap_fail'' c_unsigned_long,
    Member ''priority'' c_int,
    Member ''reclaim_flags'' c_int,
    Member ''__data'' (Array 0 c_char)]"

definition struct_trace_event_raw_mm_vmscan_node_reclaim_begin :: ctype where
  "struct_trace_event_raw_mm_vmscan_node_reclaim_begin = Comp Struct False [
    Member ''ent'' struct_trace_entry,
    Member ''nid'' c_int,
    Member ''order'' c_int,
    Member ''gfp_flags'' c_unsigned_long,
    Member ''__data'' (Array 0 c_char)]"

definition struct_trace_event_raw_mm_vmscan_reclaim_pages :: ctype where
  "struct_trace_event_raw_mm_vmscan_reclaim_pages = Comp Struct False [
    Member ''ent'' struct_trace_entry,
    Member ''nid'' c_int,
    Member ''nr_scanned'' c_unsigned_long,
    Member ''nr_reclaimed'' c_unsigned_long,
    Member ''nr_dirty'' c_unsigned_long,
    Member ''nr_writeback'' c_unsigned_long,
    Member ''nr_congested'' c_unsigned_long,
    Member ''nr_immediate'' c_unsigned_long,
    Member ''nr_activate0'' c_unsigned_int,
    Member ''nr_activate1'' c_unsigned_int,
    Member ''nr_ref_keep'' c_unsigned_long,
    Member ''nr_unmap_fail'' c_unsigned_long,
    Member ''__data'' (Array 0 c_char)]"

definition struct_trace_event_raw_mm_vmscan_throttled :: ctype where
  "struct_trace_event_raw_mm_vmscan_throttled = Comp Struct False [
    Member ''ent'' struct_trace_entry,
    Member ''nid'' c_int,
    Member ''usec_timeout'' c_int,
    Member ''usec_delayed'' c_int,
    Member ''reason'' c_int,
    Member ''__data'' (Array 0 c_char)]"

definition struct_trace_event_raw_mm_vmscan_wakeup_kswapd :: ctype where
  "struct_trace_event_raw_mm_vmscan_wakeup_kswapd = Comp Struct False [
    Member ''ent'' struct_trace_entry,
    Member ''nid'' c_int,
    Member ''zid'' c_int,
    Member ''order'' c_int,
    Member ''gfp_flags'' c_unsigned_long,
    Member ''__data'' (Array 0 c_char)]"

definition struct_trace_event_raw_mm_vmscan_write_folio :: ctype where
  "struct_trace_event_raw_mm_vmscan_write_folio = Comp Struct False [
    Member ''ent'' struct_trace_entry,
    Member ''pfn'' c_unsigned_long,
    Member ''reclaim_flags'' c_int,
    Member ''__data'' (Array 0 c_char)]"

definition struct_trace_event_raw_module_free :: ctype where
  "struct_trace_event_raw_module_free = Comp Struct False [
    Member ''ent'' struct_trace_entry,
    Member ''__data_loc_name'' t_u32,
    Member ''__data'' (Array 0 c_char)]"

definition struct_trace_event_raw_module_load :: ctype where
  "struct_trace_event_raw_module_load = Comp Struct False [
    Member ''ent'' struct_trace_entry,
    Member ''taints'' c_unsigned_int,
    Member ''__data_loc_name'' t_u32,
    Member ''__data'' (Array 0 c_char)]"

definition struct_trace_event_raw_module_refcnt :: ctype where
  "struct_trace_event_raw_module_refcnt = Comp Struct False [
    Member ''ent'' struct_trace_entry,
    Member ''ip'' c_unsigned_long,
    Member ''refcnt'' c_int,
    Member ''__data_loc_name'' t_u32,
    Member ''__data'' (Array 0 c_char)]"

definition struct_trace_event_raw_module_request :: ctype where
  "struct_trace_event_raw_module_request = Comp Struct False [
    Member ''ent'' struct_trace_entry,
    Member ''ip'' c_unsigned_long,
    Member ''wait'' t_bool,
    Member ''__data_loc_name'' t_u32,
    Member ''__data'' (Array 0 c_char)]"

definition struct_trace_event_raw_napi_poll :: ctype where
  "struct_trace_event_raw_napi_poll = Comp Struct False [
    Member ''ent'' struct_trace_entry,
    Member ''napi'' (Ptr ''struct napi_struct *''),
    Member ''__data_loc_dev_name'' t_u32,
    Member ''work'' c_int,
    Member ''budget'' c_int,
    Member ''__data'' (Array 0 c_char)]"

definition struct_trace_event_raw_neigh__update :: ctype where
  "struct_trace_event_raw_neigh__update = Comp Struct False [
    Member ''ent'' struct_trace_entry,
    Member ''family'' t_u32,
    Member ''__data_loc_dev'' t_u32,
    Member ''lladdr'' (Array 32 t_u8),
    Member ''lladdr_len'' t_u8,
    Member ''flags'' t_u8,
    Member ''nud_state'' t_u8,
    Member ''type'' t_u8,
    Member ''dead'' t_u8,
    Member ''refcnt'' c_int,
    Member ''primary_key4'' (Array 4 t___u8),
    Member ''primary_key6'' (Array 16 t___u8),
    Member ''confirmed'' c_unsigned_long,
    Member ''updated'' c_unsigned_long,
    Member ''used'' c_unsigned_long,
    Member ''err'' t_u32,
    Member ''__data'' (Array 0 c_char)]"

definition struct_trace_event_raw_neigh_create :: ctype where
  "struct_trace_event_raw_neigh_create = Comp Struct False [
    Member ''ent'' struct_trace_entry,
    Member ''family'' t_u32,
    Member ''__data_loc_dev'' t_u32,
    Member ''entries'' c_int,
    Member ''created'' t_u8,
    Member ''gc_exempt'' t_u8,
    Member ''primary_key4'' (Array 4 t_u8),
    Member ''primary_key6'' (Array 16 t_u8),
    Member ''__data'' (Array 0 c_char)]"

definition struct_trace_event_raw_neigh_update :: ctype where
  "struct_trace_event_raw_neigh_update = Comp Struct False [
    Member ''ent'' struct_trace_entry,
    Member ''family'' t_u32,
    Member ''__data_loc_dev'' t_u32,
    Member ''lladdr'' (Array 32 t_u8),
    Member ''lladdr_len'' t_u8,
    Member ''flags'' t_u8,
    Member ''nud_state'' t_u8,
    Member ''type'' t_u8,
    Member ''dead'' t_u8,
    Member ''refcnt'' c_int,
    Member ''primary_key4'' (Array 4 t___u8),
    Member ''primary_key6'' (Array 16 t___u8),
    Member ''confirmed'' c_unsigned_long,
    Member ''updated'' c_unsigned_long,
    Member ''used'' c_unsigned_long,
    Member ''new_lladdr'' (Array 32 t_u8),
    Member ''new_state'' t_u8,
    Member ''update_flags'' t_u32,
    Member ''pid'' t_u32,
    Member ''__data'' (Array 0 c_char)]"

definition struct_trace_event_raw_net_dev_rx_exit_template :: ctype where
  "struct_trace_event_raw_net_dev_rx_exit_template = Comp Struct False [
    Member ''ent'' struct_trace_entry,
    Member ''ret'' c_int,
    Member ''__data'' (Array 0 c_char)]"

definition struct_trace_event_raw_net_dev_rx_verbose_template :: ctype where
  "struct_trace_event_raw_net_dev_rx_verbose_template = Comp Struct False [
    Member ''ent'' struct_trace_entry,
    Member ''__data_loc_name'' t_u32,
    Member ''napi_id'' c_unsigned_int,
    Member ''queue_mapping'' t_u16,
    Member ''skbaddr'' (Ptr ''void *''),
    Member ''vlan_tagged'' t_bool,
    Member ''vlan_proto'' t_u16,
    Member ''vlan_tci'' t_u16,
    Member ''protocol'' t_u16,
    Member ''ip_summed'' t_u8,
    Member ''hash'' t_u32,
    Member ''l4_hash'' t_bool,
    Member ''len'' c_unsigned_int,
    Member ''data_len'' c_unsigned_int,
    Member ''truesize'' c_unsigned_int,
    Member ''mac_header_valid'' t_bool,
    Member ''mac_header'' c_int,
    Member ''nr_frags'' c_unsigned_char,
    Member ''gso_size'' t_u16,
    Member ''gso_type'' t_u16,
    Member ''__data'' (Array 0 c_char)]"

definition struct_trace_event_raw_net_dev_start_xmit :: ctype where
  "struct_trace_event_raw_net_dev_start_xmit = Comp Struct False [
    Member ''ent'' struct_trace_entry,
    Member ''__data_loc_name'' t_u32,
    Member ''queue_mapping'' t_u16,
    Member ''skbaddr'' (Ptr ''void *''),
    Member ''vlan_tagged'' t_bool,
    Member ''vlan_proto'' t_u16,
    Member ''vlan_tci'' t_u16,
    Member ''protocol'' t_u16,
    Member ''ip_summed'' t_u8,
    Member ''len'' c_unsigned_int,
    Member ''data_len'' c_unsigned_int,
    Member ''network_offset'' c_int,
    Member ''transport_offset_valid'' t_bool,
    Member ''transport_offset'' c_int,
    Member ''tx_flags'' t_u8,
    Member ''gso_size'' t_u16,
    Member ''gso_segs'' t_u16,
    Member ''gso_type'' t_u16,
    Member ''__data'' (Array 0 c_char)]"

definition struct_trace_event_raw_net_dev_template :: ctype where
  "struct_trace_event_raw_net_dev_template = Comp Struct False [
    Member ''ent'' struct_trace_entry,
    Member ''skbaddr'' (Ptr ''void *''),
    Member ''len'' c_unsigned_int,
    Member ''__data_loc_name'' t_u32,
    Member ''__data'' (Array 0 c_char)]"

definition struct_trace_event_raw_net_dev_xmit :: ctype where
  "struct_trace_event_raw_net_dev_xmit = Comp Struct False [
    Member ''ent'' struct_trace_entry,
    Member ''skbaddr'' (Ptr ''void *''),
    Member ''len'' c_unsigned_int,
    Member ''rc'' c_int,
    Member ''__data_loc_name'' t_u32,
    Member ''__data'' (Array 0 c_char)]"

definition struct_trace_event_raw_net_dev_xmit_timeout :: ctype where
  "struct_trace_event_raw_net_dev_xmit_timeout = Comp Struct False [
    Member ''ent'' struct_trace_entry,
    Member ''__data_loc_name'' t_u32,
    Member ''__data_loc_driver'' t_u32,
    Member ''queue_index'' c_int,
    Member ''__data'' (Array 0 c_char)]"

definition struct_trace_event_raw_netdev_evt_only :: ctype where
  "struct_trace_event_raw_netdev_evt_only = Comp Struct False [
    Member ''ent'' struct_trace_entry,
    Member ''name'' (Array 16 c_char),
    Member ''ifindex'' c_int,
    Member ''__data'' (Array 0 c_char)]"

definition struct_trace_event_raw_netdev_frame_event :: ctype where
  "struct_trace_event_raw_netdev_frame_event = Comp Struct False [
    Member ''ent'' struct_trace_entry,
    Member ''name'' (Array 16 c_char),
    Member ''ifindex'' c_int,
    Member ''__data_loc_frame'' t_u32,
    Member ''__data'' (Array 0 c_char)]"

definition struct_trace_event_raw_netdev_mac_evt :: ctype where
  "struct_trace_event_raw_netdev_mac_evt = Comp Struct False [
    Member ''ent'' struct_trace_entry,
    Member ''name'' (Array 16 c_char),
    Member ''ifindex'' c_int,
    Member ''mac'' (Array 6 t_u8),
    Member ''__data'' (Array 0 c_char)]"

definition struct_trace_event_raw_netfs_collect :: ctype where
  "struct_trace_event_raw_netfs_collect = Comp Struct False [
    Member ''ent'' struct_trace_entry,
    Member ''wreq'' c_unsigned_int,
    Member ''len'' c_unsigned_int,
    Member ''transferred'' c_unsigned_long_long,
    Member ''start'' c_unsigned_long_long,
    Member ''__data'' (Array 0 c_char)]"

definition struct_trace_event_raw_netfs_collect_folio :: ctype where
  "struct_trace_event_raw_netfs_collect_folio = Comp Struct False [
    Member ''ent'' struct_trace_entry,
    Member ''wreq'' c_unsigned_int,
    Member ''index'' c_unsigned_long,
    Member ''fend'' c_unsigned_long_long,
    Member ''cleaned_to'' c_unsigned_long_long,
    Member ''collected_to'' c_unsigned_long_long,
    Member ''__data'' (Array 0 c_char)]"

definition struct_trace_event_raw_netfs_collect_gap :: ctype where
  "struct_trace_event_raw_netfs_collect_gap = Comp Struct False [
    Member ''ent'' struct_trace_entry,
    Member ''wreq'' c_unsigned_int,
    Member ''stream'' c_unsigned_char,
    Member ''type'' c_unsigned_char,
    Member ''from'' c_unsigned_long_long,
    Member ''to'' c_unsigned_long_long,
    Member ''__data'' (Array 0 c_char)]"

definition struct_trace_event_raw_netfs_collect_sreq :: ctype where
  "struct_trace_event_raw_netfs_collect_sreq = Comp Struct False [
    Member ''ent'' struct_trace_entry,
    Member ''wreq'' c_unsigned_int,
    Member ''subreq'' c_unsigned_int,
    Member ''stream'' c_unsigned_int,
    Member ''len'' c_unsigned_int,
    Member ''transferred'' c_unsigned_int,
    Member ''start'' c_unsigned_long_long,
    Member ''__data'' (Array 0 c_char)]"

definition struct_trace_event_raw_netfs_collect_state :: ctype where
  "struct_trace_event_raw_netfs_collect_state = Comp Struct False [
    Member ''ent'' struct_trace_entry,
    Member ''wreq'' c_unsigned_int,
    Member ''notes'' c_unsigned_int,
    Member ''collected_to'' c_unsigned_long_long,
    Member ''cleaned_to'' c_unsigned_long_long,
    Member ''__data'' (Array 0 c_char)]"

definition struct_trace_event_raw_netfs_collect_stream :: ctype where
  "struct_trace_event_raw_netfs_collect_stream = Comp Struct False [
    Member ''ent'' struct_trace_entry,
    Member ''wreq'' c_unsigned_int,
    Member ''stream'' c_unsigned_char,
    Member ''collected_to'' c_unsigned_long_long,
    Member ''front'' c_unsigned_long_long,
    Member ''__data'' (Array 0 c_char)]"

definition struct_trace_event_raw_netfs_copy2cache :: ctype where
  "struct_trace_event_raw_netfs_copy2cache = Comp Struct False [
    Member ''ent'' struct_trace_entry,
    Member ''rreq'' c_unsigned_int,
    Member ''creq'' c_unsigned_int,
    Member ''cookie'' c_unsigned_int,
    Member ''ino'' c_unsigned_int,
    Member ''__data'' (Array 0 c_char)]"

definition enum_netfs_io_source :: ctype where
  "enum_netfs_io_source = Enum True [
    (''NETFS_SOURCE_UNKNOWN'', 0), (''NETFS_FILL_WITH_ZEROES'', 1),
    (''NETFS_DOWNLOAD_FROM_SERVER'', 2), (''NETFS_READ_FROM_CACHE'', 3),
    (''NETFS_INVALID_READ'', 4), (''NETFS_UPLOAD_TO_SERVER'', 5), (''NETFS_WRITE_TO_CACHE'', 6)]"

definition enum_netfs_failure :: ctype where
  "enum_netfs_failure = Enum True [
    (''netfs_fail_check_write_begin'', 0), (''netfs_fail_copy_to_cache'', 1),
    (''netfs_fail_dio_read_short'', 2), (''netfs_fail_dio_read_zero'', 3),
    (''netfs_fail_read'', 4), (''netfs_fail_short_read'', 5), (''netfs_fail_prepare_write'', 6),
    (''netfs_fail_write'', 7)]"

definition struct_trace_event_raw_netfs_failure :: ctype where
  "struct_trace_event_raw_netfs_failure = Comp Struct False [
    Member ''ent'' struct_trace_entry,
    Member ''rreq'' c_unsigned_int,
    Member ''index'' c_short,
    Member ''error'' c_short,
    Member ''flags'' c_unsigned_short,
    Member ''source'' enum_netfs_io_source,
    Member ''what'' enum_netfs_failure,
    Member ''len'' t_size_t,
    Member ''transferred'' t_size_t,
    Member ''start'' t_loff_t,
    Member ''__data'' (Array 0 c_char)]"

definition t_ino_t :: ctype where
  "t_ino_t = t___kernel_ulong_t"

definition enum_netfs_folio_trace :: ctype where
  "enum_netfs_folio_trace = Enum True [
    (''netfs_folio_is_uptodate'', 0), (''netfs_just_prefetch'', 1),
    (''netfs_whole_folio_modify'', 2), (''netfs_modify_and_clear'', 3),
    (''netfs_streaming_write'', 4), (''netfs_streaming_write_cont'', 5),
    (''netfs_flush_content'', 6), (''netfs_streaming_filled_page'', 7),
    (''netfs_streaming_cont_filled_page'', 8), (''netfs_folio_trace_abandon'', 9),
    (''netfs_folio_trace_alloc_buffer'', 10), (''netfs_folio_trace_cancel_copy'', 11),
    (''netfs_folio_trace_cancel_store'', 12), (''netfs_folio_trace_clear'', 13),
    (''netfs_folio_trace_clear_cc'', 14), (''netfs_folio_trace_clear_g'', 15),
    (''netfs_folio_trace_clear_s'', 16), (''netfs_folio_trace_copy_to_cache'', 17),
    (''netfs_folio_trace_end_copy'', 18), (''netfs_folio_trace_filled_gaps'', 19),
    (''netfs_folio_trace_kill'', 20), (''netfs_folio_trace_kill_cc'', 21),
    (''netfs_folio_trace_kill_g'', 22), (''netfs_folio_trace_kill_s'', 23),
    (''netfs_folio_trace_mkwrite'', 24), (''netfs_folio_trace_mkwrite_plus'', 25),
    (''netfs_folio_trace_not_under_wback'', 26), (''netfs_folio_trace_not_locked'', 27),
    (''netfs_folio_trace_put'', 28), (''netfs_folio_trace_read'', 29),
    (''netfs_folio_trace_read_done'', 30), (''netfs_folio_trace_read_gaps'', 31),
    (''netfs_folio_trace_read_unlock'', 32), (''netfs_folio_trace_redirtied'', 33),
    (''netfs_folio_trace_store'', 34), (''netfs_folio_trace_store_copy'', 35),
    (''netfs_folio_trace_store_plus'', 36), (''netfs_folio_trace_wthru'', 37),
    (''netfs_folio_trace_wthru_plus'', 38)]"

definition struct_trace_event_raw_netfs_folio :: ctype where
  "struct_trace_event_raw_netfs_folio = Comp Struct False [
    Member ''ent'' struct_trace_entry,
    Member ''ino'' t_ino_t,
    Member ''index'' c_unsigned_long,
    Member ''nr'' c_unsigned_int,
    Member ''why'' enum_netfs_folio_trace,
    Member ''__data'' (Array 0 c_char)]"

definition enum_netfs_folioq_trace :: ctype where
  "enum_netfs_folioq_trace = Enum True [
    (''netfs_trace_folioq_alloc_buffer'', 0), (''netfs_trace_folioq_clear'', 1),
    (''netfs_trace_folioq_delete'', 2), (''netfs_trace_folioq_make_space'', 3),
    (''netfs_trace_folioq_rollbuf_init'', 4), (''netfs_trace_folioq_read_progress'', 5)]"

definition struct_trace_event_raw_netfs_folioq :: ctype where
  "struct_trace_event_raw_netfs_folioq = Comp Struct False [
    Member ''ent'' struct_trace_entry,
    Member ''rreq'' c_unsigned_int,
    Member ''id'' c_unsigned_int,
    Member ''trace'' enum_netfs_folioq_trace,
    Member ''__data'' (Array 0 c_char)]"

definition enum_netfs_read_trace :: ctype where
  "enum_netfs_read_trace = Enum True [
    (''netfs_read_trace_dio_read'', 0), (''netfs_read_trace_expanded'', 1),
    (''netfs_read_trace_readahead'', 2), (''netfs_read_trace_readpage'', 3),
    (''netfs_read_trace_read_gaps'', 4), (''netfs_read_trace_read_single'', 5),
    (''netfs_read_trace_prefetch_for_write'', 6), (''netfs_read_trace_write_begin'', 7)]"

definition struct_trace_event_raw_netfs_read :: ctype where
  "struct_trace_event_raw_netfs_read = Comp Struct False [
    Member ''ent'' struct_trace_entry,
    Member ''rreq'' c_unsigned_int,
    Member ''cookie'' c_unsigned_int,
    Member ''i_size'' t_loff_t,
    Member ''start'' t_loff_t,
    Member ''len'' t_size_t,
    Member ''what'' enum_netfs_read_trace,
    Member ''netfs_inode'' c_unsigned_int,
    Member ''__data'' (Array 0 c_char)]"

definition enum_netfs_io_origin :: ctype where
  "enum_netfs_io_origin = Enum True [
    (''NETFS_READAHEAD'', 0), (''NETFS_READPAGE'', 1), (''NETFS_READ_GAPS'', 2),
    (''NETFS_READ_SINGLE'', 3), (''NETFS_READ_FOR_WRITE'', 4), (''NETFS_UNBUFFERED_READ'', 5),
    (''NETFS_DIO_READ'', 6), (''NETFS_WRITEBACK'', 7), (''NETFS_WRITEBACK_SINGLE'', 8),
    (''NETFS_WRITETHROUGH'', 9), (''NETFS_UNBUFFERED_WRITE'', 10), (''NETFS_DIO_WRITE'', 11),
    (''NETFS_PGPRIV2_COPY_TO_CACHE'', 12), (''nr__netfs_io_origin'', 13)]"

definition enum_netfs_rreq_trace :: ctype where
  "enum_netfs_rreq_trace = Enum True [
    (''netfs_rreq_trace_assess'', 0), (''netfs_rreq_trace_collect'', 1),
    (''netfs_rreq_trace_complete'', 2), (''netfs_rreq_trace_copy'', 3),
    (''netfs_rreq_trace_dirty'', 4), (''netfs_rreq_trace_done'', 5),
    (''netfs_rreq_trace_end_copy_to_cache'', 6), (''netfs_rreq_trace_free'', 7),
    (''netfs_rreq_trace_ki_complete'', 8), (''netfs_rreq_trace_recollect'', 9),
    (''netfs_rreq_trace_redirty'', 10), (''netfs_rreq_trace_resubmit'', 11),
    (''netfs_rreq_trace_set_abandon'', 12), (''netfs_rreq_trace_set_pause'', 13),
    (''netfs_rreq_trace_unlock'', 14), (''netfs_rreq_trace_unlock_pgpriv2'', 15),
    (''netfs_rreq_trace_unmark'', 16), (''netfs_rreq_trace_unpause'', 17),
    (''netfs_rreq_trace_wait_ip'', 18), (''netfs_rreq_trace_wait_pause'', 19),
    (''netfs_rreq_trace_wait_quiesce'', 20), (''netfs_rreq_trace_waited_ip'', 21),
    (''netfs_rreq_trace_waited_pause'', 22), (''netfs_rreq_trace_waited_quiesce'', 23),
    (''netfs_rreq_trace_wake_ip'', 24), (''netfs_rreq_trace_wake_queue'', 25),
    (''netfs_rreq_trace_write_done'', 26)]"

definition struct_trace_event_raw_netfs_rreq :: ctype where
  "struct_trace_event_raw_netfs_rreq = Comp Struct False [
    Member ''ent'' struct_trace_entry,
    Member ''rreq'' c_unsigned_int,
    Member ''flags'' c_unsigned_int,
    Member ''origin'' enum_netfs_io_origin,
    Member ''what'' enum_netfs_rreq_trace,
    Member ''__data'' (Array 0 c_char)]"

definition enum_netfs_rreq_ref_trace :: ctype where
  "enum_netfs_rreq_ref_trace = Enum True [
    (''netfs_rreq_trace_get_for_outstanding'', 0), (''netfs_rreq_trace_get_subreq'', 1),
    (''netfs_rreq_trace_put_complete'', 2), (''netfs_rreq_trace_put_discard'', 3),
    (''netfs_rreq_trace_put_failed'', 4), (''netfs_rreq_trace_put_no_submit'', 5),
    (''netfs_rreq_trace_put_return'', 6), (''netfs_rreq_trace_put_subreq'', 7),
    (''netfs_rreq_trace_put_work_ip'', 8), (''netfs_rreq_trace_see_work'', 9),
    (''netfs_rreq_trace_see_work_complete'', 10), (''netfs_rreq_trace_new'', 11)]"

definition struct_trace_event_raw_netfs_rreq_ref :: ctype where
  "struct_trace_event_raw_netfs_rreq_ref = Comp Struct False [
    Member ''ent'' struct_trace_entry,
    Member ''rreq'' c_unsigned_int,
    Member ''ref'' c_int,
    Member ''what'' enum_netfs_rreq_ref_trace,
    Member ''__data'' (Array 0 c_char)]"

definition enum_netfs_sreq_trace :: ctype where
  "enum_netfs_sreq_trace = Enum True [
    (''netfs_sreq_trace_abandoned'', 0), (''netfs_sreq_trace_add_donations'', 1),
    (''netfs_sreq_trace_added'', 2), (''netfs_sreq_trace_cache_nowrite'', 3),
    (''netfs_sreq_trace_cache_prepare'', 4), (''netfs_sreq_trace_cache_write'', 5),
    (''netfs_sreq_trace_cancel'', 6), (''netfs_sreq_trace_clear'', 7),
    (''netfs_sreq_trace_consumed'', 8), (''netfs_sreq_trace_discard'', 9),
    (''netfs_sreq_trace_donate_to_prev'', 10), (''netfs_sreq_trace_donate_to_next'', 11),
    (''netfs_sreq_trace_download_instead'', 12), (''netfs_sreq_trace_fail'', 13),
    (''netfs_sreq_trace_free'', 14), (''netfs_sreq_trace_hit_eof'', 15),
    (''netfs_sreq_trace_io_bad'', 16), (''netfs_sreq_trace_io_malformed'', 17),
    (''netfs_sreq_trace_io_unknown'', 18), (''netfs_sreq_trace_io_progress'', 19),
    (''netfs_sreq_trace_io_req_submitted'', 20), (''netfs_sreq_trace_io_retry_needed'', 21),
    (''netfs_sreq_trace_limited'', 22), (''netfs_sreq_trace_need_clear'', 23),
    (''netfs_sreq_trace_partial_read'', 24), (''netfs_sreq_trace_need_retry'', 25),
    (''netfs_sreq_trace_prepare'', 26), (''netfs_sreq_trace_prep_failed'', 27),
    (''netfs_sreq_trace_progress'', 28), (''netfs_sreq_trace_reprep_failed'', 29),
    (''netfs_sreq_trace_retry'', 30), (''netfs_sreq_trace_short'', 31),
    (''netfs_sreq_trace_split'', 32), (''netfs_sreq_trace_submit'', 33),
    (''netfs_sreq_trace_superfluous'', 34), (''netfs_sreq_trace_terminated'', 35),
    (''netfs_sreq_trace_wait_for'', 36), (''netfs_sreq_trace_write'', 37),
    (''netfs_sreq_trace_write_skip'', 38), (''netfs_sreq_trace_write_term'', 39)]"

definition struct_trace_event_raw_netfs_sreq :: ctype where
  "struct_trace_event_raw_netfs_sreq = Comp Struct False [
    Member ''ent'' struct_trace_entry,
    Member ''rreq'' c_unsigned_int,
    Member ''index'' c_unsigned_short,
    Member ''error'' c_short,
    Member ''flags'' c_unsigned_short,
    Member ''source'' enum_netfs_io_source,
    Member ''what'' enum_netfs_sreq_trace,
    Member ''slot'' t_u8,
    Member ''len'' t_size_t,
    Member ''transferred'' t_size_t,
    Member ''start'' t_loff_t,
    Member ''__data'' (Array 0 c_char)]"

definition enum_netfs_sreq_ref_trace :: ctype where
  "enum_netfs_sreq_ref_trace = Enum True [
    (''netfs_sreq_trace_get_copy_to_cache'', 0), (''netfs_sreq_trace_get_resubmit'', 1),
    (''netfs_sreq_trace_get_submit'', 2), (''netfs_sreq_trace_get_short_read'', 3),
    (''netfs_sreq_trace_new'', 4), (''netfs_sreq_trace_put_abandon'', 5),
    (''netfs_sreq_trace_put_cancel'', 6), (''netfs_sreq_trace_put_clear'', 7),
    (''netfs_sreq_trace_put_consumed'', 8), (''netfs_sreq_trace_put_done'', 9),
    (''netfs_sreq_trace_put_failed'', 10), (''netfs_sreq_trace_put_merged'', 11),
    (''netfs_sreq_trace_put_no_copy'', 12), (''netfs_sreq_trace_put_oom'', 13),
    (''netfs_sreq_trace_put_wip'', 14), (''netfs_sreq_trace_put_work'', 15),
    (''netfs_sreq_trace_put_terminated'', 16)]"

definition struct_trace_event_raw_netfs_sreq_ref :: ctype where
  "struct_trace_event_raw_netfs_sreq_ref = Comp Struct False [
    Member ''ent'' struct_trace_entry,
    Member ''rreq'' c_unsigned_int,
    Member ''subreq'' c_unsigned_int,
    Member ''ref'' c_int,
    Member ''what'' enum_netfs_sreq_ref_trace,
    Member ''__data'' (Array 0 c_char)]"

definition enum_netfs_write_trace :: ctype where
  "enum_netfs_write_trace = Enum True [
    (''netfs_write_trace_copy_to_cache'', 0), (''netfs_write_trace_dio_write'', 1),
    (''netfs_write_trace_unbuffered_write'', 2), (''netfs_write_trace_writeback'', 3),
    (''netfs_write_trace_writeback_single'', 4), (''netfs_write_trace_writethrough'', 5)]"

definition struct_trace_event_raw_netfs_write :: ctype where
  "struct_trace_event_raw_netfs_write = Comp Struct False [
    Member ''ent'' struct_trace_entry,
    Member ''wreq'' c_unsigned_int,
    Member ''cookie'' c_unsigned_int,
    Member ''ino'' c_unsigned_int,
    Member ''what'' enum_netfs_write_trace,
    Member ''start'' c_unsigned_long_long,
    Member ''len'' c_unsigned_long_long,
    Member ''__data'' (Array 0 c_char)]"

definition struct_trace_event_raw_netfs_write_iter :: ctype where
  "struct_trace_event_raw_netfs_write_iter = Comp Struct False [
    Member ''ent'' struct_trace_entry,
    Member ''start'' c_unsigned_long_long,
    Member ''len'' t_size_t,
    Member ''flags'' c_unsigned_int,
    Member ''ino'' c_unsigned_int,
    Member ''__data'' (Array 0 c_char)]"

definition struct_trace_event_raw_netlink_extack :: ctype where
  "struct_trace_event_raw_netlink_extack = Comp Struct False [
    Member ''ent'' struct_trace_entry,
    Member ''__data_loc_msg'' t_u32,
    Member ''__data'' (Array 0 c_char)]"

definition struct_trace_event_raw_notifier_info :: ctype where
  "struct_trace_event_raw_notifier_info = Comp Struct False [
    Member ''ent'' struct_trace_entry,
    Member ''cb'' (Ptr ''void *''),
    Member ''__data'' (Array 0 c_char)]"

definition struct_trace_event_raw_oom_score_adj_update :: ctype where
  "struct_trace_event_raw_oom_score_adj_update = Comp Struct False [
    Member ''ent'' struct_trace_entry,
    Member ''pid'' t_pid_t,
    Member ''comm'' (Array 16 c_char),
    Member ''oom_score_adj'' c_short,
    Member ''__data'' (Array 0 c_char)]"

definition struct_trace_event_raw_page_pool_release :: ctype where
  "struct_trace_event_raw_page_pool_release = Comp Struct False [
    Member ''ent'' struct_trace_entry,
    Member ''pool'' (Ptr ''struct page_pool *''),
    Member ''inflight'' t_s32,
    Member ''hold'' t_u32,
    Member ''release'' t_u32,
    Member ''cnt'' t_u64,
    Member ''__data'' (Array 0 c_char)]"

definition struct_trace_event_raw_page_pool_state_hold :: ctype where
  "struct_trace_event_raw_page_pool_state_hold = Comp Struct False [
    Member ''ent'' struct_trace_entry,
    Member ''pool'' (Ptr ''struct page_pool *''),
    Member ''netmem'' c_unsigned_long,
    Member ''hold'' t_u32,
    Member ''pfn'' c_unsigned_long,
    Member ''__data'' (Array 0 c_char)]"

definition struct_trace_event_raw_page_pool_state_release :: ctype where
  "struct_trace_event_raw_page_pool_state_release = Comp Struct False [
    Member ''ent'' struct_trace_entry,
    Member ''pool'' (Ptr ''struct page_pool *''),
    Member ''netmem'' c_unsigned_long,
    Member ''release'' t_u32,
    Member ''pfn'' c_unsigned_long,
    Member ''__data'' (Array 0 c_char)]"

definition struct_trace_event_raw_page_pool_update_nid :: ctype where
  "struct_trace_event_raw_page_pool_update_nid = Comp Struct False [
    Member ''ent'' struct_trace_entry,
    Member ''pool'' (Ptr ''struct page_pool *''),
    Member ''pool_nid'' c_int,
    Member ''new_nid'' c_int,
    Member ''__data'' (Array 0 c_char)]"

definition struct_trace_event_raw_percpu_alloc_percpu :: ctype where
  "struct_trace_event_raw_percpu_alloc_percpu = Comp Struct False [
    Member ''ent'' struct_trace_entry,
    Member ''call_site'' c_unsigned_long,
    Member ''reserved'' t_bool,
    Member ''is_atomic'' t_bool,
    Member ''size'' t_size_t,
    Member ''align'' t_size_t,
    Member ''base_addr'' (Ptr ''void *''),
    Member ''off'' c_int,
    Member ''ptr'' (Ptr ''void *''),
    Member ''bytes_alloc'' t_size_t,
    Member ''gfp_flags'' c_unsigned_long,
    Member ''__data'' (Array 0 c_char)]"

definition struct_trace_event_raw_percpu_alloc_percpu_fail :: ctype where
  "struct_trace_event_raw_percpu_alloc_percpu_fail = Comp Struct False [
    Member ''ent'' struct_trace_entry,
    Member ''reserved'' t_bool,
    Member ''is_atomic'' t_bool,
    Member ''size'' t_size_t,
    Member ''align'' t_size_t,
    Member ''__data'' (Array 0 c_char)]"

definition struct_trace_event_raw_percpu_create_chunk :: ctype where
  "struct_trace_event_raw_percpu_create_chunk = Comp Struct False [
    Member ''ent'' struct_trace_entry,
    Member ''base_addr'' (Ptr ''void *''),
    Member ''__data'' (Array 0 c_char)]"

definition struct_trace_event_raw_percpu_destroy_chunk :: ctype where
  "struct_trace_event_raw_percpu_destroy_chunk = Comp Struct False [
    Member ''ent'' struct_trace_entry,
    Member ''base_addr'' (Ptr ''void *''),
    Member ''__data'' (Array 0 c_char)]"

definition struct_trace_event_raw_percpu_free_percpu :: ctype where
  "struct_trace_event_raw_percpu_free_percpu = Comp Struct False [
    Member ''ent'' struct_trace_entry,
    Member ''base_addr'' (Ptr ''void *''),
    Member ''off'' c_int,
    Member ''ptr'' (Ptr ''void *''),
    Member ''__data'' (Array 0 c_char)]"

definition struct_trace_event_raw_qdisc_create :: ctype where
  "struct_trace_event_raw_qdisc_create = Comp Struct False [
    Member ''ent'' struct_trace_entry,
    Member ''__data_loc_dev'' t_u32,
    Member ''__data_loc_kind'' t_u32,
    Member ''parent'' t_u32,
    Member ''__data'' (Array 0 c_char)]"

definition struct_trace_event_raw_qdisc_dequeue :: ctype where
  "struct_trace_event_raw_qdisc_dequeue = Comp Struct False [
    Member ''ent'' struct_trace_entry,
    Member ''qdisc'' (Ptr ''struct Qdisc *''),
    Member ''txq'' (Ptr ''struct netdev_queue *''),
    Member ''packets'' c_int,
    Member ''skbaddr'' (Ptr ''void *''),
    Member ''ifindex'' c_int,
    Member ''handle'' t_u32,
    Member ''parent'' t_u32,
    Member ''txq_state'' c_unsigned_long,
    Member ''__data'' (Array 0 c_char)]"

definition struct_trace_event_raw_qdisc_destroy :: ctype where
  "struct_trace_event_raw_qdisc_destroy = Comp Struct False [
    Member ''ent'' struct_trace_entry,
    Member ''__data_loc_dev'' t_u32,
    Member ''__data_loc_kind'' t_u32,
    Member ''parent'' t_u32,
    Member ''handle'' t_u32,
    Member ''__data'' (Array 0 c_char)]"

definition struct_trace_event_raw_qdisc_enqueue :: ctype where
  "struct_trace_event_raw_qdisc_enqueue = Comp Struct False [
    Member ''ent'' struct_trace_entry,
    Member ''qdisc'' (Ptr ''struct Qdisc *''),
    Member ''txq'' (Ptr ''struct netdev_queue *''),
    Member ''skbaddr'' (Ptr ''void *''),
    Member ''ifindex'' c_int,
    Member ''handle'' t_u32,
    Member ''parent'' t_u32,
    Member ''__data'' (Array 0 c_char)]"

definition struct_trace_event_raw_qdisc_reset :: ctype where
  "struct_trace_event_raw_qdisc_reset = Comp Struct False [
    Member ''ent'' struct_trace_entry,
    Member ''__data_loc_dev'' t_u32,
    Member ''__data_loc_kind'' t_u32,
    Member ''parent'' t_u32,
    Member ''handle'' t_u32,
    Member ''__data'' (Array 0 c_char)]"

definition struct_trace_event_raw_rcu_stall_warning :: ctype where
  "struct_trace_event_raw_rcu_stall_warning = Comp Struct False [
    Member ''ent'' struct_trace_entry,
    Member ''rcuname'' (Ptr ''char *''),
    Member ''msg'' (Ptr ''char *''),
    Member ''__data'' (Array 0 c_char)]"

definition struct_trace_event_raw_rcu_utilization :: ctype where
  "struct_trace_event_raw_rcu_utilization = Comp Struct False [
    Member ''ent'' struct_trace_entry,
    Member ''s'' (Ptr ''char *''),
    Member ''__data'' (Array 0 c_char)]"

definition struct_trace_event_raw_sched_kthread_stop :: ctype where
  "struct_trace_event_raw_sched_kthread_stop = Comp Struct False [
    Member ''ent'' struct_trace_entry,
    Member ''__data_loc_comm'' t_u32,
    Member ''pid'' t_pid_t,
    Member ''__data'' (Array 0 c_char)]"

definition struct_trace_event_raw_sched_kthread_stop_ret :: ctype where
  "struct_trace_event_raw_sched_kthread_stop_ret = Comp Struct False [
    Member ''ent'' struct_trace_entry,
    Member ''ret'' c_int,
    Member ''__data'' (Array 0 c_char)]"

definition struct_trace_event_raw_sched_kthread_work_execute_end :: ctype where
  "struct_trace_event_raw_sched_kthread_work_execute_end = Comp Struct False [
    Member ''ent'' struct_trace_entry,
    Member ''work'' (Ptr ''void *''),
    Member ''function'' (Ptr ''void *''),
    Member ''__data'' (Array 0 c_char)]"

definition struct_trace_event_raw_sched_kthread_work_execute_start :: ctype where
  "struct_trace_event_raw_sched_kthread_work_execute_start = Comp Struct False [
    Member ''ent'' struct_trace_entry,
    Member ''work'' (Ptr ''void *''),
    Member ''function'' (Ptr ''void *''),
    Member ''__data'' (Array 0 c_char)]"

definition struct_trace_event_raw_sched_kthread_work_queue_work :: ctype where
  "struct_trace_event_raw_sched_kthread_work_queue_work = Comp Struct False [
    Member ''ent'' struct_trace_entry,
    Member ''work'' (Ptr ''void *''),
    Member ''function'' (Ptr ''void *''),
    Member ''worker'' (Ptr ''void *''),
    Member ''__data'' (Array 0 c_char)]"

definition struct_trace_event_raw_sched_migrate_task :: ctype where
  "struct_trace_event_raw_sched_migrate_task = Comp Struct False [
    Member ''ent'' struct_trace_entry,
    Member ''__data_loc_comm'' t_u32,
    Member ''pid'' t_pid_t,
    Member ''prio'' c_int,
    Member ''orig_cpu'' c_int,
    Member ''dest_cpu'' c_int,
    Member ''__data'' (Array 0 c_char)]"

definition struct_trace_event_raw_sched_pi_setprio :: ctype where
  "struct_trace_event_raw_sched_pi_setprio = Comp Struct False [
    Member ''ent'' struct_trace_entry,
    Member ''__data_loc_comm'' t_u32,
    Member ''pid'' t_pid_t,
    Member ''oldprio'' c_int,
    Member ''newprio'' c_int,
    Member ''__data'' (Array 0 c_char)]"

definition struct_trace_event_raw_sched_prepare_exec :: ctype where
  "struct_trace_event_raw_sched_prepare_exec = Comp Struct False [
    Member ''ent'' struct_trace_entry,
    Member ''__data_loc_interp'' t_u32,
    Member ''__data_loc_filename'' t_u32,
    Member ''pid'' t_pid_t,
    Member ''__data_loc_comm'' t_u32,
    Member ''__data'' (Array 0 c_char)]"

definition struct_trace_event_raw_sched_process_exec :: ctype where
  "struct_trace_event_raw_sched_process_exec = Comp Struct False [
    Member ''ent'' struct_trace_entry,
    Member ''__data_loc_filename'' t_u32,
    Member ''pid'' t_pid_t,
    Member ''old_pid'' t_pid_t,
    Member ''__data'' (Array 0 c_char)]"

definition struct_trace_event_raw_sched_process_exit :: ctype where
  "struct_trace_event_raw_sched_process_exit = Comp Struct False [
    Member ''ent'' struct_trace_entry,
    Member ''comm'' (Array 16 c_char),
    Member ''pid'' t_pid_t,
    Member ''prio'' c_int,
    Member ''group_dead'' t_bool,
    Member ''__data'' (Array 0 c_char)]"

definition struct_trace_event_raw_sched_process_fork :: ctype where
  "struct_trace_event_raw_sched_process_fork = Comp Struct False [
    Member ''ent'' struct_trace_entry,
    Member ''__data_loc_parent_comm'' t_u32,
    Member ''parent_pid'' t_pid_t,
    Member ''__data_loc_child_comm'' t_u32,
    Member ''child_pid'' t_pid_t,
    Member ''__data'' (Array 0 c_char)]"

definition struct_trace_event_raw_sched_process_template :: ctype where
  "struct_trace_event_raw_sched_process_template = Comp Struct False [
    Member ''ent'' struct_trace_entry,
    Member ''__data_loc_comm'' t_u32,
    Member ''pid'' t_pid_t,
    Member ''prio'' c_int,
    Member ''__data'' (Array 0 c_char)]"

definition struct_trace_event_raw_sched_process_wait :: ctype where
  "struct_trace_event_raw_sched_process_wait = Comp Struct False [
    Member ''ent'' struct_trace_entry,
    Member ''__data_loc_comm'' t_u32,
    Member ''pid'' t_pid_t,
    Member ''prio'' c_int,
    Member ''__data'' (Array 0 c_char)]"

definition struct_trace_event_raw_sched_stat_runtime :: ctype where
  "struct_trace_event_raw_sched_stat_runtime = Comp Struct False [
    Member ''ent'' struct_trace_entry,
    Member ''__data_loc_comm'' t_u32,
    Member ''pid'' t_pid_t,
    Member ''runtime'' t_u64,
    Member ''__data'' (Array 0 c_char)]"

definition struct_trace_event_raw_sched_switch :: ctype where
  "struct_trace_event_raw_sched_switch = Comp Struct False [
    Member ''ent'' struct_trace_entry,
    Member ''prev_comm'' (Array 16 c_char),
    Member ''prev_pid'' t_pid_t,
    Member ''prev_prio'' c_int,
    Member ''prev_state'' c_long,
    Member ''next_comm'' (Array 16 c_char),
    Member ''next_pid'' t_pid_t,
    Member ''next_prio'' c_int,
    Member ''__data'' (Array 0 c_char)]"

definition struct_trace_event_raw_sched_wake_idle_without_ipi :: ctype where
  "struct_trace_event_raw_sched_wake_idle_without_ipi = Comp Struct False [
    Member ''ent'' struct_trace_entry,
    Member ''cpu'' c_int,
    Member ''__data'' (Array 0 c_char)]"

definition struct_trace_event_raw_sched_wakeup_template :: ctype where
  "struct_trace_event_raw_sched_wakeup_template = Comp Struct False [
    Member ''ent'' struct_trace_entry,
    Member ''comm'' (Array 16 c_char),
    Member ''pid'' t_pid_t,
    Member ''prio'' c_int,
    Member ''target_cpu'' c_int,
    Member ''__data'' (Array 0 c_char)]"

definition struct_trace_event_raw_signal_deliver :: ctype where
  "struct_trace_event_raw_signal_deliver = Comp Struct False [
    Member ''ent'' struct_trace_entry,
    Member ''sig'' c_int,
    Member ''errno'' c_int,
    Member ''code'' c_int,
    Member ''sa_handler'' c_unsigned_long,
    Member ''sa_flags'' c_unsigned_long,
    Member ''__data'' (Array 0 c_char)]"

definition struct_trace_event_raw_signal_generate :: ctype where
  "struct_trace_event_raw_signal_generate = Comp Struct False [
    Member ''ent'' struct_trace_entry,
    Member ''sig'' c_int,
    Member ''errno'' c_int,
    Member ''code'' c_int,
    Member ''comm'' (Array 16 c_char),
    Member ''pid'' t_pid_t,
    Member ''group'' c_int,
    Member ''result'' c_int,
    Member ''__data'' (Array 0 c_char)]"

definition struct_trace_event_raw_skb_copy_datagram_iovec :: ctype where
  "struct_trace_event_raw_skb_copy_datagram_iovec = Comp Struct False [
    Member ''ent'' struct_trace_entry,
    Member ''skbaddr'' (Ptr ''void *''),
    Member ''len'' c_int,
    Member ''__data'' (Array 0 c_char)]"

definition struct_trace_event_raw_sock_exceed_buf_limit :: ctype where
  "struct_trace_event_raw_sock_exceed_buf_limit = Comp Struct False [
    Member ''ent'' struct_trace_entry,
    Member ''name'' (Array 32 c_char),
    Member ''sysctl_mem'' (Array 3 c_long),
    Member ''allocated'' c_long,
    Member ''sysctl_rmem'' c_int,
    Member ''rmem_alloc'' c_int,
    Member ''sysctl_wmem'' c_int,
    Member ''wmem_alloc'' c_int,
    Member ''wmem_queued'' c_int,
    Member ''kind'' c_int,
    Member ''__data'' (Array 0 c_char)]"

definition struct_trace_event_raw_sock_msg_length :: ctype where
  "struct_trace_event_raw_sock_msg_length = Comp Struct False [
    Member ''ent'' struct_trace_entry,
    Member ''sk'' (Ptr ''void *''),
    Member ''family'' t___u16,
    Member ''protocol'' t___u16,
    Member ''ret'' c_int,
    Member ''flags'' c_int,
    Member ''__data'' (Array 0 c_char)]"

definition struct_trace_event_raw_sock_rcvqueue_full :: ctype where
  "struct_trace_event_raw_sock_rcvqueue_full = Comp Struct False [
    Member ''ent'' struct_trace_entry,
    Member ''rmem_alloc'' c_int,
    Member ''truesize'' c_unsigned_int,
    Member ''sk_rcvbuf'' c_int,
    Member ''__data'' (Array 0 c_char)]"

definition struct_trace_event_raw_softirq :: ctype where
  "struct_trace_event_raw_softirq = Comp Struct False [
    Member ''ent'' struct_trace_entry,
    Member ''vec'' c_unsigned_int,
    Member ''__data'' (Array 0 c_char)]"

definition struct_trace_event_raw_sys_exit :: ctype where
  "struct_trace_event_raw_sys_exit = Comp Struct False [
    Member ''ent'' struct_trace_entry,
    Member ''id'' c_long,
    Member ''ret'' c_long,
    Member ''__data'' (Array 0 c_char)]"

definition struct_trace_event_raw_task_newtask :: ctype where
  "struct_trace_event_raw_task_newtask = Comp Struct False [
    Member ''ent'' struct_trace_entry,
    Member ''pid'' t_pid_t,
    Member ''comm'' (Array 16 c_char),
    Member ''clone_flags'' c_unsigned_long,
    Member ''oom_score_adj'' c_short,
    Member ''__data'' (Array 0 c_char)]"

definition struct_trace_event_raw_task_prctl_unknown :: ctype where
  "struct_trace_event_raw_task_prctl_unknown = Comp Struct False [
    Member ''ent'' struct_trace_entry,
    Member ''option'' c_int,
    Member ''arg2'' c_unsigned_long,
    Member ''arg3'' c_unsigned_long,
    Member ''arg4'' c_unsigned_long,
    Member ''arg5'' c_unsigned_long,
    Member ''__data'' (Array 0 c_char)]"

definition struct_trace_event_raw_task_rename :: ctype where
  "struct_trace_event_raw_task_rename = Comp Struct False [
    Member ''ent'' struct_trace_entry,
    Member ''oldcomm'' (Array 16 c_char),
    Member ''newcomm'' (Array 16 c_char),
    Member ''oom_score_adj'' c_short,
    Member ''__data'' (Array 0 c_char)]"

definition struct_trace_event_raw_tasklet :: ctype where
  "struct_trace_event_raw_tasklet = Comp Struct False [
    Member ''ent'' struct_trace_entry,
    Member ''tasklet'' (Ptr ''void *''),
    Member ''func'' (Ptr ''void *''),
    Member ''__data'' (Array 0 c_char)]"

definition struct_trace_event_raw_tcp_ao_event :: ctype where
  "struct_trace_event_raw_tcp_ao_event = Comp Struct False [
    Member ''ent'' struct_trace_entry,
    Member ''net_cookie'' t___u64,
    Member ''skbaddr'' (Ptr ''void *''),
    Member ''skaddr'' (Ptr ''void *''),
    Member ''state'' c_int,
    Member ''saddr'' (Array 28 t___u8),
    Member ''daddr'' (Array 28 t___u8),
    Member ''l3index'' c_int,
    Member ''sport'' t___u16,
    Member ''dport'' t___u16,
    Member ''family'' t___u16,
    Member ''fin'' t_bool,
    Member ''syn'' t_bool,
    Member ''rst'' t_bool,
    Member ''psh'' t_bool,
    Member ''ack'' t_bool,
    Member ''keyid'' t___u8,
    Member ''rnext'' t___u8,
    Member ''maclen'' t___u8,
    Member ''__data'' (Array 0 c_char)]"

definition struct_trace_event_raw_tcp_cong_state_set :: ctype where
  "struct_trace_event_raw_tcp_cong_state_set = Comp Struct False [
    Member ''ent'' struct_trace_entry,
    Member ''skaddr'' (Ptr ''void *''),
    Member ''sport'' t___u16,
    Member ''dport'' t___u16,
    Member ''family'' t___u16,
    Member ''saddr'' (Array 4 t___u8),
    Member ''daddr'' (Array 4 t___u8),
    Member ''saddr_v6'' (Array 16 t___u8),
    Member ''daddr_v6'' (Array 16 t___u8),
    Member ''cong_state'' t___u8,
    Member ''__data'' (Array 0 c_char)]"

definition struct_trace_event_raw_tcp_event_sk :: ctype where
  "struct_trace_event_raw_tcp_event_sk = Comp Struct False [
    Member ''ent'' struct_trace_entry,
    Member ''skaddr'' (Ptr ''void *''),
    Member ''sport'' t___u16,
    Member ''dport'' t___u16,
    Member ''family'' t___u16,
    Member ''saddr'' (Array 4 t___u8),
    Member ''daddr'' (Array 4 t___u8),
    Member ''saddr_v6'' (Array 16 t___u8),
    Member ''daddr_v6'' (Array 16 t___u8),
    Member ''sock_cookie'' t___u64,
    Member ''__data'' (Array 0 c_char)]"

definition struct_trace_event_raw_tcp_event_skb :: ctype where
  "struct_trace_event_raw_tcp_event_skb = Comp Struct False [
    Member ''ent'' struct_trace_entry,
    Member ''skbaddr'' (Ptr ''void *''),
    Member ''saddr'' (Array 28 t___u8),
    Member ''daddr'' (Array 28 t___u8),
    Member ''__data'' (Array 0 c_char)]"

definition struct_trace_event_raw_tcp_hash_event :: ctype where
  "struct_trace_event_raw_tcp_hash_event = Comp Struct False [
    Member ''ent'' struct_trace_entry,
    Member ''net_cookie'' t___u64,
    Member ''skbaddr'' (Ptr ''void *''),
    Member ''skaddr'' (Ptr ''void *''),
    Member ''state'' c_int,
    Member ''saddr'' (Array 28 t___u8),
    Member ''daddr'' (Array 28 t___u8),
    Member ''l3index'' c_int,
    Member ''sport'' t___u16,
    Member ''dport'' t___u16,
    Member ''family'' t___u16,
    Member ''fin'' t_bool,
    Member ''syn'' t_bool,
    Member ''rst'' t_bool,
    Member ''psh'' t_bool,
    Member ''ack'' t_bool,
    Member ''__data'' (Array 0 c_char)]"

definition struct_trace_event_raw_tcp_probe :: ctype where
  "struct_trace_event_raw_tcp_probe = Comp Struct False [
    Member ''ent'' struct_trace_entry,
    Member ''saddr'' (Array 28 t___u8),
    Member ''daddr'' (Array 28 t___u8),
    Member ''sport'' t___u16,
    Member ''dport'' t___u16,
    Member ''family'' t___u16,
    Member ''mark'' t___u32,
    Member ''data_len'' t___u16,
    Member ''snd_nxt'' t___u32,
    Member ''snd_una'' t___u32,
    Member ''snd_cwnd'' t___u32,
    Member ''ssthresh'' t___u32,
    Member ''snd_wnd'' t___u32,
    Member ''srtt'' t___u32,
    Member ''rcv_wnd'' t___u32,
    Member ''sock_cookie'' t___u64,
    Member ''skbaddr'' (Ptr ''void *''),
    Member ''skaddr'' (Ptr ''void *''),
    Member ''__data'' (Array 0 c_char)]"

definition struct_trace_event_raw_tcp_rcvbuf_grow :: ctype where
  "struct_trace_event_raw_tcp_rcvbuf_grow = Comp Struct False [
    Member ''ent'' struct_trace_entry,
    Member ''time'' c_int,
    Member ''rtt_us'' t___u32,
    Member ''copied'' t___u32,
    Member ''inq'' t___u32,
    Member ''space'' t___u32,
    Member ''ooo_space'' t___u32,
    Member ''rcvbuf'' t___u32,
    Member ''scaling_ratio'' t___u8,
    Member ''sport'' t___u16,
    Member ''dport'' t___u16,
    Member ''family'' t___u16,
    Member ''saddr'' (Array 4 t___u8),
    Member ''daddr'' (Array 4 t___u8),
    Member ''saddr_v6'' (Array 16 t___u8),
    Member ''daddr_v6'' (Array 16 t___u8),
    Member ''skaddr'' (Ptr ''void *''),
    Member ''sock_cookie'' t___u64,
    Member ''__data'' (Array 0 c_char)]"

definition struct_trace_event_raw_tcp_retransmit_skb :: ctype where
  "struct_trace_event_raw_tcp_retransmit_skb = Comp Struct False [
    Member ''ent'' struct_trace_entry,
    Member ''skbaddr'' (Ptr ''void *''),
    Member ''skaddr'' (Ptr ''void *''),
    Member ''state'' c_int,
    Member ''sport'' t___u16,
    Member ''dport'' t___u16,
    Member ''family'' t___u16,
    Member ''saddr'' (Array 4 t___u8),
    Member ''daddr'' (Array 4 t___u8),
    Member ''saddr_v6'' (Array 16 t___u8),
    Member ''daddr_v6'' (Array 16 t___u8),
    Member ''err'' c_int,
    Member ''__data'' (Array 0 c_char)]"

definition struct_trace_event_raw_tcp_retransmit_synack :: ctype where
  "struct_trace_event_raw_tcp_retransmit_synack = Comp Struct False [
    Member ''ent'' struct_trace_entry,
    Member ''skaddr'' (Ptr ''void *''),
    Member ''req'' (Ptr ''void *''),
    Member ''sport'' t___u16,
    Member ''dport'' t___u16,
    Member ''family'' t___u16,
    Member ''saddr'' (Array 4 t___u8),
    Member ''daddr'' (Array 4 t___u8),
    Member ''saddr_v6'' (Array 16 t___u8),
    Member ''daddr_v6'' (Array 16 t___u8),
    Member ''__data'' (Array 0 c_char)]"

definition enum_sk_rst_reason :: ctype where
  "enum_sk_rst_reason = Enum False [
    (''SK_RST_REASON_NOT_SPECIFIED'', 0), (''SK_RST_REASON_NO_SOCKET'', 1),
    (''SK_RST_REASON_TCP_INVALID_ACK_SEQUENCE'', 2), (''SK_RST_REASON_TCP_RFC7323_PAWS'', 3),
    (''SK_RST_REASON_TCP_TOO_OLD_ACK'', 4), (''SK_RST_REASON_TCP_ACK_UNSENT_DATA'', 5),
    (''SK_RST_REASON_TCP_FLAGS'', 6), (''SK_RST_REASON_TCP_OLD_ACK'', 7),
    (''SK_RST_REASON_TCP_ABORT_ON_DATA'', 8), (''SK_RST_REASON_TCP_TIMEWAIT_SOCKET'', 9),
    (''SK_RST_REASON_INVALID_SYN'', 10), (''SK_RST_REASON_TCP_ABORT_ON_CLOSE'', 11),
    (''SK_RST_REASON_TCP_ABORT_ON_LINGER'', 12), (''SK_RST_REASON_TCP_ABORT_ON_MEMORY'', 13),
    (''SK_RST_REASON_TCP_STATE'', 14), (''SK_RST_REASON_TCP_KEEPALIVE_TIMEOUT'', 15),
    (''SK_RST_REASON_TCP_DISCONNECT_WITH_DATA'', 16), (''SK_RST_REASON_MPTCP_RST_EUNSPEC'', 17),
    (''SK_RST_REASON_MPTCP_RST_EMPTCP'', 18), (''SK_RST_REASON_MPTCP_RST_ERESOURCE'', 19),
    (''SK_RST_REASON_MPTCP_RST_EPROHIBIT'', 20), (''SK_RST_REASON_MPTCP_RST_EWQ2BIG'', 21),
    (''SK_RST_REASON_MPTCP_RST_EBADPERF'', 22), (''SK_RST_REASON_MPTCP_RST_EMIDDLEBOX'', 23),
    (''SK_RST_REASON_ERROR'', 24), (''SK_RST_REASON_MAX'', 25)]"

definition struct_trace_event_raw_tcp_send_reset :: ctype where
  "struct_trace_event_raw_tcp_send_reset = Comp Struct False [
    Member ''ent'' struct_trace_entry,
    Member ''skbaddr'' (Ptr ''void *''),
    Member ''skaddr'' (Ptr ''void *''),
    Member ''state'' c_int,
    Member ''reason'' enum_sk_rst_reason,
    Member ''saddr'' (Array 28 t___u8),
    Member ''daddr'' (Array 28 t___u8),
    Member ''__data'' (Array 0 c_char)]"

definition struct_trace_event_raw_tcp_sendmsg_locked :: ctype where
  "struct_trace_event_raw_tcp_sendmsg_locked = Comp Struct False [
    Member ''ent'' struct_trace_entry,
    Member ''skb_addr'' (Ptr ''void *''),
    Member ''skb_len'' c_int,
    Member ''msg_left'' c_int,
    Member ''size_goal'' c_int,
    Member ''__data'' (Array 0 c_char)]"

definition struct_trace_event_raw_tick_stop :: ctype where
  "struct_trace_event_raw_tick_stop = Comp Struct False [
    Member ''ent'' struct_trace_entry,
    Member ''success'' c_int,
    Member ''dependency'' c_int,
    Member ''__data'' (Array 0 c_char)]"

definition struct_trace_event_raw_timer_base_idle :: ctype where
  "struct_trace_event_raw_timer_base_idle = Comp Struct False [
    Member ''ent'' struct_trace_entry,
    Member ''is_idle'' t_bool,
    Member ''cpu'' c_unsigned_int,
    Member ''__data'' (Array 0 c_char)]"

definition struct_trace_event_raw_timer_class :: ctype where
  "struct_trace_event_raw_timer_class = Comp Struct False [
    Member ''ent'' struct_trace_entry,
    Member ''timer'' (Ptr ''void *''),
    Member ''__data'' (Array 0 c_char)]"

definition struct_trace_event_raw_timer_expire_entry :: ctype where
  "struct_trace_event_raw_timer_expire_entry = Comp Struct False [
    Member ''ent'' struct_trace_entry,
    Member ''timer'' (Ptr ''void *''),
    Member ''now'' c_unsigned_long,
    Member ''function'' (Ptr ''void *''),
    Member ''baseclk'' c_unsigned_long,
    Member ''__data'' (Array 0 c_char)]"

definition struct_trace_event_raw_timer_start :: ctype where
  "struct_trace_event_raw_timer_start = Comp Struct False [
    Member ''ent'' struct_trace_entry,
    Member ''timer'' (Ptr ''void *''),
    Member ''function'' (Ptr ''void *''),
    Member ''expires'' c_unsigned_long,
    Member ''bucket_expiry'' c_unsigned_long,
    Member ''now'' c_unsigned_long,
    Member ''flags'' c_unsigned_int,
    Member ''__data'' (Array 0 c_char)]"

definition struct_trace_event_raw_tlb_flush :: ctype where
  "struct_trace_event_raw_tlb_flush = Comp Struct False [
    Member ''ent'' struct_trace_entry,
    Member ''reason'' c_int,
    Member ''pages'' c_unsigned_long,
    Member ''__data'' (Array 0 c_char)]"

definition struct_trace_event_raw_udp_fail_queue_rcv_skb :: ctype where
  "struct_trace_event_raw_udp_fail_queue_rcv_skb = Comp Struct False [
    Member ''ent'' struct_trace_entry,
    Member ''rc'' c_int,
    Member ''sport'' t___u16,
    Member ''dport'' t___u16,
    Member ''family'' t___u16,
    Member ''saddr'' (Array 28 t___u8),
    Member ''daddr'' (Array 28 t___u8),
    Member ''__data'' (Array 0 c_char)]"

definition struct_trace_event_raw_vm_unmapped_area :: ctype where
  "struct_trace_event_raw_vm_unmapped_area = Comp Struct False [
    Member ''ent'' struct_trace_entry,
    Member ''addr'' c_unsigned_long,
    Member ''total_vm'' c_unsigned_long,
    Member ''flags'' c_unsigned_long,
    Member ''length'' c_unsigned_long,
    Member ''low_limit'' c_unsigned_long,
    Member ''high_limit'' c_unsigned_long,
    Member ''align_mask'' c_unsigned_long,
    Member ''align_offset'' c_unsigned_long,
    Member ''__data'' (Array 0 c_char)]"

definition struct_trace_event_raw_workqueue_activate_work :: ctype where
  "struct_trace_event_raw_workqueue_activate_work = Comp Struct False [
    Member ''ent'' struct_trace_entry,
    Member ''work'' (Ptr ''void *''),
    Member ''function'' (Ptr ''void *''),
    Member ''__data'' (Array 0 c_char)]"

definition struct_trace_event_raw_workqueue_execute_end :: ctype where
  "struct_trace_event_raw_workqueue_execute_end = Comp Struct False [
    Member ''ent'' struct_trace_entry,
    Member ''work'' (Ptr ''void *''),
    Member ''function'' (Ptr ''void *''),
    Member ''__data'' (Array 0 c_char)]"

definition struct_trace_event_raw_workqueue_execute_start :: ctype where
  "struct_trace_event_raw_workqueue_execute_start = Comp Struct False [
    Member ''ent'' struct_trace_entry,
    Member ''work'' (Ptr ''void *''),
    Member ''function'' (Ptr ''void *''),
    Member ''__data'' (Array 0 c_char)]"

definition struct_trace_event_raw_workqueue_queue_work :: ctype where
  "struct_trace_event_raw_workqueue_queue_work = Comp Struct False [
    Member ''ent'' struct_trace_entry,
    Member ''work'' (Ptr ''void *''),
    Member ''function'' (Ptr ''void *''),
    Member ''__data_loc_workqueue'' t_u32,
    Member ''req_cpu'' c_int,
    Member ''cpu'' c_int,
    Member ''__data'' (Array 0 c_char)]"

definition struct_trace_event_raw_xdp_bulk_tx :: ctype where
  "struct_trace_event_raw_xdp_bulk_tx = Comp Struct False [
    Member ''ent'' struct_trace_entry,
    Member ''ifindex'' c_int,
    Member ''act'' t_u32,
    Member ''drops'' c_int,
    Member ''sent'' c_int,
    Member ''err'' c_int,
    Member ''__data'' (Array 0 c_char)]"

definition struct_trace_event_raw_xdp_cpumap_enqueue :: ctype where
  "struct_trace_event_raw_xdp_cpumap_enqueue = Comp Struct False [
    Member ''ent'' struct_trace_entry,
    Member ''map_id'' c_int,
    Member ''act'' t_u32,
    Member ''cpu'' c_int,
    Member ''drops'' c_unsigned_int,
    Member ''processed'' c_unsigned_int,
    Member ''to_cpu'' c_int,
    Member ''__data'' (Array 0 c_char)]"

definition struct_trace_event_raw_xdp_cpumap_kthread :: ctype where
  "struct_trace_event_raw_xdp_cpumap_kthread = Comp Struct False [
    Member ''ent'' struct_trace_entry,
    Member ''map_id'' c_int,
    Member ''act'' t_u32,
    Member ''cpu'' c_int,
    Member ''drops'' c_unsigned_int,
    Member ''processed'' c_unsigned_int,
    Member ''sched'' c_int,
    Member ''xdp_pass'' c_unsigned_int,
    Member ''xdp_drop'' c_unsigned_int,
    Member ''xdp_redirect'' c_unsigned_int,
    Member ''__data'' (Array 0 c_char)]"

definition struct_trace_event_raw_xdp_devmap_xmit :: ctype where
  "struct_trace_event_raw_xdp_devmap_xmit = Comp Struct False [
    Member ''ent'' struct_trace_entry,
    Member ''from_ifindex'' c_int,
    Member ''act'' t_u32,
    Member ''to_ifindex'' c_int,
    Member ''drops'' c_int,
    Member ''sent'' c_int,
    Member ''err'' c_int,
    Member ''__data'' (Array 0 c_char)]"

definition struct_trace_event_raw_xdp_exception :: ctype where
  "struct_trace_event_raw_xdp_exception = Comp Struct False [
    Member ''ent'' struct_trace_entry,
    Member ''prog_id'' c_int,
    Member ''act'' t_u32,
    Member ''ifindex'' c_int,
    Member ''__data'' (Array 0 c_char)]"

definition struct_trace_event_raw_xdp_redirect_template :: ctype where
  "struct_trace_event_raw_xdp_redirect_template = Comp Struct False [
    Member ''ent'' struct_trace_entry,
    Member ''prog_id'' c_int,
    Member ''act'' t_u32,
    Member ''ifindex'' c_int,
    Member ''err'' c_int,
    Member ''to_ifindex'' c_int,
    Member ''map_id'' t_u32,
    Member ''map_index'' c_int,
    Member ''__data'' (Array 0 c_char)]"

end
