(* ===== verification/Vmlinux_More_Types.thy ===== *)
theory Vmlinux_More_Types
  imports Vmlinux_Types Vmlinux_Trace
begin

text \<open>
  The structures and unions of the bpf subsystem and of the contexts of tracepoints
  as lists, and that the layout of each is well formed.
\<close>

text \<open>What the declarations of \<open>Vmlinux_Bpf_More\<close> contain from earlier theories.\<close>

lemmas bpf_contents =
  struct_rb_root_def struct_rb_root_cached_def enum_bpf_map_type_def t___u32_def t_u32_def
  t___u64_def t_u64_def t___s64_def t_s64_def t_atomic64_t_def t_atomic_long_t_def
  t_atomic_t_def t___u8_def t_u8_def t___u16_def t_u16_def struct_qspinlock_def
  t_arch_spinlock_t_def struct_raw_spinlock_def t_raw_spinlock_t_def
  struct_optimistic_spin_queue_def struct_list_head_def struct_mutex_def t_work_func_t_def
  struct_work_struct_def struct_callback_head_def struct_spinlock_def t_spinlock_t_def
  t_bool_def struct_bpf_map_def struct_bpf_run_ctx_def enum_bpf_link_type_def
  enum_bpf_attach_type_def struct_bpf_link_def struct_rb_node_def struct_rcu_work_def
  struct_cpumask_def t_cpumask_t_def struct_refcount_struct_def t_refcount_t_def t___s32_def
  t_s32_def enum_bpf_reg_type_def t___be16_def struct_user_pt_regs_def t___kernel_ulong_t_def
  t___kernel_size_t_def t_size_t_def t___be32_def struct___sk_buff_def struct_llist_node_def
  t_ktime_t_def t___wsum_def t_sk_buff_data_t_def struct_sk_buff_def struct_xdp_md_def
  struct_xdp_buff_def t___addrpair_def t___portpair_def struct_hlist_node_def
  t_possible_net_t_def struct_in6_addr_def struct_hlist_nulls_node_def struct_sock_common_def
  struct_sk_buff_list_def struct_sk_buff_head_def struct_wait_queue_head_def
  t_wait_queue_head_t_def t_socket_lock_t_def struct_page_frag_def struct_timer_list_def
  t_netdev_features_t_def t_gfp_t_def struct_qrwlock_def t_arch_rwlock_t_def t_rwlock_t_def
  t___kernel_uid32_t_def t_uid_t_def t_kuid_t_def struct_sock_cgroup_data_def
  t_netns_tracker_def struct_xarray_def struct_sock_def struct_bpf_sock_ops_def
  struct_frame_record_def struct_frame_record_meta_def struct_pt_regs_def
  struct_latch_tree_node_def struct_bpf_ksym_def enum_bpf_arg_type_def enum_bpf_dynptr_type_def
  enum_bpf_iter_state_def struct_tnum_def enum_bpf_reg_liveness_def struct_bpf_reg_state_def
  struct_timerqueue_node_def struct_hrtimer_def struct_percpu_counter_def struct_hlist_head_def
  enum_bpf_prog_type_def struct_llist_head_def t_local_t_def struct___call_single_node_def
  struct_rcuwait_def struct_irq_work_def t___kernel_gid32_t_def t_gid_t_def t_kgid_t_def
  t_umode_t_def struct_rhash_head_def struct_sock_filter_def t___s16_def struct_bpf_insn_def
  struct_bpf_prog_def t_local64_t_def t_u64_stats_t_def struct_u64_stats_sync_def
  t_rqspinlock_t_def struct_bpf_scc_callchain_def struct_bpf_tramp_link_def struct_Qdisc_ops_def
  t___kernel_loff_t_def t_loff_t_def struct_percpu_ref_def struct_path_def

lemmas bpf_typedefs =
  enum_bpf_cgroup_iter_order_def enum_bpf_core_relo_kind_def enum_bpf_iter_task_type_def
  enum_bpf_return_type_def enum_bpf_struct_ops_state_def t_bpf_user_pt_regs_t_def
  t_dma_addr_t_def t_del_from_htab_func_def t_bpf_insn_print_t_def t_bpf_insn_revmap_call_t_def
  t_bpf_insn_print_imm_t_def t_bpf_iter_attach_target_t_def t_bpf_iter_detach_target_t_def
  t_bpf_iter_show_fdinfo_t_def t_bpf_iter_fill_link_info_t_def t_bpf_iter_get_func_proto_t_def
  t_bpf_iter_init_seq_priv_t_def t_bpf_iter_fini_seq_priv_t_def enum_maple_status_def
  enum_store_type_def t_fprobe_entry_cb_def t_fprobe_exit_cb_def enum_netns_bpf_attach_type_def
  enum_nf_hook_ops_type_def enum_ref_state_type_def enum_tcp_seq_states_def t_xfrm_address_t_def

lemmas bpf_comps =
  struct_range_tree_def struct_bpf_arena_def struct_bpf_array_aux_def struct_bpf_async_cb_def
  struct_bpf_spin_lock_def struct_bpf_async_kern_def struct_btf_func_model_def
  struct_bpf_attach_target_info_def struct_bpf_binary_header_def struct_bpf_bloom_filter_def
  struct_bpf_bprintf_buffers_def struct_bpf_bprintf_data_def struct_bpf_btf_info_def
  struct_bpf_call_arg_meta_def struct_bpf_cand_cache_def struct_bpf_cg_run_ctx_def
  struct_bpf_cgroup_dev_ctx_def struct_bpf_cgroup_link_def struct_bpf_cgroup_storage_key_def
  struct_bpf_cgroup_storage_def struct_bpf_cgroup_storage_map_def struct_bpf_lru_list_def
  struct_bpf_common_lru_def struct_bpf_core_accessor_def struct_bpf_core_cand_def
  struct_bpf_core_cand_list_def struct_bpf_core_ctx_def struct_bpf_core_relo_def
  struct_bpf_core_relo_res_def struct_bpf_core_spec_def struct_bpf_cpu_map_def
  struct_bpf_cpumap_val_def struct_gro_list_def struct_gro_node_def struct_swait_queue_head_def
  struct_completion_def struct_bpf_cpu_map_entry_def struct_bpf_cpumask_def
  struct_bpf_crypto_ctx_def struct_bpf_crypto_params_def struct_bpf_crypto_type_def
  struct_bpf_crypto_type_list_def struct_bpf_ct_opts_def struct_bpf_ctx_arg_aux_def
  struct_bpf_sock_def struct_bpf_sock_addr_def struct_bpf_sock_addr_kern_def
  struct_bpf_sock_ops_kern_def struct_bpf_flow_dissector_def struct_bpf_perf_event_data_def
  struct_bpf_perf_event_data_kern_def struct_bpf_raw_tracepoint_args_def struct_bpf_sysctl_def
  struct_bpf_sysctl_kern_def struct_bpf_sockopt_def struct_bpf_sockopt_kern_def
  struct_bpf_sk_lookup_def struct_bpf_sk_lookup_kern_def struct_bpf_nf_ctx_def
  struct_sk_msg_md_def struct_scatterlist_def struct_sk_msg_sg_def struct_sk_msg_def
  struct_sk_reuseport_md_def struct_sk_reuseport_kern_def struct_bpf_ctx_convert_def
  struct_bpf_devmap_val_def struct_bpf_dispatcher_prog_def struct_bpf_dispatcher_def
  struct_bpf_dtab_def struct_bpf_dtab_netdev_def struct_bpf_dummy_ops_def
  struct_bpf_dummy_ops_state_def struct_bpf_dummy_ops_test_args_def struct_bpf_dynptr_def
  struct_bpf_dynptr_kern_def struct_bpf_prog_array_item_def struct_bpf_prog_array_def
  struct_bpf_empty_prog_array_def struct_bpf_event_entry_def struct_bpf_fentry_test_t_def
  struct_bpf_fib_lookup_def struct_bpf_flow_keys_def struct_bpf_flowtable_opts_def
  struct_bpf_fou_encap_def struct_bpf_func_info_def struct_bpf_func_info_aux_def
  struct_bpf_func_proto_def struct_bpf_retval_range_def struct_bpf_func_state_def
  struct_bpf_hrtimer_def struct_bpf_mem_alloc_def struct_bpf_lru_def struct_pcpu_freelist_def
  struct_bpf_htab_def struct_bpf_insn_access_aux_def struct_bpf_map_ptr_state_def
  struct_bpf_loop_inline_state_def struct_bpf_insn_aux_data_def struct_bpf_insn_cbs_def
  struct_bpf_iter__bpf_link_def struct_bpf_iter__bpf_map_def struct_bpf_iter__bpf_map_elem_def
  struct_bpf_iter__bpf_prog_def struct_bpf_iter__bpf_sk_storage_map_def
  struct_bpf_iter__cgroup_def struct_bpf_iter__dmabuf_def struct_bpf_iter__ipv6_route_def
  struct_bpf_iter__kmem_cache_def struct_bpf_iter__ksym_def struct_bpf_iter__netlink_def
  struct_bpf_iter__sockmap_def struct_bpf_iter__task_def struct_bpf_iter__task__safe_trusted_def
  struct_bpf_iter__task_file_def struct_bpf_iter__task_vma_def struct_bpf_iter__tcp_def
  struct_bpf_iter__udp_def struct_bpf_iter__unix_def struct_bpf_iter_aux_info_def
  struct_bpf_iter_bits_def struct_bpf_iter_bits_kern_def struct_bpf_iter_css_def
  struct_bpf_iter_css_kern_def struct_bpf_iter_css_task_def struct_bpf_iter_css_task_kern_def
  struct_bpf_iter_dmabuf_def struct_bpf_iter_dmabuf_kern_def struct_bpf_iter_kmem_cache_def
  struct_bpf_iter_kmem_cache_kern_def struct_bpf_iter_link_def union_bpf_iter_link_info_def
  struct_bpf_iter_meta_def struct_bpf_iter_meta__safe_trusted_def struct_bpf_iter_num_def
  struct_bpf_iter_num_kern_def struct_bpf_iter_priv_data_def struct_bpf_iter_reg_def
  struct_bpf_iter_seq_array_map_info_def struct_bpf_iter_seq_hash_map_info_def
  struct_bpf_iter_seq_info_def struct_bpf_iter_seq_link_info_def
  struct_bpf_iter_seq_map_info_def struct_bpf_iter_seq_prog_info_def
  struct_bpf_iter_seq_sk_storage_map_info_def struct_bpf_iter_seq_task_common_def
  struct_bpf_iter_seq_task_file_info_def struct_bpf_iter_seq_task_info_def
  struct_bpf_iter_seq_task_vma_info_def struct_bpf_iter_target_info_def struct_bpf_iter_task_def
  struct_bpf_iter_task_kern_def struct_bpf_iter_task_vma_def struct_bpf_iter_task_vma_kern_def
  struct_ma_state_def struct_vma_iterator_def struct_bpf_iter_task_vma_kern_data_def
  struct_bpf_jit_poke_descriptor_def struct_bpf_jmp_history_entry_def struct_bpf_key_def
  struct_bpf_kfunc_btf_def struct_bpf_kfunc_btf_tab_def struct_bpf_kfunc_call_arg_meta_def
  struct_bpf_kfunc_desc_def struct_bpf_kfunc_desc_tab_def struct_fprobe_def
  struct_bpf_kprobe_multi_link_def struct_bpf_session_run_ctx_def
  struct_bpf_kprobe_multi_run_ctx_def struct_bpf_line_info_def struct_bpf_link_ops_def
  struct_bpf_link_primer_def struct_bpf_list_head_def struct_bpf_list_node_def
  struct_bpf_list_node_kern_def struct_bpf_local_storage_def struct_bpf_local_storage_cache_def
  struct_bpf_local_storage_data_def struct_bpf_local_storage_elem_def
  struct_bpf_local_storage_map_def struct_bpf_local_storage_map_bucket_def
  struct_bpf_lpm_trie_key_hdr_def struct_bpf_lpm_trie_key_u8_def struct_bpf_lru_locallist_def
  struct_bpf_lru_node_def struct_bpf_lwt_prog_def struct_bpf_lwt_def struct_bpf_map_dev_ops_def
  struct_bpf_map_owner_def struct_bpf_mem_cache_def struct_bpf_mem_caches_def
  struct_bpf_mount_opts_def struct_bpf_nested_pt_regs_def struct_bpf_nh_params_def
  struct_bpf_redirect_info_def struct_bpf_net_context_def struct_bpf_netns_link_def
  struct_nf_hook_ops_def struct_bpf_nf_link_def struct_bpf_offload_dev_def
  struct_bpf_offload_netdev_def struct_bpf_offloaded_map_def struct_bpf_perf_event_value_def
  struct_bpf_pidns_info_def struct_bpf_plt_def struct_bpf_preload_info_def
  struct_bpf_preload_ops_def struct_bpf_prog_dummy_def struct_bpf_prog_kstats_def
  struct_bpf_prog_list_def struct_bpf_prog_offload_def struct_bpf_prog_offload_ops_def
  struct_bpf_prog_ops_def struct_bpf_prog_pack_def struct_bpf_prog_stats_def
  struct_bpf_queue_stack_def struct_bpf_raw_event_map_def struct_bpf_raw_tp_link_def
  struct_bpf_raw_tp_null_args_def struct_bpf_raw_tp_regs_def struct_bpf_raw_tp_test_run_info_def
  struct_bpf_rb_node_def struct_bpf_rb_node_kern_def struct_bpf_rb_root_def
  struct_bpf_redir_neigh_def struct_bpf_refcount_def struct_bpf_reference_state_def
  struct_bpf_reg_types_def struct_bpf_res_spin_lock_def struct_bpf_ringbuf_hdr_def
  struct_bpf_sanitize_info_def struct_bpf_verifier_state_def struct_bpf_scc_backedge_def
  struct_bpf_scc_visit_def struct_bpf_scc_info_def struct_qdisc_watchdog_def
  struct_bpf_sched_data_def struct_bpf_shim_tramp_link_def struct_sk_psock_progs_def
  struct_bpf_shtab_def struct_bpf_shtab_bucket_def struct_bpf_shtab_elem_def
  struct_bpf_sk_buff_ptr_def struct_bpf_sk_storage_diag_def struct_qdisc_skb_cb_def
  struct_bpf_skb_data_end_def struct_bpf_sock_tuple_def struct_bpf_sockopt_buf_def
  struct_bpf_stab_def struct_bpf_stack_build_id_def struct_bpf_stack_map_def
  struct_bpf_stack_state_def struct_bpf_storage_blob_def struct_bpf_storage_buffer_def
  struct_bpf_stream_elem_def struct_bpf_stream_page_def struct_bpf_stream_stage_def
  struct_bpf_struct_ops_def struct_bpf_struct_ops_common_value_def
  struct_bpf_struct_ops_Qdisc_ops_def struct_bpf_struct_ops_arg_info_def
  struct_bpf_struct_ops_bpf_dummy_ops_def struct_bpf_struct_ops_desc_def
  struct_bpf_struct_ops_link_def struct_bpf_struct_ops_value_def struct_bpf_struct_ops_map_def
  struct_tcp_congestion_ops_def struct_bpf_struct_ops_tcp_congestion_ops_def
  union_bpf_tcp_iter_batch_item_def struct_seq_net_private_def struct_tcp_iter_state_def
  struct_bpf_tcp_iter_state_def struct_bpf_tcp_req_attrs_def struct_bpf_tcp_sock_def
  struct_bpf_test_timer_def struct_bpf_throw_ctx_def struct_bpf_timed_may_goto_def
  struct_bpf_timer_def struct_bpf_token_def struct_bpf_token_info_def
  struct_bpf_trace_module_def union_perf_sample_weight_def union_perf_mem_data_src_def
  struct_perf_regs_def struct_perf_sample_data_def struct_bpf_trace_sample_data_def
  struct_bpf_tramp_image_def struct_bpf_tramp_links_def struct_bpf_tramp_run_ctx_def
  struct_bpf_trampoline_def struct_bpf_tunnel_key_def struct_bpf_tuple_def
  union_bpf_udp_iter_batch_item_def struct_udp_iter_state_def struct_bpf_udp_iter_state_def
  struct_bpf_unix_iter_state_def struct_bpf_unwind_consume_entry_data_def
  struct_uprobe_consumer_def struct_bpf_uprobe_def struct_bpf_uprobe_multi_link_def
  struct_bpf_uprobe_multi_run_ctx_def struct_bpf_verifier_ops_def
  struct_bpf_verifier_stack_elem_def struct_bpf_verifier_state_list_def struct_bpf_work_def
  struct_bpf_wq_def struct_bpf_xfrm_state_def struct_bpf_xfrm_state_opts_def

lemmas bpf_layouts = bpf_comps bpf_typedefs bpf_contents layout_eval

definition bpf_types_1 :: "ctype list" where
  "bpf_types_1 = [
    struct_range_tree, struct_bpf_arena, struct_bpf_array_aux, struct_bpf_async_cb,
    struct_bpf_spin_lock, struct_bpf_async_kern, struct_btf_func_model,
    struct_bpf_attach_target_info, struct_bpf_binary_header, struct_bpf_bloom_filter,
    struct_bpf_bprintf_buffers, struct_bpf_bprintf_data, struct_bpf_btf_info,
    struct_bpf_call_arg_meta, struct_bpf_cand_cache, struct_bpf_cg_run_ctx,
    struct_bpf_cgroup_dev_ctx, struct_bpf_cgroup_link, struct_bpf_cgroup_storage_key,
    struct_bpf_cgroup_storage, struct_bpf_cgroup_storage_map, struct_bpf_lru_list,
    struct_bpf_common_lru, struct_bpf_core_accessor, struct_bpf_core_cand,
    struct_bpf_core_cand_list, struct_bpf_core_ctx, struct_bpf_core_relo,
    struct_bpf_core_relo_res, struct_bpf_core_spec, struct_bpf_cpu_map, struct_bpf_cpumap_val,
    struct_gro_list, struct_gro_node, struct_swait_queue_head, struct_completion,
    struct_bpf_cpu_map_entry, struct_bpf_cpumask, struct_bpf_crypto_ctx,
    struct_bpf_crypto_params, struct_bpf_crypto_type, struct_bpf_crypto_type_list,
    struct_bpf_ct_opts, struct_bpf_ctx_arg_aux, struct_bpf_sock, struct_bpf_sock_addr,
    struct_bpf_sock_addr_kern, struct_bpf_sock_ops_kern, struct_bpf_flow_dissector,
    struct_bpf_perf_event_data, struct_bpf_perf_event_data_kern, struct_bpf_raw_tracepoint_args,
    struct_bpf_sysctl, struct_bpf_sysctl_kern, struct_bpf_sockopt, struct_bpf_sockopt_kern,
    struct_bpf_sk_lookup, struct_bpf_sk_lookup_kern, struct_bpf_nf_ctx, struct_sk_msg_md,
    struct_scatterlist, struct_sk_msg_sg, struct_sk_msg, struct_sk_reuseport_md,
    struct_sk_reuseport_kern, struct_bpf_ctx_convert, struct_bpf_devmap_val,
    struct_bpf_dispatcher_prog, struct_bpf_dispatcher, struct_bpf_dtab, struct_bpf_dtab_netdev,
    struct_bpf_dummy_ops, struct_bpf_dummy_ops_state, struct_bpf_dummy_ops_test_args,
    struct_bpf_dynptr, struct_bpf_dynptr_kern, struct_bpf_prog_array_item,
    struct_bpf_prog_array, struct_bpf_empty_prog_array, struct_bpf_event_entry,
    struct_bpf_fentry_test_t, struct_bpf_fib_lookup, struct_bpf_flow_keys,
    struct_bpf_flowtable_opts, struct_bpf_fou_encap, struct_bpf_func_info,
    struct_bpf_func_info_aux, struct_bpf_func_proto, struct_bpf_retval_range,
    struct_bpf_func_state, struct_bpf_hrtimer, struct_bpf_mem_alloc, struct_bpf_lru,
    struct_pcpu_freelist, struct_bpf_htab, struct_bpf_insn_access_aux, struct_bpf_map_ptr_state,
    struct_bpf_loop_inline_state, struct_bpf_insn_aux_data, struct_bpf_insn_cbs,
    struct_bpf_iter__bpf_link, struct_bpf_iter__bpf_map, struct_bpf_iter__bpf_map_elem,
    struct_bpf_iter__bpf_prog, struct_bpf_iter__bpf_sk_storage_map, struct_bpf_iter__cgroup,
    struct_bpf_iter__dmabuf, struct_bpf_iter__ipv6_route, struct_bpf_iter__kmem_cache,
    struct_bpf_iter__ksym, struct_bpf_iter__netlink, struct_bpf_iter__sockmap,
    struct_bpf_iter__task, struct_bpf_iter__task__safe_trusted, struct_bpf_iter__task_file,
    struct_bpf_iter__task_vma, struct_bpf_iter__tcp, struct_bpf_iter__udp,
    struct_bpf_iter__unix, struct_bpf_iter_aux_info]"

lemma bpf_types_1_ok: "list_all ctype_ok bpf_types_1"
  by (simp add: bpf_types_1_def bpf_layouts)

definition bpf_types_2 :: "ctype list" where
  "bpf_types_2 = [
    struct_bpf_iter_bits, struct_bpf_iter_bits_kern, struct_bpf_iter_css,
    struct_bpf_iter_css_kern, struct_bpf_iter_css_task, struct_bpf_iter_css_task_kern,
    struct_bpf_iter_dmabuf, struct_bpf_iter_dmabuf_kern, struct_bpf_iter_kmem_cache,
    struct_bpf_iter_kmem_cache_kern, struct_bpf_iter_link, union_bpf_iter_link_info,
    struct_bpf_iter_meta, struct_bpf_iter_meta__safe_trusted, struct_bpf_iter_num,
    struct_bpf_iter_num_kern, struct_bpf_iter_priv_data, struct_bpf_iter_reg,
    struct_bpf_iter_seq_array_map_info, struct_bpf_iter_seq_hash_map_info,
    struct_bpf_iter_seq_info, struct_bpf_iter_seq_link_info, struct_bpf_iter_seq_map_info,
    struct_bpf_iter_seq_prog_info, struct_bpf_iter_seq_sk_storage_map_info,
    struct_bpf_iter_seq_task_common, struct_bpf_iter_seq_task_file_info,
    struct_bpf_iter_seq_task_info, struct_bpf_iter_seq_task_vma_info,
    struct_bpf_iter_target_info, struct_bpf_iter_task, struct_bpf_iter_task_kern,
    struct_bpf_iter_task_vma, struct_bpf_iter_task_vma_kern, struct_ma_state,
    struct_vma_iterator, struct_bpf_iter_task_vma_kern_data, struct_bpf_jit_poke_descriptor,
    struct_bpf_jmp_history_entry, struct_bpf_key, struct_bpf_kfunc_btf,
    struct_bpf_kfunc_btf_tab, struct_bpf_kfunc_call_arg_meta, struct_bpf_kfunc_desc,
    struct_bpf_kfunc_desc_tab, struct_fprobe, struct_bpf_kprobe_multi_link,
    struct_bpf_session_run_ctx, struct_bpf_kprobe_multi_run_ctx, struct_bpf_line_info,
    struct_bpf_link_ops, struct_bpf_link_primer, struct_bpf_list_head, struct_bpf_list_node,
    struct_bpf_list_node_kern, struct_bpf_local_storage, struct_bpf_local_storage_cache,
    struct_bpf_local_storage_data, struct_bpf_local_storage_elem, struct_bpf_local_storage_map,
    struct_bpf_local_storage_map_bucket, struct_bpf_lpm_trie_key_hdr,
    struct_bpf_lpm_trie_key_u8, struct_bpf_lru_locallist, struct_bpf_lru_node,
    struct_bpf_lwt_prog, struct_bpf_lwt, struct_bpf_map_dev_ops, struct_bpf_map_owner,
    struct_bpf_mem_cache, struct_bpf_mem_caches, struct_bpf_mount_opts,
    struct_bpf_nested_pt_regs, struct_bpf_nh_params, struct_bpf_redirect_info,
    struct_bpf_net_context, struct_bpf_netns_link, struct_nf_hook_ops, struct_bpf_nf_link,
    struct_bpf_offload_dev, struct_bpf_offload_netdev, struct_bpf_offloaded_map,
    struct_bpf_perf_event_value, struct_bpf_pidns_info, struct_bpf_plt, struct_bpf_preload_info,
    struct_bpf_preload_ops, struct_bpf_prog_dummy, struct_bpf_prog_kstats, struct_bpf_prog_list,
    struct_bpf_prog_offload, struct_bpf_prog_offload_ops, struct_bpf_prog_ops,
    struct_bpf_prog_pack, struct_bpf_prog_stats, struct_bpf_queue_stack,
    struct_bpf_raw_event_map, struct_bpf_raw_tp_link, struct_bpf_raw_tp_null_args,
    struct_bpf_raw_tp_regs, struct_bpf_raw_tp_test_run_info, struct_bpf_rb_node,
    struct_bpf_rb_node_kern, struct_bpf_rb_root, struct_bpf_redir_neigh, struct_bpf_refcount,
    struct_bpf_reference_state, struct_bpf_reg_types, struct_bpf_res_spin_lock,
    struct_bpf_ringbuf_hdr, struct_bpf_sanitize_info, struct_bpf_verifier_state,
    struct_bpf_scc_backedge, struct_bpf_scc_visit, struct_bpf_scc_info, struct_qdisc_watchdog,
    struct_bpf_sched_data, struct_bpf_shim_tramp_link, struct_sk_psock_progs, struct_bpf_shtab]"

lemma bpf_types_2_ok: "list_all ctype_ok bpf_types_2"
  by (simp add: bpf_types_2_def bpf_layouts)

definition bpf_types_3 :: "ctype list" where
  "bpf_types_3 = [
    struct_bpf_shtab_bucket, struct_bpf_shtab_elem, struct_bpf_sk_buff_ptr,
    struct_bpf_sk_storage_diag, struct_qdisc_skb_cb, struct_bpf_skb_data_end,
    struct_bpf_sock_tuple, struct_bpf_sockopt_buf, struct_bpf_stab, struct_bpf_stack_build_id,
    struct_bpf_stack_map, struct_bpf_stack_state, struct_bpf_storage_blob,
    struct_bpf_storage_buffer, struct_bpf_stream_elem, struct_bpf_stream_page,
    struct_bpf_stream_stage, struct_bpf_struct_ops, struct_bpf_struct_ops_common_value,
    struct_bpf_struct_ops_Qdisc_ops, struct_bpf_struct_ops_arg_info,
    struct_bpf_struct_ops_bpf_dummy_ops, struct_bpf_struct_ops_desc, struct_bpf_struct_ops_link,
    struct_bpf_struct_ops_value, struct_bpf_struct_ops_map, struct_tcp_congestion_ops,
    struct_bpf_struct_ops_tcp_congestion_ops, union_bpf_tcp_iter_batch_item,
    struct_seq_net_private, struct_tcp_iter_state, struct_bpf_tcp_iter_state,
    struct_bpf_tcp_req_attrs, struct_bpf_tcp_sock, struct_bpf_test_timer, struct_bpf_throw_ctx,
    struct_bpf_timed_may_goto, struct_bpf_timer, struct_bpf_token, struct_bpf_token_info,
    struct_bpf_trace_module, union_perf_sample_weight, union_perf_mem_data_src,
    struct_perf_regs, struct_perf_sample_data, struct_bpf_trace_sample_data,
    struct_bpf_tramp_image, struct_bpf_tramp_links, struct_bpf_tramp_run_ctx,
    struct_bpf_trampoline, struct_bpf_tunnel_key, struct_bpf_tuple,
    union_bpf_udp_iter_batch_item, struct_udp_iter_state, struct_bpf_udp_iter_state,
    struct_bpf_unix_iter_state, struct_bpf_unwind_consume_entry_data, struct_uprobe_consumer,
    struct_bpf_uprobe, struct_bpf_uprobe_multi_link, struct_bpf_uprobe_multi_run_ctx,
    struct_bpf_verifier_ops, struct_bpf_verifier_stack_elem, struct_bpf_verifier_state_list,
    struct_bpf_work, struct_bpf_wq, struct_bpf_xfrm_state, struct_bpf_xfrm_state_opts]"

lemma bpf_types_3_ok: "list_all ctype_ok bpf_types_3"
  by (simp add: bpf_types_3_def bpf_layouts)

text \<open>What the declarations of \<open>Vmlinux_Trace\<close> contain from earlier theories.\<close>

lemmas trace_contents =
  struct_trace_entry_def t___u32_def t_u32_def t___u64_def t_u64_def t___u16_def t_u16_def
  t_bool_def t___s32_def t_s32_def t___u8_def t_u8_def t___s64_def t_s64_def
  t___kernel_clockid_t_def t_clockid_t_def t___kernel_pid_t_def t_pid_t_def
  enum_skb_drop_reason_def t___kernel_ulong_t_def t___kernel_size_t_def t_size_t_def
  t___kernel_dev_t_def t_dev_t_def t___kernel_loff_t_def t_loff_t_def

lemmas trace_typedefs =
  enum_hrtimer_mode_def enum_zone_type_def enum_lru_list_def enum_migrate_mode_def
  enum_netfs_io_source_def enum_netfs_failure_def t_ino_t_def enum_netfs_folio_trace_def
  enum_netfs_folioq_trace_def enum_netfs_read_trace_def enum_netfs_io_origin_def
  enum_netfs_rreq_trace_def enum_netfs_rreq_ref_trace_def enum_netfs_sreq_trace_def
  enum_netfs_sreq_ref_trace_def enum_netfs_write_trace_def enum_sk_rst_reason_def

lemmas trace_comps =
  struct_trace_event_raw_bpf_test_finish_def struct_trace_event_raw_bpf_trace_printk_def
  struct_trace_event_raw_bpf_trigger_tp_def
  struct_trace_event_raw_bpf_xdp_link_attach_failed_def struct_trace_event_raw_cgroup_def
  struct_trace_event_raw_cgroup_event_def struct_trace_event_raw_cgroup_migrate_def
  struct_trace_event_raw_cgroup_root_def struct_trace_event_raw_cgroup_rstat_def
  struct_trace_event_raw_consume_skb_def struct_trace_event_raw_contention_begin_def
  struct_trace_event_raw_contention_end_def struct_trace_event_raw_cpu_def
  struct_trace_event_raw_cpu_frequency_limits_def struct_trace_event_raw_cpu_idle_miss_def
  struct_trace_event_raw_cpu_latency_qos_request_def struct_trace_event_raw_cpuhp_enter_def
  struct_trace_event_raw_cpuhp_exit_def struct_trace_event_raw_cpuhp_multi_enter_def
  struct_trace_event_raw_csd_function_def struct_trace_event_raw_csd_queue_cpu_def
  struct_trace_event_raw_fib6_table_lookup_def struct_trace_event_raw_fib_table_lookup_def
  struct_trace_event_raw_hrtimer_class_def struct_trace_event_raw_hrtimer_expire_entry_def
  struct_trace_event_raw_hrtimer_setup_def struct_trace_event_raw_hrtimer_start_def
  struct_trace_event_raw_inet_sk_error_report_def struct_trace_event_raw_inet_sock_set_state_def
  struct_trace_event_raw_ipi_handler_def struct_trace_event_raw_ipi_raise_def
  struct_trace_event_raw_ipi_send_cpu_def struct_trace_event_raw_ipi_send_cpumask_def
  struct_trace_event_raw_irq_handler_entry_def struct_trace_event_raw_irq_handler_exit_def
  struct_trace_event_raw_itimer_expire_def struct_trace_event_raw_itimer_state_def
  struct_trace_event_raw_kfree_def struct_trace_event_raw_kfree_skb_def
  struct_trace_event_raw_kmalloc_def struct_trace_event_raw_kmem_cache_alloc_def
  struct_trace_event_raw_kmem_cache_free_def struct_trace_event_raw_locks_get_lock_context_def
  struct_trace_event_raw_mem_connect_def struct_trace_event_raw_mem_disconnect_def
  struct_trace_event_raw_memcg_flush_stats_def struct_trace_event_raw_memcg_rstat_events_def
  struct_trace_event_raw_memcg_rstat_stats_def
  struct_trace_event_raw_mm_calculate_totalreserve_pages_def
  struct_trace_event_raw_mm_collapse_huge_page_def
  struct_trace_event_raw_mm_collapse_huge_page_isolate_def
  struct_trace_event_raw_mm_collapse_huge_page_swapin_def
  struct_trace_event_raw_mm_compaction_begin_def
  struct_trace_event_raw_mm_compaction_defer_template_def
  struct_trace_event_raw_mm_compaction_end_def
  struct_trace_event_raw_mm_compaction_isolate_template_def
  struct_trace_event_raw_mm_compaction_kcompactd_sleep_def
  struct_trace_event_raw_mm_compaction_migratepages_def
  struct_trace_event_raw_mm_compaction_suitable_template_def
  struct_trace_event_raw_mm_compaction_try_to_compact_pages_def
  struct_trace_event_raw_mm_filemap_fault_def
  struct_trace_event_raw_mm_filemap_op_page_cache_def
  struct_trace_event_raw_mm_filemap_op_page_cache_range_def
  struct_trace_event_raw_mm_khugepaged_collapse_file_def
  struct_trace_event_raw_mm_khugepaged_scan_file_def
  struct_trace_event_raw_mm_khugepaged_scan_pmd_def struct_trace_event_raw_mm_lru_activate_def
  struct_trace_event_raw_mm_lru_insertion_def struct_trace_event_raw_mm_migrate_pages_def
  struct_trace_event_raw_mm_migrate_pages_start_def struct_trace_event_raw_mm_page_def
  struct_trace_event_raw_mm_page_alloc_def struct_trace_event_raw_mm_page_alloc_extfrag_def
  struct_trace_event_raw_mm_page_free_def struct_trace_event_raw_mm_page_free_batched_def
  struct_trace_event_raw_mm_page_pcpu_drain_def
  struct_trace_event_raw_mm_setup_per_zone_lowmem_reserve_def
  struct_trace_event_raw_mm_setup_per_zone_wmarks_def
  struct_trace_event_raw_mm_shrink_slab_end_def struct_trace_event_raw_mm_shrink_slab_start_def
  struct_trace_event_raw_mm_vmscan_direct_reclaim_begin_template_def
  struct_trace_event_raw_mm_vmscan_direct_reclaim_end_template_def
  struct_trace_event_raw_mm_vmscan_kswapd_sleep_def
  struct_trace_event_raw_mm_vmscan_kswapd_wake_def
  struct_trace_event_raw_mm_vmscan_lru_isolate_def
  struct_trace_event_raw_mm_vmscan_lru_shrink_active_def
  struct_trace_event_raw_mm_vmscan_lru_shrink_inactive_def
  struct_trace_event_raw_mm_vmscan_node_reclaim_begin_def
  struct_trace_event_raw_mm_vmscan_reclaim_pages_def
  struct_trace_event_raw_mm_vmscan_throttled_def
  struct_trace_event_raw_mm_vmscan_wakeup_kswapd_def
  struct_trace_event_raw_mm_vmscan_write_folio_def struct_trace_event_raw_module_free_def
  struct_trace_event_raw_module_load_def struct_trace_event_raw_module_refcnt_def
  struct_trace_event_raw_module_request_def struct_trace_event_raw_napi_poll_def
  struct_trace_event_raw_neigh__update_def struct_trace_event_raw_neigh_create_def
  struct_trace_event_raw_neigh_update_def struct_trace_event_raw_net_dev_rx_exit_template_def
  struct_trace_event_raw_net_dev_rx_verbose_template_def
  struct_trace_event_raw_net_dev_start_xmit_def struct_trace_event_raw_net_dev_template_def
  struct_trace_event_raw_net_dev_xmit_def struct_trace_event_raw_net_dev_xmit_timeout_def
  struct_trace_event_raw_netdev_evt_only_def struct_trace_event_raw_netdev_frame_event_def
  struct_trace_event_raw_netdev_mac_evt_def struct_trace_event_raw_netfs_collect_def
  struct_trace_event_raw_netfs_collect_folio_def struct_trace_event_raw_netfs_collect_gap_def
  struct_trace_event_raw_netfs_collect_sreq_def struct_trace_event_raw_netfs_collect_state_def
  struct_trace_event_raw_netfs_collect_stream_def struct_trace_event_raw_netfs_copy2cache_def
  struct_trace_event_raw_netfs_failure_def struct_trace_event_raw_netfs_folio_def
  struct_trace_event_raw_netfs_folioq_def struct_trace_event_raw_netfs_read_def
  struct_trace_event_raw_netfs_rreq_def struct_trace_event_raw_netfs_rreq_ref_def
  struct_trace_event_raw_netfs_sreq_def struct_trace_event_raw_netfs_sreq_ref_def
  struct_trace_event_raw_netfs_write_def struct_trace_event_raw_netfs_write_iter_def
  struct_trace_event_raw_netlink_extack_def struct_trace_event_raw_notifier_info_def
  struct_trace_event_raw_oom_score_adj_update_def struct_trace_event_raw_page_pool_release_def
  struct_trace_event_raw_page_pool_state_hold_def
  struct_trace_event_raw_page_pool_state_release_def
  struct_trace_event_raw_page_pool_update_nid_def struct_trace_event_raw_percpu_alloc_percpu_def
  struct_trace_event_raw_percpu_alloc_percpu_fail_def
  struct_trace_event_raw_percpu_create_chunk_def struct_trace_event_raw_percpu_destroy_chunk_def
  struct_trace_event_raw_percpu_free_percpu_def struct_trace_event_raw_qdisc_create_def
  struct_trace_event_raw_qdisc_dequeue_def struct_trace_event_raw_qdisc_destroy_def
  struct_trace_event_raw_qdisc_enqueue_def struct_trace_event_raw_qdisc_reset_def
  struct_trace_event_raw_rcu_stall_warning_def struct_trace_event_raw_rcu_utilization_def
  struct_trace_event_raw_sched_kthread_stop_def
  struct_trace_event_raw_sched_kthread_stop_ret_def
  struct_trace_event_raw_sched_kthread_work_execute_end_def
  struct_trace_event_raw_sched_kthread_work_execute_start_def
  struct_trace_event_raw_sched_kthread_work_queue_work_def
  struct_trace_event_raw_sched_migrate_task_def struct_trace_event_raw_sched_pi_setprio_def
  struct_trace_event_raw_sched_prepare_exec_def struct_trace_event_raw_sched_process_exec_def
  struct_trace_event_raw_sched_process_exit_def struct_trace_event_raw_sched_process_fork_def
  struct_trace_event_raw_sched_process_template_def
  struct_trace_event_raw_sched_process_wait_def struct_trace_event_raw_sched_stat_runtime_def
  struct_trace_event_raw_sched_switch_def struct_trace_event_raw_sched_wake_idle_without_ipi_def
  struct_trace_event_raw_sched_wakeup_template_def struct_trace_event_raw_signal_deliver_def
  struct_trace_event_raw_signal_generate_def struct_trace_event_raw_skb_copy_datagram_iovec_def
  struct_trace_event_raw_sock_exceed_buf_limit_def struct_trace_event_raw_sock_msg_length_def
  struct_trace_event_raw_sock_rcvqueue_full_def struct_trace_event_raw_softirq_def
  struct_trace_event_raw_sys_exit_def struct_trace_event_raw_task_newtask_def
  struct_trace_event_raw_task_prctl_unknown_def struct_trace_event_raw_task_rename_def
  struct_trace_event_raw_tasklet_def struct_trace_event_raw_tcp_ao_event_def
  struct_trace_event_raw_tcp_cong_state_set_def struct_trace_event_raw_tcp_event_sk_def
  struct_trace_event_raw_tcp_event_skb_def struct_trace_event_raw_tcp_hash_event_def
  struct_trace_event_raw_tcp_probe_def struct_trace_event_raw_tcp_rcvbuf_grow_def
  struct_trace_event_raw_tcp_retransmit_skb_def struct_trace_event_raw_tcp_retransmit_synack_def
  struct_trace_event_raw_tcp_send_reset_def struct_trace_event_raw_tcp_sendmsg_locked_def
  struct_trace_event_raw_tick_stop_def struct_trace_event_raw_timer_base_idle_def
  struct_trace_event_raw_timer_class_def struct_trace_event_raw_timer_expire_entry_def
  struct_trace_event_raw_timer_start_def struct_trace_event_raw_tlb_flush_def
  struct_trace_event_raw_udp_fail_queue_rcv_skb_def struct_trace_event_raw_vm_unmapped_area_def
  struct_trace_event_raw_workqueue_activate_work_def
  struct_trace_event_raw_workqueue_execute_end_def
  struct_trace_event_raw_workqueue_execute_start_def
  struct_trace_event_raw_workqueue_queue_work_def struct_trace_event_raw_xdp_bulk_tx_def
  struct_trace_event_raw_xdp_cpumap_enqueue_def struct_trace_event_raw_xdp_cpumap_kthread_def
  struct_trace_event_raw_xdp_devmap_xmit_def struct_trace_event_raw_xdp_exception_def
  struct_trace_event_raw_xdp_redirect_template_def

lemmas trace_layouts = trace_comps trace_typedefs trace_contents layout_eval

definition trace_types_1 :: "ctype list" where
  "trace_types_1 = [
    struct_trace_event_raw_bpf_test_finish, struct_trace_event_raw_bpf_trace_printk,
    struct_trace_event_raw_bpf_trigger_tp, struct_trace_event_raw_bpf_xdp_link_attach_failed,
    struct_trace_event_raw_cgroup, struct_trace_event_raw_cgroup_event,
    struct_trace_event_raw_cgroup_migrate, struct_trace_event_raw_cgroup_root,
    struct_trace_event_raw_cgroup_rstat, struct_trace_event_raw_consume_skb,
    struct_trace_event_raw_contention_begin, struct_trace_event_raw_contention_end,
    struct_trace_event_raw_cpu, struct_trace_event_raw_cpu_frequency_limits,
    struct_trace_event_raw_cpu_idle_miss, struct_trace_event_raw_cpu_latency_qos_request,
    struct_trace_event_raw_cpuhp_enter, struct_trace_event_raw_cpuhp_exit,
    struct_trace_event_raw_cpuhp_multi_enter, struct_trace_event_raw_csd_function,
    struct_trace_event_raw_csd_queue_cpu, struct_trace_event_raw_fib6_table_lookup,
    struct_trace_event_raw_fib_table_lookup, struct_trace_event_raw_hrtimer_class,
    struct_trace_event_raw_hrtimer_expire_entry, struct_trace_event_raw_hrtimer_setup,
    struct_trace_event_raw_hrtimer_start, struct_trace_event_raw_inet_sk_error_report,
    struct_trace_event_raw_inet_sock_set_state, struct_trace_event_raw_ipi_handler,
    struct_trace_event_raw_ipi_raise, struct_trace_event_raw_ipi_send_cpu,
    struct_trace_event_raw_ipi_send_cpumask, struct_trace_event_raw_irq_handler_entry,
    struct_trace_event_raw_irq_handler_exit, struct_trace_event_raw_itimer_expire,
    struct_trace_event_raw_itimer_state, struct_trace_event_raw_kfree,
    struct_trace_event_raw_kfree_skb, struct_trace_event_raw_kmalloc,
    struct_trace_event_raw_kmem_cache_alloc, struct_trace_event_raw_kmem_cache_free,
    struct_trace_event_raw_locks_get_lock_context, struct_trace_event_raw_mem_connect,
    struct_trace_event_raw_mem_disconnect, struct_trace_event_raw_memcg_flush_stats,
    struct_trace_event_raw_memcg_rstat_events, struct_trace_event_raw_memcg_rstat_stats,
    struct_trace_event_raw_mm_calculate_totalreserve_pages,
    struct_trace_event_raw_mm_collapse_huge_page,
    struct_trace_event_raw_mm_collapse_huge_page_isolate,
    struct_trace_event_raw_mm_collapse_huge_page_swapin,
    struct_trace_event_raw_mm_compaction_begin,
    struct_trace_event_raw_mm_compaction_defer_template,
    struct_trace_event_raw_mm_compaction_end,
    struct_trace_event_raw_mm_compaction_isolate_template,
    struct_trace_event_raw_mm_compaction_kcompactd_sleep,
    struct_trace_event_raw_mm_compaction_migratepages,
    struct_trace_event_raw_mm_compaction_suitable_template,
    struct_trace_event_raw_mm_compaction_try_to_compact_pages,
    struct_trace_event_raw_mm_filemap_fault, struct_trace_event_raw_mm_filemap_op_page_cache,
    struct_trace_event_raw_mm_filemap_op_page_cache_range,
    struct_trace_event_raw_mm_khugepaged_collapse_file,
    struct_trace_event_raw_mm_khugepaged_scan_file,
    struct_trace_event_raw_mm_khugepaged_scan_pmd, struct_trace_event_raw_mm_lru_activate,
    struct_trace_event_raw_mm_lru_insertion, struct_trace_event_raw_mm_migrate_pages,
    struct_trace_event_raw_mm_migrate_pages_start, struct_trace_event_raw_mm_page,
    struct_trace_event_raw_mm_page_alloc, struct_trace_event_raw_mm_page_alloc_extfrag,
    struct_trace_event_raw_mm_page_free, struct_trace_event_raw_mm_page_free_batched,
    struct_trace_event_raw_mm_page_pcpu_drain,
    struct_trace_event_raw_mm_setup_per_zone_lowmem_reserve,
    struct_trace_event_raw_mm_setup_per_zone_wmarks, struct_trace_event_raw_mm_shrink_slab_end,
    struct_trace_event_raw_mm_shrink_slab_start,
    struct_trace_event_raw_mm_vmscan_direct_reclaim_begin_template,
    struct_trace_event_raw_mm_vmscan_direct_reclaim_end_template,
    struct_trace_event_raw_mm_vmscan_kswapd_sleep, struct_trace_event_raw_mm_vmscan_kswapd_wake,
    struct_trace_event_raw_mm_vmscan_lru_isolate,
    struct_trace_event_raw_mm_vmscan_lru_shrink_active,
    struct_trace_event_raw_mm_vmscan_lru_shrink_inactive,
    struct_trace_event_raw_mm_vmscan_node_reclaim_begin,
    struct_trace_event_raw_mm_vmscan_reclaim_pages, struct_trace_event_raw_mm_vmscan_throttled,
    struct_trace_event_raw_mm_vmscan_wakeup_kswapd,
    struct_trace_event_raw_mm_vmscan_write_folio, struct_trace_event_raw_module_free,
    struct_trace_event_raw_module_load, struct_trace_event_raw_module_refcnt,
    struct_trace_event_raw_module_request, struct_trace_event_raw_napi_poll,
    struct_trace_event_raw_neigh__update, struct_trace_event_raw_neigh_create,
    struct_trace_event_raw_neigh_update, struct_trace_event_raw_net_dev_rx_exit_template,
    struct_trace_event_raw_net_dev_rx_verbose_template,
    struct_trace_event_raw_net_dev_start_xmit, struct_trace_event_raw_net_dev_template,
    struct_trace_event_raw_net_dev_xmit, struct_trace_event_raw_net_dev_xmit_timeout,
    struct_trace_event_raw_netdev_evt_only, struct_trace_event_raw_netdev_frame_event,
    struct_trace_event_raw_netdev_mac_evt, struct_trace_event_raw_netfs_collect,
    struct_trace_event_raw_netfs_collect_folio, struct_trace_event_raw_netfs_collect_gap,
    struct_trace_event_raw_netfs_collect_sreq, struct_trace_event_raw_netfs_collect_state,
    struct_trace_event_raw_netfs_collect_stream, struct_trace_event_raw_netfs_copy2cache,
    struct_trace_event_raw_netfs_failure, struct_trace_event_raw_netfs_folio,
    struct_trace_event_raw_netfs_folioq, struct_trace_event_raw_netfs_read]"

lemma trace_types_1_ok: "list_all ctype_ok trace_types_1"
  by (simp add: trace_types_1_def trace_layouts)

definition trace_types_2 :: "ctype list" where
  "trace_types_2 = [
    struct_trace_event_raw_netfs_rreq, struct_trace_event_raw_netfs_rreq_ref,
    struct_trace_event_raw_netfs_sreq, struct_trace_event_raw_netfs_sreq_ref,
    struct_trace_event_raw_netfs_write, struct_trace_event_raw_netfs_write_iter,
    struct_trace_event_raw_netlink_extack, struct_trace_event_raw_notifier_info,
    struct_trace_event_raw_oom_score_adj_update, struct_trace_event_raw_page_pool_release,
    struct_trace_event_raw_page_pool_state_hold, struct_trace_event_raw_page_pool_state_release,
    struct_trace_event_raw_page_pool_update_nid, struct_trace_event_raw_percpu_alloc_percpu,
    struct_trace_event_raw_percpu_alloc_percpu_fail, struct_trace_event_raw_percpu_create_chunk,
    struct_trace_event_raw_percpu_destroy_chunk, struct_trace_event_raw_percpu_free_percpu,
    struct_trace_event_raw_qdisc_create, struct_trace_event_raw_qdisc_dequeue,
    struct_trace_event_raw_qdisc_destroy, struct_trace_event_raw_qdisc_enqueue,
    struct_trace_event_raw_qdisc_reset, struct_trace_event_raw_rcu_stall_warning,
    struct_trace_event_raw_rcu_utilization, struct_trace_event_raw_sched_kthread_stop,
    struct_trace_event_raw_sched_kthread_stop_ret,
    struct_trace_event_raw_sched_kthread_work_execute_end,
    struct_trace_event_raw_sched_kthread_work_execute_start,
    struct_trace_event_raw_sched_kthread_work_queue_work,
    struct_trace_event_raw_sched_migrate_task, struct_trace_event_raw_sched_pi_setprio,
    struct_trace_event_raw_sched_prepare_exec, struct_trace_event_raw_sched_process_exec,
    struct_trace_event_raw_sched_process_exit, struct_trace_event_raw_sched_process_fork,
    struct_trace_event_raw_sched_process_template, struct_trace_event_raw_sched_process_wait,
    struct_trace_event_raw_sched_stat_runtime, struct_trace_event_raw_sched_switch,
    struct_trace_event_raw_sched_wake_idle_without_ipi,
    struct_trace_event_raw_sched_wakeup_template, struct_trace_event_raw_signal_deliver,
    struct_trace_event_raw_signal_generate, struct_trace_event_raw_skb_copy_datagram_iovec,
    struct_trace_event_raw_sock_exceed_buf_limit, struct_trace_event_raw_sock_msg_length,
    struct_trace_event_raw_sock_rcvqueue_full, struct_trace_event_raw_softirq,
    struct_trace_event_raw_sys_exit, struct_trace_event_raw_task_newtask,
    struct_trace_event_raw_task_prctl_unknown, struct_trace_event_raw_task_rename,
    struct_trace_event_raw_tasklet, struct_trace_event_raw_tcp_ao_event,
    struct_trace_event_raw_tcp_cong_state_set, struct_trace_event_raw_tcp_event_sk,
    struct_trace_event_raw_tcp_event_skb, struct_trace_event_raw_tcp_hash_event,
    struct_trace_event_raw_tcp_probe, struct_trace_event_raw_tcp_rcvbuf_grow,
    struct_trace_event_raw_tcp_retransmit_skb, struct_trace_event_raw_tcp_retransmit_synack,
    struct_trace_event_raw_tcp_send_reset, struct_trace_event_raw_tcp_sendmsg_locked,
    struct_trace_event_raw_tick_stop, struct_trace_event_raw_timer_base_idle,
    struct_trace_event_raw_timer_class, struct_trace_event_raw_timer_expire_entry,
    struct_trace_event_raw_timer_start, struct_trace_event_raw_tlb_flush,
    struct_trace_event_raw_udp_fail_queue_rcv_skb, struct_trace_event_raw_vm_unmapped_area,
    struct_trace_event_raw_workqueue_activate_work,
    struct_trace_event_raw_workqueue_execute_end,
    struct_trace_event_raw_workqueue_execute_start, struct_trace_event_raw_workqueue_queue_work,
    struct_trace_event_raw_xdp_bulk_tx, struct_trace_event_raw_xdp_cpumap_enqueue,
    struct_trace_event_raw_xdp_cpumap_kthread, struct_trace_event_raw_xdp_devmap_xmit,
    struct_trace_event_raw_xdp_exception, struct_trace_event_raw_xdp_redirect_template]"

lemma trace_types_2_ok: "list_all ctype_ok trace_types_2"
  by (simp add: trace_types_2_def trace_layouts)

end
