(* ===== verification/Vmlinux_Inet.thy ===== *)
theory Vmlinux_Inet
  imports Vmlinux_Trace
begin

text \<open>
  The declarations of \<^verbatim>\<open>vmlinux.h\<close> for the internet protocols: headers, routes, neighbours,
  TCP and UDP state, addresses, by the prefixes of their names, with the types they contain.
\<close>

definition enum_fib6_walk_state :: ctype where
  "enum_fib6_walk_state = Enum False [
    (''FWS_L'', 0), (''FWS_R'', 1), (''FWS_C'', 2), (''FWS_U'', 3)]"

definition enum_fib_event_type :: ctype where
  "enum_fib_event_type = Enum False [
    (''FIB_EVENT_ENTRY_REPLACE'', 0), (''FIB_EVENT_ENTRY_APPEND'', 1),
    (''FIB_EVENT_ENTRY_ADD'', 2), (''FIB_EVENT_ENTRY_DEL'', 3), (''FIB_EVENT_RULE_ADD'', 4),
    (''FIB_EVENT_RULE_DEL'', 5), (''FIB_EVENT_NH_ADD'', 6), (''FIB_EVENT_NH_DEL'', 7),
    (''FIB_EVENT_VIF_ADD'', 8), (''FIB_EVENT_VIF_DEL'', 9)]"

definition enum_in6_addr_gen_mode :: ctype where
  "enum_in6_addr_gen_mode = Enum False [
    (''IN6_ADDR_GEN_MODE_EUI64'', 0), (''IN6_ADDR_GEN_MODE_NONE'', 1),
    (''IN6_ADDR_GEN_MODE_STABLE_PRIVACY'', 2), (''IN6_ADDR_GEN_MODE_RANDOM'', 3)]"

definition enum_inet_csk_ack_state_t :: ctype where
  "enum_inet_csk_ack_state_t = Enum False [
    (''ICSK_ACK_SCHED'', 1), (''ICSK_ACK_TIMER'', 2), (''ICSK_ACK_PUSHED'', 4),
    (''ICSK_ACK_PUSHED2'', 8), (''ICSK_ACK_NOW'', 16), (''ICSK_ACK_NOMEM'', 32)]"

definition enum_ip6_defrag_users :: ctype where
  "enum_ip6_defrag_users = Enum False [
    (''IP6_DEFRAG_LOCAL_DELIVER'', 0), (''IP6_DEFRAG_CONNTRACK_IN'', 1),
    (''__IP6_DEFRAG_CONNTRACK_IN'', 65536), (''IP6_DEFRAG_CONNTRACK_OUT'', 65537),
    (''__IP6_DEFRAG_CONNTRACK_OUT'', 131072), (''IP6_DEFRAG_CONNTRACK_BRIDGE_IN'', 131073),
    (''__IP6_DEFRAG_CONNTRACK_BRIDGE_IN'', 196608)]"

definition enum_ip6t_reject_with :: ctype where
  "enum_ip6t_reject_with = Enum False [
    (''IP6T_ICMP6_NO_ROUTE'', 0), (''IP6T_ICMP6_ADM_PROHIBITED'', 1),
    (''IP6T_ICMP6_NOT_NEIGHBOUR'', 2), (''IP6T_ICMP6_ADDR_UNREACH'', 3),
    (''IP6T_ICMP6_PORT_UNREACH'', 4), (''IP6T_ICMP6_ECHOREPLY'', 5), (''IP6T_TCP_RESET'', 6),
    (''IP6T_ICMP6_POLICY_FAIL'', 7), (''IP6T_ICMP6_REJECT_ROUTE'', 8)]"

definition enum_ip_conntrack_dir :: ctype where
  "enum_ip_conntrack_dir = Enum False [
    (''IP_CT_DIR_ORIGINAL'', 0), (''IP_CT_DIR_REPLY'', 1), (''IP_CT_DIR_MAX'', 2)]"

definition enum_ip_conntrack_events :: ctype where
  "enum_ip_conntrack_events = Enum False [
    (''IPCT_NEW'', 0), (''IPCT_RELATED'', 1), (''IPCT_DESTROY'', 2), (''IPCT_REPLY'', 3),
    (''IPCT_ASSURED'', 4), (''IPCT_PROTOINFO'', 5), (''IPCT_HELPER'', 6), (''IPCT_MARK'', 7),
    (''IPCT_SEQADJ'', 8), (''IPCT_NATSEQADJ'', 8), (''IPCT_SECMARK'', 9), (''IPCT_LABEL'', 10),
    (''IPCT_SYNPROXY'', 11), (''__IPCT_MAX'', 12)]"

definition enum_ip_conntrack_expect_events :: ctype where
  "enum_ip_conntrack_expect_events = Enum False [
    (''IPEXP_NEW'', 0), (''IPEXP_DESTROY'', 1)]"

definition enum_ip_conntrack_info :: ctype where
  "enum_ip_conntrack_info = Enum False [
    (''IP_CT_ESTABLISHED'', 0), (''IP_CT_RELATED'', 1), (''IP_CT_NEW'', 2),
    (''IP_CT_IS_REPLY'', 3), (''IP_CT_ESTABLISHED_REPLY'', 3), (''IP_CT_RELATED_REPLY'', 4),
    (''IP_CT_NUMBER'', 5), (''IP_CT_UNTRACKED'', 7)]"

definition enum_ip_conntrack_status :: ctype where
  "enum_ip_conntrack_status = Enum False [
    (''IPS_EXPECTED_BIT'', 0), (''IPS_EXPECTED'', 1), (''IPS_SEEN_REPLY_BIT'', 1),
    (''IPS_SEEN_REPLY'', 2), (''IPS_ASSURED_BIT'', 2), (''IPS_ASSURED'', 4),
    (''IPS_CONFIRMED_BIT'', 3), (''IPS_CONFIRMED'', 8), (''IPS_SRC_NAT_BIT'', 4),
    (''IPS_SRC_NAT'', 16), (''IPS_DST_NAT_BIT'', 5), (''IPS_DST_NAT'', 32),
    (''IPS_NAT_MASK'', 48), (''IPS_SEQ_ADJUST_BIT'', 6), (''IPS_SEQ_ADJUST'', 64),
    (''IPS_SRC_NAT_DONE_BIT'', 7), (''IPS_SRC_NAT_DONE'', 128), (''IPS_DST_NAT_DONE_BIT'', 8),
    (''IPS_DST_NAT_DONE'', 256), (''IPS_NAT_DONE_MASK'', 384), (''IPS_DYING_BIT'', 9),
    (''IPS_DYING'', 512), (''IPS_FIXED_TIMEOUT_BIT'', 10), (''IPS_FIXED_TIMEOUT'', 1024),
    (''IPS_TEMPLATE_BIT'', 11), (''IPS_TEMPLATE'', 2048), (''IPS_UNTRACKED_BIT'', 12),
    (''IPS_UNTRACKED'', 4096), (''IPS_NAT_CLASH_BIT'', 12), (''IPS_NAT_CLASH'', 4096),
    (''IPS_HELPER_BIT'', 13), (''IPS_HELPER'', 8192), (''IPS_OFFLOAD_BIT'', 14),
    (''IPS_OFFLOAD'', 16384), (''IPS_HW_OFFLOAD_BIT'', 15), (''IPS_HW_OFFLOAD'', 32768),
    (''IPS_UNCHANGEABLE_MASK'', 56313), (''__IPS_MAX_BIT'', 16)]"

definition enum_ip_defrag_users :: ctype where
  "enum_ip_defrag_users = Enum False [
    (''IP_DEFRAG_LOCAL_DELIVER'', 0), (''IP_DEFRAG_CALL_RA_CHAIN'', 1),
    (''IP_DEFRAG_CONNTRACK_IN'', 2), (''__IP_DEFRAG_CONNTRACK_IN_END'', 65537),
    (''IP_DEFRAG_CONNTRACK_OUT'', 65538), (''__IP_DEFRAG_CONNTRACK_OUT_END'', 131073),
    (''IP_DEFRAG_CONNTRACK_BRIDGE_IN'', 131074), (''__IP_DEFRAG_CONNTRACK_BRIDGE_IN'', 196609),
    (''IP_DEFRAG_VS_IN'', 196610), (''IP_DEFRAG_VS_OUT'', 196611), (''IP_DEFRAG_VS_FWD'', 196612),
    (''IP_DEFRAG_AF_PACKET'', 196613), (''IP_DEFRAG_MACVLAN'', 196614)]"

definition enum_ip_set_dim :: ctype where
  "enum_ip_set_dim = Enum False [
    (''IPSET_DIM_ZERO'', 0), (''IPSET_DIM_ONE'', 1), (''IPSET_DIM_TWO'', 2),
    (''IPSET_DIM_THREE'', 3), (''IPSET_DIM_MAX'', 6), (''IPSET_BIT_RETURN_NOMATCH'', 7)]"

definition enum_ip_set_ext_id :: ctype where
  "enum_ip_set_ext_id = Enum False [
    (''IPSET_EXT_ID_COUNTER'', 0), (''IPSET_EXT_ID_TIMEOUT'', 1), (''IPSET_EXT_ID_SKBINFO'', 2),
    (''IPSET_EXT_ID_COMMENT'', 3), (''IPSET_EXT_ID_MAX'', 4)]"

definition enum_ip_set_extension :: ctype where
  "enum_ip_set_extension = Enum False [
    (''IPSET_EXT_BIT_TIMEOUT'', 0), (''IPSET_EXT_TIMEOUT'', 1), (''IPSET_EXT_BIT_COUNTER'', 1),
    (''IPSET_EXT_COUNTER'', 2), (''IPSET_EXT_BIT_COMMENT'', 2), (''IPSET_EXT_COMMENT'', 4),
    (''IPSET_EXT_BIT_SKBINFO'', 3), (''IPSET_EXT_SKBINFO'', 8), (''IPSET_EXT_BIT_DESTROY'', 7),
    (''IPSET_EXT_DESTROY'', 128)]"

definition enum_ip_set_feature :: ctype where
  "enum_ip_set_feature = Enum False [
    (''IPSET_TYPE_IP_FLAG'', 0), (''IPSET_TYPE_IP'', 1), (''IPSET_TYPE_PORT_FLAG'', 1),
    (''IPSET_TYPE_PORT'', 2), (''IPSET_TYPE_MAC_FLAG'', 2), (''IPSET_TYPE_MAC'', 4),
    (''IPSET_TYPE_IP2_FLAG'', 3), (''IPSET_TYPE_IP2'', 8), (''IPSET_TYPE_NAME_FLAG'', 4),
    (''IPSET_TYPE_NAME'', 16), (''IPSET_TYPE_IFACE_FLAG'', 5), (''IPSET_TYPE_IFACE'', 32),
    (''IPSET_TYPE_MARK_FLAG'', 6), (''IPSET_TYPE_MARK'', 64), (''IPSET_TYPE_NOMATCH_FLAG'', 7),
    (''IPSET_TYPE_NOMATCH'', 128), (''IPSET_DUMP_LAST_FLAG'', 8), (''IPSET_DUMP_LAST'', 256)]"

definition enum_ip_set_kopt :: ctype where
  "enum_ip_set_kopt = Enum False [
    (''IPSET_INV_MATCH'', 1), (''IPSET_DIM_ONE_SRC'', 2), (''IPSET_DIM_TWO_SRC'', 4),
    (''IPSET_DIM_THREE_SRC'', 8), (''IPSET_RETURN_NOMATCH'', 128)]"

definition enum_ip_vs_sctp_states :: ctype where
  "enum_ip_vs_sctp_states = Enum False [
    (''IP_VS_SCTP_S_NONE'', 0), (''IP_VS_SCTP_S_INIT1'', 1), (''IP_VS_SCTP_S_INIT'', 2),
    (''IP_VS_SCTP_S_COOKIE_SENT'', 3), (''IP_VS_SCTP_S_COOKIE_REPLIED'', 4),
    (''IP_VS_SCTP_S_COOKIE_WAIT'', 5), (''IP_VS_SCTP_S_COOKIE'', 6),
    (''IP_VS_SCTP_S_COOKIE_ECHOED'', 7), (''IP_VS_SCTP_S_ESTABLISHED'', 8),
    (''IP_VS_SCTP_S_SHUTDOWN_SENT'', 9), (''IP_VS_SCTP_S_SHUTDOWN_RECEIVED'', 10),
    (''IP_VS_SCTP_S_SHUTDOWN_ACK_SENT'', 11), (''IP_VS_SCTP_S_REJECTED'', 12),
    (''IP_VS_SCTP_S_CLOSED'', 13), (''IP_VS_SCTP_S_LAST'', 14)]"

definition enum_ipi_msg_type :: ctype where
  "enum_ipi_msg_type = Enum False [
    (''IPI_RESCHEDULE'', 0), (''IPI_CALL_FUNC'', 1), (''IPI_CPU_STOP'', 2),
    (''IPI_CPU_STOP_NMI'', 3), (''IPI_TIMER'', 4), (''IPI_IRQ_WORK'', 5), (''NR_IPI'', 6),
    (''IPI_CPU_BACKTRACE'', 6), (''IPI_KGDB_ROUNDUP'', 7), (''MAX_IPI'', 8)]"

definition enum_ipset_adt :: ctype where
  "enum_ipset_adt = Enum False [
    (''IPSET_ADD'', 0), (''IPSET_DEL'', 1), (''IPSET_TEST'', 2), (''IPSET_ADT_MAX'', 3),
    (''IPSET_CREATE'', 3), (''IPSET_CADT_MAX'', 4)]"

definition enum_ipset_cadt_flags :: ctype where
  "enum_ipset_cadt_flags = Enum False [
    (''IPSET_FLAG_BIT_BEFORE'', 0), (''IPSET_FLAG_BEFORE'', 1), (''IPSET_FLAG_BIT_PHYSDEV'', 1),
    (''IPSET_FLAG_PHYSDEV'', 2), (''IPSET_FLAG_BIT_NOMATCH'', 2), (''IPSET_FLAG_NOMATCH'', 4),
    (''IPSET_FLAG_BIT_WITH_COUNTERS'', 3), (''IPSET_FLAG_WITH_COUNTERS'', 8),
    (''IPSET_FLAG_BIT_WITH_COMMENT'', 4), (''IPSET_FLAG_WITH_COMMENT'', 16),
    (''IPSET_FLAG_BIT_WITH_FORCEADD'', 5), (''IPSET_FLAG_WITH_FORCEADD'', 32),
    (''IPSET_FLAG_BIT_WITH_SKBINFO'', 6), (''IPSET_FLAG_WITH_SKBINFO'', 64),
    (''IPSET_FLAG_BIT_IFACE_WILDCARD'', 7), (''IPSET_FLAG_IFACE_WILDCARD'', 128),
    (''IPSET_FLAG_CADT_MAX'', 15)]"

definition enum_ipset_cmd :: ctype where
  "enum_ipset_cmd = Enum False [
    (''IPSET_CMD_NONE'', 0), (''IPSET_CMD_PROTOCOL'', 1), (''IPSET_CMD_CREATE'', 2),
    (''IPSET_CMD_DESTROY'', 3), (''IPSET_CMD_FLUSH'', 4), (''IPSET_CMD_RENAME'', 5),
    (''IPSET_CMD_SWAP'', 6), (''IPSET_CMD_LIST'', 7), (''IPSET_CMD_SAVE'', 8),
    (''IPSET_CMD_ADD'', 9), (''IPSET_CMD_DEL'', 10), (''IPSET_CMD_TEST'', 11),
    (''IPSET_CMD_HEADER'', 12), (''IPSET_CMD_TYPE'', 13), (''IPSET_CMD_GET_BYNAME'', 14),
    (''IPSET_CMD_GET_BYINDEX'', 15), (''IPSET_MSG_MAX'', 16), (''IPSET_CMD_RESTORE'', 16),
    (''IPSET_CMD_HELP'', 17), (''IPSET_CMD_VERSION'', 18), (''IPSET_CMD_QUIT'', 19),
    (''IPSET_CMD_MAX'', 20), (''IPSET_CMD_COMMIT'', 20)]"

definition enum_ipset_cmd_flags :: ctype where
  "enum_ipset_cmd_flags = Enum False [
    (''IPSET_FLAG_BIT_EXIST'', 0), (''IPSET_FLAG_EXIST'', 1),
    (''IPSET_FLAG_BIT_LIST_SETNAME'', 1), (''IPSET_FLAG_LIST_SETNAME'', 2),
    (''IPSET_FLAG_BIT_LIST_HEADER'', 2), (''IPSET_FLAG_LIST_HEADER'', 4),
    (''IPSET_FLAG_BIT_SKIP_COUNTER_UPDATE'', 3), (''IPSET_FLAG_SKIP_COUNTER_UPDATE'', 8),
    (''IPSET_FLAG_BIT_SKIP_SUBCOUNTER_UPDATE'', 4), (''IPSET_FLAG_SKIP_SUBCOUNTER_UPDATE'', 16),
    (''IPSET_FLAG_BIT_MATCH_COUNTERS'', 5), (''IPSET_FLAG_MATCH_COUNTERS'', 32),
    (''IPSET_FLAG_BIT_RETURN_NOMATCH'', 7), (''IPSET_FLAG_RETURN_NOMATCH'', 128),
    (''IPSET_FLAG_BIT_MAP_SKBMARK'', 8), (''IPSET_FLAG_MAP_SKBMARK'', 256),
    (''IPSET_FLAG_BIT_MAP_SKBPRIO'', 9), (''IPSET_FLAG_MAP_SKBPRIO'', 512),
    (''IPSET_FLAG_BIT_MAP_SKBQUEUE'', 10), (''IPSET_FLAG_MAP_SKBQUEUE'', 1024),
    (''IPSET_FLAG_CMD_MAX'', 15)]"

definition enum_ipset_create_flags :: ctype where
  "enum_ipset_create_flags = Enum False [
    (''IPSET_CREATE_FLAG_BIT_FORCEADD'', 0), (''IPSET_CREATE_FLAG_FORCEADD'', 1),
    (''IPSET_CREATE_FLAG_BIT_BUCKETSIZE'', 1), (''IPSET_CREATE_FLAG_BUCKETSIZE'', 2),
    (''IPSET_CREATE_FLAG_BIT_MAX'', 7)]"

definition enum_ipset_errno :: ctype where
  "enum_ipset_errno = Enum False [
    (''IPSET_ERR_PRIVATE'', 4096), (''IPSET_ERR_PROTOCOL'', 4097),
    (''IPSET_ERR_FIND_TYPE'', 4098), (''IPSET_ERR_MAX_SETS'', 4099), (''IPSET_ERR_BUSY'', 4100),
    (''IPSET_ERR_EXIST_SETNAME2'', 4101), (''IPSET_ERR_TYPE_MISMATCH'', 4102),
    (''IPSET_ERR_EXIST'', 4103), (''IPSET_ERR_INVALID_CIDR'', 4104),
    (''IPSET_ERR_INVALID_NETMASK'', 4105), (''IPSET_ERR_INVALID_FAMILY'', 4106),
    (''IPSET_ERR_TIMEOUT'', 4107), (''IPSET_ERR_REFERENCED'', 4108),
    (''IPSET_ERR_IPADDR_IPV4'', 4109), (''IPSET_ERR_IPADDR_IPV6'', 4110),
    (''IPSET_ERR_COUNTER'', 4111), (''IPSET_ERR_COMMENT'', 4112),
    (''IPSET_ERR_INVALID_MARKMASK'', 4113), (''IPSET_ERR_SKBINFO'', 4114),
    (''IPSET_ERR_BITMASK_NETMASK_EXCL'', 4115), (''IPSET_ERR_TYPE_SPECIFIC'', 4352)]"

definition enum_ipt_reject_with :: ctype where
  "enum_ipt_reject_with = Enum False [
    (''IPT_ICMP_NET_UNREACHABLE'', 0), (''IPT_ICMP_HOST_UNREACHABLE'', 1),
    (''IPT_ICMP_PROT_UNREACHABLE'', 2), (''IPT_ICMP_PORT_UNREACHABLE'', 3),
    (''IPT_ICMP_ECHOREPLY'', 4), (''IPT_ICMP_NET_PROHIBITED'', 5),
    (''IPT_ICMP_HOST_PROHIBITED'', 6), (''IPT_TCP_RESET'', 7), (''IPT_ICMP_ADMIN_PROHIBITED'', 8)]"

definition enum_ipvlan_mode :: ctype where
  "enum_ipvlan_mode = Enum False [
    (''IPVLAN_MODE_L2'', 0), (''IPVLAN_MODE_L3'', 1), (''IPVLAN_MODE_L3S'', 2),
    (''IPVLAN_MODE_MAX'', 3)]"

definition enum_rt6_nud_state :: ctype where
  "enum_rt6_nud_state = Enum False [
    (''RT6_NUD_FAIL_HARD'', - 3), (''RT6_NUD_FAIL_PROBE'', - 2), (''RT6_NUD_FAIL_DO_RR'', - 1),
    (''RT6_NUD_SUCCEED'', 1)]"

definition enum_tcp_bit_set :: ctype where
  "enum_tcp_bit_set = Enum False [
    (''TCP_SYN_SET'', 0), (''TCP_SYNACK_SET'', 1), (''TCP_FIN_SET'', 2), (''TCP_ACK_SET'', 3),
    (''TCP_RST_SET'', 4), (''TCP_NONE_SET'', 5)]"

definition enum_tcp_ca_ack_event_flags :: ctype where
  "enum_tcp_ca_ack_event_flags = Enum False [
    (''CA_ACK_SLOWPATH'', 1), (''CA_ACK_WIN_UPDATE'', 2), (''CA_ACK_ECE'', 4)]"

definition enum_tcp_ca_event :: ctype where
  "enum_tcp_ca_event = Enum False [
    (''CA_EVENT_TX_START'', 0), (''CA_EVENT_CWND_RESTART'', 1), (''CA_EVENT_COMPLETE_CWR'', 2),
    (''CA_EVENT_LOSS'', 3), (''CA_EVENT_ECN_NO_CE'', 4), (''CA_EVENT_ECN_IS_CE'', 5)]"

definition enum_tcp_ca_state :: ctype where
  "enum_tcp_ca_state = Enum False [
    (''TCP_CA_Open'', 0), (''TCP_CA_Disorder'', 1), (''TCP_CA_CWR'', 2), (''TCP_CA_Recovery'', 3),
    (''TCP_CA_Loss'', 4)]"

definition enum_tcp_chrono :: ctype where
  "enum_tcp_chrono = Enum False [
    (''TCP_CHRONO_UNSPEC'', 0), (''TCP_CHRONO_BUSY'', 1), (''TCP_CHRONO_RWND_LIMITED'', 2),
    (''TCP_CHRONO_SNDBUF_LIMITED'', 3), (''__TCP_CHRONO_MAX'', 4)]"

definition enum_tcp_conntrack :: ctype where
  "enum_tcp_conntrack = Enum False [
    (''TCP_CONNTRACK_NONE'', 0), (''TCP_CONNTRACK_SYN_SENT'', 1), (''TCP_CONNTRACK_SYN_RECV'', 2),
    (''TCP_CONNTRACK_ESTABLISHED'', 3), (''TCP_CONNTRACK_FIN_WAIT'', 4),
    (''TCP_CONNTRACK_CLOSE_WAIT'', 5), (''TCP_CONNTRACK_LAST_ACK'', 6),
    (''TCP_CONNTRACK_TIME_WAIT'', 7), (''TCP_CONNTRACK_CLOSE'', 8), (''TCP_CONNTRACK_LISTEN'', 9),
    (''TCP_CONNTRACK_MAX'', 10), (''TCP_CONNTRACK_IGNORE'', 11), (''TCP_CONNTRACK_RETRANS'', 12),
    (''TCP_CONNTRACK_UNACK'', 13), (''TCP_CONNTRACK_TIMEOUT_MAX'', 14)]"

definition enum_tcp_fastopen_client_fail :: ctype where
  "enum_tcp_fastopen_client_fail = Enum False [
    (''TFO_STATUS_UNSPEC'', 0), (''TFO_COOKIE_UNAVAILABLE'', 1), (''TFO_DATA_NOT_ACKED'', 2),
    (''TFO_SYN_RETRANSMITTED'', 3)]"

definition enum_tcp_metric_index :: ctype where
  "enum_tcp_metric_index = Enum False [
    (''TCP_METRIC_RTT'', 0), (''TCP_METRIC_RTTVAR'', 1), (''TCP_METRIC_SSTHRESH'', 2),
    (''TCP_METRIC_CWND'', 3), (''TCP_METRIC_REORDERING'', 4), (''TCP_METRIC_RTT_US'', 5),
    (''TCP_METRIC_RTTVAR_US'', 6), (''__TCP_METRIC_MAX'', 7)]"

definition enum_tcp_queue :: ctype where
  "enum_tcp_queue = Enum False [
    (''TCP_FRAG_IN_WRITE_QUEUE'', 0), (''TCP_FRAG_IN_RTX_QUEUE'', 1)]"

definition enum_tcp_skb_cb_sacked_flags :: ctype where
  "enum_tcp_skb_cb_sacked_flags = Enum False [
    (''TCPCB_SACKED_ACKED'', 1), (''TCPCB_SACKED_RETRANS'', 2), (''TCPCB_LOST'', 4),
    (''TCPCB_TAGBITS'', 7), (''TCPCB_REPAIRED'', 16), (''TCPCB_EVER_RETRANS'', 128),
    (''TCPCB_RETRANS'', 146)]"

definition enum_tcp_synack_type :: ctype where
  "enum_tcp_synack_type = Enum False [
    (''TCP_SYNACK_NORMAL'', 0), (''TCP_SYNACK_FASTOPEN'', 1), (''TCP_SYNACK_COOKIE'', 2)]"

definition enum_tcp_tw_status :: ctype where
  "enum_tcp_tw_status = Enum False [
    (''TCP_TW_SUCCESS'', 0), (''TCP_TW_RST'', 1), (''TCP_TW_ACK'', 2), (''TCP_TW_SYN'', 3),
    (''TCP_TW_ACK_OOW'', 4)]"

definition enum_udp_conntrack :: ctype where
  "enum_udp_conntrack = Enum False [
    (''UDP_CT_UNREPLIED'', 0), (''UDP_CT_REPLIED'', 1), (''UDP_CT_MAX'', 2)]"

definition enum_udp_parsable_tunnel_type :: ctype where
  "enum_udp_parsable_tunnel_type = Enum False [
    (''UDP_TUNNEL_TYPE_VXLAN'', 1), (''UDP_TUNNEL_TYPE_GENEVE'', 2),
    (''UDP_TUNNEL_TYPE_VXLAN_GPE'', 4)]"

definition enum_udp_tunnel_nic_info_flags :: ctype where
  "enum_udp_tunnel_nic_info_flags = Enum False [
    (''UDP_TUNNEL_NIC_INFO_OPEN_ONLY'', 1), (''UDP_TUNNEL_NIC_INFO_IPV4_ONLY'', 2),
    (''UDP_TUNNEL_NIC_INFO_STATIC_IANA_VXLAN'', 4)]"

definition enum_udp_tunnel_nic_table_entry_flags :: ctype where
  "enum_udp_tunnel_nic_table_entry_flags = Enum False [
    (''UDP_TUNNEL_NIC_ENTRY_ADD'', 1), (''UDP_TUNNEL_NIC_ENTRY_DEL'', 2),
    (''UDP_TUNNEL_NIC_ENTRY_OP_FAIL'', 4), (''UDP_TUNNEL_NIC_ENTRY_FROZEN'', 8)]"

definition struct_ip_tunnel_key :: ctype where
  "struct_ip_tunnel_key = Comp Struct False [
    Member ''tun_id'' t___be64,
    Member ''u'' (Comp Union False [
      Member ''ipv4'' (Comp Struct False [
        Member ''src'' t___be32,
        Member ''dst'' t___be32]),
      Member ''ipv6'' (Comp Struct False [
        Member ''src'' struct_in6_addr,
        Member ''dst'' struct_in6_addr])]),
    Member ''tun_flags'' (Array 1 c_unsigned_long),
    Member ''label'' t___be32,
    Member ''nhid'' t_u32,
    Member ''tos'' t_u8,
    Member ''ttl'' t_u8,
    Member ''tp_src'' t___be16,
    Member ''tp_dst'' t___be16,
    Member ''flow_flags'' t___u8]"

definition struct_arp_eth_header :: ctype where
  "struct_arp_eth_header = Comp Struct False [
    Member ''ar_hrd'' t___be16,
    Member ''ar_pro'' t___be16,
    Member ''ar_hln'' c_unsigned_char,
    Member ''ar_pln'' c_unsigned_char,
    Member ''ar_op'' t___be16,
    Member ''ar_sha'' (Array 6 c_unsigned_char),
    Member ''ar_sip'' (Array 4 c_unsigned_char),
    Member ''ar_tha'' (Array 6 c_unsigned_char),
    Member ''ar_tip'' (Array 4 c_unsigned_char)]"

definition struct_arp_pkt :: ctype where
  "struct_arp_pkt = Comp Struct True [
    Member ''hw_addr_space'' t___be16,
    Member ''prot_addr_space'' t___be16,
    Member ''hw_addr_len'' t_u8,
    Member ''prot_addr_len'' t_u8,
    Member ''op_code'' t___be16,
    Member ''mac_src'' (Array 6 t_u8),
    Member ''ip_src'' t___be32,
    Member ''mac_dst'' (Array 6 t_u8),
    Member ''ip_dst'' t___be32]"

definition struct_arphdr :: ctype where
  "struct_arphdr = Comp Struct False [
    Member ''ar_hrd'' t___be16,
    Member ''ar_pro'' t___be16,
    Member ''ar_hln'' c_unsigned_char,
    Member ''ar_pln'' c_unsigned_char,
    Member ''ar_op'' t___be16]"

definition struct_arppayload :: ctype where
  "struct_arppayload = Comp Struct False [
    Member ''mac_src'' (Array 6 c_unsigned_char),
    Member ''ip_src'' (Array 4 c_unsigned_char),
    Member ''mac_dst'' (Array 6 c_unsigned_char),
    Member ''ip_dst'' (Array 4 c_unsigned_char)]"

definition t___kernel_sa_family_t :: ctype where
  "t___kernel_sa_family_t = c_unsigned_short"

definition t_sa_family_t :: ctype where
  "t_sa_family_t = t___kernel_sa_family_t"

definition struct_sockaddr :: ctype where
  "struct_sockaddr = Comp Struct False [
    Member ''sa_family'' t_sa_family_t,
    Member '''' (Comp Union False [
      Member ''sa_data_min'' (Array 14 c_char),
      Member '''' (Comp Struct False [
        Member ''__empty_sa_data'' (Comp Struct False []),
        Member ''sa_data'' (Array 0 c_char)])])]"

definition struct_arpreq :: ctype where
  "struct_arpreq = Comp Struct False [
    Member ''arp_pa'' struct_sockaddr,
    Member ''arp_ha'' struct_sockaddr,
    Member ''arp_flags'' c_int,
    Member ''arp_netmask'' struct_sockaddr,
    Member ''arp_dev'' (Array 16 c_char)]"

definition struct_in_addr :: ctype where
  "struct_in_addr = Comp Struct False [
    Member ''s_addr'' t___be32]"

definition struct_arpt_devaddr_info :: ctype where
  "struct_arpt_devaddr_info = Comp Struct False [
    Member ''addr'' (Array 16 c_char),
    Member ''mask'' (Array 16 c_char)]"

definition struct_arpt_arp :: ctype where
  "struct_arpt_arp = Comp Struct False [
    Member ''src'' struct_in_addr,
    Member ''tgt'' struct_in_addr,
    Member ''smsk'' struct_in_addr,
    Member ''tmsk'' struct_in_addr,
    Member ''arhln'' t___u8,
    Member ''arhln_mask'' t___u8,
    Member ''src_devaddr'' struct_arpt_devaddr_info,
    Member ''tgt_devaddr'' struct_arpt_devaddr_info,
    Member ''arpop'' t___be16,
    Member ''arpop_mask'' t___be16,
    Member ''arhrd'' t___be16,
    Member ''arhrd_mask'' t___be16,
    Member ''arpro'' t___be16,
    Member ''arpro_mask'' t___be16,
    Member ''iniface'' (Array 16 c_char),
    Member ''outiface'' (Array 16 c_char),
    Member ''iniface_mask'' (Array 16 c_unsigned_char),
    Member ''outiface_mask'' (Array 16 c_unsigned_char),
    Member ''flags'' t___u8,
    Member ''invflags'' t___u16]"

definition struct_xt_counters :: ctype where
  "struct_xt_counters = Comp Struct False [
    Member ''pcnt'' t___u64,
    Member ''bcnt'' t___u64]"

definition struct_arpt_entry :: ctype where
  "struct_arpt_entry = Comp Struct False [
    Member ''arp'' struct_arpt_arp,
    Member ''target_offset'' t___u16,
    Member ''next_offset'' t___u16,
    Member ''comefrom'' c_unsigned_int,
    Member ''counters'' struct_xt_counters,
    Member ''elems'' (Array 0 c_unsigned_char)]"

definition struct_xt_entry_target :: ctype where
  "struct_xt_entry_target = Comp Struct False [
    Member ''u'' (Comp Union False [
      Member ''user'' (Comp Struct False [
        Member ''target_size'' t___u16,
        Member ''name'' (Array 29 c_char),
        Member ''revision'' t___u8]),
      Member ''kernel'' (Comp Struct False [
        Member ''target_size'' t___u16,
        Member ''target'' (Ptr ''struct xt_target *'')]),
      Member ''target_size'' t___u16]),
    Member ''data'' (Array 0 c_unsigned_char)]"

definition struct_xt_error_target :: ctype where
  "struct_xt_error_target = Comp Struct False [
    Member ''target'' struct_xt_entry_target,
    Member ''errorname'' (Array 30 c_char)]"

definition struct_arpt_error :: ctype where
  "struct_arpt_error = Comp Struct False [
    Member ''entry'' struct_arpt_entry,
    Member ''target'' struct_xt_error_target]"

definition struct_arpt_get_entries :: ctype where
  "struct_arpt_get_entries = Comp Struct False [
    Member ''name'' (Array 32 c_char),
    Member ''size'' c_unsigned_int,
    Member ''entrytable'' (Array 0 struct_arpt_entry)]"

definition struct_arpt_getinfo :: ctype where
  "struct_arpt_getinfo = Comp Struct False [
    Member ''name'' (Array 32 c_char),
    Member ''valid_hooks'' c_unsigned_int,
    Member ''hook_entry'' (Array 3 c_unsigned_int),
    Member ''underflow'' (Array 3 c_unsigned_int),
    Member ''num_entries'' c_unsigned_int,
    Member ''size'' c_unsigned_int]"

definition struct_arpt_mangle :: ctype where
  "struct_arpt_mangle = Comp Struct False [
    Member ''src_devaddr'' (Array 16 c_char),
    Member ''tgt_devaddr'' (Array 16 c_char),
    Member ''u_s'' (Comp Union False [
      Member ''src_ip'' struct_in_addr]),
    Member ''u_t'' (Comp Union False [
      Member ''tgt_ip'' struct_in_addr]),
    Member ''flags'' t___u8,
    Member ''target'' c_int]"

definition struct_arpt_replace :: ctype where
  "struct_arpt_replace = Comp Struct False [
    Member ''name'' (Array 32 c_char),
    Member ''valid_hooks'' c_unsigned_int,
    Member ''num_entries'' c_unsigned_int,
    Member ''size'' c_unsigned_int,
    Member ''hook_entry'' (Array 3 c_unsigned_int),
    Member ''underflow'' (Array 3 c_unsigned_int),
    Member ''num_counters'' c_unsigned_int,
    Member ''counters'' (Ptr ''struct xt_counters *''),
    Member ''entries'' (Array 0 struct_arpt_entry)]"

definition struct_xt_standard_target :: ctype where
  "struct_xt_standard_target = Comp Struct False [
    Member ''target'' struct_xt_entry_target,
    Member ''verdict'' c_int]"

definition struct_arpt_standard :: ctype where
  "struct_arpt_standard = Comp Struct False [
    Member ''entry'' struct_arpt_entry,
    Member ''target'' struct_xt_standard_target]"

definition struct_dst_cache :: ctype where
  "struct_dst_cache = Comp Struct False [
    Member ''cache'' (Ptr ''struct dst_cache_pcpu *''),
    Member ''reset_ts'' c_unsigned_long]"

definition t_local_lock_t :: ctype where
  "t_local_lock_t = Comp Struct False []"

definition struct_dst_cache_pcpu :: ctype where
  "struct_dst_cache_pcpu = Comp Struct False [
    Member ''refresh_ts'' c_unsigned_long,
    Member ''dst'' (Ptr ''struct dst_entry *''),
    Member ''bh_lock'' t_local_lock_t,
    Member ''cookie'' t_u32,
    Member '''' (Comp Union False [
      Member ''in_saddr'' struct_in_addr,
      Member ''in6_saddr'' struct_in6_addr])]"

definition t_rcuref_t :: ctype where
  "t_rcuref_t = Comp Struct False [
    Member ''refcnt'' t_atomic_t]"

definition struct_dst_entry :: ctype where
  "struct_dst_entry = Comp Struct False [
    Member '''' (Comp Union False [
      Member ''dev'' (Ptr ''struct net_device *''),
      Member ''dev_rcu'' (Ptr ''struct net_device *'')]),
    Member ''ops'' (Ptr ''struct dst_ops *''),
    Member ''_metrics'' c_unsigned_long,
    Member ''expires'' c_unsigned_long,
    Member ''xfrm'' (Ptr ''struct xfrm_state *''),
    Member ''input'' (Ptr ''int (*)(struct sk_buff *)''),
    Member ''output'' (Ptr ''int (*)(struct net *, struct sock *, struct sk_buff *)''),
    Member ''flags'' c_unsigned_short,
    Member ''obsolete'' c_short,
    Member ''header_len'' c_unsigned_short,
    Member ''trailer_len'' c_unsigned_short,
    Member ''__rcuref'' t_rcuref_t,
    Member ''__use'' c_int,
    Member ''lastuse'' c_unsigned_long,
    Member ''callback_head'' struct_callback_head,
    Member ''error'' c_short,
    Member ''__pad'' c_short,
    Member ''tclassid'' t___u32,
    Member ''dev_tracker'' t_netdevice_tracker,
    Member ''rt_uncached'' struct_list_head,
    Member ''rt_uncached_list'' (Ptr ''struct uncached_list *''),
    Member ''lwtstate'' (Ptr ''struct lwtunnel_state *'')]"

definition struct_dst_metrics :: ctype where
  "struct_dst_metrics = Comp Struct False [
    Member ''metrics'' (Array 17 t_u32),
    Member ''refcnt'' t_refcount_t]"

definition struct_ip_options :: ctype where
  "struct_ip_options = Comp Struct False [
    Member ''faddr'' t___be32,
    Member ''nexthop'' t___be32,
    Member ''optlen'' c_unsigned_char,
    Member ''srr'' c_unsigned_char,
    Member ''rr'' c_unsigned_char,
    Member ''ts'' c_unsigned_char,
    BitField ''is_strictroute'' c_unsigned_char 1,
    BitField ''srr_is_hit'' c_unsigned_char 1,
    BitField ''is_changed'' c_unsigned_char 1,
    BitField ''rr_needaddr'' c_unsigned_char 1,
    BitField ''ts_needtime'' c_unsigned_char 1,
    BitField ''ts_needaddr'' c_unsigned_char 1,
    Member ''router_alert'' c_unsigned_char,
    Member ''cipso'' c_unsigned_char,
    Member ''__pad2'' c_unsigned_char,
    Member ''__data'' (Array 0 c_unsigned_char)]"

definition struct_inet_skb_parm :: ctype where
  "struct_inet_skb_parm = Comp Struct False [
    Member ''iif'' c_int,
    Member ''opt'' struct_ip_options,
    Member ''flags'' t_u16,
    Member ''frag_max_size'' t_u16]"

definition struct_inet6_skb_parm :: ctype where
  "struct_inet6_skb_parm = Comp Struct False [
    Member ''iif'' c_int,
    Member ''ra'' t___be16,
    Member ''dst0'' t___u16,
    Member ''srcrt'' t___u16,
    Member ''dst1'' t___u16,
    Member ''lastopt'' t___u16,
    Member ''nhoff'' t___u16,
    Member ''flags'' t___u16,
    Member ''frag_max_size'' t___u16,
    Member ''srhoff'' t___u16]"

definition struct_fib_kuid_range :: ctype where
  "struct_fib_kuid_range = Comp Struct False [
    Member ''start'' t_kuid_t,
    Member ''end'' t_kuid_t]"

definition struct_fib_rule_port_range :: ctype where
  "struct_fib_rule_port_range = Comp Struct False [
    Member ''start'' t___u16,
    Member ''end'' t___u16]"

definition struct_fib_rule :: ctype where
  "struct_fib_rule = Comp Struct False [
    Member ''list'' struct_list_head,
    Member ''iifindex'' c_int,
    Member ''oifindex'' c_int,
    Member ''mark'' t_u32,
    Member ''mark_mask'' t_u32,
    Member ''flags'' t_u32,
    Member ''table'' t_u32,
    Member ''action'' t_u8,
    Member ''l3mdev'' t_u8,
    Member ''proto'' t_u8,
    Member ''ip_proto'' t_u8,
    Member ''target'' t_u32,
    Member ''tun_id'' t___be64,
    Member ''ctarget'' (Ptr ''struct fib_rule *''),
    Member ''fr_net'' (Ptr ''struct net *''),
    Member ''refcnt'' t_refcount_t,
    Member ''pref'' t_u32,
    Member ''suppress_ifgroup'' c_int,
    Member ''suppress_prefixlen'' c_int,
    Member ''iifname'' (Array 16 c_char),
    Member ''oifname'' (Array 16 c_char),
    Member ''uid_range'' struct_fib_kuid_range,
    Member ''sport_range'' struct_fib_rule_port_range,
    Member ''dport_range'' struct_fib_rule_port_range,
    Member ''sport_mask'' t_u16,
    Member ''dport_mask'' t_u16,
    Member ''iif_is_l3_master'' t_u8,
    Member ''oif_is_l3_master'' t_u8,
    Member ''rcu'' struct_callback_head]"

definition t_dscp_t :: ctype where
  "t_dscp_t = t_u8"

definition struct_fib4_rule :: ctype where
  "struct_fib4_rule = Comp Struct False [
    Member ''common'' struct_fib_rule,
    Member ''dst_len'' t_u8,
    Member ''src_len'' t_u8,
    Member ''dscp'' t_dscp_t,
    Member ''dscp_mask'' t_dscp_t,
    BitField ''dscp_full'' t_u8 1,
    Member ''src'' t___be32,
    Member ''srcmask'' t___be32,
    Member ''dst'' t___be32,
    Member ''dstmask'' t___be32,
    Member ''tclassid'' t_u32]"

definition struct_fib6_walker :: ctype where
  "struct_fib6_walker = Comp Struct False [
    Member ''lh'' struct_list_head,
    Member ''root'' (Ptr ''struct fib6_node *''),
    Member ''node'' (Ptr ''struct fib6_node *''),
    Member ''leaf'' (Ptr ''struct fib6_info *''),
    Member ''state'' enum_fib6_walk_state,
    Member ''skip'' c_unsigned_int,
    Member ''count'' c_unsigned_int,
    Member ''skip_in_node'' c_unsigned_int,
    Member ''func'' (Ptr ''int (*)(struct fib6_walker *)''),
    Member ''args'' (Ptr ''void *'')]"

definition struct_fib6_cleaner :: ctype where
  "struct_fib6_cleaner = Comp Struct False [
    Member ''w'' struct_fib6_walker,
    Member ''net'' (Ptr ''struct net *''),
    Member ''func'' (Ptr ''int (*)(struct fib6_info *, void *)''),
    Member ''sernum'' c_int,
    Member ''arg'' (Ptr ''void *''),
    Member ''skip_notify'' t_bool]"

definition struct_nl_info :: ctype where
  "struct_nl_info = Comp Struct False [
    Member ''nlh'' (Ptr ''struct nlmsghdr *''),
    Member ''nl_net'' (Ptr ''struct net *''),
    Member ''portid'' t_u32,
    BitField ''skip_notify'' t_u8 1,
    BitField ''skip_notify_kernel'' t_u8 1]"

definition struct_fib6_config :: ctype where
  "struct_fib6_config = Comp Struct False [
    Member ''fc_table'' t_u32,
    Member ''fc_metric'' t_u32,
    Member ''fc_dst_len'' c_int,
    Member ''fc_src_len'' c_int,
    Member ''fc_ifindex'' c_int,
    Member ''fc_flags'' t_u32,
    Member ''fc_protocol'' t_u32,
    Member ''fc_type'' t_u16,
    BitField ''fc_delete_all_nh'' t_u16 1,
    BitField ''fc_ignore_dev_down'' t_u16 1,
    BitField ''__unused'' t_u16 14,
    Member ''fc_nh_id'' t_u32,
    Member ''fc_dst'' struct_in6_addr,
    Member ''fc_src'' struct_in6_addr,
    Member ''fc_prefsrc'' struct_in6_addr,
    Member ''fc_gateway'' struct_in6_addr,
    Member ''fc_expires'' c_unsigned_long,
    Member ''fc_mx'' (Ptr ''struct nlattr *''),
    Member ''fc_mx_len'' c_int,
    Member ''fc_mp_len'' c_int,
    Member ''fc_mp'' (Ptr ''struct nlattr *''),
    Member ''fc_nlinfo'' struct_nl_info,
    Member ''fc_encap'' (Ptr ''struct nlattr *''),
    Member ''fc_encap_type'' t_u16,
    Member ''fc_is_fdb'' t_bool]"

definition struct_fib6_dump_arg :: ctype where
  "struct_fib6_dump_arg = Comp Struct False [
    Member ''net'' (Ptr ''struct net *''),
    Member ''nb'' (Ptr ''struct notifier_block *''),
    Member ''extack'' (Ptr ''struct netlink_ext_ack *'')]"

definition struct_fib_notifier_info :: ctype where
  "struct_fib_notifier_info = Comp Struct False [
    Member ''family'' c_int,
    Member ''extack'' (Ptr ''struct netlink_ext_ack *'')]"

definition struct_fib6_entry_notifier_info :: ctype where
  "struct_fib6_entry_notifier_info = Comp Struct False [
    Member ''info'' struct_fib_notifier_info,
    Member ''rt'' (Ptr ''struct fib6_info *''),
    Member ''nsiblings'' c_unsigned_int]"

definition struct_fib6_gc_args :: ctype where
  "struct_fib6_gc_args = Comp Struct False [
    Member ''timeout'' c_int,
    Member ''more'' c_int]"

definition struct_rt6key :: ctype where
  "struct_rt6key = Comp Struct False [
    Member ''addr'' struct_in6_addr,
    Member ''plen'' c_int]"

definition struct_fib_nh_common :: ctype where
  "struct_fib_nh_common = Comp Struct False [
    Member ''nhc_dev'' (Ptr ''struct net_device *''),
    Member ''nhc_dev_tracker'' t_netdevice_tracker,
    Member ''nhc_oif'' c_int,
    Member ''nhc_scope'' c_unsigned_char,
    Member ''nhc_family'' t_u8,
    Member ''nhc_gw_family'' t_u8,
    Member ''nhc_flags'' c_unsigned_char,
    Member ''nhc_lwtstate'' (Ptr ''struct lwtunnel_state *''),
    Member ''nhc_gw'' (Comp Union False [
      Member ''ipv4'' t___be32,
      Member ''ipv6'' struct_in6_addr]),
    Member ''nhc_weight'' c_int,
    Member ''nhc_upper_bound'' t_atomic_t,
    Member ''nhc_pcpu_rth_output'' (Ptr ''struct rtable **''),
    Member ''nhc_rth_input'' (Ptr ''struct rtable *''),
    Member ''nhc_exceptions'' (Ptr ''struct fnhe_hash_bucket *'')]"

definition struct_fib6_nh :: ctype where
  "struct_fib6_nh = Comp Struct False [
    Member ''nh_common'' struct_fib_nh_common,
    Member ''rt6i_pcpu'' (Ptr ''struct rt6_info **''),
    Member ''rt6i_exception_bucket'' (Ptr ''struct rt6_exception_bucket *'')]"

definition struct_fib6_info :: ctype where
  "struct_fib6_info = Comp Struct False [
    Member ''fib6_table'' (Ptr ''struct fib6_table *''),
    Member ''fib6_next'' (Ptr ''struct fib6_info *''),
    Member ''fib6_node'' (Ptr ''struct fib6_node *''),
    Member '''' (Comp Union False [
      Member ''fib6_siblings'' struct_list_head,
      Member ''nh_list'' struct_list_head]),
    Member ''fib6_nsiblings'' c_unsigned_int,
    Member ''fib6_ref'' t_refcount_t,
    Member ''expires'' c_unsigned_long,
    Member ''gc_link'' struct_hlist_node,
    Member ''fib6_metrics'' (Ptr ''struct dst_metrics *''),
    Member ''fib6_dst'' struct_rt6key,
    Member ''fib6_flags'' t_u32,
    Member ''fib6_src'' struct_rt6key,
    Member ''fib6_prefsrc'' struct_rt6key,
    Member ''fib6_metric'' t_u32,
    Member ''fib6_protocol'' t_u8,
    Member ''fib6_type'' t_u8,
    Member ''offload'' t_u8,
    Member ''trap'' t_u8,
    Member ''offload_failed'' t_u8,
    BitField ''should_flush'' t_u8 1,
    BitField ''dst_nocount'' t_u8 1,
    BitField ''dst_nopolicy'' t_u8 1,
    BitField ''fib6_destroying'' t_u8 1,
    BitField ''unused'' t_u8 4,
    Member ''purge_link'' struct_list_head,
    Member ''rcu'' struct_callback_head,
    Member ''nh'' (Ptr ''struct nexthop *''),
    Member ''fib6_nh'' (Array 0 struct_fib6_nh)]"

definition struct_fib6_nh_age_excptn_arg :: ctype where
  "struct_fib6_nh_age_excptn_arg = Comp Struct False [
    Member ''gc_args'' (Ptr ''struct fib6_gc_args *''),
    Member ''now'' c_unsigned_long]"

definition struct_fib6_nh_del_cached_rt_arg :: ctype where
  "struct_fib6_nh_del_cached_rt_arg = Comp Struct False [
    Member ''cfg'' (Ptr ''struct fib6_config *''),
    Member ''f6i'' (Ptr ''struct fib6_info *'')]"

definition struct_fib6_nh_dm_arg :: ctype where
  "struct_fib6_nh_dm_arg = Comp Struct False [
    Member ''net'' (Ptr ''struct net *''),
    Member ''saddr'' (Ptr ''struct in6_addr *''),
    Member ''oif'' c_int,
    Member ''flags'' c_int,
    Member ''nh'' (Ptr ''struct fib6_nh *'')]"

definition struct_fib6_nh_exception_dump_walker :: ctype where
  "struct_fib6_nh_exception_dump_walker = Comp Struct False [
    Member ''dump'' (Ptr ''struct rt6_rtnl_dump_arg *''),
    Member ''rt'' (Ptr ''struct fib6_info *''),
    Member ''flags'' c_unsigned_int,
    Member ''skip'' c_unsigned_int,
    Member ''count'' c_unsigned_int]"

definition struct_fib6_nh_excptn_arg :: ctype where
  "struct_fib6_nh_excptn_arg = Comp Struct False [
    Member ''rt'' (Ptr ''struct rt6_info *''),
    Member ''plen'' c_int]"

definition struct_fib6_nh_frl_arg :: ctype where
  "struct_fib6_nh_frl_arg = Comp Struct False [
    Member ''flags'' t_u32,
    Member ''oif'' c_int,
    Member ''strict'' c_int,
    Member ''mpri'' (Ptr ''int *''),
    Member ''do_rr'' (Ptr ''bool *''),
    Member ''nh'' (Ptr ''struct fib6_nh *'')]"

definition struct_fib6_nh_match_arg :: ctype where
  "struct_fib6_nh_match_arg = Comp Struct False [
    Member ''dev'' (Ptr ''struct net_device *''),
    Member ''gw'' (Ptr ''struct in6_addr *''),
    Member ''match'' (Ptr ''struct fib6_nh *'')]"

definition struct_fib6_nh_rd_arg :: ctype where
  "struct_fib6_nh_rd_arg = Comp Struct False [
    Member ''res'' (Ptr ''struct fib6_result *''),
    Member ''fl6'' (Ptr ''struct flowi6 *''),
    Member ''gw'' (Ptr ''struct in6_addr *''),
    Member ''ret'' (Ptr ''struct rt6_info **'')]"

definition struct_fib6_node :: ctype where
  "struct_fib6_node = Comp Struct False [
    Member ''parent'' (Ptr ''struct fib6_node *''),
    Member ''left'' (Ptr ''struct fib6_node *''),
    Member ''right'' (Ptr ''struct fib6_node *''),
    Member ''leaf'' (Ptr ''struct fib6_info *''),
    Member ''fn_bit'' t___u16,
    Member ''fn_flags'' t___u16,
    Member ''fn_sernum'' c_int,
    Member ''rr_ptr'' (Ptr ''struct fib6_info *''),
    Member ''rcu'' struct_callback_head]"

definition struct_fib6_result :: ctype where
  "struct_fib6_result = Comp Struct False [
    Member ''nh'' (Ptr ''struct fib6_nh *''),
    Member ''f6i'' (Ptr ''struct fib6_info *''),
    Member ''fib6_flags'' t_u32,
    Member ''fib6_type'' t_u8,
    Member ''rt6'' (Ptr ''struct rt6_info *'')]"

definition struct_fib6_rule :: ctype where
  "struct_fib6_rule = Comp Struct False [
    Member ''common'' struct_fib_rule,
    Member ''src'' struct_rt6key,
    Member ''dst'' struct_rt6key,
    Member ''flowlabel'' t___be32,
    Member ''flowlabel_mask'' t___be32,
    Member ''dscp'' t_dscp_t,
    Member ''dscp_mask'' t_dscp_t,
    BitField ''dscp_full'' t_u8 1]"

definition struct_inet_peer_base :: ctype where
  "struct_inet_peer_base = Comp Struct False [
    Member ''rb_root'' struct_rb_root,
    Member ''lock'' t_seqlock_t,
    Member ''total'' c_int]"

definition struct_fib6_table :: ctype where
  "struct_fib6_table = Comp Struct False [
    Member ''tb6_hlist'' struct_hlist_node,
    Member ''tb6_id'' t_u32,
    Member ''tb6_lock'' t_spinlock_t,
    Member ''tb6_root'' struct_fib6_node,
    Member ''tb6_peers'' struct_inet_peer_base,
    Member ''flags'' c_unsigned_int,
    Member ''fib_seq'' c_unsigned_int,
    Member ''tb6_gc_hlist'' struct_hlist_head]"

definition struct_fib_alias :: ctype where
  "struct_fib_alias = Comp Struct False [
    Member ''fa_list'' struct_hlist_node,
    Member ''fa_info'' (Ptr ''struct fib_info *''),
    Member ''fa_dscp'' t_dscp_t,
    Member ''fa_type'' t_u8,
    Member ''fa_state'' t_u8,
    Member ''fa_slen'' t_u8,
    Member ''tb_id'' t_u32,
    Member ''fa_default'' t_s16,
    Member ''offload'' t_u8,
    Member ''trap'' t_u8,
    Member ''offload_failed'' t_u8,
    Member ''rcu'' struct_callback_head]"

definition struct_fib_config :: ctype where
  "struct_fib_config = Comp Struct False [
    Member ''fc_dst_len'' t_u8,
    Member ''fc_dscp'' t_dscp_t,
    Member ''fc_protocol'' t_u8,
    Member ''fc_scope'' t_u8,
    Member ''fc_type'' t_u8,
    Member ''fc_gw_family'' t_u8,
    Member ''fc_table'' t_u32,
    Member ''fc_dst'' t___be32,
    Member '''' (Comp Union False [
      Member ''fc_gw4'' t___be32,
      Member ''fc_gw6'' struct_in6_addr]),
    Member ''fc_oif'' c_int,
    Member ''fc_flags'' t_u32,
    Member ''fc_priority'' t_u32,
    Member ''fc_prefsrc'' t___be32,
    Member ''fc_nh_id'' t_u32,
    Member ''fc_mx'' (Ptr ''struct nlattr *''),
    Member ''fc_mp'' (Ptr ''struct rtnexthop *''),
    Member ''fc_mx_len'' c_int,
    Member ''fc_mp_len'' c_int,
    Member ''fc_flow'' t_u32,
    Member ''fc_nlflags'' t_u32,
    Member ''fc_nlinfo'' struct_nl_info,
    Member ''fc_encap'' (Ptr ''struct nlattr *''),
    Member ''fc_encap_type'' t_u16]"

definition struct_fib_dump_filter :: ctype where
  "struct_fib_dump_filter = Comp Struct False [
    Member ''table_id'' t_u32,
    Member ''filter_set'' t_bool,
    Member ''dump_routes'' t_bool,
    Member ''dump_exceptions'' t_bool,
    Member ''rtnl_held'' t_bool,
    Member ''protocol'' c_unsigned_char,
    Member ''rt_type'' c_unsigned_char,
    Member ''flags'' c_unsigned_int,
    Member ''dev'' (Ptr ''struct net_device *'')]"

definition struct_fib_entry_notifier_info :: ctype where
  "struct_fib_entry_notifier_info = Comp Struct False [
    Member ''info'' struct_fib_notifier_info,
    Member ''dst'' t_u32,
    Member ''dst_len'' c_int,
    Member ''fi'' (Ptr ''struct fib_info *''),
    Member ''dscp'' t_dscp_t,
    Member ''type'' t_u8,
    Member ''tb_id'' t_u32]"

definition struct_fib_nh :: ctype where
  "struct_fib_nh = Comp Struct False [
    Member ''nh_common'' struct_fib_nh_common,
    Member ''nh_hash'' struct_hlist_node,
    Member ''nh_parent'' (Ptr ''struct fib_info *''),
    Member ''nh_tclassid'' t___u32,
    Member ''nh_saddr'' t___be32,
    Member ''nh_saddr_genid'' c_int]"

definition struct_fib_info :: ctype where
  "struct_fib_info = Comp Struct False [
    Member ''fib_hash'' struct_hlist_node,
    Member ''fib_lhash'' struct_hlist_node,
    Member ''nh_list'' struct_list_head,
    Member ''fib_net'' (Ptr ''struct net *''),
    Member ''fib_treeref'' t_refcount_t,
    Member ''fib_clntref'' t_refcount_t,
    Member ''fib_flags'' c_unsigned_int,
    Member ''fib_dead'' c_unsigned_char,
    Member ''fib_protocol'' c_unsigned_char,
    Member ''fib_scope'' c_unsigned_char,
    Member ''fib_type'' c_unsigned_char,
    Member ''fib_prefsrc'' t___be32,
    Member ''fib_tb_id'' t_u32,
    Member ''fib_priority'' t_u32,
    Member ''fib_metrics'' (Ptr ''struct dst_metrics *''),
    Member ''fib_nhs'' c_int,
    Member ''fib_nh_is_v6'' t_bool,
    Member ''nh_updated'' t_bool,
    Member ''pfsrc_removed'' t_bool,
    Member ''nh'' (Ptr ''struct nexthop *''),
    Member ''rcu'' struct_callback_head,
    Member ''fib_nh'' (Array 0 struct_fib_nh)]"

definition struct_fib_lookup_arg :: ctype where
  "struct_fib_lookup_arg = Comp Struct False [
    Member ''lookup_ptr'' (Ptr ''void *''),
    Member ''lookup_data'' (Ptr ''void *''),
    Member ''result'' (Ptr ''void *''),
    Member ''rule'' (Ptr ''struct fib_rule *''),
    Member ''table'' t_u32,
    Member ''flags'' c_int]"

definition struct_fib_nh_exception :: ctype where
  "struct_fib_nh_exception = Comp Struct False [
    Member ''fnhe_next'' (Ptr ''struct fib_nh_exception *''),
    Member ''fnhe_genid'' c_int,
    Member ''fnhe_daddr'' t___be32,
    Member ''fnhe_pmtu'' t_u32,
    Member ''fnhe_mtu_locked'' t_bool,
    Member ''fnhe_gw'' t___be32,
    Member ''fnhe_expires'' c_unsigned_long,
    Member ''fnhe_rth_input'' (Ptr ''struct rtable *''),
    Member ''fnhe_rth_output'' (Ptr ''struct rtable *''),
    Member ''fnhe_stamp'' c_unsigned_long,
    Member ''rcu'' struct_callback_head]"

definition struct_fib_nh_notifier_info :: ctype where
  "struct_fib_nh_notifier_info = Comp Struct False [
    Member ''info'' struct_fib_notifier_info,
    Member ''fib_nh'' (Ptr ''struct fib_nh *'')]"

definition struct_atomic_notifier_head :: ctype where
  "struct_atomic_notifier_head = Comp Struct False [
    Member ''lock'' t_spinlock_t,
    Member ''head'' (Ptr ''struct notifier_block *'')]"

definition struct_fib_notifier_net :: ctype where
  "struct_fib_notifier_net = Comp Struct False [
    Member ''fib_notifier_ops'' struct_list_head,
    Member ''fib_chain'' struct_atomic_notifier_head]"

definition struct_fib_notifier_ops :: ctype where
  "struct_fib_notifier_ops = Comp Struct False [
    Member ''family'' c_int,
    Member ''list'' struct_list_head,
    Member ''fib_seq_read'' (Ptr ''unsigned int (*)(const struct net *)''),
    Member ''fib_dump'' (Ptr ''int (*)(struct net *, struct notifier_block *, struct netlink_ext_ack *)''),
    Member ''owner'' (Ptr ''struct module *''),
    Member ''rcu'' struct_callback_head]"

definition struct_fib_prop :: ctype where
  "struct_fib_prop = Comp Struct False [
    Member ''error'' c_int,
    Member ''scope'' t_u8]"

definition struct_fib_result :: ctype where
  "struct_fib_result = Comp Struct False [
    Member ''prefix'' t___be32,
    Member ''prefixlen'' c_unsigned_char,
    Member ''nh_sel'' c_unsigned_char,
    Member ''type'' c_unsigned_char,
    Member ''scope'' c_unsigned_char,
    Member ''tclassid'' t_u32,
    Member ''dscp'' t_dscp_t,
    Member ''nhc'' (Ptr ''struct fib_nh_common *''),
    Member ''fi'' (Ptr ''struct fib_info *''),
    Member ''table'' (Ptr ''struct fib_table *''),
    Member ''fa_head'' (Ptr ''struct hlist_head *'')]"

definition struct_fib_result_nl :: ctype where
  "struct_fib_result_nl = Comp Struct False [
    Member ''fl_addr'' t___be32,
    Member ''fl_mark'' t_u32,
    Member ''fl_tos'' c_unsigned_char,
    Member ''fl_scope'' c_unsigned_char,
    Member ''tb_id_in'' c_unsigned_char,
    Member ''tb_id'' c_unsigned_char,
    Member ''prefixlen'' c_unsigned_char,
    Member ''nh_sel'' c_unsigned_char,
    Member ''type'' c_unsigned_char,
    Member ''scope'' c_unsigned_char,
    Member ''err'' c_int]"

definition t_t_key :: ctype where
  "t_t_key = c_unsigned_int"

definition struct_fib_route_iter :: ctype where
  "struct_fib_route_iter = Comp Struct False [
    Member ''p'' struct_seq_net_private,
    Member ''main_tb'' (Ptr ''struct fib_table *''),
    Member ''tnode'' (Ptr ''struct key_vector *''),
    Member ''pos'' t_loff_t,
    Member ''key'' t_t_key]"

definition struct_fib_rt_info :: ctype where
  "struct_fib_rt_info = Comp Struct False [
    Member ''fi'' (Ptr ''struct fib_info *''),
    Member ''tb_id'' t_u32,
    Member ''dst'' t___be32,
    Member ''dst_len'' c_int,
    Member ''dscp'' t_dscp_t,
    Member ''type'' t_u8,
    BitField ''offload'' t_u8 1,
    BitField ''trap'' t_u8 1,
    BitField ''offload_failed'' t_u8 1,
    BitField ''unused'' t_u8 5]"

definition struct_fib_rule_hdr :: ctype where
  "struct_fib_rule_hdr = Comp Struct False [
    Member ''family'' t___u8,
    Member ''dst_len'' t___u8,
    Member ''src_len'' t___u8,
    Member ''tos'' t___u8,
    Member ''table'' t___u8,
    Member ''res1'' t___u8,
    Member ''res2'' t___u8,
    Member ''action'' t___u8,
    Member ''flags'' t___u32]"

definition struct_fib_rule_notifier_info :: ctype where
  "struct_fib_rule_notifier_info = Comp Struct False [
    Member ''info'' struct_fib_notifier_info,
    Member ''rule'' (Ptr ''struct fib_rule *'')]"

definition struct_fib_rule_uid_range :: ctype where
  "struct_fib_rule_uid_range = Comp Struct False [
    Member ''start'' t___u32,
    Member ''end'' t___u32]"

definition struct_fib_rules_ops :: ctype where
  "struct_fib_rules_ops = Comp Struct False [
    Member ''family'' c_int,
    Member ''list'' struct_list_head,
    Member ''rule_size'' c_int,
    Member ''addr_size'' c_int,
    Member ''unresolved_rules'' c_int,
    Member ''nr_goto_rules'' c_int,
    Member ''fib_rules_seq'' c_unsigned_int,
    Member ''action'' (Ptr ''int (*)(struct fib_rule *, struct flowi *, int, struct fib_lookup_arg *)''),
    Member ''suppress'' (Ptr ''bool (*)(struct fib_rule *, int, struct fib_lookup_arg *)''),
    Member ''match'' (Ptr ''int (*)(struct fib_rule *, struct flowi *, int)''),
    Member ''configure'' (Ptr ''int (*)(struct fib_rule *, struct sk_buff *, struct fib_rule_hdr *, struct nlattr **, struct netlink_ext_ack *)''),
    Member ''delete'' (Ptr ''int (*)(struct fib_rule *)''),
    Member ''compare'' (Ptr ''int (*)(struct fib_rule *, struct fib_rule_hdr *, struct nlattr **)''),
    Member ''fill'' (Ptr ''int (*)(struct fib_rule *, struct sk_buff *, struct fib_rule_hdr *)''),
    Member ''nlmsg_payload'' (Ptr ''size_t (*)(struct fib_rule *)''),
    Member ''flush_cache'' (Ptr ''void (*)(struct fib_rules_ops *)''),
    Member ''nlgroup'' c_int,
    Member ''rules_list'' struct_list_head,
    Member ''owner'' (Ptr ''struct module *''),
    Member ''fro_net'' (Ptr ''struct net *''),
    Member ''rcu'' struct_callback_head]"

definition struct_fib_table :: ctype where
  "struct_fib_table = Comp Struct False [
    Member ''tb_hlist'' struct_hlist_node,
    Member ''tb_id'' t_u32,
    Member ''tb_num_default'' c_int,
    Member ''rcu'' struct_callback_head,
    Member ''tb_data'' (Ptr ''unsigned long *''),
    Member ''__data'' (Array 0 c_unsigned_long)]"

definition struct_fib_trie_iter :: ctype where
  "struct_fib_trie_iter = Comp Struct False [
    Member ''p'' struct_seq_net_private,
    Member ''tb'' (Ptr ''struct fib_table *''),
    Member ''tnode'' (Ptr ''struct key_vector *''),
    Member ''index'' c_unsigned_int,
    Member ''depth'' c_unsigned_int]"

definition struct_udp_port_cfg :: ctype where
  "struct_udp_port_cfg = Comp Struct False [
    Member ''family'' t_u8,
    Member '''' (Comp Union False [
      Member ''local_ip'' struct_in_addr,
      Member ''local_ip6'' struct_in6_addr]),
    Member '''' (Comp Union False [
      Member ''peer_ip'' struct_in_addr,
      Member ''peer_ip6'' struct_in6_addr]),
    Member ''local_udp_port'' t___be16,
    Member ''peer_udp_port'' t___be16,
    Member ''bind_ifindex'' c_int,
    BitField ''use_udp_checksums'' c_unsigned_int 1,
    BitField ''use_udp6_tx_checksums'' c_unsigned_int 1,
    BitField ''use_udp6_rx_checksums'' c_unsigned_int 1,
    BitField ''ipv6_v6only'' c_unsigned_int 1]"

definition struct_frag_v4_compare_key :: ctype where
  "struct_frag_v4_compare_key = Comp Struct False [
    Member ''saddr'' t___be32,
    Member ''daddr'' t___be32,
    Member ''user'' t_u32,
    Member ''vif'' t_u32,
    Member ''id'' t___be16,
    Member ''protocol'' t_u16]"

definition struct_frag_v6_compare_key :: ctype where
  "struct_frag_v6_compare_key = Comp Struct False [
    Member ''saddr'' struct_in6_addr,
    Member ''daddr'' struct_in6_addr,
    Member ''user'' t_u32,
    Member ''id'' t___be32,
    Member ''iif'' t_u32]"

definition struct_inet_frag_queue :: ctype where
  "struct_inet_frag_queue = Comp Struct False [
    Member ''node'' struct_rhash_head,
    Member ''key'' (Comp Union False [
      Member ''v4'' struct_frag_v4_compare_key,
      Member ''v6'' struct_frag_v6_compare_key]),
    Member ''timer'' struct_timer_list,
    Member ''lock'' t_spinlock_t,
    Member ''refcnt'' t_refcount_t,
    Member ''rb_fragments'' struct_rb_root,
    Member ''fragments_tail'' (Ptr ''struct sk_buff *''),
    Member ''last_run_head'' (Ptr ''struct sk_buff *''),
    Member ''stamp'' t_ktime_t,
    Member ''len'' c_int,
    Member ''meat'' c_int,
    Member ''tstamp_type'' t_u8,
    Member ''flags'' t___u8,
    Member ''max_size'' t_u16,
    Member ''fqdir'' (Ptr ''struct fqdir *''),
    Member ''rcu'' struct_callback_head]"

definition struct_ip_tunnel_encap :: ctype where
  "struct_ip_tunnel_encap = Comp Struct False [
    Member ''type'' t_u16,
    Member ''flags'' t_u16,
    Member ''sport'' t___be16,
    Member ''dport'' t___be16]"

definition struct_ip_tunnel_info :: ctype where
  "struct_ip_tunnel_info = Comp Struct False [
    Member ''key'' struct_ip_tunnel_key,
    Member ''encap'' struct_ip_tunnel_encap,
    Member ''dst_cache'' struct_dst_cache,
    Member ''options_len'' t_u8,
    Member ''mode'' t_u8,
    BitField '''' c_long 0,
    Member ''options'' (Array 0 t_u8)]"

definition struct_ip_set_skbinfo :: ctype where
  "struct_ip_set_skbinfo = Comp Struct False [
    Member ''skbmark'' t_u32,
    Member ''skbmarkmask'' t_u32,
    Member ''skbprio'' t_u32,
    Member ''skbqueue'' t_u16,
    Member ''__pad'' t_u16]"

definition struct_ip_set_ext :: ctype where
  "struct_ip_set_ext = Comp Struct False [
    Member ''skbinfo'' struct_ip_set_skbinfo,
    Member ''packets'' t_u64,
    Member ''bytes'' t_u64,
    Member ''comment'' (Ptr ''char *''),
    Member ''timeout'' t_u32,
    Member ''packets_op'' t_u8,
    Member ''bytes_op'' t_u8,
    Member ''target'' t_bool]"

definition struct_icmp6_err :: ctype where
  "struct_icmp6_err = Comp Struct False [
    Member ''err'' c_int,
    Member ''fatal'' c_int]"

definition struct_icmp6_filter :: ctype where
  "struct_icmp6_filter = Comp Struct False [
    Member ''data'' (Array 8 t___u32)]"

definition struct_icmpv6_echo :: ctype where
  "struct_icmpv6_echo = Comp Struct False [
    Member ''identifier'' t___be16,
    Member ''sequence'' t___be16]"

definition struct_icmpv6_nd_advt :: ctype where
  "struct_icmpv6_nd_advt = Comp Struct False [
    BitField ''reserved'' t___u32 5,
    BitField ''override'' t___u32 1,
    BitField ''solicited'' t___u32 1,
    BitField ''router'' t___u32 1,
    BitField ''reserved2'' t___u32 24]"

definition struct_icmpv6_nd_ra :: ctype where
  "struct_icmpv6_nd_ra = Comp Struct False [
    Member ''hop_limit'' t___u8,
    BitField ''reserved'' t___u8 3,
    BitField ''router_pref'' t___u8 2,
    BitField ''home_agent'' t___u8 1,
    BitField ''other'' t___u8 1,
    BitField ''managed'' t___u8 1,
    Member ''rt_lifetime'' t___be16]"

definition struct_icmp6hdr :: ctype where
  "struct_icmp6hdr = Comp Struct False [
    Member ''icmp6_type'' t___u8,
    Member ''icmp6_code'' t___u8,
    Member ''icmp6_cksum'' t___sum16,
    Member ''icmp6_dataun'' (Comp Union False [
      Member ''un_data32'' (Array 1 t___be32),
      Member ''un_data16'' (Array 2 t___be16),
      Member ''un_data8'' (Array 4 t___u8),
      Member ''u_echo'' struct_icmpv6_echo,
      Member ''u_nd_advt'' struct_icmpv6_nd_advt,
      Member ''u_nd_ra'' struct_icmpv6_nd_ra])]"

definition struct_icmphdr :: ctype where
  "struct_icmphdr = Comp Struct False [
    Member ''type'' t___u8,
    Member ''code'' t___u8,
    Member ''checksum'' t___sum16,
    Member ''un'' (Comp Union False [
      Member ''echo'' (Comp Struct False [
        Member ''id'' t___be16,
        Member ''sequence'' t___be16]),
      Member ''gateway'' t___be32,
      Member ''frag'' (Comp Struct False [
        Member ''__unused'' t___be16,
        Member ''mtu'' t___be16]),
      Member ''reserved'' (Array 4 t___u8)])]"

definition struct_ip_options_rcu :: ctype where
  "struct_ip_options_rcu = Comp Struct False [
    Member ''rcu'' struct_callback_head,
    Member ''opt'' struct_ip_options]"

definition struct_ip_options_data :: ctype where
  "struct_ip_options_data = Comp Struct False [
    Member ''opt'' struct_ip_options_rcu,
    Member ''data'' (Array 40 c_char)]"

definition struct_icmp_bxm :: ctype where
  "struct_icmp_bxm = Comp Struct False [
    Member ''skb'' (Ptr ''struct sk_buff *''),
    Member ''offset'' c_int,
    Member ''data_len'' c_int,
    Member ''data'' (Comp Struct False [
      Member ''icmph'' struct_icmphdr,
      Member ''times'' (Array 3 t___be32)]),
    Member ''head_len'' c_int,
    Member ''replyopts'' struct_ip_options_data]"

definition struct_icmp_control :: ctype where
  "struct_icmp_control = Comp Struct False [
    Member ''handler'' (Ptr ''enum skb_drop_reason (*)(struct sk_buff *)''),
    Member ''error'' c_short]"

definition struct_icmp_err :: ctype where
  "struct_icmp_err = Comp Struct False [
    Member ''errno'' c_int,
    BitField ''fatal'' c_unsigned_int 1]"

definition struct_icmp_ext_echo_ctype3_hdr :: ctype where
  "struct_icmp_ext_echo_ctype3_hdr = Comp Struct False [
    Member ''afi'' t___be16,
    Member ''addrlen'' t___u8,
    Member ''reserved'' t___u8]"

definition struct_icmp_extobj_hdr :: ctype where
  "struct_icmp_extobj_hdr = Comp Struct False [
    Member ''length'' t___be16,
    Member ''class_num'' t___u8,
    Member ''class_type'' t___u8]"

definition struct_icmp_ext_echo_iio :: ctype where
  "struct_icmp_ext_echo_iio = Comp Struct False [
    Member ''extobj_hdr'' struct_icmp_extobj_hdr,
    Member ''ident'' (Comp Union False [
      Member ''name'' (Array 16 c_char),
      Member ''ifindex'' t___be32,
      Member ''addr'' (Comp Struct False [
        Member ''ctype3_hdr'' struct_icmp_ext_echo_ctype3_hdr,
        Member ''ip_addr'' (Comp Union False [
          Member ''ipv4_addr'' t___be32,
          Member ''ipv6_addr'' struct_in6_addr])])])]"

definition struct_icmp_ext_hdr :: ctype where
  "struct_icmp_ext_hdr = Comp Struct False [
    BitField ''reserved1'' t___u8 4,
    BitField ''version'' t___u8 4,
    Member ''reserved2'' t___u8,
    Member ''checksum'' t___sum16]"

definition struct_icmp_filter :: ctype where
  "struct_icmp_filter = Comp Struct False [
    Member ''data'' t___u32]"

definition struct_icmp_mib :: ctype where
  "struct_icmp_mib = Comp Struct False [
    Member ''mibs'' (Array 30 c_unsigned_long)]"

definition struct_icmpmsg_mib :: ctype where
  "struct_icmpmsg_mib = Comp Struct False [
    Member ''mibs'' (Array 512 t_atomic_long_t)]"

definition struct_icmpv6_mib :: ctype where
  "struct_icmpv6_mib = Comp Struct False [
    Member ''mibs'' (Array 7 c_unsigned_long)]"

definition struct_icmpv6_mib_device :: ctype where
  "struct_icmpv6_mib_device = Comp Struct False [
    Member ''mibs'' (Array 7 t_atomic_long_t)]"

definition t_uint8_t :: ctype where
  "t_uint8_t = t_u8"

definition struct_icmpv6_msg :: ctype where
  "struct_icmpv6_msg = Comp Struct False [
    Member ''skb'' (Ptr ''struct sk_buff *''),
    Member ''offset'' c_int,
    Member ''type'' t_uint8_t]"

definition struct_icmpv6msg_mib :: ctype where
  "struct_icmpv6msg_mib = Comp Struct False [
    Member ''mibs'' (Array 512 t_atomic_long_t)]"

definition struct_icmpv6msg_mib_device :: ctype where
  "struct_icmpv6msg_mib_device = Comp Struct False [
    Member ''mibs'' (Array 512 t_atomic_long_t)]"

definition struct_ifa6_config :: ctype where
  "struct_ifa6_config = Comp Struct False [
    Member ''pfx'' (Ptr ''struct in6_addr *''),
    Member ''plen'' c_unsigned_int,
    Member ''ifa_proto'' t_u8,
    Member ''peer_pfx'' (Ptr ''struct in6_addr *''),
    Member ''rt_priority'' t_u32,
    Member ''ifa_flags'' t_u32,
    Member ''preferred_lft'' t_u32,
    Member ''valid_lft'' t_u32,
    Member ''scope'' t_u16]"

definition struct_ifa_cacheinfo :: ctype where
  "struct_ifa_cacheinfo = Comp Struct False [
    Member ''ifa_prefered'' t___u32,
    Member ''ifa_valid'' t___u32,
    Member ''cstamp'' t___u32,
    Member ''tstamp'' t___u32]"

definition struct_ifacaddr6 :: ctype where
  "struct_ifacaddr6 = Comp Struct False [
    Member ''aca_addr'' struct_in6_addr,
    Member ''aca_rt'' (Ptr ''struct fib6_info *''),
    Member ''aca_next'' (Ptr ''struct ifacaddr6 *''),
    Member ''aca_addr_lst'' struct_hlist_node,
    Member ''aca_users'' c_int,
    Member ''aca_refcnt'' t_refcount_t,
    Member ''aca_cstamp'' c_unsigned_long,
    Member ''aca_tstamp'' c_unsigned_long,
    Member ''rcu'' struct_callback_head]"

definition struct_iface_combination_params :: ctype where
  "struct_iface_combination_params = Comp Struct False [
    Member ''radio_idx'' c_int,
    Member ''num_different_channels'' c_int,
    Member ''radar_detect'' t_u8,
    Member ''iftype_num'' (Array 13 c_int),
    Member ''new_beacon_int'' t_u32]"

definition struct_iface_info_ipv4 :: ctype where
  "struct_iface_info_ipv4 = Comp Struct True [
    Member ''Port'' t___be16,
    Member ''IPv4Address'' t___be32,
    Member ''Reserved'' t___be64]"

definition struct_iface_info_ipv6 :: ctype where
  "struct_iface_info_ipv6 = Comp Struct True [
    Member ''Port'' t___be16,
    Member ''FlowInfo'' t___be32,
    Member ''IPv6Address'' (Array 16 t___u8),
    Member ''ScopeId'' t___be32]"

definition struct_ifaddrlblmsg :: ctype where
  "struct_ifaddrlblmsg = Comp Struct False [
    Member ''ifal_family'' t___u8,
    Member ''__ifal_reserved'' t___u8,
    Member ''ifal_prefixlen'' t___u8,
    Member ''ifal_flags'' t___u8,
    Member ''ifal_index'' t___u32,
    Member ''ifal_seq'' t___u32]"

definition struct_ifaddrmsg :: ctype where
  "struct_ifaddrmsg = Comp Struct False [
    Member ''ifa_family'' t___u8,
    Member ''ifa_prefixlen'' t___u8,
    Member ''ifa_flags'' t___u8,
    Member ''ifa_scope'' t___u8,
    Member ''ifa_index'' t___u32]"

definition struct_igmp6_mc_iter_state :: ctype where
  "struct_igmp6_mc_iter_state = Comp Struct False [
    Member ''p'' struct_seq_net_private,
    Member ''dev'' (Ptr ''struct net_device *''),
    Member ''idev'' (Ptr ''struct inet6_dev *'')]"

definition struct_igmp6_mcf_iter_state :: ctype where
  "struct_igmp6_mcf_iter_state = Comp Struct False [
    Member ''p'' struct_seq_net_private,
    Member ''dev'' (Ptr ''struct net_device *''),
    Member ''idev'' (Ptr ''struct inet6_dev *''),
    Member ''im'' (Ptr ''struct ifmcaddr6 *'')]"

definition struct_igmp_mc_iter_state :: ctype where
  "struct_igmp_mc_iter_state = Comp Struct False [
    Member ''p'' struct_seq_net_private,
    Member ''dev'' (Ptr ''struct net_device *''),
    Member ''in_dev'' (Ptr ''struct in_device *'')]"

definition struct_igmp_mcf_iter_state :: ctype where
  "struct_igmp_mcf_iter_state = Comp Struct False [
    Member ''p'' struct_seq_net_private,
    Member ''dev'' (Ptr ''struct net_device *''),
    Member ''idev'' (Ptr ''struct in_device *''),
    Member ''im'' (Ptr ''struct ip_mc_list *'')]"

definition struct_igmphdr :: ctype where
  "struct_igmphdr = Comp Struct False [
    Member ''type'' t___u8,
    Member ''code'' t___u8,
    Member ''csum'' t___sum16,
    Member ''group'' t___be32]"

definition struct_igmpv3_grec :: ctype where
  "struct_igmpv3_grec = Comp Struct False [
    Member ''grec_type'' t___u8,
    Member ''grec_auxwords'' t___u8,
    Member ''grec_nsrcs'' t___be16,
    Member ''grec_mca'' t___be32,
    Member ''grec_src'' (Array 0 t___be32)]"

definition struct_igmpv3_query :: ctype where
  "struct_igmpv3_query = Comp Struct False [
    Member ''type'' t___u8,
    Member ''code'' t___u8,
    Member ''csum'' t___sum16,
    Member ''group'' t___be32,
    BitField ''qrv'' t___u8 3,
    BitField ''suppress'' t___u8 1,
    BitField ''resv'' t___u8 4,
    Member ''qqic'' t___u8,
    Member ''nsrcs'' t___be16,
    Member ''srcs'' (Array 0 t___be32)]"

definition struct_igmpv3_report :: ctype where
  "struct_igmpv3_report = Comp Struct False [
    Member ''type'' t___u8,
    Member ''resv1'' t___u8,
    Member ''csum'' t___sum16,
    Member ''resv2'' t___be16,
    Member ''ngrec'' t___be16,
    Member ''grec'' (Array 0 struct_igmpv3_grec)]"

definition struct_in6_flowlabel_req :: ctype where
  "struct_in6_flowlabel_req = Comp Struct False [
    Member ''flr_dst'' struct_in6_addr,
    Member ''flr_label'' t___be32,
    Member ''flr_action'' t___u8,
    Member ''flr_share'' t___u8,
    Member ''flr_flags'' t___u16,
    Member ''flr_expires'' t___u16,
    Member ''flr_linger'' t___u16,
    Member ''__flr_pad'' t___u32]"

definition struct_in6_ifreq :: ctype where
  "struct_in6_ifreq = Comp Struct False [
    Member ''ifr6_addr'' struct_in6_addr,
    Member ''ifr6_prefixlen'' t___u32,
    Member ''ifr6_ifindex'' c_int]"

definition struct_in6_pktinfo :: ctype where
  "struct_in6_pktinfo = Comp Struct False [
    Member ''ipi6_addr'' struct_in6_addr,
    Member ''ipi6_ifindex'' c_int]"

definition struct_in6_rtmsg :: ctype where
  "struct_in6_rtmsg = Comp Struct False [
    Member ''rtmsg_dst'' struct_in6_addr,
    Member ''rtmsg_src'' struct_in6_addr,
    Member ''rtmsg_gateway'' struct_in6_addr,
    Member ''rtmsg_type'' t___u32,
    Member ''rtmsg_dst_len'' t___u16,
    Member ''rtmsg_src_len'' t___u16,
    Member ''rtmsg_metric'' t___u32,
    Member ''rtmsg_info'' c_unsigned_long,
    Member ''rtmsg_flags'' t___u32,
    Member ''rtmsg_ifindex'' c_int]"

definition struct_in6_validator_info :: ctype where
  "struct_in6_validator_info = Comp Struct False [
    Member ''i6vi_addr'' struct_in6_addr,
    Member ''i6vi_dev'' (Ptr ''struct inet6_dev *''),
    Member ''extack'' (Ptr ''struct netlink_ext_ack *'')]"

definition struct_ipv4_devconf :: ctype where
  "struct_ipv4_devconf = Comp Struct False [
    Member ''sysctl'' (Ptr ''void *''),
    Member ''data'' (Array 33 c_int),
    Member ''state'' (Array 1 c_unsigned_long)]"

definition struct_in_device :: ctype where
  "struct_in_device = Comp Struct False [
    Member ''dev'' (Ptr ''struct net_device *''),
    Member ''dev_tracker'' t_netdevice_tracker,
    Member ''refcnt'' t_refcount_t,
    Member ''dead'' c_int,
    Member ''ifa_list'' (Ptr ''struct in_ifaddr *''),
    Member ''mc_list'' (Ptr ''struct ip_mc_list *''),
    Member ''mc_hash'' (Ptr ''struct ip_mc_list **''),
    Member ''mc_count'' c_int,
    Member ''mc_tomb_lock'' t_spinlock_t,
    Member ''mc_tomb'' (Ptr ''struct ip_mc_list *''),
    Member ''mr_v1_seen'' c_unsigned_long,
    Member ''mr_v2_seen'' c_unsigned_long,
    Member ''mr_maxdelay'' c_unsigned_long,
    Member ''mr_qi'' c_unsigned_long,
    Member ''mr_qri'' c_unsigned_long,
    Member ''mr_qrv'' c_unsigned_char,
    Member ''mr_gq_running'' c_unsigned_char,
    Member ''mr_ifc_count'' t_u32,
    Member ''mr_gq_timer'' struct_timer_list,
    Member ''mr_ifc_timer'' struct_timer_list,
    Member ''arp_parms'' (Ptr ''struct neigh_parms *''),
    Member ''cnf'' struct_ipv4_devconf,
    Member ''callback_head'' struct_callback_head]"

definition struct_in_pktinfo :: ctype where
  "struct_in_pktinfo = Comp Struct False [
    Member ''ipi_ifindex'' c_int,
    Member ''ipi_spec_dst'' struct_in_addr,
    Member ''ipi_addr'' struct_in_addr]"

definition struct_in_validator_info :: ctype where
  "struct_in_validator_info = Comp Struct False [
    Member ''ivi_addr'' t___be32,
    Member ''ivi_dev'' (Ptr ''struct in_device *''),
    Member ''extack'' (Ptr ''struct netlink_ext_ack *'')]"

definition struct_inet6_cork :: ctype where
  "struct_inet6_cork = Comp Struct False [
    Member ''opt'' (Ptr ''struct ipv6_txoptions *''),
    Member ''hop_limit'' t_u8,
    Member ''tclass'' t_u8,
    BitField ''dontfrag'' t_u8 1]"

definition enum_addr_type_t :: ctype where
  "enum_addr_type_t = Enum False [
    (''UNICAST_ADDR'', 0), (''MULTICAST_ADDR'', 1), (''ANYCAST_ADDR'', 2)]"

definition struct_inet6_fill_args :: ctype where
  "struct_inet6_fill_args = Comp Struct False [
    Member ''portid'' t_u32,
    Member ''seq'' t_u32,
    Member ''event'' c_int,
    Member ''flags'' c_unsigned_int,
    Member ''netnsid'' c_int,
    Member ''ifindex'' c_int,
    Member ''type'' enum_addr_type_t,
    Member ''force_rt_scope_universe'' t_bool]"

definition struct_inet6_protocol :: ctype where
  "struct_inet6_protocol = Comp Struct False [
    Member ''handler'' (Ptr ''int (*)(struct sk_buff *)''),
    Member ''err_handler'' (Ptr ''int (*)(struct sk_buff *, struct inet6_skb_parm *, u8, u8, int, __be32)''),
    Member ''flags'' c_unsigned_int,
    Member ''secret'' t_u32]"

definition struct_inet_bind2_bucket :: ctype where
  "struct_inet_bind2_bucket = Comp Struct False [
    Member ''ib_net'' t_possible_net_t,
    Member ''l3mdev'' c_int,
    Member ''port'' c_unsigned_short,
    Member ''addr_type'' c_unsigned_short,
    Member ''v6_rcv_saddr'' struct_in6_addr,
    Member ''node'' struct_hlist_node,
    Member ''bhash_node'' struct_hlist_node,
    Member ''owners'' struct_hlist_head]"

definition struct_inet_bind_bucket :: ctype where
  "struct_inet_bind_bucket = Comp Struct False [
    Member ''ib_net'' t_possible_net_t,
    Member ''l3mdev'' c_int,
    Member ''port'' c_unsigned_short,
    Member ''fastreuse'' c_signed_char,
    Member ''fastreuseport'' c_signed_char,
    Member ''fastuid'' t_kuid_t,
    Member ''fast_v6_rcv_saddr'' struct_in6_addr,
    Member ''fast_rcv_saddr'' t___be32,
    Member ''fast_sk_family'' c_unsigned_short,
    Member ''fast_ipv6_only'' t_bool,
    Member ''node'' struct_hlist_node,
    Member ''bhash2'' struct_hlist_head,
    Member ''rcu'' struct_callback_head]"

definition struct_inet_bind_hashbucket :: ctype where
  "struct_inet_bind_hashbucket = Comp Struct False [
    Member ''lock'' t_spinlock_t,
    Member ''chain'' struct_hlist_head]"

definition struct_inet_connection_sock_af_ops :: ctype where
  "struct_inet_connection_sock_af_ops = Comp Struct False [
    Member ''queue_xmit'' (Ptr ''int (*)(struct sock *, struct sk_buff *, struct flowi *)''),
    Member ''send_check'' (Ptr ''void (*)(struct sock *, struct sk_buff *)''),
    Member ''rebuild_header'' (Ptr ''int (*)(struct sock *)''),
    Member ''sk_rx_dst_set'' (Ptr ''void (*)(struct sock *, const struct sk_buff *)''),
    Member ''conn_request'' (Ptr ''int (*)(struct sock *, struct sk_buff *)''),
    Member ''syn_recv_sock'' (Ptr ''struct sock * (*)(const struct sock *, struct sk_buff *, struct request_sock *, struct dst_entry *, struct request_sock *, bool *)''),
    Member ''net_header_len'' t_u16,
    Member ''setsockopt'' (Ptr ''int (*)(struct sock *, int, int, sockptr_t, unsigned int)''),
    Member ''getsockopt'' (Ptr ''int (*)(struct sock *, int, int, char *, int *)''),
    Member ''mtu_reduced'' (Ptr ''void (*)(struct sock *)'')]"

definition struct_inet_diag_bc_op :: ctype where
  "struct_inet_diag_bc_op = Comp Struct False [
    Member ''code'' c_unsigned_char,
    Member ''yes'' c_unsigned_char,
    Member ''no'' c_unsigned_short]"

definition struct_inet_diag_dump_data :: ctype where
  "struct_inet_diag_dump_data = Comp Struct False [
    Member ''req_nlas'' (Array 4 (Ptr ''struct nlattr *'')),
    Member ''bpf_stg_diag'' (Ptr ''struct bpf_sk_storage_diag *'')]"

definition struct_inet_diag_entry :: ctype where
  "struct_inet_diag_entry = Comp Struct False [
    Member ''saddr'' (Ptr ''__be32 *''),
    Member ''daddr'' (Ptr ''__be32 *''),
    Member ''sport'' t_u16,
    Member ''dport'' t_u16,
    Member ''family'' t_u16,
    Member ''userlocks'' t_u16,
    Member ''ifindex'' t_u32,
    Member ''mark'' t_u32,
    Member ''cgroup_id'' t_u64]"

definition struct_inet_diag_handler :: ctype where
  "struct_inet_diag_handler = Comp Struct False [
    Member ''owner'' (Ptr ''struct module *''),
    Member ''dump'' (Ptr ''void (*)(struct sk_buff *, struct netlink_callback *, const struct inet_diag_req_v2 *)''),
    Member ''dump_one'' (Ptr ''int (*)(struct netlink_callback *, const struct inet_diag_req_v2 *)''),
    Member ''idiag_get_info'' (Ptr ''void (*)(struct sock *, struct inet_diag_msg *, void *)''),
    Member ''idiag_get_aux'' (Ptr ''int (*)(struct sock *, bool, struct sk_buff *)''),
    Member ''idiag_get_aux_size'' (Ptr ''size_t (*)(struct sock *, bool)''),
    Member ''destroy'' (Ptr ''int (*)(struct sk_buff *, const struct inet_diag_req_v2 *)''),
    Member ''idiag_type'' t___u16,
    Member ''idiag_info_size'' t___u16]"

definition struct_inet_diag_hostcond :: ctype where
  "struct_inet_diag_hostcond = Comp Struct False [
    Member ''family'' t___u8,
    Member ''prefix_len'' t___u8,
    Member ''port'' c_int,
    Member ''addr'' (Array 0 t___be32)]"

definition struct_inet_diag_markcond :: ctype where
  "struct_inet_diag_markcond = Comp Struct False [
    Member ''mark'' t___u32,
    Member ''mask'' t___u32]"

definition struct_inet_diag_meminfo :: ctype where
  "struct_inet_diag_meminfo = Comp Struct False [
    Member ''idiag_rmem'' t___u32,
    Member ''idiag_wmem'' t___u32,
    Member ''idiag_fmem'' t___u32,
    Member ''idiag_tmem'' t___u32]"

definition struct_inet_diag_sockid :: ctype where
  "struct_inet_diag_sockid = Comp Struct False [
    Member ''idiag_sport'' t___be16,
    Member ''idiag_dport'' t___be16,
    Member ''idiag_src'' (Array 4 t___be32),
    Member ''idiag_dst'' (Array 4 t___be32),
    Member ''idiag_if'' t___u32,
    Member ''idiag_cookie'' (Array 2 t___u32)]"

definition struct_inet_diag_msg :: ctype where
  "struct_inet_diag_msg = Comp Struct False [
    Member ''idiag_family'' t___u8,
    Member ''idiag_state'' t___u8,
    Member ''idiag_timer'' t___u8,
    Member ''idiag_retrans'' t___u8,
    Member ''id'' struct_inet_diag_sockid,
    Member ''idiag_expires'' t___u32,
    Member ''idiag_rqueue'' t___u32,
    Member ''idiag_wqueue'' t___u32,
    Member ''idiag_uid'' t___u32,
    Member ''idiag_inode'' t___u32]"

definition struct_inet_diag_req :: ctype where
  "struct_inet_diag_req = Comp Struct False [
    Member ''idiag_family'' t___u8,
    Member ''idiag_src_len'' t___u8,
    Member ''idiag_dst_len'' t___u8,
    Member ''idiag_ext'' t___u8,
    Member ''id'' struct_inet_diag_sockid,
    Member ''idiag_states'' t___u32,
    Member ''idiag_dbs'' t___u32]"

definition struct_inet_diag_req_raw :: ctype where
  "struct_inet_diag_req_raw = Comp Struct False [
    Member ''sdiag_family'' t___u8,
    Member ''sdiag_protocol'' t___u8,
    Member ''idiag_ext'' t___u8,
    Member ''sdiag_raw_protocol'' t___u8,
    Member ''idiag_states'' t___u32,
    Member ''id'' struct_inet_diag_sockid]"

definition struct_inet_diag_req_v2 :: ctype where
  "struct_inet_diag_req_v2 = Comp Struct False [
    Member ''sdiag_family'' t___u8,
    Member ''sdiag_protocol'' t___u8,
    Member ''idiag_ext'' t___u8,
    Member ''pad'' t___u8,
    Member ''idiag_states'' t___u32,
    Member ''id'' struct_inet_diag_sockid]"

definition struct_inet_diag_sockopt :: ctype where
  "struct_inet_diag_sockopt = Comp Struct False [
    BitField ''recverr'' t___u8 1,
    BitField ''is_icsk'' t___u8 1,
    BitField ''freebind'' t___u8 1,
    BitField ''hdrincl'' t___u8 1,
    BitField ''mc_loop'' t___u8 1,
    BitField ''transparent'' t___u8 1,
    BitField ''mc_all'' t___u8 1,
    BitField ''nodefrag'' t___u8 1,
    BitField ''bind_address_no_port'' t___u8 1,
    BitField ''recverr_rfc4884'' t___u8 1,
    BitField ''defer_connect'' t___u8 1,
    BitField ''unused'' t___u8 5]"

definition struct_hlist_nulls_head :: ctype where
  "struct_hlist_nulls_head = Comp Struct False [
    Member ''first'' (Ptr ''struct hlist_nulls_node *'')]"

definition struct_inet_ehash_bucket :: ctype where
  "struct_inet_ehash_bucket = Comp Struct False [
    Member ''chain'' struct_hlist_nulls_head]"

definition struct_inet_fill_args :: ctype where
  "struct_inet_fill_args = Comp Struct False [
    Member ''portid'' t_u32,
    Member ''seq'' t_u32,
    Member ''event'' c_int,
    Member ''flags'' c_unsigned_int,
    Member ''netnsid'' c_int,
    Member ''ifindex'' c_int]"

definition t_rht_hashfn_t :: ctype where
  "t_rht_hashfn_t = Ptr ''u32 (*)(const void *, u32, u32)''"

definition t_rht_obj_hashfn_t :: ctype where
  "t_rht_obj_hashfn_t = Ptr ''u32 (*)(const void *, u32, u32)''"

definition t_rht_obj_cmpfn_t :: ctype where
  "t_rht_obj_cmpfn_t = Ptr ''int (*)(struct rhashtable_compare_arg *, const void *)''"

definition struct_rhashtable_params :: ctype where
  "struct_rhashtable_params = Comp Struct False [
    Member ''nelem_hint'' t_u16,
    Member ''key_len'' t_u16,
    Member ''key_offset'' t_u16,
    Member ''head_offset'' t_u16,
    Member ''max_size'' c_unsigned_int,
    Member ''min_size'' t_u16,
    Member ''automatic_shrinking'' t_bool,
    Member ''hashfn'' t_rht_hashfn_t,
    Member ''obj_hashfn'' t_rht_obj_hashfn_t,
    Member ''obj_cmpfn'' t_rht_obj_cmpfn_t]"

definition struct_inet_frags :: ctype where
  "struct_inet_frags = Comp Struct False [
    Member ''qsize'' c_unsigned_int,
    Member ''constructor'' (Ptr ''void (*)(struct inet_frag_queue *, const void *)''),
    Member ''destructor'' (Ptr ''void (*)(struct inet_frag_queue *)''),
    Member ''frag_expire'' (Ptr ''void (*)(struct timer_list *)''),
    Member ''frags_cachep'' (Ptr ''struct kmem_cache *''),
    Member ''frags_cache_name'' (Ptr ''char *''),
    Member ''rhash_params'' struct_rhashtable_params,
    Member ''refcnt'' t_refcount_t,
    Member ''completion'' struct_completion]"

definition struct_inet_hashinfo :: ctype where
  "struct_inet_hashinfo = Comp Struct False [
    Member ''ehash'' (Ptr ''struct inet_ehash_bucket *''),
    Member ''ehash_locks'' (Ptr ''spinlock_t *''),
    Member ''ehash_mask'' c_unsigned_int,
    Member ''ehash_locks_mask'' c_unsigned_int,
    Member ''bind_bucket_cachep'' (Ptr ''struct kmem_cache *''),
    Member ''bhash'' (Ptr ''struct inet_bind_hashbucket *''),
    Member ''bind2_bucket_cachep'' (Ptr ''struct kmem_cache *''),
    Member ''bhash2'' (Ptr ''struct inet_bind_hashbucket *''),
    Member ''bhash_size'' c_unsigned_int,
    Member ''lhash2_mask'' c_unsigned_int,
    Member ''lhash2'' (Ptr ''struct inet_listen_hashbucket *''),
    Member ''pernet'' t_bool,
    BitField '''' c_long 64,
    BitField '''' c_long 64,
    BitField '''' c_long 64,
    BitField '''' c_long 64,
    BitField '''' c_long 64,
    BitField '''' c_long 64]"

definition struct_inet_listen_hashbucket :: ctype where
  "struct_inet_listen_hashbucket = Comp Struct False [
    Member ''lock'' t_spinlock_t,
    Member ''nulls_head'' struct_hlist_nulls_head]"

definition struct_ipv4_addr_key :: ctype where
  "struct_ipv4_addr_key = Comp Struct False [
    Member ''addr'' t___be32,
    Member ''vif'' c_int]"

definition struct_inetpeer_addr :: ctype where
  "struct_inetpeer_addr = Comp Struct False [
    Member '''' (Comp Union False [
      Member ''a4'' struct_ipv4_addr_key,
      Member ''a6'' struct_in6_addr,
      Member ''key'' (Array 4 t_u32)]),
    Member ''family'' t___u16]"

definition struct_inet_peer :: ctype where
  "struct_inet_peer = Comp Struct False [
    Member ''rb_node'' struct_rb_node,
    Member ''daddr'' struct_inetpeer_addr,
    Member ''metrics'' (Array 17 t_u32),
    Member ''rate_tokens'' t_u32,
    Member ''n_redirects'' t_u32,
    Member ''rate_last'' c_unsigned_long,
    Member '''' (Comp Union False [
      Member '''' (Comp Struct False [
        Member ''rid'' t_atomic_t]),
      Member ''rcu'' struct_callback_head]),
    Member ''dtime'' t___u32,
    Member ''refcnt'' t_refcount_t]"

definition struct_inet_protosw :: ctype where
  "struct_inet_protosw = Comp Struct False [
    Member ''list'' struct_list_head,
    Member ''type'' c_unsigned_short,
    Member ''protocol'' c_unsigned_short,
    Member ''prot'' (Ptr ''struct proto *''),
    Member ''ops'' (Ptr ''struct proto_ops *''),
    Member ''flags'' c_unsigned_char]"

definition struct_request_sock :: ctype where
  "struct_request_sock = Comp Struct False [
    Member ''__req_common'' struct_sock_common,
    Member ''dl_next'' (Ptr ''struct request_sock *''),
    Member ''mss'' t_u16,
    Member ''num_retrans'' t_u8,
    BitField ''syncookie'' t_u8 1,
    BitField ''num_timeout'' t_u8 7,
    Member ''ts_recent'' t_u32,
    Member ''rsk_timer'' struct_timer_list,
    Member ''rsk_ops'' (Ptr ''struct request_sock_ops *''),
    Member ''sk'' (Ptr ''struct sock *''),
    Member ''saved_syn'' (Ptr ''struct saved_syn *''),
    Member ''secid'' t_u32,
    Member ''peer_secid'' t_u32,
    Member ''timeout'' t_u32]"

definition struct_inet_request_sock :: ctype where
  "struct_inet_request_sock = Comp Struct False [
    Member ''req'' struct_request_sock,
    BitField ''snd_wscale'' t_u16 4,
    BitField ''rcv_wscale'' t_u16 4,
    BitField ''tstamp_ok'' t_u16 1,
    BitField ''sack_ok'' t_u16 1,
    BitField ''wscale_ok'' t_u16 1,
    BitField ''ecn_ok'' t_u16 1,
    BitField ''acked'' t_u16 1,
    BitField ''no_srccheck'' t_u16 1,
    BitField ''smc_ok'' t_u16 1,
    Member ''ir_mark'' t_u32,
    Member '''' (Comp Union False [
      Member ''ireq_opt'' (Ptr ''struct ip_options_rcu *''),
      Member '''' (Comp Struct False [
        Member ''ipv6_opt'' (Ptr ''struct ipv6_txoptions *''),
        Member ''pktopts'' (Ptr ''struct sk_buff *'')])])]"

definition struct_inet_timewait_sock :: ctype where
  "struct_inet_timewait_sock = Comp Struct False [
    Member ''__tw_common'' struct_sock_common,
    Member ''tw_mark'' t___u32,
    Member ''tw_substate'' c_unsigned_char,
    Member ''tw_rcv_wscale'' c_unsigned_char,
    Member ''tw_sport'' t___be16,
    BitField ''tw_transparent'' c_unsigned_int 1,
    BitField ''tw_flowlabel'' c_unsigned_int 20,
    BitField ''tw_usec_ts'' c_unsigned_int 1,
    BitField ''tw_pad'' c_unsigned_int 2,
    BitField ''tw_tos'' c_unsigned_int 8,
    Member ''tw_txhash'' t_u32,
    Member ''tw_priority'' t_u32,
    Member ''tw_entry_stamp'' t_u32,
    Member ''tw_timer'' struct_timer_list,
    Member ''tw_tb'' (Ptr ''struct inet_bind_bucket *''),
    Member ''tw_tb2'' (Ptr ''struct inet_bind2_bucket *'')]"

definition struct_ip6_flowlabel :: ctype where
  "struct_ip6_flowlabel = Comp Struct False [
    Member ''next'' (Ptr ''struct ip6_flowlabel *''),
    Member ''label'' t___be32,
    Member ''users'' t_atomic_t,
    Member ''dst'' struct_in6_addr,
    Member ''opt'' (Ptr ''struct ipv6_txoptions *''),
    Member ''linger'' c_unsigned_long,
    Member ''rcu'' struct_callback_head,
    Member ''share'' t_u8,
    Member ''owner'' (Comp Union False [
      Member ''pid'' (Ptr ''struct pid *''),
      Member ''uid'' t_kuid_t]),
    Member ''lastuse'' c_unsigned_long,
    Member ''expires'' c_unsigned_long,
    Member ''fl_net'' (Ptr ''struct net *'')]"

definition struct_ip6_frag_state :: ctype where
  "struct_ip6_frag_state = Comp Struct False [
    Member ''prevhdr'' (Ptr ''u8 *''),
    Member ''hlen'' c_unsigned_int,
    Member ''mtu'' c_unsigned_int,
    Member ''left'' c_unsigned_int,
    Member ''offset'' c_int,
    Member ''ptr'' c_int,
    Member ''hroom'' c_int,
    Member ''troom'' c_int,
    Member ''frag_id'' t___be32,
    Member ''nexthdr'' t_u8]"

definition struct_ip6_fraglist_iter :: ctype where
  "struct_ip6_fraglist_iter = Comp Struct False [
    Member ''tmp_hdr'' (Ptr ''struct ipv6hdr *''),
    Member ''frag'' (Ptr ''struct sk_buff *''),
    Member ''offset'' c_int,
    Member ''hlen'' c_unsigned_int,
    Member ''frag_id'' t___be32,
    Member ''nexthdr'' t_u8]"

definition struct_ip6_mh :: ctype where
  "struct_ip6_mh = Comp Struct False [
    Member ''ip6mh_proto'' t___u8,
    Member ''ip6mh_hdrlen'' t___u8,
    Member ''ip6mh_type'' t___u8,
    Member ''ip6mh_reserved'' t___u8,
    Member ''ip6mh_cksum'' t___u16,
    Member ''data'' (Array 0 t___u8)]"

definition struct_sockaddr_in6 :: ctype where
  "struct_sockaddr_in6 = Comp Struct False [
    Member ''sin6_family'' c_unsigned_short,
    Member ''sin6_port'' t___be16,
    Member ''sin6_flowinfo'' t___be32,
    Member ''sin6_addr'' struct_in6_addr,
    Member ''sin6_scope_id'' t___u32]"

definition struct_ip6_mtuinfo :: ctype where
  "struct_ip6_mtuinfo = Comp Struct False [
    Member ''ip6m_addr'' struct_sockaddr_in6,
    Member ''ip6m_mtu'' t___u32]"

definition struct_ip6_ra_chain :: ctype where
  "struct_ip6_ra_chain = Comp Struct False [
    Member ''next'' (Ptr ''struct ip6_ra_chain *''),
    Member ''sk'' (Ptr ''struct sock *''),
    Member ''sel'' c_int,
    Member ''destructor'' (Ptr ''void (*)(struct sock *)'')]"

definition t_u_int32_t :: ctype where
  "t_u_int32_t = t_u32"

definition struct_ip6_rt_info :: ctype where
  "struct_ip6_rt_info = Comp Struct False [
    Member ''daddr'' struct_in6_addr,
    Member ''saddr'' struct_in6_addr,
    Member ''mark'' t_u_int32_t]"

definition struct_ip6_sf_list :: ctype where
  "struct_ip6_sf_list = Comp Struct False [
    Member ''sf_next'' (Ptr ''struct ip6_sf_list *''),
    Member ''sf_addr'' struct_in6_addr,
    Member ''sf_count'' (Array 2 c_unsigned_long),
    Member ''sf_gsresp'' c_unsigned_char,
    Member ''sf_oldin'' c_unsigned_char,
    Member ''sf_crcount'' c_unsigned_char,
    Member ''rcu'' struct_callback_head]"

definition struct_ip6_sf_socklist :: ctype where
  "struct_ip6_sf_socklist = Comp Struct False [
    Member ''sl_max'' c_unsigned_int,
    Member ''sl_count'' c_unsigned_int,
    Member ''rcu'' struct_callback_head,
    Member ''sl_addr'' (Array 0 struct_in6_addr)]"

definition struct___ip6_tnl_parm :: ctype where
  "struct___ip6_tnl_parm = Comp Struct False [
    Member ''name'' (Array 16 c_char),
    Member ''link'' c_int,
    Member ''proto'' t___u8,
    Member ''encap_limit'' t___u8,
    Member ''hop_limit'' t___u8,
    Member ''collect_md'' t_bool,
    Member ''flowinfo'' t___be32,
    Member ''flags'' t___u32,
    Member ''laddr'' struct_in6_addr,
    Member ''raddr'' struct_in6_addr,
    Member ''i_flags'' (Array 1 c_unsigned_long),
    Member ''o_flags'' (Array 1 c_unsigned_long),
    Member ''i_key'' t___be32,
    Member ''o_key'' t___be32,
    Member ''fwmark'' t___u32,
    Member ''index'' t___u32,
    Member ''erspan_ver'' t___u8,
    Member ''dir'' t___u8,
    Member ''hwid'' t___u16]"

definition struct_gro_cells :: ctype where
  "struct_gro_cells = Comp Struct False [
    Member ''cells'' (Ptr ''struct gro_cell *'')]"

definition struct_ip6_tnl :: ctype where
  "struct_ip6_tnl = Comp Struct False [
    Member ''next'' (Ptr ''struct ip6_tnl *''),
    Member ''dev'' (Ptr ''struct net_device *''),
    Member ''dev_tracker'' t_netdevice_tracker,
    Member ''net'' (Ptr ''struct net *''),
    Member ''parms'' struct___ip6_tnl_parm,
    Member ''fl'' struct_flowi,
    Member ''dst_cache'' struct_dst_cache,
    Member ''gro_cells'' struct_gro_cells,
    Member ''err_count'' c_int,
    Member ''err_time'' c_unsigned_long,
    Member ''i_seqno'' t___u32,
    Member ''o_seqno'' t_atomic_t,
    Member ''hlen'' c_int,
    Member ''tun_hlen'' c_int,
    Member ''encap_hlen'' c_int,
    Member ''encap'' struct_ip_tunnel_encap,
    Member ''mlink'' c_int]"

definition struct_ip6_tnl_encap_ops :: ctype where
  "struct_ip6_tnl_encap_ops = Comp Struct False [
    Member ''encap_hlen'' (Ptr ''size_t (*)(struct ip_tunnel_encap *)''),
    Member ''build_header'' (Ptr ''int (*)(struct sk_buff *, struct ip_tunnel_encap *, u8 *, struct flowi6 *)''),
    Member ''err_handler'' (Ptr ''int (*)(struct sk_buff *, struct inet6_skb_parm *, u8, u8, int, __be32)'')]"

definition struct_ip6_tnl_net :: ctype where
  "struct_ip6_tnl_net = Comp Struct False [
    Member ''fb_tnl_dev'' (Ptr ''struct net_device *''),
    Member ''tnls_r_l'' (Array 32 (Ptr ''struct ip6_tnl *'')),
    Member ''tnls_wc'' (Array 1 (Ptr ''struct ip6_tnl *'')),
    Member ''tnls'' (Array 2 (Ptr ''struct ip6_tnl **'')),
    Member ''collect_md_tun'' (Ptr ''struct ip6_tnl *'')]"

definition struct_ip6_tnl_parm :: ctype where
  "struct_ip6_tnl_parm = Comp Struct False [
    Member ''name'' (Array 16 c_char),
    Member ''link'' c_int,
    Member ''proto'' t___u8,
    Member ''encap_limit'' t___u8,
    Member ''hop_limit'' t___u8,
    Member ''flowinfo'' t___be32,
    Member ''flags'' t___u32,
    Member ''laddr'' struct_in6_addr,
    Member ''raddr'' struct_in6_addr]"

definition struct_ip6addrlbl_entry :: ctype where
  "struct_ip6addrlbl_entry = Comp Struct False [
    Member ''prefix'' struct_in6_addr,
    Member ''prefixlen'' c_int,
    Member ''ifindex'' c_int,
    Member ''addrtype'' c_int,
    Member ''label'' t_u32,
    Member ''list'' struct_hlist_node,
    Member ''rcu'' struct_callback_head]"

definition struct_ip6addrlbl_init_table :: ctype where
  "struct_ip6addrlbl_init_table = Comp Struct False [
    Member ''prefix'' (Ptr ''struct in6_addr *''),
    Member ''prefixlen'' c_int,
    Member ''label'' t_u32]"

definition struct_ip6fl_iter_state :: ctype where
  "struct_ip6fl_iter_state = Comp Struct False [
    Member ''p'' struct_seq_net_private,
    Member ''pid_ns'' (Ptr ''struct pid_namespace *''),
    Member ''bucket'' c_int]"

definition struct_ip6rd_flowi :: ctype where
  "struct_ip6rd_flowi = Comp Struct False [
    Member ''fl6'' struct_flowi6,
    Member ''gateway'' struct_in6_addr]"

definition struct_ip6t_HL_info :: ctype where
  "struct_ip6t_HL_info = Comp Struct False [
    Member ''mode'' t___u8,
    Member ''hop_limit'' t___u8]"

definition struct_ip6t_ah :: ctype where
  "struct_ip6t_ah = Comp Struct False [
    Member ''spis'' (Array 2 t___u32),
    Member ''hdrlen'' t___u32,
    Member ''hdrres'' t___u8,
    Member ''invflags'' t___u8]"

definition struct_ip6t_ip6 :: ctype where
  "struct_ip6t_ip6 = Comp Struct False [
    Member ''src'' struct_in6_addr,
    Member ''dst'' struct_in6_addr,
    Member ''smsk'' struct_in6_addr,
    Member ''dmsk'' struct_in6_addr,
    Member ''iniface'' (Array 16 c_char),
    Member ''outiface'' (Array 16 c_char),
    Member ''iniface_mask'' (Array 16 c_unsigned_char),
    Member ''outiface_mask'' (Array 16 c_unsigned_char),
    Member ''proto'' t___u16,
    Member ''tos'' t___u8,
    Member ''flags'' t___u8,
    Member ''invflags'' t___u8]"

definition struct_ip6t_entry :: ctype where
  "struct_ip6t_entry = Comp Struct False [
    Member ''ipv6'' struct_ip6t_ip6,
    Member ''nfcache'' c_unsigned_int,
    Member ''target_offset'' t___u16,
    Member ''next_offset'' t___u16,
    Member ''comefrom'' c_unsigned_int,
    Member ''counters'' struct_xt_counters,
    Member ''elems'' (Array 0 c_unsigned_char)]"

definition struct_ip6t_error :: ctype where
  "struct_ip6t_error = Comp Struct False [
    Member ''entry'' struct_ip6t_entry,
    Member ''target'' struct_xt_error_target]"

definition struct_ip6t_frag :: ctype where
  "struct_ip6t_frag = Comp Struct False [
    Member ''ids'' (Array 2 t___u32),
    Member ''hdrlen'' t___u32,
    Member ''flags'' t___u8,
    Member ''invflags'' t___u8]"

definition struct_ip6t_get_entries :: ctype where
  "struct_ip6t_get_entries = Comp Struct False [
    Member ''name'' (Array 32 c_char),
    Member ''size'' c_unsigned_int,
    Member ''entrytable'' (Array 0 struct_ip6t_entry)]"

definition struct_ip6t_getinfo :: ctype where
  "struct_ip6t_getinfo = Comp Struct False [
    Member ''name'' (Array 32 c_char),
    Member ''valid_hooks'' c_unsigned_int,
    Member ''hook_entry'' (Array 5 c_unsigned_int),
    Member ''underflow'' (Array 5 c_unsigned_int),
    Member ''num_entries'' c_unsigned_int,
    Member ''size'' c_unsigned_int]"

definition struct_ip6t_hl_info :: ctype where
  "struct_ip6t_hl_info = Comp Struct False [
    Member ''mode'' t___u8,
    Member ''hop_limit'' t___u8]"

definition struct_ip6t_icmp :: ctype where
  "struct_ip6t_icmp = Comp Struct False [
    Member ''type'' t___u8,
    Member ''code'' (Array 2 t___u8),
    Member ''invflags'' t___u8]"

definition struct_ip6t_ipv6header_info :: ctype where
  "struct_ip6t_ipv6header_info = Comp Struct False [
    Member ''matchflags'' t___u8,
    Member ''invflags'' t___u8,
    Member ''modeflag'' t___u8]"

definition struct_ip6t_mh :: ctype where
  "struct_ip6t_mh = Comp Struct False [
    Member ''types'' (Array 2 t___u8),
    Member ''invflags'' t___u8]"

definition union_nf_inet_addr :: ctype where
  "union_nf_inet_addr = Comp Union False [
    Member ''all'' (Array 4 t___u32),
    Member ''ip'' t___be32,
    Member ''ip6'' (Array 4 t___be32),
    Member ''in'' struct_in_addr,
    Member ''in6'' struct_in6_addr]"

definition struct_ip6t_npt_tginfo :: ctype where
  "struct_ip6t_npt_tginfo = Comp Struct False [
    Member ''src_pfx'' union_nf_inet_addr,
    Member ''dst_pfx'' union_nf_inet_addr,
    Member ''src_pfx_len'' t___u8,
    Member ''dst_pfx_len'' t___u8,
    Member ''adjustment'' t___sum16]"

definition struct_ip6t_opts :: ctype where
  "struct_ip6t_opts = Comp Struct False [
    Member ''hdrlen'' t___u32,
    Member ''flags'' t___u8,
    Member ''invflags'' t___u8,
    Member ''opts'' (Array 16 t___u16),
    Member ''optsnr'' t___u8]"

definition struct_ip6t_reject_info :: ctype where
  "struct_ip6t_reject_info = Comp Struct False [
    Member ''with'' t___u32]"

definition struct_ip6t_replace :: ctype where
  "struct_ip6t_replace = Comp Struct False [
    Member ''name'' (Array 32 c_char),
    Member ''valid_hooks'' c_unsigned_int,
    Member ''num_entries'' c_unsigned_int,
    Member ''size'' c_unsigned_int,
    Member ''hook_entry'' (Array 5 c_unsigned_int),
    Member ''underflow'' (Array 5 c_unsigned_int),
    Member ''num_counters'' c_unsigned_int,
    Member ''counters'' (Ptr ''struct xt_counters *''),
    Member ''entries'' (Array 0 struct_ip6t_entry)]"

definition struct_ip6t_rt :: ctype where
  "struct_ip6t_rt = Comp Struct False [
    Member ''rt_type'' t___u32,
    Member ''segsleft'' (Array 2 t___u32),
    Member ''hdrlen'' t___u32,
    Member ''flags'' t___u8,
    Member ''invflags'' t___u8,
    Member ''addrs'' (Array 16 struct_in6_addr),
    Member ''addrnr'' t___u8]"

definition struct_ip6t_srh :: ctype where
  "struct_ip6t_srh = Comp Struct False [
    Member ''next_hdr'' t___u8,
    Member ''hdr_len'' t___u8,
    Member ''segs_left'' t___u8,
    Member ''last_entry'' t___u8,
    Member ''tag'' t___u16,
    Member ''mt_flags'' t___u16,
    Member ''mt_invflags'' t___u16]"

definition struct_ip6t_srh1 :: ctype where
  "struct_ip6t_srh1 = Comp Struct False [
    Member ''next_hdr'' t___u8,
    Member ''hdr_len'' t___u8,
    Member ''segs_left'' t___u8,
    Member ''last_entry'' t___u8,
    Member ''tag'' t___u16,
    Member ''psid_addr'' struct_in6_addr,
    Member ''nsid_addr'' struct_in6_addr,
    Member ''lsid_addr'' struct_in6_addr,
    Member ''psid_msk'' struct_in6_addr,
    Member ''nsid_msk'' struct_in6_addr,
    Member ''lsid_msk'' struct_in6_addr,
    Member ''mt_flags'' t___u16,
    Member ''mt_invflags'' t___u16]"

definition struct_ip6t_standard :: ctype where
  "struct_ip6t_standard = Comp Struct False [
    Member ''entry'' struct_ip6t_entry,
    Member ''target'' struct_xt_standard_target]"

definition struct_ip6table_nat_pernet :: ctype where
  "struct_ip6table_nat_pernet = Comp Struct False [
    Member ''nf_nat_ops'' (Ptr ''struct nf_hook_ops *'')]"

definition struct_ip_auth_hdr :: ctype where
  "struct_ip_auth_hdr = Comp Struct False [
    Member ''nexthdr'' t___u8,
    Member ''hdrlen'' t___u8,
    Member ''reserved'' t___be16,
    Member ''spi'' t___be32,
    Member ''seq_no'' t___be32,
    Member ''auth_data'' (Array 0 t___u8)]"

definition struct_ip_beet_phdr :: ctype where
  "struct_ip_beet_phdr = Comp Struct False [
    Member ''nexthdr'' t___u8,
    Member ''hdrlen'' t___u8,
    Member ''padlen'' t___u8,
    Member ''reserved'' t___u8]"

definition struct_ip_comp_hdr :: ctype where
  "struct_ip_comp_hdr = Comp Struct False [
    Member ''nexthdr'' t___u8,
    Member ''flags'' t___u8,
    Member ''cpi'' t___be16]"

definition struct_ip_conntrack_stat :: ctype where
  "struct_ip_conntrack_stat = Comp Struct False [
    Member ''found'' c_unsigned_int,
    Member ''invalid'' c_unsigned_int,
    Member ''insert'' c_unsigned_int,
    Member ''insert_failed'' c_unsigned_int,
    Member ''clash_resolve'' c_unsigned_int,
    Member ''drop'' c_unsigned_int,
    Member ''early_drop'' c_unsigned_int,
    Member ''error'' c_unsigned_int,
    Member ''expect_new'' c_unsigned_int,
    Member ''expect_create'' c_unsigned_int,
    Member ''expect_delete'' c_unsigned_int,
    Member ''search_restart'' c_unsigned_int,
    Member ''chaintoolong'' c_unsigned_int]"

definition enum_sctp_conntrack :: ctype where
  "enum_sctp_conntrack = Enum False [
    (''SCTP_CONNTRACK_NONE'', 0), (''SCTP_CONNTRACK_CLOSED'', 1),
    (''SCTP_CONNTRACK_COOKIE_WAIT'', 2), (''SCTP_CONNTRACK_COOKIE_ECHOED'', 3),
    (''SCTP_CONNTRACK_ESTABLISHED'', 4), (''SCTP_CONNTRACK_SHUTDOWN_SENT'', 5),
    (''SCTP_CONNTRACK_SHUTDOWN_RECD'', 6), (''SCTP_CONNTRACK_SHUTDOWN_ACK_SENT'', 7),
    (''SCTP_CONNTRACK_HEARTBEAT_SENT'', 8), (''SCTP_CONNTRACK_HEARTBEAT_ACKED'', 9),
    (''SCTP_CONNTRACK_MAX'', 10)]"

definition struct_ip_ct_sctp :: ctype where
  "struct_ip_ct_sctp = Comp Struct False [
    Member ''state'' enum_sctp_conntrack,
    Member ''vtag'' (Array 2 t___be32),
    Member ''init'' (Array 2 t_u8),
    Member ''last_dir'' t_u8,
    Member ''flags'' t_u8]"

definition t_u_int8_t :: ctype where
  "t_u_int8_t = t_u8"

definition struct_ip_ct_tcp_state :: ctype where
  "struct_ip_ct_tcp_state = Comp Struct False [
    Member ''td_end'' t_u_int32_t,
    Member ''td_maxend'' t_u_int32_t,
    Member ''td_maxwin'' t_u_int32_t,
    Member ''td_maxack'' t_u_int32_t,
    Member ''td_scale'' t_u_int8_t,
    Member ''flags'' t_u_int8_t]"

definition t_u_int16_t :: ctype where
  "t_u_int16_t = t_u16"

definition struct_ip_ct_tcp :: ctype where
  "struct_ip_ct_tcp = Comp Struct False [
    Member ''seen'' (Array 2 struct_ip_ct_tcp_state),
    Member ''state'' t_u_int8_t,
    Member ''last_dir'' t_u_int8_t,
    Member ''retrans'' t_u_int8_t,
    Member ''last_index'' t_u_int8_t,
    Member ''last_seq'' t_u_int32_t,
    Member ''last_ack'' t_u_int32_t,
    Member ''last_end'' t_u_int32_t,
    Member ''last_win'' t_u_int16_t,
    Member ''last_wscale'' t_u_int8_t,
    Member ''last_flags'' t_u_int8_t]"

definition struct_ip_esp_hdr :: ctype where
  "struct_ip_esp_hdr = Comp Struct False [
    Member ''spi'' t___be32,
    Member ''seq_no'' t___be32,
    Member ''enc_data'' (Array 0 t___u8)]"

definition struct_ip_frag_state :: ctype where
  "struct_ip_frag_state = Comp Struct False [
    Member ''DF'' t_bool,
    Member ''hlen'' c_unsigned_int,
    Member ''ll_rs'' c_unsigned_int,
    Member ''mtu'' c_unsigned_int,
    Member ''left'' c_unsigned_int,
    Member ''offset'' c_int,
    Member ''ptr'' c_int,
    Member ''not_last_frag'' t___be16]"

definition struct_ip_fraglist_iter :: ctype where
  "struct_ip_fraglist_iter = Comp Struct False [
    Member ''frag'' (Ptr ''struct sk_buff *''),
    Member ''iph'' (Ptr ''struct iphdr *''),
    Member ''offset'' c_int,
    Member ''hlen'' c_unsigned_int]"

definition struct_cache_head :: ctype where
  "struct_cache_head = Comp Struct False [
    Member ''cache_list'' struct_hlist_node,
    Member ''expiry_time'' t_time64_t,
    Member ''last_refresh'' t_time64_t,
    Member ''ref'' struct_kref,
    Member ''flags'' c_unsigned_long]"

definition struct_ip_map :: ctype where
  "struct_ip_map = Comp Struct False [
    Member ''h'' struct_cache_head,
    Member ''m_class'' (Array 8 c_char),
    Member ''m_addr'' struct_in6_addr,
    Member ''m_client'' (Ptr ''struct unix_domain *''),
    Member ''m_rcu'' struct_callback_head]"

definition struct_ip_mc_list :: ctype where
  "struct_ip_mc_list = Comp Struct False [
    Member ''interface'' (Ptr ''struct in_device *''),
    Member ''multiaddr'' t___be32,
    Member ''sfmode'' c_unsigned_int,
    Member ''sources'' (Ptr ''struct ip_sf_list *''),
    Member ''tomb'' (Ptr ''struct ip_sf_list *''),
    Member ''sfcount'' (Array 2 c_unsigned_long),
    Member '''' (Comp Union False [
      Member ''next'' (Ptr ''struct ip_mc_list *''),
      Member ''next_rcu'' (Ptr ''struct ip_mc_list *'')]),
    Member ''next_hash'' (Ptr ''struct ip_mc_list *''),
    Member ''timer'' struct_timer_list,
    Member ''users'' c_int,
    Member ''refcnt'' t_refcount_t,
    Member ''lock'' t_spinlock_t,
    Member ''tm_running'' c_char,
    Member ''reporter'' c_char,
    Member ''unsolicit_count'' c_char,
    Member ''loaded'' c_char,
    Member ''gsquery'' c_unsigned_char,
    Member ''crcount'' c_unsigned_char,
    Member ''mca_cstamp'' c_unsigned_long,
    Member ''mca_tstamp'' c_unsigned_long,
    Member ''rcu'' struct_callback_head]"

definition struct_ip_mreqn :: ctype where
  "struct_ip_mreqn = Comp Struct False [
    Member ''imr_multiaddr'' struct_in_addr,
    Member ''imr_address'' struct_in_addr,
    Member ''imr_ifindex'' c_int]"

definition struct_ip_mc_socklist :: ctype where
  "struct_ip_mc_socklist = Comp Struct False [
    Member ''next_rcu'' (Ptr ''struct ip_mc_socklist *''),
    Member ''multi'' struct_ip_mreqn,
    Member ''sfmode'' c_unsigned_int,
    Member ''sflist'' (Ptr ''struct ip_sf_socklist *''),
    Member ''rcu'' struct_callback_head]"

definition struct_ip_mreq_source :: ctype where
  "struct_ip_mreq_source = Comp Struct False [
    Member ''imr_multiaddr'' t___be32,
    Member ''imr_interface'' t___be32,
    Member ''imr_sourceaddr'' t___be32]"

definition struct_ip_msfilter :: ctype where
  "struct_ip_msfilter = Comp Struct False [
    Member ''imsf_multiaddr'' t___be32,
    Member ''imsf_interface'' t___be32,
    Member ''imsf_fmode'' t___u32,
    Member ''imsf_numsrc'' t___u32,
    Member '''' (Comp Union False [
      Member ''imsf_slist'' (Array 1 t___be32),
      Member '''' (Comp Struct False [
        Member ''__empty_imsf_slist_flex'' (Comp Struct False []),
        Member ''imsf_slist_flex'' (Array 0 t___be32)])])]"

definition struct_ip_ra_chain :: ctype where
  "struct_ip_ra_chain = Comp Struct False [
    Member ''next'' (Ptr ''struct ip_ra_chain *''),
    Member ''sk'' (Ptr ''struct sock *''),
    Member '''' (Comp Union False [
      Member ''destructor'' (Ptr ''void (*)(struct sock *)''),
      Member ''saved_sk'' (Ptr ''struct sock *'')]),
    Member ''rcu'' struct_callback_head]"

definition struct_kvec :: ctype where
  "struct_kvec = Comp Struct False [
    Member ''iov_base'' (Ptr ''void *''),
    Member ''iov_len'' t_size_t]"

definition struct_ip_reply_arg :: ctype where
  "struct_ip_reply_arg = Comp Struct False [
    Member ''iov'' (Array 1 struct_kvec),
    Member ''flags'' c_int,
    Member ''csum'' t___wsum,
    Member ''csumoffset'' c_int,
    Member ''bound_dev_if'' c_int,
    Member ''tos'' t_u8,
    Member ''uid'' t_kuid_t]"

definition struct_ip_rt_acct :: ctype where
  "struct_ip_rt_acct = Comp Struct False [
    Member ''o_bytes'' t___u32,
    Member ''o_packets'' t___u32,
    Member ''i_bytes'' t___u32,
    Member ''i_packets'' t___u32]"

definition struct_ip_rt_info :: ctype where
  "struct_ip_rt_info = Comp Struct False [
    Member ''daddr'' t___be32,
    Member ''saddr'' t___be32,
    Member ''tos'' t_u_int8_t,
    Member ''mark'' t_u_int32_t]"

definition struct_ip_set :: ctype where
  "struct_ip_set = Comp Struct False [
    Member ''rcu'' struct_callback_head,
    Member ''name'' (Array 32 c_char),
    Member ''lock'' t_spinlock_t,
    Member ''ref'' t_u32,
    Member ''ref_netlink'' t_u32,
    Member ''type'' (Ptr ''struct ip_set_type *''),
    Member ''variant'' (Ptr ''struct ip_set_type_variant *''),
    Member ''family'' t_u8,
    Member ''revision'' t_u8,
    Member ''extensions'' t_u8,
    Member ''flags'' t_u8,
    Member ''timeout'' t_u32,
    Member ''elements'' t_u32,
    Member ''ext_size'' t_size_t,
    Member ''dsize'' t_size_t,
    Member ''offset'' (Array 4 t_size_t),
    Member ''data'' (Ptr ''void *'')]"

definition struct_ip_set_adt_opt :: ctype where
  "struct_ip_set_adt_opt = Comp Struct False [
    Member ''family'' t_u8,
    Member ''dim'' t_u8,
    Member ''flags'' t_u8,
    Member ''cmdflags'' t_u32,
    Member ''ext'' struct_ip_set_ext]"

definition struct_ip_set_comment :: ctype where
  "struct_ip_set_comment = Comp Struct False [
    Member ''c'' (Ptr ''struct ip_set_comment_rcu *'')]"

definition struct_ip_set_comment_rcu :: ctype where
  "struct_ip_set_comment_rcu = Comp Struct False [
    Member ''rcu'' struct_callback_head,
    Member ''str'' (Array 0 c_char)]"

definition struct_ip_set_counter :: ctype where
  "struct_ip_set_counter = Comp Struct False [
    Member ''bytes'' t_atomic64_t,
    Member ''packets'' t_atomic64_t]"

definition struct_ip_set_counter_match :: ctype where
  "struct_ip_set_counter_match = Comp Struct False [
    Member ''value'' t___u64,
    Member ''op'' t___u8]"

definition struct_ip_set_counter_match0 :: ctype where
  "struct_ip_set_counter_match0 = Comp Struct False [
    Member ''op'' t___u8,
    Member ''value'' t___u64]"

definition struct_ip_set_ext_type :: ctype where
  "struct_ip_set_ext_type = Comp Struct False [
    Member ''destroy'' (Ptr ''void (*)(struct ip_set *, void *)''),
    Member ''type'' enum_ip_set_extension,
    Member ''flag'' enum_ipset_cadt_flags,
    Member ''len'' t_u8,
    Member ''align'' t_u8]"

definition t_ip_set_id_t :: ctype where
  "t_ip_set_id_t = t___u16"

definition union_ip_set_name_index :: ctype where
  "union_ip_set_name_index = Comp Union False [
    Member ''name'' (Array 32 c_char),
    Member ''index'' t_ip_set_id_t]"

definition struct_ip_set_net :: ctype where
  "struct_ip_set_net = Comp Struct False [
    Member ''ip_set_list'' (Ptr ''struct ip_set **''),
    Member ''ip_set_max'' t_ip_set_id_t,
    Member ''is_deleted'' t_bool,
    Member ''is_destroyed'' t_bool]"

definition struct_ip_set_region :: ctype where
  "struct_ip_set_region = Comp Struct False [
    Member ''lock'' t_spinlock_t,
    Member ''ext_size'' t_size_t,
    Member ''elements'' t_u32]"

definition struct_ip_set_req_get_set :: ctype where
  "struct_ip_set_req_get_set = Comp Struct False [
    Member ''op'' c_unsigned_int,
    Member ''version'' c_unsigned_int,
    Member ''set'' union_ip_set_name_index]"

definition struct_ip_set_req_get_set_family :: ctype where
  "struct_ip_set_req_get_set_family = Comp Struct False [
    Member ''op'' c_unsigned_int,
    Member ''version'' c_unsigned_int,
    Member ''family'' c_unsigned_int,
    Member ''set'' union_ip_set_name_index]"

definition struct_ip_set_req_version :: ctype where
  "struct_ip_set_req_version = Comp Struct False [
    Member ''op'' c_unsigned_int,
    Member ''version'' c_unsigned_int]"

definition struct_nla_policy :: ctype where
  "struct_nla_policy = Comp Struct False [
    Member ''type'' t_u8,
    Member ''validation_type'' t_u8,
    Member ''len'' t_u16,
    Member '''' (Comp Union False [
      Member ''strict_start_type'' t_u16,
      Member ''bitfield32_valid'' t_u32,
      Member ''mask'' t_u32,
      Member ''reject_message'' (Ptr ''char *''),
      Member ''nested_policy'' (Ptr ''struct nla_policy *''),
      Member ''range'' (Ptr ''struct netlink_range_validation *''),
      Member ''range_signed'' (Ptr ''struct netlink_range_validation_signed *''),
      Member '''' (Comp Struct False [
        Member ''min'' t_s16,
        Member ''max'' t_s16]),
      Member ''validate'' (Ptr ''int (*)(const struct nlattr *, struct netlink_ext_ack *)'')])]"

definition struct_ip_set_type :: ctype where
  "struct_ip_set_type = Comp Struct False [
    Member ''list'' struct_list_head,
    Member ''name'' (Array 32 c_char),
    Member ''protocol'' t_u8,
    Member ''dimension'' t_u8,
    Member ''family'' t_u8,
    Member ''revision_min'' t_u8,
    Member ''revision_max'' t_u8,
    Member ''create_flags'' (Array 10 t_u8),
    Member ''features'' t_u16,
    Member ''create'' (Ptr ''int (*)(struct net *, struct ip_set *, struct nlattr **, u32)''),
    Member ''create_policy'' (Array 27 struct_nla_policy),
    Member ''adt_policy'' (Array 31 struct_nla_policy),
    Member ''me'' (Ptr ''struct module *'')]"

definition t_ipset_adtfn :: ctype where
  "t_ipset_adtfn = Ptr ''int (*)(struct ip_set *, void *, const struct ip_set_ext *, struct ip_set_ext *, u32)''"

definition struct_ip_set_type_variant :: ctype where
  "struct_ip_set_type_variant = Comp Struct False [
    Member ''kadt'' (Ptr ''int (*)(struct ip_set *, const struct sk_buff *, const struct xt_action_param *, enum ipset_adt, struct ip_set_adt_opt *)''),
    Member ''uadt'' (Ptr ''int (*)(struct ip_set *, struct nlattr **, enum ipset_adt, u32 *, u32, bool)''),
    Member ''adt'' (Array 3 t_ipset_adtfn),
    Member ''resize'' (Ptr ''int (*)(struct ip_set *, bool)''),
    Member ''destroy'' (Ptr ''void (*)(struct ip_set *)''),
    Member ''flush'' (Ptr ''void (*)(struct ip_set *)''),
    Member ''expire'' (Ptr ''void (*)(struct ip_set *)''),
    Member ''head'' (Ptr ''int (*)(struct ip_set *, struct sk_buff *)''),
    Member ''list'' (Ptr ''int (*)(const struct ip_set *, struct sk_buff *, struct netlink_callback *)''),
    Member ''uref'' (Ptr ''void (*)(struct ip_set *, struct netlink_callback *, bool)''),
    Member ''same_set'' (Ptr ''bool (*)(const struct ip_set *, const struct ip_set *)''),
    Member ''cancel_gc'' (Ptr ''void (*)(struct ip_set *)''),
    Member ''region_lock'' t_bool]"

definition struct_ip_sf_list :: ctype where
  "struct_ip_sf_list = Comp Struct False [
    Member ''sf_next'' (Ptr ''struct ip_sf_list *''),
    Member ''sf_count'' (Array 2 c_unsigned_long),
    Member ''sf_inaddr'' t___be32,
    Member ''sf_gsresp'' c_unsigned_char,
    Member ''sf_oldin'' c_unsigned_char,
    Member ''sf_crcount'' c_unsigned_char]"

definition struct_ip_sf_socklist :: ctype where
  "struct_ip_sf_socklist = Comp Struct False [
    Member ''sl_max'' c_unsigned_int,
    Member ''sl_count'' c_unsigned_int,
    Member ''rcu'' struct_callback_head,
    Member ''sl_addr'' (Array 0 t___be32)]"

definition struct_ip_tunnel_parm_kern :: ctype where
  "struct_ip_tunnel_parm_kern = Comp Struct False [
    Member ''name'' (Array 16 c_char),
    Member ''i_flags'' (Array 1 c_unsigned_long),
    Member ''o_flags'' (Array 1 c_unsigned_long),
    Member ''i_key'' t___be32,
    Member ''o_key'' t___be32,
    Member ''link'' c_int,
    Member ''iph'' struct_iphdr]"

definition struct_ip_tunnel :: ctype where
  "struct_ip_tunnel = Comp Struct False [
    Member ''next'' (Ptr ''struct ip_tunnel *''),
    Member ''hash_node'' struct_hlist_node,
    Member ''dev'' (Ptr ''struct net_device *''),
    Member ''dev_tracker'' t_netdevice_tracker,
    Member ''net'' (Ptr ''struct net *''),
    Member ''err_time'' c_unsigned_long,
    Member ''err_count'' c_int,
    Member ''i_seqno'' t_u32,
    Member ''o_seqno'' t_atomic_t,
    Member ''tun_hlen'' c_int,
    Member ''index'' t_u32,
    Member ''erspan_ver'' t_u8,
    Member ''dir'' t_u8,
    Member ''hwid'' t_u16,
    Member ''dst_cache'' struct_dst_cache,
    Member ''parms'' struct_ip_tunnel_parm_kern,
    Member ''mlink'' c_int,
    Member ''encap_hlen'' c_int,
    Member ''hlen'' c_int,
    Member ''encap'' struct_ip_tunnel_encap,
    Member ''prl'' (Ptr ''struct ip_tunnel_prl_entry *''),
    Member ''prl_count'' c_unsigned_int,
    Member ''ip_tnl_net_id'' c_unsigned_int,
    Member ''gro_cells'' struct_gro_cells,
    Member ''fwmark'' t___u32,
    Member ''collect_md'' t_bool,
    Member ''ignore_df'' t_bool]"

definition struct_ip_tunnel_encap_ops :: ctype where
  "struct_ip_tunnel_encap_ops = Comp Struct False [
    Member ''encap_hlen'' (Ptr ''size_t (*)(struct ip_tunnel_encap *)''),
    Member ''build_header'' (Ptr ''int (*)(struct sk_buff *, struct ip_tunnel_encap *, u8 *, struct flowi4 *)''),
    Member ''err_handler'' (Ptr ''int (*)(struct sk_buff *, u32)'')]"

definition struct_ip_tunnel_net :: ctype where
  "struct_ip_tunnel_net = Comp Struct False [
    Member ''fb_tunnel_dev'' (Ptr ''struct net_device *''),
    Member ''rtnl_link_ops'' (Ptr ''struct rtnl_link_ops *''),
    Member ''tunnels'' (Array 128 struct_hlist_head),
    Member ''collect_md_tun'' (Ptr ''struct ip_tunnel *''),
    Member ''type'' c_int]"

definition struct_ip_tunnel_parm :: ctype where
  "struct_ip_tunnel_parm = Comp Struct False [
    Member ''name'' (Array 16 c_char),
    Member ''link'' c_int,
    Member ''i_flags'' t___be16,
    Member ''o_flags'' t___be16,
    Member ''i_key'' t___be32,
    Member ''o_key'' t___be32,
    Member ''iph'' struct_iphdr]"

definition struct_ip_tunnel_prl :: ctype where
  "struct_ip_tunnel_prl = Comp Struct False [
    Member ''addr'' t___be32,
    Member ''flags'' t___u16,
    Member ''__reserved'' t___u16,
    Member ''datalen'' t___u32,
    Member ''__reserved2'' t___u32]"

definition struct_ip_tunnel_prl_entry :: ctype where
  "struct_ip_tunnel_prl_entry = Comp Struct False [
    Member ''next'' (Ptr ''struct ip_tunnel_prl_entry *''),
    Member ''addr'' t___be32,
    Member ''flags'' t_u16,
    Member ''callback_head'' struct_callback_head]"

definition struct_ip_vs_aligned_lock :: ctype where
  "struct_ip_vs_aligned_lock = Comp Struct False ([
    Member ''l'' t_spinlock_t] @ replicate 15 (BitField '''' c_long 64))"

definition struct_ip_vs_app :: ctype where
  "struct_ip_vs_app = Comp Struct False [
    Member ''a_list'' struct_list_head,
    Member ''type'' c_int,
    Member ''name'' (Ptr ''char *''),
    Member ''protocol'' t___u16,
    Member ''module'' (Ptr ''struct module *''),
    Member ''incs_list'' struct_list_head,
    Member ''p_list'' struct_list_head,
    Member ''app'' (Ptr ''struct ip_vs_app *''),
    Member ''port'' t___be16,
    Member ''usecnt'' t_atomic_t,
    Member ''callback_head'' struct_callback_head,
    Member ''pkt_out'' (Ptr ''int (*)(struct ip_vs_app *, struct ip_vs_conn *, struct sk_buff *, int *, struct ip_vs_iphdr *)''),
    Member ''pkt_in'' (Ptr ''int (*)(struct ip_vs_app *, struct ip_vs_conn *, struct sk_buff *, int *, struct ip_vs_iphdr *)''),
    Member ''init_conn'' (Ptr ''int (*)(struct ip_vs_app *, struct ip_vs_conn *)''),
    Member ''done_conn'' (Ptr ''int (*)(struct ip_vs_app *, struct ip_vs_conn *)''),
    Member ''bind_conn'' (Ptr ''int (*)(struct ip_vs_app *, struct ip_vs_conn *, struct ip_vs_protocol *)''),
    Member ''unbind_conn'' (Ptr ''void (*)(struct ip_vs_app *, struct ip_vs_conn *)''),
    Member ''timeout_table'' (Ptr ''int *''),
    Member ''timeouts'' (Ptr ''int *''),
    Member ''timeouts_size'' c_int,
    Member ''conn_schedule'' (Ptr ''int (*)(struct sk_buff *, struct ip_vs_app *, int *, struct ip_vs_conn **)''),
    Member ''conn_in_get'' (Ptr ''struct ip_vs_conn * (*)(const struct sk_buff *, struct ip_vs_app *, const struct iphdr *, int)''),
    Member ''conn_out_get'' (Ptr ''struct ip_vs_conn * (*)(const struct sk_buff *, struct ip_vs_app *, const struct iphdr *, int)''),
    Member ''state_transition'' (Ptr ''int (*)(struct ip_vs_conn *, int, const struct sk_buff *, struct ip_vs_app *)''),
    Member ''timeout_change'' (Ptr ''void (*)(struct ip_vs_app *, int)'')]"

definition struct_ip_vs_seq :: ctype where
  "struct_ip_vs_seq = Comp Struct False [
    Member ''init_seq'' t___u32,
    Member ''delta'' t___u32,
    Member ''previous_delta'' t___u32]"

definition struct_ip_vs_conn :: ctype where
  "struct_ip_vs_conn = Comp Struct False [
    Member ''c_list'' struct_hlist_node,
    Member ''cport'' t___be16,
    Member ''dport'' t___be16,
    Member ''vport'' t___be16,
    Member ''af'' t_u16,
    Member ''caddr'' union_nf_inet_addr,
    Member ''vaddr'' union_nf_inet_addr,
    Member ''daddr'' union_nf_inet_addr,
    Member ''flags'' t___u32,
    Member ''protocol'' t___u16,
    Member ''daf'' t___u16,
    Member ''ipvs'' (Ptr ''struct netns_ipvs *''),
    Member ''refcnt'' t_refcount_t,
    Member ''timer'' struct_timer_list,
    Member ''timeout'' c_unsigned_long,
    Member ''lock'' t_spinlock_t,
    Member ''state'' t___u16,
    Member ''old_state'' t___u16,
    Member ''fwmark'' t___u32,
    Member ''sync_endtime'' c_unsigned_long,
    Member ''control'' (Ptr ''struct ip_vs_conn *''),
    Member ''n_control'' t_atomic_t,
    Member ''dest'' (Ptr ''struct ip_vs_dest *''),
    Member ''in_pkts'' t_atomic_t,
    Member ''packet_xmit'' (Ptr ''int (*)(struct sk_buff *, struct ip_vs_conn *, struct ip_vs_protocol *, struct ip_vs_iphdr *)''),
    Member ''app'' (Ptr ''struct ip_vs_app *''),
    Member ''app_data'' (Ptr ''void *''),
    Member '''' (Comp Union False [
      Member '''' (Comp Struct False [
        Member ''in_seq'' struct_ip_vs_seq,
        Member ''out_seq'' struct_ip_vs_seq]),
      Member ''sync_conn_opt'' (Comp Struct False [
        Member ''in_seq'' struct_ip_vs_seq,
        Member ''out_seq'' struct_ip_vs_seq])]),
    Member ''pe'' (Ptr ''struct ip_vs_pe *''),
    Member ''pe_data'' (Ptr ''char *''),
    Member ''pe_data_len'' t___u8,
    Member ''callback_head'' struct_callback_head]"

definition struct_ip_vs_conn_param :: ctype where
  "struct_ip_vs_conn_param = Comp Struct False [
    Member ''ipvs'' (Ptr ''struct netns_ipvs *''),
    Member ''caddr'' (Ptr ''union nf_inet_addr *''),
    Member ''vaddr'' (Ptr ''union nf_inet_addr *''),
    Member ''cport'' t___be16,
    Member ''vport'' t___be16,
    Member ''protocol'' t___u16,
    Member ''af'' t_u16,
    Member ''pe'' (Ptr ''struct ip_vs_pe *''),
    Member ''pe_data'' (Ptr ''char *''),
    Member ''pe_data_len'' t___u8]"

definition struct_ip_vs_counters :: ctype where
  "struct_ip_vs_counters = Comp Struct False [
    Member ''conns'' t_u64_stats_t,
    Member ''inpkts'' t_u64_stats_t,
    Member ''outpkts'' t_u64_stats_t,
    Member ''inbytes'' t_u64_stats_t,
    Member ''outbytes'' t_u64_stats_t]"

definition struct_ip_vs_cpu_stats :: ctype where
  "struct_ip_vs_cpu_stats = Comp Struct False [
    Member ''cnt'' struct_ip_vs_counters,
    Member ''syncp'' struct_u64_stats_sync]"

definition struct_ip_vs_daemon_user :: ctype where
  "struct_ip_vs_daemon_user = Comp Struct False [
    Member ''state'' c_int,
    Member ''mcast_ifn'' (Array 16 c_char),
    Member ''syncid'' c_int]"

definition struct_ip_vs_kstats :: ctype where
  "struct_ip_vs_kstats = Comp Struct False [
    Member ''conns'' t_u64,
    Member ''inpkts'' t_u64,
    Member ''outpkts'' t_u64,
    Member ''inbytes'' t_u64,
    Member ''outbytes'' t_u64,
    Member ''cps'' t_u64,
    Member ''inpps'' t_u64,
    Member ''outpps'' t_u64,
    Member ''inbps'' t_u64,
    Member ''outbps'' t_u64]"

definition struct_ip_vs_estimator :: ctype where
  "struct_ip_vs_estimator = Comp Struct False [
    Member ''list'' struct_hlist_node,
    Member ''last_inbytes'' t_u64,
    Member ''last_outbytes'' t_u64,
    Member ''last_conns'' t_u64,
    Member ''last_inpkts'' t_u64,
    Member ''last_outpkts'' t_u64,
    Member ''cps'' t_u64,
    Member ''inpps'' t_u64,
    Member ''outpps'' t_u64,
    Member ''inbps'' t_u64,
    Member ''outbps'' t_u64,
    BitField ''ktid'' t_s32 16,
    BitField ''ktrow'' t_s32 8,
    BitField ''ktcid'' t_s32 8]"

definition struct_ip_vs_stats :: ctype where
  "struct_ip_vs_stats = Comp Struct False [
    Member ''kstats'' struct_ip_vs_kstats,
    Member ''est'' struct_ip_vs_estimator,
    Member ''cpustats'' (Ptr ''struct ip_vs_cpu_stats *''),
    Member ''lock'' t_spinlock_t,
    Member ''kstats0'' struct_ip_vs_kstats]"

definition struct_ip_vs_dest :: ctype where
  "struct_ip_vs_dest = Comp Struct False [
    Member ''n_list'' struct_list_head,
    Member ''d_list'' struct_hlist_node,
    Member ''af'' t_u16,
    Member ''port'' t___be16,
    Member ''addr'' union_nf_inet_addr,
    Member ''flags'' c_unsigned_int,
    Member ''conn_flags'' t_atomic_t,
    Member ''weight'' t_atomic_t,
    Member ''last_weight'' t_atomic_t,
    Member ''tun_type'' t___u16,
    Member ''tun_port'' t___be16,
    Member ''tun_flags'' t___u16,
    Member ''refcnt'' t_refcount_t,
    Member ''stats'' struct_ip_vs_stats,
    Member ''idle_start'' c_unsigned_long,
    Member ''activeconns'' t_atomic_t,
    Member ''inactconns'' t_atomic_t,
    Member ''persistconns'' t_atomic_t,
    Member ''u_threshold'' t___u32,
    Member ''l_threshold'' t___u32,
    Member ''dst_lock'' t_spinlock_t,
    Member ''dest_dst'' (Ptr ''struct ip_vs_dest_dst *''),
    Member ''svc'' (Ptr ''struct ip_vs_service *''),
    Member ''protocol'' t___u16,
    Member ''vport'' t___be16,
    Member ''vaddr'' union_nf_inet_addr,
    Member ''vfwmark'' t___u32,
    Member ''callback_head'' struct_callback_head,
    Member ''t_list'' struct_list_head,
    BitField ''in_rs_table'' c_unsigned_int 1]"

definition struct_ip_vs_dest_dst :: ctype where
  "struct_ip_vs_dest_dst = Comp Struct False [
    Member ''dst_cache'' (Ptr ''struct dst_entry *''),
    Member ''dst_cookie'' t_u32,
    Member ''dst_saddr'' union_nf_inet_addr,
    Member ''callback_head'' struct_callback_head]"

definition struct_ip_vs_stats_user :: ctype where
  "struct_ip_vs_stats_user = Comp Struct False [
    Member ''conns'' t___u32,
    Member ''inpkts'' t___u32,
    Member ''outpkts'' t___u32,
    Member ''inbytes'' t___u64,
    Member ''outbytes'' t___u64,
    Member ''cps'' t___u32,
    Member ''inpps'' t___u32,
    Member ''outpps'' t___u32,
    Member ''inbps'' t___u32,
    Member ''outbps'' t___u32]"

definition struct_ip_vs_dest_entry :: ctype where
  "struct_ip_vs_dest_entry = Comp Struct False [
    Member ''addr'' t___be32,
    Member ''port'' t___be16,
    Member ''conn_flags'' c_unsigned_int,
    Member ''weight'' c_int,
    Member ''u_threshold'' t___u32,
    Member ''l_threshold'' t___u32,
    Member ''activeconns'' t___u32,
    Member ''inactconns'' t___u32,
    Member ''persistconns'' t___u32,
    Member ''stats'' struct_ip_vs_stats_user]"

definition struct_ip_vs_dest_user :: ctype where
  "struct_ip_vs_dest_user = Comp Struct False [
    Member ''addr'' t___be32,
    Member ''port'' t___be16,
    Member ''conn_flags'' c_unsigned_int,
    Member ''weight'' c_int,
    Member ''u_threshold'' t___u32,
    Member ''l_threshold'' t___u32]"

definition struct_ip_vs_dest_user_kern :: ctype where
  "struct_ip_vs_dest_user_kern = Comp Struct False [
    Member ''addr'' union_nf_inet_addr,
    Member ''port'' t___be16,
    Member ''conn_flags'' c_unsigned_int,
    Member ''weight'' c_int,
    Member ''u_threshold'' t_u32,
    Member ''l_threshold'' t_u32,
    Member ''af'' t_u16,
    Member ''tun_type'' t_u16,
    Member ''tun_port'' t___be16,
    Member ''tun_flags'' t_u16]"

definition struct_ip_vs_est_kt_data :: ctype where
  "struct_ip_vs_est_kt_data = Comp Struct False [
    Member ''ipvs'' (Ptr ''struct netns_ipvs *''),
    Member ''task'' (Ptr ''struct task_struct *''),
    Member ''ticks'' (Array 50 (Ptr ''struct ip_vs_est_tick_data *'')),
    Member ''avail'' (Array 1 c_unsigned_long),
    Member ''est_timer'' c_unsigned_long,
    Member ''calc_stats'' (Ptr ''struct ip_vs_stats *''),
    Member ''tick_len'' (Array 50 c_int),
    Member ''id'' c_int,
    Member ''chain_max'' c_int,
    Member ''tick_max'' c_int,
    Member ''est_count'' c_int,
    Member ''est_max_count'' c_int,
    Member ''add_row'' c_int,
    Member ''est_row'' c_int]"

definition struct_ip_vs_est_tick_data :: ctype where
  "struct_ip_vs_est_tick_data = Comp Struct False [
    Member ''callback_head'' struct_callback_head,
    Member ''chains'' (Array 48 struct_hlist_head),
    Member ''present'' (Array 1 c_unsigned_long),
    Member ''full'' (Array 1 c_unsigned_long),
    Member ''chain_len'' (Array 48 c_int)]"

definition struct_ip_vs_flags :: ctype where
  "struct_ip_vs_flags = Comp Struct False [
    Member ''flags'' t___u32,
    Member ''mask'' t___u32]"

definition struct_ip_vs_get_dests :: ctype where
  "struct_ip_vs_get_dests = Comp Struct False [
    Member ''protocol'' t___u16,
    Member ''addr'' t___be32,
    Member ''port'' t___be16,
    Member ''fwmark'' t___u32,
    Member ''num_dests'' c_unsigned_int,
    Member ''entrytable'' (Array 0 struct_ip_vs_dest_entry)]"

definition struct_ip_vs_service_entry :: ctype where
  "struct_ip_vs_service_entry = Comp Struct False [
    Member ''protocol'' t___u16,
    Member ''addr'' t___be32,
    Member ''port'' t___be16,
    Member ''fwmark'' t___u32,
    Member ''sched_name'' (Array 16 c_char),
    Member ''flags'' c_unsigned_int,
    Member ''timeout'' c_unsigned_int,
    Member ''netmask'' t___be32,
    Member ''num_dests'' c_unsigned_int,
    Member ''stats'' struct_ip_vs_stats_user]"

definition struct_ip_vs_get_services :: ctype where
  "struct_ip_vs_get_services = Comp Struct False [
    Member ''num_services'' c_unsigned_int,
    Member ''entrytable'' (Array 0 struct_ip_vs_service_entry)]"

definition struct_ip_vs_getinfo :: ctype where
  "struct_ip_vs_getinfo = Comp Struct False [
    Member ''version'' c_unsigned_int,
    Member ''size'' c_unsigned_int,
    Member ''num_services'' c_unsigned_int]"

definition struct_ip_vs_iphdr :: ctype where
  "struct_ip_vs_iphdr = Comp Struct False [
    Member ''hdr_flags'' c_int,
    Member ''off'' t___u32,
    Member ''len'' t___u32,
    Member ''fragoffs'' t___u16,
    Member ''protocol'' t___s16,
    Member ''flags'' t___s32,
    Member ''saddr'' union_nf_inet_addr,
    Member ''daddr'' union_nf_inet_addr]"

definition struct_ip_vs_iter :: ctype where
  "struct_ip_vs_iter = Comp Struct False [
    Member ''p'' struct_seq_net_private,
    Member ''table'' (Ptr ''struct hlist_head *''),
    Member ''bucket'' c_int]"

definition struct_ip_vs_iter_state :: ctype where
  "struct_ip_vs_iter_state = Comp Struct False [
    Member ''p'' struct_seq_net_private,
    Member ''bucket'' c_unsigned_int,
    Member ''skip_elems'' c_unsigned_int]"

definition struct_ip_vs_mh_dest_setup :: ctype where
  "struct_ip_vs_mh_dest_setup = Comp Struct False [
    Member ''offset'' c_unsigned_int,
    Member ''skip'' c_unsigned_int,
    Member ''perm'' c_unsigned_int,
    Member ''turns'' c_int]"

definition struct_ip_vs_mh_lookup :: ctype where
  "struct_ip_vs_mh_lookup = Comp Struct False [
    Member ''dest'' (Ptr ''struct ip_vs_dest *'')]"

definition t_hsiphash_key_t :: ctype where
  "t_hsiphash_key_t = Comp Struct False [
    Member ''key'' (Array 2 c_unsigned_long)]"

definition struct_ip_vs_mh_state :: ctype where
  "struct_ip_vs_mh_state = Comp Struct False [
    Member ''callback_head'' struct_callback_head,
    Member ''lookup'' (Ptr ''struct ip_vs_mh_lookup *''),
    Member ''dest_setup'' (Ptr ''struct ip_vs_mh_dest_setup *''),
    Member ''hash1'' t_hsiphash_key_t,
    Member ''hash2'' t_hsiphash_key_t,
    Member ''gcd'' c_int,
    Member ''rshift'' c_int]"

definition struct_ip_vs_pe :: ctype where
  "struct_ip_vs_pe = Comp Struct False [
    Member ''n_list'' struct_list_head,
    Member ''name'' (Ptr ''char *''),
    Member ''refcnt'' t_atomic_t,
    Member ''module'' (Ptr ''struct module *''),
    Member ''fill_param'' (Ptr ''int (*)(struct ip_vs_conn_param *, struct sk_buff *)''),
    Member ''ct_match'' (Ptr ''bool (*)(const struct ip_vs_conn_param *, struct ip_vs_conn *)''),
    Member ''hashkey_raw'' (Ptr ''u32 (*)(const struct ip_vs_conn_param *, u32, bool)''),
    Member ''show_pe_data'' (Ptr ''int (*)(const struct ip_vs_conn *, char *)''),
    Member ''conn_out'' (Ptr ''struct ip_vs_conn * (*)(struct ip_vs_service *, struct ip_vs_dest *, struct sk_buff *, const struct ip_vs_iphdr *, __be16, __be16)'')]"

definition struct_ip_vs_proto_data :: ctype where
  "struct_ip_vs_proto_data = Comp Struct False [
    Member ''next'' (Ptr ''struct ip_vs_proto_data *''),
    Member ''pp'' (Ptr ''struct ip_vs_protocol *''),
    Member ''timeout_table'' (Ptr ''int *''),
    Member ''appcnt'' t_atomic_t,
    Member ''tcp_state_table'' (Ptr ''struct tcp_states_t *'')]"

definition struct_ip_vs_protocol :: ctype where
  "struct_ip_vs_protocol = Comp Struct False [
    Member ''next'' (Ptr ''struct ip_vs_protocol *''),
    Member ''name'' (Ptr ''char *''),
    Member ''protocol'' t_u16,
    Member ''num_states'' t_u16,
    Member ''dont_defrag'' c_int,
    Member ''init'' (Ptr ''void (*)(struct ip_vs_protocol *)''),
    Member ''exit'' (Ptr ''void (*)(struct ip_vs_protocol *)''),
    Member ''init_netns'' (Ptr ''int (*)(struct netns_ipvs *, struct ip_vs_proto_data *)''),
    Member ''exit_netns'' (Ptr ''void (*)(struct netns_ipvs *, struct ip_vs_proto_data *)''),
    Member ''conn_schedule'' (Ptr ''int (*)(struct netns_ipvs *, int, struct sk_buff *, struct ip_vs_proto_data *, int *, struct ip_vs_conn **, struct ip_vs_iphdr *)''),
    Member ''conn_in_get'' (Ptr ''struct ip_vs_conn * (*)(struct netns_ipvs *, int, const struct sk_buff *, const struct ip_vs_iphdr *)''),
    Member ''conn_out_get'' (Ptr ''struct ip_vs_conn * (*)(struct netns_ipvs *, int, const struct sk_buff *, const struct ip_vs_iphdr *)''),
    Member ''snat_handler'' (Ptr ''int (*)(struct sk_buff *, struct ip_vs_protocol *, struct ip_vs_conn *, struct ip_vs_iphdr *)''),
    Member ''dnat_handler'' (Ptr ''int (*)(struct sk_buff *, struct ip_vs_protocol *, struct ip_vs_conn *, struct ip_vs_iphdr *)''),
    Member ''state_name'' (Ptr ''char * (*)(int)''),
    Member ''state_transition'' (Ptr ''void (*)(struct ip_vs_conn *, int, const struct sk_buff *, struct ip_vs_proto_data *)''),
    Member ''register_app'' (Ptr ''int (*)(struct netns_ipvs *, struct ip_vs_app *)''),
    Member ''unregister_app'' (Ptr ''void (*)(struct netns_ipvs *, struct ip_vs_app *)''),
    Member ''app_conn_bind'' (Ptr ''int (*)(struct ip_vs_conn *)''),
    Member ''debug_packet'' (Ptr ''void (*)(int, struct ip_vs_protocol *, const struct sk_buff *, int, const char *)''),
    Member ''timeout_change'' (Ptr ''void (*)(struct ip_vs_proto_data *, int)'')]"

definition struct_ip_vs_scheduler :: ctype where
  "struct_ip_vs_scheduler = Comp Struct False [
    Member ''n_list'' struct_list_head,
    Member ''name'' (Ptr ''char *''),
    Member ''refcnt'' t_atomic_t,
    Member ''module'' (Ptr ''struct module *''),
    Member ''init_service'' (Ptr ''int (*)(struct ip_vs_service *)''),
    Member ''done_service'' (Ptr ''void (*)(struct ip_vs_service *)''),
    Member ''add_dest'' (Ptr ''int (*)(struct ip_vs_service *, struct ip_vs_dest *)''),
    Member ''del_dest'' (Ptr ''int (*)(struct ip_vs_service *, struct ip_vs_dest *)''),
    Member ''upd_dest'' (Ptr ''int (*)(struct ip_vs_service *, struct ip_vs_dest *)''),
    Member ''schedule'' (Ptr ''struct ip_vs_dest * (*)(struct ip_vs_service *, const struct sk_buff *, struct ip_vs_iphdr *)'')]"

definition struct_ip_vs_service :: ctype where
  "struct_ip_vs_service = Comp Struct False [
    Member ''s_list'' struct_hlist_node,
    Member ''f_list'' struct_hlist_node,
    Member ''refcnt'' t_atomic_t,
    Member ''af'' t_u16,
    Member ''protocol'' t___u16,
    Member ''addr'' union_nf_inet_addr,
    Member ''port'' t___be16,
    Member ''fwmark'' t___u32,
    Member ''flags'' c_unsigned_int,
    Member ''timeout'' c_unsigned_int,
    Member ''netmask'' t___be32,
    Member ''ipvs'' (Ptr ''struct netns_ipvs *''),
    Member ''destinations'' struct_list_head,
    Member ''num_dests'' t___u32,
    Member ''stats'' struct_ip_vs_stats,
    Member ''scheduler'' (Ptr ''struct ip_vs_scheduler *''),
    Member ''sched_lock'' t_spinlock_t,
    Member ''sched_data'' (Ptr ''void *''),
    Member ''pe'' (Ptr ''struct ip_vs_pe *''),
    Member ''conntrack_afmask'' c_int,
    Member ''callback_head'' struct_callback_head]"

definition struct_ip_vs_service_user :: ctype where
  "struct_ip_vs_service_user = Comp Struct False [
    Member ''protocol'' t___u16,
    Member ''addr'' t___be32,
    Member ''port'' t___be16,
    Member ''fwmark'' t___u32,
    Member ''sched_name'' (Array 16 c_char),
    Member ''flags'' c_unsigned_int,
    Member ''timeout'' c_unsigned_int,
    Member ''netmask'' t___be32]"

definition struct_ip_vs_service_user_kern :: ctype where
  "struct_ip_vs_service_user_kern = Comp Struct False [
    Member ''af'' t_u16,
    Member ''protocol'' t_u16,
    Member ''addr'' union_nf_inet_addr,
    Member ''port'' t___be16,
    Member ''fwmark'' t_u32,
    Member ''sched_name'' (Ptr ''char *''),
    Member ''pe_name'' (Ptr ''char *''),
    Member ''flags'' c_unsigned_int,
    Member ''timeout'' c_unsigned_int,
    Member ''netmask'' t___be32]"

definition struct_ip_vs_sh_bucket :: ctype where
  "struct_ip_vs_sh_bucket = Comp Struct False [
    Member ''dest'' (Ptr ''struct ip_vs_dest *'')]"

definition struct_ip_vs_sh_state :: ctype where
  "struct_ip_vs_sh_state = Comp Struct False [
    Member ''callback_head'' struct_callback_head,
    Member ''buckets'' (Array 256 struct_ip_vs_sh_bucket)]"

definition struct_ip_vs_stats_rcu :: ctype where
  "struct_ip_vs_stats_rcu = Comp Struct False [
    Member ''s'' struct_ip_vs_stats,
    Member ''callback_head'' struct_callback_head]"

definition struct_ip_vs_sync_buff :: ctype where
  "struct_ip_vs_sync_buff = Comp Struct False [
    Member ''list'' struct_list_head,
    Member ''firstuse'' c_unsigned_long,
    Member ''mesg'' (Ptr ''struct ip_vs_sync_mesg *''),
    Member ''head'' (Ptr ''unsigned char *''),
    Member ''end'' (Ptr ''unsigned char *'')]"

definition struct_ip_vs_sync_v4 :: ctype where
  "struct_ip_vs_sync_v4 = Comp Struct False [
    Member ''type'' t___u8,
    Member ''protocol'' t___u8,
    Member ''ver_size'' t___be16,
    Member ''flags'' t___be32,
    Member ''state'' t___be16,
    Member ''cport'' t___be16,
    Member ''vport'' t___be16,
    Member ''dport'' t___be16,
    Member ''fwmark'' t___be32,
    Member ''timeout'' t___be32,
    Member ''caddr'' t___be32,
    Member ''vaddr'' t___be32,
    Member ''daddr'' t___be32]"

definition struct_ip_vs_sync_v6 :: ctype where
  "struct_ip_vs_sync_v6 = Comp Struct False [
    Member ''type'' t___u8,
    Member ''protocol'' t___u8,
    Member ''ver_size'' t___be16,
    Member ''flags'' t___be32,
    Member ''state'' t___be16,
    Member ''cport'' t___be16,
    Member ''vport'' t___be16,
    Member ''dport'' t___be16,
    Member ''fwmark'' t___be32,
    Member ''timeout'' t___be32,
    Member ''caddr'' struct_in6_addr,
    Member ''vaddr'' struct_in6_addr,
    Member ''daddr'' struct_in6_addr]"

definition union_ip_vs_sync_conn :: ctype where
  "union_ip_vs_sync_conn = Comp Union False [
    Member ''v4'' struct_ip_vs_sync_v4,
    Member ''v6'' struct_ip_vs_sync_v6]"

definition struct_ip_vs_sync_conn_options :: ctype where
  "struct_ip_vs_sync_conn_options = Comp Struct False [
    Member ''in_seq'' struct_ip_vs_seq,
    Member ''out_seq'' struct_ip_vs_seq]"

definition struct_ip_vs_sync_conn_v0 :: ctype where
  "struct_ip_vs_sync_conn_v0 = Comp Struct False [
    Member ''reserved'' t___u8,
    Member ''protocol'' t___u8,
    Member ''cport'' t___be16,
    Member ''vport'' t___be16,
    Member ''dport'' t___be16,
    Member ''caddr'' t___be32,
    Member ''vaddr'' t___be32,
    Member ''daddr'' t___be32,
    Member ''flags'' t___be16,
    Member ''state'' t___be16]"

definition t___s8 :: ctype where
  "t___s8 = c_signed_char"

definition struct_ip_vs_sync_mesg :: ctype where
  "struct_ip_vs_sync_mesg = Comp Struct False [
    Member ''reserved'' t___u8,
    Member ''syncid'' t___u8,
    Member ''size'' t___be16,
    Member ''nr_conns'' t___u8,
    Member ''version'' t___s8,
    Member ''spare'' t___u16]"

definition struct_ip_vs_sync_mesg_v0 :: ctype where
  "struct_ip_vs_sync_mesg_v0 = Comp Struct False [
    Member ''nr_conns'' t___u8,
    Member ''syncid'' t___u8,
    Member ''size'' t___be16]"

definition struct_ip_vs_sync_thread_data :: ctype where
  "struct_ip_vs_sync_thread_data = Comp Struct False [
    Member ''task'' (Ptr ''struct task_struct *''),
    Member ''ipvs'' (Ptr ''struct netns_ipvs *''),
    Member ''sock'' (Ptr ''struct socket *''),
    Member ''buf'' (Ptr ''char *''),
    Member ''id'' c_int]"

definition struct_ip_vs_timeout_user :: ctype where
  "struct_ip_vs_timeout_user = Comp Struct False [
    Member ''tcp_timeout'' c_int,
    Member ''tcp_fin_timeout'' c_int,
    Member ''udp_timeout'' c_int]"

definition struct_ip_vs_wrr_mark :: ctype where
  "struct_ip_vs_wrr_mark = Comp Struct False [
    Member ''cl'' (Ptr ''struct ip_vs_dest *''),
    Member ''cw'' c_int,
    Member ''mw'' c_int,
    Member ''di'' c_int,
    Member ''callback_head'' struct_callback_head]"

definition t___kernel_key_t :: ctype where
  "t___kernel_key_t = c_int"

definition t___kernel_mode_t :: ctype where
  "t___kernel_mode_t = c_unsigned_int"

definition struct_ipc64_perm :: ctype where
  "struct_ipc64_perm = Comp Struct False [
    Member ''key'' t___kernel_key_t,
    Member ''uid'' t___kernel_uid32_t,
    Member ''gid'' t___kernel_gid32_t,
    Member ''cuid'' t___kernel_uid32_t,
    Member ''cgid'' t___kernel_gid32_t,
    Member ''mode'' t___kernel_mode_t,
    Member ''__pad1'' (Array 0 c_unsigned_char),
    Member ''seq'' c_unsigned_short,
    Member ''__pad2'' c_unsigned_short,
    Member ''__unused1'' t___kernel_ulong_t,
    Member ''__unused2'' t___kernel_ulong_t]"

definition struct_rhashtable :: ctype where
  "struct_rhashtable = Comp Struct False [
    Member ''tbl'' (Ptr ''struct bucket_table *''),
    Member ''key_len'' c_unsigned_int,
    Member ''max_elems'' c_unsigned_int,
    Member ''p'' struct_rhashtable_params,
    Member ''rhlist'' t_bool,
    Member ''run_work'' struct_work_struct,
    Member ''mutex'' struct_mutex,
    Member ''lock'' t_spinlock_t,
    Member ''nelems'' t_atomic_t]"

definition struct_ipc_ids :: ctype where
  "struct_ipc_ids = Comp Struct False [
    Member ''in_use'' c_int,
    Member ''seq'' c_unsigned_short,
    Member ''rwsem'' struct_rw_semaphore,
    Member ''ipcs_idr'' struct_idr,
    Member ''max_idx'' c_int,
    Member ''last_idx'' c_int,
    Member ''next_id'' c_int,
    Member ''key_ht'' struct_rhashtable]"

definition t_notifier_fn_t :: ctype where
  "t_notifier_fn_t = Ptr ''int (*)(struct notifier_block *, unsigned long, void *)''"

definition struct_notifier_block :: ctype where
  "struct_notifier_block = Comp Struct False [
    Member ''notifier_call'' t_notifier_fn_t,
    Member ''next'' (Ptr ''struct notifier_block *''),
    Member ''priority'' c_int]"

definition struct_ipc_namespace :: ctype where
  "struct_ipc_namespace = Comp Struct False [
    Member ''ids'' (Array 3 struct_ipc_ids),
    Member ''sem_ctls'' (Array 4 c_int),
    Member ''used_sems'' c_int,
    Member ''msg_ctlmax'' c_unsigned_int,
    Member ''msg_ctlmnb'' c_unsigned_int,
    Member ''msg_ctlmni'' c_unsigned_int,
    Member ''percpu_msg_bytes'' struct_percpu_counter,
    Member ''percpu_msg_hdrs'' struct_percpu_counter,
    Member ''shm_ctlmax'' t_size_t,
    Member ''shm_ctlall'' t_size_t,
    Member ''shm_tot'' c_unsigned_long,
    Member ''shm_ctlmni'' c_int,
    Member ''shm_rmid_forced'' c_int,
    Member ''ipcns_nb'' struct_notifier_block,
    Member ''mq_mnt'' (Ptr ''struct vfsmount *''),
    Member ''mq_queues_count'' c_unsigned_int,
    Member ''mq_queues_max'' c_unsigned_int,
    Member ''mq_msg_max'' c_unsigned_int,
    Member ''mq_msgsize_max'' c_unsigned_int,
    Member ''mq_msg_default'' c_unsigned_int,
    Member ''mq_msgsize_default'' c_unsigned_int,
    Member ''mq_set'' struct_ctl_table_set,
    Member ''mq_sysctls'' (Ptr ''struct ctl_table_header *''),
    Member ''ipc_set'' struct_ctl_table_set,
    Member ''ipc_sysctls'' (Ptr ''struct ctl_table_header *''),
    Member ''user_ns'' (Ptr ''struct user_namespace *''),
    Member ''ucounts'' (Ptr ''struct ucounts *''),
    Member ''mnt_llist'' struct_llist_node,
    Member ''ns'' struct_ns_common]"

definition struct_ipc_ops :: ctype where
  "struct_ipc_ops = Comp Struct False [
    Member ''getnew'' (Ptr ''int (*)(struct ipc_namespace *, struct ipc_params *)''),
    Member ''associate'' (Ptr ''int (*)(struct kern_ipc_perm *, int)''),
    Member ''more_checks'' (Ptr ''int (*)(struct kern_ipc_perm *, struct ipc_params *)'')]"

definition t_key_t :: ctype where
  "t_key_t = t___kernel_key_t"

definition struct_ipc_params :: ctype where
  "struct_ipc_params = Comp Struct False [
    Member ''key'' t_key_t,
    Member ''flg'' c_int,
    Member ''u'' (Comp Union False [
      Member ''size'' t_size_t,
      Member ''nsems'' c_int])]"

definition t___kernel_uid_t :: ctype where
  "t___kernel_uid_t = c_unsigned_int"

definition t___kernel_gid_t :: ctype where
  "t___kernel_gid_t = c_unsigned_int"

definition struct_ipc_perm :: ctype where
  "struct_ipc_perm = Comp Struct False [
    Member ''key'' t___kernel_key_t,
    Member ''uid'' t___kernel_uid_t,
    Member ''gid'' t___kernel_gid_t,
    Member ''cuid'' t___kernel_uid_t,
    Member ''cgid'' t___kernel_gid_t,
    Member ''mode'' t___kernel_mode_t,
    Member ''seq'' c_unsigned_short]"

definition struct_ipc_proc_iface :: ctype where
  "struct_ipc_proc_iface = Comp Struct False [
    Member ''path'' (Ptr ''char *''),
    Member ''header'' (Ptr ''char *''),
    Member ''ids'' c_int,
    Member ''show'' (Ptr ''int (*)(struct seq_file *, void *)'')]"

definition struct_ipc_proc_iter :: ctype where
  "struct_ipc_proc_iter = Comp Struct False [
    Member ''ns'' (Ptr ''struct ipc_namespace *''),
    Member ''pid_ns'' (Ptr ''struct pid_namespace *''),
    Member ''iface'' (Ptr ''struct ipc_proc_iface *'')]"

definition struct_sockcm_cookie :: ctype where
  "struct_sockcm_cookie = Comp Struct False [
    Member ''transmit_time'' t_u64,
    Member ''mark'' t_u32,
    Member ''tsflags'' t_u32,
    Member ''ts_opt_id'' t_u32,
    Member ''priority'' t_u32,
    Member ''dmabuf_id'' t_u32]"

definition struct_ipcm6_cookie :: ctype where
  "struct_ipcm6_cookie = Comp Struct False [
    Member ''sockc'' struct_sockcm_cookie,
    Member ''hlimit'' t___s16,
    Member ''tclass'' t___s16,
    Member ''gso_size'' t___u16,
    Member ''dontfrag'' t___s8,
    Member ''opt'' (Ptr ''struct ipv6_txoptions *'')]"

definition struct_ipcm_cookie :: ctype where
  "struct_ipcm_cookie = Comp Struct False [
    Member ''sockc'' struct_sockcm_cookie,
    Member ''addr'' t___be32,
    Member ''oif'' c_int,
    Member ''opt'' (Ptr ''struct ip_options_rcu *''),
    Member ''protocol'' t___u8,
    Member ''ttl'' t___u8,
    Member ''tos'' t___s16,
    Member ''gso_size'' t___u16]"

definition struct_ipcomp_data :: ctype where
  "struct_ipcomp_data = Comp Struct False [
    Member ''threshold'' t_u16,
    Member ''tfm'' (Ptr ''struct crypto_acomp *'')]"

definition struct_ipcomp_req_extra :: ctype where
  "struct_ipcomp_req_extra = Comp Struct False [
    Member ''x'' (Ptr ''struct xfrm_state *''),
    Member ''sg'' (Array 0 struct_scatterlist)]"

definition struct_ipfrag_skb_cb :: ctype where
  "struct_ipfrag_skb_cb = Comp Struct False [
    Member '''' (Comp Union False [
      Member ''h4'' struct_inet_skb_parm,
      Member ''h6'' struct_inet6_skb_parm]),
    Member ''next_frag'' (Ptr ''struct sk_buff *''),
    Member ''frag_run_len'' c_int,
    Member ''ip_defrag_offset'' c_int]"

definition struct_ipi_descs :: ctype where
  "struct_ipi_descs = Comp Struct False [
    Member ''descs'' (Array 8 (Ptr ''struct irq_desc *''))]"

definition struct_ipq :: ctype where
  "struct_ipq = Comp Struct False [
    Member ''q'' struct_inet_frag_queue,
    Member ''ecn'' t_u8,
    Member ''max_df_size'' t_u16,
    Member ''iif'' c_int,
    Member ''rid'' c_unsigned_int,
    Member ''peer'' (Ptr ''struct inet_peer *'')]"

definition struct_ipstats_mib :: ctype where
  "struct_ipstats_mib = Comp Struct False [
    Member ''mibs'' (Array 38 t_u64),
    Member ''syncp'' struct_u64_stats_sync]"

definition struct_ipt_ECN_info :: ctype where
  "struct_ipt_ECN_info = Comp Struct False [
    Member ''operation'' t___u8,
    Member ''ip_ect'' t___u8,
    Member ''proto'' (Comp Union False [
      Member ''tcp'' (Comp Struct False [
        BitField ''ece'' t___u8 1,
        BitField ''cwr'' t___u8 1])])]"

definition struct_ipt_TTL_info :: ctype where
  "struct_ipt_TTL_info = Comp Struct False [
    Member ''mode'' t___u8,
    Member ''ttl'' t___u8]"

definition struct_ipt_ah :: ctype where
  "struct_ipt_ah = Comp Struct False [
    Member ''spis'' (Array 2 t___u32),
    Member ''invflags'' t___u8]"

definition struct_ipt_ip :: ctype where
  "struct_ipt_ip = Comp Struct False [
    Member ''src'' struct_in_addr,
    Member ''dst'' struct_in_addr,
    Member ''smsk'' struct_in_addr,
    Member ''dmsk'' struct_in_addr,
    Member ''iniface'' (Array 16 c_char),
    Member ''outiface'' (Array 16 c_char),
    Member ''iniface_mask'' (Array 16 c_unsigned_char),
    Member ''outiface_mask'' (Array 16 c_unsigned_char),
    Member ''proto'' t___u16,
    Member ''flags'' t___u8,
    Member ''invflags'' t___u8]"

definition struct_ipt_entry :: ctype where
  "struct_ipt_entry = Comp Struct False [
    Member ''ip'' struct_ipt_ip,
    Member ''nfcache'' c_unsigned_int,
    Member ''target_offset'' t___u16,
    Member ''next_offset'' t___u16,
    Member ''comefrom'' c_unsigned_int,
    Member ''counters'' struct_xt_counters,
    Member ''elems'' (Array 0 c_unsigned_char)]"

definition struct_ipt_error :: ctype where
  "struct_ipt_error = Comp Struct False [
    Member ''entry'' struct_ipt_entry,
    Member ''target'' struct_xt_error_target]"

definition struct_ipt_get_entries :: ctype where
  "struct_ipt_get_entries = Comp Struct False [
    Member ''name'' (Array 32 c_char),
    Member ''size'' c_unsigned_int,
    Member ''entrytable'' (Array 0 struct_ipt_entry)]"

definition struct_ipt_getinfo :: ctype where
  "struct_ipt_getinfo = Comp Struct False [
    Member ''name'' (Array 32 c_char),
    Member ''valid_hooks'' c_unsigned_int,
    Member ''hook_entry'' (Array 5 c_unsigned_int),
    Member ''underflow'' (Array 5 c_unsigned_int),
    Member ''num_entries'' c_unsigned_int,
    Member ''size'' c_unsigned_int]"

definition struct_ipt_icmp :: ctype where
  "struct_ipt_icmp = Comp Struct False [
    Member ''type'' t___u8,
    Member ''code'' (Array 2 t___u8),
    Member ''invflags'' t___u8]"

definition struct_ipt_reject_info :: ctype where
  "struct_ipt_reject_info = Comp Struct False [
    Member ''with'' enum_ipt_reject_with]"

definition struct_ipt_replace :: ctype where
  "struct_ipt_replace = Comp Struct False [
    Member ''name'' (Array 32 c_char),
    Member ''valid_hooks'' c_unsigned_int,
    Member ''num_entries'' c_unsigned_int,
    Member ''size'' c_unsigned_int,
    Member ''hook_entry'' (Array 5 c_unsigned_int),
    Member ''underflow'' (Array 5 c_unsigned_int),
    Member ''num_counters'' c_unsigned_int,
    Member ''counters'' (Ptr ''struct xt_counters *''),
    Member ''entries'' (Array 0 struct_ipt_entry)]"

definition struct_ipt_standard :: ctype where
  "struct_ipt_standard = Comp Struct False [
    Member ''entry'' struct_ipt_entry,
    Member ''target'' struct_xt_standard_target]"

definition struct_ipt_ttl_info :: ctype where
  "struct_ipt_ttl_info = Comp Struct False [
    Member ''mode'' t___u8,
    Member ''ttl'' t___u8]"

definition struct_iptable_nat_pernet :: ctype where
  "struct_iptable_nat_pernet = Comp Struct False [
    Member ''nf_nat_ops'' (Ptr ''struct nf_hook_ops *'')]"

definition struct_ipv6_ac_socklist :: ctype where
  "struct_ipv6_ac_socklist = Comp Struct False [
    Member ''acl_addr'' struct_in6_addr,
    Member ''acl_ifindex'' c_int,
    Member ''acl_next'' (Ptr ''struct ipv6_ac_socklist *'')]"

definition struct_ipv6_bpf_stub :: ctype where
  "struct_ipv6_bpf_stub = Comp Struct False [
    Member ''inet6_bind'' (Ptr ''int (*)(struct sock *, struct sockaddr *, int, u32)''),
    Member ''udp6_lib_lookup'' (Ptr ''struct sock * (*)(struct net *, const struct in6_addr *, __be16, const struct in6_addr *, __be16, int, int, struct udp_table *, struct sk_buff *)''),
    Member ''ipv6_setsockopt'' (Ptr ''int (*)(struct sock *, int, int, sockptr_t, unsigned int)''),
    Member ''ipv6_getsockopt'' (Ptr ''int (*)(struct sock *, int, int, sockptr_t, sockptr_t)''),
    Member ''ipv6_dev_get_saddr'' (Ptr ''int (*)(struct net *, const struct net_device *, const struct in6_addr *, unsigned int, struct in6_addr *)'')]"

definition struct_ipv6_fl_socklist :: ctype where
  "struct_ipv6_fl_socklist = Comp Struct False [
    Member ''next'' (Ptr ''struct ipv6_fl_socklist *''),
    Member ''fl'' (Ptr ''struct ip6_flowlabel *''),
    Member ''rcu'' struct_callback_head]"

definition struct_ipv6_mc_socklist :: ctype where
  "struct_ipv6_mc_socklist = Comp Struct False [
    Member ''addr'' struct_in6_addr,
    Member ''ifindex'' c_int,
    Member ''sfmode'' c_unsigned_int,
    Member ''next'' (Ptr ''struct ipv6_mc_socklist *''),
    Member ''sflist'' (Ptr ''struct ip6_sf_socklist *''),
    Member ''rcu'' struct_callback_head]"

definition struct_ipv6_mreq :: ctype where
  "struct_ipv6_mreq = Comp Struct False [
    Member ''ipv6mr_multiaddr'' struct_in6_addr,
    Member ''ipv6mr_ifindex'' c_int]"

definition struct_ipv6_opt_hdr :: ctype where
  "struct_ipv6_opt_hdr = Comp Struct False [
    Member ''nexthdr'' t___u8,
    Member ''hdrlen'' t___u8]"

definition struct_ipv6_params :: ctype where
  "struct_ipv6_params = Comp Struct False [
    Member ''disable_ipv6'' t___s32,
    Member ''autoconf'' t___s32]"

definition struct_ipv6_pinfo :: ctype where
  "struct_ipv6_pinfo = Comp Struct False [
    Member ''saddr'' struct_in6_addr,
    Member ''sticky_pktinfo'' struct_in6_pktinfo,
    Member ''daddr_cache'' (Ptr ''struct in6_addr *''),
    Member ''flow_label'' t___be32,
    Member ''frag_size'' t___u32,
    Member ''hop_limit'' t_s16,
    Member ''mcast_hops'' t_u8,
    Member ''ucast_oif'' c_int,
    Member ''mcast_oif'' c_int,
    Member ''rxopt'' (Comp Union False [
      Member ''bits'' (Comp Struct False [
        BitField ''srcrt'' t___u16 1,
        BitField ''osrcrt'' t___u16 1,
        BitField ''rxinfo'' t___u16 1,
        BitField ''rxoinfo'' t___u16 1,
        BitField ''rxhlim'' t___u16 1,
        BitField ''rxohlim'' t___u16 1,
        BitField ''hopopts'' t___u16 1,
        BitField ''ohopopts'' t___u16 1,
        BitField ''dstopts'' t___u16 1,
        BitField ''odstopts'' t___u16 1,
        BitField ''rxflow'' t___u16 1,
        BitField ''rxtclass'' t___u16 1,
        BitField ''rxpmtu'' t___u16 1,
        BitField ''rxorigdstaddr'' t___u16 1,
        BitField ''recvfragsize'' t___u16 1]),
      Member ''all'' t___u16]),
    Member ''srcprefs'' t___u8,
    Member ''pmtudisc'' t___u8,
    Member ''min_hopcount'' t___u8,
    Member ''tclass'' t___u8,
    Member ''rcv_flowinfo'' t___be32,
    Member ''dst_cookie'' t___u32,
    Member ''ipv6_mc_list'' (Ptr ''struct ipv6_mc_socklist *''),
    Member ''ipv6_ac_list'' (Ptr ''struct ipv6_ac_socklist *''),
    Member ''ipv6_fl_list'' (Ptr ''struct ipv6_fl_socklist *''),
    Member ''opt'' (Ptr ''struct ipv6_txoptions *''),
    Member ''pktoptions'' (Ptr ''struct sk_buff *''),
    Member ''rxpmtu'' (Ptr ''struct sk_buff *''),
    Member ''cork'' struct_inet6_cork]"

definition struct_ipv6_route_iter :: ctype where
  "struct_ipv6_route_iter = Comp Struct False [
    Member ''p'' struct_seq_net_private,
    Member ''w'' struct_fib6_walker,
    Member ''skip'' t_loff_t,
    Member ''tbl'' (Ptr ''struct fib6_table *''),
    Member ''sernum'' c_int]"

definition struct_ipv6_rpl_sr_hdr :: ctype where
  "struct_ipv6_rpl_sr_hdr = Comp Struct False [
    Member ''nexthdr'' t___u8,
    Member ''hdrlen'' t___u8,
    Member ''type'' t___u8,
    Member ''segments_left'' t___u8,
    BitField ''cmpre'' t___u32 4,
    BitField ''cmpri'' t___u32 4,
    BitField ''reserved'' t___u32 4,
    BitField ''pad'' t___u32 4,
    BitField ''reserved1'' t___u32 16,
    Member ''segments'' (Comp Union False [
      Member '''' (Comp Struct False [
        Member ''__empty_addr'' (Comp Struct False []),
        Member ''addr'' (Array 0 struct_in6_addr)]),
      Member '''' (Comp Struct False [
        Member ''__empty_data'' (Comp Struct False []),
        Member ''data'' (Array 0 t___u8)])])]"

definition struct_ipv6_rt_hdr :: ctype where
  "struct_ipv6_rt_hdr = Comp Struct False [
    Member ''nexthdr'' t___u8,
    Member ''hdrlen'' t___u8,
    Member ''type'' t___u8,
    Member ''segments_left'' t___u8]"

definition struct_ipv6_saddr_dst :: ctype where
  "struct_ipv6_saddr_dst = Comp Struct False [
    Member ''addr'' (Ptr ''struct in6_addr *''),
    Member ''ifindex'' c_int,
    Member ''scope'' c_int,
    Member ''label'' c_int,
    Member ''prefs'' c_unsigned_int]"

definition struct_ipv6_saddr_score :: ctype where
  "struct_ipv6_saddr_score = Comp Struct False [
    Member ''rule'' c_int,
    Member ''addr_type'' c_int,
    Member ''ifa'' (Ptr ''struct inet6_ifaddr *''),
    Member ''scorebits'' (Array 1 c_unsigned_long),
    Member ''scopedist'' c_int,
    Member ''matchlen'' c_int]"

definition struct_ipv6_sr_hdr :: ctype where
  "struct_ipv6_sr_hdr = Comp Struct False [
    Member ''nexthdr'' t___u8,
    Member ''hdrlen'' t___u8,
    Member ''type'' t___u8,
    Member ''segments_left'' t___u8,
    Member ''first_segment'' t___u8,
    Member ''flags'' t___u8,
    Member ''tag'' t___u16,
    Member ''segments'' (Array 0 struct_in6_addr)]"

definition struct_ipv6_stub :: ctype where
  "struct_ipv6_stub = Comp Struct False [
    Member ''ipv6_sock_mc_join'' (Ptr ''int (*)(struct sock *, int, const struct in6_addr *)''),
    Member ''ipv6_sock_mc_drop'' (Ptr ''int (*)(struct sock *, int, const struct in6_addr *)''),
    Member ''ipv6_dst_lookup_flow'' (Ptr ''struct dst_entry * (*)(struct net *, const struct sock *, struct flowi6 *, const struct in6_addr *)''),
    Member ''ipv6_route_input'' (Ptr ''int (*)(struct sk_buff *)''),
    Member ''fib6_get_table'' (Ptr ''struct fib6_table * (*)(struct net *, u32)''),
    Member ''fib6_lookup'' (Ptr ''int (*)(struct net *, int, struct flowi6 *, struct fib6_result *, int)''),
    Member ''fib6_table_lookup'' (Ptr ''int (*)(struct net *, struct fib6_table *, int, struct flowi6 *, struct fib6_result *, int)''),
    Member ''fib6_select_path'' (Ptr ''void (*)(const struct net *, struct fib6_result *, struct flowi6 *, int, bool, const struct sk_buff *, int)''),
    Member ''ip6_mtu_from_fib6'' (Ptr ''u32 (*)(const struct fib6_result *, const struct in6_addr *, const struct in6_addr *)''),
    Member ''fib6_nh_init'' (Ptr ''int (*)(struct net *, struct fib6_nh *, struct fib6_config *, gfp_t, struct netlink_ext_ack *)''),
    Member ''fib6_nh_release'' (Ptr ''void (*)(struct fib6_nh *)''),
    Member ''fib6_nh_release_dsts'' (Ptr ''void (*)(struct fib6_nh *)''),
    Member ''fib6_update_sernum'' (Ptr ''void (*)(struct net *, struct fib6_info *)''),
    Member ''ip6_del_rt'' (Ptr ''int (*)(struct net *, struct fib6_info *, bool)''),
    Member ''fib6_rt_update'' (Ptr ''void (*)(struct net *, struct fib6_info *, struct nl_info *)''),
    Member ''udpv6_encap_enable'' (Ptr ''void (*)(void)''),
    Member ''ndisc_send_na'' (Ptr ''void (*)(struct net_device *, const struct in6_addr *, const struct in6_addr *, bool, bool, bool, bool)''),
    Member ''xfrm6_local_rxpmtu'' (Ptr ''void (*)(struct sk_buff *, u32)''),
    Member ''xfrm6_udp_encap_rcv'' (Ptr ''int (*)(struct sock *, struct sk_buff *)''),
    Member ''xfrm6_gro_udp_encap_rcv'' (Ptr ''struct sk_buff * (*)(struct sock *, struct list_head *, struct sk_buff *)''),
    Member ''xfrm6_rcv_encap'' (Ptr ''int (*)(struct sk_buff *, int, __be32, int)''),
    Member ''nd_tbl'' (Ptr ''struct neigh_table *''),
    Member ''ipv6_fragment'' (Ptr ''int (*)(struct net *, struct sock *, struct sk_buff *, int (*)(struct net *, struct sock *, struct sk_buff *))''),
    Member ''ipv6_dev_find'' (Ptr ''struct net_device * (*)(struct net *, const struct in6_addr *, struct net_device *)''),
    Member ''ip6_xmit'' (Ptr ''int (*)(const struct sock *, struct sk_buff *, struct flowi6 *, __u32, struct ipv6_txoptions *, int, u32)'')]"

definition struct_ipv6_txoptions :: ctype where
  "struct_ipv6_txoptions = Comp Struct False [
    Member ''refcnt'' t_refcount_t,
    Member ''tot_len'' c_int,
    Member ''opt_flen'' t___u16,
    Member ''opt_nflen'' t___u16,
    Member ''hopopt'' (Ptr ''struct ipv6_opt_hdr *''),
    Member ''dst0opt'' (Ptr ''struct ipv6_opt_hdr *''),
    Member ''srcrt'' (Ptr ''struct ipv6_rt_hdr *''),
    Member ''dst1opt'' (Ptr ''struct ipv6_opt_hdr *''),
    Member ''rcu'' struct_callback_head]"

definition struct_ipv6_tel_txoption :: ctype where
  "struct_ipv6_tel_txoption = Comp Struct False [
    Member ''ops'' struct_ipv6_txoptions,
    Member ''dst_opt'' (Array 8 t___u8)]"

definition struct_ipv6_tlv_tnl_enc_lim :: ctype where
  "struct_ipv6_tlv_tnl_enc_lim = Comp Struct False [
    Member ''type'' t___u8,
    Member ''length'' t___u8,
    Member ''encap_limit'' t___u8]"

definition t_ipvl_hdr_type :: ctype where
  "t_ipvl_hdr_type = Enum False [
    (''IPVL_IPV6'', 0), (''IPVL_ICMPV6'', 1), (''IPVL_IPV4'', 2), (''IPVL_ARP'', 3)]"

definition struct_ipvl_addr :: ctype where
  "struct_ipvl_addr = Comp Struct False [
    Member ''master'' (Ptr ''struct ipvl_dev *''),
    Member ''ipu'' (Comp Union False [
      Member ''ip6'' struct_in6_addr,
      Member ''ip4'' struct_in_addr]),
    Member ''hlnode'' struct_hlist_node,
    Member ''anode'' struct_list_head,
    Member ''atype'' t_ipvl_hdr_type,
    Member ''rcu'' struct_callback_head]"

definition struct_ipvl_dev :: ctype where
  "struct_ipvl_dev = Comp Struct False [
    Member ''dev'' (Ptr ''struct net_device *''),
    Member ''pnode'' struct_list_head,
    Member ''port'' (Ptr ''struct ipvl_port *''),
    Member ''phy_dev'' (Ptr ''struct net_device *''),
    Member ''addrs'' struct_list_head,
    Member ''pcpu_stats'' (Ptr ''struct ipvl_pcpu_stats *''),
    Member ''mac_filters'' (Array 4 c_unsigned_long),
    Member ''sfeatures'' t_netdev_features_t,
    Member ''msg_enable'' t_u32,
    Member ''addrs_lock'' t_spinlock_t]"

definition struct_ipvl_pcpu_stats :: ctype where
  "struct_ipvl_pcpu_stats = Comp Struct False [
    Member ''rx_pkts'' t_u64_stats_t,
    Member ''rx_bytes'' t_u64_stats_t,
    Member ''rx_mcast'' t_u64_stats_t,
    Member ''tx_pkts'' t_u64_stats_t,
    Member ''tx_bytes'' t_u64_stats_t,
    Member ''syncp'' struct_u64_stats_sync,
    Member ''rx_errs'' t_u32,
    Member ''tx_drps'' t_u32]"

definition struct_ida :: ctype where
  "struct_ida = Comp Struct False [
    Member ''xa'' struct_xarray]"

definition struct_ipvl_port :: ctype where
  "struct_ipvl_port = Comp Struct False [
    Member ''dev'' (Ptr ''struct net_device *''),
    Member ''pnet'' t_possible_net_t,
    Member ''hlhead'' (Array 256 struct_hlist_head),
    Member ''ipvlans'' struct_list_head,
    Member ''mode'' t_u16,
    Member ''flags'' t_u16,
    Member ''dev_id_start'' t_u16,
    Member ''wq'' struct_work_struct,
    Member ''backlog'' struct_sk_buff_head,
    Member ''count'' c_int,
    Member ''ida'' struct_ida,
    Member ''dev_tracker'' t_netdevice_tracker]"

definition struct_ipvl_skb_cb :: ctype where
  "struct_ipvl_skb_cb = Comp Struct False [
    Member ''tx_pkt'' t_bool]"

definition struct_ipvlan_netns :: ctype where
  "struct_ipvlan_netns = Comp Struct False [
    Member ''ipvl_nf_hook_refcnt'' c_unsigned_int]"

definition struct_ipvs_master_sync_state :: ctype where
  "struct_ipvs_master_sync_state = Comp Struct False [
    Member ''sync_queue'' struct_list_head,
    Member ''sync_buff'' (Ptr ''struct ip_vs_sync_buff *''),
    Member ''sync_queue_len'' c_unsigned_long,
    Member ''sync_queue_delay'' c_unsigned_int,
    Member ''master_wakeup_work'' struct_delayed_work,
    Member ''ipvs'' (Ptr ''struct netns_ipvs *'')]"

definition struct_sockaddr_in :: ctype where
  "struct_sockaddr_in = Comp Struct False [
    Member ''sin_family'' t___kernel_sa_family_t,
    Member ''sin_port'' t___be16,
    Member ''sin_addr'' struct_in_addr,
    Member ''__pad'' (Array 8 c_unsigned_char)]"

definition union_ipvs_sockaddr :: ctype where
  "union_ipvs_sockaddr = Comp Union False [
    Member ''in'' struct_sockaddr_in,
    Member ''in6'' struct_sockaddr_in6]"

definition struct_ipvs_sync_daemon_cfg :: ctype where
  "struct_ipvs_sync_daemon_cfg = Comp Struct False [
    Member ''mcast_group'' union_nf_inet_addr,
    Member ''syncid'' c_int,
    Member ''sync_maxlen'' t_u16,
    Member ''mcast_port'' t_u16,
    Member ''mcast_af'' t_u8,
    Member ''mcast_ttl'' t_u8,
    Member ''mcast_ifn'' (Array 16 c_char)]"

definition struct_tap_dev :: ctype where
  "struct_tap_dev = Comp Struct False [
    Member ''dev'' (Ptr ''struct net_device *''),
    Member ''flags'' t_u16,
    Member ''taps'' (Array 256 (Ptr ''struct tap_queue *'')),
    Member ''queue_list'' struct_list_head,
    Member ''numvtaps'' c_int,
    Member ''numqueues'' c_int,
    Member ''tap_features'' t_netdev_features_t,
    Member ''minor'' c_int,
    Member ''update_features'' (Ptr ''void (*)(struct tap_dev *, netdev_features_t)''),
    Member ''count_tx_dropped'' (Ptr ''void (*)(struct tap_dev *)''),
    Member ''count_rx_dropped'' (Ptr ''void (*)(struct tap_dev *)'')]"

definition struct_ipvtap_dev :: ctype where
  "struct_ipvtap_dev = Comp Struct False [
    Member ''vlan'' struct_ipvl_dev,
    Member ''tap'' struct_tap_dev]"

definition struct_mld2_grec :: ctype where
  "struct_mld2_grec = Comp Struct False [
    Member ''grec_type'' t___u8,
    Member ''grec_auxwords'' t___u8,
    Member ''grec_nsrcs'' t___be16,
    Member ''grec_mca'' struct_in6_addr,
    Member ''grec_src'' (Array 0 struct_in6_addr)]"

definition struct_mld2_query :: ctype where
  "struct_mld2_query = Comp Struct False [
    Member ''mld2q_hdr'' struct_icmp6hdr,
    Member ''mld2q_mca'' struct_in6_addr,
    BitField ''mld2q_qrv'' t___u8 3,
    BitField ''mld2q_suppress'' t___u8 1,
    BitField ''mld2q_resv2'' t___u8 4,
    Member ''mld2q_qqic'' t___u8,
    Member ''mld2q_nsrcs'' t___be16,
    Member ''mld2q_srcs'' (Array 0 struct_in6_addr)]"

definition struct_mld2_report :: ctype where
  "struct_mld2_report = Comp Struct False [
    Member ''mld2r_hdr'' struct_icmp6hdr,
    Member ''mld2r_grec'' (Array 0 struct_mld2_grec)]"

definition struct_mld_msg :: ctype where
  "struct_mld_msg = Comp Struct False [
    Member ''mld_hdr'' struct_icmp6hdr,
    Member ''mld_mca'' struct_in6_addr]"

definition struct_neigh_dump_filter :: ctype where
  "struct_neigh_dump_filter = Comp Struct False [
    Member ''master_idx'' c_int,
    Member ''dev_idx'' c_int]"

definition struct_neigh_hash_table :: ctype where
  "struct_neigh_hash_table = Comp Struct False [
    Member ''hash_heads'' (Ptr ''struct hlist_head *''),
    Member ''hash_shift'' c_unsigned_int,
    Member ''hash_rnd'' (Array 4 t___u32),
    Member ''rcu'' struct_callback_head]"

definition struct_neigh_ops :: ctype where
  "struct_neigh_ops = Comp Struct False [
    Member ''family'' c_int,
    Member ''solicit'' (Ptr ''void (*)(struct neighbour *, struct sk_buff *)''),
    Member ''error_report'' (Ptr ''void (*)(struct neighbour *, struct sk_buff *)''),
    Member ''output'' (Ptr ''int (*)(struct neighbour *, struct sk_buff *)''),
    Member ''connected_output'' (Ptr ''int (*)(struct neighbour *, struct sk_buff *)'')]"

definition struct_neigh_parms :: ctype where
  "struct_neigh_parms = Comp Struct False [
    Member ''net'' t_possible_net_t,
    Member ''dev'' (Ptr ''struct net_device *''),
    Member ''dev_tracker'' t_netdevice_tracker,
    Member ''list'' struct_list_head,
    Member ''neigh_setup'' (Ptr ''int (*)(struct neighbour *)''),
    Member ''tbl'' (Ptr ''struct neigh_table *''),
    Member ''sysctl_table'' (Ptr ''void *''),
    Member ''dead'' c_int,
    Member ''refcnt'' t_refcount_t,
    Member ''callback_head'' struct_callback_head,
    Member ''reachable_time'' c_int,
    Member ''qlen'' t_u32,
    Member ''data'' (Array 14 c_int),
    Member ''data_state'' (Array 1 c_unsigned_long)]"

definition struct_neigh_seq_state :: ctype where
  "struct_neigh_seq_state = Comp Struct False [
    Member ''p'' struct_seq_net_private,
    Member ''tbl'' (Ptr ''struct neigh_table *''),
    Member ''nht'' (Ptr ''struct neigh_hash_table *''),
    Member ''neigh_sub_iter'' (Ptr ''void * (*)(struct neigh_seq_state *, struct neighbour *, loff_t *)''),
    Member ''bucket'' c_unsigned_int,
    Member ''flags'' c_unsigned_int]"

definition struct_neigh_statistics :: ctype where
  "struct_neigh_statistics = Comp Struct False [
    Member ''allocs'' c_unsigned_long,
    Member ''destroys'' c_unsigned_long,
    Member ''hash_grows'' c_unsigned_long,
    Member ''res_failed'' c_unsigned_long,
    Member ''lookups'' c_unsigned_long,
    Member ''hits'' c_unsigned_long,
    Member ''rcv_probes_mcast'' c_unsigned_long,
    Member ''rcv_probes_ucast'' c_unsigned_long,
    Member ''periodic_gc_runs'' c_unsigned_long,
    Member ''forced_gc_runs'' c_unsigned_long,
    Member ''unres_discards'' c_unsigned_long,
    Member ''table_fulls'' c_unsigned_long]"

definition struct_ctl_table :: ctype where
  "struct_ctl_table = Comp Struct False [
    Member ''procname'' (Ptr ''char *''),
    Member ''data'' (Ptr ''void *''),
    Member ''maxlen'' c_int,
    Member ''mode'' t_umode_t,
    Member ''proc_handler'' (Ptr ''proc_handler *''),
    Member ''poll'' (Ptr ''struct ctl_table_poll *''),
    Member ''extra1'' (Ptr ''void *''),
    Member ''extra2'' (Ptr ''void *'')]"

definition struct_neigh_sysctl_table :: ctype where
  "struct_neigh_sysctl_table = Comp Struct False [
    Member ''sysctl_header'' (Ptr ''struct ctl_table_header *''),
    Member ''neigh_vars'' (Array 21 struct_ctl_table)]"

definition struct_neigh_table :: ctype where
  "struct_neigh_table = Comp Struct False [
    Member ''family'' c_int,
    Member ''entry_size'' c_unsigned_int,
    Member ''key_len'' c_unsigned_int,
    Member ''protocol'' t___be16,
    Member ''hash'' (Ptr ''__u32 (*)(const void *, const struct net_device *, __u32 *)''),
    Member ''key_eq'' (Ptr ''bool (*)(const struct neighbour *, const void *)''),
    Member ''constructor'' (Ptr ''int (*)(struct neighbour *)''),
    Member ''pconstructor'' (Ptr ''int (*)(struct pneigh_entry *)''),
    Member ''pdestructor'' (Ptr ''void (*)(struct pneigh_entry *)''),
    Member ''proxy_redo'' (Ptr ''void (*)(struct sk_buff *)''),
    Member ''is_multicast'' (Ptr ''int (*)(const void *)''),
    Member ''allow_add'' (Ptr ''bool (*)(const struct net_device *, struct netlink_ext_ack *)''),
    Member ''id'' (Ptr ''char *''),
    Member ''parms'' struct_neigh_parms,
    Member ''parms_list'' struct_list_head,
    Member ''gc_interval'' c_int,
    Member ''gc_thresh1'' c_int,
    Member ''gc_thresh2'' c_int,
    Member ''gc_thresh3'' c_int,
    Member ''last_flush'' c_unsigned_long,
    Member ''gc_work'' struct_delayed_work,
    Member ''managed_work'' struct_delayed_work,
    Member ''proxy_timer'' struct_timer_list,
    Member ''proxy_queue'' struct_sk_buff_head,
    Member ''entries'' t_atomic_t,
    Member ''gc_entries'' t_atomic_t,
    Member ''gc_list'' struct_list_head,
    Member ''managed_list'' struct_list_head,
    Member ''lock'' t_rwlock_t,
    Member ''last_rand'' c_unsigned_long,
    Member ''stats'' (Ptr ''struct neigh_statistics *''),
    Member ''nht'' (Ptr ''struct neigh_hash_table *''),
    Member ''phash_lock'' struct_mutex,
    Member ''phash_buckets'' (Ptr ''struct pneigh_entry **'')]"

definition struct_neighbour_cb :: ctype where
  "struct_neighbour_cb = Comp Struct False [
    Member ''sched_next'' c_unsigned_long,
    Member ''flags'' c_unsigned_int]"

definition struct_rtable :: ctype where
  "struct_rtable = Comp Struct False [
    Member ''dst'' struct_dst_entry,
    Member ''rt_genid'' c_int,
    Member ''rt_flags'' c_unsigned_int,
    Member ''rt_type'' t___u16,
    Member ''rt_is_input'' t___u8,
    Member ''rt_uses_gateway'' t___u8,
    Member ''rt_iif'' c_int,
    Member ''rt_gw_family'' t_u8,
    Member '''' (Comp Union False [
      Member ''rt_gw4'' t___be32,
      Member ''rt_gw6'' struct_in6_addr]),
    BitField ''rt_mtu_locked'' t_u32 1,
    BitField ''rt_pmtu'' t_u32 31]"

definition struct_rt6_info :: ctype where
  "struct_rt6_info = Comp Struct False [
    Member ''dst'' struct_dst_entry,
    Member ''from'' (Ptr ''struct fib6_info *''),
    Member ''sernum'' c_int,
    Member ''rt6i_dst'' struct_rt6key,
    Member ''rt6i_src'' struct_rt6key,
    Member ''rt6i_gateway'' struct_in6_addr,
    Member ''rt6i_idev'' (Ptr ''struct inet6_dev *''),
    Member ''rt6i_flags'' t_u32,
    Member ''rt6i_nfheader_len'' c_unsigned_short]"

definition struct_ping_iter_state :: ctype where
  "struct_ping_iter_state = Comp Struct False [
    Member ''p'' struct_seq_net_private,
    Member ''bucket'' c_int,
    Member ''family'' t_sa_family_t]"

definition struct_ping_table :: ctype where
  "struct_ping_table = Comp Struct False [
    Member ''hash'' (Array 64 struct_hlist_head),
    Member ''lock'' t_spinlock_t]"

definition struct_pingfakehdr :: ctype where
  "struct_pingfakehdr = Comp Struct False [
    Member ''icmph'' struct_icmphdr,
    Member ''msg'' (Ptr ''struct msghdr *''),
    Member ''family'' t_sa_family_t,
    Member ''wcheck'' t___wsum]"

definition struct_pingv6_ops :: ctype where
  "struct_pingv6_ops = Comp Struct False [
    Member ''ipv6_recv_error'' (Ptr ''int (*)(struct sock *, struct msghdr *, int, int *)''),
    Member ''ip6_datagram_recv_common_ctl'' (Ptr ''void (*)(struct sock *, struct msghdr *, struct sk_buff *)''),
    Member ''ip6_datagram_recv_specific_ctl'' (Ptr ''void (*)(struct sock *, struct msghdr *, struct sk_buff *)''),
    Member ''icmpv6_err_convert'' (Ptr ''int (*)(u8, u8, int *)''),
    Member ''ipv6_icmp_error'' (Ptr ''void (*)(struct sock *, struct sk_buff *, int, __be16, u32, u8 *)''),
    Member ''ipv6_chk_addr'' (Ptr ''int (*)(struct net *, const struct in6_addr *, const struct net_device *, int)'')]"

definition struct_raw_data_entry :: ctype where
  "struct_raw_data_entry = Comp Struct False [
    Member ''ent'' struct_trace_entry,
    Member ''id'' c_unsigned_int,
    Member ''buf'' (Array 0 c_char)]"

definition struct_raw_frag_vec :: ctype where
  "struct_raw_frag_vec = Comp Struct False [
    Member ''msg'' (Ptr ''struct msghdr *''),
    Member ''hdr'' (Comp Union False [
      Member ''icmph'' struct_icmphdr,
      Member ''c'' (Array 1 c_char)]),
    Member ''hlen'' c_int]"

definition struct_raw_hashinfo :: ctype where
  "struct_raw_hashinfo = Comp Struct False ([
    Member ''lock'' t_spinlock_t] @ replicate 15 (BitField '''' c_long 64) @ [
    Member ''ht'' (Array 256 struct_hlist_head)])"

definition struct_raw_iter_state :: ctype where
  "struct_raw_iter_state = Comp Struct False [
    Member ''p'' struct_seq_net_private,
    Member ''bucket'' c_int]"

definition struct_raw_sock :: ctype where
  "struct_raw_sock = Comp Struct False [
    Member ''inet'' struct_inet_sock,
    Member ''filter'' struct_icmp_filter,
    Member ''ipmr_table'' t_u32]"

definition struct_can_raw_vcid_options :: ctype where
  "struct_can_raw_vcid_options = Comp Struct False [
    Member ''flags'' t___u8,
    Member ''tx_vcid'' t___u8,
    Member ''rx_vcid'' t___u8,
    Member ''rx_vcid_mask'' t___u8]"

definition t_canid_t :: ctype where
  "t_canid_t = t___u32"

definition struct_can_filter :: ctype where
  "struct_can_filter = Comp Struct False [
    Member ''can_id'' t_canid_t,
    Member ''can_mask'' t_canid_t]"

definition t_can_err_mask_t :: ctype where
  "t_can_err_mask_t = t___u32"

definition struct_raw_sock___2 :: ctype where
  "struct_raw_sock___2 = Comp Struct False [
    Member ''sk'' struct_sock,
    Member ''bound'' c_int,
    Member ''ifindex'' c_int,
    Member ''dev'' (Ptr ''struct net_device *''),
    Member ''dev_tracker'' t_netdevice_tracker,
    Member ''notifier'' struct_list_head,
    Member ''loopback'' c_int,
    Member ''recv_own_msgs'' c_int,
    Member ''fd_frames'' c_int,
    Member ''xl_frames'' c_int,
    Member ''raw_vcid_opts'' struct_can_raw_vcid_options,
    Member ''tx_vcid_shifted'' t_canid_t,
    Member ''rx_vcid_shifted'' t_canid_t,
    Member ''rx_vcid_mask_shifted'' t_canid_t,
    Member ''join_filters'' c_int,
    Member ''count'' c_int,
    Member ''dfilter'' struct_can_filter,
    Member ''filter'' (Ptr ''struct can_filter *''),
    Member ''err_mask'' t_can_err_mask_t,
    Member ''uniq'' (Ptr ''struct uniqframe *'')]"

definition struct_rt6_exception :: ctype where
  "struct_rt6_exception = Comp Struct False [
    Member ''hlist'' struct_hlist_node,
    Member ''rt6i'' (Ptr ''struct rt6_info *''),
    Member ''stamp'' c_unsigned_long,
    Member ''rcu'' struct_callback_head]"

definition struct_rt6_exception_bucket :: ctype where
  "struct_rt6_exception_bucket = Comp Struct False [
    Member ''chain'' struct_hlist_head,
    Member ''depth'' c_int]"

definition struct_rt6_mtu_change_arg :: ctype where
  "struct_rt6_mtu_change_arg = Comp Struct False [
    Member ''dev'' (Ptr ''struct net_device *''),
    Member ''mtu'' c_unsigned_int,
    Member ''f6i'' (Ptr ''struct fib6_info *'')]"

definition struct_rt6_nh :: ctype where
  "struct_rt6_nh = Comp Struct False [
    Member ''fib6_info'' (Ptr ''struct fib6_info *''),
    Member ''r_cfg'' struct_fib6_config,
    Member ''list'' struct_list_head]"

definition struct_rt6_rtnl_dump_arg :: ctype where
  "struct_rt6_rtnl_dump_arg = Comp Struct False [
    Member ''skb'' (Ptr ''struct sk_buff *''),
    Member ''cb'' (Ptr ''struct netlink_callback *''),
    Member ''net'' (Ptr ''struct net *''),
    Member ''filter'' struct_fib_dump_filter]"

definition struct_rt6_statistics :: ctype where
  "struct_rt6_statistics = Comp Struct False [
    Member ''fib_nodes'' t___u32,
    Member ''fib_route_nodes'' t___u32,
    Member ''fib_rt_entries'' t___u32,
    Member ''fib_rt_cache'' t___u32,
    Member ''fib_discarded_routes'' t___u32,
    Member ''fib_rt_alloc'' t_atomic_t]"

definition struct_tcp6_sock :: ctype where
  "struct_tcp6_sock = Comp Struct False ([
    Member ''tcp'' struct_tcp_sock,
    Member ''inet6'' struct_ipv6_pinfo] @ replicate 13 (BitField '''' c_long 64))"

definition union_tcp_ao_addr :: ctype where
  "union_tcp_ao_addr = Comp Union False [
    Member ''a4'' struct_in_addr,
    Member ''a6'' struct_in6_addr]"

definition struct_tcp_ao_hdr :: ctype where
  "struct_tcp_ao_hdr = Comp Struct False [
    Member ''kind'' t_u8,
    Member ''length'' t_u8,
    Member ''keyid'' t_u8,
    Member ''rnext_keyid'' t_u8]"

definition struct_tcp_ao_key :: ctype where
  "struct_tcp_ao_key = Comp Struct False [
    Member ''node'' struct_hlist_node,
    Member ''addr'' union_tcp_ao_addr,
    Member ''key'' (Array 80 t_u8),
    Member ''tcp_sigpool_id'' c_unsigned_int,
    Member ''digest_size'' c_unsigned_int,
    Member ''l3index'' c_int,
    Member ''prefixlen'' t_u8,
    Member ''family'' t_u8,
    Member ''keylen'' t_u8,
    Member ''keyflags'' t_u8,
    Member ''sndid'' t_u8,
    Member ''rcvid'' t_u8,
    Member ''maclen'' t_u8,
    Member ''rcu'' struct_callback_head,
    Member ''pkt_good'' t_atomic64_t,
    Member ''pkt_bad'' t_atomic64_t,
    Member ''traffic_keys'' (Array 0 t_u8)]"

definition struct_tcp_bbr_info :: ctype where
  "struct_tcp_bbr_info = Comp Struct False [
    Member ''bbr_bw_lo'' t___u32,
    Member ''bbr_bw_hi'' t___u32,
    Member ''bbr_min_rtt'' t___u32,
    Member ''bbr_pacing_gain'' t___u32,
    Member ''bbr_cwnd_gain'' t___u32]"

definition struct_tcpvegas_info :: ctype where
  "struct_tcpvegas_info = Comp Struct False [
    Member ''tcpv_enabled'' t___u32,
    Member ''tcpv_rttcnt'' t___u32,
    Member ''tcpv_rtt'' t___u32,
    Member ''tcpv_minrtt'' t___u32]"

definition struct_tcp_dctcp_info :: ctype where
  "struct_tcp_dctcp_info = Comp Struct False [
    Member ''dctcp_enabled'' t___u16,
    Member ''dctcp_ce_state'' t___u16,
    Member ''dctcp_alpha'' t___u32,
    Member ''dctcp_ab_ecn'' t___u32,
    Member ''dctcp_ab_tot'' t___u32]"

definition union_tcp_cc_info :: ctype where
  "union_tcp_cc_info = Comp Union False [
    Member ''vegas'' struct_tcpvegas_info,
    Member ''dctcp'' struct_tcp_dctcp_info,
    Member ''bbr'' struct_tcp_bbr_info]"

definition struct_tcp_fastopen_context :: ctype where
  "struct_tcp_fastopen_context = Comp Struct False [
    Member ''key'' (Array 2 t_siphash_key_t),
    Member ''num'' c_int,
    Member ''rcu'' struct_callback_head]"

definition t___le64 :: ctype where
  "t___le64 = t___u64"

definition t_s8 :: ctype where
  "t_s8 = t___s8"

definition struct_tcp_fastopen_cookie :: ctype where
  "struct_tcp_fastopen_cookie = Comp Struct False [
    Member ''val'' (Array 2 t___le64),
    Member ''len'' t_s8,
    Member ''exp'' t_bool]"

definition struct_tcp_fastopen_metrics :: ctype where
  "struct_tcp_fastopen_metrics = Comp Struct False [
    Member ''mss'' t_u16,
    BitField ''syn_loss'' t_u16 10,
    BitField ''try_exp'' t_u16 2,
    Member ''last_syn_loss'' c_unsigned_long,
    Member ''cookie'' struct_tcp_fastopen_cookie]"

definition struct_tcp_fastopen_request :: ctype where
  "struct_tcp_fastopen_request = Comp Struct False [
    Member ''cookie'' struct_tcp_fastopen_cookie,
    Member ''data'' (Ptr ''struct msghdr *''),
    Member ''size'' t_size_t,
    Member ''copied'' c_int,
    Member ''uarg'' (Ptr ''struct ubuf_info *'')]"

definition struct_tcp_key :: ctype where
  "struct_tcp_key = Comp Struct False [
    Member '''' (Comp Union False [
      Member '''' (Comp Struct False [
        Member ''ao_key'' (Ptr ''struct tcp_ao_key *''),
        Member ''traffic_key'' (Ptr ''char *''),
        Member ''sne'' t_u32,
        Member ''rcv_next'' t_u8]),
      Member ''md5_key'' (Ptr ''struct tcp_md5sig_key *'')]),
    Member ''type'' (Enum False [
      (''TCP_KEY_NONE'', 0), (''TCP_KEY_MD5'', 1), (''TCP_KEY_AO'', 2)])]"

definition struct_tcp_md5sig_key :: ctype where
  "struct_tcp_md5sig_key = Comp Struct False [
    Member ''node'' struct_hlist_node,
    Member ''keylen'' t_u8,
    Member ''family'' t_u8,
    Member ''prefixlen'' t_u8,
    Member ''flags'' t_u8,
    Member ''addr'' union_tcp_ao_addr,
    Member ''l3index'' c_int,
    Member ''key'' (Array 80 t_u8),
    Member ''rcu'' struct_callback_head]"

definition struct_tcp_metrics_block :: ctype where
  "struct_tcp_metrics_block = Comp Struct False [
    Member ''tcpm_next'' (Ptr ''struct tcp_metrics_block *''),
    Member ''tcpm_net'' (Ptr ''struct net *''),
    Member ''tcpm_saddr'' struct_inetpeer_addr,
    Member ''tcpm_daddr'' struct_inetpeer_addr,
    Member ''tcpm_stamp'' c_unsigned_long,
    Member ''tcpm_lock'' t_u32,
    Member ''tcpm_vals'' (Array 5 t_u32),
    Member ''tcpm_fastopen'' struct_tcp_fastopen_metrics,
    Member ''callback_head'' struct_callback_head]"

definition struct_tcp_mib :: ctype where
  "struct_tcp_mib = Comp Struct False [
    Member ''mibs'' (Array 16 c_unsigned_long)]"

definition struct_mptcp_out_options :: ctype where
  "struct_mptcp_out_options = Comp Struct False []"

definition struct_tcp_out_options :: ctype where
  "struct_tcp_out_options = Comp Struct False [
    Member ''options'' t_u16,
    Member ''mss'' t_u16,
    Member ''ws'' t_u8,
    Member ''num_sack_blocks'' t_u8,
    Member ''hash_size'' t_u8,
    Member ''bpf_opt_len'' t_u8,
    Member ''hash_location'' (Ptr ''__u8 *''),
    Member ''tsval'' t___u32,
    Member ''tsecr'' t___u32,
    Member ''fastopen_cookie'' (Ptr ''struct tcp_fastopen_cookie *''),
    Member ''mptcp'' struct_mptcp_out_options]"

definition struct_tcp_plb_state :: ctype where
  "struct_tcp_plb_state = Comp Struct False [
    BitField ''consec_cong_rounds'' t_u8 5,
    BitField ''unused'' t_u8 3,
    Member ''pause_until'' t_u32]"

definition struct_tcp_repair_opt :: ctype where
  "struct_tcp_repair_opt = Comp Struct False [
    Member ''opt_code'' t___u32,
    Member ''opt_val'' t___u32]"

definition struct_tcp_repair_window :: ctype where
  "struct_tcp_repair_window = Comp Struct False [
    Member ''snd_wl1'' t___u32,
    Member ''snd_wnd'' t___u32,
    Member ''max_window'' t___u32,
    Member ''rcv_wnd'' t___u32,
    Member ''rcv_wup'' t___u32]"

definition struct_tcp_request_sock :: ctype where
  "struct_tcp_request_sock = Comp Struct False [
    Member ''req'' struct_inet_request_sock,
    Member ''af_specific'' (Ptr ''struct tcp_request_sock_ops *''),
    Member ''snt_synack'' t_u64,
    Member ''tfo_listener'' t_bool,
    Member ''is_mptcp'' t_bool,
    Member ''req_usec_ts'' t_bool,
    Member ''txhash'' t_u32,
    Member ''rcv_isn'' t_u32,
    Member ''snt_isn'' t_u32,
    Member ''ts_off'' t_u32,
    Member ''snt_tsval_first'' t_u32,
    Member ''snt_tsval_last'' t_u32,
    Member ''last_oow_ack_time'' t_u32,
    Member ''rcv_nxt'' t_u32,
    Member ''syn_tos'' t_u8]"

definition struct_tcp_request_sock_ops :: ctype where
  "struct_tcp_request_sock_ops = Comp Struct False [
    Member ''mss_clamp'' t_u16,
    Member ''cookie_init_seq'' (Ptr ''__u32 (*)(const struct sk_buff *, __u16 *)''),
    Member ''route_req'' (Ptr ''struct dst_entry * (*)(const struct sock *, struct sk_buff *, struct flowi *, struct request_sock *, u32)''),
    Member ''init_seq'' (Ptr ''u32 (*)(const struct sk_buff *)''),
    Member ''init_ts_off'' (Ptr ''u32 (*)(const struct net *, const struct sk_buff *)''),
    Member ''send_synack'' (Ptr ''int (*)(const struct sock *, struct dst_entry *, struct flowi *, struct request_sock *, struct tcp_fastopen_cookie *, enum tcp_synack_type, struct sk_buff *)'')]"

definition struct_tcp_sack_block_wire :: ctype where
  "struct_tcp_sack_block_wire = Comp Struct False [
    Member ''start_seq'' t___be32,
    Member ''end_seq'' t___be32]"

definition struct_tcp_sacktag_state :: ctype where
  "struct_tcp_sacktag_state = Comp Struct False [
    Member ''first_sackt'' t_u64,
    Member ''last_sackt'' t_u64,
    Member ''reord'' t_u32,
    Member ''sack_delivered'' t_u32,
    Member ''flag'' c_int,
    Member ''mss_now'' c_unsigned_int,
    Member ''rate'' (Ptr ''struct rate_sample *'')]"

definition struct_tcp_seq_afinfo :: ctype where
  "struct_tcp_seq_afinfo = Comp Struct False [
    Member ''family'' t_sa_family_t]"

definition struct_tcp_skb_cb :: ctype where
  "struct_tcp_skb_cb = Comp Struct False [
    Member ''seq'' t___u32,
    Member ''end_seq'' t___u32,
    Member '''' (Comp Union False [
      Member '''' (Comp Struct False [
        Member ''tcp_gso_segs'' t_u16,
        Member ''tcp_gso_size'' t_u16])]),
    Member ''tcp_flags'' t___u16,
    Member ''sacked'' t___u8,
    Member ''ip_dsfield'' t___u8,
    BitField ''txstamp_ack'' t___u8 2,
    BitField ''eor'' t___u8 1,
    BitField ''has_rxtstamp'' t___u8 1,
    BitField ''unused'' t___u8 4,
    Member ''ack_seq'' t___u32,
    Member '''' (Comp Union False [
      Member ''tx'' (Comp Struct False [
        BitField ''is_app_limited'' t___u32 1,
        BitField ''delivered_ce'' t___u32 20,
        BitField ''unused'' t___u32 11,
        Member ''delivered'' t___u32,
        Member ''first_tx_mstamp'' t_u64,
        Member ''delivered_mstamp'' t_u64]),
      Member ''header'' (Comp Union False [
        Member ''h4'' struct_inet_skb_parm,
        Member ''h6'' struct_inet6_skb_parm])])]"

definition struct_tcp_splice_state :: ctype where
  "struct_tcp_splice_state = Comp Struct False [
    Member ''pipe'' (Ptr ''struct pipe_inode_info *''),
    Member ''len'' t_size_t,
    Member ''flags'' c_unsigned_int]"

definition struct_tcp_states_t :: ctype where
  "struct_tcp_states_t = Comp Struct False [
    Member ''next_state'' (Array 11 c_int)]"

definition struct_tcp_timewait_sock :: ctype where
  "struct_tcp_timewait_sock = Comp Struct False [
    Member ''tw_sk'' struct_inet_timewait_sock,
    Member ''tw_rcv_wnd'' t_u32,
    Member ''tw_ts_offset'' t_u32,
    Member ''tw_ts_recent'' t_u32,
    Member ''tw_last_oow_ack_time'' t_u32,
    Member ''tw_ts_recent_stamp'' c_int,
    Member ''tw_tx_delay'' t_u32]"

definition struct_tcp_ulp_ops :: ctype where
  "struct_tcp_ulp_ops = Comp Struct False [
    Member ''list'' struct_list_head,
    Member ''init'' (Ptr ''int (*)(struct sock *)''),
    Member ''update'' (Ptr ''void (*)(struct sock *, struct proto *, void (*)(struct sock *))''),
    Member ''release'' (Ptr ''void (*)(struct sock *)''),
    Member ''get_info'' (Ptr ''int (*)(struct sock *, struct sk_buff *, bool)''),
    Member ''get_info_size'' (Ptr ''size_t (*)(const struct sock *, bool)''),
    Member ''clone'' (Ptr ''void (*)(const struct request_sock *, struct sock *, const gfp_t)''),
    Member ''name'' (Array 16 c_char),
    Member ''owner'' (Ptr ''struct module *'')]"

definition union_tcp_word_hdr :: ctype where
  "union_tcp_word_hdr = Comp Union False [
    Member ''hdr'' struct_tcphdr,
    Member ''words'' (Array 5 t___be32)]"

definition struct_tcp_xa_pool :: ctype where
  "struct_tcp_xa_pool = Comp Struct False [
    Member ''max'' t_u8,
    Member ''idx'' t_u8,
    Member ''tokens'' (Array 17 t___u32),
    Member ''netmems'' (Array 17 t_netmem_ref)]"

definition struct_tcp_zerocopy_receive :: ctype where
  "struct_tcp_zerocopy_receive = Comp Struct False [
    Member ''address'' t___u64,
    Member ''length'' t___u32,
    Member ''recv_skip_hint'' t___u32,
    Member ''inq'' t___u32,
    Member ''err'' t___s32,
    Member ''copybuf_address'' t___u64,
    Member ''copybuf_len'' t___s32,
    Member ''flags'' t___u32,
    Member ''msg_control'' t___u64,
    Member ''msg_controllen'' t___u64,
    Member ''msg_flags'' t___u32,
    Member ''reserved'' t___u32]"

definition struct_tcpm_hash_bucket :: ctype where
  "struct_tcpm_hash_bucket = Comp Struct False [
    Member ''chain'' (Ptr ''struct tcp_metrics_block *'')]"

definition struct_udp_sock :: ctype where
  "struct_udp_sock = Comp Struct False ([
    Member ''inet'' struct_inet_sock,
    Member ''udp_flags'' c_unsigned_long,
    Member ''pending'' c_int,
    Member ''encap_type'' t___u8,
    Member ''udp_lrpa_hash'' t___u16,
    Member ''udp_lrpa_node'' struct_hlist_nulls_node,
    Member ''len'' t___u16,
    Member ''gso_size'' t___u16,
    Member ''pcslen'' t___u16,
    Member ''pcrlen'' t___u16,
    Member ''encap_rcv'' (Ptr ''int (*)(struct sock *, struct sk_buff *)''),
    Member ''encap_err_rcv'' (Ptr ''void (*)(struct sock *, struct sk_buff *, int, __be16, u32, u8 *)''),
    Member ''encap_err_lookup'' (Ptr ''int (*)(struct sock *, struct sk_buff *)''),
    Member ''encap_destroy'' (Ptr ''void (*)(struct sock *)''),
    Member ''gro_receive'' (Ptr ''struct sk_buff * (*)(struct sock *, struct list_head *, struct sk_buff *)''),
    Member ''gro_complete'' (Ptr ''int (*)(struct sock *, struct sk_buff *, int)'')] @ replicate 8 (BitField '''' c_long 64) @ [
    Member ''reader_queue'' struct_sk_buff_head,
    Member ''forward_deficit'' c_int,
    Member ''forward_threshold'' c_int,
    Member ''peeking_with_offset'' t_bool,
    Member ''tunnel_list'' struct_hlist_node] @ replicate 9 (BitField '''' c_long 64))"

definition struct_udp6_sock :: ctype where
  "struct_udp6_sock = Comp Struct False ([
    Member ''udp'' struct_udp_sock,
    Member ''inet6'' struct_ipv6_pinfo] @ replicate 13 (BitField '''' c_long 64))"

definition struct_udp_media_addr :: ctype where
  "struct_udp_media_addr = Comp Struct False [
    Member ''proto'' t___be16,
    Member ''port'' t___be16,
    Member '''' (Comp Union False [
      Member ''ipv4'' struct_in_addr,
      Member ''ipv6'' struct_in6_addr])]"

definition struct_udp_replicast :: ctype where
  "struct_udp_replicast = Comp Struct False [
    Member ''addr'' struct_udp_media_addr,
    Member ''dst_cache'' struct_dst_cache,
    Member ''rcu'' struct_callback_head,
    Member ''list'' struct_list_head]"

definition struct_udp_bearer :: ctype where
  "struct_udp_bearer = Comp Struct False [
    Member ''bearer'' (Ptr ''struct tipc_bearer *''),
    Member ''ubsock'' (Ptr ''struct socket *''),
    Member ''ifindex'' t_u32,
    Member ''work'' struct_work_struct,
    Member ''rcast'' struct_udp_replicast]"

definition struct_udp_dev_scratch :: ctype where
  "struct_udp_dev_scratch = Comp Struct False [
    Member ''_tsize_state'' t_u32,
    Member ''len'' t_u16,
    Member ''is_linear'' t_bool,
    Member ''csum_unnecessary'' t_bool]"

definition struct_udp_hslot :: ctype where
  "struct_udp_hslot = Comp Struct False [
    Member '''' (Comp Union False [
      Member ''head'' struct_hlist_head,
      Member ''nulls_head'' struct_hlist_nulls_head]),
    Member ''count'' c_int,
    Member ''lock'' t_spinlock_t]"

definition struct_udp_hslot_main :: ctype where
  "struct_udp_hslot_main = Comp Struct False [
    Member ''hslot'' struct_udp_hslot,
    Member ''hash4_cnt'' t_u32,
    BitField '''' c_long 64]"

definition struct_udp_mib :: ctype where
  "struct_udp_mib = Comp Struct False [
    Member ''mibs'' (Array 10 c_unsigned_long)]"

definition struct_udp_seq_afinfo :: ctype where
  "struct_udp_seq_afinfo = Comp Struct False [
    Member ''family'' t_sa_family_t,
    Member ''udp_table'' (Ptr ''struct udp_table *'')]"

definition struct_udp_skb_cb :: ctype where
  "struct_udp_skb_cb = Comp Struct False [
    Member ''header'' (Comp Union False [
      Member ''h4'' struct_inet_skb_parm,
      Member ''h6'' struct_inet6_skb_parm]),
    Member ''cscov'' t___u16,
    Member ''partial_cov'' t___u8]"

definition struct_udp_table :: ctype where
  "struct_udp_table = Comp Struct False [
    Member ''hash'' (Ptr ''struct udp_hslot *''),
    Member ''hash2'' (Ptr ''struct udp_hslot_main *''),
    Member ''hash4'' (Ptr ''struct udp_hslot *''),
    Member ''mask'' c_unsigned_int,
    Member ''log'' c_unsigned_int]"

definition struct_udp_tunnel_info :: ctype where
  "struct_udp_tunnel_info = Comp Struct False [
    Member ''type'' c_unsigned_short,
    Member ''sa_family'' t_sa_family_t,
    Member ''port'' t___be16,
    Member ''hw_priv'' t_u8]"

definition struct_udp_tunnel_nic :: ctype where
  "struct_udp_tunnel_nic = Comp Struct False [
    Member ''work'' struct_work_struct,
    Member ''dev'' (Ptr ''struct net_device *''),
    Member ''lock'' struct_mutex,
    BitField ''need_sync'' t_u8 1,
    BitField ''need_replay'' t_u8 1,
    BitField ''work_pending'' t_u8 1,
    Member ''n_tables'' c_unsigned_int,
    Member ''missed'' c_unsigned_long,
    Member ''entries'' (Array 0 (Ptr ''struct udp_tunnel_nic_table_entry *''))]"

definition struct_udp_tunnel_nic_table_info :: ctype where
  "struct_udp_tunnel_nic_table_info = Comp Struct False [
    Member ''n_entries'' c_unsigned_int,
    Member ''tunnel_types'' c_unsigned_int]"

definition struct_udp_tunnel_nic_info :: ctype where
  "struct_udp_tunnel_nic_info = Comp Struct False [
    Member ''set_port'' (Ptr ''int (*)(struct net_device *, unsigned int, unsigned int, struct udp_tunnel_info *)''),
    Member ''unset_port'' (Ptr ''int (*)(struct net_device *, unsigned int, unsigned int, struct udp_tunnel_info *)''),
    Member ''sync_table'' (Ptr ''int (*)(struct net_device *, unsigned int)''),
    Member ''shared'' (Ptr ''struct udp_tunnel_nic_shared *''),
    Member ''flags'' c_unsigned_int,
    Member ''tables'' (Array 4 struct_udp_tunnel_nic_table_info)]"

definition struct_udp_tunnel_nic_ops :: ctype where
  "struct_udp_tunnel_nic_ops = Comp Struct False [
    Member ''get_port'' (Ptr ''void (*)(struct net_device *, unsigned int, unsigned int, struct udp_tunnel_info *)''),
    Member ''set_port_priv'' (Ptr ''void (*)(struct net_device *, unsigned int, unsigned int, u8)''),
    Member ''add_port'' (Ptr ''void (*)(struct net_device *, struct udp_tunnel_info *)''),
    Member ''del_port'' (Ptr ''void (*)(struct net_device *, struct udp_tunnel_info *)''),
    Member ''reset_ntf'' (Ptr ''void (*)(struct net_device *)''),
    Member ''dump_size'' (Ptr ''size_t (*)(struct net_device *, unsigned int)''),
    Member ''dump_write'' (Ptr ''int (*)(struct net_device *, unsigned int, struct sk_buff *)''),
    Member ''assert_locked'' (Ptr ''void (*)(struct net_device *)''),
    Member ''lock'' (Ptr ''void (*)(struct net_device *)''),
    Member ''unlock'' (Ptr ''void (*)(struct net_device *)'')]"

definition struct_udp_tunnel_nic_shared :: ctype where
  "struct_udp_tunnel_nic_shared = Comp Struct False [
    Member ''udp_tunnel_nic_info'' (Ptr ''struct udp_tunnel_nic *''),
    Member ''devices'' struct_list_head]"

definition struct_udp_tunnel_nic_shared_node :: ctype where
  "struct_udp_tunnel_nic_shared_node = Comp Struct False [
    Member ''dev'' (Ptr ''struct net_device *''),
    Member ''list'' struct_list_head]"

definition struct_udp_tunnel_nic_table_entry :: ctype where
  "struct_udp_tunnel_nic_table_entry = Comp Struct False [
    Member ''port'' t___be16,
    Member ''type'' t_u8,
    Member ''flags'' t_u8,
    Member ''use_cnt'' t_u16,
    Member ''hw_priv'' t_u8]"

definition t_udp_tunnel_encap_rcv_t :: ctype where
  "t_udp_tunnel_encap_rcv_t = Ptr ''int (*)(struct sock *, struct sk_buff *)''"

definition t_udp_tunnel_encap_err_lookup_t :: ctype where
  "t_udp_tunnel_encap_err_lookup_t = Ptr ''int (*)(struct sock *, struct sk_buff *)''"

definition t_udp_tunnel_encap_err_rcv_t :: ctype where
  "t_udp_tunnel_encap_err_rcv_t = Ptr ''void (*)(struct sock *, struct sk_buff *, int, __be16, u32, u8 *)''"

definition t_udp_tunnel_encap_destroy_t :: ctype where
  "t_udp_tunnel_encap_destroy_t = Ptr ''void (*)(struct sock *)''"

definition t_udp_tunnel_gro_receive_t :: ctype where
  "t_udp_tunnel_gro_receive_t = Ptr ''struct sk_buff * (*)(struct sock *, struct list_head *, struct sk_buff *)''"

definition t_udp_tunnel_gro_complete_t :: ctype where
  "t_udp_tunnel_gro_complete_t = Ptr ''int (*)(struct sock *, struct sk_buff *, int)''"

definition struct_udp_tunnel_sock_cfg :: ctype where
  "struct_udp_tunnel_sock_cfg = Comp Struct False [
    Member ''sk_user_data'' (Ptr ''void *''),
    Member ''encap_type'' t___u8,
    Member ''encap_rcv'' t_udp_tunnel_encap_rcv_t,
    Member ''encap_err_lookup'' t_udp_tunnel_encap_err_lookup_t,
    Member ''encap_err_rcv'' t_udp_tunnel_encap_err_rcv_t,
    Member ''encap_destroy'' t_udp_tunnel_encap_destroy_t,
    Member ''gro_receive'' t_udp_tunnel_gro_receive_t,
    Member ''gro_complete'' t_udp_tunnel_gro_complete_t]"

definition t_udp_tunnel_gro_rcv_t :: ctype where
  "t_udp_tunnel_gro_rcv_t = Ptr ''struct sk_buff * (*)(struct sock *, struct list_head *, struct sk_buff *)''"

definition struct_udp_tunnel_type_entry :: ctype where
  "struct_udp_tunnel_type_entry = Comp Struct False [
    Member ''gro_receive'' t_udp_tunnel_gro_rcv_t,
    Member ''count'' t_refcount_t]"

end
