(* ===== verification/Vmlinux_Net_More.thy ===== *)
theory Vmlinux_Net_More
  imports Vmlinux_Inet
begin

text \<open>
  The remaining declarations of \<^verbatim>\<open>vmlinux.h\<close> for sockets, packets, devices and netlink, by the
  prefixes of their names, with the types they contain.
\<close>

definition enum_ethtool_c33_pse_admin_state :: ctype where
  "enum_ethtool_c33_pse_admin_state = Enum False [
    (''ETHTOOL_C33_PSE_ADMIN_STATE_UNKNOWN'', 1), (''ETHTOOL_C33_PSE_ADMIN_STATE_DISABLED'', 2),
    (''ETHTOOL_C33_PSE_ADMIN_STATE_ENABLED'', 3)]"

definition enum_ethtool_c33_pse_ext_state :: ctype where
  "enum_ethtool_c33_pse_ext_state = Enum False [
    (''ETHTOOL_C33_PSE_EXT_STATE_ERROR_CONDITION'', 1),
    (''ETHTOOL_C33_PSE_EXT_STATE_MR_MPS_VALID'', 2),
    (''ETHTOOL_C33_PSE_EXT_STATE_MR_PSE_ENABLE'', 3),
    (''ETHTOOL_C33_PSE_EXT_STATE_OPTION_DETECT_TED'', 4),
    (''ETHTOOL_C33_PSE_EXT_STATE_OPTION_VPORT_LIM'', 5),
    (''ETHTOOL_C33_PSE_EXT_STATE_OVLD_DETECTED'', 6),
    (''ETHTOOL_C33_PSE_EXT_STATE_PD_DLL_POWER_TYPE'', 7),
    (''ETHTOOL_C33_PSE_EXT_STATE_POWER_NOT_AVAILABLE'', 8),
    (''ETHTOOL_C33_PSE_EXT_STATE_SHORT_DETECTED'', 9)]"

definition enum_ethtool_c33_pse_ext_substate_error_condition :: ctype where
  "enum_ethtool_c33_pse_ext_substate_error_condition = Enum False [
    (''ETHTOOL_C33_PSE_EXT_SUBSTATE_ERROR_CONDITION_NON_EXISTING_PORT'', 1),
    (''ETHTOOL_C33_PSE_EXT_SUBSTATE_ERROR_CONDITION_UNDEFINED_PORT'', 2),
    (''ETHTOOL_C33_PSE_EXT_SUBSTATE_ERROR_CONDITION_INTERNAL_HW_FAULT'', 3),
    (''ETHTOOL_C33_PSE_EXT_SUBSTATE_ERROR_CONDITION_COMM_ERROR_AFTER_FORCE_ON'', 4),
    (''ETHTOOL_C33_PSE_EXT_SUBSTATE_ERROR_CONDITION_UNKNOWN_PORT_STATUS'', 5),
    (''ETHTOOL_C33_PSE_EXT_SUBSTATE_ERROR_CONDITION_HOST_CRASH_TURN_OFF'', 6),
    (''ETHTOOL_C33_PSE_EXT_SUBSTATE_ERROR_CONDITION_HOST_CRASH_FORCE_SHUTDOWN'', 7),
    (''ETHTOOL_C33_PSE_EXT_SUBSTATE_ERROR_CONDITION_CONFIG_CHANGE'', 8),
    (''ETHTOOL_C33_PSE_EXT_SUBSTATE_ERROR_CONDITION_DETECTED_OVER_TEMP'', 9)]"

definition enum_ethtool_c33_pse_ext_substate_mr_pse_enable :: ctype where
  "enum_ethtool_c33_pse_ext_substate_mr_pse_enable = Enum False [
    (''ETHTOOL_C33_PSE_EXT_SUBSTATE_MR_PSE_ENABLE_DISABLE_PIN_ACTIVE'', 1)]"

definition enum_ethtool_c33_pse_ext_substate_option_detect_ted :: ctype where
  "enum_ethtool_c33_pse_ext_substate_option_detect_ted = Enum False [
    (''ETHTOOL_C33_PSE_EXT_SUBSTATE_OPTION_DETECT_TED_DET_IN_PROCESS'', 1),
    (''ETHTOOL_C33_PSE_EXT_SUBSTATE_OPTION_DETECT_TED_CONNECTION_CHECK_ERROR'', 2)]"

definition enum_ethtool_c33_pse_ext_substate_option_vport_lim :: ctype where
  "enum_ethtool_c33_pse_ext_substate_option_vport_lim = Enum False [
    (''ETHTOOL_C33_PSE_EXT_SUBSTATE_OPTION_VPORT_LIM_HIGH_VOLTAGE'', 1),
    (''ETHTOOL_C33_PSE_EXT_SUBSTATE_OPTION_VPORT_LIM_LOW_VOLTAGE'', 2),
    (''ETHTOOL_C33_PSE_EXT_SUBSTATE_OPTION_VPORT_LIM_VOLTAGE_INJECTION'', 3)]"

definition enum_ethtool_c33_pse_ext_substate_ovld_detected :: ctype where
  "enum_ethtool_c33_pse_ext_substate_ovld_detected = Enum False [
    (''ETHTOOL_C33_PSE_EXT_SUBSTATE_OVLD_DETECTED_OVERLOAD'', 1)]"

definition enum_ethtool_c33_pse_ext_substate_power_not_available :: ctype where
  "enum_ethtool_c33_pse_ext_substate_power_not_available = Enum False [
    (''ETHTOOL_C33_PSE_EXT_SUBSTATE_POWER_NOT_AVAILABLE_BUDGET_EXCEEDED'', 1),
    (''ETHTOOL_C33_PSE_EXT_SUBSTATE_POWER_NOT_AVAILABLE_PORT_PW_LIMIT_EXCEEDS_CONTROLLER_BUDGET'', 2),
    (''ETHTOOL_C33_PSE_EXT_SUBSTATE_POWER_NOT_AVAILABLE_PD_REQUEST_EXCEEDS_PORT_LIMIT'', 3),
    (''ETHTOOL_C33_PSE_EXT_SUBSTATE_POWER_NOT_AVAILABLE_HW_PW_LIMIT'', 4)]"

definition enum_ethtool_c33_pse_ext_substate_short_detected :: ctype where
  "enum_ethtool_c33_pse_ext_substate_short_detected = Enum False [
    (''ETHTOOL_C33_PSE_EXT_SUBSTATE_SHORT_DETECTED_SHORT_CONDITION'', 1)]"

definition enum_ethtool_c33_pse_pw_d_status :: ctype where
  "enum_ethtool_c33_pse_pw_d_status = Enum False [
    (''ETHTOOL_C33_PSE_PW_D_STATUS_UNKNOWN'', 1), (''ETHTOOL_C33_PSE_PW_D_STATUS_DISABLED'', 2),
    (''ETHTOOL_C33_PSE_PW_D_STATUS_SEARCHING'', 3),
    (''ETHTOOL_C33_PSE_PW_D_STATUS_DELIVERING'', 4), (''ETHTOOL_C33_PSE_PW_D_STATUS_TEST'', 5),
    (''ETHTOOL_C33_PSE_PW_D_STATUS_FAULT'', 6), (''ETHTOOL_C33_PSE_PW_D_STATUS_OTHERFAULT'', 7)]"

definition enum_ethtool_cmis_cdb_cmd_id :: ctype where
  "enum_ethtool_cmis_cdb_cmd_id = Enum False [
    (''ETHTOOL_CMIS_CDB_CMD_QUERY_STATUS'', 0), (''ETHTOOL_CMIS_CDB_CMD_MODULE_FEATURES'', 64),
    (''ETHTOOL_CMIS_CDB_CMD_FW_MANAGMENT_FEATURES'', 65),
    (''ETHTOOL_CMIS_CDB_CMD_START_FW_DOWNLOAD'', 257),
    (''ETHTOOL_CMIS_CDB_CMD_WRITE_FW_BLOCK_LPL'', 259),
    (''ETHTOOL_CMIS_CDB_CMD_WRITE_FW_BLOCK_EPL'', 260),
    (''ETHTOOL_CMIS_CDB_CMD_COMPLETE_FW_DOWNLOAD'', 263),
    (''ETHTOOL_CMIS_CDB_CMD_RUN_FW_IMAGE'', 265), (''ETHTOOL_CMIS_CDB_CMD_COMMIT_FW_IMAGE'', 266)]"

definition enum_ethtool_fec_config_bits :: ctype where
  "enum_ethtool_fec_config_bits = Enum False [
    (''ETHTOOL_FEC_NONE_BIT'', 0), (''ETHTOOL_FEC_AUTO_BIT'', 1), (''ETHTOOL_FEC_OFF_BIT'', 2),
    (''ETHTOOL_FEC_RS_BIT'', 3), (''ETHTOOL_FEC_BASER_BIT'', 4), (''ETHTOOL_FEC_LLRS_BIT'', 5)]"

definition enum_ethtool_flags :: ctype where
  "enum_ethtool_flags = Enum False [
    (''ETH_FLAG_TXVLAN'', 128), (''ETH_FLAG_RXVLAN'', 256), (''ETH_FLAG_LRO'', 32768),
    (''ETH_FLAG_NTUPLE'', 134217728), (''ETH_FLAG_RXHASH'', 268435456)]"

definition enum_ethtool_header_flags :: ctype where
  "enum_ethtool_header_flags = Enum False [
    (''ETHTOOL_FLAG_COMPACT_BITSETS'', 1), (''ETHTOOL_FLAG_OMIT_REPLY'', 2),
    (''ETHTOOL_FLAG_STATS'', 4)]"

definition enum_ethtool_link_ext_state :: ctype where
  "enum_ethtool_link_ext_state = Enum False [
    (''ETHTOOL_LINK_EXT_STATE_AUTONEG'', 0),
    (''ETHTOOL_LINK_EXT_STATE_LINK_TRAINING_FAILURE'', 1),
    (''ETHTOOL_LINK_EXT_STATE_LINK_LOGICAL_MISMATCH'', 2),
    (''ETHTOOL_LINK_EXT_STATE_BAD_SIGNAL_INTEGRITY'', 3),
    (''ETHTOOL_LINK_EXT_STATE_NO_CABLE'', 4), (''ETHTOOL_LINK_EXT_STATE_CABLE_ISSUE'', 5),
    (''ETHTOOL_LINK_EXT_STATE_EEPROM_ISSUE'', 6),
    (''ETHTOOL_LINK_EXT_STATE_CALIBRATION_FAILURE'', 7),
    (''ETHTOOL_LINK_EXT_STATE_POWER_BUDGET_EXCEEDED'', 8),
    (''ETHTOOL_LINK_EXT_STATE_OVERHEAT'', 9), (''ETHTOOL_LINK_EXT_STATE_MODULE'', 10)]"

definition enum_ethtool_link_ext_substate_autoneg :: ctype where
  "enum_ethtool_link_ext_substate_autoneg = Enum False [
    (''ETHTOOL_LINK_EXT_SUBSTATE_AN_NO_PARTNER_DETECTED'', 1),
    (''ETHTOOL_LINK_EXT_SUBSTATE_AN_ACK_NOT_RECEIVED'', 2),
    (''ETHTOOL_LINK_EXT_SUBSTATE_AN_NEXT_PAGE_EXCHANGE_FAILED'', 3),
    (''ETHTOOL_LINK_EXT_SUBSTATE_AN_NO_PARTNER_DETECTED_FORCE_MODE'', 4),
    (''ETHTOOL_LINK_EXT_SUBSTATE_AN_FEC_MISMATCH_DURING_OVERRIDE'', 5),
    (''ETHTOOL_LINK_EXT_SUBSTATE_AN_NO_HCD'', 6)]"

definition enum_ethtool_link_ext_substate_bad_signal_integrity :: ctype where
  "enum_ethtool_link_ext_substate_bad_signal_integrity = Enum False [
    (''ETHTOOL_LINK_EXT_SUBSTATE_BSI_LARGE_NUMBER_OF_PHYSICAL_ERRORS'', 1),
    (''ETHTOOL_LINK_EXT_SUBSTATE_BSI_UNSUPPORTED_RATE'', 2),
    (''ETHTOOL_LINK_EXT_SUBSTATE_BSI_SERDES_REFERENCE_CLOCK_LOST'', 3),
    (''ETHTOOL_LINK_EXT_SUBSTATE_BSI_SERDES_ALOS'', 4)]"

definition enum_ethtool_link_ext_substate_cable_issue :: ctype where
  "enum_ethtool_link_ext_substate_cable_issue = Enum False [
    (''ETHTOOL_LINK_EXT_SUBSTATE_CI_UNSUPPORTED_CABLE'', 1),
    (''ETHTOOL_LINK_EXT_SUBSTATE_CI_CABLE_TEST_FAILURE'', 2)]"

definition enum_ethtool_link_ext_substate_link_logical_mismatch :: ctype where
  "enum_ethtool_link_ext_substate_link_logical_mismatch = Enum False [
    (''ETHTOOL_LINK_EXT_SUBSTATE_LLM_PCS_DID_NOT_ACQUIRE_BLOCK_LOCK'', 1),
    (''ETHTOOL_LINK_EXT_SUBSTATE_LLM_PCS_DID_NOT_ACQUIRE_AM_LOCK'', 2),
    (''ETHTOOL_LINK_EXT_SUBSTATE_LLM_PCS_DID_NOT_GET_ALIGN_STATUS'', 3),
    (''ETHTOOL_LINK_EXT_SUBSTATE_LLM_FC_FEC_IS_NOT_LOCKED'', 4),
    (''ETHTOOL_LINK_EXT_SUBSTATE_LLM_RS_FEC_IS_NOT_LOCKED'', 5)]"

definition enum_ethtool_link_ext_substate_link_training :: ctype where
  "enum_ethtool_link_ext_substate_link_training = Enum False [
    (''ETHTOOL_LINK_EXT_SUBSTATE_LT_KR_FRAME_LOCK_NOT_ACQUIRED'', 1),
    (''ETHTOOL_LINK_EXT_SUBSTATE_LT_KR_LINK_INHIBIT_TIMEOUT'', 2),
    (''ETHTOOL_LINK_EXT_SUBSTATE_LT_KR_LINK_PARTNER_DID_NOT_SET_RECEIVER_READY'', 3),
    (''ETHTOOL_LINK_EXT_SUBSTATE_LT_REMOTE_FAULT'', 4)]"

definition enum_ethtool_link_ext_substate_module :: ctype where
  "enum_ethtool_link_ext_substate_module = Enum False [
    (''ETHTOOL_LINK_EXT_SUBSTATE_MODULE_CMIS_NOT_READY'', 1)]"

definition enum_ethtool_link_mode_bit_indices :: ctype where
  "enum_ethtool_link_mode_bit_indices = Enum False [
    (''ETHTOOL_LINK_MODE_10baseT_Half_BIT'', 0), (''ETHTOOL_LINK_MODE_10baseT_Full_BIT'', 1),
    (''ETHTOOL_LINK_MODE_100baseT_Half_BIT'', 2), (''ETHTOOL_LINK_MODE_100baseT_Full_BIT'', 3),
    (''ETHTOOL_LINK_MODE_1000baseT_Half_BIT'', 4), (''ETHTOOL_LINK_MODE_1000baseT_Full_BIT'', 5),
    (''ETHTOOL_LINK_MODE_Autoneg_BIT'', 6), (''ETHTOOL_LINK_MODE_TP_BIT'', 7),
    (''ETHTOOL_LINK_MODE_AUI_BIT'', 8), (''ETHTOOL_LINK_MODE_MII_BIT'', 9),
    (''ETHTOOL_LINK_MODE_FIBRE_BIT'', 10), (''ETHTOOL_LINK_MODE_BNC_BIT'', 11),
    (''ETHTOOL_LINK_MODE_10000baseT_Full_BIT'', 12), (''ETHTOOL_LINK_MODE_Pause_BIT'', 13),
    (''ETHTOOL_LINK_MODE_Asym_Pause_BIT'', 14), (''ETHTOOL_LINK_MODE_2500baseX_Full_BIT'', 15),
    (''ETHTOOL_LINK_MODE_Backplane_BIT'', 16), (''ETHTOOL_LINK_MODE_1000baseKX_Full_BIT'', 17),
    (''ETHTOOL_LINK_MODE_10000baseKX4_Full_BIT'', 18),
    (''ETHTOOL_LINK_MODE_10000baseKR_Full_BIT'', 19),
    (''ETHTOOL_LINK_MODE_10000baseR_FEC_BIT'', 20),
    (''ETHTOOL_LINK_MODE_20000baseMLD2_Full_BIT'', 21),
    (''ETHTOOL_LINK_MODE_20000baseKR2_Full_BIT'', 22),
    (''ETHTOOL_LINK_MODE_40000baseKR4_Full_BIT'', 23),
    (''ETHTOOL_LINK_MODE_40000baseCR4_Full_BIT'', 24),
    (''ETHTOOL_LINK_MODE_40000baseSR4_Full_BIT'', 25),
    (''ETHTOOL_LINK_MODE_40000baseLR4_Full_BIT'', 26),
    (''ETHTOOL_LINK_MODE_56000baseKR4_Full_BIT'', 27),
    (''ETHTOOL_LINK_MODE_56000baseCR4_Full_BIT'', 28),
    (''ETHTOOL_LINK_MODE_56000baseSR4_Full_BIT'', 29),
    (''ETHTOOL_LINK_MODE_56000baseLR4_Full_BIT'', 30),
    (''ETHTOOL_LINK_MODE_25000baseCR_Full_BIT'', 31),
    (''ETHTOOL_LINK_MODE_25000baseKR_Full_BIT'', 32),
    (''ETHTOOL_LINK_MODE_25000baseSR_Full_BIT'', 33),
    (''ETHTOOL_LINK_MODE_50000baseCR2_Full_BIT'', 34),
    (''ETHTOOL_LINK_MODE_50000baseKR2_Full_BIT'', 35),
    (''ETHTOOL_LINK_MODE_100000baseKR4_Full_BIT'', 36),
    (''ETHTOOL_LINK_MODE_100000baseSR4_Full_BIT'', 37),
    (''ETHTOOL_LINK_MODE_100000baseCR4_Full_BIT'', 38),
    (''ETHTOOL_LINK_MODE_100000baseLR4_ER4_Full_BIT'', 39),
    (''ETHTOOL_LINK_MODE_50000baseSR2_Full_BIT'', 40),
    (''ETHTOOL_LINK_MODE_1000baseX_Full_BIT'', 41),
    (''ETHTOOL_LINK_MODE_10000baseCR_Full_BIT'', 42),
    (''ETHTOOL_LINK_MODE_10000baseSR_Full_BIT'', 43),
    (''ETHTOOL_LINK_MODE_10000baseLR_Full_BIT'', 44),
    (''ETHTOOL_LINK_MODE_10000baseLRM_Full_BIT'', 45),
    (''ETHTOOL_LINK_MODE_10000baseER_Full_BIT'', 46),
    (''ETHTOOL_LINK_MODE_2500baseT_Full_BIT'', 47),
    (''ETHTOOL_LINK_MODE_5000baseT_Full_BIT'', 48), (''ETHTOOL_LINK_MODE_FEC_NONE_BIT'', 49),
    (''ETHTOOL_LINK_MODE_FEC_RS_BIT'', 50), (''ETHTOOL_LINK_MODE_FEC_BASER_BIT'', 51),
    (''ETHTOOL_LINK_MODE_50000baseKR_Full_BIT'', 52),
    (''ETHTOOL_LINK_MODE_50000baseSR_Full_BIT'', 53),
    (''ETHTOOL_LINK_MODE_50000baseCR_Full_BIT'', 54),
    (''ETHTOOL_LINK_MODE_50000baseLR_ER_FR_Full_BIT'', 55),
    (''ETHTOOL_LINK_MODE_50000baseDR_Full_BIT'', 56),
    (''ETHTOOL_LINK_MODE_100000baseKR2_Full_BIT'', 57),
    (''ETHTOOL_LINK_MODE_100000baseSR2_Full_BIT'', 58),
    (''ETHTOOL_LINK_MODE_100000baseCR2_Full_BIT'', 59),
    (''ETHTOOL_LINK_MODE_100000baseLR2_ER2_FR2_Full_BIT'', 60),
    (''ETHTOOL_LINK_MODE_100000baseDR2_Full_BIT'', 61),
    (''ETHTOOL_LINK_MODE_200000baseKR4_Full_BIT'', 62),
    (''ETHTOOL_LINK_MODE_200000baseSR4_Full_BIT'', 63),
    (''ETHTOOL_LINK_MODE_200000baseLR4_ER4_FR4_Full_BIT'', 64),
    (''ETHTOOL_LINK_MODE_200000baseDR4_Full_BIT'', 65),
    (''ETHTOOL_LINK_MODE_200000baseCR4_Full_BIT'', 66),
    (''ETHTOOL_LINK_MODE_100baseT1_Full_BIT'', 67),
    (''ETHTOOL_LINK_MODE_1000baseT1_Full_BIT'', 68),
    (''ETHTOOL_LINK_MODE_400000baseKR8_Full_BIT'', 69),
    (''ETHTOOL_LINK_MODE_400000baseSR8_Full_BIT'', 70),
    (''ETHTOOL_LINK_MODE_400000baseLR8_ER8_FR8_Full_BIT'', 71),
    (''ETHTOOL_LINK_MODE_400000baseDR8_Full_BIT'', 72),
    (''ETHTOOL_LINK_MODE_400000baseCR8_Full_BIT'', 73), (''ETHTOOL_LINK_MODE_FEC_LLRS_BIT'', 74),
    (''ETHTOOL_LINK_MODE_100000baseKR_Full_BIT'', 75),
    (''ETHTOOL_LINK_MODE_100000baseSR_Full_BIT'', 76),
    (''ETHTOOL_LINK_MODE_100000baseLR_ER_FR_Full_BIT'', 77),
    (''ETHTOOL_LINK_MODE_100000baseCR_Full_BIT'', 78),
    (''ETHTOOL_LINK_MODE_100000baseDR_Full_BIT'', 79),
    (''ETHTOOL_LINK_MODE_200000baseKR2_Full_BIT'', 80),
    (''ETHTOOL_LINK_MODE_200000baseSR2_Full_BIT'', 81),
    (''ETHTOOL_LINK_MODE_200000baseLR2_ER2_FR2_Full_BIT'', 82),
    (''ETHTOOL_LINK_MODE_200000baseDR2_Full_BIT'', 83),
    (''ETHTOOL_LINK_MODE_200000baseCR2_Full_BIT'', 84),
    (''ETHTOOL_LINK_MODE_400000baseKR4_Full_BIT'', 85),
    (''ETHTOOL_LINK_MODE_400000baseSR4_Full_BIT'', 86),
    (''ETHTOOL_LINK_MODE_400000baseLR4_ER4_FR4_Full_BIT'', 87),
    (''ETHTOOL_LINK_MODE_400000baseDR4_Full_BIT'', 88),
    (''ETHTOOL_LINK_MODE_400000baseCR4_Full_BIT'', 89),
    (''ETHTOOL_LINK_MODE_100baseFX_Half_BIT'', 90),
    (''ETHTOOL_LINK_MODE_100baseFX_Full_BIT'', 91),
    (''ETHTOOL_LINK_MODE_10baseT1L_Full_BIT'', 92),
    (''ETHTOOL_LINK_MODE_800000baseCR8_Full_BIT'', 93),
    (''ETHTOOL_LINK_MODE_800000baseKR8_Full_BIT'', 94),
    (''ETHTOOL_LINK_MODE_800000baseDR8_Full_BIT'', 95),
    (''ETHTOOL_LINK_MODE_800000baseDR8_2_Full_BIT'', 96),
    (''ETHTOOL_LINK_MODE_800000baseSR8_Full_BIT'', 97),
    (''ETHTOOL_LINK_MODE_800000baseVR8_Full_BIT'', 98),
    (''ETHTOOL_LINK_MODE_10baseT1S_Full_BIT'', 99),
    (''ETHTOOL_LINK_MODE_10baseT1S_Half_BIT'', 100),
    (''ETHTOOL_LINK_MODE_10baseT1S_P2MP_Half_BIT'', 101),
    (''ETHTOOL_LINK_MODE_10baseT1BRR_Full_BIT'', 102),
    (''ETHTOOL_LINK_MODE_200000baseCR_Full_BIT'', 103),
    (''ETHTOOL_LINK_MODE_200000baseKR_Full_BIT'', 104),
    (''ETHTOOL_LINK_MODE_200000baseDR_Full_BIT'', 105),
    (''ETHTOOL_LINK_MODE_200000baseDR_2_Full_BIT'', 106),
    (''ETHTOOL_LINK_MODE_200000baseSR_Full_BIT'', 107),
    (''ETHTOOL_LINK_MODE_200000baseVR_Full_BIT'', 108),
    (''ETHTOOL_LINK_MODE_400000baseCR2_Full_BIT'', 109),
    (''ETHTOOL_LINK_MODE_400000baseKR2_Full_BIT'', 110),
    (''ETHTOOL_LINK_MODE_400000baseDR2_Full_BIT'', 111),
    (''ETHTOOL_LINK_MODE_400000baseDR2_2_Full_BIT'', 112),
    (''ETHTOOL_LINK_MODE_400000baseSR2_Full_BIT'', 113),
    (''ETHTOOL_LINK_MODE_400000baseVR2_Full_BIT'', 114),
    (''ETHTOOL_LINK_MODE_800000baseCR4_Full_BIT'', 115),
    (''ETHTOOL_LINK_MODE_800000baseKR4_Full_BIT'', 116),
    (''ETHTOOL_LINK_MODE_800000baseDR4_Full_BIT'', 117),
    (''ETHTOOL_LINK_MODE_800000baseDR4_2_Full_BIT'', 118),
    (''ETHTOOL_LINK_MODE_800000baseSR4_Full_BIT'', 119),
    (''ETHTOOL_LINK_MODE_800000baseVR4_Full_BIT'', 120), (''__ETHTOOL_LINK_MODE_MASK_NBITS'', 121)]"

definition enum_ethtool_mac_stats_src :: ctype where
  "enum_ethtool_mac_stats_src = Enum False [
    (''ETHTOOL_MAC_STATS_SRC_AGGREGATE'', 0), (''ETHTOOL_MAC_STATS_SRC_EMAC'', 1),
    (''ETHTOOL_MAC_STATS_SRC_PMAC'', 2)]"

definition enum_ethtool_mm_verify_status :: ctype where
  "enum_ethtool_mm_verify_status = Enum False [
    (''ETHTOOL_MM_VERIFY_STATUS_UNKNOWN'', 0), (''ETHTOOL_MM_VERIFY_STATUS_INITIAL'', 1),
    (''ETHTOOL_MM_VERIFY_STATUS_VERIFYING'', 2), (''ETHTOOL_MM_VERIFY_STATUS_SUCCEEDED'', 3),
    (''ETHTOOL_MM_VERIFY_STATUS_FAILED'', 4), (''ETHTOOL_MM_VERIFY_STATUS_DISABLED'', 5)]"

definition enum_ethtool_mmsv_event :: ctype where
  "enum_ethtool_mmsv_event = Enum False [
    (''ETHTOOL_MMSV_LP_SENT_VERIFY_MPACKET'', 0), (''ETHTOOL_MMSV_LD_SENT_VERIFY_MPACKET'', 1),
    (''ETHTOOL_MMSV_LP_SENT_RESPONSE_MPACKET'', 2)]"

definition enum_ethtool_module_fw_flash_status :: ctype where
  "enum_ethtool_module_fw_flash_status = Enum False [
    (''ETHTOOL_MODULE_FW_FLASH_STATUS_STARTED'', 1),
    (''ETHTOOL_MODULE_FW_FLASH_STATUS_IN_PROGRESS'', 2),
    (''ETHTOOL_MODULE_FW_FLASH_STATUS_COMPLETED'', 3),
    (''ETHTOOL_MODULE_FW_FLASH_STATUS_ERROR'', 4)]"

definition enum_ethtool_module_power_mode :: ctype where
  "enum_ethtool_module_power_mode = Enum False [
    (''ETHTOOL_MODULE_POWER_MODE_LOW'', 1), (''ETHTOOL_MODULE_POWER_MODE_HIGH'', 2)]"

definition enum_ethtool_module_power_mode_policy :: ctype where
  "enum_ethtool_module_power_mode_policy = Enum False [
    (''ETHTOOL_MODULE_POWER_MODE_POLICY_HIGH'', 1), (''ETHTOOL_MODULE_POWER_MODE_POLICY_AUTO'', 2)]"

definition enum_ethtool_mpacket :: ctype where
  "enum_ethtool_mpacket = Enum False [
    (''ETHTOOL_MPACKET_VERIFY'', 0), (''ETHTOOL_MPACKET_RESPONSE'', 1)]"

definition enum_ethtool_multicast_groups :: ctype where
  "enum_ethtool_multicast_groups = Enum False [
    (''ETHNL_MCGRP_MONITOR'', 0)]"

definition enum_ethtool_phys_id_state :: ctype where
  "enum_ethtool_phys_id_state = Enum False [
    (''ETHTOOL_ID_INACTIVE'', 0), (''ETHTOOL_ID_ACTIVE'', 1), (''ETHTOOL_ID_ON'', 2),
    (''ETHTOOL_ID_OFF'', 3)]"

definition enum_ethtool_podl_pse_admin_state :: ctype where
  "enum_ethtool_podl_pse_admin_state = Enum False [
    (''ETHTOOL_PODL_PSE_ADMIN_STATE_UNKNOWN'', 1), (''ETHTOOL_PODL_PSE_ADMIN_STATE_DISABLED'', 2),
    (''ETHTOOL_PODL_PSE_ADMIN_STATE_ENABLED'', 3)]"

definition enum_ethtool_podl_pse_pw_d_status :: ctype where
  "enum_ethtool_podl_pse_pw_d_status = Enum False [
    (''ETHTOOL_PODL_PSE_PW_D_STATUS_UNKNOWN'', 1), (''ETHTOOL_PODL_PSE_PW_D_STATUS_DISABLED'', 2),
    (''ETHTOOL_PODL_PSE_PW_D_STATUS_SEARCHING'', 3),
    (''ETHTOOL_PODL_PSE_PW_D_STATUS_DELIVERING'', 4), (''ETHTOOL_PODL_PSE_PW_D_STATUS_SLEEP'', 5),
    (''ETHTOOL_PODL_PSE_PW_D_STATUS_IDLE'', 6), (''ETHTOOL_PODL_PSE_PW_D_STATUS_ERROR'', 7)]"

definition enum_ethtool_reset_flags :: ctype where
  "enum_ethtool_reset_flags = Enum False [
    (''ETH_RESET_MGMT'', 1), (''ETH_RESET_IRQ'', 2), (''ETH_RESET_DMA'', 4),
    (''ETH_RESET_FILTER'', 8), (''ETH_RESET_OFFLOAD'', 16), (''ETH_RESET_MAC'', 32),
    (''ETH_RESET_PHY'', 64), (''ETH_RESET_RAM'', 128), (''ETH_RESET_AP'', 256),
    (''ETH_RESET_DEDICATED'', 65535), (''ETH_RESET_ALL'', 4294967295)]"

definition enum_ethtool_sfeatures_retval_bits :: ctype where
  "enum_ethtool_sfeatures_retval_bits = Enum False [
    (''ETHTOOL_F_UNSUPPORTED__BIT'', 0), (''ETHTOOL_F_WISH__BIT'', 1),
    (''ETHTOOL_F_COMPAT__BIT'', 2)]"

definition enum_ethtool_stringset :: ctype where
  "enum_ethtool_stringset = Enum False [
    (''ETH_SS_TEST'', 0), (''ETH_SS_STATS'', 1), (''ETH_SS_PRIV_FLAGS'', 2),
    (''ETH_SS_NTUPLE_FILTERS'', 3), (''ETH_SS_FEATURES'', 4), (''ETH_SS_RSS_HASH_FUNCS'', 5),
    (''ETH_SS_TUNABLES'', 6), (''ETH_SS_PHY_STATS'', 7), (''ETH_SS_PHY_TUNABLES'', 8),
    (''ETH_SS_LINK_MODES'', 9), (''ETH_SS_MSG_CLASSES'', 10), (''ETH_SS_WOL_MODES'', 11),
    (''ETH_SS_SOF_TIMESTAMPING'', 12), (''ETH_SS_TS_TX_TYPES'', 13),
    (''ETH_SS_TS_RX_FILTERS'', 14), (''ETH_SS_UDP_TUNNEL_TYPES'', 15), (''ETH_SS_STATS_STD'', 16),
    (''ETH_SS_STATS_ETH_PHY'', 17), (''ETH_SS_STATS_ETH_MAC'', 18),
    (''ETH_SS_STATS_ETH_CTRL'', 19), (''ETH_SS_STATS_RMON'', 20), (''ETH_SS_STATS_PHY'', 21),
    (''ETH_SS_TS_FLAGS'', 22), (''ETH_SS_COUNT'', 23)]"

definition enum_ethtool_supported_ring_param :: ctype where
  "enum_ethtool_supported_ring_param = Enum False [
    (''ETHTOOL_RING_USE_RX_BUF_LEN'', 1), (''ETHTOOL_RING_USE_CQE_SIZE'', 2),
    (''ETHTOOL_RING_USE_TX_PUSH'', 4), (''ETHTOOL_RING_USE_RX_PUSH'', 8),
    (''ETHTOOL_RING_USE_TX_PUSH_BUF_LEN'', 16), (''ETHTOOL_RING_USE_TCP_DATA_SPLIT'', 32),
    (''ETHTOOL_RING_USE_HDS_THRS'', 64)]"

definition enum_ethtool_tcp_data_split :: ctype where
  "enum_ethtool_tcp_data_split = Enum False [
    (''ETHTOOL_TCP_DATA_SPLIT_UNKNOWN'', 0), (''ETHTOOL_TCP_DATA_SPLIT_DISABLED'', 1),
    (''ETHTOOL_TCP_DATA_SPLIT_ENABLED'', 2)]"

definition enum_ethtool_test_flags :: ctype where
  "enum_ethtool_test_flags = Enum False [
    (''ETH_TEST_FL_OFFLINE'', 1), (''ETH_TEST_FL_FAILED'', 2), (''ETH_TEST_FL_EXTERNAL_LB'', 4),
    (''ETH_TEST_FL_EXTERNAL_LB_DONE'', 8)]"

definition enum_genl_validate_flags :: ctype where
  "enum_genl_validate_flags = Enum False [
    (''GENL_DONT_VALIDATE_STRICT'', 1), (''GENL_DONT_VALIDATE_DUMP'', 2),
    (''GENL_DONT_VALIDATE_DUMP_STRICT'', 4)]"

definition enum_gro_result :: ctype where
  "enum_gro_result = Enum False [
    (''GRO_MERGED'', 0), (''GRO_MERGED_FREE'', 1), (''GRO_HELD'', 2), (''GRO_NORMAL'', 3),
    (''GRO_CONSUMED'', 4)]"

definition enum_group_type :: ctype where
  "enum_group_type = Enum False [
    (''group_has_spare'', 0), (''group_fully_busy'', 1), (''group_misfit_task'', 2),
    (''group_smt_balance'', 3), (''group_asym_packing'', 4), (''group_imbalanced'', 5),
    (''group_overloaded'', 6)]"

definition enum_net_bridge_opts :: ctype where
  "enum_net_bridge_opts = Enum False [
    (''BROPT_VLAN_ENABLED'', 0), (''BROPT_VLAN_STATS_ENABLED'', 1),
    (''BROPT_NF_CALL_IPTABLES'', 2), (''BROPT_NF_CALL_IP6TABLES'', 3),
    (''BROPT_NF_CALL_ARPTABLES'', 4), (''BROPT_GROUP_ADDR_SET'', 5),
    (''BROPT_MULTICAST_ENABLED'', 6), (''BROPT_MULTICAST_QUERY_USE_IFADDR'', 7),
    (''BROPT_MULTICAST_STATS_ENABLED'', 8), (''BROPT_HAS_IPV6_ADDR'', 9),
    (''BROPT_NEIGH_SUPPRESS_ENABLED'', 10), (''BROPT_MTU_SET_BY_USER'', 11),
    (''BROPT_VLAN_STATS_PER_PORT'', 12), (''BROPT_NO_LL_LEARN'', 13),
    (''BROPT_VLAN_BRIDGE_BINDING'', 14), (''BROPT_MCAST_VLAN_SNOOPING_ENABLED'', 15),
    (''BROPT_MST_ENABLED'', 16), (''BROPT_MDB_OFFLOAD_FAIL_NOTIFICATION'', 17)]"

definition enum_net_device_flags :: ctype where
  "enum_net_device_flags = Enum False [
    (''IFF_UP'', 1), (''IFF_BROADCAST'', 2), (''IFF_DEBUG'', 4), (''IFF_LOOPBACK'', 8),
    (''IFF_POINTOPOINT'', 16), (''IFF_NOTRAILERS'', 32), (''IFF_RUNNING'', 64),
    (''IFF_NOARP'', 128), (''IFF_PROMISC'', 256), (''IFF_ALLMULTI'', 512), (''IFF_MASTER'', 1024),
    (''IFF_SLAVE'', 2048), (''IFF_MULTICAST'', 4096), (''IFF_PORTSEL'', 8192),
    (''IFF_AUTOMEDIA'', 16384), (''IFF_DYNAMIC'', 32768), (''IFF_LOWER_UP'', 65536),
    (''IFF_DORMANT'', 131072), (''IFF_ECHO'', 262144)]"

definition enum_net_device_path_type :: ctype where
  "enum_net_device_path_type = Enum False [
    (''DEV_PATH_ETHERNET'', 0), (''DEV_PATH_VLAN'', 1), (''DEV_PATH_BRIDGE'', 2),
    (''DEV_PATH_PPPOE'', 3), (''DEV_PATH_DSA'', 4), (''DEV_PATH_MTK_WDMA'', 5)]"

definition enum_net_iov_type :: ctype where
  "enum_net_iov_type = Enum False [
    (''NET_IOV_DMABUF'', 0), (''NET_IOV_IOURING'', 1), (''NET_IOV_MAX'', 18446744073709551615)]"

definition enum_net_xmit_qdisc_t :: ctype where
  "enum_net_xmit_qdisc_t = Enum False [
    (''__NET_XMIT_STOLEN'', 65536), (''__NET_XMIT_BYPASS'', 131072)]"

definition enum_netdev_cmd :: ctype where
  "enum_netdev_cmd = Enum False [
    (''NETDEV_UP'', 1), (''NETDEV_DOWN'', 2), (''NETDEV_REBOOT'', 3), (''NETDEV_CHANGE'', 4),
    (''NETDEV_REGISTER'', 5), (''NETDEV_UNREGISTER'', 6), (''NETDEV_CHANGEMTU'', 7),
    (''NETDEV_CHANGEADDR'', 8), (''NETDEV_PRE_CHANGEADDR'', 9), (''NETDEV_GOING_DOWN'', 10),
    (''NETDEV_CHANGENAME'', 11), (''NETDEV_FEAT_CHANGE'', 12), (''NETDEV_BONDING_FAILOVER'', 13),
    (''NETDEV_PRE_UP'', 14), (''NETDEV_PRE_TYPE_CHANGE'', 15), (''NETDEV_POST_TYPE_CHANGE'', 16),
    (''NETDEV_POST_INIT'', 17), (''NETDEV_PRE_UNINIT'', 18), (''NETDEV_RELEASE'', 19),
    (''NETDEV_NOTIFY_PEERS'', 20), (''NETDEV_JOIN'', 21), (''NETDEV_CHANGEUPPER'', 22),
    (''NETDEV_RESEND_IGMP'', 23), (''NETDEV_PRECHANGEMTU'', 24), (''NETDEV_CHANGEINFODATA'', 25),
    (''NETDEV_BONDING_INFO'', 26), (''NETDEV_PRECHANGEUPPER'', 27),
    (''NETDEV_CHANGELOWERSTATE'', 28), (''NETDEV_UDP_TUNNEL_PUSH_INFO'', 29),
    (''NETDEV_UDP_TUNNEL_DROP_INFO'', 30), (''NETDEV_CHANGE_TX_QUEUE_LEN'', 31),
    (''NETDEV_CVLAN_FILTER_PUSH_INFO'', 32), (''NETDEV_CVLAN_FILTER_DROP_INFO'', 33),
    (''NETDEV_SVLAN_FILTER_PUSH_INFO'', 34), (''NETDEV_SVLAN_FILTER_DROP_INFO'', 35),
    (''NETDEV_OFFLOAD_XSTATS_ENABLE'', 36), (''NETDEV_OFFLOAD_XSTATS_DISABLE'', 37),
    (''NETDEV_OFFLOAD_XSTATS_REPORT_USED'', 38), (''NETDEV_OFFLOAD_XSTATS_REPORT_DELTA'', 39),
    (''NETDEV_XDP_FEAT_CHANGE'', 40)]"

definition enum_netdev_lag_hash :: ctype where
  "enum_netdev_lag_hash = Enum False [
    (''NETDEV_LAG_HASH_NONE'', 0), (''NETDEV_LAG_HASH_L2'', 1), (''NETDEV_LAG_HASH_L34'', 2),
    (''NETDEV_LAG_HASH_L23'', 3), (''NETDEV_LAG_HASH_E23'', 4), (''NETDEV_LAG_HASH_E34'', 5),
    (''NETDEV_LAG_HASH_VLAN_SRCMAC'', 6), (''NETDEV_LAG_HASH_UNKNOWN'', 7)]"

definition enum_netdev_lag_tx_type :: ctype where
  "enum_netdev_lag_tx_type = Enum False [
    (''NETDEV_LAG_TX_TYPE_UNKNOWN'', 0), (''NETDEV_LAG_TX_TYPE_RANDOM'', 1),
    (''NETDEV_LAG_TX_TYPE_BROADCAST'', 2), (''NETDEV_LAG_TX_TYPE_ROUNDROBIN'', 3),
    (''NETDEV_LAG_TX_TYPE_ACTIVEBACKUP'', 4), (''NETDEV_LAG_TX_TYPE_HASH'', 5)]"

definition enum_netdev_napi_threaded :: ctype where
  "enum_netdev_napi_threaded = Enum False [
    (''NETDEV_NAPI_THREADED_DISABLED'', 0), (''NETDEV_NAPI_THREADED_ENABLED'', 1)]"

definition enum_netdev_offload_xstats_type :: ctype where
  "enum_netdev_offload_xstats_type = Enum False [
    (''NETDEV_OFFLOAD_XSTATS_TYPE_L3'', 1)]"

definition enum_netdev_priv_flags :: ctype where
  "enum_netdev_priv_flags = Enum False [
    (''IFF_802_1Q_VLAN'', 1), (''IFF_EBRIDGE'', 2), (''IFF_BONDING'', 4), (''IFF_ISATAP'', 8),
    (''IFF_WAN_HDLC'', 16), (''IFF_XMIT_DST_RELEASE'', 32), (''IFF_DONT_BRIDGE'', 64),
    (''IFF_DISABLE_NETPOLL'', 128), (''IFF_MACVLAN_PORT'', 256), (''IFF_BRIDGE_PORT'', 512),
    (''IFF_OVS_DATAPATH'', 1024), (''IFF_TX_SKB_SHARING'', 2048), (''IFF_UNICAST_FLT'', 4096),
    (''IFF_TEAM_PORT'', 8192), (''IFF_SUPP_NOFCS'', 16384), (''IFF_LIVE_ADDR_CHANGE'', 32768),
    (''IFF_MACVLAN'', 65536), (''IFF_XMIT_DST_RELEASE_PERM'', 131072),
    (''IFF_L3MDEV_MASTER'', 262144), (''IFF_NO_QUEUE'', 524288), (''IFF_OPENVSWITCH'', 1048576),
    (''IFF_L3MDEV_SLAVE'', 2097152), (''IFF_TEAM'', 4194304), (''IFF_RXFH_CONFIGURED'', 8388608),
    (''IFF_PHONY_HEADROOM'', 16777216), (''IFF_MACSEC'', 33554432),
    (''IFF_NO_RX_HANDLER'', 67108864), (''IFF_FAILOVER'', 134217728),
    (''IFF_FAILOVER_SLAVE'', 268435456), (''IFF_L3MDEV_RX_HANDLER'', 536870912),
    (''IFF_NO_ADDRCONF'', 1073741824), (''IFF_TX_SKB_NO_LINEAR'', 2147483648)]"

definition enum_netdev_qstats_scope :: ctype where
  "enum_netdev_qstats_scope = Enum False [
    (''NETDEV_QSTATS_SCOPE_QUEUE'', 1)]"

definition enum_netdev_queue_state_t :: ctype where
  "enum_netdev_queue_state_t = Enum False [
    (''__QUEUE_STATE_DRV_XOFF'', 0), (''__QUEUE_STATE_STACK_XOFF'', 1),
    (''__QUEUE_STATE_FROZEN'', 2)]"

definition enum_netdev_queue_type :: ctype where
  "enum_netdev_queue_type = Enum False [
    (''NETDEV_QUEUE_TYPE_RX'', 0), (''NETDEV_QUEUE_TYPE_TX'', 1)]"

definition enum_netdev_reg_state :: ctype where
  "enum_netdev_reg_state = Enum False [
    (''NETREG_UNINITIALIZED'', 0), (''NETREG_REGISTERED'', 1), (''NETREG_UNREGISTERING'', 2),
    (''NETREG_UNREGISTERED'', 3), (''NETREG_RELEASED'', 4), (''NETREG_DUMMY'', 5)]"

definition enum_netdev_state_t :: ctype where
  "enum_netdev_state_t = Enum False [
    (''__LINK_STATE_START'', 0), (''__LINK_STATE_PRESENT'', 1), (''__LINK_STATE_NOCARRIER'', 2),
    (''__LINK_STATE_LINKWATCH_PENDING'', 3), (''__LINK_STATE_DORMANT'', 4),
    (''__LINK_STATE_TESTING'', 5)]"

definition enum_netdev_tx :: ctype where
  "enum_netdev_tx = Enum False [
    (''__NETDEV_TX_MIN'', - 2147483648), (''NETDEV_TX_OK'', 0), (''NETDEV_TX_BUSY'', 16)]"

definition enum_netdev_xdp_act :: ctype where
  "enum_netdev_xdp_act = Enum False [
    (''NETDEV_XDP_ACT_BASIC'', 1), (''NETDEV_XDP_ACT_REDIRECT'', 2),
    (''NETDEV_XDP_ACT_NDO_XMIT'', 4), (''NETDEV_XDP_ACT_XSK_ZEROCOPY'', 8),
    (''NETDEV_XDP_ACT_HW_OFFLOAD'', 16), (''NETDEV_XDP_ACT_RX_SG'', 32),
    (''NETDEV_XDP_ACT_NDO_XMIT_SG'', 64), (''NETDEV_XDP_ACT_MASK'', 127)]"

definition enum_netdev_xdp_rx_metadata :: ctype where
  "enum_netdev_xdp_rx_metadata = Enum False [
    (''NETDEV_XDP_RX_METADATA_TIMESTAMP'', 1), (''NETDEV_XDP_RX_METADATA_HASH'', 2),
    (''NETDEV_XDP_RX_METADATA_VLAN_TAG'', 4)]"

definition enum_netdev_xsk_flags :: ctype where
  "enum_netdev_xsk_flags = Enum False [
    (''NETDEV_XSK_FLAGS_TX_TIMESTAMP'', 1), (''NETDEV_XSK_FLAGS_TX_CHECKSUM'', 2),
    (''NETDEV_XSK_FLAGS_TX_LAUNCH_TIME_FIFO'', 4)]"

definition enum_netlink_attribute_type :: ctype where
  "enum_netlink_attribute_type = Enum False [
    (''NL_ATTR_TYPE_INVALID'', 0), (''NL_ATTR_TYPE_FLAG'', 1), (''NL_ATTR_TYPE_U8'', 2),
    (''NL_ATTR_TYPE_U16'', 3), (''NL_ATTR_TYPE_U32'', 4), (''NL_ATTR_TYPE_U64'', 5),
    (''NL_ATTR_TYPE_S8'', 6), (''NL_ATTR_TYPE_S16'', 7), (''NL_ATTR_TYPE_S32'', 8),
    (''NL_ATTR_TYPE_S64'', 9), (''NL_ATTR_TYPE_BINARY'', 10), (''NL_ATTR_TYPE_STRING'', 11),
    (''NL_ATTR_TYPE_NUL_STRING'', 12), (''NL_ATTR_TYPE_NESTED'', 13),
    (''NL_ATTR_TYPE_NESTED_ARRAY'', 14), (''NL_ATTR_TYPE_BITFIELD32'', 15),
    (''NL_ATTR_TYPE_SINT'', 16), (''NL_ATTR_TYPE_UINT'', 17)]"

definition enum_netlink_policy_type_attr :: ctype where
  "enum_netlink_policy_type_attr = Enum False [
    (''NL_POLICY_TYPE_ATTR_UNSPEC'', 0), (''NL_POLICY_TYPE_ATTR_TYPE'', 1),
    (''NL_POLICY_TYPE_ATTR_MIN_VALUE_S'', 2), (''NL_POLICY_TYPE_ATTR_MAX_VALUE_S'', 3),
    (''NL_POLICY_TYPE_ATTR_MIN_VALUE_U'', 4), (''NL_POLICY_TYPE_ATTR_MAX_VALUE_U'', 5),
    (''NL_POLICY_TYPE_ATTR_MIN_LENGTH'', 6), (''NL_POLICY_TYPE_ATTR_MAX_LENGTH'', 7),
    (''NL_POLICY_TYPE_ATTR_POLICY_IDX'', 8), (''NL_POLICY_TYPE_ATTR_POLICY_MAXTYPE'', 9),
    (''NL_POLICY_TYPE_ATTR_BITFIELD32_MASK'', 10), (''NL_POLICY_TYPE_ATTR_PAD'', 11),
    (''NL_POLICY_TYPE_ATTR_MASK'', 12), (''__NL_POLICY_TYPE_ATTR_MAX'', 13),
    (''NL_POLICY_TYPE_ATTR_MAX'', 12)]"

definition enum_netlink_skb_flags :: ctype where
  "enum_netlink_skb_flags = Enum False [
    (''NETLINK_SKB_DST'', 8)]"

definition enum_netlink_validation :: ctype where
  "enum_netlink_validation = Enum False [
    (''NL_VALIDATE_LIBERAL'', 0), (''NL_VALIDATE_TRAILING'', 1), (''NL_VALIDATE_MAXTYPE'', 2),
    (''NL_VALIDATE_UNSPEC'', 4), (''NL_VALIDATE_STRICT_ATTRS'', 8), (''NL_VALIDATE_NESTED'', 16)]"

definition enum_nl80211_ac :: ctype where
  "enum_nl80211_ac = Enum False [
    (''NL80211_AC_VO'', 0), (''NL80211_AC_VI'', 1), (''NL80211_AC_BE'', 2),
    (''NL80211_AC_BK'', 3), (''NL80211_NUM_ACS'', 4)]"

definition enum_nl80211_acl_policy :: ctype where
  "enum_nl80211_acl_policy = Enum False [
    (''NL80211_ACL_POLICY_ACCEPT_UNLESS_LISTED'', 0),
    (''NL80211_ACL_POLICY_DENY_UNLESS_LISTED'', 1)]"

definition enum_nl80211_ap_settings_flags :: ctype where
  "enum_nl80211_ap_settings_flags = Enum False [
    (''NL80211_AP_SETTINGS_EXTERNAL_AUTH_SUPPORT'', 1),
    (''NL80211_AP_SETTINGS_SA_QUERY_OFFLOAD_SUPPORT'', 2)]"

definition enum_nl80211_attr_coalesce_rule :: ctype where
  "enum_nl80211_attr_coalesce_rule = Enum False [
    (''__NL80211_COALESCE_RULE_INVALID'', 0), (''NL80211_ATTR_COALESCE_RULE_DELAY'', 1),
    (''NL80211_ATTR_COALESCE_RULE_CONDITION'', 2),
    (''NL80211_ATTR_COALESCE_RULE_PKT_PATTERN'', 3), (''NUM_NL80211_ATTR_COALESCE_RULE'', 4),
    (''NL80211_ATTR_COALESCE_RULE_MAX'', 3)]"

definition enum_nl80211_attr_cqm :: ctype where
  "enum_nl80211_attr_cqm = Enum False [
    (''__NL80211_ATTR_CQM_INVALID'', 0), (''NL80211_ATTR_CQM_RSSI_THOLD'', 1),
    (''NL80211_ATTR_CQM_RSSI_HYST'', 2), (''NL80211_ATTR_CQM_RSSI_THRESHOLD_EVENT'', 3),
    (''NL80211_ATTR_CQM_PKT_LOSS_EVENT'', 4), (''NL80211_ATTR_CQM_TXE_RATE'', 5),
    (''NL80211_ATTR_CQM_TXE_PKTS'', 6), (''NL80211_ATTR_CQM_TXE_INTVL'', 7),
    (''NL80211_ATTR_CQM_BEACON_LOSS_EVENT'', 8), (''NL80211_ATTR_CQM_RSSI_LEVEL'', 9),
    (''__NL80211_ATTR_CQM_AFTER_LAST'', 10), (''NL80211_ATTR_CQM_MAX'', 9)]"

definition enum_nl80211_attrs :: ctype where
  "enum_nl80211_attrs = Enum False [
    (''NL80211_ATTR_UNSPEC'', 0), (''NL80211_ATTR_WIPHY'', 1), (''NL80211_ATTR_WIPHY_NAME'', 2),
    (''NL80211_ATTR_IFINDEX'', 3), (''NL80211_ATTR_IFNAME'', 4), (''NL80211_ATTR_IFTYPE'', 5),
    (''NL80211_ATTR_MAC'', 6), (''NL80211_ATTR_KEY_DATA'', 7), (''NL80211_ATTR_KEY_IDX'', 8),
    (''NL80211_ATTR_KEY_CIPHER'', 9), (''NL80211_ATTR_KEY_SEQ'', 10),
    (''NL80211_ATTR_KEY_DEFAULT'', 11), (''NL80211_ATTR_BEACON_INTERVAL'', 12),
    (''NL80211_ATTR_DTIM_PERIOD'', 13), (''NL80211_ATTR_BEACON_HEAD'', 14),
    (''NL80211_ATTR_BEACON_TAIL'', 15), (''NL80211_ATTR_STA_AID'', 16),
    (''NL80211_ATTR_STA_FLAGS'', 17), (''NL80211_ATTR_STA_LISTEN_INTERVAL'', 18),
    (''NL80211_ATTR_STA_SUPPORTED_RATES'', 19), (''NL80211_ATTR_STA_VLAN'', 20),
    (''NL80211_ATTR_STA_INFO'', 21), (''NL80211_ATTR_WIPHY_BANDS'', 22),
    (''NL80211_ATTR_MNTR_FLAGS'', 23), (''NL80211_ATTR_MESH_ID'', 24),
    (''NL80211_ATTR_STA_PLINK_ACTION'', 25), (''NL80211_ATTR_MPATH_NEXT_HOP'', 26),
    (''NL80211_ATTR_MPATH_INFO'', 27), (''NL80211_ATTR_BSS_CTS_PROT'', 28),
    (''NL80211_ATTR_BSS_SHORT_PREAMBLE'', 29), (''NL80211_ATTR_BSS_SHORT_SLOT_TIME'', 30),
    (''NL80211_ATTR_HT_CAPABILITY'', 31), (''NL80211_ATTR_SUPPORTED_IFTYPES'', 32),
    (''NL80211_ATTR_REG_ALPHA2'', 33), (''NL80211_ATTR_REG_RULES'', 34),
    (''NL80211_ATTR_MESH_CONFIG'', 35), (''NL80211_ATTR_BSS_BASIC_RATES'', 36),
    (''NL80211_ATTR_WIPHY_TXQ_PARAMS'', 37), (''NL80211_ATTR_WIPHY_FREQ'', 38),
    (''NL80211_ATTR_WIPHY_CHANNEL_TYPE'', 39), (''NL80211_ATTR_KEY_DEFAULT_MGMT'', 40),
    (''NL80211_ATTR_MGMT_SUBTYPE'', 41), (''NL80211_ATTR_IE'', 42),
    (''NL80211_ATTR_MAX_NUM_SCAN_SSIDS'', 43), (''NL80211_ATTR_SCAN_FREQUENCIES'', 44),
    (''NL80211_ATTR_SCAN_SSIDS'', 45), (''NL80211_ATTR_GENERATION'', 46),
    (''NL80211_ATTR_BSS'', 47), (''NL80211_ATTR_REG_INITIATOR'', 48),
    (''NL80211_ATTR_REG_TYPE'', 49), (''NL80211_ATTR_SUPPORTED_COMMANDS'', 50),
    (''NL80211_ATTR_FRAME'', 51), (''NL80211_ATTR_SSID'', 52), (''NL80211_ATTR_AUTH_TYPE'', 53),
    (''NL80211_ATTR_REASON_CODE'', 54), (''NL80211_ATTR_KEY_TYPE'', 55),
    (''NL80211_ATTR_MAX_SCAN_IE_LEN'', 56), (''NL80211_ATTR_CIPHER_SUITES'', 57),
    (''NL80211_ATTR_FREQ_BEFORE'', 58), (''NL80211_ATTR_FREQ_AFTER'', 59),
    (''NL80211_ATTR_FREQ_FIXED'', 60), (''NL80211_ATTR_WIPHY_RETRY_SHORT'', 61),
    (''NL80211_ATTR_WIPHY_RETRY_LONG'', 62), (''NL80211_ATTR_WIPHY_FRAG_THRESHOLD'', 63),
    (''NL80211_ATTR_WIPHY_RTS_THRESHOLD'', 64), (''NL80211_ATTR_TIMED_OUT'', 65),
    (''NL80211_ATTR_USE_MFP'', 66), (''NL80211_ATTR_STA_FLAGS2'', 67),
    (''NL80211_ATTR_CONTROL_PORT'', 68), (''NL80211_ATTR_TESTDATA'', 69),
    (''NL80211_ATTR_PRIVACY'', 70), (''NL80211_ATTR_DISCONNECTED_BY_AP'', 71),
    (''NL80211_ATTR_STATUS_CODE'', 72), (''NL80211_ATTR_CIPHER_SUITES_PAIRWISE'', 73),
    (''NL80211_ATTR_CIPHER_SUITE_GROUP'', 74), (''NL80211_ATTR_WPA_VERSIONS'', 75),
    (''NL80211_ATTR_AKM_SUITES'', 76), (''NL80211_ATTR_REQ_IE'', 77),
    (''NL80211_ATTR_RESP_IE'', 78), (''NL80211_ATTR_PREV_BSSID'', 79), (''NL80211_ATTR_KEY'', 80),
    (''NL80211_ATTR_KEYS'', 81), (''NL80211_ATTR_PID'', 82), (''NL80211_ATTR_4ADDR'', 83),
    (''NL80211_ATTR_SURVEY_INFO'', 84), (''NL80211_ATTR_PMKID'', 85),
    (''NL80211_ATTR_MAX_NUM_PMKIDS'', 86), (''NL80211_ATTR_DURATION'', 87),
    (''NL80211_ATTR_COOKIE'', 88), (''NL80211_ATTR_WIPHY_COVERAGE_CLASS'', 89),
    (''NL80211_ATTR_TX_RATES'', 90), (''NL80211_ATTR_FRAME_MATCH'', 91),
    (''NL80211_ATTR_ACK'', 92), (''NL80211_ATTR_PS_STATE'', 93), (''NL80211_ATTR_CQM'', 94),
    (''NL80211_ATTR_LOCAL_STATE_CHANGE'', 95), (''NL80211_ATTR_AP_ISOLATE'', 96),
    (''NL80211_ATTR_WIPHY_TX_POWER_SETTING'', 97), (''NL80211_ATTR_WIPHY_TX_POWER_LEVEL'', 98),
    (''NL80211_ATTR_TX_FRAME_TYPES'', 99), (''NL80211_ATTR_RX_FRAME_TYPES'', 100),
    (''NL80211_ATTR_FRAME_TYPE'', 101), (''NL80211_ATTR_CONTROL_PORT_ETHERTYPE'', 102),
    (''NL80211_ATTR_CONTROL_PORT_NO_ENCRYPT'', 103), (''NL80211_ATTR_SUPPORT_IBSS_RSN'', 104),
    (''NL80211_ATTR_WIPHY_ANTENNA_TX'', 105), (''NL80211_ATTR_WIPHY_ANTENNA_RX'', 106),
    (''NL80211_ATTR_MCAST_RATE'', 107), (''NL80211_ATTR_OFFCHANNEL_TX_OK'', 108),
    (''NL80211_ATTR_BSS_HT_OPMODE'', 109), (''NL80211_ATTR_KEY_DEFAULT_TYPES'', 110),
    (''NL80211_ATTR_MAX_REMAIN_ON_CHANNEL_DURATION'', 111), (''NL80211_ATTR_MESH_SETUP'', 112),
    (''NL80211_ATTR_WIPHY_ANTENNA_AVAIL_TX'', 113),
    (''NL80211_ATTR_WIPHY_ANTENNA_AVAIL_RX'', 114), (''NL80211_ATTR_SUPPORT_MESH_AUTH'', 115),
    (''NL80211_ATTR_STA_PLINK_STATE'', 116), (''NL80211_ATTR_WOWLAN_TRIGGERS'', 117),
    (''NL80211_ATTR_WOWLAN_TRIGGERS_SUPPORTED'', 118),
    (''NL80211_ATTR_SCHED_SCAN_INTERVAL'', 119), (''NL80211_ATTR_INTERFACE_COMBINATIONS'', 120),
    (''NL80211_ATTR_SOFTWARE_IFTYPES'', 121), (''NL80211_ATTR_REKEY_DATA'', 122),
    (''NL80211_ATTR_MAX_NUM_SCHED_SCAN_SSIDS'', 123),
    (''NL80211_ATTR_MAX_SCHED_SCAN_IE_LEN'', 124), (''NL80211_ATTR_SCAN_SUPP_RATES'', 125),
    (''NL80211_ATTR_HIDDEN_SSID'', 126), (''NL80211_ATTR_IE_PROBE_RESP'', 127),
    (''NL80211_ATTR_IE_ASSOC_RESP'', 128), (''NL80211_ATTR_STA_WME'', 129),
    (''NL80211_ATTR_SUPPORT_AP_UAPSD'', 130), (''NL80211_ATTR_ROAM_SUPPORT'', 131),
    (''NL80211_ATTR_SCHED_SCAN_MATCH'', 132), (''NL80211_ATTR_MAX_MATCH_SETS'', 133),
    (''NL80211_ATTR_PMKSA_CANDIDATE'', 134), (''NL80211_ATTR_TX_NO_CCK_RATE'', 135),
    (''NL80211_ATTR_TDLS_ACTION'', 136), (''NL80211_ATTR_TDLS_DIALOG_TOKEN'', 137),
    (''NL80211_ATTR_TDLS_OPERATION'', 138), (''NL80211_ATTR_TDLS_SUPPORT'', 139),
    (''NL80211_ATTR_TDLS_EXTERNAL_SETUP'', 140), (''NL80211_ATTR_DEVICE_AP_SME'', 141),
    (''NL80211_ATTR_DONT_WAIT_FOR_ACK'', 142), (''NL80211_ATTR_FEATURE_FLAGS'', 143),
    (''NL80211_ATTR_PROBE_RESP_OFFLOAD'', 144), (''NL80211_ATTR_PROBE_RESP'', 145),
    (''NL80211_ATTR_DFS_REGION'', 146), (''NL80211_ATTR_DISABLE_HT'', 147),
    (''NL80211_ATTR_HT_CAPABILITY_MASK'', 148), (''NL80211_ATTR_NOACK_MAP'', 149),
    (''NL80211_ATTR_INACTIVITY_TIMEOUT'', 150), (''NL80211_ATTR_RX_SIGNAL_DBM'', 151),
    (''NL80211_ATTR_BG_SCAN_PERIOD'', 152), (''NL80211_ATTR_WDEV'', 153),
    (''NL80211_ATTR_USER_REG_HINT_TYPE'', 154), (''NL80211_ATTR_CONN_FAILED_REASON'', 155),
    (''NL80211_ATTR_AUTH_DATA'', 156), (''NL80211_ATTR_VHT_CAPABILITY'', 157),
    (''NL80211_ATTR_SCAN_FLAGS'', 158), (''NL80211_ATTR_CHANNEL_WIDTH'', 159),
    (''NL80211_ATTR_CENTER_FREQ1'', 160), (''NL80211_ATTR_CENTER_FREQ2'', 161),
    (''NL80211_ATTR_P2P_CTWINDOW'', 162), (''NL80211_ATTR_P2P_OPPPS'', 163),
    (''NL80211_ATTR_LOCAL_MESH_POWER_MODE'', 164), (''NL80211_ATTR_ACL_POLICY'', 165),
    (''NL80211_ATTR_MAC_ADDRS'', 166), (''NL80211_ATTR_MAC_ACL_MAX'', 167),
    (''NL80211_ATTR_RADAR_EVENT'', 168), (''NL80211_ATTR_EXT_CAPA'', 169),
    (''NL80211_ATTR_EXT_CAPA_MASK'', 170), (''NL80211_ATTR_STA_CAPABILITY'', 171),
    (''NL80211_ATTR_STA_EXT_CAPABILITY'', 172), (''NL80211_ATTR_PROTOCOL_FEATURES'', 173),
    (''NL80211_ATTR_SPLIT_WIPHY_DUMP'', 174), (''NL80211_ATTR_DISABLE_VHT'', 175),
    (''NL80211_ATTR_VHT_CAPABILITY_MASK'', 176), (''NL80211_ATTR_MDID'', 177),
    (''NL80211_ATTR_IE_RIC'', 178), (''NL80211_ATTR_CRIT_PROT_ID'', 179),
    (''NL80211_ATTR_MAX_CRIT_PROT_DURATION'', 180), (''NL80211_ATTR_PEER_AID'', 181),
    (''NL80211_ATTR_COALESCE_RULE'', 182), (''NL80211_ATTR_CH_SWITCH_COUNT'', 183),
    (''NL80211_ATTR_CH_SWITCH_BLOCK_TX'', 184), (''NL80211_ATTR_CSA_IES'', 185),
    (''NL80211_ATTR_CNTDWN_OFFS_BEACON'', 186), (''NL80211_ATTR_CNTDWN_OFFS_PRESP'', 187),
    (''NL80211_ATTR_RXMGMT_FLAGS'', 188), (''NL80211_ATTR_STA_SUPPORTED_CHANNELS'', 189),
    (''NL80211_ATTR_STA_SUPPORTED_OPER_CLASSES'', 190), (''NL80211_ATTR_HANDLE_DFS'', 191),
    (''NL80211_ATTR_SUPPORT_5_MHZ'', 192), (''NL80211_ATTR_SUPPORT_10_MHZ'', 193),
    (''NL80211_ATTR_OPMODE_NOTIF'', 194), (''NL80211_ATTR_VENDOR_ID'', 195),
    (''NL80211_ATTR_VENDOR_SUBCMD'', 196), (''NL80211_ATTR_VENDOR_DATA'', 197),
    (''NL80211_ATTR_VENDOR_EVENTS'', 198), (''NL80211_ATTR_QOS_MAP'', 199),
    (''NL80211_ATTR_MAC_HINT'', 200), (''NL80211_ATTR_WIPHY_FREQ_HINT'', 201),
    (''NL80211_ATTR_MAX_AP_ASSOC_STA'', 202), (''NL80211_ATTR_TDLS_PEER_CAPABILITY'', 203),
    (''NL80211_ATTR_SOCKET_OWNER'', 204), (''NL80211_ATTR_CSA_C_OFFSETS_TX'', 205),
    (''NL80211_ATTR_MAX_CSA_COUNTERS'', 206), (''NL80211_ATTR_TDLS_INITIATOR'', 207),
    (''NL80211_ATTR_USE_RRM'', 208), (''NL80211_ATTR_WIPHY_DYN_ACK'', 209),
    (''NL80211_ATTR_TSID'', 210), (''NL80211_ATTR_USER_PRIO'', 211),
    (''NL80211_ATTR_ADMITTED_TIME'', 212), (''NL80211_ATTR_SMPS_MODE'', 213),
    (''NL80211_ATTR_OPER_CLASS'', 214), (''NL80211_ATTR_MAC_MASK'', 215),
    (''NL80211_ATTR_WIPHY_SELF_MANAGED_REG'', 216), (''NL80211_ATTR_EXT_FEATURES'', 217),
    (''NL80211_ATTR_SURVEY_RADIO_STATS'', 218), (''NL80211_ATTR_NETNS_FD'', 219),
    (''NL80211_ATTR_SCHED_SCAN_DELAY'', 220), (''NL80211_ATTR_REG_INDOOR'', 221),
    (''NL80211_ATTR_MAX_NUM_SCHED_SCAN_PLANS'', 222),
    (''NL80211_ATTR_MAX_SCAN_PLAN_INTERVAL'', 223),
    (''NL80211_ATTR_MAX_SCAN_PLAN_ITERATIONS'', 224), (''NL80211_ATTR_SCHED_SCAN_PLANS'', 225),
    (''NL80211_ATTR_PBSS'', 226), (''NL80211_ATTR_BSS_SELECT'', 227),
    (''NL80211_ATTR_STA_SUPPORT_P2P_PS'', 228), (''NL80211_ATTR_PAD'', 229),
    (''NL80211_ATTR_IFTYPE_EXT_CAPA'', 230), (''NL80211_ATTR_MU_MIMO_GROUP_DATA'', 231),
    (''NL80211_ATTR_MU_MIMO_FOLLOW_MAC_ADDR'', 232), (''NL80211_ATTR_SCAN_START_TIME_TSF'', 233),
    (''NL80211_ATTR_SCAN_START_TIME_TSF_BSSID'', 234),
    (''NL80211_ATTR_MEASUREMENT_DURATION'', 235),
    (''NL80211_ATTR_MEASUREMENT_DURATION_MANDATORY'', 236), (''NL80211_ATTR_MESH_PEER_AID'', 237),
    (''NL80211_ATTR_NAN_MASTER_PREF'', 238), (''NL80211_ATTR_BANDS'', 239),
    (''NL80211_ATTR_NAN_FUNC'', 240), (''NL80211_ATTR_NAN_MATCH'', 241),
    (''NL80211_ATTR_FILS_KEK'', 242), (''NL80211_ATTR_FILS_NONCES'', 243),
    (''NL80211_ATTR_MULTICAST_TO_UNICAST_ENABLED'', 244), (''NL80211_ATTR_BSSID'', 245),
    (''NL80211_ATTR_SCHED_SCAN_RELATIVE_RSSI'', 246),
    (''NL80211_ATTR_SCHED_SCAN_RSSI_ADJUST'', 247), (''NL80211_ATTR_TIMEOUT_REASON'', 248),
    (''NL80211_ATTR_FILS_ERP_USERNAME'', 249), (''NL80211_ATTR_FILS_ERP_REALM'', 250),
    (''NL80211_ATTR_FILS_ERP_NEXT_SEQ_NUM'', 251), (''NL80211_ATTR_FILS_ERP_RRK'', 252),
    (''NL80211_ATTR_FILS_CACHE_ID'', 253), (''NL80211_ATTR_PMK'', 254),
    (''NL80211_ATTR_SCHED_SCAN_MULTI'', 255), (''NL80211_ATTR_SCHED_SCAN_MAX_REQS'', 256),
    (''NL80211_ATTR_WANT_1X_4WAY_HS'', 257), (''NL80211_ATTR_PMKR0_NAME'', 258),
    (''NL80211_ATTR_PORT_AUTHORIZED'', 259), (''NL80211_ATTR_EXTERNAL_AUTH_ACTION'', 260),
    (''NL80211_ATTR_EXTERNAL_AUTH_SUPPORT'', 261), (''NL80211_ATTR_NSS'', 262),
    (''NL80211_ATTR_ACK_SIGNAL'', 263), (''NL80211_ATTR_CONTROL_PORT_OVER_NL80211'', 264),
    (''NL80211_ATTR_TXQ_STATS'', 265), (''NL80211_ATTR_TXQ_LIMIT'', 266),
    (''NL80211_ATTR_TXQ_MEMORY_LIMIT'', 267), (''NL80211_ATTR_TXQ_QUANTUM'', 268),
    (''NL80211_ATTR_HE_CAPABILITY'', 269), (''NL80211_ATTR_FTM_RESPONDER'', 270),
    (''NL80211_ATTR_FTM_RESPONDER_STATS'', 271), (''NL80211_ATTR_TIMEOUT'', 272),
    (''NL80211_ATTR_PEER_MEASUREMENTS'', 273), (''NL80211_ATTR_AIRTIME_WEIGHT'', 274),
    (''NL80211_ATTR_STA_TX_POWER_SETTING'', 275), (''NL80211_ATTR_STA_TX_POWER'', 276),
    (''NL80211_ATTR_SAE_PASSWORD'', 277), (''NL80211_ATTR_TWT_RESPONDER'', 278),
    (''NL80211_ATTR_HE_OBSS_PD'', 279), (''NL80211_ATTR_WIPHY_EDMG_CHANNELS'', 280),
    (''NL80211_ATTR_WIPHY_EDMG_BW_CONFIG'', 281), (''NL80211_ATTR_VLAN_ID'', 282),
    (''NL80211_ATTR_HE_BSS_COLOR'', 283), (''NL80211_ATTR_IFTYPE_AKM_SUITES'', 284),
    (''NL80211_ATTR_TID_CONFIG'', 285), (''NL80211_ATTR_CONTROL_PORT_NO_PREAUTH'', 286),
    (''NL80211_ATTR_PMK_LIFETIME'', 287), (''NL80211_ATTR_PMK_REAUTH_THRESHOLD'', 288),
    (''NL80211_ATTR_RECEIVE_MULTICAST'', 289), (''NL80211_ATTR_WIPHY_FREQ_OFFSET'', 290),
    (''NL80211_ATTR_CENTER_FREQ1_OFFSET'', 291), (''NL80211_ATTR_SCAN_FREQ_KHZ'', 292),
    (''NL80211_ATTR_HE_6GHZ_CAPABILITY'', 293), (''NL80211_ATTR_FILS_DISCOVERY'', 294),
    (''NL80211_ATTR_UNSOL_BCAST_PROBE_RESP'', 295), (''NL80211_ATTR_S1G_CAPABILITY'', 296),
    (''NL80211_ATTR_S1G_CAPABILITY_MASK'', 297), (''NL80211_ATTR_SAE_PWE'', 298),
    (''NL80211_ATTR_RECONNECT_REQUESTED'', 299), (''NL80211_ATTR_SAR_SPEC'', 300),
    (''NL80211_ATTR_DISABLE_HE'', 301), (''NL80211_ATTR_OBSS_COLOR_BITMAP'', 302),
    (''NL80211_ATTR_COLOR_CHANGE_COUNT'', 303), (''NL80211_ATTR_COLOR_CHANGE_COLOR'', 304),
    (''NL80211_ATTR_COLOR_CHANGE_ELEMS'', 305), (''NL80211_ATTR_MBSSID_CONFIG'', 306),
    (''NL80211_ATTR_MBSSID_ELEMS'', 307), (''NL80211_ATTR_RADAR_BACKGROUND'', 308),
    (''NL80211_ATTR_AP_SETTINGS_FLAGS'', 309), (''NL80211_ATTR_EHT_CAPABILITY'', 310),
    (''NL80211_ATTR_DISABLE_EHT'', 311), (''NL80211_ATTR_MLO_LINKS'', 312),
    (''NL80211_ATTR_MLO_LINK_ID'', 313), (''NL80211_ATTR_MLD_ADDR'', 314),
    (''NL80211_ATTR_MLO_SUPPORT'', 315), (''NL80211_ATTR_MAX_NUM_AKM_SUITES'', 316),
    (''NL80211_ATTR_EML_CAPABILITY'', 317), (''NL80211_ATTR_MLD_CAPA_AND_OPS'', 318),
    (''NL80211_ATTR_TX_HW_TIMESTAMP'', 319), (''NL80211_ATTR_RX_HW_TIMESTAMP'', 320),
    (''NL80211_ATTR_TD_BITMAP'', 321), (''NL80211_ATTR_PUNCT_BITMAP'', 322),
    (''NL80211_ATTR_MAX_HW_TIMESTAMP_PEERS'', 323), (''NL80211_ATTR_HW_TIMESTAMP_ENABLED'', 324),
    (''NL80211_ATTR_EMA_RNR_ELEMS'', 325), (''NL80211_ATTR_MLO_LINK_DISABLED'', 326),
    (''NL80211_ATTR_BSS_DUMP_INCLUDE_USE_DATA'', 327), (''NL80211_ATTR_MLO_TTLM_DLINK'', 328),
    (''NL80211_ATTR_MLO_TTLM_ULINK'', 329), (''NL80211_ATTR_ASSOC_SPP_AMSDU'', 330),
    (''NL80211_ATTR_WIPHY_RADIOS'', 331), (''NL80211_ATTR_WIPHY_INTERFACE_COMBINATIONS'', 332),
    (''NL80211_ATTR_VIF_RADIO_MASK'', 333), (''NL80211_ATTR_SUPPORTED_SELECTORS'', 334),
    (''NL80211_ATTR_MLO_RECONF_REM_LINKS'', 335), (''NL80211_ATTR_EPCS'', 336),
    (''NL80211_ATTR_ASSOC_MLD_EXT_CAPA_OPS'', 337), (''NL80211_ATTR_WIPHY_RADIO_INDEX'', 338),
    (''NL80211_ATTR_S1G_LONG_BEACON_PERIOD'', 339), (''NL80211_ATTR_S1G_SHORT_BEACON'', 340),
    (''__NL80211_ATTR_AFTER_LAST'', 341), (''NUM_NL80211_ATTR'', 341), (''NL80211_ATTR_MAX'', 340)]"

definition enum_nl80211_auth_type :: ctype where
  "enum_nl80211_auth_type = Enum False [
    (''NL80211_AUTHTYPE_OPEN_SYSTEM'', 0), (''NL80211_AUTHTYPE_SHARED_KEY'', 1),
    (''NL80211_AUTHTYPE_FT'', 2), (''NL80211_AUTHTYPE_NETWORK_EAP'', 3),
    (''NL80211_AUTHTYPE_SAE'', 4), (''NL80211_AUTHTYPE_FILS_SK'', 5),
    (''NL80211_AUTHTYPE_FILS_SK_PFS'', 6), (''NL80211_AUTHTYPE_FILS_PK'', 7),
    (''__NL80211_AUTHTYPE_NUM'', 8), (''NL80211_AUTHTYPE_MAX'', 7),
    (''NL80211_AUTHTYPE_AUTOMATIC'', 8)]"

definition enum_nl80211_band :: ctype where
  "enum_nl80211_band = Enum False [
    (''NL80211_BAND_2GHZ'', 0), (''NL80211_BAND_5GHZ'', 1), (''NL80211_BAND_60GHZ'', 2),
    (''NL80211_BAND_6GHZ'', 3), (''NL80211_BAND_S1GHZ'', 4), (''NL80211_BAND_LC'', 5),
    (''NUM_NL80211_BANDS'', 6)]"

definition enum_nl80211_band_attr :: ctype where
  "enum_nl80211_band_attr = Enum False [
    (''__NL80211_BAND_ATTR_INVALID'', 0), (''NL80211_BAND_ATTR_FREQS'', 1),
    (''NL80211_BAND_ATTR_RATES'', 2), (''NL80211_BAND_ATTR_HT_MCS_SET'', 3),
    (''NL80211_BAND_ATTR_HT_CAPA'', 4), (''NL80211_BAND_ATTR_HT_AMPDU_FACTOR'', 5),
    (''NL80211_BAND_ATTR_HT_AMPDU_DENSITY'', 6), (''NL80211_BAND_ATTR_VHT_MCS_SET'', 7),
    (''NL80211_BAND_ATTR_VHT_CAPA'', 8), (''NL80211_BAND_ATTR_IFTYPE_DATA'', 9),
    (''NL80211_BAND_ATTR_EDMG_CHANNELS'', 10), (''NL80211_BAND_ATTR_EDMG_BW_CONFIG'', 11),
    (''NL80211_BAND_ATTR_S1G_MCS_NSS_SET'', 12), (''NL80211_BAND_ATTR_S1G_CAPA'', 13),
    (''__NL80211_BAND_ATTR_AFTER_LAST'', 14), (''NL80211_BAND_ATTR_MAX'', 13)]"

definition enum_nl80211_band_iftype_attr :: ctype where
  "enum_nl80211_band_iftype_attr = Enum False [
    (''__NL80211_BAND_IFTYPE_ATTR_INVALID'', 0), (''NL80211_BAND_IFTYPE_ATTR_IFTYPES'', 1),
    (''NL80211_BAND_IFTYPE_ATTR_HE_CAP_MAC'', 2), (''NL80211_BAND_IFTYPE_ATTR_HE_CAP_PHY'', 3),
    (''NL80211_BAND_IFTYPE_ATTR_HE_CAP_MCS_SET'', 4),
    (''NL80211_BAND_IFTYPE_ATTR_HE_CAP_PPE'', 5), (''NL80211_BAND_IFTYPE_ATTR_HE_6GHZ_CAPA'', 6),
    (''NL80211_BAND_IFTYPE_ATTR_VENDOR_ELEMS'', 7), (''NL80211_BAND_IFTYPE_ATTR_EHT_CAP_MAC'', 8),
    (''NL80211_BAND_IFTYPE_ATTR_EHT_CAP_PHY'', 9),
    (''NL80211_BAND_IFTYPE_ATTR_EHT_CAP_MCS_SET'', 10),
    (''NL80211_BAND_IFTYPE_ATTR_EHT_CAP_PPE'', 11),
    (''__NL80211_BAND_IFTYPE_ATTR_AFTER_LAST'', 12), (''NL80211_BAND_IFTYPE_ATTR_MAX'', 11)]"

definition enum_nl80211_bitrate_attr :: ctype where
  "enum_nl80211_bitrate_attr = Enum False [
    (''__NL80211_BITRATE_ATTR_INVALID'', 0), (''NL80211_BITRATE_ATTR_RATE'', 1),
    (''NL80211_BITRATE_ATTR_2GHZ_SHORTPREAMBLE'', 2), (''__NL80211_BITRATE_ATTR_AFTER_LAST'', 3),
    (''NL80211_BITRATE_ATTR_MAX'', 2)]"

definition enum_nl80211_bss :: ctype where
  "enum_nl80211_bss = Enum False [
    (''__NL80211_BSS_INVALID'', 0), (''NL80211_BSS_BSSID'', 1), (''NL80211_BSS_FREQUENCY'', 2),
    (''NL80211_BSS_TSF'', 3), (''NL80211_BSS_BEACON_INTERVAL'', 4),
    (''NL80211_BSS_CAPABILITY'', 5), (''NL80211_BSS_INFORMATION_ELEMENTS'', 6),
    (''NL80211_BSS_SIGNAL_MBM'', 7), (''NL80211_BSS_SIGNAL_UNSPEC'', 8),
    (''NL80211_BSS_STATUS'', 9), (''NL80211_BSS_SEEN_MS_AGO'', 10),
    (''NL80211_BSS_BEACON_IES'', 11), (''NL80211_BSS_CHAN_WIDTH'', 12),
    (''NL80211_BSS_BEACON_TSF'', 13), (''NL80211_BSS_PRESP_DATA'', 14),
    (''NL80211_BSS_LAST_SEEN_BOOTTIME'', 15), (''NL80211_BSS_PAD'', 16),
    (''NL80211_BSS_PARENT_TSF'', 17), (''NL80211_BSS_PARENT_BSSID'', 18),
    (''NL80211_BSS_CHAIN_SIGNAL'', 19), (''NL80211_BSS_FREQUENCY_OFFSET'', 20),
    (''NL80211_BSS_MLO_LINK_ID'', 21), (''NL80211_BSS_MLD_ADDR'', 22),
    (''NL80211_BSS_USE_FOR'', 23), (''NL80211_BSS_CANNOT_USE_REASONS'', 24),
    (''__NL80211_BSS_AFTER_LAST'', 25), (''NL80211_BSS_MAX'', 24)]"

definition enum_nl80211_bss_cannot_use_reasons :: ctype where
  "enum_nl80211_bss_cannot_use_reasons = Enum False [
    (''NL80211_BSS_CANNOT_USE_NSTR_NONPRIMARY'', 1),
    (''NL80211_BSS_CANNOT_USE_6GHZ_PWR_MISMATCH'', 2)]"

definition enum_nl80211_bss_color_attributes :: ctype where
  "enum_nl80211_bss_color_attributes = Enum False [
    (''__NL80211_HE_BSS_COLOR_ATTR_INVALID'', 0), (''NL80211_HE_BSS_COLOR_ATTR_COLOR'', 1),
    (''NL80211_HE_BSS_COLOR_ATTR_DISABLED'', 2), (''NL80211_HE_BSS_COLOR_ATTR_PARTIAL'', 3),
    (''__NL80211_HE_BSS_COLOR_ATTR_LAST'', 4), (''NL80211_HE_BSS_COLOR_ATTR_MAX'', 3)]"

definition enum_nl80211_bss_select_attr :: ctype where
  "enum_nl80211_bss_select_attr = Enum False [
    (''__NL80211_BSS_SELECT_ATTR_INVALID'', 0), (''NL80211_BSS_SELECT_ATTR_RSSI'', 1),
    (''NL80211_BSS_SELECT_ATTR_BAND_PREF'', 2), (''NL80211_BSS_SELECT_ATTR_RSSI_ADJUST'', 3),
    (''__NL80211_BSS_SELECT_ATTR_AFTER_LAST'', 4), (''NL80211_BSS_SELECT_ATTR_MAX'', 3)]"

definition enum_nl80211_bss_status :: ctype where
  "enum_nl80211_bss_status = Enum False [
    (''NL80211_BSS_STATUS_AUTHENTICATED'', 0), (''NL80211_BSS_STATUS_ASSOCIATED'', 1),
    (''NL80211_BSS_STATUS_IBSS_JOINED'', 2)]"

definition enum_nl80211_bss_use_for :: ctype where
  "enum_nl80211_bss_use_for = Enum False [
    (''NL80211_BSS_USE_FOR_NORMAL'', 1), (''NL80211_BSS_USE_FOR_MLD_LINK'', 2)]"

definition enum_nl80211_chan_width :: ctype where
  "enum_nl80211_chan_width = Enum False [
    (''NL80211_CHAN_WIDTH_20_NOHT'', 0), (''NL80211_CHAN_WIDTH_20'', 1),
    (''NL80211_CHAN_WIDTH_40'', 2), (''NL80211_CHAN_WIDTH_80'', 3),
    (''NL80211_CHAN_WIDTH_80P80'', 4), (''NL80211_CHAN_WIDTH_160'', 5),
    (''NL80211_CHAN_WIDTH_5'', 6), (''NL80211_CHAN_WIDTH_10'', 7), (''NL80211_CHAN_WIDTH_1'', 8),
    (''NL80211_CHAN_WIDTH_2'', 9), (''NL80211_CHAN_WIDTH_4'', 10), (''NL80211_CHAN_WIDTH_8'', 11),
    (''NL80211_CHAN_WIDTH_16'', 12), (''NL80211_CHAN_WIDTH_320'', 13)]"

definition enum_nl80211_channel_type :: ctype where
  "enum_nl80211_channel_type = Enum False [
    (''NL80211_CHAN_NO_HT'', 0), (''NL80211_CHAN_HT20'', 1), (''NL80211_CHAN_HT40MINUS'', 2),
    (''NL80211_CHAN_HT40PLUS'', 3)]"

definition enum_nl80211_coalesce_condition :: ctype where
  "enum_nl80211_coalesce_condition = Enum False [
    (''NL80211_COALESCE_CONDITION_MATCH'', 0), (''NL80211_COALESCE_CONDITION_NO_MATCH'', 1)]"

definition enum_nl80211_commands :: ctype where
  "enum_nl80211_commands = Enum False [
    (''NL80211_CMD_UNSPEC'', 0), (''NL80211_CMD_GET_WIPHY'', 1), (''NL80211_CMD_SET_WIPHY'', 2),
    (''NL80211_CMD_NEW_WIPHY'', 3), (''NL80211_CMD_DEL_WIPHY'', 4),
    (''NL80211_CMD_GET_INTERFACE'', 5), (''NL80211_CMD_SET_INTERFACE'', 6),
    (''NL80211_CMD_NEW_INTERFACE'', 7), (''NL80211_CMD_DEL_INTERFACE'', 8),
    (''NL80211_CMD_GET_KEY'', 9), (''NL80211_CMD_SET_KEY'', 10), (''NL80211_CMD_NEW_KEY'', 11),
    (''NL80211_CMD_DEL_KEY'', 12), (''NL80211_CMD_GET_BEACON'', 13),
    (''NL80211_CMD_SET_BEACON'', 14), (''NL80211_CMD_START_AP'', 15),
    (''NL80211_CMD_NEW_BEACON'', 15), (''NL80211_CMD_STOP_AP'', 16),
    (''NL80211_CMD_DEL_BEACON'', 16), (''NL80211_CMD_GET_STATION'', 17),
    (''NL80211_CMD_SET_STATION'', 18), (''NL80211_CMD_NEW_STATION'', 19),
    (''NL80211_CMD_DEL_STATION'', 20), (''NL80211_CMD_GET_MPATH'', 21),
    (''NL80211_CMD_SET_MPATH'', 22), (''NL80211_CMD_NEW_MPATH'', 23),
    (''NL80211_CMD_DEL_MPATH'', 24), (''NL80211_CMD_SET_BSS'', 25), (''NL80211_CMD_SET_REG'', 26),
    (''NL80211_CMD_REQ_SET_REG'', 27), (''NL80211_CMD_GET_MESH_CONFIG'', 28),
    (''NL80211_CMD_SET_MESH_CONFIG'', 29), (''NL80211_CMD_SET_MGMT_EXTRA_IE'', 30),
    (''NL80211_CMD_GET_REG'', 31), (''NL80211_CMD_GET_SCAN'', 32),
    (''NL80211_CMD_TRIGGER_SCAN'', 33), (''NL80211_CMD_NEW_SCAN_RESULTS'', 34),
    (''NL80211_CMD_SCAN_ABORTED'', 35), (''NL80211_CMD_REG_CHANGE'', 36),
    (''NL80211_CMD_AUTHENTICATE'', 37), (''NL80211_CMD_ASSOCIATE'', 38),
    (''NL80211_CMD_DEAUTHENTICATE'', 39), (''NL80211_CMD_DISASSOCIATE'', 40),
    (''NL80211_CMD_MICHAEL_MIC_FAILURE'', 41), (''NL80211_CMD_REG_BEACON_HINT'', 42),
    (''NL80211_CMD_JOIN_IBSS'', 43), (''NL80211_CMD_LEAVE_IBSS'', 44),
    (''NL80211_CMD_TESTMODE'', 45), (''NL80211_CMD_CONNECT'', 46), (''NL80211_CMD_ROAM'', 47),
    (''NL80211_CMD_DISCONNECT'', 48), (''NL80211_CMD_SET_WIPHY_NETNS'', 49),
    (''NL80211_CMD_GET_SURVEY'', 50), (''NL80211_CMD_NEW_SURVEY_RESULTS'', 51),
    (''NL80211_CMD_SET_PMKSA'', 52), (''NL80211_CMD_DEL_PMKSA'', 53),
    (''NL80211_CMD_FLUSH_PMKSA'', 54), (''NL80211_CMD_REMAIN_ON_CHANNEL'', 55),
    (''NL80211_CMD_CANCEL_REMAIN_ON_CHANNEL'', 56), (''NL80211_CMD_SET_TX_BITRATE_MASK'', 57),
    (''NL80211_CMD_REGISTER_FRAME'', 58), (''NL80211_CMD_REGISTER_ACTION'', 58),
    (''NL80211_CMD_FRAME'', 59), (''NL80211_CMD_ACTION'', 59),
    (''NL80211_CMD_FRAME_TX_STATUS'', 60), (''NL80211_CMD_ACTION_TX_STATUS'', 60),
    (''NL80211_CMD_SET_POWER_SAVE'', 61), (''NL80211_CMD_GET_POWER_SAVE'', 62),
    (''NL80211_CMD_SET_CQM'', 63), (''NL80211_CMD_NOTIFY_CQM'', 64),
    (''NL80211_CMD_SET_CHANNEL'', 65), (''NL80211_CMD_SET_WDS_PEER'', 66),
    (''NL80211_CMD_FRAME_WAIT_CANCEL'', 67), (''NL80211_CMD_JOIN_MESH'', 68),
    (''NL80211_CMD_LEAVE_MESH'', 69), (''NL80211_CMD_UNPROT_DEAUTHENTICATE'', 70),
    (''NL80211_CMD_UNPROT_DISASSOCIATE'', 71), (''NL80211_CMD_NEW_PEER_CANDIDATE'', 72),
    (''NL80211_CMD_GET_WOWLAN'', 73), (''NL80211_CMD_SET_WOWLAN'', 74),
    (''NL80211_CMD_START_SCHED_SCAN'', 75), (''NL80211_CMD_STOP_SCHED_SCAN'', 76),
    (''NL80211_CMD_SCHED_SCAN_RESULTS'', 77), (''NL80211_CMD_SCHED_SCAN_STOPPED'', 78),
    (''NL80211_CMD_SET_REKEY_OFFLOAD'', 79), (''NL80211_CMD_PMKSA_CANDIDATE'', 80),
    (''NL80211_CMD_TDLS_OPER'', 81), (''NL80211_CMD_TDLS_MGMT'', 82),
    (''NL80211_CMD_UNEXPECTED_FRAME'', 83), (''NL80211_CMD_PROBE_CLIENT'', 84),
    (''NL80211_CMD_REGISTER_BEACONS'', 85), (''NL80211_CMD_UNEXPECTED_4ADDR_FRAME'', 86),
    (''NL80211_CMD_SET_NOACK_MAP'', 87), (''NL80211_CMD_CH_SWITCH_NOTIFY'', 88),
    (''NL80211_CMD_START_P2P_DEVICE'', 89), (''NL80211_CMD_STOP_P2P_DEVICE'', 90),
    (''NL80211_CMD_CONN_FAILED'', 91), (''NL80211_CMD_SET_MCAST_RATE'', 92),
    (''NL80211_CMD_SET_MAC_ACL'', 93), (''NL80211_CMD_RADAR_DETECT'', 94),
    (''NL80211_CMD_GET_PROTOCOL_FEATURES'', 95), (''NL80211_CMD_UPDATE_FT_IES'', 96),
    (''NL80211_CMD_FT_EVENT'', 97), (''NL80211_CMD_CRIT_PROTOCOL_START'', 98),
    (''NL80211_CMD_CRIT_PROTOCOL_STOP'', 99), (''NL80211_CMD_GET_COALESCE'', 100),
    (''NL80211_CMD_SET_COALESCE'', 101), (''NL80211_CMD_CHANNEL_SWITCH'', 102),
    (''NL80211_CMD_VENDOR'', 103), (''NL80211_CMD_SET_QOS_MAP'', 104),
    (''NL80211_CMD_ADD_TX_TS'', 105), (''NL80211_CMD_DEL_TX_TS'', 106),
    (''NL80211_CMD_GET_MPP'', 107), (''NL80211_CMD_JOIN_OCB'', 108),
    (''NL80211_CMD_LEAVE_OCB'', 109), (''NL80211_CMD_CH_SWITCH_STARTED_NOTIFY'', 110),
    (''NL80211_CMD_TDLS_CHANNEL_SWITCH'', 111), (''NL80211_CMD_TDLS_CANCEL_CHANNEL_SWITCH'', 112),
    (''NL80211_CMD_WIPHY_REG_CHANGE'', 113), (''NL80211_CMD_ABORT_SCAN'', 114),
    (''NL80211_CMD_START_NAN'', 115), (''NL80211_CMD_STOP_NAN'', 116),
    (''NL80211_CMD_ADD_NAN_FUNCTION'', 117), (''NL80211_CMD_DEL_NAN_FUNCTION'', 118),
    (''NL80211_CMD_CHANGE_NAN_CONFIG'', 119), (''NL80211_CMD_NAN_MATCH'', 120),
    (''NL80211_CMD_SET_MULTICAST_TO_UNICAST'', 121), (''NL80211_CMD_UPDATE_CONNECT_PARAMS'', 122),
    (''NL80211_CMD_SET_PMK'', 123), (''NL80211_CMD_DEL_PMK'', 124),
    (''NL80211_CMD_PORT_AUTHORIZED'', 125), (''NL80211_CMD_RELOAD_REGDB'', 126),
    (''NL80211_CMD_EXTERNAL_AUTH'', 127), (''NL80211_CMD_STA_OPMODE_CHANGED'', 128),
    (''NL80211_CMD_CONTROL_PORT_FRAME'', 129), (''NL80211_CMD_GET_FTM_RESPONDER_STATS'', 130),
    (''NL80211_CMD_PEER_MEASUREMENT_START'', 131), (''NL80211_CMD_PEER_MEASUREMENT_RESULT'', 132),
    (''NL80211_CMD_PEER_MEASUREMENT_COMPLETE'', 133), (''NL80211_CMD_NOTIFY_RADAR'', 134),
    (''NL80211_CMD_UPDATE_OWE_INFO'', 135), (''NL80211_CMD_PROBE_MESH_LINK'', 136),
    (''NL80211_CMD_SET_TID_CONFIG'', 137), (''NL80211_CMD_UNPROT_BEACON'', 138),
    (''NL80211_CMD_CONTROL_PORT_FRAME_TX_STATUS'', 139), (''NL80211_CMD_SET_SAR_SPECS'', 140),
    (''NL80211_CMD_OBSS_COLOR_COLLISION'', 141), (''NL80211_CMD_COLOR_CHANGE_REQUEST'', 142),
    (''NL80211_CMD_COLOR_CHANGE_STARTED'', 143), (''NL80211_CMD_COLOR_CHANGE_ABORTED'', 144),
    (''NL80211_CMD_COLOR_CHANGE_COMPLETED'', 145), (''NL80211_CMD_SET_FILS_AAD'', 146),
    (''NL80211_CMD_ASSOC_COMEBACK'', 147), (''NL80211_CMD_ADD_LINK'', 148),
    (''NL80211_CMD_REMOVE_LINK'', 149), (''NL80211_CMD_ADD_LINK_STA'', 150),
    (''NL80211_CMD_MODIFY_LINK_STA'', 151), (''NL80211_CMD_REMOVE_LINK_STA'', 152),
    (''NL80211_CMD_SET_HW_TIMESTAMP'', 153), (''NL80211_CMD_LINKS_REMOVED'', 154),
    (''NL80211_CMD_SET_TID_TO_LINK_MAPPING'', 155), (''NL80211_CMD_ASSOC_MLO_RECONF'', 156),
    (''NL80211_CMD_EPCS_CFG'', 157), (''__NL80211_CMD_AFTER_LAST'', 158),
    (''NL80211_CMD_MAX'', 157)]"

definition enum_nl80211_connect_failed_reason :: ctype where
  "enum_nl80211_connect_failed_reason = Enum False [
    (''NL80211_CONN_FAIL_MAX_CLIENTS'', 0), (''NL80211_CONN_FAIL_BLOCKED_CLIENT'', 1)]"

definition enum_nl80211_cqm_rssi_threshold_event :: ctype where
  "enum_nl80211_cqm_rssi_threshold_event = Enum False [
    (''NL80211_CQM_RSSI_THRESHOLD_EVENT_LOW'', 0), (''NL80211_CQM_RSSI_THRESHOLD_EVENT_HIGH'', 1),
    (''NL80211_CQM_RSSI_BEACON_LOSS_EVENT'', 2)]"

definition enum_nl80211_crit_proto_id :: ctype where
  "enum_nl80211_crit_proto_id = Enum False [
    (''NL80211_CRIT_PROTO_UNSPEC'', 0), (''NL80211_CRIT_PROTO_DHCP'', 1),
    (''NL80211_CRIT_PROTO_EAPOL'', 2), (''NL80211_CRIT_PROTO_APIPA'', 3),
    (''NUM_NL80211_CRIT_PROTO'', 4)]"

definition enum_nl80211_dfs_regions :: ctype where
  "enum_nl80211_dfs_regions = Enum False [
    (''NL80211_DFS_UNSET'', 0), (''NL80211_DFS_FCC'', 1), (''NL80211_DFS_ETSI'', 2),
    (''NL80211_DFS_JP'', 3)]"

definition enum_nl80211_dfs_state :: ctype where
  "enum_nl80211_dfs_state = Enum False [
    (''NL80211_DFS_USABLE'', 0), (''NL80211_DFS_UNAVAILABLE'', 1), (''NL80211_DFS_AVAILABLE'', 2)]"

definition enum_nl80211_eht_gi :: ctype where
  "enum_nl80211_eht_gi = Enum False [
    (''NL80211_RATE_INFO_EHT_GI_0_8'', 0), (''NL80211_RATE_INFO_EHT_GI_1_6'', 1),
    (''NL80211_RATE_INFO_EHT_GI_3_2'', 2)]"

definition enum_nl80211_eht_ru_alloc :: ctype where
  "enum_nl80211_eht_ru_alloc = Enum False [
    (''NL80211_RATE_INFO_EHT_RU_ALLOC_26'', 0), (''NL80211_RATE_INFO_EHT_RU_ALLOC_52'', 1),
    (''NL80211_RATE_INFO_EHT_RU_ALLOC_52P26'', 2), (''NL80211_RATE_INFO_EHT_RU_ALLOC_106'', 3),
    (''NL80211_RATE_INFO_EHT_RU_ALLOC_106P26'', 4), (''NL80211_RATE_INFO_EHT_RU_ALLOC_242'', 5),
    (''NL80211_RATE_INFO_EHT_RU_ALLOC_484'', 6), (''NL80211_RATE_INFO_EHT_RU_ALLOC_484P242'', 7),
    (''NL80211_RATE_INFO_EHT_RU_ALLOC_996'', 8), (''NL80211_RATE_INFO_EHT_RU_ALLOC_996P484'', 9),
    (''NL80211_RATE_INFO_EHT_RU_ALLOC_996P484P242'', 10),
    (''NL80211_RATE_INFO_EHT_RU_ALLOC_2x996'', 11),
    (''NL80211_RATE_INFO_EHT_RU_ALLOC_2x996P484'', 12),
    (''NL80211_RATE_INFO_EHT_RU_ALLOC_3x996'', 13),
    (''NL80211_RATE_INFO_EHT_RU_ALLOC_3x996P484'', 14),
    (''NL80211_RATE_INFO_EHT_RU_ALLOC_4x996'', 15)]"

definition enum_nl80211_ext_feature_index :: ctype where
  "enum_nl80211_ext_feature_index = Enum False [
    (''NL80211_EXT_FEATURE_VHT_IBSS'', 0), (''NL80211_EXT_FEATURE_RRM'', 1),
    (''NL80211_EXT_FEATURE_MU_MIMO_AIR_SNIFFER'', 2),
    (''NL80211_EXT_FEATURE_SCAN_START_TIME'', 3), (''NL80211_EXT_FEATURE_BSS_PARENT_TSF'', 4),
    (''NL80211_EXT_FEATURE_SET_SCAN_DWELL'', 5), (''NL80211_EXT_FEATURE_BEACON_RATE_LEGACY'', 6),
    (''NL80211_EXT_FEATURE_BEACON_RATE_HT'', 7), (''NL80211_EXT_FEATURE_BEACON_RATE_VHT'', 8),
    (''NL80211_EXT_FEATURE_FILS_STA'', 9), (''NL80211_EXT_FEATURE_MGMT_TX_RANDOM_TA'', 10),
    (''NL80211_EXT_FEATURE_MGMT_TX_RANDOM_TA_CONNECTED'', 11),
    (''NL80211_EXT_FEATURE_SCHED_SCAN_RELATIVE_RSSI'', 12),
    (''NL80211_EXT_FEATURE_CQM_RSSI_LIST'', 13), (''NL80211_EXT_FEATURE_FILS_SK_OFFLOAD'', 14),
    (''NL80211_EXT_FEATURE_4WAY_HANDSHAKE_STA_PSK'', 15),
    (''NL80211_EXT_FEATURE_4WAY_HANDSHAKE_STA_1X'', 16),
    (''NL80211_EXT_FEATURE_FILS_MAX_CHANNEL_TIME'', 17),
    (''NL80211_EXT_FEATURE_ACCEPT_BCAST_PROBE_RESP'', 18),
    (''NL80211_EXT_FEATURE_OCE_PROBE_REQ_HIGH_TX_RATE'', 19),
    (''NL80211_EXT_FEATURE_OCE_PROBE_REQ_DEFERRAL_SUPPRESSION'', 20),
    (''NL80211_EXT_FEATURE_MFP_OPTIONAL'', 21), (''NL80211_EXT_FEATURE_LOW_SPAN_SCAN'', 22),
    (''NL80211_EXT_FEATURE_LOW_POWER_SCAN'', 23),
    (''NL80211_EXT_FEATURE_HIGH_ACCURACY_SCAN'', 24), (''NL80211_EXT_FEATURE_DFS_OFFLOAD'', 25),
    (''NL80211_EXT_FEATURE_CONTROL_PORT_OVER_NL80211'', 26),
    (''NL80211_EXT_FEATURE_ACK_SIGNAL_SUPPORT'', 27),
    (''NL80211_EXT_FEATURE_DATA_ACK_SIGNAL_SUPPORT'', 27), (''NL80211_EXT_FEATURE_TXQS'', 28),
    (''NL80211_EXT_FEATURE_SCAN_RANDOM_SN'', 29),
    (''NL80211_EXT_FEATURE_SCAN_MIN_PREQ_CONTENT'', 30),
    (''NL80211_EXT_FEATURE_CAN_REPLACE_PTK0'', 31),
    (''NL80211_EXT_FEATURE_ENABLE_FTM_RESPONDER'', 32),
    (''NL80211_EXT_FEATURE_AIRTIME_FAIRNESS'', 33),
    (''NL80211_EXT_FEATURE_AP_PMKSA_CACHING'', 34),
    (''NL80211_EXT_FEATURE_SCHED_SCAN_BAND_SPECIFIC_RSSI_THOLD'', 35),
    (''NL80211_EXT_FEATURE_EXT_KEY_ID'', 36), (''NL80211_EXT_FEATURE_STA_TX_PWR'', 37),
    (''NL80211_EXT_FEATURE_SAE_OFFLOAD'', 38), (''NL80211_EXT_FEATURE_VLAN_OFFLOAD'', 39),
    (''NL80211_EXT_FEATURE_AQL'', 40), (''NL80211_EXT_FEATURE_BEACON_PROTECTION'', 41),
    (''NL80211_EXT_FEATURE_CONTROL_PORT_NO_PREAUTH'', 42),
    (''NL80211_EXT_FEATURE_PROTECTED_TWT'', 43), (''NL80211_EXT_FEATURE_DEL_IBSS_STA'', 44),
    (''NL80211_EXT_FEATURE_MULTICAST_REGISTRATIONS'', 45),
    (''NL80211_EXT_FEATURE_BEACON_PROTECTION_CLIENT'', 46),
    (''NL80211_EXT_FEATURE_SCAN_FREQ_KHZ'', 47),
    (''NL80211_EXT_FEATURE_CONTROL_PORT_OVER_NL80211_TX_STATUS'', 48),
    (''NL80211_EXT_FEATURE_OPERATING_CHANNEL_VALIDATION'', 49),
    (''NL80211_EXT_FEATURE_4WAY_HANDSHAKE_AP_PSK'', 50),
    (''NL80211_EXT_FEATURE_SAE_OFFLOAD_AP'', 51), (''NL80211_EXT_FEATURE_FILS_DISCOVERY'', 52),
    (''NL80211_EXT_FEATURE_UNSOL_BCAST_PROBE_RESP'', 53),
    (''NL80211_EXT_FEATURE_BEACON_RATE_HE'', 54), (''NL80211_EXT_FEATURE_SECURE_LTF'', 55),
    (''NL80211_EXT_FEATURE_SECURE_RTT'', 56),
    (''NL80211_EXT_FEATURE_PROT_RANGE_NEGO_AND_MEASURE'', 57),
    (''NL80211_EXT_FEATURE_BSS_COLOR'', 58), (''NL80211_EXT_FEATURE_FILS_CRYPTO_OFFLOAD'', 59),
    (''NL80211_EXT_FEATURE_RADAR_BACKGROUND'', 60),
    (''NL80211_EXT_FEATURE_POWERED_ADDR_CHANGE'', 61), (''NL80211_EXT_FEATURE_PUNCT'', 62),
    (''NL80211_EXT_FEATURE_SECURE_NAN'', 63),
    (''NL80211_EXT_FEATURE_AUTH_AND_DEAUTH_RANDOM_TA'', 64),
    (''NL80211_EXT_FEATURE_OWE_OFFLOAD'', 65), (''NL80211_EXT_FEATURE_OWE_OFFLOAD_AP'', 66),
    (''NL80211_EXT_FEATURE_DFS_CONCURRENT'', 67), (''NL80211_EXT_FEATURE_SPP_AMSDU_SUPPORT'', 68),
    (''NUM_NL80211_EXT_FEATURES'', 69), (''MAX_NL80211_EXT_FEATURES'', 68)]"

definition enum_nl80211_external_auth_action :: ctype where
  "enum_nl80211_external_auth_action = Enum False [
    (''NL80211_EXTERNAL_AUTH_START'', 0), (''NL80211_EXTERNAL_AUTH_ABORT'', 1)]"

definition enum_nl80211_feature_flags :: ctype where
  "enum_nl80211_feature_flags = Enum False [
    (''NL80211_FEATURE_SK_TX_STATUS'', 1), (''NL80211_FEATURE_HT_IBSS'', 2),
    (''NL80211_FEATURE_INACTIVITY_TIMER'', 4), (''NL80211_FEATURE_CELL_BASE_REG_HINTS'', 8),
    (''NL80211_FEATURE_P2P_DEVICE_NEEDS_CHANNEL'', 16), (''NL80211_FEATURE_SAE'', 32),
    (''NL80211_FEATURE_LOW_PRIORITY_SCAN'', 64), (''NL80211_FEATURE_SCAN_FLUSH'', 128),
    (''NL80211_FEATURE_AP_SCAN'', 256), (''NL80211_FEATURE_VIF_TXPOWER'', 512),
    (''NL80211_FEATURE_NEED_OBSS_SCAN'', 1024), (''NL80211_FEATURE_P2P_GO_CTWIN'', 2048),
    (''NL80211_FEATURE_P2P_GO_OPPPS'', 4096), (''NL80211_FEATURE_ADVERTISE_CHAN_LIMITS'', 16384),
    (''NL80211_FEATURE_FULL_AP_CLIENT_STATE'', 32768), (''NL80211_FEATURE_USERSPACE_MPM'', 65536),
    (''NL80211_FEATURE_ACTIVE_MONITOR'', 131072),
    (''NL80211_FEATURE_AP_MODE_CHAN_WIDTH_CHANGE'', 262144),
    (''NL80211_FEATURE_DS_PARAM_SET_IE_IN_PROBES'', 524288),
    (''NL80211_FEATURE_WFA_TPC_IE_IN_PROBES'', 1048576), (''NL80211_FEATURE_QUIET'', 2097152),
    (''NL80211_FEATURE_TX_POWER_INSERTION'', 4194304),
    (''NL80211_FEATURE_ACKTO_ESTIMATION'', 8388608), (''NL80211_FEATURE_STATIC_SMPS'', 16777216),
    (''NL80211_FEATURE_DYNAMIC_SMPS'', 33554432),
    (''NL80211_FEATURE_SUPPORTS_WMM_ADMISSION'', 67108864),
    (''NL80211_FEATURE_MAC_ON_CREATE'', 134217728),
    (''NL80211_FEATURE_TDLS_CHANNEL_SWITCH'', 268435456),
    (''NL80211_FEATURE_SCAN_RANDOM_MAC_ADDR'', 536870912),
    (''NL80211_FEATURE_SCHED_SCAN_RANDOM_MAC_ADDR'', 1073741824),
    (''NL80211_FEATURE_ND_RANDOM_MAC_ADDR'', 2147483648)]"

definition enum_nl80211_fils_discovery_attributes :: ctype where
  "enum_nl80211_fils_discovery_attributes = Enum False [
    (''__NL80211_FILS_DISCOVERY_ATTR_INVALID'', 0), (''NL80211_FILS_DISCOVERY_ATTR_INT_MIN'', 1),
    (''NL80211_FILS_DISCOVERY_ATTR_INT_MAX'', 2), (''NL80211_FILS_DISCOVERY_ATTR_TMPL'', 3),
    (''__NL80211_FILS_DISCOVERY_ATTR_LAST'', 4), (''NL80211_FILS_DISCOVERY_ATTR_MAX'', 3)]"

definition enum_nl80211_frequency_attr :: ctype where
  "enum_nl80211_frequency_attr = Enum False [
    (''__NL80211_FREQUENCY_ATTR_INVALID'', 0), (''NL80211_FREQUENCY_ATTR_FREQ'', 1),
    (''NL80211_FREQUENCY_ATTR_DISABLED'', 2), (''NL80211_FREQUENCY_ATTR_NO_IR'', 3),
    (''__NL80211_FREQUENCY_ATTR_NO_IBSS'', 4), (''NL80211_FREQUENCY_ATTR_RADAR'', 5),
    (''NL80211_FREQUENCY_ATTR_MAX_TX_POWER'', 6), (''NL80211_FREQUENCY_ATTR_DFS_STATE'', 7),
    (''NL80211_FREQUENCY_ATTR_DFS_TIME'', 8), (''NL80211_FREQUENCY_ATTR_NO_HT40_MINUS'', 9),
    (''NL80211_FREQUENCY_ATTR_NO_HT40_PLUS'', 10), (''NL80211_FREQUENCY_ATTR_NO_80MHZ'', 11),
    (''NL80211_FREQUENCY_ATTR_NO_160MHZ'', 12), (''NL80211_FREQUENCY_ATTR_DFS_CAC_TIME'', 13),
    (''NL80211_FREQUENCY_ATTR_INDOOR_ONLY'', 14), (''NL80211_FREQUENCY_ATTR_IR_CONCURRENT'', 15),
    (''NL80211_FREQUENCY_ATTR_NO_20MHZ'', 16), (''NL80211_FREQUENCY_ATTR_NO_10MHZ'', 17),
    (''NL80211_FREQUENCY_ATTR_WMM'', 18), (''NL80211_FREQUENCY_ATTR_NO_HE'', 19),
    (''NL80211_FREQUENCY_ATTR_OFFSET'', 20), (''NL80211_FREQUENCY_ATTR_1MHZ'', 21),
    (''NL80211_FREQUENCY_ATTR_2MHZ'', 22), (''NL80211_FREQUENCY_ATTR_4MHZ'', 23),
    (''NL80211_FREQUENCY_ATTR_8MHZ'', 24), (''NL80211_FREQUENCY_ATTR_16MHZ'', 25),
    (''NL80211_FREQUENCY_ATTR_NO_320MHZ'', 26), (''NL80211_FREQUENCY_ATTR_NO_EHT'', 27),
    (''NL80211_FREQUENCY_ATTR_PSD'', 28), (''NL80211_FREQUENCY_ATTR_DFS_CONCURRENT'', 29),
    (''NL80211_FREQUENCY_ATTR_NO_6GHZ_VLP_CLIENT'', 30),
    (''NL80211_FREQUENCY_ATTR_NO_6GHZ_AFC_CLIENT'', 31),
    (''NL80211_FREQUENCY_ATTR_CAN_MONITOR'', 32),
    (''NL80211_FREQUENCY_ATTR_ALLOW_6GHZ_VLP_AP'', 33),
    (''NL80211_FREQUENCY_ATTR_ALLOW_20MHZ_ACTIVITY'', 34),
    (''__NL80211_FREQUENCY_ATTR_AFTER_LAST'', 35), (''NL80211_FREQUENCY_ATTR_MAX'', 34)]"

definition enum_nl80211_ftm_responder_attributes :: ctype where
  "enum_nl80211_ftm_responder_attributes = Enum False [
    (''__NL80211_FTM_RESP_ATTR_INVALID'', 0), (''NL80211_FTM_RESP_ATTR_ENABLED'', 1),
    (''NL80211_FTM_RESP_ATTR_LCI'', 2), (''NL80211_FTM_RESP_ATTR_CIVICLOC'', 3),
    (''__NL80211_FTM_RESP_ATTR_LAST'', 4), (''NL80211_FTM_RESP_ATTR_MAX'', 3)]"

definition enum_nl80211_ftm_responder_stats :: ctype where
  "enum_nl80211_ftm_responder_stats = Enum False [
    (''__NL80211_FTM_STATS_INVALID'', 0), (''NL80211_FTM_STATS_SUCCESS_NUM'', 1),
    (''NL80211_FTM_STATS_PARTIAL_NUM'', 2), (''NL80211_FTM_STATS_FAILED_NUM'', 3),
    (''NL80211_FTM_STATS_ASAP_NUM'', 4), (''NL80211_FTM_STATS_NON_ASAP_NUM'', 5),
    (''NL80211_FTM_STATS_TOTAL_DURATION_MSEC'', 6),
    (''NL80211_FTM_STATS_UNKNOWN_TRIGGERS_NUM'', 7),
    (''NL80211_FTM_STATS_RESCHEDULE_REQUESTS_NUM'', 8),
    (''NL80211_FTM_STATS_OUT_OF_WINDOW_TRIGGERS_NUM'', 9), (''NL80211_FTM_STATS_PAD'', 10),
    (''__NL80211_FTM_STATS_AFTER_LAST'', 11), (''NL80211_FTM_STATS_MAX'', 10)]"

definition enum_nl80211_he_gi :: ctype where
  "enum_nl80211_he_gi = Enum False [
    (''NL80211_RATE_INFO_HE_GI_0_8'', 0), (''NL80211_RATE_INFO_HE_GI_1_6'', 1),
    (''NL80211_RATE_INFO_HE_GI_3_2'', 2)]"

definition enum_nl80211_he_ltf :: ctype where
  "enum_nl80211_he_ltf = Enum False [
    (''NL80211_RATE_INFO_HE_1XLTF'', 0), (''NL80211_RATE_INFO_HE_2XLTF'', 1),
    (''NL80211_RATE_INFO_HE_4XLTF'', 2)]"

definition enum_nl80211_he_ru_alloc :: ctype where
  "enum_nl80211_he_ru_alloc = Enum False [
    (''NL80211_RATE_INFO_HE_RU_ALLOC_26'', 0), (''NL80211_RATE_INFO_HE_RU_ALLOC_52'', 1),
    (''NL80211_RATE_INFO_HE_RU_ALLOC_106'', 2), (''NL80211_RATE_INFO_HE_RU_ALLOC_242'', 3),
    (''NL80211_RATE_INFO_HE_RU_ALLOC_484'', 4), (''NL80211_RATE_INFO_HE_RU_ALLOC_996'', 5),
    (''NL80211_RATE_INFO_HE_RU_ALLOC_2x996'', 6)]"

definition enum_nl80211_hidden_ssid :: ctype where
  "enum_nl80211_hidden_ssid = Enum False [
    (''NL80211_HIDDEN_SSID_NOT_IN_USE'', 0), (''NL80211_HIDDEN_SSID_ZERO_LEN'', 1),
    (''NL80211_HIDDEN_SSID_ZERO_CONTENTS'', 2)]"

definition enum_nl80211_if_combination_attrs :: ctype where
  "enum_nl80211_if_combination_attrs = Enum False [
    (''NL80211_IFACE_COMB_UNSPEC'', 0), (''NL80211_IFACE_COMB_LIMITS'', 1),
    (''NL80211_IFACE_COMB_MAXNUM'', 2), (''NL80211_IFACE_COMB_STA_AP_BI_MATCH'', 3),
    (''NL80211_IFACE_COMB_NUM_CHANNELS'', 4), (''NL80211_IFACE_COMB_RADAR_DETECT_WIDTHS'', 5),
    (''NL80211_IFACE_COMB_RADAR_DETECT_REGIONS'', 6), (''NL80211_IFACE_COMB_BI_MIN_GCD'', 7),
    (''NUM_NL80211_IFACE_COMB'', 8), (''MAX_NL80211_IFACE_COMB'', 7)]"

definition enum_nl80211_iface_limit_attrs :: ctype where
  "enum_nl80211_iface_limit_attrs = Enum False [
    (''NL80211_IFACE_LIMIT_UNSPEC'', 0), (''NL80211_IFACE_LIMIT_MAX'', 1),
    (''NL80211_IFACE_LIMIT_TYPES'', 2), (''NUM_NL80211_IFACE_LIMIT'', 3),
    (''MAX_NL80211_IFACE_LIMIT'', 2)]"

definition enum_nl80211_iftype :: ctype where
  "enum_nl80211_iftype = Enum False [
    (''NL80211_IFTYPE_UNSPECIFIED'', 0), (''NL80211_IFTYPE_ADHOC'', 1),
    (''NL80211_IFTYPE_STATION'', 2), (''NL80211_IFTYPE_AP'', 3), (''NL80211_IFTYPE_AP_VLAN'', 4),
    (''NL80211_IFTYPE_WDS'', 5), (''NL80211_IFTYPE_MONITOR'', 6),
    (''NL80211_IFTYPE_MESH_POINT'', 7), (''NL80211_IFTYPE_P2P_CLIENT'', 8),
    (''NL80211_IFTYPE_P2P_GO'', 9), (''NL80211_IFTYPE_P2P_DEVICE'', 10),
    (''NL80211_IFTYPE_OCB'', 11), (''NL80211_IFTYPE_NAN'', 12), (''NUM_NL80211_IFTYPES'', 13),
    (''NL80211_IFTYPE_MAX'', 12)]"

definition enum_nl80211_iftype_akm_attributes :: ctype where
  "enum_nl80211_iftype_akm_attributes = Enum False [
    (''__NL80211_IFTYPE_AKM_ATTR_INVALID'', 0), (''NL80211_IFTYPE_AKM_ATTR_IFTYPES'', 1),
    (''NL80211_IFTYPE_AKM_ATTR_SUITES'', 2), (''__NL80211_IFTYPE_AKM_ATTR_LAST'', 3),
    (''NL80211_IFTYPE_AKM_ATTR_MAX'', 2)]"

definition enum_nl80211_key_attributes :: ctype where
  "enum_nl80211_key_attributes = Enum False [
    (''__NL80211_KEY_INVALID'', 0), (''NL80211_KEY_DATA'', 1), (''NL80211_KEY_IDX'', 2),
    (''NL80211_KEY_CIPHER'', 3), (''NL80211_KEY_SEQ'', 4), (''NL80211_KEY_DEFAULT'', 5),
    (''NL80211_KEY_DEFAULT_MGMT'', 6), (''NL80211_KEY_TYPE'', 7),
    (''NL80211_KEY_DEFAULT_TYPES'', 8), (''NL80211_KEY_MODE'', 9),
    (''NL80211_KEY_DEFAULT_BEACON'', 10), (''__NL80211_KEY_AFTER_LAST'', 11),
    (''NL80211_KEY_MAX'', 10)]"

definition enum_nl80211_key_default_types :: ctype where
  "enum_nl80211_key_default_types = Enum False [
    (''__NL80211_KEY_DEFAULT_TYPE_INVALID'', 0), (''NL80211_KEY_DEFAULT_TYPE_UNICAST'', 1),
    (''NL80211_KEY_DEFAULT_TYPE_MULTICAST'', 2), (''NUM_NL80211_KEY_DEFAULT_TYPES'', 3)]"

definition enum_nl80211_key_mode :: ctype where
  "enum_nl80211_key_mode = Enum False [
    (''NL80211_KEY_RX_TX'', 0), (''NL80211_KEY_NO_TX'', 1), (''NL80211_KEY_SET_TX'', 2)]"

definition enum_nl80211_key_type :: ctype where
  "enum_nl80211_key_type = Enum False [
    (''NL80211_KEYTYPE_GROUP'', 0), (''NL80211_KEYTYPE_PAIRWISE'', 1),
    (''NL80211_KEYTYPE_PEERKEY'', 2), (''NUM_NL80211_KEYTYPES'', 3)]"

definition enum_nl80211_mbssid_config_attributes :: ctype where
  "enum_nl80211_mbssid_config_attributes = Enum False [
    (''__NL80211_MBSSID_CONFIG_ATTR_INVALID'', 0),
    (''NL80211_MBSSID_CONFIG_ATTR_MAX_INTERFACES'', 1),
    (''NL80211_MBSSID_CONFIG_ATTR_MAX_EMA_PROFILE_PERIODICITY'', 2),
    (''NL80211_MBSSID_CONFIG_ATTR_INDEX'', 3), (''NL80211_MBSSID_CONFIG_ATTR_TX_IFINDEX'', 4),
    (''NL80211_MBSSID_CONFIG_ATTR_EMA'', 5), (''NL80211_MBSSID_CONFIG_ATTR_TX_LINK_ID'', 6),
    (''__NL80211_MBSSID_CONFIG_ATTR_LAST'', 7), (''NL80211_MBSSID_CONFIG_ATTR_MAX'', 6)]"

definition enum_nl80211_mesh_power_mode :: ctype where
  "enum_nl80211_mesh_power_mode = Enum False [
    (''NL80211_MESH_POWER_UNKNOWN'', 0), (''NL80211_MESH_POWER_ACTIVE'', 1),
    (''NL80211_MESH_POWER_LIGHT_SLEEP'', 2), (''NL80211_MESH_POWER_DEEP_SLEEP'', 3),
    (''__NL80211_MESH_POWER_AFTER_LAST'', 4), (''NL80211_MESH_POWER_MAX'', 3)]"

definition enum_nl80211_mesh_setup_params :: ctype where
  "enum_nl80211_mesh_setup_params = Enum False [
    (''__NL80211_MESH_SETUP_INVALID'', 0), (''NL80211_MESH_SETUP_ENABLE_VENDOR_PATH_SEL'', 1),
    (''NL80211_MESH_SETUP_ENABLE_VENDOR_METRIC'', 2), (''NL80211_MESH_SETUP_IE'', 3),
    (''NL80211_MESH_SETUP_USERSPACE_AUTH'', 4), (''NL80211_MESH_SETUP_USERSPACE_AMPE'', 5),
    (''NL80211_MESH_SETUP_ENABLE_VENDOR_SYNC'', 6), (''NL80211_MESH_SETUP_USERSPACE_MPM'', 7),
    (''NL80211_MESH_SETUP_AUTH_PROTOCOL'', 8), (''__NL80211_MESH_SETUP_ATTR_AFTER_LAST'', 9),
    (''NL80211_MESH_SETUP_ATTR_MAX'', 8)]"

definition enum_nl80211_meshconf_params :: ctype where
  "enum_nl80211_meshconf_params = Enum False [
    (''__NL80211_MESHCONF_INVALID'', 0), (''NL80211_MESHCONF_RETRY_TIMEOUT'', 1),
    (''NL80211_MESHCONF_CONFIRM_TIMEOUT'', 2), (''NL80211_MESHCONF_HOLDING_TIMEOUT'', 3),
    (''NL80211_MESHCONF_MAX_PEER_LINKS'', 4), (''NL80211_MESHCONF_MAX_RETRIES'', 5),
    (''NL80211_MESHCONF_TTL'', 6), (''NL80211_MESHCONF_AUTO_OPEN_PLINKS'', 7),
    (''NL80211_MESHCONF_HWMP_MAX_PREQ_RETRIES'', 8), (''NL80211_MESHCONF_PATH_REFRESH_TIME'', 9),
    (''NL80211_MESHCONF_MIN_DISCOVERY_TIMEOUT'', 10),
    (''NL80211_MESHCONF_HWMP_ACTIVE_PATH_TIMEOUT'', 11),
    (''NL80211_MESHCONF_HWMP_PREQ_MIN_INTERVAL'', 12),
    (''NL80211_MESHCONF_HWMP_NET_DIAM_TRVS_TIME'', 13), (''NL80211_MESHCONF_HWMP_ROOTMODE'', 14),
    (''NL80211_MESHCONF_ELEMENT_TTL'', 15), (''NL80211_MESHCONF_HWMP_RANN_INTERVAL'', 16),
    (''NL80211_MESHCONF_GATE_ANNOUNCEMENTS'', 17),
    (''NL80211_MESHCONF_HWMP_PERR_MIN_INTERVAL'', 18), (''NL80211_MESHCONF_FORWARDING'', 19),
    (''NL80211_MESHCONF_RSSI_THRESHOLD'', 20),
    (''NL80211_MESHCONF_SYNC_OFFSET_MAX_NEIGHBOR'', 21), (''NL80211_MESHCONF_HT_OPMODE'', 22),
    (''NL80211_MESHCONF_HWMP_PATH_TO_ROOT_TIMEOUT'', 23),
    (''NL80211_MESHCONF_HWMP_ROOT_INTERVAL'', 24),
    (''NL80211_MESHCONF_HWMP_CONFIRMATION_INTERVAL'', 25), (''NL80211_MESHCONF_POWER_MODE'', 26),
    (''NL80211_MESHCONF_AWAKE_WINDOW'', 27), (''NL80211_MESHCONF_PLINK_TIMEOUT'', 28),
    (''NL80211_MESHCONF_CONNECTED_TO_GATE'', 29), (''NL80211_MESHCONF_NOLEARN'', 30),
    (''NL80211_MESHCONF_CONNECTED_TO_AS'', 31), (''__NL80211_MESHCONF_ATTR_AFTER_LAST'', 32),
    (''NL80211_MESHCONF_ATTR_MAX'', 31)]"

definition enum_nl80211_mfp :: ctype where
  "enum_nl80211_mfp = Enum False [
    (''NL80211_MFP_NO'', 0), (''NL80211_MFP_REQUIRED'', 1), (''NL80211_MFP_OPTIONAL'', 2)]"

definition enum_nl80211_mntr_flags :: ctype where
  "enum_nl80211_mntr_flags = Enum False [
    (''__NL80211_MNTR_FLAG_INVALID'', 0), (''NL80211_MNTR_FLAG_FCSFAIL'', 1),
    (''NL80211_MNTR_FLAG_PLCPFAIL'', 2), (''NL80211_MNTR_FLAG_CONTROL'', 3),
    (''NL80211_MNTR_FLAG_OTHER_BSS'', 4), (''NL80211_MNTR_FLAG_COOK_FRAMES'', 5),
    (''NL80211_MNTR_FLAG_ACTIVE'', 6), (''NL80211_MNTR_FLAG_SKIP_TX'', 7),
    (''__NL80211_MNTR_FLAG_AFTER_LAST'', 8), (''NL80211_MNTR_FLAG_MAX'', 7)]"

definition enum_nl80211_mpath_info :: ctype where
  "enum_nl80211_mpath_info = Enum False [
    (''__NL80211_MPATH_INFO_INVALID'', 0), (''NL80211_MPATH_INFO_FRAME_QLEN'', 1),
    (''NL80211_MPATH_INFO_SN'', 2), (''NL80211_MPATH_INFO_METRIC'', 3),
    (''NL80211_MPATH_INFO_EXPTIME'', 4), (''NL80211_MPATH_INFO_FLAGS'', 5),
    (''NL80211_MPATH_INFO_DISCOVERY_TIMEOUT'', 6), (''NL80211_MPATH_INFO_DISCOVERY_RETRIES'', 7),
    (''NL80211_MPATH_INFO_HOP_COUNT'', 8), (''NL80211_MPATH_INFO_PATH_CHANGE'', 9),
    (''__NL80211_MPATH_INFO_AFTER_LAST'', 10), (''NL80211_MPATH_INFO_MAX'', 9)]"

definition enum_nl80211_multicast_groups :: ctype where
  "enum_nl80211_multicast_groups = Enum False [
    (''NL80211_MCGRP_CONFIG'', 0), (''NL80211_MCGRP_SCAN'', 1), (''NL80211_MCGRP_REGULATORY'', 2),
    (''NL80211_MCGRP_MLME'', 3), (''NL80211_MCGRP_VENDOR'', 4), (''NL80211_MCGRP_NAN'', 5),
    (''NL80211_MCGRP_TESTMODE'', 6)]"

definition enum_nl80211_nan_func_attributes :: ctype where
  "enum_nl80211_nan_func_attributes = Enum False [
    (''__NL80211_NAN_FUNC_INVALID'', 0), (''NL80211_NAN_FUNC_TYPE'', 1),
    (''NL80211_NAN_FUNC_SERVICE_ID'', 2), (''NL80211_NAN_FUNC_PUBLISH_TYPE'', 3),
    (''NL80211_NAN_FUNC_PUBLISH_BCAST'', 4), (''NL80211_NAN_FUNC_SUBSCRIBE_ACTIVE'', 5),
    (''NL80211_NAN_FUNC_FOLLOW_UP_ID'', 6), (''NL80211_NAN_FUNC_FOLLOW_UP_REQ_ID'', 7),
    (''NL80211_NAN_FUNC_FOLLOW_UP_DEST'', 8), (''NL80211_NAN_FUNC_CLOSE_RANGE'', 9),
    (''NL80211_NAN_FUNC_TTL'', 10), (''NL80211_NAN_FUNC_SERVICE_INFO'', 11),
    (''NL80211_NAN_FUNC_SRF'', 12), (''NL80211_NAN_FUNC_RX_MATCH_FILTER'', 13),
    (''NL80211_NAN_FUNC_TX_MATCH_FILTER'', 14), (''NL80211_NAN_FUNC_INSTANCE_ID'', 15),
    (''NL80211_NAN_FUNC_TERM_REASON'', 16), (''NUM_NL80211_NAN_FUNC_ATTR'', 17),
    (''NL80211_NAN_FUNC_ATTR_MAX'', 16)]"

definition enum_nl80211_nan_func_term_reason :: ctype where
  "enum_nl80211_nan_func_term_reason = Enum False [
    (''NL80211_NAN_FUNC_TERM_REASON_USER_REQUEST'', 0),
    (''NL80211_NAN_FUNC_TERM_REASON_TTL_EXPIRED'', 1), (''NL80211_NAN_FUNC_TERM_REASON_ERROR'', 2)]"

definition enum_nl80211_nan_function_type :: ctype where
  "enum_nl80211_nan_function_type = Enum False [
    (''NL80211_NAN_FUNC_PUBLISH'', 0), (''NL80211_NAN_FUNC_SUBSCRIBE'', 1),
    (''NL80211_NAN_FUNC_FOLLOW_UP'', 2), (''__NL80211_NAN_FUNC_TYPE_AFTER_LAST'', 3),
    (''NL80211_NAN_FUNC_MAX_TYPE'', 2)]"

definition enum_nl80211_nan_match_attributes :: ctype where
  "enum_nl80211_nan_match_attributes = Enum False [
    (''__NL80211_NAN_MATCH_INVALID'', 0), (''NL80211_NAN_MATCH_FUNC_LOCAL'', 1),
    (''NL80211_NAN_MATCH_FUNC_PEER'', 2), (''NUM_NL80211_NAN_MATCH_ATTR'', 3),
    (''NL80211_NAN_MATCH_ATTR_MAX'', 2)]"

definition enum_nl80211_nan_publish_type :: ctype where
  "enum_nl80211_nan_publish_type = Enum False [
    (''NL80211_NAN_SOLICITED_PUBLISH'', 1), (''NL80211_NAN_UNSOLICITED_PUBLISH'', 2)]"

definition enum_nl80211_nan_srf_attributes :: ctype where
  "enum_nl80211_nan_srf_attributes = Enum False [
    (''__NL80211_NAN_SRF_INVALID'', 0), (''NL80211_NAN_SRF_INCLUDE'', 1),
    (''NL80211_NAN_SRF_BF'', 2), (''NL80211_NAN_SRF_BF_IDX'', 3),
    (''NL80211_NAN_SRF_MAC_ADDRS'', 4), (''NUM_NL80211_NAN_SRF_ATTR'', 5),
    (''NL80211_NAN_SRF_ATTR_MAX'', 4)]"

definition enum_nl80211_obss_pd_attributes :: ctype where
  "enum_nl80211_obss_pd_attributes = Enum False [
    (''__NL80211_HE_OBSS_PD_ATTR_INVALID'', 0), (''NL80211_HE_OBSS_PD_ATTR_MIN_OFFSET'', 1),
    (''NL80211_HE_OBSS_PD_ATTR_MAX_OFFSET'', 2),
    (''NL80211_HE_OBSS_PD_ATTR_NON_SRG_MAX_OFFSET'', 3),
    (''NL80211_HE_OBSS_PD_ATTR_BSS_COLOR_BITMAP'', 4),
    (''NL80211_HE_OBSS_PD_ATTR_PARTIAL_BSSID_BITMAP'', 5),
    (''NL80211_HE_OBSS_PD_ATTR_SR_CTRL'', 6), (''__NL80211_HE_OBSS_PD_ATTR_LAST'', 7),
    (''NL80211_HE_OBSS_PD_ATTR_MAX'', 6)]"

definition enum_nl80211_packet_pattern_attr :: ctype where
  "enum_nl80211_packet_pattern_attr = Enum False [
    (''__NL80211_PKTPAT_INVALID'', 0), (''NL80211_PKTPAT_MASK'', 1),
    (''NL80211_PKTPAT_PATTERN'', 2), (''NL80211_PKTPAT_OFFSET'', 3), (''NUM_NL80211_PKTPAT'', 4),
    (''MAX_NL80211_PKTPAT'', 3)]"

definition enum_nl80211_peer_measurement_attrs :: ctype where
  "enum_nl80211_peer_measurement_attrs = Enum False [
    (''__NL80211_PMSR_ATTR_INVALID'', 0), (''NL80211_PMSR_ATTR_MAX_PEERS'', 1),
    (''NL80211_PMSR_ATTR_REPORT_AP_TSF'', 2), (''NL80211_PMSR_ATTR_RANDOMIZE_MAC_ADDR'', 3),
    (''NL80211_PMSR_ATTR_TYPE_CAPA'', 4), (''NL80211_PMSR_ATTR_PEERS'', 5),
    (''NUM_NL80211_PMSR_ATTR'', 6), (''NL80211_PMSR_ATTR_MAX'', 5)]"

definition enum_nl80211_peer_measurement_ftm_capa :: ctype where
  "enum_nl80211_peer_measurement_ftm_capa = Enum False [
    (''__NL80211_PMSR_FTM_CAPA_ATTR_INVALID'', 0), (''NL80211_PMSR_FTM_CAPA_ATTR_ASAP'', 1),
    (''NL80211_PMSR_FTM_CAPA_ATTR_NON_ASAP'', 2), (''NL80211_PMSR_FTM_CAPA_ATTR_REQ_LCI'', 3),
    (''NL80211_PMSR_FTM_CAPA_ATTR_REQ_CIVICLOC'', 4),
    (''NL80211_PMSR_FTM_CAPA_ATTR_PREAMBLES'', 5), (''NL80211_PMSR_FTM_CAPA_ATTR_BANDWIDTHS'', 6),
    (''NL80211_PMSR_FTM_CAPA_ATTR_MAX_BURSTS_EXPONENT'', 7),
    (''NL80211_PMSR_FTM_CAPA_ATTR_MAX_FTMS_PER_BURST'', 8),
    (''NL80211_PMSR_FTM_CAPA_ATTR_TRIGGER_BASED'', 9),
    (''NL80211_PMSR_FTM_CAPA_ATTR_NON_TRIGGER_BASED'', 10),
    (''NUM_NL80211_PMSR_FTM_CAPA_ATTR'', 11), (''NL80211_PMSR_FTM_CAPA_ATTR_MAX'', 10)]"

definition enum_nl80211_peer_measurement_ftm_failure_reasons :: ctype where
  "enum_nl80211_peer_measurement_ftm_failure_reasons = Enum False [
    (''NL80211_PMSR_FTM_FAILURE_UNSPECIFIED'', 0), (''NL80211_PMSR_FTM_FAILURE_NO_RESPONSE'', 1),
    (''NL80211_PMSR_FTM_FAILURE_REJECTED'', 2), (''NL80211_PMSR_FTM_FAILURE_WRONG_CHANNEL'', 3),
    (''NL80211_PMSR_FTM_FAILURE_PEER_NOT_CAPABLE'', 4),
    (''NL80211_PMSR_FTM_FAILURE_INVALID_TIMESTAMP'', 5),
    (''NL80211_PMSR_FTM_FAILURE_PEER_BUSY'', 6),
    (''NL80211_PMSR_FTM_FAILURE_BAD_CHANGED_PARAMS'', 7)]"

definition enum_nl80211_peer_measurement_ftm_req :: ctype where
  "enum_nl80211_peer_measurement_ftm_req = Enum False [
    (''__NL80211_PMSR_FTM_REQ_ATTR_INVALID'', 0), (''NL80211_PMSR_FTM_REQ_ATTR_ASAP'', 1),
    (''NL80211_PMSR_FTM_REQ_ATTR_PREAMBLE'', 2),
    (''NL80211_PMSR_FTM_REQ_ATTR_NUM_BURSTS_EXP'', 3),
    (''NL80211_PMSR_FTM_REQ_ATTR_BURST_PERIOD'', 4),
    (''NL80211_PMSR_FTM_REQ_ATTR_BURST_DURATION'', 5),
    (''NL80211_PMSR_FTM_REQ_ATTR_FTMS_PER_BURST'', 6),
    (''NL80211_PMSR_FTM_REQ_ATTR_NUM_FTMR_RETRIES'', 7),
    (''NL80211_PMSR_FTM_REQ_ATTR_REQUEST_LCI'', 8),
    (''NL80211_PMSR_FTM_REQ_ATTR_REQUEST_CIVICLOC'', 9),
    (''NL80211_PMSR_FTM_REQ_ATTR_TRIGGER_BASED'', 10),
    (''NL80211_PMSR_FTM_REQ_ATTR_NON_TRIGGER_BASED'', 11),
    (''NL80211_PMSR_FTM_REQ_ATTR_LMR_FEEDBACK'', 12),
    (''NL80211_PMSR_FTM_REQ_ATTR_BSS_COLOR'', 13), (''NUM_NL80211_PMSR_FTM_REQ_ATTR'', 14),
    (''NL80211_PMSR_FTM_REQ_ATTR_MAX'', 13)]"

definition enum_nl80211_peer_measurement_ftm_resp :: ctype where
  "enum_nl80211_peer_measurement_ftm_resp = Enum False [
    (''__NL80211_PMSR_FTM_RESP_ATTR_INVALID'', 0),
    (''NL80211_PMSR_FTM_RESP_ATTR_FAIL_REASON'', 1),
    (''NL80211_PMSR_FTM_RESP_ATTR_BURST_INDEX'', 2),
    (''NL80211_PMSR_FTM_RESP_ATTR_NUM_FTMR_ATTEMPTS'', 3),
    (''NL80211_PMSR_FTM_RESP_ATTR_NUM_FTMR_SUCCESSES'', 4),
    (''NL80211_PMSR_FTM_RESP_ATTR_BUSY_RETRY_TIME'', 5),
    (''NL80211_PMSR_FTM_RESP_ATTR_NUM_BURSTS_EXP'', 6),
    (''NL80211_PMSR_FTM_RESP_ATTR_BURST_DURATION'', 7),
    (''NL80211_PMSR_FTM_RESP_ATTR_FTMS_PER_BURST'', 8),
    (''NL80211_PMSR_FTM_RESP_ATTR_RSSI_AVG'', 9),
    (''NL80211_PMSR_FTM_RESP_ATTR_RSSI_SPREAD'', 10),
    (''NL80211_PMSR_FTM_RESP_ATTR_TX_RATE'', 11), (''NL80211_PMSR_FTM_RESP_ATTR_RX_RATE'', 12),
    (''NL80211_PMSR_FTM_RESP_ATTR_RTT_AVG'', 13),
    (''NL80211_PMSR_FTM_RESP_ATTR_RTT_VARIANCE'', 14),
    (''NL80211_PMSR_FTM_RESP_ATTR_RTT_SPREAD'', 15),
    (''NL80211_PMSR_FTM_RESP_ATTR_DIST_AVG'', 16),
    (''NL80211_PMSR_FTM_RESP_ATTR_DIST_VARIANCE'', 17),
    (''NL80211_PMSR_FTM_RESP_ATTR_DIST_SPREAD'', 18), (''NL80211_PMSR_FTM_RESP_ATTR_LCI'', 19),
    (''NL80211_PMSR_FTM_RESP_ATTR_CIVICLOC'', 20), (''NL80211_PMSR_FTM_RESP_ATTR_PAD'', 21),
    (''NUM_NL80211_PMSR_FTM_RESP_ATTR'', 22), (''NL80211_PMSR_FTM_RESP_ATTR_MAX'', 21)]"

definition enum_nl80211_peer_measurement_peer_attrs :: ctype where
  "enum_nl80211_peer_measurement_peer_attrs = Enum False [
    (''__NL80211_PMSR_PEER_ATTR_INVALID'', 0), (''NL80211_PMSR_PEER_ATTR_ADDR'', 1),
    (''NL80211_PMSR_PEER_ATTR_CHAN'', 2), (''NL80211_PMSR_PEER_ATTR_REQ'', 3),
    (''NL80211_PMSR_PEER_ATTR_RESP'', 4), (''NUM_NL80211_PMSR_PEER_ATTRS'', 5),
    (''NL80211_PMSR_PEER_ATTR_MAX'', 4)]"

definition enum_nl80211_peer_measurement_req :: ctype where
  "enum_nl80211_peer_measurement_req = Enum False [
    (''__NL80211_PMSR_REQ_ATTR_INVALID'', 0), (''NL80211_PMSR_REQ_ATTR_DATA'', 1),
    (''NL80211_PMSR_REQ_ATTR_GET_AP_TSF'', 2), (''NUM_NL80211_PMSR_REQ_ATTRS'', 3),
    (''NL80211_PMSR_REQ_ATTR_MAX'', 2)]"

definition enum_nl80211_peer_measurement_resp :: ctype where
  "enum_nl80211_peer_measurement_resp = Enum False [
    (''__NL80211_PMSR_RESP_ATTR_INVALID'', 0), (''NL80211_PMSR_RESP_ATTR_DATA'', 1),
    (''NL80211_PMSR_RESP_ATTR_STATUS'', 2), (''NL80211_PMSR_RESP_ATTR_HOST_TIME'', 3),
    (''NL80211_PMSR_RESP_ATTR_AP_TSF'', 4), (''NL80211_PMSR_RESP_ATTR_FINAL'', 5),
    (''NL80211_PMSR_RESP_ATTR_PAD'', 6), (''NUM_NL80211_PMSR_RESP_ATTRS'', 7),
    (''NL80211_PMSR_RESP_ATTR_MAX'', 6)]"

definition enum_nl80211_peer_measurement_status :: ctype where
  "enum_nl80211_peer_measurement_status = Enum False [
    (''NL80211_PMSR_STATUS_SUCCESS'', 0), (''NL80211_PMSR_STATUS_REFUSED'', 1),
    (''NL80211_PMSR_STATUS_TIMEOUT'', 2), (''NL80211_PMSR_STATUS_FAILURE'', 3)]"

definition enum_nl80211_peer_measurement_type :: ctype where
  "enum_nl80211_peer_measurement_type = Enum False [
    (''NL80211_PMSR_TYPE_INVALID'', 0), (''NL80211_PMSR_TYPE_FTM'', 1),
    (''NUM_NL80211_PMSR_TYPES'', 2), (''NL80211_PMSR_TYPE_MAX'', 1)]"

definition enum_nl80211_plink_action :: ctype where
  "enum_nl80211_plink_action = Enum False [
    (''NL80211_PLINK_ACTION_NO_ACTION'', 0), (''NL80211_PLINK_ACTION_OPEN'', 1),
    (''NL80211_PLINK_ACTION_BLOCK'', 2), (''NUM_NL80211_PLINK_ACTIONS'', 3)]"

definition enum_nl80211_plink_state :: ctype where
  "enum_nl80211_plink_state = Enum False [
    (''NL80211_PLINK_LISTEN'', 0), (''NL80211_PLINK_OPN_SNT'', 1),
    (''NL80211_PLINK_OPN_RCVD'', 2), (''NL80211_PLINK_CNF_RCVD'', 3),
    (''NL80211_PLINK_ESTAB'', 4), (''NL80211_PLINK_HOLDING'', 5), (''NL80211_PLINK_BLOCKED'', 6),
    (''NUM_NL80211_PLINK_STATES'', 7), (''MAX_NL80211_PLINK_STATES'', 6)]"

definition enum_nl80211_pmksa_candidate_attr :: ctype where
  "enum_nl80211_pmksa_candidate_attr = Enum False [
    (''__NL80211_PMKSA_CANDIDATE_INVALID'', 0), (''NL80211_PMKSA_CANDIDATE_INDEX'', 1),
    (''NL80211_PMKSA_CANDIDATE_BSSID'', 2), (''NL80211_PMKSA_CANDIDATE_PREAUTH'', 3),
    (''NUM_NL80211_PMKSA_CANDIDATE'', 4), (''MAX_NL80211_PMKSA_CANDIDATE'', 3)]"

definition enum_nl80211_preamble :: ctype where
  "enum_nl80211_preamble = Enum False [
    (''NL80211_PREAMBLE_LEGACY'', 0), (''NL80211_PREAMBLE_HT'', 1), (''NL80211_PREAMBLE_VHT'', 2),
    (''NL80211_PREAMBLE_DMG'', 3), (''NL80211_PREAMBLE_HE'', 4)]"

definition enum_nl80211_protocol_features :: ctype where
  "enum_nl80211_protocol_features = Enum False [
    (''NL80211_PROTOCOL_FEATURE_SPLIT_WIPHY_DUMP'', 1)]"

definition enum_nl80211_ps_state :: ctype where
  "enum_nl80211_ps_state = Enum False [
    (''NL80211_PS_DISABLED'', 0), (''NL80211_PS_ENABLED'', 1)]"

definition enum_nl80211_radar_event :: ctype where
  "enum_nl80211_radar_event = Enum False [
    (''NL80211_RADAR_DETECTED'', 0), (''NL80211_RADAR_CAC_FINISHED'', 1),
    (''NL80211_RADAR_CAC_ABORTED'', 2), (''NL80211_RADAR_NOP_FINISHED'', 3),
    (''NL80211_RADAR_PRE_CAC_EXPIRED'', 4), (''NL80211_RADAR_CAC_STARTED'', 5)]"

definition enum_nl80211_rate_info :: ctype where
  "enum_nl80211_rate_info = Enum False [
    (''__NL80211_RATE_INFO_INVALID'', 0), (''NL80211_RATE_INFO_BITRATE'', 1),
    (''NL80211_RATE_INFO_MCS'', 2), (''NL80211_RATE_INFO_40_MHZ_WIDTH'', 3),
    (''NL80211_RATE_INFO_SHORT_GI'', 4), (''NL80211_RATE_INFO_BITRATE32'', 5),
    (''NL80211_RATE_INFO_VHT_MCS'', 6), (''NL80211_RATE_INFO_VHT_NSS'', 7),
    (''NL80211_RATE_INFO_80_MHZ_WIDTH'', 8), (''NL80211_RATE_INFO_80P80_MHZ_WIDTH'', 9),
    (''NL80211_RATE_INFO_160_MHZ_WIDTH'', 10), (''NL80211_RATE_INFO_10_MHZ_WIDTH'', 11),
    (''NL80211_RATE_INFO_5_MHZ_WIDTH'', 12), (''NL80211_RATE_INFO_HE_MCS'', 13),
    (''NL80211_RATE_INFO_HE_NSS'', 14), (''NL80211_RATE_INFO_HE_GI'', 15),
    (''NL80211_RATE_INFO_HE_DCM'', 16), (''NL80211_RATE_INFO_HE_RU_ALLOC'', 17),
    (''NL80211_RATE_INFO_320_MHZ_WIDTH'', 18), (''NL80211_RATE_INFO_EHT_MCS'', 19),
    (''NL80211_RATE_INFO_EHT_NSS'', 20), (''NL80211_RATE_INFO_EHT_GI'', 21),
    (''NL80211_RATE_INFO_EHT_RU_ALLOC'', 22), (''NL80211_RATE_INFO_S1G_MCS'', 23),
    (''NL80211_RATE_INFO_S1G_NSS'', 24), (''NL80211_RATE_INFO_1_MHZ_WIDTH'', 25),
    (''NL80211_RATE_INFO_2_MHZ_WIDTH'', 26), (''NL80211_RATE_INFO_4_MHZ_WIDTH'', 27),
    (''NL80211_RATE_INFO_8_MHZ_WIDTH'', 28), (''NL80211_RATE_INFO_16_MHZ_WIDTH'', 29),
    (''__NL80211_RATE_INFO_AFTER_LAST'', 30), (''NL80211_RATE_INFO_MAX'', 29)]"

definition enum_nl80211_reg_initiator :: ctype where
  "enum_nl80211_reg_initiator = Enum False [
    (''NL80211_REGDOM_SET_BY_CORE'', 0), (''NL80211_REGDOM_SET_BY_USER'', 1),
    (''NL80211_REGDOM_SET_BY_DRIVER'', 2), (''NL80211_REGDOM_SET_BY_COUNTRY_IE'', 3)]"

definition enum_nl80211_reg_rule_attr :: ctype where
  "enum_nl80211_reg_rule_attr = Enum False [
    (''__NL80211_REG_RULE_ATTR_INVALID'', 0), (''NL80211_ATTR_REG_RULE_FLAGS'', 1),
    (''NL80211_ATTR_FREQ_RANGE_START'', 2), (''NL80211_ATTR_FREQ_RANGE_END'', 3),
    (''NL80211_ATTR_FREQ_RANGE_MAX_BW'', 4), (''NL80211_ATTR_POWER_RULE_MAX_ANT_GAIN'', 5),
    (''NL80211_ATTR_POWER_RULE_MAX_EIRP'', 6), (''NL80211_ATTR_DFS_CAC_TIME'', 7),
    (''NL80211_ATTR_POWER_RULE_PSD'', 8), (''__NL80211_REG_RULE_ATTR_AFTER_LAST'', 9),
    (''NL80211_REG_RULE_ATTR_MAX'', 8)]"

definition enum_nl80211_reg_rule_flags :: ctype where
  "enum_nl80211_reg_rule_flags = Enum False [
    (''NL80211_RRF_NO_OFDM'', 1), (''NL80211_RRF_NO_CCK'', 2), (''NL80211_RRF_NO_INDOOR'', 4),
    (''NL80211_RRF_NO_OUTDOOR'', 8), (''NL80211_RRF_DFS'', 16), (''NL80211_RRF_PTP_ONLY'', 32),
    (''NL80211_RRF_PTMP_ONLY'', 64), (''NL80211_RRF_NO_IR'', 128),
    (''__NL80211_RRF_NO_IBSS'', 256), (''NL80211_RRF_AUTO_BW'', 2048),
    (''NL80211_RRF_IR_CONCURRENT'', 4096), (''NL80211_RRF_NO_HT40MINUS'', 8192),
    (''NL80211_RRF_NO_HT40PLUS'', 16384), (''NL80211_RRF_NO_80MHZ'', 32768),
    (''NL80211_RRF_NO_160MHZ'', 65536), (''NL80211_RRF_NO_HE'', 131072),
    (''NL80211_RRF_NO_320MHZ'', 262144), (''NL80211_RRF_NO_EHT'', 524288),
    (''NL80211_RRF_PSD'', 1048576), (''NL80211_RRF_DFS_CONCURRENT'', 2097152),
    (''NL80211_RRF_NO_6GHZ_VLP_CLIENT'', 4194304), (''NL80211_RRF_NO_6GHZ_AFC_CLIENT'', 8388608),
    (''NL80211_RRF_ALLOW_6GHZ_VLP_AP'', 16777216),
    (''NL80211_RRF_ALLOW_20MHZ_ACTIVITY'', 33554432)]"

definition enum_nl80211_reg_type :: ctype where
  "enum_nl80211_reg_type = Enum False [
    (''NL80211_REGDOM_TYPE_COUNTRY'', 0), (''NL80211_REGDOM_TYPE_WORLD'', 1),
    (''NL80211_REGDOM_TYPE_CUSTOM_WORLD'', 2), (''NL80211_REGDOM_TYPE_INTERSECTION'', 3)]"

definition enum_nl80211_rekey_data :: ctype where
  "enum_nl80211_rekey_data = Enum False [
    (''__NL80211_REKEY_DATA_INVALID'', 0), (''NL80211_REKEY_DATA_KEK'', 1),
    (''NL80211_REKEY_DATA_KCK'', 2), (''NL80211_REKEY_DATA_REPLAY_CTR'', 3),
    (''NL80211_REKEY_DATA_AKM'', 4), (''NUM_NL80211_REKEY_DATA'', 5),
    (''MAX_NL80211_REKEY_DATA'', 4)]"

definition enum_nl80211_s1g_short_beacon_attrs :: ctype where
  "enum_nl80211_s1g_short_beacon_attrs = Enum False [
    (''__NL80211_S1G_SHORT_BEACON_ATTR_INVALID'', 0), (''NL80211_S1G_SHORT_BEACON_ATTR_HEAD'', 1),
    (''NL80211_S1G_SHORT_BEACON_ATTR_TAIL'', 2), (''__NL80211_S1G_SHORT_BEACON_ATTR_LAST'', 3),
    (''NL80211_S1G_SHORT_BEACON_ATTR_MAX'', 2)]"

definition enum_nl80211_sae_pwe_mechanism :: ctype where
  "enum_nl80211_sae_pwe_mechanism = Enum False [
    (''NL80211_SAE_PWE_UNSPECIFIED'', 0), (''NL80211_SAE_PWE_HUNT_AND_PECK'', 1),
    (''NL80211_SAE_PWE_HASH_TO_ELEMENT'', 2), (''NL80211_SAE_PWE_BOTH'', 3)]"

definition enum_nl80211_sar_attrs :: ctype where
  "enum_nl80211_sar_attrs = Enum False [
    (''__NL80211_SAR_ATTR_INVALID'', 0), (''NL80211_SAR_ATTR_TYPE'', 1),
    (''NL80211_SAR_ATTR_SPECS'', 2), (''__NL80211_SAR_ATTR_LAST'', 3),
    (''NL80211_SAR_ATTR_MAX'', 2)]"

definition enum_nl80211_sar_specs_attrs :: ctype where
  "enum_nl80211_sar_specs_attrs = Enum False [
    (''__NL80211_SAR_ATTR_SPECS_INVALID'', 0), (''NL80211_SAR_ATTR_SPECS_POWER'', 1),
    (''NL80211_SAR_ATTR_SPECS_RANGE_INDEX'', 2), (''NL80211_SAR_ATTR_SPECS_START_FREQ'', 3),
    (''NL80211_SAR_ATTR_SPECS_END_FREQ'', 4), (''__NL80211_SAR_ATTR_SPECS_LAST'', 5),
    (''NL80211_SAR_ATTR_SPECS_MAX'', 4)]"

definition enum_nl80211_sar_type :: ctype where
  "enum_nl80211_sar_type = Enum False [
    (''NL80211_SAR_TYPE_POWER'', 0), (''NUM_NL80211_SAR_TYPE'', 1)]"

definition enum_nl80211_scan_flags :: ctype where
  "enum_nl80211_scan_flags = Enum False [
    (''NL80211_SCAN_FLAG_LOW_PRIORITY'', 1), (''NL80211_SCAN_FLAG_FLUSH'', 2),
    (''NL80211_SCAN_FLAG_AP'', 4), (''NL80211_SCAN_FLAG_RANDOM_ADDR'', 8),
    (''NL80211_SCAN_FLAG_FILS_MAX_CHANNEL_TIME'', 16),
    (''NL80211_SCAN_FLAG_ACCEPT_BCAST_PROBE_RESP'', 32),
    (''NL80211_SCAN_FLAG_OCE_PROBE_REQ_HIGH_TX_RATE'', 64),
    (''NL80211_SCAN_FLAG_OCE_PROBE_REQ_DEFERRAL_SUPPRESSION'', 128),
    (''NL80211_SCAN_FLAG_LOW_SPAN'', 256), (''NL80211_SCAN_FLAG_LOW_POWER'', 512),
    (''NL80211_SCAN_FLAG_HIGH_ACCURACY'', 1024), (''NL80211_SCAN_FLAG_RANDOM_SN'', 2048),
    (''NL80211_SCAN_FLAG_MIN_PREQ_CONTENT'', 4096), (''NL80211_SCAN_FLAG_FREQ_KHZ'', 8192),
    (''NL80211_SCAN_FLAG_COLOCATED_6GHZ'', 16384)]"

definition enum_nl80211_sched_scan_match_attr :: ctype where
  "enum_nl80211_sched_scan_match_attr = Enum False [
    (''__NL80211_SCHED_SCAN_MATCH_ATTR_INVALID'', 0), (''NL80211_SCHED_SCAN_MATCH_ATTR_SSID'', 1),
    (''NL80211_SCHED_SCAN_MATCH_ATTR_RSSI'', 2),
    (''NL80211_SCHED_SCAN_MATCH_ATTR_RELATIVE_RSSI'', 3),
    (''NL80211_SCHED_SCAN_MATCH_ATTR_RSSI_ADJUST'', 4),
    (''NL80211_SCHED_SCAN_MATCH_ATTR_BSSID'', 5), (''NL80211_SCHED_SCAN_MATCH_PER_BAND_RSSI'', 6),
    (''__NL80211_SCHED_SCAN_MATCH_ATTR_AFTER_LAST'', 7),
    (''NL80211_SCHED_SCAN_MATCH_ATTR_MAX'', 6)]"

definition enum_nl80211_sched_scan_plan :: ctype where
  "enum_nl80211_sched_scan_plan = Enum False [
    (''__NL80211_SCHED_SCAN_PLAN_INVALID'', 0), (''NL80211_SCHED_SCAN_PLAN_INTERVAL'', 1),
    (''NL80211_SCHED_SCAN_PLAN_ITERATIONS'', 2), (''__NL80211_SCHED_SCAN_PLAN_AFTER_LAST'', 3),
    (''NL80211_SCHED_SCAN_PLAN_MAX'', 2)]"

definition enum_nl80211_smps_mode :: ctype where
  "enum_nl80211_smps_mode = Enum False [
    (''NL80211_SMPS_OFF'', 0), (''NL80211_SMPS_STATIC'', 1), (''NL80211_SMPS_DYNAMIC'', 2),
    (''__NL80211_SMPS_AFTER_LAST'', 3), (''NL80211_SMPS_MAX'', 2)]"

definition enum_nl80211_sta_bss_param :: ctype where
  "enum_nl80211_sta_bss_param = Enum False [
    (''__NL80211_STA_BSS_PARAM_INVALID'', 0), (''NL80211_STA_BSS_PARAM_CTS_PROT'', 1),
    (''NL80211_STA_BSS_PARAM_SHORT_PREAMBLE'', 2), (''NL80211_STA_BSS_PARAM_SHORT_SLOT_TIME'', 3),
    (''NL80211_STA_BSS_PARAM_DTIM_PERIOD'', 4), (''NL80211_STA_BSS_PARAM_BEACON_INTERVAL'', 5),
    (''__NL80211_STA_BSS_PARAM_AFTER_LAST'', 6), (''NL80211_STA_BSS_PARAM_MAX'', 5)]"

definition enum_nl80211_sta_flags :: ctype where
  "enum_nl80211_sta_flags = Enum False [
    (''__NL80211_STA_FLAG_INVALID'', 0), (''NL80211_STA_FLAG_AUTHORIZED'', 1),
    (''NL80211_STA_FLAG_SHORT_PREAMBLE'', 2), (''NL80211_STA_FLAG_WME'', 3),
    (''NL80211_STA_FLAG_MFP'', 4), (''NL80211_STA_FLAG_AUTHENTICATED'', 5),
    (''NL80211_STA_FLAG_TDLS_PEER'', 6), (''NL80211_STA_FLAG_ASSOCIATED'', 7),
    (''NL80211_STA_FLAG_SPP_AMSDU'', 8), (''__NL80211_STA_FLAG_AFTER_LAST'', 9),
    (''NL80211_STA_FLAG_MAX'', 8)]"

definition enum_nl80211_sta_info :: ctype where
  "enum_nl80211_sta_info = Enum False [
    (''__NL80211_STA_INFO_INVALID'', 0), (''NL80211_STA_INFO_INACTIVE_TIME'', 1),
    (''NL80211_STA_INFO_RX_BYTES'', 2), (''NL80211_STA_INFO_TX_BYTES'', 3),
    (''NL80211_STA_INFO_LLID'', 4), (''NL80211_STA_INFO_PLID'', 5),
    (''NL80211_STA_INFO_PLINK_STATE'', 6), (''NL80211_STA_INFO_SIGNAL'', 7),
    (''NL80211_STA_INFO_TX_BITRATE'', 8), (''NL80211_STA_INFO_RX_PACKETS'', 9),
    (''NL80211_STA_INFO_TX_PACKETS'', 10), (''NL80211_STA_INFO_TX_RETRIES'', 11),
    (''NL80211_STA_INFO_TX_FAILED'', 12), (''NL80211_STA_INFO_SIGNAL_AVG'', 13),
    (''NL80211_STA_INFO_RX_BITRATE'', 14), (''NL80211_STA_INFO_BSS_PARAM'', 15),
    (''NL80211_STA_INFO_CONNECTED_TIME'', 16), (''NL80211_STA_INFO_STA_FLAGS'', 17),
    (''NL80211_STA_INFO_BEACON_LOSS'', 18), (''NL80211_STA_INFO_T_OFFSET'', 19),
    (''NL80211_STA_INFO_LOCAL_PM'', 20), (''NL80211_STA_INFO_PEER_PM'', 21),
    (''NL80211_STA_INFO_NONPEER_PM'', 22), (''NL80211_STA_INFO_RX_BYTES64'', 23),
    (''NL80211_STA_INFO_TX_BYTES64'', 24), (''NL80211_STA_INFO_CHAIN_SIGNAL'', 25),
    (''NL80211_STA_INFO_CHAIN_SIGNAL_AVG'', 26), (''NL80211_STA_INFO_EXPECTED_THROUGHPUT'', 27),
    (''NL80211_STA_INFO_RX_DROP_MISC'', 28), (''NL80211_STA_INFO_BEACON_RX'', 29),
    (''NL80211_STA_INFO_BEACON_SIGNAL_AVG'', 30), (''NL80211_STA_INFO_TID_STATS'', 31),
    (''NL80211_STA_INFO_RX_DURATION'', 32), (''NL80211_STA_INFO_PAD'', 33),
    (''NL80211_STA_INFO_ACK_SIGNAL'', 34), (''NL80211_STA_INFO_ACK_SIGNAL_AVG'', 35),
    (''NL80211_STA_INFO_RX_MPDUS'', 36), (''NL80211_STA_INFO_FCS_ERROR_COUNT'', 37),
    (''NL80211_STA_INFO_CONNECTED_TO_GATE'', 38), (''NL80211_STA_INFO_TX_DURATION'', 39),
    (''NL80211_STA_INFO_AIRTIME_WEIGHT'', 40), (''NL80211_STA_INFO_AIRTIME_LINK_METRIC'', 41),
    (''NL80211_STA_INFO_ASSOC_AT_BOOTTIME'', 42), (''NL80211_STA_INFO_CONNECTED_TO_AS'', 43),
    (''__NL80211_STA_INFO_AFTER_LAST'', 44), (''NL80211_STA_INFO_MAX'', 43)]"

definition enum_nl80211_sta_wme_attr :: ctype where
  "enum_nl80211_sta_wme_attr = Enum False [
    (''__NL80211_STA_WME_INVALID'', 0), (''NL80211_STA_WME_UAPSD_QUEUES'', 1),
    (''NL80211_STA_WME_MAX_SP'', 2), (''__NL80211_STA_WME_AFTER_LAST'', 3),
    (''NL80211_STA_WME_MAX'', 2)]"

definition enum_nl80211_survey_info :: ctype where
  "enum_nl80211_survey_info = Enum False [
    (''__NL80211_SURVEY_INFO_INVALID'', 0), (''NL80211_SURVEY_INFO_FREQUENCY'', 1),
    (''NL80211_SURVEY_INFO_NOISE'', 2), (''NL80211_SURVEY_INFO_IN_USE'', 3),
    (''NL80211_SURVEY_INFO_TIME'', 4), (''NL80211_SURVEY_INFO_TIME_BUSY'', 5),
    (''NL80211_SURVEY_INFO_TIME_EXT_BUSY'', 6), (''NL80211_SURVEY_INFO_TIME_RX'', 7),
    (''NL80211_SURVEY_INFO_TIME_TX'', 8), (''NL80211_SURVEY_INFO_TIME_SCAN'', 9),
    (''NL80211_SURVEY_INFO_PAD'', 10), (''NL80211_SURVEY_INFO_TIME_BSS_RX'', 11),
    (''NL80211_SURVEY_INFO_FREQUENCY_OFFSET'', 12), (''__NL80211_SURVEY_INFO_AFTER_LAST'', 13),
    (''NL80211_SURVEY_INFO_MAX'', 12)]"

definition enum_nl80211_tdls_operation :: ctype where
  "enum_nl80211_tdls_operation = Enum False [
    (''NL80211_TDLS_DISCOVERY_REQ'', 0), (''NL80211_TDLS_SETUP'', 1),
    (''NL80211_TDLS_TEARDOWN'', 2), (''NL80211_TDLS_ENABLE_LINK'', 3),
    (''NL80211_TDLS_DISABLE_LINK'', 4)]"

definition enum_nl80211_tid_config :: ctype where
  "enum_nl80211_tid_config = Enum False [
    (''NL80211_TID_CONFIG_ENABLE'', 0), (''NL80211_TID_CONFIG_DISABLE'', 1)]"

definition enum_nl80211_tid_config_attr :: ctype where
  "enum_nl80211_tid_config_attr = Enum False [
    (''__NL80211_TID_CONFIG_ATTR_INVALID'', 0), (''NL80211_TID_CONFIG_ATTR_PAD'', 1),
    (''NL80211_TID_CONFIG_ATTR_VIF_SUPP'', 2), (''NL80211_TID_CONFIG_ATTR_PEER_SUPP'', 3),
    (''NL80211_TID_CONFIG_ATTR_OVERRIDE'', 4), (''NL80211_TID_CONFIG_ATTR_TIDS'', 5),
    (''NL80211_TID_CONFIG_ATTR_NOACK'', 6), (''NL80211_TID_CONFIG_ATTR_RETRY_SHORT'', 7),
    (''NL80211_TID_CONFIG_ATTR_RETRY_LONG'', 8), (''NL80211_TID_CONFIG_ATTR_AMPDU_CTRL'', 9),
    (''NL80211_TID_CONFIG_ATTR_RTSCTS_CTRL'', 10), (''NL80211_TID_CONFIG_ATTR_AMSDU_CTRL'', 11),
    (''NL80211_TID_CONFIG_ATTR_TX_RATE_TYPE'', 12), (''NL80211_TID_CONFIG_ATTR_TX_RATE'', 13),
    (''__NL80211_TID_CONFIG_ATTR_AFTER_LAST'', 14), (''NL80211_TID_CONFIG_ATTR_MAX'', 13)]"

definition enum_nl80211_tid_stats :: ctype where
  "enum_nl80211_tid_stats = Enum False [
    (''__NL80211_TID_STATS_INVALID'', 0), (''NL80211_TID_STATS_RX_MSDU'', 1),
    (''NL80211_TID_STATS_TX_MSDU'', 2), (''NL80211_TID_STATS_TX_MSDU_RETRIES'', 3),
    (''NL80211_TID_STATS_TX_MSDU_FAILED'', 4), (''NL80211_TID_STATS_PAD'', 5),
    (''NL80211_TID_STATS_TXQ_STATS'', 6), (''NUM_NL80211_TID_STATS'', 7),
    (''NL80211_TID_STATS_MAX'', 6)]"

definition enum_nl80211_timeout_reason :: ctype where
  "enum_nl80211_timeout_reason = Enum False [
    (''NL80211_TIMEOUT_UNSPECIFIED'', 0), (''NL80211_TIMEOUT_SCAN'', 1),
    (''NL80211_TIMEOUT_AUTH'', 2), (''NL80211_TIMEOUT_ASSOC'', 3)]"

definition enum_nl80211_tx_power_setting :: ctype where
  "enum_nl80211_tx_power_setting = Enum False [
    (''NL80211_TX_POWER_AUTOMATIC'', 0), (''NL80211_TX_POWER_LIMITED'', 1),
    (''NL80211_TX_POWER_FIXED'', 2)]"

definition enum_nl80211_tx_rate_attributes :: ctype where
  "enum_nl80211_tx_rate_attributes = Enum False [
    (''__NL80211_TXRATE_INVALID'', 0), (''NL80211_TXRATE_LEGACY'', 1), (''NL80211_TXRATE_HT'', 2),
    (''NL80211_TXRATE_VHT'', 3), (''NL80211_TXRATE_GI'', 4), (''NL80211_TXRATE_HE'', 5),
    (''NL80211_TXRATE_HE_GI'', 6), (''NL80211_TXRATE_HE_LTF'', 7),
    (''__NL80211_TXRATE_AFTER_LAST'', 8), (''NL80211_TXRATE_MAX'', 7)]"

definition enum_nl80211_tx_rate_setting :: ctype where
  "enum_nl80211_tx_rate_setting = Enum False [
    (''NL80211_TX_RATE_AUTOMATIC'', 0), (''NL80211_TX_RATE_LIMITED'', 1),
    (''NL80211_TX_RATE_FIXED'', 2)]"

definition enum_nl80211_txq_attr :: ctype where
  "enum_nl80211_txq_attr = Enum False [
    (''__NL80211_TXQ_ATTR_INVALID'', 0), (''NL80211_TXQ_ATTR_AC'', 1),
    (''NL80211_TXQ_ATTR_TXOP'', 2), (''NL80211_TXQ_ATTR_CWMIN'', 3),
    (''NL80211_TXQ_ATTR_CWMAX'', 4), (''NL80211_TXQ_ATTR_AIFS'', 5),
    (''__NL80211_TXQ_ATTR_AFTER_LAST'', 6), (''NL80211_TXQ_ATTR_MAX'', 5)]"

definition enum_nl80211_txq_stats :: ctype where
  "enum_nl80211_txq_stats = Enum False [
    (''__NL80211_TXQ_STATS_INVALID'', 0), (''NL80211_TXQ_STATS_BACKLOG_BYTES'', 1),
    (''NL80211_TXQ_STATS_BACKLOG_PACKETS'', 2), (''NL80211_TXQ_STATS_FLOWS'', 3),
    (''NL80211_TXQ_STATS_DROPS'', 4), (''NL80211_TXQ_STATS_ECN_MARKS'', 5),
    (''NL80211_TXQ_STATS_OVERLIMIT'', 6), (''NL80211_TXQ_STATS_OVERMEMORY'', 7),
    (''NL80211_TXQ_STATS_COLLISIONS'', 8), (''NL80211_TXQ_STATS_TX_BYTES'', 9),
    (''NL80211_TXQ_STATS_TX_PACKETS'', 10), (''NL80211_TXQ_STATS_MAX_FLOWS'', 11),
    (''NUM_NL80211_TXQ_STATS'', 12), (''NL80211_TXQ_STATS_MAX'', 11)]"

definition enum_nl80211_txrate_gi :: ctype where
  "enum_nl80211_txrate_gi = Enum False [
    (''NL80211_TXRATE_DEFAULT_GI'', 0), (''NL80211_TXRATE_FORCE_SGI'', 1),
    (''NL80211_TXRATE_FORCE_LGI'', 2)]"

definition enum_nl80211_unsol_bcast_probe_resp_attributes :: ctype where
  "enum_nl80211_unsol_bcast_probe_resp_attributes = Enum False [
    (''__NL80211_UNSOL_BCAST_PROBE_RESP_ATTR_INVALID'', 0),
    (''NL80211_UNSOL_BCAST_PROBE_RESP_ATTR_INT'', 1),
    (''NL80211_UNSOL_BCAST_PROBE_RESP_ATTR_TMPL'', 2),
    (''__NL80211_UNSOL_BCAST_PROBE_RESP_ATTR_LAST'', 3),
    (''NL80211_UNSOL_BCAST_PROBE_RESP_ATTR_MAX'', 2)]"

definition enum_nl80211_user_reg_hint_type :: ctype where
  "enum_nl80211_user_reg_hint_type = Enum False [
    (''NL80211_USER_REG_HINT_USER'', 0), (''NL80211_USER_REG_HINT_CELL_BASE'', 1),
    (''NL80211_USER_REG_HINT_INDOOR'', 2)]"

definition enum_nl80211_wiphy_radio_attrs :: ctype where
  "enum_nl80211_wiphy_radio_attrs = Enum False [
    (''__NL80211_WIPHY_RADIO_ATTR_INVALID'', 0), (''NL80211_WIPHY_RADIO_ATTR_INDEX'', 1),
    (''NL80211_WIPHY_RADIO_ATTR_FREQ_RANGE'', 2),
    (''NL80211_WIPHY_RADIO_ATTR_INTERFACE_COMBINATION'', 3),
    (''NL80211_WIPHY_RADIO_ATTR_ANTENNA_MASK'', 4),
    (''NL80211_WIPHY_RADIO_ATTR_RTS_THRESHOLD'', 5), (''__NL80211_WIPHY_RADIO_ATTR_LAST'', 6),
    (''NL80211_WIPHY_RADIO_ATTR_MAX'', 5)]"

definition enum_nl80211_wiphy_radio_freq_range :: ctype where
  "enum_nl80211_wiphy_radio_freq_range = Enum False [
    (''__NL80211_WIPHY_RADIO_FREQ_ATTR_INVALID'', 0),
    (''NL80211_WIPHY_RADIO_FREQ_ATTR_START'', 1), (''NL80211_WIPHY_RADIO_FREQ_ATTR_END'', 2),
    (''__NL80211_WIPHY_RADIO_FREQ_ATTR_LAST'', 3), (''NL80211_WIPHY_RADIO_FREQ_ATTR_MAX'', 2)]"

definition enum_nl80211_wmm_rule :: ctype where
  "enum_nl80211_wmm_rule = Enum False [
    (''__NL80211_WMMR_INVALID'', 0), (''NL80211_WMMR_CW_MIN'', 1), (''NL80211_WMMR_CW_MAX'', 2),
    (''NL80211_WMMR_AIFSN'', 3), (''NL80211_WMMR_TXOP'', 4), (''__NL80211_WMMR_LAST'', 5),
    (''NL80211_WMMR_MAX'', 4)]"

definition enum_nla_policy_validation :: ctype where
  "enum_nla_policy_validation = Enum False [
    (''NLA_VALIDATE_NONE'', 0), (''NLA_VALIDATE_RANGE'', 1),
    (''NLA_VALIDATE_RANGE_WARN_TOO_LONG'', 2), (''NLA_VALIDATE_MIN'', 3),
    (''NLA_VALIDATE_MAX'', 4), (''NLA_VALIDATE_MASK'', 5), (''NLA_VALIDATE_RANGE_PTR'', 6),
    (''NLA_VALIDATE_FUNCTION'', 7)]"

definition enum_nldev_res_flags :: ctype where
  "enum_nldev_res_flags = Enum False [
    (''NLDEV_PER_DEV'', 1)]"

definition enum_nlmsgerr_attrs :: ctype where
  "enum_nlmsgerr_attrs = Enum False [
    (''NLMSGERR_ATTR_UNUSED'', 0), (''NLMSGERR_ATTR_MSG'', 1), (''NLMSGERR_ATTR_OFFS'', 2),
    (''NLMSGERR_ATTR_COOKIE'', 3), (''NLMSGERR_ATTR_POLICY'', 4),
    (''NLMSGERR_ATTR_MISS_TYPE'', 5), (''NLMSGERR_ATTR_MISS_NEST'', 6),
    (''__NLMSGERR_ATTR_MAX'', 7), (''NLMSGERR_ATTR_MAX'', 6)]"

definition enum_rtnl_kinds :: ctype where
  "enum_rtnl_kinds = Enum False [
    (''RTNL_KIND_NEW'', 0), (''RTNL_KIND_DEL'', 1), (''RTNL_KIND_GET'', 2), (''RTNL_KIND_SET'', 3)]"

definition enum_rtnl_link_flags :: ctype where
  "enum_rtnl_link_flags = Enum False [
    (''RTNL_FLAG_DOIT_UNLOCKED'', 1), (''RTNL_FLAG_BULK_DEL_SUPPORTED'', 2),
    (''RTNL_FLAG_DUMP_UNLOCKED'', 4), (''RTNL_FLAG_DUMP_SPLIT_NLM_DONE'', 8)]"

definition enum_sk_action :: ctype where
  "enum_sk_action = Enum False [
    (''SK_DROP'', 0), (''SK_PASS'', 1)]"

definition enum_sk_pacing :: ctype where
  "enum_sk_pacing = Enum False [
    (''SK_PACING_NONE'', 0), (''SK_PACING_NEEDED'', 1), (''SK_PACING_FQ'', 2)]"

definition enum_sk_psock_state_bits :: ctype where
  "enum_sk_psock_state_bits = Enum False [
    (''SK_PSOCK_TX_ENABLED'', 0), (''SK_PSOCK_RX_STRP_ENABLED'', 1)]"

definition enum_skb_drop_reason_subsys :: ctype where
  "enum_skb_drop_reason_subsys = Enum False [
    (''SKB_DROP_REASON_SUBSYS_CORE'', 0), (''SKB_DROP_REASON_SUBSYS_MAC80211_UNUSABLE'', 1),
    (''SKB_DROP_REASON_SUBSYS_OPENVSWITCH'', 2), (''SKB_DROP_REASON_SUBSYS_NUM'', 3)]"

definition enum_skb_ext_id :: ctype where
  "enum_skb_ext_id = Enum False [
    (''SKB_EXT_BRIDGE_NF'', 0), (''SKB_EXT_SEC_PATH'', 1), (''SKB_EXT_NUM'', 2)]"

definition enum_skb_state :: ctype where
  "enum_skb_state = Enum False [
    (''illegal'', 0), (''tx_start'', 1), (''tx_done'', 2), (''rx_start'', 3), (''rx_done'', 4),
    (''rx_cleanup'', 5), (''unlink_start'', 6)]"

definition enum_skb_tstamp_type :: ctype where
  "enum_skb_tstamp_type = Enum False [
    (''SKB_CLOCK_REALTIME'', 0), (''SKB_CLOCK_MONOTONIC'', 1), (''SKB_CLOCK_TAI'', 2),
    (''__SKB_CLOCK_MAX'', 2)]"

definition enum_sock_flags :: ctype where
  "enum_sock_flags = Enum False [
    (''SOCK_DEAD'', 0), (''SOCK_DONE'', 1), (''SOCK_URGINLINE'', 2), (''SOCK_KEEPOPEN'', 3),
    (''SOCK_LINGER'', 4), (''SOCK_DESTROY'', 5), (''SOCK_BROADCAST'', 6), (''SOCK_TIMESTAMP'', 7),
    (''SOCK_ZAPPED'', 8), (''SOCK_USE_WRITE_QUEUE'', 9), (''SOCK_DBG'', 10),
    (''SOCK_RCVTSTAMP'', 11), (''SOCK_RCVTSTAMPNS'', 12), (''SOCK_LOCALROUTE'', 13),
    (''SOCK_MEMALLOC'', 14), (''SOCK_TIMESTAMPING_RX_SOFTWARE'', 15), (''SOCK_FASYNC'', 16),
    (''SOCK_RXQ_OVFL'', 17), (''SOCK_ZEROCOPY'', 18), (''SOCK_WIFI_STATUS'', 19),
    (''SOCK_NOFCS'', 20), (''SOCK_FILTER_LOCKED'', 21), (''SOCK_SELECT_ERR_QUEUE'', 22),
    (''SOCK_RCU_FREE'', 23), (''SOCK_TXTIME'', 24), (''SOCK_XDP'', 25), (''SOCK_TSTAMP_NEW'', 26),
    (''SOCK_RCVMARK'', 27), (''SOCK_RCVPRIORITY'', 28), (''SOCK_TIMESTAMPING_ANY'', 29)]"

definition enum_sock_shutdown_cmd :: ctype where
  "enum_sock_shutdown_cmd = Enum False [
    (''SHUT_RD'', 0), (''SHUT_WR'', 1), (''SHUT_RDWR'', 2)]"

definition enum_sock_type :: ctype where
  "enum_sock_type = Enum False [
    (''SOCK_STREAM'', 1), (''SOCK_DGRAM'', 2), (''SOCK_RAW'', 3), (''SOCK_RDM'', 4),
    (''SOCK_SEQPACKET'', 5), (''SOCK_DCCP'', 6), (''SOCK_PACKET'', 10)]"

definition enum_socket_flags :: ctype where
  "enum_socket_flags = Enum False [
    (''SOCKWQ_ASYNC_NOSPACE'', 0), (''SOCKWQ_ASYNC_WAITDATA'', 1), (''SOCK_NOSPACE'', 2),
    (''SOCK_SUPPORT_ZC'', 3), (''SOCK_CUSTOM_SOCKOPT'', 4)]"

definition enum_unix_vertex_index :: ctype where
  "enum_unix_vertex_index = Enum False [
    (''UNIX_VERTEX_INDEX_MARK1'', 0), (''UNIX_VERTEX_INDEX_MARK2'', 1),
    (''UNIX_VERTEX_INDEX_START'', 2)]"

definition enum_xdp_buff_flags :: ctype where
  "enum_xdp_buff_flags = Enum False [
    (''XDP_FLAGS_HAS_FRAGS'', 1), (''XDP_FLAGS_FRAGS_PF_MEMALLOC'', 2)]"

definition enum_xdp_rss_hash_type :: ctype where
  "enum_xdp_rss_hash_type = Enum False [
    (''XDP_RSS_L3_IPV4'', 1), (''XDP_RSS_L3_IPV6'', 2), (''XDP_RSS_L3_DYNHDR'', 4),
    (''XDP_RSS_L4'', 8), (''XDP_RSS_L4_TCP'', 16), (''XDP_RSS_L4_UDP'', 32),
    (''XDP_RSS_L4_SCTP'', 64), (''XDP_RSS_L4_IPSEC'', 128), (''XDP_RSS_L4_ICMP'', 256),
    (''XDP_RSS_TYPE_NONE'', 0), (''XDP_RSS_TYPE_L2'', 0), (''XDP_RSS_TYPE_L3_IPV4'', 1),
    (''XDP_RSS_TYPE_L3_IPV6'', 2), (''XDP_RSS_TYPE_L3_IPV4_OPT'', 5),
    (''XDP_RSS_TYPE_L3_IPV6_EX'', 6), (''XDP_RSS_TYPE_L4_ANY'', 8),
    (''XDP_RSS_TYPE_L4_IPV4_TCP'', 25), (''XDP_RSS_TYPE_L4_IPV4_UDP'', 41),
    (''XDP_RSS_TYPE_L4_IPV4_SCTP'', 73), (''XDP_RSS_TYPE_L4_IPV4_IPSEC'', 137),
    (''XDP_RSS_TYPE_L4_IPV4_ICMP'', 265), (''XDP_RSS_TYPE_L4_IPV6_TCP'', 26),
    (''XDP_RSS_TYPE_L4_IPV6_UDP'', 42), (''XDP_RSS_TYPE_L4_IPV6_SCTP'', 74),
    (''XDP_RSS_TYPE_L4_IPV6_IPSEC'', 138), (''XDP_RSS_TYPE_L4_IPV6_ICMP'', 266),
    (''XDP_RSS_TYPE_L4_IPV6_TCP_EX'', 30), (''XDP_RSS_TYPE_L4_IPV6_UDP_EX'', 46),
    (''XDP_RSS_TYPE_L4_IPV6_SCTP_EX'', 78)]"

definition enum_xdp_rx_metadata :: ctype where
  "enum_xdp_rx_metadata = Enum False [
    (''XDP_METADATA_KFUNC_RX_TIMESTAMP'', 0), (''XDP_METADATA_KFUNC_RX_HASH'', 1),
    (''XDP_METADATA_KFUNC_RX_VLAN_TAG'', 2), (''MAX_XDP_METADATA_KFUNC'', 3)]"

definition struct_rtnl_link_stats64 :: ctype where
  "struct_rtnl_link_stats64 = Comp Struct False [
    Member ''rx_packets'' t___u64,
    Member ''tx_packets'' t___u64,
    Member ''rx_bytes'' t___u64,
    Member ''tx_bytes'' t___u64,
    Member ''rx_errors'' t___u64,
    Member ''tx_errors'' t___u64,
    Member ''rx_dropped'' t___u64,
    Member ''tx_dropped'' t___u64,
    Member ''multicast'' t___u64,
    Member ''collisions'' t___u64,
    Member ''rx_length_errors'' t___u64,
    Member ''rx_over_errors'' t___u64,
    Member ''rx_crc_errors'' t___u64,
    Member ''rx_frame_errors'' t___u64,
    Member ''rx_fifo_errors'' t___u64,
    Member ''rx_missed_errors'' t___u64,
    Member ''tx_aborted_errors'' t___u64,
    Member ''tx_carrier_errors'' t___u64,
    Member ''tx_fifo_errors'' t___u64,
    Member ''tx_heartbeat_errors'' t___u64,
    Member ''tx_window_errors'' t___u64,
    Member ''rx_compressed'' t___u64,
    Member ''tx_compressed'' t___u64,
    Member ''rx_nohandler'' t___u64,
    Member ''rx_otherhost_dropped'' t___u64]"

definition struct_nl80211_wowlan_tcp_data_seq :: ctype where
  "struct_nl80211_wowlan_tcp_data_seq = Comp Struct False [
    Member ''start'' t___u32,
    Member ''offset'' t___u32,
    Member ''len'' t___u32]"

definition struct_nl80211_wowlan_tcp_data_token :: ctype where
  "struct_nl80211_wowlan_tcp_data_token = Comp Struct False [
    Member ''offset'' t___u32,
    Member ''len'' t___u32,
    Member ''token_stream'' (Array 0 t___u8)]"

definition struct_ethtool_channels :: ctype where
  "struct_ethtool_channels = Comp Struct False [
    Member ''cmd'' t___u32,
    Member ''max_rx'' t___u32,
    Member ''max_tx'' t___u32,
    Member ''max_other'' t___u32,
    Member ''max_combined'' t___u32,
    Member ''rx_count'' t___u32,
    Member ''tx_count'' t___u32,
    Member ''other_count'' t___u32,
    Member ''combined_count'' t___u32]"

definition struct_ethtool_coalesce :: ctype where
  "struct_ethtool_coalesce = Comp Struct False [
    Member ''cmd'' t___u32,
    Member ''rx_coalesce_usecs'' t___u32,
    Member ''rx_max_coalesced_frames'' t___u32,
    Member ''rx_coalesce_usecs_irq'' t___u32,
    Member ''rx_max_coalesced_frames_irq'' t___u32,
    Member ''tx_coalesce_usecs'' t___u32,
    Member ''tx_max_coalesced_frames'' t___u32,
    Member ''tx_coalesce_usecs_irq'' t___u32,
    Member ''tx_max_coalesced_frames_irq'' t___u32,
    Member ''stats_block_coalesce_usecs'' t___u32,
    Member ''use_adaptive_rx_coalesce'' t___u32,
    Member ''use_adaptive_tx_coalesce'' t___u32,
    Member ''pkt_rate_low'' t___u32,
    Member ''rx_coalesce_usecs_low'' t___u32,
    Member ''rx_max_coalesced_frames_low'' t___u32,
    Member ''tx_coalesce_usecs_low'' t___u32,
    Member ''tx_max_coalesced_frames_low'' t___u32,
    Member ''pkt_rate_high'' t___u32,
    Member ''rx_coalesce_usecs_high'' t___u32,
    Member ''rx_max_coalesced_frames_high'' t___u32,
    Member ''tx_coalesce_usecs_high'' t___u32,
    Member ''tx_max_coalesced_frames_high'' t___u32,
    Member ''rate_sample_interval'' t___u32]"

definition struct_netdev_phys_item_id :: ctype where
  "struct_netdev_phys_item_id = Comp Struct False [
    Member ''id'' (Array 32 c_unsigned_char),
    Member ''id_len'' c_unsigned_char]"

definition struct_net_iov_area :: ctype where
  "struct_net_iov_area = Comp Struct False [
    Member ''niovs'' (Ptr ''struct net_iov *''),
    Member ''num_niovs'' t_size_t,
    Member ''base_virtual'' c_unsigned_long]"

definition struct_ethtool_keee :: ctype where
  "struct_ethtool_keee = Comp Struct False [
    Member ''supported'' (Array 2 c_unsigned_long),
    Member ''advertised'' (Array 2 c_unsigned_long),
    Member ''lp_advertised'' (Array 2 c_unsigned_long),
    Member ''tx_lpi_timer'' t_u32,
    Member ''tx_lpi_enabled'' t_bool,
    Member ''eee_active'' t_bool,
    Member ''eee_enabled'' t_bool]"

definition struct_sockaddr_inet :: ctype where
  "struct_sockaddr_inet = Comp Struct False [
    Member ''sa_family'' c_unsigned_short,
    Member ''sa_data'' (Array 26 c_char)]"

definition struct_ethtool_ah_espip4_spec :: ctype where
  "struct_ethtool_ah_espip4_spec = Comp Struct False [
    Member ''ip4src'' t___be32,
    Member ''ip4dst'' t___be32,
    Member ''spi'' t___be32,
    Member ''tos'' t___u8]"

definition struct_ethtool_ah_espip6_spec :: ctype where
  "struct_ethtool_ah_espip6_spec = Comp Struct False [
    Member ''ip6src'' (Array 4 t___be32),
    Member ''ip6dst'' (Array 4 t___be32),
    Member ''spi'' t___be32,
    Member ''tclass'' t___u8]"

definition struct_ethtool_c33_pse_ext_state_info :: ctype where
  "struct_ethtool_c33_pse_ext_state_info = Comp Struct False [
    Member ''c33_pse_ext_state'' enum_ethtool_c33_pse_ext_state,
    Member '''' (Comp Union False [
      Member ''error_condition'' enum_ethtool_c33_pse_ext_substate_error_condition,
      Member ''mr_pse_enable'' enum_ethtool_c33_pse_ext_substate_mr_pse_enable,
      Member ''option_detect_ted'' enum_ethtool_c33_pse_ext_substate_option_detect_ted,
      Member ''option_vport_lim'' enum_ethtool_c33_pse_ext_substate_option_vport_lim,
      Member ''ovld_detected'' enum_ethtool_c33_pse_ext_substate_ovld_detected,
      Member ''power_not_available'' enum_ethtool_c33_pse_ext_substate_power_not_available,
      Member ''short_detected'' enum_ethtool_c33_pse_ext_substate_short_detected,
      Member ''__c33_pse_ext_substate'' t_u32])]"

definition struct_ethtool_c33_pse_pw_limit_range :: ctype where
  "struct_ethtool_c33_pse_pw_limit_range = Comp Struct False [
    Member ''min'' t_u32,
    Member ''max'' t_u32]"

definition struct_ethtool_cmd :: ctype where
  "struct_ethtool_cmd = Comp Struct False [
    Member ''cmd'' t___u32,
    Member ''supported'' t___u32,
    Member ''advertising'' t___u32,
    Member ''speed'' t___u16,
    Member ''duplex'' t___u8,
    Member ''port'' t___u8,
    Member ''phy_address'' t___u8,
    Member ''transceiver'' t___u8,
    Member ''autoneg'' t___u8,
    Member ''mdio_support'' t___u8,
    Member ''maxtxpkt'' t___u32,
    Member ''maxrxpkt'' t___u32,
    Member ''speed_hi'' t___u16,
    Member ''eth_tp_mdix'' t___u8,
    Member ''eth_tp_mdix_ctrl'' t___u8,
    Member ''lp_advertising'' t___u32,
    Member ''reserved'' (Array 2 t___u32)]"

definition struct_ethtool_cmis_cdb :: ctype where
  "struct_ethtool_cmis_cdb = Comp Struct False [
    Member ''cmis_rev'' t_u8,
    Member ''read_write_len_ext'' t_u8,
    Member ''max_completion_time'' t_u16]"

definition struct_ethtool_cmis_cdb_request :: ctype where
  "struct_ethtool_cmis_cdb_request = Comp Struct False [
    Member ''id'' t___be16,
    Member '''' (Comp Union False [
      Member '''' (Comp Struct False [
        Member ''epl_len'' t___be16,
        Member ''lpl_len'' t_u8,
        Member ''chk_code'' t_u8,
        Member ''resv1'' t_u8,
        Member ''resv2'' t_u8,
        Member ''payload'' (Array 120 t_u8)]),
      Member ''body'' (Comp Struct False [
        Member ''epl_len'' t___be16,
        Member ''lpl_len'' t_u8,
        Member ''chk_code'' t_u8,
        Member ''resv1'' t_u8,
        Member ''resv2'' t_u8,
        Member ''payload'' (Array 120 t_u8)])]),
    Member ''epl'' (Ptr ''u8 *'')]"

definition struct_ethtool_cmis_cdb_cmd_args :: ctype where
  "struct_ethtool_cmis_cdb_cmd_args = Comp Struct False [
    Member ''req'' struct_ethtool_cmis_cdb_request,
    Member ''max_duration'' t_u16,
    Member ''read_write_len_ext'' t_u8,
    Member ''msleep_pre_rpl'' t_u8,
    Member ''rpl_exp_len'' t_u8,
    Member ''flags'' t_u8,
    Member ''err_msg'' (Ptr ''char *'')]"

definition struct_ethtool_cmis_cdb_rpl_hdr :: ctype where
  "struct_ethtool_cmis_cdb_rpl_hdr = Comp Struct False [
    Member ''rpl_len'' t_u8,
    Member ''rpl_chk_code'' t_u8]"

definition struct_ethtool_cmis_cdb_rpl :: ctype where
  "struct_ethtool_cmis_cdb_rpl = Comp Struct False [
    Member ''hdr'' struct_ethtool_cmis_cdb_rpl_hdr,
    Member ''payload'' (Array 120 t_u8)]"

definition struct_ethtool_module_fw_flash_params :: ctype where
  "struct_ethtool_module_fw_flash_params = Comp Struct False [
    Member ''password'' t___be32,
    BitField ''password_valid'' t_u8 1]"

definition struct_ethnl_module_fw_flash_ntf_params :: ctype where
  "struct_ethnl_module_fw_flash_ntf_params = Comp Struct False [
    Member ''portid'' t_u32,
    Member ''seq'' t_u32,
    Member ''closed_sock'' t_bool]"

definition struct_ethtool_cmis_fw_update_params :: ctype where
  "struct_ethtool_cmis_fw_update_params = Comp Struct False [
    Member ''dev'' (Ptr ''struct net_device *''),
    Member ''params'' struct_ethtool_module_fw_flash_params,
    Member ''ntf_params'' struct_ethnl_module_fw_flash_ntf_params,
    Member ''fw'' (Ptr ''struct firmware *'')]"

definition struct_ethtool_flash :: ctype where
  "struct_ethtool_flash = Comp Struct False [
    Member ''cmd'' t___u32,
    Member ''region'' t___u32,
    Member ''data'' (Array 128 c_char)]"

definition struct_ethtool_drvinfo :: ctype where
  "struct_ethtool_drvinfo = Comp Struct False [
    Member ''cmd'' t___u32,
    Member ''driver'' (Array 32 c_char),
    Member ''version'' (Array 32 c_char),
    Member ''fw_version'' (Array 32 c_char),
    Member ''bus_info'' (Array 32 c_char),
    Member ''erom_version'' (Array 32 c_char),
    Member ''reserved2'' (Array 12 c_char),
    Member ''n_priv_flags'' t___u32,
    Member ''n_stats'' t___u32,
    Member ''testinfo_len'' t___u32,
    Member ''eedump_len'' t___u32,
    Member ''regdump_len'' t___u32]"

definition struct_ethtool_devlink_compat :: ctype where
  "struct_ethtool_devlink_compat = Comp Struct False [
    Member ''devlink'' (Ptr ''struct devlink *''),
    Member '''' (Comp Union False [
      Member ''efl'' struct_ethtool_flash,
      Member ''info'' struct_ethtool_drvinfo])]"

definition struct_ethtool_dump :: ctype where
  "struct_ethtool_dump = Comp Struct False [
    Member ''cmd'' t___u32,
    Member ''version'' t___u32,
    Member ''flag'' t___u32,
    Member ''len'' t___u32,
    Member ''data'' (Array 0 t___u8)]"

definition struct_ethtool_eee :: ctype where
  "struct_ethtool_eee = Comp Struct False [
    Member ''cmd'' t___u32,
    Member ''supported'' t___u32,
    Member ''advertised'' t___u32,
    Member ''lp_advertised'' t___u32,
    Member ''eee_active'' t___u32,
    Member ''eee_enabled'' t___u32,
    Member ''tx_lpi_enabled'' t___u32,
    Member ''tx_lpi_timer'' t___u32,
    Member ''reserved'' (Array 2 t___u32)]"

definition struct_ethtool_eeprom :: ctype where
  "struct_ethtool_eeprom = Comp Struct False [
    Member ''cmd'' t___u32,
    Member ''magic'' t___u32,
    Member ''offset'' t___u32,
    Member ''len'' t___u32,
    Member ''data'' (Array 0 t___u8)]"

definition struct_ethtool_eth_ctrl_stats :: ctype where
  "struct_ethtool_eth_ctrl_stats = Comp Struct False [
    Member ''src'' enum_ethtool_mac_stats_src,
    Member '''' (Comp Union False [
      Member '''' (Comp Struct False [
        Member ''MACControlFramesTransmitted'' t_u64,
        Member ''MACControlFramesReceived'' t_u64,
        Member ''UnsupportedOpcodesReceived'' t_u64]),
      Member ''stats'' (Comp Struct False [
        Member ''MACControlFramesTransmitted'' t_u64,
        Member ''MACControlFramesReceived'' t_u64,
        Member ''UnsupportedOpcodesReceived'' t_u64])])]"

definition struct_ethtool_eth_mac_stats :: ctype where
  "struct_ethtool_eth_mac_stats = Comp Struct False [
    Member ''src'' enum_ethtool_mac_stats_src,
    Member '''' (Comp Union False [
      Member '''' (Comp Struct False [
        Member ''FramesTransmittedOK'' t_u64,
        Member ''SingleCollisionFrames'' t_u64,
        Member ''MultipleCollisionFrames'' t_u64,
        Member ''FramesReceivedOK'' t_u64,
        Member ''FrameCheckSequenceErrors'' t_u64,
        Member ''AlignmentErrors'' t_u64,
        Member ''OctetsTransmittedOK'' t_u64,
        Member ''FramesWithDeferredXmissions'' t_u64,
        Member ''LateCollisions'' t_u64,
        Member ''FramesAbortedDueToXSColls'' t_u64,
        Member ''FramesLostDueToIntMACXmitError'' t_u64,
        Member ''CarrierSenseErrors'' t_u64,
        Member ''OctetsReceivedOK'' t_u64,
        Member ''FramesLostDueToIntMACRcvError'' t_u64,
        Member ''MulticastFramesXmittedOK'' t_u64,
        Member ''BroadcastFramesXmittedOK'' t_u64,
        Member ''FramesWithExcessiveDeferral'' t_u64,
        Member ''MulticastFramesReceivedOK'' t_u64,
        Member ''BroadcastFramesReceivedOK'' t_u64,
        Member ''InRangeLengthErrors'' t_u64,
        Member ''OutOfRangeLengthField'' t_u64,
        Member ''FrameTooLongErrors'' t_u64]),
      Member ''stats'' (Comp Struct False [
        Member ''FramesTransmittedOK'' t_u64,
        Member ''SingleCollisionFrames'' t_u64,
        Member ''MultipleCollisionFrames'' t_u64,
        Member ''FramesReceivedOK'' t_u64,
        Member ''FrameCheckSequenceErrors'' t_u64,
        Member ''AlignmentErrors'' t_u64,
        Member ''OctetsTransmittedOK'' t_u64,
        Member ''FramesWithDeferredXmissions'' t_u64,
        Member ''LateCollisions'' t_u64,
        Member ''FramesAbortedDueToXSColls'' t_u64,
        Member ''FramesLostDueToIntMACXmitError'' t_u64,
        Member ''CarrierSenseErrors'' t_u64,
        Member ''OctetsReceivedOK'' t_u64,
        Member ''FramesLostDueToIntMACRcvError'' t_u64,
        Member ''MulticastFramesXmittedOK'' t_u64,
        Member ''BroadcastFramesXmittedOK'' t_u64,
        Member ''FramesWithExcessiveDeferral'' t_u64,
        Member ''MulticastFramesReceivedOK'' t_u64,
        Member ''BroadcastFramesReceivedOK'' t_u64,
        Member ''InRangeLengthErrors'' t_u64,
        Member ''OutOfRangeLengthField'' t_u64,
        Member ''FrameTooLongErrors'' t_u64])])]"

definition struct_ethtool_eth_phy_stats :: ctype where
  "struct_ethtool_eth_phy_stats = Comp Struct False [
    Member ''src'' enum_ethtool_mac_stats_src,
    Member '''' (Comp Union False [
      Member '''' (Comp Struct False [
        Member ''SymbolErrorDuringCarrier'' t_u64]),
      Member ''stats'' (Comp Struct False [
        Member ''SymbolErrorDuringCarrier'' t_u64])])]"

definition struct_ethtool_fec_stat :: ctype where
  "struct_ethtool_fec_stat = Comp Struct False [
    Member ''total'' t_u64,
    Member ''lanes'' (Array 8 t_u64)]"

definition struct_ethtool_fec_stats :: ctype where
  "struct_ethtool_fec_stats = Comp Struct False [
    Member ''corrected_blocks'' struct_ethtool_fec_stat,
    Member ''uncorrectable_blocks'' struct_ethtool_fec_stat,
    Member ''corrected_bits'' struct_ethtool_fec_stat]"

definition struct_ethtool_fecparam :: ctype where
  "struct_ethtool_fecparam = Comp Struct False [
    Member ''cmd'' t___u32,
    Member ''active_fec'' t___u32,
    Member ''fec'' t___u32,
    Member ''reserved'' t___u32]"

definition struct_ethtool_flow_ext :: ctype where
  "struct_ethtool_flow_ext = Comp Struct False [
    Member ''padding'' (Array 2 t___u8),
    Member ''h_dest'' (Array 6 c_unsigned_char),
    Member ''vlan_etype'' t___be16,
    Member ''vlan_tci'' t___be16,
    Member ''data'' (Array 2 t___be32)]"

definition struct_ethtool_tcpip4_spec :: ctype where
  "struct_ethtool_tcpip4_spec = Comp Struct False [
    Member ''ip4src'' t___be32,
    Member ''ip4dst'' t___be32,
    Member ''psrc'' t___be16,
    Member ''pdst'' t___be16,
    Member ''tos'' t___u8]"

definition struct_ethtool_usrip4_spec :: ctype where
  "struct_ethtool_usrip4_spec = Comp Struct False [
    Member ''ip4src'' t___be32,
    Member ''ip4dst'' t___be32,
    Member ''l4_4_bytes'' t___be32,
    Member ''tos'' t___u8,
    Member ''ip_ver'' t___u8,
    Member ''proto'' t___u8]"

definition struct_ethtool_tcpip6_spec :: ctype where
  "struct_ethtool_tcpip6_spec = Comp Struct False [
    Member ''ip6src'' (Array 4 t___be32),
    Member ''ip6dst'' (Array 4 t___be32),
    Member ''psrc'' t___be16,
    Member ''pdst'' t___be16,
    Member ''tclass'' t___u8]"

definition struct_ethtool_usrip6_spec :: ctype where
  "struct_ethtool_usrip6_spec = Comp Struct False [
    Member ''ip6src'' (Array 4 t___be32),
    Member ''ip6dst'' (Array 4 t___be32),
    Member ''l4_4_bytes'' t___be32,
    Member ''tclass'' t___u8,
    Member ''l4_proto'' t___u8]"

definition union_ethtool_flow_union :: ctype where
  "union_ethtool_flow_union = Comp Union False [
    Member ''tcp_ip4_spec'' struct_ethtool_tcpip4_spec,
    Member ''udp_ip4_spec'' struct_ethtool_tcpip4_spec,
    Member ''sctp_ip4_spec'' struct_ethtool_tcpip4_spec,
    Member ''ah_ip4_spec'' struct_ethtool_ah_espip4_spec,
    Member ''esp_ip4_spec'' struct_ethtool_ah_espip4_spec,
    Member ''usr_ip4_spec'' struct_ethtool_usrip4_spec,
    Member ''tcp_ip6_spec'' struct_ethtool_tcpip6_spec,
    Member ''udp_ip6_spec'' struct_ethtool_tcpip6_spec,
    Member ''sctp_ip6_spec'' struct_ethtool_tcpip6_spec,
    Member ''ah_ip6_spec'' struct_ethtool_ah_espip6_spec,
    Member ''esp_ip6_spec'' struct_ethtool_ah_espip6_spec,
    Member ''usr_ip6_spec'' struct_ethtool_usrip6_spec,
    Member ''ether_spec'' struct_ethhdr,
    Member ''hdata'' (Array 52 t___u8)]"

definition struct_ethtool_forced_speed_map :: ctype where
  "struct_ethtool_forced_speed_map = Comp Struct False [
    Member ''speed'' t_u32,
    Member ''caps'' (Array 2 c_unsigned_long),
    Member ''cap_arr'' (Ptr ''u32 *''),
    Member ''arr_size'' t_u32]"

definition struct_ethtool_get_features_block :: ctype where
  "struct_ethtool_get_features_block = Comp Struct False [
    Member ''available'' t___u32,
    Member ''requested'' t___u32,
    Member ''active'' t___u32,
    Member ''never_changed'' t___u32]"

definition struct_ethtool_gfeatures :: ctype where
  "struct_ethtool_gfeatures = Comp Struct False [
    Member ''cmd'' t___u32,
    Member ''size'' t___u32,
    Member ''features'' (Array 0 struct_ethtool_get_features_block)]"

definition struct_ethtool_gstrings :: ctype where
  "struct_ethtool_gstrings = Comp Struct False [
    Member ''cmd'' t___u32,
    Member ''string_set'' t___u32,
    Member ''len'' t___u32,
    Member ''data'' (Array 0 t___u8)]"

definition struct_ethtool_link_ext_state_info :: ctype where
  "struct_ethtool_link_ext_state_info = Comp Struct False [
    Member ''link_ext_state'' enum_ethtool_link_ext_state,
    Member '''' (Comp Union False [
      Member ''autoneg'' enum_ethtool_link_ext_substate_autoneg,
      Member ''link_training'' enum_ethtool_link_ext_substate_link_training,
      Member ''link_logical_mismatch'' enum_ethtool_link_ext_substate_link_logical_mismatch,
      Member ''bad_signal_integrity'' enum_ethtool_link_ext_substate_bad_signal_integrity,
      Member ''cable_issue'' enum_ethtool_link_ext_substate_cable_issue,
      Member ''module'' enum_ethtool_link_ext_substate_module,
      Member ''__link_ext_substate'' t_u32])]"

definition struct_ethtool_link_ext_stats :: ctype where
  "struct_ethtool_link_ext_stats = Comp Struct False [
    Member ''link_down_events'' t_u64]"

definition struct_ethtool_link_settings :: ctype where
  "struct_ethtool_link_settings = Comp Struct False [
    Member ''cmd'' t___u32,
    Member ''speed'' t___u32,
    Member ''duplex'' t___u8,
    Member ''port'' t___u8,
    Member ''phy_address'' t___u8,
    Member ''autoneg'' t___u8,
    Member ''mdio_support'' t___u8,
    Member ''eth_tp_mdix'' t___u8,
    Member ''eth_tp_mdix_ctrl'' t___u8,
    Member ''link_mode_masks_nwords'' t___s8,
    Member ''transceiver'' t___u8,
    Member ''master_slave_cfg'' t___u8,
    Member ''master_slave_state'' t___u8,
    Member ''rate_matching'' t___u8,
    Member ''reserved'' (Array 7 t___u32)]"

definition struct_ethtool_link_ksettings :: ctype where
  "struct_ethtool_link_ksettings = Comp Struct False [
    Member ''base'' struct_ethtool_link_settings,
    Member ''link_modes'' (Comp Struct False [
      Member ''supported'' (Array 2 c_unsigned_long),
      Member ''advertising'' (Array 2 c_unsigned_long),
      Member ''lp_advertising'' (Array 2 c_unsigned_long)]),
    Member ''lanes'' t_u32]"

definition struct_ethtool_link_usettings :: ctype where
  "struct_ethtool_link_usettings = Comp Struct False [
    Member ''base'' struct_ethtool_link_settings,
    Member ''link_modes'' (Comp Struct False [
      Member ''supported'' (Array 4 t___u32),
      Member ''advertising'' (Array 4 t___u32),
      Member ''lp_advertising'' (Array 4 t___u32)])]"

definition struct_ethtool_mm_cfg :: ctype where
  "struct_ethtool_mm_cfg = Comp Struct False [
    Member ''verify_time'' t_u32,
    Member ''verify_enabled'' t_bool,
    Member ''tx_enabled'' t_bool,
    Member ''pmac_enabled'' t_bool,
    Member ''tx_min_frag_size'' t_u32]"

definition struct_ethtool_mm_state :: ctype where
  "struct_ethtool_mm_state = Comp Struct False [
    Member ''verify_time'' t_u32,
    Member ''max_verify_time'' t_u32,
    Member ''verify_status'' enum_ethtool_mm_verify_status,
    Member ''tx_enabled'' t_bool,
    Member ''tx_active'' t_bool,
    Member ''pmac_enabled'' t_bool,
    Member ''verify_enabled'' t_bool,
    Member ''tx_min_frag_size'' t_u32,
    Member ''rx_min_frag_size'' t_u32]"

definition struct_ethtool_mm_stats :: ctype where
  "struct_ethtool_mm_stats = Comp Struct False [
    Member ''MACMergeFrameAssErrorCount'' t_u64,
    Member ''MACMergeFrameSmdErrorCount'' t_u64,
    Member ''MACMergeFrameAssOkCount'' t_u64,
    Member ''MACMergeFragCountRx'' t_u64,
    Member ''MACMergeFragCountTx'' t_u64,
    Member ''MACMergeHoldCount'' t_u64]"

definition struct_ethtool_mmsv :: ctype where
  "struct_ethtool_mmsv = Comp Struct False [
    Member ''ops'' (Ptr ''struct ethtool_mmsv_ops *''),
    Member ''dev'' (Ptr ''struct net_device *''),
    Member ''lock'' t_spinlock_t,
    Member ''status'' enum_ethtool_mm_verify_status,
    Member ''verify_timer'' struct_timer_list,
    Member ''verify_enabled'' t_bool,
    Member ''verify_retries'' c_int,
    Member ''pmac_enabled'' t_bool,
    Member ''verify_time'' t_u32,
    Member ''tx_enabled'' t_bool]"

definition struct_ethtool_mmsv_ops :: ctype where
  "struct_ethtool_mmsv_ops = Comp Struct False [
    Member ''configure_tx'' (Ptr ''void (*)(struct ethtool_mmsv *, bool)''),
    Member ''configure_pmac'' (Ptr ''void (*)(struct ethtool_mmsv *, bool)''),
    Member ''send_mpacket'' (Ptr ''void (*)(struct ethtool_mmsv *, enum ethtool_mpacket)'')]"

definition struct_ethtool_modinfo :: ctype where
  "struct_ethtool_modinfo = Comp Struct False [
    Member ''cmd'' t___u32,
    Member ''type'' t___u32,
    Member ''eeprom_len'' t___u32,
    Member ''reserved'' (Array 8 t___u32)]"

definition struct_ethtool_module_eeprom :: ctype where
  "struct_ethtool_module_eeprom = Comp Struct False [
    Member ''offset'' t_u32,
    Member ''length'' t_u32,
    Member ''page'' t_u8,
    Member ''bank'' t_u8,
    Member ''i2c_address'' t_u8,
    Member ''data'' (Ptr ''u8 *'')]"

definition struct_ethtool_module_fw_flash :: ctype where
  "struct_ethtool_module_fw_flash = Comp Struct False [
    Member ''list'' struct_list_head,
    Member ''dev_tracker'' t_netdevice_tracker,
    Member ''work'' struct_work_struct,
    Member ''fw_update'' struct_ethtool_cmis_fw_update_params]"

definition struct_ethtool_module_power_mode_params :: ctype where
  "struct_ethtool_module_power_mode_params = Comp Struct False [
    Member ''policy'' enum_ethtool_module_power_mode_policy,
    Member ''mode'' enum_ethtool_module_power_mode]"

definition struct_ethtool_netdev_state :: ctype where
  "struct_ethtool_netdev_state = Comp Struct False [
    Member ''rss_ctx'' struct_xarray,
    Member ''rss_lock'' struct_mutex,
    BitField ''wol_enabled'' c_unsigned_int 1,
    BitField ''module_fw_flash_in_progress'' c_unsigned_int 1]"

definition struct_ethtool_pause_stats :: ctype where
  "struct_ethtool_pause_stats = Comp Struct False [
    Member ''src'' enum_ethtool_mac_stats_src,
    Member '''' (Comp Union False [
      Member '''' (Comp Struct False [
        Member ''tx_pause_frames'' t_u64,
        Member ''rx_pause_frames'' t_u64]),
      Member ''stats'' (Comp Struct False [
        Member ''tx_pause_frames'' t_u64,
        Member ''rx_pause_frames'' t_u64])])]"

definition struct_ethtool_pauseparam :: ctype where
  "struct_ethtool_pauseparam = Comp Struct False [
    Member ''cmd'' t___u32,
    Member ''autoneg'' t___u32,
    Member ''rx_pause'' t___u32,
    Member ''tx_pause'' t___u32]"

definition struct_ethtool_per_queue_op :: ctype where
  "struct_ethtool_per_queue_op = Comp Struct False [
    Member ''cmd'' t___u32,
    Member ''sub_command'' t___u32,
    Member ''queue_mask'' (Array 128 t___u32),
    Member ''data'' (Array 0 c_char)]"

definition struct_ethtool_perm_addr :: ctype where
  "struct_ethtool_perm_addr = Comp Struct False [
    Member ''cmd'' t___u32,
    Member ''size'' t___u32,
    Member ''data'' (Array 0 t___u8)]"

definition struct_ethtool_phy_ops :: ctype where
  "struct_ethtool_phy_ops = Comp Struct False [
    Member ''get_sset_count'' (Ptr ''int (*)(struct phy_device *)''),
    Member ''get_strings'' (Ptr ''int (*)(struct phy_device *, u8 *)''),
    Member ''get_stats'' (Ptr ''int (*)(struct phy_device *, struct ethtool_stats *, u64 *)''),
    Member ''get_plca_cfg'' (Ptr ''int (*)(struct phy_device *, struct phy_plca_cfg *)''),
    Member ''set_plca_cfg'' (Ptr ''int (*)(struct phy_device *, const struct phy_plca_cfg *, struct netlink_ext_ack *)''),
    Member ''get_plca_status'' (Ptr ''int (*)(struct phy_device *, struct phy_plca_status *)''),
    Member ''start_cable_test'' (Ptr ''int (*)(struct phy_device *, struct netlink_ext_ack *)''),
    Member ''start_cable_test_tdr'' (Ptr ''int (*)(struct phy_device *, struct netlink_ext_ack *, const struct phy_tdr_config *)'')]"

definition struct_ethtool_phy_stats :: ctype where
  "struct_ethtool_phy_stats = Comp Struct False [
    Member ''rx_packets'' t_u64,
    Member ''rx_bytes'' t_u64,
    Member ''rx_errors'' t_u64,
    Member ''tx_packets'' t_u64,
    Member ''tx_bytes'' t_u64,
    Member ''tx_errors'' t_u64]"

definition struct_ethtool_pse_control_status :: ctype where
  "struct_ethtool_pse_control_status = Comp Struct False [
    Member ''pw_d_id'' t_u32,
    Member ''podl_admin_state'' enum_ethtool_podl_pse_admin_state,
    Member ''podl_pw_status'' enum_ethtool_podl_pse_pw_d_status,
    Member ''c33_admin_state'' enum_ethtool_c33_pse_admin_state,
    Member ''c33_pw_status'' enum_ethtool_c33_pse_pw_d_status,
    Member ''c33_pw_class'' t_u32,
    Member ''c33_actual_pw'' t_u32,
    Member ''c33_ext_state_info'' struct_ethtool_c33_pse_ext_state_info,
    Member ''c33_avail_pw_limit'' t_u32,
    Member ''c33_pw_limit_ranges'' (Ptr ''struct ethtool_c33_pse_pw_limit_range *''),
    Member ''c33_pw_limit_nb_ranges'' t_u32,
    Member ''prio_max'' t_u32,
    Member ''prio'' t_u32]"

definition struct_ethtool_regs :: ctype where
  "struct_ethtool_regs = Comp Struct False [
    Member ''cmd'' t___u32,
    Member ''version'' t___u32,
    Member ''len'' t___u32,
    Member ''data'' (Array 0 t___u8)]"

definition struct_ethtool_ringparam :: ctype where
  "struct_ethtool_ringparam = Comp Struct False [
    Member ''cmd'' t___u32,
    Member ''rx_max_pending'' t___u32,
    Member ''rx_mini_max_pending'' t___u32,
    Member ''rx_jumbo_max_pending'' t___u32,
    Member ''tx_max_pending'' t___u32,
    Member ''rx_pending'' t___u32,
    Member ''rx_mini_pending'' t___u32,
    Member ''rx_jumbo_pending'' t___u32,
    Member ''tx_pending'' t___u32]"

definition struct_ethtool_rmon_hist_range :: ctype where
  "struct_ethtool_rmon_hist_range = Comp Struct False [
    Member ''low'' t_u16,
    Member ''high'' t_u16]"

definition struct_ethtool_rmon_stats :: ctype where
  "struct_ethtool_rmon_stats = Comp Struct False [
    Member ''src'' enum_ethtool_mac_stats_src,
    Member '''' (Comp Union False [
      Member '''' (Comp Struct False [
        Member ''undersize_pkts'' t_u64,
        Member ''oversize_pkts'' t_u64,
        Member ''fragments'' t_u64,
        Member ''jabbers'' t_u64,
        Member ''hist'' (Array 11 t_u64),
        Member ''hist_tx'' (Array 11 t_u64)]),
      Member ''stats'' (Comp Struct False [
        Member ''undersize_pkts'' t_u64,
        Member ''oversize_pkts'' t_u64,
        Member ''fragments'' t_u64,
        Member ''jabbers'' t_u64,
        Member ''hist'' (Array 11 t_u64),
        Member ''hist_tx'' (Array 11 t_u64)])])]"

definition struct_flow_dissector_key_basic :: ctype where
  "struct_flow_dissector_key_basic = Comp Struct False [
    Member ''n_proto'' t___be16,
    Member ''ip_proto'' t_u8,
    Member ''padding'' t_u8]"

definition struct_flow_dissector_key_ipv4_addrs :: ctype where
  "struct_flow_dissector_key_ipv4_addrs = Comp Struct False [
    Member ''src'' t___be32,
    Member ''dst'' t___be32]"

definition struct_flow_dissector_key_ipv6_addrs :: ctype where
  "struct_flow_dissector_key_ipv6_addrs = Comp Struct False [
    Member ''src'' struct_in6_addr,
    Member ''dst'' struct_in6_addr]"

definition struct_flow_dissector_key_ports :: ctype where
  "struct_flow_dissector_key_ports = Comp Struct False [
    Member '''' (Comp Union False [
      Member ''ports'' t___be32,
      Member '''' (Comp Struct False [
        Member ''src'' t___be16,
        Member ''dst'' t___be16])])]"

definition struct_flow_dissector_key_ip :: ctype where
  "struct_flow_dissector_key_ip = Comp Struct False [
    Member ''tos'' t___u8,
    Member ''ttl'' t___u8]"

definition struct_flow_dissector_key_vlan :: ctype where
  "struct_flow_dissector_key_vlan = Comp Struct False [
    Member '''' (Comp Union False [
      Member '''' (Comp Struct False [
        BitField ''vlan_id'' t_u16 12,
        BitField ''vlan_dei'' t_u16 1,
        BitField ''vlan_priority'' t_u16 3]),
      Member ''vlan_tci'' t___be16]),
    Member ''vlan_tpid'' t___be16,
    Member ''vlan_eth_type'' t___be16,
    Member ''padding'' t_u16]"

definition struct_flow_dissector_key_eth_addrs :: ctype where
  "struct_flow_dissector_key_eth_addrs = Comp Struct False [
    Member ''dst'' (Array 6 c_unsigned_char),
    Member ''src'' (Array 6 c_unsigned_char)]"

definition struct_ethtool_rx_flow_key :: ctype where
  "struct_ethtool_rx_flow_key = Comp Struct False [
    Member ''basic'' struct_flow_dissector_key_basic,
    Member '''' (Comp Union False [
      Member ''ipv4'' struct_flow_dissector_key_ipv4_addrs,
      Member ''ipv6'' struct_flow_dissector_key_ipv6_addrs]),
    Member ''tp'' struct_flow_dissector_key_ports,
    Member ''ip'' struct_flow_dissector_key_ip,
    Member ''vlan'' struct_flow_dissector_key_vlan,
    Member ''eth_addrs'' struct_flow_dissector_key_eth_addrs]"

definition struct_flow_dissector :: ctype where
  "struct_flow_dissector = Comp Struct False [
    Member ''used_keys'' c_unsigned_long_long,
    Member ''offset'' (Array 33 c_unsigned_short)]"

definition struct_ethtool_rx_flow_match :: ctype where
  "struct_ethtool_rx_flow_match = Comp Struct False [
    Member ''dissector'' struct_flow_dissector,
    Member ''key'' struct_ethtool_rx_flow_key,
    Member ''mask'' struct_ethtool_rx_flow_key]"

definition struct_ethtool_rx_flow_rule :: ctype where
  "struct_ethtool_rx_flow_rule = Comp Struct False [
    Member ''rule'' (Ptr ''struct flow_rule *''),
    Member ''priv'' (Array 0 c_unsigned_long)]"

definition struct_ethtool_rx_flow_spec :: ctype where
  "struct_ethtool_rx_flow_spec = Comp Struct False [
    Member ''flow_type'' t___u32,
    Member ''h_u'' union_ethtool_flow_union,
    Member ''h_ext'' struct_ethtool_flow_ext,
    Member ''m_u'' union_ethtool_flow_union,
    Member ''m_ext'' struct_ethtool_flow_ext,
    Member ''ring_cookie'' t___u64,
    Member ''location'' t___u32]"

definition struct_ethtool_rx_flow_spec_input :: ctype where
  "struct_ethtool_rx_flow_spec_input = Comp Struct False [
    Member ''fs'' (Ptr ''struct ethtool_rx_flow_spec *''),
    Member ''rss_ctx'' t_u32]"

definition struct_ethtool_rxfh :: ctype where
  "struct_ethtool_rxfh = Comp Struct False [
    Member ''cmd'' t___u32,
    Member ''rss_context'' t___u32,
    Member ''indir_size'' t___u32,
    Member ''key_size'' t___u32,
    Member ''hfunc'' t___u8,
    Member ''input_xfrm'' t___u8,
    Member ''rsvd8'' (Array 2 t___u8),
    Member ''rsvd32'' t___u32,
    Member ''rss_config'' (Array 0 t___u32)]"

definition struct_ethtool_rxfh_context :: ctype where
  "struct_ethtool_rxfh_context = Comp Struct False [
    Member ''indir_size'' t_u32,
    Member ''key_size'' t_u32,
    Member ''priv_size'' t_u16,
    Member ''hfunc'' t_u8,
    Member ''input_xfrm'' t_u8,
    BitField ''indir_configured'' t_u8 1,
    BitField ''key_configured'' t_u8 1,
    Member ''key_off'' t_u32,
    BitField '''' c_long 0,
    Member ''data'' (Array 0 t_u8)]"

definition struct_ethtool_rxfh_fields :: ctype where
  "struct_ethtool_rxfh_fields = Comp Struct False [
    Member ''data'' t_u32,
    Member ''flow_type'' t_u32,
    Member ''rss_context'' t_u32]"

definition struct_ethtool_rxfh_param :: ctype where
  "struct_ethtool_rxfh_param = Comp Struct False [
    Member ''hfunc'' t_u8,
    Member ''indir_size'' t_u32,
    Member ''indir'' (Ptr ''u32 *''),
    Member ''key_size'' t_u32,
    Member ''key'' (Ptr ''u8 *''),
    Member ''rss_context'' t_u32,
    Member ''rss_delete'' t_u8,
    Member ''input_xfrm'' t_u8]"

definition struct_ethtool_rxnfc :: ctype where
  "struct_ethtool_rxnfc = Comp Struct False [
    Member ''cmd'' t___u32,
    Member ''flow_type'' t___u32,
    Member ''data'' t___u64,
    Member ''fs'' struct_ethtool_rx_flow_spec,
    Member '''' (Comp Union False [
      Member ''rule_cnt'' t___u32,
      Member ''rss_context'' t___u32]),
    Member ''rule_locs'' (Array 0 t___u32)]"

definition struct_ethtool_set_features_block :: ctype where
  "struct_ethtool_set_features_block = Comp Struct False [
    Member ''valid'' t___u32,
    Member ''requested'' t___u32]"

definition struct_ethtool_sfeatures :: ctype where
  "struct_ethtool_sfeatures = Comp Struct False [
    Member ''cmd'' t___u32,
    Member ''size'' t___u32,
    Member ''features'' (Array 0 struct_ethtool_set_features_block)]"

definition struct_ethtool_sset_info :: ctype where
  "struct_ethtool_sset_info = Comp Struct False [
    Member ''cmd'' t___u32,
    Member ''reserved'' t___u32,
    Member ''sset_mask'' t___u64,
    Member ''data'' (Array 0 t___u32)]"

definition struct_ethtool_stats :: ctype where
  "struct_ethtool_stats = Comp Struct False [
    Member ''cmd'' t___u32,
    Member ''n_stats'' t___u32,
    Member ''data'' (Array 0 t___u64)]"

definition struct_ethtool_test :: ctype where
  "struct_ethtool_test = Comp Struct False [
    Member ''cmd'' t___u32,
    Member ''flags'' t___u32,
    Member ''reserved'' t___u32,
    Member ''len'' t___u32,
    Member ''data'' (Array 0 t___u64)]"

definition struct_ethtool_ts_info :: ctype where
  "struct_ethtool_ts_info = Comp Struct False [
    Member ''cmd'' t___u32,
    Member ''so_timestamping'' t___u32,
    Member ''phc_index'' t___s32,
    Member ''tx_types'' t___u32,
    Member ''tx_reserved'' (Array 3 t___u32),
    Member ''rx_filters'' t___u32,
    Member ''rx_reserved'' (Array 3 t___u32)]"

definition struct_ethtool_ts_stats :: ctype where
  "struct_ethtool_ts_stats = Comp Struct False [
    Member '''' (Comp Union False [
      Member '''' (Comp Struct False [
        Member ''pkts'' t_u64,
        Member ''onestep_pkts_unconfirmed'' t_u64,
        Member ''lost'' t_u64,
        Member ''err'' t_u64]),
      Member ''tx_stats'' (Comp Struct False [
        Member ''pkts'' t_u64,
        Member ''onestep_pkts_unconfirmed'' t_u64,
        Member ''lost'' t_u64,
        Member ''err'' t_u64])])]"

definition struct_ethtool_tunable :: ctype where
  "struct_ethtool_tunable = Comp Struct False [
    Member ''cmd'' t___u32,
    Member ''id'' t___u32,
    Member ''type_id'' t___u32,
    Member ''len'' t___u32,
    Member ''data'' (Array 0 (Ptr ''void *''))]"

definition struct_ethtool_value :: ctype where
  "struct_ethtool_value = Comp Struct False [
    Member ''cmd'' t___u32,
    Member ''data'' t___u32]"

definition struct_ethtool_wolinfo :: ctype where
  "struct_ethtool_wolinfo = Comp Struct False [
    Member ''cmd'' t___u32,
    Member ''supported'' t___u32,
    Member ''wolopts'' t___u32,
    Member ''sopass'' (Array 6 t___u8)]"

definition struct_genl_split_ops :: ctype where
  "struct_genl_split_ops = Comp Struct False [
    Member '''' (Comp Union False [
      Member '''' (Comp Struct False [
        Member ''pre_doit'' (Ptr ''int (*)(const struct genl_split_ops *, struct sk_buff *, struct genl_info *)''),
        Member ''doit'' (Ptr ''int (*)(struct sk_buff *, struct genl_info *)''),
        Member ''post_doit'' (Ptr ''void (*)(const struct genl_split_ops *, struct sk_buff *, struct genl_info *)'')]),
      Member '''' (Comp Struct False [
        Member ''start'' (Ptr ''int (*)(struct netlink_callback *)''),
        Member ''dumpit'' (Ptr ''int (*)(struct sk_buff *, struct netlink_callback *)''),
        Member ''done'' (Ptr ''int (*)(struct netlink_callback *)'')])]),
    Member ''policy'' (Ptr ''struct nla_policy *''),
    Member ''maxattr'' c_unsigned_int,
    Member ''cmd'' t_u8,
    Member ''internal_flags'' t_u8,
    Member ''flags'' t_u8,
    Member ''validate'' t_u8]"

definition struct_genl_info :: ctype where
  "struct_genl_info = Comp Struct False [
    Member ''snd_seq'' t_u32,
    Member ''snd_portid'' t_u32,
    Member ''family'' (Ptr ''struct genl_family *''),
    Member ''nlhdr'' (Ptr ''struct nlmsghdr *''),
    Member ''genlhdr'' (Ptr ''struct genlmsghdr *''),
    Member ''attrs'' (Ptr ''struct nlattr **''),
    Member ''_net'' t_possible_net_t,
    Member '''' (Comp Union False [
      Member ''ctx'' (Array 48 t_u8),
      Member ''user_ptr'' (Array 2 (Ptr ''void *''))]),
    Member ''extack'' (Ptr ''struct netlink_ext_ack *'')]"

definition struct_genl_dumpit_info :: ctype where
  "struct_genl_dumpit_info = Comp Struct False [
    Member ''op'' struct_genl_split_ops,
    Member ''info'' struct_genl_info]"

definition struct_genl_family :: ctype where
  "struct_genl_family = Comp Struct False [
    Member ''hdrsize'' c_unsigned_int,
    Member ''name'' (Array 16 c_char),
    Member ''version'' c_unsigned_int,
    Member ''maxattr'' c_unsigned_int,
    BitField ''netnsok'' t_u8 1,
    BitField ''parallel_ops'' t_u8 1,
    Member ''n_ops'' t_u8,
    Member ''n_small_ops'' t_u8,
    Member ''n_split_ops'' t_u8,
    Member ''n_mcgrps'' t_u8,
    Member ''resv_start_op'' t_u8,
    Member ''policy'' (Ptr ''struct nla_policy *''),
    Member ''pre_doit'' (Ptr ''int (*)(const struct genl_split_ops *, struct sk_buff *, struct genl_info *)''),
    Member ''post_doit'' (Ptr ''void (*)(const struct genl_split_ops *, struct sk_buff *, struct genl_info *)''),
    Member ''bind'' (Ptr ''int (*)(int)''),
    Member ''unbind'' (Ptr ''void (*)(int)''),
    Member ''ops'' (Ptr ''struct genl_ops *''),
    Member ''small_ops'' (Ptr ''struct genl_small_ops *''),
    Member ''split_ops'' (Ptr ''struct genl_split_ops *''),
    Member ''mcgrps'' (Ptr ''struct genl_multicast_group *''),
    Member ''module'' (Ptr ''struct module *''),
    Member ''sock_priv_size'' t_size_t,
    Member ''sock_priv_init'' (Ptr ''void (*)(void *)''),
    Member ''sock_priv_destroy'' (Ptr ''void (*)(void *)''),
    Member ''id'' c_int,
    Member ''mcgrp_offset'' c_unsigned_int,
    Member ''sock_privs'' (Ptr ''struct xarray *'')]"

definition struct_genl_multicast_group :: ctype where
  "struct_genl_multicast_group = Comp Struct False [
    Member ''name'' (Array 16 c_char),
    Member ''flags'' t_u8]"

definition struct_genl_op_iter :: ctype where
  "struct_genl_op_iter = Comp Struct False [
    Member ''family'' (Ptr ''struct genl_family *''),
    Member ''doit'' struct_genl_split_ops,
    Member ''dumpit'' struct_genl_split_ops,
    Member ''cmd_idx'' c_int,
    Member ''entry_idx'' c_int,
    Member ''cmd'' t_u32,
    Member ''flags'' t_u8]"

definition struct_genl_ops :: ctype where
  "struct_genl_ops = Comp Struct False [
    Member ''doit'' (Ptr ''int (*)(struct sk_buff *, struct genl_info *)''),
    Member ''start'' (Ptr ''int (*)(struct netlink_callback *)''),
    Member ''dumpit'' (Ptr ''int (*)(struct sk_buff *, struct netlink_callback *)''),
    Member ''done'' (Ptr ''int (*)(struct netlink_callback *)''),
    Member ''policy'' (Ptr ''struct nla_policy *''),
    Member ''maxattr'' c_unsigned_int,
    Member ''cmd'' t_u8,
    Member ''internal_flags'' t_u8,
    Member ''flags'' t_u8,
    Member ''validate'' t_u8]"

definition struct_genl_small_ops :: ctype where
  "struct_genl_small_ops = Comp Struct False [
    Member ''doit'' (Ptr ''int (*)(struct sk_buff *, struct genl_info *)''),
    Member ''dumpit'' (Ptr ''int (*)(struct sk_buff *, struct netlink_callback *)''),
    Member ''cmd'' t_u8,
    Member ''internal_flags'' t_u8,
    Member ''flags'' t_u8,
    Member ''validate'' t_u8]"

definition struct_genl_start_context :: ctype where
  "struct_genl_start_context = Comp Struct False [
    Member ''family'' (Ptr ''struct genl_family *''),
    Member ''nlh'' (Ptr ''struct nlmsghdr *''),
    Member ''extack'' (Ptr ''struct netlink_ext_ack *''),
    Member ''ops'' (Ptr ''struct genl_split_ops *''),
    Member ''hdrlen'' c_int]"

definition struct_genlmsghdr :: ctype where
  "struct_genlmsghdr = Comp Struct False [
    Member ''cmd'' t___u8,
    Member ''version'' t___u8,
    Member ''reserved'' t___u16]"

definition struct_irq_affinity_notify :: ctype where
  "struct_irq_affinity_notify = Comp Struct False [
    Member ''irq'' c_unsigned_int,
    Member ''kref'' struct_kref,
    Member ''work'' struct_work_struct,
    Member ''notify'' (Ptr ''void (*)(struct irq_affinity_notify *, const cpumask_t *)''),
    Member ''release'' (Ptr ''void (*)(struct kref *)'')]"

definition struct_napi_struct :: ctype where
  "struct_napi_struct = Comp Struct False [
    Member ''poll_list'' struct_list_head,
    Member ''state'' c_unsigned_long,
    Member ''weight'' c_int,
    Member ''defer_hard_irqs_count'' t_u32,
    Member ''poll'' (Ptr ''int (*)(struct napi_struct *, int)''),
    Member ''list_owner'' c_int,
    Member ''dev'' (Ptr ''struct net_device *''),
    Member ''skb'' (Ptr ''struct sk_buff *''),
    Member ''gro'' struct_gro_node,
    Member ''timer'' struct_hrtimer,
    Member ''thread'' (Ptr ''struct task_struct *''),
    Member ''gro_flush_timeout'' c_unsigned_long,
    Member ''irq_suspend_timeout'' c_unsigned_long,
    Member ''defer_hard_irqs'' t_u32,
    Member ''napi_id'' t_u32,
    Member ''dev_list'' struct_list_head,
    Member ''napi_hash_node'' struct_hlist_node,
    Member ''irq'' c_int,
    Member ''notify'' struct_irq_affinity_notify,
    Member ''napi_rmap_idx'' c_int,
    Member ''index'' c_int,
    Member ''config'' (Ptr ''struct napi_config *'')]"

definition struct_gro_cell :: ctype where
  "struct_gro_cell = Comp Struct False [
    Member ''napi_skbs'' struct_sk_buff_head,
    Member ''napi'' struct_napi_struct]"

definition struct_gro_remcsum :: ctype where
  "struct_gro_remcsum = Comp Struct False [
    Member ''offset'' c_int,
    Member ''delta'' t___wsum]"

definition struct___kernel_sockaddr_storage :: ctype where
  "struct___kernel_sockaddr_storage = Comp Struct False [
    Member '''' (Comp Union False [
      Member '''' (Comp Struct False [
        Member ''ss_family'' t___kernel_sa_family_t,
        Member ''__data'' (Array 126 c_char)]),
      Member ''__align'' (Ptr ''void *'')])]"

definition struct_group_filter :: ctype where
  "struct_group_filter = Comp Struct False [
    Member '''' (Comp Union False [
      Member '''' (Comp Struct False [
        Member ''gf_interface_aux'' t___u32,
        Member ''gf_group_aux'' struct___kernel_sockaddr_storage,
        Member ''gf_fmode_aux'' t___u32,
        Member ''gf_numsrc_aux'' t___u32,
        Member ''gf_slist'' (Array 1 struct___kernel_sockaddr_storage)]),
      Member '''' (Comp Struct False [
        Member ''gf_interface'' t___u32,
        Member ''gf_group'' struct___kernel_sockaddr_storage,
        Member ''gf_fmode'' t___u32,
        Member ''gf_numsrc'' t___u32,
        Member ''gf_slist_flex'' (Array 0 struct___kernel_sockaddr_storage)])])]"

definition struct_group_info :: ctype where
  "struct_group_info = Comp Struct False [
    Member ''usage'' t_refcount_t,
    Member ''ngroups'' c_int,
    Member ''gid'' (Array 0 t_kgid_t)]"

definition struct_group_req :: ctype where
  "struct_group_req = Comp Struct False [
    Member ''gr_interface'' t___u32,
    Member ''gr_group'' struct___kernel_sockaddr_storage]"

definition struct_group_source_req :: ctype where
  "struct_group_source_req = Comp Struct False [
    Member ''gsr_interface'' t___u32,
    Member ''gsr_group'' struct___kernel_sockaddr_storage,
    Member ''gsr_source'' struct___kernel_sockaddr_storage]"

definition struct_net_prefixes :: ctype where
  "struct_net_prefixes = Comp Struct False [
    Member ''nets'' (Array 1 t_u32),
    Member ''cidr'' (Array 1 t_u8)]"

definition struct_net_prefixes___2 :: ctype where
  "struct_net_prefixes___2 = Comp Struct False [
    Member ''nets'' (Array 2 t_u32),
    Member ''cidr'' (Array 2 t_u8)]"

definition struct_page_frag_cache :: ctype where
  "struct_page_frag_cache = Comp Struct False [
    Member ''encoded_page'' c_unsigned_long,
    Member ''offset'' t___u32,
    Member ''pagecnt_bias'' t___u32]"

definition struct_napi_alloc_cache :: ctype where
  "struct_napi_alloc_cache = Comp Struct False [
    Member ''bh_lock'' t_local_lock_t,
    Member ''page'' struct_page_frag_cache,
    Member ''skb_count'' c_unsigned_int,
    Member ''skb_cache'' (Array 64 (Ptr ''void *''))]"

definition struct_napi_config :: ctype where
  "struct_napi_config = Comp Struct False [
    Member ''gro_flush_timeout'' t_u64,
    Member ''irq_suspend_timeout'' t_u64,
    Member ''defer_hard_irqs'' t_u32,
    Member ''affinity_mask'' t_cpumask_t,
    Member ''threaded'' t_u8,
    Member ''napi_id'' c_unsigned_int]"

definition struct_napi_gro_cb :: ctype where
  "struct_napi_gro_cb = Comp Struct False [
    Member '''' (Comp Union False [
      Member '''' (Comp Struct False [
        Member ''frag0'' (Ptr ''void *''),
        Member ''frag0_len'' c_unsigned_int]),
      Member '''' (Comp Struct False [
        Member ''last'' (Ptr ''struct sk_buff *''),
        Member ''age'' c_unsigned_long])]),
    Member ''data_offset'' c_int,
    Member ''flush'' t_u16,
    Member ''count'' t_u16,
    Member ''proto'' t_u16,
    Member ''pad'' t_u16,
    Member '''' (Comp Union False [
      Member '''' (Comp Struct False [
        Member ''gro_remcsum_start'' t_u16,
        BitField ''same_flow'' t_u8 1,
        BitField ''encap_mark'' t_u8 1,
        BitField ''csum_valid'' t_u8 1,
        BitField ''csum_cnt'' t_u8 3,
        BitField ''free'' t_u8 2,
        BitField ''is_ipv6'' t_u8 1,
        BitField ''is_fou'' t_u8 1,
        BitField ''ip_fixedid'' t_u8 1,
        BitField ''recursion_counter'' t_u8 4,
        BitField ''is_flist'' t_u8 1]),
      Member ''zeroed'' (Comp Struct False [
        Member ''gro_remcsum_start'' t_u16,
        BitField ''same_flow'' t_u8 1,
        BitField ''encap_mark'' t_u8 1,
        BitField ''csum_valid'' t_u8 1,
        BitField ''csum_cnt'' t_u8 3,
        BitField ''free'' t_u8 2,
        BitField ''is_ipv6'' t_u8 1,
        BitField ''is_fou'' t_u8 1,
        BitField ''ip_fixedid'' t_u8 1,
        BitField ''recursion_counter'' t_u8 4,
        BitField ''is_flist'' t_u8 1])]),
    Member ''csum'' t___wsum,
    Member '''' (Comp Union False [
      Member '''' (Comp Struct False [
        Member ''network_offset'' t_u16,
        Member ''inner_network_offset'' t_u16]),
      Member ''network_offsets'' (Array 2 t_u16)])]"

definition struct_net_aligned_data :: ctype where
  "struct_net_aligned_data = Comp Struct False ([
    Member ''net_cookie'' t_atomic64_t] @ replicate 15 (BitField '''' c_long 64) @ [
    Member ''tcp_memory_allocated'' t_atomic_long_t] @ replicate 15 (BitField '''' c_long 64) @ [
    Member ''udp_memory_allocated'' t_atomic_long_t] @ replicate 15 (BitField '''' c_long 64))"

definition struct_bridge_mcast_other_query :: ctype where
  "struct_bridge_mcast_other_query = Comp Struct False [
    Member ''timer'' struct_timer_list,
    Member ''delay_timer'' struct_timer_list]"

definition struct_bridge_mcast_own_query :: ctype where
  "struct_bridge_mcast_own_query = Comp Struct False [
    Member ''timer'' struct_timer_list,
    Member ''startup_sent'' t_u32]"

definition struct_br_ip :: ctype where
  "struct_br_ip = Comp Struct False [
    Member ''src'' (Comp Union False [
      Member ''ip4'' t___be32,
      Member ''ip6'' struct_in6_addr]),
    Member ''dst'' (Comp Union False [
      Member ''ip4'' t___be32,
      Member ''ip6'' struct_in6_addr,
      Member ''mac_addr'' (Array 6 c_unsigned_char)]),
    Member ''proto'' t___be16,
    Member ''vid'' t___u16]"

definition struct_bridge_mcast_querier :: ctype where
  "struct_bridge_mcast_querier = Comp Struct False [
    Member ''addr'' struct_br_ip,
    Member ''port_ifidx'' c_int,
    Member ''seq'' t_seqcount_spinlock_t]"

definition struct_net_bridge_mcast :: ctype where
  "struct_net_bridge_mcast = Comp Struct False [
    Member ''br'' (Ptr ''struct net_bridge *''),
    Member ''vlan'' (Ptr ''struct net_bridge_vlan *''),
    Member ''multicast_last_member_count'' t_u32,
    Member ''multicast_startup_query_count'' t_u32,
    Member ''multicast_querier'' t_u8,
    Member ''multicast_igmp_version'' t_u8,
    Member ''multicast_router'' t_u8,
    Member ''multicast_mld_version'' t_u8,
    Member ''multicast_last_member_interval'' c_unsigned_long,
    Member ''multicast_membership_interval'' c_unsigned_long,
    Member ''multicast_querier_interval'' c_unsigned_long,
    Member ''multicast_query_interval'' c_unsigned_long,
    Member ''multicast_query_response_interval'' c_unsigned_long,
    Member ''multicast_startup_query_interval'' c_unsigned_long,
    Member ''ip4_mc_router_list'' struct_hlist_head,
    Member ''ip4_mc_router_timer'' struct_timer_list,
    Member ''ip4_other_query'' struct_bridge_mcast_other_query,
    Member ''ip4_own_query'' struct_bridge_mcast_own_query,
    Member ''ip4_querier'' struct_bridge_mcast_querier,
    Member ''ip6_mc_router_list'' struct_hlist_head,
    Member ''ip6_mc_router_timer'' struct_timer_list,
    Member ''ip6_other_query'' struct_bridge_mcast_other_query,
    Member ''ip6_own_query'' struct_bridge_mcast_own_query,
    Member ''ip6_querier'' struct_bridge_mcast_querier]"

definition struct_bridge_id :: ctype where
  "struct_bridge_id = Comp Struct False [
    Member ''prio'' (Array 2 c_unsigned_char),
    Member ''addr'' (Array 6 c_unsigned_char)]"

definition t_bridge_id :: ctype where
  "t_bridge_id = struct_bridge_id"

definition struct_net_bridge :: ctype where
  "struct_net_bridge = Comp Struct False [
    Member ''lock'' t_spinlock_t,
    Member ''hash_lock'' t_spinlock_t,
    Member ''frame_type_list'' struct_hlist_head,
    Member ''dev'' (Ptr ''struct net_device *''),
    Member ''options'' c_unsigned_long,
    Member ''vlan_proto'' t___be16,
    Member ''default_pvid'' t_u16,
    Member ''vlgrp'' (Ptr ''struct net_bridge_vlan_group *''),
    Member ''fdb_hash_tbl'' struct_rhashtable,
    Member ''port_list'' struct_list_head,
    Member '''' (Comp Union False [
      Member ''fake_rtable'' struct_rtable,
      Member ''fake_rt6_info'' struct_rt6_info]),
    Member ''metrics'' (Array 17 t_u32),
    Member ''group_fwd_mask'' t_u16,
    Member ''group_fwd_mask_required'' t_u16,
    Member ''designated_root'' t_bridge_id,
    Member ''bridge_id'' t_bridge_id,
    Member ''topology_change'' c_unsigned_char,
    Member ''topology_change_detected'' c_unsigned_char,
    Member ''root_port'' t_u16,
    Member ''max_age'' c_unsigned_long,
    Member ''hello_time'' c_unsigned_long,
    Member ''forward_delay'' c_unsigned_long,
    Member ''ageing_time'' c_unsigned_long,
    Member ''bridge_max_age'' c_unsigned_long,
    Member ''bridge_hello_time'' c_unsigned_long,
    Member ''bridge_forward_delay'' c_unsigned_long,
    Member ''bridge_ageing_time'' c_unsigned_long,
    Member ''root_path_cost'' t_u32,
    Member ''group_addr'' (Array 6 t_u8),
    Member ''stp_enabled'' (Enum False [
      (''BR_NO_STP'', 0), (''BR_KERNEL_STP'', 1), (''BR_USER_STP'', 2)]),
    Member ''multicast_ctx'' struct_net_bridge_mcast,
    Member ''mcast_stats'' (Ptr ''struct bridge_mcast_stats *''),
    Member ''hash_max'' t_u32,
    Member ''multicast_lock'' t_spinlock_t,
    Member ''mdb_hash_tbl'' struct_rhashtable,
    Member ''sg_port_tbl'' struct_rhashtable,
    Member ''mcast_gc_list'' struct_hlist_head,
    Member ''mdb_list'' struct_hlist_head,
    Member ''mcast_gc_work'' struct_work_struct,
    Member ''hello_timer'' struct_timer_list,
    Member ''tcn_timer'' struct_timer_list,
    Member ''topology_change_timer'' struct_timer_list,
    Member ''gc_work'' struct_delayed_work,
    Member ''ifobj'' (Ptr ''struct kobject *''),
    Member ''auto_cnt'' t_u32,
    Member ''fdb_n_learned'' t_atomic_t,
    Member ''fdb_max_learned'' t_u32,
    Member ''last_hwdom'' c_int,
    Member ''busy_hwdoms'' c_unsigned_long,
    Member ''fdb_list'' struct_hlist_head]"

definition union_net_bridge_eht_addr :: ctype where
  "union_net_bridge_eht_addr = Comp Union False [
    Member ''ip4'' t___be32,
    Member ''ip6'' struct_in6_addr]"

definition struct_mac_addr___2 :: ctype where
  "struct_mac_addr___2 = Comp Struct False [
    Member ''addr'' (Array 6 c_unsigned_char)]"

definition t_mac_addr :: ctype where
  "t_mac_addr = struct_mac_addr___2"

definition struct_net_bridge_fdb_key :: ctype where
  "struct_net_bridge_fdb_key = Comp Struct False [
    Member ''addr'' t_mac_addr,
    Member ''vlan_id'' t_u16]"

definition struct_net_bridge_fdb_entry :: ctype where
  "struct_net_bridge_fdb_entry = Comp Struct False ([
    Member ''rhnode'' struct_rhash_head,
    Member ''dst'' (Ptr ''struct net_bridge_port *''),
    Member ''key'' struct_net_bridge_fdb_key,
    Member ''fdb_node'' struct_hlist_node,
    Member ''flags'' c_unsigned_long] @ replicate 10 (BitField '''' c_long 64) @ [
    Member ''updated'' c_unsigned_long,
    Member ''used'' c_unsigned_long,
    Member ''rcu'' struct_callback_head] @ replicate 12 (BitField '''' c_long 64))"

definition struct_net_bridge_fdb_flush_desc :: ctype where
  "struct_net_bridge_fdb_flush_desc = Comp Struct False [
    Member ''flags'' c_unsigned_long,
    Member ''flags_mask'' c_unsigned_long,
    Member ''port_ifindex'' c_int,
    Member ''vlan_id'' t_u16]"

definition struct_net_bridge_group_eht_host :: ctype where
  "struct_net_bridge_group_eht_host = Comp Struct False [
    Member ''rb_node'' struct_rb_node,
    Member ''h_addr'' union_net_bridge_eht_addr,
    Member ''set_entries'' struct_hlist_head,
    Member ''num_entries'' c_unsigned_int,
    Member ''filter_mode'' c_unsigned_char,
    Member ''pg'' (Ptr ''struct net_bridge_port_group *'')]"

definition struct_net_bridge_mcast_gc :: ctype where
  "struct_net_bridge_mcast_gc = Comp Struct False [
    Member ''gc_node'' struct_hlist_node,
    Member ''destroy'' (Ptr ''void (*)(struct net_bridge_mcast_gc *)'')]"

definition struct_net_bridge_group_eht_set :: ctype where
  "struct_net_bridge_group_eht_set = Comp Struct False [
    Member ''rb_node'' struct_rb_node,
    Member ''src_addr'' union_net_bridge_eht_addr,
    Member ''entry_tree'' struct_rb_root,
    Member ''timer'' struct_timer_list,
    Member ''pg'' (Ptr ''struct net_bridge_port_group *''),
    Member ''br'' (Ptr ''struct net_bridge *''),
    Member ''mcast_gc'' struct_net_bridge_mcast_gc]"

definition struct_net_bridge_group_eht_set_entry :: ctype where
  "struct_net_bridge_group_eht_set_entry = Comp Struct False [
    Member ''rb_node'' struct_rb_node,
    Member ''host_list'' struct_hlist_node,
    Member ''h_addr'' union_net_bridge_eht_addr,
    Member ''timer'' struct_timer_list,
    Member ''br'' (Ptr ''struct net_bridge *''),
    Member ''eht_set'' (Ptr ''struct net_bridge_group_eht_set *''),
    Member ''h_parent'' (Ptr ''struct net_bridge_group_eht_host *''),
    Member ''mcast_gc'' struct_net_bridge_mcast_gc]"

definition struct_net_bridge_group_src :: ctype where
  "struct_net_bridge_group_src = Comp Struct False [
    Member ''node'' struct_hlist_node,
    Member ''addr'' struct_br_ip,
    Member ''pg'' (Ptr ''struct net_bridge_port_group *''),
    Member ''flags'' t_u8,
    Member ''src_query_rexmit_cnt'' t_u8,
    Member ''timer'' struct_timer_list,
    Member ''br'' (Ptr ''struct net_bridge *''),
    Member ''mcast_gc'' struct_net_bridge_mcast_gc,
    Member ''rcu'' struct_callback_head]"

definition struct_net_bridge_mcast_port :: ctype where
  "struct_net_bridge_mcast_port = Comp Struct False [
    Member ''port'' (Ptr ''struct net_bridge_port *''),
    Member ''vlan'' (Ptr ''struct net_bridge_vlan *''),
    Member ''ip4_own_query'' struct_bridge_mcast_own_query,
    Member ''ip4_mc_router_timer'' struct_timer_list,
    Member ''ip4_rlist'' struct_hlist_node,
    Member ''ip6_own_query'' struct_bridge_mcast_own_query,
    Member ''ip6_mc_router_timer'' struct_timer_list,
    Member ''ip6_rlist'' struct_hlist_node,
    Member ''multicast_router'' c_unsigned_char,
    Member ''mdb_n_entries'' t_u32,
    Member ''mdb_max_entries'' t_u32]"

definition struct_net_bridge_mdb_entry :: ctype where
  "struct_net_bridge_mdb_entry = Comp Struct False [
    Member ''rhnode'' struct_rhash_head,
    Member ''br'' (Ptr ''struct net_bridge *''),
    Member ''ports'' (Ptr ''struct net_bridge_port_group *''),
    Member ''addr'' struct_br_ip,
    Member ''host_joined'' t_bool,
    Member ''timer'' struct_timer_list,
    Member ''mdb_node'' struct_hlist_node,
    Member ''mcast_gc'' struct_net_bridge_mcast_gc,
    Member ''rcu'' struct_callback_head]"

definition t_port_id :: ctype where
  "t_port_id = t___u16"

definition struct_bridge_stp_xstats :: ctype where
  "struct_bridge_stp_xstats = Comp Struct False [
    Member ''transition_blk'' t___u64,
    Member ''transition_fwd'' t___u64,
    Member ''rx_bpdu'' t___u64,
    Member ''tx_bpdu'' t___u64,
    Member ''rx_tcn'' t___u64,
    Member ''tx_tcn'' t___u64]"

definition struct_net_bridge_port :: ctype where
  "struct_net_bridge_port = Comp Struct False [
    Member ''br'' (Ptr ''struct net_bridge *''),
    Member ''dev'' (Ptr ''struct net_device *''),
    Member ''dev_tracker'' t_netdevice_tracker,
    Member ''list'' struct_list_head,
    Member ''flags'' c_unsigned_long,
    Member ''vlgrp'' (Ptr ''struct net_bridge_vlan_group *''),
    Member ''backup_port'' (Ptr ''struct net_bridge_port *''),
    Member ''backup_nhid'' t_u32,
    Member ''priority'' t_u8,
    Member ''state'' t_u8,
    Member ''port_no'' t_u16,
    Member ''topology_change_ack'' c_unsigned_char,
    Member ''config_pending'' c_unsigned_char,
    Member ''port_id'' t_port_id,
    Member ''designated_port'' t_port_id,
    Member ''designated_root'' t_bridge_id,
    Member ''designated_bridge'' t_bridge_id,
    Member ''path_cost'' t_u32,
    Member ''designated_cost'' t_u32,
    Member ''designated_age'' c_unsigned_long,
    Member ''forward_delay_timer'' struct_timer_list,
    Member ''hold_timer'' struct_timer_list,
    Member ''message_age_timer'' struct_timer_list,
    Member ''kobj'' struct_kobject,
    Member ''rcu'' struct_callback_head,
    Member ''multicast_ctx'' struct_net_bridge_mcast_port,
    Member ''mcast_stats'' (Ptr ''struct bridge_mcast_stats *''),
    Member ''multicast_eht_hosts_limit'' t_u32,
    Member ''multicast_eht_hosts_cnt'' t_u32,
    Member ''mglist'' struct_hlist_head,
    Member ''sysfs_name'' (Array 16 c_char),
    Member ''hwdom'' c_int,
    Member ''offload_count'' c_int,
    Member ''ppid'' struct_netdev_phys_item_id,
    Member ''group_fwd_mask'' t_u16,
    Member ''backup_redirected_cnt'' t_u16,
    Member ''stp_xstats'' struct_bridge_stp_xstats]"

definition struct_net_bridge_port_group_sg_key :: ctype where
  "struct_net_bridge_port_group_sg_key = Comp Struct False [
    Member ''port'' (Ptr ''struct net_bridge_port *''),
    Member ''addr'' struct_br_ip]"

definition struct_net_bridge_port_group :: ctype where
  "struct_net_bridge_port_group = Comp Struct False [
    Member ''next'' (Ptr ''struct net_bridge_port_group *''),
    Member ''key'' struct_net_bridge_port_group_sg_key,
    Member ''eth_addr'' (Array 6 c_unsigned_char),
    Member ''flags'' c_unsigned_char,
    Member ''filter_mode'' c_unsigned_char,
    Member ''grp_query_rexmit_cnt'' c_unsigned_char,
    Member ''rt_protocol'' c_unsigned_char,
    Member ''src_list'' struct_hlist_head,
    Member ''src_ents'' c_unsigned_int,
    Member ''timer'' struct_timer_list,
    Member ''rexmit_timer'' struct_timer_list,
    Member ''mglist'' struct_hlist_node,
    Member ''eht_set_tree'' struct_rb_root,
    Member ''eht_host_tree'' struct_rb_root,
    Member ''rhnode'' struct_rhash_head,
    Member ''mcast_gc'' struct_net_bridge_mcast_gc,
    Member ''rcu'' struct_callback_head]"

definition struct_br_tunnel_info :: ctype where
  "struct_br_tunnel_info = Comp Struct False [
    Member ''tunnel_id'' t___be64,
    Member ''tunnel_dst'' (Ptr ''struct metadata_dst *'')]"

definition struct_net_bridge_vlan :: ctype where
  "struct_net_bridge_vlan = Comp Struct False [
    Member ''vnode'' struct_rhash_head,
    Member ''tnode'' struct_rhash_head,
    Member ''vid'' t_u16,
    Member ''flags'' t_u16,
    Member ''priv_flags'' t_u16,
    Member ''state'' t_u8,
    Member ''stats'' (Ptr ''struct pcpu_sw_netstats *''),
    Member '''' (Comp Union False [
      Member ''br'' (Ptr ''struct net_bridge *''),
      Member ''port'' (Ptr ''struct net_bridge_port *'')]),
    Member '''' (Comp Union False [
      Member ''refcnt'' t_refcount_t,
      Member ''brvlan'' (Ptr ''struct net_bridge_vlan *'')]),
    Member ''tinfo'' struct_br_tunnel_info,
    Member '''' (Comp Union False [
      Member ''br_mcast_ctx'' struct_net_bridge_mcast,
      Member ''port_mcast_ctx'' struct_net_bridge_mcast_port]),
    Member ''msti'' t_u16,
    Member ''vlist'' struct_list_head,
    Member ''rcu'' struct_callback_head]"

definition struct_net_bridge_vlan_group :: ctype where
  "struct_net_bridge_vlan_group = Comp Struct False [
    Member ''vlan_hash'' struct_rhashtable,
    Member ''tunnel_hash'' struct_rhashtable,
    Member ''vlan_list'' struct_list_head,
    Member ''num_vlans'' t_u16,
    Member ''pvid'' t_u16,
    Member ''pvid_state'' t_u8]"

definition struct_net_device_core_stats :: ctype where
  "struct_net_device_core_stats = Comp Struct False [
    Member ''rx_dropped'' c_unsigned_long,
    Member ''tx_dropped'' c_unsigned_long,
    Member ''rx_nohandler'' c_unsigned_long,
    Member ''rx_otherhost_dropped'' c_unsigned_long]"

definition struct_net_device_devres :: ctype where
  "struct_net_device_devres = Comp Struct False [
    Member ''ndev'' (Ptr ''struct net_device *'')]"

definition struct_net_device_path :: ctype where
  "struct_net_device_path = Comp Struct False [
    Member ''type'' enum_net_device_path_type,
    Member ''dev'' (Ptr ''struct net_device *''),
    Member '''' (Comp Union False [
      Member ''encap'' (Comp Struct False [
        Member ''id'' t_u16,
        Member ''proto'' t___be16,
        Member ''h_dest'' (Array 6 t_u8)]),
      Member ''bridge'' (Comp Struct False [
        Member ''vlan_mode'' (Enum False [
          (''DEV_PATH_BR_VLAN_KEEP'', 0), (''DEV_PATH_BR_VLAN_TAG'', 1),
          (''DEV_PATH_BR_VLAN_UNTAG'', 2), (''DEV_PATH_BR_VLAN_UNTAG_HW'', 3)]),
        Member ''vlan_id'' t_u16,
        Member ''vlan_proto'' t___be16]),
      Member ''dsa'' (Comp Struct False [
        Member ''port'' c_int,
        Member ''proto'' t_u16]),
      Member ''mtk_wdma'' (Comp Struct False [
        Member ''wdma_idx'' t_u8,
        Member ''queue'' t_u8,
        Member ''wcid'' t_u16,
        Member ''bss'' t_u8,
        Member ''amsdu'' t_u8])])]"

definition struct_net_device_path_ctx :: ctype where
  "struct_net_device_path_ctx = Comp Struct False [
    Member ''dev'' (Ptr ''struct net_device *''),
    Member ''daddr'' (Array 6 t_u8),
    Member ''num_vlans'' c_int,
    Member ''vlan'' (Array 2 (Comp Struct False [
      Member ''id'' t_u16,
      Member ''proto'' t___be16]))]"

definition struct_net_device_path_stack :: ctype where
  "struct_net_device_path_stack = Comp Struct False [
    Member ''num_paths'' c_int,
    Member ''path'' (Array 5 struct_net_device_path)]"

definition enum_dma_data_direction :: ctype where
  "enum_dma_data_direction = Enum False [
    (''DMA_BIDIRECTIONAL'', 0), (''DMA_TO_DEVICE'', 1), (''DMA_FROM_DEVICE'', 2),
    (''DMA_NONE'', 3)]"

definition struct_net_devmem_dmabuf_binding :: ctype where
  "struct_net_devmem_dmabuf_binding = Comp Struct False [
    Member ''dmabuf'' (Ptr ''struct dma_buf *''),
    Member ''attachment'' (Ptr ''struct dma_buf_attachment *''),
    Member ''sgt'' (Ptr ''struct sg_table *''),
    Member ''dev'' (Ptr ''struct net_device *''),
    Member ''chunk_pool'' (Ptr ''struct gen_pool *''),
    Member ''lock'' struct_mutex,
    Member ''ref'' t_refcount_t,
    Member ''list'' struct_list_head,
    Member ''bound_rxqs'' struct_xarray,
    Member ''id'' t_u32,
    Member ''direction'' enum_dma_data_direction,
    Member ''tx_vec'' (Ptr ''struct net_iov **''),
    Member ''unbind_w'' struct_work_struct]"

definition struct_net_failover_info :: ctype where
  "struct_net_failover_info = Comp Struct False [
    Member ''primary_dev'' (Ptr ''struct net_device *''),
    Member ''standby_dev'' (Ptr ''struct net_device *''),
    Member ''primary_stats'' struct_rtnl_link_stats64,
    Member ''standby_stats'' struct_rtnl_link_stats64,
    Member ''failover_stats'' struct_rtnl_link_stats64,
    Member ''stats_lock'' t_spinlock_t]"

definition struct_net_fill_args :: ctype where
  "struct_net_fill_args = Comp Struct False [
    Member ''portid'' t_u32,
    Member ''seq'' t_u32,
    Member ''flags'' c_int,
    Member ''cmd'' c_int,
    Member ''nsid'' c_int,
    Member ''add_ref'' t_bool,
    Member ''ref_nsid'' c_int]"

definition struct_net_generic :: ctype where
  "struct_net_generic = Comp Struct False [
    Member '''' (Comp Union False [
      Member ''s'' (Comp Struct False [
        Member ''len'' c_unsigned_int,
        Member ''rcu'' struct_callback_head]),
      Member '''' (Comp Struct False [
        Member ''__empty_ptr'' (Comp Struct False []),
        Member ''ptr'' (Array 0 (Ptr ''void *''))])])]"

definition struct_offload_callbacks :: ctype where
  "struct_offload_callbacks = Comp Struct False [
    Member ''gso_segment'' (Ptr ''struct sk_buff * (*)(struct sk_buff *, netdev_features_t)''),
    Member ''gro_receive'' (Ptr ''struct sk_buff * (*)(struct list_head *, struct sk_buff *)''),
    Member ''gro_complete'' (Ptr ''int (*)(struct sk_buff *, int)'')]"

definition struct_net_offload :: ctype where
  "struct_net_offload = Comp Struct False [
    Member ''callbacks'' struct_offload_callbacks,
    Member ''flags'' c_unsigned_int,
    Member ''secret'' t_u32]"

definition struct_net_protocol :: ctype where
  "struct_net_protocol = Comp Struct False [
    Member ''handler'' (Ptr ''int (*)(struct sk_buff *)''),
    Member ''err_handler'' (Ptr ''int (*)(struct sk_buff *, u32)''),
    BitField ''no_policy'' c_unsigned_int 1,
    BitField ''icmp_strict_tag_validation'' c_unsigned_int 1,
    Member ''secret'' t_u32]"

definition struct_packet_offload :: ctype where
  "struct_packet_offload = Comp Struct False [
    Member ''type'' t___be16,
    Member ''priority'' t_u16,
    Member ''callbacks'' struct_offload_callbacks,
    Member ''list'' struct_list_head]"

definition struct_net_hotdata :: ctype where
  "struct_net_hotdata = Comp Struct False [
    Member ''ip_packet_offload'' struct_packet_offload,
    Member ''tcpv4_offload'' struct_net_offload,
    Member ''tcp_protocol'' struct_net_protocol,
    Member ''udpv4_offload'' struct_net_offload,
    Member ''udp_protocol'' struct_net_protocol,
    Member ''ipv6_packet_offload'' struct_packet_offload,
    Member ''tcpv6_offload'' struct_net_offload,
    Member ''tcpv6_protocol'' struct_inet6_protocol,
    Member ''udpv6_protocol'' struct_inet6_protocol,
    Member ''udpv6_offload'' struct_net_offload,
    Member ''offload_base'' struct_list_head,
    Member ''skbuff_cache'' (Ptr ''struct kmem_cache *''),
    Member ''skbuff_fclone_cache'' (Ptr ''struct kmem_cache *''),
    Member ''skb_small_head_cache'' (Ptr ''struct kmem_cache *''),
    Member ''rps_sock_flow_table'' (Ptr ''struct rps_sock_flow_table *''),
    Member ''rps_cpu_mask'' t_u32,
    Member ''gro_normal_batch'' c_int,
    Member ''netdev_budget'' c_int,
    Member ''netdev_budget_usecs'' c_int,
    Member ''tstamp_prequeue'' c_int,
    Member ''max_backlog'' c_int,
    Member ''dev_tx_weight'' c_int,
    Member ''dev_rx_weight'' c_int,
    Member ''sysctl_max_skb_frags'' c_int,
    Member ''sysctl_skb_defer_max'' c_int,
    Member ''sysctl_mem_pcpu_rsv'' c_int]"

definition struct_netmem_desc :: ctype where
  "struct_netmem_desc = Comp Struct False [
    Member ''_flags'' c_unsigned_long,
    Member ''pp_magic'' c_unsigned_long,
    Member ''pp'' (Ptr ''struct page_pool *''),
    Member ''_pp_mapping_pad'' c_unsigned_long,
    Member ''dma_addr'' c_unsigned_long,
    Member ''pp_ref_count'' t_atomic_long_t]"

definition struct_net_iov :: ctype where
  "struct_net_iov = Comp Struct False [
    Member '''' (Comp Union False [
      Member ''desc'' struct_netmem_desc,
      Member '''' (Comp Struct False [
        Member ''_flags'' c_unsigned_long,
        Member ''pp_magic'' c_unsigned_long,
        Member ''pp'' (Ptr ''struct page_pool *''),
        Member ''_pp_mapping_pad'' c_unsigned_long,
        Member ''dma_addr'' c_unsigned_long,
        Member ''pp_ref_count'' t_atomic_long_t])]),
    Member ''owner'' (Ptr ''struct net_iov_area *''),
    Member ''type'' enum_net_iov_type]"

definition struct_net_packet_attrs :: ctype where
  "struct_net_packet_attrs = Comp Struct False [
    Member ''src'' (Ptr ''unsigned char *''),
    Member ''dst'' (Ptr ''unsigned char *''),
    Member ''ip_src'' t_u32,
    Member ''ip_dst'' t_u32,
    Member ''tcp'' t_bool,
    Member ''sport'' t_u16,
    Member ''dport'' t_u16,
    Member ''timeout'' c_int,
    Member ''size'' c_int,
    Member ''max_size'' c_int,
    Member ''id'' t_u8,
    Member ''queue_mapping'' t_u16,
    Member ''bad_csum'' t_bool]"

definition struct_net_proto_family :: ctype where
  "struct_net_proto_family = Comp Struct False [
    Member ''family'' c_int,
    Member ''create'' (Ptr ''int (*)(struct net *, struct socket *, int, int)''),
    Member ''owner'' (Ptr ''struct module *'')]"

definition struct_net_rate_estimator :: ctype where
  "struct_net_rate_estimator = Comp Struct False [
    Member ''bstats'' (Ptr ''struct gnet_stats_basic_sync *''),
    Member ''stats_lock'' (Ptr ''spinlock_t *''),
    Member ''running'' t_bool,
    Member ''cpu_bstats'' (Ptr ''struct gnet_stats_basic_sync *''),
    Member ''ewma_log'' t_u8,
    Member ''intvl_log'' t_u8,
    Member ''seq'' t_seqcount_t,
    Member ''last_packets'' t_u64,
    Member ''last_bytes'' t_u64,
    Member ''avpps'' t_u64,
    Member ''avbps'' t_u64,
    Member ''next_jiffies'' c_unsigned_long,
    Member ''timer'' struct_timer_list,
    Member ''rcu'' struct_callback_head]"

definition struct_net_test :: ctype where
  "struct_net_test = Comp Struct False [
    Member ''name'' (Array 32 c_char),
    Member ''fn'' (Ptr ''int (*)(struct net_device *)'')]"

definition struct_packet_type :: ctype where
  "struct_packet_type = Comp Struct False [
    Member ''type'' t___be16,
    Member ''ignore_outgoing'' t_bool,
    Member ''dev'' (Ptr ''struct net_device *''),
    Member ''dev_tracker'' t_netdevice_tracker,
    Member ''func'' (Ptr ''int (*)(struct sk_buff *, struct net_device *, struct packet_type *, struct net_device *)''),
    Member ''list_func'' (Ptr ''void (*)(struct list_head *, struct packet_type *, struct net_device *)''),
    Member ''id_match'' (Ptr ''bool (*)(struct packet_type *, struct sock *)''),
    Member ''af_packet_net'' (Ptr ''struct net *''),
    Member ''af_packet_priv'' (Ptr ''void *''),
    Member ''list'' struct_list_head]"

definition struct_net_test_priv :: ctype where
  "struct_net_test_priv = Comp Struct False [
    Member ''packet'' (Ptr ''struct net_packet_attrs *''),
    Member ''pt'' struct_packet_type,
    Member ''comp'' struct_completion,
    Member ''double_vlan'' c_int,
    Member ''vlan_id'' c_int,
    Member ''ok'' c_int]"

definition struct_net_vrf :: ctype where
  "struct_net_vrf = Comp Struct False [
    Member ''rth'' (Ptr ''struct rtable *''),
    Member ''rt6'' (Ptr ''struct rt6_info *''),
    Member ''fib6_table'' (Ptr ''struct fib6_table *''),
    Member ''tb_id'' t_u32,
    Member ''me_list'' struct_list_head,
    Member ''ifindex'' c_int]"

definition struct_netdev_adjacent :: ctype where
  "struct_netdev_adjacent = Comp Struct False [
    Member ''dev'' (Ptr ''struct net_device *''),
    Member ''dev_tracker'' t_netdevice_tracker,
    Member ''master'' t_bool,
    Member ''ignore'' t_bool,
    Member ''ref_nr'' t_u16,
    Member ''private'' (Ptr ''void *''),
    Member ''list'' struct_list_head,
    Member ''rcu'' struct_callback_head]"

definition struct_ifslave :: ctype where
  "struct_ifslave = Comp Struct False [
    Member ''slave_id'' t___s32,
    Member ''slave_name'' (Array 16 c_char),
    Member ''link'' t___s8,
    Member ''state'' t___s8,
    Member ''link_failure_count'' t___u32]"

definition t_ifslave :: ctype where
  "t_ifslave = struct_ifslave"

definition struct_ifbond :: ctype where
  "struct_ifbond = Comp Struct False [
    Member ''bond_mode'' t___s32,
    Member ''num_slaves'' t___s32,
    Member ''miimon'' t___s32]"

definition t_ifbond :: ctype where
  "t_ifbond = struct_ifbond"

definition struct_netdev_bonding_info :: ctype where
  "struct_netdev_bonding_info = Comp Struct False [
    Member ''slave'' t_ifslave,
    Member ''master'' t_ifbond]"

definition struct_netdev_bpf :: ctype where
  "struct_netdev_bpf = Comp Struct False [
    Member ''command'' enum_bpf_netdev_command,
    Member '''' (Comp Union False [
      Member '''' (Comp Struct False [
        Member ''flags'' t_u32,
        Member ''prog'' (Ptr ''struct bpf_prog *''),
        Member ''extack'' (Ptr ''struct netlink_ext_ack *'')]),
      Member '''' (Comp Struct False [
        Member ''offmap'' (Ptr ''struct bpf_offloaded_map *'')]),
      Member ''xsk'' (Comp Struct False [
        Member ''pool'' (Ptr ''struct xsk_buff_pool *''),
        Member ''queue_id'' t_u16])])]"

definition struct_netdev_config :: ctype where
  "struct_netdev_config = Comp Struct False [
    Member ''hds_thresh'' t_u32,
    Member ''hds_config'' t_u8]"

definition t_roce_netdev_callback :: ctype where
  "t_roce_netdev_callback = Ptr ''void (*)(struct ib_device *, u32, struct net_device *, void *)''"

definition t_roce_netdev_filter :: ctype where
  "t_roce_netdev_filter = Ptr ''bool (*)(struct ib_device *, u32, struct net_device *, void *)''"

definition struct_netdev_event_work_cmd :: ctype where
  "struct_netdev_event_work_cmd = Comp Struct False [
    Member ''cb'' t_roce_netdev_callback,
    Member ''filter'' t_roce_netdev_filter,
    Member ''ndev'' (Ptr ''struct net_device *''),
    Member ''filter_ndev'' (Ptr ''struct net_device *'')]"

definition struct_netdev_event_work :: ctype where
  "struct_netdev_event_work = Comp Struct False [
    Member ''work'' struct_work_struct,
    Member ''cmds'' (Array 3 struct_netdev_event_work_cmd)]"

definition struct_netdev_hw_addr :: ctype where
  "struct_netdev_hw_addr = Comp Struct False [
    Member ''list'' struct_list_head,
    Member ''node'' struct_rb_node,
    Member ''addr'' (Array 32 c_unsigned_char),
    Member ''type'' c_unsigned_char,
    Member ''global_use'' t_bool,
    Member ''sync_cnt'' c_int,
    Member ''refcount'' c_int,
    Member ''synced'' c_int,
    Member ''callback_head'' struct_callback_head]"

definition struct_netdev_lag_lower_state_info :: ctype where
  "struct_netdev_lag_lower_state_info = Comp Struct False [
    BitField ''link_up'' t_u8 1,
    BitField ''tx_enabled'' t_u8 1]"

definition struct_netdev_lag_upper_info :: ctype where
  "struct_netdev_lag_upper_info = Comp Struct False [
    Member ''tx_type'' enum_netdev_lag_tx_type,
    Member ''hash_type'' enum_netdev_lag_hash]"

definition struct_netdev_name_node :: ctype where
  "struct_netdev_name_node = Comp Struct False [
    Member ''hlist'' struct_hlist_node,
    Member ''list'' struct_list_head,
    Member ''dev'' (Ptr ''struct net_device *''),
    Member ''name'' (Ptr ''char *''),
    Member ''rcu'' struct_callback_head]"

definition struct_netdev_nested_priv :: ctype where
  "struct_netdev_nested_priv = Comp Struct False [
    Member ''flags'' c_unsigned_char,
    Member ''data'' (Ptr ''void *'')]"

definition struct_netdev_net_notifier :: ctype where
  "struct_netdev_net_notifier = Comp Struct False [
    Member ''list'' struct_list_head,
    Member ''nb'' (Ptr ''struct notifier_block *'')]"

definition struct_netdev_nl_dump_ctx :: ctype where
  "struct_netdev_nl_dump_ctx = Comp Struct False [
    Member ''ifindex'' c_unsigned_long,
    Member ''rxq_idx'' c_unsigned_int,
    Member ''txq_idx'' c_unsigned_int,
    Member ''napi_id'' c_unsigned_int]"

definition struct_netdev_nl_sock :: ctype where
  "struct_netdev_nl_sock = Comp Struct False [
    Member ''lock'' struct_mutex,
    Member ''bindings'' struct_list_head]"

definition struct_netdev_notifier_info :: ctype where
  "struct_netdev_notifier_info = Comp Struct False [
    Member ''dev'' (Ptr ''struct net_device *''),
    Member ''extack'' (Ptr ''struct netlink_ext_ack *'')]"

definition struct_netdev_notifier_bonding_info :: ctype where
  "struct_netdev_notifier_bonding_info = Comp Struct False [
    Member ''info'' struct_netdev_notifier_info,
    Member ''bonding_info'' struct_netdev_bonding_info]"

definition struct_netdev_notifier_change_info :: ctype where
  "struct_netdev_notifier_change_info = Comp Struct False [
    Member ''info'' struct_netdev_notifier_info,
    Member ''flags_changed'' c_unsigned_int]"

definition struct_netdev_notifier_changelowerstate_info :: ctype where
  "struct_netdev_notifier_changelowerstate_info = Comp Struct False [
    Member ''info'' struct_netdev_notifier_info,
    Member ''lower_state_info'' (Ptr ''void *'')]"

definition struct_netdev_notifier_changeupper_info :: ctype where
  "struct_netdev_notifier_changeupper_info = Comp Struct False [
    Member ''info'' struct_netdev_notifier_info,
    Member ''upper_dev'' (Ptr ''struct net_device *''),
    Member ''master'' t_bool,
    Member ''linking'' t_bool,
    Member ''upper_info'' (Ptr ''void *'')]"

definition struct_netdev_notifier_info_ext :: ctype where
  "struct_netdev_notifier_info_ext = Comp Struct False [
    Member ''info'' struct_netdev_notifier_info,
    Member ''ext'' (Comp Union False [
      Member ''mtu'' t_u32])]"

definition struct_netdev_notifier_offload_xstats_info :: ctype where
  "struct_netdev_notifier_offload_xstats_info = Comp Struct False [
    Member ''info'' struct_netdev_notifier_info,
    Member ''type'' enum_netdev_offload_xstats_type,
    Member '''' (Comp Union False [
      Member ''report_delta'' (Ptr ''struct netdev_notifier_offload_xstats_rd *''),
      Member ''report_used'' (Ptr ''struct netdev_notifier_offload_xstats_ru *'')])]"

definition struct_rtnl_hw_stats64 :: ctype where
  "struct_rtnl_hw_stats64 = Comp Struct False [
    Member ''rx_packets'' t___u64,
    Member ''tx_packets'' t___u64,
    Member ''rx_bytes'' t___u64,
    Member ''tx_bytes'' t___u64,
    Member ''rx_errors'' t___u64,
    Member ''tx_errors'' t___u64,
    Member ''rx_dropped'' t___u64,
    Member ''tx_dropped'' t___u64,
    Member ''multicast'' t___u64]"

definition struct_netdev_notifier_offload_xstats_rd :: ctype where
  "struct_netdev_notifier_offload_xstats_rd = Comp Struct False [
    Member ''stats'' struct_rtnl_hw_stats64,
    Member ''used'' t_bool]"

definition struct_netdev_notifier_offload_xstats_ru :: ctype where
  "struct_netdev_notifier_offload_xstats_ru = Comp Struct False [
    Member ''used'' t_bool]"

definition struct_netdev_notifier_pre_changeaddr_info :: ctype where
  "struct_netdev_notifier_pre_changeaddr_info = Comp Struct False [
    Member ''info'' struct_netdev_notifier_info,
    Member ''dev_addr'' (Ptr ''unsigned char *'')]"

definition struct_dql :: ctype where
  "struct_dql = Comp Struct False ([
    Member ''num_queued'' c_unsigned_int,
    Member ''adj_limit'' c_unsigned_int,
    Member ''last_obj_cnt'' c_unsigned_int,
    Member ''stall_thrs'' c_unsigned_short,
    Member ''history_head'' c_unsigned_long,
    Member ''history'' (Array 4 c_unsigned_long)] @ replicate 9 (BitField '''' c_long 64) @ [
    Member ''limit'' c_unsigned_int,
    Member ''num_completed'' c_unsigned_int,
    Member ''prev_ovlimit'' c_unsigned_int,
    Member ''prev_num_queued'' c_unsigned_int,
    Member ''prev_last_obj_cnt'' c_unsigned_int,
    Member ''lowest_slack'' c_unsigned_int,
    Member ''slack_start_time'' c_unsigned_long,
    Member ''max_limit'' c_unsigned_int,
    Member ''min_limit'' c_unsigned_int,
    Member ''slack_hold_time'' c_unsigned_int,
    Member ''stall_max'' c_unsigned_short,
    Member ''last_reap'' c_unsigned_long,
    Member ''stall_cnt'' c_unsigned_long] @ replicate 8 (BitField '''' c_long 64))"

definition struct_netdev_queue :: ctype where
  "struct_netdev_queue = Comp Struct False ([
    Member ''dev'' (Ptr ''struct net_device *''),
    Member ''dev_tracker'' t_netdevice_tracker,
    Member ''qdisc'' (Ptr ''struct Qdisc *''),
    Member ''qdisc_sleeping'' (Ptr ''struct Qdisc *''),
    Member ''kobj'' struct_kobject,
    Member ''groups'' (Ptr ''struct attribute_group **''),
    Member ''tx_maxrate'' c_unsigned_long,
    Member ''trans_timeout'' t_atomic_long_t,
    Member ''sb_dev'' (Ptr ''struct net_device *''),
    Member ''pool'' (Ptr ''struct xsk_buff_pool *''),
    Member ''dql'' struct_dql,
    Member ''_xmit_lock'' t_spinlock_t,
    Member ''xmit_lock_owner'' c_int,
    Member ''trans_start'' c_unsigned_long,
    Member ''state'' c_unsigned_long,
    Member ''napi'' (Ptr ''struct napi_struct *'')] @ replicate 12 (BitField '''' c_long 64))"

definition struct_attribute :: ctype where
  "struct_attribute = Comp Struct False [
    Member ''name'' (Ptr ''char *''),
    Member ''mode'' t_umode_t]"

definition struct_netdev_queue_attribute :: ctype where
  "struct_netdev_queue_attribute = Comp Struct False [
    Member ''attr'' struct_attribute,
    Member ''show'' (Ptr ''ssize_t (*)(struct kobject *, struct attribute *, struct netdev_queue *, char *)''),
    Member ''store'' (Ptr ''ssize_t (*)(struct kobject *, struct attribute *, struct netdev_queue *, const char *, size_t)'')]"

definition struct_netdev_queue_mgmt_ops :: ctype where
  "struct_netdev_queue_mgmt_ops = Comp Struct False [
    Member ''ndo_queue_mem_size'' t_size_t,
    Member ''ndo_queue_mem_alloc'' (Ptr ''int (*)(struct net_device *, void *, int)''),
    Member ''ndo_queue_mem_free'' (Ptr ''void (*)(struct net_device *, void *)''),
    Member ''ndo_queue_start'' (Ptr ''int (*)(struct net_device *, void *, int)''),
    Member ''ndo_queue_stop'' (Ptr ''int (*)(struct net_device *, void *, int)'')]"

definition struct_netdev_queue_stats_rx :: ctype where
  "struct_netdev_queue_stats_rx = Comp Struct False [
    Member ''bytes'' t_u64,
    Member ''packets'' t_u64,
    Member ''alloc_fail'' t_u64,
    Member ''hw_drops'' t_u64,
    Member ''hw_drop_overruns'' t_u64,
    Member ''csum_complete'' t_u64,
    Member ''csum_unnecessary'' t_u64,
    Member ''csum_none'' t_u64,
    Member ''csum_bad'' t_u64,
    Member ''hw_gro_packets'' t_u64,
    Member ''hw_gro_bytes'' t_u64,
    Member ''hw_gro_wire_packets'' t_u64,
    Member ''hw_gro_wire_bytes'' t_u64,
    Member ''hw_drop_ratelimits'' t_u64]"

definition struct_netdev_queue_stats_tx :: ctype where
  "struct_netdev_queue_stats_tx = Comp Struct False [
    Member ''bytes'' t_u64,
    Member ''packets'' t_u64,
    Member ''hw_drops'' t_u64,
    Member ''hw_drop_errors'' t_u64,
    Member ''csum_none'' t_u64,
    Member ''needs_csum'' t_u64,
    Member ''hw_gso_packets'' t_u64,
    Member ''hw_gso_bytes'' t_u64,
    Member ''hw_gso_wire_packets'' t_u64,
    Member ''hw_gso_wire_bytes'' t_u64,
    Member ''hw_drop_ratelimits'' t_u64,
    Member ''stop'' t_u64,
    Member ''wake'' t_u64]"

definition struct_pp_memory_provider_params :: ctype where
  "struct_pp_memory_provider_params = Comp Struct False [
    Member ''mp_priv'' (Ptr ''void *''),
    Member ''mp_ops'' (Ptr ''struct memory_provider_ops *'')]"

definition struct_netdev_rx_queue :: ctype where
  "struct_netdev_rx_queue = Comp Struct False [
    Member ''xdp_rxq'' struct_xdp_rxq_info,
    Member ''rps_map'' (Ptr ''struct rps_map *''),
    Member ''rps_flow_table'' (Ptr ''struct rps_dev_flow_table *''),
    Member ''kobj'' struct_kobject,
    Member ''groups'' (Ptr ''struct attribute_group **''),
    Member ''dev'' (Ptr ''struct net_device *''),
    Member ''dev_tracker'' t_netdevice_tracker,
    Member ''pool'' (Ptr ''struct xsk_buff_pool *''),
    Member ''napi'' (Ptr ''struct napi_struct *''),
    Member ''mp_params'' struct_pp_memory_provider_params]"

definition struct_netdev_stat_ops :: ctype where
  "struct_netdev_stat_ops = Comp Struct False [
    Member ''get_queue_stats_rx'' (Ptr ''void (*)(struct net_device *, int, struct netdev_queue_stats_rx *)''),
    Member ''get_queue_stats_tx'' (Ptr ''void (*)(struct net_device *, int, struct netdev_queue_stats_tx *)''),
    Member ''get_base_stats'' (Ptr ''void (*)(struct net_device *, struct netdev_queue_stats_rx *, struct netdev_queue_stats_tx *)'')]"

definition struct_netdev_xmit :: ctype where
  "struct_netdev_xmit = Comp Struct False [
    Member ''recursion'' t_u16,
    Member ''more'' t_u8,
    Member ''skip_txqueue'' t_u8,
    Member ''sched_mirred_nest'' t_u8]"

definition struct_netlink_broadcast_data :: ctype where
  "struct_netlink_broadcast_data = Comp Struct False [
    Member ''exclude_sk'' (Ptr ''struct sock *''),
    Member ''net'' (Ptr ''struct net *''),
    Member ''portid'' t_u32,
    Member ''group'' t_u32,
    Member ''failure'' c_int,
    Member ''delivery_failure'' c_int,
    Member ''congested'' c_int,
    Member ''delivered'' c_int,
    Member ''allocation'' t_gfp_t,
    Member ''skb'' (Ptr ''struct sk_buff *''),
    Member ''skb2'' (Ptr ''struct sk_buff *''),
    Member ''tx_filter'' (Ptr ''int (*)(struct sock *, struct sk_buff *, void *)''),
    Member ''tx_data'' (Ptr ''void *'')]"

definition struct_netlink_callback :: ctype where
  "struct_netlink_callback = Comp Struct False [
    Member ''skb'' (Ptr ''struct sk_buff *''),
    Member ''nlh'' (Ptr ''struct nlmsghdr *''),
    Member ''dump'' (Ptr ''int (*)(struct sk_buff *, struct netlink_callback *)''),
    Member ''done'' (Ptr ''int (*)(struct netlink_callback *)''),
    Member ''data'' (Ptr ''void *''),
    Member ''module'' (Ptr ''struct module *''),
    Member ''extack'' (Ptr ''struct netlink_ext_ack *''),
    Member ''family'' t_u16,
    Member ''answer_flags'' t_u16,
    Member ''min_dump_alloc'' t_u32,
    Member ''prev_seq'' c_unsigned_int,
    Member ''seq'' c_unsigned_int,
    Member ''flags'' c_int,
    Member ''strict_check'' t_bool,
    Member '''' (Comp Union False [
      Member ''ctx'' (Array 48 t_u8),
      Member ''args'' (Array 6 c_long)])]"

definition struct_netlink_compare_arg :: ctype where
  "struct_netlink_compare_arg = Comp Struct False [
    Member ''pnet'' t_possible_net_t,
    Member ''portid'' t_u32]"

definition struct_netlink_diag_msg :: ctype where
  "struct_netlink_diag_msg = Comp Struct False [
    Member ''ndiag_family'' t___u8,
    Member ''ndiag_type'' t___u8,
    Member ''ndiag_protocol'' t___u8,
    Member ''ndiag_state'' t___u8,
    Member ''ndiag_portid'' t___u32,
    Member ''ndiag_dst_portid'' t___u32,
    Member ''ndiag_dst_group'' t___u32,
    Member ''ndiag_ino'' t___u32,
    Member ''ndiag_cookie'' (Array 2 t___u32)]"

definition struct_netlink_diag_req :: ctype where
  "struct_netlink_diag_req = Comp Struct False [
    Member ''sdiag_family'' t___u8,
    Member ''sdiag_protocol'' t___u8,
    Member ''pad'' t___u16,
    Member ''ndiag_ino'' t___u32,
    Member ''ndiag_show'' t___u32,
    Member ''ndiag_cookie'' (Array 2 t___u32)]"

definition struct_netlink_dump_control :: ctype where
  "struct_netlink_dump_control = Comp Struct False [
    Member ''start'' (Ptr ''int (*)(struct netlink_callback *)''),
    Member ''dump'' (Ptr ''int (*)(struct sk_buff *, struct netlink_callback *)''),
    Member ''done'' (Ptr ''int (*)(struct netlink_callback *)''),
    Member ''extack'' (Ptr ''struct netlink_ext_ack *''),
    Member ''data'' (Ptr ''void *''),
    Member ''module'' (Ptr ''struct module *''),
    Member ''min_dump_alloc'' t_u32,
    Member ''flags'' c_int]"

definition struct_netlink_kernel_cfg :: ctype where
  "struct_netlink_kernel_cfg = Comp Struct False [
    Member ''groups'' c_unsigned_int,
    Member ''flags'' c_unsigned_int,
    Member ''input'' (Ptr ''void (*)(struct sk_buff *)''),
    Member ''bind'' (Ptr ''int (*)(struct net *, int)''),
    Member ''unbind'' (Ptr ''void (*)(struct net *, int)''),
    Member ''release'' (Ptr ''void (*)(struct sock *, unsigned long *)'')]"

definition struct_netlink_notify :: ctype where
  "struct_netlink_notify = Comp Struct False [
    Member ''net'' (Ptr ''struct net *''),
    Member ''portid'' t_u32,
    Member ''protocol'' c_int]"

definition struct_netlink_policy_dump_state :: ctype where
  "struct_netlink_policy_dump_state = Comp Struct False [
    Member ''policy_idx'' c_unsigned_int,
    Member ''attr_idx'' c_unsigned_int,
    Member ''n_alloc'' c_unsigned_int,
    Member ''policies'' (Array 0 (Comp Struct False [
      Member ''policy'' (Ptr ''struct nla_policy *''),
      Member ''maxtype'' c_unsigned_int]))]"

definition struct_netlink_range_validation :: ctype where
  "struct_netlink_range_validation = Comp Struct False [
    Member ''min'' t_u64,
    Member ''max'' t_u64]"

definition struct_netlink_range_validation_signed :: ctype where
  "struct_netlink_range_validation_signed = Comp Struct False [
    Member ''min'' t_s64,
    Member ''max'' t_s64]"

definition struct_netlink_set_err_data :: ctype where
  "struct_netlink_set_err_data = Comp Struct False [
    Member ''exclude_sk'' (Ptr ''struct sock *''),
    Member ''portid'' t_u32,
    Member ''group'' t_u32,
    Member ''code'' c_int]"

definition struct_scm_creds :: ctype where
  "struct_scm_creds = Comp Struct False [
    Member ''pid'' t_u32,
    Member ''uid'' t_kuid_t,
    Member ''gid'' t_kgid_t]"

definition struct_netlink_skb_parms :: ctype where
  "struct_netlink_skb_parms = Comp Struct False [
    Member ''creds'' struct_scm_creds,
    Member ''portid'' t___u32,
    Member ''dst_group'' t___u32,
    Member ''flags'' t___u32,
    Member ''sk'' (Ptr ''struct sock *''),
    Member ''nsid_is_set'' t_bool,
    Member ''nsid'' c_int]"

definition struct_netlink_sock :: ctype where
  "struct_netlink_sock = Comp Struct False [
    Member ''sk'' struct_sock,
    Member ''flags'' c_unsigned_long,
    Member ''portid'' t_u32,
    Member ''dst_portid'' t_u32,
    Member ''dst_group'' t_u32,
    Member ''subscriptions'' t_u32,
    Member ''ngroups'' t_u32,
    Member ''groups'' (Ptr ''unsigned long *''),
    Member ''state'' c_unsigned_long,
    Member ''max_recvmsg_len'' t_size_t,
    Member ''wait'' t_wait_queue_head_t,
    Member ''bound'' t_bool,
    Member ''cb_running'' t_bool,
    Member ''dump_done_errno'' c_int,
    Member ''cb'' struct_netlink_callback,
    Member ''nl_cb_mutex'' struct_mutex,
    Member ''netlink_rcv'' (Ptr ''void (*)(struct sk_buff *)''),
    Member ''netlink_bind'' (Ptr ''int (*)(struct net *, int)''),
    Member ''netlink_unbind'' (Ptr ''void (*)(struct net *, int)''),
    Member ''netlink_release'' (Ptr ''void (*)(struct sock *, unsigned long *)''),
    Member ''module'' (Ptr ''struct module *''),
    Member ''node'' struct_rhash_head,
    Member ''rcu'' struct_callback_head]"

definition struct_netlink_table :: ctype where
  "struct_netlink_table = Comp Struct False [
    Member ''hash'' struct_rhashtable,
    Member ''mc_list'' struct_hlist_head,
    Member ''listeners'' (Ptr ''struct listeners *''),
    Member ''flags'' c_unsigned_int,
    Member ''groups'' c_unsigned_int,
    Member ''cb_mutex'' (Ptr ''struct mutex *''),
    Member ''module'' (Ptr ''struct module *''),
    Member ''bind'' (Ptr ''int (*)(struct net *, int)''),
    Member ''unbind'' (Ptr ''void (*)(struct net *, int)''),
    Member ''release'' (Ptr ''void (*)(struct sock *, unsigned long *)''),
    Member ''registered'' c_int]"

definition struct_netlink_tap :: ctype where
  "struct_netlink_tap = Comp Struct False [
    Member ''dev'' (Ptr ''struct net_device *''),
    Member ''module'' (Ptr ''struct module *''),
    Member ''list'' struct_list_head]"

definition struct_netlink_tap_net :: ctype where
  "struct_netlink_tap_net = Comp Struct False [
    Member ''netlink_tap_all'' struct_list_head,
    Member ''netlink_tap_lock'' struct_mutex]"

definition enum_netloc_type4 :: ctype where
  "enum_netloc_type4 = Enum False [
    (''NL4_NAME'', 1), (''NL4_URL'', 2), (''NL4_NETADDR'', 3)]"

definition struct_nfs42_netaddr :: ctype where
  "struct_nfs42_netaddr = Comp Struct False [
    Member ''netid'' (Array 5 c_char),
    Member ''addr'' (Array 58 c_char),
    Member ''netid_len'' t_u32,
    Member ''addr_len'' t_u32]"

definition struct_nl4_server :: ctype where
  "struct_nl4_server = Comp Struct False [
    Member ''nl4_type'' enum_netloc_type4,
    Member ''u'' (Comp Union False [
      Member '''' (Comp Struct False [
        Member ''nl4_str_sz'' c_int,
        Member ''nl4_str'' (Array 1025 c_char)]),
      Member ''nl4_addr'' struct_nfs42_netaddr])]"

definition struct_nl80211_bss_select_rssi_adjust :: ctype where
  "struct_nl80211_bss_select_rssi_adjust = Comp Struct False [
    Member ''band'' t___u8,
    Member ''delta'' t___s8]"

definition struct_nl80211_pattern_support :: ctype where
  "struct_nl80211_pattern_support = Comp Struct False [
    Member ''max_patterns'' t___u32,
    Member ''min_pattern_len'' t___u32,
    Member ''max_pattern_len'' t___u32,
    Member ''max_pkt_offset'' t___u32]"

definition struct_nl80211_coalesce_rule_support :: ctype where
  "struct_nl80211_coalesce_rule_support = Comp Struct False [
    Member ''max_rules'' t___u32,
    Member ''pat'' struct_nl80211_pattern_support,
    Member ''max_delay'' t___u32]"

definition struct_nl80211_dump_wiphy_state :: ctype where
  "struct_nl80211_dump_wiphy_state = Comp Struct False [
    Member ''filter_wiphy'' t_s64,
    Member ''start'' c_long,
    Member ''split_start'' c_long,
    Member ''band_start'' c_long,
    Member ''chan_start'' c_long,
    Member ''capa_start'' c_long,
    Member ''split'' t_bool]"

definition struct_nl80211_mlme_event :: ctype where
  "struct_nl80211_mlme_event = Comp Struct False [
    Member ''cmd'' enum_nl80211_commands,
    Member ''buf'' (Ptr ''u8 *''),
    Member ''buf_len'' t_size_t,
    Member ''uapsd_queues'' c_int,
    Member ''req_ies'' (Ptr ''u8 *''),
    Member ''req_ies_len'' t_size_t,
    Member ''reconnect'' t_bool]"

definition struct_nl80211_sta_flag_update :: ctype where
  "struct_nl80211_sta_flag_update = Comp Struct False [
    Member ''mask'' t___u32,
    Member ''set'' t___u32]"

definition struct_nl80211_txrate_he :: ctype where
  "struct_nl80211_txrate_he = Comp Struct False [
    Member ''mcs'' (Array 8 t___u16)]"

definition struct_nl80211_txrate_vht :: ctype where
  "struct_nl80211_txrate_vht = Comp Struct False [
    Member ''mcs'' (Array 8 t___u16)]"

definition struct_nl80211_vendor_cmd_info :: ctype where
  "struct_nl80211_vendor_cmd_info = Comp Struct False [
    Member ''vendor_id'' t___u32,
    Member ''subcmd'' t___u32]"

definition struct_nl_pktinfo :: ctype where
  "struct_nl_pktinfo = Comp Struct False [
    Member ''group'' t___u32]"

definition struct_rhashtable_walker :: ctype where
  "struct_rhashtable_walker = Comp Struct False [
    Member ''list'' struct_list_head,
    Member ''tbl'' (Ptr ''struct bucket_table *'')]"

definition struct_rhashtable_iter :: ctype where
  "struct_rhashtable_iter = Comp Struct False [
    Member ''ht'' (Ptr ''struct rhashtable *''),
    Member ''p'' (Ptr ''struct rhash_head *''),
    Member ''list'' (Ptr ''struct rhlist_head *''),
    Member ''walker'' struct_rhashtable_walker,
    Member ''slot'' c_unsigned_int,
    Member ''skip'' c_unsigned_int,
    Member ''end_of_table'' t_bool]"

definition struct_nl_seq_iter :: ctype where
  "struct_nl_seq_iter = Comp Struct False [
    Member ''p'' struct_seq_net_private,
    Member ''hti'' struct_rhashtable_iter,
    Member ''link'' c_int]"

definition struct_nla_bitfield32 :: ctype where
  "struct_nla_bitfield32 = Comp Struct False [
    Member ''value'' t___u32,
    Member ''selector'' t___u32]"

definition struct_nla_map :: ctype where
  "struct_nla_map = Comp Struct False [
    Member ''key'' t___u32,
    Member ''val'' t___u32]"

definition struct_nla_map___2 :: ctype where
  "struct_nla_map___2 = Comp Struct False [
    Member ''key'' t_u32,
    Member ''val'' t_u32]"

definition enum_rdma_nldev_attr :: ctype where
  "enum_rdma_nldev_attr = Enum False [
    (''RDMA_NLDEV_ATTR_UNSPEC'', 0), (''RDMA_NLDEV_ATTR_PAD'', 0),
    (''RDMA_NLDEV_ATTR_DEV_INDEX'', 1), (''RDMA_NLDEV_ATTR_DEV_NAME'', 2),
    (''RDMA_NLDEV_ATTR_PORT_INDEX'', 3), (''RDMA_NLDEV_ATTR_CAP_FLAGS'', 4),
    (''RDMA_NLDEV_ATTR_FW_VERSION'', 5), (''RDMA_NLDEV_ATTR_NODE_GUID'', 6),
    (''RDMA_NLDEV_ATTR_SYS_IMAGE_GUID'', 7), (''RDMA_NLDEV_ATTR_SUBNET_PREFIX'', 8),
    (''RDMA_NLDEV_ATTR_LID'', 9), (''RDMA_NLDEV_ATTR_SM_LID'', 10), (''RDMA_NLDEV_ATTR_LMC'', 11),
    (''RDMA_NLDEV_ATTR_PORT_STATE'', 12), (''RDMA_NLDEV_ATTR_PORT_PHYS_STATE'', 13),
    (''RDMA_NLDEV_ATTR_DEV_NODE_TYPE'', 14), (''RDMA_NLDEV_ATTR_RES_SUMMARY'', 15),
    (''RDMA_NLDEV_ATTR_RES_SUMMARY_ENTRY'', 16), (''RDMA_NLDEV_ATTR_RES_SUMMARY_ENTRY_NAME'', 17),
    (''RDMA_NLDEV_ATTR_RES_SUMMARY_ENTRY_CURR'', 18), (''RDMA_NLDEV_ATTR_RES_QP'', 19),
    (''RDMA_NLDEV_ATTR_RES_QP_ENTRY'', 20), (''RDMA_NLDEV_ATTR_RES_LQPN'', 21),
    (''RDMA_NLDEV_ATTR_RES_RQPN'', 22), (''RDMA_NLDEV_ATTR_RES_RQ_PSN'', 23),
    (''RDMA_NLDEV_ATTR_RES_SQ_PSN'', 24), (''RDMA_NLDEV_ATTR_RES_PATH_MIG_STATE'', 25),
    (''RDMA_NLDEV_ATTR_RES_TYPE'', 26), (''RDMA_NLDEV_ATTR_RES_STATE'', 27),
    (''RDMA_NLDEV_ATTR_RES_PID'', 28), (''RDMA_NLDEV_ATTR_RES_KERN_NAME'', 29),
    (''RDMA_NLDEV_ATTR_RES_CM_ID'', 30), (''RDMA_NLDEV_ATTR_RES_CM_ID_ENTRY'', 31),
    (''RDMA_NLDEV_ATTR_RES_PS'', 32), (''RDMA_NLDEV_ATTR_RES_SRC_ADDR'', 33),
    (''RDMA_NLDEV_ATTR_RES_DST_ADDR'', 34), (''RDMA_NLDEV_ATTR_RES_CQ'', 35),
    (''RDMA_NLDEV_ATTR_RES_CQ_ENTRY'', 36), (''RDMA_NLDEV_ATTR_RES_CQE'', 37),
    (''RDMA_NLDEV_ATTR_RES_USECNT'', 38), (''RDMA_NLDEV_ATTR_RES_POLL_CTX'', 39),
    (''RDMA_NLDEV_ATTR_RES_MR'', 40), (''RDMA_NLDEV_ATTR_RES_MR_ENTRY'', 41),
    (''RDMA_NLDEV_ATTR_RES_RKEY'', 42), (''RDMA_NLDEV_ATTR_RES_LKEY'', 43),
    (''RDMA_NLDEV_ATTR_RES_IOVA'', 44), (''RDMA_NLDEV_ATTR_RES_MRLEN'', 45),
    (''RDMA_NLDEV_ATTR_RES_PD'', 46), (''RDMA_NLDEV_ATTR_RES_PD_ENTRY'', 47),
    (''RDMA_NLDEV_ATTR_RES_LOCAL_DMA_LKEY'', 48),
    (''RDMA_NLDEV_ATTR_RES_UNSAFE_GLOBAL_RKEY'', 49), (''RDMA_NLDEV_ATTR_NDEV_INDEX'', 50),
    (''RDMA_NLDEV_ATTR_NDEV_NAME'', 51), (''RDMA_NLDEV_ATTR_DRIVER'', 52),
    (''RDMA_NLDEV_ATTR_DRIVER_ENTRY'', 53), (''RDMA_NLDEV_ATTR_DRIVER_STRING'', 54),
    (''RDMA_NLDEV_ATTR_DRIVER_PRINT_TYPE'', 55), (''RDMA_NLDEV_ATTR_DRIVER_S32'', 56),
    (''RDMA_NLDEV_ATTR_DRIVER_U32'', 57), (''RDMA_NLDEV_ATTR_DRIVER_S64'', 58),
    (''RDMA_NLDEV_ATTR_DRIVER_U64'', 59), (''RDMA_NLDEV_ATTR_RES_PDN'', 60),
    (''RDMA_NLDEV_ATTR_RES_CQN'', 61), (''RDMA_NLDEV_ATTR_RES_MRN'', 62),
    (''RDMA_NLDEV_ATTR_RES_CM_IDN'', 63), (''RDMA_NLDEV_ATTR_RES_CTXN'', 64),
    (''RDMA_NLDEV_ATTR_LINK_TYPE'', 65), (''RDMA_NLDEV_SYS_ATTR_NETNS_MODE'', 66),
    (''RDMA_NLDEV_ATTR_DEV_PROTOCOL'', 67), (''RDMA_NLDEV_NET_NS_FD'', 68),
    (''RDMA_NLDEV_ATTR_CHARDEV_TYPE'', 69), (''RDMA_NLDEV_ATTR_CHARDEV_NAME'', 70),
    (''RDMA_NLDEV_ATTR_CHARDEV_ABI'', 71), (''RDMA_NLDEV_ATTR_CHARDEV'', 72),
    (''RDMA_NLDEV_ATTR_UVERBS_DRIVER_ID'', 73), (''RDMA_NLDEV_ATTR_STAT_MODE'', 74),
    (''RDMA_NLDEV_ATTR_STAT_RES'', 75), (''RDMA_NLDEV_ATTR_STAT_AUTO_MODE_MASK'', 76),
    (''RDMA_NLDEV_ATTR_STAT_COUNTER'', 77), (''RDMA_NLDEV_ATTR_STAT_COUNTER_ENTRY'', 78),
    (''RDMA_NLDEV_ATTR_STAT_COUNTER_ID'', 79), (''RDMA_NLDEV_ATTR_STAT_HWCOUNTERS'', 80),
    (''RDMA_NLDEV_ATTR_STAT_HWCOUNTER_ENTRY'', 81),
    (''RDMA_NLDEV_ATTR_STAT_HWCOUNTER_ENTRY_NAME'', 82),
    (''RDMA_NLDEV_ATTR_STAT_HWCOUNTER_ENTRY_VALUE'', 83), (''RDMA_NLDEV_ATTR_DEV_DIM'', 84),
    (''RDMA_NLDEV_ATTR_RES_RAW'', 85), (''RDMA_NLDEV_ATTR_RES_CTX'', 86),
    (''RDMA_NLDEV_ATTR_RES_CTX_ENTRY'', 87), (''RDMA_NLDEV_ATTR_RES_SRQ'', 88),
    (''RDMA_NLDEV_ATTR_RES_SRQ_ENTRY'', 89), (''RDMA_NLDEV_ATTR_RES_SRQN'', 90),
    (''RDMA_NLDEV_ATTR_MIN_RANGE'', 91), (''RDMA_NLDEV_ATTR_MAX_RANGE'', 92),
    (''RDMA_NLDEV_SYS_ATTR_COPY_ON_FORK'', 93), (''RDMA_NLDEV_ATTR_STAT_HWCOUNTER_INDEX'', 94),
    (''RDMA_NLDEV_ATTR_STAT_HWCOUNTER_DYNAMIC'', 95),
    (''RDMA_NLDEV_SYS_ATTR_PRIVILEGED_QKEY_MODE'', 96), (''RDMA_NLDEV_ATTR_DRIVER_DETAILS'', 97),
    (''RDMA_NLDEV_ATTR_RES_SUBTYPE'', 98), (''RDMA_NLDEV_ATTR_DEV_TYPE'', 99),
    (''RDMA_NLDEV_ATTR_PARENT_NAME'', 100), (''RDMA_NLDEV_ATTR_NAME_ASSIGN_TYPE'', 101),
    (''RDMA_NLDEV_ATTR_EVENT_TYPE'', 102), (''RDMA_NLDEV_SYS_ATTR_MONITOR_MODE'', 103),
    (''RDMA_NLDEV_ATTR_STAT_OPCOUNTER_ENABLED'', 104), (''RDMA_NLDEV_ATTR_MAX'', 105)]"

definition struct_nldev_fill_res_entry :: ctype where
  "struct_nldev_fill_res_entry = Comp Struct False [
    Member ''nldev_attr'' enum_rdma_nldev_attr,
    Member ''flags'' t_u8,
    Member ''entry'' t_u32,
    Member ''id'' t_u32]"

definition struct_nlink :: ctype where
  "struct_nlink = Comp Struct False [
    Member ''inum'' t_u64,
    Member ''snapshot'' t_u32,
    Member ''count'' t_u32]"

definition struct_nlink_table :: ctype where
  "struct_nlink_table = Comp Struct False [
    Member ''nr'' t_size_t,
    Member ''size'' t_size_t,
    Member ''d'' (Ptr ''struct nlink *'')]"

definition struct_nlm_cookie :: ctype where
  "struct_nlm_cookie = Comp Struct False [
    Member ''data'' (Array 32 c_unsigned_char),
    Member ''len'' c_unsigned_int]"

definition struct_nfs_fh :: ctype where
  "struct_nfs_fh = Comp Struct False [
    Member ''size'' c_unsigned_short,
    Member ''data'' (Array 128 c_unsigned_char)]"

definition struct_xdr_netobj :: ctype where
  "struct_xdr_netobj = Comp Struct False [
    Member ''len'' c_unsigned_int,
    Member ''data'' (Ptr ''u8 *'')]"

definition t_fl_owner_t :: ctype where
  "t_fl_owner_t = Ptr ''void *''"

definition struct_file_lock_core :: ctype where
  "struct_file_lock_core = Comp Struct False [
    Member ''flc_blocker'' (Ptr ''struct file_lock_core *''),
    Member ''flc_list'' struct_list_head,
    Member ''flc_link'' struct_hlist_node,
    Member ''flc_blocked_requests'' struct_list_head,
    Member ''flc_blocked_member'' struct_list_head,
    Member ''flc_owner'' t_fl_owner_t,
    Member ''flc_flags'' c_unsigned_int,
    Member ''flc_type'' c_unsigned_char,
    Member ''flc_pid'' t_pid_t,
    Member ''flc_link_cpu'' c_int,
    Member ''flc_wait'' t_wait_queue_head_t,
    Member ''flc_file'' (Ptr ''struct file *'')]"

definition struct_nfs_lock_info :: ctype where
  "struct_nfs_lock_info = Comp Struct False [
    Member ''state'' t_u32,
    Member ''owner'' (Ptr ''struct nlm_lockowner *''),
    Member ''list'' struct_list_head]"

definition struct_nfs4_lock_info :: ctype where
  "struct_nfs4_lock_info = Comp Struct False [
    Member ''owner'' (Ptr ''struct nfs4_lock_state *'')]"

definition struct_file_lock :: ctype where
  "struct_file_lock = Comp Struct False [
    Member ''c'' struct_file_lock_core,
    Member ''fl_start'' t_loff_t,
    Member ''fl_end'' t_loff_t,
    Member ''fl_ops'' (Ptr ''struct file_lock_operations *''),
    Member ''fl_lmops'' (Ptr ''struct lock_manager_operations *''),
    Member ''fl_u'' (Comp Union False [
      Member ''nfs_fl'' struct_nfs_lock_info,
      Member ''nfs4_fl'' struct_nfs4_lock_info,
      Member ''afs'' (Comp Struct False [
        Member ''link'' struct_list_head,
        Member ''state'' c_int,
        Member ''debug_id'' c_unsigned_int]),
      Member ''ceph'' (Comp Struct False [
        Member ''inode'' (Ptr ''struct inode *'')])])]"

definition struct_nlm_lock :: ctype where
  "struct_nlm_lock = Comp Struct False [
    Member ''caller'' (Ptr ''char *''),
    Member ''len'' c_unsigned_int,
    Member ''fh'' struct_nfs_fh,
    Member ''oh'' struct_xdr_netobj,
    Member ''svid'' t_u32,
    Member ''lock_start'' t_u64,
    Member ''lock_len'' t_u64,
    Member ''fl'' struct_file_lock]"

definition struct_nlm_args :: ctype where
  "struct_nlm_args = Comp Struct False [
    Member ''cookie'' struct_nlm_cookie,
    Member ''lock'' struct_nlm_lock,
    Member ''block'' t_u32,
    Member ''reclaim'' t_u32,
    Member ''state'' t_u32,
    Member ''monitor'' t_u32,
    Member ''fsm_access'' t_u32,
    Member ''fsm_mode'' t_u32]"

definition struct_nlm_block :: ctype where
  "struct_nlm_block = Comp Struct False [
    Member ''b_count'' struct_kref,
    Member ''b_list'' struct_list_head,
    Member ''b_flist'' struct_list_head,
    Member ''b_call'' (Ptr ''struct nlm_rqst *''),
    Member ''b_daemon'' (Ptr ''struct svc_serv *''),
    Member ''b_host'' (Ptr ''struct nlm_host *''),
    Member ''b_when'' c_unsigned_long,
    Member ''b_id'' c_unsigned_int,
    Member ''b_granted'' c_unsigned_char,
    Member ''b_file'' (Ptr ''struct nlm_file *''),
    Member ''b_cache_req'' (Ptr ''struct cache_req *''),
    Member ''b_deferred_req'' (Ptr ''struct cache_deferred_req *''),
    Member ''b_flags'' c_unsigned_int]"

definition struct_nlm_file :: ctype where
  "struct_nlm_file = Comp Struct False [
    Member ''f_list'' struct_hlist_node,
    Member ''f_handle'' struct_nfs_fh,
    Member ''f_file'' (Array 2 (Ptr ''struct file *'')),
    Member ''f_shares'' (Ptr ''struct nlm_share *''),
    Member ''f_blocks'' struct_list_head,
    Member ''f_locks'' c_unsigned_int,
    Member ''f_count'' c_unsigned_int,
    Member ''f_mutex'' struct_mutex]"

definition struct_nlm_host :: ctype where
  "struct_nlm_host = Comp Struct False [
    Member ''h_hash'' struct_hlist_node,
    Member ''h_addr'' struct___kernel_sockaddr_storage,
    Member ''h_addrlen'' t_size_t,
    Member ''h_srcaddr'' struct___kernel_sockaddr_storage,
    Member ''h_srcaddrlen'' t_size_t,
    Member ''h_rpcclnt'' (Ptr ''struct rpc_clnt *''),
    Member ''h_name'' (Ptr ''char *''),
    Member ''h_version'' t_u32,
    Member ''h_proto'' c_unsigned_short,
    BitField ''h_reclaiming'' c_unsigned_short 1,
    BitField ''h_server'' c_unsigned_short 1,
    BitField ''h_noresvport'' c_unsigned_short 1,
    BitField ''h_inuse'' c_unsigned_short 1,
    Member ''h_gracewait'' t_wait_queue_head_t,
    Member ''h_rwsem'' struct_rw_semaphore,
    Member ''h_state'' t_u32,
    Member ''h_nsmstate'' t_u32,
    Member ''h_pidcount'' t_u32,
    Member ''h_count'' t_refcount_t,
    Member ''h_mutex'' struct_mutex,
    Member ''h_nextrebind'' c_unsigned_long,
    Member ''h_expires'' c_unsigned_long,
    Member ''h_lockowners'' struct_list_head,
    Member ''h_lock'' t_spinlock_t,
    Member ''h_granted'' struct_list_head,
    Member ''h_reclaim'' struct_list_head,
    Member ''h_nsmhandle'' (Ptr ''struct nsm_handle *''),
    Member ''h_addrbuf'' (Ptr ''char *''),
    Member ''net'' (Ptr ''struct net *''),
    Member ''h_cred'' (Ptr ''struct cred *''),
    Member ''nodename'' (Array 65 c_char),
    Member ''h_nlmclnt_ops'' (Ptr ''struct nlmclnt_operations *'')]"

definition t_uint32_t :: ctype where
  "t_uint32_t = t_u32"

definition struct_nlm_lockowner :: ctype where
  "struct_nlm_lockowner = Comp Struct False [
    Member ''list'' struct_list_head,
    Member ''count'' t_refcount_t,
    Member ''host'' (Ptr ''struct nlm_host *''),
    Member ''owner'' t_fl_owner_t,
    Member ''pid'' t_uint32_t]"

definition struct_nlm_lookup_host_info :: ctype where
  "struct_nlm_lookup_host_info = Comp Struct False [
    Member ''server'' c_int,
    Member ''sap'' (Ptr ''struct sockaddr *''),
    Member ''salen'' t_size_t,
    Member ''protocol'' c_unsigned_short,
    Member ''version'' t_u32,
    Member ''hostname'' (Ptr ''char *''),
    Member ''hostname_len'' t_size_t,
    Member ''noresvport'' c_int,
    Member ''net'' (Ptr ''struct net *''),
    Member ''cred'' (Ptr ''struct cred *'')]"

definition struct_nsm_private :: ctype where
  "struct_nsm_private = Comp Struct False [
    Member ''data'' (Array 16 c_unsigned_char)]"

definition struct_nlm_reboot :: ctype where
  "struct_nlm_reboot = Comp Struct False [
    Member ''mon'' (Ptr ''char *''),
    Member ''len'' c_unsigned_int,
    Member ''state'' t_u32,
    Member ''priv'' struct_nsm_private]"

definition struct_nlm_res :: ctype where
  "struct_nlm_res = Comp Struct False [
    Member ''cookie'' struct_nlm_cookie,
    Member ''status'' t___be32,
    Member ''lock'' struct_nlm_lock]"

definition struct_nlm_rqst :: ctype where
  "struct_nlm_rqst = Comp Struct False [
    Member ''a_count'' t_refcount_t,
    Member ''a_flags'' c_unsigned_int,
    Member ''a_host'' (Ptr ''struct nlm_host *''),
    Member ''a_args'' struct_nlm_args,
    Member ''a_res'' struct_nlm_res,
    Member ''a_block'' (Ptr ''struct nlm_block *''),
    Member ''a_retries'' c_unsigned_int,
    Member ''a_owner'' (Array 74 t_u8),
    Member ''a_callback_data'' (Ptr ''void *'')]"

definition struct_nlm_share :: ctype where
  "struct_nlm_share = Comp Struct False [
    Member ''s_next'' (Ptr ''struct nlm_share *''),
    Member ''s_host'' (Ptr ''struct nlm_host *''),
    Member ''s_file'' (Ptr ''struct nlm_file *''),
    Member ''s_owner'' struct_xdr_netobj,
    Member ''s_access'' t_u32,
    Member ''s_mode'' t_u32]"

definition struct_nlm_wait :: ctype where
  "struct_nlm_wait = Comp Struct False [
    Member ''b_list'' struct_list_head,
    Member ''b_wait'' t_wait_queue_head_t,
    Member ''b_host'' (Ptr ''struct nlm_host *''),
    Member ''b_lock'' (Ptr ''struct file_lock *''),
    Member ''b_status'' t___be32]"

definition struct_nlmclnt_initdata :: ctype where
  "struct_nlmclnt_initdata = Comp Struct False [
    Member ''hostname'' (Ptr ''char *''),
    Member ''address'' (Ptr ''struct sockaddr *''),
    Member ''addrlen'' t_size_t,
    Member ''protocol'' c_unsigned_short,
    Member ''nfs_version'' t_u32,
    Member ''noresvport'' c_int,
    Member ''net'' (Ptr ''struct net *''),
    Member ''nlmclnt_ops'' (Ptr ''struct nlmclnt_operations *''),
    Member ''cred'' (Ptr ''struct cred *'')]"

definition struct_nlmclnt_operations :: ctype where
  "struct_nlmclnt_operations = Comp Struct False [
    Member ''nlmclnt_alloc_call'' (Ptr ''void (*)(void *)''),
    Member ''nlmclnt_unlock_prepare'' (Ptr ''bool (*)(struct rpc_task *, void *)''),
    Member ''nlmclnt_release_call'' (Ptr ''void (*)(void *)'')]"

definition struct_nlmsgerr :: ctype where
  "struct_nlmsgerr = Comp Struct False [
    Member ''error'' c_int,
    Member ''msg'' struct_nlmsghdr]"

definition struct_nlmsvc_binding :: ctype where
  "struct_nlmsvc_binding = Comp Struct False [
    Member ''fopen'' (Ptr ''__be32 (*)(struct svc_rqst *, struct nfs_fh *, struct file **, int)''),
    Member ''fclose'' (Ptr ''void (*)(struct file *)'')]"

definition struct_nls_table :: ctype where
  "struct_nls_table = Comp Struct False [
    Member ''charset'' (Ptr ''char *''),
    Member ''alias'' (Ptr ''char *''),
    Member ''uni2char'' (Ptr ''int (*)(wchar_t, unsigned char *, int)''),
    Member ''char2uni'' (Ptr ''int (*)(const unsigned char *, int, wchar_t *)''),
    Member ''charset2lower'' (Ptr ''unsigned char *''),
    Member ''charset2upper'' (Ptr ''unsigned char *''),
    Member ''owner'' (Ptr ''struct module *''),
    Member ''next'' (Ptr ''struct nls_table *'')]"

definition struct_sockaddr_pkt :: ctype where
  "struct_sockaddr_pkt = Comp Struct False [
    Member ''spkt_family'' c_unsigned_short,
    Member ''spkt_device'' (Array 14 c_unsigned_char),
    Member ''spkt_protocol'' t___be16]"

definition struct_sockaddr_ll :: ctype where
  "struct_sockaddr_ll = Comp Struct False [
    Member ''sll_family'' c_unsigned_short,
    Member ''sll_protocol'' t___be16,
    Member ''sll_ifindex'' c_int,
    Member ''sll_hatype'' c_unsigned_short,
    Member ''sll_pkttype'' c_unsigned_char,
    Member ''sll_halen'' c_unsigned_char,
    Member ''sll_addr'' (Array 8 c_unsigned_char)]"

definition struct_page_pool_params_fast :: ctype where
  "struct_page_pool_params_fast = Comp Struct False [
    Member ''order'' c_unsigned_int,
    Member ''pool_size'' c_unsigned_int,
    Member ''nid'' c_int,
    Member ''dev'' (Ptr ''struct device *''),
    Member ''napi'' (Ptr ''struct napi_struct *''),
    Member ''dma_dir'' enum_dma_data_direction,
    Member ''max_len'' c_unsigned_int,
    Member ''offset'' c_unsigned_int]"

definition struct_page_pool_alloc_stats :: ctype where
  "struct_page_pool_alloc_stats = Comp Struct False [
    Member ''fast'' t_u64,
    Member ''slow'' t_u64,
    Member ''slow_high_order'' t_u64,
    Member ''empty'' t_u64,
    Member ''refill'' t_u64,
    Member ''waive'' t_u64]"

definition struct_page_pool_params_slow :: ctype where
  "struct_page_pool_params_slow = Comp Struct False [
    Member ''netdev'' (Ptr ''struct net_device *''),
    Member ''queue_idx'' c_unsigned_int,
    Member ''flags'' c_unsigned_int,
    Member ''init_callback'' (Ptr ''void (*)(netmem_ref, void *)''),
    Member ''init_arg'' (Ptr ''void *'')]"

definition struct_pp_alloc_cache :: ctype where
  "struct_pp_alloc_cache = Comp Struct False [
    Member ''count'' t_u32,
    Member ''cache'' (Array 128 t_netmem_ref)]"

definition struct_ptr_ring :: ctype where
  "struct_ptr_ring = Comp Struct False ([
    Member ''producer'' c_int,
    Member ''producer_lock'' t_spinlock_t] @ replicate 15 (BitField '''' c_long 64) @ [
    Member ''consumer_head'' c_int,
    Member ''consumer_tail'' c_int,
    Member ''consumer_lock'' t_spinlock_t] @ replicate 14 (BitField '''' c_long 64) @ [
    Member ''size'' c_int,
    Member ''batch'' c_int,
    Member ''queue'' (Ptr ''void **'')] @ replicate 14 (BitField '''' c_long 64))"

definition struct_page_pool :: ctype where
  "struct_page_pool = Comp Struct False ([
    Member ''p'' struct_page_pool_params_fast,
    Member ''cpuid'' c_int,
    Member ''pages_state_hold_cnt'' t_u32,
    BitField ''has_init_callback'' t_bool 1,
    BitField ''dma_map'' t_bool 1,
    BitField ''dma_sync'' t_bool 1,
    BitField ''dma_sync_for_cpu'' t_bool 1,
    BitField ''system'' t_bool 1,
    BitField '''' c_long 0,
    Member ''__cacheline_group_begin__frag'' (Array 0 t___u8),
    Member ''frag_users'' c_long,
    Member ''frag_page'' t_netmem_ref,
    Member ''frag_offset'' c_unsigned_int,
    BitField '''' c_long 0,
    Member ''__cacheline_group_end__frag'' (Array 0 t___u8),
    BitField '''' c_long 64,
    Member ''__cacheline_group_pad__frag'' (Comp Struct False []),
    Member ''release_dw'' struct_delayed_work,
    Member ''disconnect'' (Ptr ''void (*)(void *)''),
    Member ''defer_start'' c_unsigned_long,
    Member ''defer_warn'' c_unsigned_long,
    Member ''alloc_stats'' struct_page_pool_alloc_stats,
    Member ''xdp_mem_id'' t_u32] @ replicate 15 (BitField '''' c_long 64) @ [
    Member ''alloc'' struct_pp_alloc_cache] @ replicate 15 (BitField '''' c_long 64) @ [
    Member ''ring'' struct_ptr_ring,
    Member ''mp_priv'' (Ptr ''void *''),
    Member ''mp_ops'' (Ptr ''struct memory_provider_ops *''),
    Member ''dma_mapped'' struct_xarray,
    Member ''recycle_stats'' (Ptr ''struct page_pool_recycle_stats *''),
    Member ''pages_state_release_cnt'' t_atomic_t,
    Member ''user_cnt'' t_refcount_t,
    Member ''destroy_cnt'' t_u64,
    Member ''slow'' struct_page_pool_params_slow,
    Member ''user'' (Comp Struct False [
      Member ''list'' struct_hlist_node,
      Member ''detach_time'' t_u64,
      Member ''id'' t_u32]),
    BitField '''' c_long 64])"

definition struct_page_pool_bh :: ctype where
  "struct_page_pool_bh = Comp Struct False [
    Member ''pool'' (Ptr ''struct page_pool *''),
    Member ''bh_lock'' t_local_lock_t]"

definition struct_page_pool_dump_cb :: ctype where
  "struct_page_pool_dump_cb = Comp Struct False [
    Member ''ifindex'' c_unsigned_long,
    Member ''pp_id'' t_u32]"

definition struct_page_pool_params :: ctype where
  "struct_page_pool_params = Comp Struct False [
    Member '''' (Comp Union False [
      Member '''' (Comp Struct False [
        Member ''order'' c_unsigned_int,
        Member ''pool_size'' c_unsigned_int,
        Member ''nid'' c_int,
        Member ''dev'' (Ptr ''struct device *''),
        Member ''napi'' (Ptr ''struct napi_struct *''),
        Member ''dma_dir'' enum_dma_data_direction,
        Member ''max_len'' c_unsigned_int,
        Member ''offset'' c_unsigned_int]),
      Member ''fast'' struct_page_pool_params_fast]),
    Member '''' (Comp Union False [
      Member '''' (Comp Struct False [
        Member ''netdev'' (Ptr ''struct net_device *''),
        Member ''queue_idx'' c_unsigned_int,
        Member ''flags'' c_unsigned_int,
        Member ''init_callback'' (Ptr ''void (*)(netmem_ref, void *)''),
        Member ''init_arg'' (Ptr ''void *'')]),
      Member ''slow'' struct_page_pool_params_slow])]"

definition struct_page_pool_recycle_stats :: ctype where
  "struct_page_pool_recycle_stats = Comp Struct False [
    Member ''cached'' t_u64,
    Member ''cache_full'' t_u64,
    Member ''ring'' t_u64,
    Member ''ring_full'' t_u64,
    Member ''released_refcnt'' t_u64]"

definition struct_page_pool_stats :: ctype where
  "struct_page_pool_stats = Comp Struct False [
    Member ''alloc_stats'' struct_page_pool_alloc_stats,
    Member ''recycle_stats'' struct_page_pool_recycle_stats]"

definition struct_skb_array :: ctype where
  "struct_skb_array = Comp Struct False [
    Member ''ring'' struct_ptr_ring]"

definition struct_rtnl_af_ops :: ctype where
  "struct_rtnl_af_ops = Comp Struct False [
    Member ''list'' struct_list_head,
    Member ''srcu'' struct_srcu_struct,
    Member ''family'' c_int,
    Member ''fill_link_af'' (Ptr ''int (*)(struct sk_buff *, const struct net_device *, u32)''),
    Member ''get_link_af_size'' (Ptr ''size_t (*)(const struct net_device *, u32)''),
    Member ''validate_link_af'' (Ptr ''int (*)(const struct net_device *, const struct nlattr *, struct netlink_ext_ack *)''),
    Member ''set_link_af'' (Ptr ''int (*)(struct net_device *, const struct nlattr *, struct netlink_ext_ack *)''),
    Member ''fill_stats_af'' (Ptr ''int (*)(struct sk_buff *, const struct net_device *)''),
    Member ''get_stats_af_size'' (Ptr ''size_t (*)(const struct net_device *)'')]"

definition struct_rtnl_link_ifmap :: ctype where
  "struct_rtnl_link_ifmap = Comp Struct False [
    Member ''mem_start'' t___u64,
    Member ''mem_end'' t___u64,
    Member ''base_addr'' t___u64,
    Member ''irq'' t___u16,
    Member ''dma'' t___u8,
    Member ''port'' t___u8]"

definition struct_rtnl_link_stats :: ctype where
  "struct_rtnl_link_stats = Comp Struct False [
    Member ''rx_packets'' t___u32,
    Member ''tx_packets'' t___u32,
    Member ''rx_bytes'' t___u32,
    Member ''tx_bytes'' t___u32,
    Member ''rx_errors'' t___u32,
    Member ''tx_errors'' t___u32,
    Member ''rx_dropped'' t___u32,
    Member ''tx_dropped'' t___u32,
    Member ''multicast'' t___u32,
    Member ''collisions'' t___u32,
    Member ''rx_length_errors'' t___u32,
    Member ''rx_over_errors'' t___u32,
    Member ''rx_crc_errors'' t___u32,
    Member ''rx_frame_errors'' t___u32,
    Member ''rx_fifo_errors'' t___u32,
    Member ''rx_missed_errors'' t___u32,
    Member ''tx_aborted_errors'' t___u32,
    Member ''tx_carrier_errors'' t___u32,
    Member ''tx_fifo_errors'' t___u32,
    Member ''tx_heartbeat_errors'' t___u32,
    Member ''tx_window_errors'' t___u32,
    Member ''rx_compressed'' t___u32,
    Member ''tx_compressed'' t___u32,
    Member ''rx_nohandler'' t___u32]"

definition struct_rtnl_mdb_dump_ctx :: ctype where
  "struct_rtnl_mdb_dump_ctx = Comp Struct False [
    Member ''idx'' c_long]"

definition struct_rtnl_msg_handler :: ctype where
  "struct_rtnl_msg_handler = Comp Struct False [
    Member ''owner'' (Ptr ''struct module *''),
    Member ''protocol'' c_int,
    Member ''msgtype'' c_int,
    Member ''doit'' t_rtnl_doit_func,
    Member ''dumpit'' t_rtnl_dumpit_func,
    Member ''flags'' c_int]"

definition struct_rtnl_net_dump_cb :: ctype where
  "struct_rtnl_net_dump_cb = Comp Struct False [
    Member ''tgt_net'' (Ptr ''struct net *''),
    Member ''ref_net'' (Ptr ''struct net *''),
    Member ''skb'' (Ptr ''struct sk_buff *''),
    Member ''fillargs'' struct_net_fill_args,
    Member ''idx'' c_int,
    Member ''s_idx'' c_int]"

definition struct_rtnl_nets :: ctype where
  "struct_rtnl_nets = Comp Struct False [
    Member ''net'' (Array 3 (Ptr ''struct net *'')),
    Member ''len'' c_unsigned_char]"

definition struct_rtnl_newlink_params :: ctype where
  "struct_rtnl_newlink_params = Comp Struct False [
    Member ''src_net'' (Ptr ''struct net *''),
    Member ''link_net'' (Ptr ''struct net *''),
    Member ''peer_net'' (Ptr ''struct net *''),
    Member ''tb'' (Ptr ''struct nlattr **''),
    Member ''data'' (Ptr ''struct nlattr **'')]"

definition struct_rtnl_newlink_tbs :: ctype where
  "struct_rtnl_newlink_tbs = Comp Struct False [
    Member ''tb'' (Array 68 (Ptr ''struct nlattr *'')),
    Member ''linkinfo'' (Array 6 (Ptr ''struct nlattr *'')),
    Member ''attr'' (Array 51 (Ptr ''struct nlattr *'')),
    Member ''slave_attr'' (Array 45 (Ptr ''struct nlattr *''))]"

definition struct_rtnl_offload_xstats_request_used :: ctype where
  "struct_rtnl_offload_xstats_request_used = Comp Struct False [
    Member ''request'' t_bool,
    Member ''used'' t_bool]"

definition struct_rtnl_stats_dump_filters :: ctype where
  "struct_rtnl_stats_dump_filters = Comp Struct False [
    Member ''mask'' (Array 6 t_u32)]"

definition struct_sk_buff__safe_rcu_or_null :: ctype where
  "struct_sk_buff__safe_rcu_or_null = Comp Struct False [
    Member ''sk'' (Ptr ''struct sock *'')]"

definition struct_sk_buff_fclones :: ctype where
  "struct_sk_buff_fclones = Comp Struct False [
    Member ''skb1'' struct_sk_buff,
    Member ''skb2'' struct_sk_buff,
    Member ''fclone_ref'' t_refcount_t]"

definition struct_sk_filter :: ctype where
  "struct_sk_filter = Comp Struct False [
    Member ''refcnt'' t_refcount_t,
    Member ''rcu'' struct_callback_head,
    Member ''prog'' (Ptr ''struct bpf_prog *'')]"

definition struct_sk_psock_work_state :: ctype where
  "struct_sk_psock_work_state = Comp Struct False [
    Member ''len'' t_u32,
    Member ''off'' t_u32]"

definition struct_sk_psock :: ctype where
  "struct_sk_psock = Comp Struct False [
    Member ''sk'' (Ptr ''struct sock *''),
    Member ''sk_redir'' (Ptr ''struct sock *''),
    Member ''apply_bytes'' t_u32,
    Member ''cork_bytes'' t_u32,
    Member ''eval'' t_u32,
    Member ''redir_ingress'' t_bool,
    Member ''cork'' (Ptr ''struct sk_msg *''),
    Member ''progs'' struct_sk_psock_progs,
    Member ''ingress_skb'' struct_sk_buff_head,
    Member ''ingress_msg'' struct_list_head,
    Member ''ingress_lock'' t_spinlock_t,
    Member ''state'' c_unsigned_long,
    Member ''link'' struct_list_head,
    Member ''link_lock'' t_spinlock_t,
    Member ''refcnt'' t_refcount_t,
    Member ''saved_unhash'' (Ptr ''void (*)(struct sock *)''),
    Member ''saved_destroy'' (Ptr ''void (*)(struct sock *)''),
    Member ''saved_close'' (Ptr ''void (*)(struct sock *, long)''),
    Member ''saved_write_space'' (Ptr ''void (*)(struct sock *)''),
    Member ''saved_data_ready'' (Ptr ''void (*)(struct sock *)''),
    Member ''psock_update_sk_prot'' (Ptr ''int (*)(struct sock *, struct sk_psock *, bool)''),
    Member ''sk_proto'' (Ptr ''struct proto *''),
    Member ''work_mutex'' struct_mutex,
    Member ''work_state'' struct_sk_psock_work_state,
    Member ''work'' struct_delayed_work,
    Member ''sk_pair'' (Ptr ''struct sock *''),
    Member ''rwork'' struct_rcu_work]"

definition struct_sk_psock_link :: ctype where
  "struct_sk_psock_link = Comp Struct False [
    Member ''list'' struct_list_head,
    Member ''map'' (Ptr ''struct bpf_map *''),
    Member ''link_raw'' (Ptr ''void *'')]"

definition struct_strp_msg :: ctype where
  "struct_strp_msg = Comp Struct False [
    Member ''full_len'' c_int,
    Member ''offset'' c_int]"

definition struct__strp_msg :: ctype where
  "struct__strp_msg = Comp Struct False [
    Member ''strp'' struct_strp_msg,
    Member ''accum_len'' c_int]"

definition struct_tls_msg :: ctype where
  "struct_tls_msg = Comp Struct False [
    Member ''control'' t_u8]"

definition struct_sk_skb_cb :: ctype where
  "struct_sk_skb_cb = Comp Struct False [
    Member ''data'' (Array 20 c_unsigned_char),
    Member ''pad'' (Array 4 c_unsigned_char),
    Member ''strp'' struct__strp_msg,
    Member ''tls'' struct_tls_msg,
    Member ''temp_reg'' t_u64]"

definition struct_skb_data :: ctype where
  "struct_skb_data = Comp Struct False [
    Member ''urb'' (Ptr ''struct urb *''),
    Member ''dev'' (Ptr ''struct usbnet *''),
    Member ''state'' enum_skb_state,
    Member ''length'' c_long,
    Member ''packets'' c_unsigned_long]"

definition struct_skb_ext :: ctype where
  "struct_skb_ext = Comp Struct False [
    Member ''refcnt'' t_refcount_t,
    Member ''offset'' (Array 2 t_u8),
    Member ''chunks'' t_u8,
    BitField '''' c_long 0,
    Member ''data'' (Array 0 c_char)]"

definition struct_skb_free_array :: ctype where
  "struct_skb_free_array = Comp Struct False [
    Member ''skb_count'' c_unsigned_int,
    Member ''skb_array'' (Array 16 (Ptr ''void *''))]"

definition struct_skb_gso_cb :: ctype where
  "struct_skb_gso_cb = Comp Struct False [
    Member '''' (Comp Union False [
      Member ''mac_offset'' c_int,
      Member ''data_offset'' c_int]),
    Member ''encap_level'' c_int,
    Member ''csum'' t___wsum,
    Member ''csum_start'' t___u16]"

definition struct_skb_seq_state :: ctype where
  "struct_skb_seq_state = Comp Struct False [
    Member ''lower_offset'' t___u32,
    Member ''upper_offset'' t___u32,
    Member ''frag_idx'' t___u32,
    Member ''stepped_offset'' t___u32,
    Member ''root_skb'' (Ptr ''struct sk_buff *''),
    Member ''cur_skb'' (Ptr ''struct sk_buff *''),
    Member ''frag_data'' (Ptr ''__u8 *''),
    Member ''frag_off'' t___u32]"

definition struct_skbprio_sched_data :: ctype where
  "struct_skbprio_sched_data = Comp Struct False [
    Member ''qdiscs'' (Array 64 struct_sk_buff_head),
    Member ''qstats'' (Array 64 struct_gnet_stats_queue),
    Member ''highest_prio'' t_u16,
    Member ''lowest_prio'' t_u16]"

definition struct_sock_bh_locked :: ctype where
  "struct_sock_bh_locked = Comp Struct False [
    Member ''sock'' (Ptr ''struct sock *''),
    Member ''bh_lock'' t_local_lock_t]"

definition struct_sock_diag_handler :: ctype where
  "struct_sock_diag_handler = Comp Struct False [
    Member ''owner'' (Ptr ''struct module *''),
    Member ''family'' t___u8,
    Member ''dump'' (Ptr ''int (*)(struct sk_buff *, struct nlmsghdr *)''),
    Member ''get_info'' (Ptr ''int (*)(struct sk_buff *, struct sock *)''),
    Member ''destroy'' (Ptr ''int (*)(struct sk_buff *, struct nlmsghdr *)'')]"

definition struct_sock_diag_inet_compat :: ctype where
  "struct_sock_diag_inet_compat = Comp Struct False [
    Member ''owner'' (Ptr ''struct module *''),
    Member ''fn'' (Ptr ''int (*)(struct sk_buff *, struct nlmsghdr *)'')]"

definition struct_sock_diag_req :: ctype where
  "struct_sock_diag_req = Comp Struct False [
    Member ''sdiag_family'' t___u8,
    Member ''sdiag_protocol'' t___u8]"

definition struct_sock_ee_data_rfc4884 :: ctype where
  "struct_sock_ee_data_rfc4884 = Comp Struct False [
    Member ''len'' t___u16,
    Member ''flags'' t___u8,
    Member ''reserved'' t___u8]"

definition struct_sock_extended_err :: ctype where
  "struct_sock_extended_err = Comp Struct False [
    Member ''ee_errno'' t___u32,
    Member ''ee_origin'' t___u8,
    Member ''ee_type'' t___u8,
    Member ''ee_code'' t___u8,
    Member ''ee_pad'' t___u8,
    Member ''ee_info'' t___u32,
    Member '''' (Comp Union False [
      Member ''ee_data'' t___u32,
      Member ''ee_rfc4884'' struct_sock_ee_data_rfc4884])]"

definition struct_sock_exterr_skb :: ctype where
  "struct_sock_exterr_skb = Comp Struct False [
    Member ''header'' (Comp Union False [
      Member ''h4'' struct_inet_skb_parm,
      Member ''h6'' struct_inet6_skb_parm]),
    Member ''ee'' struct_sock_extended_err,
    Member ''addr_offset'' t_u16,
    Member ''port'' t___be16,
    BitField ''opt_stats'' t_u8 1,
    BitField ''unused'' t_u8 7]"

definition struct_sock_fprog :: ctype where
  "struct_sock_fprog = Comp Struct False [
    Member ''len'' c_unsigned_short,
    Member ''filter'' (Ptr ''struct sock_filter *'')]"

definition struct_sock_fprog_kern :: ctype where
  "struct_sock_fprog_kern = Comp Struct False [
    Member ''len'' t_u16,
    Member ''filter'' (Ptr ''struct sock_filter *'')]"

definition struct_sock_hash_seq_info :: ctype where
  "struct_sock_hash_seq_info = Comp Struct False [
    Member ''map'' (Ptr ''struct bpf_map *''),
    Member ''htab'' (Ptr ''struct bpf_shtab *''),
    Member ''bucket_id'' t_u32]"

definition struct_sock_map_seq_info :: ctype where
  "struct_sock_map_seq_info = Comp Struct False [
    Member ''map'' (Ptr ''struct bpf_map *''),
    Member ''sk'' (Ptr ''struct sock *''),
    Member ''index'' t_u32]"

definition struct_sock_reuseport :: ctype where
  "struct_sock_reuseport = Comp Struct False [
    Member ''rcu'' struct_callback_head,
    Member ''max_socks'' t_u16,
    Member ''num_socks'' t_u16,
    Member ''num_closed_socks'' t_u16,
    Member ''incoming_cpu'' t_u16,
    Member ''synq_overflow_ts'' c_unsigned_int,
    Member ''reuseport_id'' c_unsigned_int,
    BitField ''bind_inany'' c_unsigned_int 1,
    BitField ''has_conns'' c_unsigned_int 1,
    Member ''prog'' (Ptr ''struct bpf_prog *''),
    Member ''socks'' (Array 0 (Ptr ''struct sock *''))]"

definition struct_sock_skb_cb :: ctype where
  "struct_sock_skb_cb = Comp Struct False [
    Member ''dropcount'' t_u32]"

definition struct_sock_txtime :: ctype where
  "struct_sock_txtime = Comp Struct False [
    Member ''clockid'' t___kernel_clockid_t,
    Member ''flags'' t___u32]"

definition struct_rpc_timer :: ctype where
  "struct_rpc_timer = Comp Struct False [
    Member ''list'' struct_list_head,
    Member ''expires'' c_unsigned_long,
    Member ''dwork'' struct_delayed_work]"

definition struct_rpc_wait_queue :: ctype where
  "struct_rpc_wait_queue = Comp Struct False [
    Member ''lock'' t_spinlock_t,
    Member ''tasks'' (Array 4 struct_list_head),
    Member ''maxpriority'' c_unsigned_char,
    Member ''priority'' c_unsigned_char,
    Member ''nr'' c_unsigned_char,
    Member ''qlen'' c_unsigned_int,
    Member ''timer_list'' struct_rpc_timer,
    Member ''name'' (Ptr ''char *'')]"

definition enum_xprtsec_policies :: ctype where
  "enum_xprtsec_policies = Enum False [
    (''RPC_XPRTSEC_NONE'', 0), (''RPC_XPRTSEC_TLS_ANON'', 1), (''RPC_XPRTSEC_TLS_X509'', 2)]"

definition t_int32_t :: ctype where
  "t_int32_t = t_s32"

definition t_key_serial_t :: ctype where
  "t_key_serial_t = t_int32_t"

definition struct_xprtsec_parms :: ctype where
  "struct_xprtsec_parms = Comp Struct False [
    Member ''policy'' enum_xprtsec_policies,
    Member ''cert_serial'' t_key_serial_t,
    Member ''privkey_serial'' t_key_serial_t]"

definition struct_rpc_xprt :: ctype where
  "struct_rpc_xprt = Comp Struct False [
    Member ''kref'' struct_kref,
    Member ''ops'' (Ptr ''struct rpc_xprt_ops *''),
    Member ''id'' c_unsigned_int,
    Member ''timeout'' (Ptr ''struct rpc_timeout *''),
    Member ''addr'' struct___kernel_sockaddr_storage,
    Member ''addrlen'' t_size_t,
    Member ''prot'' c_int,
    Member ''cong'' c_unsigned_long,
    Member ''cwnd'' c_unsigned_long,
    Member ''max_payload'' t_size_t,
    Member ''binding'' struct_rpc_wait_queue,
    Member ''sending'' struct_rpc_wait_queue,
    Member ''pending'' struct_rpc_wait_queue,
    Member ''backlog'' struct_rpc_wait_queue,
    Member ''free'' struct_list_head,
    Member ''max_reqs'' c_unsigned_int,
    Member ''min_reqs'' c_unsigned_int,
    Member ''num_reqs'' c_unsigned_int,
    Member ''state'' c_unsigned_long,
    BitField ''resvport'' c_unsigned_char 1,
    BitField ''reuseport'' c_unsigned_char 1,
    Member ''swapper'' t_atomic_t,
    Member ''bind_index'' c_unsigned_int,
    Member ''xprt_switch'' struct_list_head,
    Member ''bind_timeout'' c_unsigned_long,
    Member ''reestablish_timeout'' c_unsigned_long,
    Member ''xprtsec'' struct_xprtsec_parms,
    Member ''connect_cookie'' c_unsigned_int,
    Member ''task_cleanup'' struct_work_struct,
    Member ''timer'' struct_timer_list,
    Member ''last_used'' c_unsigned_long,
    Member ''idle_timeout'' c_unsigned_long,
    Member ''connect_timeout'' c_unsigned_long,
    Member ''max_reconnect_timeout'' c_unsigned_long,
    Member ''queuelen'' t_atomic_long_t,
    Member ''transport_lock'' t_spinlock_t,
    Member ''reserve_lock'' t_spinlock_t,
    Member ''queue_lock'' t_spinlock_t,
    Member ''xid'' t_u32,
    Member ''snd_task'' (Ptr ''struct rpc_task *''),
    Member ''xmit_queue'' struct_list_head,
    Member ''xmit_queuelen'' t_atomic_long_t,
    Member ''bc_xprt'' (Ptr ''struct svc_xprt *''),
    Member ''bc_serv'' (Ptr ''struct svc_serv *''),
    Member ''bc_alloc_max'' c_unsigned_int,
    Member ''bc_alloc_count'' c_unsigned_int,
    Member ''bc_slot_count'' t_atomic_t,
    Member ''bc_pa_lock'' t_spinlock_t,
    Member ''bc_pa_list'' struct_list_head,
    Member ''recv_queue'' struct_rb_root,
    Member ''stat'' (Comp Struct False [
      Member ''bind_count'' c_unsigned_long,
      Member ''connect_count'' c_unsigned_long,
      Member ''connect_start'' c_unsigned_long,
      Member ''connect_time'' c_unsigned_long,
      Member ''sends'' c_unsigned_long,
      Member ''recvs'' c_unsigned_long,
      Member ''bad_xids'' c_unsigned_long,
      Member ''max_slots'' c_unsigned_long,
      Member ''req_u'' c_unsigned_long_long,
      Member ''bklog_u'' c_unsigned_long_long,
      Member ''sending_u'' c_unsigned_long_long,
      Member ''pending_u'' c_unsigned_long_long]),
    Member ''xprt_net'' (Ptr ''struct net *''),
    Member ''ns_tracker'' t_netns_tracker,
    Member ''servername'' (Ptr ''char *''),
    Member ''address_strings'' (Array 6 (Ptr ''char *'')),
    Member ''rcu'' struct_callback_head,
    Member ''xprt_class'' (Ptr ''struct xprt_class *''),
    Member ''xprt_sysfs'' (Ptr ''struct rpc_sysfs_xprt *''),
    Member ''main'' t_bool]"

definition struct_rpc_timeout :: ctype where
  "struct_rpc_timeout = Comp Struct False [
    Member ''to_initval'' c_unsigned_long,
    Member ''to_maxval'' c_unsigned_long,
    Member ''to_increment'' c_unsigned_long,
    Member ''to_retries'' c_unsigned_int,
    Member ''to_exponential'' c_unsigned_char]"

definition struct_sock_xprt :: ctype where
  "struct_sock_xprt = Comp Struct False [
    Member ''xprt'' struct_rpc_xprt,
    Member ''sock'' (Ptr ''struct socket *''),
    Member ''inet'' (Ptr ''struct sock *''),
    Member ''file'' (Ptr ''struct file *''),
    Member ''recv'' (Comp Struct False [
      Member '''' (Comp Struct False [
        Member ''fraghdr'' t___be32,
        Member ''xid'' t___be32,
        Member ''calldir'' t___be32]),
      Member ''offset'' t_u32,
      Member ''len'' t_u32,
      Member ''copied'' c_unsigned_long]),
    Member ''xmit'' (Comp Struct False [
      Member ''offset'' t_u32]),
    Member ''sock_state'' c_unsigned_long,
    Member ''connect_worker'' struct_delayed_work,
    Member ''error_worker'' struct_work_struct,
    Member ''recv_worker'' struct_work_struct,
    Member ''recv_mutex'' struct_mutex,
    Member ''handshake_done'' struct_completion,
    Member ''srcaddr'' struct___kernel_sockaddr_storage,
    Member ''srcport'' c_unsigned_short,
    Member ''xprt_err'' c_int,
    Member ''clnt'' (Ptr ''struct rpc_clnt *''),
    Member ''rcvsize'' t_size_t,
    Member ''sndsize'' t_size_t,
    Member ''tcp_timeout'' struct_rpc_timeout,
    Member ''old_data_ready'' (Ptr ''void (*)(struct sock *)''),
    Member ''old_state_change'' (Ptr ''void (*)(struct sock *)''),
    Member ''old_write_space'' (Ptr ''void (*)(struct sock *)''),
    Member ''old_error_report'' (Ptr ''void (*)(struct sock *)'')]"

definition struct_sockaddr_alg_new :: ctype where
  "struct_sockaddr_alg_new = Comp Struct False [
    Member ''salg_family'' t___u16,
    Member ''salg_type'' (Array 14 t___u8),
    Member ''salg_feat'' t___u32,
    Member ''salg_mask'' t___u32,
    Member ''salg_name'' (Array 0 t___u8)]"

definition struct_sockaddr_can :: ctype where
  "struct_sockaddr_can = Comp Struct False [
    Member ''can_family'' t___kernel_sa_family_t,
    Member ''can_ifindex'' c_int,
    Member ''can_addr'' (Comp Union False [
      Member ''tp'' (Comp Struct False [
        Member ''rx_id'' t_canid_t,
        Member ''tx_id'' t_canid_t]),
      Member ''j1939'' (Comp Struct False [
        Member ''name'' t___u64,
        Member ''pgn'' t___u32,
        Member ''addr'' t___u8])])]"

definition struct_sockaddr_l2tpip :: ctype where
  "struct_sockaddr_l2tpip = Comp Struct False [
    Member ''l2tp_family'' t___kernel_sa_family_t,
    Member ''l2tp_unused'' t___be16,
    Member ''l2tp_addr'' struct_in_addr,
    Member ''l2tp_conn_id'' t___u32,
    Member ''__pad'' (Array 4 c_unsigned_char)]"

definition struct_sockaddr_l2tpip6 :: ctype where
  "struct_sockaddr_l2tpip6 = Comp Struct False [
    Member ''l2tp_family'' t___kernel_sa_family_t,
    Member ''l2tp_unused'' t___be16,
    Member ''l2tp_flowinfo'' t___be32,
    Member ''l2tp_addr'' struct_in6_addr,
    Member ''l2tp_scope_id'' t___u32,
    Member ''l2tp_conn_id'' t___u32]"

definition struct_sockaddr_nl :: ctype where
  "struct_sockaddr_nl = Comp Struct False [
    Member ''nl_family'' t___kernel_sa_family_t,
    Member ''nl_pad'' c_unsigned_short,
    Member ''nl_pid'' t___u32,
    Member ''nl_groups'' t___u32]"

definition struct_tipc_socket_addr :: ctype where
  "struct_tipc_socket_addr = Comp Struct False [
    Member ''ref'' t___u32,
    Member ''node'' t___u32]"

definition struct_tipc_service_range :: ctype where
  "struct_tipc_service_range = Comp Struct False [
    Member ''type'' t___u32,
    Member ''lower'' t___u32,
    Member ''upper'' t___u32]"

definition struct_tipc_service_addr :: ctype where
  "struct_tipc_service_addr = Comp Struct False [
    Member ''type'' t___u32,
    Member ''instance'' t___u32]"

definition struct_sockaddr_tipc :: ctype where
  "struct_sockaddr_tipc = Comp Struct False [
    Member ''family'' c_unsigned_short,
    Member ''addrtype'' c_unsigned_char,
    Member ''scope'' c_signed_char,
    Member ''addr'' (Comp Union False [
      Member ''id'' struct_tipc_socket_addr,
      Member ''nameseq'' struct_tipc_service_range,
      Member ''name'' (Comp Struct False [
        Member ''name'' struct_tipc_service_addr,
        Member ''domain'' t___u32])])]"

definition struct_sockaddr_pair :: ctype where
  "struct_sockaddr_pair = Comp Struct False [
    Member ''sock'' struct_sockaddr_tipc,
    Member ''member'' struct_sockaddr_tipc]"

definition struct_sockaddr_un :: ctype where
  "struct_sockaddr_un = Comp Struct False [
    Member ''sun_family'' t___kernel_sa_family_t,
    Member ''sun_path'' (Array 108 c_char)]"

definition struct_sockaddr_vm :: ctype where
  "struct_sockaddr_vm = Comp Struct False [
    Member ''svm_family'' t___kernel_sa_family_t,
    Member ''svm_reserved1'' c_unsigned_short,
    Member ''svm_port'' c_unsigned_int,
    Member ''svm_cid'' c_unsigned_int,
    Member ''svm_flags'' t___u8,
    Member ''svm_zero'' (Array 3 c_unsigned_char)]"

definition struct_sockaddr_xdp :: ctype where
  "struct_sockaddr_xdp = Comp Struct False [
    Member ''sxdp_family'' t___u16,
    Member ''sxdp_flags'' t___u16,
    Member ''sxdp_ifindex'' t___u32,
    Member ''sxdp_queue_id'' t___u32,
    Member ''sxdp_shared_umem_fd'' t___u32]"

definition struct_socket_wq :: ctype where
  "struct_socket_wq = Comp Struct False ([
    Member ''wait'' t_wait_queue_head_t,
    Member ''fasync_list'' (Ptr ''struct fasync_struct *''),
    Member ''flags'' c_unsigned_long,
    Member ''rcu'' struct_callback_head] @ replicate 9 (BitField '''' c_long 64))"

definition t_socket_state :: ctype where
  "t_socket_state = Enum False [
    (''SS_FREE'', 0), (''SS_UNCONNECTED'', 1), (''SS_CONNECTING'', 2), (''SS_CONNECTED'', 3),
    (''SS_DISCONNECTING'', 4)]"

definition struct_socket :: ctype where
  "struct_socket = Comp Struct False ([
    Member ''state'' t_socket_state,
    Member ''type'' c_short,
    Member ''flags'' c_unsigned_long,
    Member ''file'' (Ptr ''struct file *''),
    Member ''sk'' (Ptr ''struct sock *''),
    Member ''ops'' (Ptr ''struct proto_ops *'')] @ replicate 11 (BitField '''' c_long 64) @ [
    Member ''wq'' struct_socket_wq])"

definition struct_socket__safe_trusted_or_null :: ctype where
  "struct_socket__safe_trusted_or_null = Comp Struct False [
    Member ''sk'' (Ptr ''struct sock *'')]"

definition struct_socket_alloc :: ctype where
  "struct_socket_alloc = Comp Struct False [
    Member ''socket'' struct_socket,
    Member ''vfs_inode'' struct_inode,
    BitField '''' c_long 64,
    BitField '''' c_long 64,
    BitField '''' c_long 64,
    BitField '''' c_long 64]"

definition struct_sockmap_link :: ctype where
  "struct_sockmap_link = Comp Struct False [
    Member ''link'' struct_bpf_link,
    Member ''map'' (Ptr ''struct bpf_map *'')]"

definition struct_unix_address :: ctype where
  "struct_unix_address = Comp Struct False [
    Member ''refcnt'' t_refcount_t,
    Member ''len'' c_int,
    Member ''name'' (Array 0 struct_sockaddr_un)]"

definition struct_unix_diag_msg :: ctype where
  "struct_unix_diag_msg = Comp Struct False [
    Member ''udiag_family'' t___u8,
    Member ''udiag_type'' t___u8,
    Member ''udiag_state'' t___u8,
    Member ''pad'' t___u8,
    Member ''udiag_ino'' t___u32,
    Member ''udiag_cookie'' (Array 2 t___u32)]"

definition struct_unix_diag_req :: ctype where
  "struct_unix_diag_req = Comp Struct False [
    Member ''sdiag_family'' t___u8,
    Member ''sdiag_protocol'' t___u8,
    Member ''pad'' t___u16,
    Member ''udiag_states'' t___u32,
    Member ''udiag_ino'' t___u32,
    Member ''udiag_show'' t___u32,
    Member ''udiag_cookie'' (Array 2 t___u32)]"

definition struct_unix_diag_rqlen :: ctype where
  "struct_unix_diag_rqlen = Comp Struct False [
    Member ''udiag_rqueue'' t___u32,
    Member ''udiag_wqueue'' t___u32]"

definition struct_unix_diag_vfs :: ctype where
  "struct_unix_diag_vfs = Comp Struct False [
    Member ''udiag_vfs_ino'' t___u32,
    Member ''udiag_vfs_dev'' t___u32]"

definition struct_auth_domain :: ctype where
  "struct_auth_domain = Comp Struct False [
    Member ''ref'' struct_kref,
    Member ''hash'' struct_hlist_node,
    Member ''name'' (Ptr ''char *''),
    Member ''flavour'' (Ptr ''struct auth_ops *''),
    Member ''callback_head'' struct_callback_head]"

definition struct_unix_domain :: ctype where
  "struct_unix_domain = Comp Struct False [
    Member ''h'' struct_auth_domain]"

definition struct_unix_edge :: ctype where
  "struct_unix_edge = Comp Struct False [
    Member ''predecessor'' (Ptr ''struct unix_sock *''),
    Member ''successor'' (Ptr ''struct unix_sock *''),
    Member ''vertex_entry'' struct_list_head,
    Member ''stack_entry'' struct_list_head]"

definition struct_unix_gid :: ctype where
  "struct_unix_gid = Comp Struct False [
    Member ''h'' struct_cache_head,
    Member ''uid'' t_kuid_t,
    Member ''gi'' (Ptr ''struct group_info *''),
    Member ''rcu'' struct_callback_head]"

definition struct_unix_peercred :: ctype where
  "struct_unix_peercred = Comp Struct False [
    Member ''peer_pid'' (Ptr ''struct pid *''),
    Member ''peer_cred'' (Ptr ''struct cred *'')]"

definition struct_unix_skb_parms :: ctype where
  "struct_unix_skb_parms = Comp Struct False [
    Member ''pid'' (Ptr ''struct pid *''),
    Member ''uid'' t_kuid_t,
    Member ''gid'' t_kgid_t,
    Member ''fp'' (Ptr ''struct scm_fp_list *''),
    Member ''secid'' t_u32,
    Member ''consumed'' t_u32]"

definition t_wait_queue_func_t :: ctype where
  "t_wait_queue_func_t = Ptr ''int (*)(struct wait_queue_entry *, unsigned int, int, void *)''"

definition struct_wait_queue_entry :: ctype where
  "struct_wait_queue_entry = Comp Struct False [
    Member ''flags'' c_unsigned_int,
    Member ''private'' (Ptr ''void *''),
    Member ''func'' t_wait_queue_func_t,
    Member ''entry'' struct_list_head]"

definition t_wait_queue_entry_t :: ctype where
  "t_wait_queue_entry_t = struct_wait_queue_entry"

definition struct_scm_stat :: ctype where
  "struct_scm_stat = Comp Struct False [
    Member ''nr_fds'' t_atomic_t,
    Member ''nr_unix_fds'' c_unsigned_long]"

definition struct_unix_sock :: ctype where
  "struct_unix_sock = Comp Struct False [
    Member ''sk'' struct_sock,
    Member ''addr'' (Ptr ''struct unix_address *''),
    Member ''path'' struct_path,
    Member ''iolock'' struct_mutex,
    Member ''bindlock'' struct_mutex,
    Member ''peer'' (Ptr ''struct sock *''),
    Member ''listener'' (Ptr ''struct sock *''),
    Member ''vertex'' (Ptr ''struct unix_vertex *''),
    Member ''lock'' t_spinlock_t,
    Member ''peer_wq'' struct_socket_wq,
    Member ''peer_wake'' t_wait_queue_entry_t,
    Member ''scm_stat'' struct_scm_stat,
    Member ''inq_len'' c_int,
    Member ''recvmsg_inq'' t_bool,
    Member ''oob_skb'' (Ptr ''struct sk_buff *''),
    BitField '''' c_long 64,
    BitField '''' c_long 64,
    BitField '''' c_long 64,
    BitField '''' c_long 64,
    BitField '''' c_long 64,
    BitField '''' c_long 64,
    BitField '''' c_long 64]"

definition struct_unix_stream_read_state :: ctype where
  "struct_unix_stream_read_state = Comp Struct False [
    Member ''recv_actor'' (Ptr ''int (*)(struct sk_buff *, int, int, struct unix_stream_read_state *)''),
    Member ''socket'' (Ptr ''struct socket *''),
    Member ''msg'' (Ptr ''struct msghdr *''),
    Member ''pipe'' (Ptr ''struct pipe_inode_info *''),
    Member ''size'' t_size_t,
    Member ''flags'' c_int,
    Member ''splice_flags'' c_unsigned_int]"

definition struct_unix_vertex :: ctype where
  "struct_unix_vertex = Comp Struct False [
    Member ''edges'' struct_list_head,
    Member ''entry'' struct_list_head,
    Member ''scc_entry'' struct_list_head,
    Member ''out_degree'' c_unsigned_long,
    Member ''index'' c_unsigned_long,
    Member ''scc_index'' c_unsigned_long]"

definition struct_xdp_attachment_info :: ctype where
  "struct_xdp_attachment_info = Comp Struct False [
    Member ''prog'' (Ptr ''struct bpf_prog *''),
    Member ''flags'' t_u32]"

definition struct_xdp_buff_xsk :: ctype where
  "struct_xdp_buff_xsk = Comp Struct False [
    Member ''xdp'' struct_xdp_buff,
    Member ''cb'' (Array 24 t_u8),
    Member ''dma'' t_dma_addr_t,
    Member ''frame_dma'' t_dma_addr_t,
    Member ''pool'' (Ptr ''struct xsk_buff_pool *''),
    Member ''list_node'' struct_list_head,
    BitField '''' c_long 64]"

definition struct_xdp_bulk_queue :: ctype where
  "struct_xdp_bulk_queue = Comp Struct False [
    Member ''q'' (Array 8 (Ptr ''void *'')),
    Member ''flush_node'' struct_list_head,
    Member ''obj'' (Ptr ''struct bpf_cpu_map_entry *''),
    Member ''count'' c_unsigned_int]"

definition struct_xdp_cpumap_stats :: ctype where
  "struct_xdp_cpumap_stats = Comp Struct False [
    Member ''redirect'' c_unsigned_int,
    Member ''pass'' c_unsigned_int,
    Member ''drop'' c_unsigned_int]"

definition struct_xdp_desc :: ctype where
  "struct_xdp_desc = Comp Struct False [
    Member ''addr'' t___u64,
    Member ''len'' t___u32,
    Member ''options'' t___u32]"

definition struct_xdp_desc_ctx :: ctype where
  "struct_xdp_desc_ctx = Comp Struct False [
    Member ''dma'' t_dma_addr_t,
    Member ''meta'' (Ptr ''struct xsk_tx_metadata *'')]"

definition struct_xdp_dev_bulk_queue :: ctype where
  "struct_xdp_dev_bulk_queue = Comp Struct False [
    Member ''q'' (Array 16 (Ptr ''struct xdp_frame *'')),
    Member ''flush_node'' struct_list_head,
    Member ''dev'' (Ptr ''struct net_device *''),
    Member ''dev_rx'' (Ptr ''struct net_device *''),
    Member ''xdp_prog'' (Ptr ''struct bpf_prog *''),
    Member ''count'' c_unsigned_int]"

definition struct_xdp_diag_info :: ctype where
  "struct_xdp_diag_info = Comp Struct False [
    Member ''ifindex'' t___u32,
    Member ''queue_id'' t___u32]"

definition struct_xdp_diag_msg :: ctype where
  "struct_xdp_diag_msg = Comp Struct False [
    Member ''xdiag_family'' t___u8,
    Member ''xdiag_type'' t___u8,
    Member ''pad'' t___u16,
    Member ''xdiag_ino'' t___u32,
    Member ''xdiag_cookie'' (Array 2 t___u32)]"

definition struct_xdp_diag_req :: ctype where
  "struct_xdp_diag_req = Comp Struct False [
    Member ''sdiag_family'' t___u8,
    Member ''sdiag_protocol'' t___u8,
    Member ''pad'' t___u16,
    Member ''xdiag_ino'' t___u32,
    Member ''xdiag_show'' t___u32,
    Member ''xdiag_cookie'' (Array 2 t___u32)]"

definition struct_xdp_diag_ring :: ctype where
  "struct_xdp_diag_ring = Comp Struct False [
    Member ''entries'' t___u32]"

definition struct_xdp_diag_stats :: ctype where
  "struct_xdp_diag_stats = Comp Struct False [
    Member ''n_rx_dropped'' t___u64,
    Member ''n_rx_invalid'' t___u64,
    Member ''n_rx_full'' t___u64,
    Member ''n_fill_ring_empty'' t___u64,
    Member ''n_tx_invalid'' t___u64,
    Member ''n_tx_ring_empty'' t___u64]"

definition struct_xdp_diag_umem :: ctype where
  "struct_xdp_diag_umem = Comp Struct False [
    Member ''size'' t___u64,
    Member ''id'' t___u32,
    Member ''num_pages'' t___u32,
    Member ''chunk_size'' t___u32,
    Member ''headroom'' t___u32,
    Member ''ifindex'' t___u32,
    Member ''queue_id'' t___u32,
    Member ''flags'' t___u32,
    Member ''refs'' t___u32]"

definition struct_xdp_frame_bulk :: ctype where
  "struct_xdp_frame_bulk = Comp Struct False [
    Member ''count'' c_int,
    Member ''q'' (Array 16 t_netmem_ref)]"

definition struct_xdp_mem_allocator :: ctype where
  "struct_xdp_mem_allocator = Comp Struct False [
    Member ''mem'' struct_xdp_mem_info,
    Member '''' (Comp Union False [
      Member ''allocator'' (Ptr ''void *''),
      Member ''page_pool'' (Ptr ''struct page_pool *'')]),
    Member ''node'' struct_rhash_head,
    Member ''rcu'' struct_callback_head]"

definition struct_xdp_metadata_ops :: ctype where
  "struct_xdp_metadata_ops = Comp Struct False [
    Member ''xmo_rx_timestamp'' (Ptr ''int (*)(const struct xdp_md *, u64 *)''),
    Member ''xmo_rx_hash'' (Ptr ''int (*)(const struct xdp_md *, u32 *, enum xdp_rss_hash_type *)''),
    Member ''xmo_rx_vlan_tag'' (Ptr ''int (*)(const struct xdp_md *, __be16 *, u16 *)'')]"

definition struct_xdp_ring_offset :: ctype where
  "struct_xdp_ring_offset = Comp Struct False [
    Member ''producer'' t___u64,
    Member ''consumer'' t___u64,
    Member ''desc'' t___u64,
    Member ''flags'' t___u64]"

definition struct_xdp_mmap_offsets :: ctype where
  "struct_xdp_mmap_offsets = Comp Struct False [
    Member ''rx'' struct_xdp_ring_offset,
    Member ''tx'' struct_xdp_ring_offset,
    Member ''fr'' struct_xdp_ring_offset,
    Member ''cr'' struct_xdp_ring_offset]"

definition struct_xdp_ring_offset_v1 :: ctype where
  "struct_xdp_ring_offset_v1 = Comp Struct False [
    Member ''producer'' t___u64,
    Member ''consumer'' t___u64,
    Member ''desc'' t___u64]"

definition struct_xdp_mmap_offsets_v1 :: ctype where
  "struct_xdp_mmap_offsets_v1 = Comp Struct False [
    Member ''rx'' struct_xdp_ring_offset_v1,
    Member ''tx'' struct_xdp_ring_offset_v1,
    Member ''fr'' struct_xdp_ring_offset_v1,
    Member ''cr'' struct_xdp_ring_offset_v1]"

definition struct_xdp_options :: ctype where
  "struct_xdp_options = Comp Struct False [
    Member ''flags'' t___u32]"

definition struct_xdp_page_head :: ctype where
  "struct_xdp_page_head = Comp Struct False [
    Member ''orig_ctx'' struct_xdp_buff,
    Member ''ctx'' struct_xdp_buff,
    Member '''' (Comp Union False [
      Member '''' (Comp Struct False [
        Member ''__empty_frame'' (Comp Struct False []),
        Member ''frame'' (Array 0 struct_xdp_frame)]),
      Member '''' (Comp Struct False [
        Member ''__empty_data'' (Comp Struct False []),
        Member ''data'' (Array 0 t_u8)])])]"

definition struct_xdp_ring :: ctype where
  "struct_xdp_ring = Comp Struct False ([
    Member ''producer'' t_u32] @ replicate 15 (BitField '''' c_long 64) @ [
    Member ''pad1'' t_u32] @ replicate 15 (BitField '''' c_long 64) @ [
    Member ''consumer'' t_u32] @ replicate 15 (BitField '''' c_long 64) @ [
    Member ''pad2'' t_u32,
    Member ''flags'' t_u32] @ replicate 15 (BitField '''' c_long 64) @ [
    Member ''pad3'' t_u32] @ replicate 15 (BitField '''' c_long 64))"

definition struct_xdp_rxtx_ring :: ctype where
  "struct_xdp_rxtx_ring = Comp Struct False [
    Member ''ptrs'' struct_xdp_ring,
    Member ''desc'' (Array 0 struct_xdp_desc)]"

definition struct_xdp_sock :: ctype where
  "struct_xdp_sock = Comp Struct False ([
    Member ''sk'' struct_sock] @ replicate 15 (BitField '''' c_long 64) @ [
    Member ''rx'' (Ptr ''struct xsk_queue *''),
    Member ''dev'' (Ptr ''struct net_device *''),
    Member ''umem'' (Ptr ''struct xdp_umem *''),
    Member ''flush_node'' struct_list_head,
    Member ''pool'' (Ptr ''struct xsk_buff_pool *''),
    Member ''queue_id'' t_u16,
    Member ''zc'' t_bool,
    Member ''sg'' t_bool,
    Member ''state'' (Enum False [
      (''XSK_READY'', 0), (''XSK_BOUND'', 1), (''XSK_UNBOUND'', 2)])] @ replicate 9 (BitField '''' c_long 64) @ [
    Member ''tx'' (Ptr ''struct xsk_queue *''),
    Member ''tx_list'' struct_list_head,
    Member ''tx_budget_spent'' t_u32,
    Member ''rx_dropped'' t_u64,
    Member ''rx_queue_full'' t_u64,
    Member ''skb'' (Ptr ''struct sk_buff *''),
    Member ''map_list'' struct_list_head,
    Member ''map_list_lock'' t_spinlock_t,
    Member ''max_tx_budget'' t_u32,
    Member ''mutex'' struct_mutex,
    Member ''fq_tmp'' (Ptr ''struct xsk_queue *''),
    Member ''cq_tmp'' (Ptr ''struct xsk_queue *'')])"

definition struct_xdp_statistics :: ctype where
  "struct_xdp_statistics = Comp Struct False [
    Member ''rx_dropped'' t___u64,
    Member ''rx_invalid_descs'' t___u64,
    Member ''tx_invalid_descs'' t___u64,
    Member ''rx_ring_full'' t___u64,
    Member ''rx_fill_ring_empty_descs'' t___u64,
    Member ''tx_ring_empty_descs'' t___u64]"

definition struct_xdp_test_data :: ctype where
  "struct_xdp_test_data = Comp Struct False ([
    Member ''orig_ctx'' (Ptr ''struct xdp_buff *'')] @ replicate 15 (BitField '''' c_long 64) @ [
    Member ''rxq'' struct_xdp_rxq_info,
    Member ''dev'' (Ptr ''struct net_device *''),
    Member ''pp'' (Ptr ''struct page_pool *''),
    Member ''frames'' (Ptr ''struct xdp_frame **''),
    Member ''skbs'' (Ptr ''struct sk_buff **''),
    Member ''mem'' struct_xdp_mem_info,
    Member ''batch_size'' t_u32,
    Member ''frame_cnt'' t_u32] @ replicate 10 (BitField '''' c_long 64))"

definition struct_xdp_txq_info :: ctype where
  "struct_xdp_txq_info = Comp Struct False [
    Member ''dev'' (Ptr ''struct net_device *'')]"

definition struct_xdp_umem :: ctype where
  "struct_xdp_umem = Comp Struct False [
    Member ''addrs'' (Ptr ''void *''),
    Member ''size'' t_u64,
    Member ''headroom'' t_u32,
    Member ''chunk_size'' t_u32,
    Member ''chunks'' t_u32,
    Member ''npgs'' t_u32,
    Member ''user'' (Ptr ''struct user_struct *''),
    Member ''users'' t_refcount_t,
    Member ''flags'' t_u8,
    Member ''tx_metadata_len'' t_u8,
    Member ''zc'' t_bool,
    Member ''pgs'' (Ptr ''struct page **''),
    Member ''id'' c_int,
    Member ''xsk_dma_list'' struct_list_head,
    Member ''work'' struct_work_struct]"

definition struct_xdp_umem_reg :: ctype where
  "struct_xdp_umem_reg = Comp Struct False [
    Member ''addr'' t___u64,
    Member ''len'' t___u64,
    Member ''chunk_size'' t___u32,
    Member ''headroom'' t___u32,
    Member ''flags'' t___u32,
    Member ''tx_metadata_len'' t___u32]"

definition struct_xdp_umem_ring :: ctype where
  "struct_xdp_umem_ring = Comp Struct False [
    Member ''ptrs'' struct_xdp_ring,
    Member ''desc'' (Array 0 t_u64)]"

definition struct_xsk_addr_head :: ctype where
  "struct_xsk_addr_head = Comp Struct False [
    Member ''num_descs'' t_u32,
    Member ''addrs_list'' struct_list_head]"

definition struct_xsk_addr_node :: ctype where
  "struct_xsk_addr_node = Comp Struct False [
    Member ''addr'' t_u64,
    Member ''addr_node'' struct_list_head]"

definition struct_xsk_buff_pool :: ctype where
  "struct_xsk_buff_pool = Comp Struct False [
    Member ''dev'' (Ptr ''struct device *''),
    Member ''netdev'' (Ptr ''struct net_device *''),
    Member ''xsk_tx_list'' struct_list_head,
    Member ''xsk_tx_list_lock'' t_spinlock_t,
    Member ''users'' t_refcount_t,
    Member ''umem'' (Ptr ''struct xdp_umem *''),
    Member ''work'' struct_work_struct,
    Member ''rx_lock'' t_spinlock_t,
    Member ''free_list'' struct_list_head,
    Member ''xskb_list'' struct_list_head,
    Member ''heads_cnt'' t_u32,
    Member ''queue_id'' t_u16,
    Member ''fq'' (Ptr ''struct xsk_queue *''),
    Member ''cq'' (Ptr ''struct xsk_queue *''),
    Member ''dma_pages'' (Ptr ''dma_addr_t *''),
    Member ''heads'' (Ptr ''struct xdp_buff_xsk *''),
    Member ''tx_descs'' (Ptr ''struct xdp_desc *''),
    Member ''chunk_mask'' t_u64,
    Member ''addrs_cnt'' t_u64,
    Member ''free_list_cnt'' t_u32,
    Member ''dma_pages_cnt'' t_u32,
    Member ''free_heads_cnt'' t_u32,
    Member ''headroom'' t_u32,
    Member ''chunk_size'' t_u32,
    Member ''chunk_shift'' t_u32,
    Member ''frame_len'' t_u32,
    Member ''xdp_zc_max_segs'' t_u32,
    Member ''tx_metadata_len'' t_u8,
    Member ''cached_need_wakeup'' t_u8,
    Member ''uses_need_wakeup'' t_bool,
    Member ''unaligned'' t_bool,
    Member ''tx_sw_csum'' t_bool,
    Member ''addrs'' (Ptr ''void *''),
    Member ''cq_lock'' t_spinlock_t,
    Member ''free_heads'' (Array 0 (Ptr ''struct xdp_buff_xsk *'')),
    BitField '''' c_long 64,
    BitField '''' c_long 64]"

definition struct_xsk_cb_desc :: ctype where
  "struct_xsk_cb_desc = Comp Struct False [
    Member ''src'' (Ptr ''void *''),
    Member ''off'' t_u8,
    Member ''bytes'' t_u8]"

definition struct_xsk_dma_map :: ctype where
  "struct_xsk_dma_map = Comp Struct False [
    Member ''dma_pages'' (Ptr ''dma_addr_t *''),
    Member ''dev'' (Ptr ''struct device *''),
    Member ''netdev'' (Ptr ''struct net_device *''),
    Member ''users'' t_refcount_t,
    Member ''list'' struct_list_head,
    Member ''dma_pages_cnt'' t_u32]"

definition struct_xsk_map :: ctype where
  "struct_xsk_map = Comp Struct False [
    Member ''map'' struct_bpf_map,
    Member ''lock'' t_spinlock_t,
    Member ''count'' t_atomic_t,
    Member ''xsk_map'' (Array 0 (Ptr ''struct xdp_sock *''))]"

definition struct_xsk_map_node :: ctype where
  "struct_xsk_map_node = Comp Struct False [
    Member ''node'' struct_list_head,
    Member ''map'' (Ptr ''struct xsk_map *''),
    Member ''map_entry'' (Ptr ''struct xdp_sock **'')]"

definition struct_xsk_queue :: ctype where
  "struct_xsk_queue = Comp Struct False [
    Member ''ring_mask'' t_u32,
    Member ''nentries'' t_u32,
    Member ''cached_prod'' t_u32,
    Member ''cached_cons'' t_u32,
    Member ''ring'' (Ptr ''struct xdp_ring *''),
    Member ''invalid_descs'' t_u64,
    Member ''queue_empty_descs'' t_u64,
    Member ''ring_vmalloc_size'' t_size_t]"

definition struct_xsk_tx_metadata :: ctype where
  "struct_xsk_tx_metadata = Comp Struct False [
    Member ''flags'' t___u64,
    Member '''' (Comp Union False [
      Member ''request'' (Comp Struct False [
        Member ''csum_start'' t___u16,
        Member ''csum_offset'' t___u16,
        Member ''launch_time'' t___u64]),
      Member ''completion'' (Comp Struct False [
        Member ''tx_timestamp'' t___u64])])]"

definition struct_xsk_tx_metadata_ops :: ctype where
  "struct_xsk_tx_metadata_ops = Comp Struct False [
    Member ''tmo_request_timestamp'' (Ptr ''void (*)(void *)''),
    Member ''tmo_fill_timestamp'' (Ptr ''u64 (*)(void *)''),
    Member ''tmo_request_checksum'' (Ptr ''void (*)(u16, u16, void *)''),
    Member ''tmo_request_launch_time'' (Ptr ''void (*)(u64, void *)'')]"

end
