(* ===== verification/Vmlinux_Link.thy ===== *)
theory Vmlinux_Link
  imports Vmlinux_Net_More
begin

text \<open>
  The declarations of \<^verbatim>\<open>vmlinux.h\<close> for traffic control, the queueing disciplines and kinds of
  devices a program can be attached to, with the types they contain.
\<close>

definition enum_act_category :: ctype where
  "enum_act_category = Enum False [
    (''ACT_CAT_QOS'', 1), (''ACT_CAT_DLS'', 2), (''ACT_CAT_BA'', 3), (''ACT_CAT_HT'', 7),
    (''ACT_CAT_WMM'', 17)]"

definition enum_bonding_slave_state :: ctype where
  "enum_bonding_slave_state = Enum False [
    (''BONDING_SLAVE_STATE_ACTIVE'', 1), (''BONDING_SLAVE_STATE_INACTIVE'', 2),
    (''BONDING_SLAVE_STATE_NA'', 4)]"

definition enum_br_boolopt_id :: ctype where
  "enum_br_boolopt_id = Enum False [
    (''BR_BOOLOPT_NO_LL_LEARN'', 0), (''BR_BOOLOPT_MCAST_VLAN_SNOOPING'', 1),
    (''BR_BOOLOPT_MST_ENABLE'', 2), (''BR_BOOLOPT_MDB_OFFLOAD_FAIL_NOTIFICATION'', 3),
    (''BR_BOOLOPT_MAX'', 4)]"

definition enum_br_pkt_type :: ctype where
  "enum_br_pkt_type = Enum False [
    (''BR_PKT_UNICAST'', 0), (''BR_PKT_MULTICAST'', 1), (''BR_PKT_BROADCAST'', 2)]"

definition enum_devlink_port_flavour :: ctype where
  "enum_devlink_port_flavour = Enum False [
    (''DEVLINK_PORT_FLAVOUR_PHYSICAL'', 0), (''DEVLINK_PORT_FLAVOUR_CPU'', 1),
    (''DEVLINK_PORT_FLAVOUR_DSA'', 2), (''DEVLINK_PORT_FLAVOUR_PCI_PF'', 3),
    (''DEVLINK_PORT_FLAVOUR_PCI_VF'', 4), (''DEVLINK_PORT_FLAVOUR_VIRTUAL'', 5),
    (''DEVLINK_PORT_FLAVOUR_UNUSED'', 6), (''DEVLINK_PORT_FLAVOUR_PCI_SF'', 7)]"

definition enum_devlink_port_fn_opstate :: ctype where
  "enum_devlink_port_fn_opstate = Enum False [
    (''DEVLINK_PORT_FN_OPSTATE_DETACHED'', 0), (''DEVLINK_PORT_FN_OPSTATE_ATTACHED'', 1)]"

definition enum_devlink_port_fn_state :: ctype where
  "enum_devlink_port_fn_state = Enum False [
    (''DEVLINK_PORT_FN_STATE_INACTIVE'', 0), (''DEVLINK_PORT_FN_STATE_ACTIVE'', 1)]"

definition enum_devlink_port_type :: ctype where
  "enum_devlink_port_type = Enum False [
    (''DEVLINK_PORT_TYPE_NOTSET'', 0), (''DEVLINK_PORT_TYPE_AUTO'', 1),
    (''DEVLINK_PORT_TYPE_ETH'', 2), (''DEVLINK_PORT_TYPE_IB'', 3)]"

definition enum_devlink_rate_type :: ctype where
  "enum_devlink_rate_type = Enum False [
    (''DEVLINK_RATE_TYPE_LEAF'', 0), (''DEVLINK_RATE_TYPE_NODE'', 1)]"

definition enum_flow_action_hw_stats :: ctype where
  "enum_flow_action_hw_stats = Enum False [
    (''FLOW_ACTION_HW_STATS_IMMEDIATE'', 1), (''FLOW_ACTION_HW_STATS_DELAYED'', 2),
    (''FLOW_ACTION_HW_STATS_ANY'', 3), (''FLOW_ACTION_HW_STATS_DISABLED'', 4),
    (''FLOW_ACTION_HW_STATS_DONT_CARE'', 7)]"

definition enum_flow_action_id :: ctype where
  "enum_flow_action_id = Enum False [
    (''FLOW_ACTION_ACCEPT'', 0), (''FLOW_ACTION_DROP'', 1), (''FLOW_ACTION_TRAP'', 2),
    (''FLOW_ACTION_GOTO'', 3), (''FLOW_ACTION_REDIRECT'', 4), (''FLOW_ACTION_MIRRED'', 5),
    (''FLOW_ACTION_REDIRECT_INGRESS'', 6), (''FLOW_ACTION_MIRRED_INGRESS'', 7),
    (''FLOW_ACTION_VLAN_PUSH'', 8), (''FLOW_ACTION_VLAN_POP'', 9),
    (''FLOW_ACTION_VLAN_MANGLE'', 10), (''FLOW_ACTION_TUNNEL_ENCAP'', 11),
    (''FLOW_ACTION_TUNNEL_DECAP'', 12), (''FLOW_ACTION_MANGLE'', 13), (''FLOW_ACTION_ADD'', 14),
    (''FLOW_ACTION_CSUM'', 15), (''FLOW_ACTION_MARK'', 16), (''FLOW_ACTION_PTYPE'', 17),
    (''FLOW_ACTION_PRIORITY'', 18), (''FLOW_ACTION_RX_QUEUE_MAPPING'', 19),
    (''FLOW_ACTION_WAKE'', 20), (''FLOW_ACTION_QUEUE'', 21), (''FLOW_ACTION_SAMPLE'', 22),
    (''FLOW_ACTION_POLICE'', 23), (''FLOW_ACTION_CT'', 24), (''FLOW_ACTION_CT_METADATA'', 25),
    (''FLOW_ACTION_MPLS_PUSH'', 26), (''FLOW_ACTION_MPLS_POP'', 27),
    (''FLOW_ACTION_MPLS_MANGLE'', 28), (''FLOW_ACTION_GATE'', 29),
    (''FLOW_ACTION_PPPOE_PUSH'', 30), (''FLOW_ACTION_JUMP'', 31), (''FLOW_ACTION_PIPE'', 32),
    (''FLOW_ACTION_VLAN_PUSH_ETH'', 33), (''FLOW_ACTION_VLAN_POP_ETH'', 34),
    (''FLOW_ACTION_CONTINUE'', 35), (''NUM_FLOW_ACTIONS'', 36)]"

definition enum_flow_action_mangle_base :: ctype where
  "enum_flow_action_mangle_base = Enum False [
    (''FLOW_ACT_MANGLE_UNSPEC'', 0), (''FLOW_ACT_MANGLE_HDR_TYPE_ETH'', 1),
    (''FLOW_ACT_MANGLE_HDR_TYPE_IP4'', 2), (''FLOW_ACT_MANGLE_HDR_TYPE_IP6'', 3),
    (''FLOW_ACT_MANGLE_HDR_TYPE_TCP'', 4), (''FLOW_ACT_MANGLE_HDR_TYPE_UDP'', 5)]"

definition enum_flow_block_binder_type :: ctype where
  "enum_flow_block_binder_type = Enum False [
    (''FLOW_BLOCK_BINDER_TYPE_UNSPEC'', 0), (''FLOW_BLOCK_BINDER_TYPE_CLSACT_INGRESS'', 1),
    (''FLOW_BLOCK_BINDER_TYPE_CLSACT_EGRESS'', 2), (''FLOW_BLOCK_BINDER_TYPE_RED_EARLY_DROP'', 3),
    (''FLOW_BLOCK_BINDER_TYPE_RED_MARK'', 4)]"

definition enum_flow_block_command :: ctype where
  "enum_flow_block_command = Enum False [
    (''FLOW_BLOCK_BIND'', 0), (''FLOW_BLOCK_UNBIND'', 1)]"

definition enum_flow_cls_command :: ctype where
  "enum_flow_cls_command = Enum False [
    (''FLOW_CLS_REPLACE'', 0), (''FLOW_CLS_DESTROY'', 1), (''FLOW_CLS_STATS'', 2),
    (''FLOW_CLS_TMPLT_CREATE'', 3), (''FLOW_CLS_TMPLT_DESTROY'', 4)]"

definition enum_flow_dissect_ret :: ctype where
  "enum_flow_dissect_ret = Enum False [
    (''FLOW_DISSECT_RET_OUT_GOOD'', 0), (''FLOW_DISSECT_RET_OUT_BAD'', 1),
    (''FLOW_DISSECT_RET_PROTO_AGAIN'', 2), (''FLOW_DISSECT_RET_IPPROTO_AGAIN'', 3),
    (''FLOW_DISSECT_RET_CONTINUE'', 4)]"

definition enum_flow_dissector_ctrl_flags :: ctype where
  "enum_flow_dissector_ctrl_flags = Enum False [
    (''FLOW_DIS_IS_FRAGMENT'', 1), (''FLOW_DIS_FIRST_FRAG'', 2), (''FLOW_DIS_F_TUNNEL_CSUM'', 4),
    (''FLOW_DIS_F_TUNNEL_DONT_FRAGMENT'', 8), (''FLOW_DIS_F_TUNNEL_OAM'', 16),
    (''FLOW_DIS_F_TUNNEL_CRIT_OPT'', 32), (''FLOW_DIS_ENCAPSULATION'', 64)]"

definition enum_flow_dissector_key_id :: ctype where
  "enum_flow_dissector_key_id = Enum False [
    (''FLOW_DISSECTOR_KEY_CONTROL'', 0), (''FLOW_DISSECTOR_KEY_BASIC'', 1),
    (''FLOW_DISSECTOR_KEY_IPV4_ADDRS'', 2), (''FLOW_DISSECTOR_KEY_IPV6_ADDRS'', 3),
    (''FLOW_DISSECTOR_KEY_PORTS'', 4), (''FLOW_DISSECTOR_KEY_PORTS_RANGE'', 5),
    (''FLOW_DISSECTOR_KEY_ICMP'', 6), (''FLOW_DISSECTOR_KEY_ETH_ADDRS'', 7),
    (''FLOW_DISSECTOR_KEY_TIPC'', 8), (''FLOW_DISSECTOR_KEY_ARP'', 9),
    (''FLOW_DISSECTOR_KEY_VLAN'', 10), (''FLOW_DISSECTOR_KEY_FLOW_LABEL'', 11),
    (''FLOW_DISSECTOR_KEY_GRE_KEYID'', 12), (''FLOW_DISSECTOR_KEY_MPLS_ENTROPY'', 13),
    (''FLOW_DISSECTOR_KEY_ENC_KEYID'', 14), (''FLOW_DISSECTOR_KEY_ENC_IPV4_ADDRS'', 15),
    (''FLOW_DISSECTOR_KEY_ENC_IPV6_ADDRS'', 16), (''FLOW_DISSECTOR_KEY_ENC_CONTROL'', 17),
    (''FLOW_DISSECTOR_KEY_ENC_PORTS'', 18), (''FLOW_DISSECTOR_KEY_MPLS'', 19),
    (''FLOW_DISSECTOR_KEY_TCP'', 20), (''FLOW_DISSECTOR_KEY_IP'', 21),
    (''FLOW_DISSECTOR_KEY_CVLAN'', 22), (''FLOW_DISSECTOR_KEY_ENC_IP'', 23),
    (''FLOW_DISSECTOR_KEY_ENC_OPTS'', 24), (''FLOW_DISSECTOR_KEY_META'', 25),
    (''FLOW_DISSECTOR_KEY_CT'', 26), (''FLOW_DISSECTOR_KEY_HASH'', 27),
    (''FLOW_DISSECTOR_KEY_NUM_OF_VLANS'', 28), (''FLOW_DISSECTOR_KEY_PPPOE'', 29),
    (''FLOW_DISSECTOR_KEY_L2TPV3'', 30), (''FLOW_DISSECTOR_KEY_CFM'', 31),
    (''FLOW_DISSECTOR_KEY_IPSEC'', 32), (''FLOW_DISSECTOR_KEY_MAX'', 33)]"

definition enum_flow_offload_tuple_dir :: ctype where
  "enum_flow_offload_tuple_dir = Enum False [
    (''FLOW_OFFLOAD_DIR_ORIGINAL'', 0), (''FLOW_OFFLOAD_DIR_REPLY'', 1)]"

definition enum_flow_offload_type :: ctype where
  "enum_flow_offload_type = Enum False [
    (''NF_FLOW_OFFLOAD_UNSPEC'', 0), (''NF_FLOW_OFFLOAD_ROUTE'', 1)]"

definition enum_flow_offload_xmit_type :: ctype where
  "enum_flow_offload_xmit_type = Enum False [
    (''FLOW_OFFLOAD_XMIT_UNSPEC'', 0), (''FLOW_OFFLOAD_XMIT_NEIGH'', 1),
    (''FLOW_OFFLOAD_XMIT_XFRM'', 2), (''FLOW_OFFLOAD_XMIT_DIRECT'', 3),
    (''FLOW_OFFLOAD_XMIT_TC'', 4)]"

definition enum_ifla_geneve_df :: ctype where
  "enum_ifla_geneve_df = Enum False [
    (''GENEVE_DF_UNSET'', 0), (''GENEVE_DF_SET'', 1), (''GENEVE_DF_INHERIT'', 2),
    (''__GENEVE_DF_END'', 3), (''GENEVE_DF_MAX'', 2)]"

definition enum_ifla_gtp_role :: ctype where
  "enum_ifla_gtp_role = Enum False [
    (''GTP_ROLE_GGSN'', 0), (''GTP_ROLE_SGSN'', 1)]"

definition enum_ifla_vxlan_df :: ctype where
  "enum_ifla_vxlan_df = Enum False [
    (''VXLAN_DF_UNSET'', 0), (''VXLAN_DF_SET'', 1), (''VXLAN_DF_INHERIT'', 2),
    (''__VXLAN_DF_END'', 3), (''VXLAN_DF_MAX'', 2)]"

definition enum_ifla_vxlan_label_policy :: ctype where
  "enum_ifla_vxlan_label_policy = Enum False [
    (''VXLAN_LABEL_FIXED'', 0), (''VXLAN_LABEL_INHERIT'', 1), (''__VXLAN_LABEL_END'', 2),
    (''VXLAN_LABEL_MAX'', 1)]"

definition enum_macvlan_macaddr_mode :: ctype where
  "enum_macvlan_macaddr_mode = Enum False [
    (''MACVLAN_MACADDR_ADD'', 0), (''MACVLAN_MACADDR_DEL'', 1), (''MACVLAN_MACADDR_FLUSH'', 2),
    (''MACVLAN_MACADDR_SET'', 3)]"

definition enum_macvlan_mode :: ctype where
  "enum_macvlan_mode = Enum False [
    (''MACVLAN_MODE_PRIVATE'', 1), (''MACVLAN_MODE_VEPA'', 2), (''MACVLAN_MODE_BRIDGE'', 4),
    (''MACVLAN_MODE_PASSTHRU'', 8), (''MACVLAN_MODE_SOURCE'', 16)]"

definition enum_phy_led_modes :: ctype where
  "enum_phy_led_modes = Enum False [
    (''PHY_LED_ACTIVE_HIGH'', 0), (''PHY_LED_ACTIVE_LOW'', 1),
    (''PHY_LED_INACTIVE_HIGH_IMPEDANCE'', 2), (''__PHY_LED_MODES_NUM'', 3)]"

definition enum_phy_media :: ctype where
  "enum_phy_media = Enum False [
    (''PHY_MEDIA_DEFAULT'', 0), (''PHY_MEDIA_SR'', 1), (''PHY_MEDIA_DAC'', 2)]"

definition enum_phy_mode :: ctype where
  "enum_phy_mode = Enum False [
    (''PHY_MODE_INVALID'', 0), (''PHY_MODE_USB_HOST'', 1), (''PHY_MODE_USB_HOST_LS'', 2),
    (''PHY_MODE_USB_HOST_FS'', 3), (''PHY_MODE_USB_HOST_HS'', 4), (''PHY_MODE_USB_HOST_SS'', 5),
    (''PHY_MODE_USB_DEVICE'', 6), (''PHY_MODE_USB_DEVICE_LS'', 7),
    (''PHY_MODE_USB_DEVICE_FS'', 8), (''PHY_MODE_USB_DEVICE_HS'', 9),
    (''PHY_MODE_USB_DEVICE_SS'', 10), (''PHY_MODE_USB_OTG'', 11), (''PHY_MODE_UFS_HS_A'', 12),
    (''PHY_MODE_UFS_HS_B'', 13), (''PHY_MODE_PCIE'', 14), (''PHY_MODE_ETHERNET'', 15),
    (''PHY_MODE_MIPI_DPHY'', 16), (''PHY_MODE_SATA'', 17), (''PHY_MODE_LVDS'', 18),
    (''PHY_MODE_DP'', 19), (''PHY_MODE_HDMI'', 20)]"

definition enum_phy_state :: ctype where
  "enum_phy_state = Enum False [
    (''PHY_DOWN'', 0), (''PHY_READY'', 1), (''PHY_HALTED'', 2), (''PHY_ERROR'', 3),
    (''PHY_UP'', 4), (''PHY_RUNNING'', 5), (''PHY_NOLINK'', 6), (''PHY_CABLETEST'', 7)]"

definition enum_phy_state_work :: ctype where
  "enum_phy_state_work = Enum False [
    (''PHY_STATE_WORK_NONE'', 0), (''PHY_STATE_WORK_ANEG'', 1), (''PHY_STATE_WORK_SUSPEND'', 2)]"

definition enum_phy_tunable_id :: ctype where
  "enum_phy_tunable_id = Enum False [
    (''ETHTOOL_PHY_ID_UNSPEC'', 0), (''ETHTOOL_PHY_DOWNSHIFT'', 1),
    (''ETHTOOL_PHY_FAST_LINK_DOWN'', 2), (''ETHTOOL_PHY_EDPD'', 3),
    (''__ETHTOOL_PHY_TUNABLE_COUNT'', 4)]"

definition enum_phy_upstream :: ctype where
  "enum_phy_upstream = Enum False [
    (''PHY_UPSTREAM_MAC'', 0), (''PHY_UPSTREAM_PHY'', 1)]"

definition enum_phylink_op_type :: ctype where
  "enum_phylink_op_type = Enum False [
    (''PHYLINK_NETDEV'', 0), (''PHYLINK_DEV'', 1)]"

definition enum_qdisc_class_ops_flags :: ctype where
  "enum_qdisc_class_ops_flags = Enum False [
    (''QDISC_CLASS_OPS_DOIT_UNLOCKED'', 1)]"

definition enum_qdisc_ops_kf_flags :: ctype where
  "enum_qdisc_ops_kf_flags = Enum False [
    (''QDISC_OPS_KF_COMMON'', 0), (''QDISC_OPS_KF_ENQUEUE'', 1), (''QDISC_OPS_KF_DEQUEUE'', 2)]"

definition enum_qdisc_state2_t :: ctype where
  "enum_qdisc_state2_t = Enum False [
    (''__QDISC_STATE2_RUNNING'', 0)]"

definition enum_qdisc_state_t :: ctype where
  "enum_qdisc_state_t = Enum False [
    (''__QDISC_STATE_SCHED'', 0), (''__QDISC_STATE_DEACTIVATED'', 1),
    (''__QDISC_STATE_MISSED'', 2), (''__QDISC_STATE_DRAINING'', 3)]"

definition enum_sched_tunable_scaling :: ctype where
  "enum_sched_tunable_scaling = Enum False [
    (''SCHED_TUNABLESCALING_NONE'', 0), (''SCHED_TUNABLESCALING_LOG'', 1),
    (''SCHED_TUNABLESCALING_LINEAR'', 2), (''SCHED_TUNABLESCALING_END'', 3)]"

definition enum_switchdev_attr_id :: ctype where
  "enum_switchdev_attr_id = Enum False [
    (''SWITCHDEV_ATTR_ID_UNDEFINED'', 0), (''SWITCHDEV_ATTR_ID_PORT_STP_STATE'', 1),
    (''SWITCHDEV_ATTR_ID_PORT_MST_STATE'', 2), (''SWITCHDEV_ATTR_ID_PORT_BRIDGE_FLAGS'', 3),
    (''SWITCHDEV_ATTR_ID_PORT_PRE_BRIDGE_FLAGS'', 4), (''SWITCHDEV_ATTR_ID_PORT_MROUTER'', 5),
    (''SWITCHDEV_ATTR_ID_BRIDGE_AGEING_TIME'', 6),
    (''SWITCHDEV_ATTR_ID_BRIDGE_VLAN_FILTERING'', 7),
    (''SWITCHDEV_ATTR_ID_BRIDGE_VLAN_PROTOCOL'', 8),
    (''SWITCHDEV_ATTR_ID_BRIDGE_MC_DISABLED'', 9), (''SWITCHDEV_ATTR_ID_BRIDGE_MROUTER'', 10),
    (''SWITCHDEV_ATTR_ID_BRIDGE_MST'', 11), (''SWITCHDEV_ATTR_ID_MRP_PORT_ROLE'', 12),
    (''SWITCHDEV_ATTR_ID_VLAN_MSTI'', 13)]"

definition enum_switchdev_notifier_type :: ctype where
  "enum_switchdev_notifier_type = Enum False [
    (''SWITCHDEV_FDB_ADD_TO_BRIDGE'', 1), (''SWITCHDEV_FDB_DEL_TO_BRIDGE'', 2),
    (''SWITCHDEV_FDB_ADD_TO_DEVICE'', 3), (''SWITCHDEV_FDB_DEL_TO_DEVICE'', 4),
    (''SWITCHDEV_FDB_OFFLOADED'', 5), (''SWITCHDEV_FDB_FLUSH_TO_BRIDGE'', 6),
    (''SWITCHDEV_PORT_OBJ_ADD'', 7), (''SWITCHDEV_PORT_OBJ_DEL'', 8),
    (''SWITCHDEV_PORT_ATTR_SET'', 9), (''SWITCHDEV_VXLAN_FDB_ADD_TO_BRIDGE'', 10),
    (''SWITCHDEV_VXLAN_FDB_DEL_TO_BRIDGE'', 11), (''SWITCHDEV_VXLAN_FDB_ADD_TO_DEVICE'', 12),
    (''SWITCHDEV_VXLAN_FDB_DEL_TO_DEVICE'', 13), (''SWITCHDEV_VXLAN_FDB_OFFLOADED'', 14),
    (''SWITCHDEV_BRPORT_OFFLOADED'', 15), (''SWITCHDEV_BRPORT_UNOFFLOADED'', 16),
    (''SWITCHDEV_BRPORT_REPLAY'', 17)]"

definition enum_switchdev_obj_id :: ctype where
  "enum_switchdev_obj_id = Enum False [
    (''SWITCHDEV_OBJ_ID_UNDEFINED'', 0), (''SWITCHDEV_OBJ_ID_PORT_VLAN'', 1),
    (''SWITCHDEV_OBJ_ID_PORT_MDB'', 2), (''SWITCHDEV_OBJ_ID_HOST_MDB'', 3),
    (''SWITCHDEV_OBJ_ID_MRP'', 4), (''SWITCHDEV_OBJ_ID_RING_TEST_MRP'', 5),
    (''SWITCHDEV_OBJ_ID_RING_ROLE_MRP'', 6), (''SWITCHDEV_OBJ_ID_RING_STATE_MRP'', 7),
    (''SWITCHDEV_OBJ_ID_IN_TEST_MRP'', 8), (''SWITCHDEV_OBJ_ID_IN_ROLE_MRP'', 9),
    (''SWITCHDEV_OBJ_ID_IN_STATE_MRP'', 10)]"

definition enum_tc_clsbpf_command :: ctype where
  "enum_tc_clsbpf_command = Enum False [
    (''TC_CLSBPF_OFFLOAD'', 0), (''TC_CLSBPF_STATS'', 1)]"

definition enum_tc_clsu32_command :: ctype where
  "enum_tc_clsu32_command = Enum False [
    (''TC_CLSU32_NEW_KNODE'', 0), (''TC_CLSU32_REPLACE_KNODE'', 1),
    (''TC_CLSU32_DELETE_KNODE'', 2), (''TC_CLSU32_NEW_HNODE'', 3),
    (''TC_CLSU32_REPLACE_HNODE'', 4), (''TC_CLSU32_DELETE_HNODE'', 5)]"

definition enum_tc_ets_command :: ctype where
  "enum_tc_ets_command = Enum False [
    (''TC_ETS_REPLACE'', 0), (''TC_ETS_DESTROY'', 1), (''TC_ETS_STATS'', 2), (''TC_ETS_GRAFT'', 3)]"

definition enum_tc_fifo_command :: ctype where
  "enum_tc_fifo_command = Enum False [
    (''TC_FIFO_REPLACE'', 0), (''TC_FIFO_DESTROY'', 1), (''TC_FIFO_STATS'', 2)]"

definition enum_tc_gred_command :: ctype where
  "enum_tc_gred_command = Enum False [
    (''TC_GRED_REPLACE'', 0), (''TC_GRED_DESTROY'', 1), (''TC_GRED_STATS'', 2)]"

definition enum_tc_htb_command :: ctype where
  "enum_tc_htb_command = Enum False [
    (''TC_HTB_CREATE'', 0), (''TC_HTB_DESTROY'', 1), (''TC_HTB_LEAF_ALLOC_QUEUE'', 2),
    (''TC_HTB_LEAF_TO_INNER'', 3), (''TC_HTB_LEAF_DEL'', 4), (''TC_HTB_LEAF_DEL_LAST'', 5),
    (''TC_HTB_LEAF_DEL_LAST_FORCE'', 6), (''TC_HTB_NODE_MODIFY'', 7),
    (''TC_HTB_LEAF_QUERY_QUEUE'', 8)]"

definition enum_tc_link_layer :: ctype where
  "enum_tc_link_layer = Enum False [
    (''TC_LINKLAYER_UNAWARE'', 0), (''TC_LINKLAYER_ETHERNET'', 1), (''TC_LINKLAYER_ATM'', 2)]"

definition enum_tc_mq_command :: ctype where
  "enum_tc_mq_command = Enum False [
    (''TC_MQ_CREATE'', 0), (''TC_MQ_DESTROY'', 1), (''TC_MQ_STATS'', 2), (''TC_MQ_GRAFT'', 3)]"

definition enum_tc_prio_command :: ctype where
  "enum_tc_prio_command = Enum False [
    (''TC_PRIO_REPLACE'', 0), (''TC_PRIO_DESTROY'', 1), (''TC_PRIO_STATS'', 2),
    (''TC_PRIO_GRAFT'', 3)]"

definition enum_tc_red_command :: ctype where
  "enum_tc_red_command = Enum False [
    (''TC_RED_REPLACE'', 0), (''TC_RED_DESTROY'', 1), (''TC_RED_STATS'', 2),
    (''TC_RED_XSTATS'', 3), (''TC_RED_GRAFT'', 4)]"

definition enum_tc_root_command :: ctype where
  "enum_tc_root_command = Enum False [
    (''TC_ROOT_GRAFT'', 0)]"

definition enum_tc_setup_type :: ctype where
  "enum_tc_setup_type = Enum False [
    (''TC_QUERY_CAPS'', 0), (''TC_SETUP_QDISC_MQPRIO'', 1), (''TC_SETUP_CLSU32'', 2),
    (''TC_SETUP_CLSFLOWER'', 3), (''TC_SETUP_CLSMATCHALL'', 4), (''TC_SETUP_CLSBPF'', 5),
    (''TC_SETUP_BLOCK'', 6), (''TC_SETUP_QDISC_CBS'', 7), (''TC_SETUP_QDISC_RED'', 8),
    (''TC_SETUP_QDISC_PRIO'', 9), (''TC_SETUP_QDISC_MQ'', 10), (''TC_SETUP_QDISC_ETF'', 11),
    (''TC_SETUP_ROOT_QDISC'', 12), (''TC_SETUP_QDISC_GRED'', 13), (''TC_SETUP_QDISC_TAPRIO'', 14),
    (''TC_SETUP_FT'', 15), (''TC_SETUP_QDISC_ETS'', 16), (''TC_SETUP_QDISC_TBF'', 17),
    (''TC_SETUP_QDISC_FIFO'', 18), (''TC_SETUP_QDISC_HTB'', 19), (''TC_SETUP_ACT'', 20)]"

definition enum_tc_taprio_qopt_cmd :: ctype where
  "enum_tc_taprio_qopt_cmd = Enum False [
    (''TAPRIO_CMD_REPLACE'', 0), (''TAPRIO_CMD_DESTROY'', 1), (''TAPRIO_CMD_STATS'', 2),
    (''TAPRIO_CMD_QUEUE_STATS'', 3)]"

definition enum_tc_tbf_command :: ctype where
  "enum_tc_tbf_command = Enum False [
    (''TC_TBF_REPLACE'', 0), (''TC_TBF_DESTROY'', 1), (''TC_TBF_STATS'', 2), (''TC_TBF_GRAFT'', 3)]"

definition enum_tcf_proto_ops_flags :: ctype where
  "enum_tcf_proto_ops_flags = Enum False [
    (''TCF_PROTO_OPS_DOIT_UNLOCKED'', 1)]"

definition enum_tcx_action_base :: ctype where
  "enum_tcx_action_base = Enum False [
    (''TCX_NEXT'', - 1), (''TCX_PASS'', 0), (''TCX_DROP'', 2), (''TCX_REDIRECT'', 7)]"

definition enum_tunable_id :: ctype where
  "enum_tunable_id = Enum False [
    (''ETHTOOL_ID_UNSPEC'', 0), (''ETHTOOL_RX_COPYBREAK'', 1), (''ETHTOOL_TX_COPYBREAK'', 2),
    (''ETHTOOL_PFC_PREVENTION_TOUT'', 3), (''ETHTOOL_TX_COPYBREAK_BUF_SIZE'', 4),
    (''__ETHTOOL_TUNABLE_COUNT'', 5)]"

definition enum_tunable_type_id :: ctype where
  "enum_tunable_type_id = Enum False [
    (''ETHTOOL_TUNABLE_UNSPEC'', 0), (''ETHTOOL_TUNABLE_U8'', 1), (''ETHTOOL_TUNABLE_U16'', 2),
    (''ETHTOOL_TUNABLE_U32'', 3), (''ETHTOOL_TUNABLE_U64'', 4), (''ETHTOOL_TUNABLE_STRING'', 5),
    (''ETHTOOL_TUNABLE_S8'', 6), (''ETHTOOL_TUNABLE_S16'', 7), (''ETHTOOL_TUNABLE_S32'', 8),
    (''ETHTOOL_TUNABLE_S64'', 9)]"

definition enum_tunnel_encap_types :: ctype where
  "enum_tunnel_encap_types = Enum False [
    (''TUNNEL_ENCAP_NONE'', 0), (''TUNNEL_ENCAP_FOU'', 1), (''TUNNEL_ENCAP_GUE'', 2),
    (''TUNNEL_ENCAP_MPLS'', 3)]"

definition enum_vlan_flags :: ctype where
  "enum_vlan_flags = Enum False [
    (''VLAN_FLAG_REORDER_HDR'', 1), (''VLAN_FLAG_GVRP'', 2), (''VLAN_FLAG_LOOSE_BINDING'', 4),
    (''VLAN_FLAG_MVRP'', 8), (''VLAN_FLAG_BRIDGE_BINDING'', 16)]"

definition enum_vlan_ioctl_cmds :: ctype where
  "enum_vlan_ioctl_cmds = Enum False [
    (''ADD_VLAN_CMD'', 0), (''DEL_VLAN_CMD'', 1), (''SET_VLAN_INGRESS_PRIORITY_CMD'', 2),
    (''SET_VLAN_EGRESS_PRIORITY_CMD'', 3), (''GET_VLAN_INGRESS_PRIORITY_CMD'', 4),
    (''GET_VLAN_EGRESS_PRIORITY_CMD'', 5), (''SET_VLAN_NAME_TYPE_CMD'', 6),
    (''SET_VLAN_FLAG_CMD'', 7), (''GET_VLAN_REALDEV_NAME_CMD'', 8), (''GET_VLAN_VID_CMD'', 9)]"

definition enum_vlan_name_types :: ctype where
  "enum_vlan_name_types = Enum False [
    (''VLAN_NAME_TYPE_PLUS_VID'', 0), (''VLAN_NAME_TYPE_RAW_PLUS_VID'', 1),
    (''VLAN_NAME_TYPE_PLUS_VID_NO_PAD'', 2), (''VLAN_NAME_TYPE_RAW_PLUS_VID_NO_PAD'', 3),
    (''VLAN_NAME_TYPE_HIGHEST'', 4)]"

definition enum_vlan_protos :: ctype where
  "enum_vlan_protos = Enum False [
    (''VLAN_PROTO_8021Q'', 0), (''VLAN_PROTO_8021AD'', 1), (''VLAN_PROTO_NUM'', 2)]"

definition struct_Qdisc_class_common :: ctype where
  "struct_Qdisc_class_common = Comp Struct False [
    Member ''classid'' t_u32,
    Member ''filter_cnt'' c_unsigned_int,
    Member ''hnode'' struct_hlist_node]"

definition struct_Qdisc_class_hash :: ctype where
  "struct_Qdisc_class_hash = Comp Struct False [
    Member ''hash'' (Ptr ''struct hlist_head *''),
    Member ''hashsize'' c_unsigned_int,
    Member ''hashmask'' c_unsigned_int,
    Member ''hashelems'' c_unsigned_int]"

definition struct_Qdisc_class_ops :: ctype where
  "struct_Qdisc_class_ops = Comp Struct False [
    Member ''flags'' c_unsigned_int,
    Member ''select_queue'' (Ptr ''struct netdev_queue * (*)(struct Qdisc *, struct tcmsg *)''),
    Member ''graft'' (Ptr ''int (*)(struct Qdisc *, unsigned long, struct Qdisc *, struct Qdisc **, struct netlink_ext_ack *)''),
    Member ''leaf'' (Ptr ''struct Qdisc * (*)(struct Qdisc *, unsigned long)''),
    Member ''qlen_notify'' (Ptr ''void (*)(struct Qdisc *, unsigned long)''),
    Member ''find'' (Ptr ''unsigned long (*)(struct Qdisc *, u32)''),
    Member ''change'' (Ptr ''int (*)(struct Qdisc *, u32, u32, struct nlattr **, unsigned long *, struct netlink_ext_ack *)''),
    Member ''delete'' (Ptr ''int (*)(struct Qdisc *, unsigned long, struct netlink_ext_ack *)''),
    Member ''walk'' (Ptr ''void (*)(struct Qdisc *, struct qdisc_walker *)''),
    Member ''tcf_block'' (Ptr ''struct tcf_block * (*)(struct Qdisc *, unsigned long, struct netlink_ext_ack *)''),
    Member ''bind_tcf'' (Ptr ''unsigned long (*)(struct Qdisc *, unsigned long, u32)''),
    Member ''unbind_tcf'' (Ptr ''void (*)(struct Qdisc *, unsigned long)''),
    Member ''dump'' (Ptr ''int (*)(struct Qdisc *, unsigned long, struct sk_buff *, struct tcmsg *)''),
    Member ''dump_stats'' (Ptr ''int (*)(struct Qdisc *, unsigned long, struct gnet_dump *)'')]"

definition struct_tc_taprio_qopt_stats :: ctype where
  "struct_tc_taprio_qopt_stats = Comp Struct False [
    Member ''window_drops'' t_u64,
    Member ''tx_overruns'' t_u64]"

definition struct_tc_taprio_qopt_queue_stats :: ctype where
  "struct_tc_taprio_qopt_queue_stats = Comp Struct False [
    Member ''queue'' c_int,
    Member ''stats'' struct_tc_taprio_qopt_stats]"

definition struct_tc_mqprio_qopt :: ctype where
  "struct_tc_mqprio_qopt = Comp Struct False [
    Member ''num_tc'' t___u8,
    Member ''prio_tc_map'' (Array 16 t___u8),
    Member ''hw'' t___u8,
    Member ''count'' (Array 16 t___u16),
    Member ''offset'' (Array 16 t___u16)]"

definition struct_tc_mqprio_qopt_offload :: ctype where
  "struct_tc_mqprio_qopt_offload = Comp Struct False [
    Member ''qopt'' struct_tc_mqprio_qopt,
    Member ''extack'' (Ptr ''struct netlink_ext_ack *''),
    Member ''mode'' t_u16,
    Member ''shaper'' t_u16,
    Member ''flags'' t_u32,
    Member ''min_rate'' (Array 16 t_u64),
    Member ''max_rate'' (Array 16 t_u64),
    Member ''preemptible_tcs'' c_unsigned_long]"

definition struct_tc_taprio_sched_entry :: ctype where
  "struct_tc_taprio_sched_entry = Comp Struct False [
    Member ''command'' t_u8,
    Member ''gate_mask'' t_u32,
    Member ''interval'' t_u32]"

definition struct_tc_taprio_qopt_offload :: ctype where
  "struct_tc_taprio_qopt_offload = Comp Struct False [
    Member ''cmd'' enum_tc_taprio_qopt_cmd,
    Member '''' (Comp Union False [
      Member ''stats'' struct_tc_taprio_qopt_stats,
      Member ''queue_stats'' struct_tc_taprio_qopt_queue_stats,
      Member '''' (Comp Struct False [
        Member ''mqprio'' struct_tc_mqprio_qopt_offload,
        Member ''extack'' (Ptr ''struct netlink_ext_ack *''),
        Member ''base_time'' t_ktime_t,
        Member ''cycle_time'' t_u64,
        Member ''cycle_time_extension'' t_u64,
        Member ''max_sdu'' (Array 16 t_u32),
        Member ''num_entries'' t_size_t,
        Member ''entries'' (Array 0 struct_tc_taprio_sched_entry)])])]"

definition struct_vlan_head :: ctype where
  "struct_vlan_head = Comp Struct False [
    Member ''tpid'' t___be16,
    Member ''tci'' t___be16]"

definition struct_bond_3ad_stats :: ctype where
  "struct_bond_3ad_stats = Comp Struct False [
    Member ''lacpdu_rx'' t_atomic64_t,
    Member ''lacpdu_tx'' t_atomic64_t,
    Member ''lacpdu_unknown_rx'' t_atomic64_t,
    Member ''lacpdu_illegal_rx'' t_atomic64_t,
    Member ''marker_rx'' t_atomic64_t,
    Member ''marker_tx'' t_atomic64_t,
    Member ''marker_resp_rx'' t_atomic64_t,
    Member ''marker_resp_tx'' t_atomic64_t,
    Member ''marker_unknown_rx'' t_atomic64_t]"

definition struct_phylink_config :: ctype where
  "struct_phylink_config = Comp Struct False [
    Member ''dev'' (Ptr ''struct device *''),
    Member ''type'' enum_phylink_op_type,
    Member ''poll_fixed_state'' t_bool,
    Member ''mac_managed_pm'' t_bool,
    Member ''mac_requires_rxc'' t_bool,
    Member ''default_an_inband'' t_bool,
    Member ''eee_rx_clk_stop_enable'' t_bool,
    Member ''get_fixed_state'' (Ptr ''void (*)(struct phylink_config *, struct phylink_link_state *)''),
    Member ''supported_interfaces'' (Array 1 c_unsigned_long),
    Member ''lpi_interfaces'' (Array 1 c_unsigned_long),
    Member ''mac_capabilities'' c_unsigned_long,
    Member ''lpi_capabilities'' c_unsigned_long,
    Member ''lpi_timer_default'' t_u32,
    Member ''eee_enabled_default'' t_bool]"

definition struct_tcf_ematch_tree :: ctype where
  "struct_tcf_ematch_tree = Comp Struct False []"

definition struct_mac_addr :: ctype where
  "struct_mac_addr = Comp Struct False [
    Member ''mac_addr_value'' (Array 6 t_u8)]"

definition struct_bond_marker :: ctype where
  "struct_bond_marker = Comp Struct True [
    Member ''subtype'' t_u8,
    Member ''version_number'' t_u8,
    Member ''tlv_type'' t_u8,
    Member ''marker_length'' t_u8,
    Member ''requester_port'' t_u16,
    Member ''requester_system'' struct_mac_addr,
    Member ''requester_transaction_id'' t_u32,
    Member ''pad'' t_u16,
    Member ''tlv_type_terminator'' t_u8,
    Member ''terminator_length'' t_u8,
    Member ''reserved_90'' (Array 90 t_u8)]"

definition struct_bond_marker_header :: ctype where
  "struct_bond_marker_header = Comp Struct False [
    Member ''hdr'' struct_ethhdr,
    Member ''marker'' struct_bond_marker]"

definition struct_class_attribute :: ctype where
  "struct_class_attribute = Comp Struct False [
    Member ''attr'' struct_attribute,
    Member ''show'' (Ptr ''ssize_t (*)(const struct class *, const struct class_attribute *, char *)''),
    Member ''store'' (Ptr ''ssize_t (*)(const struct class *, const struct class_attribute *, const char *, size_t)'')]"

definition struct_bond_net :: ctype where
  "struct_bond_net = Comp Struct False [
    Member ''net'' (Ptr ''struct net *''),
    Member ''dev_list'' struct_list_head,
    Member ''proc_dir'' (Ptr ''struct proc_dir_entry *''),
    Member ''class_attr_bonding_masters'' struct_class_attribute]"

definition struct_bond_opt_value :: ctype where
  "struct_bond_opt_value = Comp Struct False [
    Member ''string'' (Ptr ''char *''),
    Member ''value'' t_u64,
    Member ''flags'' t_u32,
    Member '''' (Comp Union False [
      Member ''extra'' (Array 16 c_char),
      Member ''slave_dev'' (Ptr ''struct net_device *'')])]"

definition struct_bond_option :: ctype where
  "struct_bond_option = Comp Struct False [
    Member ''id'' c_int,
    Member ''name'' (Ptr ''char *''),
    Member ''desc'' (Ptr ''char *''),
    Member ''flags'' t_u32,
    Member ''unsuppmodes'' c_unsigned_long,
    Member ''values'' (Ptr ''struct bond_opt_value *''),
    Member ''set'' (Ptr ''int (*)(struct bonding *, const struct bond_opt_value *)'')]"

definition struct_reciprocal_value :: ctype where
  "struct_reciprocal_value = Comp Struct False [
    Member ''m'' t_u32,
    Member ''sh1'' t_u8,
    Member ''sh2'' t_u8]"

definition struct_bond_params :: ctype where
  "struct_bond_params = Comp Struct False [
    Member ''mode'' c_int,
    Member ''xmit_policy'' c_int,
    Member ''miimon'' c_int,
    Member ''num_peer_notif'' t_u8,
    Member ''missed_max'' t_u8,
    Member ''arp_interval'' c_int,
    Member ''arp_validate'' c_int,
    Member ''arp_all_targets'' c_int,
    Member ''use_carrier'' c_int,
    Member ''fail_over_mac'' c_int,
    Member ''updelay'' c_int,
    Member ''downdelay'' c_int,
    Member ''peer_notif_delay'' c_int,
    Member ''lacp_active'' c_int,
    Member ''lacp_fast'' c_int,
    Member ''min_links'' c_unsigned_int,
    Member ''ad_select'' c_int,
    Member ''primary'' (Array 16 c_char),
    Member ''primary_reselect'' c_int,
    Member ''arp_targets'' (Array 16 t___be32),
    Member ''tx_queues'' c_int,
    Member ''all_slaves_active'' c_int,
    Member ''resend_igmp'' c_int,
    Member ''lp_interval'' c_int,
    Member ''packets_per_slave'' c_int,
    Member ''tlb_dynamic_lb'' c_int,
    Member ''reciprocal_packets_per_slave'' struct_reciprocal_value,
    Member ''ad_actor_sys_prio'' t_u16,
    Member ''ad_user_port_key'' t_u16,
    Member ''ns_targets'' (Array 16 struct_in6_addr),
    Member ''coupled_control'' c_int,
    Member ''broadcast_neighbor'' c_int,
    Member ''ad_actor_system'' (Array 8 t_u8)]"

definition struct_bond_up_slave :: ctype where
  "struct_bond_up_slave = Comp Struct False [
    Member ''count'' c_unsigned_int,
    Member ''rcu'' struct_callback_head,
    Member ''arr'' (Array 0 (Ptr ''struct slave *''))]"

definition struct_bond_vlan_tag :: ctype where
  "struct_bond_vlan_tag = Comp Struct False [
    Member ''vlan_proto'' t___be16,
    Member ''vlan_id'' c_unsigned_short]"

definition struct_ad_system :: ctype where
  "struct_ad_system = Comp Struct False [
    Member ''sys_priority'' t_u16,
    Member ''sys_mac_addr'' struct_mac_addr]"

definition struct_ad_bond_info :: ctype where
  "struct_ad_bond_info = Comp Struct False [
    Member ''system'' struct_ad_system,
    Member ''stats'' struct_bond_3ad_stats,
    Member ''agg_select_timer'' t_atomic_t,
    Member ''aggregator_identifier'' t_u16]"

definition struct_alb_bond_info :: ctype where
  "struct_alb_bond_info = Comp Struct False [
    Member ''tx_hashtbl'' (Ptr ''struct tlb_client_info *''),
    Member ''unbalanced_load'' t_u32,
    Member ''tx_rebalance_counter'' t_atomic_t,
    Member ''lp_counter'' c_int,
    Member ''rlb_enabled'' c_int,
    Member ''rx_hashtbl'' (Ptr ''struct rlb_client_info *''),
    Member ''rx_hashtbl_used_head'' t_u32,
    Member ''rx_ntt'' t_u8,
    Member ''rx_slave'' (Ptr ''struct slave *''),
    Member ''primary_is_promisc'' t_u8,
    Member ''rlb_promisc_timeout_counter'' t_u32,
    Member ''rlb_update_delay_counter'' t_u32,
    Member ''rlb_update_retry_counter'' t_u32,
    Member ''rlb_rebalance'' t_u8]"

definition struct_bonding :: ctype where
  "struct_bonding = Comp Struct False [
    Member ''dev'' (Ptr ''struct net_device *''),
    Member ''curr_active_slave'' (Ptr ''struct slave *''),
    Member ''current_arp_slave'' (Ptr ''struct slave *''),
    Member ''primary_slave'' (Ptr ''struct slave *''),
    Member ''usable_slaves'' (Ptr ''struct bond_up_slave *''),
    Member ''all_slaves'' (Ptr ''struct bond_up_slave *''),
    Member ''force_primary'' t_bool,
    Member ''notifier_ctx'' t_bool,
    Member ''slave_cnt'' t_s32,
    Member ''recv_probe'' (Ptr ''int (*)(const struct sk_buff *, struct bonding *, struct slave *)''),
    Member ''mode_lock'' t_spinlock_t,
    Member ''stats_lock'' t_spinlock_t,
    Member ''send_peer_notif'' t_u32,
    Member ''igmp_retrans'' t_u8,
    Member ''proc_entry'' (Ptr ''struct proc_dir_entry *''),
    Member ''proc_file_name'' (Array 16 c_char),
    Member ''bond_list'' struct_list_head,
    Member ''rr_tx_counter'' (Ptr ''u32 *''),
    Member ''ad_info'' struct_ad_bond_info,
    Member ''alb_info'' struct_alb_bond_info,
    Member ''params'' struct_bond_params,
    Member ''wq'' (Ptr ''struct workqueue_struct *''),
    Member ''mii_work'' struct_delayed_work,
    Member ''arp_work'' struct_delayed_work,
    Member ''alb_work'' struct_delayed_work,
    Member ''ad_work'' struct_delayed_work,
    Member ''mcast_work'' struct_delayed_work,
    Member ''slave_arr_work'' struct_delayed_work,
    Member ''debug_dir'' (Ptr ''struct dentry *''),
    Member ''bond_stats'' struct_rtnl_link_stats64,
    Member ''xdp_prog'' (Ptr ''struct bpf_prog *'')]"

definition struct_br_boolopt_multi :: ctype where
  "struct_br_boolopt_multi = Comp Struct False [
    Member ''optval'' t___u32,
    Member ''optmask'' t___u32]"

definition struct_br_config_bpdu :: ctype where
  "struct_br_config_bpdu = Comp Struct False [
    BitField ''topology_change'' c_unsigned_int 1,
    BitField ''topology_change_ack'' c_unsigned_int 1,
    Member ''root'' t_bridge_id,
    Member ''root_path_cost'' c_int,
    Member ''bridge_id'' t_bridge_id,
    Member ''port_id'' t_port_id,
    Member ''message_age'' c_int,
    Member ''max_age'' c_int,
    Member ''hello_time'' c_int,
    Member ''forward_delay'' c_int]"

definition struct_br_frame_type :: ctype where
  "struct_br_frame_type = Comp Struct False [
    Member ''type'' t___be16,
    Member ''frame_handler'' (Ptr ''int (*)(struct net_bridge_port *, struct sk_buff *)''),
    Member ''list'' struct_hlist_node]"

definition struct_br_input_skb_cb :: ctype where
  "struct_br_input_skb_cb = Comp Struct False [
    Member ''brdev'' (Ptr ''struct net_device *''),
    Member ''frag_max_size'' t_u16,
    Member ''igmp'' t_u8,
    BitField ''mrouters_only'' t_u8 1,
    BitField ''proxyarp_replied'' t_u8 1,
    BitField ''src_port_isolated'' t_u8 1,
    BitField ''promisc'' t_u8 1,
    BitField ''vlan_filtered'' t_u8 1,
    BitField ''br_netfilter_broute'' t_u8 1,
    BitField ''tx_fwd_offload'' t_u8 1,
    Member ''src_hwdom'' c_int,
    Member ''fwd_hwdoms'' c_unsigned_long,
    Member ''backup_nhid'' t_u32]"

definition struct_br_ip_list :: ctype where
  "struct_br_ip_list = Comp Struct False [
    Member ''list'' struct_list_head,
    Member ''addr'' struct_br_ip]"

definition struct_br_mcast_stats :: ctype where
  "struct_br_mcast_stats = Comp Struct False [
    Member ''igmp_v1queries'' (Array 2 t___u64),
    Member ''igmp_v2queries'' (Array 2 t___u64),
    Member ''igmp_v3queries'' (Array 2 t___u64),
    Member ''igmp_leaves'' (Array 2 t___u64),
    Member ''igmp_v1reports'' (Array 2 t___u64),
    Member ''igmp_v2reports'' (Array 2 t___u64),
    Member ''igmp_v3reports'' (Array 2 t___u64),
    Member ''igmp_parse_errors'' t___u64,
    Member ''mld_v1queries'' (Array 2 t___u64),
    Member ''mld_v2queries'' (Array 2 t___u64),
    Member ''mld_leaves'' (Array 2 t___u64),
    Member ''mld_v1reports'' (Array 2 t___u64),
    Member ''mld_v2reports'' (Array 2 t___u64),
    Member ''mld_parse_errors'' t___u64,
    Member ''mcast_bytes'' (Array 2 t___u64),
    Member ''mcast_packets'' (Array 2 t___u64)]"

definition struct_br_mdb_config :: ctype where
  "struct_br_mdb_config = Comp Struct False [
    Member ''br'' (Ptr ''struct net_bridge *''),
    Member ''p'' (Ptr ''struct net_bridge_port *''),
    Member ''entry'' (Ptr ''struct br_mdb_entry *''),
    Member ''group'' struct_br_ip,
    Member ''src_entry'' t_bool,
    Member ''filter_mode'' t_u8,
    Member ''nlflags'' t_u16,
    Member ''src_entries'' (Ptr ''struct br_mdb_src_entry *''),
    Member ''num_src_entries'' c_int,
    Member ''rt_protocol'' t_u8]"

definition struct_br_mdb_entry :: ctype where
  "struct_br_mdb_entry = Comp Struct False [
    Member ''ifindex'' t___u32,
    Member ''state'' t___u8,
    Member ''flags'' t___u8,
    Member ''vid'' t___u16,
    Member ''addr'' (Comp Struct False [
      Member ''u'' (Comp Union False [
        Member ''ip4'' t___be32,
        Member ''ip6'' struct_in6_addr,
        Member ''mac_addr'' (Array 6 c_unsigned_char)]),
      Member ''proto'' t___be16])]"

definition struct_br_mdb_flush_desc :: ctype where
  "struct_br_mdb_flush_desc = Comp Struct False [
    Member ''port_ifindex'' t_u32,
    Member ''vid'' t_u16,
    Member ''rt_protocol'' t_u8,
    Member ''state'' t_u8,
    Member ''state_mask'' t_u8]"

definition struct_br_mdb_src_entry :: ctype where
  "struct_br_mdb_src_entry = Comp Struct False [
    Member ''addr'' struct_br_ip]"

definition struct_br_port_msg :: ctype where
  "struct_br_port_msg = Comp Struct False [
    Member ''family'' t___u8,
    Member ''ifindex'' t___u32]"

definition struct_br_switchdev_mdb_complete_info :: ctype where
  "struct_br_switchdev_mdb_complete_info = Comp Struct False [
    Member ''port'' (Ptr ''struct net_bridge_port *''),
    Member ''ip'' struct_br_ip]"

definition struct_br_vlan_bind_walk_data :: ctype where
  "struct_br_vlan_bind_walk_data = Comp Struct False [
    Member ''vid'' t_u16,
    Member ''result'' (Ptr ''struct net_device *'')]"

definition struct_br_vlan_link_state_walk_data :: ctype where
  "struct_br_vlan_link_state_walk_data = Comp Struct False [
    Member ''br'' (Ptr ''struct net_bridge *'')]"

definition struct_br_vlan_msg :: ctype where
  "struct_br_vlan_msg = Comp Struct False [
    Member ''family'' t___u8,
    Member ''reserved1'' t___u8,
    Member ''reserved2'' t___u16,
    Member ''ifindex'' t___u32]"

definition struct_bridge_mcast_stats :: ctype where
  "struct_bridge_mcast_stats = Comp Struct False [
    Member ''mstats'' struct_br_mcast_stats,
    Member ''syncp'' struct_u64_stats_sync]"

definition struct_bridge_vlan_info :: ctype where
  "struct_bridge_vlan_info = Comp Struct False [
    Member ''flags'' t___u16,
    Member ''vid'' t___u16]"

definition struct_bridge_vlan_xstats :: ctype where
  "struct_bridge_vlan_xstats = Comp Struct False [
    Member ''rx_bytes'' t___u64,
    Member ''rx_packets'' t___u64,
    Member ''tx_bytes'' t___u64,
    Member ''tx_packets'' t___u64,
    Member ''vid'' t___u16,
    Member ''flags'' t___u16,
    Member ''pad2'' t___u32]"

definition struct_qdisc_walker :: ctype where
  "struct_qdisc_walker = Comp Struct False [
    Member ''stop'' c_int,
    Member ''skip'' c_int,
    Member ''count'' c_int,
    Member ''fn'' (Ptr ''int (*)(struct Qdisc *, unsigned long, struct qdisc_walker *)'')]"

definition struct_flow_keys_digest :: ctype where
  "struct_flow_keys_digest = Comp Struct False [
    Member ''data'' (Array 16 t_u8)]"

definition struct_cls_cgroup_head :: ctype where
  "struct_cls_cgroup_head = Comp Struct False [
    Member ''handle'' t_u32,
    Member ''exts'' struct_tcf_exts,
    Member ''ematches'' struct_tcf_ematch_tree,
    Member ''tp'' (Ptr ''struct tcf_proto *''),
    Member ''rwork'' struct_rcu_work]"

definition struct_flow_dissector_key_meta :: ctype where
  "struct_flow_dissector_key_meta = Comp Struct False [
    Member ''ingress_ifindex'' c_int,
    Member ''ingress_iftype'' t_u16,
    Member ''l2_miss'' t_u8]"

definition struct_flow_dissector_key_control :: ctype where
  "struct_flow_dissector_key_control = Comp Struct False [
    Member ''thoff'' t_u16,
    Member ''addr_type'' t_u16,
    Member ''flags'' t_u32]"

definition struct_flow_dissector_key_icmp :: ctype where
  "struct_flow_dissector_key_icmp = Comp Struct False [
    Member '''' (Comp Struct False [
      Member ''type'' t_u8,
      Member ''code'' t_u8]),
    Member ''id'' t_u16]"

definition struct_flow_dissector_key_arp :: ctype where
  "struct_flow_dissector_key_arp = Comp Struct False [
    Member ''sip'' t___u32,
    Member ''tip'' t___u32,
    Member ''op'' t___u8,
    Member ''sha'' (Array 6 c_unsigned_char),
    Member ''tha'' (Array 6 c_unsigned_char)]"

definition struct_flow_dissector_key_keyid :: ctype where
  "struct_flow_dissector_key_keyid = Comp Struct False [
    Member ''keyid'' t___be32]"

definition struct_flow_dissector_mpls_lse :: ctype where
  "struct_flow_dissector_mpls_lse = Comp Struct False [
    BitField ''mpls_ttl'' t_u32 8,
    BitField ''mpls_bos'' t_u32 1,
    BitField ''mpls_tc'' t_u32 3,
    BitField ''mpls_label'' t_u32 20]"

definition struct_flow_dissector_key_mpls :: ctype where
  "struct_flow_dissector_key_mpls = Comp Struct False [
    Member ''ls'' (Array 7 struct_flow_dissector_mpls_lse),
    Member ''used_lses'' t_u8]"

definition struct_flow_dissector_key_tcp :: ctype where
  "struct_flow_dissector_key_tcp = Comp Struct False [
    Member ''flags'' t___be16]"

definition struct_flow_dissector_key_enc_opts :: ctype where
  "struct_flow_dissector_key_enc_opts = Comp Struct False [
    Member ''data'' (Array 255 t_u8),
    Member ''len'' t_u8,
    Member ''dst_opt_type'' t_u32]"

definition struct_flow_dissector_key_ports_range :: ctype where
  "struct_flow_dissector_key_ports_range = Comp Struct False [
    Member '''' (Comp Union False [
      Member ''tp'' struct_flow_dissector_key_ports,
      Member '''' (Comp Struct False [
        Member ''tp_min'' struct_flow_dissector_key_ports,
        Member ''tp_max'' struct_flow_dissector_key_ports])])]"

definition struct_flow_dissector_key_ct :: ctype where
  "struct_flow_dissector_key_ct = Comp Struct False [
    Member ''ct_state'' t_u16,
    Member ''ct_zone'' t_u16,
    Member ''ct_mark'' t_u32,
    Member ''ct_labels'' (Array 4 t_u32)]"

definition struct_flow_dissector_key_hash :: ctype where
  "struct_flow_dissector_key_hash = Comp Struct False [
    Member ''hash'' t_u32]"

definition struct_flow_dissector_key_num_of_vlans :: ctype where
  "struct_flow_dissector_key_num_of_vlans = Comp Struct False [
    Member ''num_of_vlans'' t_u8]"

definition struct_flow_dissector_key_pppoe :: ctype where
  "struct_flow_dissector_key_pppoe = Comp Struct False [
    Member ''session_id'' t___be16,
    Member ''ppp_proto'' t___be16,
    Member ''type'' t___be16]"

definition struct_flow_dissector_key_l2tpv3 :: ctype where
  "struct_flow_dissector_key_l2tpv3 = Comp Struct False [
    Member ''session_id'' t___be32]"

definition struct_flow_dissector_key_ipsec :: ctype where
  "struct_flow_dissector_key_ipsec = Comp Struct False [
    Member ''spi'' t___be32]"

definition struct_flow_dissector_key_cfm :: ctype where
  "struct_flow_dissector_key_cfm = Comp Struct False [
    Member ''mdl_ver'' t_u8,
    Member ''opcode'' t_u8]"

definition struct_fl_flow_key :: ctype where
  "struct_fl_flow_key = Comp Struct False [
    Member ''meta'' struct_flow_dissector_key_meta,
    Member ''control'' struct_flow_dissector_key_control,
    Member ''enc_control'' struct_flow_dissector_key_control,
    Member ''basic'' struct_flow_dissector_key_basic,
    Member ''eth'' struct_flow_dissector_key_eth_addrs,
    Member ''vlan'' struct_flow_dissector_key_vlan,
    Member ''cvlan'' struct_flow_dissector_key_vlan,
    Member '''' (Comp Union False [
      Member ''ipv4'' struct_flow_dissector_key_ipv4_addrs,
      Member ''ipv6'' struct_flow_dissector_key_ipv6_addrs]),
    Member ''tp'' struct_flow_dissector_key_ports,
    Member ''icmp'' struct_flow_dissector_key_icmp,
    Member ''arp'' struct_flow_dissector_key_arp,
    Member ''enc_key_id'' struct_flow_dissector_key_keyid,
    Member '''' (Comp Union False [
      Member ''enc_ipv4'' struct_flow_dissector_key_ipv4_addrs,
      Member ''enc_ipv6'' struct_flow_dissector_key_ipv6_addrs]),
    Member ''enc_tp'' struct_flow_dissector_key_ports,
    Member ''mpls'' struct_flow_dissector_key_mpls,
    Member ''tcp'' struct_flow_dissector_key_tcp,
    Member ''ip'' struct_flow_dissector_key_ip,
    Member ''enc_ip'' struct_flow_dissector_key_ip,
    Member ''enc_opts'' struct_flow_dissector_key_enc_opts,
    Member ''tp_range'' struct_flow_dissector_key_ports_range,
    Member ''ct'' struct_flow_dissector_key_ct,
    Member ''hash'' struct_flow_dissector_key_hash,
    Member ''num_of_vlans'' struct_flow_dissector_key_num_of_vlans,
    Member ''pppoe'' struct_flow_dissector_key_pppoe,
    Member ''l2tpv3'' struct_flow_dissector_key_l2tpv3,
    Member ''ipsec'' struct_flow_dissector_key_ipsec,
    Member ''cfm'' struct_flow_dissector_key_cfm,
    BitField '''' c_long 0]"

definition struct_cls_fl_filter :: ctype where
  "struct_cls_fl_filter = Comp Struct False [
    Member ''mask'' (Ptr ''struct fl_flow_mask *''),
    Member ''ht_node'' struct_rhash_head,
    Member ''mkey'' struct_fl_flow_key,
    Member ''exts'' struct_tcf_exts,
    Member ''res'' struct_tcf_result,
    Member ''key'' struct_fl_flow_key,
    Member ''list'' struct_list_head,
    Member ''hw_list'' struct_list_head,
    Member ''handle'' t_u32,
    Member ''flags'' t_u32,
    Member ''in_hw_count'' t_u32,
    BitField ''needs_tc_skb_ext'' t_u8 1,
    Member ''rwork'' struct_rcu_work,
    Member ''hw_dev'' (Ptr ''struct net_device *''),
    Member ''refcnt'' t_refcount_t,
    Member ''deleted'' t_bool]"

definition struct_cls_fl_head :: ctype where
  "struct_cls_fl_head = Comp Struct False [
    Member ''ht'' struct_rhashtable,
    Member ''masks_lock'' t_spinlock_t,
    Member ''masks'' struct_list_head,
    Member ''hw_filters'' struct_list_head,
    Member ''rwork'' struct_rcu_work,
    Member ''handle_idr'' struct_idr]"

definition struct_tcf_block_ext_info :: ctype where
  "struct_tcf_block_ext_info = Comp Struct False [
    Member ''binder_type'' enum_flow_block_binder_type,
    Member ''chain_head_change'' (Ptr ''tcf_chain_head_change_t *''),
    Member ''chain_head_change_priv'' (Ptr ''void *''),
    Member ''block_index'' t_u32]"

definition struct_flow_table :: ctype where
  "struct_flow_table = Comp Struct False [
    Member ''ti'' (Ptr ''struct table_instance *''),
    Member ''ufid_ti'' (Ptr ''struct table_instance *''),
    Member ''mask_cache'' (Ptr ''struct mask_cache *''),
    Member ''mask_array'' (Ptr ''struct mask_array *''),
    Member ''last_rehash'' c_unsigned_long,
    Member ''count'' c_unsigned_int,
    Member ''ufid_count'' c_unsigned_int]"

definition struct_devlink_port_phys_attrs :: ctype where
  "struct_devlink_port_phys_attrs = Comp Struct False [
    Member ''port_number'' t_u32,
    Member ''split_subport_number'' t_u32]"

definition struct_devlink_port_pci_pf_attrs :: ctype where
  "struct_devlink_port_pci_pf_attrs = Comp Struct False [
    Member ''controller'' t_u32,
    Member ''pf'' t_u16,
    BitField ''external'' t_u8 1]"

definition struct_devlink_port_pci_vf_attrs :: ctype where
  "struct_devlink_port_pci_vf_attrs = Comp Struct False [
    Member ''controller'' t_u32,
    Member ''pf'' t_u16,
    Member ''vf'' t_u16,
    BitField ''external'' t_u8 1]"

definition struct_devlink_port_pci_sf_attrs :: ctype where
  "struct_devlink_port_pci_sf_attrs = Comp Struct False [
    Member ''controller'' t_u32,
    Member ''sf'' t_u32,
    Member ''pf'' t_u16,
    BitField ''external'' t_u8 1]"

definition struct_devlink_port_attrs :: ctype where
  "struct_devlink_port_attrs = Comp Struct False [
    BitField ''split'' t_u8 1,
    BitField ''splittable'' t_u8 1,
    BitField ''no_phys_port_name'' t_u8 1,
    Member ''lanes'' t_u32,
    Member ''flavour'' enum_devlink_port_flavour,
    Member ''switch_id'' struct_netdev_phys_item_id,
    Member '''' (Comp Union False [
      Member ''phys'' struct_devlink_port_phys_attrs,
      Member ''pci_pf'' struct_devlink_port_pci_pf_attrs,
      Member ''pci_vf'' struct_devlink_port_pci_vf_attrs,
      Member ''pci_sf'' struct_devlink_port_pci_sf_attrs])]"

definition struct_devlink_port :: ctype where
  "struct_devlink_port = Comp Struct False [
    Member ''list'' struct_list_head,
    Member ''region_list'' struct_list_head,
    Member ''devlink'' (Ptr ''struct devlink *''),
    Member ''ops'' (Ptr ''struct devlink_port_ops *''),
    Member ''index'' c_unsigned_int,
    Member ''type_lock'' t_spinlock_t,
    Member ''type'' enum_devlink_port_type,
    Member ''desired_type'' enum_devlink_port_type,
    Member '''' (Comp Union False [
      Member ''type_eth'' (Comp Struct False [
        Member ''netdev'' (Ptr ''struct net_device *''),
        Member ''ifindex'' c_int,
        Member ''ifname'' (Array 16 c_char)]),
      Member ''type_ib'' (Comp Struct False [
        Member ''ibdev'' (Ptr ''struct ib_device *'')])]),
    Member ''attrs'' struct_devlink_port_attrs,
    BitField ''attrs_set'' t_u8 1,
    BitField ''switch_port'' t_u8 1,
    BitField ''registered'' t_u8 1,
    BitField ''initialized'' t_u8 1,
    Member ''type_warn_dw'' struct_delayed_work,
    Member ''reporter_list'' struct_list_head,
    Member ''devlink_rate'' (Ptr ''struct devlink_rate *''),
    Member ''linecard'' (Ptr ''struct devlink_linecard *''),
    Member ''rel_index'' t_u32]"

definition struct_devlink_port_ops :: ctype where
  "struct_devlink_port_ops = Comp Struct False [
    Member ''port_split'' (Ptr ''int (*)(struct devlink *, struct devlink_port *, unsigned int, struct netlink_ext_ack *)''),
    Member ''port_unsplit'' (Ptr ''int (*)(struct devlink *, struct devlink_port *, struct netlink_ext_ack *)''),
    Member ''port_type_set'' (Ptr ''int (*)(struct devlink_port *, enum devlink_port_type)''),
    Member ''port_del'' (Ptr ''int (*)(struct devlink *, struct devlink_port *, struct netlink_ext_ack *)''),
    Member ''port_fn_hw_addr_get'' (Ptr ''int (*)(struct devlink_port *, u8 *, int *, struct netlink_ext_ack *)''),
    Member ''port_fn_hw_addr_set'' (Ptr ''int (*)(struct devlink_port *, const u8 *, int, struct netlink_ext_ack *)''),
    Member ''port_fn_roce_get'' (Ptr ''int (*)(struct devlink_port *, bool *, struct netlink_ext_ack *)''),
    Member ''port_fn_roce_set'' (Ptr ''int (*)(struct devlink_port *, bool, struct netlink_ext_ack *)''),
    Member ''port_fn_migratable_get'' (Ptr ''int (*)(struct devlink_port *, bool *, struct netlink_ext_ack *)''),
    Member ''port_fn_migratable_set'' (Ptr ''int (*)(struct devlink_port *, bool, struct netlink_ext_ack *)''),
    Member ''port_fn_state_get'' (Ptr ''int (*)(struct devlink_port *, enum devlink_port_fn_state *, enum devlink_port_fn_opstate *, struct netlink_ext_ack *)''),
    Member ''port_fn_state_set'' (Ptr ''int (*)(struct devlink_port *, enum devlink_port_fn_state, struct netlink_ext_ack *)''),
    Member ''port_fn_ipsec_crypto_get'' (Ptr ''int (*)(struct devlink_port *, bool *, struct netlink_ext_ack *)''),
    Member ''port_fn_ipsec_crypto_set'' (Ptr ''int (*)(struct devlink_port *, bool, struct netlink_ext_ack *)''),
    Member ''port_fn_ipsec_packet_get'' (Ptr ''int (*)(struct devlink_port *, bool *, struct netlink_ext_ack *)''),
    Member ''port_fn_ipsec_packet_set'' (Ptr ''int (*)(struct devlink_port *, bool, struct netlink_ext_ack *)''),
    Member ''port_fn_max_io_eqs_get'' (Ptr ''int (*)(struct devlink_port *, u32 *, struct netlink_ext_ack *)''),
    Member ''port_fn_max_io_eqs_set'' (Ptr ''int (*)(struct devlink_port *, u32, struct netlink_ext_ack *)'')]"

definition struct_devlink_rate :: ctype where
  "struct_devlink_rate = Comp Struct False [
    Member ''list'' struct_list_head,
    Member ''type'' enum_devlink_rate_type,
    Member ''devlink'' (Ptr ''struct devlink *''),
    Member ''priv'' (Ptr ''void *''),
    Member ''tx_share'' t_u64,
    Member ''tx_max'' t_u64,
    Member ''parent'' (Ptr ''struct devlink_rate *''),
    Member '''' (Comp Union False [
      Member ''devlink_port'' (Ptr ''struct devlink_port *''),
      Member '''' (Comp Struct False [
        Member ''name'' (Ptr ''char *''),
        Member ''refcnt'' t_refcount_t])]),
    Member ''tx_priority'' t_u32,
    Member ''tx_weight'' t_u32,
    Member ''tc_bw'' (Array 8 t_u32)]"

definition t_action_destr :: ctype where
  "t_action_destr = Ptr ''void (*)(void *)''"

definition struct_flow_action_entry :: ctype where
  "struct_flow_action_entry = Comp Struct False [
    Member ''id'' enum_flow_action_id,
    Member ''hw_index'' t_u32,
    Member ''cookie'' c_unsigned_long,
    Member ''miss_cookie'' t_u64,
    Member ''hw_stats'' enum_flow_action_hw_stats,
    Member ''destructor'' t_action_destr,
    Member ''destructor_priv'' (Ptr ''void *''),
    Member '''' (Comp Union False [
      Member ''chain_index'' t_u32,
      Member ''dev'' (Ptr ''struct net_device *''),
      Member ''vlan'' (Comp Struct False [
        Member ''vid'' t_u16,
        Member ''proto'' t___be16,
        Member ''prio'' t_u8]),
      Member ''vlan_push_eth'' (Comp Struct False [
        Member ''dst'' (Array 6 c_unsigned_char),
        Member ''src'' (Array 6 c_unsigned_char)]),
      Member ''mangle'' (Comp Struct False [
        Member ''htype'' enum_flow_action_mangle_base,
        Member ''offset'' t_u32,
        Member ''mask'' t_u32,
        Member ''val'' t_u32]),
      Member ''tunnel'' (Ptr ''struct ip_tunnel_info *''),
      Member ''csum_flags'' t_u32,
      Member ''mark'' t_u32,
      Member ''ptype'' t_u16,
      Member ''rx_queue'' t_u16,
      Member ''priority'' t_u32,
      Member ''queue'' (Comp Struct False [
        Member ''ctx'' t_u32,
        Member ''index'' t_u32,
        Member ''vf'' t_u8]),
      Member ''sample'' (Comp Struct False [
        Member ''psample_group'' (Ptr ''struct psample_group *''),
        Member ''rate'' t_u32,
        Member ''trunc_size'' t_u32,
        Member ''truncate'' t_bool]),
      Member ''police'' (Comp Struct False [
        Member ''burst'' t_u32,
        Member ''rate_bytes_ps'' t_u64,
        Member ''peakrate_bytes_ps'' t_u64,
        Member ''avrate'' t_u32,
        Member ''overhead'' t_u16,
        Member ''burst_pkt'' t_u64,
        Member ''rate_pkt_ps'' t_u64,
        Member ''mtu'' t_u32,
        Member ''exceed'' (Comp Struct False [
          Member ''act_id'' enum_flow_action_id,
          Member ''extval'' t_u32]),
        Member ''notexceed'' (Comp Struct False [
          Member ''act_id'' enum_flow_action_id,
          Member ''extval'' t_u32])]),
      Member ''ct'' (Comp Struct False [
        Member ''action'' c_int,
        Member ''zone'' t_u16,
        Member ''flow_table'' (Ptr ''struct nf_flowtable *'')]),
      Member ''ct_metadata'' (Comp Struct False [
        Member ''cookie'' c_unsigned_long,
        Member ''mark'' t_u32,
        Member ''labels'' (Array 4 t_u32),
        Member ''orig_dir'' t_bool]),
      Member ''mpls_push'' (Comp Struct False [
        Member ''label'' t_u32,
        Member ''proto'' t___be16,
        Member ''tc'' t_u8,
        Member ''bos'' t_u8,
        Member ''ttl'' t_u8]),
      Member ''mpls_pop'' (Comp Struct False [
        Member ''proto'' t___be16]),
      Member ''mpls_mangle'' (Comp Struct False [
        Member ''label'' t_u32,
        Member ''tc'' t_u8,
        Member ''bos'' t_u8,
        Member ''ttl'' t_u8]),
      Member ''gate'' (Comp Struct False [
        Member ''prio'' t_s32,
        Member ''basetime'' t_u64,
        Member ''cycletime'' t_u64,
        Member ''cycletimeext'' t_u64,
        Member ''num_entries'' t_u32,
        Member ''entries'' (Ptr ''struct action_gate_entry *'')]),
      Member ''pppoe'' (Comp Struct False [
        Member ''sid'' t_u16])]),
    Member ''user_cookie'' (Ptr ''struct flow_action_cookie *'')]"

definition struct_flow_action :: ctype where
  "struct_flow_action = Comp Struct False [
    Member ''num_entries'' c_unsigned_int,
    Member ''entries'' (Array 0 struct_flow_action_entry)]"

definition struct_flow_action_cookie :: ctype where
  "struct_flow_action_cookie = Comp Struct False [
    Member ''cookie_len'' t_u32,
    Member ''cookie'' (Array 0 t_u8)]"

definition struct_flow_block_indr :: ctype where
  "struct_flow_block_indr = Comp Struct False [
    Member ''list'' struct_list_head,
    Member ''dev'' (Ptr ''struct net_device *''),
    Member ''sch'' (Ptr ''struct Qdisc *''),
    Member ''binder_type'' enum_flow_block_binder_type,
    Member ''data'' (Ptr ''void *''),
    Member ''cb_priv'' (Ptr ''void *''),
    Member ''cleanup'' (Ptr ''void (*)(struct flow_block_cb *)'')]"

definition struct_flow_block_cb :: ctype where
  "struct_flow_block_cb = Comp Struct False [
    Member ''driver_list'' struct_list_head,
    Member ''list'' struct_list_head,
    Member ''cb'' (Ptr ''flow_setup_cb_t *''),
    Member ''cb_ident'' (Ptr ''void *''),
    Member ''cb_priv'' (Ptr ''void *''),
    Member ''release'' (Ptr ''void (*)(void *)''),
    Member ''indr'' struct_flow_block_indr,
    Member ''refcnt'' c_unsigned_int]"

definition struct_flow_block_offload :: ctype where
  "struct_flow_block_offload = Comp Struct False [
    Member ''command'' enum_flow_block_command,
    Member ''binder_type'' enum_flow_block_binder_type,
    Member ''block_shared'' t_bool,
    Member ''unlocked_driver_cb'' t_bool,
    Member ''net'' (Ptr ''struct net *''),
    Member ''block'' (Ptr ''struct flow_block *''),
    Member ''cb_list'' struct_list_head,
    Member ''driver_block_list'' (Ptr ''struct list_head *''),
    Member ''extack'' (Ptr ''struct netlink_ext_ack *''),
    Member ''sch'' (Ptr ''struct Qdisc *''),
    Member ''cb_list_head'' (Ptr ''struct list_head *'')]"

definition struct_flow_cls_common_offload :: ctype where
  "struct_flow_cls_common_offload = Comp Struct False [
    Member ''chain_index'' t_u32,
    Member ''protocol'' t___be16,
    Member ''prio'' t_u32,
    Member ''skip_sw'' t_bool,
    Member ''extack'' (Ptr ''struct netlink_ext_ack *'')]"

definition struct_flow_stats :: ctype where
  "struct_flow_stats = Comp Struct False [
    Member ''pkts'' t_u64,
    Member ''bytes'' t_u64,
    Member ''drops'' t_u64,
    Member ''lastused'' t_u64,
    Member ''used_hw_stats'' enum_flow_action_hw_stats,
    Member ''used_hw_stats_valid'' t_bool]"

definition struct_flow_cls_offload :: ctype where
  "struct_flow_cls_offload = Comp Struct False [
    Member ''common'' struct_flow_cls_common_offload,
    Member ''command'' enum_flow_cls_command,
    Member ''use_act_stats'' t_bool,
    Member ''cookie'' c_unsigned_long,
    Member ''rule'' (Ptr ''struct flow_rule *''),
    Member ''stats'' struct_flow_stats,
    Member ''classid'' t_u32]"

definition struct_flow_dissector_key :: ctype where
  "struct_flow_dissector_key = Comp Struct False [
    Member ''key_id'' enum_flow_dissector_key_id,
    Member ''offset'' t_size_t]"

definition struct_flow_dissector_key_tipc :: ctype where
  "struct_flow_dissector_key_tipc = Comp Struct False [
    Member ''key'' t___be32]"

definition struct_flow_dissector_key_addrs :: ctype where
  "struct_flow_dissector_key_addrs = Comp Struct False [
    Member '''' (Comp Union False [
      Member ''v4addrs'' struct_flow_dissector_key_ipv4_addrs,
      Member ''v6addrs'' struct_flow_dissector_key_ipv6_addrs,
      Member ''tipckey'' struct_flow_dissector_key_tipc])]"

definition struct_flow_dissector_key_tags :: ctype where
  "struct_flow_dissector_key_tags = Comp Struct False [
    Member ''flow_label'' t_u32]"

definition struct_flow_indir_dev_info :: ctype where
  "struct_flow_indir_dev_info = Comp Struct False [
    Member ''data'' (Ptr ''void *''),
    Member ''dev'' (Ptr ''struct net_device *''),
    Member ''sch'' (Ptr ''struct Qdisc *''),
    Member ''type'' enum_tc_setup_type,
    Member ''cleanup'' (Ptr ''void (*)(struct flow_block_cb *)''),
    Member ''list'' struct_list_head,
    Member ''command'' enum_flow_block_command,
    Member ''binder_type'' enum_flow_block_binder_type,
    Member ''cb_list'' (Ptr ''struct list_head *'')]"

definition struct_flow_indr_dev :: ctype where
  "struct_flow_indr_dev = Comp Struct False [
    Member ''list'' struct_list_head,
    Member ''cb'' (Ptr ''flow_indr_block_bind_cb_t *''),
    Member ''cb_priv'' (Ptr ''void *''),
    Member ''refcnt'' t_refcount_t]"

definition struct_flow_keys :: ctype where
  "struct_flow_keys = Comp Struct False [
    Member ''control'' struct_flow_dissector_key_control,
    Member ''basic'' struct_flow_dissector_key_basic,
    Member ''tags'' struct_flow_dissector_key_tags,
    Member ''vlan'' struct_flow_dissector_key_vlan,
    Member ''cvlan'' struct_flow_dissector_key_vlan,
    Member ''keyid'' struct_flow_dissector_key_keyid,
    Member ''ports'' struct_flow_dissector_key_ports,
    Member ''icmp'' struct_flow_dissector_key_icmp,
    Member ''addrs'' struct_flow_dissector_key_addrs,
    BitField '''' c_long 0]"

definition struct_flow_keys_basic :: ctype where
  "struct_flow_keys_basic = Comp Struct False [
    Member ''control'' struct_flow_dissector_key_control,
    Member ''basic'' struct_flow_dissector_key_basic]"

definition struct_flow_match :: ctype where
  "struct_flow_match = Comp Struct False [
    Member ''dissector'' (Ptr ''struct flow_dissector *''),
    Member ''mask'' (Ptr ''void *''),
    Member ''key'' (Ptr ''void *'')]"

definition struct_flow_match_arp :: ctype where
  "struct_flow_match_arp = Comp Struct False [
    Member ''key'' (Ptr ''struct flow_dissector_key_arp *''),
    Member ''mask'' (Ptr ''struct flow_dissector_key_arp *'')]"

definition struct_flow_match_basic :: ctype where
  "struct_flow_match_basic = Comp Struct False [
    Member ''key'' (Ptr ''struct flow_dissector_key_basic *''),
    Member ''mask'' (Ptr ''struct flow_dissector_key_basic *'')]"

definition struct_flow_match_control :: ctype where
  "struct_flow_match_control = Comp Struct False [
    Member ''key'' (Ptr ''struct flow_dissector_key_control *''),
    Member ''mask'' (Ptr ''struct flow_dissector_key_control *'')]"

definition struct_flow_match_ct :: ctype where
  "struct_flow_match_ct = Comp Struct False [
    Member ''key'' (Ptr ''struct flow_dissector_key_ct *''),
    Member ''mask'' (Ptr ''struct flow_dissector_key_ct *'')]"

definition struct_flow_match_enc_keyid :: ctype where
  "struct_flow_match_enc_keyid = Comp Struct False [
    Member ''key'' (Ptr ''struct flow_dissector_key_keyid *''),
    Member ''mask'' (Ptr ''struct flow_dissector_key_keyid *'')]"

definition struct_flow_match_enc_opts :: ctype where
  "struct_flow_match_enc_opts = Comp Struct False [
    Member ''key'' (Ptr ''struct flow_dissector_key_enc_opts *''),
    Member ''mask'' (Ptr ''struct flow_dissector_key_enc_opts *'')]"

definition struct_flow_match_eth_addrs :: ctype where
  "struct_flow_match_eth_addrs = Comp Struct False [
    Member ''key'' (Ptr ''struct flow_dissector_key_eth_addrs *''),
    Member ''mask'' (Ptr ''struct flow_dissector_key_eth_addrs *'')]"

definition struct_flow_match_icmp :: ctype where
  "struct_flow_match_icmp = Comp Struct False [
    Member ''key'' (Ptr ''struct flow_dissector_key_icmp *''),
    Member ''mask'' (Ptr ''struct flow_dissector_key_icmp *'')]"

definition struct_flow_match_ip :: ctype where
  "struct_flow_match_ip = Comp Struct False [
    Member ''key'' (Ptr ''struct flow_dissector_key_ip *''),
    Member ''mask'' (Ptr ''struct flow_dissector_key_ip *'')]"

definition struct_flow_match_ipsec :: ctype where
  "struct_flow_match_ipsec = Comp Struct False [
    Member ''key'' (Ptr ''struct flow_dissector_key_ipsec *''),
    Member ''mask'' (Ptr ''struct flow_dissector_key_ipsec *'')]"

definition struct_flow_match_ipv4_addrs :: ctype where
  "struct_flow_match_ipv4_addrs = Comp Struct False [
    Member ''key'' (Ptr ''struct flow_dissector_key_ipv4_addrs *''),
    Member ''mask'' (Ptr ''struct flow_dissector_key_ipv4_addrs *'')]"

definition struct_flow_match_ipv6_addrs :: ctype where
  "struct_flow_match_ipv6_addrs = Comp Struct False [
    Member ''key'' (Ptr ''struct flow_dissector_key_ipv6_addrs *''),
    Member ''mask'' (Ptr ''struct flow_dissector_key_ipv6_addrs *'')]"

definition struct_flow_match_l2tpv3 :: ctype where
  "struct_flow_match_l2tpv3 = Comp Struct False [
    Member ''key'' (Ptr ''struct flow_dissector_key_l2tpv3 *''),
    Member ''mask'' (Ptr ''struct flow_dissector_key_l2tpv3 *'')]"

definition struct_flow_match_meta :: ctype where
  "struct_flow_match_meta = Comp Struct False [
    Member ''key'' (Ptr ''struct flow_dissector_key_meta *''),
    Member ''mask'' (Ptr ''struct flow_dissector_key_meta *'')]"

definition struct_flow_match_mpls :: ctype where
  "struct_flow_match_mpls = Comp Struct False [
    Member ''key'' (Ptr ''struct flow_dissector_key_mpls *''),
    Member ''mask'' (Ptr ''struct flow_dissector_key_mpls *'')]"

definition struct_flow_match_ports :: ctype where
  "struct_flow_match_ports = Comp Struct False [
    Member ''key'' (Ptr ''struct flow_dissector_key_ports *''),
    Member ''mask'' (Ptr ''struct flow_dissector_key_ports *'')]"

definition struct_flow_match_ports_range :: ctype where
  "struct_flow_match_ports_range = Comp Struct False [
    Member ''key'' (Ptr ''struct flow_dissector_key_ports_range *''),
    Member ''mask'' (Ptr ''struct flow_dissector_key_ports_range *'')]"

definition struct_flow_match_pppoe :: ctype where
  "struct_flow_match_pppoe = Comp Struct False [
    Member ''key'' (Ptr ''struct flow_dissector_key_pppoe *''),
    Member ''mask'' (Ptr ''struct flow_dissector_key_pppoe *'')]"

definition struct_flow_match_tcp :: ctype where
  "struct_flow_match_tcp = Comp Struct False [
    Member ''key'' (Ptr ''struct flow_dissector_key_tcp *''),
    Member ''mask'' (Ptr ''struct flow_dissector_key_tcp *'')]"

definition struct_flow_match_vlan :: ctype where
  "struct_flow_match_vlan = Comp Struct False [
    Member ''key'' (Ptr ''struct flow_dissector_key_vlan *''),
    Member ''mask'' (Ptr ''struct flow_dissector_key_vlan *'')]"

definition struct_flow_offload_tuple :: ctype where
  "struct_flow_offload_tuple = Comp Struct False [
    Member '''' (Comp Union False [
      Member ''src_v4'' struct_in_addr,
      Member ''src_v6'' struct_in6_addr]),
    Member '''' (Comp Union False [
      Member ''dst_v4'' struct_in_addr,
      Member ''dst_v6'' struct_in6_addr]),
    Member '''' (Comp Struct False [
      Member ''src_port'' t___be16,
      Member ''dst_port'' t___be16]),
    Member ''iifidx'' c_int,
    Member ''l3proto'' t_u8,
    Member ''l4proto'' t_u8,
    Member ''encap'' (Array 2 (Comp Struct False [
      Member ''id'' t_u16,
      Member ''proto'' t___be16])),
    Member ''__hash'' (Comp Struct False []),
    BitField ''dir'' t_u8 2,
    BitField ''xmit_type'' t_u8 3,
    BitField ''encap_num'' t_u8 2,
    BitField '''' c_char 1,
    BitField ''in_vlan_ingress'' t_u8 2,
    Member ''mtu'' t_u16,
    Member '''' (Comp Union False [
      Member '''' (Comp Struct False [
        Member ''dst_cache'' (Ptr ''struct dst_entry *''),
        Member ''dst_cookie'' t_u32]),
      Member ''out'' (Comp Struct False [
        Member ''ifidx'' t_u32,
        Member ''hw_ifidx'' t_u32,
        Member ''h_source'' (Array 6 t_u8),
        Member ''h_dest'' (Array 6 t_u8)]),
      Member ''tc'' (Comp Struct False [
        Member ''iifidx'' t_u32])])]"

definition struct_flow_offload_tuple_rhash :: ctype where
  "struct_flow_offload_tuple_rhash = Comp Struct False [
    Member ''node'' struct_rhash_head,
    Member ''tuple'' struct_flow_offload_tuple]"

definition struct_flow_offload :: ctype where
  "struct_flow_offload = Comp Struct False [
    Member ''tuplehash'' (Array 2 struct_flow_offload_tuple_rhash),
    Member ''ct'' (Ptr ''struct nf_conn *''),
    Member ''flags'' c_unsigned_long,
    Member ''type'' t_u16,
    Member ''timeout'' t_u32,
    Member ''callback_head'' struct_callback_head]"

definition enum_offload_act_command :: ctype where
  "enum_offload_act_command = Enum False [
    (''FLOW_ACT_REPLACE'', 0), (''FLOW_ACT_DESTROY'', 1), (''FLOW_ACT_STATS'', 2)]"

definition struct_flow_offload_action :: ctype where
  "struct_flow_offload_action = Comp Struct False [
    Member ''extack'' (Ptr ''struct netlink_ext_ack *''),
    Member ''command'' enum_offload_act_command,
    Member ''id'' enum_flow_action_id,
    Member ''index'' t_u32,
    Member ''cookie'' c_unsigned_long,
    Member ''stats'' struct_flow_stats,
    Member ''action'' struct_flow_action]"

definition struct_flow_offload_work :: ctype where
  "struct_flow_offload_work = Comp Struct False [
    Member ''list'' struct_list_head,
    Member ''cmd'' enum_flow_cls_command,
    Member ''flowtable'' (Ptr ''struct nf_flowtable *''),
    Member ''flow'' (Ptr ''struct flow_offload *''),
    Member ''work'' struct_work_struct]"

definition struct_flow_offload_xdp :: ctype where
  "struct_flow_offload_xdp = Comp Struct False [
    Member ''hnode'' struct_hlist_node,
    Member ''net_device_addr'' c_unsigned_long,
    Member ''head'' struct_list_head]"

definition struct_flow_offload_xdp_ft :: ctype where
  "struct_flow_offload_xdp_ft = Comp Struct False [
    Member ''head'' struct_list_head,
    Member ''ft'' (Ptr ''struct nf_flowtable *''),
    Member ''rcuhead'' struct_callback_head]"

definition struct_flow_ports :: ctype where
  "struct_flow_ports = Comp Struct False [
    Member ''source'' t___be16,
    Member ''dest'' t___be16]"

definition struct_flow_rule :: ctype where
  "struct_flow_rule = Comp Struct False [
    Member ''match'' struct_flow_match,
    Member ''action'' struct_flow_action]"

definition t_codel_time_t :: ctype where
  "t_codel_time_t = t_u32"

definition struct_codel_vars :: ctype where
  "struct_codel_vars = Comp Struct False [
    Member ''count'' t_u32,
    Member ''lastcount'' t_u32,
    Member ''dropping'' t_bool,
    Member ''rec_inv_sqrt'' t_u16,
    Member ''first_above_time'' t_codel_time_t,
    Member ''drop_next'' t_codel_time_t,
    Member ''ldelay'' t_codel_time_t]"

definition struct_fq_codel_flow :: ctype where
  "struct_fq_codel_flow = Comp Struct False [
    Member ''head'' (Ptr ''struct sk_buff *''),
    Member ''tail'' (Ptr ''struct sk_buff *''),
    Member ''flowchain'' struct_list_head,
    Member ''deficit'' c_int,
    Member ''cvars'' struct_codel_vars]"

definition struct_codel_params :: ctype where
  "struct_codel_params = Comp Struct False [
    Member ''target'' t_codel_time_t,
    Member ''ce_threshold'' t_codel_time_t,
    Member ''interval'' t_codel_time_t,
    Member ''mtu'' t_u32,
    Member ''ecn'' t_bool,
    Member ''ce_threshold_selector'' t_u8,
    Member ''ce_threshold_mask'' t_u8]"

definition struct_codel_stats :: ctype where
  "struct_codel_stats = Comp Struct False [
    Member ''maxpacket'' t_u32,
    Member ''drop_count'' t_u32,
    Member ''drop_len'' t_u32,
    Member ''ecn_mark'' t_u32,
    Member ''ce_mark'' t_u32]"

definition struct_fq_codel_sched_data :: ctype where
  "struct_fq_codel_sched_data = Comp Struct False [
    Member ''filter_list'' (Ptr ''struct tcf_proto *''),
    Member ''block'' (Ptr ''struct tcf_block *''),
    Member ''flows'' (Ptr ''struct fq_codel_flow *''),
    Member ''backlogs'' (Ptr ''u32 *''),
    Member ''flows_cnt'' t_u32,
    Member ''quantum'' t_u32,
    Member ''drop_batch_size'' t_u32,
    Member ''memory_limit'' t_u32,
    Member ''cparams'' struct_codel_params,
    Member ''cstats'' struct_codel_stats,
    Member ''memory_usage'' t_u32,
    Member ''drop_overmemory'' t_u32,
    Member ''drop_overlimit'' t_u32,
    Member ''new_flow_count'' t_u32,
    Member ''new_flows'' struct_list_head,
    Member ''old_flows'' struct_list_head]"

definition struct_fq_flow :: ctype where
  "struct_fq_flow = Comp Struct False [
    Member ''tin'' (Ptr ''struct fq_tin *''),
    Member ''flowchain'' struct_list_head,
    Member ''queue'' struct_sk_buff_head,
    Member ''backlog'' t_u32,
    Member ''deficit'' c_int]"

definition struct_fq_flow___2 :: ctype where
  "struct_fq_flow___2 = Comp Struct False [
    Member ''t_root'' struct_rb_root,
    Member ''head'' (Ptr ''struct sk_buff *''),
    Member '''' (Comp Union False [
      Member ''tail'' (Ptr ''struct sk_buff *''),
      Member ''age'' c_unsigned_long]),
    Member '''' (Comp Union False [
      Member ''fq_node'' struct_rb_node,
      Member ''stat_fastpath_packets'' t_u64]),
    Member ''sk'' (Ptr ''struct sock *''),
    Member ''socket_hash'' t_u32,
    Member ''qlen'' c_int,
    Member ''credit'' c_int,
    Member ''band'' c_int,
    Member ''next'' (Ptr ''struct fq_flow___2 *''),
    Member ''rate_node'' struct_rb_node,
    Member ''time_next_packet'' t_u64]"

definition struct_fq_flow_head :: ctype where
  "struct_fq_flow_head = Comp Struct False [
    Member ''first'' (Ptr ''struct fq_flow___2 *''),
    Member ''last'' (Ptr ''struct fq_flow___2 *'')]"

definition struct_fq_perband_flows :: ctype where
  "struct_fq_perband_flows = Comp Struct False [
    Member ''new_flows'' struct_fq_flow_head,
    Member ''old_flows'' struct_fq_flow_head,
    Member ''credit'' c_int,
    Member ''quantum'' c_int]"

definition t_psched_time_t :: ctype where
  "t_psched_time_t = t_u64"

definition struct_pie_vars :: ctype where
  "struct_pie_vars = Comp Struct False [
    Member ''qdelay'' t_psched_time_t,
    Member ''qdelay_old'' t_psched_time_t,
    Member ''burst_time'' t_psched_time_t,
    Member ''dq_tstamp'' t_psched_time_t,
    Member ''prob'' t_u64,
    Member ''accu_prob'' t_u64,
    Member ''dq_count'' t_u64,
    Member ''avg_dq_rate'' t_u32,
    Member ''backlog_old'' t_u32]"

definition struct_fq_pie_flow :: ctype where
  "struct_fq_pie_flow = Comp Struct False [
    Member ''vars'' struct_pie_vars,
    Member ''deficit'' t_s32,
    Member ''backlog'' t_u32,
    Member ''qlen'' t_u32,
    Member ''flowchain'' struct_list_head,
    Member ''head'' (Ptr ''struct sk_buff *''),
    Member ''tail'' (Ptr ''struct sk_buff *'')]"

definition struct_pie_params :: ctype where
  "struct_pie_params = Comp Struct False [
    Member ''target'' t_psched_time_t,
    Member ''tupdate'' t_u32,
    Member ''limit'' t_u32,
    Member ''alpha'' t_u32,
    Member ''beta'' t_u32,
    Member ''ecn'' t_u8,
    Member ''bytemode'' t_u8,
    Member ''dq_rate_estimator'' t_u8]"

definition struct_pie_stats :: ctype where
  "struct_pie_stats = Comp Struct False [
    Member ''packets_in'' t_u32,
    Member ''dropped'' t_u32,
    Member ''overlimit'' t_u32,
    Member ''ecn_mark'' t_u32,
    Member ''maxq'' t_u32]"

definition struct_fq_pie_sched_data :: ctype where
  "struct_fq_pie_sched_data = Comp Struct False [
    Member ''filter_list'' (Ptr ''struct tcf_proto *''),
    Member ''block'' (Ptr ''struct tcf_block *''),
    Member ''flows'' (Ptr ''struct fq_pie_flow *''),
    Member ''sch'' (Ptr ''struct Qdisc *''),
    Member ''old_flows'' struct_list_head,
    Member ''new_flows'' struct_list_head,
    Member ''p_params'' struct_pie_params,
    Member ''ecn_prob'' t_u32,
    Member ''flows_cnt'' t_u32,
    Member ''flows_cursor'' t_u32,
    Member ''quantum'' t_u32,
    Member ''memory_limit'' t_u32,
    Member ''new_flow_count'' t_u32,
    Member ''memory_usage'' t_u32,
    Member ''overmemory'' t_u32,
    Member ''stats'' struct_pie_stats,
    Member ''adapt_timer'' struct_timer_list]"

definition struct_fq_sched_data :: ctype where
  "struct_fq_sched_data = Comp Struct False [
    Member ''offload_horizon'' t_u64,
    Member ''quantum'' t_u32,
    Member ''initial_quantum'' t_u32,
    Member ''flow_refill_delay'' t_u32,
    Member ''flow_plimit'' t_u32,
    Member ''flow_max_rate'' c_unsigned_long,
    Member ''ce_threshold'' t_u64,
    Member ''horizon'' t_u64,
    Member ''orphan_mask'' t_u32,
    Member ''low_rate_threshold'' t_u32,
    Member ''fq_root'' (Ptr ''struct rb_root *''),
    Member ''rate_enable'' t_u8,
    Member ''fq_trees_log'' t_u8,
    Member ''horizon_drop'' t_u8,
    Member ''prio2band'' (Array 4 t_u8),
    Member ''timer_slack'' t_u32,
    Member ''band_nr'' c_unsigned_int,
    Member ''band_flows'' (Array 3 struct_fq_perband_flows),
    Member ''internal'' struct_fq_flow___2,
    Member ''delayed'' struct_rb_root,
    Member ''time_next_delayed_flow'' t_u64,
    Member ''unthrottle_latency_ns'' c_unsigned_long,
    Member ''band_pkt_count'' (Array 3 t_u32),
    Member ''flows'' t_u32,
    Member ''inactive_flows'' t_u32,
    Member ''throttled_flows'' t_u32,
    Member ''stat_throttled'' t_u64,
    Member ''watchdog'' struct_qdisc_watchdog,
    Member ''stat_gc_flows'' t_u64,
    Member ''stat_band_drops'' (Array 3 t_u64),
    Member ''stat_ce_mark'' t_u64,
    Member ''stat_horizon_drops'' t_u64,
    Member ''stat_horizon_caps'' t_u64,
    Member ''stat_flows_plimit'' t_u64,
    Member ''stat_pkts_too_long'' t_u64,
    Member ''stat_allocation_errors'' t_u64]"

definition struct_fq_skb_cb :: ctype where
  "struct_fq_skb_cb = Comp Struct False [
    Member ''time_to_send'' t_u64,
    Member ''band'' t_u8]"

definition struct_fq_tin :: ctype where
  "struct_fq_tin = Comp Struct False [
    Member ''new_flows'' struct_list_head,
    Member ''old_flows'' struct_list_head,
    Member ''tin_list'' struct_list_head,
    Member ''default_flow'' struct_fq_flow,
    Member ''backlog_bytes'' t_u32,
    Member ''backlog_packets'' t_u32,
    Member ''overlimit'' t_u32,
    Member ''collisions'' t_u32,
    Member ''flows'' t_u32,
    Member ''tx_bytes'' t_u32,
    Member ''tx_packets'' t_u32]"

definition struct_geneve_config :: ctype where
  "struct_geneve_config = Comp Struct False [
    Member ''info'' struct_ip_tunnel_info,
    Member ''collect_md'' t_bool,
    Member ''use_udp6_rx_checksums'' t_bool,
    Member ''ttl_inherit'' t_bool,
    Member ''df'' enum_ifla_geneve_df,
    Member ''inner_proto_inherit'' t_bool,
    Member ''port_min'' t_u16,
    Member ''port_max'' t_u16]"

definition struct_geneve_dev_node :: ctype where
  "struct_geneve_dev_node = Comp Struct False [
    Member ''hlist'' struct_hlist_node,
    Member ''geneve'' (Ptr ''struct geneve_dev *'')]"

definition struct_geneve_dev :: ctype where
  "struct_geneve_dev = Comp Struct False [
    Member ''hlist4'' struct_geneve_dev_node,
    Member ''hlist6'' struct_geneve_dev_node,
    Member ''net'' (Ptr ''struct net *''),
    Member ''dev'' (Ptr ''struct net_device *''),
    Member ''sock4'' (Ptr ''struct geneve_sock *''),
    Member ''sock6'' (Ptr ''struct geneve_sock *''),
    Member ''next'' struct_list_head,
    Member ''gro_cells'' struct_gro_cells,
    BitField '''' c_long 64,
    Member ''cfg'' struct_geneve_config]"

definition struct_geneve_net :: ctype where
  "struct_geneve_net = Comp Struct False [
    Member ''geneve_list'' struct_list_head,
    Member ''sock_list'' struct_list_head]"

definition struct_geneve_opt :: ctype where
  "struct_geneve_opt = Comp Struct False [
    Member ''opt_class'' t___be16,
    Member ''type'' t_u8,
    BitField ''length'' t_u8 5,
    BitField ''r3'' t_u8 1,
    BitField ''r2'' t_u8 1,
    BitField ''r1'' t_u8 1,
    Member ''opt_data'' (Array 0 t_u8)]"

definition struct_geneve_sock :: ctype where
  "struct_geneve_sock = Comp Struct False [
    Member ''collect_md'' t_bool,
    Member ''list'' struct_list_head,
    Member ''sock'' (Ptr ''struct socket *''),
    Member ''rcu'' struct_callback_head,
    Member ''refcnt'' c_int,
    Member ''vni_list'' (Array 1024 struct_hlist_head)]"

definition struct_genevehdr :: ctype where
  "struct_genevehdr = Comp Struct False [
    BitField ''opt_len'' t_u8 6,
    BitField ''ver'' t_u8 2,
    BitField ''rsvd1'' t_u8 6,
    BitField ''critical'' t_u8 1,
    BitField ''oam'' t_u8 1,
    Member ''proto_type'' t___be16,
    Member ''vni'' (Array 3 t_u8),
    Member ''rsvd2'' t_u8,
    Member ''options'' (Array 0 t_u8)]"

definition struct_tc_stats :: ctype where
  "struct_tc_stats = Comp Struct False [
    Member ''bytes'' t___u64,
    Member ''packets'' t___u32,
    Member ''drops'' t___u32,
    Member ''overlimits'' t___u32,
    Member ''bps'' t___u32,
    Member ''pps'' t___u32,
    Member ''qlen'' t___u32,
    Member ''backlog'' t___u32]"

definition struct_psched_ratecfg :: ctype where
  "struct_psched_ratecfg = Comp Struct False [
    Member ''rate_bytes_ps'' t_u64,
    Member ''mult'' t_u32,
    Member ''overhead'' t_u16,
    Member ''mpu'' t_u16,
    Member ''linklayer'' t_u8,
    Member ''shift'' t_u8]"

definition struct_tc_htb_xstats :: ctype where
  "struct_tc_htb_xstats = Comp Struct False [
    Member ''lends'' t___u32,
    Member ''borrows'' t___u32,
    Member ''giants'' t___u32,
    Member ''tokens'' t___s32,
    Member ''ctokens'' t___s32]"

definition struct_if_dqblk :: ctype where
  "struct_if_dqblk = Comp Struct False [
    Member ''dqb_bhardlimit'' t___u64,
    Member ''dqb_bsoftlimit'' t___u64,
    Member ''dqb_curspace'' t___u64,
    Member ''dqb_ihardlimit'' t___u64,
    Member ''dqb_isoftlimit'' t___u64,
    Member ''dqb_curinodes'' t___u64,
    Member ''dqb_btime'' t___u64,
    Member ''dqb_itime'' t___u64,
    Member ''dqb_valid'' t___u32]"

definition struct_if_dqinfo :: ctype where
  "struct_if_dqinfo = Comp Struct False [
    Member ''dqi_bgrace'' t___u64,
    Member ''dqi_igrace'' t___u64,
    Member ''dqi_flags'' t___u32,
    Member ''dqi_valid'' t___u32]"

definition struct_if_nextdqblk :: ctype where
  "struct_if_nextdqblk = Comp Struct False [
    Member ''dqb_bhardlimit'' t___u64,
    Member ''dqb_bsoftlimit'' t___u64,
    Member ''dqb_curspace'' t___u64,
    Member ''dqb_ihardlimit'' t___u64,
    Member ''dqb_isoftlimit'' t___u64,
    Member ''dqb_curinodes'' t___u64,
    Member ''dqb_btime'' t___u64,
    Member ''dqb_itime'' t___u64,
    Member ''dqb_valid'' t___u32,
    Member ''dqb_id'' t___u32]"

definition struct_if_settings :: ctype where
  "struct_if_settings = Comp Struct False [
    Member ''type'' c_unsigned_int,
    Member ''size'' c_unsigned_int,
    Member ''ifs_ifsu'' (Comp Union False [
      Member ''raw_hdlc'' (Ptr ''raw_hdlc_proto *''),
      Member ''cisco'' (Ptr ''cisco_proto *''),
      Member ''fr'' (Ptr ''fr_proto *''),
      Member ''fr_pvc'' (Ptr ''fr_proto_pvc *''),
      Member ''fr_pvc_info'' (Ptr ''fr_proto_pvc_info *''),
      Member ''x25'' (Ptr ''x25_hdlc_proto *''),
      Member ''sync'' (Ptr ''sync_serial_settings *''),
      Member ''te1'' (Ptr ''te1_settings *'')])]"

definition struct_if_stats_msg :: ctype where
  "struct_if_stats_msg = Comp Struct False [
    Member ''family'' t___u8,
    Member ''pad1'' t___u8,
    Member ''pad2'' t___u16,
    Member ''ifindex'' t___u32,
    Member ''filter_mask'' t___u32]"

definition struct_ifinfomsg :: ctype where
  "struct_ifinfomsg = Comp Struct False [
    Member ''ifi_family'' c_unsigned_char,
    Member ''__ifi_pad'' c_unsigned_char,
    Member ''ifi_type'' c_unsigned_short,
    Member ''ifi_index'' c_int,
    Member ''ifi_flags'' c_unsigned_int,
    Member ''ifi_change'' c_unsigned_int]"

definition struct_ifla_cacheinfo :: ctype where
  "struct_ifla_cacheinfo = Comp Struct False [
    Member ''max_reasm_len'' t___u32,
    Member ''tstamp'' t___u32,
    Member ''reachable_time'' t___u32,
    Member ''retrans_time'' t___u32]"

definition struct_ifla_geneve_port_range :: ctype where
  "struct_ifla_geneve_port_range = Comp Struct False [
    Member ''low'' t___be16,
    Member ''high'' t___be16]"

definition struct_ifla_vf_broadcast :: ctype where
  "struct_ifla_vf_broadcast = Comp Struct False [
    Member ''broadcast'' (Array 32 t___u8)]"

definition struct_ifla_vf_guid :: ctype where
  "struct_ifla_vf_guid = Comp Struct False [
    Member ''vf'' t___u32,
    Member ''guid'' t___u64]"

definition struct_ifla_vf_info :: ctype where
  "struct_ifla_vf_info = Comp Struct False [
    Member ''vf'' t___u32,
    Member ''mac'' (Array 32 t___u8),
    Member ''vlan'' t___u32,
    Member ''qos'' t___u32,
    Member ''spoofchk'' t___u32,
    Member ''linkstate'' t___u32,
    Member ''min_tx_rate'' t___u32,
    Member ''max_tx_rate'' t___u32,
    Member ''rss_query_en'' t___u32,
    Member ''trusted'' t___u32,
    Member ''vlan_proto'' t___be16]"

definition struct_ifla_vf_link_state :: ctype where
  "struct_ifla_vf_link_state = Comp Struct False [
    Member ''vf'' t___u32,
    Member ''link_state'' t___u32]"

definition struct_ifla_vf_mac :: ctype where
  "struct_ifla_vf_mac = Comp Struct False [
    Member ''vf'' t___u32,
    Member ''mac'' (Array 32 t___u8)]"

definition struct_ifla_vf_rate :: ctype where
  "struct_ifla_vf_rate = Comp Struct False [
    Member ''vf'' t___u32,
    Member ''min_tx_rate'' t___u32,
    Member ''max_tx_rate'' t___u32]"

definition struct_ifla_vf_rss_query_en :: ctype where
  "struct_ifla_vf_rss_query_en = Comp Struct False [
    Member ''vf'' t___u32,
    Member ''setting'' t___u32]"

definition struct_ifla_vf_spoofchk :: ctype where
  "struct_ifla_vf_spoofchk = Comp Struct False [
    Member ''vf'' t___u32,
    Member ''setting'' t___u32]"

definition struct_ifla_vf_stats :: ctype where
  "struct_ifla_vf_stats = Comp Struct False [
    Member ''rx_packets'' t___u64,
    Member ''tx_packets'' t___u64,
    Member ''rx_bytes'' t___u64,
    Member ''tx_bytes'' t___u64,
    Member ''broadcast'' t___u64,
    Member ''multicast'' t___u64,
    Member ''rx_dropped'' t___u64,
    Member ''tx_dropped'' t___u64]"

definition struct_ifla_vf_trust :: ctype where
  "struct_ifla_vf_trust = Comp Struct False [
    Member ''vf'' t___u32,
    Member ''setting'' t___u32]"

definition struct_ifla_vf_tx_rate :: ctype where
  "struct_ifla_vf_tx_rate = Comp Struct False [
    Member ''vf'' t___u32,
    Member ''rate'' t___u32]"

definition struct_ifla_vf_vlan :: ctype where
  "struct_ifla_vf_vlan = Comp Struct False [
    Member ''vf'' t___u32,
    Member ''vlan'' t___u32,
    Member ''qos'' t___u32]"

definition struct_ifla_vf_vlan_info :: ctype where
  "struct_ifla_vf_vlan_info = Comp Struct False [
    Member ''vf'' t___u32,
    Member ''vlan'' t___u32,
    Member ''qos'' t___u32,
    Member ''vlan_proto'' t___be16]"

definition struct_ifla_vlan_flags :: ctype where
  "struct_ifla_vlan_flags = Comp Struct False [
    Member ''flags'' t___u32,
    Member ''mask'' t___u32]"

definition struct_ifla_vlan_qos_mapping :: ctype where
  "struct_ifla_vlan_qos_mapping = Comp Struct False [
    Member ''from'' t___u32,
    Member ''to'' t___u32]"

definition struct_ifla_vxlan_port_range :: ctype where
  "struct_ifla_vxlan_port_range = Comp Struct False [
    Member ''low'' t___be16,
    Member ''high'' t___be16]"

definition struct_ifmap :: ctype where
  "struct_ifmap = Comp Struct False [
    Member ''mem_start'' c_unsigned_long,
    Member ''mem_end'' c_unsigned_long,
    Member ''base_addr'' c_unsigned_short,
    Member ''irq'' c_unsigned_char,
    Member ''dma'' c_unsigned_char,
    Member ''port'' c_unsigned_char]"

definition struct_ifreq :: ctype where
  "struct_ifreq = Comp Struct False [
    Member ''ifr_ifrn'' (Comp Union False [
      Member ''ifrn_name'' (Array 16 c_char)]),
    Member ''ifr_ifru'' (Comp Union False [
      Member ''ifru_addr'' struct_sockaddr,
      Member ''ifru_dstaddr'' struct_sockaddr,
      Member ''ifru_broadaddr'' struct_sockaddr,
      Member ''ifru_netmask'' struct_sockaddr,
      Member ''ifru_hwaddr'' struct_sockaddr,
      Member ''ifru_flags'' c_short,
      Member ''ifru_ivalue'' c_int,
      Member ''ifru_mtu'' c_int,
      Member ''ifru_map'' struct_ifmap,
      Member ''ifru_slave'' (Array 16 c_char),
      Member ''ifru_newname'' (Array 16 c_char),
      Member ''ifru_data'' (Ptr ''void *''),
      Member ''ifru_settings'' struct_if_settings])]"

definition t_sci_t :: ctype where
  "t_sci_t = t_u64"

definition struct_macsec_info :: ctype where
  "struct_macsec_info = Comp Struct False [
    Member ''sci'' t_sci_t]"

definition struct_macvlan_dev :: ctype where
  "struct_macvlan_dev = Comp Struct False [
    Member ''dev'' (Ptr ''struct net_device *''),
    Member ''list'' struct_list_head,
    Member ''hlist'' struct_hlist_node,
    Member ''port'' (Ptr ''struct macvlan_port *''),
    Member ''lowerdev'' (Ptr ''struct net_device *''),
    Member ''dev_tracker'' t_netdevice_tracker,
    Member ''accel_priv'' (Ptr ''void *''),
    Member ''pcpu_stats'' (Ptr ''struct vlan_pcpu_stats *''),
    Member ''mc_filter'' (Array 4 c_unsigned_long),
    Member ''set_features'' t_netdev_features_t,
    Member ''mode'' enum_macvlan_mode,
    Member ''flags'' t_u16,
    Member ''macaddr_count'' c_unsigned_int,
    Member ''bc_queue_len_req'' t_u32]"

definition struct_macvlan_port :: ctype where
  "struct_macvlan_port = Comp Struct False [
    Member ''dev'' (Ptr ''struct net_device *''),
    Member ''vlan_hash'' (Array 256 struct_hlist_head),
    Member ''vlans'' struct_list_head,
    Member ''bc_queue'' struct_sk_buff_head,
    Member ''bc_work'' struct_work_struct,
    Member ''bc_queue_len_used'' t_u32,
    Member ''bc_cutoff'' c_int,
    Member ''flags'' t_u32,
    Member ''count'' c_int,
    Member ''vlan_source_hash'' (Array 256 struct_hlist_head),
    Member ''bc_filter'' (Array 4 c_unsigned_long),
    Member ''mc_filter'' (Array 4 c_unsigned_long),
    Member ''perm_addr'' (Array 6 c_unsigned_char)]"

definition struct_macvlan_skb_cb :: ctype where
  "struct_macvlan_skb_cb = Comp Struct False [
    Member ''src'' (Ptr ''struct macvlan_dev *'')]"

definition struct_macvlan_source_entry :: ctype where
  "struct_macvlan_source_entry = Comp Struct False [
    Member ''hlist'' struct_hlist_node,
    Member ''vlan'' (Ptr ''struct macvlan_dev *''),
    Member ''addr'' (Array 8 c_unsigned_char),
    Member ''rcu'' struct_callback_head]"

definition struct_mdio_board_info :: ctype where
  "struct_mdio_board_info = Comp Struct False [
    Member ''bus_id'' (Ptr ''char *''),
    Member ''modalias'' (Array 32 c_char),
    Member ''mdio_addr'' c_int,
    Member ''platform_data'' (Ptr ''void *'')]"

definition struct_mdio_board_entry :: ctype where
  "struct_mdio_board_entry = Comp Struct False [
    Member ''list'' struct_list_head,
    Member ''board_info'' struct_mdio_board_info]"

definition struct_mdio_bus_stat_attr :: ctype where
  "struct_mdio_bus_stat_attr = Comp Struct False [
    Member ''addr'' c_int,
    Member ''field_offset'' c_unsigned_int]"

definition struct_mdio_bus_stats :: ctype where
  "struct_mdio_bus_stats = Comp Struct False [
    Member ''transfers'' t_u64_stats_t,
    Member ''errors'' t_u64_stats_t,
    Member ''writes'' t_u64_stats_t,
    Member ''reads'' t_u64_stats_t,
    Member ''syncp'' struct_u64_stats_sync]"

definition struct_mdio_device :: ctype where
  "struct_mdio_device = Comp Struct False [
    Member ''dev'' struct_device,
    Member ''bus'' (Ptr ''struct mii_bus *''),
    Member ''modalias'' (Array 32 c_char),
    Member ''bus_match'' (Ptr ''int (*)(struct device *, const struct device_driver *)''),
    Member ''device_free'' (Ptr ''void (*)(struct mdio_device *)''),
    Member ''device_remove'' (Ptr ''void (*)(struct mdio_device *)''),
    Member ''addr'' c_int,
    Member ''flags'' c_int,
    Member ''reset_state'' c_int,
    Member ''reset_gpio'' (Ptr ''struct gpio_desc *''),
    Member ''reset_ctrl'' (Ptr ''struct reset_control *''),
    Member ''reset_assert_delay'' c_unsigned_int,
    Member ''reset_deassert_delay'' c_unsigned_int]"

definition enum_probe_type :: ctype where
  "enum_probe_type = Enum False [
    (''PROBE_DEFAULT_STRATEGY'', 0), (''PROBE_PREFER_ASYNCHRONOUS'', 1),
    (''PROBE_FORCE_SYNCHRONOUS'', 2)]"

definition struct_device_driver :: ctype where
  "struct_device_driver = Comp Struct False [
    Member ''name'' (Ptr ''char *''),
    Member ''bus'' (Ptr ''struct bus_type *''),
    Member ''owner'' (Ptr ''struct module *''),
    Member ''mod_name'' (Ptr ''char *''),
    Member ''suppress_bind_attrs'' t_bool,
    Member ''probe_type'' enum_probe_type,
    Member ''of_match_table'' (Ptr ''struct of_device_id *''),
    Member ''acpi_match_table'' (Ptr ''struct acpi_device_id *''),
    Member ''probe'' (Ptr ''int (*)(struct device *)''),
    Member ''sync_state'' (Ptr ''void (*)(struct device *)''),
    Member ''remove'' (Ptr ''int (*)(struct device *)''),
    Member ''shutdown'' (Ptr ''void (*)(struct device *)''),
    Member ''suspend'' (Ptr ''int (*)(struct device *, pm_message_t)''),
    Member ''resume'' (Ptr ''int (*)(struct device *)''),
    Member ''groups'' (Ptr ''struct attribute_group **''),
    Member ''dev_groups'' (Ptr ''struct attribute_group **''),
    Member ''pm'' (Ptr ''struct dev_pm_ops *''),
    Member ''coredump'' (Ptr ''void (*)(struct device *)''),
    Member ''p'' (Ptr ''struct driver_private *'')]"

definition struct_mdio_driver_common :: ctype where
  "struct_mdio_driver_common = Comp Struct False [
    Member ''driver'' struct_device_driver,
    Member ''flags'' c_int]"

definition struct_mdio_driver :: ctype where
  "struct_mdio_driver = Comp Struct False [
    Member ''mdiodrv'' struct_mdio_driver_common,
    Member ''probe'' (Ptr ''int (*)(struct mdio_device *)''),
    Member ''remove'' (Ptr ''void (*)(struct mdio_device *)''),
    Member ''shutdown'' (Ptr ''void (*)(struct mdio_device *)'')]"

definition struct_mdiobus_devres :: ctype where
  "struct_mdiobus_devres = Comp Struct False [
    Member ''mii'' (Ptr ''struct mii_bus *'')]"

definition struct_tc_netem_slot :: ctype where
  "struct_tc_netem_slot = Comp Struct False [
    Member ''min_delay'' t___s64,
    Member ''max_delay'' t___s64,
    Member ''max_packets'' t___s32,
    Member ''max_bytes'' t___s32,
    Member ''dist_delay'' t___s64,
    Member ''dist_jitter'' t___s64]"

definition struct_crndstate :: ctype where
  "struct_crndstate = Comp Struct False [
    Member ''last'' t_u32,
    Member ''rho'' t_u32]"

definition struct_rnd_state :: ctype where
  "struct_rnd_state = Comp Struct False [
    Member ''s1'' t___u32,
    Member ''s2'' t___u32,
    Member ''s3'' t___u32,
    Member ''s4'' t___u32]"

definition struct_prng :: ctype where
  "struct_prng = Comp Struct False [
    Member ''seed'' t_u64,
    Member ''prng_state'' struct_rnd_state]"

definition struct_clgstate :: ctype where
  "struct_clgstate = Comp Struct False [
    Member ''state'' t_u8,
    Member ''a1'' t_u32,
    Member ''a2'' t_u32,
    Member ''a3'' t_u32,
    Member ''a4'' t_u32,
    Member ''a5'' t_u32]"

definition struct_slotstate :: ctype where
  "struct_slotstate = Comp Struct False [
    Member ''slot_next'' t_u64,
    Member ''packets_left'' t_s32,
    Member ''bytes_left'' t_s32]"

definition struct_netem_sched_data :: ctype where
  "struct_netem_sched_data = Comp Struct False [
    Member ''t_root'' struct_rb_root,
    Member ''t_head'' (Ptr ''struct sk_buff *''),
    Member ''t_tail'' (Ptr ''struct sk_buff *''),
    Member ''t_len'' t_u32,
    Member ''qdisc'' (Ptr ''struct Qdisc *''),
    Member ''watchdog'' struct_qdisc_watchdog,
    Member ''latency'' t_s64,
    Member ''jitter'' t_s64,
    Member ''loss'' t_u32,
    Member ''ecn'' t_u32,
    Member ''limit'' t_u32,
    Member ''counter'' t_u32,
    Member ''gap'' t_u32,
    Member ''duplicate'' t_u32,
    Member ''reorder'' t_u32,
    Member ''corrupt'' t_u32,
    Member ''rate'' t_u64,
    Member ''packet_overhead'' t_s32,
    Member ''cell_size'' t_u32,
    Member ''cell_size_reciprocal'' struct_reciprocal_value,
    Member ''cell_overhead'' t_s32,
    Member ''delay_cor'' struct_crndstate,
    Member ''loss_cor'' struct_crndstate,
    Member ''dup_cor'' struct_crndstate,
    Member ''reorder_cor'' struct_crndstate,
    Member ''corrupt_cor'' struct_crndstate,
    Member ''prng'' struct_prng,
    Member ''delay_dist'' (Ptr ''struct disttable *''),
    Member ''loss_model'' (Enum False [
      (''CLG_RANDOM'', 0), (''CLG_4_STATES'', 1), (''CLG_GILB_ELL'', 2)]),
    Member ''_4_state_model'' (Enum False [
      (''TX_IN_GAP_PERIOD'', 1), (''TX_IN_BURST_PERIOD'', 2), (''LOST_IN_GAP_PERIOD'', 3),
      (''LOST_IN_BURST_PERIOD'', 4)]),
    Member ''GE_state_model'' (Enum False [
      (''GOOD_STATE'', 1), (''BAD_STATE'', 2)]),
    Member ''clg'' struct_clgstate,
    Member ''slot_config'' struct_tc_netem_slot,
    Member ''slot'' struct_slotstate,
    Member ''slot_dist'' (Ptr ''struct disttable *'')]"

definition struct_netem_skb_cb :: ctype where
  "struct_netem_skb_cb = Comp Struct False [
    Member ''time_to_send'' t_u64]"

definition struct_vxlan_metadata :: ctype where
  "struct_vxlan_metadata = Comp Struct False [
    Member ''gbp'' t_u32]"

definition struct_phy_attrs :: ctype where
  "struct_phy_attrs = Comp Struct False [
    Member ''bus_width'' t_u32,
    Member ''max_link_rate'' t_u32,
    Member ''mode'' enum_phy_mode]"

definition struct_phy :: ctype where
  "struct_phy = Comp Struct False [
    Member ''dev'' struct_device,
    Member ''id'' c_int,
    Member ''ops'' (Ptr ''struct phy_ops *''),
    Member ''mutex'' struct_mutex,
    Member ''lockdep_key'' struct_lock_class_key,
    Member ''init_count'' c_int,
    Member ''power_count'' c_int,
    Member ''attrs'' struct_phy_attrs,
    Member ''pwr'' (Ptr ''struct regulator *''),
    Member ''debugfs'' (Ptr ''struct dentry *'')]"

definition struct_phy_c45_device_ids :: ctype where
  "struct_phy_c45_device_ids = Comp Struct False [
    Member ''devices_in_package'' t_u32,
    Member ''mmds_present'' t_u32,
    Member ''device_ids'' (Array 32 t_u32)]"

definition struct_phy_configure_opts_mipi_dphy :: ctype where
  "struct_phy_configure_opts_mipi_dphy = Comp Struct False [
    Member ''clk_miss'' c_unsigned_int,
    Member ''clk_post'' c_unsigned_int,
    Member ''clk_pre'' c_unsigned_int,
    Member ''clk_prepare'' c_unsigned_int,
    Member ''clk_settle'' c_unsigned_int,
    Member ''clk_term_en'' c_unsigned_int,
    Member ''clk_trail'' c_unsigned_int,
    Member ''clk_zero'' c_unsigned_int,
    Member ''d_term_en'' c_unsigned_int,
    Member ''eot'' c_unsigned_int,
    Member ''hs_exit'' c_unsigned_int,
    Member ''hs_prepare'' c_unsigned_int,
    Member ''hs_settle'' c_unsigned_int,
    Member ''hs_skip'' c_unsigned_int,
    Member ''hs_trail'' c_unsigned_int,
    Member ''hs_zero'' c_unsigned_int,
    Member ''init'' c_unsigned_int,
    Member ''lpx'' c_unsigned_int,
    Member ''ta_get'' c_unsigned_int,
    Member ''ta_go'' c_unsigned_int,
    Member ''ta_sure'' c_unsigned_int,
    Member ''wakeup'' c_unsigned_int,
    Member ''hs_clk_rate'' c_unsigned_long,
    Member ''lp_clk_rate'' c_unsigned_long,
    Member ''lanes'' c_unsigned_char]"

definition struct_phy_configure_opts_dp :: ctype where
  "struct_phy_configure_opts_dp = Comp Struct False [
    Member ''link_rate'' c_unsigned_int,
    Member ''lanes'' c_unsigned_int,
    Member ''voltage'' (Array 4 c_unsigned_int),
    Member ''pre'' (Array 4 c_unsigned_int),
    BitField ''ssc'' t_u8 1,
    BitField ''set_rate'' t_u8 1,
    BitField ''set_lanes'' t_u8 1,
    BitField ''set_voltages'' t_u8 1]"

definition struct_phy_configure_opts_lvds :: ctype where
  "struct_phy_configure_opts_lvds = Comp Struct False [
    Member ''bits_per_lane_and_dclk_cycle'' c_unsigned_int,
    Member ''differential_clk_rate'' c_unsigned_long,
    Member ''lanes'' c_unsigned_int,
    Member ''is_slave'' t_bool]"

definition struct_phy_configure_opts_hdmi :: ctype where
  "struct_phy_configure_opts_hdmi = Comp Struct False [
    Member ''tmds_char_rate'' c_unsigned_long_long,
    Member ''bpc'' c_unsigned_int]"

definition union_phy_configure_opts :: ctype where
  "union_phy_configure_opts = Comp Union False [
    Member ''mipi_dphy'' struct_phy_configure_opts_mipi_dphy,
    Member ''dp'' struct_phy_configure_opts_dp,
    Member ''lvds'' struct_phy_configure_opts_lvds,
    Member ''hdmi'' struct_phy_configure_opts_hdmi]"

definition t_phy_interface_t :: ctype where
  "t_phy_interface_t = Enum False [
    (''PHY_INTERFACE_MODE_NA'', 0), (''PHY_INTERFACE_MODE_INTERNAL'', 1),
    (''PHY_INTERFACE_MODE_MII'', 2), (''PHY_INTERFACE_MODE_GMII'', 3),
    (''PHY_INTERFACE_MODE_SGMII'', 4), (''PHY_INTERFACE_MODE_TBI'', 5),
    (''PHY_INTERFACE_MODE_REVMII'', 6), (''PHY_INTERFACE_MODE_RMII'', 7),
    (''PHY_INTERFACE_MODE_REVRMII'', 8), (''PHY_INTERFACE_MODE_RGMII'', 9),
    (''PHY_INTERFACE_MODE_RGMII_ID'', 10), (''PHY_INTERFACE_MODE_RGMII_RXID'', 11),
    (''PHY_INTERFACE_MODE_RGMII_TXID'', 12), (''PHY_INTERFACE_MODE_RTBI'', 13),
    (''PHY_INTERFACE_MODE_SMII'', 14), (''PHY_INTERFACE_MODE_XGMII'', 15),
    (''PHY_INTERFACE_MODE_XLGMII'', 16), (''PHY_INTERFACE_MODE_MOCA'', 17),
    (''PHY_INTERFACE_MODE_PSGMII'', 18), (''PHY_INTERFACE_MODE_QSGMII'', 19),
    (''PHY_INTERFACE_MODE_TRGMII'', 20), (''PHY_INTERFACE_MODE_100BASEX'', 21),
    (''PHY_INTERFACE_MODE_1000BASEX'', 22), (''PHY_INTERFACE_MODE_2500BASEX'', 23),
    (''PHY_INTERFACE_MODE_5GBASER'', 24), (''PHY_INTERFACE_MODE_RXAUI'', 25),
    (''PHY_INTERFACE_MODE_XAUI'', 26), (''PHY_INTERFACE_MODE_10GBASER'', 27),
    (''PHY_INTERFACE_MODE_25GBASER'', 28), (''PHY_INTERFACE_MODE_USXGMII'', 29),
    (''PHY_INTERFACE_MODE_10GKR'', 30), (''PHY_INTERFACE_MODE_QUSGMII'', 31),
    (''PHY_INTERFACE_MODE_1000BASEKX'', 32), (''PHY_INTERFACE_MODE_10G_QXGMII'', 33),
    (''PHY_INTERFACE_MODE_50GBASER'', 34), (''PHY_INTERFACE_MODE_LAUI'', 35),
    (''PHY_INTERFACE_MODE_100GBASEP'', 36), (''PHY_INTERFACE_MODE_MIILITE'', 37),
    (''PHY_INTERFACE_MODE_MAX'', 38)]"

definition struct_eee_config :: ctype where
  "struct_eee_config = Comp Struct False [
    Member ''tx_lpi_timer'' t_u32,
    Member ''tx_lpi_enabled'' t_bool,
    Member ''eee_enabled'' t_bool]"

definition struct_phy_device :: ctype where
  "struct_phy_device = Comp Struct False [
    Member ''mdio'' struct_mdio_device,
    Member ''drv'' (Ptr ''struct phy_driver *''),
    Member ''devlink'' (Ptr ''struct device_link *''),
    Member ''phyindex'' t_u32,
    Member ''phy_id'' t_u32,
    Member ''c45_ids'' struct_phy_c45_device_ids,
    BitField ''is_c45'' c_unsigned_int 1,
    BitField ''is_internal'' c_unsigned_int 1,
    BitField ''is_pseudo_fixed_link'' c_unsigned_int 1,
    BitField ''is_gigabit_capable'' c_unsigned_int 1,
    BitField ''has_fixups'' c_unsigned_int 1,
    BitField ''suspended'' c_unsigned_int 1,
    BitField ''suspended_by_mdio_bus'' c_unsigned_int 1,
    BitField ''sysfs_links'' c_unsigned_int 1,
    BitField ''loopback_enabled'' c_unsigned_int 1,
    BitField ''downshifted_rate'' c_unsigned_int 1,
    BitField ''is_on_sfp_module'' c_unsigned_int 1,
    BitField ''mac_managed_pm'' c_unsigned_int 1,
    BitField ''wol_enabled'' c_unsigned_int 1,
    BitField ''is_genphy_driven'' c_unsigned_int 1,
    BitField ''autoneg'' c_unsigned_int 1,
    BitField ''link'' c_unsigned_int 1,
    BitField ''autoneg_complete'' c_unsigned_int 1,
    BitField ''interrupts'' c_unsigned_int 1,
    BitField ''irq_suspended'' c_unsigned_int 1,
    BitField ''irq_rerun'' c_unsigned_int 1,
    BitField ''default_timestamp'' c_unsigned_int 1,
    Member ''rate_matching'' c_int,
    Member ''state'' enum_phy_state,
    Member ''dev_flags'' t_u32,
    Member ''interface'' t_phy_interface_t,
    Member ''possible_interfaces'' (Array 1 c_unsigned_long),
    Member ''speed'' c_int,
    Member ''duplex'' c_int,
    Member ''port'' c_int,
    Member ''pause'' c_int,
    Member ''asym_pause'' c_int,
    Member ''master_slave_get'' t_u8,
    Member ''master_slave_set'' t_u8,
    Member ''master_slave_state'' t_u8,
    Member ''supported'' (Array 2 c_unsigned_long),
    Member ''advertising'' (Array 2 c_unsigned_long),
    Member ''lp_advertising'' (Array 2 c_unsigned_long),
    Member ''adv_old'' (Array 2 c_unsigned_long),
    Member ''supported_eee'' (Array 2 c_unsigned_long),
    Member ''advertising_eee'' (Array 2 c_unsigned_long),
    Member ''eee_disabled_modes'' (Array 2 c_unsigned_long),
    Member ''enable_tx_lpi'' t_bool,
    Member ''eee_active'' t_bool,
    Member ''eee_cfg'' struct_eee_config,
    Member ''host_interfaces'' (Array 1 c_unsigned_long),
    Member ''leds'' struct_list_head,
    Member ''irq'' c_int,
    Member ''priv'' (Ptr ''void *''),
    Member ''skb'' (Ptr ''struct sk_buff *''),
    Member ''ehdr'' (Ptr ''void *''),
    Member ''nest'' (Ptr ''struct nlattr *''),
    Member ''state_queue'' struct_delayed_work,
    Member ''lock'' struct_mutex,
    Member ''sfp_bus_attached'' t_bool,
    Member ''sfp_bus'' (Ptr ''struct sfp_bus *''),
    Member ''phylink'' (Ptr ''struct phylink *''),
    Member ''attached_dev'' (Ptr ''struct net_device *''),
    Member ''mii_ts'' (Ptr ''struct mii_timestamper *''),
    Member ''psec'' (Ptr ''struct pse_control *''),
    Member ''mdix'' t_u8,
    Member ''mdix_ctrl'' t_u8,
    Member ''pma_extable'' c_int,
    Member ''link_down_events'' c_unsigned_int,
    Member ''phy_link_change'' (Ptr ''void (*)(struct phy_device *, bool)''),
    Member ''adjust_link'' (Ptr ''void (*)(struct net_device *)'')]"

definition struct_phy_device_node :: ctype where
  "struct_phy_device_node = Comp Struct False [
    Member ''upstream_type'' enum_phy_upstream,
    Member ''upstream'' (Comp Union False [
      Member ''netdev'' (Ptr ''struct net_device *''),
      Member ''phydev'' (Ptr ''struct phy_device *'')]),
    Member ''parent_sfp_bus'' (Ptr ''struct sfp_bus *''),
    Member ''phy'' (Ptr ''struct phy_device *'')]"

definition struct_phy_driver :: ctype where
  "struct_phy_driver = Comp Struct False [
    Member ''mdiodrv'' struct_mdio_driver_common,
    Member ''phy_id'' t_u32,
    Member ''name'' (Ptr ''char *''),
    Member ''phy_id_mask'' t_u32,
    Member ''features'' (Ptr ''unsigned long *''),
    Member ''flags'' t_u32,
    Member ''driver_data'' (Ptr ''void *''),
    Member ''soft_reset'' (Ptr ''int (*)(struct phy_device *)''),
    Member ''config_init'' (Ptr ''int (*)(struct phy_device *)''),
    Member ''probe'' (Ptr ''int (*)(struct phy_device *)''),
    Member ''get_features'' (Ptr ''int (*)(struct phy_device *)''),
    Member ''inband_caps'' (Ptr ''unsigned int (*)(struct phy_device *, phy_interface_t)''),
    Member ''config_inband'' (Ptr ''int (*)(struct phy_device *, unsigned int)''),
    Member ''get_rate_matching'' (Ptr ''int (*)(struct phy_device *, phy_interface_t)''),
    Member ''suspend'' (Ptr ''int (*)(struct phy_device *)''),
    Member ''resume'' (Ptr ''int (*)(struct phy_device *)''),
    Member ''config_aneg'' (Ptr ''int (*)(struct phy_device *)''),
    Member ''aneg_done'' (Ptr ''int (*)(struct phy_device *)''),
    Member ''read_status'' (Ptr ''int (*)(struct phy_device *)''),
    Member ''config_intr'' (Ptr ''int (*)(struct phy_device *)''),
    Member ''handle_interrupt'' (Ptr ''irqreturn_t (*)(struct phy_device *)''),
    Member ''remove'' (Ptr ''void (*)(struct phy_device *)''),
    Member ''match_phy_device'' (Ptr ''int (*)(struct phy_device *, const struct phy_driver *)''),
    Member ''set_wol'' (Ptr ''int (*)(struct phy_device *, struct ethtool_wolinfo *)''),
    Member ''get_wol'' (Ptr ''void (*)(struct phy_device *, struct ethtool_wolinfo *)''),
    Member ''link_change_notify'' (Ptr ''void (*)(struct phy_device *)''),
    Member ''read_mmd'' (Ptr ''int (*)(struct phy_device *, int, u16)''),
    Member ''write_mmd'' (Ptr ''int (*)(struct phy_device *, int, u16, u16)''),
    Member ''read_page'' (Ptr ''int (*)(struct phy_device *)''),
    Member ''write_page'' (Ptr ''int (*)(struct phy_device *, int)''),
    Member ''module_info'' (Ptr ''int (*)(struct phy_device *, struct ethtool_modinfo *)''),
    Member ''module_eeprom'' (Ptr ''int (*)(struct phy_device *, struct ethtool_eeprom *, u8 *)''),
    Member ''cable_test_start'' (Ptr ''int (*)(struct phy_device *)''),
    Member ''cable_test_tdr_start'' (Ptr ''int (*)(struct phy_device *, const struct phy_tdr_config *)''),
    Member ''cable_test_get_status'' (Ptr ''int (*)(struct phy_device *, bool *)''),
    Member ''get_phy_stats'' (Ptr ''void (*)(struct phy_device *, struct ethtool_eth_phy_stats *, struct ethtool_phy_stats *)''),
    Member ''get_link_stats'' (Ptr ''void (*)(struct phy_device *, struct ethtool_link_ext_stats *)''),
    Member ''update_stats'' (Ptr ''int (*)(struct phy_device *)''),
    Member ''get_sset_count'' (Ptr ''int (*)(struct phy_device *)''),
    Member ''get_strings'' (Ptr ''void (*)(struct phy_device *, u8 *)''),
    Member ''get_stats'' (Ptr ''void (*)(struct phy_device *, struct ethtool_stats *, u64 *)''),
    Member ''get_tunable'' (Ptr ''int (*)(struct phy_device *, struct ethtool_tunable *, void *)''),
    Member ''set_tunable'' (Ptr ''int (*)(struct phy_device *, struct ethtool_tunable *, const void *)''),
    Member ''set_loopback'' (Ptr ''int (*)(struct phy_device *, bool, int)''),
    Member ''get_sqi'' (Ptr ''int (*)(struct phy_device *)''),
    Member ''get_sqi_max'' (Ptr ''int (*)(struct phy_device *)''),
    Member ''get_plca_cfg'' (Ptr ''int (*)(struct phy_device *, struct phy_plca_cfg *)''),
    Member ''set_plca_cfg'' (Ptr ''int (*)(struct phy_device *, const struct phy_plca_cfg *)''),
    Member ''get_plca_status'' (Ptr ''int (*)(struct phy_device *, struct phy_plca_status *)''),
    Member ''led_brightness_set'' (Ptr ''int (*)(struct phy_device *, u8, enum led_brightness)''),
    Member ''led_blink_set'' (Ptr ''int (*)(struct phy_device *, u8, unsigned long *, unsigned long *)''),
    Member ''led_hw_is_supported'' (Ptr ''int (*)(struct phy_device *, u8, unsigned long)''),
    Member ''led_hw_control_set'' (Ptr ''int (*)(struct phy_device *, u8, unsigned long)''),
    Member ''led_hw_control_get'' (Ptr ''int (*)(struct phy_device *, u8, unsigned long *)''),
    Member ''led_polarity_set'' (Ptr ''int (*)(struct phy_device *, int, unsigned long)''),
    Member ''get_next_update_time'' (Ptr ''unsigned int (*)(struct phy_device *)'')]"

definition struct_phy_fixup :: ctype where
  "struct_phy_fixup = Comp Struct False [
    Member ''list'' struct_list_head,
    Member ''bus_id'' (Array 64 c_char),
    Member ''phy_uid'' t_u32,
    Member ''phy_uid_mask'' t_u32,
    Member ''run'' (Ptr ''int (*)(struct phy_device *)'')]"

definition struct_led_classdev :: ctype where
  "struct_led_classdev = Comp Struct False [
    Member ''name'' (Ptr ''char *''),
    Member ''brightness'' c_unsigned_int,
    Member ''max_brightness'' c_unsigned_int,
    Member ''color'' c_unsigned_int,
    Member ''flags'' c_int,
    Member ''work_flags'' c_unsigned_long,
    Member ''brightness_set'' (Ptr ''void (*)(struct led_classdev *, enum led_brightness)''),
    Member ''brightness_set_blocking'' (Ptr ''int (*)(struct led_classdev *, enum led_brightness)''),
    Member ''brightness_get'' (Ptr ''enum led_brightness (*)(struct led_classdev *)''),
    Member ''blink_set'' (Ptr ''int (*)(struct led_classdev *, unsigned long *, unsigned long *)''),
    Member ''pattern_set'' (Ptr ''int (*)(struct led_classdev *, struct led_pattern *, u32, int)''),
    Member ''pattern_clear'' (Ptr ''int (*)(struct led_classdev *)''),
    Member ''dev'' (Ptr ''struct device *''),
    Member ''groups'' (Ptr ''struct attribute_group **''),
    Member ''node'' struct_list_head,
    Member ''default_trigger'' (Ptr ''char *''),
    Member ''blink_delay_on'' c_unsigned_long,
    Member ''blink_delay_off'' c_unsigned_long,
    Member ''blink_timer'' struct_timer_list,
    Member ''blink_brightness'' c_int,
    Member ''new_blink_brightness'' c_int,
    Member ''flash_resume'' (Ptr ''void (*)(struct led_classdev *)''),
    Member ''wq'' (Ptr ''struct workqueue_struct *''),
    Member ''set_brightness_work'' struct_work_struct,
    Member ''delayed_set_value'' c_int,
    Member ''delayed_delay_on'' c_unsigned_long,
    Member ''delayed_delay_off'' c_unsigned_long,
    Member ''led_access'' struct_mutex]"

definition struct_phy_led :: ctype where
  "struct_phy_led = Comp Struct False [
    Member ''list'' struct_list_head,
    Member ''phydev'' (Ptr ''struct phy_device *''),
    Member ''led_cdev'' struct_led_classdev,
    Member ''index'' t_u8]"

definition struct_phy_link_topology :: ctype where
  "struct_phy_link_topology = Comp Struct False [
    Member ''phys'' struct_xarray,
    Member ''next_phy_index'' t_u32]"

definition struct_phy_ops :: ctype where
  "struct_phy_ops = Comp Struct False [
    Member ''init'' (Ptr ''int (*)(struct phy *)''),
    Member ''exit'' (Ptr ''int (*)(struct phy *)''),
    Member ''power_on'' (Ptr ''int (*)(struct phy *)''),
    Member ''power_off'' (Ptr ''int (*)(struct phy *)''),
    Member ''set_mode'' (Ptr ''int (*)(struct phy *, enum phy_mode, int)''),
    Member ''set_media'' (Ptr ''int (*)(struct phy *, enum phy_media)''),
    Member ''set_speed'' (Ptr ''int (*)(struct phy *, int)''),
    Member ''configure'' (Ptr ''int (*)(struct phy *, union phy_configure_opts *)''),
    Member ''validate'' (Ptr ''int (*)(struct phy *, enum phy_mode, int, union phy_configure_opts *)''),
    Member ''reset'' (Ptr ''int (*)(struct phy *)''),
    Member ''calibrate'' (Ptr ''int (*)(struct phy *)''),
    Member ''connect'' (Ptr ''int (*)(struct phy *, int)''),
    Member ''disconnect'' (Ptr ''int (*)(struct phy *, int)''),
    Member ''release'' (Ptr ''void (*)(struct phy *)''),
    Member ''owner'' (Ptr ''struct module *'')]"

definition struct_phy_parameters :: ctype where
  "struct_phy_parameters = Comp Struct False [
    Member ''length'' t_u16,
    Member ''pdata'' (Ptr ''u32 *'')]"

definition struct_phy_plca_cfg :: ctype where
  "struct_phy_plca_cfg = Comp Struct False [
    Member ''version'' c_int,
    Member ''enabled'' c_int,
    Member ''node_id'' c_int,
    Member ''node_cnt'' c_int,
    Member ''to_tmr'' c_int,
    Member ''burst_cnt'' c_int,
    Member ''burst_tmr'' c_int]"

definition struct_phy_plca_status :: ctype where
  "struct_phy_plca_status = Comp Struct False [
    Member ''pst'' t_bool]"

definition struct_ethnl_reply_data :: ctype where
  "struct_ethnl_reply_data = Comp Struct False [
    Member ''dev'' (Ptr ''struct net_device *'')]"

definition struct_phy_reply_data :: ctype where
  "struct_phy_reply_data = Comp Struct False [
    Member ''base'' struct_ethnl_reply_data,
    Member ''phyindex'' t_u32,
    Member ''drvname'' (Ptr ''char *''),
    Member ''name'' (Ptr ''char *''),
    Member ''upstream_type'' c_unsigned_int,
    Member ''upstream_sfp_name'' (Ptr ''char *''),
    Member ''upstream_index'' c_unsigned_int,
    Member ''downstream_sfp_name'' (Ptr ''char *'')]"

definition struct_phy_sts_cck_8192s_t :: ctype where
  "struct_phy_sts_cck_8192s_t = Comp Struct False [
    Member ''adc_pwdb_X'' (Array 4 t_u8),
    Member ''sq_rpt'' t_u8,
    Member ''cck_agc_rpt'' t_u8]"

definition struct_phy_tdr_config :: ctype where
  "struct_phy_tdr_config = Comp Struct False [
    Member ''first'' t_u32,
    Member ''last'' t_u32,
    Member ''step'' t_u32,
    Member ''pair'' t_s8]"

definition struct_phylib_stubs :: ctype where
  "struct_phylib_stubs = Comp Struct False [
    Member ''hwtstamp_get'' (Ptr ''int (*)(struct phy_device *, struct kernel_hwtstamp_config *)''),
    Member ''hwtstamp_set'' (Ptr ''int (*)(struct phy_device *, struct kernel_hwtstamp_config *, struct netlink_ext_ack *)''),
    Member ''get_phy_stats'' (Ptr ''void (*)(struct phy_device *, struct ethtool_eth_phy_stats *, struct ethtool_phy_stats *)''),
    Member ''get_link_ext_stats'' (Ptr ''void (*)(struct phy_device *, struct ethtool_link_ext_stats *)'')]"

definition struct_phylink_link_state :: ctype where
  "struct_phylink_link_state = Comp Struct False [
    Member ''advertising'' (Array 2 c_unsigned_long),
    Member ''lp_advertising'' (Array 2 c_unsigned_long),
    Member ''interface'' t_phy_interface_t,
    Member ''speed'' c_int,
    Member ''duplex'' c_int,
    Member ''pause'' c_int,
    Member ''rate_matching'' c_int,
    BitField ''link'' c_unsigned_int 1,
    BitField ''an_complete'' c_unsigned_int 1]"

definition struct_phylink :: ctype where
  "struct_phylink = Comp Struct False [
    Member ''netdev'' (Ptr ''struct net_device *''),
    Member ''mac_ops'' (Ptr ''struct phylink_mac_ops *''),
    Member ''config'' (Ptr ''struct phylink_config *''),
    Member ''pcs'' (Ptr ''struct phylink_pcs *''),
    Member ''dev'' (Ptr ''struct device *''),
    BitField ''old_link_state'' c_unsigned_int 1,
    Member ''phylink_disable_state'' c_unsigned_long,
    Member ''phydev'' (Ptr ''struct phy_device *''),
    Member ''link_interface'' t_phy_interface_t,
    Member ''cfg_link_an_mode'' t_u8,
    Member ''req_link_an_mode'' t_u8,
    Member ''act_link_an_mode'' t_u8,
    Member ''link_port'' t_u8,
    Member ''supported'' (Array 2 c_unsigned_long),
    Member ''supported_lpi'' (Array 2 c_unsigned_long),
    Member ''link_config'' struct_phylink_link_state,
    Member ''cur_interface'' t_phy_interface_t,
    Member ''link_gpio'' (Ptr ''struct gpio_desc *''),
    Member ''link_irq'' c_unsigned_int,
    Member ''link_poll'' struct_timer_list,
    Member ''state_mutex'' struct_mutex,
    Member ''phydev_mutex'' struct_mutex,
    Member ''phy_state'' struct_phylink_link_state,
    Member ''phy_ib_mode'' c_unsigned_int,
    Member ''resolve'' struct_work_struct,
    Member ''pcs_neg_mode'' c_unsigned_int,
    Member ''pcs_state'' c_unsigned_int,
    Member ''link_failed'' t_bool,
    Member ''suspend_link_up'' t_bool,
    Member ''major_config_failed'' t_bool,
    Member ''mac_supports_eee_ops'' t_bool,
    Member ''mac_supports_eee'' t_bool,
    Member ''phy_enable_tx_lpi'' t_bool,
    Member ''mac_enable_tx_lpi'' t_bool,
    Member ''mac_tx_clk_stop'' t_bool,
    Member ''mac_tx_lpi_timer'' t_u32,
    Member ''mac_rx_clk_stop_blocked'' t_u8,
    Member ''sfp_bus'' (Ptr ''struct sfp_bus *''),
    Member ''sfp_may_have_phy'' t_bool,
    Member ''sfp_interfaces'' (Array 1 c_unsigned_long),
    Member ''sfp_support'' (Array 2 c_unsigned_long),
    Member ''sfp_port'' t_u8,
    Member ''eee_cfg'' struct_eee_config]"

definition struct_phylink_mac_ops :: ctype where
  "struct_phylink_mac_ops = Comp Struct False [
    Member ''mac_get_caps'' (Ptr ''unsigned long (*)(struct phylink_config *, phy_interface_t)''),
    Member ''mac_select_pcs'' (Ptr ''struct phylink_pcs * (*)(struct phylink_config *, phy_interface_t)''),
    Member ''mac_prepare'' (Ptr ''int (*)(struct phylink_config *, unsigned int, phy_interface_t)''),
    Member ''mac_config'' (Ptr ''void (*)(struct phylink_config *, unsigned int, const struct phylink_link_state *)''),
    Member ''mac_finish'' (Ptr ''int (*)(struct phylink_config *, unsigned int, phy_interface_t)''),
    Member ''mac_link_down'' (Ptr ''void (*)(struct phylink_config *, unsigned int, phy_interface_t)''),
    Member ''mac_link_up'' (Ptr ''void (*)(struct phylink_config *, struct phy_device *, unsigned int, phy_interface_t, int, int, bool, bool)''),
    Member ''mac_disable_tx_lpi'' (Ptr ''void (*)(struct phylink_config *)''),
    Member ''mac_enable_tx_lpi'' (Ptr ''int (*)(struct phylink_config *, u32, bool)'')]"

definition struct_phylink_pcs :: ctype where
  "struct_phylink_pcs = Comp Struct False [
    Member ''supported_interfaces'' (Array 1 c_unsigned_long),
    Member ''ops'' (Ptr ''struct phylink_pcs_ops *''),
    Member ''phylink'' (Ptr ''struct phylink *''),
    Member ''poll'' t_bool,
    Member ''rxc_always_on'' t_bool]"

definition struct_phylink_pcs_ops :: ctype where
  "struct_phylink_pcs_ops = Comp Struct False [
    Member ''pcs_validate'' (Ptr ''int (*)(struct phylink_pcs *, unsigned long *, const struct phylink_link_state *)''),
    Member ''pcs_inband_caps'' (Ptr ''unsigned int (*)(struct phylink_pcs *, phy_interface_t)''),
    Member ''pcs_enable'' (Ptr ''int (*)(struct phylink_pcs *)''),
    Member ''pcs_disable'' (Ptr ''void (*)(struct phylink_pcs *)''),
    Member ''pcs_pre_config'' (Ptr ''void (*)(struct phylink_pcs *, phy_interface_t)''),
    Member ''pcs_post_config'' (Ptr ''int (*)(struct phylink_pcs *, phy_interface_t)''),
    Member ''pcs_get_state'' (Ptr ''void (*)(struct phylink_pcs *, unsigned int, struct phylink_link_state *)''),
    Member ''pcs_config'' (Ptr ''int (*)(struct phylink_pcs *, unsigned int, phy_interface_t, const unsigned long *, bool)''),
    Member ''pcs_an_restart'' (Ptr ''void (*)(struct phylink_pcs *)''),
    Member ''pcs_link_up'' (Ptr ''void (*)(struct phylink_pcs *, unsigned int, phy_interface_t, int, int)''),
    Member ''pcs_disable_eee'' (Ptr ''void (*)(struct phylink_pcs *)''),
    Member ''pcs_enable_eee'' (Ptr ''void (*)(struct phylink_pcs *)''),
    Member ''pcs_pre_init'' (Ptr ''int (*)(struct phylink_pcs *)'')]"

definition t_phys_addr_t :: ctype where
  "t_phys_addr_t = t_u64"

definition struct_phys_vec :: ctype where
  "struct_phys_vec = Comp Struct False [
    Member ''paddr'' t_phys_addr_t,
    Member ''len'' t_u32]"

definition struct_psched_pktrate :: ctype where
  "struct_psched_pktrate = Comp Struct False [
    Member ''rate_pkts_ps'' t_u64,
    Member ''mult'' t_u32,
    Member ''shift'' t_u8]"

definition struct_qdisc_dump_args :: ctype where
  "struct_qdisc_dump_args = Comp Struct False [
    Member ''w'' struct_qdisc_walker,
    Member ''skb'' (Ptr ''struct sk_buff *''),
    Member ''cb'' (Ptr ''struct netlink_callback *'')]"

definition struct_tc_ratespec :: ctype where
  "struct_tc_ratespec = Comp Struct False [
    Member ''cell_log'' c_unsigned_char,
    Member ''linklayer'' t___u8,
    Member ''overhead'' c_unsigned_short,
    Member ''cell_align'' c_short,
    Member ''mpu'' c_unsigned_short,
    Member ''rate'' t___u32]"

definition struct_qdisc_rate_table :: ctype where
  "struct_qdisc_rate_table = Comp Struct False [
    Member ''rate'' struct_tc_ratespec,
    Member ''data'' (Array 256 t_u32),
    Member ''next'' (Ptr ''struct qdisc_rate_table *''),
    Member ''refcnt'' c_int]"

definition struct_tc_sizespec :: ctype where
  "struct_tc_sizespec = Comp Struct False [
    Member ''cell_log'' c_unsigned_char,
    Member ''size_log'' c_unsigned_char,
    Member ''cell_align'' c_short,
    Member ''overhead'' c_int,
    Member ''linklayer'' c_unsigned_int,
    Member ''mpu'' c_unsigned_int,
    Member ''mtu'' c_unsigned_int,
    Member ''tsize'' c_unsigned_int]"

definition struct_qdisc_size_table :: ctype where
  "struct_qdisc_size_table = Comp Struct False [
    Member ''rcu'' struct_callback_head,
    Member ''list'' struct_list_head,
    Member ''szopts'' struct_tc_sizespec,
    Member ''refcnt'' c_int,
    Member ''data'' (Array 0 t_u16)]"

definition struct_tcf_qevent :: ctype where
  "struct_tcf_qevent = Comp Struct False [
    Member ''block'' (Ptr ''struct tcf_block *''),
    Member ''info'' struct_tcf_block_ext_info,
    Member ''filter_chain'' (Ptr ''struct tcf_proto *'')]"

definition struct_sch_frag_data :: ctype where
  "struct_sch_frag_data = Comp Struct False [
    Member ''dst'' c_unsigned_long,
    Member ''cb'' struct_qdisc_skb_cb,
    Member ''inner_protocol'' t___be16,
    Member ''vlan_tci'' t_u16,
    Member ''vlan_proto'' t___be16,
    Member ''l2_len'' c_unsigned_int,
    Member ''l2_data'' (Array 18 t_u8),
    Member ''xmit'' (Ptr ''int (*)(struct sk_buff *)''),
    Member ''bh_lock'' t_local_lock_t]"

definition struct_sched_attr :: ctype where
  "struct_sched_attr = Comp Struct False [
    Member ''size'' t___u32,
    Member ''sched_policy'' t___u32,
    Member ''sched_flags'' t___u64,
    Member ''sched_nice'' t___s32,
    Member ''sched_priority'' t___u32,
    Member ''sched_runtime'' t___u64,
    Member ''sched_deadline'' t___u64,
    Member ''sched_period'' t___u64,
    Member ''sched_util_min'' t___u32,
    Member ''sched_util_max'' t___u32]"

definition struct_sched_class :: ctype where
  "struct_sched_class = Comp Struct False [
    Member ''enqueue_task'' (Ptr ''void (*)(struct rq *, struct task_struct *, int)''),
    Member ''dequeue_task'' (Ptr ''bool (*)(struct rq *, struct task_struct *, int)''),
    Member ''yield_task'' (Ptr ''void (*)(struct rq *)''),
    Member ''yield_to_task'' (Ptr ''bool (*)(struct rq *, struct task_struct *)''),
    Member ''wakeup_preempt'' (Ptr ''void (*)(struct rq *, struct task_struct *, int)''),
    Member ''balance'' (Ptr ''int (*)(struct rq *, struct task_struct *, struct rq_flags *)''),
    Member ''pick_task'' (Ptr ''struct task_struct * (*)(struct rq *)''),
    Member ''pick_next_task'' (Ptr ''struct task_struct * (*)(struct rq *, struct task_struct *)''),
    Member ''put_prev_task'' (Ptr ''void (*)(struct rq *, struct task_struct *, struct task_struct *)''),
    Member ''set_next_task'' (Ptr ''void (*)(struct rq *, struct task_struct *, bool)''),
    Member ''select_task_rq'' (Ptr ''int (*)(struct task_struct *, int, int)''),
    Member ''migrate_task_rq'' (Ptr ''void (*)(struct task_struct *, int)''),
    Member ''task_woken'' (Ptr ''void (*)(struct rq *, struct task_struct *)''),
    Member ''set_cpus_allowed'' (Ptr ''void (*)(struct task_struct *, struct affinity_context *)''),
    Member ''rq_online'' (Ptr ''void (*)(struct rq *)''),
    Member ''rq_offline'' (Ptr ''void (*)(struct rq *)''),
    Member ''find_lock_rq'' (Ptr ''struct rq * (*)(struct task_struct *, struct rq *)''),
    Member ''task_tick'' (Ptr ''void (*)(struct rq *, struct task_struct *, int)''),
    Member ''task_fork'' (Ptr ''void (*)(struct task_struct *)''),
    Member ''task_dead'' (Ptr ''void (*)(struct task_struct *)''),
    Member ''switching_to'' (Ptr ''void (*)(struct rq *, struct task_struct *)''),
    Member ''switched_from'' (Ptr ''void (*)(struct rq *, struct task_struct *)''),
    Member ''switched_to'' (Ptr ''void (*)(struct rq *, struct task_struct *)''),
    Member ''reweight_task'' (Ptr ''void (*)(struct rq *, struct task_struct *, const struct load_weight *)''),
    Member ''prio_changed'' (Ptr ''void (*)(struct rq *, struct task_struct *, int)''),
    Member ''get_rr_interval'' (Ptr ''unsigned int (*)(struct rq *, struct task_struct *)''),
    Member ''update_curr'' (Ptr ''void (*)(struct rq *)''),
    Member ''task_change_group'' (Ptr ''void (*)(struct task_struct *)'')]"

definition struct_sched_domain :: ctype where
  "struct_sched_domain = Comp Struct False [
    Member ''parent'' (Ptr ''struct sched_domain *''),
    Member ''child'' (Ptr ''struct sched_domain *''),
    Member ''groups'' (Ptr ''struct sched_group *''),
    Member ''min_interval'' c_unsigned_long,
    Member ''max_interval'' c_unsigned_long,
    Member ''busy_factor'' c_unsigned_int,
    Member ''imbalance_pct'' c_unsigned_int,
    Member ''cache_nice_tries'' c_unsigned_int,
    Member ''imb_numa_nr'' c_unsigned_int,
    Member ''nohz_idle'' c_int,
    Member ''flags'' c_int,
    Member ''level'' c_int,
    Member ''last_balance'' c_unsigned_long,
    Member ''balance_interval'' c_unsigned_int,
    Member ''nr_balance_failed'' c_unsigned_int,
    Member ''max_newidle_lb_cost'' t_u64,
    Member ''last_decay_max_lb_cost'' c_unsigned_long,
    Member ''name'' (Ptr ''char *''),
    Member '''' (Comp Union False [
      Member ''private'' (Ptr ''void *''),
      Member ''rcu'' struct_callback_head]),
    Member ''shared'' (Ptr ''struct sched_domain_shared *''),
    Member ''span_weight'' c_unsigned_int,
    Member ''span'' (Array 0 c_unsigned_long)]"

definition struct_sched_domain_attr :: ctype where
  "struct_sched_domain_attr = Comp Struct False [
    Member ''relax_domain_level'' c_int]"

definition struct_sched_domain_shared :: ctype where
  "struct_sched_domain_shared = Comp Struct False [
    Member ''ref'' t_atomic_t,
    Member ''nr_busy_cpus'' t_atomic_t,
    Member ''has_idle_cores'' c_int,
    Member ''nr_idle_scan'' c_int]"

definition t_sched_domain_mask_f :: ctype where
  "t_sched_domain_mask_f = Ptr ''struct cpumask * (*)(struct sched_domain_topology_level *, int)''"

definition t_sched_domain_flags_f :: ctype where
  "t_sched_domain_flags_f = Ptr ''int (*)(void)''"

definition struct_sd_data :: ctype where
  "struct_sd_data = Comp Struct False [
    Member ''sd'' (Ptr ''struct sched_domain **''),
    Member ''sds'' (Ptr ''struct sched_domain_shared **''),
    Member ''sg'' (Ptr ''struct sched_group **''),
    Member ''sgc'' (Ptr ''struct sched_group_capacity **'')]"

definition struct_sched_domain_topology_level :: ctype where
  "struct_sched_domain_topology_level = Comp Struct False [
    Member ''mask'' t_sched_domain_mask_f,
    Member ''sd_flags'' t_sched_domain_flags_f,
    Member ''numa_level'' c_int,
    Member ''data'' struct_sd_data,
    Member ''name'' (Ptr ''char *'')]"

definition struct_sched_entry :: ctype where
  "struct_sched_entry = Comp Struct False [
    Member ''gate_duration'' (Array 16 t_u64),
    Member ''budget'' (Array 16 t_atomic_t),
    Member ''gate_close_time'' (Array 16 t_ktime_t),
    Member ''list'' struct_list_head,
    Member ''end_time'' t_ktime_t,
    Member ''next_txtime'' t_ktime_t,
    Member ''index'' c_int,
    Member ''gate_mask'' t_u32,
    Member ''interval'' t_u32,
    Member ''command'' t_u8]"

definition struct_sched_gate_list :: ctype where
  "struct_sched_gate_list = Comp Struct False [
    Member ''max_open_gate_duration'' (Array 16 t_u64),
    Member ''max_frm_len'' (Array 16 t_u32),
    Member ''max_sdu'' (Array 16 t_u32),
    Member ''rcu'' struct_callback_head,
    Member ''entries'' struct_list_head,
    Member ''num_entries'' t_size_t,
    Member ''cycle_end_time'' t_ktime_t,
    Member ''cycle_time'' t_s64,
    Member ''cycle_time_extension'' t_s64,
    Member ''base_time'' t_s64]"

definition struct_sched_group :: ctype where
  "struct_sched_group = Comp Struct False [
    Member ''next'' (Ptr ''struct sched_group *''),
    Member ''ref'' t_atomic_t,
    Member ''group_weight'' c_unsigned_int,
    Member ''cores'' c_unsigned_int,
    Member ''sgc'' (Ptr ''struct sched_group_capacity *''),
    Member ''asym_prefer_cpu'' c_int,
    Member ''flags'' c_int,
    Member ''cpumask'' (Array 0 c_unsigned_long)]"

definition struct_sched_group_capacity :: ctype where
  "struct_sched_group_capacity = Comp Struct False [
    Member ''ref'' t_atomic_t,
    Member ''capacity'' c_unsigned_long,
    Member ''min_capacity'' c_unsigned_long,
    Member ''max_capacity'' c_unsigned_long,
    Member ''next_update'' c_unsigned_long,
    Member ''imbalance'' c_int,
    Member ''id'' c_int,
    Member ''cpumask'' (Array 0 c_unsigned_long)]"

definition struct_sched_param :: ctype where
  "struct_sched_param = Comp Struct False [
    Member ''sched_priority'' c_int]"

definition struct_tc_sfqred_stats :: ctype where
  "struct_tc_sfqred_stats = Comp Struct False [
    Member ''prob_drop'' t___u32,
    Member ''forced_drop'' t___u32,
    Member ''prob_mark'' t___u32,
    Member ''forced_mark'' t___u32,
    Member ''prob_mark_head'' t___u32,
    Member ''forced_mark_head'' t___u32]"

definition struct_switchdev_mst_state :: ctype where
  "struct_switchdev_mst_state = Comp Struct False [
    Member ''msti'' t_u16,
    Member ''state'' t_u8]"

definition struct_switchdev_brport_flags :: ctype where
  "struct_switchdev_brport_flags = Comp Struct False [
    Member ''val'' c_unsigned_long,
    Member ''mask'' c_unsigned_long]"

definition struct_switchdev_vlan_msti :: ctype where
  "struct_switchdev_vlan_msti = Comp Struct False [
    Member ''vid'' t_u16,
    Member ''msti'' t_u16]"

definition t___kernel_long_t :: ctype where
  "t___kernel_long_t = c_long"

definition t___kernel_clock_t :: ctype where
  "t___kernel_clock_t = t___kernel_long_t"

definition t_clock_t :: ctype where
  "t_clock_t = t___kernel_clock_t"

definition struct_switchdev_attr :: ctype where
  "struct_switchdev_attr = Comp Struct False [
    Member ''orig_dev'' (Ptr ''struct net_device *''),
    Member ''id'' enum_switchdev_attr_id,
    Member ''flags'' t_u32,
    Member ''complete_priv'' (Ptr ''void *''),
    Member ''complete'' (Ptr ''void (*)(struct net_device *, int, void *)''),
    Member ''u'' (Comp Union False [
      Member ''stp_state'' t_u8,
      Member ''mst_state'' struct_switchdev_mst_state,
      Member ''brport_flags'' struct_switchdev_brport_flags,
      Member ''mrouter'' t_bool,
      Member ''ageing_time'' t_clock_t,
      Member ''vlan_filtering'' t_bool,
      Member ''vlan_protocol'' t_u16,
      Member ''mst'' t_bool,
      Member ''mc_disabled'' t_bool,
      Member ''mrp_port_role'' t_u8,
      Member ''vlan_msti'' struct_switchdev_vlan_msti])]"

definition struct_switchdev_brport :: ctype where
  "struct_switchdev_brport = Comp Struct False [
    Member ''dev'' (Ptr ''struct net_device *''),
    Member ''ctx'' (Ptr ''void *''),
    Member ''atomic_nb'' (Ptr ''struct notifier_block *''),
    Member ''blocking_nb'' (Ptr ''struct notifier_block *''),
    Member ''tx_fwd_offload'' t_bool]"

definition struct_switchdev_deferred_item :: ctype where
  "struct_switchdev_deferred_item = Comp Struct False [
    Member ''list'' struct_list_head,
    Member ''dev'' (Ptr ''struct net_device *''),
    Member ''dev_tracker'' t_netdevice_tracker,
    Member ''func'' (Ptr ''switchdev_deferred_func_t *''),
    Member ''data'' (Array 0 c_unsigned_long)]"

definition struct_switchdev_nested_priv :: ctype where
  "struct_switchdev_nested_priv = Comp Struct False [
    Member ''check_cb'' (Ptr ''bool (*)(const struct net_device *)''),
    Member ''foreign_dev_check_cb'' (Ptr ''bool (*)(const struct net_device *, const struct net_device *)''),
    Member ''dev'' (Ptr ''struct net_device *''),
    Member ''lower_dev'' (Ptr ''struct net_device *'')]"

definition struct_switchdev_notifier_info :: ctype where
  "struct_switchdev_notifier_info = Comp Struct False [
    Member ''dev'' (Ptr ''struct net_device *''),
    Member ''extack'' (Ptr ''struct netlink_ext_ack *''),
    Member ''ctx'' (Ptr ''void *'')]"

definition struct_switchdev_notifier_brport_info :: ctype where
  "struct_switchdev_notifier_brport_info = Comp Struct False [
    Member ''info'' struct_switchdev_notifier_info,
    Member ''brport'' struct_switchdev_brport]"

definition struct_switchdev_notifier_fdb_info :: ctype where
  "struct_switchdev_notifier_fdb_info = Comp Struct False [
    Member ''info'' struct_switchdev_notifier_info,
    Member ''addr'' (Ptr ''unsigned char *''),
    Member ''vid'' t_u16,
    BitField ''added_by_user'' t_u8 1,
    BitField ''is_local'' t_u8 1,
    BitField ''locked'' t_u8 1,
    BitField ''offloaded'' t_u8 1]"

definition struct_switchdev_notifier_port_attr_info :: ctype where
  "struct_switchdev_notifier_port_attr_info = Comp Struct False [
    Member ''info'' struct_switchdev_notifier_info,
    Member ''attr'' (Ptr ''struct switchdev_attr *''),
    Member ''handled'' t_bool]"

definition struct_switchdev_notifier_port_obj_info :: ctype where
  "struct_switchdev_notifier_port_obj_info = Comp Struct False [
    Member ''info'' struct_switchdev_notifier_info,
    Member ''obj'' (Ptr ''struct switchdev_obj *''),
    Member ''handled'' t_bool]"

definition union_vxlan_addr :: ctype where
  "union_vxlan_addr = Comp Union False [
    Member ''sin'' struct_sockaddr_in,
    Member ''sin6'' struct_sockaddr_in6,
    Member ''sa'' struct_sockaddr]"

definition struct_switchdev_notifier_vxlan_fdb_info :: ctype where
  "struct_switchdev_notifier_vxlan_fdb_info = Comp Struct False [
    Member ''info'' struct_switchdev_notifier_info,
    Member ''remote_ip'' union_vxlan_addr,
    Member ''remote_port'' t___be16,
    Member ''remote_vni'' t___be32,
    Member ''remote_ifindex'' t_u32,
    Member ''eth_addr'' (Array 6 t_u8),
    Member ''vni'' t___be32,
    Member ''offloaded'' t_bool,
    Member ''added_by_user'' t_bool]"

definition struct_switchdev_obj :: ctype where
  "struct_switchdev_obj = Comp Struct False [
    Member ''list'' struct_list_head,
    Member ''orig_dev'' (Ptr ''struct net_device *''),
    Member ''id'' enum_switchdev_obj_id,
    Member ''flags'' t_u32,
    Member ''complete_priv'' (Ptr ''void *''),
    Member ''complete'' (Ptr ''void (*)(struct net_device *, int, void *)'')]"

definition struct_switchdev_obj_port_mdb :: ctype where
  "struct_switchdev_obj_port_mdb = Comp Struct False [
    Member ''obj'' struct_switchdev_obj,
    Member ''addr'' (Array 6 c_unsigned_char),
    Member ''vid'' t_u16]"

definition struct_switchdev_obj_port_vlan :: ctype where
  "struct_switchdev_obj_port_vlan = Comp Struct False [
    Member ''obj'' struct_switchdev_obj,
    Member ''flags'' t_u16,
    Member ''vid'' t_u16,
    Member ''changed'' t_bool]"

definition struct_tc_act_bpf :: ctype where
  "struct_tc_act_bpf = Comp Struct False [
    Member ''index'' t___u32,
    Member ''capab'' t___u32,
    Member ''action'' c_int,
    Member ''refcnt'' c_int,
    Member ''bindcnt'' c_int]"

definition struct_tc_act_pernet_id :: ctype where
  "struct_tc_act_pernet_id = Comp Struct False [
    Member ''list'' struct_list_head,
    Member ''id'' c_unsigned_int]"

definition struct_tcf_t :: ctype where
  "struct_tcf_t = Comp Struct False [
    Member ''install'' t___u64,
    Member ''lastuse'' t___u64,
    Member ''expires'' t___u64,
    Member ''firstuse'' t___u64]"

definition struct_tc_action :: ctype where
  "struct_tc_action = Comp Struct False [
    Member ''ops'' (Ptr ''struct tc_action_ops *''),
    Member ''type'' t___u32,
    Member ''idrinfo'' (Ptr ''struct tcf_idrinfo *''),
    Member ''tcfa_index'' t_u32,
    Member ''tcfa_refcnt'' t_refcount_t,
    Member ''tcfa_bindcnt'' t_atomic_t,
    Member ''tcfa_action'' c_int,
    Member ''tcfa_tm'' struct_tcf_t,
    BitField '''' c_long 64,
    Member ''tcfa_bstats'' struct_gnet_stats_basic_sync,
    Member ''tcfa_bstats_hw'' struct_gnet_stats_basic_sync,
    Member ''tcfa_qstats'' struct_gnet_stats_queue,
    Member ''tcfa_rate_est'' (Ptr ''struct net_rate_estimator *''),
    Member ''tcfa_lock'' t_spinlock_t,
    Member ''cpu_bstats'' (Ptr ''struct gnet_stats_basic_sync *''),
    Member ''cpu_bstats_hw'' (Ptr ''struct gnet_stats_basic_sync *''),
    Member ''cpu_qstats'' (Ptr ''struct gnet_stats_queue *''),
    Member ''user_cookie'' (Ptr ''struct tc_cookie *''),
    Member ''goto_chain'' (Ptr ''struct tcf_chain *''),
    Member ''tcfa_flags'' t_u32,
    Member ''hw_stats'' t_u8,
    Member ''used_hw_stats'' t_u8,
    Member ''used_hw_stats_valid'' t_bool,
    Member ''in_hw_count'' t_u32]"

definition struct_tc_action_net :: ctype where
  "struct_tc_action_net = Comp Struct False [
    Member ''idrinfo'' (Ptr ''struct tcf_idrinfo *''),
    Member ''ops'' (Ptr ''struct tc_action_ops *'')]"

definition enum_tca_id :: ctype where
  "enum_tca_id = Enum False [
    (''TCA_ID_UNSPEC'', 0), (''TCA_ID_POLICE'', 1), (''TCA_ID_GACT'', 5), (''TCA_ID_IPT'', 6),
    (''TCA_ID_PEDIT'', 7), (''TCA_ID_MIRRED'', 8), (''TCA_ID_NAT'', 9), (''TCA_ID_XT'', 10),
    (''TCA_ID_SKBEDIT'', 11), (''TCA_ID_VLAN'', 12), (''TCA_ID_BPF'', 13),
    (''TCA_ID_CONNMARK'', 14), (''TCA_ID_SKBMOD'', 15), (''TCA_ID_CSUM'', 16),
    (''TCA_ID_TUNNEL_KEY'', 17), (''TCA_ID_SIMP'', 22), (''TCA_ID_IFE'', 25),
    (''TCA_ID_SAMPLE'', 26), (''TCA_ID_CTINFO'', 27), (''TCA_ID_MPLS'', 28), (''TCA_ID_CT'', 29),
    (''TCA_ID_GATE'', 30), (''__TCA_ID_MAX'', 255)]"

definition struct_tc_action_ops :: ctype where
  "struct_tc_action_ops = Comp Struct False [
    Member ''head'' struct_list_head,
    Member ''kind'' (Array 16 c_char),
    Member ''id'' enum_tca_id,
    Member ''net_id'' c_unsigned_int,
    Member ''size'' t_size_t,
    Member ''owner'' (Ptr ''struct module *''),
    Member ''act'' (Ptr ''int (*)(struct sk_buff *, const struct tc_action *, struct tcf_result *)''),
    Member ''dump'' (Ptr ''int (*)(struct sk_buff *, struct tc_action *, int, int)''),
    Member ''cleanup'' (Ptr ''void (*)(struct tc_action *)''),
    Member ''lookup'' (Ptr ''int (*)(struct net *, struct tc_action **, u32)''),
    Member ''init'' (Ptr ''int (*)(struct net *, struct nlattr *, struct nlattr *, struct tc_action **, struct tcf_proto *, u32, struct netlink_ext_ack *)''),
    Member ''walk'' (Ptr ''int (*)(struct net *, struct sk_buff *, struct netlink_callback *, int, const struct tc_action_ops *, struct netlink_ext_ack *)''),
    Member ''stats_update'' (Ptr ''void (*)(struct tc_action *, u64, u64, u64, u64, bool)''),
    Member ''get_fill_size'' (Ptr ''size_t (*)(const struct tc_action *)''),
    Member ''get_dev'' (Ptr ''struct net_device * (*)(const struct tc_action *, tc_action_priv_destructor *)''),
    Member ''get_psample_group'' (Ptr ''struct psample_group * (*)(const struct tc_action *, tc_action_priv_destructor *)''),
    Member ''offload_act_setup'' (Ptr ''int (*)(struct tc_action *, void *, u32 *, bool, struct netlink_ext_ack *)'')]"

definition struct_tc_basic_pcnt :: ctype where
  "struct_tc_basic_pcnt = Comp Struct False [
    Member ''rcnt'' t___u64,
    Member ''rhit'' t___u64]"

definition struct_tc_bind_class_args :: ctype where
  "struct_tc_bind_class_args = Comp Struct False [
    Member ''w'' struct_qdisc_walker,
    Member ''new_cl'' c_unsigned_long,
    Member ''portid'' t_u32,
    Member ''clid'' t_u32]"

definition struct_tc_cbs_qopt :: ctype where
  "struct_tc_cbs_qopt = Comp Struct False [
    Member ''offload'' t___u8,
    Member ''_pad'' (Array 3 t___u8),
    Member ''hicredit'' t___s32,
    Member ''locredit'' t___s32,
    Member ''idleslope'' t___s32,
    Member ''sendslope'' t___s32]"

definition struct_tc_cbs_qopt_offload :: ctype where
  "struct_tc_cbs_qopt_offload = Comp Struct False [
    Member ''enable'' t_u8,
    Member ''queue'' t_s32,
    Member ''hicredit'' t_s32,
    Member ''locredit'' t_s32,
    Member ''idleslope'' t_s32,
    Member ''sendslope'' t_s32]"

definition struct_tc_choke_xstats :: ctype where
  "struct_tc_choke_xstats = Comp Struct False [
    Member ''early'' t___u32,
    Member ''pdrop'' t___u32,
    Member ''other'' t___u32,
    Member ''marked'' t___u32,
    Member ''matched'' t___u32]"

definition struct_tc_cls_bpf_offload :: ctype where
  "struct_tc_cls_bpf_offload = Comp Struct False [
    Member ''common'' struct_flow_cls_common_offload,
    Member ''command'' enum_tc_clsbpf_command,
    Member ''exts'' (Ptr ''struct tcf_exts *''),
    Member ''prog'' (Ptr ''struct bpf_prog *''),
    Member ''oldprog'' (Ptr ''struct bpf_prog *''),
    Member ''name'' (Ptr ''char *''),
    Member ''exts_integrated'' t_bool]"

definition struct_tc_cls_u32_hnode :: ctype where
  "struct_tc_cls_u32_hnode = Comp Struct False [
    Member ''handle'' t_u32,
    Member ''prio'' t_u32,
    Member ''divisor'' c_unsigned_int]"

definition struct_tc_cls_u32_knode :: ctype where
  "struct_tc_cls_u32_knode = Comp Struct False [
    Member ''exts'' (Ptr ''struct tcf_exts *''),
    Member ''res'' (Ptr ''struct tcf_result *''),
    Member ''sel'' (Ptr ''struct tc_u32_sel *''),
    Member ''handle'' t_u32,
    Member ''val'' t_u32,
    Member ''mask'' t_u32,
    Member ''link_handle'' t_u32,
    Member ''fshift'' t_u8]"

definition struct_tc_cls_u32_offload :: ctype where
  "struct_tc_cls_u32_offload = Comp Struct False [
    Member ''common'' struct_flow_cls_common_offload,
    Member ''command'' enum_tc_clsu32_command,
    Member '''' (Comp Union False [
      Member ''knode'' struct_tc_cls_u32_knode,
      Member ''hnode'' struct_tc_cls_u32_hnode])]"

definition struct_tc_codel_xstats :: ctype where
  "struct_tc_codel_xstats = Comp Struct False [
    Member ''maxpacket'' t___u32,
    Member ''count'' t___u32,
    Member ''lastcount'' t___u32,
    Member ''ldelay'' t___u32,
    Member ''drop_next'' t___s32,
    Member ''drop_overlimit'' t___u32,
    Member ''ecn_mark'' t___u32,
    Member ''dropping'' t___u32,
    Member ''ce_mark'' t___u32]"

definition struct_tc_cookie :: ctype where
  "struct_tc_cookie = Comp Struct False [
    Member ''data'' (Ptr ''u8 *''),
    Member ''len'' t_u32,
    Member ''rcu'' struct_callback_head]"

definition struct_tc_drr_stats :: ctype where
  "struct_tc_drr_stats = Comp Struct False [
    Member ''deficit'' t___u32]"

definition struct_tc_etf_qopt :: ctype where
  "struct_tc_etf_qopt = Comp Struct False [
    Member ''delta'' t___s32,
    Member ''clockid'' t___s32,
    Member ''flags'' t___u32]"

definition struct_tc_etf_qopt_offload :: ctype where
  "struct_tc_etf_qopt_offload = Comp Struct False [
    Member ''enable'' t_u8,
    Member ''queue'' t_s32]"

definition struct_tc_ets_qopt_offload_replace_params :: ctype where
  "struct_tc_ets_qopt_offload_replace_params = Comp Struct False [
    Member ''bands'' c_unsigned_int,
    Member ''priomap'' (Array 16 t_u8),
    Member ''quanta'' (Array 16 c_unsigned_int),
    Member ''weights'' (Array 16 c_unsigned_int),
    Member ''qstats'' (Ptr ''struct gnet_stats_queue *'')]"

definition struct_tc_qopt_offload_stats :: ctype where
  "struct_tc_qopt_offload_stats = Comp Struct False [
    Member ''bstats'' (Ptr ''struct gnet_stats_basic_sync *''),
    Member ''qstats'' (Ptr ''struct gnet_stats_queue *'')]"

definition struct_tc_ets_qopt_offload_graft_params :: ctype where
  "struct_tc_ets_qopt_offload_graft_params = Comp Struct False [
    Member ''band'' t_u8,
    Member ''child_handle'' t_u32]"

definition struct_tc_ets_qopt_offload :: ctype where
  "struct_tc_ets_qopt_offload = Comp Struct False [
    Member ''command'' enum_tc_ets_command,
    Member ''handle'' t_u32,
    Member ''parent'' t_u32,
    Member '''' (Comp Union False [
      Member ''replace_params'' struct_tc_ets_qopt_offload_replace_params,
      Member ''stats'' struct_tc_qopt_offload_stats,
      Member ''graft_params'' struct_tc_ets_qopt_offload_graft_params])]"

definition struct_tc_fifo_qopt :: ctype where
  "struct_tc_fifo_qopt = Comp Struct False [
    Member ''limit'' t___u32]"

definition struct_tc_fifo_qopt_offload :: ctype where
  "struct_tc_fifo_qopt_offload = Comp Struct False [
    Member ''command'' enum_tc_fifo_command,
    Member ''handle'' t_u32,
    Member ''parent'' t_u32,
    Member '''' (Comp Union False [
      Member ''stats'' struct_tc_qopt_offload_stats])]"

definition struct_tc_fq_codel_cl_stats :: ctype where
  "struct_tc_fq_codel_cl_stats = Comp Struct False [
    Member ''deficit'' t___s32,
    Member ''ldelay'' t___u32,
    Member ''count'' t___u32,
    Member ''lastcount'' t___u32,
    Member ''dropping'' t___u32,
    Member ''drop_next'' t___s32]"

definition struct_tc_fq_codel_qd_stats :: ctype where
  "struct_tc_fq_codel_qd_stats = Comp Struct False [
    Member ''maxpacket'' t___u32,
    Member ''drop_overlimit'' t___u32,
    Member ''ecn_mark'' t___u32,
    Member ''new_flow_count'' t___u32,
    Member ''new_flows_len'' t___u32,
    Member ''old_flows_len'' t___u32,
    Member ''ce_mark'' t___u32,
    Member ''memory_usage'' t___u32,
    Member ''drop_overmemory'' t___u32]"

definition struct_tc_fq_codel_xstats :: ctype where
  "struct_tc_fq_codel_xstats = Comp Struct False [
    Member ''type'' t___u32,
    Member '''' (Comp Union False [
      Member ''qdisc_stats'' struct_tc_fq_codel_qd_stats,
      Member ''class_stats'' struct_tc_fq_codel_cl_stats])]"

definition struct_tc_fq_pie_xstats :: ctype where
  "struct_tc_fq_pie_xstats = Comp Struct False [
    Member ''packets_in'' t___u32,
    Member ''dropped'' t___u32,
    Member ''overlimit'' t___u32,
    Member ''overmemory'' t___u32,
    Member ''ecn_mark'' t___u32,
    Member ''new_flow_count'' t___u32,
    Member ''new_flows_len'' t___u32,
    Member ''old_flows_len'' t___u32,
    Member ''memory_usage'' t___u32]"

definition struct_tc_fq_qd_stats :: ctype where
  "struct_tc_fq_qd_stats = Comp Struct False [
    Member ''gc_flows'' t___u64,
    Member ''highprio_packets'' t___u64,
    Member ''tcp_retrans'' t___u64,
    Member ''throttled'' t___u64,
    Member ''flows_plimit'' t___u64,
    Member ''pkts_too_long'' t___u64,
    Member ''allocation_errors'' t___u64,
    Member ''time_next_delayed_flow'' t___s64,
    Member ''flows'' t___u32,
    Member ''inactive_flows'' t___u32,
    Member ''throttled_flows'' t___u32,
    Member ''unthrottle_latency_ns'' t___u32,
    Member ''ce_mark'' t___u64,
    Member ''horizon_drops'' t___u64,
    Member ''horizon_caps'' t___u64,
    Member ''fastpath_packets'' t___u64,
    Member ''band_drops'' (Array 3 t___u64),
    Member ''band_pkt_count'' (Array 3 t___u32),
    Member ''pad'' t___u32]"

definition struct_tc_gact :: ctype where
  "struct_tc_gact = Comp Struct False [
    Member ''index'' t___u32,
    Member ''capab'' t___u32,
    Member ''action'' c_int,
    Member ''refcnt'' c_int,
    Member ''bindcnt'' c_int]"

definition struct_tc_gred_qopt :: ctype where
  "struct_tc_gred_qopt = Comp Struct False [
    Member ''limit'' t___u32,
    Member ''qth_min'' t___u32,
    Member ''qth_max'' t___u32,
    Member ''DP'' t___u32,
    Member ''backlog'' t___u32,
    Member ''qave'' t___u32,
    Member ''forced'' t___u32,
    Member ''early'' t___u32,
    Member ''other'' t___u32,
    Member ''pdrop'' t___u32,
    Member ''Wlog'' t___u8,
    Member ''Plog'' t___u8,
    Member ''Scell_log'' t___u8,
    Member ''prio'' t___u8,
    Member ''packets'' t___u32,
    Member ''bytesin'' t___u32]"

definition struct_tc_gred_vq_qopt_offload_params :: ctype where
  "struct_tc_gred_vq_qopt_offload_params = Comp Struct False [
    Member ''present'' t_bool,
    Member ''limit'' t_u32,
    Member ''prio'' t_u32,
    Member ''min'' t_u32,
    Member ''max'' t_u32,
    Member ''is_ecn'' t_bool,
    Member ''is_harddrop'' t_bool,
    Member ''probability'' t_u32,
    Member ''backlog'' (Ptr ''u32 *'')]"

definition struct_tc_gred_qopt_offload_params :: ctype where
  "struct_tc_gred_qopt_offload_params = Comp Struct False [
    Member ''grio_on'' t_bool,
    Member ''wred_on'' t_bool,
    Member ''dp_cnt'' c_unsigned_int,
    Member ''dp_def'' c_unsigned_int,
    Member ''qstats'' (Ptr ''struct gnet_stats_queue *''),
    Member ''tab'' (Array 16 struct_tc_gred_vq_qopt_offload_params)]"

definition struct_tc_gred_qopt_offload_stats :: ctype where
  "struct_tc_gred_qopt_offload_stats = Comp Struct False [
    Member ''bstats'' (Array 16 struct_gnet_stats_basic_sync),
    Member ''qstats'' (Array 16 struct_gnet_stats_queue),
    Member ''xstats'' (Array 16 (Ptr ''struct red_stats *''))]"

definition struct_tc_gred_qopt_offload :: ctype where
  "struct_tc_gred_qopt_offload = Comp Struct False [
    Member ''command'' enum_tc_gred_command,
    Member ''handle'' t_u32,
    Member ''parent'' t_u32,
    Member '''' (Comp Union False [
      Member ''set'' struct_tc_gred_qopt_offload_params,
      Member ''stats'' struct_tc_gred_qopt_offload_stats])]"

definition struct_tc_gred_sopt :: ctype where
  "struct_tc_gred_sopt = Comp Struct False [
    Member ''DPs'' t___u32,
    Member ''def_DP'' t___u32,
    Member ''grio'' t___u8,
    Member ''flags'' t___u8,
    Member ''pad1'' t___u16]"

definition struct_tc_hfsc_qopt :: ctype where
  "struct_tc_hfsc_qopt = Comp Struct False [
    Member ''defcls'' t___u16]"

definition struct_tc_hfsc_stats :: ctype where
  "struct_tc_hfsc_stats = Comp Struct False [
    Member ''work'' t___u64,
    Member ''rtwork'' t___u64,
    Member ''period'' t___u32,
    Member ''level'' t___u32]"

definition struct_tc_hhf_xstats :: ctype where
  "struct_tc_hhf_xstats = Comp Struct False [
    Member ''drop_overlimit'' t___u32,
    Member ''hh_overlimit'' t___u32,
    Member ''hh_tot_count'' t___u32,
    Member ''hh_cur_count'' t___u32]"

definition struct_tc_htb_glob :: ctype where
  "struct_tc_htb_glob = Comp Struct False [
    Member ''version'' t___u32,
    Member ''rate2quantum'' t___u32,
    Member ''defcls'' t___u32,
    Member ''debug'' t___u32,
    Member ''direct_pkts'' t___u32]"

definition struct_tc_htb_opt :: ctype where
  "struct_tc_htb_opt = Comp Struct False [
    Member ''rate'' struct_tc_ratespec,
    Member ''ceil'' struct_tc_ratespec,
    Member ''buffer'' t___u32,
    Member ''cbuffer'' t___u32,
    Member ''quantum'' t___u32,
    Member ''level'' t___u32,
    Member ''prio'' t___u32]"

definition struct_tc_htb_qopt_offload :: ctype where
  "struct_tc_htb_qopt_offload = Comp Struct False [
    Member ''extack'' (Ptr ''struct netlink_ext_ack *''),
    Member ''command'' enum_tc_htb_command,
    Member ''parent_classid'' t_u32,
    Member ''classid'' t_u16,
    Member ''qid'' t_u16,
    Member ''quantum'' t_u32,
    Member ''rate'' t_u64,
    Member ''ceil'' t_u64,
    Member ''prio'' t_u8]"

definition struct_tc_mirred :: ctype where
  "struct_tc_mirred = Comp Struct False [
    Member ''index'' t___u32,
    Member ''capab'' t___u32,
    Member ''action'' c_int,
    Member ''refcnt'' c_int,
    Member ''bindcnt'' c_int,
    Member ''eaction'' c_int,
    Member ''ifindex'' t___u32]"

definition struct_tc_mq_opt_offload_graft_params :: ctype where
  "struct_tc_mq_opt_offload_graft_params = Comp Struct False [
    Member ''queue'' c_unsigned_long,
    Member ''child_handle'' t_u32]"

definition struct_tc_mq_qopt_offload :: ctype where
  "struct_tc_mq_qopt_offload = Comp Struct False [
    Member ''command'' enum_tc_mq_command,
    Member ''handle'' t_u32,
    Member '''' (Comp Union False [
      Member ''stats'' struct_tc_qopt_offload_stats,
      Member ''graft_params'' struct_tc_mq_opt_offload_graft_params])]"

definition struct_tc_mqprio_caps :: ctype where
  "struct_tc_mqprio_caps = Comp Struct False [
    BitField ''validate_queue_counts'' t_bool 1]"

definition struct_tc_multiq_qopt :: ctype where
  "struct_tc_multiq_qopt = Comp Struct False [
    Member ''bands'' t___u16,
    Member ''max_bands'' t___u16]"

definition struct_tc_netem_corr :: ctype where
  "struct_tc_netem_corr = Comp Struct False [
    Member ''delay_corr'' t___u32,
    Member ''loss_corr'' t___u32,
    Member ''dup_corr'' t___u32]"

definition struct_tc_netem_corrupt :: ctype where
  "struct_tc_netem_corrupt = Comp Struct False [
    Member ''probability'' t___u32,
    Member ''correlation'' t___u32]"

definition struct_tc_netem_gemodel :: ctype where
  "struct_tc_netem_gemodel = Comp Struct False [
    Member ''p'' t___u32,
    Member ''r'' t___u32,
    Member ''h'' t___u32,
    Member ''k1'' t___u32]"

definition struct_tc_netem_gimodel :: ctype where
  "struct_tc_netem_gimodel = Comp Struct False [
    Member ''p13'' t___u32,
    Member ''p31'' t___u32,
    Member ''p32'' t___u32,
    Member ''p14'' t___u32,
    Member ''p23'' t___u32]"

definition struct_tc_netem_qopt :: ctype where
  "struct_tc_netem_qopt = Comp Struct False [
    Member ''latency'' t___u32,
    Member ''limit'' t___u32,
    Member ''loss'' t___u32,
    Member ''gap'' t___u32,
    Member ''duplicate'' t___u32,
    Member ''jitter'' t___u32]"

definition struct_tc_netem_rate :: ctype where
  "struct_tc_netem_rate = Comp Struct False [
    Member ''rate'' t___u32,
    Member ''packet_overhead'' t___s32,
    Member ''cell_size'' t___u32,
    Member ''cell_overhead'' t___s32]"

definition struct_tc_netem_reorder :: ctype where
  "struct_tc_netem_reorder = Comp Struct False [
    Member ''probability'' t___u32,
    Member ''correlation'' t___u32]"

definition struct_tc_pedit_key :: ctype where
  "struct_tc_pedit_key = Comp Struct False [
    Member ''mask'' t___u32,
    Member ''val'' t___u32,
    Member ''off'' t___u32,
    Member ''at'' t___u32,
    Member ''offmask'' t___u32,
    Member ''shift'' t___u32]"

definition struct_tc_pie_xstats :: ctype where
  "struct_tc_pie_xstats = Comp Struct False [
    Member ''prob'' t___u64,
    Member ''delay'' t___u32,
    Member ''avg_dq_rate'' t___u32,
    Member ''dq_rate_estimating'' t___u32,
    Member ''packets_in'' t___u32,
    Member ''dropped'' t___u32,
    Member ''overlimit'' t___u32,
    Member ''maxq'' t___u32,
    Member ''ecn_mark'' t___u32]"

definition struct_tc_plug_qopt :: ctype where
  "struct_tc_plug_qopt = Comp Struct False [
    Member ''action'' c_int,
    Member ''limit'' t___u32]"

definition struct_tc_prio_qopt :: ctype where
  "struct_tc_prio_qopt = Comp Struct False [
    Member ''bands'' c_int,
    Member ''priomap'' (Array 16 t___u8)]"

definition struct_tc_prio_qopt_offload_params :: ctype where
  "struct_tc_prio_qopt_offload_params = Comp Struct False [
    Member ''bands'' c_int,
    Member ''priomap'' (Array 16 t_u8),
    Member ''qstats'' (Ptr ''struct gnet_stats_queue *'')]"

definition struct_tc_prio_qopt_offload_graft_params :: ctype where
  "struct_tc_prio_qopt_offload_graft_params = Comp Struct False [
    Member ''band'' t_u8,
    Member ''child_handle'' t_u32]"

definition struct_tc_prio_qopt_offload :: ctype where
  "struct_tc_prio_qopt_offload = Comp Struct False [
    Member ''command'' enum_tc_prio_command,
    Member ''handle'' t_u32,
    Member ''parent'' t_u32,
    Member '''' (Comp Union False [
      Member ''replace_params'' struct_tc_prio_qopt_offload_params,
      Member ''stats'' struct_tc_qopt_offload_stats,
      Member ''graft_params'' struct_tc_prio_qopt_offload_graft_params])]"

definition struct_tc_qfq_stats :: ctype where
  "struct_tc_qfq_stats = Comp Struct False [
    Member ''weight'' t___u32,
    Member ''lmax'' t___u32]"

definition struct_tc_query_caps_base :: ctype where
  "struct_tc_query_caps_base = Comp Struct False [
    Member ''type'' enum_tc_setup_type,
    Member ''caps'' (Ptr ''void *'')]"

definition struct_tc_red_qopt :: ctype where
  "struct_tc_red_qopt = Comp Struct False [
    Member ''limit'' t___u32,
    Member ''qth_min'' t___u32,
    Member ''qth_max'' t___u32,
    Member ''Wlog'' c_unsigned_char,
    Member ''Plog'' c_unsigned_char,
    Member ''Scell_log'' c_unsigned_char,
    Member ''flags'' c_unsigned_char]"

definition struct_tc_red_qopt_offload_params :: ctype where
  "struct_tc_red_qopt_offload_params = Comp Struct False [
    Member ''min'' t_u32,
    Member ''max'' t_u32,
    Member ''probability'' t_u32,
    Member ''limit'' t_u32,
    Member ''is_ecn'' t_bool,
    Member ''is_harddrop'' t_bool,
    Member ''is_nodrop'' t_bool,
    Member ''qstats'' (Ptr ''struct gnet_stats_queue *'')]"

definition struct_tc_red_qopt_offload :: ctype where
  "struct_tc_red_qopt_offload = Comp Struct False [
    Member ''command'' enum_tc_red_command,
    Member ''handle'' t_u32,
    Member ''parent'' t_u32,
    Member '''' (Comp Union False [
      Member ''set'' struct_tc_red_qopt_offload_params,
      Member ''stats'' struct_tc_qopt_offload_stats,
      Member ''xstats'' (Ptr ''struct red_stats *''),
      Member ''child_handle'' t_u32])]"

definition struct_tc_red_xstats :: ctype where
  "struct_tc_red_xstats = Comp Struct False [
    Member ''early'' t___u32,
    Member ''pdrop'' t___u32,
    Member ''other'' t___u32,
    Member ''marked'' t___u32]"

definition struct_tc_root_qopt_offload :: ctype where
  "struct_tc_root_qopt_offload = Comp Struct False [
    Member ''command'' enum_tc_root_command,
    Member ''handle'' t_u32,
    Member ''ingress'' t_bool]"

definition struct_tc_service_curve :: ctype where
  "struct_tc_service_curve = Comp Struct False [
    Member ''m1'' t___u32,
    Member ''d'' t___u32,
    Member ''m2'' t___u32]"

definition struct_tc_sfb_qopt :: ctype where
  "struct_tc_sfb_qopt = Comp Struct False [
    Member ''rehash_interval'' t___u32,
    Member ''warmup_time'' t___u32,
    Member ''max'' t___u32,
    Member ''bin_size'' t___u32,
    Member ''increment'' t___u32,
    Member ''decrement'' t___u32,
    Member ''limit'' t___u32,
    Member ''penalty_rate'' t___u32,
    Member ''penalty_burst'' t___u32]"

definition struct_tc_sfb_xstats :: ctype where
  "struct_tc_sfb_xstats = Comp Struct False [
    Member ''earlydrop'' t___u32,
    Member ''penaltydrop'' t___u32,
    Member ''bucketdrop'' t___u32,
    Member ''queuedrop'' t___u32,
    Member ''childdrop'' t___u32,
    Member ''marked'' t___u32,
    Member ''maxqlen'' t___u32,
    Member ''maxprob'' t___u32,
    Member ''avgprob'' t___u32]"

definition struct_tc_sfq_qopt :: ctype where
  "struct_tc_sfq_qopt = Comp Struct False [
    Member ''quantum'' c_unsigned_int,
    Member ''perturb_period'' c_int,
    Member ''limit'' t___u32,
    Member ''divisor'' c_unsigned_int,
    Member ''flows'' c_unsigned_int]"

definition struct_tc_sfq_qopt_v1 :: ctype where
  "struct_tc_sfq_qopt_v1 = Comp Struct False [
    Member ''v0'' struct_tc_sfq_qopt,
    Member ''depth'' c_unsigned_int,
    Member ''headdrop'' c_unsigned_int,
    Member ''limit'' t___u32,
    Member ''qth_min'' t___u32,
    Member ''qth_max'' t___u32,
    Member ''Wlog'' c_unsigned_char,
    Member ''Plog'' c_unsigned_char,
    Member ''Scell_log'' c_unsigned_char,
    Member ''flags'' c_unsigned_char,
    Member ''max_P'' t___u32,
    Member ''stats'' struct_tc_sfqred_stats]"

definition struct_tc_sfq_xstats :: ctype where
  "struct_tc_sfq_xstats = Comp Struct False [
    Member ''allot'' t___s32]"

definition struct_tc_skb_cb :: ctype where
  "struct_tc_skb_cb = Comp Struct False [
    Member ''qdisc_cb'' struct_qdisc_skb_cb,
    Member ''drop_reason'' t_u32,
    Member ''zone'' t_u16,
    Member ''mru'' t_u16,
    BitField ''post_ct'' t_u8 1,
    BitField ''post_ct_snat'' t_u8 1,
    BitField ''post_ct_dnat'' t_u8 1]"

definition struct_tc_skbprio_qopt :: ctype where
  "struct_tc_skbprio_qopt = Comp Struct False [
    Member ''limit'' t___u32]"

definition struct_tc_taprio_caps :: ctype where
  "struct_tc_taprio_caps = Comp Struct False [
    BitField ''supports_queue_max_sdu'' t_bool 1,
    BitField ''gate_mask_per_txq'' t_bool 1,
    BitField ''broken_mqprio'' t_bool 1]"

definition struct_tc_tbf_qopt :: ctype where
  "struct_tc_tbf_qopt = Comp Struct False [
    Member ''rate'' struct_tc_ratespec,
    Member ''peakrate'' struct_tc_ratespec,
    Member ''limit'' t___u32,
    Member ''buffer'' t___u32,
    Member ''mtu'' t___u32]"

definition struct_tc_tbf_qopt_offload_replace_params :: ctype where
  "struct_tc_tbf_qopt_offload_replace_params = Comp Struct False [
    Member ''rate'' struct_psched_ratecfg,
    Member ''max_size'' t_u32,
    Member ''qstats'' (Ptr ''struct gnet_stats_queue *'')]"

definition struct_tc_tbf_qopt_offload :: ctype where
  "struct_tc_tbf_qopt_offload = Comp Struct False [
    Member ''command'' enum_tc_tbf_command,
    Member ''handle'' t_u32,
    Member ''parent'' t_u32,
    Member '''' (Comp Union False [
      Member ''replace_params'' struct_tc_tbf_qopt_offload_replace_params,
      Member ''stats'' struct_tc_qopt_offload_stats,
      Member ''child_handle'' t_u32])]"

definition struct_tc_u32_key :: ctype where
  "struct_tc_u32_key = Comp Struct False [
    Member ''mask'' t___be32,
    Member ''val'' t___be32,
    Member ''off'' c_int,
    Member ''offmask'' c_int]"

definition struct_tc_u32_mark :: ctype where
  "struct_tc_u32_mark = Comp Struct False [
    Member ''val'' t___u32,
    Member ''mask'' t___u32,
    Member ''success'' t___u32]"

definition struct_tc_u32_pcnt :: ctype where
  "struct_tc_u32_pcnt = Comp Struct False [
    Member ''rcnt'' t___u64,
    Member ''rhit'' t___u64,
    Member ''kcnts'' (Array 0 t___u64)]"

definition struct_tc_u32_sel_hdr :: ctype where
  "struct_tc_u32_sel_hdr = Comp Struct False [
    Member ''flags'' c_unsigned_char,
    Member ''offshift'' c_unsigned_char,
    Member ''nkeys'' c_unsigned_char,
    Member ''offmask'' t___be16,
    Member ''off'' t___u16,
    Member ''offoff'' c_short,
    Member ''hoff'' c_short,
    Member ''hmask'' t___be32]"

definition struct_tc_u32_sel :: ctype where
  "struct_tc_u32_sel = Comp Struct False [
    Member '''' (Comp Union False [
      Member '''' (Comp Struct False [
        Member ''flags'' c_unsigned_char,
        Member ''offshift'' c_unsigned_char,
        Member ''nkeys'' c_unsigned_char,
        Member ''offmask'' t___be16,
        Member ''off'' t___u16,
        Member ''offoff'' c_short,
        Member ''hoff'' c_short,
        Member ''hmask'' t___be32]),
      Member ''hdr'' struct_tc_u32_sel_hdr]),
    Member ''keys'' (Array 0 struct_tc_u32_key)]"

definition struct_tc_u_common :: ctype where
  "struct_tc_u_common = Comp Struct False [
    Member ''hlist'' (Ptr ''struct tc_u_hnode *''),
    Member ''ptr'' (Ptr ''void *''),
    Member ''refcnt'' t_refcount_t,
    Member ''handle_idr'' struct_idr,
    Member ''hnode'' struct_hlist_node,
    Member ''knodes'' c_long]"

definition struct_tc_u_hnode :: ctype where
  "struct_tc_u_hnode = Comp Struct False [
    Member ''next'' (Ptr ''struct tc_u_hnode *''),
    Member ''handle'' t_u32,
    Member ''prio'' t_u32,
    Member ''refcnt'' t_refcount_t,
    Member ''divisor'' c_unsigned_int,
    Member ''handle_idr'' struct_idr,
    Member ''is_root'' t_bool,
    Member ''rcu'' struct_callback_head,
    Member ''flags'' t_u32,
    Member ''ht'' (Array 0 (Ptr ''struct tc_u_knode *''))]"

definition struct_tc_u_knode :: ctype where
  "struct_tc_u_knode = Comp Struct False [
    Member ''next'' (Ptr ''struct tc_u_knode *''),
    Member ''handle'' t_u32,
    Member ''ht_up'' (Ptr ''struct tc_u_hnode *''),
    Member ''exts'' struct_tcf_exts,
    Member ''ifindex'' c_int,
    Member ''fshift'' t_u8,
    Member ''res'' struct_tcf_result,
    Member ''ht_down'' (Ptr ''struct tc_u_hnode *''),
    Member ''pf'' (Ptr ''struct tc_u32_pcnt *''),
    Member ''flags'' t_u32,
    Member ''in_hw_count'' c_unsigned_int,
    Member ''val'' t_u32,
    Member ''mask'' t_u32,
    Member ''pcpu_success'' (Ptr ''u32 *''),
    Member ''rwork'' struct_rcu_work,
    Member ''sel'' struct_tc_u32_sel]"

definition struct_tcf_walker :: ctype where
  "struct_tcf_walker = Comp Struct False [
    Member ''stop'' c_int,
    Member ''skip'' c_int,
    Member ''count'' c_int,
    Member ''nonempty'' t_bool,
    Member ''cookie'' c_unsigned_long,
    Member ''fn'' (Ptr ''int (*)(struct tcf_proto *, void *, struct tcf_walker *)'')]"

definition struct_tcf_bind_args :: ctype where
  "struct_tcf_bind_args = Comp Struct False [
    Member ''w'' struct_tcf_walker,
    Member ''base'' c_unsigned_long,
    Member ''cl'' c_unsigned_long,
    Member ''classid'' t_u32]"

definition struct_tcf_block_owner_item :: ctype where
  "struct_tcf_block_owner_item = Comp Struct False [
    Member ''list'' struct_list_head,
    Member ''q'' (Ptr ''struct Qdisc *''),
    Member ''binder_type'' enum_flow_block_binder_type]"

definition struct_tcf_bpf :: ctype where
  "struct_tcf_bpf = Comp Struct False [
    Member ''common'' struct_tc_action,
    Member ''filter'' (Ptr ''struct bpf_prog *''),
    Member '''' (Comp Union False [
      Member ''bpf_fd'' t_u32,
      Member ''bpf_num_ops'' t_u16]),
    Member ''bpf_ops'' (Ptr ''struct sock_filter *''),
    Member ''bpf_name'' (Ptr ''char *'')]"

definition struct_tcf_bpf_cfg :: ctype where
  "struct_tcf_bpf_cfg = Comp Struct False [
    Member ''filter'' (Ptr ''struct bpf_prog *''),
    Member ''bpf_ops'' (Ptr ''struct sock_filter *''),
    Member ''bpf_name'' (Ptr ''char *''),
    Member ''bpf_num_ops'' t_u16,
    Member ''is_ebpf'' t_bool]"

definition struct_tcf_chain :: ctype where
  "struct_tcf_chain = Comp Struct False [
    Member ''filter_chain_lock'' struct_mutex,
    Member ''filter_chain'' (Ptr ''struct tcf_proto *''),
    Member ''list'' struct_list_head,
    Member ''block'' (Ptr ''struct tcf_block *''),
    Member ''index'' t_u32,
    Member ''refcnt'' c_unsigned_int,
    Member ''action_refcnt'' c_unsigned_int,
    Member ''explicitly_created'' t_bool,
    Member ''flushing'' t_bool,
    Member ''tmplt_ops'' (Ptr ''struct tcf_proto_ops *''),
    Member ''tmplt_priv'' (Ptr ''void *''),
    Member ''rcu'' struct_callback_head]"

definition struct_tcf_chain_info :: ctype where
  "struct_tcf_chain_info = Comp Struct False [
    Member ''pprev'' (Ptr ''struct tcf_proto **''),
    Member ''next'' (Ptr ''struct tcf_proto *'')]"

definition struct_tcf_dump_args :: ctype where
  "struct_tcf_dump_args = Comp Struct False [
    Member ''w'' struct_tcf_walker,
    Member ''skb'' (Ptr ''struct sk_buff *''),
    Member ''cb'' (Ptr ''struct netlink_callback *''),
    Member ''block'' (Ptr ''struct tcf_block *''),
    Member ''q'' (Ptr ''struct Qdisc *''),
    Member ''parent'' t_u32,
    Member ''terse_dump'' t_bool]"

definition struct_tcf_exts_miss_cookie_node :: ctype where
  "struct_tcf_exts_miss_cookie_node = Comp Struct False [
    Member ''chain'' (Ptr ''struct tcf_chain *''),
    Member ''tp'' (Ptr ''struct tcf_proto *''),
    Member ''exts'' (Ptr ''struct tcf_exts *''),
    Member ''chain_index'' t_u32,
    Member ''tp_prio'' t_u32,
    Member ''handle'' t_u32,
    Member ''miss_cookie_base'' t_u32,
    Member ''rcu'' struct_callback_head]"

definition struct_tcf_filter_chain_list_item :: ctype where
  "struct_tcf_filter_chain_list_item = Comp Struct False [
    Member ''list'' struct_list_head,
    Member ''chain_head_change'' (Ptr ''tcf_chain_head_change_t *''),
    Member ''chain_head_change_priv'' (Ptr ''void *'')]"

definition struct_tcf_gact :: ctype where
  "struct_tcf_gact = Comp Struct False [
    Member ''common'' struct_tc_action]"

definition struct_tcf_idrinfo :: ctype where
  "struct_tcf_idrinfo = Comp Struct False [
    Member ''lock'' struct_mutex,
    Member ''action_idr'' struct_idr,
    Member ''net'' (Ptr ''struct net *'')]"

definition struct_tcf_mirred :: ctype where
  "struct_tcf_mirred = Comp Struct False [
    Member ''common'' struct_tc_action,
    Member ''tcfm_eaction'' c_int,
    Member ''tcfm_blockid'' t_u32,
    Member ''tcfm_mac_header_xmit'' t_bool,
    Member ''tcfm_dev'' (Ptr ''struct net_device *''),
    Member ''tcfm_dev_tracker'' t_netdevice_tracker,
    Member ''tcfm_list'' struct_list_head,
    BitField '''' c_long 64]"

definition struct_tcf_net :: ctype where
  "struct_tcf_net = Comp Struct False [
    Member ''idr_lock'' t_spinlock_t,
    Member ''idr'' struct_idr]"

definition struct_tcf_pedit :: ctype where
  "struct_tcf_pedit = Comp Struct False [
    Member ''common'' struct_tc_action,
    Member ''parms'' (Ptr ''struct tcf_pedit_parms *''),
    BitField '''' c_long 64]"

definition enum_pedit_header_type :: ctype where
  "enum_pedit_header_type = Enum False [
    (''TCA_PEDIT_KEY_EX_HDR_TYPE_NETWORK'', 0), (''TCA_PEDIT_KEY_EX_HDR_TYPE_ETH'', 1),
    (''TCA_PEDIT_KEY_EX_HDR_TYPE_IP4'', 2), (''TCA_PEDIT_KEY_EX_HDR_TYPE_IP6'', 3),
    (''TCA_PEDIT_KEY_EX_HDR_TYPE_TCP'', 4), (''TCA_PEDIT_KEY_EX_HDR_TYPE_UDP'', 5),
    (''__PEDIT_HDR_TYPE_MAX'', 6)]"

definition enum_pedit_cmd :: ctype where
  "enum_pedit_cmd = Enum False [
    (''TCA_PEDIT_KEY_EX_CMD_SET'', 0), (''TCA_PEDIT_KEY_EX_CMD_ADD'', 1), (''__PEDIT_CMD_MAX'', 2)]"

definition struct_tcf_pedit_key_ex :: ctype where
  "struct_tcf_pedit_key_ex = Comp Struct False [
    Member ''htype'' enum_pedit_header_type,
    Member ''cmd'' enum_pedit_cmd]"

definition struct_tcf_pedit_parms :: ctype where
  "struct_tcf_pedit_parms = Comp Struct False [
    Member ''tcfp_keys'' (Ptr ''struct tc_pedit_key *''),
    Member ''tcfp_keys_ex'' (Ptr ''struct tcf_pedit_key_ex *''),
    Member ''action'' c_int,
    Member ''tcfp_off_max_hint'' t_u32,
    Member ''tcfp_nkeys'' c_unsigned_char,
    Member ''tcfp_flags'' c_unsigned_char,
    Member ''rcu'' struct_callback_head]"

definition struct_tun_file :: ctype where
  "struct_tun_file = Comp Struct False ([
    Member ''sk'' struct_sock] @ replicate 15 (BitField '''' c_long 64) @ [
    Member ''socket'' struct_socket,
    Member ''tun'' (Ptr ''struct tun_struct *''),
    Member ''fasync'' (Ptr ''struct fasync_struct *''),
    Member ''flags'' c_unsigned_int,
    Member '''' (Comp Union False [
      Member ''queue_index'' t_u16,
      Member ''ifindex'' c_unsigned_int]),
    Member ''napi'' struct_napi_struct,
    Member ''napi_enabled'' t_bool,
    Member ''napi_frags_enabled'' t_bool,
    Member ''napi_mutex'' struct_mutex,
    Member ''next'' struct_list_head,
    Member ''detached'' (Ptr ''struct tun_struct *''),
    BitField '''' c_long 64,
    BitField '''' c_long 64,
    BitField '''' c_long 64,
    BitField '''' c_long 64,
    BitField '''' c_long 64,
    BitField '''' c_long 64,
    BitField '''' c_long 64,
    Member ''tx_ring'' struct_ptr_ring,
    Member ''xdp_rxq'' struct_xdp_rxq_info])"

definition struct_tun_filter :: ctype where
  "struct_tun_filter = Comp Struct False [
    Member ''flags'' t___u16,
    Member ''count'' t___u16,
    Member ''addr'' (Array 0 t___u8)]"

definition struct_tun_flow_entry :: ctype where
  "struct_tun_flow_entry = Comp Struct False ([
    Member ''hash_link'' struct_hlist_node,
    Member ''rcu'' struct_callback_head,
    Member ''tun'' (Ptr ''struct tun_struct *''),
    Member ''rxhash'' t_u32,
    Member ''rps_rxhash'' t_u32,
    Member ''queue_index'' c_int] @ replicate 9 (BitField '''' c_long 64) @ [
    Member ''updated'' c_unsigned_long] @ replicate 15 (BitField '''' c_long 64))"

definition struct_tun_msg_ctl :: ctype where
  "struct_tun_msg_ctl = Comp Struct False [
    Member ''type'' c_unsigned_short,
    Member ''num'' c_unsigned_short,
    Member ''ptr'' (Ptr ''void *'')]"

definition struct_tun_page :: ctype where
  "struct_tun_page = Comp Struct False [
    Member ''page'' (Ptr ''struct page *''),
    Member ''count'' c_int]"

definition struct_tun_pi :: ctype where
  "struct_tun_pi = Comp Struct False [
    Member ''flags'' t___u16,
    Member ''proto'' t___be16]"

definition struct_tun_prog :: ctype where
  "struct_tun_prog = Comp Struct False [
    Member ''rcu'' struct_callback_head,
    Member ''prog'' (Ptr ''struct bpf_prog *'')]"

definition struct_tap_filter :: ctype where
  "struct_tap_filter = Comp Struct False [
    Member ''count'' c_unsigned_int,
    Member ''mask'' (Array 2 t_u32),
    Member ''addr'' (Array 48 c_unsigned_char)]"

definition struct_tun_struct :: ctype where
  "struct_tun_struct = Comp Struct False [
    Member ''tfiles'' (Array 256 (Ptr ''struct tun_file *'')),
    Member ''numqueues'' c_unsigned_int,
    Member ''flags'' c_unsigned_int,
    Member ''owner'' t_kuid_t,
    Member ''group'' t_kgid_t,
    Member ''dev'' (Ptr ''struct net_device *''),
    Member ''set_features'' t_netdev_features_t,
    Member ''align'' c_int,
    Member ''vnet_hdr_sz'' c_int,
    Member ''sndbuf'' c_int,
    Member ''txflt'' struct_tap_filter,
    Member ''fprog'' struct_sock_fprog,
    Member ''filter_attached'' t_bool,
    Member ''msg_enable'' t_u32,
    Member ''lock'' t_spinlock_t,
    Member ''flows'' (Array 1024 struct_hlist_head),
    Member ''flow_gc_timer'' struct_timer_list,
    Member ''ageing_time'' c_unsigned_long,
    Member ''numdisabled'' c_unsigned_int,
    Member ''disabled'' struct_list_head,
    Member ''security'' (Ptr ''void *''),
    Member ''flow_count'' t_u32,
    Member ''rx_batched'' t_u32,
    Member ''rx_frame_errors'' t_atomic_long_t,
    Member ''xdp_prog'' (Ptr ''struct bpf_prog *''),
    Member ''steering_prog'' (Ptr ''struct tun_prog *''),
    Member ''filter_prog'' (Ptr ''struct tun_prog *''),
    Member ''link_ksettings'' struct_ethtool_link_ksettings,
    Member ''file'' (Ptr ''struct file *''),
    Member ''ifr'' (Ptr ''struct ifreq *'')]"

definition struct_tunnel_msg :: ctype where
  "struct_tunnel_msg = Comp Struct False [
    Member ''family'' t___u8,
    Member ''flags'' t___u8,
    Member ''reserved2'' t___u16,
    Member ''ifindex'' t___u32]"

definition struct_veth :: ctype where
  "struct_veth = Comp Struct False [
    Member ''h_vlan_proto'' t___be16,
    Member ''h_vlan_TCI'' t___be16]"

definition struct_veth_priv :: ctype where
  "struct_veth_priv = Comp Struct False [
    Member ''peer'' (Ptr ''struct net_device *''),
    Member ''dropped'' t_atomic64_t,
    Member ''_xdp_prog'' (Ptr ''struct bpf_prog *''),
    Member ''rq'' (Ptr ''struct veth_rq *''),
    Member ''requested_headroom'' c_unsigned_int]"

definition struct_veth_q_stat_desc :: ctype where
  "struct_veth_q_stat_desc = Comp Struct False [
    Member ''desc'' (Array 32 c_char),
    Member ''offset'' t_size_t]"

definition struct_veth_stats :: ctype where
  "struct_veth_stats = Comp Struct False [
    Member ''rx_drops'' t_u64,
    Member ''xdp_packets'' t_u64,
    Member ''xdp_bytes'' t_u64,
    Member ''xdp_redirect'' t_u64,
    Member ''xdp_drops'' t_u64,
    Member ''xdp_tx'' t_u64,
    Member ''xdp_tx_err'' t_u64,
    Member ''peer_tq_xdp_xmit'' t_u64,
    Member ''peer_tq_xdp_xmit_err'' t_u64]"

definition struct_veth_rq_stats :: ctype where
  "struct_veth_rq_stats = Comp Struct False [
    Member ''vs'' struct_veth_stats,
    Member ''syncp'' struct_u64_stats_sync]"

definition struct_veth_rq :: ctype where
  "struct_veth_rq = Comp Struct False ([
    Member ''xdp_napi'' struct_napi_struct,
    Member ''napi'' (Ptr ''struct napi_struct *''),
    Member ''dev'' (Ptr ''struct net_device *''),
    Member ''xdp_prog'' (Ptr ''struct bpf_prog *''),
    Member ''xdp_mem'' struct_xdp_mem_info,
    Member ''stats'' struct_veth_rq_stats,
    Member ''rx_notify_masked'' t_bool,
    BitField '''' c_long 64,
    BitField '''' c_long 64,
    BitField '''' c_long 64,
    BitField '''' c_long 64,
    Member ''xdp_ring'' struct_ptr_ring,
    Member ''xdp_rxq'' struct_xdp_rxq_info,
    Member ''page_pool'' (Ptr ''struct page_pool *'')] @ replicate 15 (BitField '''' c_long 64))"

definition struct_veth_xdp_buff :: ctype where
  "struct_veth_xdp_buff = Comp Struct False [
    Member ''xdp'' struct_xdp_buff,
    Member ''skb'' (Ptr ''struct sk_buff *'')]"

definition struct_veth_xdp_tx_bq :: ctype where
  "struct_veth_xdp_tx_bq = Comp Struct False [
    Member ''q'' (Array 16 (Ptr ''struct xdp_frame *'')),
    Member ''count'' c_unsigned_int]"

definition struct_vlan_dev_priv :: ctype where
  "struct_vlan_dev_priv = Comp Struct False [
    Member ''nr_ingress_mappings'' c_unsigned_int,
    Member ''ingress_priority_map'' (Array 8 t_u32),
    Member ''nr_egress_mappings'' c_unsigned_int,
    Member ''egress_priority_map'' (Array 16 (Ptr ''struct vlan_priority_tci_mapping *'')),
    Member ''vlan_proto'' t___be16,
    Member ''vlan_id'' t_u16,
    Member ''flags'' t_u16,
    Member ''real_dev'' (Ptr ''struct net_device *''),
    Member ''dev_tracker'' t_netdevice_tracker,
    Member ''real_dev_addr'' (Array 6 c_unsigned_char),
    Member ''dent'' (Ptr ''struct proc_dir_entry *''),
    Member ''vlan_pcpu_stats'' (Ptr ''struct vlan_pcpu_stats *'')]"

definition struct_vlan_ethhdr :: ctype where
  "struct_vlan_ethhdr = Comp Struct False [
    Member '''' (Comp Union False [
      Member '''' (Comp Struct False [
        Member ''h_dest'' (Array 6 c_unsigned_char),
        Member ''h_source'' (Array 6 c_unsigned_char)]),
      Member ''addrs'' (Comp Struct False [
        Member ''h_dest'' (Array 6 c_unsigned_char),
        Member ''h_source'' (Array 6 c_unsigned_char)])]),
    Member ''h_vlan_proto'' t___be16,
    Member ''h_vlan_TCI'' t___be16,
    Member ''h_vlan_encapsulated_proto'' t___be16]"

definition struct_vlan_group :: ctype where
  "struct_vlan_group = Comp Struct False [
    Member ''nr_vlan_devs'' c_unsigned_int,
    Member ''hlist'' struct_hlist_node,
    Member ''vlan_devices_arrays'' (Array 16 (Ptr ''struct net_device **''))]"

definition struct_vlan_hdr :: ctype where
  "struct_vlan_hdr = Comp Struct False [
    Member ''h_vlan_TCI'' t___be16,
    Member ''h_vlan_encapsulated_proto'' t___be16]"

definition struct_vlan_info :: ctype where
  "struct_vlan_info = Comp Struct False [
    Member ''real_dev'' (Ptr ''struct net_device *''),
    Member ''grp'' struct_vlan_group,
    Member ''vid_list'' struct_list_head,
    Member ''nr_vids'' c_unsigned_int,
    Member ''auto_vid0'' t_bool,
    Member ''rcu'' struct_callback_head]"

definition struct_vlan_ioctl_args :: ctype where
  "struct_vlan_ioctl_args = Comp Struct False [
    Member ''cmd'' c_int,
    Member ''device1'' (Array 24 c_char),
    Member ''u'' (Comp Union False [
      Member ''device2'' (Array 24 c_char),
      Member ''VID'' c_int,
      Member ''skb_priority'' c_unsigned_int,
      Member ''name_type'' c_unsigned_int,
      Member ''bind_type'' c_unsigned_int,
      Member ''flag'' c_unsigned_int]),
    Member ''vlan_qos'' c_short]"

definition struct_vlan_net :: ctype where
  "struct_vlan_net = Comp Struct False [
    Member ''proc_vlan_dir'' (Ptr ''struct proc_dir_entry *''),
    Member ''proc_vlan_conf'' (Ptr ''struct proc_dir_entry *''),
    Member ''name_type'' c_unsigned_short]"

definition struct_vlan_pcpu_stats :: ctype where
  "struct_vlan_pcpu_stats = Comp Struct False [
    Member ''rx_packets'' t_u64_stats_t,
    Member ''rx_bytes'' t_u64_stats_t,
    Member ''rx_multicast'' t_u64_stats_t,
    Member ''tx_packets'' t_u64_stats_t,
    Member ''tx_bytes'' t_u64_stats_t,
    Member ''syncp'' struct_u64_stats_sync,
    Member ''rx_errors'' t_u32,
    Member ''tx_dropped'' t_u32]"

definition struct_vlan_priority_tci_mapping :: ctype where
  "struct_vlan_priority_tci_mapping = Comp Struct False [
    Member ''priority'' t_u32,
    Member ''vlan_qos'' t_u16,
    Member ''next'' (Ptr ''struct vlan_priority_tci_mapping *'')]"

definition struct_vlan_vid_info :: ctype where
  "struct_vlan_vid_info = Comp Struct False [
    Member ''list'' struct_list_head,
    Member ''proto'' t___be16,
    Member ''vid'' t_u16,
    Member ''refcount'' c_int]"

definition struct_vxlanhdr :: ctype where
  "struct_vxlanhdr = Comp Struct False [
    Member ''vx_flags'' t___be32,
    Member ''vx_vni'' t___be32]"

definition struct_vxlan_config :: ctype where
  "struct_vxlan_config = Comp Struct False [
    Member ''remote_ip'' union_vxlan_addr,
    Member ''saddr'' union_vxlan_addr,
    Member ''vni'' t___be32,
    Member ''remote_ifindex'' c_int,
    Member ''mtu'' c_int,
    Member ''dst_port'' t___be16,
    Member ''port_min'' t_u16,
    Member ''port_max'' t_u16,
    Member ''tos'' t_u8,
    Member ''ttl'' t_u8,
    Member ''label'' t___be32,
    Member ''label_policy'' enum_ifla_vxlan_label_policy,
    Member ''flags'' t_u32,
    Member ''age_interval'' c_unsigned_long,
    Member ''addrmax'' c_unsigned_int,
    Member ''no_share'' t_bool,
    Member ''df'' enum_ifla_vxlan_df,
    Member ''reserved_bits'' struct_vxlanhdr]"

definition struct_vxlan_dev_node :: ctype where
  "struct_vxlan_dev_node = Comp Struct False [
    Member ''hlist'' struct_hlist_node,
    Member ''vxlan'' (Ptr ''struct vxlan_dev *'')]"

definition struct_vxlan_rdst :: ctype where
  "struct_vxlan_rdst = Comp Struct False [
    Member ''remote_ip'' union_vxlan_addr,
    Member ''remote_port'' t___be16,
    BitField ''offloaded'' t_u8 1,
    Member ''remote_vni'' t___be32,
    Member ''remote_ifindex'' t_u32,
    Member ''remote_dev'' (Ptr ''struct net_device *''),
    Member ''list'' struct_list_head,
    Member ''rcu'' struct_callback_head,
    Member ''dst_cache'' struct_dst_cache]"

definition struct_vxlan_dev :: ctype where
  "struct_vxlan_dev = Comp Struct False [
    Member ''hlist4'' struct_vxlan_dev_node,
    Member ''hlist6'' struct_vxlan_dev_node,
    Member ''next'' struct_list_head,
    Member ''vn4_sock'' (Ptr ''struct vxlan_sock *''),
    Member ''vn6_sock'' (Ptr ''struct vxlan_sock *''),
    Member ''dev'' (Ptr ''struct net_device *''),
    Member ''net'' (Ptr ''struct net *''),
    Member ''default_dst'' struct_vxlan_rdst,
    Member ''age_timer'' struct_timer_list,
    Member ''hash_lock'' t_spinlock_t,
    Member ''addrcnt'' c_unsigned_int,
    Member ''gro_cells'' struct_gro_cells,
    Member ''cfg'' struct_vxlan_config,
    Member ''vnigrp'' (Ptr ''struct vxlan_vni_group *''),
    Member ''fdb_hash_tbl'' struct_rhashtable,
    Member ''mdb_tbl'' struct_rhashtable,
    Member ''fdb_list'' struct_hlist_head,
    Member ''mdb_list'' struct_hlist_head,
    Member ''mdb_seq'' c_unsigned_int]"

definition struct_vxlan_fdb_key :: ctype where
  "struct_vxlan_fdb_key = Comp Struct False [
    Member ''eth_addr'' (Array 6 t_u8),
    Member ''vni'' t___be32]"

definition struct_vxlan_fdb :: ctype where
  "struct_vxlan_fdb = Comp Struct False [
    Member ''rhnode'' struct_rhash_head,
    Member ''rcu'' struct_callback_head,
    Member ''updated'' c_unsigned_long,
    Member ''used'' c_unsigned_long,
    Member ''remotes'' struct_list_head,
    Member ''key'' struct_vxlan_fdb_key,
    Member ''state'' t_u16,
    Member ''flags'' t_u16,
    Member ''nh_list'' struct_list_head,
    Member ''fdb_node'' struct_hlist_node,
    Member ''nh'' (Ptr ''struct nexthop *''),
    Member ''vdev'' (Ptr ''struct vxlan_dev *'')]"

definition struct_vxlan_fdb_flush_desc :: ctype where
  "struct_vxlan_fdb_flush_desc = Comp Struct False [
    Member ''ignore_default_entry'' t_bool,
    Member ''state'' c_unsigned_long,
    Member ''state_mask'' c_unsigned_long,
    Member ''flags'' c_unsigned_long,
    Member ''flags_mask'' c_unsigned_long,
    Member ''src_vni'' t___be32,
    Member ''nhid'' t_u32,
    Member ''vni'' t___be32,
    Member ''port'' t___be16,
    Member ''dst_ip'' union_vxlan_addr]"

definition struct_vxlan_mdb_entry_key :: ctype where
  "struct_vxlan_mdb_entry_key = Comp Struct False [
    Member ''src'' union_vxlan_addr,
    Member ''dst'' union_vxlan_addr,
    Member ''vni'' t___be32]"

definition struct_vxlan_mdb_config :: ctype where
  "struct_vxlan_mdb_config = Comp Struct False [
    Member ''vxlan'' (Ptr ''struct vxlan_dev *''),
    Member ''group'' struct_vxlan_mdb_entry_key,
    Member ''src_list'' struct_list_head,
    Member ''remote_ip'' union_vxlan_addr,
    Member ''remote_ifindex'' t_u32,
    Member ''remote_vni'' t___be32,
    Member ''remote_port'' t___be16,
    Member ''nlflags'' t_u16,
    Member ''flags'' t_u8,
    Member ''filter_mode'' t_u8,
    Member ''rt_protocol'' t_u8]"

definition struct_vxlan_mdb_config_src_entry :: ctype where
  "struct_vxlan_mdb_config_src_entry = Comp Struct False [
    Member ''addr'' union_vxlan_addr,
    Member ''node'' struct_list_head]"

definition struct_vxlan_mdb_dump_ctx :: ctype where
  "struct_vxlan_mdb_dump_ctx = Comp Struct False [
    Member ''reserved'' c_long,
    Member ''entry_idx'' c_long,
    Member ''remote_idx'' c_long]"

definition struct_vxlan_mdb_entry :: ctype where
  "struct_vxlan_mdb_entry = Comp Struct False [
    Member ''rhnode'' struct_rhash_head,
    Member ''remotes'' struct_list_head,
    Member ''key'' struct_vxlan_mdb_entry_key,
    Member ''mdb_node'' struct_hlist_node,
    Member ''rcu'' struct_callback_head]"

definition struct_vxlan_mdb_flush_desc :: ctype where
  "struct_vxlan_mdb_flush_desc = Comp Struct False [
    Member ''remote_ip'' union_vxlan_addr,
    Member ''src_vni'' t___be32,
    Member ''remote_vni'' t___be32,
    Member ''remote_port'' t___be16,
    Member ''rt_protocol'' t_u8]"

definition struct_vxlan_mdb_remote :: ctype where
  "struct_vxlan_mdb_remote = Comp Struct False [
    Member ''list'' struct_list_head,
    Member ''rd'' (Ptr ''struct vxlan_rdst *''),
    Member ''flags'' t_u8,
    Member ''filter_mode'' t_u8,
    Member ''rt_protocol'' t_u8,
    Member ''src_list'' struct_hlist_head,
    Member ''rcu'' struct_callback_head]"

definition struct_vxlan_mdb_src_entry :: ctype where
  "struct_vxlan_mdb_src_entry = Comp Struct False [
    Member ''node'' struct_hlist_node,
    Member ''addr'' union_vxlan_addr,
    Member ''flags'' t_u8]"

definition struct_vxlan_net :: ctype where
  "struct_vxlan_net = Comp Struct False [
    Member ''vxlan_list'' struct_list_head,
    Member ''sock_list'' (Array 256 struct_hlist_head),
    Member ''nexthop_notifier_block'' struct_notifier_block]"

definition struct_vxlan_sock :: ctype where
  "struct_vxlan_sock = Comp Struct False [
    Member ''hlist'' struct_hlist_node,
    Member ''sock'' (Ptr ''struct socket *''),
    Member ''vni_list'' (Array 1024 struct_hlist_head),
    Member ''refcnt'' t_refcount_t,
    Member ''flags'' t_u32]"

definition struct_vxlan_vni_group :: ctype where
  "struct_vxlan_vni_group = Comp Struct False [
    Member ''vni_hash'' struct_rhashtable,
    Member ''vni_list'' struct_list_head,
    Member ''num_vnis'' t_u32]"

definition struct_vxlan_vni_node :: ctype where
  "struct_vxlan_vni_node = Comp Struct False [
    Member ''vnode'' struct_rhash_head,
    Member ''hlist4'' struct_vxlan_dev_node,
    Member ''hlist6'' struct_vxlan_dev_node,
    Member ''vlist'' struct_list_head,
    Member ''vni'' t___be32,
    Member ''remote_ip'' union_vxlan_addr,
    Member ''stats'' (Ptr ''struct vxlan_vni_stats_pcpu *''),
    Member ''rcu'' struct_callback_head]"

definition struct_vxlan_vni_stats :: ctype where
  "struct_vxlan_vni_stats = Comp Struct False [
    Member ''rx_packets'' t_u64,
    Member ''rx_bytes'' t_u64,
    Member ''rx_drops'' t_u64,
    Member ''rx_errors'' t_u64,
    Member ''tx_packets'' t_u64,
    Member ''tx_bytes'' t_u64,
    Member ''tx_drops'' t_u64,
    Member ''tx_errors'' t_u64]"

definition struct_vxlan_vni_stats_pcpu :: ctype where
  "struct_vxlan_vni_stats_pcpu = Comp Struct False [
    Member ''stats'' struct_vxlan_vni_stats,
    Member ''syncp'' struct_u64_stats_sync]"

definition struct_vxlanhdr_gbp :: ctype where
  "struct_vxlanhdr_gbp = Comp Struct False [
    Member ''vx_flags'' t_u8,
    BitField ''reserved_flags1'' t_u8 3,
    BitField ''policy_applied'' t_u8 1,
    BitField ''reserved_flags2'' t_u8 2,
    BitField ''dont_learn'' t_u8 1,
    BitField ''reserved_flags3'' t_u8 1,
    Member ''policy_id'' t___be16,
    Member ''vx_vni'' t___be32]"

definition struct_vxlanhdr_gpe :: ctype where
  "struct_vxlanhdr_gpe = Comp Struct False [
    BitField ''oam_flag'' t_u8 1,
    BitField ''reserved_flags1'' t_u8 1,
    BitField ''np_applied'' t_u8 1,
    BitField ''instance_applied'' t_u8 1,
    BitField ''version'' t_u8 2,
    BitField ''reserved_flags2'' t_u8 2,
    Member ''reserved_flags3'' t_u8,
    Member ''reserved_flags4'' t_u8,
    Member ''next_protocol'' t_u8,
    Member ''vx_vni'' t___be32]"

end
