(* ===== verification/Vmlinux_Net_Types.thy ===== *)
theory Vmlinux_Net_Types
  imports Vmlinux_More_Types Vmlinux_Link
begin

text \<open>
  The structures and unions of the networking theories as lists, and that the layout of each is well formed.
\<close>

text \<open>What the declarations of \<open>Vmlinux_Inet\<close> contain from earlier theories.\<close>

lemmas inet_contents =
  t___u64_def t___be64_def t___u32_def t___be32_def t___u8_def t___u16_def t___be16_def
  struct_in6_addr_def t_u32_def t_u8_def t_atomic_t_def struct_callback_head_def
  t_netdevice_tracker_def struct_list_head_def struct_refcount_struct_def t_refcount_t_def
  t_u16_def t___kernel_uid32_t_def t_uid_t_def t_kuid_t_def t_bool_def struct_hlist_node_def
  struct_rb_root_def struct_seqcount_def t_seqcount_t_def struct_seqcount_spinlock_def
  t_seqcount_spinlock_t_def struct_qspinlock_def t_arch_spinlock_t_def struct_raw_spinlock_def
  struct_spinlock_def t_spinlock_t_def t_seqlock_t_def struct_hlist_head_def t___s16_def
  t_s16_def t_netns_tracker_def struct_seq_net_private_def t___kernel_loff_t_def t_loff_t_def
  struct_rhash_head_def struct_timer_list_def t___s64_def t_s64_def t_ktime_t_def t_u64_def
  t___sum16_def t_atomic64_t_def t_atomic_long_t_def t_possible_net_t_def t_raw_spinlock_t_def
  struct_swait_queue_head_def struct_completion_def struct_rb_node_def t___addrpair_def
  t___portpair_def struct_hlist_nulls_node_def struct_sock_common_def struct_flowi_tunnel_def
  struct_flowi_common_def union_flowi_uli_def struct_flowi4_def struct_flowi6_def
  struct_flowi_def t_time64_t_def struct_kref_def t___kernel_ulong_t_def t___kernel_size_t_def
  t_size_t_def t___wsum_def struct_iphdr_def t_local_t_def t_local64_t_def t_u64_stats_t_def
  struct_u64_stats_sync_def t___s32_def t_s32_def t___kernel_gid32_t_def t_work_func_t_def
  struct_work_struct_def struct_optimistic_spin_queue_def struct_mutex_def
  struct_rw_semaphore_def t_gfp_t_def struct_xarray_def struct_idr_def struct_percpu_counter_def
  struct_ctl_table_header_def struct_ctl_dir_def struct_ctl_table_set_def struct_llist_node_def
  struct_ns_common_def t_dma_addr_t_def struct_scatterlist_def t_netdev_features_t_def
  struct_sk_buff_list_def struct_sk_buff_head_def struct_delayed_work_def t_umode_t_def
  struct_qrwlock_def t_arch_rwlock_t_def t_rwlock_t_def struct_trace_entry_def
  struct_wait_queue_head_def t_wait_queue_head_t_def t_socket_lock_t_def struct_page_frag_def
  struct_sock_cgroup_data_def struct_sock_def struct_inet_cork_def struct_inet_cork_full_def
  struct_inet_sock_def struct_fastopen_queue_def struct_request_sock_queue_def
  struct_inet_connection_sock_def struct_minmax_sample_def struct_minmax_def
  struct_tcp_options_received_def struct_tcp_rack_def struct_timerqueue_node_def
  struct_hrtimer_def struct_tcp_sack_block_def struct_tcp_sock_def t_siphash_key_t_def
  struct_tcphdr_def t_netmem_ref_def

lemmas inet_typedefs =
  enum_fib6_walk_state_def enum_ip_set_extension_def enum_ipset_cadt_flags_def
  enum_ipt_reject_with_def t___kernel_sa_family_t_def t_sa_family_t_def t_local_lock_t_def
  t_rcuref_t_def t_dscp_t_def t_t_key_def t_uint8_t_def enum_addr_type_t_def t_rht_hashfn_t_def
  t_rht_obj_hashfn_t_def t_rht_obj_cmpfn_t_def t_u_int32_t_def enum_sctp_conntrack_def
  t_u_int8_t_def t_u_int16_t_def t_ip_set_id_t_def t_ipset_adtfn_def t_hsiphash_key_t_def
  t___s8_def t___kernel_key_t_def t___kernel_mode_t_def t_notifier_fn_t_def t_key_t_def
  t___kernel_uid_t_def t___kernel_gid_t_def t_ipvl_hdr_type_def t_canid_t_def
  t_can_err_mask_t_def t___le64_def t_s8_def t_udp_tunnel_encap_rcv_t_def
  t_udp_tunnel_encap_err_lookup_t_def t_udp_tunnel_encap_err_rcv_t_def
  t_udp_tunnel_encap_destroy_t_def t_udp_tunnel_gro_receive_t_def
  t_udp_tunnel_gro_complete_t_def t_udp_tunnel_gro_rcv_t_def

lemmas inet_comps =
  struct_ip_tunnel_key_def struct_arp_eth_header_def struct_arp_pkt_def struct_arphdr_def
  struct_arppayload_def struct_sockaddr_def struct_arpreq_def struct_in_addr_def
  struct_arpt_devaddr_info_def struct_arpt_arp_def struct_xt_counters_def struct_arpt_entry_def
  struct_xt_entry_target_def struct_xt_error_target_def struct_arpt_error_def
  struct_arpt_get_entries_def struct_arpt_getinfo_def struct_arpt_mangle_def
  struct_arpt_replace_def struct_xt_standard_target_def struct_arpt_standard_def
  struct_dst_cache_def struct_dst_cache_pcpu_def struct_dst_entry_def struct_dst_metrics_def
  struct_ip_options_def struct_inet_skb_parm_def struct_inet6_skb_parm_def
  struct_fib_kuid_range_def struct_fib_rule_port_range_def struct_fib_rule_def
  struct_fib4_rule_def struct_fib6_walker_def struct_fib6_cleaner_def struct_nl_info_def
  struct_fib6_config_def struct_fib6_dump_arg_def struct_fib_notifier_info_def
  struct_fib6_entry_notifier_info_def struct_fib6_gc_args_def struct_rt6key_def
  struct_fib_nh_common_def struct_fib6_nh_def struct_fib6_info_def
  struct_fib6_nh_age_excptn_arg_def struct_fib6_nh_del_cached_rt_arg_def
  struct_fib6_nh_dm_arg_def struct_fib6_nh_exception_dump_walker_def
  struct_fib6_nh_excptn_arg_def struct_fib6_nh_frl_arg_def struct_fib6_nh_match_arg_def
  struct_fib6_nh_rd_arg_def struct_fib6_node_def struct_fib6_result_def struct_fib6_rule_def
  struct_inet_peer_base_def struct_fib6_table_def struct_fib_alias_def struct_fib_config_def
  struct_fib_dump_filter_def struct_fib_entry_notifier_info_def struct_fib_nh_def
  struct_fib_info_def struct_fib_lookup_arg_def struct_fib_nh_exception_def
  struct_fib_nh_notifier_info_def struct_atomic_notifier_head_def struct_fib_notifier_net_def
  struct_fib_notifier_ops_def struct_fib_prop_def struct_fib_result_def struct_fib_result_nl_def
  struct_fib_route_iter_def struct_fib_rt_info_def struct_fib_rule_hdr_def
  struct_fib_rule_notifier_info_def struct_fib_rule_uid_range_def struct_fib_rules_ops_def
  struct_fib_table_def struct_fib_trie_iter_def struct_udp_port_cfg_def
  struct_frag_v4_compare_key_def struct_frag_v6_compare_key_def struct_inet_frag_queue_def
  struct_ip_tunnel_encap_def struct_ip_tunnel_info_def struct_ip_set_skbinfo_def
  struct_ip_set_ext_def struct_icmp6_err_def struct_icmp6_filter_def struct_icmpv6_echo_def
  struct_icmpv6_nd_advt_def struct_icmpv6_nd_ra_def struct_icmp6hdr_def struct_icmphdr_def
  struct_ip_options_rcu_def struct_ip_options_data_def struct_icmp_bxm_def
  struct_icmp_control_def struct_icmp_err_def struct_icmp_ext_echo_ctype3_hdr_def
  struct_icmp_extobj_hdr_def struct_icmp_ext_echo_iio_def struct_icmp_ext_hdr_def
  struct_icmp_filter_def struct_icmp_mib_def struct_icmpmsg_mib_def struct_icmpv6_mib_def
  struct_icmpv6_mib_device_def struct_icmpv6_msg_def struct_icmpv6msg_mib_def
  struct_icmpv6msg_mib_device_def struct_ifa6_config_def struct_ifa_cacheinfo_def
  struct_ifacaddr6_def struct_iface_combination_params_def struct_iface_info_ipv4_def
  struct_iface_info_ipv6_def struct_ifaddrlblmsg_def struct_ifaddrmsg_def
  struct_igmp6_mc_iter_state_def struct_igmp6_mcf_iter_state_def struct_igmp_mc_iter_state_def
  struct_igmp_mcf_iter_state_def struct_igmphdr_def struct_igmpv3_grec_def
  struct_igmpv3_query_def struct_igmpv3_report_def struct_in6_flowlabel_req_def
  struct_in6_ifreq_def struct_in6_pktinfo_def struct_in6_rtmsg_def struct_in6_validator_info_def
  struct_ipv4_devconf_def struct_in_device_def struct_in_pktinfo_def
  struct_in_validator_info_def struct_inet6_cork_def struct_inet6_fill_args_def
  struct_inet6_protocol_def struct_inet_bind2_bucket_def struct_inet_bind_bucket_def
  struct_inet_bind_hashbucket_def struct_inet_connection_sock_af_ops_def
  struct_inet_diag_bc_op_def struct_inet_diag_dump_data_def struct_inet_diag_entry_def
  struct_inet_diag_handler_def struct_inet_diag_hostcond_def struct_inet_diag_markcond_def
  struct_inet_diag_meminfo_def struct_inet_diag_sockid_def struct_inet_diag_msg_def
  struct_inet_diag_req_def struct_inet_diag_req_raw_def struct_inet_diag_req_v2_def
  struct_inet_diag_sockopt_def struct_hlist_nulls_head_def struct_inet_ehash_bucket_def
  struct_inet_fill_args_def struct_rhashtable_params_def struct_inet_frags_def
  struct_inet_hashinfo_def struct_inet_listen_hashbucket_def struct_ipv4_addr_key_def
  struct_inetpeer_addr_def struct_inet_peer_def struct_inet_protosw_def struct_request_sock_def
  struct_inet_request_sock_def struct_inet_timewait_sock_def struct_ip6_flowlabel_def
  struct_ip6_frag_state_def struct_ip6_fraglist_iter_def struct_ip6_mh_def
  struct_sockaddr_in6_def struct_ip6_mtuinfo_def struct_ip6_ra_chain_def struct_ip6_rt_info_def
  struct_ip6_sf_list_def struct_ip6_sf_socklist_def struct___ip6_tnl_parm_def
  struct_gro_cells_def struct_ip6_tnl_def struct_ip6_tnl_encap_ops_def struct_ip6_tnl_net_def
  struct_ip6_tnl_parm_def struct_ip6addrlbl_entry_def struct_ip6addrlbl_init_table_def
  struct_ip6fl_iter_state_def struct_ip6rd_flowi_def struct_ip6t_HL_info_def struct_ip6t_ah_def
  struct_ip6t_ip6_def struct_ip6t_entry_def struct_ip6t_error_def struct_ip6t_frag_def
  struct_ip6t_get_entries_def struct_ip6t_getinfo_def struct_ip6t_hl_info_def
  struct_ip6t_icmp_def struct_ip6t_ipv6header_info_def struct_ip6t_mh_def union_nf_inet_addr_def
  struct_ip6t_npt_tginfo_def struct_ip6t_opts_def struct_ip6t_reject_info_def
  struct_ip6t_replace_def struct_ip6t_rt_def struct_ip6t_srh_def struct_ip6t_srh1_def
  struct_ip6t_standard_def struct_ip6table_nat_pernet_def struct_ip_auth_hdr_def
  struct_ip_beet_phdr_def struct_ip_comp_hdr_def struct_ip_conntrack_stat_def
  struct_ip_ct_sctp_def struct_ip_ct_tcp_state_def struct_ip_ct_tcp_def struct_ip_esp_hdr_def
  struct_ip_frag_state_def struct_ip_fraglist_iter_def struct_cache_head_def struct_ip_map_def
  struct_ip_mc_list_def struct_ip_mreqn_def struct_ip_mc_socklist_def struct_ip_mreq_source_def
  struct_ip_msfilter_def struct_ip_ra_chain_def struct_kvec_def struct_ip_reply_arg_def
  struct_ip_rt_acct_def struct_ip_rt_info_def struct_ip_set_def struct_ip_set_adt_opt_def
  struct_ip_set_comment_def struct_ip_set_comment_rcu_def struct_ip_set_counter_def
  struct_ip_set_counter_match_def struct_ip_set_counter_match0_def struct_ip_set_ext_type_def
  union_ip_set_name_index_def struct_ip_set_net_def struct_ip_set_region_def
  struct_ip_set_req_get_set_def struct_ip_set_req_get_set_family_def
  struct_ip_set_req_version_def struct_nla_policy_def struct_ip_set_type_def
  struct_ip_set_type_variant_def struct_ip_sf_list_def struct_ip_sf_socklist_def
  struct_ip_tunnel_parm_kern_def struct_ip_tunnel_def struct_ip_tunnel_encap_ops_def
  struct_ip_tunnel_net_def struct_ip_tunnel_parm_def struct_ip_tunnel_prl_def
  struct_ip_tunnel_prl_entry_def struct_ip_vs_aligned_lock_def struct_ip_vs_app_def
  struct_ip_vs_seq_def struct_ip_vs_conn_def struct_ip_vs_conn_param_def
  struct_ip_vs_counters_def struct_ip_vs_cpu_stats_def struct_ip_vs_daemon_user_def
  struct_ip_vs_kstats_def struct_ip_vs_estimator_def struct_ip_vs_stats_def
  struct_ip_vs_dest_def struct_ip_vs_dest_dst_def struct_ip_vs_stats_user_def
  struct_ip_vs_dest_entry_def struct_ip_vs_dest_user_def struct_ip_vs_dest_user_kern_def
  struct_ip_vs_est_kt_data_def struct_ip_vs_est_tick_data_def struct_ip_vs_flags_def
  struct_ip_vs_get_dests_def struct_ip_vs_service_entry_def struct_ip_vs_get_services_def
  struct_ip_vs_getinfo_def struct_ip_vs_iphdr_def struct_ip_vs_iter_def
  struct_ip_vs_iter_state_def struct_ip_vs_mh_dest_setup_def struct_ip_vs_mh_lookup_def
  struct_ip_vs_mh_state_def struct_ip_vs_pe_def struct_ip_vs_proto_data_def
  struct_ip_vs_protocol_def struct_ip_vs_scheduler_def struct_ip_vs_service_def
  struct_ip_vs_service_user_def struct_ip_vs_service_user_kern_def struct_ip_vs_sh_bucket_def
  struct_ip_vs_sh_state_def struct_ip_vs_stats_rcu_def struct_ip_vs_sync_buff_def
  struct_ip_vs_sync_v4_def struct_ip_vs_sync_v6_def union_ip_vs_sync_conn_def
  struct_ip_vs_sync_conn_options_def struct_ip_vs_sync_conn_v0_def struct_ip_vs_sync_mesg_def
  struct_ip_vs_sync_mesg_v0_def struct_ip_vs_sync_thread_data_def struct_ip_vs_timeout_user_def
  struct_ip_vs_wrr_mark_def struct_ipc64_perm_def struct_rhashtable_def struct_ipc_ids_def
  struct_notifier_block_def struct_ipc_namespace_def struct_ipc_ops_def struct_ipc_params_def
  struct_ipc_perm_def struct_ipc_proc_iface_def struct_ipc_proc_iter_def
  struct_sockcm_cookie_def struct_ipcm6_cookie_def struct_ipcm_cookie_def struct_ipcomp_data_def
  struct_ipcomp_req_extra_def struct_ipfrag_skb_cb_def struct_ipi_descs_def struct_ipq_def
  struct_ipstats_mib_def struct_ipt_ECN_info_def struct_ipt_TTL_info_def struct_ipt_ah_def
  struct_ipt_ip_def struct_ipt_entry_def struct_ipt_error_def struct_ipt_get_entries_def
  struct_ipt_getinfo_def struct_ipt_icmp_def struct_ipt_reject_info_def struct_ipt_replace_def
  struct_ipt_standard_def struct_ipt_ttl_info_def struct_iptable_nat_pernet_def
  struct_ipv6_ac_socklist_def struct_ipv6_bpf_stub_def struct_ipv6_fl_socklist_def
  struct_ipv6_mc_socklist_def struct_ipv6_mreq_def struct_ipv6_opt_hdr_def
  struct_ipv6_params_def struct_ipv6_pinfo_def struct_ipv6_route_iter_def
  struct_ipv6_rpl_sr_hdr_def struct_ipv6_rt_hdr_def struct_ipv6_saddr_dst_def
  struct_ipv6_saddr_score_def struct_ipv6_sr_hdr_def struct_ipv6_stub_def
  struct_ipv6_txoptions_def struct_ipv6_tel_txoption_def struct_ipv6_tlv_tnl_enc_lim_def
  struct_ipvl_addr_def struct_ipvl_dev_def struct_ipvl_pcpu_stats_def struct_ida_def
  struct_ipvl_port_def struct_ipvl_skb_cb_def struct_ipvlan_netns_def
  struct_ipvs_master_sync_state_def struct_sockaddr_in_def union_ipvs_sockaddr_def
  struct_ipvs_sync_daemon_cfg_def struct_tap_dev_def struct_ipvtap_dev_def struct_mld2_grec_def
  struct_mld2_query_def struct_mld2_report_def struct_mld_msg_def struct_neigh_dump_filter_def
  struct_neigh_hash_table_def struct_neigh_ops_def struct_neigh_parms_def
  struct_neigh_seq_state_def struct_neigh_statistics_def struct_ctl_table_def
  struct_neigh_sysctl_table_def struct_neigh_table_def struct_neighbour_cb_def struct_rtable_def
  struct_rt6_info_def struct_ping_iter_state_def struct_ping_table_def struct_pingfakehdr_def
  struct_pingv6_ops_def struct_raw_data_entry_def struct_raw_frag_vec_def
  struct_raw_hashinfo_def struct_raw_iter_state_def struct_raw_sock_def
  struct_can_raw_vcid_options_def struct_can_filter_def struct_raw_sock___2_def
  struct_rt6_exception_def struct_rt6_exception_bucket_def struct_rt6_mtu_change_arg_def
  struct_rt6_nh_def struct_rt6_rtnl_dump_arg_def struct_rt6_statistics_def struct_tcp6_sock_def
  union_tcp_ao_addr_def struct_tcp_ao_hdr_def struct_tcp_ao_key_def struct_tcp_bbr_info_def
  struct_tcpvegas_info_def struct_tcp_dctcp_info_def union_tcp_cc_info_def
  struct_tcp_fastopen_context_def struct_tcp_fastopen_cookie_def struct_tcp_fastopen_metrics_def
  struct_tcp_fastopen_request_def struct_tcp_key_def struct_tcp_md5sig_key_def
  struct_tcp_metrics_block_def struct_tcp_mib_def struct_mptcp_out_options_def
  struct_tcp_out_options_def struct_tcp_plb_state_def struct_tcp_repair_opt_def
  struct_tcp_repair_window_def struct_tcp_request_sock_def struct_tcp_request_sock_ops_def
  struct_tcp_sack_block_wire_def struct_tcp_sacktag_state_def struct_tcp_seq_afinfo_def
  struct_tcp_skb_cb_def struct_tcp_splice_state_def struct_tcp_states_t_def
  struct_tcp_timewait_sock_def struct_tcp_ulp_ops_def union_tcp_word_hdr_def
  struct_tcp_xa_pool_def struct_tcp_zerocopy_receive_def struct_tcpm_hash_bucket_def
  struct_udp_sock_def struct_udp6_sock_def struct_udp_media_addr_def struct_udp_replicast_def
  struct_udp_bearer_def struct_udp_dev_scratch_def struct_udp_hslot_def
  struct_udp_hslot_main_def struct_udp_mib_def struct_udp_seq_afinfo_def struct_udp_skb_cb_def
  struct_udp_table_def struct_udp_tunnel_info_def struct_udp_tunnel_nic_def
  struct_udp_tunnel_nic_table_info_def struct_udp_tunnel_nic_info_def
  struct_udp_tunnel_nic_ops_def struct_udp_tunnel_nic_shared_def
  struct_udp_tunnel_nic_shared_node_def struct_udp_tunnel_nic_table_entry_def
  struct_udp_tunnel_sock_cfg_def struct_udp_tunnel_type_entry_def

lemmas inet_layouts = inet_comps inet_typedefs inet_contents layout_eval

definition inet_types_1 :: "ctype list" where
  "inet_types_1 = [
    struct_ip_tunnel_key, struct_arp_eth_header, struct_arp_pkt, struct_arphdr,
    struct_arppayload, struct_sockaddr, struct_arpreq, struct_in_addr, struct_arpt_devaddr_info,
    struct_arpt_arp, struct_xt_counters, struct_arpt_entry, struct_xt_entry_target,
    struct_xt_error_target, struct_arpt_error, struct_arpt_get_entries, struct_arpt_getinfo,
    struct_arpt_mangle, struct_arpt_replace, struct_xt_standard_target, struct_arpt_standard,
    struct_dst_cache, struct_dst_cache_pcpu, struct_dst_entry, struct_dst_metrics,
    struct_ip_options, struct_inet_skb_parm, struct_inet6_skb_parm, struct_fib_kuid_range,
    struct_fib_rule_port_range, struct_fib_rule, struct_fib4_rule, struct_fib6_walker,
    struct_fib6_cleaner, struct_nl_info, struct_fib6_config, struct_fib6_dump_arg,
    struct_fib_notifier_info, struct_fib6_entry_notifier_info, struct_fib6_gc_args,
    struct_rt6key, struct_fib_nh_common, struct_fib6_nh, struct_fib6_info,
    struct_fib6_nh_age_excptn_arg, struct_fib6_nh_del_cached_rt_arg, struct_fib6_nh_dm_arg,
    struct_fib6_nh_exception_dump_walker, struct_fib6_nh_excptn_arg, struct_fib6_nh_frl_arg,
    struct_fib6_nh_match_arg, struct_fib6_nh_rd_arg, struct_fib6_node, struct_fib6_result,
    struct_fib6_rule, struct_inet_peer_base, struct_fib6_table, struct_fib_alias,
    struct_fib_config, struct_fib_dump_filter, struct_fib_entry_notifier_info, struct_fib_nh,
    struct_fib_info, struct_fib_lookup_arg, struct_fib_nh_exception,
    struct_fib_nh_notifier_info, struct_atomic_notifier_head, struct_fib_notifier_net,
    struct_fib_notifier_ops, struct_fib_prop, struct_fib_result, struct_fib_result_nl,
    struct_fib_route_iter, struct_fib_rt_info, struct_fib_rule_hdr,
    struct_fib_rule_notifier_info, struct_fib_rule_uid_range, struct_fib_rules_ops,
    struct_fib_table, struct_fib_trie_iter, struct_udp_port_cfg, struct_frag_v4_compare_key,
    struct_frag_v6_compare_key, struct_inet_frag_queue, struct_ip_tunnel_encap,
    struct_ip_tunnel_info, struct_ip_set_skbinfo, struct_ip_set_ext, struct_icmp6_err,
    struct_icmp6_filter, struct_icmpv6_echo, struct_icmpv6_nd_advt, struct_icmpv6_nd_ra,
    struct_icmp6hdr, struct_icmphdr, struct_ip_options_rcu, struct_ip_options_data,
    struct_icmp_bxm, struct_icmp_control, struct_icmp_err, struct_icmp_ext_echo_ctype3_hdr,
    struct_icmp_extobj_hdr, struct_icmp_ext_echo_iio, struct_icmp_ext_hdr, struct_icmp_filter,
    struct_icmp_mib, struct_icmpmsg_mib, struct_icmpv6_mib, struct_icmpv6_mib_device,
    struct_icmpv6_msg, struct_icmpv6msg_mib, struct_icmpv6msg_mib_device, struct_ifa6_config,
    struct_ifa_cacheinfo, struct_ifacaddr6, struct_iface_combination_params,
    struct_iface_info_ipv4, struct_iface_info_ipv6, struct_ifaddrlblmsg, struct_ifaddrmsg]"

lemma inet_types_1_ok: "list_all ctype_ok inet_types_1"
  by (simp add: inet_types_1_def inet_layouts)

definition inet_types_2 :: "ctype list" where
  "inet_types_2 = [
    struct_igmp6_mc_iter_state, struct_igmp6_mcf_iter_state, struct_igmp_mc_iter_state,
    struct_igmp_mcf_iter_state, struct_igmphdr, struct_igmpv3_grec, struct_igmpv3_query,
    struct_igmpv3_report, struct_in6_flowlabel_req, struct_in6_ifreq, struct_in6_pktinfo,
    struct_in6_rtmsg, struct_in6_validator_info, struct_ipv4_devconf, struct_in_device,
    struct_in_pktinfo, struct_in_validator_info, struct_inet6_cork, struct_inet6_fill_args,
    struct_inet6_protocol, struct_inet_bind2_bucket, struct_inet_bind_bucket,
    struct_inet_bind_hashbucket, struct_inet_connection_sock_af_ops, struct_inet_diag_bc_op,
    struct_inet_diag_dump_data, struct_inet_diag_entry, struct_inet_diag_handler,
    struct_inet_diag_hostcond, struct_inet_diag_markcond, struct_inet_diag_meminfo,
    struct_inet_diag_sockid, struct_inet_diag_msg, struct_inet_diag_req,
    struct_inet_diag_req_raw, struct_inet_diag_req_v2, struct_inet_diag_sockopt,
    struct_hlist_nulls_head, struct_inet_ehash_bucket, struct_inet_fill_args,
    struct_rhashtable_params, struct_inet_frags, struct_inet_hashinfo,
    struct_inet_listen_hashbucket, struct_ipv4_addr_key, struct_inetpeer_addr, struct_inet_peer,
    struct_inet_protosw, struct_request_sock, struct_inet_request_sock,
    struct_inet_timewait_sock, struct_ip6_flowlabel, struct_ip6_frag_state,
    struct_ip6_fraglist_iter, struct_ip6_mh, struct_sockaddr_in6, struct_ip6_mtuinfo,
    struct_ip6_ra_chain, struct_ip6_rt_info, struct_ip6_sf_list, struct_ip6_sf_socklist,
    struct___ip6_tnl_parm, struct_gro_cells, struct_ip6_tnl, struct_ip6_tnl_encap_ops,
    struct_ip6_tnl_net, struct_ip6_tnl_parm, struct_ip6addrlbl_entry,
    struct_ip6addrlbl_init_table, struct_ip6fl_iter_state, struct_ip6rd_flowi,
    struct_ip6t_HL_info, struct_ip6t_ah, struct_ip6t_ip6, struct_ip6t_entry, struct_ip6t_error,
    struct_ip6t_frag, struct_ip6t_get_entries, struct_ip6t_getinfo, struct_ip6t_hl_info,
    struct_ip6t_icmp, struct_ip6t_ipv6header_info, struct_ip6t_mh, union_nf_inet_addr,
    struct_ip6t_npt_tginfo, struct_ip6t_opts, struct_ip6t_reject_info, struct_ip6t_replace,
    struct_ip6t_rt, struct_ip6t_srh, struct_ip6t_srh1, struct_ip6t_standard,
    struct_ip6table_nat_pernet, struct_ip_auth_hdr, struct_ip_beet_phdr, struct_ip_comp_hdr,
    struct_ip_conntrack_stat, struct_ip_ct_sctp, struct_ip_ct_tcp_state, struct_ip_ct_tcp,
    struct_ip_esp_hdr, struct_ip_frag_state, struct_ip_fraglist_iter, struct_cache_head,
    struct_ip_map, struct_ip_mc_list, struct_ip_mreqn, struct_ip_mc_socklist,
    struct_ip_mreq_source, struct_ip_msfilter, struct_ip_ra_chain, struct_kvec,
    struct_ip_reply_arg, struct_ip_rt_acct, struct_ip_rt_info, struct_ip_set,
    struct_ip_set_adt_opt, struct_ip_set_comment, struct_ip_set_comment_rcu,
    struct_ip_set_counter]"

lemma inet_types_2_ok: "list_all ctype_ok inet_types_2"
  by (simp add: inet_types_2_def inet_layouts)

definition inet_types_3 :: "ctype list" where
  "inet_types_3 = [
    struct_ip_set_counter_match, struct_ip_set_counter_match0, struct_ip_set_ext_type,
    union_ip_set_name_index, struct_ip_set_net, struct_ip_set_region, struct_ip_set_req_get_set,
    struct_ip_set_req_get_set_family, struct_ip_set_req_version, struct_nla_policy,
    struct_ip_set_type, struct_ip_set_type_variant, struct_ip_sf_list, struct_ip_sf_socklist,
    struct_ip_tunnel_parm_kern, struct_ip_tunnel, struct_ip_tunnel_encap_ops,
    struct_ip_tunnel_net, struct_ip_tunnel_parm, struct_ip_tunnel_prl,
    struct_ip_tunnel_prl_entry, struct_ip_vs_aligned_lock, struct_ip_vs_app, struct_ip_vs_seq,
    struct_ip_vs_conn, struct_ip_vs_conn_param, struct_ip_vs_counters, struct_ip_vs_cpu_stats,
    struct_ip_vs_daemon_user, struct_ip_vs_kstats, struct_ip_vs_estimator, struct_ip_vs_stats,
    struct_ip_vs_dest, struct_ip_vs_dest_dst, struct_ip_vs_stats_user, struct_ip_vs_dest_entry,
    struct_ip_vs_dest_user, struct_ip_vs_dest_user_kern, struct_ip_vs_est_kt_data,
    struct_ip_vs_est_tick_data, struct_ip_vs_flags, struct_ip_vs_get_dests,
    struct_ip_vs_service_entry, struct_ip_vs_get_services, struct_ip_vs_getinfo,
    struct_ip_vs_iphdr, struct_ip_vs_iter, struct_ip_vs_iter_state, struct_ip_vs_mh_dest_setup,
    struct_ip_vs_mh_lookup, struct_ip_vs_mh_state, struct_ip_vs_pe, struct_ip_vs_proto_data,
    struct_ip_vs_protocol, struct_ip_vs_scheduler, struct_ip_vs_service,
    struct_ip_vs_service_user, struct_ip_vs_service_user_kern, struct_ip_vs_sh_bucket,
    struct_ip_vs_sh_state, struct_ip_vs_stats_rcu, struct_ip_vs_sync_buff, struct_ip_vs_sync_v4,
    struct_ip_vs_sync_v6, union_ip_vs_sync_conn, struct_ip_vs_sync_conn_options,
    struct_ip_vs_sync_conn_v0, struct_ip_vs_sync_mesg, struct_ip_vs_sync_mesg_v0,
    struct_ip_vs_sync_thread_data, struct_ip_vs_timeout_user, struct_ip_vs_wrr_mark,
    struct_ipc64_perm, struct_rhashtable, struct_ipc_ids, struct_notifier_block,
    struct_ipc_namespace, struct_ipc_ops, struct_ipc_params, struct_ipc_perm,
    struct_ipc_proc_iface, struct_ipc_proc_iter, struct_sockcm_cookie, struct_ipcm6_cookie,
    struct_ipcm_cookie, struct_ipcomp_data, struct_ipcomp_req_extra, struct_ipfrag_skb_cb,
    struct_ipi_descs, struct_ipq, struct_ipstats_mib, struct_ipt_ECN_info, struct_ipt_TTL_info,
    struct_ipt_ah, struct_ipt_ip, struct_ipt_entry, struct_ipt_error, struct_ipt_get_entries,
    struct_ipt_getinfo, struct_ipt_icmp, struct_ipt_reject_info, struct_ipt_replace,
    struct_ipt_standard, struct_ipt_ttl_info, struct_iptable_nat_pernet,
    struct_ipv6_ac_socklist, struct_ipv6_bpf_stub, struct_ipv6_fl_socklist,
    struct_ipv6_mc_socklist, struct_ipv6_mreq, struct_ipv6_opt_hdr, struct_ipv6_params,
    struct_ipv6_pinfo, struct_ipv6_route_iter, struct_ipv6_rpl_sr_hdr, struct_ipv6_rt_hdr,
    struct_ipv6_saddr_dst, struct_ipv6_saddr_score, struct_ipv6_sr_hdr, struct_ipv6_stub]"

lemma inet_types_3_ok: "list_all ctype_ok inet_types_3"
  by (simp add: inet_types_3_def inet_layouts)

definition inet_types_4 :: "ctype list" where
  "inet_types_4 = [
    struct_ipv6_txoptions, struct_ipv6_tel_txoption, struct_ipv6_tlv_tnl_enc_lim,
    struct_ipvl_addr, struct_ipvl_dev, struct_ipvl_pcpu_stats, struct_ida, struct_ipvl_port,
    struct_ipvl_skb_cb, struct_ipvlan_netns, struct_ipvs_master_sync_state, struct_sockaddr_in,
    union_ipvs_sockaddr, struct_ipvs_sync_daemon_cfg, struct_tap_dev, struct_ipvtap_dev,
    struct_mld2_grec, struct_mld2_query, struct_mld2_report, struct_mld_msg,
    struct_neigh_dump_filter, struct_neigh_hash_table, struct_neigh_ops, struct_neigh_parms,
    struct_neigh_seq_state, struct_neigh_statistics, struct_ctl_table,
    struct_neigh_sysctl_table, struct_neigh_table, struct_neighbour_cb, struct_rtable,
    struct_rt6_info, struct_ping_iter_state, struct_ping_table, struct_pingfakehdr,
    struct_pingv6_ops, struct_raw_data_entry, struct_raw_frag_vec, struct_raw_hashinfo,
    struct_raw_iter_state, struct_raw_sock, struct_can_raw_vcid_options, struct_can_filter,
    struct_raw_sock___2, struct_rt6_exception, struct_rt6_exception_bucket,
    struct_rt6_mtu_change_arg, struct_rt6_nh, struct_rt6_rtnl_dump_arg, struct_rt6_statistics,
    struct_tcp6_sock, union_tcp_ao_addr, struct_tcp_ao_hdr, struct_tcp_ao_key,
    struct_tcp_bbr_info, struct_tcpvegas_info, struct_tcp_dctcp_info, union_tcp_cc_info,
    struct_tcp_fastopen_context, struct_tcp_fastopen_cookie, struct_tcp_fastopen_metrics,
    struct_tcp_fastopen_request, struct_tcp_key, struct_tcp_md5sig_key,
    struct_tcp_metrics_block, struct_tcp_mib, struct_mptcp_out_options, struct_tcp_out_options,
    struct_tcp_plb_state, struct_tcp_repair_opt, struct_tcp_repair_window,
    struct_tcp_request_sock, struct_tcp_request_sock_ops, struct_tcp_sack_block_wire,
    struct_tcp_sacktag_state, struct_tcp_seq_afinfo, struct_tcp_skb_cb, struct_tcp_splice_state,
    struct_tcp_states_t, struct_tcp_timewait_sock, struct_tcp_ulp_ops, union_tcp_word_hdr,
    struct_tcp_xa_pool, struct_tcp_zerocopy_receive, struct_tcpm_hash_bucket, struct_udp_sock,
    struct_udp6_sock, struct_udp_media_addr, struct_udp_replicast, struct_udp_bearer,
    struct_udp_dev_scratch, struct_udp_hslot, struct_udp_hslot_main, struct_udp_mib,
    struct_udp_seq_afinfo, struct_udp_skb_cb, struct_udp_table, struct_udp_tunnel_info,
    struct_udp_tunnel_nic, struct_udp_tunnel_nic_table_info, struct_udp_tunnel_nic_info,
    struct_udp_tunnel_nic_ops, struct_udp_tunnel_nic_shared, struct_udp_tunnel_nic_shared_node,
    struct_udp_tunnel_nic_table_entry, struct_udp_tunnel_sock_cfg, struct_udp_tunnel_type_entry]"

lemma inet_types_4_ok: "list_all ctype_ok inet_types_4"
  by (simp add: inet_types_4_def inet_layouts)

text \<open>What the declarations of \<open>Vmlinux_Net_More\<close> contain from earlier theories.\<close>

lemmas net_contents =
  t___u64_def t___u32_def t___u8_def t___kernel_ulong_t_def t___kernel_size_t_def t_size_t_def
  t_u32_def t_bool_def t___be32_def t___u16_def t_u8_def t_u16_def t___be16_def t_u64_def
  struct_ethhdr_def t___s8_def t_atomic_t_def struct_qspinlock_def t_arch_spinlock_t_def
  struct_raw_spinlock_def struct_spinlock_def t_spinlock_t_def struct_hlist_node_def
  struct_timer_list_def struct_list_head_def t_netdevice_tracker_def t___s64_def t_s64_def
  t_atomic64_t_def t_atomic_long_t_def t_work_func_t_def struct_work_struct_def t_gfp_t_def
  struct_xarray_def t_raw_spinlock_t_def struct_optimistic_spin_queue_def struct_mutex_def
  struct_in6_addr_def t___s32_def t_possible_net_t_def struct_refcount_struct_def
  t_refcount_t_def struct_kref_def struct_gro_list_def struct_gro_node_def struct_rb_node_def
  t_ktime_t_def struct_timerqueue_node_def struct_hrtimer_def struct_sk_buff_list_def
  struct_sk_buff_head_def t___wsum_def t___kernel_sa_family_t_def t___kernel_gid32_t_def
  t_gid_t_def t_kgid_t_def t_local_lock_t_def struct_cpumask_def t_cpumask_t_def
  struct_seqcount_def t_seqcount_t_def struct_seqcount_spinlock_def t_seqcount_spinlock_t_def
  struct_hlist_head_def t_rht_hashfn_t_def t_rht_obj_hashfn_t_def t_rht_obj_cmpfn_t_def
  struct_rhashtable_params_def struct_rhashtable_def t_rcuref_t_def struct_callback_head_def
  struct_dst_entry_def struct_rtable_def struct_rt6key_def struct_rt6_info_def
  struct_delayed_work_def struct_rhash_head_def struct_rb_root_def struct_kobject_def
  t___be64_def struct_inet6_protocol_def struct_swait_queue_head_def struct_completion_def
  enum_bpf_netdev_command_def t_umode_t_def struct_xdp_mem_info_def struct_xdp_rxq_info_def
  t___kernel_uid32_t_def t_uid_t_def t_kuid_t_def t___addrpair_def t___portpair_def
  struct_hlist_nulls_node_def struct_sock_common_def struct_wait_queue_head_def
  t_wait_queue_head_t_def t_socket_lock_t_def struct_page_frag_def t_netdev_features_t_def
  struct_qrwlock_def t_arch_rwlock_t_def t_rwlock_t_def struct_sock_cgroup_data_def
  t_netns_tracker_def struct_sock_def struct_seq_net_private_def t___kernel_pid_t_def
  t_pid_t_def t___kernel_loff_t_def t_loff_t_def struct_rw_semaphore_def struct_nlmsghdr_def
  t_netmem_ref_def struct_lockdep_map_def struct_srcu_struct_def t_rtnl_doit_func_def
  t_rtnl_dumpit_func_def struct_llist_node_def t_sk_buff_data_t_def struct_sk_buff_def
  struct_sk_psock_progs_def struct_rcu_work_def struct_gnet_stats_queue_def
  struct_ip_options_def struct_inet_skb_parm_def struct_inet6_skb_parm_def
  t___kernel_clockid_t_def t_s32_def t_canid_t_def struct_in_addr_def t___kernel_dev_t_def
  t_dev_t_def t_time64_t_def enum_rw_hint_def t_blkcnt_t_def struct_rb_root_cached_def
  t_errseq_t_def struct_address_space_def struct_inode_def enum_bpf_link_type_def
  enum_bpf_attach_type_def struct_bpf_link_def struct_cache_head_def struct_path_def
  struct_xdp_buff_def t_dma_addr_t_def enum_xdp_mem_type_def struct_xdp_frame_def
  enum_bpf_map_type_def struct_bpf_map_def

lemmas net_typedefs =
  enum_ethtool_c33_pse_admin_state_def enum_ethtool_c33_pse_ext_state_def
  enum_ethtool_c33_pse_ext_substate_error_condition_def
  enum_ethtool_c33_pse_ext_substate_mr_pse_enable_def
  enum_ethtool_c33_pse_ext_substate_option_detect_ted_def
  enum_ethtool_c33_pse_ext_substate_option_vport_lim_def
  enum_ethtool_c33_pse_ext_substate_ovld_detected_def
  enum_ethtool_c33_pse_ext_substate_power_not_available_def
  enum_ethtool_c33_pse_ext_substate_short_detected_def enum_ethtool_c33_pse_pw_d_status_def
  enum_ethtool_link_ext_state_def enum_ethtool_link_ext_substate_autoneg_def
  enum_ethtool_link_ext_substate_bad_signal_integrity_def
  enum_ethtool_link_ext_substate_cable_issue_def
  enum_ethtool_link_ext_substate_link_logical_mismatch_def
  enum_ethtool_link_ext_substate_link_training_def enum_ethtool_link_ext_substate_module_def
  enum_ethtool_mac_stats_src_def enum_ethtool_mm_verify_status_def
  enum_ethtool_module_power_mode_def enum_ethtool_module_power_mode_policy_def
  enum_ethtool_podl_pse_admin_state_def enum_ethtool_podl_pse_pw_d_status_def
  enum_net_device_path_type_def enum_net_iov_type_def enum_netdev_lag_hash_def
  enum_netdev_lag_tx_type_def enum_netdev_offload_xstats_type_def enum_nl80211_commands_def
  enum_skb_state_def t_bridge_id_def t_mac_addr_def t_port_id_def enum_dma_data_direction_def
  t_ifslave_def t_ifbond_def t_roce_netdev_callback_def t_roce_netdev_filter_def
  enum_netloc_type4_def enum_rdma_nldev_attr_def t_fl_owner_t_def t_uint32_t_def
  enum_xprtsec_policies_def t_int32_t_def t_key_serial_t_def t_socket_state_def
  t_wait_queue_func_t_def t_wait_queue_entry_t_def

lemmas net_comps =
  struct_rtnl_link_stats64_def struct_nl80211_wowlan_tcp_data_seq_def
  struct_nl80211_wowlan_tcp_data_token_def struct_ethtool_channels_def
  struct_ethtool_coalesce_def struct_netdev_phys_item_id_def struct_net_iov_area_def
  struct_ethtool_keee_def struct_sockaddr_inet_def struct_ethtool_ah_espip4_spec_def
  struct_ethtool_ah_espip6_spec_def struct_ethtool_c33_pse_ext_state_info_def
  struct_ethtool_c33_pse_pw_limit_range_def struct_ethtool_cmd_def struct_ethtool_cmis_cdb_def
  struct_ethtool_cmis_cdb_request_def struct_ethtool_cmis_cdb_cmd_args_def
  struct_ethtool_cmis_cdb_rpl_hdr_def struct_ethtool_cmis_cdb_rpl_def
  struct_ethtool_module_fw_flash_params_def struct_ethnl_module_fw_flash_ntf_params_def
  struct_ethtool_cmis_fw_update_params_def struct_ethtool_flash_def struct_ethtool_drvinfo_def
  struct_ethtool_devlink_compat_def struct_ethtool_dump_def struct_ethtool_eee_def
  struct_ethtool_eeprom_def struct_ethtool_eth_ctrl_stats_def struct_ethtool_eth_mac_stats_def
  struct_ethtool_eth_phy_stats_def struct_ethtool_fec_stat_def struct_ethtool_fec_stats_def
  struct_ethtool_fecparam_def struct_ethtool_flow_ext_def struct_ethtool_tcpip4_spec_def
  struct_ethtool_usrip4_spec_def struct_ethtool_tcpip6_spec_def struct_ethtool_usrip6_spec_def
  union_ethtool_flow_union_def struct_ethtool_forced_speed_map_def
  struct_ethtool_get_features_block_def struct_ethtool_gfeatures_def struct_ethtool_gstrings_def
  struct_ethtool_link_ext_state_info_def struct_ethtool_link_ext_stats_def
  struct_ethtool_link_settings_def struct_ethtool_link_ksettings_def
  struct_ethtool_link_usettings_def struct_ethtool_mm_cfg_def struct_ethtool_mm_state_def
  struct_ethtool_mm_stats_def struct_ethtool_mmsv_def struct_ethtool_mmsv_ops_def
  struct_ethtool_modinfo_def struct_ethtool_module_eeprom_def struct_ethtool_module_fw_flash_def
  struct_ethtool_module_power_mode_params_def struct_ethtool_netdev_state_def
  struct_ethtool_pause_stats_def struct_ethtool_pauseparam_def struct_ethtool_per_queue_op_def
  struct_ethtool_perm_addr_def struct_ethtool_phy_ops_def struct_ethtool_phy_stats_def
  struct_ethtool_pse_control_status_def struct_ethtool_regs_def struct_ethtool_ringparam_def
  struct_ethtool_rmon_hist_range_def struct_ethtool_rmon_stats_def
  struct_flow_dissector_key_basic_def struct_flow_dissector_key_ipv4_addrs_def
  struct_flow_dissector_key_ipv6_addrs_def struct_flow_dissector_key_ports_def
  struct_flow_dissector_key_ip_def struct_flow_dissector_key_vlan_def
  struct_flow_dissector_key_eth_addrs_def struct_ethtool_rx_flow_key_def
  struct_flow_dissector_def struct_ethtool_rx_flow_match_def struct_ethtool_rx_flow_rule_def
  struct_ethtool_rx_flow_spec_def struct_ethtool_rx_flow_spec_input_def struct_ethtool_rxfh_def
  struct_ethtool_rxfh_context_def struct_ethtool_rxfh_fields_def struct_ethtool_rxfh_param_def
  struct_ethtool_rxnfc_def struct_ethtool_set_features_block_def struct_ethtool_sfeatures_def
  struct_ethtool_sset_info_def struct_ethtool_stats_def struct_ethtool_test_def
  struct_ethtool_ts_info_def struct_ethtool_ts_stats_def struct_ethtool_tunable_def
  struct_ethtool_value_def struct_ethtool_wolinfo_def struct_genl_split_ops_def
  struct_genl_info_def struct_genl_dumpit_info_def struct_genl_family_def
  struct_genl_multicast_group_def struct_genl_op_iter_def struct_genl_ops_def
  struct_genl_small_ops_def struct_genl_start_context_def struct_genlmsghdr_def
  struct_irq_affinity_notify_def struct_napi_struct_def struct_gro_cell_def
  struct_gro_remcsum_def struct___kernel_sockaddr_storage_def struct_group_filter_def
  struct_group_info_def struct_group_req_def struct_group_source_req_def struct_net_prefixes_def
  struct_net_prefixes___2_def struct_page_frag_cache_def struct_napi_alloc_cache_def
  struct_napi_config_def struct_napi_gro_cb_def struct_net_aligned_data_def
  struct_bridge_mcast_other_query_def struct_bridge_mcast_own_query_def struct_br_ip_def
  struct_bridge_mcast_querier_def struct_net_bridge_mcast_def struct_bridge_id_def
  struct_net_bridge_def union_net_bridge_eht_addr_def struct_mac_addr___2_def
  struct_net_bridge_fdb_key_def struct_net_bridge_fdb_entry_def
  struct_net_bridge_fdb_flush_desc_def struct_net_bridge_group_eht_host_def
  struct_net_bridge_mcast_gc_def struct_net_bridge_group_eht_set_def
  struct_net_bridge_group_eht_set_entry_def struct_net_bridge_group_src_def
  struct_net_bridge_mcast_port_def struct_net_bridge_mdb_entry_def struct_bridge_stp_xstats_def
  struct_net_bridge_port_def struct_net_bridge_port_group_sg_key_def
  struct_net_bridge_port_group_def struct_br_tunnel_info_def struct_net_bridge_vlan_def
  struct_net_bridge_vlan_group_def struct_net_device_core_stats_def struct_net_device_devres_def
  struct_net_device_path_def struct_net_device_path_ctx_def struct_net_device_path_stack_def
  struct_net_devmem_dmabuf_binding_def struct_net_failover_info_def struct_net_fill_args_def
  struct_net_generic_def struct_offload_callbacks_def struct_net_offload_def
  struct_net_protocol_def struct_packet_offload_def struct_net_hotdata_def
  struct_netmem_desc_def struct_net_iov_def struct_net_packet_attrs_def
  struct_net_proto_family_def struct_net_rate_estimator_def struct_net_test_def
  struct_packet_type_def struct_net_test_priv_def struct_net_vrf_def struct_netdev_adjacent_def
  struct_ifslave_def struct_ifbond_def struct_netdev_bonding_info_def struct_netdev_bpf_def
  struct_netdev_config_def struct_netdev_event_work_cmd_def struct_netdev_event_work_def
  struct_netdev_hw_addr_def struct_netdev_lag_lower_state_info_def
  struct_netdev_lag_upper_info_def struct_netdev_name_node_def struct_netdev_nested_priv_def
  struct_netdev_net_notifier_def struct_netdev_nl_dump_ctx_def struct_netdev_nl_sock_def
  struct_netdev_notifier_info_def struct_netdev_notifier_bonding_info_def
  struct_netdev_notifier_change_info_def struct_netdev_notifier_changelowerstate_info_def
  struct_netdev_notifier_changeupper_info_def struct_netdev_notifier_info_ext_def
  struct_netdev_notifier_offload_xstats_info_def struct_rtnl_hw_stats64_def
  struct_netdev_notifier_offload_xstats_rd_def struct_netdev_notifier_offload_xstats_ru_def
  struct_netdev_notifier_pre_changeaddr_info_def struct_dql_def struct_netdev_queue_def
  struct_attribute_def struct_netdev_queue_attribute_def struct_netdev_queue_mgmt_ops_def
  struct_netdev_queue_stats_rx_def struct_netdev_queue_stats_tx_def
  struct_pp_memory_provider_params_def struct_netdev_rx_queue_def struct_netdev_stat_ops_def
  struct_netdev_xmit_def struct_netlink_broadcast_data_def struct_netlink_callback_def
  struct_netlink_compare_arg_def struct_netlink_diag_msg_def struct_netlink_diag_req_def
  struct_netlink_dump_control_def struct_netlink_kernel_cfg_def struct_netlink_notify_def
  struct_netlink_policy_dump_state_def struct_netlink_range_validation_def
  struct_netlink_range_validation_signed_def struct_netlink_set_err_data_def
  struct_scm_creds_def struct_netlink_skb_parms_def struct_netlink_sock_def
  struct_netlink_table_def struct_netlink_tap_def struct_netlink_tap_net_def
  struct_nfs42_netaddr_def struct_nl4_server_def struct_nl80211_bss_select_rssi_adjust_def
  struct_nl80211_pattern_support_def struct_nl80211_coalesce_rule_support_def
  struct_nl80211_dump_wiphy_state_def struct_nl80211_mlme_event_def
  struct_nl80211_sta_flag_update_def struct_nl80211_txrate_he_def struct_nl80211_txrate_vht_def
  struct_nl80211_vendor_cmd_info_def struct_nl_pktinfo_def struct_rhashtable_walker_def
  struct_rhashtable_iter_def struct_nl_seq_iter_def struct_nla_bitfield32_def struct_nla_map_def
  struct_nla_map___2_def struct_nldev_fill_res_entry_def struct_nlink_def struct_nlink_table_def
  struct_nlm_cookie_def struct_nfs_fh_def struct_xdr_netobj_def struct_file_lock_core_def
  struct_nfs_lock_info_def struct_nfs4_lock_info_def struct_file_lock_def struct_nlm_lock_def
  struct_nlm_args_def struct_nlm_block_def struct_nlm_file_def struct_nlm_host_def
  struct_nlm_lockowner_def struct_nlm_lookup_host_info_def struct_nsm_private_def
  struct_nlm_reboot_def struct_nlm_res_def struct_nlm_rqst_def struct_nlm_share_def
  struct_nlm_wait_def struct_nlmclnt_initdata_def struct_nlmclnt_operations_def
  struct_nlmsgerr_def struct_nlmsvc_binding_def struct_nls_table_def struct_sockaddr_pkt_def
  struct_sockaddr_ll_def struct_page_pool_params_fast_def struct_page_pool_alloc_stats_def
  struct_page_pool_params_slow_def struct_pp_alloc_cache_def struct_ptr_ring_def
  struct_page_pool_def struct_page_pool_bh_def struct_page_pool_dump_cb_def
  struct_page_pool_params_def struct_page_pool_recycle_stats_def struct_page_pool_stats_def
  struct_skb_array_def struct_rtnl_af_ops_def struct_rtnl_link_ifmap_def
  struct_rtnl_link_stats_def struct_rtnl_mdb_dump_ctx_def struct_rtnl_msg_handler_def
  struct_rtnl_net_dump_cb_def struct_rtnl_nets_def struct_rtnl_newlink_params_def
  struct_rtnl_newlink_tbs_def struct_rtnl_offload_xstats_request_used_def
  struct_rtnl_stats_dump_filters_def struct_sk_buff__safe_rcu_or_null_def
  struct_sk_buff_fclones_def struct_sk_filter_def struct_sk_psock_work_state_def
  struct_sk_psock_def struct_sk_psock_link_def struct_strp_msg_def struct__strp_msg_def
  struct_tls_msg_def struct_sk_skb_cb_def struct_skb_data_def struct_skb_ext_def
  struct_skb_free_array_def struct_skb_gso_cb_def struct_skb_seq_state_def
  struct_skbprio_sched_data_def struct_sock_bh_locked_def struct_sock_diag_handler_def
  struct_sock_diag_inet_compat_def struct_sock_diag_req_def struct_sock_ee_data_rfc4884_def
  struct_sock_extended_err_def struct_sock_exterr_skb_def struct_sock_fprog_def
  struct_sock_fprog_kern_def struct_sock_hash_seq_info_def struct_sock_map_seq_info_def
  struct_sock_reuseport_def struct_sock_skb_cb_def struct_sock_txtime_def struct_rpc_timer_def
  struct_rpc_wait_queue_def struct_xprtsec_parms_def struct_rpc_xprt_def struct_rpc_timeout_def
  struct_sock_xprt_def struct_sockaddr_alg_new_def struct_sockaddr_can_def
  struct_sockaddr_l2tpip_def struct_sockaddr_l2tpip6_def struct_sockaddr_nl_def
  struct_tipc_socket_addr_def struct_tipc_service_range_def struct_tipc_service_addr_def
  struct_sockaddr_tipc_def struct_sockaddr_pair_def struct_sockaddr_un_def
  struct_sockaddr_vm_def struct_sockaddr_xdp_def struct_socket_wq_def struct_socket_def
  struct_socket__safe_trusted_or_null_def struct_socket_alloc_def struct_sockmap_link_def
  struct_unix_address_def struct_unix_diag_msg_def struct_unix_diag_req_def
  struct_unix_diag_rqlen_def struct_unix_diag_vfs_def struct_auth_domain_def
  struct_unix_domain_def struct_unix_edge_def struct_unix_gid_def struct_unix_peercred_def
  struct_unix_skb_parms_def struct_wait_queue_entry_def struct_scm_stat_def struct_unix_sock_def
  struct_unix_stream_read_state_def struct_unix_vertex_def struct_xdp_attachment_info_def
  struct_xdp_buff_xsk_def struct_xdp_bulk_queue_def struct_xdp_cpumap_stats_def
  struct_xdp_desc_def struct_xdp_desc_ctx_def struct_xdp_dev_bulk_queue_def
  struct_xdp_diag_info_def struct_xdp_diag_msg_def struct_xdp_diag_req_def
  struct_xdp_diag_ring_def struct_xdp_diag_stats_def struct_xdp_diag_umem_def
  struct_xdp_frame_bulk_def struct_xdp_mem_allocator_def struct_xdp_metadata_ops_def
  struct_xdp_ring_offset_def struct_xdp_mmap_offsets_def struct_xdp_ring_offset_v1_def
  struct_xdp_mmap_offsets_v1_def struct_xdp_options_def struct_xdp_page_head_def
  struct_xdp_ring_def struct_xdp_rxtx_ring_def struct_xdp_sock_def struct_xdp_statistics_def
  struct_xdp_test_data_def struct_xdp_txq_info_def struct_xdp_umem_def struct_xdp_umem_reg_def
  struct_xdp_umem_ring_def struct_xsk_addr_head_def struct_xsk_addr_node_def
  struct_xsk_buff_pool_def struct_xsk_cb_desc_def struct_xsk_dma_map_def struct_xsk_map_def
  struct_xsk_map_node_def struct_xsk_queue_def struct_xsk_tx_metadata_def
  struct_xsk_tx_metadata_ops_def

lemmas net_layouts = net_comps net_typedefs net_contents layout_eval

definition net_types_1 :: "ctype list" where
  "net_types_1 = [
    struct_rtnl_link_stats64, struct_nl80211_wowlan_tcp_data_seq,
    struct_nl80211_wowlan_tcp_data_token, struct_ethtool_channels, struct_ethtool_coalesce,
    struct_netdev_phys_item_id, struct_net_iov_area, struct_ethtool_keee, struct_sockaddr_inet,
    struct_ethtool_ah_espip4_spec, struct_ethtool_ah_espip6_spec,
    struct_ethtool_c33_pse_ext_state_info, struct_ethtool_c33_pse_pw_limit_range,
    struct_ethtool_cmd, struct_ethtool_cmis_cdb, struct_ethtool_cmis_cdb_request,
    struct_ethtool_cmis_cdb_cmd_args, struct_ethtool_cmis_cdb_rpl_hdr,
    struct_ethtool_cmis_cdb_rpl, struct_ethtool_module_fw_flash_params,
    struct_ethnl_module_fw_flash_ntf_params, struct_ethtool_cmis_fw_update_params,
    struct_ethtool_flash, struct_ethtool_drvinfo, struct_ethtool_devlink_compat,
    struct_ethtool_dump, struct_ethtool_eee, struct_ethtool_eeprom,
    struct_ethtool_eth_ctrl_stats, struct_ethtool_eth_mac_stats, struct_ethtool_eth_phy_stats,
    struct_ethtool_fec_stat, struct_ethtool_fec_stats, struct_ethtool_fecparam,
    struct_ethtool_flow_ext, struct_ethtool_tcpip4_spec, struct_ethtool_usrip4_spec,
    struct_ethtool_tcpip6_spec, struct_ethtool_usrip6_spec, union_ethtool_flow_union,
    struct_ethtool_forced_speed_map, struct_ethtool_get_features_block,
    struct_ethtool_gfeatures, struct_ethtool_gstrings, struct_ethtool_link_ext_state_info,
    struct_ethtool_link_ext_stats, struct_ethtool_link_settings, struct_ethtool_link_ksettings,
    struct_ethtool_link_usettings, struct_ethtool_mm_cfg, struct_ethtool_mm_state,
    struct_ethtool_mm_stats, struct_ethtool_mmsv, struct_ethtool_mmsv_ops,
    struct_ethtool_modinfo, struct_ethtool_module_eeprom, struct_ethtool_module_fw_flash,
    struct_ethtool_module_power_mode_params, struct_ethtool_netdev_state,
    struct_ethtool_pause_stats, struct_ethtool_pauseparam, struct_ethtool_per_queue_op,
    struct_ethtool_perm_addr, struct_ethtool_phy_ops, struct_ethtool_phy_stats,
    struct_ethtool_pse_control_status, struct_ethtool_regs, struct_ethtool_ringparam,
    struct_ethtool_rmon_hist_range, struct_ethtool_rmon_stats, struct_flow_dissector_key_basic,
    struct_flow_dissector_key_ipv4_addrs, struct_flow_dissector_key_ipv6_addrs,
    struct_flow_dissector_key_ports, struct_flow_dissector_key_ip,
    struct_flow_dissector_key_vlan, struct_flow_dissector_key_eth_addrs,
    struct_ethtool_rx_flow_key, struct_flow_dissector, struct_ethtool_rx_flow_match,
    struct_ethtool_rx_flow_rule, struct_ethtool_rx_flow_spec, struct_ethtool_rx_flow_spec_input,
    struct_ethtool_rxfh, struct_ethtool_rxfh_context, struct_ethtool_rxfh_fields,
    struct_ethtool_rxfh_param, struct_ethtool_rxnfc, struct_ethtool_set_features_block,
    struct_ethtool_sfeatures, struct_ethtool_sset_info, struct_ethtool_stats,
    struct_ethtool_test, struct_ethtool_ts_info, struct_ethtool_ts_stats,
    struct_ethtool_tunable, struct_ethtool_value, struct_ethtool_wolinfo, struct_genl_split_ops,
    struct_genl_info, struct_genl_dumpit_info, struct_genl_family, struct_genl_multicast_group,
    struct_genl_op_iter, struct_genl_ops, struct_genl_small_ops, struct_genl_start_context,
    struct_genlmsghdr, struct_irq_affinity_notify, struct_napi_struct, struct_gro_cell,
    struct_gro_remcsum, struct___kernel_sockaddr_storage, struct_group_filter,
    struct_group_info, struct_group_req, struct_group_source_req, struct_net_prefixes,
    struct_net_prefixes___2, struct_page_frag_cache]"

lemma net_types_1_ok: "list_all ctype_ok net_types_1"
  by (simp add: net_types_1_def net_layouts)

definition net_types_2 :: "ctype list" where
  "net_types_2 = [
    struct_napi_alloc_cache, struct_napi_config, struct_napi_gro_cb, struct_net_aligned_data,
    struct_bridge_mcast_other_query, struct_bridge_mcast_own_query, struct_br_ip,
    struct_bridge_mcast_querier, struct_net_bridge_mcast, struct_bridge_id, struct_net_bridge,
    union_net_bridge_eht_addr, struct_mac_addr___2, struct_net_bridge_fdb_key,
    struct_net_bridge_fdb_entry, struct_net_bridge_fdb_flush_desc,
    struct_net_bridge_group_eht_host, struct_net_bridge_mcast_gc,
    struct_net_bridge_group_eht_set, struct_net_bridge_group_eht_set_entry,
    struct_net_bridge_group_src, struct_net_bridge_mcast_port, struct_net_bridge_mdb_entry,
    struct_bridge_stp_xstats, struct_net_bridge_port, struct_net_bridge_port_group_sg_key,
    struct_net_bridge_port_group, struct_br_tunnel_info, struct_net_bridge_vlan,
    struct_net_bridge_vlan_group, struct_net_device_core_stats, struct_net_device_devres,
    struct_net_device_path, struct_net_device_path_ctx, struct_net_device_path_stack,
    struct_net_devmem_dmabuf_binding, struct_net_failover_info, struct_net_fill_args,
    struct_net_generic, struct_offload_callbacks, struct_net_offload, struct_net_protocol,
    struct_packet_offload, struct_net_hotdata, struct_netmem_desc, struct_net_iov,
    struct_net_packet_attrs, struct_net_proto_family, struct_net_rate_estimator,
    struct_net_test, struct_packet_type, struct_net_test_priv, struct_net_vrf,
    struct_netdev_adjacent, struct_ifslave, struct_ifbond, struct_netdev_bonding_info,
    struct_netdev_bpf, struct_netdev_config, struct_netdev_event_work_cmd,
    struct_netdev_event_work, struct_netdev_hw_addr, struct_netdev_lag_lower_state_info,
    struct_netdev_lag_upper_info, struct_netdev_name_node, struct_netdev_nested_priv,
    struct_netdev_net_notifier, struct_netdev_nl_dump_ctx, struct_netdev_nl_sock,
    struct_netdev_notifier_info, struct_netdev_notifier_bonding_info,
    struct_netdev_notifier_change_info, struct_netdev_notifier_changelowerstate_info,
    struct_netdev_notifier_changeupper_info, struct_netdev_notifier_info_ext,
    struct_netdev_notifier_offload_xstats_info, struct_rtnl_hw_stats64,
    struct_netdev_notifier_offload_xstats_rd, struct_netdev_notifier_offload_xstats_ru,
    struct_netdev_notifier_pre_changeaddr_info, struct_dql, struct_netdev_queue,
    struct_attribute, struct_netdev_queue_attribute, struct_netdev_queue_mgmt_ops,
    struct_netdev_queue_stats_rx, struct_netdev_queue_stats_tx,
    struct_pp_memory_provider_params, struct_netdev_rx_queue, struct_netdev_stat_ops,
    struct_netdev_xmit, struct_netlink_broadcast_data, struct_netlink_callback,
    struct_netlink_compare_arg, struct_netlink_diag_msg, struct_netlink_diag_req,
    struct_netlink_dump_control, struct_netlink_kernel_cfg, struct_netlink_notify,
    struct_netlink_policy_dump_state, struct_netlink_range_validation,
    struct_netlink_range_validation_signed, struct_netlink_set_err_data, struct_scm_creds,
    struct_netlink_skb_parms, struct_netlink_sock, struct_netlink_table, struct_netlink_tap,
    struct_netlink_tap_net, struct_nfs42_netaddr, struct_nl4_server,
    struct_nl80211_bss_select_rssi_adjust, struct_nl80211_pattern_support,
    struct_nl80211_coalesce_rule_support, struct_nl80211_dump_wiphy_state,
    struct_nl80211_mlme_event, struct_nl80211_sta_flag_update, struct_nl80211_txrate_he,
    struct_nl80211_txrate_vht, struct_nl80211_vendor_cmd_info]"

lemma net_types_2_ok: "list_all ctype_ok net_types_2"
  by (simp add: net_types_2_def net_layouts)

definition net_types_3 :: "ctype list" where
  "net_types_3 = [
    struct_nl_pktinfo, struct_rhashtable_walker, struct_rhashtable_iter, struct_nl_seq_iter,
    struct_nla_bitfield32, struct_nla_map, struct_nla_map___2, struct_nldev_fill_res_entry,
    struct_nlink, struct_nlink_table, struct_nlm_cookie, struct_nfs_fh, struct_xdr_netobj,
    struct_file_lock_core, struct_nfs_lock_info, struct_nfs4_lock_info, struct_file_lock,
    struct_nlm_lock, struct_nlm_args, struct_nlm_block, struct_nlm_file, struct_nlm_host,
    struct_nlm_lockowner, struct_nlm_lookup_host_info, struct_nsm_private, struct_nlm_reboot,
    struct_nlm_res, struct_nlm_rqst, struct_nlm_share, struct_nlm_wait, struct_nlmclnt_initdata,
    struct_nlmclnt_operations, struct_nlmsgerr, struct_nlmsvc_binding, struct_nls_table,
    struct_sockaddr_pkt, struct_sockaddr_ll, struct_page_pool_params_fast,
    struct_page_pool_alloc_stats, struct_page_pool_params_slow, struct_pp_alloc_cache,
    struct_ptr_ring, struct_page_pool, struct_page_pool_bh, struct_page_pool_dump_cb,
    struct_page_pool_params, struct_page_pool_recycle_stats, struct_page_pool_stats,
    struct_skb_array, struct_rtnl_af_ops, struct_rtnl_link_ifmap, struct_rtnl_link_stats,
    struct_rtnl_mdb_dump_ctx, struct_rtnl_msg_handler, struct_rtnl_net_dump_cb,
    struct_rtnl_nets, struct_rtnl_newlink_params, struct_rtnl_newlink_tbs,
    struct_rtnl_offload_xstats_request_used, struct_rtnl_stats_dump_filters,
    struct_sk_buff__safe_rcu_or_null, struct_sk_buff_fclones, struct_sk_filter,
    struct_sk_psock_work_state, struct_sk_psock, struct_sk_psock_link, struct_strp_msg,
    struct__strp_msg, struct_tls_msg, struct_sk_skb_cb, struct_skb_data, struct_skb_ext,
    struct_skb_free_array, struct_skb_gso_cb, struct_skb_seq_state, struct_skbprio_sched_data,
    struct_sock_bh_locked, struct_sock_diag_handler, struct_sock_diag_inet_compat,
    struct_sock_diag_req, struct_sock_ee_data_rfc4884, struct_sock_extended_err,
    struct_sock_exterr_skb, struct_sock_fprog, struct_sock_fprog_kern,
    struct_sock_hash_seq_info, struct_sock_map_seq_info, struct_sock_reuseport,
    struct_sock_skb_cb, struct_sock_txtime, struct_rpc_timer, struct_rpc_wait_queue,
    struct_xprtsec_parms, struct_rpc_xprt, struct_rpc_timeout, struct_sock_xprt,
    struct_sockaddr_alg_new, struct_sockaddr_can, struct_sockaddr_l2tpip,
    struct_sockaddr_l2tpip6, struct_sockaddr_nl, struct_tipc_socket_addr,
    struct_tipc_service_range, struct_tipc_service_addr, struct_sockaddr_tipc,
    struct_sockaddr_pair, struct_sockaddr_un, struct_sockaddr_vm, struct_sockaddr_xdp,
    struct_socket_wq, struct_socket, struct_socket__safe_trusted_or_null, struct_socket_alloc,
    struct_sockmap_link, struct_unix_address, struct_unix_diag_msg, struct_unix_diag_req,
    struct_unix_diag_rqlen, struct_unix_diag_vfs, struct_auth_domain]"

lemma net_types_3_ok: "list_all ctype_ok net_types_3"
  by (simp add: net_types_3_def net_layouts)

definition net_types_4 :: "ctype list" where
  "net_types_4 = [
    struct_unix_domain, struct_unix_edge, struct_unix_gid, struct_unix_peercred,
    struct_unix_skb_parms, struct_wait_queue_entry, struct_scm_stat, struct_unix_sock,
    struct_unix_stream_read_state, struct_unix_vertex, struct_xdp_attachment_info,
    struct_xdp_buff_xsk, struct_xdp_bulk_queue, struct_xdp_cpumap_stats, struct_xdp_desc,
    struct_xdp_desc_ctx, struct_xdp_dev_bulk_queue, struct_xdp_diag_info, struct_xdp_diag_msg,
    struct_xdp_diag_req, struct_xdp_diag_ring, struct_xdp_diag_stats, struct_xdp_diag_umem,
    struct_xdp_frame_bulk, struct_xdp_mem_allocator, struct_xdp_metadata_ops,
    struct_xdp_ring_offset, struct_xdp_mmap_offsets, struct_xdp_ring_offset_v1,
    struct_xdp_mmap_offsets_v1, struct_xdp_options, struct_xdp_page_head, struct_xdp_ring,
    struct_xdp_rxtx_ring, struct_xdp_sock, struct_xdp_statistics, struct_xdp_test_data,
    struct_xdp_txq_info, struct_xdp_umem, struct_xdp_umem_reg, struct_xdp_umem_ring,
    struct_xsk_addr_head, struct_xsk_addr_node, struct_xsk_buff_pool, struct_xsk_cb_desc,
    struct_xsk_dma_map, struct_xsk_map, struct_xsk_map_node, struct_xsk_queue,
    struct_xsk_tx_metadata, struct_xsk_tx_metadata_ops]"

lemma net_types_4_ok: "list_all ctype_ok net_types_4"
  by (simp add: net_types_4_def net_layouts)

text \<open>What the declarations of \<open>Vmlinux_Link\<close> contain from earlier theories.\<close>

lemmas link_contents =
  t___u32_def t_u32_def struct_hlist_node_def t___u64_def t_u64_def t___u8_def t___u16_def
  t_u16_def t_u8_def t___s64_def t_s64_def t_ktime_t_def t___kernel_ulong_t_def
  t___kernel_size_t_def t_size_t_def t___be16_def t_atomic64_t_def t_bool_def struct_ethhdr_def
  t_umode_t_def struct_attribute_def struct_list_head_def t___be32_def struct_in6_addr_def
  struct_callback_head_def t_atomic_t_def t___s32_def t_s32_def struct_qspinlock_def
  t_arch_spinlock_t_def struct_raw_spinlock_def struct_spinlock_def t_spinlock_t_def
  t_atomic_long_t_def t_work_func_t_def struct_work_struct_def struct_timer_list_def
  struct_delayed_work_def struct_rtnl_link_stats64_def struct_bridge_id_def t_bridge_id_def
  t_port_id_def struct_br_ip_def struct_u64_stats_sync_def t_netns_tracker_def
  struct_tcf_exts_def struct_rcu_work_def struct_flow_dissector_key_ports_def
  struct_flow_dissector_key_basic_def struct_flow_dissector_key_eth_addrs_def
  struct_flow_dissector_key_vlan_def struct_flow_dissector_key_ipv4_addrs_def
  struct_flow_dissector_key_ipv6_addrs_def struct_flow_dissector_key_ip_def
  struct_rhash_head_def struct_tcf_result_def struct_refcount_struct_def t_refcount_t_def
  t_rht_hashfn_t_def t_rht_obj_hashfn_t_def t_rht_obj_cmpfn_t_def struct_rhashtable_params_def
  t_raw_spinlock_t_def struct_optimistic_spin_queue_def struct_mutex_def struct_rhashtable_def
  t_gfp_t_def struct_xarray_def struct_idr_def struct_netdev_phys_item_id_def struct_in_addr_def
  struct_sk_buff_list_def struct_sk_buff_head_def struct_rb_root_def struct_rb_node_def
  struct_timerqueue_node_def struct_hrtimer_def struct_qdisc_watchdog_def t___be64_def
  struct_ip_tunnel_key_def struct_ip_tunnel_encap_def struct_dst_cache_def
  struct_ip_tunnel_info_def struct_gro_cells_def struct_hlist_head_def
  t___kernel_sa_family_t_def t_sa_family_t_def struct_sockaddr_def t_netdevice_tracker_def
  t_netdev_features_t_def t_local_t_def t_local64_t_def t_u64_stats_t_def struct_kref_def
  struct_kobject_def enum_dl_dev_state_def struct_dev_links_info_def struct_pm_message_def
  t_pm_message_t_def struct_dev_pm_info_def struct_dev_msi_info_def struct_dev_archdata_def
  t___kernel_dev_t_def t_dev_t_def enum_device_removable_def struct_device_def
  struct_lock_class_key_def t___s8_def t_s8_def struct_qdisc_skb_cb_def t_local_lock_t_def
  struct_sockaddr_in_def struct_sockaddr_in6_def struct_gnet_stats_basic_sync_def
  struct_gnet_stats_queue_def t___addrpair_def t___portpair_def t_possible_net_t_def
  struct_hlist_nulls_node_def struct_sock_common_def struct_wait_queue_head_def
  t_wait_queue_head_t_def t_socket_lock_t_def struct_page_frag_def struct_qrwlock_def
  t_arch_rwlock_t_def t_rwlock_t_def t___kernel_uid32_t_def t_uid_t_def t_kuid_t_def
  struct_sock_cgroup_data_def struct_sock_def t_socket_state_def struct_socket_wq_def
  struct_socket_def struct_gro_list_def struct_gro_node_def struct_irq_affinity_notify_def
  struct_napi_struct_def struct_ptr_ring_def struct_xdp_mem_info_def struct_xdp_rxq_info_def
  t___kernel_gid32_t_def t_gid_t_def t_kgid_t_def struct_sock_fprog_def
  struct_ethtool_link_settings_def struct_ethtool_link_ksettings_def struct_xdp_buff_def
  t_notifier_fn_t_def struct_notifier_block_def

lemmas link_typedefs =
  enum_devlink_port_flavour_def enum_devlink_port_type_def enum_devlink_rate_type_def
  enum_flow_action_hw_stats_def enum_flow_action_id_def enum_flow_action_mangle_base_def
  enum_flow_block_binder_type_def enum_flow_block_command_def enum_flow_cls_command_def
  enum_flow_dissector_key_id_def enum_ifla_geneve_df_def enum_ifla_vxlan_df_def
  enum_ifla_vxlan_label_policy_def enum_macvlan_mode_def enum_phy_mode_def enum_phy_state_def
  enum_phy_upstream_def enum_phylink_op_type_def enum_switchdev_attr_id_def
  enum_switchdev_obj_id_def enum_tc_clsbpf_command_def enum_tc_clsu32_command_def
  enum_tc_ets_command_def enum_tc_fifo_command_def enum_tc_gred_command_def
  enum_tc_htb_command_def enum_tc_mq_command_def enum_tc_prio_command_def
  enum_tc_red_command_def enum_tc_root_command_def enum_tc_setup_type_def
  enum_tc_taprio_qopt_cmd_def enum_tc_tbf_command_def t_action_destr_def
  enum_offload_act_command_def t_codel_time_t_def t_psched_time_t_def t_sci_t_def
  enum_probe_type_def t_phy_interface_t_def t_phys_addr_t_def t_sched_domain_mask_f_def
  t_sched_domain_flags_f_def t___kernel_long_t_def t___kernel_clock_t_def t_clock_t_def
  enum_tca_id_def enum_pedit_header_type_def enum_pedit_cmd_def

lemmas link_comps =
  struct_Qdisc_class_common_def struct_Qdisc_class_hash_def struct_Qdisc_class_ops_def
  struct_tc_taprio_qopt_stats_def struct_tc_taprio_qopt_queue_stats_def
  struct_tc_mqprio_qopt_def struct_tc_mqprio_qopt_offload_def struct_tc_taprio_sched_entry_def
  struct_tc_taprio_qopt_offload_def struct_vlan_head_def struct_bond_3ad_stats_def
  struct_phylink_config_def struct_tcf_ematch_tree_def struct_mac_addr_def
  struct_bond_marker_def struct_bond_marker_header_def struct_class_attribute_def
  struct_bond_net_def struct_bond_opt_value_def struct_bond_option_def
  struct_reciprocal_value_def struct_bond_params_def struct_bond_up_slave_def
  struct_bond_vlan_tag_def struct_ad_system_def struct_ad_bond_info_def struct_alb_bond_info_def
  struct_bonding_def struct_br_boolopt_multi_def struct_br_config_bpdu_def
  struct_br_frame_type_def struct_br_input_skb_cb_def struct_br_ip_list_def
  struct_br_mcast_stats_def struct_br_mdb_config_def struct_br_mdb_entry_def
  struct_br_mdb_flush_desc_def struct_br_mdb_src_entry_def struct_br_port_msg_def
  struct_br_switchdev_mdb_complete_info_def struct_br_vlan_bind_walk_data_def
  struct_br_vlan_link_state_walk_data_def struct_br_vlan_msg_def struct_bridge_mcast_stats_def
  struct_bridge_vlan_info_def struct_bridge_vlan_xstats_def struct_qdisc_walker_def
  struct_flow_keys_digest_def struct_cls_cgroup_head_def struct_flow_dissector_key_meta_def
  struct_flow_dissector_key_control_def struct_flow_dissector_key_icmp_def
  struct_flow_dissector_key_arp_def struct_flow_dissector_key_keyid_def
  struct_flow_dissector_mpls_lse_def struct_flow_dissector_key_mpls_def
  struct_flow_dissector_key_tcp_def struct_flow_dissector_key_enc_opts_def
  struct_flow_dissector_key_ports_range_def struct_flow_dissector_key_ct_def
  struct_flow_dissector_key_hash_def struct_flow_dissector_key_num_of_vlans_def
  struct_flow_dissector_key_pppoe_def struct_flow_dissector_key_l2tpv3_def
  struct_flow_dissector_key_ipsec_def struct_flow_dissector_key_cfm_def struct_fl_flow_key_def
  struct_cls_fl_filter_def struct_cls_fl_head_def struct_tcf_block_ext_info_def
  struct_flow_table_def struct_devlink_port_phys_attrs_def struct_devlink_port_pci_pf_attrs_def
  struct_devlink_port_pci_vf_attrs_def struct_devlink_port_pci_sf_attrs_def
  struct_devlink_port_attrs_def struct_devlink_port_def struct_devlink_port_ops_def
  struct_devlink_rate_def struct_flow_action_entry_def struct_flow_action_def
  struct_flow_action_cookie_def struct_flow_block_indr_def struct_flow_block_cb_def
  struct_flow_block_offload_def struct_flow_cls_common_offload_def struct_flow_stats_def
  struct_flow_cls_offload_def struct_flow_dissector_key_def struct_flow_dissector_key_tipc_def
  struct_flow_dissector_key_addrs_def struct_flow_dissector_key_tags_def
  struct_flow_indir_dev_info_def struct_flow_indr_dev_def struct_flow_keys_def
  struct_flow_keys_basic_def struct_flow_match_def struct_flow_match_arp_def
  struct_flow_match_basic_def struct_flow_match_control_def struct_flow_match_ct_def
  struct_flow_match_enc_keyid_def struct_flow_match_enc_opts_def struct_flow_match_eth_addrs_def
  struct_flow_match_icmp_def struct_flow_match_ip_def struct_flow_match_ipsec_def
  struct_flow_match_ipv4_addrs_def struct_flow_match_ipv6_addrs_def struct_flow_match_l2tpv3_def
  struct_flow_match_meta_def struct_flow_match_mpls_def struct_flow_match_ports_def
  struct_flow_match_ports_range_def struct_flow_match_pppoe_def struct_flow_match_tcp_def
  struct_flow_match_vlan_def struct_flow_offload_tuple_def struct_flow_offload_tuple_rhash_def
  struct_flow_offload_def struct_flow_offload_action_def struct_flow_offload_work_def
  struct_flow_offload_xdp_def struct_flow_offload_xdp_ft_def struct_flow_ports_def
  struct_flow_rule_def struct_codel_vars_def struct_fq_codel_flow_def struct_codel_params_def
  struct_codel_stats_def struct_fq_codel_sched_data_def struct_fq_flow_def
  struct_fq_flow___2_def struct_fq_flow_head_def struct_fq_perband_flows_def struct_pie_vars_def
  struct_fq_pie_flow_def struct_pie_params_def struct_pie_stats_def struct_fq_pie_sched_data_def
  struct_fq_sched_data_def struct_fq_skb_cb_def struct_fq_tin_def struct_geneve_config_def
  struct_geneve_dev_node_def struct_geneve_dev_def struct_geneve_net_def struct_geneve_opt_def
  struct_geneve_sock_def struct_genevehdr_def struct_tc_stats_def struct_psched_ratecfg_def
  struct_tc_htb_xstats_def struct_if_dqblk_def struct_if_dqinfo_def struct_if_nextdqblk_def
  struct_if_settings_def struct_if_stats_msg_def struct_ifinfomsg_def struct_ifla_cacheinfo_def
  struct_ifla_geneve_port_range_def struct_ifla_vf_broadcast_def struct_ifla_vf_guid_def
  struct_ifla_vf_info_def struct_ifla_vf_link_state_def struct_ifla_vf_mac_def
  struct_ifla_vf_rate_def struct_ifla_vf_rss_query_en_def struct_ifla_vf_spoofchk_def
  struct_ifla_vf_stats_def struct_ifla_vf_trust_def struct_ifla_vf_tx_rate_def
  struct_ifla_vf_vlan_def struct_ifla_vf_vlan_info_def struct_ifla_vlan_flags_def
  struct_ifla_vlan_qos_mapping_def struct_ifla_vxlan_port_range_def struct_ifmap_def
  struct_ifreq_def struct_macsec_info_def struct_macvlan_dev_def struct_macvlan_port_def
  struct_macvlan_skb_cb_def struct_macvlan_source_entry_def struct_mdio_board_info_def
  struct_mdio_board_entry_def struct_mdio_bus_stat_attr_def struct_mdio_bus_stats_def
  struct_mdio_device_def struct_device_driver_def struct_mdio_driver_common_def
  struct_mdio_driver_def struct_mdiobus_devres_def struct_tc_netem_slot_def struct_crndstate_def
  struct_rnd_state_def struct_prng_def struct_clgstate_def struct_slotstate_def
  struct_netem_sched_data_def struct_netem_skb_cb_def struct_vxlan_metadata_def
  struct_phy_attrs_def struct_phy_def struct_phy_c45_device_ids_def
  struct_phy_configure_opts_mipi_dphy_def struct_phy_configure_opts_dp_def
  struct_phy_configure_opts_lvds_def struct_phy_configure_opts_hdmi_def
  union_phy_configure_opts_def struct_eee_config_def struct_phy_device_def
  struct_phy_device_node_def struct_phy_driver_def struct_phy_fixup_def struct_led_classdev_def
  struct_phy_led_def struct_phy_link_topology_def struct_phy_ops_def struct_phy_parameters_def
  struct_phy_plca_cfg_def struct_phy_plca_status_def struct_ethnl_reply_data_def
  struct_phy_reply_data_def struct_phy_sts_cck_8192s_t_def struct_phy_tdr_config_def
  struct_phylib_stubs_def struct_phylink_link_state_def struct_phylink_def
  struct_phylink_mac_ops_def struct_phylink_pcs_def struct_phylink_pcs_ops_def
  struct_phys_vec_def struct_psched_pktrate_def struct_qdisc_dump_args_def
  struct_tc_ratespec_def struct_qdisc_rate_table_def struct_tc_sizespec_def
  struct_qdisc_size_table_def struct_tcf_qevent_def struct_sch_frag_data_def
  struct_sched_attr_def struct_sched_class_def struct_sched_domain_def
  struct_sched_domain_attr_def struct_sched_domain_shared_def struct_sd_data_def
  struct_sched_domain_topology_level_def struct_sched_entry_def struct_sched_gate_list_def
  struct_sched_group_def struct_sched_group_capacity_def struct_sched_param_def
  struct_tc_sfqred_stats_def struct_switchdev_mst_state_def struct_switchdev_brport_flags_def
  struct_switchdev_vlan_msti_def struct_switchdev_attr_def struct_switchdev_brport_def
  struct_switchdev_deferred_item_def struct_switchdev_nested_priv_def
  struct_switchdev_notifier_info_def struct_switchdev_notifier_brport_info_def
  struct_switchdev_notifier_fdb_info_def struct_switchdev_notifier_port_attr_info_def
  struct_switchdev_notifier_port_obj_info_def union_vxlan_addr_def
  struct_switchdev_notifier_vxlan_fdb_info_def struct_switchdev_obj_def
  struct_switchdev_obj_port_mdb_def struct_switchdev_obj_port_vlan_def struct_tc_act_bpf_def
  struct_tc_act_pernet_id_def struct_tcf_t_def struct_tc_action_def struct_tc_action_net_def
  struct_tc_action_ops_def struct_tc_basic_pcnt_def struct_tc_bind_class_args_def
  struct_tc_cbs_qopt_def struct_tc_cbs_qopt_offload_def struct_tc_choke_xstats_def
  struct_tc_cls_bpf_offload_def struct_tc_cls_u32_hnode_def struct_tc_cls_u32_knode_def
  struct_tc_cls_u32_offload_def struct_tc_codel_xstats_def struct_tc_cookie_def
  struct_tc_drr_stats_def struct_tc_etf_qopt_def struct_tc_etf_qopt_offload_def
  struct_tc_ets_qopt_offload_replace_params_def struct_tc_qopt_offload_stats_def
  struct_tc_ets_qopt_offload_graft_params_def struct_tc_ets_qopt_offload_def
  struct_tc_fifo_qopt_def struct_tc_fifo_qopt_offload_def struct_tc_fq_codel_cl_stats_def
  struct_tc_fq_codel_qd_stats_def struct_tc_fq_codel_xstats_def struct_tc_fq_pie_xstats_def
  struct_tc_fq_qd_stats_def struct_tc_gact_def struct_tc_gred_qopt_def
  struct_tc_gred_vq_qopt_offload_params_def struct_tc_gred_qopt_offload_params_def
  struct_tc_gred_qopt_offload_stats_def struct_tc_gred_qopt_offload_def struct_tc_gred_sopt_def
  struct_tc_hfsc_qopt_def struct_tc_hfsc_stats_def struct_tc_hhf_xstats_def
  struct_tc_htb_glob_def struct_tc_htb_opt_def struct_tc_htb_qopt_offload_def
  struct_tc_mirred_def struct_tc_mq_opt_offload_graft_params_def struct_tc_mq_qopt_offload_def
  struct_tc_mqprio_caps_def struct_tc_multiq_qopt_def struct_tc_netem_corr_def
  struct_tc_netem_corrupt_def struct_tc_netem_gemodel_def struct_tc_netem_gimodel_def
  struct_tc_netem_qopt_def struct_tc_netem_rate_def struct_tc_netem_reorder_def
  struct_tc_pedit_key_def struct_tc_pie_xstats_def struct_tc_plug_qopt_def
  struct_tc_prio_qopt_def struct_tc_prio_qopt_offload_params_def
  struct_tc_prio_qopt_offload_graft_params_def struct_tc_prio_qopt_offload_def
  struct_tc_qfq_stats_def struct_tc_query_caps_base_def struct_tc_red_qopt_def
  struct_tc_red_qopt_offload_params_def struct_tc_red_qopt_offload_def struct_tc_red_xstats_def
  struct_tc_root_qopt_offload_def struct_tc_service_curve_def struct_tc_sfb_qopt_def
  struct_tc_sfb_xstats_def struct_tc_sfq_qopt_def struct_tc_sfq_qopt_v1_def
  struct_tc_sfq_xstats_def struct_tc_skb_cb_def struct_tc_skbprio_qopt_def
  struct_tc_taprio_caps_def struct_tc_tbf_qopt_def struct_tc_tbf_qopt_offload_replace_params_def
  struct_tc_tbf_qopt_offload_def struct_tc_u32_key_def struct_tc_u32_mark_def
  struct_tc_u32_pcnt_def struct_tc_u32_sel_hdr_def struct_tc_u32_sel_def struct_tc_u_common_def
  struct_tc_u_hnode_def struct_tc_u_knode_def struct_tcf_walker_def struct_tcf_bind_args_def
  struct_tcf_block_owner_item_def struct_tcf_bpf_def struct_tcf_bpf_cfg_def struct_tcf_chain_def
  struct_tcf_chain_info_def struct_tcf_dump_args_def struct_tcf_exts_miss_cookie_node_def
  struct_tcf_filter_chain_list_item_def struct_tcf_gact_def struct_tcf_idrinfo_def
  struct_tcf_mirred_def struct_tcf_net_def struct_tcf_pedit_def struct_tcf_pedit_key_ex_def
  struct_tcf_pedit_parms_def struct_tun_file_def struct_tun_filter_def struct_tun_flow_entry_def
  struct_tun_msg_ctl_def struct_tun_page_def struct_tun_pi_def struct_tun_prog_def
  struct_tap_filter_def struct_tun_struct_def struct_tunnel_msg_def struct_veth_def
  struct_veth_priv_def struct_veth_q_stat_desc_def struct_veth_stats_def
  struct_veth_rq_stats_def struct_veth_rq_def struct_veth_xdp_buff_def struct_veth_xdp_tx_bq_def
  struct_vlan_dev_priv_def struct_vlan_ethhdr_def struct_vlan_group_def struct_vlan_hdr_def
  struct_vlan_info_def struct_vlan_ioctl_args_def struct_vlan_net_def struct_vlan_pcpu_stats_def
  struct_vlan_priority_tci_mapping_def struct_vlan_vid_info_def struct_vxlanhdr_def
  struct_vxlan_config_def struct_vxlan_dev_node_def struct_vxlan_rdst_def struct_vxlan_dev_def
  struct_vxlan_fdb_key_def struct_vxlan_fdb_def struct_vxlan_fdb_flush_desc_def
  struct_vxlan_mdb_entry_key_def struct_vxlan_mdb_config_def
  struct_vxlan_mdb_config_src_entry_def struct_vxlan_mdb_dump_ctx_def struct_vxlan_mdb_entry_def
  struct_vxlan_mdb_flush_desc_def struct_vxlan_mdb_remote_def struct_vxlan_mdb_src_entry_def
  struct_vxlan_net_def struct_vxlan_sock_def struct_vxlan_vni_group_def
  struct_vxlan_vni_node_def struct_vxlan_vni_stats_def struct_vxlan_vni_stats_pcpu_def
  struct_vxlanhdr_gbp_def struct_vxlanhdr_gpe_def

lemmas link_layouts = link_comps link_typedefs link_contents layout_eval

definition link_types_1 :: "ctype list" where
  "link_types_1 = [
    struct_Qdisc_class_common, struct_Qdisc_class_hash, struct_Qdisc_class_ops,
    struct_tc_taprio_qopt_stats, struct_tc_taprio_qopt_queue_stats, struct_tc_mqprio_qopt,
    struct_tc_mqprio_qopt_offload, struct_tc_taprio_sched_entry, struct_tc_taprio_qopt_offload,
    struct_vlan_head, struct_bond_3ad_stats, struct_phylink_config, struct_tcf_ematch_tree,
    struct_mac_addr, struct_bond_marker, struct_bond_marker_header, struct_class_attribute,
    struct_bond_net, struct_bond_opt_value, struct_bond_option, struct_reciprocal_value,
    struct_bond_params, struct_bond_up_slave, struct_bond_vlan_tag, struct_ad_system,
    struct_ad_bond_info, struct_alb_bond_info, struct_bonding, struct_br_boolopt_multi,
    struct_br_config_bpdu, struct_br_frame_type, struct_br_input_skb_cb, struct_br_ip_list,
    struct_br_mcast_stats, struct_br_mdb_config, struct_br_mdb_entry, struct_br_mdb_flush_desc,
    struct_br_mdb_src_entry, struct_br_port_msg, struct_br_switchdev_mdb_complete_info,
    struct_br_vlan_bind_walk_data, struct_br_vlan_link_state_walk_data, struct_br_vlan_msg,
    struct_bridge_mcast_stats, struct_bridge_vlan_info, struct_bridge_vlan_xstats,
    struct_qdisc_walker, struct_flow_keys_digest, struct_cls_cgroup_head,
    struct_flow_dissector_key_meta, struct_flow_dissector_key_control,
    struct_flow_dissector_key_icmp, struct_flow_dissector_key_arp,
    struct_flow_dissector_key_keyid, struct_flow_dissector_mpls_lse,
    struct_flow_dissector_key_mpls, struct_flow_dissector_key_tcp,
    struct_flow_dissector_key_enc_opts, struct_flow_dissector_key_ports_range,
    struct_flow_dissector_key_ct, struct_flow_dissector_key_hash,
    struct_flow_dissector_key_num_of_vlans, struct_flow_dissector_key_pppoe,
    struct_flow_dissector_key_l2tpv3, struct_flow_dissector_key_ipsec,
    struct_flow_dissector_key_cfm, struct_fl_flow_key, struct_cls_fl_filter, struct_cls_fl_head,
    struct_tcf_block_ext_info, struct_flow_table, struct_devlink_port_phys_attrs,
    struct_devlink_port_pci_pf_attrs, struct_devlink_port_pci_vf_attrs,
    struct_devlink_port_pci_sf_attrs, struct_devlink_port_attrs, struct_devlink_port,
    struct_devlink_port_ops, struct_devlink_rate, struct_flow_action_entry, struct_flow_action,
    struct_flow_action_cookie, struct_flow_block_indr, struct_flow_block_cb,
    struct_flow_block_offload, struct_flow_cls_common_offload, struct_flow_stats,
    struct_flow_cls_offload, struct_flow_dissector_key, struct_flow_dissector_key_tipc,
    struct_flow_dissector_key_addrs, struct_flow_dissector_key_tags, struct_flow_indir_dev_info,
    struct_flow_indr_dev, struct_flow_keys, struct_flow_keys_basic, struct_flow_match,
    struct_flow_match_arp, struct_flow_match_basic, struct_flow_match_control,
    struct_flow_match_ct, struct_flow_match_enc_keyid, struct_flow_match_enc_opts,
    struct_flow_match_eth_addrs, struct_flow_match_icmp, struct_flow_match_ip,
    struct_flow_match_ipsec, struct_flow_match_ipv4_addrs, struct_flow_match_ipv6_addrs,
    struct_flow_match_l2tpv3, struct_flow_match_meta, struct_flow_match_mpls,
    struct_flow_match_ports, struct_flow_match_ports_range, struct_flow_match_pppoe,
    struct_flow_match_tcp, struct_flow_match_vlan, struct_flow_offload_tuple,
    struct_flow_offload_tuple_rhash, struct_flow_offload]"

lemma link_types_1_ok: "list_all ctype_ok link_types_1"
  by (simp add: link_types_1_def link_layouts)

definition link_types_2 :: "ctype list" where
  "link_types_2 = [
    struct_flow_offload_action, struct_flow_offload_work, struct_flow_offload_xdp,
    struct_flow_offload_xdp_ft, struct_flow_ports, struct_flow_rule, struct_codel_vars,
    struct_fq_codel_flow, struct_codel_params, struct_codel_stats, struct_fq_codel_sched_data,
    struct_fq_flow, struct_fq_flow___2, struct_fq_flow_head, struct_fq_perband_flows,
    struct_pie_vars, struct_fq_pie_flow, struct_pie_params, struct_pie_stats,
    struct_fq_pie_sched_data, struct_fq_sched_data, struct_fq_skb_cb, struct_fq_tin,
    struct_geneve_config, struct_geneve_dev_node, struct_geneve_dev, struct_geneve_net,
    struct_geneve_opt, struct_geneve_sock, struct_genevehdr, struct_tc_stats,
    struct_psched_ratecfg, struct_tc_htb_xstats, struct_if_dqblk, struct_if_dqinfo,
    struct_if_nextdqblk, struct_if_settings, struct_if_stats_msg, struct_ifinfomsg,
    struct_ifla_cacheinfo, struct_ifla_geneve_port_range, struct_ifla_vf_broadcast,
    struct_ifla_vf_guid, struct_ifla_vf_info, struct_ifla_vf_link_state, struct_ifla_vf_mac,
    struct_ifla_vf_rate, struct_ifla_vf_rss_query_en, struct_ifla_vf_spoofchk,
    struct_ifla_vf_stats, struct_ifla_vf_trust, struct_ifla_vf_tx_rate, struct_ifla_vf_vlan,
    struct_ifla_vf_vlan_info, struct_ifla_vlan_flags, struct_ifla_vlan_qos_mapping,
    struct_ifla_vxlan_port_range, struct_ifmap, struct_ifreq, struct_macsec_info,
    struct_macvlan_dev, struct_macvlan_port, struct_macvlan_skb_cb, struct_macvlan_source_entry,
    struct_mdio_board_info, struct_mdio_board_entry, struct_mdio_bus_stat_attr,
    struct_mdio_bus_stats, struct_mdio_device, struct_device_driver, struct_mdio_driver_common,
    struct_mdio_driver, struct_mdiobus_devres, struct_tc_netem_slot, struct_crndstate,
    struct_rnd_state, struct_prng, struct_clgstate, struct_slotstate, struct_netem_sched_data,
    struct_netem_skb_cb, struct_vxlan_metadata, struct_phy_attrs, struct_phy,
    struct_phy_c45_device_ids, struct_phy_configure_opts_mipi_dphy,
    struct_phy_configure_opts_dp, struct_phy_configure_opts_lvds,
    struct_phy_configure_opts_hdmi, union_phy_configure_opts, struct_eee_config,
    struct_phy_device, struct_phy_device_node, struct_phy_driver, struct_phy_fixup,
    struct_led_classdev, struct_phy_led, struct_phy_link_topology, struct_phy_ops,
    struct_phy_parameters, struct_phy_plca_cfg, struct_phy_plca_status, struct_ethnl_reply_data,
    struct_phy_reply_data, struct_phy_sts_cck_8192s_t, struct_phy_tdr_config,
    struct_phylib_stubs, struct_phylink_link_state, struct_phylink, struct_phylink_mac_ops,
    struct_phylink_pcs, struct_phylink_pcs_ops, struct_phys_vec, struct_psched_pktrate,
    struct_qdisc_dump_args, struct_tc_ratespec, struct_qdisc_rate_table, struct_tc_sizespec,
    struct_qdisc_size_table, struct_tcf_qevent]"

lemma link_types_2_ok: "list_all ctype_ok link_types_2"
  by (simp add: link_types_2_def link_layouts)

definition link_types_3 :: "ctype list" where
  "link_types_3 = [
    struct_sch_frag_data, struct_sched_attr, struct_sched_class, struct_sched_domain,
    struct_sched_domain_attr, struct_sched_domain_shared, struct_sd_data,
    struct_sched_domain_topology_level, struct_sched_entry, struct_sched_gate_list,
    struct_sched_group, struct_sched_group_capacity, struct_sched_param, struct_tc_sfqred_stats,
    struct_switchdev_mst_state, struct_switchdev_brport_flags, struct_switchdev_vlan_msti,
    struct_switchdev_attr, struct_switchdev_brport, struct_switchdev_deferred_item,
    struct_switchdev_nested_priv, struct_switchdev_notifier_info,
    struct_switchdev_notifier_brport_info, struct_switchdev_notifier_fdb_info,
    struct_switchdev_notifier_port_attr_info, struct_switchdev_notifier_port_obj_info,
    union_vxlan_addr, struct_switchdev_notifier_vxlan_fdb_info, struct_switchdev_obj,
    struct_switchdev_obj_port_mdb, struct_switchdev_obj_port_vlan, struct_tc_act_bpf,
    struct_tc_act_pernet_id, struct_tcf_t, struct_tc_action, struct_tc_action_net,
    struct_tc_action_ops, struct_tc_basic_pcnt, struct_tc_bind_class_args, struct_tc_cbs_qopt,
    struct_tc_cbs_qopt_offload, struct_tc_choke_xstats, struct_tc_cls_bpf_offload,
    struct_tc_cls_u32_hnode, struct_tc_cls_u32_knode, struct_tc_cls_u32_offload,
    struct_tc_codel_xstats, struct_tc_cookie, struct_tc_drr_stats, struct_tc_etf_qopt,
    struct_tc_etf_qopt_offload, struct_tc_ets_qopt_offload_replace_params,
    struct_tc_qopt_offload_stats, struct_tc_ets_qopt_offload_graft_params,
    struct_tc_ets_qopt_offload, struct_tc_fifo_qopt, struct_tc_fifo_qopt_offload,
    struct_tc_fq_codel_cl_stats, struct_tc_fq_codel_qd_stats, struct_tc_fq_codel_xstats,
    struct_tc_fq_pie_xstats, struct_tc_fq_qd_stats, struct_tc_gact, struct_tc_gred_qopt,
    struct_tc_gred_vq_qopt_offload_params, struct_tc_gred_qopt_offload_params,
    struct_tc_gred_qopt_offload_stats, struct_tc_gred_qopt_offload, struct_tc_gred_sopt,
    struct_tc_hfsc_qopt, struct_tc_hfsc_stats, struct_tc_hhf_xstats, struct_tc_htb_glob,
    struct_tc_htb_opt, struct_tc_htb_qopt_offload, struct_tc_mirred,
    struct_tc_mq_opt_offload_graft_params, struct_tc_mq_qopt_offload, struct_tc_mqprio_caps,
    struct_tc_multiq_qopt, struct_tc_netem_corr, struct_tc_netem_corrupt,
    struct_tc_netem_gemodel, struct_tc_netem_gimodel, struct_tc_netem_qopt,
    struct_tc_netem_rate, struct_tc_netem_reorder, struct_tc_pedit_key, struct_tc_pie_xstats,
    struct_tc_plug_qopt, struct_tc_prio_qopt, struct_tc_prio_qopt_offload_params,
    struct_tc_prio_qopt_offload_graft_params, struct_tc_prio_qopt_offload, struct_tc_qfq_stats,
    struct_tc_query_caps_base, struct_tc_red_qopt, struct_tc_red_qopt_offload_params,
    struct_tc_red_qopt_offload, struct_tc_red_xstats, struct_tc_root_qopt_offload,
    struct_tc_service_curve, struct_tc_sfb_qopt, struct_tc_sfb_xstats, struct_tc_sfq_qopt,
    struct_tc_sfq_qopt_v1, struct_tc_sfq_xstats, struct_tc_skb_cb, struct_tc_skbprio_qopt,
    struct_tc_taprio_caps, struct_tc_tbf_qopt, struct_tc_tbf_qopt_offload_replace_params,
    struct_tc_tbf_qopt_offload, struct_tc_u32_key, struct_tc_u32_mark, struct_tc_u32_pcnt,
    struct_tc_u32_sel_hdr, struct_tc_u32_sel, struct_tc_u_common, struct_tc_u_hnode]"

lemma link_types_3_ok: "list_all ctype_ok link_types_3"
  by (simp add: link_types_3_def link_layouts)

definition link_types_4 :: "ctype list" where
  "link_types_4 = [
    struct_tc_u_knode, struct_tcf_walker, struct_tcf_bind_args, struct_tcf_block_owner_item,
    struct_tcf_bpf, struct_tcf_bpf_cfg, struct_tcf_chain, struct_tcf_chain_info,
    struct_tcf_dump_args, struct_tcf_exts_miss_cookie_node, struct_tcf_filter_chain_list_item,
    struct_tcf_gact, struct_tcf_idrinfo, struct_tcf_mirred, struct_tcf_net, struct_tcf_pedit,
    struct_tcf_pedit_key_ex, struct_tcf_pedit_parms, struct_tun_file, struct_tun_filter,
    struct_tun_flow_entry, struct_tun_msg_ctl, struct_tun_page, struct_tun_pi, struct_tun_prog,
    struct_tap_filter, struct_tun_struct, struct_tunnel_msg, struct_veth, struct_veth_priv,
    struct_veth_q_stat_desc, struct_veth_stats, struct_veth_rq_stats, struct_veth_rq,
    struct_veth_xdp_buff, struct_veth_xdp_tx_bq, struct_vlan_dev_priv, struct_vlan_ethhdr,
    struct_vlan_group, struct_vlan_hdr, struct_vlan_info, struct_vlan_ioctl_args,
    struct_vlan_net, struct_vlan_pcpu_stats, struct_vlan_priority_tci_mapping,
    struct_vlan_vid_info, struct_vxlanhdr, struct_vxlan_config, struct_vxlan_dev_node,
    struct_vxlan_rdst, struct_vxlan_dev, struct_vxlan_fdb_key, struct_vxlan_fdb,
    struct_vxlan_fdb_flush_desc, struct_vxlan_mdb_entry_key, struct_vxlan_mdb_config,
    struct_vxlan_mdb_config_src_entry, struct_vxlan_mdb_dump_ctx, struct_vxlan_mdb_entry,
    struct_vxlan_mdb_flush_desc, struct_vxlan_mdb_remote, struct_vxlan_mdb_src_entry,
    struct_vxlan_net, struct_vxlan_sock, struct_vxlan_vni_group, struct_vxlan_vni_node,
    struct_vxlan_vni_stats, struct_vxlan_vni_stats_pcpu, struct_vxlanhdr_gbp,
    struct_vxlanhdr_gpe]"

lemma link_types_4_ok: "list_all ctype_ok link_types_4"
  by (simp add: link_types_4_def link_layouts)

end
