(* ===== verification/Vmlinux_Core.thy ===== *)
theory Vmlinux_Core
  imports Vmlinux_Net_More
begin

text \<open>
  The largest remaining declarations of \<^verbatim>\<open>vmlinux.h\<close> of the kernel around the programs:
  processors, memory, processes, work queues, block and asynchronous requests, security hooks,
  packet filtering and contexts of tracepoints, with the types they contain.
\<close>

definition enum_cpuhp_state :: ctype where
  "enum_cpuhp_state = Enum False [
    (''CPUHP_INVALID'', - 1), (''CPUHP_OFFLINE'', 0), (''CPUHP_CREATE_THREADS'', 1),
    (''CPUHP_PERF_X86_PREPARE'', 2), (''CPUHP_PERF_X86_AMD_UNCORE_PREP'', 3),
    (''CPUHP_PERF_POWER'', 4), (''CPUHP_PERF_SUPERH'', 5), (''CPUHP_X86_HPET_DEAD'', 6),
    (''CPUHP_X86_MCE_DEAD'', 7), (''CPUHP_VIRT_NET_DEAD'', 8), (''CPUHP_IBMVNIC_DEAD'', 9),
    (''CPUHP_SLUB_DEAD'', 10), (''CPUHP_DEBUG_OBJ_DEAD'', 11), (''CPUHP_MM_WRITEBACK_DEAD'', 12),
    (''CPUHP_MM_VMSTAT_DEAD'', 13), (''CPUHP_SOFTIRQ_DEAD'', 14), (''CPUHP_NET_MVNETA_DEAD'', 15),
    (''CPUHP_CPUIDLE_DEAD'', 16), (''CPUHP_ARM64_FPSIMD_DEAD'', 17),
    (''CPUHP_ARM_OMAP_WAKE_DEAD'', 18), (''CPUHP_IRQ_POLL_DEAD'', 19),
    (''CPUHP_BLOCK_SOFTIRQ_DEAD'', 20), (''CPUHP_BIO_DEAD'', 21),
    (''CPUHP_ACPI_CPUDRV_DEAD'', 22), (''CPUHP_S390_PFAULT_DEAD'', 23),
    (''CPUHP_BLK_MQ_DEAD'', 24), (''CPUHP_FS_BUFF_DEAD'', 25), (''CPUHP_PRINTK_DEAD'', 26),
    (''CPUHP_MM_MEMCQ_DEAD'', 27), (''CPUHP_PERCPU_CNT_DEAD'', 28), (''CPUHP_RADIX_DEAD'', 29),
    (''CPUHP_PAGE_ALLOC'', 30), (''CPUHP_NET_DEV_DEAD'', 31), (''CPUHP_IOMMU_IOVA_DEAD'', 32),
    (''CPUHP_AP_ARM_CACHE_B15_RAC_DEAD'', 33), (''CPUHP_PADATA_DEAD'', 34),
    (''CPUHP_AP_DTPM_CPU_DEAD'', 35), (''CPUHP_RANDOM_PREPARE'', 36),
    (''CPUHP_WORKQUEUE_PREP'', 37), (''CPUHP_POWER_NUMA_PREPARE'', 38),
    (''CPUHP_HRTIMERS_PREPARE'', 39), (''CPUHP_X2APIC_PREPARE'', 40),
    (''CPUHP_SMPCFD_PREPARE'', 41), (''CPUHP_RELAY_PREPARE'', 42),
    (''CPUHP_MD_RAID5_PREPARE'', 43), (''CPUHP_RCUTREE_PREP'', 44),
    (''CPUHP_CPUIDLE_COUPLED_PREPARE'', 45), (''CPUHP_POWERPC_PMAC_PREPARE'', 46),
    (''CPUHP_POWERPC_MMU_CTX_PREPARE'', 47), (''CPUHP_XEN_PREPARE'', 48),
    (''CPUHP_XEN_EVTCHN_PREPARE'', 49), (''CPUHP_ARM_SHMOBILE_SCU_PREPARE'', 50),
    (''CPUHP_SH_SH3X_PREPARE'', 51), (''CPUHP_TOPOLOGY_PREPARE'', 52),
    (''CPUHP_NET_IUCV_PREPARE'', 53), (''CPUHP_ARM_BL_PREPARE'', 54),
    (''CPUHP_TRACE_RB_PREPARE'', 55), (''CPUHP_MM_ZSWP_POOL_PREPARE'', 56),
    (''CPUHP_KVM_PPC_BOOK3S_PREPARE'', 57), (''CPUHP_ZCOMP_PREPARE'', 58),
    (''CPUHP_TIMERS_PREPARE'', 59), (''CPUHP_TMIGR_PREPARE'', 60),
    (''CPUHP_MIPS_SOC_PREPARE'', 61), (''CPUHP_BP_PREPARE_DYN'', 62),
    (''CPUHP_BP_PREPARE_DYN_END'', 82), (''CPUHP_BP_KICK_AP'', 83), (''CPUHP_BRINGUP_CPU'', 84),
    (''CPUHP_AP_IDLE_DEAD'', 85), (''CPUHP_AP_OFFLINE'', 86),
    (''CPUHP_AP_CACHECTRL_STARTING'', 87), (''CPUHP_AP_SCHED_STARTING'', 88),
    (''CPUHP_AP_RCUTREE_DYING'', 89), (''CPUHP_AP_CPU_PM_STARTING'', 90),
    (''CPUHP_AP_IRQ_GIC_STARTING'', 91), (''CPUHP_AP_IRQ_HIP04_STARTING'', 92),
    (''CPUHP_AP_IRQ_APPLE_AIC_STARTING'', 93), (''CPUHP_AP_IRQ_ARMADA_XP_STARTING'', 94),
    (''CPUHP_AP_IRQ_BCM2836_STARTING'', 95), (''CPUHP_AP_IRQ_MIPS_GIC_STARTING'', 96),
    (''CPUHP_AP_IRQ_EIOINTC_STARTING'', 97), (''CPUHP_AP_IRQ_AVECINTC_STARTING'', 98),
    (''CPUHP_AP_IRQ_SIFIVE_PLIC_STARTING'', 99), (''CPUHP_AP_IRQ_ACLINT_SSWI_STARTING'', 100),
    (''CPUHP_AP_IRQ_RISCV_IMSIC_STARTING'', 101), (''CPUHP_AP_IRQ_RISCV_SBI_IPI_STARTING'', 102),
    (''CPUHP_AP_ARM_MVEBU_COHERENCY'', 103), (''CPUHP_AP_PERF_X86_AMD_UNCORE_STARTING'', 104),
    (''CPUHP_AP_PERF_X86_STARTING'', 105), (''CPUHP_AP_PERF_X86_AMD_IBS_STARTING'', 106),
    (''CPUHP_AP_PERF_XTENSA_STARTING'', 107), (''CPUHP_AP_ARM_VFP_STARTING'', 108),
    (''CPUHP_AP_ARM64_DEBUG_MONITORS_STARTING'', 109),
    (''CPUHP_AP_PERF_ARM_HW_BREAKPOINT_STARTING'', 110),
    (''CPUHP_AP_PERF_ARM_ACPI_STARTING'', 111), (''CPUHP_AP_PERF_ARM_STARTING'', 112),
    (''CPUHP_AP_PERF_RISCV_STARTING'', 113), (''CPUHP_AP_ARM_L2X0_STARTING'', 114),
    (''CPUHP_AP_EXYNOS4_MCT_TIMER_STARTING'', 115), (''CPUHP_AP_ARM_ARCH_TIMER_STARTING'', 116),
    (''CPUHP_AP_ARM_ARCH_TIMER_EVTSTRM_STARTING'', 117),
    (''CPUHP_AP_ARM_GLOBAL_TIMER_STARTING'', 118), (''CPUHP_AP_JCORE_TIMER_STARTING'', 119),
    (''CPUHP_AP_ARM_TWD_STARTING'', 120), (''CPUHP_AP_QCOM_TIMER_STARTING'', 121),
    (''CPUHP_AP_TEGRA_TIMER_STARTING'', 122), (''CPUHP_AP_ARMADA_TIMER_STARTING'', 123),
    (''CPUHP_AP_LOONGARCH_ARCH_TIMER_STARTING'', 124),
    (''CPUHP_AP_MIPS_GIC_TIMER_STARTING'', 125), (''CPUHP_AP_ARC_TIMER_STARTING'', 126),
    (''CPUHP_AP_REALTEK_TIMER_STARTING'', 127), (''CPUHP_AP_RISCV_TIMER_STARTING'', 128),
    (''CPUHP_AP_CLINT_TIMER_STARTING'', 129), (''CPUHP_AP_CSKY_TIMER_STARTING'', 130),
    (''CPUHP_AP_TI_GP_TIMER_STARTING'', 131), (''CPUHP_AP_HYPERV_TIMER_STARTING'', 132),
    (''CPUHP_AP_DUMMY_TIMER_STARTING'', 133), (''CPUHP_AP_ARM_XEN_STARTING'', 134),
    (''CPUHP_AP_ARM_XEN_RUNSTATE_STARTING'', 135), (''CPUHP_AP_ARM_CORESIGHT_STARTING'', 136),
    (''CPUHP_AP_ARM_CORESIGHT_CTI_STARTING'', 137), (''CPUHP_AP_ARM64_ISNDEP_STARTING'', 138),
    (''CPUHP_AP_SMPCFD_DYING'', 139), (''CPUHP_AP_HRTIMERS_DYING'', 140),
    (''CPUHP_AP_TICK_DYING'', 141), (''CPUHP_AP_X86_TBOOT_DYING'', 142),
    (''CPUHP_AP_ARM_CACHE_B15_RAC_DYING'', 143), (''CPUHP_AP_ONLINE'', 144),
    (''CPUHP_TEARDOWN_CPU'', 145), (''CPUHP_AP_ONLINE_IDLE'', 146),
    (''CPUHP_AP_HYPERV_ONLINE'', 147), (''CPUHP_AP_KVM_ONLINE'', 148),
    (''CPUHP_AP_SCHED_WAIT_EMPTY'', 149), (''CPUHP_AP_SMPBOOT_THREADS'', 150),
    (''CPUHP_AP_IRQ_AFFINITY_ONLINE'', 151), (''CPUHP_AP_BLK_MQ_ONLINE'', 152),
    (''CPUHP_AP_ARM_MVEBU_SYNC_CLOCKS'', 153), (''CPUHP_AP_X86_INTEL_EPB_ONLINE'', 154),
    (''CPUHP_AP_PERF_ONLINE'', 155), (''CPUHP_AP_PERF_X86_ONLINE'', 156),
    (''CPUHP_AP_PERF_X86_UNCORE_ONLINE'', 157), (''CPUHP_AP_PERF_X86_AMD_UNCORE_ONLINE'', 158),
    (''CPUHP_AP_PERF_X86_AMD_POWER_ONLINE'', 159), (''CPUHP_AP_PERF_S390_CF_ONLINE'', 160),
    (''CPUHP_AP_PERF_S390_SF_ONLINE'', 161), (''CPUHP_AP_PERF_ARM_CCI_ONLINE'', 162),
    (''CPUHP_AP_PERF_ARM_CCN_ONLINE'', 163), (''CPUHP_AP_PERF_ARM_HISI_CPA_ONLINE'', 164),
    (''CPUHP_AP_PERF_ARM_HISI_DDRC_ONLINE'', 165), (''CPUHP_AP_PERF_ARM_HISI_HHA_ONLINE'', 166),
    (''CPUHP_AP_PERF_ARM_HISI_L3_ONLINE'', 167), (''CPUHP_AP_PERF_ARM_HISI_PA_ONLINE'', 168),
    (''CPUHP_AP_PERF_ARM_HISI_SLLC_ONLINE'', 169),
    (''CPUHP_AP_PERF_ARM_HISI_PCIE_PMU_ONLINE'', 170),
    (''CPUHP_AP_PERF_ARM_HNS3_PMU_ONLINE'', 171), (''CPUHP_AP_PERF_ARM_L2X0_ONLINE'', 172),
    (''CPUHP_AP_PERF_ARM_QCOM_L2_ONLINE'', 173), (''CPUHP_AP_PERF_ARM_QCOM_L3_ONLINE'', 174),
    (''CPUHP_AP_PERF_ARM_APM_XGENE_ONLINE'', 175),
    (''CPUHP_AP_PERF_ARM_CAVIUM_TX2_UNCORE_ONLINE'', 176),
    (''CPUHP_AP_PERF_ARM_MARVELL_CN10K_DDR_ONLINE'', 177),
    (''CPUHP_AP_PERF_ARM_MRVL_PEM_ONLINE'', 178),
    (''CPUHP_AP_PERF_POWERPC_NEST_IMC_ONLINE'', 179),
    (''CPUHP_AP_PERF_POWERPC_CORE_IMC_ONLINE'', 180),
    (''CPUHP_AP_PERF_POWERPC_THREAD_IMC_ONLINE'', 181),
    (''CPUHP_AP_PERF_POWERPC_TRACE_IMC_ONLINE'', 182),
    (''CPUHP_AP_PERF_POWERPC_HV_24x7_ONLINE'', 183),
    (''CPUHP_AP_PERF_POWERPC_HV_GPCI_ONLINE'', 184), (''CPUHP_AP_PERF_CSKY_ONLINE'', 185),
    (''CPUHP_AP_TMIGR_ONLINE'', 186), (''CPUHP_AP_WATCHDOG_ONLINE'', 187),
    (''CPUHP_AP_WORKQUEUE_ONLINE'', 188), (''CPUHP_AP_RANDOM_ONLINE'', 189),
    (''CPUHP_AP_RCUTREE_ONLINE'', 190), (''CPUHP_AP_KTHREADS_ONLINE'', 191),
    (''CPUHP_AP_BASE_CACHEINFO_ONLINE'', 192), (''CPUHP_AP_ONLINE_DYN'', 193),
    (''CPUHP_AP_ONLINE_DYN_END'', 233), (''CPUHP_AP_X86_HPET_ONLINE'', 234),
    (''CPUHP_AP_X86_KVM_CLK_ONLINE'', 235), (''CPUHP_AP_ACTIVE'', 236), (''CPUHP_ONLINE'', 237)]"

definition union_security_list_options :: ctype where
  "union_security_list_options = Comp Union False [
    Member ''binder_set_context_mgr'' (Ptr ''int (*)(const struct cred *)''),
    Member ''binder_transaction'' (Ptr ''int (*)(const struct cred *, const struct cred *)''),
    Member ''binder_transfer_binder'' (Ptr ''int (*)(const struct cred *, const struct cred *)''),
    Member ''binder_transfer_file'' (Ptr ''int (*)(const struct cred *, const struct cred *, const struct file *)''),
    Member ''ptrace_access_check'' (Ptr ''int (*)(struct task_struct *, unsigned int)''),
    Member ''ptrace_traceme'' (Ptr ''int (*)(struct task_struct *)''),
    Member ''capget'' (Ptr ''int (*)(const struct task_struct *, kernel_cap_t *, kernel_cap_t *, kernel_cap_t *)''),
    Member ''capset'' (Ptr ''int (*)(struct cred *, const struct cred *, const kernel_cap_t *, const kernel_cap_t *, const kernel_cap_t *)''),
    Member ''capable'' (Ptr ''int (*)(const struct cred *, struct user_namespace *, int, unsigned int)''),
    Member ''quotactl'' (Ptr ''int (*)(int, int, int, const struct super_block *)''),
    Member ''quota_on'' (Ptr ''int (*)(struct dentry *)''),
    Member ''syslog'' (Ptr ''int (*)(int)''),
    Member ''settime'' (Ptr ''int (*)(const struct timespec64 *, const struct timezone *)''),
    Member ''vm_enough_memory'' (Ptr ''int (*)(struct mm_struct *, long)''),
    Member ''bprm_creds_for_exec'' (Ptr ''int (*)(struct linux_binprm *)''),
    Member ''bprm_creds_from_file'' (Ptr ''int (*)(struct linux_binprm *, const struct file *)''),
    Member ''bprm_check_security'' (Ptr ''int (*)(struct linux_binprm *)''),
    Member ''bprm_committing_creds'' (Ptr ''void (*)(const struct linux_binprm *)''),
    Member ''bprm_committed_creds'' (Ptr ''void (*)(const struct linux_binprm *)''),
    Member ''fs_context_submount'' (Ptr ''int (*)(struct fs_context *, struct super_block *)''),
    Member ''fs_context_dup'' (Ptr ''int (*)(struct fs_context *, struct fs_context *)''),
    Member ''fs_context_parse_param'' (Ptr ''int (*)(struct fs_context *, struct fs_parameter *)''),
    Member ''sb_alloc_security'' (Ptr ''int (*)(struct super_block *)''),
    Member ''sb_delete'' (Ptr ''void (*)(struct super_block *)''),
    Member ''sb_free_security'' (Ptr ''void (*)(struct super_block *)''),
    Member ''sb_free_mnt_opts'' (Ptr ''void (*)(void *)''),
    Member ''sb_eat_lsm_opts'' (Ptr ''int (*)(char *, void **)''),
    Member ''sb_mnt_opts_compat'' (Ptr ''int (*)(struct super_block *, void *)''),
    Member ''sb_remount'' (Ptr ''int (*)(struct super_block *, void *)''),
    Member ''sb_kern_mount'' (Ptr ''int (*)(const struct super_block *)''),
    Member ''sb_show_options'' (Ptr ''int (*)(struct seq_file *, struct super_block *)''),
    Member ''sb_statfs'' (Ptr ''int (*)(struct dentry *)''),
    Member ''sb_mount'' (Ptr ''int (*)(const char *, const struct path *, const char *, unsigned long, void *)''),
    Member ''sb_umount'' (Ptr ''int (*)(struct vfsmount *, int)''),
    Member ''sb_pivotroot'' (Ptr ''int (*)(const struct path *, const struct path *)''),
    Member ''sb_set_mnt_opts'' (Ptr ''int (*)(struct super_block *, void *, unsigned long, unsigned long *)''),
    Member ''sb_clone_mnt_opts'' (Ptr ''int (*)(const struct super_block *, struct super_block *, unsigned long, unsigned long *)''),
    Member ''move_mount'' (Ptr ''int (*)(const struct path *, const struct path *)''),
    Member ''dentry_init_security'' (Ptr ''int (*)(struct dentry *, int, const struct qstr *, const char **, struct lsm_context *)''),
    Member ''dentry_create_files_as'' (Ptr ''int (*)(struct dentry *, int, struct qstr *, const struct cred *, struct cred *)''),
    Member ''path_unlink'' (Ptr ''int (*)(const struct path *, struct dentry *)''),
    Member ''path_mkdir'' (Ptr ''int (*)(const struct path *, struct dentry *, umode_t)''),
    Member ''path_rmdir'' (Ptr ''int (*)(const struct path *, struct dentry *)''),
    Member ''path_mknod'' (Ptr ''int (*)(const struct path *, struct dentry *, umode_t, unsigned int)''),
    Member ''path_post_mknod'' (Ptr ''void (*)(struct mnt_idmap *, struct dentry *)''),
    Member ''path_truncate'' (Ptr ''int (*)(const struct path *)''),
    Member ''path_symlink'' (Ptr ''int (*)(const struct path *, struct dentry *, const char *)''),
    Member ''path_link'' (Ptr ''int (*)(struct dentry *, const struct path *, struct dentry *)''),
    Member ''path_rename'' (Ptr ''int (*)(const struct path *, struct dentry *, const struct path *, struct dentry *, unsigned int)''),
    Member ''path_chmod'' (Ptr ''int (*)(const struct path *, umode_t)''),
    Member ''path_chown'' (Ptr ''int (*)(const struct path *, kuid_t, kgid_t)''),
    Member ''path_chroot'' (Ptr ''int (*)(const struct path *)''),
    Member ''path_notify'' (Ptr ''int (*)(const struct path *, u64, unsigned int)''),
    Member ''inode_alloc_security'' (Ptr ''int (*)(struct inode *)''),
    Member ''inode_free_security'' (Ptr ''void (*)(struct inode *)''),
    Member ''inode_free_security_rcu'' (Ptr ''void (*)(void *)''),
    Member ''inode_init_security'' (Ptr ''int (*)(struct inode *, struct inode *, const struct qstr *, struct xattr *, int *)''),
    Member ''inode_init_security_anon'' (Ptr ''int (*)(struct inode *, const struct qstr *, const struct inode *)''),
    Member ''inode_create'' (Ptr ''int (*)(struct inode *, struct dentry *, umode_t)''),
    Member ''inode_post_create_tmpfile'' (Ptr ''void (*)(struct mnt_idmap *, struct inode *)''),
    Member ''inode_link'' (Ptr ''int (*)(struct dentry *, struct inode *, struct dentry *)''),
    Member ''inode_unlink'' (Ptr ''int (*)(struct inode *, struct dentry *)''),
    Member ''inode_symlink'' (Ptr ''int (*)(struct inode *, struct dentry *, const char *)''),
    Member ''inode_mkdir'' (Ptr ''int (*)(struct inode *, struct dentry *, umode_t)''),
    Member ''inode_rmdir'' (Ptr ''int (*)(struct inode *, struct dentry *)''),
    Member ''inode_mknod'' (Ptr ''int (*)(struct inode *, struct dentry *, umode_t, dev_t)''),
    Member ''inode_rename'' (Ptr ''int (*)(struct inode *, struct dentry *, struct inode *, struct dentry *)''),
    Member ''inode_readlink'' (Ptr ''int (*)(struct dentry *)''),
    Member ''inode_follow_link'' (Ptr ''int (*)(struct dentry *, struct inode *, bool)''),
    Member ''inode_permission'' (Ptr ''int (*)(struct inode *, int)''),
    Member ''inode_setattr'' (Ptr ''int (*)(struct mnt_idmap *, struct dentry *, struct iattr *)''),
    Member ''inode_post_setattr'' (Ptr ''void (*)(struct mnt_idmap *, struct dentry *, int)''),
    Member ''inode_getattr'' (Ptr ''int (*)(const struct path *)''),
    Member ''inode_xattr_skipcap'' (Ptr ''int (*)(const char *)''),
    Member ''inode_setxattr'' (Ptr ''int (*)(struct mnt_idmap *, struct dentry *, const char *, const void *, size_t, int)''),
    Member ''inode_post_setxattr'' (Ptr ''void (*)(struct dentry *, const char *, const void *, size_t, int)''),
    Member ''inode_getxattr'' (Ptr ''int (*)(struct dentry *, const char *)''),
    Member ''inode_listxattr'' (Ptr ''int (*)(struct dentry *)''),
    Member ''inode_removexattr'' (Ptr ''int (*)(struct mnt_idmap *, struct dentry *, const char *)''),
    Member ''inode_post_removexattr'' (Ptr ''void (*)(struct dentry *, const char *)''),
    Member ''inode_file_setattr'' (Ptr ''int (*)(struct dentry *, struct file_kattr *)''),
    Member ''inode_file_getattr'' (Ptr ''int (*)(struct dentry *, struct file_kattr *)''),
    Member ''inode_set_acl'' (Ptr ''int (*)(struct mnt_idmap *, struct dentry *, const char *, struct posix_acl *)''),
    Member ''inode_post_set_acl'' (Ptr ''void (*)(struct dentry *, const char *, struct posix_acl *)''),
    Member ''inode_get_acl'' (Ptr ''int (*)(struct mnt_idmap *, struct dentry *, const char *)''),
    Member ''inode_remove_acl'' (Ptr ''int (*)(struct mnt_idmap *, struct dentry *, const char *)''),
    Member ''inode_post_remove_acl'' (Ptr ''void (*)(struct mnt_idmap *, struct dentry *, const char *)''),
    Member ''inode_need_killpriv'' (Ptr ''int (*)(struct dentry *)''),
    Member ''inode_killpriv'' (Ptr ''int (*)(struct mnt_idmap *, struct dentry *)''),
    Member ''inode_getsecurity'' (Ptr ''int (*)(struct mnt_idmap *, struct inode *, const char *, void **, bool)''),
    Member ''inode_setsecurity'' (Ptr ''int (*)(struct inode *, const char *, const void *, size_t, int)''),
    Member ''inode_listsecurity'' (Ptr ''int (*)(struct inode *, char *, size_t)''),
    Member ''inode_getlsmprop'' (Ptr ''void (*)(struct inode *, struct lsm_prop *)''),
    Member ''inode_copy_up'' (Ptr ''int (*)(struct dentry *, struct cred **)''),
    Member ''inode_copy_up_xattr'' (Ptr ''int (*)(struct dentry *, const char *)''),
    Member ''inode_setintegrity'' (Ptr ''int (*)(const struct inode *, enum lsm_integrity_type, const void *, size_t)''),
    Member ''kernfs_init_security'' (Ptr ''int (*)(struct kernfs_node *, struct kernfs_node *)''),
    Member ''file_permission'' (Ptr ''int (*)(struct file *, int)''),
    Member ''file_alloc_security'' (Ptr ''int (*)(struct file *)''),
    Member ''file_release'' (Ptr ''void (*)(struct file *)''),
    Member ''file_free_security'' (Ptr ''void (*)(struct file *)''),
    Member ''file_ioctl'' (Ptr ''int (*)(struct file *, unsigned int, unsigned long)''),
    Member ''file_ioctl_compat'' (Ptr ''int (*)(struct file *, unsigned int, unsigned long)''),
    Member ''mmap_addr'' (Ptr ''int (*)(unsigned long)''),
    Member ''mmap_file'' (Ptr ''int (*)(struct file *, unsigned long, unsigned long, unsigned long)''),
    Member ''file_mprotect'' (Ptr ''int (*)(struct vm_area_struct *, unsigned long, unsigned long)''),
    Member ''file_lock'' (Ptr ''int (*)(struct file *, unsigned int)''),
    Member ''file_fcntl'' (Ptr ''int (*)(struct file *, unsigned int, unsigned long)''),
    Member ''file_set_fowner'' (Ptr ''void (*)(struct file *)''),
    Member ''file_send_sigiotask'' (Ptr ''int (*)(struct task_struct *, struct fown_struct *, int)''),
    Member ''file_receive'' (Ptr ''int (*)(struct file *)''),
    Member ''file_open'' (Ptr ''int (*)(struct file *)''),
    Member ''file_post_open'' (Ptr ''int (*)(struct file *, int)''),
    Member ''file_truncate'' (Ptr ''int (*)(struct file *)''),
    Member ''task_alloc'' (Ptr ''int (*)(struct task_struct *, unsigned long)''),
    Member ''task_free'' (Ptr ''void (*)(struct task_struct *)''),
    Member ''cred_alloc_blank'' (Ptr ''int (*)(struct cred *, gfp_t)''),
    Member ''cred_free'' (Ptr ''void (*)(struct cred *)''),
    Member ''cred_prepare'' (Ptr ''int (*)(struct cred *, const struct cred *, gfp_t)''),
    Member ''cred_transfer'' (Ptr ''void (*)(struct cred *, const struct cred *)''),
    Member ''cred_getsecid'' (Ptr ''void (*)(const struct cred *, u32 *)''),
    Member ''cred_getlsmprop'' (Ptr ''void (*)(const struct cred *, struct lsm_prop *)''),
    Member ''kernel_act_as'' (Ptr ''int (*)(struct cred *, u32)''),
    Member ''kernel_create_files_as'' (Ptr ''int (*)(struct cred *, struct inode *)''),
    Member ''kernel_module_request'' (Ptr ''int (*)(char *)''),
    Member ''kernel_load_data'' (Ptr ''int (*)(enum kernel_load_data_id, bool)''),
    Member ''kernel_post_load_data'' (Ptr ''int (*)(char *, loff_t, enum kernel_load_data_id, char *)''),
    Member ''kernel_read_file'' (Ptr ''int (*)(struct file *, enum kernel_read_file_id, bool)''),
    Member ''kernel_post_read_file'' (Ptr ''int (*)(struct file *, char *, loff_t, enum kernel_read_file_id)''),
    Member ''task_fix_setuid'' (Ptr ''int (*)(struct cred *, const struct cred *, int)''),
    Member ''task_fix_setgid'' (Ptr ''int (*)(struct cred *, const struct cred *, int)''),
    Member ''task_fix_setgroups'' (Ptr ''int (*)(struct cred *, const struct cred *)''),
    Member ''task_setpgid'' (Ptr ''int (*)(struct task_struct *, pid_t)''),
    Member ''task_getpgid'' (Ptr ''int (*)(struct task_struct *)''),
    Member ''task_getsid'' (Ptr ''int (*)(struct task_struct *)''),
    Member ''current_getlsmprop_subj'' (Ptr ''void (*)(struct lsm_prop *)''),
    Member ''task_getlsmprop_obj'' (Ptr ''void (*)(struct task_struct *, struct lsm_prop *)''),
    Member ''task_setnice'' (Ptr ''int (*)(struct task_struct *, int)''),
    Member ''task_setioprio'' (Ptr ''int (*)(struct task_struct *, int)''),
    Member ''task_getioprio'' (Ptr ''int (*)(struct task_struct *)''),
    Member ''task_prlimit'' (Ptr ''int (*)(const struct cred *, const struct cred *, unsigned int)''),
    Member ''task_setrlimit'' (Ptr ''int (*)(struct task_struct *, unsigned int, struct rlimit *)''),
    Member ''task_setscheduler'' (Ptr ''int (*)(struct task_struct *)''),
    Member ''task_getscheduler'' (Ptr ''int (*)(struct task_struct *)''),
    Member ''task_movememory'' (Ptr ''int (*)(struct task_struct *)''),
    Member ''task_kill'' (Ptr ''int (*)(struct task_struct *, struct kernel_siginfo *, int, const struct cred *)''),
    Member ''task_prctl'' (Ptr ''int (*)(int, unsigned long, unsigned long, unsigned long, unsigned long)''),
    Member ''task_to_inode'' (Ptr ''void (*)(struct task_struct *, struct inode *)''),
    Member ''userns_create'' (Ptr ''int (*)(const struct cred *)''),
    Member ''ipc_permission'' (Ptr ''int (*)(struct kern_ipc_perm *, short)''),
    Member ''ipc_getlsmprop'' (Ptr ''void (*)(struct kern_ipc_perm *, struct lsm_prop *)''),
    Member ''msg_msg_alloc_security'' (Ptr ''int (*)(struct msg_msg *)''),
    Member ''msg_msg_free_security'' (Ptr ''void (*)(struct msg_msg *)''),
    Member ''msg_queue_alloc_security'' (Ptr ''int (*)(struct kern_ipc_perm *)''),
    Member ''msg_queue_free_security'' (Ptr ''void (*)(struct kern_ipc_perm *)''),
    Member ''msg_queue_associate'' (Ptr ''int (*)(struct kern_ipc_perm *, int)''),
    Member ''msg_queue_msgctl'' (Ptr ''int (*)(struct kern_ipc_perm *, int)''),
    Member ''msg_queue_msgsnd'' (Ptr ''int (*)(struct kern_ipc_perm *, struct msg_msg *, int)''),
    Member ''msg_queue_msgrcv'' (Ptr ''int (*)(struct kern_ipc_perm *, struct msg_msg *, struct task_struct *, long, int)''),
    Member ''shm_alloc_security'' (Ptr ''int (*)(struct kern_ipc_perm *)''),
    Member ''shm_free_security'' (Ptr ''void (*)(struct kern_ipc_perm *)''),
    Member ''shm_associate'' (Ptr ''int (*)(struct kern_ipc_perm *, int)''),
    Member ''shm_shmctl'' (Ptr ''int (*)(struct kern_ipc_perm *, int)''),
    Member ''shm_shmat'' (Ptr ''int (*)(struct kern_ipc_perm *, char *, int)''),
    Member ''sem_alloc_security'' (Ptr ''int (*)(struct kern_ipc_perm *)''),
    Member ''sem_free_security'' (Ptr ''void (*)(struct kern_ipc_perm *)''),
    Member ''sem_associate'' (Ptr ''int (*)(struct kern_ipc_perm *, int)''),
    Member ''sem_semctl'' (Ptr ''int (*)(struct kern_ipc_perm *, int)''),
    Member ''sem_semop'' (Ptr ''int (*)(struct kern_ipc_perm *, struct sembuf *, unsigned int, int)''),
    Member ''netlink_send'' (Ptr ''int (*)(struct sock *, struct sk_buff *)''),
    Member ''d_instantiate'' (Ptr ''void (*)(struct dentry *, struct inode *)''),
    Member ''getselfattr'' (Ptr ''int (*)(unsigned int, struct lsm_ctx *, u32 *, u32)''),
    Member ''setselfattr'' (Ptr ''int (*)(unsigned int, struct lsm_ctx *, u32, u32)''),
    Member ''getprocattr'' (Ptr ''int (*)(struct task_struct *, const char *, char **)''),
    Member ''setprocattr'' (Ptr ''int (*)(const char *, void *, size_t)''),
    Member ''ismaclabel'' (Ptr ''int (*)(const char *)''),
    Member ''secid_to_secctx'' (Ptr ''int (*)(u32, struct lsm_context *)''),
    Member ''lsmprop_to_secctx'' (Ptr ''int (*)(struct lsm_prop *, struct lsm_context *)''),
    Member ''secctx_to_secid'' (Ptr ''int (*)(const char *, u32, u32 *)''),
    Member ''release_secctx'' (Ptr ''void (*)(struct lsm_context *)''),
    Member ''inode_invalidate_secctx'' (Ptr ''void (*)(struct inode *)''),
    Member ''inode_notifysecctx'' (Ptr ''int (*)(struct inode *, void *, u32)''),
    Member ''inode_setsecctx'' (Ptr ''int (*)(struct dentry *, void *, u32)''),
    Member ''inode_getsecctx'' (Ptr ''int (*)(struct inode *, struct lsm_context *)''),
    Member ''unix_stream_connect'' (Ptr ''int (*)(struct sock *, struct sock *, struct sock *)''),
    Member ''unix_may_send'' (Ptr ''int (*)(struct socket *, struct socket *)''),
    Member ''socket_create'' (Ptr ''int (*)(int, int, int, int)''),
    Member ''socket_post_create'' (Ptr ''int (*)(struct socket *, int, int, int, int)''),
    Member ''socket_socketpair'' (Ptr ''int (*)(struct socket *, struct socket *)''),
    Member ''socket_bind'' (Ptr ''int (*)(struct socket *, struct sockaddr *, int)''),
    Member ''socket_connect'' (Ptr ''int (*)(struct socket *, struct sockaddr *, int)''),
    Member ''socket_listen'' (Ptr ''int (*)(struct socket *, int)''),
    Member ''socket_accept'' (Ptr ''int (*)(struct socket *, struct socket *)''),
    Member ''socket_sendmsg'' (Ptr ''int (*)(struct socket *, struct msghdr *, int)''),
    Member ''socket_recvmsg'' (Ptr ''int (*)(struct socket *, struct msghdr *, int, int)''),
    Member ''socket_getsockname'' (Ptr ''int (*)(struct socket *)''),
    Member ''socket_getpeername'' (Ptr ''int (*)(struct socket *)''),
    Member ''socket_getsockopt'' (Ptr ''int (*)(struct socket *, int, int)''),
    Member ''socket_setsockopt'' (Ptr ''int (*)(struct socket *, int, int)''),
    Member ''socket_shutdown'' (Ptr ''int (*)(struct socket *, int)''),
    Member ''socket_sock_rcv_skb'' (Ptr ''int (*)(struct sock *, struct sk_buff *)''),
    Member ''socket_getpeersec_stream'' (Ptr ''int (*)(struct socket *, sockptr_t, sockptr_t, unsigned int)''),
    Member ''socket_getpeersec_dgram'' (Ptr ''int (*)(struct socket *, struct sk_buff *, u32 *)''),
    Member ''sk_alloc_security'' (Ptr ''int (*)(struct sock *, int, gfp_t)''),
    Member ''sk_free_security'' (Ptr ''void (*)(struct sock *)''),
    Member ''sk_clone_security'' (Ptr ''void (*)(const struct sock *, struct sock *)''),
    Member ''sk_getsecid'' (Ptr ''void (*)(const struct sock *, u32 *)''),
    Member ''sock_graft'' (Ptr ''void (*)(struct sock *, struct socket *)''),
    Member ''inet_conn_request'' (Ptr ''int (*)(const struct sock *, struct sk_buff *, struct request_sock *)''),
    Member ''inet_csk_clone'' (Ptr ''void (*)(struct sock *, const struct request_sock *)''),
    Member ''inet_conn_established'' (Ptr ''void (*)(struct sock *, struct sk_buff *)''),
    Member ''secmark_relabel_packet'' (Ptr ''int (*)(u32)''),
    Member ''secmark_refcount_inc'' (Ptr ''void (*)(void)''),
    Member ''secmark_refcount_dec'' (Ptr ''void (*)(void)''),
    Member ''req_classify_flow'' (Ptr ''void (*)(const struct request_sock *, struct flowi_common *)''),
    Member ''tun_dev_alloc_security'' (Ptr ''int (*)(void *)''),
    Member ''tun_dev_create'' (Ptr ''int (*)(void)''),
    Member ''tun_dev_attach_queue'' (Ptr ''int (*)(void *)''),
    Member ''tun_dev_attach'' (Ptr ''int (*)(struct sock *, void *)''),
    Member ''tun_dev_open'' (Ptr ''int (*)(void *)''),
    Member ''sctp_assoc_request'' (Ptr ''int (*)(struct sctp_association *, struct sk_buff *)''),
    Member ''sctp_bind_connect'' (Ptr ''int (*)(struct sock *, int, struct sockaddr *, int)''),
    Member ''sctp_sk_clone'' (Ptr ''void (*)(struct sctp_association *, struct sock *, struct sock *)''),
    Member ''sctp_assoc_established'' (Ptr ''int (*)(struct sctp_association *, struct sk_buff *)''),
    Member ''mptcp_add_subflow'' (Ptr ''int (*)(struct sock *, struct sock *)''),
    Member ''key_alloc'' (Ptr ''int (*)(struct key *, const struct cred *, unsigned long)''),
    Member ''key_permission'' (Ptr ''int (*)(key_ref_t, const struct cred *, enum key_need_perm)''),
    Member ''key_getsecurity'' (Ptr ''int (*)(struct key *, char **)''),
    Member ''key_post_create_or_update'' (Ptr ''void (*)(struct key *, struct key *, const void *, size_t, unsigned long, bool)''),
    Member ''bpf'' (Ptr ''int (*)(int, union bpf_attr *, unsigned int, bool)''),
    Member ''bpf_map'' (Ptr ''int (*)(struct bpf_map *, fmode_t)''),
    Member ''bpf_prog'' (Ptr ''int (*)(struct bpf_prog *)''),
    Member ''bpf_map_create'' (Ptr ''int (*)(struct bpf_map *, union bpf_attr *, struct bpf_token *, bool)''),
    Member ''bpf_map_free'' (Ptr ''void (*)(struct bpf_map *)''),
    Member ''bpf_prog_load'' (Ptr ''int (*)(struct bpf_prog *, union bpf_attr *, struct bpf_token *, bool)''),
    Member ''bpf_prog_free'' (Ptr ''void (*)(struct bpf_prog *)''),
    Member ''bpf_token_create'' (Ptr ''int (*)(struct bpf_token *, union bpf_attr *, const struct path *)''),
    Member ''bpf_token_free'' (Ptr ''void (*)(struct bpf_token *)''),
    Member ''bpf_token_cmd'' (Ptr ''int (*)(const struct bpf_token *, enum bpf_cmd)''),
    Member ''bpf_token_capable'' (Ptr ''int (*)(const struct bpf_token *, int)''),
    Member ''locked_down'' (Ptr ''int (*)(enum lockdown_reason)''),
    Member ''perf_event_open'' (Ptr ''int (*)(int)''),
    Member ''perf_event_alloc'' (Ptr ''int (*)(struct perf_event *)''),
    Member ''perf_event_read'' (Ptr ''int (*)(struct perf_event *)''),
    Member ''perf_event_write'' (Ptr ''int (*)(struct perf_event *)''),
    Member ''uring_override_creds'' (Ptr ''int (*)(const struct cred *)''),
    Member ''uring_sqpoll'' (Ptr ''int (*)(void)''),
    Member ''uring_cmd'' (Ptr ''int (*)(struct io_uring_cmd *)''),
    Member ''uring_allowed'' (Ptr ''int (*)(void)''),
    Member ''initramfs_populated'' (Ptr ''void (*)(void)''),
    Member ''bdev_alloc_security'' (Ptr ''int (*)(struct block_device *)''),
    Member ''bdev_free_security'' (Ptr ''void (*)(struct block_device *)''),
    Member ''bdev_setintegrity'' (Ptr ''int (*)(struct block_device *, enum lsm_integrity_type, const void *, size_t)''),
    Member ''lsm_func_addr'' (Ptr ''void *'')]"

definition enum_vm_event_item :: ctype where
  "enum_vm_event_item = Enum False [
    (''PGPGIN'', 0), (''PGPGOUT'', 1), (''PSWPIN'', 2), (''PSWPOUT'', 3), (''PGALLOC_DMA'', 4),
    (''PGALLOC_DMA32'', 5), (''PGALLOC_NORMAL'', 6), (''PGALLOC_MOVABLE'', 7),
    (''ALLOCSTALL_DMA'', 8), (''ALLOCSTALL_DMA32'', 9), (''ALLOCSTALL_NORMAL'', 10),
    (''ALLOCSTALL_MOVABLE'', 11), (''PGSCAN_SKIP_DMA'', 12), (''PGSCAN_SKIP_DMA32'', 13),
    (''PGSCAN_SKIP_NORMAL'', 14), (''PGSCAN_SKIP_MOVABLE'', 15), (''PGFREE'', 16),
    (''PGACTIVATE'', 17), (''PGDEACTIVATE'', 18), (''PGLAZYFREE'', 19), (''PGFAULT'', 20),
    (''PGMAJFAULT'', 21), (''PGLAZYFREED'', 22), (''PGREFILL'', 23), (''PGREUSE'', 24),
    (''PGSTEAL_KSWAPD'', 25), (''PGSTEAL_DIRECT'', 26), (''PGSTEAL_KHUGEPAGED'', 27),
    (''PGSTEAL_PROACTIVE'', 28), (''PGSCAN_KSWAPD'', 29), (''PGSCAN_DIRECT'', 30),
    (''PGSCAN_KHUGEPAGED'', 31), (''PGSCAN_PROACTIVE'', 32), (''PGSCAN_DIRECT_THROTTLE'', 33),
    (''PGSCAN_ANON'', 34), (''PGSCAN_FILE'', 35), (''PGSTEAL_ANON'', 36), (''PGSTEAL_FILE'', 37),
    (''PGINODESTEAL'', 38), (''SLABS_SCANNED'', 39), (''KSWAPD_INODESTEAL'', 40),
    (''KSWAPD_LOW_WMARK_HIT_QUICKLY'', 41), (''KSWAPD_HIGH_WMARK_HIT_QUICKLY'', 42),
    (''PAGEOUTRUN'', 43), (''PGROTATED'', 44), (''DROP_PAGECACHE'', 45), (''DROP_SLAB'', 46),
    (''OOM_KILL'', 47), (''PGMIGRATE_SUCCESS'', 48), (''PGMIGRATE_FAIL'', 49),
    (''THP_MIGRATION_SUCCESS'', 50), (''THP_MIGRATION_FAIL'', 51), (''THP_MIGRATION_SPLIT'', 52),
    (''COMPACTMIGRATE_SCANNED'', 53), (''COMPACTFREE_SCANNED'', 54), (''COMPACTISOLATED'', 55),
    (''COMPACTSTALL'', 56), (''COMPACTFAIL'', 57), (''COMPACTSUCCESS'', 58),
    (''KCOMPACTD_WAKE'', 59), (''KCOMPACTD_MIGRATE_SCANNED'', 60),
    (''KCOMPACTD_FREE_SCANNED'', 61), (''UNEVICTABLE_PGCULLED'', 62),
    (''UNEVICTABLE_PGSCANNED'', 63), (''UNEVICTABLE_PGRESCUED'', 64),
    (''UNEVICTABLE_PGMLOCKED'', 65), (''UNEVICTABLE_PGMUNLOCKED'', 66),
    (''UNEVICTABLE_PGCLEARED'', 67), (''UNEVICTABLE_PGSTRANDED'', 68), (''THP_FAULT_ALLOC'', 69),
    (''THP_FAULT_FALLBACK'', 70), (''THP_FAULT_FALLBACK_CHARGE'', 71),
    (''THP_COLLAPSE_ALLOC'', 72), (''THP_COLLAPSE_ALLOC_FAILED'', 73), (''THP_FILE_ALLOC'', 74),
    (''THP_FILE_FALLBACK'', 75), (''THP_FILE_FALLBACK_CHARGE'', 76), (''THP_FILE_MAPPED'', 77),
    (''THP_SPLIT_PAGE'', 78), (''THP_SPLIT_PAGE_FAILED'', 79), (''THP_DEFERRED_SPLIT_PAGE'', 80),
    (''THP_UNDERUSED_SPLIT_PAGE'', 81), (''THP_SPLIT_PMD'', 82),
    (''THP_SCAN_EXCEED_NONE_PTE'', 83), (''THP_SCAN_EXCEED_SWAP_PTE'', 84),
    (''THP_SCAN_EXCEED_SHARED_PTE'', 85), (''THP_ZERO_PAGE_ALLOC'', 86),
    (''THP_ZERO_PAGE_ALLOC_FAILED'', 87), (''THP_SWPOUT'', 88), (''THP_SWPOUT_FALLBACK'', 89),
    (''BALLOON_INFLATE'', 90), (''BALLOON_DEFLATE'', 91), (''BALLOON_MIGRATE'', 92),
    (''SWAP_RA'', 93), (''SWAP_RA_HIT'', 94), (''SWPIN_ZERO'', 95), (''SWPOUT_ZERO'', 96),
    (''NR_VM_EVENT_ITEMS'', 97)]"

definition struct_io_uring_sqe :: ctype where
  "struct_io_uring_sqe = Comp Struct False [
    Member ''opcode'' t___u8,
    Member ''flags'' t___u8,
    Member ''ioprio'' t___u16,
    Member ''fd'' t___s32,
    Member '''' (Comp Union False [
      Member ''off'' t___u64,
      Member ''addr2'' t___u64,
      Member '''' (Comp Struct False [
        Member ''cmd_op'' t___u32,
        Member ''__pad1'' t___u32])]),
    Member '''' (Comp Union False [
      Member ''addr'' t___u64,
      Member ''splice_off_in'' t___u64,
      Member '''' (Comp Struct False [
        Member ''level'' t___u32,
        Member ''optname'' t___u32])]),
    Member ''len'' t___u32,
    Member '''' (Comp Union False [
      Member ''rw_flags'' t___u32,
      Member ''fsync_flags'' t___u32,
      Member ''poll_events'' t___u16,
      Member ''poll32_events'' t___u32,
      Member ''sync_range_flags'' t___u32,
      Member ''msg_flags'' t___u32,
      Member ''timeout_flags'' t___u32,
      Member ''accept_flags'' t___u32,
      Member ''cancel_flags'' t___u32,
      Member ''open_flags'' t___u32,
      Member ''statx_flags'' t___u32,
      Member ''fadvise_advice'' t___u32,
      Member ''splice_flags'' t___u32,
      Member ''rename_flags'' t___u32,
      Member ''unlink_flags'' t___u32,
      Member ''hardlink_flags'' t___u32,
      Member ''xattr_flags'' t___u32,
      Member ''msg_ring_flags'' t___u32,
      Member ''uring_cmd_flags'' t___u32,
      Member ''waitid_flags'' t___u32,
      Member ''futex_flags'' t___u32,
      Member ''install_fd_flags'' t___u32,
      Member ''nop_flags'' t___u32,
      Member ''pipe_flags'' t___u32]),
    Member ''user_data'' t___u64,
    Member '''' (Comp Union False [
      Member ''buf_index'' t___u16,
      Member ''buf_group'' t___u16]),
    Member ''personality'' t___u16,
    Member '''' (Comp Union False [
      Member ''splice_fd_in'' t___s32,
      Member ''file_index'' t___u32,
      Member ''zcrx_ifq_idx'' t___u32,
      Member ''optlen'' t___u32,
      Member '''' (Comp Struct False [
        Member ''addr_len'' t___u16,
        Member ''__pad3'' (Array 1 t___u16)]),
      Member '''' (Comp Struct False [
        Member ''write_stream'' t___u8,
        Member ''__pad4'' (Array 3 t___u8)])]),
    Member '''' (Comp Union False [
      Member '''' (Comp Struct False [
        Member ''addr3'' t___u64,
        Member ''__pad2'' (Array 1 t___u64)]),
      Member '''' (Comp Struct False [
        Member ''attr_ptr'' t___u64,
        Member ''attr_type_mask'' t___u64]),
      Member ''optval'' t___u64,
      Member ''cmd'' (Array 0 t___u8)])]"

definition struct_lsm_static_call :: ctype where
  "struct_lsm_static_call = Comp Struct False [
    Member ''key'' (Ptr ''struct static_call_key *''),
    Member ''trampoline'' (Ptr ''void *''),
    Member ''hl'' (Ptr ''struct security_hook_list *''),
    Member ''active'' (Ptr ''struct static_key_false *'')]"

definition struct_lsm_static_calls_table :: ctype where
  "struct_lsm_static_calls_table = Comp Struct False [
    Member ''binder_set_context_mgr'' (Array 4 struct_lsm_static_call),
    Member ''binder_transaction'' (Array 4 struct_lsm_static_call),
    Member ''binder_transfer_binder'' (Array 4 struct_lsm_static_call),
    Member ''binder_transfer_file'' (Array 4 struct_lsm_static_call),
    Member ''ptrace_access_check'' (Array 4 struct_lsm_static_call),
    Member ''ptrace_traceme'' (Array 4 struct_lsm_static_call),
    Member ''capget'' (Array 4 struct_lsm_static_call),
    Member ''capset'' (Array 4 struct_lsm_static_call),
    Member ''capable'' (Array 4 struct_lsm_static_call),
    Member ''quotactl'' (Array 4 struct_lsm_static_call),
    Member ''quota_on'' (Array 4 struct_lsm_static_call),
    Member ''syslog'' (Array 4 struct_lsm_static_call),
    Member ''settime'' (Array 4 struct_lsm_static_call),
    Member ''vm_enough_memory'' (Array 4 struct_lsm_static_call),
    Member ''bprm_creds_for_exec'' (Array 4 struct_lsm_static_call),
    Member ''bprm_creds_from_file'' (Array 4 struct_lsm_static_call),
    Member ''bprm_check_security'' (Array 4 struct_lsm_static_call),
    Member ''bprm_committing_creds'' (Array 4 struct_lsm_static_call),
    Member ''bprm_committed_creds'' (Array 4 struct_lsm_static_call),
    Member ''fs_context_submount'' (Array 4 struct_lsm_static_call),
    Member ''fs_context_dup'' (Array 4 struct_lsm_static_call),
    Member ''fs_context_parse_param'' (Array 4 struct_lsm_static_call),
    Member ''sb_alloc_security'' (Array 4 struct_lsm_static_call),
    Member ''sb_delete'' (Array 4 struct_lsm_static_call),
    Member ''sb_free_security'' (Array 4 struct_lsm_static_call),
    Member ''sb_free_mnt_opts'' (Array 4 struct_lsm_static_call),
    Member ''sb_eat_lsm_opts'' (Array 4 struct_lsm_static_call),
    Member ''sb_mnt_opts_compat'' (Array 4 struct_lsm_static_call),
    Member ''sb_remount'' (Array 4 struct_lsm_static_call),
    Member ''sb_kern_mount'' (Array 4 struct_lsm_static_call),
    Member ''sb_show_options'' (Array 4 struct_lsm_static_call),
    Member ''sb_statfs'' (Array 4 struct_lsm_static_call),
    Member ''sb_mount'' (Array 4 struct_lsm_static_call),
    Member ''sb_umount'' (Array 4 struct_lsm_static_call),
    Member ''sb_pivotroot'' (Array 4 struct_lsm_static_call),
    Member ''sb_set_mnt_opts'' (Array 4 struct_lsm_static_call),
    Member ''sb_clone_mnt_opts'' (Array 4 struct_lsm_static_call),
    Member ''move_mount'' (Array 4 struct_lsm_static_call),
    Member ''dentry_init_security'' (Array 4 struct_lsm_static_call),
    Member ''dentry_create_files_as'' (Array 4 struct_lsm_static_call),
    Member ''path_unlink'' (Array 4 struct_lsm_static_call),
    Member ''path_mkdir'' (Array 4 struct_lsm_static_call),
    Member ''path_rmdir'' (Array 4 struct_lsm_static_call),
    Member ''path_mknod'' (Array 4 struct_lsm_static_call),
    Member ''path_post_mknod'' (Array 4 struct_lsm_static_call),
    Member ''path_truncate'' (Array 4 struct_lsm_static_call),
    Member ''path_symlink'' (Array 4 struct_lsm_static_call),
    Member ''path_link'' (Array 4 struct_lsm_static_call),
    Member ''path_rename'' (Array 4 struct_lsm_static_call),
    Member ''path_chmod'' (Array 4 struct_lsm_static_call),
    Member ''path_chown'' (Array 4 struct_lsm_static_call),
    Member ''path_chroot'' (Array 4 struct_lsm_static_call),
    Member ''path_notify'' (Array 4 struct_lsm_static_call),
    Member ''inode_alloc_security'' (Array 4 struct_lsm_static_call),
    Member ''inode_free_security'' (Array 4 struct_lsm_static_call),
    Member ''inode_free_security_rcu'' (Array 4 struct_lsm_static_call),
    Member ''inode_init_security'' (Array 4 struct_lsm_static_call),
    Member ''inode_init_security_anon'' (Array 4 struct_lsm_static_call),
    Member ''inode_create'' (Array 4 struct_lsm_static_call),
    Member ''inode_post_create_tmpfile'' (Array 4 struct_lsm_static_call),
    Member ''inode_link'' (Array 4 struct_lsm_static_call),
    Member ''inode_unlink'' (Array 4 struct_lsm_static_call),
    Member ''inode_symlink'' (Array 4 struct_lsm_static_call),
    Member ''inode_mkdir'' (Array 4 struct_lsm_static_call),
    Member ''inode_rmdir'' (Array 4 struct_lsm_static_call),
    Member ''inode_mknod'' (Array 4 struct_lsm_static_call),
    Member ''inode_rename'' (Array 4 struct_lsm_static_call),
    Member ''inode_readlink'' (Array 4 struct_lsm_static_call),
    Member ''inode_follow_link'' (Array 4 struct_lsm_static_call),
    Member ''inode_permission'' (Array 4 struct_lsm_static_call),
    Member ''inode_setattr'' (Array 4 struct_lsm_static_call),
    Member ''inode_post_setattr'' (Array 4 struct_lsm_static_call),
    Member ''inode_getattr'' (Array 4 struct_lsm_static_call),
    Member ''inode_xattr_skipcap'' (Array 4 struct_lsm_static_call),
    Member ''inode_setxattr'' (Array 4 struct_lsm_static_call),
    Member ''inode_post_setxattr'' (Array 4 struct_lsm_static_call),
    Member ''inode_getxattr'' (Array 4 struct_lsm_static_call),
    Member ''inode_listxattr'' (Array 4 struct_lsm_static_call),
    Member ''inode_removexattr'' (Array 4 struct_lsm_static_call),
    Member ''inode_post_removexattr'' (Array 4 struct_lsm_static_call),
    Member ''inode_file_setattr'' (Array 4 struct_lsm_static_call),
    Member ''inode_file_getattr'' (Array 4 struct_lsm_static_call),
    Member ''inode_set_acl'' (Array 4 struct_lsm_static_call),
    Member ''inode_post_set_acl'' (Array 4 struct_lsm_static_call),
    Member ''inode_get_acl'' (Array 4 struct_lsm_static_call),
    Member ''inode_remove_acl'' (Array 4 struct_lsm_static_call),
    Member ''inode_post_remove_acl'' (Array 4 struct_lsm_static_call),
    Member ''inode_need_killpriv'' (Array 4 struct_lsm_static_call),
    Member ''inode_killpriv'' (Array 4 struct_lsm_static_call),
    Member ''inode_getsecurity'' (Array 4 struct_lsm_static_call),
    Member ''inode_setsecurity'' (Array 4 struct_lsm_static_call),
    Member ''inode_listsecurity'' (Array 4 struct_lsm_static_call),
    Member ''inode_getlsmprop'' (Array 4 struct_lsm_static_call),
    Member ''inode_copy_up'' (Array 4 struct_lsm_static_call),
    Member ''inode_copy_up_xattr'' (Array 4 struct_lsm_static_call),
    Member ''inode_setintegrity'' (Array 4 struct_lsm_static_call),
    Member ''kernfs_init_security'' (Array 4 struct_lsm_static_call),
    Member ''file_permission'' (Array 4 struct_lsm_static_call),
    Member ''file_alloc_security'' (Array 4 struct_lsm_static_call),
    Member ''file_release'' (Array 4 struct_lsm_static_call),
    Member ''file_free_security'' (Array 4 struct_lsm_static_call),
    Member ''file_ioctl'' (Array 4 struct_lsm_static_call),
    Member ''file_ioctl_compat'' (Array 4 struct_lsm_static_call),
    Member ''mmap_addr'' (Array 4 struct_lsm_static_call),
    Member ''mmap_file'' (Array 4 struct_lsm_static_call),
    Member ''file_mprotect'' (Array 4 struct_lsm_static_call),
    Member ''file_lock'' (Array 4 struct_lsm_static_call),
    Member ''file_fcntl'' (Array 4 struct_lsm_static_call),
    Member ''file_set_fowner'' (Array 4 struct_lsm_static_call),
    Member ''file_send_sigiotask'' (Array 4 struct_lsm_static_call),
    Member ''file_receive'' (Array 4 struct_lsm_static_call),
    Member ''file_open'' (Array 4 struct_lsm_static_call),
    Member ''file_post_open'' (Array 4 struct_lsm_static_call),
    Member ''file_truncate'' (Array 4 struct_lsm_static_call),
    Member ''task_alloc'' (Array 4 struct_lsm_static_call),
    Member ''task_free'' (Array 4 struct_lsm_static_call),
    Member ''cred_alloc_blank'' (Array 4 struct_lsm_static_call),
    Member ''cred_free'' (Array 4 struct_lsm_static_call),
    Member ''cred_prepare'' (Array 4 struct_lsm_static_call),
    Member ''cred_transfer'' (Array 4 struct_lsm_static_call),
    Member ''cred_getsecid'' (Array 4 struct_lsm_static_call),
    Member ''cred_getlsmprop'' (Array 4 struct_lsm_static_call),
    Member ''kernel_act_as'' (Array 4 struct_lsm_static_call),
    Member ''kernel_create_files_as'' (Array 4 struct_lsm_static_call),
    Member ''kernel_module_request'' (Array 4 struct_lsm_static_call),
    Member ''kernel_load_data'' (Array 4 struct_lsm_static_call),
    Member ''kernel_post_load_data'' (Array 4 struct_lsm_static_call),
    Member ''kernel_read_file'' (Array 4 struct_lsm_static_call),
    Member ''kernel_post_read_file'' (Array 4 struct_lsm_static_call),
    Member ''task_fix_setuid'' (Array 4 struct_lsm_static_call),
    Member ''task_fix_setgid'' (Array 4 struct_lsm_static_call),
    Member ''task_fix_setgroups'' (Array 4 struct_lsm_static_call),
    Member ''task_setpgid'' (Array 4 struct_lsm_static_call),
    Member ''task_getpgid'' (Array 4 struct_lsm_static_call),
    Member ''task_getsid'' (Array 4 struct_lsm_static_call),
    Member ''current_getlsmprop_subj'' (Array 4 struct_lsm_static_call),
    Member ''task_getlsmprop_obj'' (Array 4 struct_lsm_static_call),
    Member ''task_setnice'' (Array 4 struct_lsm_static_call),
    Member ''task_setioprio'' (Array 4 struct_lsm_static_call),
    Member ''task_getioprio'' (Array 4 struct_lsm_static_call),
    Member ''task_prlimit'' (Array 4 struct_lsm_static_call),
    Member ''task_setrlimit'' (Array 4 struct_lsm_static_call),
    Member ''task_setscheduler'' (Array 4 struct_lsm_static_call),
    Member ''task_getscheduler'' (Array 4 struct_lsm_static_call),
    Member ''task_movememory'' (Array 4 struct_lsm_static_call),
    Member ''task_kill'' (Array 4 struct_lsm_static_call),
    Member ''task_prctl'' (Array 4 struct_lsm_static_call),
    Member ''task_to_inode'' (Array 4 struct_lsm_static_call),
    Member ''userns_create'' (Array 4 struct_lsm_static_call),
    Member ''ipc_permission'' (Array 4 struct_lsm_static_call),
    Member ''ipc_getlsmprop'' (Array 4 struct_lsm_static_call),
    Member ''msg_msg_alloc_security'' (Array 4 struct_lsm_static_call),
    Member ''msg_msg_free_security'' (Array 4 struct_lsm_static_call),
    Member ''msg_queue_alloc_security'' (Array 4 struct_lsm_static_call),
    Member ''msg_queue_free_security'' (Array 4 struct_lsm_static_call),
    Member ''msg_queue_associate'' (Array 4 struct_lsm_static_call),
    Member ''msg_queue_msgctl'' (Array 4 struct_lsm_static_call),
    Member ''msg_queue_msgsnd'' (Array 4 struct_lsm_static_call),
    Member ''msg_queue_msgrcv'' (Array 4 struct_lsm_static_call),
    Member ''shm_alloc_security'' (Array 4 struct_lsm_static_call),
    Member ''shm_free_security'' (Array 4 struct_lsm_static_call),
    Member ''shm_associate'' (Array 4 struct_lsm_static_call),
    Member ''shm_shmctl'' (Array 4 struct_lsm_static_call),
    Member ''shm_shmat'' (Array 4 struct_lsm_static_call),
    Member ''sem_alloc_security'' (Array 4 struct_lsm_static_call),
    Member ''sem_free_security'' (Array 4 struct_lsm_static_call),
    Member ''sem_associate'' (Array 4 struct_lsm_static_call),
    Member ''sem_semctl'' (Array 4 struct_lsm_static_call),
    Member ''sem_semop'' (Array 4 struct_lsm_static_call),
    Member ''netlink_send'' (Array 4 struct_lsm_static_call),
    Member ''d_instantiate'' (Array 4 struct_lsm_static_call),
    Member ''getselfattr'' (Array 4 struct_lsm_static_call),
    Member ''setselfattr'' (Array 4 struct_lsm_static_call),
    Member ''getprocattr'' (Array 4 struct_lsm_static_call),
    Member ''setprocattr'' (Array 4 struct_lsm_static_call),
    Member ''ismaclabel'' (Array 4 struct_lsm_static_call),
    Member ''secid_to_secctx'' (Array 4 struct_lsm_static_call),
    Member ''lsmprop_to_secctx'' (Array 4 struct_lsm_static_call),
    Member ''secctx_to_secid'' (Array 4 struct_lsm_static_call),
    Member ''release_secctx'' (Array 4 struct_lsm_static_call),
    Member ''inode_invalidate_secctx'' (Array 4 struct_lsm_static_call),
    Member ''inode_notifysecctx'' (Array 4 struct_lsm_static_call),
    Member ''inode_setsecctx'' (Array 4 struct_lsm_static_call),
    Member ''inode_getsecctx'' (Array 4 struct_lsm_static_call),
    Member ''unix_stream_connect'' (Array 4 struct_lsm_static_call),
    Member ''unix_may_send'' (Array 4 struct_lsm_static_call),
    Member ''socket_create'' (Array 4 struct_lsm_static_call),
    Member ''socket_post_create'' (Array 4 struct_lsm_static_call),
    Member ''socket_socketpair'' (Array 4 struct_lsm_static_call),
    Member ''socket_bind'' (Array 4 struct_lsm_static_call),
    Member ''socket_connect'' (Array 4 struct_lsm_static_call),
    Member ''socket_listen'' (Array 4 struct_lsm_static_call),
    Member ''socket_accept'' (Array 4 struct_lsm_static_call),
    Member ''socket_sendmsg'' (Array 4 struct_lsm_static_call),
    Member ''socket_recvmsg'' (Array 4 struct_lsm_static_call),
    Member ''socket_getsockname'' (Array 4 struct_lsm_static_call),
    Member ''socket_getpeername'' (Array 4 struct_lsm_static_call),
    Member ''socket_getsockopt'' (Array 4 struct_lsm_static_call),
    Member ''socket_setsockopt'' (Array 4 struct_lsm_static_call),
    Member ''socket_shutdown'' (Array 4 struct_lsm_static_call),
    Member ''socket_sock_rcv_skb'' (Array 4 struct_lsm_static_call),
    Member ''socket_getpeersec_stream'' (Array 4 struct_lsm_static_call),
    Member ''socket_getpeersec_dgram'' (Array 4 struct_lsm_static_call),
    Member ''sk_alloc_security'' (Array 4 struct_lsm_static_call),
    Member ''sk_free_security'' (Array 4 struct_lsm_static_call),
    Member ''sk_clone_security'' (Array 4 struct_lsm_static_call),
    Member ''sk_getsecid'' (Array 4 struct_lsm_static_call),
    Member ''sock_graft'' (Array 4 struct_lsm_static_call),
    Member ''inet_conn_request'' (Array 4 struct_lsm_static_call),
    Member ''inet_csk_clone'' (Array 4 struct_lsm_static_call),
    Member ''inet_conn_established'' (Array 4 struct_lsm_static_call),
    Member ''secmark_relabel_packet'' (Array 4 struct_lsm_static_call),
    Member ''secmark_refcount_inc'' (Array 4 struct_lsm_static_call),
    Member ''secmark_refcount_dec'' (Array 4 struct_lsm_static_call),
    Member ''req_classify_flow'' (Array 4 struct_lsm_static_call),
    Member ''tun_dev_alloc_security'' (Array 4 struct_lsm_static_call),
    Member ''tun_dev_create'' (Array 4 struct_lsm_static_call),
    Member ''tun_dev_attach_queue'' (Array 4 struct_lsm_static_call),
    Member ''tun_dev_attach'' (Array 4 struct_lsm_static_call),
    Member ''tun_dev_open'' (Array 4 struct_lsm_static_call),
    Member ''sctp_assoc_request'' (Array 4 struct_lsm_static_call),
    Member ''sctp_bind_connect'' (Array 4 struct_lsm_static_call),
    Member ''sctp_sk_clone'' (Array 4 struct_lsm_static_call),
    Member ''sctp_assoc_established'' (Array 4 struct_lsm_static_call),
    Member ''mptcp_add_subflow'' (Array 4 struct_lsm_static_call),
    Member ''key_alloc'' (Array 4 struct_lsm_static_call),
    Member ''key_permission'' (Array 4 struct_lsm_static_call),
    Member ''key_getsecurity'' (Array 4 struct_lsm_static_call),
    Member ''key_post_create_or_update'' (Array 4 struct_lsm_static_call),
    Member ''bpf'' (Array 4 struct_lsm_static_call),
    Member ''bpf_map'' (Array 4 struct_lsm_static_call),
    Member ''bpf_prog'' (Array 4 struct_lsm_static_call),
    Member ''bpf_map_create'' (Array 4 struct_lsm_static_call),
    Member ''bpf_map_free'' (Array 4 struct_lsm_static_call),
    Member ''bpf_prog_load'' (Array 4 struct_lsm_static_call),
    Member ''bpf_prog_free'' (Array 4 struct_lsm_static_call),
    Member ''bpf_token_create'' (Array 4 struct_lsm_static_call),
    Member ''bpf_token_free'' (Array 4 struct_lsm_static_call),
    Member ''bpf_token_cmd'' (Array 4 struct_lsm_static_call),
    Member ''bpf_token_capable'' (Array 4 struct_lsm_static_call),
    Member ''locked_down'' (Array 4 struct_lsm_static_call),
    Member ''perf_event_open'' (Array 4 struct_lsm_static_call),
    Member ''perf_event_alloc'' (Array 4 struct_lsm_static_call),
    Member ''perf_event_read'' (Array 4 struct_lsm_static_call),
    Member ''perf_event_write'' (Array 4 struct_lsm_static_call),
    Member ''uring_override_creds'' (Array 4 struct_lsm_static_call),
    Member ''uring_sqpoll'' (Array 4 struct_lsm_static_call),
    Member ''uring_cmd'' (Array 4 struct_lsm_static_call),
    Member ''uring_allowed'' (Array 4 struct_lsm_static_call),
    Member ''initramfs_populated'' (Array 4 struct_lsm_static_call),
    Member ''bdev_alloc_security'' (Array 4 struct_lsm_static_call),
    Member ''bdev_free_security'' (Array 4 struct_lsm_static_call),
    Member ''bdev_setintegrity'' (Array 4 struct_lsm_static_call)]"

definition struct_taskstats :: ctype where
  "struct_taskstats = Comp Struct False [
    Member ''version'' t___u16,
    Member ''ac_exitcode'' t___u32,
    Member ''ac_flag'' t___u8,
    Member ''ac_nice'' t___u8,
    Member ''cpu_count'' t___u64,
    Member ''cpu_delay_total'' t___u64,
    Member ''blkio_count'' t___u64,
    Member ''blkio_delay_total'' t___u64,
    Member ''swapin_count'' t___u64,
    Member ''swapin_delay_total'' t___u64,
    Member ''cpu_run_real_total'' t___u64,
    Member ''cpu_run_virtual_total'' t___u64,
    Member ''ac_comm'' (Array 32 c_char),
    Member ''ac_sched'' t___u8,
    Member ''ac_pad'' (Array 3 t___u8),
    BitField '''' c_long 0,
    Member ''ac_uid'' t___u32,
    Member ''ac_gid'' t___u32,
    Member ''ac_pid'' t___u32,
    Member ''ac_ppid'' t___u32,
    Member ''ac_btime'' t___u32,
    Member ''ac_etime'' t___u64,
    Member ''ac_utime'' t___u64,
    Member ''ac_stime'' t___u64,
    Member ''ac_minflt'' t___u64,
    Member ''ac_majflt'' t___u64,
    Member ''coremem'' t___u64,
    Member ''virtmem'' t___u64,
    Member ''hiwater_rss'' t___u64,
    Member ''hiwater_vm'' t___u64,
    Member ''read_char'' t___u64,
    Member ''write_char'' t___u64,
    Member ''read_syscalls'' t___u64,
    Member ''write_syscalls'' t___u64,
    Member ''read_bytes'' t___u64,
    Member ''write_bytes'' t___u64,
    Member ''cancelled_write_bytes'' t___u64,
    Member ''nvcsw'' t___u64,
    Member ''nivcsw'' t___u64,
    Member ''ac_utimescaled'' t___u64,
    Member ''ac_stimescaled'' t___u64,
    Member ''cpu_scaled_run_real_total'' t___u64,
    Member ''freepages_count'' t___u64,
    Member ''freepages_delay_total'' t___u64,
    Member ''thrashing_count'' t___u64,
    Member ''thrashing_delay_total'' t___u64,
    Member ''ac_btime64'' t___u64,
    Member ''compact_count'' t___u64,
    Member ''compact_delay_total'' t___u64,
    Member ''ac_tgid'' t___u32,
    Member ''ac_tgetime'' t___u64,
    Member ''ac_exe_dev'' t___u64,
    Member ''ac_exe_inode'' t___u64,
    Member ''wpcopy_count'' t___u64,
    Member ''wpcopy_delay_total'' t___u64,
    Member ''irq_count'' t___u64,
    Member ''irq_delay_total'' t___u64,
    Member ''cpu_delay_max'' t___u64,
    Member ''cpu_delay_min'' t___u64,
    Member ''blkio_delay_max'' t___u64,
    Member ''blkio_delay_min'' t___u64,
    Member ''swapin_delay_max'' t___u64,
    Member ''swapin_delay_min'' t___u64,
    Member ''freepages_delay_max'' t___u64,
    Member ''freepages_delay_min'' t___u64,
    Member ''thrashing_delay_max'' t___u64,
    Member ''thrashing_delay_min'' t___u64,
    Member ''compact_delay_max'' t___u64,
    Member ''compact_delay_min'' t___u64,
    Member ''wpcopy_delay_max'' t___u64,
    Member ''wpcopy_delay_min'' t___u64,
    Member ''irq_delay_max'' t___u64,
    Member ''irq_delay_min'' t___u64]"

definition enum_sctp_verb :: ctype where
  "enum_sctp_verb = Enum False [
    (''SCTP_CMD_NOP'', 0), (''SCTP_CMD_NEW_ASOC'', 1), (''SCTP_CMD_DELETE_TCB'', 2),
    (''SCTP_CMD_NEW_STATE'', 3), (''SCTP_CMD_REPORT_TSN'', 4), (''SCTP_CMD_GEN_SACK'', 5),
    (''SCTP_CMD_PROCESS_SACK'', 6), (''SCTP_CMD_GEN_INIT_ACK'', 7), (''SCTP_CMD_PEER_INIT'', 8),
    (''SCTP_CMD_GEN_COOKIE_ECHO'', 9), (''SCTP_CMD_CHUNK_ULP'', 10), (''SCTP_CMD_EVENT_ULP'', 11),
    (''SCTP_CMD_REPLY'', 12), (''SCTP_CMD_SEND_PKT'', 13), (''SCTP_CMD_RETRAN'', 14),
    (''SCTP_CMD_ECN_CE'', 15), (''SCTP_CMD_ECN_ECNE'', 16), (''SCTP_CMD_ECN_CWR'', 17),
    (''SCTP_CMD_TIMER_START'', 18), (''SCTP_CMD_TIMER_START_ONCE'', 19),
    (''SCTP_CMD_TIMER_RESTART'', 20), (''SCTP_CMD_TIMER_STOP'', 21),
    (''SCTP_CMD_INIT_CHOOSE_TRANSPORT'', 22), (''SCTP_CMD_INIT_COUNTER_RESET'', 23),
    (''SCTP_CMD_INIT_COUNTER_INC'', 24), (''SCTP_CMD_INIT_RESTART'', 25),
    (''SCTP_CMD_COOKIEECHO_RESTART'', 26), (''SCTP_CMD_INIT_FAILED'', 27),
    (''SCTP_CMD_REPORT_DUP'', 28), (''SCTP_CMD_STRIKE'', 29), (''SCTP_CMD_HB_TIMERS_START'', 30),
    (''SCTP_CMD_HB_TIMER_UPDATE'', 31), (''SCTP_CMD_HB_TIMERS_STOP'', 32),
    (''SCTP_CMD_PROBE_TIMER_UPDATE'', 33), (''SCTP_CMD_TRANSPORT_HB_SENT'', 34),
    (''SCTP_CMD_TRANSPORT_IDLE'', 35), (''SCTP_CMD_TRANSPORT_ON'', 36),
    (''SCTP_CMD_REPORT_ERROR'', 37), (''SCTP_CMD_REPORT_BAD_TAG'', 38),
    (''SCTP_CMD_PROCESS_CTSN'', 39), (''SCTP_CMD_ASSOC_FAILED'', 40),
    (''SCTP_CMD_DISCARD_PACKET'', 41), (''SCTP_CMD_GEN_SHUTDOWN'', 42),
    (''SCTP_CMD_PURGE_OUTQUEUE'', 43), (''SCTP_CMD_SETUP_T2'', 44),
    (''SCTP_CMD_RTO_PENDING'', 45), (''SCTP_CMD_PART_DELIVER'', 46), (''SCTP_CMD_RENEGE'', 47),
    (''SCTP_CMD_SETUP_T4'', 48), (''SCTP_CMD_PROCESS_OPERR'', 49),
    (''SCTP_CMD_REPORT_FWDTSN'', 50), (''SCTP_CMD_PROCESS_FWDTSN'', 51),
    (''SCTP_CMD_CLEAR_INIT_TAG'', 52), (''SCTP_CMD_DEL_NON_PRIMARY'', 53),
    (''SCTP_CMD_T3_RTX_TIMERS_STOP'', 54), (''SCTP_CMD_FORCE_PRIM_RETRAN'', 55),
    (''SCTP_CMD_SET_SK_ERR'', 56), (''SCTP_CMD_ASSOC_CHANGE'', 57),
    (''SCTP_CMD_ADAPTATION_IND'', 58), (''SCTP_CMD_PEER_NO_AUTH'', 59),
    (''SCTP_CMD_ASSOC_SHKEY'', 60), (''SCTP_CMD_T1_RETRAN'', 61),
    (''SCTP_CMD_UPDATE_INITTAG'', 62), (''SCTP_CMD_SEND_MSG'', 63),
    (''SCTP_CMD_PURGE_ASCONF_QUEUE'', 64), (''SCTP_CMD_SET_ASOC'', 65), (''SCTP_CMD_LAST'', 66)]"

definition struct_cfs_rq :: ctype where
  "struct_cfs_rq = Comp Struct False [
    Member ''load'' struct_load_weight,
    Member ''nr_queued'' c_unsigned_int,
    Member ''h_nr_queued'' c_unsigned_int,
    Member ''h_nr_runnable'' c_unsigned_int,
    Member ''h_nr_idle'' c_unsigned_int,
    Member ''avg_vruntime'' t_s64,
    Member ''avg_load'' t_u64,
    Member ''min_vruntime'' t_u64,
    Member ''tasks_timeline'' struct_rb_root_cached,
    Member ''curr'' (Ptr ''struct sched_entity *''),
    Member ''next'' (Ptr ''struct sched_entity *''),
    BitField '''' c_long 64,
    BitField '''' c_long 64,
    BitField '''' c_long 64,
    BitField '''' c_long 64,
    BitField '''' c_long 64,
    Member ''avg'' struct_sched_avg,
    Member ''removed'' (Comp Struct False ([
      Member ''lock'' t_raw_spinlock_t,
      Member ''nr'' c_int,
      Member ''load_avg'' c_unsigned_long,
      Member ''util_avg'' c_unsigned_long,
      Member ''runnable_avg'' c_unsigned_long] @ replicate 12 (BitField '''' c_long 64))),
    Member ''last_update_tg_load_avg'' t_u64,
    Member ''tg_load_avg_contrib'' c_unsigned_long,
    Member ''propagate'' c_long,
    Member ''prop_runnable_sum'' c_long,
    Member ''h_load'' c_unsigned_long,
    Member ''last_h_load_update'' t_u64,
    Member ''h_load_next'' (Ptr ''struct sched_entity *''),
    Member ''rq'' (Ptr ''struct rq *''),
    Member ''on_list'' c_int,
    Member ''leaf_cfs_rq_list'' struct_list_head,
    Member ''tg'' (Ptr ''struct task_group *''),
    Member ''idle'' c_int,
    Member ''runtime_enabled'' c_int,
    Member ''runtime_remaining'' t_s64,
    Member ''throttled_pelt_idle'' t_u64,
    Member ''throttled_clock'' t_u64,
    Member ''throttled_clock_pelt'' t_u64,
    Member ''throttled_clock_pelt_time'' t_u64,
    Member ''throttled_clock_self'' t_u64,
    Member ''throttled_clock_self_time'' t_u64,
    Member ''throttled'' c_int,
    Member ''throttle_count'' c_int,
    Member ''throttled_list'' struct_list_head,
    Member ''throttled_csd_list'' struct_list_head,
    BitField '''' c_long 64,
    BitField '''' c_long 64,
    BitField '''' c_long 64,
    BitField '''' c_long 64,
    BitField '''' c_long 64,
    BitField '''' c_long 64,
    BitField '''' c_long 64]"

definition enum_io_uring_op :: ctype where
  "enum_io_uring_op = Enum False [
    (''IORING_OP_NOP'', 0), (''IORING_OP_READV'', 1), (''IORING_OP_WRITEV'', 2),
    (''IORING_OP_FSYNC'', 3), (''IORING_OP_READ_FIXED'', 4), (''IORING_OP_WRITE_FIXED'', 5),
    (''IORING_OP_POLL_ADD'', 6), (''IORING_OP_POLL_REMOVE'', 7),
    (''IORING_OP_SYNC_FILE_RANGE'', 8), (''IORING_OP_SENDMSG'', 9), (''IORING_OP_RECVMSG'', 10),
    (''IORING_OP_TIMEOUT'', 11), (''IORING_OP_TIMEOUT_REMOVE'', 12), (''IORING_OP_ACCEPT'', 13),
    (''IORING_OP_ASYNC_CANCEL'', 14), (''IORING_OP_LINK_TIMEOUT'', 15),
    (''IORING_OP_CONNECT'', 16), (''IORING_OP_FALLOCATE'', 17), (''IORING_OP_OPENAT'', 18),
    (''IORING_OP_CLOSE'', 19), (''IORING_OP_FILES_UPDATE'', 20), (''IORING_OP_STATX'', 21),
    (''IORING_OP_READ'', 22), (''IORING_OP_WRITE'', 23), (''IORING_OP_FADVISE'', 24),
    (''IORING_OP_MADVISE'', 25), (''IORING_OP_SEND'', 26), (''IORING_OP_RECV'', 27),
    (''IORING_OP_OPENAT2'', 28), (''IORING_OP_EPOLL_CTL'', 29), (''IORING_OP_SPLICE'', 30),
    (''IORING_OP_PROVIDE_BUFFERS'', 31), (''IORING_OP_REMOVE_BUFFERS'', 32),
    (''IORING_OP_TEE'', 33), (''IORING_OP_SHUTDOWN'', 34), (''IORING_OP_RENAMEAT'', 35),
    (''IORING_OP_UNLINKAT'', 36), (''IORING_OP_MKDIRAT'', 37), (''IORING_OP_SYMLINKAT'', 38),
    (''IORING_OP_LINKAT'', 39), (''IORING_OP_MSG_RING'', 40), (''IORING_OP_FSETXATTR'', 41),
    (''IORING_OP_SETXATTR'', 42), (''IORING_OP_FGETXATTR'', 43), (''IORING_OP_GETXATTR'', 44),
    (''IORING_OP_SOCKET'', 45), (''IORING_OP_URING_CMD'', 46), (''IORING_OP_SEND_ZC'', 47),
    (''IORING_OP_SENDMSG_ZC'', 48), (''IORING_OP_READ_MULTISHOT'', 49),
    (''IORING_OP_WAITID'', 50), (''IORING_OP_FUTEX_WAIT'', 51), (''IORING_OP_FUTEX_WAKE'', 52),
    (''IORING_OP_FUTEX_WAITV'', 53), (''IORING_OP_FIXED_FD_INSTALL'', 54),
    (''IORING_OP_FTRUNCATE'', 55), (''IORING_OP_BIND'', 56), (''IORING_OP_LISTEN'', 57),
    (''IORING_OP_RECV_ZC'', 58), (''IORING_OP_EPOLL_WAIT'', 59), (''IORING_OP_READV_FIXED'', 60),
    (''IORING_OP_WRITEV_FIXED'', 61), (''IORING_OP_PIPE'', 62), (''IORING_OP_LAST'', 63)]"

definition struct_sctp_info :: ctype where
  "struct_sctp_info = Comp Struct False [
    Member ''sctpi_tag'' t___u32,
    Member ''sctpi_state'' t___u32,
    Member ''sctpi_rwnd'' t___u32,
    Member ''sctpi_unackdata'' t___u16,
    Member ''sctpi_penddata'' t___u16,
    Member ''sctpi_instrms'' t___u16,
    Member ''sctpi_outstrms'' t___u16,
    Member ''sctpi_fragmentation_point'' t___u32,
    Member ''sctpi_inqueue'' t___u32,
    Member ''sctpi_outqueue'' t___u32,
    Member ''sctpi_overall_error'' t___u32,
    Member ''sctpi_max_burst'' t___u32,
    Member ''sctpi_maxseg'' t___u32,
    Member ''sctpi_peer_rwnd'' t___u32,
    Member ''sctpi_peer_tag'' t___u32,
    Member ''sctpi_peer_capable'' t___u8,
    Member ''sctpi_peer_sack'' t___u8,
    Member ''__reserved1'' t___u16,
    Member ''sctpi_isacks'' t___u64,
    Member ''sctpi_osacks'' t___u64,
    Member ''sctpi_opackets'' t___u64,
    Member ''sctpi_ipackets'' t___u64,
    Member ''sctpi_rtxchunks'' t___u64,
    Member ''sctpi_outofseqtsns'' t___u64,
    Member ''sctpi_idupchunks'' t___u64,
    Member ''sctpi_gapcnt'' t___u64,
    Member ''sctpi_ouodchunks'' t___u64,
    Member ''sctpi_iuodchunks'' t___u64,
    Member ''sctpi_oodchunks'' t___u64,
    Member ''sctpi_iodchunks'' t___u64,
    Member ''sctpi_octrlchunks'' t___u64,
    Member ''sctpi_ictrlchunks'' t___u64,
    Member ''sctpi_p_address'' struct___kernel_sockaddr_storage,
    Member ''sctpi_p_state'' t___s32,
    Member ''sctpi_p_cwnd'' t___u32,
    Member ''sctpi_p_srtt'' t___u32,
    Member ''sctpi_p_rto'' t___u32,
    Member ''sctpi_p_hbinterval'' t___u32,
    Member ''sctpi_p_pathmaxrxt'' t___u32,
    Member ''sctpi_p_sackdelay'' t___u32,
    Member ''sctpi_p_sackfreq'' t___u32,
    Member ''sctpi_p_ssthresh'' t___u32,
    Member ''sctpi_p_partial_bytes_acked'' t___u32,
    Member ''sctpi_p_flight_size'' t___u32,
    Member ''sctpi_p_error'' t___u16,
    Member ''__reserved2'' t___u16,
    Member ''sctpi_s_autoclose'' t___u32,
    Member ''sctpi_s_adaptation_ind'' t___u32,
    Member ''sctpi_s_pd_point'' t___u32,
    Member ''sctpi_s_nodelay'' t___u8,
    Member ''sctpi_s_disable_fragments'' t___u8,
    Member ''sctpi_s_v4mapped'' t___u8,
    Member ''sctpi_s_frag_interleave'' t___u8,
    Member ''sctpi_s_type'' t___u32,
    Member ''__reserved3'' t___u32]"

definition struct_nft_set :: ctype where
  "struct_nft_set = Comp Struct False ([
    Member ''list'' struct_list_head,
    Member ''bindings'' struct_list_head,
    Member ''refs'' t_refcount_t,
    Member ''table'' (Ptr ''struct nft_table *''),
    Member ''net'' t_possible_net_t,
    Member ''name'' (Ptr ''char *''),
    Member ''handle'' t_u64,
    Member ''ktype'' t_u32,
    Member ''dtype'' t_u32,
    Member ''objtype'' t_u32,
    Member ''size'' t_u32,
    Member ''field_len'' (Array 16 t_u8),
    Member ''field_count'' t_u8,
    Member ''use'' t_u32,
    Member ''nelems'' t_atomic_t,
    Member ''ndeact'' t_u32,
    Member ''timeout'' t_u64,
    Member ''gc_int'' t_u32,
    Member ''policy'' t_u16,
    Member ''udlen'' t_u16,
    Member ''udata'' (Ptr ''unsigned char *''),
    Member ''pending_update'' struct_list_head] @ replicate 12 (BitField '''' c_long 64) @ [
    Member ''ops'' (Ptr ''struct nft_set_ops *''),
    BitField ''flags'' t_u16 13,
    BitField ''dead'' t_u16 1,
    BitField ''genmask'' t_u16 2,
    Member ''klen'' t_u8,
    Member ''dlen'' t_u8,
    Member ''num_exprs'' t_u8,
    Member ''exprs'' (Array 2 (Ptr ''struct nft_expr *'')),
    Member ''catchall_list'' struct_list_head,
    Member ''data'' (Array 0 c_unsigned_char)] @ replicate 10 (BitField '''' c_long 64))"

definition struct_page_counter :: ctype where
  "struct_page_counter = Comp Struct False ([
    Member ''usage'' t_atomic_long_t,
    Member ''failcnt'' c_unsigned_long] @ replicate 14 (BitField '''' c_long 64) @ [
    Member ''_pad1_'' struct_cacheline_padding,
    Member ''emin'' c_unsigned_long,
    Member ''min_usage'' t_atomic_long_t,
    Member ''children_min_usage'' t_atomic_long_t,
    Member ''elow'' c_unsigned_long,
    Member ''low_usage'' t_atomic_long_t,
    Member ''children_low_usage'' t_atomic_long_t,
    Member ''watermark'' c_unsigned_long,
    Member ''local_watermark'' c_unsigned_long] @ replicate 8 (BitField '''' c_long 64) @ [
    Member ''_pad2_'' struct_cacheline_padding,
    Member ''protection_support'' t_bool,
    Member ''track_failcnt'' t_bool,
    Member ''min'' c_unsigned_long,
    Member ''low'' c_unsigned_long,
    Member ''high'' c_unsigned_long,
    Member ''max'' c_unsigned_long,
    Member ''parent'' (Ptr ''struct page_counter *'')] @ replicate 10 (BitField '''' c_long 64))"

definition enum_node_stat_item :: ctype where
  "enum_node_stat_item = Enum False [
    (''NR_LRU_BASE'', 0), (''NR_INACTIVE_ANON'', 0), (''NR_ACTIVE_ANON'', 1),
    (''NR_INACTIVE_FILE'', 2), (''NR_ACTIVE_FILE'', 3), (''NR_UNEVICTABLE'', 4),
    (''NR_SLAB_RECLAIMABLE_B'', 5), (''NR_SLAB_UNRECLAIMABLE_B'', 6), (''NR_ISOLATED_ANON'', 7),
    (''NR_ISOLATED_FILE'', 8), (''WORKINGSET_NODES'', 9), (''WORKINGSET_REFAULT_BASE'', 10),
    (''WORKINGSET_REFAULT_ANON'', 10), (''WORKINGSET_REFAULT_FILE'', 11),
    (''WORKINGSET_ACTIVATE_BASE'', 12), (''WORKINGSET_ACTIVATE_ANON'', 12),
    (''WORKINGSET_ACTIVATE_FILE'', 13), (''WORKINGSET_RESTORE_BASE'', 14),
    (''WORKINGSET_RESTORE_ANON'', 14), (''WORKINGSET_RESTORE_FILE'', 15),
    (''WORKINGSET_NODERECLAIM'', 16), (''NR_ANON_MAPPED'', 17), (''NR_FILE_MAPPED'', 18),
    (''NR_FILE_PAGES'', 19), (''NR_FILE_DIRTY'', 20), (''NR_WRITEBACK'', 21), (''NR_SHMEM'', 22),
    (''NR_SHMEM_THPS'', 23), (''NR_SHMEM_PMDMAPPED'', 24), (''NR_FILE_THPS'', 25),
    (''NR_FILE_PMDMAPPED'', 26), (''NR_ANON_THPS'', 27), (''NR_VMSCAN_WRITE'', 28),
    (''NR_VMSCAN_IMMEDIATE'', 29), (''NR_DIRTIED'', 30), (''NR_WRITTEN'', 31),
    (''NR_THROTTLED_WRITTEN'', 32), (''NR_KERNEL_MISC_RECLAIMABLE'', 33),
    (''NR_FOLL_PIN_ACQUIRED'', 34), (''NR_FOLL_PIN_RELEASED'', 35), (''NR_KERNEL_STACK_KB'', 36),
    (''NR_PAGETABLE'', 37), (''NR_SECONDARY_PAGETABLE'', 38), (''NR_SWAPCACHE'', 39),
    (''PGDEMOTE_KSWAPD'', 40), (''PGDEMOTE_DIRECT'', 41), (''PGDEMOTE_KHUGEPAGED'', 42),
    (''PGDEMOTE_PROACTIVE'', 43), (''NR_BALLOON_PAGES'', 44), (''NR_VM_NODE_STAT_ITEMS'', 45)]"

definition struct_fqdir :: ctype where
  "struct_fqdir = Comp Struct False ([
    Member ''high_thresh'' c_long,
    Member ''low_thresh'' c_long,
    Member ''timeout'' c_int,
    Member ''max_dist'' c_int,
    Member ''f'' (Ptr ''struct inet_frags *''),
    Member ''net'' (Ptr ''struct net *''),
    Member ''dead'' t_bool] @ replicate 10 (BitField '''' c_long 64) @ [
    Member ''rhashtable'' struct_rhashtable] @ replicate 15 (BitField '''' c_long 64) @ [
    Member ''mem'' t_atomic_long_t,
    Member ''destroy_work'' struct_work_struct,
    Member ''free_list'' struct_llist_node] @ replicate 10 (BitField '''' c_long 64))"

definition enum_special_kfunc_type :: ctype where
  "enum_special_kfunc_type = Enum False [
    (''KF_bpf_obj_new_impl'', 0), (''KF_bpf_obj_drop_impl'', 1),
    (''KF_bpf_refcount_acquire_impl'', 2), (''KF_bpf_list_push_front_impl'', 3),
    (''KF_bpf_list_push_back_impl'', 4), (''KF_bpf_list_pop_front'', 5),
    (''KF_bpf_list_pop_back'', 6), (''KF_bpf_list_front'', 7), (''KF_bpf_list_back'', 8),
    (''KF_bpf_cast_to_kern_ctx'', 9), (''KF_bpf_rdonly_cast'', 10),
    (''KF_bpf_rcu_read_lock'', 11), (''KF_bpf_rcu_read_unlock'', 12),
    (''KF_bpf_rbtree_remove'', 13), (''KF_bpf_rbtree_add_impl'', 14),
    (''KF_bpf_rbtree_first'', 15), (''KF_bpf_rbtree_root'', 16), (''KF_bpf_rbtree_left'', 17),
    (''KF_bpf_rbtree_right'', 18), (''KF_bpf_dynptr_from_skb'', 19),
    (''KF_bpf_dynptr_from_xdp'', 20), (''KF_bpf_dynptr_slice'', 21),
    (''KF_bpf_dynptr_slice_rdwr'', 22), (''KF_bpf_dynptr_clone'', 23),
    (''KF_bpf_percpu_obj_new_impl'', 24), (''KF_bpf_percpu_obj_drop_impl'', 25),
    (''KF_bpf_throw'', 26), (''KF_bpf_wq_set_callback_impl'', 27),
    (''KF_bpf_preempt_disable'', 28), (''KF_bpf_preempt_enable'', 29),
    (''KF_bpf_iter_css_task_new'', 30), (''KF_bpf_session_cookie'', 31),
    (''KF_bpf_get_kmem_cache'', 32), (''KF_bpf_local_irq_save'', 33),
    (''KF_bpf_local_irq_restore'', 34), (''KF_bpf_iter_num_new'', 35),
    (''KF_bpf_iter_num_next'', 36), (''KF_bpf_iter_num_destroy'', 37),
    (''KF_bpf_set_dentry_xattr'', 38), (''KF_bpf_remove_dentry_xattr'', 39),
    (''KF_bpf_res_spin_lock'', 40), (''KF_bpf_res_spin_unlock'', 41),
    (''KF_bpf_res_spin_lock_irqsave'', 42), (''KF_bpf_res_spin_unlock_irqrestore'', 43),
    (''KF___bpf_trap'', 44)]"

definition t_cpumask_var_t :: ctype where
  "t_cpumask_var_t = Array 1 struct_cpumask"

definition struct_netns_ipvs :: ctype where
  "struct_netns_ipvs = Comp Struct False [
    Member ''gen'' c_int,
    Member ''enable'' c_int,
    Member ''rs_table'' (Array 16 struct_hlist_head),
    Member ''app_list'' struct_list_head,
    Member ''proto_data_table'' (Array 32 (Ptr ''struct ip_vs_proto_data *'')),
    Member ''tcp_apps'' (Array 16 struct_list_head),
    Member ''udp_apps'' (Array 16 struct_list_head),
    Member ''conn_count'' t_atomic_t,
    Member ''tot_stats'' (Ptr ''struct ip_vs_stats_rcu *''),
    Member ''num_services'' c_int,
    Member ''num_services6'' c_int,
    Member ''dest_trash'' struct_list_head,
    Member ''dest_trash_lock'' t_spinlock_t,
    Member ''dest_trash_timer'' struct_timer_list,
    Member ''ftpsvc_counter'' t_atomic_t,
    Member ''nullsvc_counter'' t_atomic_t,
    Member ''conn_out_counter'' t_atomic_t,
    Member ''expire_nodest_conn_work'' struct_delayed_work,
    Member ''defense_work'' struct_delayed_work,
    Member ''drop_rate'' c_int,
    Member ''drop_counter'' c_int,
    Member ''old_secure_tcp'' c_int,
    Member ''dropentry'' t_atomic_t,
    Member ''dropentry_lock'' t_spinlock_t,
    Member ''droppacket_lock'' t_spinlock_t,
    Member ''securetcp_lock'' t_spinlock_t,
    Member ''sysctl_hdr'' (Ptr ''struct ctl_table_header *''),
    Member ''sysctl_tbl'' (Ptr ''struct ctl_table *''),
    Member ''sysctl_amemthresh'' c_int,
    Member ''sysctl_am_droprate'' c_int,
    Member ''sysctl_drop_entry'' c_int,
    Member ''sysctl_drop_packet'' c_int,
    Member ''sysctl_secure_tcp'' c_int,
    Member ''sysctl_conntrack'' c_int,
    Member ''sysctl_snat_reroute'' c_int,
    Member ''sysctl_sync_ver'' c_int,
    Member ''sysctl_sync_ports'' c_int,
    Member ''sysctl_sync_persist_mode'' c_int,
    Member ''sysctl_sync_qlen_max'' c_unsigned_long,
    Member ''sysctl_sync_sock_size'' c_int,
    Member ''sysctl_cache_bypass'' c_int,
    Member ''sysctl_expire_nodest_conn'' c_int,
    Member ''sysctl_sloppy_tcp'' c_int,
    Member ''sysctl_sloppy_sctp'' c_int,
    Member ''sysctl_expire_quiescent_template'' c_int,
    Member ''sysctl_sync_threshold'' (Array 2 c_int),
    Member ''sysctl_sync_refresh_period'' c_unsigned_int,
    Member ''sysctl_sync_retries'' c_int,
    Member ''sysctl_nat_icmp_send'' c_int,
    Member ''sysctl_pmtu_disc'' c_int,
    Member ''sysctl_backup_only'' c_int,
    Member ''sysctl_conn_reuse_mode'' c_int,
    Member ''sysctl_schedule_icmp'' c_int,
    Member ''sysctl_ignore_tunneled'' c_int,
    Member ''sysctl_run_estimation'' c_int,
    Member ''sysctl_est_cpulist'' t_cpumask_var_t,
    Member ''est_cpulist_valid'' c_int,
    Member ''sysctl_est_nice'' c_int,
    Member ''est_stopped'' c_int,
    Member ''sysctl_lblc_expiration'' c_int,
    Member ''lblc_ctl_header'' (Ptr ''struct ctl_table_header *''),
    Member ''lblc_ctl_table'' (Ptr ''struct ctl_table *''),
    Member ''sysctl_lblcr_expiration'' c_int,
    Member ''lblcr_ctl_header'' (Ptr ''struct ctl_table_header *''),
    Member ''lblcr_ctl_table'' (Ptr ''struct ctl_table *''),
    Member ''est_reload_work'' struct_delayed_work,
    Member ''est_mutex'' struct_mutex,
    Member ''est_temp_list'' struct_hlist_head,
    Member ''est_kt_arr'' (Ptr ''struct ip_vs_est_kt_data **''),
    Member ''est_max_threads'' c_unsigned_long,
    Member ''est_calc_phase'' c_int,
    Member ''est_chain_max'' c_int,
    Member ''est_kt_count'' c_int,
    Member ''est_add_ktid'' c_int,
    Member ''est_genid'' t_atomic_t,
    Member ''est_genid_done'' t_atomic_t,
    Member ''sync_lock'' t_spinlock_t,
    Member ''ms'' (Ptr ''struct ipvs_master_sync_state *''),
    Member ''sync_buff_lock'' t_spinlock_t,
    Member ''master_tinfo'' (Ptr ''struct ip_vs_sync_thread_data *''),
    Member ''backup_tinfo'' (Ptr ''struct ip_vs_sync_thread_data *''),
    Member ''threads_mask'' c_int,
    Member ''sync_state'' c_int,
    Member ''sync_mutex'' struct_mutex,
    Member ''mcfg'' struct_ipvs_sync_daemon_cfg,
    Member ''bcfg'' struct_ipvs_sync_daemon_cfg,
    Member ''net'' (Ptr ''struct net *''),
    Member ''mixed_address_family_dests'' c_unsigned_int,
    Member ''hooks_afmask'' c_unsigned_int]"

definition enum_xfrm_attr_type_t :: ctype where
  "enum_xfrm_attr_type_t = Enum False [
    (''XFRMA_UNSPEC'', 0), (''XFRMA_ALG_AUTH'', 1), (''XFRMA_ALG_CRYPT'', 2),
    (''XFRMA_ALG_COMP'', 3), (''XFRMA_ENCAP'', 4), (''XFRMA_TMPL'', 5), (''XFRMA_SA'', 6),
    (''XFRMA_POLICY'', 7), (''XFRMA_SEC_CTX'', 8), (''XFRMA_LTIME_VAL'', 9),
    (''XFRMA_REPLAY_VAL'', 10), (''XFRMA_REPLAY_THRESH'', 11), (''XFRMA_ETIMER_THRESH'', 12),
    (''XFRMA_SRCADDR'', 13), (''XFRMA_COADDR'', 14), (''XFRMA_LASTUSED'', 15),
    (''XFRMA_POLICY_TYPE'', 16), (''XFRMA_MIGRATE'', 17), (''XFRMA_ALG_AEAD'', 18),
    (''XFRMA_KMADDRESS'', 19), (''XFRMA_ALG_AUTH_TRUNC'', 20), (''XFRMA_MARK'', 21),
    (''XFRMA_TFCPAD'', 22), (''XFRMA_REPLAY_ESN_VAL'', 23), (''XFRMA_SA_EXTRA_FLAGS'', 24),
    (''XFRMA_PROTO'', 25), (''XFRMA_ADDRESS_FILTER'', 26), (''XFRMA_PAD'', 27),
    (''XFRMA_OFFLOAD_DEV'', 28), (''XFRMA_SET_MARK'', 29), (''XFRMA_SET_MARK_MASK'', 30),
    (''XFRMA_IF_ID'', 31), (''XFRMA_MTIMER_THRESH'', 32), (''XFRMA_SA_DIR'', 33),
    (''XFRMA_NAT_KEEPALIVE_INTERVAL'', 34), (''XFRMA_SA_PCPU'', 35),
    (''XFRMA_IPTFS_DROP_TIME'', 36), (''XFRMA_IPTFS_REORDER_WINDOW'', 37),
    (''XFRMA_IPTFS_DONT_FRAG'', 38), (''XFRMA_IPTFS_INIT_DELAY'', 39),
    (''XFRMA_IPTFS_MAX_QSIZE'', 40), (''XFRMA_IPTFS_PKT_SIZE'', 41), (''__XFRMA_MAX'', 42)]"

definition enum_rtnetlink_groups :: ctype where
  "enum_rtnetlink_groups = Enum False [
    (''RTNLGRP_NONE'', 0), (''RTNLGRP_LINK'', 1), (''RTNLGRP_NOTIFY'', 2), (''RTNLGRP_NEIGH'', 3),
    (''RTNLGRP_TC'', 4), (''RTNLGRP_IPV4_IFADDR'', 5), (''RTNLGRP_IPV4_MROUTE'', 6),
    (''RTNLGRP_IPV4_ROUTE'', 7), (''RTNLGRP_IPV4_RULE'', 8), (''RTNLGRP_IPV6_IFADDR'', 9),
    (''RTNLGRP_IPV6_MROUTE'', 10), (''RTNLGRP_IPV6_ROUTE'', 11), (''RTNLGRP_IPV6_IFINFO'', 12),
    (''RTNLGRP_DECnet_IFADDR'', 13), (''RTNLGRP_NOP2'', 14), (''RTNLGRP_DECnet_ROUTE'', 15),
    (''RTNLGRP_DECnet_RULE'', 16), (''RTNLGRP_NOP4'', 17), (''RTNLGRP_IPV6_PREFIX'', 18),
    (''RTNLGRP_IPV6_RULE'', 19), (''RTNLGRP_ND_USEROPT'', 20), (''RTNLGRP_PHONET_IFADDR'', 21),
    (''RTNLGRP_PHONET_ROUTE'', 22), (''RTNLGRP_DCB'', 23), (''RTNLGRP_IPV4_NETCONF'', 24),
    (''RTNLGRP_IPV6_NETCONF'', 25), (''RTNLGRP_MDB'', 26), (''RTNLGRP_MPLS_ROUTE'', 27),
    (''RTNLGRP_NSID'', 28), (''RTNLGRP_MPLS_NETCONF'', 29), (''RTNLGRP_IPV4_MROUTE_R'', 30),
    (''RTNLGRP_IPV6_MROUTE_R'', 31), (''RTNLGRP_NEXTHOP'', 32), (''RTNLGRP_BRVLAN'', 33),
    (''RTNLGRP_MCTP_IFADDR'', 34), (''RTNLGRP_TUNNEL'', 35), (''RTNLGRP_STATS'', 36),
    (''RTNLGRP_IPV4_MCADDR'', 37), (''RTNLGRP_IPV6_MCADDR'', 38), (''RTNLGRP_IPV6_ACADDR'', 39),
    (''__RTNLGRP_MAX'', 40)]"

definition struct_pmu :: ctype where
  "struct_pmu = Comp Struct False [
    Member ''entry'' struct_list_head,
    Member ''events_lock'' t_spinlock_t,
    Member ''events'' struct_list_head,
    Member ''module'' (Ptr ''struct module *''),
    Member ''dev'' (Ptr ''struct device *''),
    Member ''parent'' (Ptr ''struct device *''),
    Member ''attr_groups'' (Ptr ''struct attribute_group **''),
    Member ''attr_update'' (Ptr ''struct attribute_group **''),
    Member ''name'' (Ptr ''char *''),
    Member ''type'' c_int,
    Member ''capabilities'' c_int,
    Member ''scope'' c_unsigned_int,
    Member ''cpu_pmu_context'' (Ptr ''struct perf_cpu_pmu_context **''),
    Member ''exclusive_cnt'' t_atomic_t,
    Member ''task_ctx_nr'' c_int,
    Member ''hrtimer_interval_ms'' c_int,
    Member ''nr_addr_filters'' c_unsigned_int,
    Member ''pmu_enable'' (Ptr ''void (*)(struct pmu *)''),
    Member ''pmu_disable'' (Ptr ''void (*)(struct pmu *)''),
    Member ''event_init'' (Ptr ''int (*)(struct perf_event *)''),
    Member ''event_mapped'' (Ptr ''void (*)(struct perf_event *, struct mm_struct *)''),
    Member ''event_unmapped'' (Ptr ''void (*)(struct perf_event *, struct mm_struct *)''),
    Member ''add'' (Ptr ''int (*)(struct perf_event *, int)''),
    Member ''del'' (Ptr ''void (*)(struct perf_event *, int)''),
    Member ''start'' (Ptr ''void (*)(struct perf_event *, int)''),
    Member ''stop'' (Ptr ''void (*)(struct perf_event *, int)''),
    Member ''read'' (Ptr ''void (*)(struct perf_event *)''),
    Member ''start_txn'' (Ptr ''void (*)(struct pmu *, unsigned int)''),
    Member ''commit_txn'' (Ptr ''int (*)(struct pmu *)''),
    Member ''cancel_txn'' (Ptr ''void (*)(struct pmu *)''),
    Member ''event_idx'' (Ptr ''int (*)(struct perf_event *)''),
    Member ''sched_task'' (Ptr ''void (*)(struct perf_event_pmu_context *, struct task_struct *, bool)''),
    Member ''task_ctx_cache'' (Ptr ''struct kmem_cache *''),
    Member ''setup_aux'' (Ptr ''void * (*)(struct perf_event *, void **, int, bool)''),
    Member ''free_aux'' (Ptr ''void (*)(void *)''),
    Member ''snapshot_aux'' (Ptr ''long (*)(struct perf_event *, struct perf_output_handle *, unsigned long)''),
    Member ''addr_filters_validate'' (Ptr ''int (*)(struct list_head *)''),
    Member ''addr_filters_sync'' (Ptr ''void (*)(struct perf_event *)''),
    Member ''aux_output_match'' (Ptr ''int (*)(struct perf_event *)''),
    Member ''filter'' (Ptr ''bool (*)(struct pmu *, int)''),
    Member ''check_period'' (Ptr ''int (*)(struct perf_event *, u64)'')]"

definition enum_nf_ct_sysctl_index :: ctype where
  "enum_nf_ct_sysctl_index = Enum False [
    (''NF_SYSCTL_CT_MAX'', 0), (''NF_SYSCTL_CT_COUNT'', 1), (''NF_SYSCTL_CT_BUCKETS'', 2),
    (''NF_SYSCTL_CT_CHECKSUM'', 3), (''NF_SYSCTL_CT_LOG_INVALID'', 4),
    (''NF_SYSCTL_CT_EXPECT_MAX'', 5), (''NF_SYSCTL_CT_ACCT'', 6), (''NF_SYSCTL_CT_EVENTS'', 7),
    (''NF_SYSCTL_CT_PROTO_TIMEOUT_GENERIC'', 8), (''NF_SYSCTL_CT_PROTO_TIMEOUT_TCP_SYN_SENT'', 9),
    (''NF_SYSCTL_CT_PROTO_TIMEOUT_TCP_SYN_RECV'', 10),
    (''NF_SYSCTL_CT_PROTO_TIMEOUT_TCP_ESTABLISHED'', 11),
    (''NF_SYSCTL_CT_PROTO_TIMEOUT_TCP_FIN_WAIT'', 12),
    (''NF_SYSCTL_CT_PROTO_TIMEOUT_TCP_CLOSE_WAIT'', 13),
    (''NF_SYSCTL_CT_PROTO_TIMEOUT_TCP_LAST_ACK'', 14),
    (''NF_SYSCTL_CT_PROTO_TIMEOUT_TCP_TIME_WAIT'', 15),
    (''NF_SYSCTL_CT_PROTO_TIMEOUT_TCP_CLOSE'', 16),
    (''NF_SYSCTL_CT_PROTO_TIMEOUT_TCP_RETRANS'', 17),
    (''NF_SYSCTL_CT_PROTO_TIMEOUT_TCP_UNACK'', 18),
    (''NF_SYSCTL_CT_PROTO_TIMEOUT_TCP_OFFLOAD'', 19), (''NF_SYSCTL_CT_PROTO_TCP_LOOSE'', 20),
    (''NF_SYSCTL_CT_PROTO_TCP_LIBERAL'', 21), (''NF_SYSCTL_CT_PROTO_TCP_IGNORE_INVALID_RST'', 22),
    (''NF_SYSCTL_CT_PROTO_TCP_MAX_RETRANS'', 23), (''NF_SYSCTL_CT_PROTO_TIMEOUT_UDP'', 24),
    (''NF_SYSCTL_CT_PROTO_TIMEOUT_UDP_STREAM'', 25),
    (''NF_SYSCTL_CT_PROTO_TIMEOUT_UDP_OFFLOAD'', 26), (''NF_SYSCTL_CT_PROTO_TIMEOUT_ICMP'', 27),
    (''NF_SYSCTL_CT_PROTO_TIMEOUT_ICMPV6'', 28), (''NF_SYSCTL_CT_PROTO_TIMEOUT_SCTP_CLOSED'', 29),
    (''NF_SYSCTL_CT_PROTO_TIMEOUT_SCTP_COOKIE_WAIT'', 30),
    (''NF_SYSCTL_CT_PROTO_TIMEOUT_SCTP_COOKIE_ECHOED'', 31),
    (''NF_SYSCTL_CT_PROTO_TIMEOUT_SCTP_ESTABLISHED'', 32),
    (''NF_SYSCTL_CT_PROTO_TIMEOUT_SCTP_SHUTDOWN_SENT'', 33),
    (''NF_SYSCTL_CT_PROTO_TIMEOUT_SCTP_SHUTDOWN_RECD'', 34),
    (''NF_SYSCTL_CT_PROTO_TIMEOUT_SCTP_SHUTDOWN_ACK_SENT'', 35),
    (''NF_SYSCTL_CT_PROTO_TIMEOUT_SCTP_HEARTBEAT_SENT'', 36),
    (''NF_SYSCTL_CT_PROTO_TIMEOUT_GRE'', 37), (''NF_SYSCTL_CT_PROTO_TIMEOUT_GRE_STREAM'', 38),
    (''NF_SYSCTL_CT_LAST_SYSCTL'', 39)]"

definition struct_workqueue_struct :: ctype where
  "struct_workqueue_struct = Comp Struct False ([
    Member ''pwqs'' struct_list_head,
    Member ''list'' struct_list_head,
    Member ''mutex'' struct_mutex,
    Member ''work_color'' c_int,
    Member ''flush_color'' c_int,
    Member ''nr_pwqs_to_flush'' t_atomic_t,
    Member ''first_flusher'' (Ptr ''struct wq_flusher *''),
    Member ''flusher_queue'' struct_list_head,
    Member ''flusher_overflow'' struct_list_head,
    Member ''maydays'' struct_list_head,
    Member ''rescuer'' (Ptr ''struct worker *''),
    Member ''nr_drainers'' c_int,
    Member ''max_active'' c_int,
    Member ''min_active'' c_int,
    Member ''saved_max_active'' c_int,
    Member ''saved_min_active'' c_int,
    Member ''unbound_attrs'' (Ptr ''struct workqueue_attrs *''),
    Member ''dfl_pwq'' (Ptr ''struct pool_workqueue *''),
    Member ''wq_dev'' (Ptr ''struct wq_device *''),
    Member ''name'' (Array 32 c_char),
    Member ''rcu'' struct_callback_head,
    BitField '''' c_long 64,
    BitField '''' c_long 64,
    Member ''flags'' c_unsigned_int,
    Member ''cpu_pwq'' (Ptr ''struct pool_workqueue **''),
    Member ''node_nr_active'' (Array 0 (Ptr ''struct wq_node_nr_active *''))] @ replicate 14 (BitField '''' c_long 64))"

definition enum_pageflags :: ctype where
  "enum_pageflags = Enum False [
    (''PG_locked'', 0), (''PG_writeback'', 1), (''PG_referenced'', 2), (''PG_uptodate'', 3),
    (''PG_dirty'', 4), (''PG_lru'', 5), (''PG_head'', 6), (''PG_waiters'', 7), (''PG_active'', 8),
    (''PG_workingset'', 9), (''PG_owner_priv_1'', 10), (''PG_owner_2'', 11), (''PG_arch_1'', 12),
    (''PG_reserved'', 13), (''PG_private'', 14), (''PG_private_2'', 15), (''PG_reclaim'', 16),
    (''PG_swapbacked'', 17), (''PG_unevictable'', 18), (''PG_dropbehind'', 19),
    (''PG_mlocked'', 20), (''__NR_PAGEFLAGS'', 21), (''PG_readahead'', 16),
    (''PG_swapcache'', 10), (''PG_checked'', 10), (''PG_anon_exclusive'', 11),
    (''PG_mappedtodisk'', 11), (''PG_fscache'', 15), (''PG_pinned'', 10), (''PG_savepinned'', 4),
    (''PG_foreign'', 10), (''PG_xen_remapped'', 10), (''PG_movable_ops_isolated'', 16),
    (''PG_movable_ops'', 3), (''PG_reported'', 3), (''PG_has_hwpoisoned'', 8),
    (''PG_large_rmappable'', 9), (''PG_partially_mapped'', 16)]"

definition struct_vsock_transport :: ctype where
  "struct_vsock_transport = Comp Struct False [
    Member ''module'' (Ptr ''struct module *''),
    Member ''init'' (Ptr ''int (*)(struct vsock_sock *, struct vsock_sock *)''),
    Member ''destruct'' (Ptr ''void (*)(struct vsock_sock *)''),
    Member ''release'' (Ptr ''void (*)(struct vsock_sock *)''),
    Member ''cancel_pkt'' (Ptr ''int (*)(struct vsock_sock *)''),
    Member ''connect'' (Ptr ''int (*)(struct vsock_sock *)''),
    Member ''dgram_bind'' (Ptr ''int (*)(struct vsock_sock *, struct sockaddr_vm *)''),
    Member ''dgram_dequeue'' (Ptr ''int (*)(struct vsock_sock *, struct msghdr *, size_t, int)''),
    Member ''dgram_enqueue'' (Ptr ''int (*)(struct vsock_sock *, struct sockaddr_vm *, struct msghdr *, size_t)''),
    Member ''dgram_allow'' (Ptr ''bool (*)(u32, u32)''),
    Member ''stream_dequeue'' (Ptr ''ssize_t (*)(struct vsock_sock *, struct msghdr *, size_t, int)''),
    Member ''stream_enqueue'' (Ptr ''ssize_t (*)(struct vsock_sock *, struct msghdr *, size_t)''),
    Member ''stream_has_data'' (Ptr ''s64 (*)(struct vsock_sock *)''),
    Member ''stream_has_space'' (Ptr ''s64 (*)(struct vsock_sock *)''),
    Member ''stream_rcvhiwat'' (Ptr ''u64 (*)(struct vsock_sock *)''),
    Member ''stream_is_active'' (Ptr ''bool (*)(struct vsock_sock *)''),
    Member ''stream_allow'' (Ptr ''bool (*)(u32, u32)''),
    Member ''seqpacket_dequeue'' (Ptr ''ssize_t (*)(struct vsock_sock *, struct msghdr *, int)''),
    Member ''seqpacket_enqueue'' (Ptr ''int (*)(struct vsock_sock *, struct msghdr *, size_t)''),
    Member ''seqpacket_allow'' (Ptr ''bool (*)(u32)''),
    Member ''seqpacket_has_data'' (Ptr ''u32 (*)(struct vsock_sock *)''),
    Member ''notify_poll_in'' (Ptr ''int (*)(struct vsock_sock *, size_t, bool *)''),
    Member ''notify_poll_out'' (Ptr ''int (*)(struct vsock_sock *, size_t, bool *)''),
    Member ''notify_recv_init'' (Ptr ''int (*)(struct vsock_sock *, size_t, struct vsock_transport_recv_notify_data *)''),
    Member ''notify_recv_pre_block'' (Ptr ''int (*)(struct vsock_sock *, size_t, struct vsock_transport_recv_notify_data *)''),
    Member ''notify_recv_pre_dequeue'' (Ptr ''int (*)(struct vsock_sock *, size_t, struct vsock_transport_recv_notify_data *)''),
    Member ''notify_recv_post_dequeue'' (Ptr ''int (*)(struct vsock_sock *, size_t, ssize_t, bool, struct vsock_transport_recv_notify_data *)''),
    Member ''notify_send_init'' (Ptr ''int (*)(struct vsock_sock *, struct vsock_transport_send_notify_data *)''),
    Member ''notify_send_pre_block'' (Ptr ''int (*)(struct vsock_sock *, struct vsock_transport_send_notify_data *)''),
    Member ''notify_send_pre_enqueue'' (Ptr ''int (*)(struct vsock_sock *, struct vsock_transport_send_notify_data *)''),
    Member ''notify_send_post_enqueue'' (Ptr ''int (*)(struct vsock_sock *, ssize_t, struct vsock_transport_send_notify_data *)''),
    Member ''notify_buffer_size'' (Ptr ''void (*)(struct vsock_sock *, u64 *)''),
    Member ''notify_set_rcvlowat'' (Ptr ''int (*)(struct vsock_sock *, int)''),
    Member ''unsent_bytes'' (Ptr ''ssize_t (*)(struct vsock_sock *)''),
    Member ''shutdown'' (Ptr ''int (*)(struct vsock_sock *, int)''),
    Member ''get_local_cid'' (Ptr ''u32 (*)(void)''),
    Member ''read_skb'' (Ptr ''int (*)(struct vsock_sock *, skb_read_actor_t)''),
    Member ''msgzerocopy_allow'' (Ptr ''bool (*)(void)'')]"

definition enum_io_uring_register_op :: ctype where
  "enum_io_uring_register_op = Enum False [
    (''IORING_REGISTER_BUFFERS'', 0), (''IORING_UNREGISTER_BUFFERS'', 1),
    (''IORING_REGISTER_FILES'', 2), (''IORING_UNREGISTER_FILES'', 3),
    (''IORING_REGISTER_EVENTFD'', 4), (''IORING_UNREGISTER_EVENTFD'', 5),
    (''IORING_REGISTER_FILES_UPDATE'', 6), (''IORING_REGISTER_EVENTFD_ASYNC'', 7),
    (''IORING_REGISTER_PROBE'', 8), (''IORING_REGISTER_PERSONALITY'', 9),
    (''IORING_UNREGISTER_PERSONALITY'', 10), (''IORING_REGISTER_RESTRICTIONS'', 11),
    (''IORING_REGISTER_ENABLE_RINGS'', 12), (''IORING_REGISTER_FILES2'', 13),
    (''IORING_REGISTER_FILES_UPDATE2'', 14), (''IORING_REGISTER_BUFFERS2'', 15),
    (''IORING_REGISTER_BUFFERS_UPDATE'', 16), (''IORING_REGISTER_IOWQ_AFF'', 17),
    (''IORING_UNREGISTER_IOWQ_AFF'', 18), (''IORING_REGISTER_IOWQ_MAX_WORKERS'', 19),
    (''IORING_REGISTER_RING_FDS'', 20), (''IORING_UNREGISTER_RING_FDS'', 21),
    (''IORING_REGISTER_PBUF_RING'', 22), (''IORING_UNREGISTER_PBUF_RING'', 23),
    (''IORING_REGISTER_SYNC_CANCEL'', 24), (''IORING_REGISTER_FILE_ALLOC_RANGE'', 25),
    (''IORING_REGISTER_PBUF_STATUS'', 26), (''IORING_REGISTER_NAPI'', 27),
    (''IORING_UNREGISTER_NAPI'', 28), (''IORING_REGISTER_CLOCK'', 29),
    (''IORING_REGISTER_CLONE_BUFFERS'', 30), (''IORING_REGISTER_SEND_MSG_RING'', 31),
    (''IORING_REGISTER_ZCRX_IFQ'', 32), (''IORING_REGISTER_RESIZE_RINGS'', 33),
    (''IORING_REGISTER_MEM_REGION'', 34), (''IORING_REGISTER_LAST'', 35),
    (''IORING_REGISTER_USE_REGISTERED_RING'', 2147483648)]"

definition enum_nft_meta_keys :: ctype where
  "enum_nft_meta_keys = Enum False [
    (''NFT_META_LEN'', 0), (''NFT_META_PROTOCOL'', 1), (''NFT_META_PRIORITY'', 2),
    (''NFT_META_MARK'', 3), (''NFT_META_IIF'', 4), (''NFT_META_OIF'', 5),
    (''NFT_META_IIFNAME'', 6), (''NFT_META_OIFNAME'', 7), (''NFT_META_IFTYPE'', 8),
    (''NFT_META_OIFTYPE'', 9), (''NFT_META_SKUID'', 10), (''NFT_META_SKGID'', 11),
    (''NFT_META_NFTRACE'', 12), (''NFT_META_RTCLASSID'', 13), (''NFT_META_SECMARK'', 14),
    (''NFT_META_NFPROTO'', 15), (''NFT_META_L4PROTO'', 16), (''NFT_META_BRI_IIFNAME'', 17),
    (''NFT_META_BRI_OIFNAME'', 18), (''NFT_META_PKTTYPE'', 19), (''NFT_META_CPU'', 20),
    (''NFT_META_IIFGROUP'', 21), (''NFT_META_OIFGROUP'', 22), (''NFT_META_CGROUP'', 23),
    (''NFT_META_PRANDOM'', 24), (''NFT_META_SECPATH'', 25), (''NFT_META_IIFKIND'', 26),
    (''NFT_META_OIFKIND'', 27), (''NFT_META_BRI_IIFPVID'', 28), (''NFT_META_BRI_IIFVPROTO'', 29),
    (''NFT_META_TIME_NS'', 30), (''NFT_META_TIME_DAY'', 31), (''NFT_META_TIME_HOUR'', 32),
    (''NFT_META_SDIF'', 33), (''NFT_META_SDIFNAME'', 34), (''NFT_META_BRI_BROUTE'', 35),
    (''__NFT_META_IIFTYPE'', 36)]"

definition struct_perf_event_mmap_page :: ctype where
  "struct_perf_event_mmap_page = Comp Struct False [
    Member ''version'' t___u32,
    Member ''compat_version'' t___u32,
    Member ''lock'' t___u32,
    Member ''index'' t___u32,
    Member ''offset'' t___s64,
    Member ''time_enabled'' t___u64,
    Member ''time_running'' t___u64,
    Member '''' (Comp Union False [
      Member ''capabilities'' t___u64,
      Member '''' (Comp Struct False [
        BitField ''cap_bit0'' t___u64 1,
        BitField ''cap_bit0_is_deprecated'' t___u64 1,
        BitField ''cap_user_rdpmc'' t___u64 1,
        BitField ''cap_user_time'' t___u64 1,
        BitField ''cap_user_time_zero'' t___u64 1,
        BitField ''cap_user_time_short'' t___u64 1,
        BitField ''cap_____res'' t___u64 58])]),
    Member ''pmc_width'' t___u16,
    Member ''time_shift'' t___u16,
    Member ''time_mult'' t___u32,
    Member ''time_offset'' t___u64,
    Member ''time_zero'' t___u64,
    Member ''size'' t___u32,
    Member ''__reserved_1'' t___u32,
    Member ''time_cycles'' t___u64,
    Member ''time_mask'' t___u64,
    Member ''__reserved'' (Array 928 t___u8),
    Member ''data_head'' t___u64,
    Member ''data_tail'' t___u64,
    Member ''data_offset'' t___u64,
    Member ''data_size'' t___u64,
    Member ''aux_head'' t___u64,
    Member ''aux_tail'' t___u64,
    Member ''aux_offset'' t___u64,
    Member ''aux_size'' t___u64]"

definition enum_perf_event_arm_regs :: ctype where
  "enum_perf_event_arm_regs = Enum False [
    (''PERF_REG_ARM64_X0'', 0), (''PERF_REG_ARM64_X1'', 1), (''PERF_REG_ARM64_X2'', 2),
    (''PERF_REG_ARM64_X3'', 3), (''PERF_REG_ARM64_X4'', 4), (''PERF_REG_ARM64_X5'', 5),
    (''PERF_REG_ARM64_X6'', 6), (''PERF_REG_ARM64_X7'', 7), (''PERF_REG_ARM64_X8'', 8),
    (''PERF_REG_ARM64_X9'', 9), (''PERF_REG_ARM64_X10'', 10), (''PERF_REG_ARM64_X11'', 11),
    (''PERF_REG_ARM64_X12'', 12), (''PERF_REG_ARM64_X13'', 13), (''PERF_REG_ARM64_X14'', 14),
    (''PERF_REG_ARM64_X15'', 15), (''PERF_REG_ARM64_X16'', 16), (''PERF_REG_ARM64_X17'', 17),
    (''PERF_REG_ARM64_X18'', 18), (''PERF_REG_ARM64_X19'', 19), (''PERF_REG_ARM64_X20'', 20),
    (''PERF_REG_ARM64_X21'', 21), (''PERF_REG_ARM64_X22'', 22), (''PERF_REG_ARM64_X23'', 23),
    (''PERF_REG_ARM64_X24'', 24), (''PERF_REG_ARM64_X25'', 25), (''PERF_REG_ARM64_X26'', 26),
    (''PERF_REG_ARM64_X27'', 27), (''PERF_REG_ARM64_X28'', 28), (''PERF_REG_ARM64_X29'', 29),
    (''PERF_REG_ARM64_LR'', 30), (''PERF_REG_ARM64_SP'', 31), (''PERF_REG_ARM64_PC'', 32),
    (''PERF_REG_ARM64_MAX'', 33), (''PERF_REG_ARM64_VG'', 46),
    (''PERF_REG_ARM64_EXTENDED_MAX'', 47)]"

definition struct_free_area :: ctype where
  "struct_free_area = Comp Struct False [
    Member ''free_list'' (Array 4 struct_list_head),
    Member ''nr_free'' c_unsigned_long]"

definition struct_zone :: ctype where
  "struct_zone = Comp Struct False ([
    Member ''_watermark'' (Array 4 c_unsigned_long),
    Member ''watermark_boost'' c_unsigned_long,
    Member ''nr_reserved_highatomic'' c_unsigned_long,
    Member ''nr_free_highatomic'' c_unsigned_long,
    Member ''lowmem_reserve'' (Array 4 c_long),
    Member ''zone_pgdat'' (Ptr ''struct pglist_data *''),
    Member ''per_cpu_pageset'' (Ptr ''struct per_cpu_pages *''),
    Member ''per_cpu_zonestats'' (Ptr ''struct per_cpu_zonestat *''),
    Member ''pageset_high_min'' c_int,
    Member ''pageset_high_max'' c_int,
    Member ''pageset_batch'' c_int,
    Member ''zone_start_pfn'' c_unsigned_long,
    Member ''managed_pages'' t_atomic_long_t,
    Member ''spanned_pages'' c_unsigned_long,
    Member ''present_pages'' c_unsigned_long,
    Member ''name'' (Ptr ''char *''),
    Member ''initialized'' c_int] @ replicate 10 (BitField '''' c_long 64) @ [
    Member ''_pad1_'' struct_cacheline_padding,
    Member ''free_area'' (Array 11 struct_free_area),
    Member ''flags'' c_unsigned_long,
    Member ''lock'' t_spinlock_t,
    Member ''trylock_free_pages'' struct_llist_head] @ replicate 10 (BitField '''' c_long 64) @ [
    Member ''_pad2_'' struct_cacheline_padding,
    Member ''percpu_drift_mark'' c_unsigned_long,
    Member ''compact_cached_free_pfn'' c_unsigned_long,
    Member ''compact_cached_migrate_pfn'' (Array 2 c_unsigned_long),
    Member ''compact_init_migrate_pfn'' c_unsigned_long,
    Member ''compact_init_free_pfn'' c_unsigned_long,
    Member ''compact_considered'' c_unsigned_int,
    Member ''compact_defer_shift'' c_unsigned_int,
    Member ''compact_order_failed'' c_int,
    Member ''compact_blockskip_flush'' t_bool,
    Member ''contiguous'' t_bool] @ replicate 8 (BitField '''' c_long 64) @ [
    Member ''_pad3_'' struct_cacheline_padding,
    Member ''vm_stat'' (Array 11 t_atomic_long_t),
    Member ''vm_numa_event'' (Array 0 t_atomic_long_t),
    BitField '''' c_long 64,
    BitField '''' c_long 64,
    BitField '''' c_long 64,
    BitField '''' c_long 64,
    BitField '''' c_long 64])"

definition enum_nf_tables_msg_types :: ctype where
  "enum_nf_tables_msg_types = Enum False [
    (''NFT_MSG_NEWTABLE'', 0), (''NFT_MSG_GETTABLE'', 1), (''NFT_MSG_DELTABLE'', 2),
    (''NFT_MSG_NEWCHAIN'', 3), (''NFT_MSG_GETCHAIN'', 4), (''NFT_MSG_DELCHAIN'', 5),
    (''NFT_MSG_NEWRULE'', 6), (''NFT_MSG_GETRULE'', 7), (''NFT_MSG_DELRULE'', 8),
    (''NFT_MSG_NEWSET'', 9), (''NFT_MSG_GETSET'', 10), (''NFT_MSG_DELSET'', 11),
    (''NFT_MSG_NEWSETELEM'', 12), (''NFT_MSG_GETSETELEM'', 13), (''NFT_MSG_DELSETELEM'', 14),
    (''NFT_MSG_NEWGEN'', 15), (''NFT_MSG_GETGEN'', 16), (''NFT_MSG_TRACE'', 17),
    (''NFT_MSG_NEWOBJ'', 18), (''NFT_MSG_GETOBJ'', 19), (''NFT_MSG_DELOBJ'', 20),
    (''NFT_MSG_GETOBJ_RESET'', 21), (''NFT_MSG_NEWFLOWTABLE'', 22),
    (''NFT_MSG_GETFLOWTABLE'', 23), (''NFT_MSG_DELFLOWTABLE'', 24),
    (''NFT_MSG_GETRULE_RESET'', 25), (''NFT_MSG_DESTROYTABLE'', 26),
    (''NFT_MSG_DESTROYCHAIN'', 27), (''NFT_MSG_DESTROYRULE'', 28), (''NFT_MSG_DESTROYSET'', 29),
    (''NFT_MSG_DESTROYSETELEM'', 30), (''NFT_MSG_DESTROYOBJ'', 31),
    (''NFT_MSG_DESTROYFLOWTABLE'', 32), (''NFT_MSG_GETSETELEM_RESET'', 33), (''NFT_MSG_MAX'', 34)]"

definition struct_perf_buffer :: ctype where
  "struct_perf_buffer = Comp Struct False [
    Member ''refcount'' t_refcount_t,
    Member ''callback_head'' struct_callback_head,
    Member ''nr_pages'' c_int,
    Member ''overwrite'' c_int,
    Member ''paused'' c_int,
    Member ''poll'' t_atomic_t,
    Member ''head'' t_local_t,
    Member ''nest'' c_unsigned_int,
    Member ''events'' t_local_t,
    Member ''wakeup'' t_local_t,
    Member ''lost'' t_local_t,
    Member ''watermark'' c_long,
    Member ''aux_watermark'' c_long,
    Member ''event_lock'' t_spinlock_t,
    Member ''event_list'' struct_list_head,
    Member ''mmap_count'' t_atomic_t,
    Member ''mmap_locked'' c_unsigned_long,
    Member ''mmap_user'' (Ptr ''struct user_struct *''),
    Member ''aux_mutex'' struct_mutex,
    Member ''aux_head'' c_long,
    Member ''aux_nest'' c_unsigned_int,
    Member ''aux_wakeup'' c_long,
    Member ''aux_pgoff'' c_unsigned_long,
    Member ''aux_nr_pages'' c_int,
    Member ''aux_overwrite'' c_int,
    Member ''aux_mmap_count'' t_atomic_t,
    Member ''aux_mmap_locked'' c_unsigned_long,
    Member ''free_aux'' (Ptr ''void (*)(void *)''),
    Member ''aux_refcount'' t_refcount_t,
    Member ''aux_in_sampling'' c_int,
    Member ''aux_in_pause_resume'' c_int,
    Member ''aux_pages'' (Ptr ''void **''),
    Member ''aux_priv'' (Ptr ''void *''),
    Member ''user_page'' (Ptr ''struct perf_event_mmap_page *''),
    Member ''data_pages'' (Array 0 (Ptr ''void *''))]"

definition struct_task_delay_info :: ctype where
  "struct_task_delay_info = Comp Struct False [
    Member ''lock'' t_raw_spinlock_t,
    Member ''blkio_start'' t_u64,
    Member ''blkio_delay_max'' t_u64,
    Member ''blkio_delay_min'' t_u64,
    Member ''blkio_delay'' t_u64,
    Member ''swapin_start'' t_u64,
    Member ''swapin_delay_max'' t_u64,
    Member ''swapin_delay_min'' t_u64,
    Member ''swapin_delay'' t_u64,
    Member ''blkio_count'' t_u32,
    Member ''swapin_count'' t_u32,
    Member ''freepages_start'' t_u64,
    Member ''freepages_delay_max'' t_u64,
    Member ''freepages_delay_min'' t_u64,
    Member ''freepages_delay'' t_u64,
    Member ''thrashing_start'' t_u64,
    Member ''thrashing_delay_max'' t_u64,
    Member ''thrashing_delay_min'' t_u64,
    Member ''thrashing_delay'' t_u64,
    Member ''compact_start'' t_u64,
    Member ''compact_delay_max'' t_u64,
    Member ''compact_delay_min'' t_u64,
    Member ''compact_delay'' t_u64,
    Member ''wpcopy_start'' t_u64,
    Member ''wpcopy_delay_max'' t_u64,
    Member ''wpcopy_delay_min'' t_u64,
    Member ''wpcopy_delay'' t_u64,
    Member ''irq_delay_max'' t_u64,
    Member ''irq_delay_min'' t_u64,
    Member ''irq_delay'' t_u64,
    Member ''freepages_count'' t_u32,
    Member ''thrashing_count'' t_u32,
    Member ''compact_count'' t_u32,
    Member ''wpcopy_count'' t_u32,
    Member ''irq_count'' t_u32]"

definition enum_ovs_key_attr :: ctype where
  "enum_ovs_key_attr = Enum False [
    (''OVS_KEY_ATTR_UNSPEC'', 0), (''OVS_KEY_ATTR_ENCAP'', 1), (''OVS_KEY_ATTR_PRIORITY'', 2),
    (''OVS_KEY_ATTR_IN_PORT'', 3), (''OVS_KEY_ATTR_ETHERNET'', 4), (''OVS_KEY_ATTR_VLAN'', 5),
    (''OVS_KEY_ATTR_ETHERTYPE'', 6), (''OVS_KEY_ATTR_IPV4'', 7), (''OVS_KEY_ATTR_IPV6'', 8),
    (''OVS_KEY_ATTR_TCP'', 9), (''OVS_KEY_ATTR_UDP'', 10), (''OVS_KEY_ATTR_ICMP'', 11),
    (''OVS_KEY_ATTR_ICMPV6'', 12), (''OVS_KEY_ATTR_ARP'', 13), (''OVS_KEY_ATTR_ND'', 14),
    (''OVS_KEY_ATTR_SKB_MARK'', 15), (''OVS_KEY_ATTR_TUNNEL'', 16), (''OVS_KEY_ATTR_SCTP'', 17),
    (''OVS_KEY_ATTR_TCP_FLAGS'', 18), (''OVS_KEY_ATTR_DP_HASH'', 19),
    (''OVS_KEY_ATTR_RECIRC_ID'', 20), (''OVS_KEY_ATTR_MPLS'', 21),
    (''OVS_KEY_ATTR_CT_STATE'', 22), (''OVS_KEY_ATTR_CT_ZONE'', 23),
    (''OVS_KEY_ATTR_CT_MARK'', 24), (''OVS_KEY_ATTR_CT_LABELS'', 25),
    (''OVS_KEY_ATTR_CT_ORIG_TUPLE_IPV4'', 26), (''OVS_KEY_ATTR_CT_ORIG_TUPLE_IPV6'', 27),
    (''OVS_KEY_ATTR_NSH'', 28), (''OVS_KEY_ATTR_PACKET_TYPE'', 29),
    (''OVS_KEY_ATTR_ND_EXTENSIONS'', 30), (''OVS_KEY_ATTR_TUNNEL_INFO'', 31),
    (''OVS_KEY_ATTR_IPV6_EXTHDRS'', 32), (''__OVS_KEY_ATTR_MAX'', 33)]"

definition struct_cgroup_subsys :: ctype where
  "struct_cgroup_subsys = Comp Struct False [
    Member ''css_alloc'' (Ptr ''struct cgroup_subsys_state * (*)(struct cgroup_subsys_state *)''),
    Member ''css_online'' (Ptr ''int (*)(struct cgroup_subsys_state *)''),
    Member ''css_offline'' (Ptr ''void (*)(struct cgroup_subsys_state *)''),
    Member ''css_released'' (Ptr ''void (*)(struct cgroup_subsys_state *)''),
    Member ''css_free'' (Ptr ''void (*)(struct cgroup_subsys_state *)''),
    Member ''css_reset'' (Ptr ''void (*)(struct cgroup_subsys_state *)''),
    Member ''css_killed'' (Ptr ''void (*)(struct cgroup_subsys_state *)''),
    Member ''css_rstat_flush'' (Ptr ''void (*)(struct cgroup_subsys_state *, int)''),
    Member ''css_extra_stat_show'' (Ptr ''int (*)(struct seq_file *, struct cgroup_subsys_state *)''),
    Member ''css_local_stat_show'' (Ptr ''int (*)(struct seq_file *, struct cgroup_subsys_state *)''),
    Member ''can_attach'' (Ptr ''int (*)(struct cgroup_taskset *)''),
    Member ''cancel_attach'' (Ptr ''void (*)(struct cgroup_taskset *)''),
    Member ''attach'' (Ptr ''void (*)(struct cgroup_taskset *)''),
    Member ''post_attach'' (Ptr ''void (*)(void)''),
    Member ''can_fork'' (Ptr ''int (*)(struct task_struct *, struct css_set *)''),
    Member ''cancel_fork'' (Ptr ''void (*)(struct task_struct *, struct css_set *)''),
    Member ''fork'' (Ptr ''void (*)(struct task_struct *)''),
    Member ''exit'' (Ptr ''void (*)(struct task_struct *)''),
    Member ''release'' (Ptr ''void (*)(struct task_struct *)''),
    Member ''bind'' (Ptr ''void (*)(struct cgroup_subsys_state *)''),
    BitField ''early_init'' t_bool 1,
    BitField ''implicit_on_dfl'' t_bool 1,
    BitField ''threaded'' t_bool 1,
    Member ''id'' c_int,
    Member ''name'' (Ptr ''char *''),
    Member ''legacy_name'' (Ptr ''char *''),
    Member ''root'' (Ptr ''struct cgroup_root *''),
    Member ''css_idr'' struct_idr,
    Member ''cfts'' struct_list_head,
    Member ''dfl_cftypes'' (Ptr ''struct cftype *''),
    Member ''legacy_cftypes'' (Ptr ''struct cftype *''),
    Member ''depends_on'' c_unsigned_int,
    Member ''rstat_ss_lock'' t_spinlock_t,
    Member ''lhead'' (Ptr ''struct llist_head *'')]"

definition struct_irq_chip :: ctype where
  "struct_irq_chip = Comp Struct False [
    Member ''name'' (Ptr ''char *''),
    Member ''irq_startup'' (Ptr ''unsigned int (*)(struct irq_data *)''),
    Member ''irq_shutdown'' (Ptr ''void (*)(struct irq_data *)''),
    Member ''irq_enable'' (Ptr ''void (*)(struct irq_data *)''),
    Member ''irq_disable'' (Ptr ''void (*)(struct irq_data *)''),
    Member ''irq_ack'' (Ptr ''void (*)(struct irq_data *)''),
    Member ''irq_mask'' (Ptr ''void (*)(struct irq_data *)''),
    Member ''irq_mask_ack'' (Ptr ''void (*)(struct irq_data *)''),
    Member ''irq_unmask'' (Ptr ''void (*)(struct irq_data *)''),
    Member ''irq_eoi'' (Ptr ''void (*)(struct irq_data *)''),
    Member ''irq_set_affinity'' (Ptr ''int (*)(struct irq_data *, const struct cpumask *, bool)''),
    Member ''irq_retrigger'' (Ptr ''int (*)(struct irq_data *)''),
    Member ''irq_set_type'' (Ptr ''int (*)(struct irq_data *, unsigned int)''),
    Member ''irq_set_wake'' (Ptr ''int (*)(struct irq_data *, unsigned int)''),
    Member ''irq_bus_lock'' (Ptr ''void (*)(struct irq_data *)''),
    Member ''irq_bus_sync_unlock'' (Ptr ''void (*)(struct irq_data *)''),
    Member ''irq_suspend'' (Ptr ''void (*)(struct irq_data *)''),
    Member ''irq_resume'' (Ptr ''void (*)(struct irq_data *)''),
    Member ''irq_pm_shutdown'' (Ptr ''void (*)(struct irq_data *)''),
    Member ''irq_calc_mask'' (Ptr ''void (*)(struct irq_data *)''),
    Member ''irq_print_chip'' (Ptr ''void (*)(struct irq_data *, struct seq_file *)''),
    Member ''irq_request_resources'' (Ptr ''int (*)(struct irq_data *)''),
    Member ''irq_release_resources'' (Ptr ''void (*)(struct irq_data *)''),
    Member ''irq_compose_msi_msg'' (Ptr ''void (*)(struct irq_data *, struct msi_msg *)''),
    Member ''irq_write_msi_msg'' (Ptr ''void (*)(struct irq_data *, struct msi_msg *)''),
    Member ''irq_get_irqchip_state'' (Ptr ''int (*)(struct irq_data *, enum irqchip_irq_state, bool *)''),
    Member ''irq_set_irqchip_state'' (Ptr ''int (*)(struct irq_data *, enum irqchip_irq_state, bool)''),
    Member ''irq_set_vcpu_affinity'' (Ptr ''int (*)(struct irq_data *, void *)''),
    Member ''ipi_send_single'' (Ptr ''void (*)(struct irq_data *, unsigned int)''),
    Member ''ipi_send_mask'' (Ptr ''void (*)(struct irq_data *, const struct cpumask *)''),
    Member ''irq_nmi_setup'' (Ptr ''int (*)(struct irq_data *)''),
    Member ''irq_nmi_teardown'' (Ptr ''void (*)(struct irq_data *)''),
    Member ''irq_force_complete_move'' (Ptr ''void (*)(struct irq_data *)''),
    Member ''flags'' c_unsigned_long]"

definition enum_cgroup_bpf_attach_type :: ctype where
  "enum_cgroup_bpf_attach_type = Enum False [
    (''CGROUP_BPF_ATTACH_TYPE_INVALID'', - 1), (''CGROUP_INET_INGRESS'', 0),
    (''CGROUP_INET_EGRESS'', 1), (''CGROUP_INET_SOCK_CREATE'', 2), (''CGROUP_SOCK_OPS'', 3),
    (''CGROUP_DEVICE'', 4), (''CGROUP_INET4_BIND'', 5), (''CGROUP_INET6_BIND'', 6),
    (''CGROUP_INET4_CONNECT'', 7), (''CGROUP_INET6_CONNECT'', 8), (''CGROUP_UNIX_CONNECT'', 9),
    (''CGROUP_INET4_POST_BIND'', 10), (''CGROUP_INET6_POST_BIND'', 11),
    (''CGROUP_UDP4_SENDMSG'', 12), (''CGROUP_UDP6_SENDMSG'', 13), (''CGROUP_UNIX_SENDMSG'', 14),
    (''CGROUP_SYSCTL'', 15), (''CGROUP_UDP4_RECVMSG'', 16), (''CGROUP_UDP6_RECVMSG'', 17),
    (''CGROUP_UNIX_RECVMSG'', 18), (''CGROUP_GETSOCKOPT'', 19), (''CGROUP_SETSOCKOPT'', 20),
    (''CGROUP_INET4_GETPEERNAME'', 21), (''CGROUP_INET6_GETPEERNAME'', 22),
    (''CGROUP_UNIX_GETPEERNAME'', 23), (''CGROUP_INET4_GETSOCKNAME'', 24),
    (''CGROUP_INET6_GETSOCKNAME'', 25), (''CGROUP_UNIX_GETSOCKNAME'', 26),
    (''CGROUP_INET_SOCK_RELEASE'', 27), (''CGROUP_LSM_START'', 28), (''CGROUP_LSM_END'', 37),
    (''MAX_CGROUP_BPF_ATTACH_TYPE'', 38)]"

definition enum_dentry_flags :: ctype where
  "enum_dentry_flags = Enum False [
    (''DCACHE_OP_HASH'', 1), (''DCACHE_OP_COMPARE'', 2), (''DCACHE_OP_REVALIDATE'', 4),
    (''DCACHE_OP_DELETE'', 8), (''DCACHE_OP_PRUNE'', 16), (''DCACHE_DISCONNECTED'', 32),
    (''DCACHE_REFERENCED'', 64), (''DCACHE_DONTCACHE'', 128), (''DCACHE_CANT_MOUNT'', 256),
    (''DCACHE_GENOCIDE'', 512), (''DCACHE_SHRINK_LIST'', 1024),
    (''DCACHE_OP_WEAK_REVALIDATE'', 2048), (''DCACHE_NFSFS_RENAMED'', 4096),
    (''DCACHE_FSNOTIFY_PARENT_WATCHED'', 8192), (''DCACHE_DENTRY_KILLED'', 16384),
    (''DCACHE_MOUNTED'', 32768), (''DCACHE_NEED_AUTOMOUNT'', 65536),
    (''DCACHE_MANAGE_TRANSIT'', 131072), (''DCACHE_LRU_LIST'', 262144),
    (''DCACHE_ENTRY_TYPE'', 3670016), (''DCACHE_MISS_TYPE'', 0),
    (''DCACHE_WHITEOUT_TYPE'', 524288), (''DCACHE_DIRECTORY_TYPE'', 1048576),
    (''DCACHE_AUTODIR_TYPE'', 1572864), (''DCACHE_REGULAR_TYPE'', 2097152),
    (''DCACHE_SPECIAL_TYPE'', 2621440), (''DCACHE_SYMLINK_TYPE'', 3145728),
    (''DCACHE_NOKEY_NAME'', 4194304), (''DCACHE_OP_REAL'', 8388608),
    (''DCACHE_PAR_LOOKUP'', 16777216), (''DCACHE_DENTRY_CURSOR'', 33554432),
    (''DCACHE_NORCU'', 67108864)]"

definition struct_sbitmap :: ctype where
  "struct_sbitmap = Comp Struct False [
    Member ''depth'' c_unsigned_int,
    Member ''shift'' c_unsigned_int,
    Member ''map_nr'' c_unsigned_int,
    Member ''round_robin'' t_bool,
    Member ''map'' (Ptr ''struct sbitmap_word *''),
    Member ''alloc_hint'' (Ptr ''unsigned int *'')]"

definition struct_blk_mq_hw_ctx :: ctype where
  "struct_blk_mq_hw_ctx = Comp Struct False ([
    Member '''' (Comp Struct False ([
      Member ''lock'' t_spinlock_t,
      Member ''dispatch'' struct_list_head,
      Member ''state'' c_unsigned_long] @ replicate 12 (BitField '''' c_long 64))),
    Member ''run_work'' struct_delayed_work,
    Member ''cpumask'' t_cpumask_var_t,
    Member ''next_cpu'' c_int,
    Member ''next_cpu_batch'' c_int,
    Member ''flags'' c_unsigned_long,
    Member ''sched_data'' (Ptr ''void *''),
    Member ''queue'' (Ptr ''struct request_queue *''),
    Member ''fq'' (Ptr ''struct blk_flush_queue *''),
    Member ''driver_data'' (Ptr ''void *''),
    Member ''ctx_map'' struct_sbitmap,
    Member ''dispatch_from'' (Ptr ''struct blk_mq_ctx *''),
    Member ''dispatch_busy'' c_unsigned_int,
    Member ''type'' c_unsigned_short,
    Member ''nr_ctx'' c_unsigned_short,
    Member ''ctxs'' (Ptr ''struct blk_mq_ctx **''),
    Member ''dispatch_wait_lock'' t_spinlock_t,
    Member ''dispatch_wait'' t_wait_queue_entry_t,
    Member ''wait_index'' t_atomic_t,
    Member ''tags'' (Ptr ''struct blk_mq_tags *''),
    Member ''sched_tags'' (Ptr ''struct blk_mq_tags *''),
    Member ''numa_node'' c_unsigned_int,
    Member ''queue_num'' c_unsigned_int,
    Member ''nr_active'' t_atomic_t,
    Member ''cpuhp_online'' struct_hlist_node,
    Member ''cpuhp_dead'' struct_hlist_node,
    Member ''kobj'' struct_kobject,
    Member ''hctx_list'' struct_list_head] @ replicate 14 (BitField '''' c_long 64))"

definition struct_inode_operations :: ctype where
  "struct_inode_operations = Comp Struct False [
    Member ''lookup'' (Ptr ''struct dentry * (*)(struct inode *, struct dentry *, unsigned int)''),
    Member ''get_link'' (Ptr ''char * (*)(struct dentry *, struct inode *, struct delayed_call *)''),
    Member ''permission'' (Ptr ''int (*)(struct mnt_idmap *, struct inode *, int)''),
    Member ''get_inode_acl'' (Ptr ''struct posix_acl * (*)(struct inode *, int, bool)''),
    Member ''readlink'' (Ptr ''int (*)(struct dentry *, char *, int)''),
    Member ''create'' (Ptr ''int (*)(struct mnt_idmap *, struct inode *, struct dentry *, umode_t, bool)''),
    Member ''link'' (Ptr ''int (*)(struct dentry *, struct inode *, struct dentry *)''),
    Member ''unlink'' (Ptr ''int (*)(struct inode *, struct dentry *)''),
    Member ''symlink'' (Ptr ''int (*)(struct mnt_idmap *, struct inode *, struct dentry *, const char *)''),
    Member ''mkdir'' (Ptr ''struct dentry * (*)(struct mnt_idmap *, struct inode *, struct dentry *, umode_t)''),
    Member ''rmdir'' (Ptr ''int (*)(struct inode *, struct dentry *)''),
    Member ''mknod'' (Ptr ''int (*)(struct mnt_idmap *, struct inode *, struct dentry *, umode_t, dev_t)''),
    Member ''rename'' (Ptr ''int (*)(struct mnt_idmap *, struct inode *, struct dentry *, struct inode *, struct dentry *, unsigned int)''),
    Member ''setattr'' (Ptr ''int (*)(struct mnt_idmap *, struct dentry *, struct iattr *)''),
    Member ''getattr'' (Ptr ''int (*)(struct mnt_idmap *, const struct path *, struct kstat *, u32, unsigned int)''),
    Member ''listxattr'' (Ptr ''ssize_t (*)(struct dentry *, char *, size_t)''),
    Member ''fiemap'' (Ptr ''int (*)(struct inode *, struct fiemap_extent_info *, u64, u64)''),
    Member ''update_time'' (Ptr ''int (*)(struct inode *, int)''),
    Member ''atomic_open'' (Ptr ''int (*)(struct inode *, struct dentry *, struct file *, unsigned int, umode_t)''),
    Member ''tmpfile'' (Ptr ''int (*)(struct mnt_idmap *, struct inode *, struct file *, umode_t)''),
    Member ''get_acl'' (Ptr ''struct posix_acl * (*)(struct mnt_idmap *, struct dentry *, int)''),
    Member ''set_acl'' (Ptr ''int (*)(struct mnt_idmap *, struct dentry *, struct posix_acl *, int)''),
    Member ''fileattr_set'' (Ptr ''int (*)(struct mnt_idmap *, struct dentry *, struct file_kattr *)''),
    Member ''fileattr_get'' (Ptr ''int (*)(struct dentry *, struct file_kattr *)''),
    Member ''get_offset_ctx'' (Ptr ''struct offset_ctx * (*)(struct inode *)''),
    BitField '''' c_long 64,
    BitField '''' c_long 64,
    BitField '''' c_long 64,
    BitField '''' c_long 64,
    BitField '''' c_long 64,
    BitField '''' c_long 64,
    BitField '''' c_long 64]"

definition struct_trace_event_raw_rdev_update_mesh_config :: ctype where
  "struct_trace_event_raw_rdev_update_mesh_config = Comp Struct False [
    Member ''ent'' struct_trace_entry,
    Member ''wiphy_name'' (Array 32 c_char),
    Member ''name'' (Array 16 c_char),
    Member ''ifindex'' c_int,
    Member ''dot11MeshRetryTimeout'' t_u16,
    Member ''dot11MeshConfirmTimeout'' t_u16,
    Member ''dot11MeshHoldingTimeout'' t_u16,
    Member ''dot11MeshMaxPeerLinks'' t_u16,
    Member ''dot11MeshMaxRetries'' t_u8,
    Member ''dot11MeshTTL'' t_u8,
    Member ''element_ttl'' t_u8,
    Member ''auto_open_plinks'' t_bool,
    Member ''dot11MeshNbrOffsetMaxNeighbor'' t_u32,
    Member ''dot11MeshHWMPmaxPREQretries'' t_u8,
    Member ''path_refresh_time'' t_u32,
    Member ''dot11MeshHWMPactivePathTimeout'' t_u32,
    Member ''min_discovery_timeout'' t_u16,
    Member ''dot11MeshHWMPpreqMinInterval'' t_u16,
    Member ''dot11MeshHWMPperrMinInterval'' t_u16,
    Member ''dot11MeshHWMPnetDiameterTraversalTime'' t_u16,
    Member ''dot11MeshHWMPRootMode'' t_u8,
    Member ''dot11MeshHWMPRannInterval'' t_u16,
    Member ''dot11MeshGateAnnouncementProtocol'' t_bool,
    Member ''dot11MeshForwarding'' t_bool,
    Member ''rssi_threshold'' t_s32,
    Member ''ht_opmode'' t_u16,
    Member ''dot11MeshHWMPactivePathToRootTimeout'' t_u32,
    Member ''dot11MeshHWMProotInterval'' t_u16,
    Member ''dot11MeshHWMPconfirmationInterval'' t_u16,
    Member ''dot11MeshNolearn'' t_bool,
    Member ''mask'' t_u32,
    Member ''__data'' (Array 0 c_char)]"

definition struct_array_buffer :: ctype where
  "struct_array_buffer = Comp Struct False [
    Member ''tr'' (Ptr ''struct trace_array *''),
    Member ''buffer'' (Ptr ''struct trace_buffer *''),
    Member ''data'' (Ptr ''struct trace_array_cpu *''),
    Member ''time_start'' t_u64,
    Member ''cpu'' c_int]"

definition struct_trace_array :: ctype where
  "struct_trace_array = Comp Struct False [
    Member ''list'' struct_list_head,
    Member ''name'' (Ptr ''char *''),
    Member ''array_buffer'' struct_array_buffer,
    Member ''mapped'' c_unsigned_int,
    Member ''range_addr_start'' c_unsigned_long,
    Member ''range_addr_size'' c_unsigned_long,
    Member ''range_name'' (Ptr ''char *''),
    Member ''text_delta'' c_long,
    Member ''module_delta'' (Ptr ''struct trace_module_delta *''),
    Member ''scratch'' (Ptr ''void *''),
    Member ''scratch_size'' c_int,
    Member ''buffer_disabled'' c_int,
    Member ''filtered_pids'' (Ptr ''struct trace_pid_list *''),
    Member ''filtered_no_pids'' (Ptr ''struct trace_pid_list *''),
    Member ''max_lock'' t_arch_spinlock_t,
    Member ''sys_refcount_enter'' c_int,
    Member ''sys_refcount_exit'' c_int,
    Member ''enter_syscall_files'' (Array 470 (Ptr ''struct trace_event_file *'')),
    Member ''exit_syscall_files'' (Array 470 (Ptr ''struct trace_event_file *'')),
    Member ''stop_count'' c_int,
    Member ''clock_id'' c_int,
    Member ''nr_topts'' c_int,
    Member ''clear_trace'' t_bool,
    Member ''buffer_percent'' c_int,
    Member ''n_err_log_entries'' c_unsigned_int,
    Member ''current_trace'' (Ptr ''struct tracer *''),
    Member ''trace_flags'' c_unsigned_int,
    Member ''trace_flags_index'' (Array 32 c_unsigned_char),
    Member ''flags'' c_unsigned_int,
    Member ''start_lock'' t_raw_spinlock_t,
    Member ''system_names'' (Ptr ''char *''),
    Member ''err_log'' struct_list_head,
    Member ''dir'' (Ptr ''struct dentry *''),
    Member ''options'' (Ptr ''struct dentry *''),
    Member ''percpu_dir'' (Ptr ''struct dentry *''),
    Member ''event_dir'' (Ptr ''struct eventfs_inode *''),
    Member ''topts'' (Ptr ''struct trace_options *''),
    Member ''systems'' struct_list_head,
    Member ''events'' struct_list_head,
    Member ''marker_list'' struct_list_head,
    Member ''trace_marker_file'' (Ptr ''struct trace_event_file *''),
    Member ''tracing_cpumask'' t_cpumask_var_t,
    Member ''pipe_cpumask'' t_cpumask_var_t,
    Member ''ref'' c_int,
    Member ''trace_ref'' c_int,
    Member ''mod_events'' struct_list_head,
    Member ''ops'' (Ptr ''struct ftrace_ops *''),
    Member ''function_pids'' (Ptr ''struct trace_pid_list *''),
    Member ''function_no_pids'' (Ptr ''struct trace_pid_list *''),
    Member ''gops'' (Ptr ''struct fgraph_ops *''),
    Member ''func_probes'' struct_list_head,
    Member ''mod_trace'' struct_list_head,
    Member ''mod_notrace'' struct_list_head,
    Member ''function_enabled'' c_int,
    Member ''no_filter_buffering_ref'' c_int,
    Member ''hist_vars'' struct_list_head,
    Member ''last_func_repeats'' (Ptr ''struct trace_func_repeats *''),
    Member ''ring_buffer_expanded'' t_bool]"

definition enum_trace_iterator_flags :: ctype where
  "enum_trace_iterator_flags = Enum False [
    (''TRACE_ITER_PRINT_PARENT'', 1), (''TRACE_ITER_SYM_OFFSET'', 2),
    (''TRACE_ITER_SYM_ADDR'', 4), (''TRACE_ITER_VERBOSE'', 8), (''TRACE_ITER_RAW'', 16),
    (''TRACE_ITER_HEX'', 32), (''TRACE_ITER_BIN'', 64), (''TRACE_ITER_BLOCK'', 128),
    (''TRACE_ITER_FIELDS'', 256), (''TRACE_ITER_PRINTK'', 512), (''TRACE_ITER_ANNOTATE'', 1024),
    (''TRACE_ITER_USERSTACKTRACE'', 2048), (''TRACE_ITER_SYM_USEROBJ'', 4096),
    (''TRACE_ITER_PRINTK_MSGONLY'', 8192), (''TRACE_ITER_CONTEXT_INFO'', 16384),
    (''TRACE_ITER_LATENCY_FMT'', 32768), (''TRACE_ITER_RECORD_CMD'', 65536),
    (''TRACE_ITER_RECORD_TGID'', 131072), (''TRACE_ITER_OVERWRITE'', 262144),
    (''TRACE_ITER_STOP_ON_FREE'', 524288), (''TRACE_ITER_IRQ_INFO'', 1048576),
    (''TRACE_ITER_MARKERS'', 2097152), (''TRACE_ITER_EVENT_FORK'', 4194304),
    (''TRACE_ITER_TRACE_PRINTK'', 8388608), (''TRACE_ITER_COPY_MARKER'', 16777216),
    (''TRACE_ITER_PAUSE_ON_TRACE'', 33554432), (''TRACE_ITER_HASH_PTR'', 67108864),
    (''TRACE_ITER_FUNCTION'', 134217728), (''TRACE_ITER_FUNC_FORK'', 268435456),
    (''TRACE_ITER_DISPLAY_GRAPH'', 536870912), (''TRACE_ITER_STACKTRACE'', 1073741824)]"

definition struct_trace_event_raw_drv_link_info_changed :: ctype where
  "struct_trace_event_raw_drv_link_info_changed = Comp Struct False [
    Member ''ent'' struct_trace_entry,
    Member ''wiphy_name'' (Array 32 c_char),
    Member ''vif_type'' enum_nl80211_iftype,
    Member ''sdata'' (Ptr ''void *''),
    Member ''p2p'' t_bool,
    Member ''__data_loc_vif_name'' t_u32,
    Member ''changed'' t_u64,
    Member ''link_id'' c_int,
    Member ''cts'' t_bool,
    Member ''shortpre'' t_bool,
    Member ''shortslot'' t_bool,
    Member ''enable_beacon'' t_bool,
    Member ''dtimper'' t_u8,
    Member ''bcnint'' t_u16,
    Member ''assoc_cap'' t_u16,
    Member ''sync_tsf'' t_u64,
    Member ''sync_device_ts'' t_u32,
    Member ''sync_dtim_count'' t_u8,
    Member ''basic_rates'' t_u32,
    Member ''mcast_rate'' (Array 6 c_int),
    Member ''ht_operation_mode'' t_u16,
    Member ''cqm_rssi_thold'' t_s32,
    Member ''cqm_rssi_hyst'' t_s32,
    Member ''channel_width'' t_u32,
    Member ''channel_cfreq1'' t_u32,
    Member ''channel_cfreq1_offset'' t_u32,
    Member ''qos'' t_bool,
    Member ''hidden_ssid'' t_bool,
    Member ''txpower'' c_int,
    Member ''p2p_oppps_ctwindow'' t_u8,
    Member ''__data'' (Array 0 c_char)]"

definition struct_trace_event_raw_rdev_join_mesh :: ctype where
  "struct_trace_event_raw_rdev_join_mesh = Comp Struct False [
    Member ''ent'' struct_trace_entry,
    Member ''wiphy_name'' (Array 32 c_char),
    Member ''name'' (Array 16 c_char),
    Member ''ifindex'' c_int,
    Member ''dot11MeshRetryTimeout'' t_u16,
    Member ''dot11MeshConfirmTimeout'' t_u16,
    Member ''dot11MeshHoldingTimeout'' t_u16,
    Member ''dot11MeshMaxPeerLinks'' t_u16,
    Member ''dot11MeshMaxRetries'' t_u8,
    Member ''dot11MeshTTL'' t_u8,
    Member ''element_ttl'' t_u8,
    Member ''auto_open_plinks'' t_bool,
    Member ''dot11MeshNbrOffsetMaxNeighbor'' t_u32,
    Member ''dot11MeshHWMPmaxPREQretries'' t_u8,
    Member ''path_refresh_time'' t_u32,
    Member ''dot11MeshHWMPactivePathTimeout'' t_u32,
    Member ''min_discovery_timeout'' t_u16,
    Member ''dot11MeshHWMPpreqMinInterval'' t_u16,
    Member ''dot11MeshHWMPperrMinInterval'' t_u16,
    Member ''dot11MeshHWMPnetDiameterTraversalTime'' t_u16,
    Member ''dot11MeshHWMPRootMode'' t_u8,
    Member ''dot11MeshHWMPRannInterval'' t_u16,
    Member ''dot11MeshGateAnnouncementProtocol'' t_bool,
    Member ''dot11MeshForwarding'' t_bool,
    Member ''rssi_threshold'' t_s32,
    Member ''ht_opmode'' t_u16,
    Member ''dot11MeshHWMPactivePathToRootTimeout'' t_u32,
    Member ''dot11MeshHWMProotInterval'' t_u16,
    Member ''dot11MeshHWMPconfirmationInterval'' t_u16,
    Member ''dot11MeshNolearn'' t_bool,
    Member ''__data'' (Array 0 c_char)]"

definition enum_lockdown_reason :: ctype where
  "enum_lockdown_reason = Enum False [
    (''LOCKDOWN_NONE'', 0), (''LOCKDOWN_MODULE_SIGNATURE'', 1), (''LOCKDOWN_DEV_MEM'', 2),
    (''LOCKDOWN_EFI_TEST'', 3), (''LOCKDOWN_KEXEC'', 4), (''LOCKDOWN_HIBERNATION'', 5),
    (''LOCKDOWN_PCI_ACCESS'', 6), (''LOCKDOWN_IOPORT'', 7), (''LOCKDOWN_MSR'', 8),
    (''LOCKDOWN_ACPI_TABLES'', 9), (''LOCKDOWN_DEVICE_TREE'', 10), (''LOCKDOWN_PCMCIA_CIS'', 11),
    (''LOCKDOWN_TIOCSSERIAL'', 12), (''LOCKDOWN_MODULE_PARAMETERS'', 13),
    (''LOCKDOWN_MMIOTRACE'', 14), (''LOCKDOWN_DEBUGFS'', 15), (''LOCKDOWN_XMON_WR'', 16),
    (''LOCKDOWN_BPF_WRITE_USER'', 17), (''LOCKDOWN_DBG_WRITE_KERNEL'', 18),
    (''LOCKDOWN_RTAS_ERROR_INJECTION'', 19), (''LOCKDOWN_INTEGRITY_MAX'', 20),
    (''LOCKDOWN_KCORE'', 21), (''LOCKDOWN_KPROBES'', 22), (''LOCKDOWN_BPF_READ_KERNEL'', 23),
    (''LOCKDOWN_DBG_READ_KERNEL'', 24), (''LOCKDOWN_PERF'', 25), (''LOCKDOWN_TRACEFS'', 26),
    (''LOCKDOWN_XMON_RW'', 27), (''LOCKDOWN_XFRM_SECRET'', 28),
    (''LOCKDOWN_CONFIDENTIALITY_MAX'', 29)]"

definition struct_io_uring_task :: ctype where
  "struct_io_uring_task = Comp Struct False [
    Member ''cached_refs'' c_int,
    Member ''last'' (Ptr ''struct io_ring_ctx *''),
    Member ''task'' (Ptr ''struct task_struct *''),
    Member ''io_wq'' (Ptr ''struct io_wq *''),
    Member ''registered_rings'' (Array 16 (Ptr ''struct file *'')),
    Member ''xa'' struct_xarray,
    Member ''wait'' struct_wait_queue_head,
    Member ''in_cancel'' t_atomic_t,
    Member ''inflight_tracked'' t_atomic_t,
    Member ''inflight'' struct_percpu_counter,
    BitField '''' c_long 64,
    BitField '''' c_long 64,
    BitField '''' c_long 64,
    Member '''' (Comp Struct False ([
      Member ''task_list'' struct_llist_head,
      Member ''task_work'' struct_callback_head] @ replicate 13 (BitField '''' c_long 64)))]"

definition struct_trace_event_raw_rdev_return_int_mesh_config :: ctype where
  "struct_trace_event_raw_rdev_return_int_mesh_config = Comp Struct False [
    Member ''ent'' struct_trace_entry,
    Member ''wiphy_name'' (Array 32 c_char),
    Member ''dot11MeshRetryTimeout'' t_u16,
    Member ''dot11MeshConfirmTimeout'' t_u16,
    Member ''dot11MeshHoldingTimeout'' t_u16,
    Member ''dot11MeshMaxPeerLinks'' t_u16,
    Member ''dot11MeshMaxRetries'' t_u8,
    Member ''dot11MeshTTL'' t_u8,
    Member ''element_ttl'' t_u8,
    Member ''auto_open_plinks'' t_bool,
    Member ''dot11MeshNbrOffsetMaxNeighbor'' t_u32,
    Member ''dot11MeshHWMPmaxPREQretries'' t_u8,
    Member ''path_refresh_time'' t_u32,
    Member ''dot11MeshHWMPactivePathTimeout'' t_u32,
    Member ''min_discovery_timeout'' t_u16,
    Member ''dot11MeshHWMPpreqMinInterval'' t_u16,
    Member ''dot11MeshHWMPperrMinInterval'' t_u16,
    Member ''dot11MeshHWMPnetDiameterTraversalTime'' t_u16,
    Member ''dot11MeshHWMPRootMode'' t_u8,
    Member ''dot11MeshHWMPRannInterval'' t_u16,
    Member ''dot11MeshGateAnnouncementProtocol'' t_bool,
    Member ''dot11MeshForwarding'' t_bool,
    Member ''rssi_threshold'' t_s32,
    Member ''ht_opmode'' t_u16,
    Member ''dot11MeshHWMPactivePathToRootTimeout'' t_u32,
    Member ''dot11MeshHWMProotInterval'' t_u16,
    Member ''dot11MeshHWMPconfirmationInterval'' t_u16,
    Member ''dot11MeshNolearn'' t_bool,
    Member ''ret'' c_int,
    Member ''__data'' (Array 0 c_char)]"

definition enum_ovs_action_attr :: ctype where
  "enum_ovs_action_attr = Enum False [
    (''OVS_ACTION_ATTR_UNSPEC'', 0), (''OVS_ACTION_ATTR_OUTPUT'', 1),
    (''OVS_ACTION_ATTR_USERSPACE'', 2), (''OVS_ACTION_ATTR_SET'', 3),
    (''OVS_ACTION_ATTR_PUSH_VLAN'', 4), (''OVS_ACTION_ATTR_POP_VLAN'', 5),
    (''OVS_ACTION_ATTR_SAMPLE'', 6), (''OVS_ACTION_ATTR_RECIRC'', 7),
    (''OVS_ACTION_ATTR_HASH'', 8), (''OVS_ACTION_ATTR_PUSH_MPLS'', 9),
    (''OVS_ACTION_ATTR_POP_MPLS'', 10), (''OVS_ACTION_ATTR_SET_MASKED'', 11),
    (''OVS_ACTION_ATTR_CT'', 12), (''OVS_ACTION_ATTR_TRUNC'', 13),
    (''OVS_ACTION_ATTR_PUSH_ETH'', 14), (''OVS_ACTION_ATTR_POP_ETH'', 15),
    (''OVS_ACTION_ATTR_CT_CLEAR'', 16), (''OVS_ACTION_ATTR_PUSH_NSH'', 17),
    (''OVS_ACTION_ATTR_POP_NSH'', 18), (''OVS_ACTION_ATTR_METER'', 19),
    (''OVS_ACTION_ATTR_CLONE'', 20), (''OVS_ACTION_ATTR_CHECK_PKT_LEN'', 21),
    (''OVS_ACTION_ATTR_ADD_MPLS'', 22), (''OVS_ACTION_ATTR_DEC_TTL'', 23),
    (''OVS_ACTION_ATTR_DROP'', 24), (''OVS_ACTION_ATTR_PSAMPLE'', 25),
    (''__OVS_ACTION_ATTR_MAX'', 26), (''OVS_ACTION_ATTR_SET_TO_MASKED'', 27)]"

definition union_sctp_addr :: ctype where
  "union_sctp_addr = Comp Union False [
    Member ''sa'' struct_sockaddr_inet,
    Member ''v4'' struct_sockaddr_in,
    Member ''v6'' struct_sockaddr_in6]"

definition struct_sctp_packet :: ctype where
  "struct_sctp_packet = Comp Struct False [
    Member ''source_port'' t___u16,
    Member ''destination_port'' t___u16,
    Member ''vtag'' t___u32,
    Member ''chunk_list'' struct_list_head,
    Member ''overhead'' t_size_t,
    Member ''size'' t_size_t,
    Member ''max_size'' t_size_t,
    Member ''transport'' (Ptr ''struct sctp_transport *''),
    Member ''auth'' (Ptr ''struct sctp_chunk *''),
    BitField ''has_cookie_echo'' t_u8 1,
    BitField ''has_sack'' t_u8 1,
    BitField ''has_auth'' t_u8 1,
    BitField ''has_data'' t_u8 1,
    BitField ''ipfragok'' t_u8 1]"

definition struct_sctp_transport :: ctype where
  "struct_sctp_transport = Comp Struct False [
    Member ''transports'' struct_list_head,
    Member ''node'' struct_rhlist_head,
    Member ''refcnt'' t_refcount_t,
    BitField ''dead'' t___u32 1,
    BitField ''rto_pending'' t___u32 1,
    BitField ''hb_sent'' t___u32 1,
    BitField ''pmtu_pending'' t___u32 1,
    BitField ''dst_pending_confirm'' t___u32 1,
    BitField ''sack_generation'' t___u32 1,
    Member ''dst_cookie'' t_u32,
    Member ''fl'' struct_flowi,
    Member ''ipaddr'' union_sctp_addr,
    Member ''af_specific'' (Ptr ''struct sctp_af *''),
    Member ''asoc'' (Ptr ''struct sctp_association *''),
    Member ''rto'' c_unsigned_long,
    Member ''rtt'' t___u32,
    Member ''rttvar'' t___u32,
    Member ''srtt'' t___u32,
    Member ''cwnd'' t___u32,
    Member ''ssthresh'' t___u32,
    Member ''partial_bytes_acked'' t___u32,
    Member ''flight_size'' t___u32,
    Member ''burst_limited'' t___u32,
    Member ''dst'' (Ptr ''struct dst_entry *''),
    Member ''saddr'' union_sctp_addr,
    Member ''hbinterval'' c_unsigned_long,
    Member ''probe_interval'' c_unsigned_long,
    Member ''sackdelay'' c_unsigned_long,
    Member ''sackfreq'' t___u32,
    Member ''mtu_info'' t_atomic_t,
    Member ''last_time_heard'' t_ktime_t,
    Member ''last_time_sent'' c_unsigned_long,
    Member ''last_time_ecne_reduced'' c_unsigned_long,
    Member ''encap_port'' t___be16,
    Member ''pathmaxrxt'' t___u16,
    Member ''flowlabel'' t___u32,
    Member ''dscp'' t___u8,
    Member ''pf_retrans'' t___u16,
    Member ''ps_retrans'' t___u16,
    Member ''pathmtu'' t___u32,
    Member ''param_flags'' t___u32,
    Member ''init_sent_count'' c_int,
    Member ''state'' c_int,
    Member ''error_count'' c_unsigned_short,
    Member ''T3_rtx_timer'' struct_timer_list,
    Member ''hb_timer'' struct_timer_list,
    Member ''proto_unreach_timer'' struct_timer_list,
    Member ''reconf_timer'' struct_timer_list,
    Member ''probe_timer'' struct_timer_list,
    Member ''transmitted'' struct_list_head,
    Member ''packet'' struct_sctp_packet,
    Member ''send_ready'' struct_list_head,
    Member ''cacc'' (Comp Struct False [
      Member ''next_tsn_at_change'' t___u32,
      Member ''changeover_active'' c_char,
      Member ''cycling_changeover'' c_char,
      Member ''cacc_saw_newack'' c_char]),
    Member ''pl'' (Comp Struct False [
      Member ''pmtu'' t___u16,
      Member ''probe_size'' t___u16,
      Member ''probe_high'' t___u16,
      Member ''probe_count'' t___u8,
      Member ''state'' t___u8]),
    Member ''hb_nonce'' t___u64,
    Member ''rcu'' struct_callback_head]"

definition struct_trace_event_raw_local_sdata_chanctx :: ctype where
  "struct_trace_event_raw_local_sdata_chanctx = Comp Struct False [
    Member ''ent'' struct_trace_entry,
    Member ''wiphy_name'' (Array 32 c_char),
    Member ''vif_type'' enum_nl80211_iftype,
    Member ''sdata'' (Ptr ''void *''),
    Member ''p2p'' t_bool,
    Member ''__data_loc_vif_name'' t_u32,
    Member ''control_freq'' t_u32,
    Member ''freq_offset'' t_u32,
    Member ''chan_width'' t_u32,
    Member ''center_freq1'' t_u32,
    Member ''freq1_offset'' t_u32,
    Member ''center_freq2'' t_u32,
    Member ''min_control_freq'' t_u32,
    Member ''min_freq_offset'' t_u32,
    Member ''min_chan_width'' t_u32,
    Member ''min_center_freq1'' t_u32,
    Member ''min_freq1_offset'' t_u32,
    Member ''min_center_freq2'' t_u32,
    Member ''ap_control_freq'' t_u32,
    Member ''ap_freq_offset'' t_u32,
    Member ''ap_chan_width'' t_u32,
    Member ''ap_center_freq1'' t_u32,
    Member ''ap_freq1_offset'' t_u32,
    Member ''ap_center_freq2'' t_u32,
    Member ''rx_chains_static'' t_u8,
    Member ''rx_chains_dynamic'' t_u8,
    Member ''link_id'' c_unsigned_int,
    Member ''__data'' (Array 0 c_char)]"

definition struct_cgroup_root :: ctype where
  "struct_cgroup_root = Comp Struct False ([
    Member ''kf_root'' (Ptr ''struct kernfs_root *''),
    Member ''subsys_mask'' c_unsigned_int,
    Member ''hierarchy_id'' c_int,
    Member ''root_list'' struct_list_head,
    Member ''rcu'' struct_callback_head] @ replicate 10 (BitField '''' c_long 64) @ [
    Member ''cgrp'' struct_cgroup,
    Member ''cgrp_ancestor_storage'' (Ptr ''struct cgroup *''),
    Member ''nr_cgrps'' t_atomic_t,
    Member ''flags'' c_unsigned_int,
    Member ''release_agent_path'' (Array 4096 c_char),
    Member ''name'' (Array 64 c_char),
    BitField '''' c_long 64,
    BitField '''' c_long 64,
    BitField '''' c_long 64,
    BitField '''' c_long 64,
    BitField '''' c_long 64,
    BitField '''' c_long 64])"

definition struct_sctp_af :: ctype where
  "struct_sctp_af = Comp Struct False [
    Member ''sctp_xmit'' (Ptr ''int (*)(struct sk_buff *, struct sctp_transport *)''),
    Member ''setsockopt'' (Ptr ''int (*)(struct sock *, int, int, sockptr_t, unsigned int)''),
    Member ''getsockopt'' (Ptr ''int (*)(struct sock *, int, int, char *, int *)''),
    Member ''get_dst'' (Ptr ''void (*)(struct sctp_transport *, union sctp_addr *, struct flowi *, struct sock *)''),
    Member ''get_saddr'' (Ptr ''void (*)(struct sctp_sock *, struct sctp_transport *, struct flowi *)''),
    Member ''copy_addrlist'' (Ptr ''void (*)(struct list_head *, struct net_device *)''),
    Member ''cmp_addr'' (Ptr ''int (*)(const union sctp_addr *, const union sctp_addr *)''),
    Member ''addr_copy'' (Ptr ''void (*)(union sctp_addr *, union sctp_addr *)''),
    Member ''from_skb'' (Ptr ''void (*)(union sctp_addr *, struct sk_buff *, int)''),
    Member ''from_sk'' (Ptr ''void (*)(union sctp_addr *, struct sock *)''),
    Member ''from_addr_param'' (Ptr ''bool (*)(union sctp_addr *, union sctp_addr_param *, __be16, int)''),
    Member ''to_addr_param'' (Ptr ''int (*)(const union sctp_addr *, union sctp_addr_param *)''),
    Member ''addr_valid'' (Ptr ''int (*)(union sctp_addr *, struct sctp_sock *, const struct sk_buff *)''),
    Member ''scope'' (Ptr ''enum sctp_scope (*)(union sctp_addr *)''),
    Member ''inaddr_any'' (Ptr ''void (*)(union sctp_addr *, __be16)''),
    Member ''is_any'' (Ptr ''int (*)(const union sctp_addr *)''),
    Member ''available'' (Ptr ''int (*)(union sctp_addr *, struct sctp_sock *)''),
    Member ''skb_iif'' (Ptr ''int (*)(const struct sk_buff *)''),
    Member ''skb_sdif'' (Ptr ''int (*)(const struct sk_buff *)''),
    Member ''is_ce'' (Ptr ''int (*)(const struct sk_buff *)''),
    Member ''seq_dump_addr'' (Ptr ''void (*)(struct seq_file *, union sctp_addr *)''),
    Member ''ecn_capable'' (Ptr ''void (*)(struct sock *)''),
    Member ''net_header_len'' t___u16,
    Member ''sockaddr_len'' c_int,
    Member ''ip_options_len'' (Ptr ''int (*)(struct sock *)''),
    Member ''sa_family'' t_sa_family_t,
    Member ''list'' struct_list_head]"

definition struct_super_operations :: ctype where
  "struct_super_operations = Comp Struct False [
    Member ''alloc_inode'' (Ptr ''struct inode * (*)(struct super_block *)''),
    Member ''destroy_inode'' (Ptr ''void (*)(struct inode *)''),
    Member ''free_inode'' (Ptr ''void (*)(struct inode *)''),
    Member ''dirty_inode'' (Ptr ''void (*)(struct inode *, int)''),
    Member ''write_inode'' (Ptr ''int (*)(struct inode *, struct writeback_control *)''),
    Member ''drop_inode'' (Ptr ''int (*)(struct inode *)''),
    Member ''evict_inode'' (Ptr ''void (*)(struct inode *)''),
    Member ''put_super'' (Ptr ''void (*)(struct super_block *)''),
    Member ''sync_fs'' (Ptr ''int (*)(struct super_block *, int)''),
    Member ''freeze_super'' (Ptr ''int (*)(struct super_block *, enum freeze_holder, const void *)''),
    Member ''freeze_fs'' (Ptr ''int (*)(struct super_block *)''),
    Member ''thaw_super'' (Ptr ''int (*)(struct super_block *, enum freeze_holder, const void *)''),
    Member ''unfreeze_fs'' (Ptr ''int (*)(struct super_block *)''),
    Member ''statfs'' (Ptr ''int (*)(struct dentry *, struct kstatfs *)''),
    Member ''remount_fs'' (Ptr ''int (*)(struct super_block *, int *, char *)''),
    Member ''umount_begin'' (Ptr ''void (*)(struct super_block *)''),
    Member ''show_options'' (Ptr ''int (*)(struct seq_file *, struct dentry *)''),
    Member ''show_devname'' (Ptr ''int (*)(struct seq_file *, struct dentry *)''),
    Member ''show_path'' (Ptr ''int (*)(struct seq_file *, struct dentry *)''),
    Member ''show_stats'' (Ptr ''int (*)(struct seq_file *, struct dentry *)''),
    Member ''quota_read'' (Ptr ''ssize_t (*)(struct super_block *, int, char *, size_t, loff_t)''),
    Member ''quota_write'' (Ptr ''ssize_t (*)(struct super_block *, int, const char *, size_t, loff_t)''),
    Member ''get_dquots'' (Ptr ''struct dquot ** (*)(struct inode *)''),
    Member ''nr_cached_objects'' (Ptr ''long (*)(struct super_block *, struct shrink_control *)''),
    Member ''free_cached_objects'' (Ptr ''long (*)(struct super_block *, struct shrink_control *)''),
    Member ''remove_bdev'' (Ptr ''int (*)(struct super_block *, struct block_device *)''),
    Member ''shutdown'' (Ptr ''void (*)(struct super_block *)'')]"

definition enum_perf_event_sample_format :: ctype where
  "enum_perf_event_sample_format = Enum False [
    (''PERF_SAMPLE_IP'', 1), (''PERF_SAMPLE_TID'', 2), (''PERF_SAMPLE_TIME'', 4),
    (''PERF_SAMPLE_ADDR'', 8), (''PERF_SAMPLE_READ'', 16), (''PERF_SAMPLE_CALLCHAIN'', 32),
    (''PERF_SAMPLE_ID'', 64), (''PERF_SAMPLE_CPU'', 128), (''PERF_SAMPLE_PERIOD'', 256),
    (''PERF_SAMPLE_STREAM_ID'', 512), (''PERF_SAMPLE_RAW'', 1024),
    (''PERF_SAMPLE_BRANCH_STACK'', 2048), (''PERF_SAMPLE_REGS_USER'', 4096),
    (''PERF_SAMPLE_STACK_USER'', 8192), (''PERF_SAMPLE_WEIGHT'', 16384),
    (''PERF_SAMPLE_DATA_SRC'', 32768), (''PERF_SAMPLE_IDENTIFIER'', 65536),
    (''PERF_SAMPLE_TRANSACTION'', 131072), (''PERF_SAMPLE_REGS_INTR'', 262144),
    (''PERF_SAMPLE_PHYS_ADDR'', 524288), (''PERF_SAMPLE_AUX'', 1048576),
    (''PERF_SAMPLE_CGROUP'', 2097152), (''PERF_SAMPLE_DATA_PAGE_SIZE'', 4194304),
    (''PERF_SAMPLE_CODE_PAGE_SIZE'', 8388608), (''PERF_SAMPLE_WEIGHT_STRUCT'', 16777216),
    (''PERF_SAMPLE_MAX'', 33554432)]"

definition enum_sctp_param :: ctype where
  "enum_sctp_param = Enum False [
    (''SCTP_PARAM_HEARTBEAT_INFO'', 256), (''SCTP_PARAM_IPV4_ADDRESS'', 1280),
    (''SCTP_PARAM_IPV6_ADDRESS'', 1536), (''SCTP_PARAM_STATE_COOKIE'', 1792),
    (''SCTP_PARAM_UNRECOGNIZED_PARAMETERS'', 2048), (''SCTP_PARAM_COOKIE_PRESERVATIVE'', 2304),
    (''SCTP_PARAM_HOST_NAME_ADDRESS'', 2816), (''SCTP_PARAM_SUPPORTED_ADDRESS_TYPES'', 3072),
    (''SCTP_PARAM_ECN_CAPABLE'', 128), (''SCTP_PARAM_RANDOM'', 640), (''SCTP_PARAM_CHUNKS'', 896),
    (''SCTP_PARAM_HMAC_ALGO'', 1152), (''SCTP_PARAM_SUPPORTED_EXT'', 2176),
    (''SCTP_PARAM_FWD_TSN_SUPPORT'', 192), (''SCTP_PARAM_ADD_IP'', 448),
    (''SCTP_PARAM_DEL_IP'', 704), (''SCTP_PARAM_ERR_CAUSE'', 960),
    (''SCTP_PARAM_SET_PRIMARY'', 1216), (''SCTP_PARAM_SUCCESS_REPORT'', 1472),
    (''SCTP_PARAM_ADAPTATION_LAYER_IND'', 1728), (''SCTP_PARAM_RESET_OUT_REQUEST'', 3328),
    (''SCTP_PARAM_RESET_IN_REQUEST'', 3584), (''SCTP_PARAM_RESET_TSN_REQUEST'', 3840),
    (''SCTP_PARAM_RESET_RESPONSE'', 4096), (''SCTP_PARAM_RESET_ADD_OUT_STREAMS'', 4352),
    (''SCTP_PARAM_RESET_ADD_IN_STREAMS'', 4608)]"

definition struct_vsock_sock :: ctype where
  "struct_vsock_sock = Comp Struct False [
    Member ''sk'' struct_sock,
    Member ''transport'' (Ptr ''struct vsock_transport *''),
    Member ''local_addr'' struct_sockaddr_vm,
    Member ''remote_addr'' struct_sockaddr_vm,
    Member ''bound_table'' struct_list_head,
    Member ''connected_table'' struct_list_head,
    Member ''trusted'' t_bool,
    Member ''cached_peer_allow_dgram'' t_bool,
    Member ''cached_peer'' t_u32,
    Member ''owner'' (Ptr ''struct cred *''),
    Member ''connect_timeout'' c_long,
    Member ''listener'' (Ptr ''struct sock *''),
    Member ''pending_links'' struct_list_head,
    Member ''accept_queue'' struct_list_head,
    Member ''rejected'' t_bool,
    Member ''connect_work'' struct_delayed_work,
    Member ''pending_work'' struct_delayed_work,
    Member ''close_work'' struct_delayed_work,
    Member ''close_work_scheduled'' t_bool,
    Member ''peer_shutdown'' t_u32,
    Member ''sent_request'' t_bool,
    Member ''ignore_connecting_rst'' t_bool,
    Member ''buffer_size'' t_u64,
    Member ''buffer_min_size'' t_u64,
    Member ''buffer_max_size'' t_u64,
    Member ''trans'' (Ptr ''void *'')]"

definition enum_nft_ct_keys :: ctype where
  "enum_nft_ct_keys = Enum False [
    (''NFT_CT_STATE'', 0), (''NFT_CT_DIRECTION'', 1), (''NFT_CT_STATUS'', 2),
    (''NFT_CT_MARK'', 3), (''NFT_CT_SECMARK'', 4), (''NFT_CT_EXPIRATION'', 5),
    (''NFT_CT_HELPER'', 6), (''NFT_CT_L3PROTOCOL'', 7), (''NFT_CT_SRC'', 8), (''NFT_CT_DST'', 9),
    (''NFT_CT_PROTOCOL'', 10), (''NFT_CT_PROTO_SRC'', 11), (''NFT_CT_PROTO_DST'', 12),
    (''NFT_CT_LABELS'', 13), (''NFT_CT_PKTS'', 14), (''NFT_CT_BYTES'', 15),
    (''NFT_CT_AVGPKT'', 16), (''NFT_CT_ZONE'', 17), (''NFT_CT_EVENTMASK'', 18),
    (''NFT_CT_SRC_IP'', 19), (''NFT_CT_DST_IP'', 20), (''NFT_CT_SRC_IP6'', 21),
    (''NFT_CT_DST_IP6'', 22), (''NFT_CT_ID'', 23), (''__NFT_CT_MAX'', 24)]"

definition struct_cpufreq_driver :: ctype where
  "struct_cpufreq_driver = Comp Struct False [
    Member ''name'' (Array 16 c_char),
    Member ''flags'' t_u16,
    Member ''driver_data'' (Ptr ''void *''),
    Member ''init'' (Ptr ''int (*)(struct cpufreq_policy *)''),
    Member ''verify'' (Ptr ''int (*)(struct cpufreq_policy_data *)''),
    Member ''setpolicy'' (Ptr ''int (*)(struct cpufreq_policy *)''),
    Member ''target'' (Ptr ''int (*)(struct cpufreq_policy *, unsigned int, unsigned int)''),
    Member ''target_index'' (Ptr ''int (*)(struct cpufreq_policy *, unsigned int)''),
    Member ''fast_switch'' (Ptr ''unsigned int (*)(struct cpufreq_policy *, unsigned int)''),
    Member ''adjust_perf'' (Ptr ''void (*)(unsigned int, unsigned long, unsigned long, unsigned long)''),
    Member ''get_intermediate'' (Ptr ''unsigned int (*)(struct cpufreq_policy *, unsigned int)''),
    Member ''target_intermediate'' (Ptr ''int (*)(struct cpufreq_policy *, unsigned int)''),
    Member ''get'' (Ptr ''unsigned int (*)(unsigned int)''),
    Member ''update_limits'' (Ptr ''void (*)(struct cpufreq_policy *)''),
    Member ''bios_limit'' (Ptr ''int (*)(int, unsigned int *)''),
    Member ''online'' (Ptr ''int (*)(struct cpufreq_policy *)''),
    Member ''offline'' (Ptr ''int (*)(struct cpufreq_policy *)''),
    Member ''exit'' (Ptr ''void (*)(struct cpufreq_policy *)''),
    Member ''suspend'' (Ptr ''int (*)(struct cpufreq_policy *)''),
    Member ''resume'' (Ptr ''int (*)(struct cpufreq_policy *)''),
    Member ''ready'' (Ptr ''void (*)(struct cpufreq_policy *)''),
    Member ''attr'' (Ptr ''struct freq_attr **''),
    Member ''boost_enabled'' t_bool,
    Member ''set_boost'' (Ptr ''int (*)(struct cpufreq_policy *, int)''),
    Member ''register_em'' (Ptr ''void (*)(struct cpufreq_policy *)'')]"

definition struct_trace_event_raw_ib_mad_send_template :: ctype where
  "struct_trace_event_raw_ib_mad_send_template = Comp Struct False [
    Member ''ent'' struct_trace_entry,
    Member ''base_version'' t_u8,
    Member ''mgmt_class'' t_u8,
    Member ''class_version'' t_u8,
    Member ''port_num'' t_u8,
    Member ''qp_num'' t_u32,
    Member ''method'' t_u8,
    Member ''sl'' t_u8,
    Member ''attr_id'' t_u16,
    Member ''attr_mod'' t_u32,
    Member ''wrtid'' t_u64,
    Member ''tid'' t_u64,
    Member ''status'' t_u16,
    Member ''class_specific'' t_u16,
    Member ''length'' t_u32,
    Member ''dlid'' t_u32,
    Member ''rqpn'' t_u32,
    Member ''rqkey'' t_u32,
    Member ''dev_index'' t_u32,
    Member ''agent_priv'' (Ptr ''void *''),
    Member ''timeout'' c_unsigned_long,
    Member ''retries_left'' c_int,
    Member ''max_retries'' c_int,
    Member ''retry'' c_int,
    Member ''__data'' (Array 0 c_char)]"

definition struct_trace_event_raw_station_add_change :: ctype where
  "struct_trace_event_raw_station_add_change = Comp Struct False [
    Member ''ent'' struct_trace_entry,
    Member ''wiphy_name'' (Array 32 c_char),
    Member ''name'' (Array 16 c_char),
    Member ''ifindex'' c_int,
    Member ''sta_mac'' (Array 6 t_u8),
    Member ''sta_flags_mask'' t_u32,
    Member ''sta_flags_set'' t_u32,
    Member ''sta_modify_mask'' t_u32,
    Member ''listen_interval'' c_int,
    Member ''capability'' t_u16,
    Member ''aid'' t_u16,
    Member ''plink_action'' t_u8,
    Member ''plink_state'' t_u8,
    Member ''uapsd_queues'' t_u8,
    Member ''max_sp'' t_u8,
    Member ''opmode_notif'' t_u8,
    Member ''opmode_notif_used'' t_bool,
    Member ''ht_capa'' (Array 26 t_u8),
    Member ''vht_capa'' (Array 12 t_u8),
    Member ''vlan'' (Array 16 c_char),
    Member ''__data_loc_supported_rates'' t_u32,
    Member ''__data_loc_ext_capab'' t_u32,
    Member ''__data_loc_supported_channels'' t_u32,
    Member ''__data_loc_supported_oper_classes'' t_u32,
    Member ''__data'' (Array 0 c_char)]"

definition struct_cpuinfo_32bit :: ctype where
  "struct_cpuinfo_32bit = Comp Struct False [
    Member ''reg_id_dfr0'' t_u32,
    Member ''reg_id_dfr1'' t_u32,
    Member ''reg_id_isar0'' t_u32,
    Member ''reg_id_isar1'' t_u32,
    Member ''reg_id_isar2'' t_u32,
    Member ''reg_id_isar3'' t_u32,
    Member ''reg_id_isar4'' t_u32,
    Member ''reg_id_isar5'' t_u32,
    Member ''reg_id_isar6'' t_u32,
    Member ''reg_id_mmfr0'' t_u32,
    Member ''reg_id_mmfr1'' t_u32,
    Member ''reg_id_mmfr2'' t_u32,
    Member ''reg_id_mmfr3'' t_u32,
    Member ''reg_id_mmfr4'' t_u32,
    Member ''reg_id_mmfr5'' t_u32,
    Member ''reg_id_pfr0'' t_u32,
    Member ''reg_id_pfr1'' t_u32,
    Member ''reg_id_pfr2'' t_u32,
    Member ''reg_mvfr0'' t_u32,
    Member ''reg_mvfr1'' t_u32,
    Member ''reg_mvfr2'' t_u32]"

definition struct_cpuinfo_arm64 :: ctype where
  "struct_cpuinfo_arm64 = Comp Struct False [
    Member ''kobj'' struct_kobject,
    Member ''reg_ctr'' t_u64,
    Member ''reg_cntfrq'' t_u64,
    Member ''reg_dczid'' t_u64,
    Member ''reg_midr'' t_u64,
    Member ''reg_revidr'' t_u64,
    Member ''reg_aidr'' t_u64,
    Member ''reg_gmid'' t_u64,
    Member ''reg_smidr'' t_u64,
    Member ''reg_mpamidr'' t_u64,
    Member ''reg_id_aa64dfr0'' t_u64,
    Member ''reg_id_aa64dfr1'' t_u64,
    Member ''reg_id_aa64isar0'' t_u64,
    Member ''reg_id_aa64isar1'' t_u64,
    Member ''reg_id_aa64isar2'' t_u64,
    Member ''reg_id_aa64isar3'' t_u64,
    Member ''reg_id_aa64mmfr0'' t_u64,
    Member ''reg_id_aa64mmfr1'' t_u64,
    Member ''reg_id_aa64mmfr2'' t_u64,
    Member ''reg_id_aa64mmfr3'' t_u64,
    Member ''reg_id_aa64mmfr4'' t_u64,
    Member ''reg_id_aa64pfr0'' t_u64,
    Member ''reg_id_aa64pfr1'' t_u64,
    Member ''reg_id_aa64pfr2'' t_u64,
    Member ''reg_id_aa64zfr0'' t_u64,
    Member ''reg_id_aa64smfr0'' t_u64,
    Member ''reg_id_aa64fpfr0'' t_u64,
    Member ''aarch32'' struct_cpuinfo_32bit]"

definition enum_hash_algo :: ctype where
  "enum_hash_algo = Enum False [
    (''HASH_ALGO_MD4'', 0), (''HASH_ALGO_MD5'', 1), (''HASH_ALGO_SHA1'', 2),
    (''HASH_ALGO_RIPE_MD_160'', 3), (''HASH_ALGO_SHA256'', 4), (''HASH_ALGO_SHA384'', 5),
    (''HASH_ALGO_SHA512'', 6), (''HASH_ALGO_SHA224'', 7), (''HASH_ALGO_RIPE_MD_128'', 8),
    (''HASH_ALGO_RIPE_MD_256'', 9), (''HASH_ALGO_RIPE_MD_320'', 10), (''HASH_ALGO_WP_256'', 11),
    (''HASH_ALGO_WP_384'', 12), (''HASH_ALGO_WP_512'', 13), (''HASH_ALGO_TGR_128'', 14),
    (''HASH_ALGO_TGR_160'', 15), (''HASH_ALGO_TGR_192'', 16), (''HASH_ALGO_SM3_256'', 17),
    (''HASH_ALGO_STREEBOG_256'', 18), (''HASH_ALGO_STREEBOG_512'', 19),
    (''HASH_ALGO_SHA3_256'', 20), (''HASH_ALGO_SHA3_384'', 21), (''HASH_ALGO_SHA3_512'', 22),
    (''HASH_ALGO__LAST'', 23)]"

definition struct_ebt_entry :: ctype where
  "struct_ebt_entry = Comp Struct False [
    Member ''bitmask'' c_unsigned_int,
    Member ''invflags'' c_unsigned_int,
    Member ''ethproto'' t___be16,
    Member ''in'' (Array 16 c_char),
    Member ''logical_in'' (Array 16 c_char),
    Member ''out'' (Array 16 c_char),
    Member ''logical_out'' (Array 16 c_char),
    Member ''sourcemac'' (Array 6 c_unsigned_char),
    Member ''sourcemsk'' (Array 6 c_unsigned_char),
    Member ''destmac'' (Array 6 c_unsigned_char),
    Member ''destmsk'' (Array 6 c_unsigned_char),
    Member '''' (Comp Union False [
      Member '''' (Comp Struct False [
        Member ''watchers_offset'' c_unsigned_int,
        Member ''target_offset'' c_unsigned_int,
        Member ''next_offset'' c_unsigned_int]),
      Member ''offsets'' (Comp Struct False [
        Member ''watchers_offset'' c_unsigned_int,
        Member ''target_offset'' c_unsigned_int,
        Member ''next_offset'' c_unsigned_int])]),
    Member ''elems'' (Array 0 c_unsigned_char)]"

definition struct_trace_event_raw_drv_change_chanctx :: ctype where
  "struct_trace_event_raw_drv_change_chanctx = Comp Struct False [
    Member ''ent'' struct_trace_entry,
    Member ''wiphy_name'' (Array 32 c_char),
    Member ''control_freq'' t_u32,
    Member ''freq_offset'' t_u32,
    Member ''chan_width'' t_u32,
    Member ''center_freq1'' t_u32,
    Member ''freq1_offset'' t_u32,
    Member ''center_freq2'' t_u32,
    Member ''min_control_freq'' t_u32,
    Member ''min_freq_offset'' t_u32,
    Member ''min_chan_width'' t_u32,
    Member ''min_center_freq1'' t_u32,
    Member ''min_freq1_offset'' t_u32,
    Member ''min_center_freq2'' t_u32,
    Member ''ap_control_freq'' t_u32,
    Member ''ap_freq_offset'' t_u32,
    Member ''ap_chan_width'' t_u32,
    Member ''ap_center_freq1'' t_u32,
    Member ''ap_freq1_offset'' t_u32,
    Member ''ap_center_freq2'' t_u32,
    Member ''rx_chains_static'' t_u8,
    Member ''rx_chains_dynamic'' t_u8,
    Member ''changed'' t_u32,
    Member ''__data'' (Array 0 c_char)]"

definition struct_trace_event_raw_ovs_do_execute_action :: ctype where
  "struct_trace_event_raw_ovs_do_execute_action = Comp Struct False [
    Member ''ent'' struct_trace_entry,
    Member ''dpaddr'' (Ptr ''void *''),
    Member ''__data_loc_dp_name'' t_u32,
    Member ''__data_loc_dev_name'' t_u32,
    Member ''skbaddr'' (Ptr ''void *''),
    Member ''len'' c_unsigned_int,
    Member ''data_len'' c_unsigned_int,
    Member ''truesize'' c_unsigned_int,
    Member ''nr_frags'' t_u8,
    Member ''gso_size'' t_u16,
    Member ''gso_type'' t_u16,
    Member ''ovs_flow_hash'' t_u32,
    Member ''recirc_id'' t_u32,
    Member ''keyaddr'' (Ptr ''void *''),
    Member ''key_eth_type'' t_u16,
    Member ''key_ct_state'' t_u8,
    Member ''key_ct_orig_proto'' t_u8,
    Member ''key_ct_zone'' t_u16,
    Member ''flow_key_valid'' c_unsigned_int,
    Member ''action_type'' t_u8,
    Member ''action_len'' c_unsigned_int,
    Member ''action_data'' (Ptr ''void *''),
    Member ''is_last'' t_u8,
    Member ''__data'' (Array 0 c_char)]"

definition enum_nft_trace_attributes :: ctype where
  "enum_nft_trace_attributes = Enum False [
    (''NFTA_TRACE_UNSPEC'', 0), (''NFTA_TRACE_TABLE'', 1), (''NFTA_TRACE_CHAIN'', 2),
    (''NFTA_TRACE_RULE_HANDLE'', 3), (''NFTA_TRACE_TYPE'', 4), (''NFTA_TRACE_VERDICT'', 5),
    (''NFTA_TRACE_ID'', 6), (''NFTA_TRACE_LL_HEADER'', 7), (''NFTA_TRACE_NETWORK_HEADER'', 8),
    (''NFTA_TRACE_TRANSPORT_HEADER'', 9), (''NFTA_TRACE_IIF'', 10), (''NFTA_TRACE_IIFTYPE'', 11),
    (''NFTA_TRACE_OIF'', 12), (''NFTA_TRACE_OIFTYPE'', 13), (''NFTA_TRACE_MARK'', 14),
    (''NFTA_TRACE_NFPROTO'', 15), (''NFTA_TRACE_POLICY'', 16), (''NFTA_TRACE_PAD'', 17),
    (''NFTA_TRACE_CT_ID'', 18), (''NFTA_TRACE_CT_DIRECTION'', 19), (''NFTA_TRACE_CT_STATUS'', 20),
    (''NFTA_TRACE_CT_STATE'', 21), (''__NFTA_TRACE_MAX'', 22)]"

definition enum_sctp_cid :: ctype where
  "enum_sctp_cid = Enum False [
    (''SCTP_CID_DATA'', 0), (''SCTP_CID_INIT'', 1), (''SCTP_CID_INIT_ACK'', 2),
    (''SCTP_CID_SACK'', 3), (''SCTP_CID_HEARTBEAT'', 4), (''SCTP_CID_HEARTBEAT_ACK'', 5),
    (''SCTP_CID_ABORT'', 6), (''SCTP_CID_SHUTDOWN'', 7), (''SCTP_CID_SHUTDOWN_ACK'', 8),
    (''SCTP_CID_ERROR'', 9), (''SCTP_CID_COOKIE_ECHO'', 10), (''SCTP_CID_COOKIE_ACK'', 11),
    (''SCTP_CID_ECN_ECNE'', 12), (''SCTP_CID_ECN_CWR'', 13), (''SCTP_CID_SHUTDOWN_COMPLETE'', 14),
    (''SCTP_CID_AUTH'', 15), (''SCTP_CID_I_DATA'', 64), (''SCTP_CID_FWD_TSN'', 192),
    (''SCTP_CID_ASCONF'', 193), (''SCTP_CID_I_FWD_TSN'', 194), (''SCTP_CID_ASCONF_ACK'', 128),
    (''SCTP_CID_RECONF'', 130), (''SCTP_CID_PAD'', 132)]"

definition struct_btf_show :: ctype where
  "struct_btf_show = Comp Struct False [
    Member ''flags'' t_u64,
    Member ''target'' (Ptr ''void *''),
    Member ''showfn'' (Ptr ''void (*)(struct btf_show *, const char *, va_list)''),
    Member ''btf'' (Ptr ''struct btf *''),
    Member ''state'' (Comp Struct False [
      Member ''depth'' t_u8,
      Member ''depth_to_show'' t_u8,
      Member ''depth_check'' t_u8,
      BitField ''array_member'' t_u8 1,
      BitField ''array_terminated'' t_u8 1,
      Member ''array_encoding'' t_u16,
      Member ''type_id'' t_u32,
      Member ''status'' c_int,
      Member ''type'' (Ptr ''struct btf_type *''),
      Member ''member'' (Ptr ''struct btf_member *''),
      Member ''name'' (Array 80 c_char)]),
    Member ''obj'' (Comp Struct False [
      Member ''size'' t_u32,
      Member ''head'' (Ptr ''void *''),
      Member ''data'' (Ptr ''void *''),
      Member ''safe'' (Array 32 t_u8)])]"

definition struct_common_audit_data :: ctype where
  "struct_common_audit_data = Comp Struct False [
    Member ''type'' c_char,
    Member ''u'' (Comp Union False [
      Member ''path'' struct_path,
      Member ''dentry'' (Ptr ''struct dentry *''),
      Member ''inode'' (Ptr ''struct inode *''),
      Member ''net'' (Ptr ''struct lsm_network_audit *''),
      Member ''cap'' c_int,
      Member ''ipc_id'' c_int,
      Member ''tsk'' (Ptr ''struct task_struct *''),
      Member ''key_struct'' (Comp Struct False [
        Member ''key'' t_key_serial_t,
        Member ''key_desc'' (Ptr ''char *'')]),
      Member ''kmod_name'' (Ptr ''char *''),
      Member ''op'' (Ptr ''struct lsm_ioctlop_audit *''),
      Member ''file'' (Ptr ''struct file *''),
      Member ''ibpkey'' (Ptr ''struct lsm_ibpkey_audit *''),
      Member ''ibendport'' (Ptr ''struct lsm_ibendport_audit *''),
      Member ''reason'' c_int,
      Member ''anonclass'' (Ptr ''char *''),
      Member ''nlmsg_type'' t_u16]),
    Member '''' (Comp Union False [])]"

definition struct_dev_pm_ops :: ctype where
  "struct_dev_pm_ops = Comp Struct False [
    Member ''prepare'' (Ptr ''int (*)(struct device *)''),
    Member ''complete'' (Ptr ''void (*)(struct device *)''),
    Member ''suspend'' (Ptr ''int (*)(struct device *)''),
    Member ''resume'' (Ptr ''int (*)(struct device *)''),
    Member ''freeze'' (Ptr ''int (*)(struct device *)''),
    Member ''thaw'' (Ptr ''int (*)(struct device *)''),
    Member ''poweroff'' (Ptr ''int (*)(struct device *)''),
    Member ''restore'' (Ptr ''int (*)(struct device *)''),
    Member ''suspend_late'' (Ptr ''int (*)(struct device *)''),
    Member ''resume_early'' (Ptr ''int (*)(struct device *)''),
    Member ''freeze_late'' (Ptr ''int (*)(struct device *)''),
    Member ''thaw_early'' (Ptr ''int (*)(struct device *)''),
    Member ''poweroff_late'' (Ptr ''int (*)(struct device *)''),
    Member ''restore_early'' (Ptr ''int (*)(struct device *)''),
    Member ''suspend_noirq'' (Ptr ''int (*)(struct device *)''),
    Member ''resume_noirq'' (Ptr ''int (*)(struct device *)''),
    Member ''freeze_noirq'' (Ptr ''int (*)(struct device *)''),
    Member ''thaw_noirq'' (Ptr ''int (*)(struct device *)''),
    Member ''poweroff_noirq'' (Ptr ''int (*)(struct device *)''),
    Member ''restore_noirq'' (Ptr ''int (*)(struct device *)''),
    Member ''runtime_suspend'' (Ptr ''int (*)(struct device *)''),
    Member ''runtime_resume'' (Ptr ''int (*)(struct device *)''),
    Member ''runtime_idle'' (Ptr ''int (*)(struct device *)'')]"

definition t_swp_entry_t :: ctype where
  "t_swp_entry_t = Comp Struct False [
    Member ''val'' c_unsigned_long]"

definition t_mm_id_mapcount_t :: ctype where
  "t_mm_id_mapcount_t = c_int"

definition struct_folio :: ctype where
  "struct_folio = Comp Struct False [
    Member '''' (Comp Union False [
      Member '''' (Comp Struct False [
        Member ''flags'' c_unsigned_long,
        Member '''' (Comp Union False [
          Member ''lru'' struct_list_head,
          Member '''' (Comp Struct False [
            Member ''__filler'' (Ptr ''void *''),
            Member ''mlock_count'' c_unsigned_int]),
          Member ''pgmap'' (Ptr ''struct dev_pagemap *'')]),
        Member ''mapping'' (Ptr ''struct address_space *''),
        Member '''' (Comp Union False [
          Member ''index'' c_unsigned_long,
          Member ''share'' c_unsigned_long]),
        Member '''' (Comp Union False [
          Member ''private'' (Ptr ''void *''),
          Member ''swap'' t_swp_entry_t]),
        Member ''_mapcount'' t_atomic_t,
        Member ''_refcount'' t_atomic_t,
        Member ''memcg_data'' c_unsigned_long]),
      Member ''page'' struct_page]),
    Member '''' (Comp Union False [
      Member '''' (Comp Struct False [
        Member ''_flags_1'' c_unsigned_long,
        Member ''_head_1'' c_unsigned_long,
        Member '''' (Comp Union False [
          Member '''' (Comp Struct False [
            Member ''_large_mapcount'' t_atomic_t,
            Member ''_nr_pages_mapped'' t_atomic_t,
            Member ''_entire_mapcount'' t_atomic_t,
            Member ''_pincount'' t_atomic_t,
            Member ''_mm_id_mapcount'' (Array 2 t_mm_id_mapcount_t),
            Member '''' (Comp Union False [
              Member ''_mm_id'' (Array 2 t_mm_id_t),
              Member ''_mm_ids'' c_unsigned_long])]),
          Member ''_usable_1'' (Array 4 c_unsigned_long)]),
        Member ''_mapcount_1'' t_atomic_t,
        Member ''_refcount_1'' t_atomic_t,
        Member ''_nr_pages'' c_unsigned_int]),
      Member ''__page_1'' struct_page]),
    Member '''' (Comp Union False [
      Member '''' (Comp Struct False [
        Member ''_flags_2'' c_unsigned_long,
        Member ''_head_2'' c_unsigned_long,
        Member ''_deferred_list'' struct_list_head]),
      Member ''__page_2'' struct_page]),
    Member '''' (Comp Union False [
      Member '''' (Comp Struct False [
        Member ''_flags_3'' c_unsigned_long,
        Member ''_head_3'' c_unsigned_long,
        Member ''_hugetlb_subpool'' (Ptr ''void *''),
        Member ''_hugetlb_cgroup'' (Ptr ''void *''),
        Member ''_hugetlb_cgroup_rsvd'' (Ptr ''void *''),
        Member ''_hugetlb_hwpoison'' (Ptr ''void *'')]),
      Member ''__page_3'' struct_page])]"

definition struct_mnt_namespace :: ctype where
  "struct_mnt_namespace = Comp Struct False [
    Member ''ns'' struct_ns_common,
    Member ''root'' (Ptr ''struct mount *''),
    Member '''' (Comp Struct False [
      Member ''mounts'' struct_rb_root,
      Member ''mnt_last_node'' (Ptr ''struct rb_node *''),
      Member ''mnt_first_node'' (Ptr ''struct rb_node *'')]),
    Member ''user_ns'' (Ptr ''struct user_namespace *''),
    Member ''ucounts'' (Ptr ''struct ucounts *''),
    Member ''seq'' t_u64,
    Member '''' (Comp Union False [
      Member ''poll'' t_wait_queue_head_t,
      Member ''mnt_ns_rcu'' struct_callback_head]),
    Member ''seq_origin'' t_u64,
    Member ''event'' t_u64,
    Member ''n_fsnotify_mask'' t___u32,
    Member ''n_fsnotify_marks'' (Ptr ''struct fsnotify_mark_connector *''),
    Member ''nr_mounts'' c_unsigned_int,
    Member ''pending_mounts'' c_unsigned_int,
    Member ''mnt_ns_tree_node'' struct_rb_node,
    Member ''mnt_ns_list'' struct_list_head,
    Member ''passive'' t_refcount_t]"

definition union_rcu_noqs :: ctype where
  "union_rcu_noqs = Comp Union False [
    Member ''b'' (Comp Struct False [
      Member ''norm'' t_u8,
      Member ''exp'' t_u8]),
    Member ''s'' t_u16]"

definition struct_rcu_segcblist :: ctype where
  "struct_rcu_segcblist = Comp Struct False [
    Member ''head'' (Ptr ''struct callback_head *''),
    Member ''tails'' (Array 4 (Ptr ''struct callback_head **'')),
    Member ''gp_seq'' (Array 4 c_unsigned_long),
    Member ''len'' t_atomic_long_t,
    Member ''seglen'' (Array 4 c_long),
    Member ''flags'' t_u8]"

definition struct_rcu_cblist :: ctype where
  "struct_rcu_cblist = Comp Struct False [
    Member ''head'' (Ptr ''struct callback_head *''),
    Member ''tail'' (Ptr ''struct callback_head **''),
    Member ''len'' c_long]"

definition struct_rcu_snap_record :: ctype where
  "struct_rcu_snap_record = Comp Struct False [
    Member ''gp_seq'' c_unsigned_long,
    Member ''cputime_irq'' t_u64,
    Member ''cputime_softirq'' t_u64,
    Member ''cputime_system'' t_u64,
    Member ''nr_hardirqs'' t_u64,
    Member ''nr_softirqs'' c_unsigned_int,
    Member ''nr_csw'' c_unsigned_long_long,
    Member ''jiffies'' c_unsigned_long]"

definition struct_rcu_data :: ctype where
  "struct_rcu_data = Comp Struct False ([
    Member ''gp_seq'' c_unsigned_long,
    Member ''gp_seq_needed'' c_unsigned_long,
    Member ''cpu_no_qs'' union_rcu_noqs,
    Member ''core_needs_qs'' t_bool,
    Member ''beenonline'' t_bool,
    Member ''gpwrap'' t_bool,
    Member ''gpwrap_count'' c_unsigned_int,
    Member ''cpu_started'' t_bool,
    Member ''mynode'' (Ptr ''struct rcu_node *''),
    Member ''grpmask'' c_unsigned_long,
    Member ''ticks_this_gp'' c_unsigned_long,
    Member ''defer_qs_iw'' struct_irq_work,
    Member ''defer_qs_iw_pending'' c_int,
    Member ''strict_work'' struct_work_struct,
    Member ''cblist'' struct_rcu_segcblist,
    Member ''qlen_last_fqs_check'' c_long,
    Member ''n_cbs_invoked'' c_unsigned_long,
    Member ''n_force_qs_snap'' c_unsigned_long,
    Member ''blimit'' c_long,
    Member ''watching_snap'' c_int,
    Member ''rcu_need_heavy_qs'' t_bool,
    Member ''rcu_urgent_qs'' t_bool,
    Member ''rcu_forced_tick'' t_bool,
    Member ''rcu_forced_tick_exp'' t_bool,
    Member ''barrier_seq_snap'' c_unsigned_long,
    Member ''barrier_head'' struct_callback_head,
    Member ''exp_watching_snap'' c_int,
    Member ''nocb_cb_wq'' struct_swait_queue_head,
    Member ''nocb_state_wq'' struct_swait_queue_head,
    Member ''nocb_gp_kthread'' (Ptr ''struct task_struct *''),
    Member ''nocb_lock'' t_raw_spinlock_t,
    Member ''nocb_defer_wakeup'' c_int,
    Member ''nocb_timer'' struct_timer_list,
    Member ''nocb_gp_adv_time'' c_unsigned_long,
    Member ''nocb_gp_kthread_mutex'' struct_mutex,
    BitField '''' c_long 64,
    BitField '''' c_long 64,
    BitField '''' c_long 64,
    BitField '''' c_long 64,
    BitField '''' c_long 64,
    BitField '''' c_long 64,
    Member ''nocb_bypass_lock'' t_raw_spinlock_t,
    Member ''nocb_bypass'' struct_rcu_cblist,
    Member ''nocb_bypass_first'' c_unsigned_long,
    Member ''nocb_nobypass_last'' c_unsigned_long,
    Member ''nocb_nobypass_count'' c_int] @ replicate 9 (BitField '''' c_long 64) @ [
    Member ''nocb_gp_lock'' t_raw_spinlock_t,
    Member ''nocb_gp_sleep'' t_u8,
    Member ''nocb_gp_bypass'' t_u8,
    Member ''nocb_gp_gp'' t_u8,
    Member ''nocb_gp_seq'' c_unsigned_long,
    Member ''nocb_gp_loops'' c_unsigned_long,
    Member ''nocb_gp_wq'' struct_swait_queue_head,
    Member ''nocb_cb_sleep'' t_bool,
    Member ''nocb_cb_kthread'' (Ptr ''struct task_struct *''),
    Member ''nocb_head_rdp'' struct_list_head,
    Member ''nocb_entry_rdp'' struct_list_head,
    Member ''nocb_toggling_rdp'' (Ptr ''struct rcu_data *''),
    BitField '''' c_long 64,
    BitField '''' c_long 64,
    BitField '''' c_long 64,
    Member ''nocb_gp_rdp'' (Ptr ''struct rcu_data *''),
    Member ''rcu_cpu_kthread_task'' (Ptr ''struct task_struct *''),
    Member ''rcu_cpu_kthread_status'' c_unsigned_int,
    Member ''rcu_cpu_has_work'' c_char,
    Member ''rcuc_activity'' c_unsigned_long,
    Member ''softirq_snap'' c_unsigned_int,
    Member ''rcu_iw'' struct_irq_work,
    Member ''rcu_iw_pending'' t_bool,
    Member ''rcu_iw_gp_seq'' c_unsigned_long,
    Member ''rcu_ofl_gp_seq'' c_unsigned_long,
    Member ''rcu_ofl_gp_state'' c_short,
    Member ''rcu_onl_gp_seq'' c_unsigned_long,
    Member ''rcu_onl_gp_state'' c_short,
    Member ''last_fqs_resched'' c_unsigned_long,
    Member ''last_sched_clock'' c_unsigned_long,
    Member ''snap_record'' struct_rcu_snap_record,
    Member ''lazy_len'' c_long,
    Member ''cpu'' c_int,
    BitField '''' c_long 64,
    BitField '''' c_long 64,
    BitField '''' c_long 64,
    BitField '''' c_long 64,
    BitField '''' c_long 64])"

definition struct_tick_sched :: ctype where
  "struct_tick_sched = Comp Struct False [
    Member ''flags'' c_unsigned_long,
    Member ''stalled_jiffies'' c_unsigned_int,
    Member ''last_tick_jiffies'' c_unsigned_long,
    Member ''sched_timer'' struct_hrtimer,
    Member ''last_tick'' t_ktime_t,
    Member ''next_tick'' t_ktime_t,
    Member ''idle_jiffies'' c_unsigned_long,
    Member ''idle_waketime'' t_ktime_t,
    Member ''got_idle_tick'' c_unsigned_int,
    Member ''idle_sleeptime_seq'' t_seqcount_t,
    Member ''idle_entrytime'' t_ktime_t,
    Member ''last_jiffies'' c_unsigned_long,
    Member ''timer_expires_base'' t_u64,
    Member ''timer_expires'' t_u64,
    Member ''next_timer'' t_u64,
    Member ''idle_expires'' t_ktime_t,
    Member ''idle_calls'' c_unsigned_long,
    Member ''idle_sleeps'' c_unsigned_long,
    Member ''idle_exittime'' t_ktime_t,
    Member ''idle_sleeptime'' t_ktime_t,
    Member ''iowait_sleeptime'' t_ktime_t,
    Member ''tick_dep_mask'' t_atomic_t,
    Member ''check_clocks'' c_unsigned_long]"

definition struct_trace_event_raw_local_chanctx :: ctype where
  "struct_trace_event_raw_local_chanctx = Comp Struct False [
    Member ''ent'' struct_trace_entry,
    Member ''wiphy_name'' (Array 32 c_char),
    Member ''control_freq'' t_u32,
    Member ''freq_offset'' t_u32,
    Member ''chan_width'' t_u32,
    Member ''center_freq1'' t_u32,
    Member ''freq1_offset'' t_u32,
    Member ''center_freq2'' t_u32,
    Member ''min_control_freq'' t_u32,
    Member ''min_freq_offset'' t_u32,
    Member ''min_chan_width'' t_u32,
    Member ''min_center_freq1'' t_u32,
    Member ''min_freq1_offset'' t_u32,
    Member ''min_center_freq2'' t_u32,
    Member ''ap_control_freq'' t_u32,
    Member ''ap_freq_offset'' t_u32,
    Member ''ap_chan_width'' t_u32,
    Member ''ap_center_freq1'' t_u32,
    Member ''ap_freq1_offset'' t_u32,
    Member ''ap_center_freq2'' t_u32,
    Member ''rx_chains_static'' t_u8,
    Member ''rx_chains_dynamic'' t_u8,
    Member ''__data'' (Array 0 c_char)]"

definition struct_trace_event_raw_nfs4_copy :: ctype where
  "struct_trace_event_raw_nfs4_copy = Comp Struct False [
    Member ''ent'' struct_trace_entry,
    Member ''error'' c_unsigned_long,
    Member ''src_fhandle'' t_u32,
    Member ''src_fileid'' t_u32,
    Member ''dst_fhandle'' t_u32,
    Member ''dst_fileid'' t_u32,
    Member ''src_dev'' t_dev_t,
    Member ''dst_dev'' t_dev_t,
    Member ''src_stateid_seq'' c_int,
    Member ''src_stateid_hash'' t_u32,
    Member ''dst_stateid_seq'' c_int,
    Member ''dst_stateid_hash'' t_u32,
    Member ''src_offset'' t_loff_t,
    Member ''dst_offset'' t_loff_t,
    Member ''sync'' t_bool,
    Member ''len'' t_loff_t,
    Member ''res_stateid_seq'' c_int,
    Member ''res_stateid_hash'' t_u32,
    Member ''res_count'' t_loff_t,
    Member ''res_sync'' t_bool,
    Member ''res_cons'' t_bool,
    Member ''intra'' t_bool,
    Member ''__data'' (Array 0 c_char)]"

definition struct_trace_event_raw_ovs_dp_upcall :: ctype where
  "struct_trace_event_raw_ovs_dp_upcall = Comp Struct False [
    Member ''ent'' struct_trace_entry,
    Member ''dpaddr'' (Ptr ''void *''),
    Member ''__data_loc_dp_name'' t_u32,
    Member ''__data_loc_dev_name'' t_u32,
    Member ''skbaddr'' (Ptr ''void *''),
    Member ''len'' c_unsigned_int,
    Member ''data_len'' c_unsigned_int,
    Member ''truesize'' c_unsigned_int,
    Member ''nr_frags'' t_u8,
    Member ''gso_size'' t_u16,
    Member ''gso_type'' t_u16,
    Member ''ovs_flow_hash'' t_u32,
    Member ''recirc_id'' t_u32,
    Member ''keyaddr'' (Ptr ''void *''),
    Member ''key_eth_type'' t_u16,
    Member ''key_ct_state'' t_u8,
    Member ''key_ct_orig_proto'' t_u8,
    Member ''key_ct_zone'' t_u16,
    Member ''flow_key_valid'' c_unsigned_int,
    Member ''upcall_cmd'' t_u8,
    Member ''upcall_port'' t_u32,
    Member ''upcall_mru'' t_u16,
    Member ''__data'' (Array 0 c_char)]"

definition struct_worker_pool :: ctype where
  "struct_worker_pool = Comp Struct False [
    Member ''lock'' t_raw_spinlock_t,
    Member ''cpu'' c_int,
    Member ''node'' c_int,
    Member ''id'' c_int,
    Member ''flags'' c_unsigned_int,
    Member ''watchdog_ts'' c_unsigned_long,
    Member ''cpu_stall'' t_bool,
    Member ''nr_running'' c_int,
    Member ''worklist'' struct_list_head,
    Member ''nr_workers'' c_int,
    Member ''nr_idle'' c_int,
    Member ''idle_list'' struct_list_head,
    Member ''idle_timer'' struct_timer_list,
    Member ''idle_cull_work'' struct_work_struct,
    Member ''mayday_timer'' struct_timer_list,
    Member ''busy_hash'' (Array 64 struct_hlist_head),
    Member ''manager'' (Ptr ''struct worker *''),
    Member ''workers'' struct_list_head,
    Member ''worker_ida'' struct_ida,
    Member ''attrs'' (Ptr ''struct workqueue_attrs *''),
    Member ''hash_node'' struct_hlist_node,
    Member ''refcnt'' c_int,
    Member ''rcu'' struct_callback_head]"

definition struct_xt_conntrack_mtinfo3 :: ctype where
  "struct_xt_conntrack_mtinfo3 = Comp Struct False [
    Member ''origsrc_addr'' union_nf_inet_addr,
    Member ''origsrc_mask'' union_nf_inet_addr,
    Member ''origdst_addr'' union_nf_inet_addr,
    Member ''origdst_mask'' union_nf_inet_addr,
    Member ''replsrc_addr'' union_nf_inet_addr,
    Member ''replsrc_mask'' union_nf_inet_addr,
    Member ''repldst_addr'' union_nf_inet_addr,
    Member ''repldst_mask'' union_nf_inet_addr,
    Member ''expires_min'' t___u32,
    Member ''expires_max'' t___u32,
    Member ''l4proto'' t___u16,
    Member ''origsrc_port'' t___u16,
    Member ''origdst_port'' t___u16,
    Member ''replsrc_port'' t___u16,
    Member ''repldst_port'' t___u16,
    Member ''match_flags'' t___u16,
    Member ''invert_flags'' t___u16,
    Member ''state_mask'' t___u16,
    Member ''status_mask'' t___u16,
    Member ''origsrc_port_high'' t___u16,
    Member ''origdst_port_high'' t___u16,
    Member ''replsrc_port_high'' t___u16,
    Member ''repldst_port_high'' t___u16]"

definition enum_audit_nfcfgop :: ctype where
  "enum_audit_nfcfgop = Enum False [
    (''AUDIT_XT_OP_REGISTER'', 0), (''AUDIT_XT_OP_REPLACE'', 1), (''AUDIT_XT_OP_UNREGISTER'', 2),
    (''AUDIT_NFT_OP_TABLE_REGISTER'', 3), (''AUDIT_NFT_OP_TABLE_UNREGISTER'', 4),
    (''AUDIT_NFT_OP_CHAIN_REGISTER'', 5), (''AUDIT_NFT_OP_CHAIN_UNREGISTER'', 6),
    (''AUDIT_NFT_OP_RULE_REGISTER'', 7), (''AUDIT_NFT_OP_RULE_UNREGISTER'', 8),
    (''AUDIT_NFT_OP_SET_REGISTER'', 9), (''AUDIT_NFT_OP_SET_UNREGISTER'', 10),
    (''AUDIT_NFT_OP_SETELEM_REGISTER'', 11), (''AUDIT_NFT_OP_SETELEM_UNREGISTER'', 12),
    (''AUDIT_NFT_OP_GEN_REGISTER'', 13), (''AUDIT_NFT_OP_OBJ_REGISTER'', 14),
    (''AUDIT_NFT_OP_OBJ_UNREGISTER'', 15), (''AUDIT_NFT_OP_OBJ_RESET'', 16),
    (''AUDIT_NFT_OP_FLOWTABLE_REGISTER'', 17), (''AUDIT_NFT_OP_FLOWTABLE_UNREGISTER'', 18),
    (''AUDIT_NFT_OP_SETELEM_RESET'', 19), (''AUDIT_NFT_OP_RULE_RESET'', 20),
    (''AUDIT_NFT_OP_INVALID'', 21)]"

definition enum_nft_registers :: ctype where
  "enum_nft_registers = Enum False [
    (''NFT_REG_VERDICT'', 0), (''NFT_REG_1'', 1), (''NFT_REG_2'', 2), (''NFT_REG_3'', 3),
    (''NFT_REG_4'', 4), (''__NFT_REG_MAX'', 5), (''NFT_REG32_00'', 8), (''NFT_REG32_01'', 9),
    (''NFT_REG32_02'', 10), (''NFT_REG32_03'', 11), (''NFT_REG32_04'', 12),
    (''NFT_REG32_05'', 13), (''NFT_REG32_06'', 14), (''NFT_REG32_07'', 15),
    (''NFT_REG32_08'', 16), (''NFT_REG32_09'', 17), (''NFT_REG32_10'', 18),
    (''NFT_REG32_11'', 19), (''NFT_REG32_12'', 20), (''NFT_REG32_13'', 21),
    (''NFT_REG32_14'', 22), (''NFT_REG32_15'', 23)]"

definition enum_nft_set_attributes :: ctype where
  "enum_nft_set_attributes = Enum False [
    (''NFTA_SET_UNSPEC'', 0), (''NFTA_SET_TABLE'', 1), (''NFTA_SET_NAME'', 2),
    (''NFTA_SET_FLAGS'', 3), (''NFTA_SET_KEY_TYPE'', 4), (''NFTA_SET_KEY_LEN'', 5),
    (''NFTA_SET_DATA_TYPE'', 6), (''NFTA_SET_DATA_LEN'', 7), (''NFTA_SET_POLICY'', 8),
    (''NFTA_SET_DESC'', 9), (''NFTA_SET_ID'', 10), (''NFTA_SET_TIMEOUT'', 11),
    (''NFTA_SET_GC_INTERVAL'', 12), (''NFTA_SET_USERDATA'', 13), (''NFTA_SET_PAD'', 14),
    (''NFTA_SET_OBJ_TYPE'', 15), (''NFTA_SET_HANDLE'', 16), (''NFTA_SET_EXPR'', 17),
    (''NFTA_SET_EXPRESSIONS'', 18), (''NFTA_SET_TYPE'', 19), (''NFTA_SET_COUNT'', 20),
    (''__NFTA_SET_MAX'', 21)]"

definition enum_perf_event_type :: ctype where
  "enum_perf_event_type = Enum False [
    (''PERF_RECORD_MMAP'', 1), (''PERF_RECORD_LOST'', 2), (''PERF_RECORD_COMM'', 3),
    (''PERF_RECORD_EXIT'', 4), (''PERF_RECORD_THROTTLE'', 5), (''PERF_RECORD_UNTHROTTLE'', 6),
    (''PERF_RECORD_FORK'', 7), (''PERF_RECORD_READ'', 8), (''PERF_RECORD_SAMPLE'', 9),
    (''PERF_RECORD_MMAP2'', 10), (''PERF_RECORD_AUX'', 11), (''PERF_RECORD_ITRACE_START'', 12),
    (''PERF_RECORD_LOST_SAMPLES'', 13), (''PERF_RECORD_SWITCH'', 14),
    (''PERF_RECORD_SWITCH_CPU_WIDE'', 15), (''PERF_RECORD_NAMESPACES'', 16),
    (''PERF_RECORD_KSYMBOL'', 17), (''PERF_RECORD_BPF_EVENT'', 18), (''PERF_RECORD_CGROUP'', 19),
    (''PERF_RECORD_TEXT_POKE'', 20), (''PERF_RECORD_AUX_OUTPUT_HW_ID'', 21),
    (''PERF_RECORD_MAX'', 22)]"

definition enum_trace_type :: ctype where
  "enum_trace_type = Enum False [
    (''__TRACE_FIRST_TYPE'', 0), (''TRACE_FN'', 1), (''TRACE_CTX'', 2), (''TRACE_WAKE'', 3),
    (''TRACE_STACK'', 4), (''TRACE_PRINT'', 5), (''TRACE_BPRINT'', 6), (''TRACE_MMIO_RW'', 7),
    (''TRACE_MMIO_MAP'', 8), (''TRACE_BRANCH'', 9), (''TRACE_GRAPH_RET'', 10),
    (''TRACE_GRAPH_ENT'', 11), (''TRACE_GRAPH_RETADDR_ENT'', 12), (''TRACE_USER_STACK'', 13),
    (''TRACE_BLK'', 14), (''TRACE_BPUTS'', 15), (''TRACE_HWLAT'', 16), (''TRACE_OSNOISE'', 17),
    (''TRACE_TIMERLAT'', 18), (''TRACE_RAW_DATA'', 19), (''TRACE_FUNC_REPEATS'', 20),
    (''__TRACE_LAST_TYPE'', 21)]"

definition struct_css_set :: ctype where
  "struct_css_set = Comp Struct False [
    Member ''subsys'' (Array 11 (Ptr ''struct cgroup_subsys_state *'')),
    Member ''refcount'' t_refcount_t,
    Member ''dom_cset'' (Ptr ''struct css_set *''),
    Member ''dfl_cgrp'' (Ptr ''struct cgroup *''),
    Member ''nr_tasks'' c_int,
    Member ''tasks'' struct_list_head,
    Member ''mg_tasks'' struct_list_head,
    Member ''dying_tasks'' struct_list_head,
    Member ''task_iters'' struct_list_head,
    Member ''e_cset_node'' (Array 11 struct_list_head),
    Member ''threaded_csets'' struct_list_head,
    Member ''threaded_csets_node'' struct_list_head,
    Member ''hlist'' struct_hlist_node,
    Member ''cgrp_links'' struct_list_head,
    Member ''mg_src_preload_node'' struct_list_head,
    Member ''mg_dst_preload_node'' struct_list_head,
    Member ''mg_node'' struct_list_head,
    Member ''mg_src_cgrp'' (Ptr ''struct cgroup *''),
    Member ''mg_dst_cgrp'' (Ptr ''struct cgroup *''),
    Member ''mg_dst_cset'' (Ptr ''struct css_set *''),
    Member ''dead'' t_bool,
    Member ''callback_head'' struct_callback_head]"

definition struct_kernel_clone_args :: ctype where
  "struct_kernel_clone_args = Comp Struct False [
    Member ''flags'' t_u64,
    Member ''pidfd'' (Ptr ''int *''),
    Member ''child_tid'' (Ptr ''int *''),
    Member ''parent_tid'' (Ptr ''int *''),
    Member ''name'' (Ptr ''char *''),
    Member ''exit_signal'' c_int,
    BitField ''kthread'' t_u32 1,
    BitField ''io_thread'' t_u32 1,
    BitField ''user_worker'' t_u32 1,
    BitField ''no_files'' t_u32 1,
    Member ''stack'' c_unsigned_long,
    Member ''stack_size'' c_unsigned_long,
    Member ''tls'' c_unsigned_long,
    Member ''set_tid'' (Ptr ''pid_t *''),
    Member ''set_tid_size'' t_size_t,
    Member ''cgroup'' c_int,
    Member ''idle'' c_int,
    Member ''fn'' (Ptr ''int (*)(void *)''),
    Member ''fn_arg'' (Ptr ''void *''),
    Member ''cgrp'' (Ptr ''struct cgroup *''),
    Member ''cset'' (Ptr ''struct css_set *''),
    Member ''kill_seq'' c_unsigned_int]"

definition struct_mem_size_stats :: ctype where
  "struct_mem_size_stats = Comp Struct False [
    Member ''resident'' c_unsigned_long,
    Member ''shared_clean'' c_unsigned_long,
    Member ''shared_dirty'' c_unsigned_long,
    Member ''private_clean'' c_unsigned_long,
    Member ''private_dirty'' c_unsigned_long,
    Member ''referenced'' c_unsigned_long,
    Member ''anonymous'' c_unsigned_long,
    Member ''lazyfree'' c_unsigned_long,
    Member ''anonymous_thp'' c_unsigned_long,
    Member ''shmem_thp'' c_unsigned_long,
    Member ''file_thp'' c_unsigned_long,
    Member ''swap'' c_unsigned_long,
    Member ''shared_hugetlb'' c_unsigned_long,
    Member ''private_hugetlb'' c_unsigned_long,
    Member ''ksm'' c_unsigned_long,
    Member ''pss'' t_u64,
    Member ''pss_anon'' t_u64,
    Member ''pss_file'' t_u64,
    Member ''pss_shmem'' t_u64,
    Member ''pss_dirty'' t_u64,
    Member ''pss_locked'' t_u64,
    Member ''swap_pss'' t_u64]"

definition struct_signalfd_siginfo :: ctype where
  "struct_signalfd_siginfo = Comp Struct False [
    Member ''ssi_signo'' t___u32,
    Member ''ssi_errno'' t___s32,
    Member ''ssi_code'' t___s32,
    Member ''ssi_pid'' t___u32,
    Member ''ssi_uid'' t___u32,
    Member ''ssi_fd'' t___s32,
    Member ''ssi_tid'' t___u32,
    Member ''ssi_band'' t___u32,
    Member ''ssi_overrun'' t___u32,
    Member ''ssi_trapno'' t___u32,
    Member ''ssi_status'' t___s32,
    Member ''ssi_int'' t___s32,
    Member ''ssi_ptr'' t___u64,
    Member ''ssi_utime'' t___u64,
    Member ''ssi_stime'' t___u64,
    Member ''ssi_addr'' t___u64,
    Member ''ssi_addr_lsb'' t___u16,
    Member ''__pad2'' t___u16,
    Member ''ssi_syscall'' t___s32,
    Member ''ssi_call_addr'' t___u64,
    Member ''ssi_arch'' t___u32,
    Member ''__pad'' (Array 28 t___u8)]"

definition struct_trace_event_raw_ext4_mballoc_alloc :: ctype where
  "struct_trace_event_raw_ext4_mballoc_alloc = Comp Struct False [
    Member ''ent'' struct_trace_entry,
    Member ''dev'' t_dev_t,
    Member ''ino'' t_ino_t,
    Member ''orig_logical'' t___u32,
    Member ''orig_start'' c_int,
    Member ''orig_group'' t___u32,
    Member ''orig_len'' c_int,
    Member ''goal_logical'' t___u32,
    Member ''goal_start'' c_int,
    Member ''goal_group'' t___u32,
    Member ''goal_len'' c_int,
    Member ''result_logical'' t___u32,
    Member ''result_start'' c_int,
    Member ''result_group'' t___u32,
    Member ''result_len'' c_int,
    Member ''found'' t___u16,
    Member ''groups'' t___u16,
    Member ''buddy'' t___u16,
    Member ''flags'' t___u16,
    Member ''tail'' t___u16,
    Member ''cr'' t___u8,
    Member ''__data'' (Array 0 c_char)]"

definition struct_trace_event_raw_rdev_start_ap :: ctype where
  "struct_trace_event_raw_rdev_start_ap = Comp Struct False [
    Member ''ent'' struct_trace_entry,
    Member ''wiphy_name'' (Array 32 c_char),
    Member ''name'' (Array 16 c_char),
    Member ''ifindex'' c_int,
    Member ''band'' enum_nl80211_band,
    Member ''control_freq'' t_u32,
    Member ''freq_offset'' t_u32,
    Member ''width'' t_u32,
    Member ''center_freq1'' t_u32,
    Member ''freq1_offset'' t_u32,
    Member ''center_freq2'' t_u32,
    Member ''punctured'' t_u16,
    Member ''beacon_interval'' c_int,
    Member ''dtim_period'' c_int,
    Member ''ssid'' (Array 33 c_char),
    Member ''hidden_ssid'' enum_nl80211_hidden_ssid,
    Member ''wpa_ver'' t_u32,
    Member ''privacy'' t_bool,
    Member ''auth_type'' enum_nl80211_auth_type,
    Member ''inactivity_timeout'' c_int,
    Member ''link_id'' c_unsigned_int,
    Member ''__data'' (Array 0 c_char)]"

definition struct_tracer :: ctype where
  "struct_tracer = Comp Struct False [
    Member ''name'' (Ptr ''char *''),
    Member ''init'' (Ptr ''int (*)(struct trace_array *)''),
    Member ''reset'' (Ptr ''void (*)(struct trace_array *)''),
    Member ''start'' (Ptr ''void (*)(struct trace_array *)''),
    Member ''stop'' (Ptr ''void (*)(struct trace_array *)''),
    Member ''update_thresh'' (Ptr ''int (*)(struct trace_array *)''),
    Member ''open'' (Ptr ''void (*)(struct trace_iterator *)''),
    Member ''pipe_open'' (Ptr ''void (*)(struct trace_iterator *)''),
    Member ''close'' (Ptr ''void (*)(struct trace_iterator *)''),
    Member ''pipe_close'' (Ptr ''void (*)(struct trace_iterator *)''),
    Member ''read'' (Ptr ''ssize_t (*)(struct trace_iterator *, struct file *, char *, size_t, loff_t *)''),
    Member ''splice_read'' (Ptr ''ssize_t (*)(struct trace_iterator *, struct file *, loff_t *, struct pipe_inode_info *, size_t, unsigned int)''),
    Member ''print_header'' (Ptr ''void (*)(struct seq_file *)''),
    Member ''print_line'' (Ptr ''enum print_line_t (*)(struct trace_iterator *)''),
    Member ''set_flag'' (Ptr ''int (*)(struct trace_array *, u32, u32, int)''),
    Member ''flag_changed'' (Ptr ''int (*)(struct trace_array *, u32, int)''),
    Member ''next'' (Ptr ''struct tracer *''),
    Member ''flags'' (Ptr ''struct tracer_flags *''),
    Member ''enabled'' c_int,
    Member ''print_max'' t_bool,
    Member ''allow_instances'' t_bool,
    Member ''noboot'' t_bool]"

definition enum_perf_branch_sample_type :: ctype where
  "enum_perf_branch_sample_type = Enum False [
    (''PERF_SAMPLE_BRANCH_USER'', 1), (''PERF_SAMPLE_BRANCH_KERNEL'', 2),
    (''PERF_SAMPLE_BRANCH_HV'', 4), (''PERF_SAMPLE_BRANCH_ANY'', 8),
    (''PERF_SAMPLE_BRANCH_ANY_CALL'', 16), (''PERF_SAMPLE_BRANCH_ANY_RETURN'', 32),
    (''PERF_SAMPLE_BRANCH_IND_CALL'', 64), (''PERF_SAMPLE_BRANCH_ABORT_TX'', 128),
    (''PERF_SAMPLE_BRANCH_IN_TX'', 256), (''PERF_SAMPLE_BRANCH_NO_TX'', 512),
    (''PERF_SAMPLE_BRANCH_COND'', 1024), (''PERF_SAMPLE_BRANCH_CALL_STACK'', 2048),
    (''PERF_SAMPLE_BRANCH_IND_JUMP'', 4096), (''PERF_SAMPLE_BRANCH_CALL'', 8192),
    (''PERF_SAMPLE_BRANCH_NO_FLAGS'', 16384), (''PERF_SAMPLE_BRANCH_NO_CYCLES'', 32768),
    (''PERF_SAMPLE_BRANCH_TYPE_SAVE'', 65536), (''PERF_SAMPLE_BRANCH_HW_INDEX'', 131072),
    (''PERF_SAMPLE_BRANCH_PRIV_SAVE'', 262144), (''PERF_SAMPLE_BRANCH_COUNTERS'', 524288),
    (''PERF_SAMPLE_BRANCH_MAX'', 1048576)]"

definition enum_sctp_error :: ctype where
  "enum_sctp_error = Enum False [
    (''SCTP_ERROR_NO_ERROR'', 0), (''SCTP_ERROR_INV_STRM'', 256),
    (''SCTP_ERROR_MISS_PARAM'', 512), (''SCTP_ERROR_STALE_COOKIE'', 768),
    (''SCTP_ERROR_NO_RESOURCE'', 1024), (''SCTP_ERROR_DNS_FAILED'', 1280),
    (''SCTP_ERROR_UNKNOWN_CHUNK'', 1536), (''SCTP_ERROR_INV_PARAM'', 1792),
    (''SCTP_ERROR_UNKNOWN_PARAM'', 2048), (''SCTP_ERROR_NO_DATA'', 2304),
    (''SCTP_ERROR_COOKIE_IN_SHUTDOWN'', 2560), (''SCTP_ERROR_RESTART'', 2816),
    (''SCTP_ERROR_USER_ABORT'', 3072), (''SCTP_ERROR_PROTO_VIOLATION'', 3328),
    (''SCTP_ERROR_NEW_ENCAP_PORT'', 3584), (''SCTP_ERROR_DEL_LAST_IP'', 40960),
    (''SCTP_ERROR_RSRC_LOW'', 41216), (''SCTP_ERROR_DEL_SRC_IP'', 41472),
    (''SCTP_ERROR_ASCONF_ACK'', 41728), (''SCTP_ERROR_REQ_REFUSED'', 41984),
    (''SCTP_ERROR_UNSUP_HMAC'', 1281)]"

definition struct_bus_type :: ctype where
  "struct_bus_type = Comp Struct False [
    Member ''name'' (Ptr ''char *''),
    Member ''dev_name'' (Ptr ''char *''),
    Member ''bus_groups'' (Ptr ''struct attribute_group **''),
    Member ''dev_groups'' (Ptr ''struct attribute_group **''),
    Member ''drv_groups'' (Ptr ''struct attribute_group **''),
    Member ''match'' (Ptr ''int (*)(struct device *, const struct device_driver *)''),
    Member ''uevent'' (Ptr ''int (*)(const struct device *, struct kobj_uevent_env *)''),
    Member ''probe'' (Ptr ''int (*)(struct device *)''),
    Member ''sync_state'' (Ptr ''void (*)(struct device *)''),
    Member ''remove'' (Ptr ''void (*)(struct device *)''),
    Member ''shutdown'' (Ptr ''void (*)(struct device *)''),
    Member ''irq_get_affinity'' (Ptr ''struct cpumask * (*)(struct device *, unsigned int)''),
    Member ''online'' (Ptr ''int (*)(struct device *)''),
    Member ''offline'' (Ptr ''int (*)(struct device *)''),
    Member ''suspend'' (Ptr ''int (*)(struct device *, pm_message_t)''),
    Member ''resume'' (Ptr ''int (*)(struct device *)''),
    Member ''num_vf'' (Ptr ''int (*)(struct device *)''),
    Member ''dma_configure'' (Ptr ''int (*)(struct device *)''),
    Member ''dma_cleanup'' (Ptr ''void (*)(struct device *)''),
    Member ''pm'' (Ptr ''struct dev_pm_ops *''),
    Member ''need_parent_lock'' t_bool]"

definition struct_nft_set_ops :: ctype where
  "struct_nft_set_ops = Comp Struct False [
    Member ''lookup'' (Ptr ''struct nft_set_ext * (*)(const struct net *, const struct nft_set *, const u32 *)''),
    Member ''update'' (Ptr ''struct nft_set_ext * (*)(struct nft_set *, const u32 *, const struct nft_expr *, struct nft_regs *)''),
    Member ''delete'' (Ptr ''bool (*)(const struct nft_set *, const u32 *)''),
    Member ''insert'' (Ptr ''int (*)(const struct net *, const struct nft_set *, const struct nft_set_elem *, struct nft_elem_priv **)''),
    Member ''activate'' (Ptr ''void (*)(const struct net *, const struct nft_set *, struct nft_elem_priv *)''),
    Member ''deactivate'' (Ptr ''struct nft_elem_priv * (*)(const struct net *, const struct nft_set *, const struct nft_set_elem *)''),
    Member ''flush'' (Ptr ''void (*)(const struct net *, const struct nft_set *, struct nft_elem_priv *)''),
    Member ''remove'' (Ptr ''void (*)(const struct net *, const struct nft_set *, struct nft_elem_priv *)''),
    Member ''walk'' (Ptr ''void (*)(const struct nft_ctx *, struct nft_set *, struct nft_set_iter *)''),
    Member ''get'' (Ptr ''struct nft_elem_priv * (*)(const struct net *, const struct nft_set *, const struct nft_set_elem *, unsigned int)''),
    Member ''ksize'' (Ptr ''u32 (*)(u32)''),
    Member ''usize'' (Ptr ''u32 (*)(u32)''),
    Member ''adjust_maxsize'' (Ptr ''u32 (*)(const struct nft_set *)''),
    Member ''commit'' (Ptr ''void (*)(struct nft_set *)''),
    Member ''abort'' (Ptr ''void (*)(const struct nft_set *)''),
    Member ''privsize'' (Ptr ''u64 (*)(const struct nlattr * const *, const struct nft_set_desc *)''),
    Member ''estimate'' (Ptr ''bool (*)(const struct nft_set_desc *, u32, struct nft_set_estimate *)''),
    Member ''init'' (Ptr ''int (*)(const struct nft_set *, const struct nft_set_desc *, const struct nlattr * const *)''),
    Member ''destroy'' (Ptr ''void (*)(const struct nft_ctx *, const struct nft_set *)''),
    Member ''gc_init'' (Ptr ''void (*)(const struct nft_set *)''),
    Member ''elemsize'' c_unsigned_int]"

definition struct_trace_event_raw_nfsd_copy_async_done_class :: ctype where
  "struct_trace_event_raw_nfsd_copy_async_done_class = Comp Struct False [
    Member ''ent'' struct_trace_entry,
    Member ''status'' c_int,
    Member ''intra'' t_bool,
    Member ''async'' t_bool,
    Member ''src_cl_boot'' t_u32,
    Member ''src_cl_id'' t_u32,
    Member ''src_so_id'' t_u32,
    Member ''src_si_generation'' t_u32,
    Member ''dst_cl_boot'' t_u32,
    Member ''dst_cl_id'' t_u32,
    Member ''dst_so_id'' t_u32,
    Member ''dst_si_generation'' t_u32,
    Member ''cb_cl_boot'' t_u32,
    Member ''cb_cl_id'' t_u32,
    Member ''cb_so_id'' t_u32,
    Member ''cb_si_generation'' t_u32,
    Member ''src_cp_pos'' t_u64,
    Member ''dst_cp_pos'' t_u64,
    Member ''cp_count'' t_u64,
    Member ''__data_loc_addr'' t_u32,
    Member ''__data'' (Array 0 c_char)]"

definition struct_rt_mutex_base :: ctype where
  "struct_rt_mutex_base = Comp Struct False [
    Member ''wait_lock'' t_raw_spinlock_t,
    Member ''waiters'' struct_rb_root_cached,
    Member ''owner'' (Ptr ''struct task_struct *'')]"

definition struct_rt_mutex :: ctype where
  "struct_rt_mutex = Comp Struct False [
    Member ''rtmutex'' struct_rt_mutex_base]"

definition t_kthread_work_func_t :: ctype where
  "t_kthread_work_func_t = Ptr ''void (*)(struct kthread_work *)''"

definition struct_kthread_work :: ctype where
  "struct_kthread_work = Comp Struct False [
    Member ''node'' struct_list_head,
    Member ''func'' t_kthread_work_func_t,
    Member ''worker'' (Ptr ''struct kthread_worker *''),
    Member ''canceling'' c_int]"

definition struct_rcu_exp_work :: ctype where
  "struct_rcu_exp_work = Comp Struct False [
    Member ''rew_s'' c_unsigned_long,
    Member ''rew_work'' struct_kthread_work]"

definition struct_rcu_node :: ctype where
  "struct_rcu_node = Comp Struct False ([
    Member ''lock'' t_raw_spinlock_t,
    Member ''gp_seq'' c_unsigned_long,
    Member ''gp_seq_needed'' c_unsigned_long,
    Member ''completedqs'' c_unsigned_long,
    Member ''qsmask'' c_unsigned_long,
    Member ''rcu_gp_init_mask'' c_unsigned_long,
    Member ''qsmaskinit'' c_unsigned_long,
    Member ''qsmaskinitnext'' c_unsigned_long,
    Member ''expmask'' c_unsigned_long,
    Member ''expmaskinit'' c_unsigned_long,
    Member ''expmaskinitnext'' c_unsigned_long,
    Member ''exp_kworker'' (Ptr ''struct kthread_worker *''),
    Member ''cbovldmask'' c_unsigned_long,
    Member ''ffmask'' c_unsigned_long,
    Member ''grpmask'' c_unsigned_long,
    Member ''grplo'' c_int,
    Member ''grphi'' c_int,
    Member ''grpnum'' t_u8,
    Member ''level'' t_u8,
    Member ''wait_blkd_tasks'' t_bool,
    Member ''parent'' (Ptr ''struct rcu_node *''),
    Member ''blkd_tasks'' struct_list_head,
    Member ''gp_tasks'' (Ptr ''struct list_head *''),
    Member ''exp_tasks'' (Ptr ''struct list_head *''),
    Member ''boost_tasks'' (Ptr ''struct list_head *''),
    Member ''boost_mtx'' struct_rt_mutex,
    Member ''boost_time'' c_unsigned_long,
    Member ''kthread_mutex'' struct_mutex,
    Member ''boost_kthread_task'' (Ptr ''struct task_struct *''),
    Member ''boost_kthread_status'' c_unsigned_int,
    Member ''n_boosts'' c_unsigned_long,
    Member ''nocb_gp_wq'' (Array 2 struct_swait_queue_head),
    BitField '''' c_long 64,
    BitField '''' c_long 64,
    BitField '''' c_long 64,
    BitField '''' c_long 64,
    BitField '''' c_long 64,
    BitField '''' c_long 64,
    BitField '''' c_long 64,
    Member ''fqslock'' t_raw_spinlock_t] @ replicate 15 (BitField '''' c_long 64) @ [
    Member ''exp_lock'' t_spinlock_t,
    Member ''exp_seq_rq'' c_unsigned_long,
    Member ''exp_wq'' (Array 4 t_wait_queue_head_t),
    Member ''rew'' struct_rcu_exp_work,
    Member ''exp_need_flush'' t_bool,
    Member ''exp_poll_lock'' t_raw_spinlock_t,
    Member ''exp_seq_poll_rq'' c_unsigned_long,
    Member ''exp_poll_wq'' struct_work_struct,
    BitField '''' c_long 64,
    BitField '''' c_long 64,
    BitField '''' c_long 64,
    BitField '''' c_long 64,
    BitField '''' c_long 64,
    BitField '''' c_long 64])"

definition struct_sr_wait_node :: ctype where
  "struct_sr_wait_node = Comp Struct False [
    Member ''inuse'' t_atomic_t,
    Member ''node'' struct_llist_node]"

definition struct_rcu_state :: ctype where
  "struct_rcu_state = Comp Struct False ([
    Member ''node'' (Array 3 struct_rcu_node),
    Member ''level'' (Array 3 (Ptr ''struct rcu_node *'')),
    Member ''ncpus'' c_int,
    Member ''n_online_cpus'' c_int] @ replicate 12 (BitField '''' c_long 64) @ [
    Member ''gp_seq'' c_unsigned_long,
    Member ''gp_max'' c_unsigned_long,
    Member ''gp_kthread'' (Ptr ''struct task_struct *''),
    Member ''gp_wq'' struct_swait_queue_head,
    Member ''gp_flags'' c_short,
    Member ''gp_state'' c_short,
    Member ''gp_wake_time'' c_unsigned_long,
    Member ''gp_wake_seq'' c_unsigned_long,
    Member ''gp_seq_polled'' c_unsigned_long,
    Member ''gp_seq_polled_snap'' c_unsigned_long,
    Member ''gp_seq_polled_exp_snap'' c_unsigned_long,
    Member ''barrier_mutex'' struct_mutex,
    Member ''barrier_cpu_count'' t_atomic_t,
    Member ''barrier_completion'' struct_completion,
    Member ''barrier_sequence'' c_unsigned_long,
    Member ''barrier_lock'' t_raw_spinlock_t,
    Member ''exp_mutex'' struct_mutex,
    Member ''exp_wake_mutex'' struct_mutex,
    Member ''expedited_sequence'' c_unsigned_long,
    Member ''expedited_need_qs'' t_atomic_t,
    Member ''expedited_wq'' struct_swait_queue_head,
    Member ''ncpus_snap'' c_int,
    Member ''cbovld'' t_u8,
    Member ''cbovldnext'' t_u8,
    Member ''jiffies_force_qs'' c_unsigned_long,
    Member ''jiffies_kick_kthreads'' c_unsigned_long,
    Member ''n_force_qs'' c_unsigned_long,
    Member ''gp_start'' c_unsigned_long,
    Member ''gp_end'' c_unsigned_long,
    Member ''gp_activity'' c_unsigned_long,
    Member ''gp_req_activity'' c_unsigned_long,
    Member ''jiffies_stall'' c_unsigned_long,
    Member ''nr_fqs_jiffies_stall'' c_int,
    Member ''jiffies_resched'' c_unsigned_long,
    Member ''n_force_qs_gpstart'' c_unsigned_long,
    Member ''name'' (Ptr ''char *''),
    Member ''abbr'' c_char] @ replicate 14 (BitField '''' c_long 64) @ [
    Member ''ofl_lock'' t_arch_spinlock_t,
    Member ''srs_next'' struct_llist_head,
    Member ''srs_wait_tail'' (Ptr ''struct llist_node *''),
    Member ''srs_done_tail'' (Ptr ''struct llist_node *''),
    Member ''srs_wait_nodes'' (Array 5 struct_sr_wait_node),
    Member ''srs_cleanup_work'' struct_work_struct,
    Member ''srs_cleanups_pending'' t_atomic_t,
    Member ''nocb_mutex'' struct_mutex,
    Member ''nocb_is_setup'' c_int] @ replicate 8 (BitField '''' c_long 64))"

definition enum_sctp_ierror :: ctype where
  "enum_sctp_ierror = Enum False [
    (''SCTP_IERROR_NO_ERROR'', 0), (''SCTP_IERROR_BASE'', 1000),
    (''SCTP_IERROR_NO_COOKIE'', 1001), (''SCTP_IERROR_BAD_SIG'', 1002),
    (''SCTP_IERROR_STALE_COOKIE'', 1003), (''SCTP_IERROR_NOMEM'', 1004),
    (''SCTP_IERROR_MALFORMED'', 1005), (''SCTP_IERROR_BAD_TAG'', 1006),
    (''SCTP_IERROR_BIG_GAP'', 1007), (''SCTP_IERROR_DUP_TSN'', 1008),
    (''SCTP_IERROR_HIGH_TSN'', 1009), (''SCTP_IERROR_IGNORE_TSN'', 1010),
    (''SCTP_IERROR_NO_DATA'', 1011), (''SCTP_IERROR_BAD_STREAM'', 1012),
    (''SCTP_IERROR_BAD_PORTS'', 1013), (''SCTP_IERROR_AUTH_BAD_HMAC'', 1014),
    (''SCTP_IERROR_AUTH_BAD_KEYID'', 1015), (''SCTP_IERROR_PROTO_VIOLATION'', 1016),
    (''SCTP_IERROR_ERROR'', 1017), (''SCTP_IERROR_ABORT'', 1018)]"

definition struct_blk_mq_ctx :: ctype where
  "struct_blk_mq_ctx = Comp Struct False [
    Member '''' (Comp Struct False ([
      Member ''lock'' t_spinlock_t,
      Member ''rq_lists'' (Array 3 struct_list_head)] @ replicate 9 (BitField '''' c_long 64))),
    Member ''cpu'' c_unsigned_int,
    Member ''index_hw'' (Array 3 c_unsigned_short),
    Member ''hctxs'' (Array 3 (Ptr ''struct blk_mq_hw_ctx *'')),
    Member ''queue'' (Ptr ''struct request_queue *''),
    Member ''ctxs'' (Ptr ''struct blk_mq_ctxs *''),
    Member ''kobj'' struct_kobject,
    BitField '''' c_long 64]"

end
