(* ===== verification/Vmlinux_Core_Types.thy ===== *)
theory Vmlinux_Core_Types
  imports Vmlinux_Net_Types Vmlinux_Core
begin

text \<open>
  The structures and unions of the rest of the kernel as lists, and that the layout of each is well formed.
\<close>

text \<open>What the declarations of \<open>Vmlinux_Core\<close> contain from earlier theories.\<close>

lemmas core_contents =
  t___u8_def t___u16_def t___s32_def t___u64_def t___u32_def t_u32_def struct_load_weight_def
  t___s64_def t_s64_def t_u64_def struct_rb_root_def struct_rb_root_cached_def
  struct_sched_avg_def t_atomic_t_def t_u8_def t_u16_def struct_qspinlock_def
  t_arch_spinlock_t_def struct_raw_spinlock_def t_raw_spinlock_t_def struct_list_head_def
  t___kernel_sa_family_t_def struct___kernel_sockaddr_storage_def struct_refcount_struct_def
  t_refcount_t_def t_possible_net_t_def t_atomic64_t_def t_atomic_long_t_def
  struct_cacheline_padding_def t_bool_def t_rht_hashfn_t_def t_rht_obj_hashfn_t_def
  t_rht_obj_cmpfn_t_def struct_rhashtable_params_def t_work_func_t_def struct_work_struct_def
  struct_optimistic_spin_queue_def struct_mutex_def struct_spinlock_def t_spinlock_t_def
  struct_rhashtable_def struct_llist_node_def struct_hlist_head_def struct_hlist_node_def
  struct_timer_list_def struct_delayed_work_def struct_cpumask_def t___be32_def
  struct_in_addr_def t___be16_def struct_in6_addr_def union_nf_inet_addr_def
  struct_ipvs_sync_daemon_cfg_def struct_callback_head_def struct_llist_head_def t_local_t_def
  t_gfp_t_def struct_xarray_def struct_idr_def t_wait_queue_func_t_def
  struct_wait_queue_entry_def t_wait_queue_entry_t_def struct_kref_def struct_kobject_def
  struct_trace_entry_def t_s32_def enum_nl80211_iftype_def struct_wait_queue_head_def
  struct_percpu_counter_def struct_sockaddr_inet_def struct_sockaddr_in_def
  struct_sockaddr_in6_def t___kernel_ulong_t_def t___kernel_size_t_def t_size_t_def
  struct_rhash_head_def struct_rhlist_head_def t___kernel_uid32_t_def t_uid_t_def t_kuid_t_def
  t___be64_def struct_flowi_tunnel_def struct_flowi_common_def union_flowi_uli_def
  struct_flowi4_def struct_flowi6_def struct_flowi_def t_ktime_t_def struct_percpu_ref_def
  struct_rcu_work_def struct_cgroup_subsys_state_def struct_cgroup_file_def
  struct_task_cputime_def struct_cgroup_base_stat_def struct_prev_cputime_def
  t_wait_queue_head_t_def struct_cgroup_bpf_def struct_cgroup_freezer_state_def
  struct_cgroup_def t_sa_family_t_def t___addrpair_def t___portpair_def
  struct_hlist_nulls_node_def struct_sock_common_def struct_sk_buff_list_def
  struct_sk_buff_head_def t_socket_lock_t_def struct_page_frag_def t_netdev_features_t_def
  struct_qrwlock_def t_arch_rwlock_t_def t_rwlock_t_def struct_sock_cgroup_data_def
  t_netns_tracker_def struct_sock_def struct_sockaddr_vm_def struct_path_def t_int32_t_def
  t_key_serial_t_def struct_page_def t_mm_id_t_def struct_ns_common_def struct_rb_node_def
  struct___call_single_node_def struct_rcuwait_def struct_irq_work_def
  struct_swait_queue_head_def struct_timerqueue_node_def struct_hrtimer_def struct_seqcount_def
  t_seqcount_t_def t___kernel_dev_t_def t_dev_t_def t___kernel_loff_t_def t_loff_t_def
  struct_ida_def t_ino_t_def enum_nl80211_band_def enum_nl80211_hidden_ssid_def
  enum_nl80211_auth_type_def struct_completion_def

lemmas core_typedefs =
  t_cpumask_var_t_def t_swp_entry_t_def t_mm_id_mapcount_t_def t_kthread_work_func_t_def

lemmas core_comps =
  union_security_list_options_def struct_io_uring_sqe_def struct_lsm_static_call_def
  struct_lsm_static_calls_table_def struct_taskstats_def struct_cfs_rq_def struct_sctp_info_def
  struct_nft_set_def struct_page_counter_def struct_fqdir_def struct_netns_ipvs_def
  struct_pmu_def struct_workqueue_struct_def struct_vsock_transport_def
  struct_perf_event_mmap_page_def struct_free_area_def struct_zone_def struct_perf_buffer_def
  struct_task_delay_info_def struct_cgroup_subsys_def struct_irq_chip_def struct_sbitmap_def
  struct_blk_mq_hw_ctx_def struct_inode_operations_def
  struct_trace_event_raw_rdev_update_mesh_config_def struct_array_buffer_def
  struct_trace_array_def struct_trace_event_raw_drv_link_info_changed_def
  struct_trace_event_raw_rdev_join_mesh_def struct_io_uring_task_def
  struct_trace_event_raw_rdev_return_int_mesh_config_def union_sctp_addr_def
  struct_sctp_packet_def struct_sctp_transport_def
  struct_trace_event_raw_local_sdata_chanctx_def struct_cgroup_root_def struct_sctp_af_def
  struct_super_operations_def struct_vsock_sock_def struct_cpufreq_driver_def
  struct_trace_event_raw_ib_mad_send_template_def struct_trace_event_raw_station_add_change_def
  struct_cpuinfo_32bit_def struct_cpuinfo_arm64_def struct_ebt_entry_def
  struct_trace_event_raw_drv_change_chanctx_def struct_trace_event_raw_ovs_do_execute_action_def
  struct_btf_show_def struct_common_audit_data_def struct_dev_pm_ops_def struct_folio_def
  struct_mnt_namespace_def union_rcu_noqs_def struct_rcu_segcblist_def struct_rcu_cblist_def
  struct_rcu_snap_record_def struct_rcu_data_def struct_tick_sched_def
  struct_trace_event_raw_local_chanctx_def struct_trace_event_raw_nfs4_copy_def
  struct_trace_event_raw_ovs_dp_upcall_def struct_worker_pool_def
  struct_xt_conntrack_mtinfo3_def struct_css_set_def struct_kernel_clone_args_def
  struct_mem_size_stats_def struct_signalfd_siginfo_def
  struct_trace_event_raw_ext4_mballoc_alloc_def struct_trace_event_raw_rdev_start_ap_def
  struct_tracer_def struct_bus_type_def struct_nft_set_ops_def
  struct_trace_event_raw_nfsd_copy_async_done_class_def struct_rt_mutex_base_def
  struct_rt_mutex_def struct_kthread_work_def struct_rcu_exp_work_def struct_rcu_node_def
  struct_sr_wait_node_def struct_rcu_state_def struct_blk_mq_ctx_def

lemmas core_layouts = core_comps core_typedefs core_contents layout_eval

definition core_types_1 :: "ctype list" where
  "core_types_1 = [
    union_security_list_options, struct_io_uring_sqe, struct_lsm_static_call,
    struct_lsm_static_calls_table, struct_taskstats, struct_cfs_rq, struct_sctp_info,
    struct_nft_set, struct_page_counter, struct_fqdir, struct_netns_ipvs, struct_pmu,
    struct_workqueue_struct, struct_vsock_transport, struct_perf_event_mmap_page,
    struct_free_area, struct_zone, struct_perf_buffer, struct_task_delay_info,
    struct_cgroup_subsys, struct_irq_chip, struct_sbitmap, struct_blk_mq_hw_ctx,
    struct_inode_operations, struct_trace_event_raw_rdev_update_mesh_config,
    struct_array_buffer, struct_trace_array, struct_trace_event_raw_drv_link_info_changed,
    struct_trace_event_raw_rdev_join_mesh, struct_io_uring_task,
    struct_trace_event_raw_rdev_return_int_mesh_config, union_sctp_addr, struct_sctp_packet,
    struct_sctp_transport, struct_trace_event_raw_local_sdata_chanctx, struct_cgroup_root,
    struct_sctp_af, struct_super_operations, struct_vsock_sock, struct_cpufreq_driver,
    struct_trace_event_raw_ib_mad_send_template, struct_trace_event_raw_station_add_change,
    struct_cpuinfo_32bit, struct_cpuinfo_arm64, struct_ebt_entry,
    struct_trace_event_raw_drv_change_chanctx, struct_trace_event_raw_ovs_do_execute_action,
    struct_btf_show, struct_common_audit_data, struct_dev_pm_ops, struct_folio,
    struct_mnt_namespace, union_rcu_noqs, struct_rcu_segcblist, struct_rcu_cblist,
    struct_rcu_snap_record, struct_rcu_data, struct_tick_sched,
    struct_trace_event_raw_local_chanctx, struct_trace_event_raw_nfs4_copy,
    struct_trace_event_raw_ovs_dp_upcall, struct_worker_pool, struct_xt_conntrack_mtinfo3,
    struct_css_set, struct_kernel_clone_args, struct_mem_size_stats, struct_signalfd_siginfo,
    struct_trace_event_raw_ext4_mballoc_alloc, struct_trace_event_raw_rdev_start_ap,
    struct_tracer, struct_bus_type, struct_nft_set_ops,
    struct_trace_event_raw_nfsd_copy_async_done_class, struct_rt_mutex_base, struct_rt_mutex,
    struct_kthread_work, struct_rcu_exp_work, struct_rcu_node, struct_sr_wait_node,
    struct_rcu_state, struct_blk_mq_ctx]"

lemma core_types_1_ok: "list_all ctype_ok core_types_1"
  by (simp add: core_types_1_def core_layouts)

end
