(* ===== verification/Vmlinux_All.thy ===== *)
theory Vmlinux_All
  imports Vmlinux_Core_Types
begin

text \<open>
  All structures and unions of the \<^verbatim>\<open>Vmlinux\<close> theories, and what holds of the layout of each.
\<close>

definition kernel_types :: "ctype list" where
  "kernel_types = concat [
    base_types, hook_types, task_types, bpf_types_1, bpf_types_2, bpf_types_3, trace_types_1,
    trace_types_2, inet_types_1, inet_types_2, inet_types_3, inet_types_4, net_types_1,
    net_types_2, net_types_3, net_types_4, link_types_1, link_types_2, link_types_3,
    link_types_4, core_types_1]"

lemma kernel_types_ok: "list_all ctype_ok kernel_types"
  by (simp add: kernel_types_def
      base_types_ok hook_types_ok task_types_ok bpf_types_1_ok bpf_types_2_ok bpf_types_3_ok
      trace_types_1_ok trace_types_2_ok inet_types_1_ok inet_types_2_ok inet_types_3_ok
      inet_types_4_ok net_types_1_ok net_types_2_ok net_types_3_ok net_types_4_ok
      link_types_1_ok link_types_2_ok link_types_3_ok link_types_4_ok core_types_1_ok)

section \<open>Properties\<close>



end
