(* ===== verification/Spec2Isabelle.thy ===== *)
theory Spec2Isabelle
  imports Flow_System_Runs Flow_Text Netkit_System Netkit_Text Netkit_Killed Netkit_Messages Commands
    Counter_Text Loader Go_Bindings Tests Vmlinux_All
begin

text \<open>
  Verification library of the eBPF examples of the repository: five programs that run in
  the kernel and the user-space programs that load them and read what they send.

  \<^bold>\<open>The programs.\<close> \<^verbatim>\<open>examples/flow\<close> attaches a traffic-control classifier to an interface,
  which sends one 48-byte record per TCP SYN segment and per UDP datagram through a ring
  buffer; the probe in user space decodes the records, looks their flow hash up in a
  table and prints the time between the two packets of an exchange.
  \<^verbatim>\<open>examples/netkit-ipv6\<close> creates a pair of netkit devices, attaches one hook to each end
  and prints a line per IPv6 packet. \<^verbatim>\<open>examples/trace-kills\<close> traces SIGKILL,
  \<^verbatim>\<open>examples/ip-counter\<close> counts the packets of an interface.

  \<^bold>\<open>Foundations.\<close> \<open>Xcnf_Prelude\<close> has the machine words, the byte codecs, loads and stores, and
  queues that may refuse; \<open>Steps\<close> runs and reachable states of transition systems and the
  locale \<open>step_invariant\<close>, interpreted on the running systems of both larger examples;
  \<open>Bpf\<close> packet memory, the two facts behind every bounds check, and the locale \<open>bpf_hook\<close>
  (a program that never faults and passes all traffic), interpreted on \<open>flat\<close>,
  \<open>process_ipv6\<close>, \<open>kill_example\<close> and \<open>count_packets\<close>; \<open>Go_Runtime\<close> byte slices that panic
  out of range and the locales \<open>wire_format\<close> and \<open>faithful_wire_format\<close> between the writer
  and the reader of a record, interpreted on the 48-byte and the 37-byte record;
  \<open>Resources\<close> logs of acquired and released resources and the locales
  \<open>resource_program\<close> and \<open>closed_resource_program\<close>, interpreted on \<open>CreatePair\<close>, \<open>run\<close>,
  \<open>loader_main\<close> and \<open>counter_main\<close>; \<open>Flow_Table\<close> the locale \<open>flow_store\<close> between the
  latency calculation and its table.

  \<^bold>\<open>The flow example.\<close> \<open>Flat\<close> models \<^verbatim>\<open>bytecode/flat.c\<close> with one definition per branch of
  its two switches (\<open>flat_ipv4\<close>, \<open>flat_ipv6\<close>, \<open>flat_tcp\<close>, \<open>flat_udp\<close>); the record under
  construction is the 48 bytes of the C object, since the code writes past the end of its
  address members. \<open>Flat_Correct\<close> gives the specification over the frame (\<open>flat_spec\<close>) and
  the refinement. \<open>Flat_IR\<close> models the basic blocks of \<^verbatim>\<open>bytecode/flat.ll\<close> and validates
  the translation. \<open>Packet\<close> and \<open>Flow_Latency\<close> model \<^verbatim>\<open>packet/packet.go\<close>, \<open>Flow_Table\<close>
  models \<^verbatim>\<open>flowtable/flowtable.go\<close> and \<^verbatim>\<open>timer/timer.go\<close>, \<open>Probe\<close> models
  \<^verbatim>\<open>kprobe/kprobe.go\<close> and \<^verbatim>\<open>clsact/clsact.go\<close>. \<open>Flow_Pipeline\<close> connects them, from a list
  of frames to the reports printed for them, on a concrete kernel with a clock and an
  unbounded ring. \<open>Flow_Text\<close> has the printed line, from the format string down to the decimal
  digits: \<open>Go_Text\<close> models the formatting of numbers and addresses by the standard library,
  with readers that invert it, and \<open>Go_Float\<close> the conversions and operations on float64 as exact
  rationals rounded to 53 bits, ties to even. The latency column is the exact one to the nearest
  microsecond for the first 104 days after boot.

  \<^bold>\<open>The running flow example.\<close> \<open>Flow_System\<close> is the same program as a transition system: the
  classifier with a ring buffer that may refuse records, the three goroutines of \<^verbatim>\<open>Run\<close> (the
  reader, the loop, the pruner), and the table they share. Each call on the table is a step
  of its own: \<open>decide\<close> is \<^verbatim>\<open>CalcLatency\<close> after its lookup, \<open>loop_step\<close> and \<open>prune_step\<close> what
  comes before and after. \<open>Flow_System_Correct\<close> shows that records arrive in order, at most
  once and undamaged; \<open>Flow_System_Reports\<close> that every report has an opening packet in
  every interleaving with pruning passes; \<open>Flow_System_Runs\<close> that without pruning the system
  refines the sequential calculation, that a pass left alone is \<^verbatim>\<open>Prune\<close>, that the
  goroutines drain the ring within \<open>steps_left\<close> steps, and that a pass can delete a fresh
  entry, because looking and deleting are two calls.

  \<^bold>\<open>The netkit example.\<close> \<open>Netkit_Bpf\<close> models \<^verbatim>\<open>bytecode/netkit_ipv6.c\<close>, \<open>Netkit_Event\<close> the
  reader of its events in \<^verbatim>\<open>main.go\<close> and the path from the wire to the terminal,
  \<open>Netkit_Device\<close> the package \<^verbatim>\<open>netkit\<close> (options, the device pair, link-local addresses),
  \<open>Netkit_Main\<close> the function \<^verbatim>\<open>run\<close> with its deferred calls, \<open>Netkit_Killed\<close> what a process killed
  at any of its calls still holds. \<open>Netkit_Text\<close> has the text of the lines and shows that the
  output can be read back. \<open>Netkit_Messages\<close> has the texts of the wrapped errors and the list of
  the fourteen steps of a run, of which the message names the first that failed. \<open>Netkit_System\<close> is the program
  while it monitors: hooks on several processors that reserve a record and submit it later,
  the polling goroutine, signals, and the deferred calls one by one (the list \<open>deferred\<close>,
  which is what \<open>run\<close> releases). \<open>Commands\<close> has the \<^verbatim>\<open>main\<close> functions around \<open>run\<close> and of the
  flow example. \<open>Tests\<close> runs the Go tests of the netkit example, and the packet tests of the flow
  example, on the model.

  \<^bold>\<open>The small examples.\<close> \<open>Kill\<close> models \<^verbatim>\<open>kill.c\<close> and \<^verbatim>\<open>kill.ll\<close>, \<open>Loader\<close> models
  \<^verbatim>\<open>loader.c\<close>, whose last loop has no exit and so no value (\<open>sleep_forever\<close>). \<open>Counter\<close>
  models \<^verbatim>\<open>counter.c\<close> twice: as a function, and as a step relation of concurrent
  invocations with a reader, whose invariant gives the exact count and in which no
  invocation waits for another (\<open>work\<close> bounds the steps left); \<open>Counter_Main\<close> models
  \<^verbatim>\<open>ip-counter/main.go\<close>, in which a fatal log skips the deferred calls; \<open>Counter_Text\<close> has its
  log lines, and the numbers printed while packets are counted concurrently.

  \<^bold>\<open>Layouts.\<close> \<open>C_Layout\<close> has C declarations as a datatype with the layout of the ABI: bit
  fields, packed structures, unions, anonymous members. \<open>Vmlinux_Uapi\<close>, \<open>Vmlinux_Bpf\<close>,
  \<open>Vmlinux_Net\<close>, \<open>Vmlinux_Sock\<close>, \<open>Vmlinux_Hooks\<close>, \<open>Vmlinux_Task\<close>, \<open>Vmlinux_Bpf_More\<close>,
  \<open>Vmlinux_Trace\<close>, \<open>Vmlinux_Inet\<close>, \<open>Vmlinux_Net_More\<close>, \<open>Vmlinux_Link\<close> and
  \<open>Vmlinux_Core\<close> hold declarations of \<^verbatim>\<open>vmlinux.h\<close>, one definition per declaration, members in
  source order; runs of identical padding fields are written with \<open>replicate\<close>. \<open>Vmlinux_Types\<close>,
  \<open>Vmlinux_More_Types\<close>, \<open>Vmlinux_Net_Types\<close> and \<open>Vmlinux_Core_Types\<close> show that they are well
  formed, \<open>Vmlinux_All\<close> that members never overlap.
  \<open>Layouts\<close> proves that the offsets and images used in the program models are the
  ones these declarations prescribe. \<open>Maps\<close> has the map definitions, sections and licences of
  the object files and the globals of the LLVM code, and shows that they are well typed and
  agree. \<open>Go_Bindings\<close> has the Go files generated from them: the names they bind, compared with
  the C sources and with the fields the programs select, and the functions that load and close.

  \<^bold>\<open>Modelling decisions.\<close> Words keep their width and wrap around. \<open>None\<close> stands for an
  invalid access of a kernel program or a panic of a Go program; Go errors are sums.
  Kernel helpers and the libraries (netlink, ebpf, libbpf, unix, the random source) are
  parameters, as records of functions, and no theorem assumes anything of them except
  \<open>core_read_ok\<close>, that a probe read inside the packet returns its bytes, which
  \<open>list_helpers\<close> satisfies, and where a theorem says so that the set-up calls succeed. Time and scheduling enter as lists of events or as a step
  relation. A frame is at most 65535 bytes where a context is built from it. There is no
  fuel: every loop is structural, except the one that does not end. The transition systems
  bound nothing: queues, tables and runs are of any length, a full ring buffer is a
  predicate on its contents, and the order in which \<^verbatim>\<open>Range\<close> visits keys and the clock
  sample of a pass are part of the event that starts it.

  \<^bold>\<open>Not modelled.\<close> The deployment files; the embedded object files, which are not text; of the
  tests those that only load an object file; in the command of the flow example
  \<^verbatim>\<open>signalHandler\<close>, which does not compile; the colours of the printed lines, and the lines in which
  the netkit program reports its progress; quoted names are escaped as ASCII; the declarations of
  \<^verbatim>\<open>vmlinux.h\<close> that have nothing to do with the programs, their packets and the kernel around
  them, which are most of it (drivers, file systems, buses, wireless), and those with
  floating-point members; big-endian targets.
\<close>

end
